(* ===== verification/Prelude.thy ===== *)
theory Prelude
  imports Main "HOL-Library.Word" "HOL-Library.Product_Lexorder" "HOL-Library.List_Lexorder"
begin

text \<open>
  Shared vocabulary of the development.

  Rust's unsigned integers \<open>u8 \<dots> u128\<close> are words of that width; \<open>usize\<close> is \<open>nat\<close>, with the
  64-bit bound written out where the code saturates or checks. A byte slice is a list of bytes,
  \<open>data.get(a..b)\<close> is \<open>get_range\<close>, \<open>data.get(i)\<close> is \<open>get_at\<close>, and a
  32-byte \<open>Pubkey\<close> is a byte list whose order is the lexicographic one of \<open>[u8; 32]\<close>.
  The little-endian readers and writers are here with their round trip, as are the facts on
  sorted key lists and on inclusive index ranges that several components use.
\<close>

named_theorems store_simps "what the stores' operations do to lookups, keys and weights"
named_theorems wire_simps "evaluation of byte-level readers"

type_synonym u8 = "8 word"
type_synonym u16 = "16 word"
type_synonym u32 = "32 word"
type_synonym u64 = "64 word"
type_synonym u128 = "128 word"
type_synonym bytes = "u8 list"
type_synonym pubkey = bytes
type_synonym signature = bytes

abbreviation usize_max :: nat where "usize_max \<equiv> 2 ^ 64 - 1"

abbreviation default_pubkey :: pubkey where "default_pubkey \<equiv> replicate 32 0"

abbreviation default_signature :: signature where "default_signature \<equiv> replicate 64 0"

section \<open>Checked and saturating arithmetic\<close>

definition sat_add :: "nat \<Rightarrow> nat \<Rightarrow> nat" where
  "sat_add a b = min usize_max (a + b)"

definition usize_checked_add :: "nat \<Rightarrow> nat \<Rightarrow> nat option" where
  "usize_checked_add a b = (if a + b \<le> usize_max then Some (a + b) else None)"

definition usize_checked_mul :: "nat \<Rightarrow> nat \<Rightarrow> nat option" where
  "usize_checked_mul a b = (if a * b \<le> usize_max then Some (a * b) else None)"

definition usize_checked_sub :: "nat \<Rightarrow> nat \<Rightarrow> nat option" where
  "usize_checked_sub a b = (if b \<le> a then Some (a - b) else None)"

definition checked_add :: "'a::len word \<Rightarrow> 'a word \<Rightarrow> 'a word option" where
  "checked_add a b = (if unat a + unat b < 2 ^ LENGTH('a) then Some (a + b) else None)"

definition checked_sub :: "'a::len word \<Rightarrow> 'a word \<Rightarrow> 'a word option" where
  "checked_sub a b = (if b \<le> a then Some (a - b) else None)"

definition saturating_succ :: "'a::len word \<Rightarrow> 'a word" where
  "saturating_succ a = (if a = - 1 then a else a + 1)"

lemma sat_add_eq [simp]: "a + b \<le> usize_max \<Longrightarrow> sat_add a b = a + b"
  by (simp add: sat_add_def)

lemma checked_add_Some: "checked_add a b = Some c \<Longrightarrow> unat c = unat a + unat b"
  by (auto simp: checked_add_def unat_word_ariths split: if_splits)

lemma checked_sub_Some: "checked_sub a b = Some c \<Longrightarrow> unat c = unat a - unat b \<and> b \<le> a"
  by (auto simp: checked_sub_def unat_sub split: if_splits)

lemma not_max_word_unat: "(a :: 'a::len word) \<noteq> - 1 \<longleftrightarrow> unat a + 1 < 2 ^ LENGTH('a)"
proof -
  have m: "unat (- 1 :: 'a word) = 2 ^ LENGTH('a) - 1"
    by (simp add: unsigned_minus_1_eq_mask mask_eq_exp_minus_1)
  have "a = - 1 \<longleftrightarrow> unat a = 2 ^ LENGTH('a) - 1"
    by (metis m word_unat_eq_iff)
  moreover have "unat a < 2 ^ LENGTH('a)" by (rule unsigned_less)
  ultimately show ?thesis by linarith
qed

lemma unat_succ: "(a :: 'a::len word) \<noteq> - 1 \<Longrightarrow> unat (a + 1) = Suc (unat a)"
proof -
  assume "a \<noteq> - 1"
  then have "unat a + 1 < 2 ^ LENGTH('a)" by (simp add: not_max_word_unat)
  moreover have "2 \<le> (2::nat) ^ LENGTH('a)"
    using len_gt_0 [where 'a='a] by (metis One_nat_def Suc_leI one_le_numeral power_increasing power_one_right)
  ultimately show ?thesis by (simp add: unat_word_ariths)
qed

lemma less_succ_iff: "(a :: 'a::len word) \<noteq> - 1 \<Longrightarrow> b < a + 1 \<longleftrightarrow> b \<le> a"
  by (auto simp: word_less_nat_alt word_le_nat_alt unat_succ)

lemma succ_le_iff: "(a :: 'a::len word) \<noteq> - 1 \<Longrightarrow> a + 1 \<le> b \<longleftrightarrow> a < b"
  by (auto simp: word_less_nat_alt word_le_nat_alt unat_succ)

section \<open>Inclusive index ranges\<close>

definition index_range :: "'a::len word \<Rightarrow> 'a word \<Rightarrow> 'a word list" where
  "index_range a b = map word_of_nat [unat a ..< Suc (unat b)]"

lemma set_index_range [simp]: "set (index_range a b) = {a .. b}"
proof -
  have "i \<in> {a .. b} \<longleftrightarrow> (\<exists>k \<in> {unat a ..< Suc (unat b)}. i = word_of_nat k)" for i
  proof
    assume "i \<in> {a .. b}"
    then have "unat i \<in> {unat a ..< Suc (unat b)}" by (auto simp: word_le_nat_alt)
    moreover have "i = word_of_nat (unat i)" by simp
    ultimately show "\<exists>k \<in> {unat a ..< Suc (unat b)}. i = word_of_nat k" by blast
  next
    assume "\<exists>k \<in> {unat a ..< Suc (unat b)}. i = word_of_nat k"
    then obtain k where k: "unat a \<le> k" "k \<le> unat b" "i = word_of_nat k" by auto
    moreover have "unat b < 2 ^ LENGTH('a)" by (rule unsigned_less)
    ultimately have "k < 2 ^ LENGTH('a)" by linarith
    then have "unat i = k" using k by (simp add: unat_of_nat take_bit_nat_eq_self)
    with k show "i \<in> {a .. b}" by (auto simp: word_le_nat_alt)
  qed
  then have "{a .. b} = word_of_nat ` {unat a ..< Suc (unat b)}" by (simp add: set_eq_iff image_iff Bex_def)
  then show ?thesis by (simp add: index_range_def del: upt_Suc)
qed

lemma index_range_single [simp]: "index_range a a = [a]"
  by (simp add: index_range_def)

section \<open>Byte slices\<close>

definition get_range :: "nat \<Rightarrow> nat \<Rightarrow> 'a list \<Rightarrow> 'a list option" where
  "get_range a b xs = (if a \<le> b \<and> b \<le> length xs then Some (take (b - a) (drop a xs)) else None)"

definition get_at :: "nat \<Rightarrow> 'a list \<Rightarrow> 'a option" where
  "get_at i xs = (if i < length xs then Some (xs ! i) else None)"

lemma get_range_Some: "get_range a b xs = Some ys \<Longrightarrow> length ys = b - a \<and> b \<le> length xs \<and> a \<le> b"
  by (auto simp: get_range_def split: if_splits)

lemma get_at_Some: "get_at i xs = Some y \<Longrightarrow> i < length xs \<and> y = xs ! i"
  by (auto simp: get_at_def split: if_splits)

primrec le_nat :: "bytes \<Rightarrow> nat" where
  "le_nat [] = 0"
| "le_nat (b # bs) = unat b + 256 * le_nat bs"

primrec le_bytes :: "nat \<Rightarrow> nat \<Rightarrow> bytes" where
  "le_bytes 0 x = []"
| "le_bytes (Suc k) x = word_of_nat (x mod 256) # le_bytes k (x div 256)"

lemma length_le_bytes [simp]: "length (le_bytes k x) = k"
  by (induction k arbitrary: x) auto

lemma byte_bound: "unat (b :: u8) < 256"
  using unsigned_less [where w = b and 'a = nat] by simp

lemma le_nat_bound: "le_nat bs < 256 ^ length bs"
proof (induction bs)
  case (Cons b bs)
  have "unat b < 256" by (rule byte_bound)
  with Cons show ?case by simp
qed simp

lemma le_nat_le_bytes: "le_nat (le_bytes k x) = x mod 256 ^ k"
proof (induction k arbitrary: x)
  case (Suc k)
  have "unat (word_of_nat (x mod 256) :: u8) = x mod 256"
    by (simp add: unat_of_nat take_bit_nat_eq_self)
  with Suc show ?case by (simp add: mod_mult2_eq)
qed simp

lemma le_bytes_le_nat: "le_bytes (length bs) (le_nat bs) = bs"
proof (induction bs)
  case (Cons b bs)
  have "unat b < 256" by (rule byte_bound)
  with Cons show ?case by simp
qed simp

lemma take_le_bytes_append [simp]: "take k (le_bytes k x @ ys) = le_bytes k x"
  by simp

definition read_le :: "nat \<Rightarrow> bytes \<Rightarrow> nat \<Rightarrow> nat option" where
  "read_le w data offset = map_option le_nat (get_range offset (offset + w) data)"

lemma read_le_bound: "read_le w data offset = Some n \<Longrightarrow> n < 256 ^ w"
  by (auto simp: read_le_def dest!: get_range_Some) (metis diff_add_inverse le_nat_bound)

lemma read_le_None [simp]: "length data < offset + w \<Longrightarrow> read_le w data offset = None"
  by (simp add: read_le_def get_range_def)

lemma read_le_write:
  "read_le w (pre @ le_bytes w x @ post) (length pre) = Some (x mod 256 ^ w)"
  by (simp add: read_le_def get_range_def le_nat_le_bytes)

lemmas byte_defs [wire_simps] = get_range_def get_at_def read_le_def

end
