(* ===== verification/Ordered_Map.thy ===== *)
theory Ordered_Map
  imports Prelude "HOL-Library.AList"
begin

text \<open>
  The keyed containers of the standard library that the decoder uses. A \<open>BTreeMap\<close> is a list of
  entries with strictly increasing keys, so that iteration is in key order; a
  \<open>HashMap\<close> is an association list with distinct keys, iterated in insertion order (one of
  the orders the library may choose). The locale \<open>keyed_store\<close> states what the clients rely
  on: lookups after each operation, the representation invariant, and how the total weight of the
  stored values changes; both containers are interpreted in it.
\<close>

section \<open>The interface\<close>

locale keyed_store =
  fixes invar :: "'m \<Rightarrow> bool"
    and lookup :: "'m \<Rightarrow> 'k \<Rightarrow> 'v option"
    and put :: "'k \<Rightarrow> 'v \<Rightarrow> 'm \<Rightarrow> 'm"
    and del :: "'k \<Rightarrow> 'm \<Rightarrow> 'm"
    and weight :: "('v \<Rightarrow> nat) \<Rightarrow> 'm \<Rightarrow> nat"
  assumes lookup_put: "invar m \<Longrightarrow> lookup (put k v m) j = (if j = k then Some v else lookup m j)"
    and lookup_del: "invar m \<Longrightarrow> lookup (del k m) j = (if j = k then None else lookup m j)"
    and invar_put: "invar m \<Longrightarrow> invar (put k v m)"
    and invar_del: "invar m \<Longrightarrow> invar (del k m)"
    and weight_put: "invar m \<Longrightarrow>
      weight w (put k v m) + (case lookup m k of None \<Rightarrow> 0 | Some u \<Rightarrow> w u) = weight w m + w v"
    and weight_del: "invar m \<Longrightarrow>
      weight w (del k m) + (case lookup m k of None \<Rightarrow> 0 | Some u \<Rightarrow> w u) = weight w m"
begin

lemma weight_put_fresh: "invar m \<Longrightarrow> lookup m k = None \<Longrightarrow> weight w (put k v m) = weight w m + w v"
  using weight_put [of m w k v] by simp

lemma weight_put_same: "invar m \<Longrightarrow> lookup m k = Some u \<Longrightarrow> w v = w u \<Longrightarrow> weight w (put k v m) = weight w m"
  using weight_put [of m w k v] by simp

lemma weight_put_over: "invar m \<Longrightarrow> lookup m k = Some u \<Longrightarrow> weight w (put k v m) = weight w m - w u + w v"
  using weight_put [of m w k v] weight_del [of m w k] by simp

lemma weight_del_absent: "invar m \<Longrightarrow> lookup m k = None \<Longrightarrow> weight w (del k m) = weight w m"
  using weight_del [of m w k] by simp

lemma weight_del_present: "invar m \<Longrightarrow> lookup m k = Some u \<Longrightarrow> weight w (del k m) = weight w m - w u"
  using weight_del [of m w k] by simp

lemma weight_lookup_le: "invar m \<Longrightarrow> lookup m k = Some u \<Longrightarrow> w u \<le> weight w m"
  using weight_del [of m w k] by simp

lemma del_put_lookup: "invar m \<Longrightarrow> lookup (del k (put k v m)) j = lookup (del k m) j"
  by (simp add: lookup_put lookup_del invar_put)

end

section \<open>Sorted entries: the B-tree map\<close>

type_synonym ('k, 'v) btree = "('k \<times> 'v) list"

definition bt_ok :: "('k::linorder, 'v) btree \<Rightarrow> bool" where
  "bt_ok m = sorted_wrt (<) (map fst m)"

fun bt_insert :: "'k::linorder \<Rightarrow> 'v \<Rightarrow> ('k, 'v) btree \<Rightarrow> ('k, 'v) btree" where
  "bt_insert k v [] = [(k, v)]"
| "bt_insert k v ((j, u) # m) =
     (if k < j then (k, v) # (j, u) # m
      else if k = j then (k, v) # m
      else (j, u) # bt_insert k v m)"

definition bt_remove :: "'k \<Rightarrow> ('k, 'v) btree \<Rightarrow> ('k, 'v) btree" where
  "bt_remove k m = filter (\<lambda>e. fst e \<noteq> k) m"

definition bt_retain :: "('k \<Rightarrow> 'v \<Rightarrow> bool) \<Rightarrow> ('k, 'v) btree \<Rightarrow> ('k, 'v) btree" where
  "bt_retain P m = filter (\<lambda>e. P (fst e) (snd e)) m"

definition bt_split_off :: "'k::linorder \<Rightarrow> ('k, 'v) btree \<Rightarrow> ('k, 'v) btree" where
  "bt_split_off k m = filter (\<lambda>e. k \<le> fst e) m"

definition weight_of :: "('v \<Rightarrow> nat) \<Rightarrow> ('k \<times> 'v) list \<Rightarrow> nat" where
  "weight_of w m = sum_list (map (\<lambda>e. w (snd e)) m)"

lemma weight_of_Nil [simp]: "weight_of w [] = 0"
  by (simp add: weight_of_def)

lemma weight_of_Cons [simp]: "weight_of w ((k, v) # m) = w v + weight_of w m"
  by (simp add: weight_of_def)

lemma weight_of_append [simp]: "weight_of w (m @ n) = weight_of w m + weight_of w n"
  by (simp add: weight_of_def)

lemma weight_of_one: "weight_of (\<lambda>_. Suc 0) m = length m"
  by (induction m) (auto simp: weight_of_def)

lemma bt_ok_Nil [simp]: "bt_ok []"
  by (simp add: bt_ok_def)

lemma bt_ok_Cons: "bt_ok ((k, v) # m) \<longleftrightarrow> (\<forall>e \<in> set m. k < fst e) \<and> bt_ok m"
  by (auto simp: bt_ok_def)

lemma bt_ok_distinct: "bt_ok m \<Longrightarrow> distinct (map fst m)"
  by (simp add: bt_ok_def strict_sorted_iff)

lemma bt_ok_filter [simp]: "bt_ok m \<Longrightarrow> bt_ok (filter P m)"
  by (induction m) (auto simp: bt_ok_def)

lemma set_bt_insert_keys: "set (map fst (bt_insert k v m)) = insert k (set (map fst m))"
  by (induction k v m rule: bt_insert.induct) auto

lemma bt_ok_insert: "bt_ok m \<Longrightarrow> bt_ok (bt_insert k v m)"
proof (induction k v m rule: bt_insert.induct)
  case (2 k v j u m)
  have keys: "(\<forall>e \<in> set n. i < fst e) \<longleftrightarrow> (\<forall>a \<in> set (map fst n). i < a)" for i and n :: "('a, 'b) btree"
    by simp
  have tail: "\<forall>a \<in> set (map fst m). j < a" "bt_ok m" using 2(2) by (auto simp: bt_ok_Cons)
  then have head: "k < j \<Longrightarrow> \<forall>a \<in> set (map fst m). k < a" by (meson order_less_trans)
  show ?case
    using tail head 2(1) by (auto simp: bt_ok_Cons keys set_bt_insert_keys simp del: set_map)
qed (simp add: bt_ok_def)

lemma map_of_bt_insert: "bt_ok m \<Longrightarrow> map_of (bt_insert k v m) j = (if j = k then Some v else map_of m j)"
  by (induction k v m rule: bt_insert.induct) (auto simp: bt_ok_Cons)

lemma map_of_filter_key: "map_of (filter (\<lambda>e. P (fst e)) m) j = (if P j then map_of m j else None)"
  by (induction m) auto

lemma map_of_filter_entry:
  "distinct (map fst m) \<Longrightarrow> map_of (filter (\<lambda>e. P (fst e) (snd e)) m) j =
     (case map_of m j of None \<Rightarrow> None | Some v \<Rightarrow> if P j v then Some v else None)"
proof (induction m)
  case (Cons e m)
  have none: "map_of m (fst e) = None" using Cons.prems by (simp add: map_of_eq_None_iff)
  with Cons have "map_of (filter (\<lambda>e. P (fst e) (snd e)) m) (fst e) = None"
    by (auto simp: map_of_eq_None_iff)
  with none Cons show ?case by (cases e) auto
qed simp

lemma weight_bt_insert: "bt_ok m \<Longrightarrow>
   weight_of w (bt_insert k v m) + (case map_of m k of None \<Rightarrow> 0 | Some u \<Rightarrow> w u) = weight_of w m + w v"
proof (induction k v m rule: bt_insert.induct)
  case (2 k v j u m)
  have "k < j \<Longrightarrow> map_of m k = None"
    using 2(2) by (force simp: bt_ok_Cons map_of_eq_None_iff)
  with 2 show ?case by (auto simp: bt_ok_Cons)
qed simp

lemma filter_other_keys: "k \<notin> fst ` set m \<Longrightarrow> filter (\<lambda>e. fst e \<noteq> k) m = m"
  by (auto simp: filter_id_conv)

lemma weight_filter_key: "distinct (map fst m) \<Longrightarrow>
   weight_of w (filter (\<lambda>e. fst e \<noteq> k) m) + (case map_of m k of None \<Rightarrow> 0 | Some u \<Rightarrow> w u) = weight_of w m"
proof (induction m)
  case (Cons e m)
  obtain j u where e: "e = (j, u)" by (cases e)
  show ?case
  proof (cases "j = k")
    case True
    with Cons.prems e have "filter (\<lambda>e. fst e \<noteq> k) m = m" by (intro filter_other_keys) auto
    with True e show ?thesis by simp
  next
    case False
    with Cons e show ?thesis by simp
  qed
qed simp

lemma weight_filter_split: "weight_of w (filter P m) + weight_of w (filter (\<lambda>e. \<not> P e) m) = weight_of w m"
  by (induction m) (auto simp: weight_of_def)

interpretation bt: keyed_store bt_ok map_of bt_insert bt_remove weight_of
proof
  fix m :: "('a::linorder \<times> 'b) list" and k j v and w :: "'b \<Rightarrow> nat"
  assume ok: "bt_ok m"
  show "map_of (bt_insert k v m) j = (if j = k then Some v else map_of m j)"
    by (rule map_of_bt_insert [OF ok])
  show "map_of (bt_remove k m) j = (if j = k then None else map_of m j)"
    by (auto simp: bt_remove_def map_of_filter_key [where P = "\<lambda>i. i \<noteq> k"])
  show "bt_ok (bt_insert k v m)" by (rule bt_ok_insert [OF ok])
  show "bt_ok (bt_remove k m)" using ok by (simp add: bt_remove_def)
  show "weight_of w (bt_insert k v m) + (case map_of m k of None \<Rightarrow> 0 | Some u \<Rightarrow> w u) = weight_of w m + w v"
    by (rule weight_bt_insert [OF ok])
  show "weight_of w (bt_remove k m) + (case map_of m k of None \<Rightarrow> 0 | Some u \<Rightarrow> w u) = weight_of w m"
    unfolding bt_remove_def by (rule weight_filter_key [OF bt_ok_distinct [OF ok]])
qed

lemma map_of_bt_split_off: "map_of (bt_split_off k m) j = (if k \<le> j then map_of m j else None)"
  by (simp add: bt_split_off_def map_of_filter_key)

lemma map_of_bt_retain: "bt_ok m \<Longrightarrow> map_of (bt_retain P m) j =
    (case map_of m j of None \<Rightarrow> None | Some v \<Rightarrow> if P j v then Some v else None)"
  by (simp add: bt_retain_def map_of_filter_entry bt_ok_distinct)

lemma bt_ok_retain [simp]: "bt_ok m \<Longrightarrow> bt_ok (bt_retain P m)"
  by (simp add: bt_retain_def)

lemma bt_ok_split_off [simp]: "bt_ok m \<Longrightarrow> bt_ok (bt_split_off k m)"
  by (simp add: bt_split_off_def)

lemmas bt_lookups [store_simps] =
  bt.lookup_put bt.lookup_del map_of_bt_split_off map_of_bt_retain

lemmas bt_invars [intro, simp] = bt.invar_put bt.invar_del

section \<open>Hash maps\<close>

interpretation hm: keyed_store "\<lambda>m. distinct (map fst m)" map_of AList.update AList.delete weight_of
proof
  fix m :: "('a \<times> 'b) list" and k j v and w :: "'b \<Rightarrow> nat"
  assume ok: "distinct (map fst m)"
  show "map_of (AList.update k v m) j = (if j = k then Some v else map_of m j)"
    by (simp add: update_conv')
  show "map_of (AList.delete k m) j = (if j = k then None else map_of m j)"
    by (simp add: delete_conv')
  show "distinct (map fst (AList.update k v m))" using ok by (rule distinct_update)
  show "distinct (map fst (AList.delete k m))" using ok by (rule distinct_delete)
  show "weight_of w (AList.update k v m) + (case map_of m k of None \<Rightarrow> 0 | Some u \<Rightarrow> w u) = weight_of w m + w v"
    by (induction m) auto
  show "weight_of w (AList.delete k m) + (case map_of m k of None \<Rightarrow> 0 | Some u \<Rightarrow> w u) = weight_of w m"
    using weight_filter_key [OF ok, of w k] by (simp add: AList.delete_eq case_prod_unfold eq_commute [of k])
qed

end
