(* ===== verification/Shred_Wire.thy ===== *)
theory Shred_Wire
  imports Prelude
begin

text \<open>
  The wire layout the reassembler reads by itself (\<open>src/shred/reassembler.rs\<close>): the size constants,
  the Merkle variant nibble, the erasure-shard length it implies, the coding header and the data
  size field. What the Agave library parses (\<open>solana_ledger::shred::Shred\<close>) is not
  under the repository: a parsed shred is the record of what its accessors return, and the
  functions that make one are fields of \<open>ledger\<close>, an argument of every definition that
  calls them.
\<close>

unbundle bit_operations_syntax

section \<open>Layout constants\<close>

definition MERKLE_SHRED_SERIALIZED_LEN :: nat where "MERKLE_SHRED_SERIALIZED_LEN = 1203"
definition CODE_SHRED_SERIALIZED_LEN :: nat where "CODE_SHRED_SERIALIZED_LEN = 1228"
definition SHRED_VARIANT_OFFSET :: nat where "SHRED_VARIANT_OFFSET = 64"
definition CODING_HEADER_OFFSET :: nat where "CODING_HEADER_OFFSET = 83"
definition DATA_SIZE_OFFSET :: nat where "DATA_SIZE_OFFSET = 86"
definition SHRED_DATA_HEADER_LEN :: nat where "SHRED_DATA_HEADER_LEN = 88"
definition SHRED_CODE_HEADER_LEN :: nat where "SHRED_CODE_HEADER_LEN = 89"
definition MERKLE_ROOT_LEN :: nat where "MERKLE_ROOT_LEN = 32"
definition MERKLE_PROOF_ENTRY_LEN :: nat where "MERKLE_PROOF_ENTRY_LEN = 20"
definition RETRANSMITTER_SIGNATURE_LEN :: nat where "RETRANSMITTER_SIGNATURE_LEN = 64"
definition RS_CACHE_CAPACITY :: nat where "RS_CACHE_CAPACITY = 32"
definition MAX_SHREDS_PER_FEC_SET :: nat where "MAX_SHREDS_PER_FEC_SET = 256"
definition MAX_BUFFERED_SHREDS :: nat where "MAX_BUFFERED_SHREDS = 65536"

text \<open>The two domain-separation prefixes: a tag byte, then the ASCII label.\<close>

definition MERKLE_HASH_PREFIX_LEAF :: bytes where
  "MERKLE_HASH_PREFIX_LEAF =
     [0, 83, 79, 76, 65, 78, 65, 95, 77, 69, 82, 75, 76, 69, 95, 83, 72, 82, 69, 68, 83, 95,
      76, 69, 65, 70]"

definition MERKLE_HASH_PREFIX_NODE :: bytes where
  "MERKLE_HASH_PREFIX_NODE =
     [1, 83, 79, 76, 65, 78, 65, 95, 77, 69, 82, 75, 76, 69, 95, 83, 72, 82, 69, 68, 83, 95,
      78, 79, 68, 69]"

lemmas layout_consts [wire_simps] =
  MERKLE_SHRED_SERIALIZED_LEN_def CODE_SHRED_SERIALIZED_LEN_def SHRED_VARIANT_OFFSET_def
  CODING_HEADER_OFFSET_def DATA_SIZE_OFFSET_def SHRED_DATA_HEADER_LEN_def
  SHRED_CODE_HEADER_LEN_def MERKLE_ROOT_LEN_def MERKLE_PROOF_ENTRY_LEN_def
  RETRANSMITTER_SIGNATURE_LEN_def MAX_SHREDS_PER_FEC_SET_def

section \<open>What the ledger library returns\<close>

type_synonym hash = bytes

text \<open>A \<open>ShredId\<close>: slot, index and whether it is a coding shred.\<close>

type_synonym shred_id = "u64 \<times> u32 \<times> bool"

record shred =
  sh_id :: shred_id
  sh_slot :: u64
  sh_index :: u32
  sh_fec_set_index :: u32
  sh_version :: u16
  sh_is_code :: bool
  sh_data_complete :: bool
  sh_last_in_slot :: bool
  sh_signature :: signature
  sh_payload :: bytes
  sh_merkle_root :: "hash option"

text \<open>An \<open>Entry\<close> of the ledger: the reassembler reads only its transactions.\<close>

record 'tx entry =
  num_hashes :: u64
  entry_hash :: hash
  transactions :: "'tx list"

text \<open>
  The library functions the decoder calls: \<open>Shred::new_from_serialized_shred\<close>, the two layout
  readers, \<open>Shredder::deshred\<close>, the wincode entry decoder, \<open>hashv\<close>, the Reed-Solomon coder
  (\<open>new\<close>, \<open>reconstruct\<close>) and the LRU cache (\<open>new\<close>, \<open>get\<close>, \<open>put\<close>; \<open>get\<close> also
  returns the cache, whose recency order it changes).
\<close>

record ('tx, 'rs, 'c) ledger =
  new_from_serialized_shred :: "bytes \<Rightarrow> string + shred"
  layout_index :: "bytes \<Rightarrow> u32 option"
  layout_slot :: "bytes \<Rightarrow> u64 option"
  deshred :: "bytes list \<Rightarrow> bytes option"
  deserialize_entries :: "bytes \<Rightarrow> 'tx entry list option"
  hashv :: "bytes list \<Rightarrow> hash"
  rs_new :: "nat \<Rightarrow> nat \<Rightarrow> 'rs option"
  rs_reconstruct :: "'rs \<Rightarrow> bytes option list \<Rightarrow> bytes option list option"
  lru_new :: "nat \<Rightarrow> 'c"
  lru_get :: "'c \<Rightarrow> nat \<times> nat \<Rightarrow> 'rs option \<times> 'c"
  lru_put :: "'c \<Rightarrow> nat \<times> nat \<Rightarrow> 'rs \<Rightarrow> 'c"

section \<open>The Merkle variant byte\<close>

record merkle_variant =
  mv_code :: bool
  mv_proof_size :: u8
  mv_chained :: bool
  mv_resigned :: bool

definition as_data :: "merkle_variant \<Rightarrow> merkle_variant" where
  "as_data v = v\<lparr>mv_code := False\<rparr>"

definition erasure_shard_len :: "merkle_variant \<Rightarrow> nat option" where
  "erasure_shard_len v =
     usize_checked_sub CODE_SHRED_SERIALIZED_LEN
       (SHRED_CODE_HEADER_LEN
        + of_bool (mv_chained v) * MERKLE_ROOT_LEN
        + unat (mv_proof_size v) * MERKLE_PROOF_ENTRY_LEN
        + of_bool (mv_resigned v) * RETRANSMITTER_SIGNATURE_LEN)"

definition variant_flags :: "u8 \<Rightarrow> (bool \<times> bool \<times> bool) option" where
  "variant_flags t =
     (if t = 0x40 then Some (True, False, False)
      else if t = 0x60 then Some (True, True, False)
      else if t = 0x70 then Some (True, True, True)
      else if t = 0x80 then Some (False, False, False)
      else if t = 0x90 then Some (False, True, False)
      else if t = 0xb0 then Some (False, True, True)
      else None)"

definition merkle_variant_of :: "bytes \<Rightarrow> merkle_variant option" where
  "merkle_variant_of payload =
     (case get_at SHRED_VARIANT_OFFSET payload of
        None \<Rightarrow> None
      | Some variant \<Rightarrow>
          (case variant_flags (variant AND 0xf0) of
             None \<Rightarrow> None
           | Some (code, chained, resigned) \<Rightarrow>
               Some \<lparr>mv_code = code, mv_proof_size = variant AND 0x0f,
                     mv_chained = chained, mv_resigned = resigned\<rparr>))"

section \<open>Coding header and data size\<close>

definition coding_header :: "shred \<Rightarrow> (u16 \<times> u16 \<times> u16) option" where
  "coding_header s =
     (if \<not> sh_is_code s then None
      else case read_le 2 (sh_payload s) CODING_HEADER_OFFSET of
        None \<Rightarrow> None
      | Some num_data \<Rightarrow>
          (case read_le 2 (sh_payload s) (CODING_HEADER_OFFSET + 2) of
             None \<Rightarrow> None
           | Some num_coding \<Rightarrow>
               (case read_le 2 (sh_payload s) (CODING_HEADER_OFFSET + 4) of
                  None \<Rightarrow> None
                | Some position \<Rightarrow>
                    Some (word_of_nat num_data, word_of_nat num_coding, word_of_nat position))))"

definition shred_data_len :: "bytes \<Rightarrow> nat option" where
  "shred_data_len payload =
     (case read_le 2 payload DATA_SIZE_OFFSET of
        None \<Rightarrow> None
      | Some sz \<Rightarrow>
          (let max_size =
             (case merkle_variant_of payload of
                None \<Rightarrow> length payload
              | Some v \<Rightarrow>
                  (case erasure_shard_len v of
                     None \<Rightarrow> length payload
                   | Some shard_len \<Rightarrow>
                       (case usize_checked_add RETRANSMITTER_SIGNATURE_LEN shard_len of
                          None \<Rightarrow> length payload
                        | Some n \<Rightarrow> n)))
           in case usize_checked_sub sz SHRED_DATA_HEADER_LEN of
                None \<Rightarrow> None
              | Some n \<Rightarrow> if sz \<le> max_size then Some n else None))"

section \<open>Lemmas\<close>

lemma as_data_simps [simp]:
  "mv_code (as_data v) = False" "mv_proof_size (as_data v) = mv_proof_size v"
  "mv_chained (as_data v) = mv_chained v" "mv_resigned (as_data v) = mv_resigned v"
  by (simp_all add: as_data_def)

lemma erasure_shard_len_as_data [simp]: "erasure_shard_len (as_data v) = erasure_shard_len v"
  by (simp add: erasure_shard_len_def)

lemma low_nibble: "unat ((x :: u8) AND 0x0f) < 16"
proof -
  have "x AND 0x0f \<le> 0x0f" by (rule word_and_le1)
  then show ?thesis by (simp add: word_le_nat_alt)
qed

lemma merkle_variant_of_proof_size: "merkle_variant_of p = Some v \<Longrightarrow> unat (mv_proof_size v) < 16"
  by (auto simp: merkle_variant_of_def low_nibble split: option.splits prod.splits)

text \<open>A resigned variant is always a chained one: no nibble sets the first flag without the second.\<close>

lemma variant_flags_resigned: "variant_flags t = Some (c, ch, r) \<Longrightarrow> r \<Longrightarrow> ch"
  by (auto simp: variant_flags_def split: if_splits)

lemma erasure_shard_len_eq:
  assumes "unat (mv_proof_size v) < 16"
  shows "erasure_shard_len v = Some (1139 - of_bool (mv_chained v) * 32
     - unat (mv_proof_size v) * 20 - of_bool (mv_resigned v) * 64)"
  using assms by (auto simp: erasure_shard_len_def usize_checked_sub_def layout_consts of_bool_def)

lemma erasure_shard_len_bounds:
  assumes "unat (mv_proof_size v) < 16" "erasure_shard_len v = Some n"
  shows "743 \<le> n \<and> n \<le> 1139"
  using assms by (auto simp: erasure_shard_len_eq of_bool_def)

lemma erasure_shard_len_chained:
  assumes "unat (mv_proof_size v) < 16" "erasure_shard_len v = Some n" "mv_chained v"
  shows "n + 32 \<le> 1139"
  using assms by (auto simp: erasure_shard_len_eq of_bool_def)

lemma shred_data_len_Some:
  assumes "shred_data_len p = Some n"
  shows "n + 88 < 65536 \<and> 88 \<le> length p"
proof -
  obtain sz where sz: "read_le 2 p 86 = Some sz" "n = sz - 88" "88 \<le> sz"
    using assms
    by (auto simp: shred_data_len_def usize_checked_sub_def layout_consts Let_def
          split: option.splits if_splits)
  then have "sz < 65536" using read_le_bound [of 2 p 86 sz] by simp
  moreover have "88 \<le> length p" using sz(1) by (cases "length p < 86 + 2") auto
  ultimately show ?thesis using sz by simp
qed

end
