(* ===== verification/Merkle_Root.thy ===== *)
theory Merkle_Root
  imports Shred_Wire
begin

text \<open>
  \<open>merkle_root_from_shards\<close> of \<open>src/shred/reassembler.rs\<close>: the leaves of a forward-error-correction set
  are hashed with their coding headers rebuilt, and levels of node hashes are formed until one
  node is left. The hash function is the parameter \<open>hashv\<close>. The loop is proved total and
  equal to a tree defined by recursion on the level, whose odd last node is paired with itself.
\<close>

section \<open>Leaves\<close>

text \<open>\<open>header.get_mut(a..b)?.copy_from_slice(..)\<close> on a range of the length of the source.\<close>

definition copy_into :: "nat \<Rightarrow> bytes \<Rightarrow> bytes \<Rightarrow> bytes option" where
  "copy_into a new xs =
     (if a + length new \<le> length xs then Some (take a xs @ new @ drop (a + length new) xs) else None)"

definition coding_leaf_header :: "u32 \<Rightarrow> bytes \<Rightarrow> nat \<Rightarrow> bytes option" where
  "coding_leaf_header first_coding_index template coding_position =
     (if coding_position \<ge> 2 ^ 32 then None
      else case checked_add first_coding_index (word_of_nat coding_position) of
        None \<Rightarrow> None
      | Some coding_index \<Rightarrow>
          (case copy_into 9 (le_bytes 4 (unat coding_index)) template of
             None \<Rightarrow> None
           | Some header \<Rightarrow>
               if coding_position \<ge> 2 ^ 16 then None
               else copy_into 23 (le_bytes 2 coding_position) header))"

definition leaf_bytes :: "nat \<Rightarrow> u32 \<Rightarrow> bytes \<Rightarrow> bytes option \<Rightarrow> nat \<Rightarrow> bytes \<Rightarrow> bytes option" where
  "leaf_bytes num_data first_coding_index template chained_root position shard =
     (let tail = (case chained_root of None \<Rightarrow> [] | Some root \<Rightarrow> root)
      in if position < num_data then Some (shard @ tail)
         else case coding_leaf_header first_coding_index template (position - num_data) of
           None \<Rightarrow> None
         | Some header \<Rightarrow> Some (header @ shard @ tail))"

fun leaf_nodes :: "(bytes list \<Rightarrow> hash) \<Rightarrow> nat \<Rightarrow> u32 \<Rightarrow> bytes \<Rightarrow> bytes option \<Rightarrow> nat
    \<Rightarrow> bytes option list \<Rightarrow> hash list option" where
  "leaf_nodes h num_data fci template chained position [] = Some []"
| "leaf_nodes h num_data fci template chained position (None # shards) = None"
| "leaf_nodes h num_data fci template chained position (Some shard # shards) =
     (case leaf_bytes num_data fci template chained position shard of
        None \<Rightarrow> None
      | Some leaf \<Rightarrow>
          map_option (\<lambda>nodes. h [MERKLE_HASH_PREFIX_LEAF, leaf] # nodes)
            (leaf_nodes h num_data fci template chained (Suc position) shards))"

section \<open>Levels\<close>

definition parent_hash :: "(bytes list \<Rightarrow> hash) \<Rightarrow> hash \<Rightarrow> hash \<Rightarrow> hash" where
  "parent_hash h left right =
     h [MERKLE_HASH_PREFIX_NODE, take MERKLE_PROOF_ENTRY_LEN left, take MERKLE_PROOF_ENTRY_LEN right]"

fun parent_level :: "(bytes list \<Rightarrow> hash) \<Rightarrow> hash list \<Rightarrow> hash list" where
  "parent_level h [] = []"
| "parent_level h [left] = [parent_hash h left left]"
| "parent_level h (left # right # nodes) = parent_hash h left right # parent_level h nodes"

lemma length_parent_level: "length (parent_level h nodes) = (length nodes + 1) div 2"
  by (induction h nodes rule: parent_level.induct) auto

function merkle_reduce :: "(bytes list \<Rightarrow> hash) \<Rightarrow> hash list \<Rightarrow> hash list" where
  "merkle_reduce h nodes =
     (if length nodes > 1 then merkle_reduce h (parent_level h nodes) else nodes)"
  by pat_completeness auto
termination
  by (relation "measure (\<lambda>(h, nodes). length nodes)") (auto simp: length_parent_level)

declare merkle_reduce.simps [simp del]

definition merkle_root_from_shards ::
  "(bytes list \<Rightarrow> hash) \<Rightarrow> bytes option list \<Rightarrow> nat \<Rightarrow> u32 \<Rightarrow> bytes \<Rightarrow> bytes option \<Rightarrow> hash option" where
  "merkle_root_from_shards h shards num_data first_coding_index coding_header_template chained_root =
     (if num_data = 0 \<or> num_data \<ge> length shards then None
      else case leaf_nodes h num_data first_coding_index coding_header_template chained_root 0 shards of
        None \<Rightarrow> None
      | Some nodes \<Rightarrow>
          (case merkle_reduce h nodes of [] \<Rightarrow> None | node # rest \<Rightarrow> Some (last (node # rest))))"

section \<open>The tree by recursion on the level\<close>

fun level_width :: "nat \<Rightarrow> nat \<Rightarrow> nat" where
  "level_width n 0 = n"
| "level_width n (Suc l) = (level_width n l + 1) div 2"

fun tree_node :: "(bytes list \<Rightarrow> hash) \<Rightarrow> hash list \<Rightarrow> nat \<Rightarrow> nat \<Rightarrow> hash" where
  "tree_node h leaves 0 i = leaves ! i"
| "tree_node h leaves (Suc l) i =
     parent_hash h (tree_node h leaves l (2 * i))
       (tree_node h leaves l
          (if 2 * i + 1 < level_width (length leaves) l then 2 * i + 1 else 2 * i))"

lemma nth_parent_level:
  "i < length (parent_level h nodes) \<Longrightarrow>
     parent_level h nodes ! i =
       parent_hash h (nodes ! (2 * i)) (nodes ! (if 2 * i + 1 < length nodes then 2 * i + 1 else 2 * i))"
proof (induction h nodes arbitrary: i rule: parent_level.induct)
  case (3 h left right nodes)
  show ?case
  proof (cases i)
    case 0
    then show ?thesis by simp
  next
    case (Suc j)
    with 3 show ?thesis by simp
  qed
qed auto

lemma levels_are_tree:
  "length ((parent_level h ^^ l) leaves) = level_width (length leaves) l \<and>
   (\<forall>i < level_width (length leaves) l. (parent_level h ^^ l) leaves ! i = tree_node h leaves l i)"
proof (induction l)
  case (Suc l)
  then have len: "length (parent_level h ((parent_level h ^^ l) leaves)) = level_width (length leaves) (Suc l)"
    by (simp add: length_parent_level)
  moreover have "parent_level h ((parent_level h ^^ l) leaves) ! i = tree_node h leaves (Suc l) i"
    if "i < level_width (length leaves) (Suc l)" for i
  proof -
    have "2 * i < level_width (length leaves) l" using that by simp
    then show ?thesis using Suc that len by (subst nth_parent_level) auto
  qed
  ultimately show ?case by simp
qed simp

lemma merkle_reduce_funpow:
  "(\<forall>k < l. level_width (length nodes) k > 1) \<Longrightarrow> level_width (length nodes) l \<le> 1 \<Longrightarrow>
     merkle_reduce h nodes = (parent_level h ^^ l) nodes"
proof (induction l arbitrary: nodes)
  case 0
  then show ?case by (simp add: merkle_reduce.simps)
next
  case (Suc l)
  have width: "level_width (length (parent_level h nodes)) k = level_width (length nodes) (Suc k)" for k
    by (induction k) (simp_all add: length_parent_level)
  have "length nodes > 1" using Suc.prems(1) by force
  then have "merkle_reduce h nodes = merkle_reduce h (parent_level h nodes)"
    by (subst merkle_reduce.simps) simp
  also have "\<dots> = (parent_level h ^^ l) (parent_level h nodes)"
    using Suc.prems by (intro Suc.IH) (auto simp del: level_width.simps simp: width)
  finally show ?case by (simp add: funpow_swap1)
qed

lemma merkle_reduce_one: "nodes \<noteq> [] \<Longrightarrow> length (merkle_reduce h nodes) = 1"
proof (induction h nodes rule: merkle_reduce.induct)
  case (1 h nodes)
  show ?case
  proof (cases "length nodes > 1")
    case True
    moreover have "parent_level h nodes \<noteq> []"
      using True by (metis length_parent_level length_0_conv add_is_0 div_eq_0_iff less_imp_add_positive
          not_less_iff_gr_or_eq numeral_2_eq_2 Suc_1 add.commute plus_1_eq_Suc less_Suc_eq_0_disj not_less0)
    ultimately show ?thesis using 1 by (simp add: merkle_reduce.simps [of h nodes])
  next
    case False
    then have "merkle_reduce h nodes = nodes" by (subst merkle_reduce.simps) simp
    with 1 False show ?thesis by (cases nodes) auto
  qed
qed

lemma leaf_nodes_length: "leaf_nodes h nd fci tm ch p shards = Some nodes \<Longrightarrow> length nodes = length shards"
  by (induction h nd fci tm ch p shards arbitrary: nodes rule: leaf_nodes.induct)
    (auto split: option.splits)

lemma leaf_nodes_nth:
  "leaf_nodes h nd fci tm ch p shards = Some nodes \<Longrightarrow> i < length shards \<Longrightarrow>
     \<exists>shard leaf. shards ! i = Some shard \<and> leaf_bytes nd fci tm ch (p + i) shard = Some leaf
       \<and> nodes ! i = h [MERKLE_HASH_PREFIX_LEAF, leaf]"
proof (induction h nd fci tm ch p shards arbitrary: nodes i rule: leaf_nodes.induct)
  case (3 h nd fci tm ch p shard shards)
  then show ?case by (cases i) (auto split: option.splits)
qed auto

lemma leaf_nodes_total:
  "leaf_nodes h nd fci tm ch p shards \<noteq> None \<longleftrightarrow>
     (\<forall>i < length shards. \<exists>shard. shards ! i = Some shard \<and> leaf_bytes nd fci tm ch (p + i) shard \<noteq> None)"
proof (induction h nd fci tm ch p shards rule: leaf_nodes.induct)
  case (3 h nd fci tm ch p shard shards)
  then show ?case
    by (auto simp: All_less_Suc2 split: option.splits)
next
  case (2 h nd fci tm ch p shards)
  then show ?case by (auto simp: All_less_Suc2)
qed auto

lemma copy_into_None: "copy_into a new xs = None \<longleftrightarrow> length xs < a + length new"
  by (auto simp: copy_into_def)

lemma copy_into_length: "copy_into a new xs = Some ys \<Longrightarrow> length ys = length xs"
  by (auto simp: copy_into_def split: if_splits)

lemma coding_leaf_header_None:
  "coding_leaf_header fci tm c = None \<longleftrightarrow>
     2 ^ 16 \<le> c \<or> 2 ^ 32 \<le> unat fci + c \<or> length tm < 25"
proof (cases "c < 2 ^ 16")
  case True
  then have c: "unat (word_of_nat c :: u32) = c" by (simp add: unat_of_nat take_bit_nat_eq_self)
  show ?thesis
    using True c
    by (auto simp: coding_leaf_header_def checked_add_def copy_into_None
          dest: copy_into_length split: option.splits)
next
  case False
  then show ?thesis by (auto simp: coding_leaf_header_def split: option.splits)
qed

lemma leaf_bytes_None:
  "leaf_bytes nd fci tm ch i shard = None \<longleftrightarrow>
     nd \<le> i \<and> (2 ^ 16 \<le> i - nd \<or> 2 ^ 32 \<le> unat fci + (i - nd) \<or> length tm < 25)"
proof (cases "i < nd")
  case True
  then show ?thesis by (simp add: leaf_bytes_def)
next
  case False
  then have "leaf_bytes nd fci tm ch i shard = None \<longleftrightarrow> coding_leaf_header fci tm (i - nd) = None"
    by (simp add: leaf_bytes_def Let_def split: option.split)
  with False show ?thesis by (simp only: coding_leaf_header_None) simp
qed

end
