(* ===== verification/Shred_State.thy ===== *)
theory Shred_State
  imports Ordered_Map Merkle_Root
begin

text \<open>
  The state of the raw shred decoder (\<open>src/shred/config.rs\<close>, \<open>src/shred/error.rs\<close>,
  \<open>src/shred/decoder.rs\<close> and the type declarations of \<open>src/shred/reassembler.rs\<close>): the
  configuration, the counters, the per-slot data buffers, the per-set coding buffers and the
  decoder that owns them, with its constructor. \<open>Instant\<close> and \<open>Duration\<close> are
  nanoseconds as \<open>nat\<close>; the counters are 64-bit words. The invariant
  \<open>decoder_inv\<close> that every operation keeps is stated here.
\<close>

section \<open>Configuration\<close>

type_synonym instant = nat
type_synonym duration = nat

abbreviation from_millis :: "nat \<Rightarrow> duration" where "from_millis ms \<equiv> ms * 1000000"

record raw_shred_config =
  udp_bind :: string
  udp_recv_buffer_bytes :: nat
  max_datagram_size :: nat
  max_tracked_slots :: nat
  reassembly_gap_timeout :: duration
  forward_slot_watermark :: bool
  udp_payload_prefix_skip :: nat
  max_deshred_bytes :: nat

definition raw_shred_config_default :: raw_shred_config where
  "raw_shred_config_default =
     \<lparr>udp_bind = ''0.0.0.0:8001'',
      udp_recv_buffer_bytes = 64 * 1024 * 1024,
      max_datagram_size = 2048,
      max_tracked_slots = 64,
      reassembly_gap_timeout = from_millis 400,
      forward_slot_watermark = False,
      udp_payload_prefix_skip = 0,
      max_deshred_bytes = 16 * 1024 * 1024\<rparr>"

definition with_udp_bind :: "string \<Rightarrow> raw_shred_config \<Rightarrow> raw_shred_config" where
  "with_udp_bind bind c = c\<lparr>udp_bind := bind\<rparr>"

definition with_forward_slot_watermark :: "bool \<Rightarrow> raw_shred_config \<Rightarrow> raw_shred_config" where
  "with_forward_slot_watermark enabled c = c\<lparr>forward_slot_watermark := enabled\<rparr>"

section \<open>Errors and batches\<close>

text \<open>The message of a parse error is either the decoder's own (the two numbers it prints) or the
  library's text.\<close>

datatype parse_message = Prefix_Longer_Than_Packet nat nat | Library_Error string

datatype shred_decode_error =
  Parse parse_message
| Deshred_Error string
| PayloadTooLarge_Error nat nat
| DecodeEntries string
| Io string

datatype chunk_decode_error = Deshred | EntryDecode | PayloadTooLarge

record 'tx shred_entry_batch =
  batch_slot :: u64
  batch_entries :: "'tx entry list"

record 'tx shred_tx_batch =
  tx_batch_slot :: u64
  tx_batch_transactions :: "'tx list"

definition entries_to_transactions :: "'tx entry list \<Rightarrow> 'tx list" where
  "entries_to_transactions es = concat (map transactions es)"

definition entries_to_tx_batch :: "'tx shred_entry_batch \<Rightarrow> 'tx shred_tx_batch" where
  "entries_to_tx_batch b =
     \<lparr>tx_batch_slot = batch_slot b, tx_batch_transactions = concat (map transactions (batch_entries b))\<rparr>"

section \<open>Counters\<close>

record shred_decoder_stats =
  udp_packets :: u64
  parse_errors :: u64
  data_shreds :: u64
  coding_shreds :: u64
  stale_shreds :: u64
  duplicate_shreds :: u64
  conflicting_shreds :: u64
  invalid_fec_shreds :: u64
  oversized_payloads :: u64
  fec_recover_attempts :: u64
  fec_recover_failures :: u64
  fec_recovered_data_shreds :: u64
  deshred_failures :: u64
  entry_decode_failures :: u64
  emitted_entry_batches :: u64
  emitted_entries :: u64
  emitted_transactions :: u64

definition stats_default :: shred_decoder_stats where
  "stats_default =
     \<lparr>udp_packets = 0, parse_errors = 0, data_shreds = 0, coding_shreds = 0, stale_shreds = 0,
      duplicate_shreds = 0, conflicting_shreds = 0, invalid_fec_shreds = 0, oversized_payloads = 0,
      fec_recover_attempts = 0, fec_recover_failures = 0, fec_recovered_data_shreds = 0,
      deshred_failures = 0, entry_decode_failures = 0, emitted_entry_batches = 0,
      emitted_entries = 0, emitted_transactions = 0\<rparr>"

section \<open>Buffers and the decoder\<close>

record data_shred =
  ds_payload :: bytes
  ds_fec_set_index :: u32
  ds_version :: u16
  ds_variant :: "merkle_variant option"
  ds_data_complete :: bool
  ds_last_in_slot :: bool

record coding_set =
  cs_shreds :: "(shred_id \<times> shred) list"
  cs_num_data_shreds :: nat
  cs_num_coding_shreds :: nat
  cs_first_coding_index :: u32
  cs_version :: u16
  cs_variant :: merkle_variant
  cs_merkle_root :: hash
  cs_recovery_failed :: bool

record slot_buffer =
  sb_data :: "(u32, data_shred) btree"
  sb_next_data_index :: u32
  sb_terminal_complete :: bool
  sb_last_activity :: instant

definition slot_buffer_new :: "instant \<Rightarrow> slot_buffer" where
  "slot_buffer_new now =
     \<lparr>sb_data = [], sb_next_data_index = 0, sb_terminal_complete = False, sb_last_activity = now\<rparr>"

record 'c decoder =
  config :: raw_shred_config
  forward_watermark :: "u64 option"
  slots :: "(u64, slot_buffer) btree"
  coding :: "(u64 \<times> u32, coding_set) btree"
  buffered_shreds :: nat
  merkle_rs_cache :: 'c
  stats :: shred_decoder_stats

definition decoder_new :: "('tx, 'rs, 'c) ledger \<Rightarrow> raw_shred_config \<Rightarrow> 'c decoder" where
  "decoder_new L c =
     \<lparr>config = c, forward_watermark = None, slots = [], coding = [], buffered_shreds = 0,
      merkle_rs_cache = lru_new L RS_CACHE_CAPACITY, stats = stats_default\<rparr>"

record recovered_data_shred =
  rd_index :: u32
  rd_payload :: bytes
  rd_version :: u16
  rd_variant :: merkle_variant
  rd_data_complete :: bool
  rd_last_in_slot :: bool

text \<open>The default instance of the decoder: the constructor on the default configuration.\<close>

definition decoder_default :: "('tx, 'rs, 'c) ledger \<Rightarrow> 'c decoder" where
  "decoder_default L = decoder_new L raw_shred_config_default"

section \<open>The buffered-shred count\<close>

abbreviation data_len :: "slot_buffer \<Rightarrow> nat" where "data_len b \<equiv> length (sb_data b)"
abbreviation set_len :: "coding_set \<Rightarrow> nat" where "set_len s \<equiv> length (cs_shreds s)"

text \<open>What \<open>debug_assert_buffered_count\<close> recomputes: the data shreds of every slot, then the coding
  shreds of every set, added with saturation.\<close>

definition recount :: "'c decoder \<Rightarrow> nat" where
  "recount d = sat_add (weight_of data_len (slots d)) (weight_of set_len (coding d))"

definition held_shreds :: "'c decoder \<Rightarrow> nat" where
  "held_shreds d = weight_of data_len (slots d) + weight_of set_len (coding d)"

section \<open>The invariant\<close>

text \<open>
  A buffer holds only indices that are not yet drained and whose successor exists, and nothing
  once its slot is complete. A coding set holds at least one shred, at most one per id, all with
  the set's signature, and its numbers satisfy the bounds checked on insertion.
\<close>

definition buffer_ok :: "slot_buffer \<Rightarrow> bool" where
  "buffer_ok b \<longleftrightarrow>
     bt_ok (sb_data b) \<and>
     (\<forall>i \<in> dom (map_of (sb_data b)). sb_next_data_index b \<le> i \<and> i \<noteq> - 1) \<and>
     (sb_terminal_complete b \<longrightarrow> sb_data b = [])"

definition set_ok :: "u32 \<Rightarrow> coding_set \<Rightarrow> bool" where
  "set_ok fec s \<longleftrightarrow>
     cs_shreds s \<noteq> [] \<and> distinct (map fst (cs_shreds s)) \<and>
     0 < cs_num_data_shreds s \<and> 0 < cs_num_coding_shreds s \<and>
     cs_num_data_shreds s + cs_num_coding_shreds s \<le> MAX_SHREDS_PER_FEC_SET \<and>
     unat fec + cs_num_data_shreds s < 2 ^ 32 \<and>
     (\<exists>sig. \<forall>e \<in> set (cs_shreds s). sh_signature (snd e) = sig)"

definition stores_ok :: "'c decoder \<Rightarrow> bool" where
  "stores_ok d \<longleftrightarrow>
     bt_ok (slots d) \<and> bt_ok (coding d) \<and>
     (\<forall>s b. map_of (slots d) s = Some b \<longrightarrow> buffer_ok b) \<and>
     (\<forall>s f cs. map_of (coding d) (s, f) = Some cs \<longrightarrow>
        set_ok f cs \<and> (\<exists>b. map_of (slots d) s = Some b \<and> \<not> sb_terminal_complete b))"

definition slots_bounded :: "'c decoder \<Rightarrow> bool" where
  "slots_bounded d \<longleftrightarrow> length (slots d) \<le> max 1 (max_tracked_slots (config d))"

definition decoder_inv :: "'c decoder \<Rightarrow> bool" where
  "decoder_inv d \<longleftrightarrow>
     stores_ok d \<and> slots_bounded d \<and>
     buffered_shreds d = held_shreds d \<and> held_shreds d \<le> MAX_BUFFERED_SHREDS"

lemma buffer_ok_new: "buffer_ok (slot_buffer_new now)"
  by (simp add: buffer_ok_def slot_buffer_new_def)

lemma decoder_inv_new: "decoder_inv (decoder_new L c)"
  by (simp add: decoder_inv_def decoder_new_def stores_ok_def slots_bounded_def held_shreds_def)

lemma stores_okD:
  "stores_ok d \<Longrightarrow> bt_ok (slots d)"
  "stores_ok d \<Longrightarrow> bt_ok (coding d)"
  "stores_ok d \<Longrightarrow> map_of (slots d) s = Some b \<Longrightarrow> buffer_ok b"
  "stores_ok d \<Longrightarrow> map_of (coding d) (s, f) = Some cs \<Longrightarrow> set_ok f cs"
  "stores_ok d \<Longrightarrow> map_of (coding d) (s, f) = Some cs \<Longrightarrow>
     \<exists>b. map_of (slots d) s = Some b \<and> \<not> sb_terminal_complete b"
  by (auto simp: stores_ok_def)

lemma stores_okI:
  assumes "bt_ok (slots d)" "bt_ok (coding d)"
    and "\<And>s b. map_of (slots d) s = Some b \<Longrightarrow> buffer_ok b"
    and "\<And>s f cs. map_of (coding d) (s, f) = Some cs \<Longrightarrow> set_ok f cs"
    and "\<And>s f cs. map_of (coding d) (s, f) = Some cs \<Longrightarrow>
      \<exists>b. map_of (slots d) s = Some b \<and> \<not> sb_terminal_complete b"
  shows "stores_ok d"
  using assms by (auto simp: stores_ok_def)

text \<open>The invariant does not look at the configuration's other fields, the cache, the counters or
  the watermark.\<close>

lemma decoder_inv_frame [simp]:
  "stores_ok (d\<lparr>stats := x\<rparr>) = stores_ok d"
  "stores_ok (d\<lparr>merkle_rs_cache := y\<rparr>) = stores_ok d"
  "stores_ok (d\<lparr>forward_watermark := z\<rparr>) = stores_ok d"
  "stores_ok (d\<lparr>buffered_shreds := n\<rparr>) = stores_ok d"
  "held_shreds (d\<lparr>stats := x\<rparr>) = held_shreds d"
  "held_shreds (d\<lparr>merkle_rs_cache := y\<rparr>) = held_shreds d"
  "held_shreds (d\<lparr>forward_watermark := z\<rparr>) = held_shreds d"
  "held_shreds (d\<lparr>buffered_shreds := n\<rparr>) = held_shreds d"
  "slots_bounded (d\<lparr>stats := x\<rparr>) = slots_bounded d"
  "slots_bounded (d\<lparr>merkle_rs_cache := y\<rparr>) = slots_bounded d"
  "slots_bounded (d\<lparr>forward_watermark := z\<rparr>) = slots_bounded d"
  "slots_bounded (d\<lparr>buffered_shreds := n\<rparr>) = slots_bounded d"
  "slots_bounded (d\<lparr>coding := cs\<rparr>) = slots_bounded d"
  by (simp_all add: stores_ok_def held_shreds_def slots_bounded_def)

lemma decoder_inv_stats [simp]:
  "decoder_inv (d\<lparr>stats := x\<rparr>) = decoder_inv d"
  "decoder_inv (d\<lparr>merkle_rs_cache := y\<rparr>) = decoder_inv d"
  "decoder_inv (d\<lparr>forward_watermark := z\<rparr>) = decoder_inv d"
  by (simp_all add: decoder_inv_def)

end
