(* ===== verification/Slot_Buffers.thy ===== *)
theory Slot_Buffers
  imports Shred_State
begin

text \<open>
  The bookkeeping operations of the decoder (\<open>src/shred/reassembler.rs\<close>): admission of a new slot
  by dropping the lowest ones, removal of a slot with its coding sets, removal of one coding set,
  the cap on buffered shreds, eviction of stale slots, and the accounting of emitted batches.
  Each keeps \<open>stores_ok\<close> and keeps the buffered count equal to what is held.
\<close>

section \<open>Operations\<close>

definition remove_slot_state :: "u64 \<Rightarrow> 'c decoder \<Rightarrow> bool \<times> 'c decoder" where
  "remove_slot_state slot d =
     (case map_of (slots d) slot of
        None \<Rightarrow> (False, d)
      | Some buffer \<Rightarrow>
          (let removed_shreds =
             foldl (\<lambda>n e. sat_add n (set_len (snd e))) (data_len buffer)
               (filter (\<lambda>e. fst (fst e) = slot) (coding d))
           in (True,
               d\<lparr>slots := bt_remove slot (slots d),
                 coding := bt_retain (\<lambda>k _. fst k \<noteq> slot) (coding d),
                 buffered_shreds := buffered_shreds d - removed_shreds\<rparr>)))"

lemma remove_slot_state_shrinks:
  "remove_slot_state slot d = (True, d') \<Longrightarrow> length (slots d') < length (slots d)"
proof -
  assume "remove_slot_state slot d = (True, d')"
  then obtain b where b: "map_of (slots d) slot = Some b" and d': "slots d' = bt_remove slot (slots d)"
    by (auto simp: remove_slot_state_def Let_def split: option.splits)
  from b have "(slot, b) \<in> set (slots d)" by (rule map_of_SomeD)
  then show ?thesis unfolding d' bt_remove_def by (auto intro!: length_filter_less)
qed

lemma remove_slot_state_config [simp]: "config (snd (remove_slot_state slot d)) = config d"
  by (simp add: remove_slot_state_def Let_def split: option.split)

function admit_slot :: "u64 \<Rightarrow> 'c decoder \<Rightarrow> bool \<times> 'c decoder" where
  "admit_slot touch_slot d =
     (if length (slots d) \<ge> max (max_tracked_slots (config d)) 1
      then (case slots d of
              [] \<Rightarrow> (True, d)
            | (min_slot, _) # _ \<Rightarrow>
                if touch_slot \<le> min_slot then (False, d)
                else admit_slot touch_slot (snd (remove_slot_state min_slot d)))
      else (True, d))"
  by pat_completeness auto
termination
proof (relation "measure (\<lambda>(t, d). length (slots d))")
  fix touch_slot :: u64 and d :: "'c decoder" and x21 x22 min_slot y
  assume "slots d = x21 # x22" "(min_slot, y) = x21"
  then have "fst (remove_slot_state min_slot d) = True"
    by (auto simp: remove_slot_state_def Let_def)
  then show "((touch_slot, snd (remove_slot_state min_slot d)), touch_slot, d)
      \<in> measure (\<lambda>(t, d). length (slots d))"
    using remove_slot_state_shrinks [of min_slot d "snd (remove_slot_state min_slot d)"]
    by (simp add: prod_eq_iff)
qed simp

declare admit_slot.simps [simp del]

definition remove_coding_set :: "u64 \<Rightarrow> u32 \<Rightarrow> 'c decoder \<Rightarrow> 'c decoder" where
  "remove_coding_set slot fec_set d =
     (case map_of (coding d) (slot, fec_set) of
        None \<Rightarrow> d
      | Some cs \<Rightarrow> d\<lparr>coding := bt_remove (slot, fec_set) (coding d),
                      buffered_shreds := buffered_shreds d - set_len cs\<rparr>)"

text \<open>\<open>min_by_key\<close>: the first element whose key is least.\<close>

fun min_by_key :: "('a \<Rightarrow> 'k::linorder) \<Rightarrow> 'a list \<Rightarrow> 'a option" where
  "min_by_key key [] = None"
| "min_by_key key (x # xs) =
     (case min_by_key key xs of
        None \<Rightarrow> Some x
      | Some y \<Rightarrow> if key y < key x then Some y else Some x)"

definition oldest_slot :: "'c decoder \<Rightarrow> u64 option" where
  "oldest_slot d =
     map_option fst
       (min_by_key (\<lambda>(slot, buffer). (sb_last_activity buffer, slot))
         (filter (\<lambda>(slot, buffer). \<not> sb_terminal_complete buffer) (slots d)))"

function enforce_buffer_limit :: "nat \<Rightarrow> 'c decoder \<Rightarrow> 'c decoder" where
  "enforce_buffer_limit limit d =
     (if buffered_shreds d > limit
      then (case oldest_slot d of
              None \<Rightarrow> d
            | Some slot \<Rightarrow>
                (case remove_slot_state slot d of
                   (False, d') \<Rightarrow> d'
                 | (True, d') \<Rightarrow> enforce_buffer_limit limit d'))
      else d)"
  by pat_completeness auto
termination
  by (relation "measure (\<lambda>(l, d). length (slots d))") (auto dest: remove_slot_state_shrinks [OF sym])

declare enforce_buffer_limit.simps [simp del]

definition stale_slots :: "instant \<Rightarrow> 'c decoder \<Rightarrow> u64 list" where
  "stale_slots now d =
     map fst (filter (\<lambda>(slot, buffer).
        \<not> sb_terminal_complete buffer \<and>
        now - sb_last_activity buffer > reassembly_gap_timeout (config d)) (slots d))"

fun remove_slots :: "u64 list \<Rightarrow> nat \<Rightarrow> 'c decoder \<Rightarrow> nat \<times> 'c decoder" where
  "remove_slots [] removed d = (removed, d)"
| "remove_slots (slot # rest) removed d =
     (case remove_slot_state slot d of (b, d') \<Rightarrow> remove_slots rest (removed + of_bool b) d')"

definition evict_stale_slots :: "instant \<Rightarrow> 'c decoder \<Rightarrow> nat \<times> 'c decoder" where
  "evict_stale_slots now d = remove_slots (stale_slots now d) 0 d"

definition count_emitted :: "shred_decoder_stats \<Rightarrow> 'tx shred_entry_batch \<Rightarrow> shred_decoder_stats" where
  "count_emitted st b =
     st\<lparr>emitted_entry_batches := emitted_entry_batches st + 1,
        emitted_entries := emitted_entries st + word_of_nat (length (batch_entries b)),
        emitted_transactions := emitted_transactions st
          + sum_list (map (\<lambda>e. word_of_nat (length (transactions e))) (batch_entries b))\<rparr>"

definition note_emitted :: "'tx shred_entry_batch list \<Rightarrow> 'c decoder \<Rightarrow> 'c decoder" where
  "note_emitted batches d =
     (if batches = [] then d
      else
        (let start = (case forward_watermark d of None \<Rightarrow> 0 | Some w \<Rightarrow> w);
             max_slot = foldl (\<lambda>m b. max m (batch_slot b)) start batches;
             d' = d\<lparr>stats := foldl count_emitted (stats d) batches\<rparr>
         in if forward_slot_watermark (config d) then d'\<lparr>forward_watermark := Some max_slot\<rparr> else d'))"

section \<open>Removing a slot\<close>

lemma foldl_sat_add:
  "n + weight_of w m \<le> usize_max \<Longrightarrow> foldl (\<lambda>n e. sat_add n (w (snd e))) n m = n + weight_of w m"
  by (induction m arbitrary: n) (auto simp: weight_of_def)

lemma remove_slot_state_None: "map_of (slots d) slot = None \<Longrightarrow> remove_slot_state slot d = (False, d)"
  by (simp add: remove_slot_state_def)

lemma remove_slot_state_Some:
  assumes "map_of (slots d) slot = Some b"
  shows "fst (remove_slot_state slot d) = True"
    "slots (snd (remove_slot_state slot d)) = bt_remove slot (slots d)"
    "coding (snd (remove_slot_state slot d)) = bt_retain (\<lambda>k _. fst k \<noteq> slot) (coding d)"
  using assms by (simp_all add: remove_slot_state_def Let_def)

lemma remove_slot_state_frame [simp]:
  "stats (snd (remove_slot_state slot d)) = stats d"
  "forward_watermark (snd (remove_slot_state slot d)) = forward_watermark d"
  "merkle_rs_cache (snd (remove_slot_state slot d)) = merkle_rs_cache d"
  by (simp_all add: remove_slot_state_def Let_def split: option.split)

lemma weight_retain_others:
  "weight_of w (bt_retain (\<lambda>k _. fst k \<noteq> s) m) + weight_of w (filter (\<lambda>e. fst (fst e) = s) m) = weight_of w m"
  using weight_filter_split [of w "\<lambda>e. fst (fst e) \<noteq> s" m] by (simp add: bt_retain_def)

lemma held_remove_slot_state:
  assumes ok: "stores_ok d" and b: "map_of (slots d) slot = Some b"
  shows "held_shreds (snd (remove_slot_state slot d)) + data_len b
           + weight_of set_len (filter (\<lambda>e. fst (fst e) = slot) (coding d)) = held_shreds d"
proof -
  have "weight_of data_len (bt_remove slot (slots d)) + data_len b = weight_of data_len (slots d)"
    using bt.weight_del [OF stores_okD(1) [OF ok], of data_len slot] b by simp
  then show ?thesis
    using weight_retain_others [of set_len slot "coding d"] remove_slot_state_Some [OF b]
    by (simp add: held_shreds_def)
qed

lemma remove_slot_state_stores:
  assumes ok: "stores_ok d"
  shows "stores_ok (snd (remove_slot_state slot d))"
proof (cases "map_of (slots d) slot")
  case None
  with ok show ?thesis by (simp add: remove_slot_state_None)
next
  case (Some b)
  show ?thesis
  proof (rule stores_okI)
    show "bt_ok (slots (snd (remove_slot_state slot d)))"
      using stores_okD(1) [OF ok] Some by (simp add: remove_slot_state_Some)
    show "bt_ok (coding (snd (remove_slot_state slot d)))"
      using stores_okD(2) [OF ok] Some by (simp add: remove_slot_state_Some)
  next
    fix s b'
    assume "map_of (slots (snd (remove_slot_state slot d))) s = Some b'"
    then have "map_of (slots d) s = Some b'"
      using stores_okD(1) [OF ok] Some by (simp add: remove_slot_state_Some store_simps split: if_splits)
    then show "buffer_ok b'" by (rule stores_okD(3) [OF ok])
  next
    fix s f cs
    assume "map_of (coding (snd (remove_slot_state slot d))) (s, f) = Some cs"
    then have cs: "map_of (coding d) (s, f) = Some cs" "s \<noteq> slot"
      using stores_okD(2) [OF ok] Some
      by (auto simp: remove_slot_state_Some store_simps split: option.splits if_splits)
    show "set_ok f cs" using cs(1) by (rule stores_okD(4) [OF ok])
    show "\<exists>b. map_of (slots (snd (remove_slot_state slot d))) s = Some b \<and> \<not> sb_terminal_complete b"
      using stores_okD(5) [OF ok cs(1)] cs(2) stores_okD(1) [OF ok] Some
      by (auto simp: remove_slot_state_Some store_simps)
  qed
qed

lemma remove_slot_state_counted:
  assumes ok: "stores_ok d" and n: "buffered_shreds d = held_shreds d" "held_shreds d \<le> usize_max"
  shows "buffered_shreds (snd (remove_slot_state slot d)) = held_shreds (snd (remove_slot_state slot d))"
proof (cases "map_of (slots d) slot")
  case None
  with n show ?thesis by (simp add: remove_slot_state_None)
next
  case (Some b)
  let ?c = "weight_of set_len (filter (\<lambda>e. fst (fst e) = slot) (coding d))"
  note held = held_remove_slot_state [OF ok Some]
  then have "data_len b + ?c \<le> usize_max" using n(2) by linarith
  then have "foldl (\<lambda>n e. sat_add n (set_len (snd e))) (data_len b)
      (filter (\<lambda>e. fst (fst e) = slot) (coding d)) = data_len b + ?c"
    by (rule foldl_sat_add)
  then have "buffered_shreds (snd (remove_slot_state slot d)) = buffered_shreds d - (data_len b + ?c)"
    using Some by (simp add: remove_slot_state_def Let_def)
  with held n(1) show ?thesis by linarith
qed

lemma remove_slot_state_held_le: "stores_ok d \<Longrightarrow> held_shreds (snd (remove_slot_state slot d)) \<le> held_shreds d"
  using held_remove_slot_state [of d slot]
  by (cases "map_of (slots d) slot") (auto simp: remove_slot_state_None)

lemma remove_slot_state_length: "length (slots (snd (remove_slot_state slot d))) \<le> length (slots d)"
  by (cases "map_of (slots d) slot")
    (auto simp: remove_slot_state_None remove_slot_state_Some bt_remove_def)

lemma remove_slot_state_lookup:
  "stores_ok d \<Longrightarrow> map_of (slots (snd (remove_slot_state slot d))) s =
     (if s = slot then None else map_of (slots d) s)"
  by (cases "map_of (slots d) slot")
    (auto simp: remove_slot_state_None remove_slot_state_Some store_simps stores_okD(1))

lemma remove_slot_state_coding:
  "stores_ok d \<Longrightarrow> s \<noteq> slot \<Longrightarrow>
     map_of (coding (snd (remove_slot_state slot d))) (s, f) = map_of (coding d) (s, f)"
  by (cases "map_of (slots d) slot")
    (auto simp: remove_slot_state_None remove_slot_state_Some store_simps stores_okD(2) split: option.split)

lemma remove_slot_state_inv:
  assumes "decoder_inv d"
  shows "decoder_inv (snd (remove_slot_state slot d))"
proof -
  have d: "stores_ok d" "slots_bounded d" "buffered_shreds d = held_shreds d"
    "held_shreds d \<le> MAX_BUFFERED_SHREDS"
    using assms by (auto simp: decoder_inv_def)
  then have "held_shreds d \<le> usize_max" by (simp add: MAX_BUFFERED_SHREDS_def)
  then show ?thesis
    using d remove_slot_state_stores remove_slot_state_counted remove_slot_state_held_le [of d slot]
      remove_slot_state_length [of slot d]
    by (fastforce simp: decoder_inv_def slots_bounded_def)
qed

section \<open>Admission\<close>

text \<open>Anything that removing a slot keeps, admission keeps.\<close>

lemma admit_slot_keeps:
  assumes "P d" and "\<And>s e. P e \<Longrightarrow> P (snd (remove_slot_state s e))"
  shows "P (snd (admit_slot t d))"
  using assms(1)
proof (induction t d rule: admit_slot.induct)
  case (1 t d)
  then show ?case
    using assms(2) [OF 1(2)] by (subst admit_slot.simps) (auto split: list.split)
qed

lemma admit_slot_inv: "decoder_inv d \<Longrightarrow> decoder_inv (snd (admit_slot t d))"
  by (rule admit_slot_keeps) (auto intro: remove_slot_state_inv)

lemma admit_slot_config [simp]: "config (snd (admit_slot t d)) = config d"
  by (rule admit_slot_keeps [where P = "\<lambda>e. config e = config d"]) auto

lemma admit_slot_frame [simp]:
  "stats (snd (admit_slot t d)) = stats d"
  "forward_watermark (snd (admit_slot t d)) = forward_watermark d"
  by (rule admit_slot_keeps [where P = "\<lambda>e. stats e = stats d"], auto,
      rule admit_slot_keeps [where P = "\<lambda>e. forward_watermark e = forward_watermark d"], auto)

lemma admit_slot_room:
  "fst (admit_slot t d) \<Longrightarrow> length (slots (snd (admit_slot t d))) < max 1 (max_tracked_slots (config d))"
proof (induction t d rule: admit_slot.induct)
  case (1 t d)
  show ?case
  proof (cases "length (slots d) \<ge> max (max_tracked_slots (config d)) 1")
    case True
    then obtain m b rest where sl: "slots d = (m, b) # rest" by (cases "slots d") auto
    then have gt: "\<not> t \<le> m" using 1(2) True by (auto simp: admit_slot.simps [of t d])
    then show ?thesis using 1 True sl by (auto simp: admit_slot.simps [of t d])
  next
    case False
    then show ?thesis by (auto simp: admit_slot.simps [of t d])
  qed
qed

text \<open>Admission removes only slots below the one that arrives, and refuses only a slot that is not
  above the least tracked one.\<close>

lemma admit_slot_keeps_higher:
  "stores_ok d \<Longrightarrow> t \<le> s \<Longrightarrow> map_of (slots (snd (admit_slot t d))) s = map_of (slots d) s"
proof (induction t d rule: admit_slot.induct)
  case (1 t d)
  show ?case
  proof (cases "slots d")
    case Nil
    then show ?thesis by (subst admit_slot.simps) simp
  next
    case (Cons e rest)
    obtain m b where e: "e = (m, b)" by (cases e)
    show ?thesis
      using 1 Cons e
      by (subst admit_slot.simps)
        (auto simp: remove_slot_state_stores remove_slot_state_lookup)
  qed
qed

lemma admit_slot_refuses:
  "stores_ok d \<Longrightarrow> \<not> fst (admit_slot t d) \<Longrightarrow> max 1 (max_tracked_slots (config d)) \<le> length (slots d) \<and>
     (\<exists>m. t \<le> m \<and> m \<in> fst ` set (slots d))"
proof (induction t d rule: admit_slot.induct)
  case (1 t d)
  then have full: "length (slots d) \<ge> max (max_tracked_slots (config d)) 1"
    by (auto simp: admit_slot.simps [of t d] split: if_splits)
  then obtain m b rest where sl: "slots d = (m, b) # rest" by (cases "slots d") auto
  show ?case
  proof (cases "t \<le> m")
    case True
    with sl full show ?thesis by auto
  next
    case False
    then have "\<not> fst (admit_slot t (snd (remove_slot_state m d)))"
      using 1(3) full sl by (auto simp: admit_slot.simps [of t d])
    with 1 full sl False obtain k where "t \<le> k" "k \<in> fst ` set (slots (snd (remove_slot_state m d)))"
      by (metis (no_types, lifting) list.simps(5) remove_slot_state_stores sl)
    moreover have "set (slots (snd (remove_slot_state m d))) \<subseteq> set (slots d)"
      by (cases "map_of (slots d) m")
        (auto simp: remove_slot_state_None remove_slot_state_Some bt_remove_def)
    ultimately show ?thesis using full by auto
  qed
qed

section \<open>Removing a coding set\<close>

lemma remove_coding_set_stores:
  "stores_ok d \<Longrightarrow> stores_ok (remove_coding_set slot fec d)"
  by (rule stores_okI)
    (auto simp: remove_coding_set_def store_simps stores_okD split: option.splits if_splits
      dest: stores_okD(5))

lemma remove_coding_set_held:
  "stores_ok d \<Longrightarrow> map_of (coding d) (slot, fec) = Some cs \<Longrightarrow>
     held_shreds (remove_coding_set slot fec d) + set_len cs = held_shreds d"
  using bt.weight_del [of "coding d" set_len "(slot, fec)"]
  by (simp add: held_shreds_def remove_coding_set_def stores_okD(2))

lemma remove_coding_set_counted:
  "stores_ok d \<Longrightarrow> buffered_shreds d = held_shreds d \<Longrightarrow>
     buffered_shreds (remove_coding_set slot fec d) = held_shreds (remove_coding_set slot fec d)"
  using remove_coding_set_held [of d slot fec]
  by (cases "map_of (coding d) (slot, fec)") (auto simp: remove_coding_set_def)

lemma remove_coding_set_frame [simp]:
  "slots (remove_coding_set slot fec d) = slots d"
  "config (remove_coding_set slot fec d) = config d"
  "stats (remove_coding_set slot fec d) = stats d"
  "forward_watermark (remove_coding_set slot fec d) = forward_watermark d"
  "slots_bounded (remove_coding_set slot fec d) = slots_bounded d"
  by (simp_all add: remove_coding_set_def slots_bounded_def split: option.split)

lemma remove_coding_set_held_le: "stores_ok d \<Longrightarrow> held_shreds (remove_coding_set slot fec d) \<le> held_shreds d"
  using remove_coding_set_held [of d slot fec]
  by (cases "map_of (coding d) (slot, fec)") (auto simp: remove_coding_set_def)

section \<open>The cap on buffered shreds\<close>

lemma min_by_key_None: "min_by_key key xs = None \<longleftrightarrow> xs = []"
  by (cases xs) (auto split: option.splits)

lemma min_by_key_Some: "min_by_key key xs = Some x \<Longrightarrow> x \<in> set xs \<and> (\<forall>y \<in> set xs. key x \<le> key y)"
proof (induction xs arbitrary: x)
  case (Cons a xs)
  then show ?case
    by (cases "min_by_key key xs")
      (auto split: if_splits simp: min_by_key_None not_less dest!: Cons.IH intro: order_trans less_imp_le)
qed simp

lemma oldest_slot_Some:
  assumes "stores_ok d" "oldest_slot d = Some s"
  shows "\<exists>b. map_of (slots d) s = Some b \<and> \<not> sb_terminal_complete b \<and>
    (\<forall>s' b'. map_of (slots d) s' = Some b' \<longrightarrow> \<not> sb_terminal_complete b' \<longrightarrow>
       (sb_last_activity b, s) \<le> (sb_last_activity b', s'))"
proof -
  obtain b where m: "min_by_key (\<lambda>(slot, buffer). (sb_last_activity buffer, slot))
     (filter (\<lambda>(slot, buffer). \<not> sb_terminal_complete buffer) (slots d)) = Some (s, b)"
    using assms(2) by (auto simp: oldest_slot_def)
  note min = min_by_key_Some [OF m]
  have "map_of (slots d) s = Some b"
    using min bt_ok_distinct [OF stores_okD(1) [OF assms(1)]] by (auto intro: map_of_is_SomeI)
  moreover have "(sb_last_activity b, s) \<le> (sb_last_activity b', s')"
    if "map_of (slots d) s' = Some b'" "\<not> sb_terminal_complete b'" for s' b'
  proof -
    have "(s', b') \<in> set (filter (\<lambda>(slot, buffer). \<not> sb_terminal_complete buffer) (slots d))"
      using that by (auto dest!: map_of_SomeD)
    with min show ?thesis by fastforce
  qed
  moreover have "\<not> sb_terminal_complete b" using min by simp
  ultimately show ?thesis by blast
qed

lemma oldest_slot_None: "oldest_slot d = None \<Longrightarrow> map_of (slots d) s = Some b \<Longrightarrow> sb_terminal_complete b"
  by (auto simp: oldest_slot_def min_by_key_None filter_empty_conv dest: map_of_SomeD)

lemma all_terminal_holds_nothing:
  assumes ok: "stores_ok d" and all: "\<And>s b. map_of (slots d) s = Some b \<Longrightarrow> sb_terminal_complete b"
  shows "held_shreds d = 0"
proof -
  have "data_len b = 0" if "(s, b) \<in> set (slots d)" for s b
  proof -
    have "map_of (slots d) s = Some b"
      using that bt_ok_distinct [OF stores_okD(1) [OF ok]] by simp
    then show ?thesis using all stores_okD(3) [OF ok] by (fastforce simp: buffer_ok_def)
  qed
  then have "weight_of data_len (slots d) = 0" by (auto simp: weight_of_def)
  moreover have "coding d = []"
  proof (rule ccontr)
    assume "coding d \<noteq> []"
    then obtain s f cs rest where c: "coding d = ((s, f), cs) # rest"
      by (metis list.exhaust prod.exhaust)
    then have "map_of (coding d) (s, f) = Some cs" by simp
    then obtain b where "map_of (slots d) s = Some b" "\<not> sb_terminal_complete b"
      using stores_okD(5) [OF ok] by blast
    with all show False by blast
  qed
  ultimately show ?thesis by (simp add: held_shreds_def)
qed

lemma enforce_buffer_limit_keeps:
  assumes "P d" and "\<And>s e. P e \<Longrightarrow> P (snd (remove_slot_state s e))"
  shows "P (enforce_buffer_limit l d)"
  using assms(1)
proof (induction l d rule: enforce_buffer_limit.induct)
  case (1 l d)
  show ?case
  proof (cases "buffered_shreds d > l \<and> oldest_slot d \<noteq> None")
    case True
    then obtain s where s: "oldest_slot d = Some s" by auto
    obtain r d' where r: "remove_slot_state s d = (r, d')" by (cases "remove_slot_state s d")
    then have "P d'" using assms(2) [OF 1(2), of s] by simp
    with 1 True s r show ?thesis
      by (cases r) (auto simp: enforce_buffer_limit.simps [of l d])
  next
    case False
    with 1(2) show ?thesis by (auto simp: enforce_buffer_limit.simps [of l d])
  qed
qed

lemma enforce_buffer_limit_frame [simp]:
  "config (enforce_buffer_limit l d) = config d"
  "stats (enforce_buffer_limit l d) = stats d"
  "forward_watermark (enforce_buffer_limit l d) = forward_watermark d"
  using enforce_buffer_limit_keeps [where P = "\<lambda>e. config e = config d" and d = d and l = l]
    enforce_buffer_limit_keeps [where P = "\<lambda>e. stats e = stats d" and d = d and l = l]
    enforce_buffer_limit_keeps [where P = "\<lambda>e. forward_watermark e = forward_watermark d" and d = d and l = l]
  by simp_all

definition counted :: "'c decoder \<Rightarrow> bool" where
  "counted d \<longleftrightarrow> stores_ok d \<and> buffered_shreds d = held_shreds d \<and> held_shreds d \<le> usize_max"

lemma remove_slot_state_counted_inv: "counted d \<Longrightarrow> counted (snd (remove_slot_state s d))"
  using remove_slot_state_held_le [of d s]
  by (auto simp: counted_def intro: remove_slot_state_stores remove_slot_state_counted)

lemma enforce_buffer_limit_counted: "counted d \<Longrightarrow> counted (enforce_buffer_limit l d)"
  by (rule enforce_buffer_limit_keeps) (auto intro: remove_slot_state_counted_inv)

lemma enforce_buffer_limit_slots: "slots_bounded d \<Longrightarrow> slots_bounded (enforce_buffer_limit l d)"
  by (rule enforce_buffer_limit_keeps)
    (auto simp: slots_bounded_def intro: order_trans [OF remove_slot_state_length])

lemma enforce_buffer_limit_bound:
  "counted d \<Longrightarrow> buffered_shreds (enforce_buffer_limit l d) \<le> l"
proof (induction l d rule: enforce_buffer_limit.induct)
  case (1 l d)
  show ?case
  proof (cases "buffered_shreds d > l")
    case over: True
    show ?thesis
    proof (cases "oldest_slot d")
      case None
      then have "held_shreds d = 0"
        using 1(2) by (intro all_terminal_holds_nothing) (auto simp: counted_def dest: oldest_slot_None)
      with over 1(2) show ?thesis by (auto simp: counted_def)
    next
      case (Some s)
      then obtain b where "map_of (slots d) s = Some b"
        using oldest_slot_Some [of d s] 1(2) by (auto simp: counted_def)
      then obtain d' where t: "remove_slot_state s d = (True, d')"
        by (cases "remove_slot_state s d") (use remove_slot_state_Some(1) in fastforce)
      then have "counted d'" using remove_slot_state_counted_inv [OF 1(2), of s] by simp
      with 1(1) [OF over Some t [symmetric]] over Some t show ?thesis
        by (simp add: enforce_buffer_limit.simps [of l d])
    qed
  qed (simp add: enforce_buffer_limit.simps [of l d])
qed

lemma enforce_buffer_limit_inv:
  assumes "counted d" "slots_bounded d"
  shows "decoder_inv (enforce_buffer_limit MAX_BUFFERED_SHREDS d)"
  using enforce_buffer_limit_counted [OF assms(1)] enforce_buffer_limit_bound [OF assms(1)]
    enforce_buffer_limit_slots [OF assms(2)]
  by (auto simp: decoder_inv_def counted_def)

lemma enforce_buffer_limit_noop: "buffered_shreds d \<le> l \<Longrightarrow> enforce_buffer_limit l d = d"
  by (simp add: enforce_buffer_limit.simps)

section \<open>Emission and eviction\<close>

lemma note_emitted_frame [simp]:
  "slots (note_emitted bs d) = slots d" "coding (note_emitted bs d) = coding d"
  "config (note_emitted bs d) = config d" "buffered_shreds (note_emitted bs d) = buffered_shreds d"
  "held_shreds (note_emitted bs d) = held_shreds d" "stores_ok (note_emitted bs d) = stores_ok d"
  "slots_bounded (note_emitted bs d) = slots_bounded d"
  by (simp_all add: note_emitted_def Let_def)

lemma foldl_max_ge: "(m::u64) \<le> foldl (\<lambda>m b. max m (f b)) m bs \<and> (\<forall>b \<in> set bs. f b \<le> foldl (\<lambda>m b. max m (f b)) m bs)"
proof (induction bs arbitrary: m)
  case (Cons b bs)
  from Cons [of "max m (f b)"] show ?case by (auto intro: order_trans)
qed simp

lemma remove_slots_inv: "decoder_inv d \<Longrightarrow> decoder_inv (snd (remove_slots ss n d))"
proof (induction ss n d rule: remove_slots.induct)
  case (2 slot rest n d)
  obtain b d' where r: "remove_slot_state slot d = (b, d')" by (cases "remove_slot_state slot d")
  then have "decoder_inv d'" using remove_slot_state_inv [OF 2(2), of slot] by simp
  with 2(1) [OF r [symmetric]] r show ?case by simp
qed simp

lemma remove_slots_config: "config (snd (remove_slots ss n d)) = config d"
proof (induction ss n d rule: remove_slots.induct)
  case (2 slot rest n d)
  obtain b d' where r: "remove_slot_state slot d = (b, d')" by (cases "remove_slot_state slot d")
  then have "config d' = config d" using remove_slot_state_config [of slot d] by simp
  with 2(1) [OF r [symmetric]] r show ?case by simp
qed simp

lemma remove_slots_lookup:
  "stores_ok d \<Longrightarrow> map_of (slots (snd (remove_slots ss n d))) s =
     (if s \<in> set ss then None else map_of (slots d) s)"
proof (induction ss n d rule: remove_slots.induct)
  case (2 slot rest n d)
  obtain b d' where r: "remove_slot_state slot d = (b, d')" by (cases "remove_slot_state slot d")
  then have "stores_ok d'" "map_of (slots d') s = (if s = slot then None else map_of (slots d) s)"
    using remove_slot_state_stores [OF 2(2), of slot] remove_slot_state_lookup [OF 2(2), of slot s] by auto
  with 2(1) [OF r [symmetric]] r show ?case by (cases "s = slot") auto
qed simp

lemma remove_slots_count:
  "stores_ok d \<Longrightarrow> distinct ss \<Longrightarrow> set ss \<subseteq> dom (map_of (slots d)) \<Longrightarrow>
     fst (remove_slots ss n d) = n + length ss"
proof (induction ss n d rule: remove_slots.induct)
  case (2 slot rest n d)
  then obtain buf where buf: "map_of (slots d) slot = Some buf" by auto
  obtain b d' where r: "remove_slot_state slot d = (b, d')" by (cases "remove_slot_state slot d")
  then have b: "b" using remove_slot_state_Some(1) [OF buf] by simp
  have d': "stores_ok d'" "\<And>s. map_of (slots d') s = (if s = slot then None else map_of (slots d) s)"
    using r remove_slot_state_stores [OF 2(2), of slot] remove_slot_state_lookup [OF 2(2), of slot] by auto
  have "set rest \<subseteq> dom (map_of (slots d'))"
    using 2(3,4) by (auto simp: d'(2) dom_def)
  with 2(1) [OF r [symmetric] d'(1)] 2(3) r b show ?case by simp
qed simp

lemma stale_slots_iff:
  assumes "stores_ok d"
  shows "s \<in> set (stale_slots now d) \<longleftrightarrow>
    (\<exists>b. map_of (slots d) s = Some b \<and> \<not> sb_terminal_complete b \<and>
       reassembly_gap_timeout (config d) < now - sb_last_activity b)"
proof -
  have "distinct (map fst (slots d))" using assms by (simp add: bt_ok_distinct stores_okD(1))
  then show ?thesis by (force simp: stale_slots_def map_of_eq_Some_iff)
qed

lemma stale_slots_distinct: "stores_ok d \<Longrightarrow> distinct (stale_slots now d)"
  using bt_ok_distinct [OF stores_okD(1)]
  by (auto simp: stale_slots_def distinct_map intro: inj_on_subset)

end
