(* ===== verification/Shred_Insert.thy ===== *)
theory Shred_Insert
  imports Slot_Buffers "HOL-Library.Monad_Syntax"
begin

text \<open>
  Parsing a datagram and inserting the shred (\<open>parse_udp_packet\<close>, \<open>insert_data_shred\<close>,
  \<open>insert_coding_shred\<close> of \<open>src/shred/reassembler.rs\<close>). A result of \<open>None\<close> is a panic of the
  source (an indexing or \<open>expect\<close> of a slot that is not tracked). The insertions keep
  \<open>stores_ok\<close> and add exactly one to the held shreds when they report a change, and nothing
  otherwise.
\<close>

section \<open>Operations\<close>

definition bump :: "(shred_decoder_stats \<Rightarrow> shred_decoder_stats) \<Rightarrow> 'c decoder \<Rightarrow> 'c decoder" where
  "bump f d = d\<lparr>stats := f (stats d)\<rparr>"

definition parse_with :: "('tx, 'rs, 'c) ledger \<Rightarrow> bytes \<Rightarrow> shred_decode_error + shred" where
  "parse_with L payload =
     (case new_from_serialized_shred L payload of
        Inl e \<Rightarrow> Inl (Parse (Library_Error e))
      | Inr s \<Rightarrow> Inr s)"

definition parse_udp_packet ::
  "('tx, 'rs, 'c) ledger \<Rightarrow> raw_shred_config \<Rightarrow> bytes \<Rightarrow> shred_decode_error + shred" where
  "parse_udp_packet L c packet =
     (if udp_payload_prefix_skip c > 0
      then (if udp_payload_prefix_skip c \<le> length packet
            then parse_with L (drop (udp_payload_prefix_skip c) packet)
            else Inl (Parse (Prefix_Longer_Than_Packet (length packet) (udp_payload_prefix_skip c))))
      else if length packet \<ge> 64 + MERKLE_SHRED_SERIALIZED_LEN \<and> list_all (\<lambda>b. b = 0) (take 64 packet)
      then parse_with L (drop 64 packet)
      else parse_with L packet)"

definition data_shred_of :: "shred \<Rightarrow> data_shred" where
  "data_shred_of s =
     \<lparr>ds_payload = sh_payload s, ds_fec_set_index = sh_fec_set_index s, ds_version = sh_version s,
      ds_variant = merkle_variant_of (sh_payload s), ds_data_complete = sh_data_complete s,
      ds_last_in_slot = sh_last_in_slot s\<rparr>"

definition insert_data_shred :: "u64 \<Rightarrow> shred \<Rightarrow> 'c decoder \<Rightarrow> (bool \<times> 'c decoder) option" where
  "insert_data_shred slot s d =
     (case map_of (slots d) slot of
        None \<Rightarrow> None
      | Some buffer \<Rightarrow>
          if sh_index s < sb_next_data_index buffer
          then Some (False, bump (duplicate_shreds_update ((+) 1)) d)
          else
            (case map_of (sb_data buffer) (sh_index s) of
               None \<Rightarrow>
                 Some (True, d\<lparr>
                   slots := bt_insert slot
                     (buffer\<lparr>sb_data := bt_insert (sh_index s) (data_shred_of s) (sb_data buffer)\<rparr>) (slots d),
                   buffered_shreds := sat_add (buffered_shreds d) 1\<rparr>)
             | Some old \<Rightarrow>
                 if ds_payload old = sh_payload s
                 then Some (False, bump (duplicate_shreds_update ((+) 1)) d)
                 else Some (False, bump (conflicting_shreds_update ((+) 1)) d)))"

definition new_coding_set :: "shred \<Rightarrow> u16 \<Rightarrow> u16 \<Rightarrow> u32 \<Rightarrow> merkle_variant \<Rightarrow> hash \<Rightarrow> coding_set" where
  "new_coding_set s num_data num_coding first variant root =
     \<lparr>cs_shreds = [], cs_num_data_shreds = unat num_data, cs_num_coding_shreds = unat num_coding,
      cs_first_coding_index = first, cs_version = sh_version s, cs_variant = variant,
      cs_merkle_root = root, cs_recovery_failed = False\<rparr>"

definition set_matches :: "coding_set \<Rightarrow> shred \<Rightarrow> u16 \<Rightarrow> u16 \<Rightarrow> u32 \<Rightarrow> merkle_variant \<Rightarrow> hash \<Rightarrow> bool" where
  "set_matches cs s num_data num_coding first variant root \<longleftrightarrow>
     cs_num_data_shreds cs = unat num_data \<and> cs_num_coding_shreds cs = unat num_coding \<and>
     cs_first_coding_index cs = first \<and> cs_version cs = sh_version s \<and>
     cs_variant cs = variant \<and> cs_merkle_root cs = root"

text \<open>The part of \<open>insert_coding_shred\<close> that works on the set, once the header is accepted.\<close>

definition add_to_coding_set ::
  "u64 \<Rightarrow> u32 \<Rightarrow> shred \<Rightarrow> u16 \<Rightarrow> u16 \<Rightarrow> u32 \<Rightarrow> merkle_variant \<Rightarrow> hash \<Rightarrow> 'c decoder \<Rightarrow> bool \<times> 'c decoder" where
  "add_to_coding_set slot fec_set s num_data num_coding first variant root d =
     (let key = (slot, fec_set);
          invalid = (\<lambda>e. (False, bump (invalid_fec_shreds_update ((+) 1)) e));
          fresh = new_coding_set s num_data num_coding first variant root;
          (cs, d) = (case map_of (coding d) key of
                       Some cs \<Rightarrow> (cs, d)
                     | None \<Rightarrow> (fresh, d\<lparr>coding := bt_insert key fresh (coding d)\<rparr>))
      in if \<not> set_matches cs s num_data num_coding first variant root then invalid d
         else case map_of (cs_shreds cs) (sh_id s) of
           Some existing \<Rightarrow>
             if existing = s then (False, bump (duplicate_shreds_update ((+) 1)) d)
             else (False, bump (conflicting_shreds_update ((+) 1)) d)
         | None \<Rightarrow>
             if cs_shreds cs \<noteq> [] \<and> sh_signature (snd (hd (cs_shreds cs))) \<noteq> sh_signature s
             then invalid d
             else (True, d\<lparr>
                coding := bt_insert key (cs\<lparr>cs_shreds := AList.update (sh_id s) s (cs_shreds cs)\<rparr>) (coding d),
                buffered_shreds := sat_add (buffered_shreds d) 1\<rparr>))"

definition insert_coding_shred :: "u64 \<Rightarrow> u32 \<Rightarrow> shred \<Rightarrow> 'c decoder \<Rightarrow> (bool \<times> 'c decoder) option" where
  "insert_coding_shred slot fec_set s d =
     (let invalid = Some (False, bump (invalid_fec_shreds_update ((+) 1)) d)
      in case coding_header s of
        None \<Rightarrow> invalid
      | Some (num_data, num_coding, position) \<Rightarrow>
          (case checked_sub (sh_index s) (ucast position) of
             None \<Rightarrow> invalid
           | Some first_coding_index \<Rightarrow>
               if num_data = 0 \<or> num_coding = 0 \<or>
                  (case usize_checked_add (unat num_data) (unat num_coding) of
                     None \<Rightarrow> True | Some count \<Rightarrow> count > MAX_SHREDS_PER_FEC_SET) \<or>
                  position \<ge> num_coding
               then invalid
               else if checked_add fec_set (ucast num_data) = None then invalid
               else case map_of (slots d) slot of
                 None \<Rightarrow> None
               | Some buffer \<Rightarrow>
                   if sb_next_data_index buffer > fec_set
                   then Some (False, bump (duplicate_shreds_update ((+) 1)) d)
                   else case merkle_variant_of (sh_payload s) of
                     None \<Rightarrow> invalid
                   | Some variant \<Rightarrow>
                       if \<not> mv_code variant then invalid
                       else case sh_merkle_root s of
                         None \<Rightarrow> invalid
                       | Some root \<Rightarrow>
                           Some (add_to_coding_set slot fec_set s num_data num_coding
                             first_coding_index variant root d)))"

section \<open>Lemmas\<close>

lemma bump_frame [simp]:
  "slots (bump f d) = slots d" "coding (bump f d) = coding d" "config (bump f d) = config d"
  "buffered_shreds (bump f d) = buffered_shreds d" "merkle_rs_cache (bump f d) = merkle_rs_cache d"
  "forward_watermark (bump f d) = forward_watermark d" "stats (bump f d) = f (stats d)"
  "stores_ok (bump f d) = stores_ok d" "held_shreds (bump f d) = held_shreds d"
  "slots_bounded (bump f d) = slots_bounded d" "decoder_inv (bump f d) = decoder_inv d"
  "counted (bump f d) = counted d"
  by (simp_all add: bump_def counted_def)

text \<open>Replacing the buffer of a tracked slot.\<close>

lemma replace_buffer_stores:
  assumes ok: "stores_ok d" and old: "map_of (slots d) slot = Some b"
    and new: "buffer_ok b'" and live: "sb_terminal_complete b' \<Longrightarrow> sb_terminal_complete b"
  shows "stores_ok (d\<lparr>slots := bt_insert slot b' (slots d), buffered_shreds := n\<rparr>)"
proof (rule stores_okI)
  fix s f cs
  assume "map_of (coding (d\<lparr>slots := bt_insert slot b' (slots d), buffered_shreds := n\<rparr>)) (s, f) = Some cs"
  then have cs: "map_of (coding d) (s, f) = Some cs" by simp
  then show "set_ok f cs" by (rule stores_okD(4) [OF ok])
  from stores_okD(5) [OF ok cs] obtain c where "map_of (slots d) s = Some c" "\<not> sb_terminal_complete c"
    by blast
  with old live show "\<exists>b. map_of (slots (d\<lparr>slots := bt_insert slot b' (slots d), buffered_shreds := n\<rparr>)) s
      = Some b \<and> \<not> sb_terminal_complete b"
    by (auto simp: store_simps stores_okD(1) [OF ok])
qed (use ok new in \<open>auto simp: store_simps stores_okD split: if_splits\<close>)

lemma buffer_ok_insert:
  assumes "buffer_ok b" "sb_next_data_index b \<le> i" "i \<noteq> - 1" "\<not> sb_terminal_complete b"
  shows "buffer_ok (b\<lparr>sb_data := bt_insert i x (sb_data b)\<rparr>)"
  using assms by (auto simp: buffer_ok_def store_simps split: if_splits)

lemma held_replace_buffer:
  "bt_ok (slots d) \<Longrightarrow> map_of (slots d) slot = Some b \<Longrightarrow>
     held_shreds (d\<lparr>slots := bt_insert slot b' (slots d)\<rparr>) + data_len b = held_shreds d + data_len b'"
  using bt.weight_put [of "slots d" data_len slot b'] by (simp add: held_shreds_def)

lemma length_bt_insert_fresh: "bt_ok m \<Longrightarrow> map_of m k = None \<Longrightarrow> length (bt_insert k v m) = Suc (length m)"
  using bt.weight_put_fresh [of m k "\<lambda>_. Suc 0" v] by (simp add: weight_of_one)

lemma length_bt_insert_same: "bt_ok m \<Longrightarrow> map_of m k = Some u \<Longrightarrow> length (bt_insert k v m) = length m"
  using bt.weight_put_same [of m k u "\<lambda>_. Suc 0" v] by (simp add: weight_of_one)

lemma insert_data_shred_cases:
  assumes "insert_data_shred slot s d = Some (changed, d')"
  obtains (kept) f where "\<not> changed" "d' = bump f d"
    | (added) b where "changed" "map_of (slots d) slot = Some b" "sb_next_data_index b \<le> sh_index s"
        "map_of (sb_data b) (sh_index s) = None"
        "d' = d\<lparr>slots := bt_insert slot
                  (b\<lparr>sb_data := bt_insert (sh_index s) (data_shred_of s) (sb_data b)\<rparr>) (slots d),
                buffered_shreds := sat_add (buffered_shreds d) 1\<rparr>"
proof -
  obtain b where b: "map_of (slots d) slot = Some b"
    using assms by (auto simp: insert_data_shred_def split: option.splits)
  show thesis
  proof (cases "\<not> sh_index s < sb_next_data_index b \<and> map_of (sb_data b) (sh_index s) = None")
    case True
    with assms b show thesis by (intro added) (auto simp: insert_data_shred_def)
  next
    case False
    with assms b show thesis by (auto simp: insert_data_shred_def split: if_splits option.splits intro: kept)
  qed
qed

lemma insert_data_shred_ok:
  assumes ok: "stores_ok d" and ins: "insert_data_shred slot s d = Some (changed, d')"
    and live: "\<And>b. map_of (slots d) slot = Some b \<Longrightarrow> \<not> sb_terminal_complete b"
    and idx: "sh_index s \<noteq> - 1"
  shows "stores_ok d' \<and> held_shreds d' = held_shreds d + of_bool changed \<and>
    length (slots d') = length (slots d)"
  using ins
proof (cases rule: insert_data_shred_cases)
  case kept
  with ok show ?thesis by simp
next
  case (added b)
  let ?b = "b\<lparr>sb_data := bt_insert (sh_index s) (data_shred_of s) (sb_data b)\<rparr>"
  have b: "buffer_ok b" using added(2) by (rule stores_okD(3) [OF ok])
  then have new: "buffer_ok ?b" using added idx live by (intro buffer_ok_insert) auto
  have "data_len ?b = Suc (data_len b)"
    using b added(4) by (simp add: buffer_ok_def length_bt_insert_fresh)
  then have "held_shreds (d\<lparr>slots := bt_insert slot ?b (slots d)\<rparr>) = Suc (held_shreds d)"
    using held_replace_buffer [OF stores_okD(1) [OF ok] added(2), of ?b] by simp
  moreover have "held_shreds d' = held_shreds (d\<lparr>slots := bt_insert slot ?b (slots d)\<rparr>)"
    by (simp add: added(5) held_shreds_def)
  moreover have "stores_ok d'"
    unfolding added(5) using ok added(2) new by (rule replace_buffer_stores) simp
  moreover have "length (slots d') = length (slots d)"
    using length_bt_insert_same [OF stores_okD(1) [OF ok] added(2)] by (simp add: added(5))
  ultimately show ?thesis using added(1) by simp
qed

lemma insert_data_shred_frame:
  assumes "insert_data_shred slot s d = Some (changed, d')"
  shows "config d' = config d \<and> coding d' = coding d \<and> forward_watermark d' = forward_watermark d \<and>
    (\<not> changed \<longrightarrow> slots d' = slots d) \<and>
    buffered_shreds d' = (if changed then sat_add (buffered_shreds d) 1 else buffered_shreds d)"
  using assms by (cases rule: insert_data_shred_cases) (simp_all del: One_nat_def)

text \<open>Adding a coding shred: either a counter moved, or the set grew by this shred.\<close>

lemma add_to_coding_set_cases:
  assumes "add_to_coding_set slot fec s nd nc first v root d = (changed, d')"
    and ok: "bt_ok (coding d)"
  obtains (kept) f cs where "\<not> changed" "d' = bump f d" "map_of (coding d) (slot, fec) = Some cs"
    | (fresh) cs where "changed" "map_of (coding d) (slot, fec) = None"
        "cs = (new_coding_set s nd nc first v root)\<lparr>cs_shreds := [(sh_id s, s)]\<rparr>"
        "d' = d\<lparr>coding := bt_insert (slot, fec) cs (coding d),
                buffered_shreds := sat_add (buffered_shreds d) 1\<rparr>"
    | (grown) cs where "changed" "map_of (coding d) (slot, fec) = Some cs"
        "set_matches cs s nd nc first v root"
        "map_of (cs_shreds cs) (sh_id s) = None"
        "cs_shreds cs \<noteq> [] \<longrightarrow> sh_signature (snd (hd (cs_shreds cs))) = sh_signature s"
        "d' = d\<lparr>coding := bt_insert (slot, fec) (cs\<lparr>cs_shreds := cs_shreds cs @ [(sh_id s, s)]\<rparr>) (coding d),
                buffered_shreds := sat_add (buffered_shreds d) 1\<rparr>"
proof (cases "map_of (coding d) (slot, fec)")
  case None
  have twice: "bt_insert k y (bt_insert k x m) = bt_insert k y m" for k x y and m :: "(u64 \<times> u32, coding_set) btree"
    by (induction k x m rule: bt_insert.induct) auto
  from None assms(1) show ?thesis
    by (intro fresh) (auto simp: add_to_coding_set_def Let_def new_coding_set_def set_matches_def twice)
next
  case (Some cs)
  have upd: "map_of m k = None \<Longrightarrow> AList.update k x m = m @ [(k, x)]" for m k and x :: shred
    by (induction m) auto
  from Some assms(1) show ?thesis
    by (auto simp: add_to_coding_set_def Let_def upd split: if_splits option.splits intro: kept grown)
qed

lemma set_coding_stores:
  assumes ok: "stores_ok d" and cs: "set_ok fec cs"
    and live: "map_of (slots d) slot = Some b" "\<not> sb_terminal_complete b"
  shows "stores_ok (d\<lparr>coding := bt_insert (slot, fec) cs (coding d), buffered_shreds := n\<rparr>)"
  by (rule stores_okI)
    (use assms in \<open>auto simp: store_simps stores_okD split: if_splits dest: stores_okD(5)\<close>)

lemma add_to_coding_set_ok:
  assumes ok: "stores_ok d" and add: "add_to_coding_set slot fec s nd nc first v root d = (changed, d')"
    and live: "map_of (slots d) slot = Some b" "\<not> sb_terminal_complete b"
    and bounds: "nd \<noteq> 0" "nc \<noteq> 0" "unat nd + unat nc \<le> MAX_SHREDS_PER_FEC_SET" "unat fec + unat nd < 2 ^ 32"
  shows "stores_ok d' \<and> held_shreds d' = held_shreds d + of_bool changed"
  using add stores_okD(2) [OF ok]
proof (cases rule: add_to_coding_set_cases)
  case kept
  with ok show ?thesis by simp
next
  case (fresh cs)
  have "set_ok fec cs"
    using bounds by (simp add: fresh(3) set_ok_def new_coding_set_def unat_gt_0)
  then have "stores_ok d'" unfolding fresh(4) by (intro set_coding_stores [OF ok _ live])
  moreover have "weight_of set_len (bt_insert (slot, fec) cs (coding d)) = Suc (weight_of set_len (coding d))"
    using bt.weight_put_fresh [OF stores_okD(2) [OF ok] fresh(2), of set_len cs] by (simp add: fresh(3))
  ultimately show ?thesis using fresh(1,4) by (simp add: held_shreds_def)
next
  case (grown cs)
  let ?cs = "cs\<lparr>cs_shreds := cs_shreds cs @ [(sh_id s, s)]\<rparr>"
  have old: "set_ok fec cs" using grown(2) by (rule stores_okD(4) [OF ok])
  then obtain sig where ne: "cs_shreds cs \<noteq> []" and sig: "\<forall>e \<in> set (cs_shreds cs). sh_signature (snd e) = sig"
    by (auto simp: set_ok_def)
  then have "sh_signature s = sig" using grown(5) hd_in_set [OF ne] by metis
  with sig have "\<forall>e \<in> set (cs_shreds ?cs). sh_signature (snd e) = sig" by simp
  then have "set_ok fec ?cs"
    using old grown(4) unfolding set_ok_def by (auto simp: map_of_eq_None_iff)
  then have "stores_ok d'" unfolding grown(6) by (intro set_coding_stores [OF ok _ live])
  moreover have "weight_of set_len (bt_insert (slot, fec) ?cs (coding d)) = Suc (weight_of set_len (coding d))"
    using bt.weight_put [OF stores_okD(2) [OF ok], of set_len "(slot, fec)" ?cs] grown(2) by simp
  ultimately show ?thesis using grown(1,6) by (simp add: held_shreds_def)
qed

lemma insert_coding_shred_cases:
  assumes "insert_coding_shred slot fec s d = Some (changed, d')"
  obtains (kept) f where "\<not> changed" "d' = bump f d"
    | (set) nd nc first v root b where "add_to_coding_set slot fec s nd nc first v root d = (changed, d')"
        "map_of (slots d) slot = Some b" "sb_next_data_index b \<le> fec"
        "nd \<noteq> 0" "nc \<noteq> 0" "unat nd + unat nc \<le> MAX_SHREDS_PER_FEC_SET" "unat fec + unat nd < 2 ^ 32"
proof -
  have cast: "unat (ucast (n :: u16) :: u32) = unat n" for n
    using unsigned_less [where w = n and 'a = nat]
    by (simp add: unsigned_ucast_eq take_bit_nat_eq_self)
  have "(\<not> changed \<and> (\<exists>f. d' = bump f d)) \<or>
    (\<exists>nd nc first v root b. add_to_coding_set slot fec s nd nc first v root d = (changed, d') \<and>
       map_of (slots d) slot = Some b \<and> sb_next_data_index b \<le> fec \<and> nd \<noteq> 0 \<and> nc \<noteq> 0 \<and>
       unat nd + unat nc \<le> MAX_SHREDS_PER_FEC_SET \<and> unat fec + unat nd < 2 ^ 32)"
    using assms unfolding insert_coding_shred_def Let_def checked_add_def cast usize_checked_add_def
    by (simp split: option.split_asm if_split_asm prod.split_asm) (blast | (simp add: not_less not_le; blast))+
  then show ?thesis using kept set by blast
qed

lemma insert_coding_shred_ok:
  assumes ok: "stores_ok d" and ins: "insert_coding_shred slot fec s d = Some (changed, d')"
    and live: "\<And>b. map_of (slots d) slot = Some b \<Longrightarrow> \<not> sb_terminal_complete b"
  shows "stores_ok d' \<and> held_shreds d' = held_shreds d + of_bool changed"
  using ins
proof (cases rule: insert_coding_shred_cases)
  case kept
  with ok show ?thesis by simp
next
  case set
  with live show ?thesis by (intro add_to_coding_set_ok [OF ok]) auto
qed

lemma add_to_coding_set_frame:
  assumes "add_to_coding_set slot fec s nd nc first v root d = (changed, d')" "bt_ok (coding d)"
  shows "config d' = config d \<and> slots d' = slots d \<and> forward_watermark d' = forward_watermark d \<and>
    buffered_shreds d' = (if changed then sat_add (buffered_shreds d) 1 else buffered_shreds d) \<and>
    (\<not> changed \<longrightarrow> coding d' = coding d)"
  using assms by (cases rule: add_to_coding_set_cases) (simp_all del: One_nat_def)

lemma insert_coding_shred_frame:
  assumes "insert_coding_shred slot fec s d = Some (changed, d')" "bt_ok (coding d)"
  shows "config d' = config d \<and> slots d' = slots d \<and> forward_watermark d' = forward_watermark d \<and>
    buffered_shreds d' = (if changed then sat_add (buffered_shreds d) 1 else buffered_shreds d) \<and>
    (\<not> changed \<longrightarrow> coding d' = coding d)"
  using assms(1)
proof (cases rule: insert_coding_shred_cases)
  case set
  from add_to_coding_set_frame [OF set(1) assms(2)] show ?thesis .
qed simp

lemma insert_data_shred_total: "map_of (slots d) slot = Some b \<Longrightarrow> insert_data_shred slot s d \<noteq> None"
  by (auto simp: insert_data_shred_def Let_def split: option.split)

lemma insert_coding_shred_total: "map_of (slots d) slot = Some b \<Longrightarrow> insert_coding_shred slot fec s d \<noteq> None"
  by (auto simp: insert_coding_shred_def Let_def split: option.split prod.split)

end
