(* ===== verification/Fec_Recovery.thy ===== *)
theory Fec_Recovery
  imports Shred_Insert
begin

text \<open>
  Forward error correction (\<open>recover_merkle_data\<close> and \<open>try_fec_recover\<close> of
  \<open>src/shred/reassembler.rs\<close>). The present shards are placed, the missing ones reconstructed by
  the external coder, the Merkle root of the result is compared with the root the coding
  shreds carry, and each missing data shred is rebuilt and checked before it is inserted.
  \<open>Err(())\<close> is \<open>None\<close>. A hash map of coding shreds is iterated in insertion order.
\<close>

unbundle bit_operations_syntax

section \<open>Placing the present shards\<close>

definition ok_if :: "bool \<Rightarrow> unit option" where
  "ok_if b = (if b then Some () else None)"

text \<open>\<open>shards.get_mut(i).ok_or(())?\<close>, refuse an occupied place, then store.\<close>

definition place_shard :: "nat \<Rightarrow> bytes \<Rightarrow> bytes option list \<Rightarrow> bytes option list option" where
  "place_shard i shard shards =
     (case get_at i shards of
        None \<Rightarrow> None
      | Some (Some _) \<Rightarrow> None
      | Some None \<Rightarrow> Some (shards[i := Some shard]))"

fun place_coding :: "signature \<Rightarrow> u16 \<Rightarrow> u32 \<Rightarrow> merkle_variant \<Rightarrow> hash \<Rightarrow> bytes option \<Rightarrow> nat \<Rightarrow> nat
    \<Rightarrow> shred list \<Rightarrow> bytes option list \<Rightarrow> bytes option list option" where
  "place_coding sig version fec_set variant root chained shard_len num_data [] shards = Some shards"
| "place_coding sig version fec_set variant root chained shard_len num_data (s # rest) shards =
     do {
       ok_if (sh_signature s = sig \<and> sh_version s = version \<and> sh_fec_set_index s = fec_set \<and>
              merkle_variant_of (sh_payload s) = Some variant \<and> sh_merkle_root s = Some root);
       ok_if (mv_chained variant \<longrightarrow>
              get_range (SHRED_CODE_HEADER_LEN + shard_len)
                (SHRED_CODE_HEADER_LEN + shard_len + MERKLE_ROOT_LEN) (sh_payload s) = chained);
       (_, _, position) \<leftarrow> coding_header s;
       shard \<leftarrow> get_range SHRED_CODE_HEADER_LEN (SHRED_CODE_HEADER_LEN + shard_len) (sh_payload s);
       shard_index \<leftarrow> usize_checked_add num_data (unat position);
       shards' \<leftarrow> place_shard shard_index shard shards;
       place_coding sig version fec_set variant root chained shard_len num_data rest shards'
     }"

fun place_data :: "('tx, 'rs, 'c) ledger \<Rightarrow> u64 \<Rightarrow> signature \<Rightarrow> u16 \<Rightarrow> u32 \<Rightarrow> u32 \<Rightarrow> merkle_variant
    \<Rightarrow> bytes option \<Rightarrow> nat \<Rightarrow> data_shred list \<Rightarrow> bytes option list \<Rightarrow> bytes option list option" where
  "place_data L slot sig version fec_set fec_end variant chained shard_len [] shards = Some shards"
| "place_data L slot sig version fec_set fec_end variant chained shard_len (data # rest) shards =
     (if ds_fec_set_index data \<noteq> fec_set
      then place_data L slot sig version fec_set fec_end variant chained shard_len rest shards
      else do {
        index \<leftarrow> layout_index L (ds_payload data);
        if index \<ge> fec_end
        then place_data L slot sig version fec_set fec_end variant chained shard_len rest shards
        else do {
          ok_if (layout_slot L (ds_payload data) = Some slot \<and> ds_version data = version \<and>
                 ds_fec_set_index data = fec_set \<and> ds_variant data = Some (as_data variant));
          ok_if (mv_chained variant \<longrightarrow>
                 get_range (RETRANSMITTER_SIGNATURE_LEN + shard_len)
                   (RETRANSMITTER_SIGNATURE_LEN + shard_len + MERKLE_ROOT_LEN) (ds_payload data) = chained);
          ok_if (get_range 0 RETRANSMITTER_SIGNATURE_LEN (ds_payload data) = Some sig);
          position \<leftarrow> checked_sub index fec_set;
          shard \<leftarrow> get_range RETRANSMITTER_SIGNATURE_LEN (RETRANSMITTER_SIGNATURE_LEN + shard_len)
                    (ds_payload data);
          shards' \<leftarrow> place_shard (unat position) shard shards;
          place_data L slot sig version fec_set fec_end variant chained shard_len rest shards'
        }
      })"

section \<open>Rebuilding a data shred\<close>

text \<open>\<open>payload[a..b].copy_from_slice(new)\<close> on a buffer the range fits in.\<close>

definition overwrite :: "nat \<Rightarrow> bytes \<Rightarrow> bytes \<Rightarrow> bytes" where
  "overwrite a new xs = take a xs @ new @ drop (a + length new) xs"

definition rebuilt_payload :: "signature \<Rightarrow> bytes \<Rightarrow> bytes option \<Rightarrow> bytes" where
  "rebuilt_payload sig shard chained =
     (let p = overwrite 0 sig (replicate MERKLE_SHRED_SERIALIZED_LEN 0);
          p = overwrite RETRANSMITTER_SIGNATURE_LEN shard p
      in case chained of
           None \<Rightarrow> p
         | Some root \<Rightarrow> overwrite (RETRANSMITTER_SIGNATURE_LEN + length shard) root p)"

definition rebuild_data_shred :: "('tx, 'rs, 'c) ledger \<Rightarrow> u64 \<Rightarrow> u32 \<Rightarrow> signature \<Rightarrow> u16 \<Rightarrow> merkle_variant
    \<Rightarrow> bytes option \<Rightarrow> nat \<Rightarrow> bytes option list \<Rightarrow> nat \<Rightarrow> recovered_data_shred option" where
  "rebuild_data_shred L slot fec_set sig version variant chained shard_len shards position =
     do {
       taken \<leftarrow> get_at position shards;
       shard \<leftarrow> taken;
       ok_if (length shard = shard_len);
       let payload = rebuilt_payload sig shard chained;
       index \<leftarrow> layout_index L payload;
       expected \<leftarrow> checked_add fec_set (word_of_nat position);
       ok_if (index = expected);
       ok_if (layout_slot L payload = Some slot \<and> merkle_variant_of payload = Some (as_data variant));
       (case new_from_serialized_shred L payload of
          Inl _ \<Rightarrow> None
        | Inr parsed \<Rightarrow> do {
            ok_if (sh_fec_set_index parsed = fec_set \<and> sh_version parsed = version);
            _ \<leftarrow> shred_data_len payload;
            flags \<leftarrow> get_at 85 payload;
            Some \<lparr>rd_index = index, rd_payload = payload, rd_version = version,
                  rd_variant = as_data variant, rd_data_complete = (flags AND 0x40 \<noteq> 0),
                  rd_last_in_slot = (flags AND 0xc0 = 0xc0)\<rparr>
          })
     }"

fun rebuild_missing :: "('tx, 'rs, 'c) ledger \<Rightarrow> u64 \<Rightarrow> u32 \<Rightarrow> signature \<Rightarrow> u16 \<Rightarrow> merkle_variant
    \<Rightarrow> bytes option \<Rightarrow> nat \<Rightarrow> bytes option list \<Rightarrow> nat \<Rightarrow> bool list \<Rightarrow> recovered_data_shred list option" where
  "rebuild_missing L slot fec_set sig version variant chained shard_len shards position [] = Some []"
| "rebuild_missing L slot fec_set sig version variant chained shard_len shards position (was_present # rest) =
     (if was_present
      then rebuild_missing L slot fec_set sig version variant chained shard_len shards (Suc position) rest
      else do {
        r \<leftarrow> rebuild_data_shred L slot fec_set sig version variant chained shard_len shards position;
        rs \<leftarrow> rebuild_missing L slot fec_set sig version variant chained shard_len shards (Suc position) rest;
        Some (r # rs)
      })"

section \<open>Recovery of a set\<close>

text \<open>The coder of the set's shape, from the cache or made and cached. The cache changes on a
  lookup too, so it is returned in every case.\<close>

definition cached_coder :: "('tx, 'rs, 'c) ledger \<Rightarrow> nat \<times> nat \<Rightarrow> 'c \<Rightarrow> 'rs option \<times> 'c" where
  "cached_coder L key cache =
     (case lru_get L cache key of
        (None, c1) \<Rightarrow>
          (case rs_new L (fst key) (snd key) of
             None \<Rightarrow> (None, c1)
           | Some rs \<Rightarrow> lru_get L (lru_put L c1 key rs) key)
      | (Some _, c1) \<Rightarrow> lru_get L c1 key)"

text \<open>Everything up to the cache: the shards as placed, and the values the later steps use.\<close>

definition gather_shards :: "('tx, 'rs, 'c) ledger \<Rightarrow> u64 \<Rightarrow> u32 \<Rightarrow> u32 \<Rightarrow> coding_set \<Rightarrow> slot_buffer option
    \<Rightarrow> (nat \<times> signature \<times> bytes option \<times> bytes option list) option" where
  "gather_shards L slot fec_set fec_end cs buffer =
     do {
       total \<leftarrow> usize_checked_add (cs_num_data_shreds cs) (cs_num_coding_shreds cs);
       shard_len \<leftarrow> erasure_shard_len (cs_variant cs);
       first \<leftarrow> get_at 0 (map snd (cs_shreds cs));
       chained \<leftarrow> (if mv_chained (cs_variant cs)
                   then map_option Some (get_range (SHRED_CODE_HEADER_LEN + shard_len)
                          (SHRED_CODE_HEADER_LEN + shard_len + MERKLE_ROOT_LEN) (sh_payload first))
                   else Some None);
       shards1 \<leftarrow> place_coding (sh_signature first) (cs_version cs) fec_set (cs_variant cs)
                    (cs_merkle_root cs) chained shard_len (cs_num_data_shreds cs)
                    (map snd (cs_shreds cs)) (replicate total None);
       shards2 \<leftarrow> (case buffer of
                     None \<Rightarrow> Some shards1
                   | Some b \<Rightarrow> place_data L slot (sh_signature first) (cs_version cs) fec_set fec_end
                        (cs_variant cs) chained shard_len (map snd (sb_data b)) shards1);
       Some (shard_len, sh_signature first, chained, shards2)
     }"

definition rebuild_from :: "('tx, 'rs, 'c) ledger \<Rightarrow> u64 \<Rightarrow> u32 \<Rightarrow> coding_set \<Rightarrow> nat \<Rightarrow> signature
    \<Rightarrow> bytes option \<Rightarrow> bytes option list \<Rightarrow> 'rs \<Rightarrow> recovered_data_shred list option" where
  "rebuild_from L slot fec_set cs shard_len sig chained placed rs =
     do {
       shards \<leftarrow> rs_reconstruct L rs placed;
       first \<leftarrow> get_at 0 (map snd (cs_shreds cs));
       template \<leftarrow> get_range RETRANSMITTER_SIGNATURE_LEN SHRED_CODE_HEADER_LEN (sh_payload first);
       root \<leftarrow> merkle_root_from_shards (hashv L) shards (cs_num_data_shreds cs)
                 (cs_first_coding_index cs) template chained;
       ok_if (root = cs_merkle_root cs);
       rebuild_missing L slot fec_set sig (cs_version cs) (cs_variant cs) chained shard_len shards 0
         (map (\<lambda>s. s \<noteq> None) (take (cs_num_data_shreds cs) placed))
     }"

definition recover_merkle_data :: "('tx, 'rs, 'c) ledger \<Rightarrow> u64 \<Rightarrow> u32 \<Rightarrow> u32 \<Rightarrow> 'c decoder
    \<Rightarrow> recovered_data_shred list option \<times> 'c decoder" where
  "recover_merkle_data L slot fec_set fec_end d =
     (case map_of (coding d) (slot, fec_set) of
        None \<Rightarrow> (None, d)
      | Some cs \<Rightarrow>
          (case gather_shards L slot fec_set fec_end cs (map_of (slots d) slot) of
             None \<Rightarrow> (None, d)
           | Some (shard_len, sig, chained, placed) \<Rightarrow>
               (case cached_coder L (cs_num_data_shreds cs, cs_num_coding_shreds cs) (merkle_rs_cache d) of
                  (coder, cache) \<Rightarrow>
                    (Option.bind coder (rebuild_from L slot fec_set cs shard_len sig chained placed),
                     d\<lparr>merkle_rs_cache := cache\<rparr>))))"

section \<open>Trying a recovery\<close>

definition fec_data_count :: "('tx, 'rs, 'c) ledger \<Rightarrow> u64 \<Rightarrow> u32 \<Rightarrow> u32 \<Rightarrow> 'c decoder \<Rightarrow> nat" where
  "fec_data_count L slot fec_set fec_end d =
     (case map_of (slots d) slot of
        None \<Rightarrow> 0
      | Some buffer \<Rightarrow>
          length (filter (\<lambda>data. ds_fec_set_index data = fec_set \<and>
             (case layout_index L (ds_payload data) of None \<Rightarrow> False | Some index \<Rightarrow> index < fec_end))
            (map snd (sb_data buffer))))"

definition recovered_shred :: "u32 \<Rightarrow> recovered_data_shred \<Rightarrow> data_shred" where
  "recovered_shred fec_set r =
     \<lparr>ds_payload = rd_payload r, ds_fec_set_index = fec_set, ds_version = rd_version r,
      ds_variant = Some (rd_variant r), ds_data_complete = rd_data_complete r,
      ds_last_in_slot = rd_last_in_slot r\<rparr>"

definition insert_recovered :: "u64 \<Rightarrow> u32 \<Rightarrow> instant \<Rightarrow> bool \<times> 'c decoder \<Rightarrow> recovered_data_shred
    \<Rightarrow> bool \<times> 'c decoder" where
  "insert_recovered slot fec_set now acc r =
     (case acc of (inserted, d) \<Rightarrow>
        (let buffer = (case map_of (slots d) slot of None \<Rightarrow> slot_buffer_new now | Some b \<Rightarrow> b)
               \<lparr>sb_last_activity := now\<rparr>
         in if rd_index r < sb_next_data_index buffer
            then (inserted, d\<lparr>slots := bt_insert slot buffer (slots d)\<rparr>)
            else case map_of (sb_data buffer) (rd_index r) of
              Some _ \<Rightarrow> (inserted, d\<lparr>slots := bt_insert slot buffer (slots d)\<rparr>)
            | None \<Rightarrow>
                (True, bump (fec_recovered_data_shreds_update ((+) 1))
                   (d\<lparr>slots := bt_insert slot
                        (buffer\<lparr>sb_data := bt_insert (rd_index r) (recovered_shred fec_set r) (sb_data buffer)\<rparr>)
                        (slots d),
                      buffered_shreds := sat_add (buffered_shreds d) 1\<rparr>))))"

definition mark_recovery_failed :: "u64 \<Rightarrow> u32 \<Rightarrow> 'c decoder \<Rightarrow> 'c decoder" where
  "mark_recovery_failed slot fec_set d =
     (case map_of (coding d) (slot, fec_set) of
        None \<Rightarrow> d
      | Some cs \<Rightarrow> d\<lparr>coding := bt_insert (slot, fec_set) (cs\<lparr>cs_recovery_failed := True\<rparr>) (coding d)\<rparr>)"

definition finish_recovery :: "('tx, 'rs, 'c) ledger \<Rightarrow> u64 \<Rightarrow> u32 \<Rightarrow> u32 \<Rightarrow> nat \<Rightarrow> instant
    \<Rightarrow> recovered_data_shred list option \<times> 'c decoder \<Rightarrow> bool \<times> 'c decoder" where
  "finish_recovery L slot fec_set fec_end num_data now res =
     (case res of
        (Some recovered, d) \<Rightarrow>
          (case foldl (insert_recovered slot fec_set now) (False, d) recovered of (inserted, d') \<Rightarrow>
             (inserted,
              if fec_data_count L slot fec_set fec_end d' \<ge> num_data
              then remove_coding_set slot fec_set d' else d'))
      | (None, d) \<Rightarrow>
          (False, mark_recovery_failed slot fec_set (bump (fec_recover_failures_update ((+) 1)) d)))"

definition try_fec_recover :: "('tx, 'rs, 'c) ledger \<Rightarrow> u64 \<Rightarrow> u32 \<Rightarrow> instant \<Rightarrow> 'c decoder \<Rightarrow> bool \<times> 'c decoder" where
  "try_fec_recover L slot fec_set now d =
     (case map_of (coding d) (slot, fec_set) of
        None \<Rightarrow> (False, d)
      | Some cs \<Rightarrow>
          if cs_recovery_failed cs then (False, d)
          else case checked_add fec_set (word_of_nat (cs_num_data_shreds cs)) of
            None \<Rightarrow> (False, remove_coding_set slot fec_set (bump (invalid_fec_shreds_update ((+) 1)) d))
          | Some fec_end \<Rightarrow>
              if fec_data_count L slot fec_set fec_end d \<ge> cs_num_data_shreds cs
              then (False, remove_coding_set slot fec_set d)
              else if fec_data_count L slot fec_set fec_end d + set_len cs < cs_num_data_shreds cs
              then (False, d)
              else finish_recovery L slot fec_set fec_end (cs_num_data_shreds cs) now
                (recover_merkle_data L slot fec_set fec_end
                   (bump (fec_recover_attempts_update ((+) 1)) d)))"

section \<open>What a rebuilt shred is\<close>

lemma ok_if_Some [simp]: "ok_if b = Some u \<longleftrightarrow> b"
  by (auto simp: ok_if_def)

lemma ok_if_bind: "Option.bind (ok_if b) f = (if b then f () else None)"
  by (simp add: ok_if_def)

lemma rebuild_data_shred_Some:
  assumes "rebuild_data_shred L slot fec sig version variant chained shard_len shards position = Some r"
  obtains shard where "get_at position shards = Some (Some shard)" "length shard = shard_len"
    "rd_payload r = rebuilt_payload sig shard chained"
    "layout_index L (rd_payload r) = Some (rd_index r)"
    "checked_add fec (word_of_nat position) = Some (rd_index r)"
    "layout_slot L (rd_payload r) = Some slot"
    "merkle_variant_of (rd_payload r) = Some (as_data variant)"
    "\<exists>parsed. new_from_serialized_shred L (rd_payload r) = Inr parsed \<and>
       sh_fec_set_index parsed = fec \<and> sh_version parsed = version"
    "shred_data_len (rd_payload r) \<noteq> None"
    "rd_version r = version" "rd_variant r = as_data variant"
proof -
  obtain shard where shard: "get_at position shards = Some (Some shard)"
    using assms by (auto simp: rebuild_data_shred_def bind_eq_Some_conv)
  let ?p = "rebuilt_payload sig shard chained"
  obtain parsed where parsed: "new_from_serialized_shred L ?p = Inr parsed"
    using assms shard
    by (cases "new_from_serialized_shred L ?p") (auto simp: rebuild_data_shred_def Let_def bind_eq_Some_conv)
  from assms shard parsed show thesis
    by (intro that [of shard]) (auto simp: rebuild_data_shred_def Let_def bind_eq_Some_conv split: if_splits)
qed

lemma rebuild_missing_each:
  "rebuild_missing L slot fec sig version variant chained shard_len shards p present = Some rs \<Longrightarrow>
   r \<in> set rs \<Longrightarrow> \<exists>k < length present. \<not> present ! k \<and>
     rebuild_data_shred L slot fec sig version variant chained shard_len shards (p + k) = Some r"
proof (induction L slot fec sig version variant chained shard_len shards p present
    arbitrary: rs rule: rebuild_missing.induct)
  case (2 L slot fec sig version variant chained shard_len shards p was rest)
  show ?case
  proof (cases was)
    case True
    with 2 obtain k where "k < length rest" "\<not> rest ! k"
      "rebuild_data_shred L slot fec sig version variant chained shard_len shards (Suc p + k) = Some r"
      by auto
    then show ?thesis by (intro exI [of _ "Suc k"]) auto
  next
    case False
    with 2(3) obtain r0 rs0 where
      r0: "rebuild_data_shred L slot fec sig version variant chained shard_len shards p = Some r0"
      and rs0: "rebuild_missing L slot fec sig version variant chained shard_len shards (Suc p) rest = Some rs0"
      and rs: "rs = r0 # rs0"
      by (auto simp: bind_eq_Some_conv)
    show ?thesis
    proof (cases "r = r0")
      case True
      with r0 False show ?thesis by (intro exI [of _ 0]) auto
    next
      case other: False
      with 2(2) [OF False r0 rs0] 2(4) rs obtain k where "k < length rest" "\<not> rest ! k"
        "rebuild_data_shred L slot fec sig version variant chained shard_len shards (Suc p + k) = Some r"
        by auto
      then show ?thesis by (intro exI [of _ "Suc k"]) auto
    qed
  qed
qed simp

lemma rebuild_missing_length:
  "rebuild_missing L slot fec sig version variant chained shard_len shards p present = Some rs \<Longrightarrow>
   length rs = length (filter (\<lambda>b. \<not> b) present)"
  by (induction L slot fec sig version variant chained shard_len shards p present
      arbitrary: rs rule: rebuild_missing.induct)
    (auto simp: bind_eq_Some_conv split: if_splits)

lemma checked_add_position:
  assumes "checked_add (fec :: u32) (word_of_nat k) = Some i" "k < 2 ^ 32"
  shows "unat i = unat fec + k"
  using checked_add_Some [OF assms(1)] assms(2) by (simp add: unat_of_nat take_bit_nat_eq_self)

lemma rebuild_missing_increasing:
  assumes "rebuild_missing L slot fec sig version variant chained shard_len shards p present = Some rs"
    and "p + length present \<le> 2 ^ 32"
  shows "sorted_wrt (<) (map rd_index rs) \<and>
    (\<forall>r \<in> set rs. unat fec + p \<le> unat (rd_index r) \<and> unat (rd_index r) < unat fec + p + length present)"
  using assms
proof (induction L slot fec sig version variant chained shard_len shards p present
    arbitrary: rs rule: rebuild_missing.induct)
  case (2 L slot fec sig version variant chained shard_len shards p was rest)
  show ?case
  proof (cases was)
    case True
    with 2 show ?thesis by fastforce
  next
    case False
    with 2(3) obtain r0 rs0 where
      r0: "rebuild_data_shred L slot fec sig version variant chained shard_len shards p = Some r0"
      and rs0: "rebuild_missing L slot fec sig version variant chained shard_len shards (Suc p) rest = Some rs0"
      and rs: "rs = r0 # rs0"
      by (auto simp: bind_eq_Some_conv)
    have "unat (rd_index r0) = unat fec + p"
      using r0 2(4) by (elim rebuild_data_shred_Some) (auto intro!: checked_add_position)
    then have "\<forall>r \<in> set rs0. rd_index r0 < rd_index r"
      and "sorted_wrt (<) (map rd_index rs0)"
      and "\<forall>r \<in> set rs0. unat fec + p \<le> unat (rd_index r) \<and> unat (rd_index r) < unat fec + p + length (was # rest)"
      using 2(2) [OF False r0 rs0] 2(4) by (fastforce simp: word_less_nat_alt)+
    then show ?thesis
      using \<open>unat (rd_index r0) = unat fec + p\<close> by (simp add: rs)
  qed
qed simp

section \<open>Recovery keeps the state well formed\<close>

lemma recover_merkle_data_frame:
  "recover_merkle_data L slot fec fec_end d = (res, d') \<Longrightarrow> \<exists>c. d' = d\<lparr>merkle_rs_cache := c\<rparr>"
proof -
  have "\<exists>c. d = d\<lparr>merkle_rs_cache := c\<rparr>" by (rule exI [of _ "merkle_rs_cache d"]) simp
  then show "recover_merkle_data L slot fec fec_end d = (res, d') \<Longrightarrow> \<exists>c. d' = d\<lparr>merkle_rs_cache := c\<rparr>"
    by (auto simp: recover_merkle_data_def split: option.splits prod.splits)
qed

lemma recover_merkle_data_Some:
  assumes "recover_merkle_data L slot fec fec_end d = (Some rs, d')"
  obtains cs shard_len sig chained placed coder where
    "map_of (coding d) (slot, fec) = Some cs"
    "gather_shards L slot fec fec_end cs (map_of (slots d) slot) = Some (shard_len, sig, chained, placed)"
    "fst (cached_coder L (cs_num_data_shreds cs, cs_num_coding_shreds cs) (merkle_rs_cache d)) = Some coder"
    "rebuild_from L slot fec cs shard_len sig chained placed coder = Some rs"
  using assms
  by (auto simp: recover_merkle_data_def bind_eq_Some_conv split: option.splits prod.splits)

lemma rebuild_from_Some:
  assumes "rebuild_from L slot fec cs shard_len sig chained placed coder = Some rs"
  obtains shards template where "rs_reconstruct L coder placed = Some shards"
    "merkle_root_from_shards (hashv L) shards (cs_num_data_shreds cs) (cs_first_coding_index cs)
       template chained = Some (cs_merkle_root cs)"
    "rebuild_missing L slot fec sig (cs_version cs) (cs_variant cs) chained shard_len shards 0
       (map (\<lambda>s. s \<noteq> None) (take (cs_num_data_shreds cs) placed)) = Some rs"
  using assms by (auto simp: rebuild_from_def bind_eq_Some_conv split: if_splits)

lemma recover_merkle_data_indices:
  assumes ok: "stores_ok d" and rec: "recover_merkle_data L slot fec fec_end d = (Some rs, d')"
    and cs: "map_of (coding d) (slot, fec) = Some cs"
  shows "sorted_wrt (<) (map rd_index rs) \<and> length rs \<le> cs_num_data_shreds cs \<and>
    (\<forall>r \<in> set rs. unat fec \<le> unat (rd_index r) \<and> unat (rd_index r) < unat fec + cs_num_data_shreds cs)"
proof -
  obtain cs' shard_len sig chained placed coder where
    cs': "map_of (coding d) (slot, fec) = Some cs'" and
    built: "rebuild_from L slot fec cs' shard_len sig chained placed coder = Some rs"
    using recover_merkle_data_Some [OF rec] by metis
  from cs' cs have same: "cs' = cs" by simp
  obtain shards where
    m: "rebuild_missing L slot fec sig (cs_version cs) (cs_variant cs) chained shard_len shards 0
       (map (\<lambda>s. s \<noteq> None) (take (cs_num_data_shreds cs) placed)) = Some rs"
    using rebuild_from_Some [OF built [unfolded same]] by metis
  have nd: "unat fec + cs_num_data_shreds cs < 2 ^ 32"
    using stores_okD(4) [OF ok cs] by (simp add: set_ok_def)
  have "0 + length (map (\<lambda>s. s \<noteq> None) (take (cs_num_data_shreds cs) placed)) \<le> 2 ^ 32"
    using nd by simp
  note inc = rebuild_missing_increasing [OF m this]
  moreover have "length rs \<le> cs_num_data_shreds cs"
    unfolding rebuild_missing_length [OF m] by (rule order_trans [OF length_filter_le]) simp
  ultimately show ?thesis by fastforce
qed

definition live_slot :: "'c decoder \<Rightarrow> u64 \<Rightarrow> bool" where
  "live_slot d slot \<longleftrightarrow> (\<exists>b. map_of (slots d) slot = Some b \<and> \<not> sb_terminal_complete b)"

lemma insert_recovered_ok:
  assumes ok: "stores_ok d" and live: "live_slot d slot" and idx: "rd_index r \<noteq> - 1"
    and res: "insert_recovered slot fec now (ins, d) r = (ins', d')"
  shows "stores_ok d' \<and> live_slot d' slot \<and> held_shreds d' \<le> held_shreds d + 1 \<and>
    length (slots d') = length (slots d) \<and> config d' = config d \<and> coding d' = coding d \<and>
    forward_watermark d' = forward_watermark d \<and>
    (buffered_shreds d = held_shreds d \<longrightarrow> held_shreds d < usize_max \<longrightarrow>
       buffered_shreds d' = held_shreds d')"
proof -
  from live obtain b where b: "map_of (slots d) slot = Some b" "\<not> sb_terminal_complete b"
    by (auto simp: live_slot_def)
  let ?t = "b\<lparr>sb_last_activity := now\<rparr>"
  have bok: "buffer_ok ?t" using stores_okD(3) [OF ok b(1)] by (simp add: buffer_ok_def)
  note btok = stores_okD(1) [OF ok]
  show ?thesis
  proof (cases "rd_index r < sb_next_data_index b \<or> map_of (sb_data b) (rd_index r) \<noteq> None")
    case True
    with res b have d': "d' = d\<lparr>slots := bt_insert slot ?t (slots d), buffered_shreds := buffered_shreds d\<rparr>"
      by (auto simp: insert_recovered_def Let_def split: if_splits)
    have "stores_ok d'" unfolding d' using ok b bok by (intro replace_buffer_stores) auto
    moreover have "held_shreds d' = held_shreds d"
      using held_replace_buffer [OF btok b(1), of ?t] by (simp add: d')
    ultimately show ?thesis
      using b by (simp add: d' live_slot_def store_simps btok length_bt_insert_same [OF btok b(1)])
  next
    case False
    let ?b = "?t\<lparr>sb_data := bt_insert (rd_index r) (recovered_shred fec r) (sb_data b)\<rparr>"
    from False res b have d': "d' = bump (fec_recovered_data_shreds_update ((+) 1))
        (d\<lparr>slots := bt_insert slot ?b (slots d), buffered_shreds := sat_add (buffered_shreds d) 1\<rparr>)"
      by (auto simp: insert_recovered_def Let_def split: if_splits)
    have "buffer_ok (?t\<lparr>sb_data := bt_insert (rd_index r) (recovered_shred fec r) (sb_data ?t)\<rparr>)"
      using bok False idx b by (intro buffer_ok_insert) auto
    then have good: "buffer_ok ?b" by simp
    have "stores_ok (d\<lparr>slots := bt_insert slot ?b (slots d), buffered_shreds := sat_add (buffered_shreds d) 1\<rparr>)"
      by (rule replace_buffer_stores [OF ok b(1) good]) (use b in auto)
    then have "stores_ok d'" by (simp only: d' bump_frame)
    moreover have "data_len ?b = Suc (data_len b)"
      using bok False by (simp add: buffer_ok_def length_bt_insert_fresh)
    then have "held_shreds d' = Suc (held_shreds d)"
      using held_replace_buffer [OF btok b(1), of ?b] by (simp add: d')
    ultimately show ?thesis
      using b by (simp add: d' live_slot_def store_simps btok length_bt_insert_same [OF btok b(1)])
  qed
qed

lemma foldl_insert_recovered_ok:
  assumes "stores_ok d" "live_slot d slot" "\<forall>r \<in> set rs. rd_index r \<noteq> - 1"
    and "foldl (insert_recovered slot fec now) (ins, d) rs = (ins', d')"
  shows "stores_ok d' \<and> live_slot d' slot \<and> held_shreds d' \<le> held_shreds d + length rs \<and>
    length (slots d') = length (slots d) \<and> config d' = config d \<and> coding d' = coding d \<and>
    forward_watermark d' = forward_watermark d \<and>
    (buffered_shreds d = held_shreds d \<longrightarrow> held_shreds d + length rs \<le> usize_max \<longrightarrow>
       buffered_shreds d' = held_shreds d')"
  using assms
proof (induction rs arbitrary: ins d)
  case (Cons r rs)
  obtain i1 d1 where s: "insert_recovered slot fec now (ins, d) r = (i1, d1)"
    by (cases "insert_recovered slot fec now (ins, d) r")
  have step: "rd_index r \<noteq> - 1" using Cons.prems by simp
  note one = insert_recovered_ok [OF Cons.prems(1,2) step s]
  have "foldl (insert_recovered slot fec now) (i1, d1) rs = (ins', d')" using Cons.prems(4) s by simp
  with one Cons.prems(3) Cons.IH [of d1 i1] show ?case by fastforce
qed simp

lemma mark_recovery_failed_ok:
  assumes "stores_ok d"
  shows "stores_ok (mark_recovery_failed slot fec d) \<and>
    held_shreds (mark_recovery_failed slot fec d) = held_shreds d \<and>
    buffered_shreds (mark_recovery_failed slot fec d) = buffered_shreds d \<and>
    slots (mark_recovery_failed slot fec d) = slots d \<and>
    config (mark_recovery_failed slot fec d) = config d \<and>
    forward_watermark (mark_recovery_failed slot fec d) = forward_watermark d"
proof (cases "map_of (coding d) (slot, fec)")
  case (Some cs)
  let ?cs = "cs\<lparr>cs_recovery_failed := True\<rparr>"
  have "set_ok fec ?cs" using stores_okD(4) [OF assms Some] by (simp add: set_ok_def)
  moreover obtain b where "map_of (slots d) slot = Some b" "\<not> sb_terminal_complete b"
    using stores_okD(5) [OF assms Some] by blast
  ultimately have "stores_ok (d\<lparr>coding := bt_insert (slot, fec) ?cs (coding d), buffered_shreds := buffered_shreds d\<rparr>)"
    using assms by (intro set_coding_stores)
  then show ?thesis
    using Some bt.weight_put_same [OF stores_okD(2) [OF assms] Some, of set_len ?cs]
    by (simp add: mark_recovery_failed_def held_shreds_def)
qed (use assms in \<open>simp add: mark_recovery_failed_def\<close>)

definition steady :: "nat \<Rightarrow> u64 \<Rightarrow> 'c decoder \<Rightarrow> 'c decoder \<Rightarrow> bool" where
  "steady n slot d d' \<longleftrightarrow>
     stores_ok d' \<and> live_slot d' slot \<and> held_shreds d' \<le> held_shreds d + n \<and>
     length (slots d') = length (slots d) \<and> config d' = config d \<and>
     forward_watermark d' = forward_watermark d \<and>
     (counted d \<longrightarrow> held_shreds d + n \<le> usize_max \<longrightarrow> counted d')"

lemma steady_refl: "stores_ok d \<Longrightarrow> live_slot d slot \<Longrightarrow> steady n slot d d"
  by (simp add: steady_def)

lemma live_slot_frame [simp]:
  "live_slot (d\<lparr>stats := x\<rparr>) slot = live_slot d slot"
  "live_slot (d\<lparr>merkle_rs_cache := y\<rparr>) slot = live_slot d slot"
  "live_slot (bump f d) slot = live_slot d slot"
  "live_slot (remove_coding_set slot' fec d) slot = live_slot d slot"
  by (simp_all add: live_slot_def)

lemma steady_remove_coding_set:
  "stores_ok d \<Longrightarrow> live_slot d slot \<Longrightarrow> steady n slot d (remove_coding_set slot' fec d)"
  using remove_coding_set_stores [of d slot' fec] remove_coding_set_held_le [of d slot' fec]
    remove_coding_set_counted [of d slot' fec]
  by (auto simp: steady_def counted_def)

lemma steady_trans:
  assumes "steady m slot d d1" "steady n slot d1 d2"
  shows "steady (m + n) slot d d2"
  using assms by (auto simp: steady_def)

lemma steady_mono: "steady m slot d d' \<Longrightarrow> m \<le> n \<Longrightarrow> steady n slot d d'"
  by (auto simp: steady_def)

lemma steady_bump: "steady n slot (bump f d) d' \<longleftrightarrow> steady n slot d d'"
  by (simp add: steady_def)

lemma recover_index_not_max:
  assumes "stores_ok d" "recover_merkle_data L slot fec fec_end d = (Some rs, d')"
    and "map_of (coding d) (slot, fec) = Some cs"
  shows "length rs \<le> cs_num_data_shreds cs \<and> (\<forall>r \<in> set rs. rd_index r \<noteq> - 1)"
proof -
  have "unat fec + cs_num_data_shreds cs < 2 ^ 32"
    using stores_okD(4) [OF assms(1,3)] by (simp add: set_ok_def)
  then show ?thesis
    using recover_merkle_data_indices [OF assms] by (auto simp: not_max_word_unat)
qed

lemma finish_recovery_steady:
  assumes ok: "stores_ok d" and live: "live_slot d slot"
    and cs: "map_of (coding d) (slot, fec) = Some cs"
    and fin: "finish_recovery L slot fec fec_end n now (recover_merkle_data L slot fec fec_end d) = (ins, d')"
  shows "steady (cs_num_data_shreds cs) slot d d'"
proof -
  obtain res d1 where r: "recover_merkle_data L slot fec fec_end d = (res, d1)" by fastforce
  obtain c where d1: "d1 = d\<lparr>merkle_rs_cache := c\<rparr>" using recover_merkle_data_frame [OF r] by blast
  show ?thesis
  proof (cases res)
    case None
    then have "d' = mark_recovery_failed slot fec (bump (fec_recover_failures_update ((+) 1)) d1)"
      using fin by (simp add: r finish_recovery_def)
    then show ?thesis
      using mark_recovery_failed_ok [of "bump (fec_recover_failures_update ((+) 1)) d1" slot fec] ok live
      by (simp add: steady_def d1 live_slot_def counted_def)
  next
    case (Some rs)
    obtain i2 d2 where f: "foldl (insert_recovered slot fec now) (False, d1) rs = (i2, d2)" by fastforce
    have idx: "length rs \<le> cs_num_data_shreds cs" "\<forall>r \<in> set rs. rd_index r \<noteq> - 1"
      using recover_index_not_max [OF ok r [unfolded Some] cs] by auto
    have "stores_ok d1" "live_slot d1 slot" using ok live by (simp_all add: d1)
    from foldl_insert_recovered_ok [OF this idx(2) f] idx(1)
    have "steady (cs_num_data_shreds cs) slot d d2"
      by (auto simp: steady_def d1 counted_def)
    moreover have "d' = (if n \<le> fec_data_count L slot fec fec_end d2 then remove_coding_set slot fec d2 else d2)"
      using fin by (simp add: r Some finish_recovery_def f)
    ultimately show ?thesis
      using steady_trans [OF _ steady_remove_coding_set [of d2 slot 0 slot fec]]
      by (auto simp: steady_def [of _ _ d d2])
  qed
qed

lemma try_fec_recover_steady:
  assumes ok: "stores_ok d" and live: "live_slot d slot"
    and tr: "try_fec_recover L slot fec now d = (ins, d')"
  shows "steady MAX_SHREDS_PER_FEC_SET slot d d'"
proof (cases "map_of (coding d) (slot, fec)")
  case (Some cs)
  have small: "cs_num_data_shreds cs \<le> MAX_SHREDS_PER_FEC_SET"
    using stores_okD(4) [OF ok Some] by (simp add: set_ok_def)
  have bumped: "steady n slot d (remove_coding_set slot fec (bump f d))" for n f
    using steady_remove_coding_set [of "bump f d" slot n slot fec] ok live by (simp add: steady_bump)
  let ?a = "bump (fec_recover_attempts_update ((+) 1)) d"
  have "finish_recovery L slot fec fec_end n now (recover_merkle_data L slot fec fec_end ?a) = (ins, d')
     \<Longrightarrow> steady (cs_num_data_shreds cs) slot d d'" for fec_end n
    using finish_recovery_steady [of ?a slot fec cs L fec_end n now ins d'] ok live Some
    by (simp add: steady_bump)
  then show ?thesis
    using tr Some ok live small
    by (auto simp: try_fec_recover_def steady_refl steady_remove_coding_set bumped Let_def
      split: if_splits option.splits intro: steady_mono)
qed (use assms in \<open>simp add: try_fec_recover_def steady_refl\<close>)

end
