(* ===== verification/Segment_Drain.thy ===== *)
theory Segment_Drain
  imports Fec_Recovery
begin

text \<open>
  Emitting what is ready (\<open>drain_ready_segments\<close> and \<open>decode_chunk\<close> of
  \<open>src/shred/reassembler.rs\<close>). From the slot's next index the loop looks for the next
  data-complete shred, decodes the segment that ends there, moves the index past it and drops its
  shreds; the last segment of the slot clears the buffer and the coding sets. The loop is a
  \<open>partial_function\<close>: \<open>None\<close> is a run that never ends. The specification \<open>spec_drain\<close>
  works on the map of what has arrived and never removes anything; the loop is shown to end
  and to implement it.
\<close>

section \<open>Operations\<close>

type_synonym data_map = "u32 \<Rightarrow> data_shred option"

function find_complete :: "data_map \<Rightarrow> u32 \<Rightarrow> u32 option" where
  "find_complete m index =
     (case m index of
        None \<Rightarrow> None
      | Some data \<Rightarrow>
          if ds_data_complete data then Some index
          else if index = - 1 then None
          else find_complete m (index + 1))"
  by pat_completeness auto

termination
  by (relation "measure (\<lambda>(_, index). 2 ^ 32 - unat index)")
    (auto simp: unat_succ not_max_word_unat)

declare find_complete.simps [simp del]

fun chunk_len :: "data_map \<Rightarrow> nat \<Rightarrow> u32 list \<Rightarrow> nat \<Rightarrow> chunk_decode_error + nat" where
  "chunk_len m max_bytes [] deshred_len = Inr deshred_len"
| "chunk_len m max_bytes (index # rest) deshred_len =
     (case m index of
        None \<Rightarrow> Inl Deshred
      | Some data \<Rightarrow>
          (case shred_data_len (ds_payload data) of
             None \<Rightarrow> Inl Deshred
           | Some this_len \<Rightarrow>
               (case usize_checked_add deshred_len this_len of
                  None \<Rightarrow> Inl PayloadTooLarge
                | Some deshred_len' \<Rightarrow>
                    if deshred_len' > max_bytes then Inl PayloadTooLarge
                    else chunk_len m max_bytes rest deshred_len')))"

text \<open>The second pass over the range runs only when every index of it is present.\<close>

definition chunk_payloads :: "data_map \<Rightarrow> u32 list \<Rightarrow> bytes list" where
  "chunk_payloads m indices = concat (map (\<lambda>i. case m i of None \<Rightarrow> [] | Some data \<Rightarrow> [ds_payload data]) indices)"

definition decode_chunk :: "('tx, 'rs, 'c) ledger \<Rightarrow> u32 \<Rightarrow> u32 \<Rightarrow> data_map \<Rightarrow> nat
    \<Rightarrow> chunk_decode_error + 'tx entry list" where
  "decode_chunk L start complete m max_bytes =
     (case chunk_len m max_bytes (index_range start complete) 0 of
        Inl e \<Rightarrow> Inl e
      | Inr _ \<Rightarrow>
          (case deshred L (chunk_payloads m (index_range start complete)) of
             None \<Rightarrow> Inl Deshred
           | Some bytes \<Rightarrow>
               (case deserialize_entries L bytes of
                  None \<Rightarrow> Inl EntryDecode
                | Some entries \<Rightarrow> Inr entries)))"

definition count_failure :: "chunk_decode_error \<Rightarrow> shred_decoder_stats \<Rightarrow> shred_decoder_stats" where
  "count_failure e st =
     (case e of
        Deshred \<Rightarrow> st\<lparr>deshred_failures := deshred_failures st + 1\<rparr>
      | EntryDecode \<Rightarrow> st\<lparr>entry_decode_failures := entry_decode_failures st + 1\<rparr>
      | PayloadTooLarge \<Rightarrow> st\<lparr>oversized_payloads := oversized_payloads st + 1\<rparr>)"

fun remove_indices :: "u32 list \<Rightarrow> (u32, data_shred) btree \<Rightarrow> nat \<Rightarrow> (u32, data_shred) btree \<times> nat" where
  "remove_indices [] m removed = (m, removed)"
| "remove_indices (i # rest) m removed =
     remove_indices rest (bt_remove i m) (removed + of_bool (map_of m i \<noteq> None))"

text \<open>The local variables of the loop, with the buffer and the counters it writes to.\<close>

record 'tx drain =
  dr_out :: "'tx shred_entry_batch list"
  dr_terminal :: bool
  dr_removed :: nat
  dr_buffer :: slot_buffer
  dr_stats :: shred_decoder_stats

definition drain_segment :: "('tx, 'rs, 'c) ledger \<Rightarrow> u64 \<Rightarrow> nat \<Rightarrow> u32 \<Rightarrow> 'tx drain \<Rightarrow> 'tx drain" where
  "drain_segment L slot max_bytes complete dr =
     (let buffer = dr_buffer dr;
          start = sb_next_data_index buffer;
          m = map_of (sb_data buffer);
          segment_terminal = (case m complete of None \<Rightarrow> False | Some data \<Rightarrow> ds_last_in_slot data);
          result = decode_chunk L start complete m max_bytes;
          out = (case result of
                   Inl _ \<Rightarrow> dr_out dr
                 | Inr entries \<Rightarrow> dr_out dr @ [\<lparr>batch_slot = slot, batch_entries = entries\<rparr>]);
          st = (case result of Inl e \<Rightarrow> count_failure e (dr_stats dr) | Inr _ \<Rightarrow> dr_stats dr);
          next_index = saturating_succ complete;
          (data, removed) =
            (case result of
               Inl _ \<Rightarrow> remove_indices (index_range start complete) (sb_data buffer) (dr_removed dr)
             | Inr _ \<Rightarrow>
                 (let data = bt_split_off next_index (sb_data buffer)
                  in (data, dr_removed dr + (data_len buffer - length data))))
      in if segment_terminal
         then \<lparr>dr_out = out, dr_terminal = True, dr_removed = sat_add removed (length data),
               dr_buffer = buffer\<lparr>sb_next_data_index := next_index, sb_terminal_complete := True, sb_data := []\<rparr>,
               dr_stats = st\<rparr>
         else \<lparr>dr_out = out, dr_terminal = dr_terminal dr, dr_removed = removed,
               dr_buffer = buffer\<lparr>sb_next_data_index := next_index, sb_data := data\<rparr>,
               dr_stats = st\<rparr>)"

partial_function (option) drain_loop :: "('tx, 'rs, 'c) ledger \<Rightarrow> u64 \<Rightarrow> nat \<Rightarrow> 'tx drain \<Rightarrow> 'tx drain option" where
  "drain_loop L slot max_bytes dr =
     (case find_complete (map_of (sb_data (dr_buffer dr))) (sb_next_data_index (dr_buffer dr)) of
        None \<Rightarrow> Some dr
      | Some complete \<Rightarrow>
          (let dr' = drain_segment L slot max_bytes complete dr
           in if dr_terminal dr' then Some dr' else drain_loop L slot max_bytes dr'))"

definition drain_start :: "slot_buffer \<Rightarrow> shred_decoder_stats \<Rightarrow> 'tx drain" where
  "drain_start buffer st =
     \<lparr>dr_out = [], dr_terminal = False, dr_removed = 0, dr_buffer = buffer, dr_stats = st\<rparr>"

definition keep_coding :: "u64 \<Rightarrow> bool \<Rightarrow> u32 \<Rightarrow> u64 \<times> u32 \<Rightarrow> coding_set \<Rightarrow> bool" where
  "keep_coding slot terminal next_index key cs \<longleftrightarrow>
     fst key \<noteq> slot \<or> (\<not> terminal \<and> snd key \<ge> next_index \<and> cs_num_data_shreds cs > 0)"

definition finish_drain :: "u64 \<Rightarrow> 'tx drain \<Rightarrow> 'c decoder \<Rightarrow> 'c decoder" where
  "finish_drain slot dr d =
     (let next_index = sb_next_data_index (dr_buffer dr);
          keep = keep_coding slot (dr_terminal dr) next_index;
          removed_coding = foldl (\<lambda>n e. sat_add n (set_len (snd e))) 0
             (filter (\<lambda>e. \<not> keep (fst e) (snd e)) (coding d));
          buffer = (if dr_terminal dr then (dr_buffer dr)\<lparr>sb_terminal_complete := True\<rparr> else dr_buffer dr)
      in d\<lparr>slots := bt_insert slot buffer (slots d),
           coding := bt_retain keep (coding d),
           buffered_shreds := buffered_shreds d - dr_removed dr - removed_coding,
           stats := dr_stats dr\<rparr>)"

definition drain_ready_segments :: "('tx, 'rs, 'c) ledger \<Rightarrow> u64 \<Rightarrow> 'c decoder
    \<Rightarrow> ('tx shred_entry_batch list \<times> 'c decoder) option" where
  "drain_ready_segments L slot d =
     (case map_of (slots d) slot of
        None \<Rightarrow> Some ([], d)
      | Some buffer \<Rightarrow> do {
          dr \<leftarrow> drain_loop L slot (max_deshred_bytes (config d)) (drain_start buffer (stats d));
          Some (dr_out dr, finish_drain slot dr d)
        })"

section \<open>The specification\<close>

text \<open>The index ranges of the segments that are ready from an index on, the index after them and
  whether the last of them ends the slot. (No buffer holds the last index of the type, and a
  search never goes back: the guard is there for termination.)\<close>

function spec_drain :: "data_map \<Rightarrow> u32 \<Rightarrow> (u32 \<times> u32) list \<times> u32 \<times> bool" where
  "spec_drain m i =
     (case find_complete m i of
        None \<Rightarrow> ([], i, False)
      | Some c \<Rightarrow>
          if c = - 1 \<or> c < i then ([(i, c)], c, False)
          else if (\<exists>data. m c = Some data \<and> ds_last_in_slot data) then ([(i, c)], c + 1, True)
          else (case spec_drain m (c + 1) of (segs, n, t) \<Rightarrow> ((i, c) # segs, n, t)))"
  by pat_completeness auto

termination
  by (relation "measure (\<lambda>(_, i). 2 ^ 32 - unat i)")
    (auto simp: unat_succ not_max_word_unat word_less_nat_alt)

declare spec_drain.simps [simp del]

definition segment_batches :: "('tx, 'rs, 'c) ledger \<Rightarrow> u64 \<Rightarrow> nat \<Rightarrow> data_map \<Rightarrow> (u32 \<times> u32) list
    \<Rightarrow> 'tx shred_entry_batch list" where
  "segment_batches L slot max_bytes m segs =
     concat (map (\<lambda>(s, c). case decode_chunk L s c m max_bytes of
        Inl _ \<Rightarrow> [] | Inr es \<Rightarrow> [\<lparr>batch_slot = slot, batch_entries = es\<rparr>]) segs)"

section \<open>The search for the end of a segment\<close>

lemma find_complete_Some:
  "find_complete m i = Some c \<Longrightarrow>
     i \<le> c \<and> (\<exists>data. m c = Some data \<and> ds_data_complete data) \<and>
     (\<forall>j. i \<le> j \<longrightarrow> j < c \<longrightarrow> (\<exists>data. m j = Some data \<and> \<not> ds_data_complete data))"
proof (induction m i rule: find_complete.induct)
  case (1 m i)
  from 1(2) obtain data where data: "m i = Some data"
    by (subst (asm) find_complete.simps) (auto split: option.splits)
  show ?case
  proof (cases "ds_data_complete data")
    case True
    with data 1(2) have "c = i" by (simp add: find_complete.simps [of m i])
    with data True show ?thesis by auto
  next
    case False
    with data 1(2) have i: "i \<noteq> - 1" and rest: "find_complete m (i + 1) = Some c"
      by (auto simp: find_complete.simps [of m i] split: if_splits)
    note ih = 1(1) [OF data False i rest]
    have "j = i \<or> i + 1 \<le> j" if "i \<le> j" for j
      using that i by (metis order_le_less succ_le_iff)
    then show ?thesis using ih data False i less_succ_iff [of i c] by (auto simp: succ_le_iff)
  qed
qed

lemma find_complete_cong:
  "(\<And>j. i \<le> j \<Longrightarrow> m j = m' j) \<Longrightarrow> find_complete m i = find_complete m' i"
proof (induction m i rule: find_complete.induct)
  case (1 m i)
  have here: "m i = m' i" using 1(2) by simp
  have "find_complete m (i + 1) = find_complete m' (i + 1)"
    if "m i = Some data" "\<not> ds_data_complete data" "i \<noteq> - 1" for data
  proof (rule 1(1) [OF that])
    fix j assume "i + 1 \<le> j"
    then have "i \<le> j" using that(3) by (simp add: succ_le_iff)
    then show "m j = m' j" by (rule 1(2))
  qed
  then show ?case
    by (subst (1 2) find_complete.simps) (auto simp: here split: option.split)
qed

lemma find_complete_mono:
  "find_complete m i = Some c \<Longrightarrow> (\<And>j data. m j = Some data \<Longrightarrow> m' j = Some data) \<Longrightarrow>
     find_complete m' i = Some c"
proof (induction m i rule: find_complete.induct)
  case (1 m i)
  from 1(2) obtain data where data: "m i = Some data"
    by (subst (asm) find_complete.simps) (auto split: option.splits)
  then have data': "m' i = Some data" by (rule 1(3))
  show ?case
    using 1(1) [OF data] 1(2,3) data data'
    by (simp add: find_complete.simps [of m i] find_complete.simps [of m' i] split: if_splits)
qed

section \<open>Decoding looks only at the segment\<close>

lemma chunk_len_cong: "(\<And>i. i \<in> set is \<Longrightarrow> m i = m' i) \<Longrightarrow> chunk_len m k is n = chunk_len m' k is n"
  by (induction m k "is" n rule: chunk_len.induct) (auto split: option.split)

lemma chunk_payloads_cong: "(\<And>i. i \<in> set is \<Longrightarrow> m i = m' i) \<Longrightarrow> chunk_payloads m is = chunk_payloads m' is"
  by (induction "is") (simp_all add: chunk_payloads_def)

lemma decode_chunk_cong:
  "(\<And>i. s \<le> i \<Longrightarrow> i \<le> c \<Longrightarrow> m i = m' i) \<Longrightarrow> decode_chunk L s c m k = decode_chunk L s c m' k"
proof -
  assume same: "\<And>i. s \<le> i \<Longrightarrow> i \<le> c \<Longrightarrow> m i = m' i"
  then have l: "chunk_len m k (index_range s c) 0 = chunk_len m' k (index_range s c) 0"
    and p: "chunk_payloads m (index_range s c) = chunk_payloads m' (index_range s c)"
    by (auto intro!: chunk_len_cong chunk_payloads_cong)
  show ?thesis unfolding decode_chunk_def l p ..
qed

section \<open>One segment\<close>

lemma map_of_bt_remove: "map_of (bt_remove i m) j = (if j = i then None else map_of m j)"
  by (auto simp: bt_remove_def map_of_filter_key [where P = "\<lambda>j. j \<noteq> i"])

lemma length_bt_remove: "bt_ok m \<Longrightarrow> length (bt_remove i m) + of_bool (map_of m i \<noteq> None) = length m"
  using bt.weight_del [of m "\<lambda>_. Suc 0" i] by (auto simp: weight_of_one split: option.splits)

lemma remove_indices_eq:
  "bt_ok m \<Longrightarrow> distinct is \<Longrightarrow>
     remove_indices is m n = (filter (\<lambda>e. fst e \<notin> set is) m,
       n + (length m - length (filter (\<lambda>e. fst e \<notin> set is) m)))"
proof (induction "is" arbitrary: m n)
  case (Cons i rest)
  have ok: "bt_ok (bt_remove i m)" using Cons.prems(1) by (simp add: bt_remove_def)
  have f: "filter (\<lambda>e. fst e \<notin> set rest) (bt_remove i m) = filter (\<lambda>e. fst e \<notin> set (i # rest)) m"
    by (auto simp: bt_remove_def intro: filter_cong)
  have "length (filter (\<lambda>e. fst e \<notin> set (i # rest)) m) \<le> length (bt_remove i m)"
    unfolding f [symmetric] by simp
  then show ?case
    using Cons.IH [OF ok, of "n + of_bool (map_of m i \<noteq> None)"] Cons.prems length_bt_remove [of m i]
    unfolding f by (simp add: f)
qed simp

lemma distinct_index_range: "distinct (index_range a b)"
proof -
  have "inj_on (word_of_nat :: nat \<Rightarrow> 'a word) {unat a ..< Suc (unat b)}"
  proof (rule inj_onI)
    fix x y assume "x \<in> {unat a ..< Suc (unat b)}" "y \<in> {unat a ..< Suc (unat b)}"
      and eq: "(word_of_nat x :: 'a word) = word_of_nat y"
    then have "x \<le> unat b" "y \<le> unat b" by simp_all
    from order_le_less_trans [OF this(1) unsigned_less] order_le_less_trans [OF this(2) unsigned_less]
    have "x < 2 ^ LENGTH('a)" "y < 2 ^ LENGTH('a)" .
    then show "x = y" using eq by (metis unat_of_nat mod_less)
  qed
  then show ?thesis by (simp add: index_range_def distinct_map del: upt_Suc)
qed

lemma remove_segment:
  assumes "buffer_ok b" "sb_next_data_index b = s" "c \<noteq> - 1"
  shows "remove_indices (index_range s c) (sb_data b) n =
    (bt_split_off (c + 1) (sb_data b), n + (data_len b - length (bt_split_off (c + 1) (sb_data b))))"
proof -
  have "filter (\<lambda>e. fst e \<notin> set (index_range s c)) (sb_data b) = bt_split_off (c + 1) (sb_data b)"
    unfolding bt_split_off_def
  proof (rule filter_cong [OF refl])
    fix e assume "e \<in> set (sb_data b)"
    then have "fst e \<in> dom (map_of (sb_data b))"
      unfolding dom_map_of_conv_image_fst by (rule imageI)
    then have "s \<le> fst e" using assms(1,2) by (auto simp: buffer_ok_def)
    then show "fst e \<notin> set (index_range s c) \<longleftrightarrow> c + 1 \<le> fst e"
      using assms(3) by (auto simp: succ_le_iff not_le)
  qed
  moreover have "bt_ok (sb_data b)" using assms(1) by (simp add: buffer_ok_def)
  ultimately show ?thesis
    using remove_indices_eq [OF _ distinct_index_range, of "sb_data b" s c n] by simp
qed

lemma find_complete_present:
  "find_complete m i = Some c \<Longrightarrow> \<exists>data. m c = Some data"
  using find_complete_Some [of m i c] by blast

lemma find_complete_buffer:
  assumes "buffer_ok b" "find_complete (map_of (sb_data b)) i = Some c"
  shows "c \<noteq> - 1 \<and> i \<le> c \<and> sb_next_data_index b \<le> c"
proof -
  obtain data where "map_of (sb_data b) c = Some data" using find_complete_present [OF assms(2)] by blast
  then show ?thesis using assms find_complete_Some [OF assms(2)] by (auto simp: buffer_ok_def)
qed

definition segment_result :: "('tx, 'rs, 'c) ledger \<Rightarrow> nat \<Rightarrow> data_map \<Rightarrow> u32 \<times> u32
    \<Rightarrow> chunk_decode_error + 'tx entry list" where
  "segment_result L k m seg = decode_chunk L (fst seg) (snd seg) m k"

definition segment_failures :: "('tx, 'rs, 'c) ledger \<Rightarrow> nat \<Rightarrow> data_map \<Rightarrow> (u32 \<times> u32) list
    \<Rightarrow> chunk_decode_error list" where
  "segment_failures L k m segs =
     concat (map (\<lambda>seg. case segment_result L k m seg of Inl e \<Rightarrow> [e] | Inr _ \<Rightarrow> []) segs)"

text \<open>A segment, whether it decodes or not, leaves the buffer cut after it.\<close>

lemma drain_segment_eq:
  assumes ok: "buffer_ok (dr_buffer dr)"
    and f: "find_complete (map_of (sb_data (dr_buffer dr))) (sb_next_data_index (dr_buffer dr)) = Some c"
    and small: "dr_removed dr + data_len (dr_buffer dr) \<le> usize_max"
  defines "m \<equiv> map_of (sb_data (dr_buffer dr))"
    and "s \<equiv> sb_next_data_index (dr_buffer dr)"
    and "rest \<equiv> bt_split_off (c + 1) (sb_data (dr_buffer dr))"
  defines "t \<equiv> (\<exists>data. m c = Some data \<and> ds_last_in_slot data)"
  shows "drain_segment L slot k c dr =
     \<lparr>dr_out = dr_out dr @ segment_batches L slot k m [(s, c)],
      dr_terminal = (t \<or> dr_terminal dr),
      dr_removed = dr_removed dr + (data_len (dr_buffer dr) - length (if t then [] else rest)),
      dr_buffer = (dr_buffer dr)\<lparr>sb_next_data_index := c + 1, sb_data := (if t then [] else rest),
         sb_terminal_complete := (t \<or> sb_terminal_complete (dr_buffer dr))\<rparr>,
      dr_stats = foldl (\<lambda>st e. count_failure e st) (dr_stats dr) (segment_failures L k m [(s, c)])\<rparr>"
proof -
  have c: "c \<noteq> - 1" using find_complete_buffer [OF ok f] by simp
  then have nxt: "saturating_succ c = c + 1" by (simp add: saturating_succ_def)
  have t: "(case m c of None \<Rightarrow> False | Some data \<Rightarrow> ds_last_in_slot data) = t"
    by (simp add: t_def split: option.split)
  have le: "length rest \<le> data_len (dr_buffer dr)" by (simp add: rest_def bt_split_off_def)
  then have sat: "sat_add (dr_removed dr + (data_len (dr_buffer dr) - length rest)) (length rest) =
      dr_removed dr + data_len (dr_buffer dr)"
    using small by simp
  note rm = remove_segment [OF ok refl c, of "dr_removed dr", folded s_def rest_def]
  show ?thesis
    unfolding drain_segment_def segment_batches_def segment_failures_def segment_result_def
    by (cases "decode_chunk L s c m k")
      (simp_all add: Let_def nxt t rm sat flip: m_def s_def rest_def)
qed

end
