(* ===== verification/Drain_Refinement.thy ===== *)
theory Drain_Refinement
  imports Segment_Drain
begin

text \<open>
  The drain of a slot implements its specification: the loop ends on every well-formed buffer,
  its batches are the decoded segments \<open>spec_drain\<close> lists, and the buffer, the counters and the
  buffered-shred count it leaves are those of the specification. The specification itself is
  monotone: more shreds only extend what is emitted, which is what makes the emission
  independent of the order in which shreds arrive.
\<close>

section \<open>Facts on the specification\<close>

lemma spec_drain_bounds:
  "spec_drain m i = (segs, n, t) \<Longrightarrow> m (- 1) = None \<Longrightarrow>
     (\<forall>seg \<in> set segs. i \<le> fst seg \<and> fst seg \<le> snd seg \<and> snd seg < n) \<and> i \<le> n"
proof (induction m i arbitrary: segs n t rule: spec_drain.induct)
  case (1 m i)
  show ?case
  proof (cases "find_complete m i")
    case None
    with 1(2) show ?thesis by (auto simp: spec_drain.simps [of m i])
  next
    case (Some c)
    note fc = find_complete_Some [OF Some]
    have c: "c \<noteq> - 1" "\<not> c < i" using fc 1(3) by auto
    have lt: "c < c + 1" using less_succ_iff [OF c(1), of c] by simp
    show ?thesis
    proof (cases "\<exists>data. m c = Some data \<and> ds_last_in_slot data")
      case True
      with 1(2) Some c lt show ?thesis by (auto simp: spec_drain.simps [of m i])
    next
      case False
      obtain segs' n' t' where s: "spec_drain m (c + 1) = (segs', n', t')" by (metis prod_cases3)
      with 1(2) Some c False have r: "segs = (i, c) # segs'" "n = n'" by (auto simp: spec_drain.simps [of m i])
      have "\<not> (c = - 1 \<or> c < i)" using c by blast
      note ih = 1(1) [OF Some this False s 1(3)]
      have "i \<le> c" "c < n'" using fc ih lt by auto
      then show ?thesis using ih r lt by auto
    qed
  qed
qed

lemma spec_drain_cong:
  "(\<And>j. i \<le> j \<Longrightarrow> m j = m' j) \<Longrightarrow> m (- 1) = None \<Longrightarrow> spec_drain m i = spec_drain m' i"
proof (induction m i rule: spec_drain.induct)
  case (1 m i)
  have f: "find_complete m i = find_complete m' i" using 1(2) by (rule find_complete_cong)
  show ?case
  proof (cases "find_complete m i")
    case None
    then show ?thesis using f by (simp add: spec_drain.simps [of m i] spec_drain.simps [of m' i])
  next
    case (Some c)
    have c: "c \<noteq> - 1" "\<not> c < i" "i \<le> c" using find_complete_Some [OF Some] 1(3) by auto
    have here: "m c = m' c" using c(3) by (rule 1(2))
    have "spec_drain m (c + 1) = spec_drain m' (c + 1)" if "\<not> (\<exists>data. m c = Some data \<and> ds_last_in_slot data)"
    proof (rule 1(1) [OF Some _ that _ 1(3)])
      show "\<not> (c = - 1 \<or> c < i)" using c by blast
      fix j assume "c + 1 \<le> j"
      then have "i \<le> j" using c by (auto simp: succ_le_iff)
      then show "m j = m' j" by (rule 1(2))
    qed
    moreover have "find_complete m' i = Some c" using f Some by simp
    ultimately show ?thesis
      using Some here c by (auto simp: spec_drain.simps [of m i] spec_drain.simps [of m' i])
  qed
qed

lemma segment_batches_cong:
  assumes "\<And>seg j. seg \<in> set segs \<Longrightarrow> fst seg \<le> j \<Longrightarrow> j \<le> snd seg \<Longrightarrow> m j = m' j"
  shows "segment_batches L slot k m segs = segment_batches L slot k m' segs"
  unfolding segment_batches_def
proof (rule arg_cong [of _ _ concat], rule map_cong [OF refl])
  fix seg assume "seg \<in> set segs"
  then have "decode_chunk L (fst seg) (snd seg) m k = decode_chunk L (fst seg) (snd seg) m' k"
    by (intro decode_chunk_cong assms)
  then show "(case seg of (s, c) \<Rightarrow> case decode_chunk L s c m k of Inl _ \<Rightarrow> []
      | Inr es \<Rightarrow> [\<lparr>batch_slot = slot, batch_entries = es\<rparr>]) =
    (case seg of (s, c) \<Rightarrow> case decode_chunk L s c m' k of Inl _ \<Rightarrow> []
      | Inr es \<Rightarrow> [\<lparr>batch_slot = slot, batch_entries = es\<rparr>])"
    by (cases seg) simp
qed

lemma segment_failures_cong:
  assumes "\<And>seg j. seg \<in> set segs \<Longrightarrow> fst seg \<le> j \<Longrightarrow> j \<le> snd seg \<Longrightarrow> m j = m' j"
  shows "segment_failures L k m segs = segment_failures L k m' segs"
  unfolding segment_failures_def segment_result_def
proof (rule arg_cong [of _ _ concat], rule map_cong [OF refl])
  fix seg assume "seg \<in> set segs"
  then have "decode_chunk L (fst seg) (snd seg) m k = decode_chunk L (fst seg) (snd seg) m' k"
    by (intro decode_chunk_cong assms)
  then show "(case decode_chunk L (fst seg) (snd seg) m k of Inl e \<Rightarrow> [e] | Inr _ \<Rightarrow> []) =
    (case decode_chunk L (fst seg) (snd seg) m' k of Inl e \<Rightarrow> [e] | Inr _ \<Rightarrow> [])"
    by simp
qed

lemma segment_batches_append:
  "segment_batches L slot k m (xs @ ys) = segment_batches L slot k m xs @ segment_batches L slot k m ys"
  by (simp add: segment_batches_def)

lemma segment_failures_append:
  "segment_failures L k m (xs @ ys) = segment_failures L k m xs @ segment_failures L k m ys"
  by (simp add: segment_failures_def)

section \<open>The loop\<close>

definition drained :: "('tx, 'rs, 'c) ledger \<Rightarrow> u64 \<Rightarrow> nat \<Rightarrow> 'tx drain \<Rightarrow> 'tx drain" where
  "drained L slot k dr =
     (let b = dr_buffer dr; m = map_of (sb_data b)
      in case spec_drain m (sb_next_data_index b) of (segs, n, t) \<Rightarrow>
           (let rest = (if t then [] else bt_split_off n (sb_data b))
            in \<lparr>dr_out = dr_out dr @ segment_batches L slot k m segs,
               dr_terminal = t,
               dr_removed = dr_removed dr + (data_len b - length rest),
               dr_buffer = b\<lparr>sb_next_data_index := n, sb_data := rest, sb_terminal_complete := t\<rparr>,
               dr_stats = foldl (\<lambda>st e. count_failure e st) (dr_stats dr) (segment_failures L k m segs)\<rparr>))"

lemma bt_split_off_Nil [simp]: "bt_split_off n [] = []"
  by (simp add: bt_split_off_def)

lemma buffer_ok_cut:
  assumes "buffer_ok b" "n \<le> n'" "sb_next_data_index b = n"
  shows "buffer_ok (b\<lparr>sb_next_data_index := n', sb_data := bt_split_off n' (sb_data b)\<rparr>)"
  using assms by (auto simp: buffer_ok_def map_of_bt_split_off dom_def split: if_splits)

lemma bt_split_off_all: "buffer_ok b \<Longrightarrow> bt_split_off (sb_next_data_index b) (sb_data b) = sb_data b"
proof -
  assume ok: "buffer_ok b"
  have "sb_next_data_index b \<le> fst e" if "e \<in> set (sb_data b)" for e
  proof -
    have "fst e \<in> dom (map_of (sb_data b))"
      using that unfolding dom_map_of_conv_image_fst by (rule imageI)
    then show ?thesis using ok by (simp add: buffer_ok_def)
  qed
  then show ?thesis by (auto simp: bt_split_off_def intro: filter_True)
qed

lemma bt_split_off_twice: "n \<le> n' \<Longrightarrow> bt_split_off n' (bt_split_off n m) = bt_split_off n' m"
  by (auto simp: bt_split_off_def intro!: filter_cong)

lemma drain_loop_spec:
  assumes "buffer_ok (dr_buffer dr)" "\<not> dr_terminal dr" "\<not> sb_terminal_complete (dr_buffer dr)"
    and "dr_removed dr + data_len (dr_buffer dr) \<le> usize_max"
  shows "drain_loop L slot k dr = Some (drained L slot k dr)"
  using assms
proof (induction "2 ^ 32 - unat (sb_next_data_index (dr_buffer dr))" arbitrary: dr rule: less_induct)
  case less
  let ?b = "dr_buffer dr"
  let ?m = "map_of (sb_data ?b)" and ?s = "sb_next_data_index ?b"
  show ?case
  proof (cases "find_complete ?m ?s")
    case None
    then show ?thesis
      using less(3,4) bt_split_off_all [OF less(2)]
      by (simp add: drain_loop.simps [of L slot k dr] drained_def spec_drain.simps [of ?m ?s] Let_def
        segment_batches_def segment_failures_def)
  next
    case (Some c)
    note fc = find_complete_buffer [OF less(2) Some]
    let ?t = "\<exists>data. ?m c = Some data \<and> ds_last_in_slot data"
    let ?rest = "bt_split_off (c + 1) (sb_data ?b)"
    let ?dr = "drain_segment L slot k c dr"
    note seg = drain_segment_eq [OF less(2) Some less(5), of L slot k]
    have none: "?m (- 1) = None" using less(2) by (auto simp: buffer_ok_def dom_def)
    have unfold: "spec_drain ?m ?s = (if ?t then ([(?s, c)], c + 1, True)
        else (case spec_drain ?m (c + 1) of (segs, n, t) \<Rightarrow> ((?s, c) # segs, n, t)))"
      using Some fc by (auto simp: spec_drain.simps [of ?m ?s])
    show ?thesis
    proof (cases ?t)
      case True
      then have "dr_terminal ?dr" using seg by simp
      then have "drain_loop L slot k dr = Some ?dr"
        using Some by (simp add: drain_loop.simps [of L slot k dr] Let_def)
      then show ?thesis using True unfold seg by (simp add: drained_def Let_def)
    next
      case False
      have t: "\<not> dr_terminal ?dr" using seg False less(3) by simp
      then have loop: "drain_loop L slot k dr = drain_loop L slot k ?dr"
        using Some by (simp add: drain_loop.simps [of L slot k dr] Let_def)
      have buf: "dr_buffer ?dr = ?b\<lparr>sb_next_data_index := c + 1, sb_data := ?rest\<rparr>"
        using seg False less(4) by simp
      have sc: "?s \<le> c + 1" "c < c + 1" using fc less_succ_iff [of c ?s] less_succ_iff [of c c]
        by (auto intro: order_trans order_less_imp_le)
      have len: "length ?rest \<le> data_len ?b" by (simp add: bt_split_off_def)
      have ok: "buffer_ok (dr_buffer ?dr)" unfolding buf using less(2) sc(1) refl by (rule buffer_ok_cut)
      have live: "\<not> sb_terminal_complete (dr_buffer ?dr)" unfolding buf using less(4) by simp
      have removed: "dr_removed ?dr = dr_removed dr + (data_len ?b - length ?rest)" using seg False by simp
      have small: "dr_removed ?dr + data_len (dr_buffer ?dr) \<le> usize_max"
        unfolding removed buf using less(5) len by simp
      have "unat ?s < unat (c + 1)" using fc by (auto simp: unat_succ word_le_nat_alt)
      then have dec: "2 ^ 32 - unat (sb_next_data_index (dr_buffer ?dr)) < 2 ^ 32 - unat ?s"
        using unsigned_less [of "c + 1", where 'a = nat] unfolding buf by simp
      note ih = less(1) [OF dec ok t live small]
      obtain segs n tt where sp: "spec_drain ?m (c + 1) = (segs, n, tt)" by (metis prod_cases3)
      have agree: "?m j = map_of ?rest j" if "c + 1 \<le> j" for j
        using that by (simp add: map_of_bt_split_off)
      have sp': "spec_drain (map_of ?rest) (c + 1) = (segs, n, tt)"
        using spec_drain_cong [of "c + 1" ?m "map_of ?rest", OF agree none] sp by simp
      have bounds: "\<forall>seg \<in> set segs. c + 1 \<le> fst seg" "c + 1 \<le> n"
        using spec_drain_bounds [OF sp none] by auto
      have bat: "segment_batches L slot k (map_of ?rest) segs = segment_batches L slot k ?m segs"
        by (rule segment_batches_cong) (rule agree [symmetric], erule order_trans [OF bounds(1) [rule_format]])
      have fl: "segment_failures L k (map_of ?rest) segs = segment_failures L k ?m segs"
        by (rule segment_failures_cong) (rule agree [symmetric], erule order_trans [OF bounds(1) [rule_format]])
      have le: "length (bt_split_off n (sb_data ?b)) \<le> length ?rest"
        using bt_split_off_twice [OF bounds(2), of "sb_data ?b"]
        by (metis bt_split_off_def length_filter_le)
      have bat2: "segment_batches L slot k ?m ((?s, c) # segs) =
          segment_batches L slot k ?m [(?s, c)] @ segment_batches L slot k ?m segs"
        using segment_batches_append [of L slot k ?m "[(?s, c)]" segs] by simp
      have fl2: "segment_failures L k ?m ((?s, c) # segs) =
          segment_failures L k ?m [(?s, c)] @ segment_failures L k ?m segs"
        using segment_failures_append [of L k ?m "[(?s, c)]" segs] by simp
      have out: "dr_out ?dr = dr_out dr @ segment_batches L slot k ?m [(?s, c)]"
        and st: "dr_stats ?dr = foldl (\<lambda>st e. count_failure e st) (dr_stats dr) (segment_failures L k ?m [(?s, c)])"
        using seg by simp_all
      have sps: "spec_drain ?m ?s = ((?s, c) # segs, n, tt)" using unfold False sp by simp
      have "drained L slot k ?dr = drained L slot k dr"
        unfolding drained_def Let_def buf sps sp' out st removed
        using len le by (simp add: bat fl bat2 fl2 sp' bt_split_off_twice [OF bounds(2)])
      then show ?thesis using loop ih by simp
    qed
  qed
qed

section \<open>The decoder after a drain\<close>

lemma finish_drain_held:
  assumes ok: "stores_ok d" and b: "map_of (slots d) slot = Some b"
    and len: "data_len (dr_buffer dr) + dr_removed dr = data_len b"
    and n: "counted d"
  shows "counted (finish_drain slot dr d) \<longleftrightarrow> stores_ok (finish_drain slot dr d)"
    and "held_shreds (finish_drain slot dr d) \<le> held_shreds d"
proof -
  let ?keep = "keep_coding slot (dr_terminal dr) (sb_next_data_index (dr_buffer dr))"
  let ?gone = "filter (\<lambda>e. \<not> ?keep (fst e) (snd e)) (coding d)"
  let ?b = "if dr_terminal dr then (dr_buffer dr)\<lparr>sb_terminal_complete := True\<rparr> else dr_buffer dr"
  let ?d = "finish_drain slot dr d"
  have slots: "slots ?d = bt_insert slot ?b (slots d)" and coding: "coding ?d = bt_retain ?keep (coding d)"
    by (simp_all add: finish_drain_def Let_def)
  have w: "weight_of data_len (slots ?d) + data_len b = weight_of data_len (slots d) + data_len (dr_buffer dr)"
    using bt.weight_put [OF stores_okD(1) [OF ok], of data_len slot ?b] b by (simp add: slots)
  have c: "weight_of set_len (coding ?d) + weight_of set_len ?gone = weight_of set_len (coding d)"
    using weight_filter_split [of set_len "\<lambda>e. ?keep (fst e) (snd e)" "coding d"]
    by (simp add: coding bt_retain_def)
  have total: "buffered_shreds d = held_shreds d" "held_shreds d \<le> usize_max" using n by (simp_all add: counted_def)
  then have "weight_of set_len ?gone \<le> usize_max" using c by (simp add: held_shreds_def)
  then have "foldl (\<lambda>n e. sat_add n (set_len (snd e))) 0 ?gone = weight_of set_len ?gone"
    using foldl_sat_add [of 0 set_len ?gone] by simp
  then have "buffered_shreds ?d = buffered_shreds d - dr_removed dr - weight_of set_len ?gone"
    by (simp add: finish_drain_def Let_def)
  moreover have held: "held_shreds ?d + dr_removed dr + weight_of set_len ?gone = held_shreds d"
    using w c len by (simp add: held_shreds_def)
  ultimately show "counted ?d \<longleftrightarrow> stores_ok ?d" "held_shreds ?d \<le> held_shreds d"
    using total by (auto simp: counted_def)
qed

lemma terminal_already: "sb_terminal_complete b \<Longrightarrow> b\<lparr>sb_terminal_complete := True\<rparr> = b"
  by (cases b) simp

lemma finish_drain_stores:
  assumes ok: "stores_ok d" and b: "buffer_ok (dr_buffer dr)"
    and t: "sb_terminal_complete (dr_buffer dr) = dr_terminal dr"
  shows "stores_ok (finish_drain slot dr d)"
proof (rule stores_okI)
  let ?d = "finish_drain slot dr d"
  have s: "slots ?d = bt_insert slot (dr_buffer dr) (slots d)"
    using t by (simp add: finish_drain_def Let_def) (metis terminal_already)
  have c: "coding ?d = bt_retain (keep_coding slot (dr_terminal dr) (sb_next_data_index (dr_buffer dr))) (coding d)"
    by (simp add: finish_drain_def Let_def)
  show "bt_ok (slots ?d)" "bt_ok (coding ?d)" using stores_okD(1,2) [OF ok] by (simp_all add: s c)
  show "buffer_ok b'" if "map_of (slots ?d) s' = Some b'" for s' b'
    using that b ok stores_okD(3) [OF ok] by (auto simp: s store_simps stores_okD(1) split: if_splits)
  fix s' f cs assume "map_of (coding ?d) (s', f) = Some cs"
  then have cs: "map_of (coding d) (s', f) = Some cs" "s' \<noteq> slot \<or> \<not> dr_terminal dr"
    using stores_okD(2) [OF ok]
    by (auto simp: c store_simps keep_coding_def split: option.splits if_splits)
  show "set_ok f cs" using cs(1) by (rule stores_okD(4) [OF ok])
  show "\<exists>b. map_of (slots ?d) s' = Some b \<and> \<not> sb_terminal_complete b"
    using stores_okD(5) [OF ok cs(1)] cs(2) t ok by (auto simp: s store_simps stores_okD(1))
qed

lemma finish_drain_frame [simp]:
  "config (finish_drain slot dr d) = config d"
  "forward_watermark (finish_drain slot dr d) = forward_watermark d"
  "merkle_rs_cache (finish_drain slot dr d) = merkle_rs_cache d"
  by (simp_all add: finish_drain_def Let_def)

lemma finish_drain_length:
  "bt_ok (slots d) \<Longrightarrow> map_of (slots d) slot = Some b \<Longrightarrow> length (slots (finish_drain slot dr d)) = length (slots d)"
  by (simp add: finish_drain_def Let_def length_bt_insert_same)

lemma drained_facts:
  fixes L :: "('tx, 'rs, 'c) ledger" and slot k st
  assumes "buffer_ok b" "\<not> sb_terminal_complete b"
  defines "dr \<equiv> drained L slot k (drain_start b st)"
  shows "buffer_ok (dr_buffer dr)" "sb_terminal_complete (dr_buffer dr) = dr_terminal dr"
    "data_len (dr_buffer dr) + dr_removed dr = data_len b"
proof -
  obtain segs n t where sp: "spec_drain (map_of (sb_data b)) (sb_next_data_index b) = (segs, n, t)"
    by (metis prod_cases3)
  have none: "map_of (sb_data b) (- 1) = None" using assms(1) by (auto simp: buffer_ok_def dom_def)
  have n: "sb_next_data_index b \<le> n" using spec_drain_bounds [OF sp none] by simp
  have le: "length (bt_split_off n (sb_data b)) \<le> data_len b" by (simp add: bt_split_off_def)
  have "buffer_ok (b\<lparr>sb_next_data_index := n, sb_data := bt_split_off n (sb_data b)\<rparr>)"
    using assms(1) n refl by (rule buffer_ok_cut)
  then show "buffer_ok (dr_buffer dr)"
    by (auto simp: dr_def drained_def drain_start_def Let_def sp buffer_ok_def)
  show "sb_terminal_complete (dr_buffer dr) = dr_terminal dr"
    by (simp add: dr_def drained_def drain_start_def Let_def sp)
  show "data_len (dr_buffer dr) + dr_removed dr = data_len b"
    using le by (simp add: dr_def drained_def drain_start_def Let_def sp)
qed

lemma drain_ready_segments_eq:
  assumes ok: "stores_ok d" and b: "map_of (slots d) slot = Some b" "\<not> sb_terminal_complete b"
    and n: "counted d"
  shows "drain_ready_segments L slot d =
    (let dr = drained L slot (max_deshred_bytes (config d)) (drain_start b (stats d))
     in Some (dr_out dr, finish_drain slot dr d))"
proof -
  have "data_len b \<le> held_shreds d"
    using bt.weight_lookup_le [OF stores_okD(1) [OF ok] b(1), of data_len] by (simp add: held_shreds_def)
  then have "data_len b \<le> usize_max" using n by (simp add: counted_def)
  then have "drain_loop L slot (max_deshred_bytes (config d)) (drain_start b (stats d)) =
      Some (drained L slot (max_deshred_bytes (config d)) (drain_start b (stats d)))"
    using b(2) stores_okD(3) [OF ok b(1)] by (intro drain_loop_spec) (simp_all add: drain_start_def)
  then show ?thesis using b(1) by (simp add: drain_ready_segments_def Let_def)
qed

lemma drain_ready_segments_ok:
  assumes n: "counted d" and live: "live_slot d slot"
  obtains out d' where "drain_ready_segments L slot d = Some (out, d')" "counted d'"
    "held_shreds d' \<le> held_shreds d" "length (slots d') = length (slots d)" "config d' = config d"
    "forward_watermark d' = forward_watermark d" "\<forall>b \<in> set out. batch_slot b = slot"
proof -
  have ok: "stores_ok d" using n by (simp add: counted_def)
  obtain b where b: "map_of (slots d) slot = Some b" "\<not> sb_terminal_complete b"
    using live by (auto simp: live_slot_def)
  let ?dr = "drained L slot (max_deshred_bytes (config d)) (drain_start b (stats d))"
  note facts = drained_facts [OF stores_okD(3) [OF ok b(1)] b(2)]
  have st: "stores_ok (finish_drain slot ?dr d)" using ok facts(1,2) by (rule finish_drain_stores)
  have out: "\<forall>b \<in> set (dr_out ?dr). batch_slot b = slot"
    by (auto simp: drained_def drain_start_def segment_batches_def Let_def split: prod.splits sum.splits)
  have "counted (finish_drain slot ?dr d)"
    using finish_drain_held(1) [OF ok b(1) facts(3) n] st by (rule iffD2)
  moreover have "held_shreds (finish_drain slot ?dr d) \<le> held_shreds d"
    using ok b(1) facts(3) n by (rule finish_drain_held(2))
  moreover have "drain_ready_segments L slot d = Some (dr_out ?dr, finish_drain slot ?dr d)"
    using drain_ready_segments_eq [OF ok b n, of L] by (simp add: Let_def)
  moreover have "length (slots (finish_drain slot ?dr d)) = length (slots d)"
    using stores_okD(1) [OF ok] b(1) by (rule finish_drain_length)
  ultimately show thesis using out that [of "dr_out ?dr" "finish_drain slot ?dr d"] by simp
qed

end
