(* ===== verification/Shred_Decoder.thy ===== *)
theory Shred_Decoder
  imports Drain_Refinement
begin

text \<open>
  \<open>RawShredDecoder::push_packet\<close> of \<open>src/shred/reassembler.rs\<close>, composed of the operations of
  the earlier theories in the order the method calls them. \<open>None\<close> is a panic or a loop that
  never ends; it is shown that neither happens. The decoder invariant is kept by a packet and by an
  eviction, so it holds after any sequence of them.
\<close>

section \<open>Pushing a packet\<close>

text \<open>The end of \<open>push_packet\<close> when nothing changed: a slot made for this packet and still empty
  is dropped again.\<close>

definition finish_unchanged :: "u64 \<Rightarrow> bool \<Rightarrow> 'c decoder \<Rightarrow> 'c decoder option" where
  "finish_unchanged slot new_slot d =
     (if new_slot
      then (case map_of (slots d) slot of
              None \<Rightarrow> None
            | Some buffer \<Rightarrow>
                if sb_data buffer = [] \<and> \<not> list_ex (\<lambda>e. fst (fst e) = slot) (coding d)
                then Some (d\<lparr>slots := bt_remove slot (slots d)\<rparr>)
                else Some d)
      else Some d)"

text \<open>The end of \<open>push_packet\<close> when a shred was stored.\<close>

definition finish_changed :: "('tx, 'rs, 'c) ledger \<Rightarrow> u64 \<Rightarrow> u32 \<Rightarrow> instant \<Rightarrow> 'c decoder
    \<Rightarrow> ('tx shred_entry_batch list \<times> 'c decoder) option" where
  "finish_changed L slot fec_set now d =
     do {
       buffer \<leftarrow> map_of (slots d) slot;
       let d = d\<lparr>slots := bt_insert slot (buffer\<lparr>sb_last_activity := now\<rparr>) (slots d)\<rparr>;
       let (recovered_data, d) = try_fec_recover L slot fec_set now d;
       buffer \<leftarrow> map_of (slots d) slot;
       (out, d) \<leftarrow> (if recovered_data \<or> map_of (sb_data buffer) (sb_next_data_index buffer) \<noteq> None
                    then drain_ready_segments L slot d else Some ([], d));
       Some (out, enforce_buffer_limit MAX_BUFFERED_SHREDS (note_emitted out d))
     }"

text \<open>The part after the slot's buffer is found or made.\<close>

definition push_shred :: "('tx, 'rs, 'c) ledger \<Rightarrow> shred \<Rightarrow> bool \<Rightarrow> instant \<Rightarrow> 'c decoder
    \<Rightarrow> ('tx shred_entry_batch list \<times> 'c decoder) option" where
  "push_shred L s new_slot now d =
     do {
       (changed, d) \<leftarrow>
         (if sh_is_code s
          then insert_coding_shred (sh_slot s) (sh_fec_set_index s) s (bump (coding_shreds_update ((+) 1)) d)
          else insert_data_shred (sh_slot s) s (bump (data_shreds_update ((+) 1)) d));
       if changed then finish_changed L (sh_slot s) (sh_fec_set_index s) now d
       else map_option (\<lambda>d. ([], d)) (finish_unchanged (sh_slot s) new_slot d)
     }"

definition is_stale :: "u64 \<Rightarrow> 'c decoder \<Rightarrow> bool" where
  "is_stale slot d \<longleftrightarrow>
     forward_slot_watermark (config d) \<and>
     (case forward_watermark d of None \<Rightarrow> False | Some watermark \<Rightarrow> slot < watermark)"

definition push_packet :: "('tx, 'rs, 'c) ledger \<Rightarrow> bytes \<Rightarrow> instant \<Rightarrow> 'c decoder
    \<Rightarrow> ('tx shred_entry_batch list \<times> 'c decoder) option" where
  "push_packet L packet now d =
     (let d = bump (udp_packets_update ((+) 1)) d
      in case parse_udp_packet L (config d) packet of
           Inl _ \<Rightarrow> Some ([], bump (parse_errors_update ((+) 1)) d)
         | Inr s \<Rightarrow>
             (let slot = sh_slot s
              in if is_stale slot d then Some ([], bump (stale_shreds_update ((+) 1)) d)
                 else
                   (let new_slot = (map_of (slots d) slot = None);
                        (admitted, d) = (if new_slot then admit_slot slot d else (True, d))
                    in if \<not> admitted then Some ([], bump (stale_shreds_update ((+) 1)) d)
                       else case map_of (slots d) slot of
                         None \<Rightarrow> push_shred L s new_slot now
                                   (d\<lparr>slots := bt_insert slot (slot_buffer_new now) (slots d)\<rparr>)
                       | Some buffer \<Rightarrow>
                           if sb_terminal_complete buffer
                           then Some ([], bump (duplicate_shreds_update ((+) 1)) d)
                           else push_shred L s new_slot now d)))"

section \<open>The invariant\<close>

text \<open>
  The parser of the ledger library refuses a data shred whose index is not below
  \<open>MAX_DATA_SHREDS_PER_SLOT\<close>, 32768. The reassembler relies on it: a data-complete shred with the last
  index of the type could never be drained.
\<close>

definition parser_bounds_index :: "('tx, 'rs, 'c) ledger \<Rightarrow> bool" where
  "parser_bounds_index L \<longleftrightarrow>
     (\<forall>p s. new_from_serialized_shred L p = Inr s \<longrightarrow> \<not> sh_is_code s \<longrightarrow> sh_index s < 32768)"

lemma parse_udp_packet_Inr:
  "parse_udp_packet L c p = Inr s \<Longrightarrow> \<exists>q. new_from_serialized_shred L q = Inr s"
  by (auto simp: parse_udp_packet_def parse_with_def split: if_splits sum.splits)

lemma parsed_index:
  assumes "parser_bounds_index L" "parse_udp_packet L c p = Inr s" "\<not> sh_is_code s"
  shows "sh_index s \<noteq> - 1"
proof -
  have "sh_index s < 32768"
    using assms parse_udp_packet_Inr [OF assms(2)] by (auto simp: parser_bounds_index_def)
  then show ?thesis by auto
qed

text \<open>The watermark after a step is the largest slot emitted so far, when it is configured.\<close>

definition watermark_after :: "raw_shred_config \<Rightarrow> u64 option \<Rightarrow> 'tx shred_entry_batch list \<Rightarrow> u64 option" where
  "watermark_after c w out =
     (if out = [] \<or> \<not> forward_slot_watermark c then w
      else Some (foldl (\<lambda>m b. max m (batch_slot b)) (case w of None \<Rightarrow> 0 | Some w \<Rightarrow> w) out))"

lemma note_emitted_watermark_after:
  "forward_watermark (note_emitted out d) = watermark_after (config d) (forward_watermark d) out"
  by (simp add: note_emitted_def watermark_after_def Let_def)

lemma watermark_after_Nil [simp]: "watermark_after c w [] = w"
  by (simp add: watermark_after_def)

lemma finish_changed_ok:
  assumes n: "counted d" and live: "live_slot d slot" and room: "held_shreds d + 256 \<le> usize_max"
    and sl: "slots_bounded d"
  obtains out d' where "finish_changed L slot fec now d = Some (out, d')" "decoder_inv d'"
    "config d' = config d" "\<forall>b \<in> set out. batch_slot b = slot"
    "forward_watermark d' = watermark_after (config d) (forward_watermark d) out"
proof -
  have ok: "stores_ok d" using n by (simp add: counted_def)
  obtain b where b: "map_of (slots d) slot = Some b" "\<not> sb_terminal_complete b"
    using live by (auto simp: live_slot_def)
  let ?b = "b\<lparr>sb_last_activity := now\<rparr>"
  let ?d = "d\<lparr>slots := bt_insert slot ?b (slots d)\<rparr>"
  have bok: "buffer_ok ?b" using stores_okD(3) [OF ok b(1)] by (simp add: buffer_ok_def)
  have "stores_ok (d\<lparr>slots := bt_insert slot ?b (slots d), buffered_shreds := buffered_shreds d\<rparr>)"
    by (rule replace_buffer_stores [OF ok b(1) bok]) (use b in simp)
  then have ok1: "stores_ok ?d" by simp
  have held1: "held_shreds ?d = held_shreds d"
    using held_replace_buffer [OF stores_okD(1) [OF ok] b(1), of ?b] by simp
  have live1: "live_slot ?d slot" using b ok by (simp add: live_slot_def store_simps stores_okD(1))
  have n1: "counted ?d" using n ok1 held1 by (simp add: counted_def)
  have len1: "length (slots ?d) = length (slots d)"
    using length_bt_insert_same [OF stores_okD(1) [OF ok] b(1)] by simp
  obtain r d2 where tr: "try_fec_recover L slot fec now ?d = (r, d2)" by fastforce
  have st: "steady MAX_SHREDS_PER_FEC_SET slot ?d d2" using ok1 live1 tr by (rule try_fec_recover_steady)
  then have n2: "counted d2" and live2: "live_slot d2 slot" and len2: "length (slots d2) = length (slots d)"
    and c2: "config d2 = config d" "forward_watermark d2 = forward_watermark d"
    using n1 held1 room len1 by (auto simp: steady_def MAX_SHREDS_PER_FEC_SET_def)
  obtain b2 where b2: "map_of (slots d2) slot = Some b2" using live2 by (auto simp: live_slot_def)
  obtain out d3 where dr: "(if r \<or> map_of (sb_data b2) (sb_next_data_index b2) \<noteq> None
        then drain_ready_segments L slot d2 else Some ([], d2)) = Some (out, d3)"
    and d3: "counted d3" "length (slots d3) = length (slots d2)" "config d3 = config d2"
      "\<forall>b \<in> set out. batch_slot b = slot" "forward_watermark d3 = forward_watermark d2"
    using drain_ready_segments_ok [OF n2 live2, of L] n2 by (metis (no_types) empty_iff list.set(1))
  have "counted (note_emitted out d3)" using d3(1) by (simp add: counted_def)
  moreover have "slots_bounded (note_emitted out d3)"
    using sl d3(2,3) len2 c2(1) by (simp add: slots_bounded_def)
  ultimately have "decoder_inv (enforce_buffer_limit MAX_BUFFERED_SHREDS (note_emitted out d3))"
    by (rule enforce_buffer_limit_inv)
  moreover have fin: "finish_changed L slot fec now d =
      Some (out, enforce_buffer_limit MAX_BUFFERED_SHREDS (note_emitted out d3))"
    using b(1) tr b2 dr by (simp add: finish_changed_def Let_def)
  ultimately show thesis using d3(3,4,5) c2
    by (intro that [OF fin]) (simp_all add: note_emitted_watermark_after)
qed

lemma live_slot_cong: "slots d' = slots d \<Longrightarrow> live_slot d' slot = live_slot d slot"
  by (simp add: live_slot_def)

lemma insert_shred_ok:
  assumes n: "counted d" and live: "live_slot d slot" and room: "held_shreds d + 1 \<le> usize_max"
    and idx: "\<not> sh_is_code s \<longrightarrow> sh_index s \<noteq> - 1"
    and ins: "(if sh_is_code s then insert_coding_shred slot fec s (bump f d)
       else insert_data_shred slot s (bump g d)) = Some (changed, d')"
  shows "counted d' \<and> live_slot d' slot \<and> held_shreds d' = held_shreds d + of_bool changed \<and>
    length (slots d') = length (slots d) \<and> config d' = config d \<and>
    forward_watermark d' = forward_watermark d \<and>
    (\<not> changed \<longrightarrow> slots d' = slots d \<and> coding d' = coding d \<and> buffered_shreds d' = buffered_shreds d)"
proof (cases "sh_is_code s")
  case True
  have ok: "stores_ok (bump f d)" using n by (simp add: counted_def)
  have i: "insert_coding_shred slot fec s (bump f d) = Some (changed, d')" using ins True by simp
  have l: "\<And>b. map_of (slots (bump f d)) slot = Some b \<Longrightarrow> \<not> sb_terminal_complete b"
    using live by (simp add: live_slot_def)
  show ?thesis
    using insert_coding_shred_ok [OF ok i l] insert_coding_shred_frame [OF i stores_okD(2) [OF ok]]
      n room live by (auto simp: counted_def live_slot_def)
next
  case False
  have ok: "stores_ok (bump g d)" using n by (simp add: counted_def)
  have i: "insert_data_shred slot s (bump g d) = Some (changed, d')" using ins False by simp
  have l: "\<And>b. map_of (slots (bump g d)) slot = Some b \<Longrightarrow> \<not> sb_terminal_complete b"
    using live by (simp add: live_slot_def)
  have "live_slot d' slot"
    using i
  proof (cases rule: insert_data_shred_cases)
    case kept
    with live show ?thesis by (simp add: live_slot_def)
  next
    case (added b)
    with l n show ?thesis by (auto simp: live_slot_def store_simps counted_def stores_okD(1))
  qed
  then show ?thesis
    using insert_data_shred_ok [OF ok i l] insert_data_shred_frame [OF i] False idx n room
    by (auto simp: counted_def)
qed

lemma finish_unchanged_ok:
  assumes n: "counted d" and live: "live_slot d slot"
  obtains d' where "finish_unchanged slot new_slot d = Some d'" "counted d'"
    "held_shreds d' = held_shreds d" "length (slots d') \<le> length (slots d)" "config d' = config d"
    "forward_watermark d' = forward_watermark d"
proof -
  have ok: "stores_ok d" using n by (simp add: counted_def)
  obtain b where b: "map_of (slots d) slot = Some b" using live by (auto simp: live_slot_def)
  show thesis
  proof (cases "new_slot \<and> sb_data b = [] \<and> \<not> list_ex (\<lambda>e. fst (fst e) = slot) (coding d)")
    case True
    let ?d = "d\<lparr>slots := bt_remove slot (slots d)\<rparr>"
    have none: "map_of (coding d) (slot, f) = None" for f
      using True by (force simp: list_ex_iff map_of_eq_None_iff)
    have "stores_ok ?d"
    proof (rule stores_okI)
      fix s' f cs assume "map_of (coding ?d) (s', f) = Some cs"
      then have cs: "map_of (coding d) (s', f) = Some cs" by simp
      then show "set_ok f cs" by (rule stores_okD(4) [OF ok])
      have "s' \<noteq> slot" using cs none by auto
      then show "\<exists>b. map_of (slots ?d) s' = Some b \<and> \<not> sb_terminal_complete b"
        using stores_okD(5) [OF ok cs] by (simp add: map_of_bt_remove)
    next
      show "buffer_ok b'" if "map_of (slots ?d) s' = Some b'" for s' b'
        using that stores_okD(3) [OF ok] by (simp add: map_of_bt_remove split: if_splits)
    qed (use ok in \<open>simp_all add: stores_okD bt_remove_def\<close>)
    moreover have "held_shreds ?d = held_shreds d"
      using bt.weight_del [OF stores_okD(1) [OF ok], of data_len slot] b True
      by (simp add: held_shreds_def)
    moreover have "finish_unchanged slot new_slot d = Some ?d" using True b by (simp add: finish_unchanged_def)
    moreover have "length (slots ?d) \<le> length (slots d)" by (simp add: bt_remove_def)
    ultimately show thesis using n by (intro that [of ?d]) (simp_all add: counted_def)
  next
    case False
    then have "finish_unchanged slot new_slot d = Some d" using b by (auto simp: finish_unchanged_def)
    then show thesis using n by (intro that [of d]) simp_all
  qed
qed

lemma push_shred_ok:
  assumes n: "counted d" and live: "live_slot d (sh_slot s)" and room: "held_shreds d \<le> MAX_BUFFERED_SHREDS"
    and idx: "\<not> sh_is_code s \<longrightarrow> sh_index s \<noteq> - 1" and sl: "slots_bounded d"
  obtains out d' where "push_shred L s new_slot now d = Some (out, d')" "decoder_inv d'"
    "config d' = config d" "\<forall>b \<in> set out. batch_slot b = sh_slot s"
    "forward_watermark d' = watermark_after (config d) (forward_watermark d) out"
proof -
  let ?f = "coding_shreds_update ((+) 1)" and ?g = "data_shreds_update ((+) 1)"
  have big: "held_shreds d + 257 \<le> usize_max" using room by (simp add: MAX_BUFFERED_SHREDS_def)
  obtain b where b: "map_of (slots d) (sh_slot s) = Some b" using live by (auto simp: live_slot_def)
  obtain r where r: "(if sh_is_code s then insert_coding_shred (sh_slot s) (sh_fec_set_index s) s (bump ?f d)
       else insert_data_shred (sh_slot s) s (bump ?g d)) = Some r"
    using insert_data_shred_total [of "bump ?g d" "sh_slot s" b s] b
      insert_coding_shred_total [of "bump ?f d" "sh_slot s" b "sh_fec_set_index s" s]
    by (cases "sh_is_code s") (auto simp del: split_paired_Ex)
  obtain changed d1 where c: "r = (changed, d1)" by fastforce
  have "held_shreds d + 1 \<le> usize_max" using big by simp
  from insert_shred_ok [OF n live this idx r [unfolded c]]
  have d1: "counted d1" "live_slot d1 (sh_slot s)" "held_shreds d1 = held_shreds d + of_bool changed"
    "length (slots d1) = length (slots d)" "config d1 = config d"
    "forward_watermark d1 = forward_watermark d" by auto
  have sl1: "slots_bounded d1" using sl d1(4,5) by (simp add: slots_bounded_def)
  show thesis
  proof (cases changed)
    case True
    have "held_shreds d1 + 256 \<le> usize_max" using d1(3) big True by simp
    from finish_changed_ok [OF d1(1,2) this sl1, of L "sh_fec_set_index s" now]
    obtain out d' where "finish_changed L (sh_slot s) (sh_fec_set_index s) now d1 = Some (out, d')"
      "decoder_inv d'" "config d' = config d1" "\<forall>b \<in> set out. batch_slot b = sh_slot s"
      "forward_watermark d' = watermark_after (config d1) (forward_watermark d1) out" .
    then show thesis using r c True d1(5,6) by (intro that [of out d']) (simp_all add: push_shred_def)
  next
    case False
    from finish_unchanged_ok [OF d1(1,2), of new_slot]
    obtain d' where "finish_unchanged (sh_slot s) new_slot d1 = Some d'" "counted d'"
      "held_shreds d' = held_shreds d1" "length (slots d') \<le> length (slots d1)" "config d' = config d1"
      "forward_watermark d' = forward_watermark d1" .
    then show thesis
      using r c False d1(3,5,6) room sl1
      by (intro that [of "[]" d']) (auto simp: push_shred_def decoder_inv_def counted_def slots_bounded_def)
  qed
qed

lemma with_new_slot_ok:
  fixes now :: instant
  assumes inv: "decoder_inv d" and none: "map_of (slots d) slot = None"
    and room: "length (slots d) < max 1 (max_tracked_slots (config d))"
  defines "d' \<equiv> d\<lparr>slots := bt_insert slot (slot_buffer_new now) (slots d)\<rparr>"
  shows "counted d'" "live_slot d' slot" "held_shreds d' = held_shreds d" "slots_bounded d'"
proof -
  have ok: "stores_ok d" and n: "buffered_shreds d = held_shreds d" "held_shreds d \<le> MAX_BUFFERED_SHREDS"
    using inv by (auto simp: decoder_inv_def)
  have "stores_ok d'"
  proof (rule stores_okI)
    fix s f cs assume "map_of (coding d') (s, f) = Some cs"
    then have cs: "map_of (coding d) (s, f) = Some cs" by (simp add: d'_def)
    then show "set_ok f cs" by (rule stores_okD(4) [OF ok])
    show "\<exists>b. map_of (slots d') s = Some b \<and> \<not> sb_terminal_complete b"
      using stores_okD(5) [OF ok cs] none ok by (auto simp: d'_def store_simps stores_okD(1))
  qed (use ok buffer_ok_new in \<open>auto simp: d'_def stores_okD store_simps split: if_splits\<close>)
  moreover show held: "held_shreds d' = held_shreds d"
    using bt.weight_put_fresh [OF stores_okD(1) [OF ok] none, of data_len]
    by (simp add: d'_def held_shreds_def slot_buffer_new_def)
  ultimately show "counted d'" using n by (simp add: counted_def d'_def MAX_BUFFERED_SHREDS_def)
  show "live_slot d' slot" using ok by (simp add: d'_def live_slot_def store_simps stores_okD(1) slot_buffer_new_def)
  show "slots_bounded d'"
    using room length_bt_insert_fresh [OF stores_okD(1) [OF ok] none] by (simp add: d'_def slots_bounded_def)
qed

lemma inv_counted: "decoder_inv d \<Longrightarrow> counted d"
  by (auto simp: decoder_inv_def counted_def MAX_BUFFERED_SHREDS_def)

text \<open>What a step leaves behind: it returned, the invariant holds, and every batch it emitted is of a
  slot that was not stale when the packet arrived.\<close>

definition good_step :: "'c decoder \<Rightarrow> ('tx shred_entry_batch list \<times> 'c decoder) option \<Rightarrow> bool" where
  "good_step d r \<longleftrightarrow>
     (\<exists>out d'. r = Some (out, d') \<and> decoder_inv d' \<and> config d' = config d \<and>
        (\<forall>b \<in> set out. \<not> is_stale (batch_slot b) d) \<and>
        forward_watermark d' = watermark_after (config d) (forward_watermark d) out)"

lemma good_step_quiet:
  "decoder_inv d' \<Longrightarrow> config d' = config d \<Longrightarrow> forward_watermark d' = forward_watermark d \<Longrightarrow>
     good_step d (Some ([], d'))"
  by (simp add: good_step_def)

lemma good_step_push_shred:
  assumes "counted d1" "live_slot d1 (sh_slot s)" "held_shreds d1 \<le> MAX_BUFFERED_SHREDS"
    "slots_bounded d1" "config d1 = config d" "\<not> is_stale (sh_slot s) d"
    and wm: "forward_watermark d1 = forward_watermark d" and idx: "\<not> sh_is_code s \<longrightarrow> sh_index s \<noteq> - 1"
  shows "good_step d (push_shred L s new_slot now d1)"
  using push_shred_ok [OF assms(1-3) idx assms(4), of L new_slot now] assms(5,6) wm
  by (metis good_step_def)

lemma push_packet_good:
  assumes P: "parser_bounds_index L" and inv: "decoder_inv d"
  shows "good_step d (push_packet L packet now d)"
proof -
  let ?d = "bump (udp_packets_update ((+) 1)) d"
  have inv0: "decoder_inv ?d" using inv by simp
  show ?thesis
  proof (cases "parse_udp_packet L (config ?d) packet")
    case (Inl e)
    then show ?thesis using inv by (simp add: push_packet_def Let_def good_step_quiet)
  next
    case (Inr s)
    let ?slot = "sh_slot s"
    have idx: "\<not> sh_is_code s \<longrightarrow> sh_index s \<noteq> - 1" using parsed_index [OF P Inr] by blast
    show ?thesis
    proof (cases "is_stale ?slot ?d")
      case True
      then show ?thesis using inv Inr by (simp add: push_packet_def Let_def good_step_quiet)
    next
      case fresh: False
      then have fresh': "\<not> is_stale ?slot d" by (simp add: is_stale_def)
      show ?thesis
      proof (cases "map_of (slots ?d) ?slot")
        case (Some b)
        have "live_slot ?d ?slot" if "\<not> sb_terminal_complete b" using Some that by (simp add: live_slot_def)
        then have "good_step d (push_shred L s False now ?d)" if "\<not> sb_terminal_complete b"
          using inv0 that fresh' idx inv_counted [OF inv0]
          by (intro good_step_push_shred) (auto simp: decoder_inv_def)
        then show ?thesis
          using Some fresh Inr inv by (simp add: push_packet_def Let_def good_step_quiet)
      next
        case None
        obtain a d1 where ad: "admit_slot ?slot ?d = (a, d1)" by fastforce
        have d1: "decoder_inv d1" "config d1 = config d" "forward_watermark d1 = forward_watermark d"
          using admit_slot_inv [OF inv0, of ?slot] admit_slot_config [of ?slot ?d]
            admit_slot_frame(2) [of ?slot ?d] ad by simp_all
        have none: "map_of (slots d1) ?slot = None"
          using admit_slot_keeps_higher [of ?d ?slot ?slot] inv0 None ad by (simp add: decoder_inv_def)
        show ?thesis
        proof (cases a)
          case True
          then have room: "length (slots d1) < max 1 (max_tracked_slots (config d1))"
            using admit_slot_room [of ?slot ?d] ad d1(2) by simp
          note made = with_new_slot_ok [OF d1(1) none room, of now]
          have "good_step d (push_shred L s True now
              (d1\<lparr>slots := bt_insert ?slot (slot_buffer_new now) (slots d1)\<rparr>))"
            using made d1 fresh' idx by (intro good_step_push_shred) (auto simp: decoder_inv_def)
          then show ?thesis using True none None fresh Inr ad by (simp add: push_packet_def Let_def)
        next
          case False
          then show ?thesis
            using None fresh Inr ad d1 by (simp add: push_packet_def Let_def good_step_quiet)
        qed
      qed
    qed
  qed
qed

lemma push_packet_inv:
  assumes "parser_bounds_index L" "decoder_inv d"
  obtains out d' where "push_packet L packet now d = Some (out, d')" "decoder_inv d'" "config d' = config d"
    "\<forall>b \<in> set out. \<not> is_stale (batch_slot b) d"
    "forward_watermark d' = watermark_after (config d) (forward_watermark d) out"
  using push_packet_good [OF assms, of packet now] by (auto simp: good_step_def)

lemma evict_stale_slots_inv: "decoder_inv d \<Longrightarrow> decoder_inv (snd (evict_stale_slots now d))"
  by (simp add: evict_stale_slots_def remove_slots_inv)

end
