(* ===== verification/Arrival_Order.thy ===== *)
theory Arrival_Order
  imports Shred_Decoder
begin

text \<open>
  What a slot emits does not depend on the order in which its data shreds arrive, nor on repeats.
  \<open>push_packets\<close> feeds a list of datagrams to \<open>push_packet\<close>. For data shreds of one slot that agree
  on each index, the batches emitted are those of the specification on the set of shreds, which
  is shown by an invariant relating the buffer to everything that arrived.
\<close>

fun push_packets :: "('tx, 'rs, 'c) ledger \<Rightarrow> (bytes \<times> instant) list \<Rightarrow> 'c decoder
    \<Rightarrow> ('tx shred_entry_batch list \<times> 'c decoder) option" where
  "push_packets L [] d = Some ([], d)"
| "push_packets L ((packet, now) # rest) d =
     do {
       (out, d') \<leftarrow> push_packet L packet now d;
       (outs, d'') \<leftarrow> push_packets L rest d';
       Some (out @ outs, d'')
     }"

section \<open>The specification grows with the map\<close>

lemma spec_drain_extend:
  assumes "spec_drain m i = (segs, n, t)" and "\<And>j data. m j = Some data \<Longrightarrow> m' j = Some data"
    and "m' (- 1) = None"
  shows "spec_drain m' i = (if t then (segs, n, True)
    else case spec_drain m' n of (segs', n', t') \<Rightarrow> (segs @ segs', n', t'))"
  using assms
proof (induction m i arbitrary: segs n t rule: spec_drain.induct)
  case (1 m i)
  show ?case
  proof (cases "find_complete m i")
    case None
    with 1(2) show ?thesis by (auto simp: spec_drain.simps [of m i] split: prod.split)
  next
    case (Some c)
    obtain data where data: "m c = Some data" using find_complete_present [OF Some] by blast
    have data': "m' c = Some data" using data by (rule 1(3))
    have c: "c \<noteq> - 1" "\<not> c < i" using find_complete_Some [OF Some] data' 1(4) by auto
    have f: "find_complete m' i = Some c" using Some 1(3) by (rule find_complete_mono)
    show ?thesis
    proof (cases "ds_last_in_slot data")
      case True
      then show ?thesis
        using 1(2) Some f c data data' by (auto simp: spec_drain.simps [of m i] spec_drain.simps [of m' i])
    next
      case False
      obtain segs1 n1 t1 where s: "spec_drain m (c + 1) = (segs1, n1, t1)" by (metis prod_cases3)
      have eq: "segs = (i, c) # segs1" "n = n1" "t = t1"
        using 1(2) Some c data False s by (auto simp: spec_drain.simps [of m i])
      have "\<not> (c = - 1 \<or> c < i)" "\<not> (\<exists>data. m c = Some data \<and> ds_last_in_slot data)"
        using c data False by auto
      note ih = 1(1) [OF Some this s 1(3,4)]
      show ?thesis
        using ih f c data' False
        by (auto simp: eq spec_drain.simps [of m' i] split: prod.splits)
    qed
  qed
qed

lemma spec_drain_present:
  "spec_drain m i = (segs, n, t) \<Longrightarrow> m (- 1) = None \<Longrightarrow> i \<le> j \<Longrightarrow> j < n \<Longrightarrow> m j \<noteq> None"
proof (induction m i arbitrary: segs n t rule: spec_drain.induct)
  case (1 m i)
  show ?case
  proof (cases "find_complete m i")
    case None
    with 1(2,4,5) show ?thesis by (auto simp: spec_drain.simps [of m i])
  next
    case (Some c)
    note fc = find_complete_Some [OF Some]
    have c: "c \<noteq> - 1" "\<not> c < i" using fc 1(3) by auto
    have upto: "m j \<noteq> None" if "j \<le> c" using fc that 1(4) by (cases "j = c") auto
    show ?thesis
    proof (cases "j \<le> c")
      case False
      then have j: "c + 1 \<le> j" using c by (simp add: succ_le_iff)
      obtain segs1 n1 t1 where s: "spec_drain m (c + 1) = (segs1, n1, t1)" by (metis prod_cases3)
      have last: "\<not> (\<exists>data. m c = Some data \<and> ds_last_in_slot data)"
        using 1(2,5) Some c False less_succ_iff [OF c(1), of j] by (auto simp: spec_drain.simps [of m i])
      moreover have "(case spec_drain m (c + 1) of (segs, n, t) \<Rightarrow> ((i, c) # segs, n, t)) = (segs, n, t)"
        using 1(2) Some c last by (simp only: spec_drain.simps [of m i] option.case if_False simp_thms)
      then have "n = n1" by (simp add: s)
      moreover have "\<not> (c = - 1 \<or> c < i)" using c by blast
      ultimately show ?thesis using 1(1) [OF Some _ last s 1(3) j] 1(5) by blast
    qed (rule upto)
  qed
qed

lemma spec_drain_at_gap: "m i = None \<Longrightarrow> spec_drain m i = ([], i, False)"
  by (simp add: spec_drain.simps [of m i] find_complete.simps [of m i])

section \<open>The shreds that arrived\<close>

definition arrived :: "shred list \<Rightarrow> data_map" where
  "arrived ss i = map_option data_shred_of (find (\<lambda>s. sh_index s = i) ss)"

definition agreeing :: "shred list \<Rightarrow> bool" where
  "agreeing ss \<longleftrightarrow> (\<forall>s \<in> set ss. \<forall>s' \<in> set ss. sh_index s = sh_index s' \<longrightarrow> s = s')"

lemma arrived_Some_iff:
  assumes "agreeing ss"
  shows "arrived ss i = Some data \<longleftrightarrow> (\<exists>s \<in> set ss. sh_index s = i \<and> data = data_shred_of s)"
proof
  assume "arrived ss i = Some data"
  then show "\<exists>s \<in> set ss. sh_index s = i \<and> data = data_shred_of s"
    by (auto simp: arrived_def find_Some_iff)
next
  assume "\<exists>s \<in> set ss. sh_index s = i \<and> data = data_shred_of s"
  then obtain s where s: "s \<in> set ss" "sh_index s = i" "data = data_shred_of s" by blast
  then have "find (\<lambda>s. sh_index s = i) ss \<noteq> None" by (auto simp: find_None_iff)
  then obtain s' where s': "find (\<lambda>s. sh_index s = i) ss = Some s'" by blast
  then have "s' \<in> set ss" "sh_index s' = i" by (auto simp: find_Some_iff)
  with s assms have "s' = s" by (auto simp: agreeing_def)
  with s(3) s' show "arrived ss i = Some data" by (simp add: arrived_def)
qed

lemma arrived_cong:
  assumes "set ss = set ss'" "agreeing ss"
  shows "arrived ss = arrived ss'"
proof
  fix i
  have "agreeing ss'" using assms by (simp add: agreeing_def)
  then have "arrived ss i = Some data \<longleftrightarrow> arrived ss' i = Some data" for data
    using arrived_Some_iff [OF assms(2)] arrived_Some_iff [of ss'] assms(1) by simp
  then show "arrived ss i = arrived ss' i" by (metis option.exhaust)
qed

lemma arrived_snoc:
  "arrived (ss @ [s]) = (case arrived ss (sh_index s) of
     None \<Rightarrow> (arrived ss)(sh_index s \<mapsto> data_shred_of s) | Some _ \<Rightarrow> arrived ss)"
proof
  fix i
  have "find P (xs @ [x]) = (case find P xs of None \<Rightarrow> if P x then Some x else None | Some y \<Rightarrow> Some y)"
    for P and xs :: "shred list" and x
    by (induction xs) auto
  then show "arrived (ss @ [s]) i = (case arrived ss (sh_index s) of
     None \<Rightarrow> (arrived ss)(sh_index s \<mapsto> data_shred_of s) | Some _ \<Rightarrow> arrived ss) i"
    by (auto simp: arrived_def split: option.split)
qed

lemma arrived_Nil: "arrived [] = Map.empty"
  by (simp add: arrived_def fun_eq_iff)

lemma arrived_mono: "arrived ss j = Some data \<Longrightarrow> arrived (ss @ [s]) j = Some data"
  by (auto simp: arrived_snoc split: option.split)

section \<open>The buffer of the slot\<close>

definition buffer_follows :: "data_map \<Rightarrow> slot_buffer \<Rightarrow> bool" where
  "buffer_follows m b \<longleftrightarrow>
     (case spec_drain m 0 of (segs, n, t) \<Rightarrow>
        sb_next_data_index b = n \<and> sb_terminal_complete b = t \<and>
        map_of (sb_data b) = (\<lambda>j. if t \<or> j < n then None else m j))"

definition small_indices :: "data_map \<Rightarrow> bool" where
  "small_indices m \<longleftrightarrow> (\<forall>j \<in> dom m. j < 32768)"

lemma small_indices_max: "small_indices m \<Longrightarrow> m (- 1) = None"
  by (cases "m (- 1)") (auto simp: small_indices_def dom_def)

lemma buffer_length_bound:
  assumes ok: "buffer_ok b" and small: "\<forall>j \<in> dom (map_of (sb_data b)). j < 32768"
  shows "data_len b \<le> 32768"
proof -
  have d: "distinct (map fst (sb_data b))" using ok by (simp add: buffer_ok_def bt_ok_distinct)
  have "unat ` set (map fst (sb_data b)) \<subseteq> {..< 32768 :: nat}"
    using small unfolding dom_map_of_conv_image_fst by (auto simp: word_less_nat_alt)
  then have "card (unat ` set (map fst (sb_data b))) \<le> 32768"
    using card_mono [of "{..< 32768 :: nat}"] by fastforce
  moreover have "inj_on unat (set (map fst (sb_data b)))"
    by (auto intro!: inj_onI simp: word_unat_eq_iff)
  ultimately show ?thesis using distinct_card [OF d] by (simp add: card_image)
qed

text \<open>A new shred joins the buffer, and draining it leaves a buffer that follows the larger map, with
  the batches of the segments that became ready.\<close>

lemma drained_follows:
  assumes fol: "buffer_follows m b" and m': "m' = m(i \<mapsto> data)" and new: "m i = None"
    and live: "\<not> sb_terminal_complete b" and i: "sb_next_data_index b \<le> i"
    and ok: "bt_ok (sb_data b)" and small: "small_indices m'"
    and sp: "spec_drain m 0 = (segs, n, t)" and sp': "spec_drain m' 0 = (segs', n', t')"
    and b': "sb_data b' = bt_insert i data (sb_data b)" "sb_next_data_index b' = sb_next_data_index b"
      "\<not> sb_terminal_complete b'"
  shows "buffer_follows m' (dr_buffer (drained L slot k (drain_start b' st)))"
    and "segment_batches L slot k m' segs' =
      segment_batches L slot k m segs @ dr_out (drained L slot k (drain_start b' st))"
proof -
  have t: "\<not> t" and n: "sb_next_data_index b = n"
    and data: "map_of (sb_data b) = (\<lambda>j. if j < n then None else m j)"
    using fol live by (auto simp: buffer_follows_def sp)
  have none: "m' (- 1) = None" "m (- 1) = None"
    using small_indices_max [OF small] m' by (auto split: if_splits)
  have sub: "\<And>j x. m j = Some x \<Longrightarrow> m' j = Some x" using m' new by auto
  have data': "map_of (sb_data b') = (\<lambda>j. if j < n then None else m' j)"
    by (rule ext) (use i n ok in \<open>auto simp: b' store_simps data m'\<close>)
  obtain segs2 n2 t2 where sp2: "spec_drain m' n = (segs2, n2, t2)" by (metis prod_cases3)
  have split: "segs' = segs @ segs2" "n' = n2" "t' = t2"
    using spec_drain_extend [where m' = m', OF sp sub none(1)] sp2 sp' t by auto
  have agree: "map_of (sb_data b') j = m' j" if "n \<le> j" for j using that by (auto simp: data' dest: leD)
  have "map_of (sb_data b') (- 1) = None" using none by (simp add: data')
  from spec_drain_cong [where m' = m', OF agree this] have spb: "spec_drain (map_of (sb_data b')) n = (segs2, n2, t2)"
    using sp2 by simp
  have b2: "\<forall>seg \<in> set segs2. n \<le> fst seg" and n2: "n \<le> n2"
    using spec_drain_bounds [OF sp2 none(1)] by auto
  have b1: "\<forall>seg \<in> set segs. snd seg < n" using spec_drain_bounds [OF sp none(2)] by auto
  have old: "m j = m' j" if "j < n" for j using that i n m' by auto
  have "segment_batches L slot k m segs = segment_batches L slot k m' segs"
    by (rule segment_batches_cong) (meson b1 old order_le_less_trans)
  moreover have "segment_batches L slot k (map_of (sb_data b')) segs2 = segment_batches L slot k m' segs2"
    by (rule segment_batches_cong) (meson agree b2 order_trans)
  ultimately show "segment_batches L slot k m' segs' =
      segment_batches L slot k m segs @ dr_out (drained L slot k (drain_start b' st))"
    by (simp add: split segment_batches_append drained_def drain_start_def Let_def b'(2) n spb)
  have "map_of (if t2 then [] else bt_split_off n2 (sb_data b')) = (\<lambda>j. if t2 \<or> j < n2 then None else m' j)"
    by (rule ext) (use n2 in \<open>auto simp: map_of_bt_split_off data' not_less\<close>)
  then show "buffer_follows m' (dr_buffer (drained L slot k (drain_start b' st)))"
    using sp' by (simp add: buffer_follows_def drained_def drain_start_def Let_def b'(2) n spb split)
qed

lemma drained_at_gap:
  assumes "map_of (sb_data b) (sb_next_data_index b) = None" "buffer_ok b" "\<not> sb_terminal_complete b"
  shows "dr_out (drained L slot k (drain_start b st)) = []" "dr_buffer (drained L slot k (drain_start b st)) = b"
  using assms bt_split_off_all [OF assms(2)]
  by (simp_all add: drained_def drain_start_def spec_drain_at_gap Let_def segment_batches_def)

lemma try_fec_recover_uncoded: "coding d = [] \<Longrightarrow> try_fec_recover L slot fec now d = (False, d)"
  by (simp add: try_fec_recover_def)

lemma note_emitted_watermark:
  fixes bs :: "'tx shred_entry_batch list"
  shows "(\<And>w. forward_watermark d = Some w \<Longrightarrow> w \<le> slot) \<Longrightarrow> \<forall>b \<in> set bs. batch_slot b = slot \<Longrightarrow>
     forward_watermark (note_emitted bs d) = Some w \<Longrightarrow> w \<le> slot"
proof -
  have le: "foldl (\<lambda>m b. max m (batch_slot b)) m bs \<le> slot" if "m \<le> slot" "\<forall>b \<in> set bs. batch_slot b = slot"
    for m and bs :: "'tx shred_entry_batch list"
    using that by (induction bs arbitrary: m) auto
  assume "\<And>w. forward_watermark d = Some w \<Longrightarrow> w \<le> slot" "\<forall>b \<in> set bs. batch_slot b = slot"
    "forward_watermark (note_emitted bs d) = Some w"
  then show "w \<le> slot"
    using le [of "case forward_watermark d of None \<Rightarrow> 0 | Some w \<Rightarrow> w" bs]
    by (auto simp: note_emitted_def Let_def split: if_splits option.splits)
qed

section \<open>One more shred\<close>

definition only_slot :: "u64 \<Rightarrow> raw_shred_config \<Rightarrow> slot_buffer \<Rightarrow> 'c decoder \<Rightarrow> bool" where
  "only_slot slot c b d \<longleftrightarrow>
     counted d \<and> slots_bounded d \<and> config d = c \<and> coding d = [] \<and> slots d = [(slot, b)] \<and>
     (\<forall>w. forward_watermark d = Some w \<longrightarrow> w \<le> slot)"

lemma only_slot_bump [simp]: "only_slot slot c b (bump f d) = only_slot slot c b d"
  by (simp add: only_slot_def)

lemma only_slot_held: "only_slot slot c b d \<Longrightarrow> held_shreds d = data_len b"
  by (simp add: only_slot_def held_shreds_def)

lemma only_slot_buffer_ok: "only_slot slot c b d \<Longrightarrow> buffer_ok b"
  by (auto simp: only_slot_def counted_def dest: stores_okD(3) [of d slot b])

lemma finish_drain_only:
  assumes d: "only_slot slot c b d" and ok: "buffer_ok (dr_buffer dr)"
    and t: "sb_terminal_complete (dr_buffer dr) = dr_terminal dr"
    and len: "data_len (dr_buffer dr) + dr_removed dr = data_len b"
  shows "only_slot slot c (dr_buffer dr) (finish_drain slot dr d)"
proof -
  have st: "stores_ok d" and b: "map_of (slots d) slot = Some b" and n: "counted d"
    using d by (auto simp: only_slot_def counted_def)
  have "stores_ok (finish_drain slot dr d)" using st ok t by (rule finish_drain_stores)
  then have "counted (finish_drain slot dr d)" using finish_drain_held(1) [OF st b len n] by simp
  moreover have "slots (finish_drain slot dr d) = [(slot, dr_buffer dr)]"
    using d t by (simp add: finish_drain_def Let_def only_slot_def)
  moreover have "coding (finish_drain slot dr d) = []"
    using d by (simp add: finish_drain_def Let_def only_slot_def bt_retain_def)
  ultimately show ?thesis using d by (simp add: only_slot_def slots_bounded_def)
qed

lemma finish_changed_only:
  fixes L :: "('tx, 'rs, 'c) ledger"
  assumes d: "only_slot slot c b d" and live: "\<not> sb_terminal_complete b"
    and small: "\<forall>j \<in> dom (map_of (sb_data b)). j < 32768"
  obtains dr d' where "finish_changed L slot fec now d = Some (dr_out dr, d')"
    "dr = drained L slot (max_deshred_bytes c) (drain_start (b\<lparr>sb_last_activity := now\<rparr>) (stats d))"
    "only_slot slot c (dr_buffer dr) d'"
proof -
  let ?b = "b\<lparr>sb_last_activity := now\<rparr>"
  let ?d = "d\<lparr>slots := [(slot, ?b)]\<rparr>"
  let ?dr = "drained L slot (max_deshred_bytes c) (drain_start ?b (stats d))"
  have bok: "buffer_ok ?b" using only_slot_buffer_ok [OF d] by (simp add: buffer_ok_def)
  have st: "stores_ok d" and b: "map_of (slots d) slot = Some b"
    using d by (auto simp: only_slot_def counted_def)
  have "stores_ok (d\<lparr>slots := bt_insert slot ?b (slots d), buffered_shreds := buffered_shreds d\<rparr>)"
    by (rule replace_buffer_stores [OF st b bok]) (use live in simp)
  then have d1: "only_slot slot c ?b ?d"
    using d by (auto simp: only_slot_def counted_def held_shreds_def slots_bounded_def)
  note facts = drained_facts [OF bok, of L slot "max_deshred_bytes c" "stats d"]
  have live': "\<not> sb_terminal_complete ?b" using live by simp
  have keep: "data_len (dr_buffer ?dr) \<le> 32768"
    using buffer_length_bound [OF bok] small facts(3) live by simp
  have noop: "enforce_buffer_limit MAX_BUFFERED_SHREDS (note_emitted bs e) = note_emitted bs e"
    if "only_slot slot c x e" "data_len x \<le> 32768" for e x and bs :: "'tx shred_entry_batch list"
    using that only_slot_held [OF that(1)]
    by (intro enforce_buffer_limit_noop) (simp add: only_slot_def counted_def MAX_BUFFERED_SHREDS_def)
  have noted: "only_slot slot c x (note_emitted bs e)"
    if "only_slot slot c x e" "\<forall>b \<in> set bs. batch_slot b = slot" for e x and bs :: "'tx shred_entry_batch list"
    using that note_emitted_watermark [OF _ that(2), of e] by (simp add: only_slot_def counted_def)
  have out: "\<forall>b \<in> set (dr_out ?dr). batch_slot b = slot"
    by (auto simp: drained_def drain_start_def segment_batches_def Let_def split: prod.splits sum.splits)
  show thesis
  proof (cases "map_of (sb_data b) (sb_next_data_index b) = None")
    case True
    then have gap: "dr_out ?dr = []" "dr_buffer ?dr = ?b" using drained_at_gap [of ?b] bok live by simp_all
    have fc: "finish_changed L slot fec now d = Some (dr_out ?dr, note_emitted (dr_out ?dr) ?d)"
      using d d1 True gap noop [OF d1] keep
      by (simp add: finish_changed_def only_slot_def Let_def try_fec_recover_uncoded)
    show thesis by (rule that [OF fc refl]) (use noted [OF d1 out] gap(2) in simp)
  next
    case False
    have "drain_ready_segments L slot ?d = Some (dr_out ?dr, finish_drain slot ?dr ?d)"
      using drain_ready_segments_eq [of ?d slot ?b L] d1 live' by (simp add: only_slot_def counted_def Let_def)
    moreover have fd: "only_slot slot c (dr_buffer ?dr) (finish_drain slot ?dr ?d)"
      using finish_drain_only [OF d1] facts live by simp
    ultimately have "finish_changed L slot fec now d = Some (dr_out ?dr, note_emitted (dr_out ?dr) (finish_drain slot ?dr ?d))"
      using d False noop [OF fd keep]
      by (simp add: finish_changed_def only_slot_def Let_def try_fec_recover_uncoded)
    from that [OF this refl noted [OF fd out]] show thesis .
  qed
qed

lemma only_slot_insert:
  assumes d: "only_slot slot c b d" and live: "\<not> sb_terminal_complete b"
    and new: "map_of (sb_data b) i = None" and i: "sb_next_data_index b \<le> i" "i \<noteq> - 1"
    and room: "data_len b \<le> 32768"
  shows "only_slot slot c (b\<lparr>sb_data := bt_insert i x (sb_data b)\<rparr>)
    (d\<lparr>slots := [(slot, b\<lparr>sb_data := bt_insert i x (sb_data b)\<rparr>)], buffered_shreds := sat_add (buffered_shreds d) 1\<rparr>)"
proof -
  let ?b = "b\<lparr>sb_data := bt_insert i x (sb_data b)\<rparr>"
  let ?d = "d\<lparr>slots := [(slot, ?b)], buffered_shreds := sat_add (buffered_shreds d) 1\<rparr>"
  have st: "stores_ok d" and b: "map_of (slots d) slot = Some b" and n: "buffered_shreds d = data_len b"
    using d only_slot_held [OF d] by (auto simp: only_slot_def counted_def)
  have bok: "buffer_ok ?b" using only_slot_buffer_ok [OF d] new i live by (intro buffer_ok_insert) auto
  have "stores_ok (d\<lparr>slots := bt_insert slot ?b (slots d), buffered_shreds := sat_add (buffered_shreds d) 1\<rparr>)"
    by (rule replace_buffer_stores [OF st b bok]) (use live in simp)
  moreover have "bt_insert slot ?b (slots d) = [(slot, ?b)]" using d by (simp add: only_slot_def)
  ultimately have "stores_ok ?d" by simp
  moreover have len: "data_len ?b = Suc (data_len b)"
    using only_slot_buffer_ok [OF d] new by (simp add: buffer_ok_def length_bt_insert_fresh)
  have "coding d = []" using d by (simp add: only_slot_def)
  then have "held_shreds ?d = Suc (data_len b)" using len by (simp add: held_shreds_def)
  moreover have "buffered_shreds ?d = Suc (data_len b)" using room by (simp add: n)
  ultimately have "counted ?d" using room by (simp add: counted_def)
  then show ?thesis using d by (simp add: only_slot_def slots_bounded_def)
qed

lemma push_shred_follows:
  assumes d: "only_slot slot c b d" and fol: "buffer_follows m b" and live: "\<not> sb_terminal_complete b"
    and s: "\<not> sh_is_code s" "sh_slot s = slot"
    and m': "m' = (case m (sh_index s) of None \<Rightarrow> m(sh_index s \<mapsto> data_shred_of s) | Some _ \<Rightarrow> m)"
    and agree: "\<And>x. m (sh_index s) = Some x \<Longrightarrow> x = data_shred_of s"
    and new: "new_slot \<Longrightarrow> m = Map.empty" and small: "small_indices m'"
    and sp: "spec_drain m 0 = (segs, n, t)" and sp': "spec_drain m' 0 = (segs', n', t')"
  obtains out d' b' where "push_shred L s new_slot now d = Some (out, d')" "only_slot slot c b' d'"
    "buffer_follows m' b'"
    "segment_batches L slot (max_deshred_bytes c) m' segs' = segment_batches L slot (max_deshred_bytes c) m segs @ out"
proof -
  note result = that
  let ?i = "sh_index s" and ?d = "bump (data_shreds_update ((+) 1)) d"
  have smallm: "small_indices m" using small m' by (auto simp: small_indices_def split: option.splits if_splits)
  have t: "\<not> t" and nb: "sb_next_data_index b = n"
    and data: "map_of (sb_data b) = (\<lambda>j. if j < n then None else m j)"
    using fol live by (auto simp: buffer_follows_def sp)
  have slots: "map_of (slots d) slot = Some b" using d by (simp add: only_slot_def)
  have again: thesis if dup: "m ?i = Some x" for x
  proof -
    have "m' = m" using dup m' by simp
    moreover have "\<not> new_slot" using dup new by auto
    moreover have "\<exists>f. insert_data_shred slot s ?d = Some (False, bump f ?d)"
      using dup agree [OF dup] slots data nb by (auto simp: insert_data_shred_def data_shred_of_def)
    then obtain f where "insert_data_shred slot s ?d = Some (False, bump f ?d)" ..
    ultimately show thesis
      using s d fol sp sp'
      by (intro result [of "[]" "bump f ?d" b]) (simp_all add: push_shred_def finish_unchanged_def)
  qed
  show thesis
  proof (cases "m ?i")
    case None
    have "\<not> ?i < n" using spec_drain_present [OF sp small_indices_max [OF smallm], of ?i] None by auto
    then have le: "sb_next_data_index b \<le> ?i" by (simp add: nb)
    have none: "map_of (sb_data b) ?i = None" using None by (simp add: data)
    have m2: "m' = m(?i \<mapsto> data_shred_of s)" using m' None by simp
    have "?i < 32768" using small m2 by (auto simp: small_indices_def)
    then have nmax: "?i \<noteq> - 1" by auto
    let ?b = "b\<lparr>sb_data := bt_insert ?i (data_shred_of s) (sb_data b)\<rparr>"
    have bok: "buffer_ok b" by (rule only_slot_buffer_ok [OF d])
    have dom: "\<forall>j \<in> dom (map_of (sb_data b)). j < 32768"
      using smallm by (auto simp: data small_indices_def split: if_splits)
    have b2: "only_slot slot c ?b (?d\<lparr>slots := [(slot, ?b)], buffered_shreds := sat_add (buffered_shreds ?d) 1\<rparr>)"
      using buffer_length_bound [OF bok dom] d live none le nmax by (intro only_slot_insert) auto
    have ins: "insert_data_shred slot s ?d =
        Some (True, ?d\<lparr>slots := [(slot, ?b)], buffered_shreds := sat_add (buffered_shreds ?d) 1\<rparr>)"
      using slots none le d by (auto simp: insert_data_shred_def only_slot_def)
    have ok: "bt_ok (sb_data b)" using bok by (simp add: buffer_ok_def)
    have dom2: "\<forall>j \<in> dom (map_of (sb_data ?b)). j < 32768"
      using dom \<open>?i < 32768\<close> ok by (auto simp: store_simps split: if_splits)
    have live2: "\<not> sb_terminal_complete ?b" using live by simp
    from finish_changed_only [OF b2 live2 dom2, of L "sh_fec_set_index s" now]
    obtain dr d' st where fc: "finish_changed L slot (sh_fec_set_index s) now
          (?d\<lparr>slots := [(slot, ?b)], buffered_shreds := sat_add (buffered_shreds ?d) 1\<rparr>) = Some (dr_out dr, d')"
      and dr: "dr = drained L slot (max_deshred_bytes c) (drain_start (?b\<lparr>sb_last_activity := now\<rparr>) st)"
      and d': "only_slot slot c (dr_buffer dr) d'" by metis
    note fl = drained_follows [OF fol m2 None live le ok small sp sp',
        of "?b\<lparr>sb_last_activity := now\<rparr>" L slot "max_deshred_bytes c" st, simplified, OF live]
    have "push_shred L s new_slot now d = Some (dr_out dr, d')"
      using s ins fc by (simp add: push_shred_def)
    then show thesis using d' fl by (intro result [of "dr_out dr" d' "dr_buffer dr"]) (simp_all add: dr)
  qed (rule again)
qed

section \<open>Any number of shreds\<close>

definition slot_batches :: "('tx, 'rs, 'c) ledger \<Rightarrow> u64 \<Rightarrow> nat \<Rightarrow> data_map \<Rightarrow> 'tx shred_entry_batch list" where
  "slot_batches L slot limit m = segment_batches L slot limit m (fst (spec_drain m 0))"

definition follows :: "('tx, 'rs, 'c) ledger \<Rightarrow> u64 \<Rightarrow> raw_shred_config \<Rightarrow> shred list
    \<Rightarrow> 'tx shred_entry_batch list \<Rightarrow> 'c decoder \<Rightarrow> bool" where
  "follows L slot c ss out d \<longleftrightarrow>
     out = slot_batches L slot (max_deshred_bytes c) (arrived ss) \<and>
     (ss = [] \<and> d = decoder_new L c \<or> (\<exists>b. only_slot slot c b d \<and> buffer_follows (arrived ss) b))"

definition data_shreds_of :: "u64 \<Rightarrow> shred list \<Rightarrow> bool" where
  "data_shreds_of slot ss \<longleftrightarrow>
     agreeing ss \<and> (\<forall>s \<in> set ss. \<not> sh_is_code s \<and> sh_slot s = slot \<and> sh_index s < 32768)"

lemma small_arrived: "data_shreds_of slot ss \<Longrightarrow> small_indices (arrived ss)"
  by (auto simp: small_indices_def data_shreds_of_def arrived_Some_iff)

lemma data_shreds_of_prefix: "data_shreds_of slot (ss @ ss') \<Longrightarrow> data_shreds_of slot ss"
  by (auto simp: data_shreds_of_def agreeing_def)

lemma spec_drain_empty: "spec_drain Map.empty i = ([], i, False)"
  by (simp add: spec_drain_at_gap)

lemma fresh_slot_only:
  "only_slot slot c (slot_buffer_new now)
     (bump f (decoder_new L c)\<lparr>slots := [(slot, slot_buffer_new now)]\<rparr>)"
proof -
  have inv: "decoder_inv (bump f (decoder_new L c))" by (simp add: decoder_inv_new)
  have none: "map_of (slots (bump f (decoder_new L c))) slot = None" by (simp add: decoder_new_def)
  have "length (slots (bump f (decoder_new L c))) < max 1 (max_tracked_slots (config (bump f (decoder_new L c))))"
    by (simp add: decoder_new_def)
  from with_new_slot_ok [OF inv none this, of now] show ?thesis
    by (simp add: only_slot_def decoder_new_def)
qed

lemma push_packet_follows:
  assumes fol: "follows L slot c ss out d" and parse: "parse_udp_packet L c packet = Inr s"
    and data: "data_shreds_of slot (ss @ [s])"
  obtains out' d' where "push_packet L packet now d = Some (out', d')"
    "follows L slot c (ss @ [s]) (out @ out') d'"
proof -
  note result = that
  let ?k = "max_deshred_bytes c" and ?d = "bump (udp_packets_update ((+) 1)) d"
  have s: "\<not> sh_is_code s" "sh_slot s = slot" using data by (auto simp: data_shreds_of_def)
  obtain segs n t where sp: "spec_drain (arrived ss) 0 = (segs, n, t)" by (metis prod_cases3)
  obtain segs' n' t' where sp': "spec_drain (arrived (ss @ [s])) 0 = (segs', n', t')" by (metis prod_cases3)
  have agree: "x = data_shred_of s" if "arrived ss (sh_index s) = Some x" for x
    using arrived_mono [OF that, of s] data arrived_Some_iff [of "ss @ [s]" "sh_index s" x]
    by (auto simp: data_shreds_of_def agreeing_def)
  note small = small_arrived [OF data]
  have out: "out = segment_batches L slot ?k (arrived ss) segs"
    using fol by (simp add: follows_def slot_batches_def sp)
  have step: thesis
    if d1: "only_slot slot c b d1" "buffer_follows (arrived ss) b" "\<not> sb_terminal_complete b"
      and new: "new_slot \<Longrightarrow> arrived ss = Map.empty"
      and eq: "push_packet L packet now d = push_shred L s new_slot now d1" for b d1 new_slot
  proof -
    from push_shred_follows [where L = L and now = now, OF d1 s arrived_snoc agree new small sp sp']
    obtain out' d' b' where "push_shred L s new_slot now d1 = Some (out', d')" "only_slot slot c b' d'"
      "buffer_follows (arrived (ss @ [s])) b'"
      "segment_batches L slot ?k (arrived (ss @ [s])) segs' = segment_batches L slot ?k (arrived ss) segs @ out'"
      by metis
    then show thesis
      using result [of out' d'] eq out
      by (auto simp: follows_def slot_batches_def sp')
  qed
  show thesis
  proof (cases "\<exists>b. only_slot slot c b d \<and> buffer_follows (arrived ss) b")
    case True
    then obtain b where b: "only_slot slot c b d" "buffer_follows (arrived ss) b" by blast
    have slots: "slots d = [(slot, b)]" "config d = c" using b(1) by (simp_all add: only_slot_def)
    have fresh: "\<not> is_stale slot ?d" using b(1) by (auto simp: is_stale_def only_slot_def split: option.split)
    show thesis
    proof (cases "sb_terminal_complete b")
      case live: False
      have "push_packet L packet now d = push_shred L s False now ?d"
        using slots fresh parse s live by (simp add: push_packet_def Let_def)
      then show thesis using b live by (intro step [of b ?d False]) simp_all
    next
      case ended: True
      then have t: t using b(2) ended by (simp add: buffer_follows_def sp)
      have sub: "\<And>j x. arrived ss j = Some x \<Longrightarrow> arrived (ss @ [s]) j = Some x" by (rule arrived_mono)
      have "spec_drain (arrived (ss @ [s])) 0 = (segs, n, True)"
        using spec_drain_extend [where m' = "arrived (ss @ [s])", OF sp sub small_indices_max [OF small]] t by simp
      moreover have "segment_batches L slot ?k (arrived (ss @ [s])) segs = segment_batches L slot ?k (arrived ss) segs"
      proof (rule segment_batches_cong [symmetric])
        fix seg j assume seg: "seg \<in> set segs" "fst seg \<le> j" "j \<le> snd seg"
        have none: "arrived ss (- 1) = None"
          using small_indices_max [OF small_arrived [OF data_shreds_of_prefix [OF data]]] .
        have "snd seg < n" using spec_drain_bounds [OF sp none] seg(1) by auto
        then have "arrived ss j \<noteq> None" using spec_drain_present [OF sp none, of j] seg(3) by simp
        then show "arrived ss j = arrived (ss @ [s]) j" using sub by force
      qed
      moreover have "buffer_follows (arrived (ss @ [s])) b"
        using b(2) t calculation(1) by (simp add: buffer_follows_def sp)
      moreover have "push_packet L packet now d = Some ([], bump (duplicate_shreds_update ((+) 1)) ?d)"
        using slots fresh parse s ended by (simp add: push_packet_def Let_def)
      ultimately show thesis
        using result b(1) out
        by (auto simp: follows_def slot_batches_def)
    qed
  next
    case False
    then have d: "ss = []" "d = decoder_new L c" using fol by (auto simp: follows_def)
    have admitted: "admit_slot slot ?d = (True, ?d)"
      by (subst admit_slot.simps) (simp add: d decoder_new_def)
    have "push_packet L packet now d =
        push_shred L s True now (?d\<lparr>slots := [(slot, slot_buffer_new now)]\<rparr>)"
      using parse s admitted by (simp add: push_packet_def Let_def d decoder_new_def is_stale_def)
    moreover have "buffer_follows (arrived ss) (slot_buffer_new now)"
      by (simp add: d(1) buffer_follows_def arrived_Nil spec_drain_empty slot_buffer_new_def)
    ultimately show thesis
      using fresh_slot_only [of slot c now "udp_packets_update ((+) 1)" L] d
      by (intro step [of "slot_buffer_new now" _ True]) (simp_all add: slot_buffer_new_def arrived_Nil)
  qed
qed

lemma push_packets_follows:
  assumes "follows L slot c ss out d" "list_all2 (\<lambda>p s. parse_udp_packet L c (fst p) = Inr s) ps ss'"
    and "data_shreds_of slot (ss @ ss')"
  obtains out' d' where "push_packets L ps d = Some (out', d')" "follows L slot c (ss @ ss') (out @ out') d'"
proof -
  have "\<exists>out' d'. push_packets L ps d = Some (out', d') \<and> follows L slot c (ss @ ss') (out @ out') d'"
    using assms
  proof (induction ps arbitrary: ss out d ss')
    case (Cons p ps)
    obtain packet now where p: "p = (packet, now)" by fastforce
    obtain s rest where ss': "ss' = s # rest" and s: "parse_udp_packet L c packet = Inr s"
      and rest: "list_all2 (\<lambda>p s. parse_udp_packet L c (fst p) = Inr s) ps rest"
      using Cons.prems(2) by (auto simp: p list_all2_Cons1)
    have data: "data_shreds_of slot ((ss @ [s]) @ rest)" using Cons.prems(3) by (simp add: ss')
    obtain o1 d1 where one: "push_packet L packet now d = Some (o1, d1)"
      and f1: "follows L slot c (ss @ [s]) (out @ o1) d1"
      using push_packet_follows [OF Cons.prems(1) s data_shreds_of_prefix [OF data]] by metis
    from Cons.IH [OF f1 rest data] obtain o2 d2 where "push_packets L ps d1 = Some (o2, d2)"
      "follows L slot c ((ss @ [s]) @ rest) ((out @ o1) @ o2) d2" by blast
    then show ?case using one by (simp add: p ss')
  qed simp
  then show thesis using that by blast
qed

lemma follows_new: "follows L slot c [] [] (decoder_new L c)"
  by (simp add: follows_def slot_batches_def arrived_Nil spec_drain_empty segment_batches_def)

text \<open>The batches of a whole sequence, from a new decoder.\<close>

lemma slot_emission:
  assumes "list_all2 (\<lambda>p s. parse_udp_packet L c (fst p) = Inr s) ps ss" "data_shreds_of slot ss"
  shows "map_option fst (push_packets L ps (decoder_new L c)) =
    Some (slot_batches L slot (max_deshred_bytes c) (arrived ss))"
proof -
  have "data_shreds_of slot ([] @ ss)" using assms(2) by simp
  from push_packets_follows [OF follows_new assms(1) this]
  obtain out d where "push_packets L ps (decoder_new L c) = Some (out, d)" "follows L slot c ([] @ ss) ([] @ out) d" .
  then show ?thesis by (simp add: follows_def)
qed

end
