(* ===== verification/Decoder_Theorems.thy ===== *)
theory Decoder_Theorems
  imports Arrival_Order
begin

text \<open>
  The properties of the raw shred decoder, each applied at a concrete input. The inputs use
  \<open>demo_ledger\<close>: a concrete stand-in for the ledger library with one-byte slots and indices,
  whose deshred concatenates the payloads after their 88 header bytes and whose entry decoder makes
  one entry of the bytes.
\<close>

unbundle bit_operations_syntax

section \<open>A concrete ledger\<close>

definition demo_parse :: "bytes \<Rightarrow> string + shred" where
  "demo_parse p =
     (case p of
        s # i # flags # _ \<Rightarrow>
          Inr \<lparr>sh_id = (ucast s, ucast i, flags AND 4 \<noteq> 0), sh_slot = ucast s, sh_index = ucast i,
               sh_fec_set_index = 0, sh_version = 0, sh_is_code = (flags AND 4 \<noteq> 0),
               sh_data_complete = (flags AND 1 \<noteq> 0), sh_last_in_slot = (flags AND 2 \<noteq> 0),
               sh_signature = [], sh_payload = p, sh_merkle_root = None\<rparr>
      | _ \<Rightarrow> Inl ''short'')"

definition demo_ledger :: "(u8, unit, unit) ledger" where
  "demo_ledger =
     \<lparr>new_from_serialized_shred = demo_parse,
      layout_index = (\<lambda>p. case p of _ # i # _ \<Rightarrow> Some (ucast i) | _ \<Rightarrow> None),
      layout_slot = (\<lambda>p. case p of s # _ \<Rightarrow> Some (ucast s) | _ \<Rightarrow> None),
      deshred = (\<lambda>ps. Some (concat (map (drop 88) ps))),
      deserialize_entries = (\<lambda>bs. Some [\<lparr>num_hashes = 0, entry_hash = [], transactions = bs\<rparr>]),
      hashv = (\<lambda>xs. take 32 (concat xs @ replicate 32 0)),
      rs_new = (\<lambda>_ _. Some ()), rs_reconstruct = (\<lambda>_ shards. Some shards),
      lru_new = (\<lambda>_. ()), lru_get = (\<lambda>c _. (None, c)), lru_put = (\<lambda>c _ _. c)\<rparr>"

definition demo_packet :: "u8 \<Rightarrow> u8 \<Rightarrow> u8 \<Rightarrow> bytes \<Rightarrow> bytes" where
  "demo_packet s i flags body =
     [s, i, flags] @ replicate 83 0 @ le_bytes 2 (88 + length body) @ body"

definition demo_shred :: "u8 \<Rightarrow> u8 \<Rightarrow> u8 \<Rightarrow> bytes \<Rightarrow> shred" where
  "demo_shred s i flags body =
     \<lparr>sh_id = (ucast s, ucast i, flags AND 4 \<noteq> 0), sh_slot = ucast s, sh_index = ucast i,
      sh_fec_set_index = 0, sh_version = 0, sh_is_code = (flags AND 4 \<noteq> 0),
      sh_data_complete = (flags AND 1 \<noteq> 0), sh_last_in_slot = (flags AND 2 \<noteq> 0),
      sh_signature = [], sh_payload = demo_packet s i flags body, sh_merkle_root = None\<rparr>"

abbreviation demo_config :: raw_shred_config where "demo_config \<equiv> raw_shred_config_default"

abbreviation demo_decoder :: "unit decoder" where "demo_decoder \<equiv> decoder_new demo_ledger demo_config"

lemma demo_parser_bounds: "parser_bounds_index demo_ledger"
proof -
  have "(ucast (i :: u8) :: u32) < 32768" for i
  proof -
    have "unat i < 256" using unsigned_less [of i, where 'a = nat] by simp
    then have "unat (ucast i :: u32) < 256" by (simp add: unsigned_ucast_eq take_bit_nat_eq_self)
    then show ?thesis by (simp add: word_less_nat_alt)
  qed
  then show ?thesis
    by (auto simp: parser_bounds_index_def demo_ledger_def demo_parse_def split: list.splits)
qed

lemma demo_parsed:
  "s \<noteq> 0 \<Longrightarrow> parse_udp_packet demo_ledger demo_config (demo_packet s i flags body) = Inr (demo_shred s i flags body)"
  by (simp add: parse_udp_packet_def raw_shred_config_default_def parse_with_def demo_ledger_def
      demo_parse_def demo_packet_def demo_shred_def)

section \<open>Safety\<close>





text \<open>
  C3. The drain loop ends and implements the specification: from a well-formed buffer of a live slot
  it emits exactly the decoded segments that \<open>spec_drain\<close> lists on the buffered map, leaves the next
  index after them, keeps exactly the shreds from there on (none once the slot is complete) and
  counts what it removed.
\<close>

theorem drain_loop_implements_spec:
  assumes "buffer_ok b" "\<not> sb_terminal_complete b" "data_len b \<le> usize_max"
  shows "\<exists>dr. drain_loop L slot k (drain_start b st) = Some dr \<and>
    (case spec_drain (map_of (sb_data b)) (sb_next_data_index b) of (segs, n, t) \<Rightarrow>
       dr_out dr = segment_batches L slot k (map_of (sb_data b)) segs \<and>
       dr_terminal dr = t \<and> sb_terminal_complete (dr_buffer dr) = t \<and>
       sb_next_data_index (dr_buffer dr) = n \<and>
       sb_data (dr_buffer dr) = (if t then [] else bt_split_off n (sb_data b)) \<and>
       dr_removed dr + data_len (dr_buffer dr) = data_len b)"
proof -
  have "drain_loop L slot k (drain_start b st) = Some (drained L slot k (drain_start b st))"
    using assms by (intro drain_loop_spec) (simp_all add: drain_start_def)
  moreover have "length (bt_split_off n (sb_data b)) \<le> data_len b" for n by (simp add: bt_split_off_def)
  ultimately show ?thesis
    by (simp add: drained_def drain_start_def Let_def split: prod.split)
qed

definition demo_buffer :: slot_buffer where
  "demo_buffer = \<lparr>sb_data = [(0, data_shred_of (demo_shred 1 0 1 [7])), (2, data_shred_of (demo_shred 1 2 1 [8]))],
     sb_next_data_index = 0, sb_terminal_complete = False, sb_last_activity = 3\<rparr>"

theorem drain_loop_implements_spec_witness:
  "\<exists>dr. drain_loop demo_ledger 1 1000 (drain_start demo_buffer stats_default) = Some dr \<and>
    (case spec_drain (map_of (sb_data demo_buffer)) (sb_next_data_index demo_buffer) of (segs, n, t) \<Rightarrow>
       dr_out dr = segment_batches demo_ledger 1 1000 (map_of (sb_data demo_buffer)) segs \<and>
       dr_terminal dr = t \<and> sb_terminal_complete (dr_buffer dr) = t \<and>
       sb_next_data_index (dr_buffer dr) = n \<and>
       sb_data (dr_buffer dr) = (if t then [] else bt_split_off n (sb_data demo_buffer)) \<and>
       dr_removed dr + data_len (dr_buffer dr) = data_len demo_buffer)"
  by (rule drain_loop_implements_spec) (auto simp: demo_buffer_def buffer_ok_def bt_ok_def dom_def split: if_splits)

section \<open>Eviction and the watermark\<close>

definition stale_slot :: "instant \<Rightarrow> 'c decoder \<Rightarrow> u64 \<Rightarrow> bool" where
  "stale_slot now d s \<longleftrightarrow>
     (\<exists>b. map_of (slots d) s = Some b \<and> \<not> sb_terminal_complete b \<and>
        reassembly_gap_timeout (config d) < now - sb_last_activity b)"


definition demo_two_slots :: "unit decoder" where
  "demo_two_slots = demo_decoder\<lparr>slots := [(4, slot_buffer_new 1000000000), (9, slot_buffer_new 5)]\<rparr>"

lemma demo_two_slots_inv: "decoder_inv demo_two_slots"
  by (auto simp: demo_two_slots_def decoder_inv_def stores_ok_def slots_bounded_def held_shreds_def
      decoder_new_def bt_ok_def buffer_ok_new raw_shred_config_default_def slot_buffer_new_def buffer_ok_def
      split: if_splits)


lemma foldl_max_reached:
  "foldl (\<lambda>m b. max m (f b)) m bs = (m :: u64) \<or> (\<exists>b \<in> set bs. foldl (\<lambda>m b. max m (f b)) m bs = f b)"
proof (induction bs arbitrary: m)
  case (Cons b bs)
  from Cons [of "max m (f b)"] show ?case by (auto simp: max_def)
qed simp

text \<open>
  C7. With the forward watermark configured, the watermark never moves back, and every emitted batch is
  of a slot at or above the old watermark and at or below the new one.
\<close>

theorem watermark_monotone:
  assumes "parser_bounds_index L" "decoder_inv d" "forward_slot_watermark (config d)"
    and "push_packet L packet now d = Some (out, d')" and "forward_watermark d = Some w"
  shows "\<exists>w'. forward_watermark d' = Some w' \<and> w \<le> w' \<and>
    (\<forall>b \<in> set out. w \<le> batch_slot b \<and> batch_slot b \<le> w')"
proof -
  from push_packet_inv [OF assms(1,2), of packet now] assms(4)
  have live: "\<forall>b \<in> set out. \<not> is_stale (batch_slot b) d"
    and after: "forward_watermark d' = watermark_after (config d) (forward_watermark d) out"
    by auto
  have "\<forall>b \<in> set out. w \<le> batch_slot b" using live assms(3,5) by (auto simp: is_stale_def)
  then show ?thesis
    using after assms(3,5) foldl_max_ge [of w batch_slot out]
    by (cases "out = []") (auto simp: watermark_after_def)
qed

definition demo_watermarked :: "unit decoder" where
  "demo_watermarked = (decoder_new demo_ledger (demo_config\<lparr>forward_slot_watermark := True\<rparr>))\<lparr>forward_watermark := Some 3\<rparr>"

lemma demo_watermarked_inv: "decoder_inv demo_watermarked"
  by (simp add: demo_watermarked_def decoder_inv_new)

theorem watermark_monotone_witness:
  "\<exists>out d' w'. push_packet demo_ledger (demo_packet 5 0 3 [7]) 1 demo_watermarked = Some (out, d') \<and>
     forward_watermark d' = Some w' \<and> 3 \<le> w' \<and> (\<forall>b \<in> set out. 3 \<le> batch_slot b \<and> batch_slot b \<le> w')"
proof -
  obtain out d' where r: "push_packet demo_ledger (demo_packet 5 0 3 [7]) 1 demo_watermarked = Some (out, d')"
    using push_packet_inv [OF demo_parser_bounds demo_watermarked_inv] by metis
  have "forward_slot_watermark (config demo_watermarked)" "forward_watermark demo_watermarked = Some 3"
    by (simp_all add: demo_watermarked_def decoder_new_def)
  from watermark_monotone [OF demo_parser_bounds demo_watermarked_inv this(1) r this(2)] r
  show ?thesis by blast
qed

section \<open>Merkle roots and recovery\<close>

lemma level_reaches_one: "0 < n \<Longrightarrow> \<exists>l. level_width n l = 1 \<and> (\<forall>k < l. 1 < level_width n k)"
proof (induction n rule: less_induct)
  case (less n)
  show ?case
  proof (cases "n = 1")
    case True
    then show ?thesis by (intro exI [of _ 0]) simp
  next
    case False
    have shift: "level_width n (Suc l) = level_width ((n + 1) div 2) l" for l
      by (induction l) simp_all
    have "(n + 1) div 2 < n" "0 < (n + 1) div 2" using False less.prems by auto
    from less.IH [OF this] obtain l where l: "level_width ((n + 1) div 2) l = 1"
      "\<forall>k < l. 1 < level_width ((n + 1) div 2) k" by blast
    have "1 < level_width n k" if "k < Suc l" for k
      using that False less.prems l(2) shift by (cases k) auto
    then show ?thesis using l(1) shift by (intro exI [of _ "Suc l"]) (simp del: level_width.simps)
  qed
qed

text \<open>
  C5. The iterative root computation returns exactly the root of the binary hash tree over the leaves:
  it returns a root if and only if there is data and parity, every shard is present and every leaf
  can be formed, and the root is the node at the first level of width one, where a node hashes its
  two truncated children and a last odd child is paired with itself.
\<close>

theorem merkle_root_is_tree_root:
  "merkle_root_from_shards h shards num_data fci template chained = Some root \<longleftrightarrow>
     0 < num_data \<and> num_data < length shards \<and>
     (\<exists>leaves l. length leaves = length shards \<and>
        (\<forall>i \<in> {..< length shards}. \<exists>shard leaf. shards ! i = Some shard \<and>
           leaf_bytes num_data fci template chained i shard = Some leaf \<and>
           leaves ! i = h [MERKLE_HASH_PREFIX_LEAF, leaf]) \<and>
        level_width (length shards) l = 1 \<and> (\<forall>k \<in> {..< l}. 1 < level_width (length shards) k) \<and>
        root = tree_node h leaves l 0)"
  (is "?code \<longleftrightarrow> ?a \<and> ?b \<and> (\<exists>leaves l. ?tree leaves l)")
proof -
  have reduce: "merkle_reduce h leaves = [tree_node h leaves l 0]"
    if w: "level_width (length leaves) l = 1" "\<forall>k < l. 1 < level_width (length leaves) k" for leaves l
  proof -
    have "merkle_reduce h leaves = (parent_level h ^^ l) leaves"
      using w by (intro merkle_reduce_funpow) simp_all
    moreover have "length ((parent_level h ^^ l) leaves) = 1" "(parent_level h ^^ l) leaves ! 0 = tree_node h leaves l 0"
      using levels_are_tree [where h = h and l = l and leaves = leaves] w by simp_all
    ultimately show ?thesis by (cases "(parent_level h ^^ l) leaves") auto
  qed
  show ?thesis
  proof
    assume code: ?code
    then obtain leaves where leaves: "leaf_nodes h num_data fci template chained 0 shards = Some leaves"
      and ab: ?a ?b by (auto simp: merkle_root_from_shards_def split: if_splits option.splits)
    have len: "length leaves = length shards" using leaf_nodes_length [OF leaves] .
    obtain l where l: "level_width (length shards) l = 1" "\<forall>k < l. 1 < level_width (length shards) k"
      using level_reaches_one [OF order_less_trans [OF ab]] by blast
    have "root = tree_node h leaves l 0"
      using code leaves ab reduce [of leaves l] l len by (simp add: merkle_root_from_shards_def)
    then have "?tree leaves l" using len l leaf_nodes_nth [OF leaves] by auto
    then show "?a \<and> ?b \<and> (\<exists>leaves l. ?tree leaves l)" using ab by blast
  next
    assume "?a \<and> ?b \<and> (\<exists>leaves l. ?tree leaves l)"
    then obtain leaves l where ab: ?a ?b and t: "?tree leaves l" by blast
    have "leaf_nodes h num_data fci template chained 0 shards \<noteq> None"
      using t by (subst leaf_nodes_total) fastforce
    then obtain nodes where nodes: "leaf_nodes h num_data fci template chained 0 shards = Some nodes" by blast
    have "nodes = leaves"
    proof (rule nth_equalityI)
      show "length nodes = length leaves" using leaf_nodes_length [OF nodes] t by simp
      fix i assume "i < length nodes"
      then have i: "i < length shards" using leaf_nodes_length [OF nodes] by simp
      then obtain shard leaf where "shards ! i = Some shard"
        "leaf_bytes num_data fci template chained i shard = Some leaf"
        "leaves ! i = h [MERKLE_HASH_PREFIX_LEAF, leaf]" using t by blast
      then show "nodes ! i = leaves ! i" using leaf_nodes_nth [OF nodes i] by auto
    qed
    then show ?code
      using nodes ab t reduce [of leaves l] by (simp add: merkle_root_from_shards_def)
  qed
qed

definition demo_tree_hash :: "bytes list \<Rightarrow> hash" where
  "demo_tree_hash xs = drop 25 (concat xs)"

lemma demo_root:
  "merkle_root_from_shards demo_tree_hash [Some [1], Some [2]] 1 0 (replicate 25 0) None \<noteq> None"
proof -
  have "\<exists>a b. leaf_nodes demo_tree_hash 1 0 (replicate 25 0) None 0 [Some [1], Some [2]] = Some [a, b]"
    by (simp add: leaf_bytes_def coding_leaf_header_def checked_add_def copy_into_def)
  then obtain a b where "leaf_nodes demo_tree_hash 1 0 (replicate 25 0) None 0 [Some [1], Some [2]] = Some [a, b]"
    by blast
  moreover have "merkle_reduce demo_tree_hash [a, b] \<noteq> []" using merkle_reduce_one [of "[a, b]" demo_tree_hash] by auto
  ultimately show ?thesis by (simp add: merkle_root_from_shards_def split: list.split)
qed

theorem merkle_root_is_tree_root_witness:
  "\<exists>root leaves l. merkle_root_from_shards demo_tree_hash [Some [1], Some [2]] 1 0 (replicate 25 0) None = Some root \<and>
     length leaves = 2 \<and> level_width 2 l = 1 \<and> root = tree_node demo_tree_hash leaves l 0"
proof -
  obtain root where r: "merkle_root_from_shards demo_tree_hash [Some [1], Some [2]] 1 0 (replicate 25 0) None = Some root"
    using demo_root by blast
  from merkle_root_is_tree_root [THEN iffD1, OF r] r show ?thesis by (auto simp: numeral_2_eq_2)
qed

text \<open>
  C4. Recovery is sound: when \<open>recover_merkle_data\<close> succeeds, the set's full list of shards, as the
  coder returned it, hashes to the Merkle root the coding shreds agreed on; the recovered shreds have
  strictly increasing indices inside the set's index range; and each one's payload is rebuilt from
  its shard of that list, parses as a shred of the same set, version and slot and carries the
  data form of the set's variant.
\<close>

theorem recovery_sound:
  assumes "stores_ok d" and "recover_merkle_data L slot fec fec_end d = (Some rs, d')"
    and "map_of (coding d) (slot, fec) = Some cs"
  shows "\<exists>shards sig chained template.
    merkle_root_from_shards (hashv L) shards (cs_num_data_shreds cs) (cs_first_coding_index cs) template chained
      = Some (cs_merkle_root cs) \<and>
    sorted_wrt (<) (map rd_index rs) \<and>
    (\<forall>r \<in> set rs. \<exists>k < cs_num_data_shreds cs. \<exists>shard parsed.
       unat (rd_index r) = unat fec + k \<and> get_at k shards = Some (Some shard) \<and>
       rd_payload r = rebuilt_payload sig shard chained \<and>
       layout_index L (rd_payload r) = Some (rd_index r) \<and> layout_slot L (rd_payload r) = Some slot \<and>
       merkle_variant_of (rd_payload r) = Some (as_data (cs_variant cs)) \<and>
       new_from_serialized_shred L (rd_payload r) = Inr parsed \<and>
       sh_fec_set_index parsed = fec \<and> sh_version parsed = cs_version cs)"
proof -
  obtain cs' shard_len sig chained placed coder where
    cs': "map_of (coding d) (slot, fec) = Some cs'" and
    built: "rebuild_from L slot fec cs' shard_len sig chained placed coder = Some rs"
    using recover_merkle_data_Some [OF assms(2)] by metis
  from cs' assms(3) have same: "cs' = cs" by simp
  obtain shards template where
    root: "merkle_root_from_shards (hashv L) shards (cs_num_data_shreds cs) (cs_first_coding_index cs)
       template chained = Some (cs_merkle_root cs)" and
    m: "rebuild_missing L slot fec sig (cs_version cs) (cs_variant cs) chained shard_len shards 0
       (map (\<lambda>s. s \<noteq> None) (take (cs_num_data_shreds cs) placed)) = Some rs"
    using rebuild_from_Some [OF built [unfolded same]] by metis
  have bound: "cs_num_data_shreds cs < 2 ^ 32"
    using stores_okD(4) [OF assms(1,3)] by (simp add: set_ok_def)
  have each: "\<exists>k < cs_num_data_shreds cs. \<exists>shard parsed.
       unat (rd_index r) = unat fec + k \<and> get_at k shards = Some (Some shard) \<and>
       rd_payload r = rebuilt_payload sig shard chained \<and>
       layout_index L (rd_payload r) = Some (rd_index r) \<and> layout_slot L (rd_payload r) = Some slot \<and>
       merkle_variant_of (rd_payload r) = Some (as_data (cs_variant cs)) \<and>
       new_from_serialized_shred L (rd_payload r) = Inr parsed \<and>
       sh_fec_set_index parsed = fec \<and> sh_version parsed = cs_version cs" if mem: "r \<in> set rs" for r
  proof -
    obtain k where k: "k < cs_num_data_shreds cs" and
      r: "rebuild_data_shred L slot fec sig (cs_version cs) (cs_variant cs) chained shard_len shards k = Some r"
      using rebuild_missing_each [OF m mem] by auto
    show ?thesis
    proof (rule rebuild_data_shred_Some [OF r])
      fix shard
      assume "checked_add fec (word_of_nat k) = Some (rd_index r)"
      moreover have "k < 2 ^ 32" using k bound by simp
      ultimately have "unat (rd_index r) = unat fec + k" by (rule checked_add_position)
      moreover assume "get_at k shards = Some (Some shard)" "rd_payload r = rebuilt_payload sig shard chained"
        "layout_index L (rd_payload r) = Some (rd_index r)" "layout_slot L (rd_payload r) = Some slot"
        "merkle_variant_of (rd_payload r) = Some (as_data (cs_variant cs))"
        "\<exists>parsed. new_from_serialized_shred L (rd_payload r) = Inr parsed \<and>
           sh_fec_set_index parsed = fec \<and> sh_version parsed = cs_version cs"
      ultimately show ?thesis using k by blast
    qed
  qed
  show ?thesis
    using root each recover_merkle_data_indices [OF assms] by blast
qed


definition demo_coding_payload :: bytes where
  "demo_coding_payload = replicate 64 0 @ [0x4f] @ replicate 18 0 @ [1, 0, 1, 0, 0, 0] @ replicate 839 0"

definition demo_data_erasure :: bytes where
  "demo_data_erasure = [0x8f] @ replicate 20 0 @ [0xc0, 88, 0] @ replicate 815 0"

definition demo_variant :: merkle_variant where
  "demo_variant = \<lparr>mv_code = True, mv_proof_size = 15, mv_chained = False, mv_resigned = False\<rparr>"

definition demo_coding_shred :: shred where
  "demo_coding_shred =
     \<lparr>sh_id = (0, 0, True), sh_slot = 0, sh_index = 0, sh_fec_set_index = 0, sh_version = 0,
      sh_is_code = True, sh_data_complete = False, sh_last_in_slot = False,
      sh_signature = replicate 64 0, sh_payload = demo_coding_payload,
      sh_merkle_root = Some (replicate 32 0)\<rparr>"

definition demo_coding_set :: coding_set where
  "demo_coding_set =
     \<lparr>cs_shreds = [((0, 0, True), demo_coding_shred)], cs_num_data_shreds = 1, cs_num_coding_shreds = 1,
      cs_first_coding_index = 0, cs_version = 0, cs_variant = demo_variant,
      cs_merkle_root = replicate 32 0, cs_recovery_failed = False\<rparr>"

definition recovery_ledger :: "(u8, unit, unit) ledger" where
  "recovery_ledger = demo_ledger\<lparr>
     hashv := (\<lambda>_. replicate 32 0),
     rs_reconstruct := (\<lambda>_ shards. Some (map (\<lambda>s. Some (case s of None \<Rightarrow> demo_data_erasure | Some x \<Rightarrow> x)) shards)),
     lru_get := (\<lambda>c _. (Some (), c))\<rparr>"

definition demo_recovering :: "unit decoder" where
  "demo_recovering = demo_decoder\<lparr>slots := [(0, slot_buffer_new 0)],
     coding := [((0, 0), demo_coding_set)], buffered_shreds := 1\<rparr>"

lemma demo_recovering_ok: "stores_ok demo_recovering"
  by (auto simp: demo_recovering_def stores_ok_def decoder_new_def bt_ok_def buffer_ok_new set_ok_def
      demo_coding_set_def slot_buffer_new_def buffer_ok_def MAX_SHREDS_PER_FEC_SET_def split: if_splits)

lemma demo_variant_byte: "merkle_variant_of demo_coding_payload = Some demo_variant"
  by (simp add: merkle_variant_of_def demo_coding_payload_def demo_variant_def get_at_def
      SHRED_VARIANT_OFFSET_def nth_append variant_flags_def)

lemma replicate_two: "replicate 2 x = [x, x]"
  by (simp add: numeral_2_eq_2)

lemma demo_gather:
  "gather_shards recovery_ledger 0 0 1 demo_coding_set (Some (slot_buffer_new 0)) =
     Some (839, replicate 64 0, None, [None, Some (replicate 839 0)])"
  using demo_variant_byte
  by (simp add: gather_shards_def demo_coding_set_def demo_coding_shred_def usize_checked_add_def
      erasure_shard_len_def usize_checked_sub_def demo_variant_def layout_consts get_at_def
      ok_if_bind coding_header_def read_le_def get_range_def demo_coding_payload_def
      place_shard_def slot_buffer_new_def replicate_two)

lemma demo_rebuilt:
  "rebuilt_payload (replicate 64 0) demo_data_erasure None =
     replicate 64 0 @ demo_data_erasure @ replicate 300 0"
  by (simp add: rebuilt_payload_def overwrite_def demo_data_erasure_def layout_consts)

abbreviation demo_rebuilt_payload :: bytes where
  "demo_rebuilt_payload \<equiv> replicate 64 0 @ demo_data_erasure @ replicate 300 0"

lemma sixty_four: "replicate 64 (0 :: u8) = 0 # 0 # 0 # replicate 61 0"
  by (simp add: numeral_eq_Suc)

lemma demo_rebuilt_reads:
  "layout_index recovery_ledger demo_rebuilt_payload = Some 0"
  "layout_slot recovery_ledger demo_rebuilt_payload = Some 0"
  "\<exists>parsed. new_from_serialized_shred recovery_ledger demo_rebuilt_payload = Inr parsed \<and>
     sh_fec_set_index parsed = 0 \<and> sh_version parsed = 0"
  by (simp_all add: sixty_four recovery_ledger_def demo_ledger_def demo_parse_def)

lemma demo_rebuilt_variant: "merkle_variant_of demo_rebuilt_payload = Some (as_data demo_variant)"
  by (simp add: merkle_variant_of_def demo_data_erasure_def demo_variant_def get_at_def as_data_def
      SHRED_VARIANT_OFFSET_def nth_append variant_flags_def)

lemma demo_rebuilt_size: "shred_data_len demo_rebuilt_payload = Some 0" "get_at 85 demo_rebuilt_payload = Some 0xc0"
proof -
  have "read_le 2 demo_rebuilt_payload 86 = Some 88"
    by (simp add: read_le_def get_range_def demo_data_erasure_def)
  then show "shred_data_len demo_rebuilt_payload = Some 0"
    using demo_rebuilt_variant
    by (simp add: shred_data_len_def layout_consts erasure_shard_len_def usize_checked_sub_def
        usize_checked_add_def demo_variant_def as_data_def)
  show "get_at 85 demo_rebuilt_payload = Some 0xc0"
    by (simp add: get_at_def demo_data_erasure_def nth_append)
qed

lemma demo_rebuild: "rebuild_data_shred recovery_ledger 0 0 (replicate 64 0) 0 demo_variant None 839
   [Some demo_data_erasure, Some (replicate 839 0)] 0 \<noteq> None"
proof -
  have "length demo_data_erasure = 839" by (simp add: demo_data_erasure_def)
  moreover obtain parsed where "new_from_serialized_shred recovery_ledger demo_rebuilt_payload = Inr parsed"
    "sh_fec_set_index parsed = 0" "sh_version parsed = 0" using demo_rebuilt_reads(3) by blast
  ultimately show ?thesis
    using demo_rebuilt_reads(1,2) demo_rebuilt_variant demo_rebuilt_size
    by (simp add: rebuild_data_shred_def demo_rebuilt get_at_def [of 0] ok_if_bind checked_add_def Let_def)
qed

lemma merkle_reduce_pair: "merkle_reduce h [a, b] = [parent_hash h a b]"
  by (simp add: merkle_reduce.simps [of h "[a, b]"] merkle_reduce.simps [of h "[parent_hash h a b]"])

lemma demo_recovers: "\<exists>r d'. recover_merkle_data recovery_ledger 0 0 1 demo_recovering = (Some [r], d')"
proof -
  let ?template = "0x4f # replicate 18 0 @ [1, 0, 1, 0, 0, 0] :: bytes"
  let ?shards = "[Some demo_data_erasure, Some (replicate 839 0)]"
  have h: "hashv recovery_ledger = (\<lambda>_. replicate 32 0)" by (simp add: recovery_ledger_def)
  have root: "merkle_root_from_shards (hashv recovery_ledger) ?shards 1 0 ?template None = Some (replicate 32 0)"
    by (simp add: h merkle_root_from_shards_def leaf_bytes_def coding_leaf_header_def checked_add_def
        copy_into_def merkle_reduce_pair parent_hash_def)
  obtain r where r: "rebuild_data_shred recovery_ledger 0 0 (replicate 64 0) 0 demo_variant None 839 ?shards 0 = Some r"
    using demo_rebuild by blast
  have template: "get_range RETRANSMITTER_SIGNATURE_LEN SHRED_CODE_HEADER_LEN demo_coding_payload = Some ?template"
    by (simp add: get_range_def layout_consts demo_coding_payload_def)
  have rec: "rs_reconstruct recovery_ledger () [None, Some (replicate 839 0)] = Some ?shards"
    by (simp add: recovery_ledger_def)
  have built: "rebuild_from recovery_ledger 0 0 demo_coding_set 839 (replicate 64 0) None
      [None, Some (replicate 839 0)] () = Some [r]"
    using root r template
    by (simp add: rebuild_from_def rec get_at_def [of 0] demo_coding_set_def demo_coding_shred_def ok_if_bind)
  have coder: "cached_coder recovery_ledger k c = (Some (), c)" for k c
    by (simp add: cached_coder_def recovery_ledger_def)
  have state: "map_of (coding demo_recovering) (0, 0) = Some demo_coding_set"
    "map_of (slots demo_recovering) 0 = Some (slot_buffer_new 0)"
    by (simp_all add: demo_recovering_def)
  show ?thesis
    by (simp add: recover_merkle_data_def state demo_gather coder built)
qed

theorem recovery_sound_witness:
  "\<exists>r d' shards sig chained template k parsed.
    recover_merkle_data recovery_ledger 0 0 1 demo_recovering = (Some [r], d') \<and>
    merkle_root_from_shards (hashv recovery_ledger) shards 1 0 template chained = Some (replicate 32 0) \<and>
    k < 1 \<and> unat (rd_index r) = k \<and> (\<exists>shard. get_at k shards = Some (Some shard) \<and>
      rd_payload r = rebuilt_payload sig shard chained) \<and>
    new_from_serialized_shred recovery_ledger (rd_payload r) = Inr parsed"
proof -
  obtain r d' where rec: "recover_merkle_data recovery_ledger 0 0 1 demo_recovering = (Some [r], d')"
    using demo_recovers by blast
  have "map_of (coding demo_recovering) (0, 0) = Some demo_coding_set" by (simp add: demo_recovering_def)
  from recovery_sound [OF demo_recovering_ok rec this] rec show ?thesis
    by (fastforce simp: demo_coding_set_def)
qed
end
