(* ===== verification/Shred_Client.thy ===== *)
theory Shred_Client
  imports Arrival_Order
begin

text \<open>
  The UDP client's receive loop (\<open>RawShredClient\<close> of \<open>src/shred/client.rs\<close>). The socket and the
  timer are outside the repository: what they deliver is the argument of the loop, a list of
  events in the order \<open>select!\<close> takes them. A readable event carries the time read once for the poll and
  what each \<open>try_recv\<close> returned; a datagram longer than the receive buffer is cut to it. The loop runs
  until the events end or one of them is a socket error.
\<close>

definition MAX_DATAGRAMS_PER_POLL :: nat where "MAX_DATAGRAMS_PER_POLL = 64"

datatype recv = Datagram bytes | Would_Block | Recv_Error string

datatype client_event =
  Readable "string option" instant "recv list"
| Eviction_Tick instant

record 'c raw_shred_client =
  client_decoder :: "'c decoder"
  client_config :: raw_shred_config

definition client_bind :: "('tx, 'rs, 'c) ledger \<Rightarrow> raw_shred_config \<Rightarrow> 'c raw_shred_client" where
  "client_bind L c = \<lparr>client_decoder = decoder_new L c, client_config = c\<rparr>"

definition client_stats :: "'c raw_shred_client \<Rightarrow> shred_decoder_stats" where
  "client_stats cl = stats (client_decoder cl)"

definition recv_buffer_len :: "raw_shred_config \<Rightarrow> nat" where
  "recv_buffer_len c = max (max_datagram_size c) 1280"

definition eviction_period :: "raw_shred_config \<Rightarrow> duration" where
  "eviction_period c = max (reassembly_gap_timeout c) (from_millis 1)"

text \<open>One poll: at most the given number of \<open>try_recv\<close> calls. The result is what was handed to the callback,
  the decoder and the error that ends the run, if any; \<open>None\<close> is a panic.\<close>

fun poll_socket :: "('tx, 'rs, 'c) ledger \<Rightarrow> nat \<Rightarrow> instant \<Rightarrow> nat \<Rightarrow> recv list \<Rightarrow> 'c decoder
    \<Rightarrow> ('tx shred_entry_batch list \<times> 'c decoder \<times> shred_decode_error option) option" where
  "poll_socket L buf_len batch_now 0 rs d = Some ([], d, None)"
| "poll_socket L buf_len batch_now (Suc n) [] d = Some ([], d, None)"
| "poll_socket L buf_len batch_now (Suc n) (Would_Block # rs) d = Some ([], d, None)"
| "poll_socket L buf_len batch_now (Suc n) (Recv_Error e # rs) d = Some ([], d, Some (Io e))"
| "poll_socket L buf_len batch_now (Suc n) (Datagram p # rs) d =
     do {
       (out, d') \<leftarrow> push_packet L (take buf_len p) batch_now d;
       (outs, d'', err) \<leftarrow> poll_socket L buf_len batch_now n rs d';
       Some (out @ outs, d'', err)
     }"

fun run_events :: "('tx, 'rs, 'c) ledger \<Rightarrow> raw_shred_config \<Rightarrow> client_event list \<Rightarrow> 'c decoder
    \<Rightarrow> ('tx shred_entry_batch list \<times> 'c decoder \<times> shred_decode_error option) option" where
  "run_events L c [] d = Some ([], d, None)"
| "run_events L c (Readable (Some e) now rs # events) d = Some ([], d, Some (Io e))"
| "run_events L c (Readable None now rs # events) d =
     do {
       (out, d', err) \<leftarrow> poll_socket L (recv_buffer_len c) now MAX_DATAGRAMS_PER_POLL rs d;
       (case err of
          Some e \<Rightarrow> Some (out, d', Some e)
        | None \<Rightarrow> do {
            (outs, d'', err') \<leftarrow> run_events L c events d';
            Some (out @ outs, d'', err')
          })
     }"
| "run_events L c (Eviction_Tick now # events) d = run_events L c events (snd (evict_stale_slots now d))"

definition run_entries :: "('tx, 'rs, 'c) ledger \<Rightarrow> client_event list \<Rightarrow> 'c raw_shred_client
    \<Rightarrow> ('tx shred_entry_batch list \<times> 'c raw_shred_client \<times> shred_decode_error option) option" where
  "run_entries L events cl =
     do {
       (out, d, err) \<leftarrow> run_events L (client_config cl) events (client_decoder cl);
       Some (out, cl\<lparr>client_decoder := d\<rparr>, err)
     }"

text \<open>\<open>run_transactions\<close> runs the same loop with a callback that flattens each batch.\<close>

definition run_transactions :: "('tx, 'rs, 'c) ledger \<Rightarrow> client_event list \<Rightarrow> 'c raw_shred_client
    \<Rightarrow> ('tx shred_tx_batch list \<times> 'c raw_shred_client \<times> shred_decode_error option) option" where
  "run_transactions L events cl =
     map_option (\<lambda>(out, cl', err). (map entries_to_tx_batch out, cl', err)) (run_entries L events cl)"

section \<open>The loop keeps the decoder's invariant and never panics\<close>

lemma poll_socket_ok:
  assumes P: "parser_bounds_index L"
  shows "decoder_inv d \<Longrightarrow>
    \<exists>out d' err. poll_socket L k now n rs d = Some (out, d', err) \<and> decoder_inv d' \<and> config d' = config d"
proof (induction rs arbitrary: n d)
  case (Cons r rs)
  show ?case
  proof (cases n)
    case (Suc m)
    show ?thesis
    proof (cases r)
      case (Datagram p)
      obtain out d1 where one: "push_packet L (take k p) now d = Some (out, d1)" "decoder_inv d1" "config d1 = config d"
        using push_packet_inv [OF P Cons.prems] by metis
      from Cons.IH [OF one(2), of m] obtain outs d2 err where
        "poll_socket L k now m rs d1 = Some (outs, d2, err)" "decoder_inv d2" "config d2 = config d1" by blast
      then show ?thesis using one Suc Datagram by simp
    qed (use Suc Cons.prems in simp_all)
  qed (use Cons.prems in simp)
next
  case Nil
  then show ?case by (cases n) simp_all
qed

lemma run_events_ok:
  assumes P: "parser_bounds_index L"
  shows "decoder_inv d \<Longrightarrow>
    \<exists>out d' err. run_events L c events d = Some (out, d', err) \<and> decoder_inv d' \<and> config d' = config d"
proof (induction events arbitrary: d)
  case (Cons e events)
  show ?case
  proof (cases e)
    case (Readable r now rs)
    show ?thesis
    proof (cases r)
      case None
      obtain out d1 err where one: "poll_socket L (recv_buffer_len c) now MAX_DATAGRAMS_PER_POLL rs d = Some (out, d1, err)"
        "decoder_inv d1" "config d1 = config d"
        using poll_socket_ok [OF P Cons.prems] by metis
      from Cons.IH [OF one(2)] obtain outs d2 err2 where
        "run_events L c events d1 = Some (outs, d2, err2)" "decoder_inv d2" "config d2 = config d1" by blast
      then show ?thesis using one Readable None by (cases err) simp_all
    qed (use Readable Cons.prems in simp)
  next
    case (Eviction_Tick now)
    have "config (snd (evict_stale_slots now d)) = config d"
      by (simp add: evict_stale_slots_def remove_slots_config)
    then show ?thesis
      using Cons.IH [OF evict_stale_slots_inv [OF Cons.prems, of now]] Eviction_Tick by simp
  qed
qed simp

section \<open>What the transaction callback receives\<close>

lemma flattened: "tx_batch_transactions (entries_to_tx_batch b) = concat (map transactions (batch_entries b))"
  by (simp add: entries_to_tx_batch_def)

text \<open>A poll reads no more than its limit, whatever the socket would still deliver.\<close>

lemma poll_socket_limit: "poll_socket L k now n rs d = poll_socket L k now n (take n rs) d"
proof (induction L k now n rs d rule: poll_socket.induct)
  case (5 L k now n p rs d)
  then show ?case by (cases "push_packet L (take k p) now d") auto
qed simp_all

end
