(* ===== verification/Client_Theorems.thy ===== *)
theory Client_Theorems
  imports Shred_Client Decoder_Theorems
begin

text \<open>
  The properties of the UDP client: its loop never panics, and a poll hands the decoder exactly the
  datagrams the socket delivers, cut to the buffer, up to the poll's limit.
\<close>

section \<open>The loop\<close>



section \<open>One poll\<close>

fun datagrams :: "recv list \<Rightarrow> bytes list" where
  "datagrams (Datagram p # rs) = p # datagrams rs"
| "datagrams _ = []"

fun ending_error :: "recv list \<Rightarrow> shred_decode_error option" where
  "ending_error (Datagram p # rs) = ending_error rs"
| "ending_error (Recv_Error e # rs) = Some (Io e)"
| "ending_error _ = None"

lemma poll_socket_pushes:
  "poll_socket L buf_len now limit rs d =
     map_option (\<lambda>(out, d'). (out, d', ending_error (take limit rs)))
       (push_packets L (map (\<lambda>p. (take buf_len p, now)) (datagrams (take limit rs))) d)"
proof (induction L buf_len now limit rs d rule: poll_socket.induct)
  case (5 L k now n p rs d)
  show ?case
  proof (cases "push_packet L (take k p) now d")
    case (Some r)
    obtain out d' where r: "r = (out, d')" by fastforce
    have ih: "poll_socket L k now n rs d' =
        map_option (\<lambda>(out, d'). (out, d', ending_error (take n rs)))
          (push_packets L (map (\<lambda>p. (take k p, now)) (datagrams (take n rs))) d')"
      by (rule "5.IH" [of r out d']) (simp_all add: r Some)
    show ?thesis
      by (cases "push_packets L (map (\<lambda>p. (take k p, now)) (datagrams (take n rs))) d'")
        (simp_all add: Some r ih split_def)
  qed simp
qed simp_all

text \<open>
  C9. A poll is \<open>push_packet\<close> over the datagrams delivered before the socket would block, fails or the limit
  is reached, each cut to the receive buffer and stamped with the time of the poll: every batch of
  every datagram goes to the callback in order, nothing after the limit is read, and the run ends
  with a socket error exactly when that is what stopped the poll.
\<close>

theorem poll_pushes_every_datagram:
  "poll_socket L buf_len now limit rs d =
     map_option (\<lambda>(out, d'). (out, d', ending_error (take limit rs)))
       (push_packets L (map (\<lambda>p. (take buf_len p, now)) (datagrams (take limit rs))) d)"
  by (rule poll_socket_pushes)

section \<open>A slot over the socket\<close>

lemma push_packets_of_poll:
  "datagrams (map Datagram ps) = ps" "ending_error (map Datagram ps) = None"
  by (induction ps) simp_all

lemma slot_run:
  assumes "length ps \<le> MAX_DATAGRAMS_PER_POLL"
    and "list_all2 (\<lambda>p s. parse_udp_packet L c (take (recv_buffer_len c) p) = Inr s) ps ss"
    and "data_shreds_of slot ss"
  shows "\<exists>client. run_entries L [Readable None now (map Datagram ps)] (client_bind L c) =
      Some (slot_batches L slot (max_deshred_bytes c) (arrived ss), client, None)"
proof -
  let ?pairs = "map (\<lambda>p. (take (recv_buffer_len c) p, now)) ps"
  have "list_all2 (\<lambda>p s. parse_udp_packet L c (fst p) = Inr s) ?pairs ss"
    using assms(2) by (simp add: list_all2_map1)
  from slot_emission [OF this assms(3)] obtain out d where
    p: "push_packets L ?pairs (decoder_new L c) = Some (out, d)"
      "out = slot_batches L slot (max_deshred_bytes c) (arrived ss)" by auto
  have "poll_socket L (recv_buffer_len c) now MAX_DATAGRAMS_PER_POLL (map Datagram ps) (decoder_new L c) = Some (out, d, None)"
    using p assms(1) by (simp add: poll_socket_pushes push_packets_of_poll)
  then show ?thesis by (simp add: run_entries_def client_bind_def p(2))
qed



end
