(* ===== verification/Program_Ids.thy ===== *)
theory Program_Ids
  imports Prelude
begin

text \<open>
  The program and mint addresses of \<open>src/instr/program_ids.rs\<close>, \<open>src/accounts/program_ids.rs\<close>,
  \<open>src/core/events/types.rs\<close> and \<open>src/transaction_route.rs\<close>, decoded from their base58 text to the 32 bytes
  of the \<open>Pubkey\<close>, and the StonkFun mode of a platform configuration. That they are pairwise distinct
  is what the dispatch on programs relies on.
\<close>

section \<open>DEX programs\<close>

definition PUMPFUN_PROGRAM_ID :: pubkey where
  "PUMPFUN_PROGRAM_ID =
     [1, 86, 224, 246, 147, 102, 90, 207, 68, 219, 21, 104, 191, 23, 91, 170, 81, 137, 203,
      151, 245, 210, 255, 59, 101, 93, 43, 182, 253, 109, 24, 176]"

definition RAYDIUM_LAUNCHLAB_PROGRAM_ID :: pubkey where
  "RAYDIUM_LAUNCHLAB_PROGRAM_ID =
     [5, 4, 59, 149, 77, 202, 38, 225, 239, 145, 181, 44, 79, 143, 137, 175, 138, 111, 90, 200,
      198, 33, 86, 241, 113, 207, 15, 33, 172, 81, 201, 34]"

definition PUMPSWAP_PROGRAM_ID :: pubkey where
  "PUMPSWAP_PROGRAM_ID =
     [12, 20, 222, 252, 130, 94, 198, 118, 148, 37, 8, 24, 187, 101, 64, 101, 244, 41, 141, 49,
      86, 213, 113, 180, 212, 248, 9, 12, 24, 233, 168, 99]"

definition PUMP_FEES_PROGRAM_ID :: pubkey where
  "PUMP_FEES_PROGRAM_ID =
     [12, 53, 255, 169, 5, 90, 142, 86, 141, 168, 247, 188, 7, 86, 21, 39, 76, 241, 201, 44,
      164, 31, 64, 0, 156, 81, 106, 164, 20, 194, 124, 112]"

definition RAYDIUM_CLMM_PROGRAM_ID :: pubkey where
  "RAYDIUM_CLMM_PROGRAM_ID =
     [165, 213, 202, 158, 4, 207, 93, 181, 144, 183, 20, 186, 47, 227, 44, 177, 89, 19, 63,
      193, 193, 146, 183, 34, 87, 253, 7, 211, 156, 176, 64, 30]"

definition RAYDIUM_CPMM_PROGRAM_ID :: pubkey where
  "RAYDIUM_CPMM_PROGRAM_ID =
     [169, 42, 90, 139, 79, 41, 89, 82, 132, 37, 80, 170, 147, 253, 91, 149, 181, 172, 230,
      168, 235, 146, 12, 147, 148, 46, 67, 105, 12, 32, 236, 115]"

definition RAYDIUM_AMM_V4_PROGRAM_ID :: pubkey where
  "RAYDIUM_AMM_V4_PROGRAM_ID =
     [75, 217, 73, 196, 54, 2, 195, 63, 32, 119, 144, 237, 22, 163, 82, 76, 161, 185, 151, 92,
      241, 33, 162, 169, 12, 255, 236, 125, 248, 182, 138, 205]"

definition ORCA_WHIRLPOOL_PROGRAM_ID :: pubkey where
  "ORCA_WHIRLPOOL_PROGRAM_ID =
     [14, 3, 104, 95, 142, 144, 144, 83, 228, 88, 18, 28, 102, 245, 167, 106, 237, 199, 112,
      106, 161, 28, 130, 248, 170, 149, 42, 143, 43, 120, 121, 169]"

definition METEORA_POOLS_PROGRAM_ID :: pubkey where
  "METEORA_POOLS_PROGRAM_ID =
     [204, 248, 2, 212, 204, 204, 132, 215, 251, 33, 181, 247, 59, 73, 216, 26, 22, 197, 180,
      200, 142, 227, 35, 148, 225, 201, 29, 53, 136, 204, 64, 128]"

definition METEORA_DAMM_V2_PROGRAM_ID :: pubkey where
  "METEORA_DAMM_V2_PROGRAM_ID =
     [9, 45, 33, 53, 101, 122, 21, 156, 43, 135, 212, 182, 106, 112, 219, 142, 151, 82, 56,
      159, 247, 106, 175, 32, 108, 237, 6, 58, 56, 249, 90, 237]"

definition METEORA_DLMM_PROGRAM_ID :: pubkey where
  "METEORA_DLMM_PROGRAM_ID =
     [4, 233, 225, 47, 188, 132, 232, 38, 201, 50, 204, 233, 226, 100, 12, 206, 21, 89, 12, 28,
      98, 115, 176, 146, 87, 8, 186, 59, 133, 32, 176, 188]"

definition METEORA_DBC_PROGRAM_ID :: pubkey where
  "METEORA_DBC_PROGRAM_ID =
     [9, 96, 12, 165, 36, 247, 177, 183, 214, 204, 177, 195, 151, 58, 160, 51, 13, 25, 3, 218,
      96, 28, 201, 181, 222, 227, 198, 98, 180, 202, 209, 73]"

section \<open>Token programs and mints\<close>

definition SPL_TOKEN_PROGRAM_ID :: pubkey where
  "SPL_TOKEN_PROGRAM_ID =
     [6, 221, 246, 225, 215, 101, 161, 147, 217, 203, 225, 70, 206, 235, 121, 172, 28, 180,
      133, 237, 95, 91, 55, 145, 58, 140, 245, 133, 126, 255, 0, 169]"

definition SPL_TOKEN_2022_PROGRAM_ID :: pubkey where
  "SPL_TOKEN_2022_PROGRAM_ID =
     [6, 221, 246, 225, 238, 117, 143, 222, 24, 66, 93, 188, 228, 108, 205, 218, 182, 26, 252,
      77, 131, 185, 13, 39, 254, 189, 249, 40, 216, 161, 139, 252]"

definition SYSTEM_PROGRAM_ID :: pubkey where
  "SYSTEM_PROGRAM_ID =
     [0, 0, 0, 0, 0, 0, 0, 0, 0, 0, 0, 0, 0, 0, 0, 0, 0, 0, 0, 0, 0, 0, 0, 0, 0, 0, 0, 0, 0, 0,
      0, 0]"

definition PUMPFUN_SOLSCAN_SOL_QUOTE_MINT :: pubkey where
  "PUMPFUN_SOLSCAN_SOL_QUOTE_MINT =
     [6, 155, 136, 87, 254, 171, 129, 132, 251, 104, 127, 99, 70, 24, 192, 53, 218, 196, 57,
      220, 26, 235, 59, 85, 152, 160, 240, 0, 0, 0, 0, 0]"

definition PUMPFUN_WSOL_QUOTE_MINT :: pubkey where
  "PUMPFUN_WSOL_QUOTE_MINT =
     [6, 155, 136, 87, 254, 171, 129, 132, 251, 104, 127, 99, 70, 24, 192, 53, 218, 196, 57,
      220, 26, 235, 59, 85, 152, 160, 240, 0, 0, 0, 0, 1]"

definition STONKFUN_STANDARD_PLATFORM_CONFIG :: pubkey where
  "STONKFUN_STANDARD_PLATFORM_CONFIG =
     [47, 239, 165, 40, 201, 111, 63, 145, 35, 191, 93, 52, 33, 26, 215, 15, 178, 27, 99, 178,
      64, 51, 18, 97, 96, 83, 217, 175, 125, 72, 77, 220]"

definition STONKFUN_REWARD_PLATFORM_CONFIG :: pubkey where
  "STONKFUN_REWARD_PLATFORM_CONFIG =
     [77, 23, 158, 58, 238, 226, 29, 241, 63, 161, 14, 65, 7, 44, 216, 155, 93, 163, 211, 229,
      138, 85, 221, 46, 210, 185, 209, 248, 6, 214, 250, 177]"

definition ROUTE_SPL_TOKEN :: pubkey where
  "ROUTE_SPL_TOKEN =
     [6, 221, 246, 225, 215, 101, 161, 147, 217, 203, 225, 70, 206, 235, 121, 172, 28, 180,
      133, 237, 95, 91, 55, 145, 58, 140, 245, 133, 126, 255, 0, 169]"

definition ROUTE_TOKEN_2022 :: pubkey where
  "ROUTE_TOKEN_2022 =
     [6, 221, 246, 225, 238, 117, 143, 222, 24, 66, 93, 188, 228, 108, 205, 218, 182, 26, 252,
      77, 131, 185, 13, 39, 254, 189, 249, 40, 216, 161, 139, 252]"

definition ROUTE_WSOL :: pubkey where
  "ROUTE_WSOL =
     [6, 155, 136, 87, 254, 171, 129, 132, 251, 104, 127, 99, 70, 24, 192, 53, 218, 196, 57,
      220, 26, 235, 59, 85, 152, 160, 240, 0, 0, 0, 0, 1]"

definition ROUTE_COMPUTE_BUDGET :: pubkey where
  "ROUTE_COMPUTE_BUDGET =
     [3, 6, 70, 111, 229, 33, 23, 50, 255, 236, 173, 186, 114, 195, 155, 231, 188, 140, 229,
      187, 197, 247, 18, 107, 44, 67, 155, 58, 64, 0, 0, 0]"

definition ROUTE_ASSOCIATED_TOKEN :: pubkey where
  "ROUTE_ASSOCIATED_TOKEN =
     [140, 151, 37, 143, 78, 36, 137, 241, 187, 61, 16, 41, 20, 142, 13, 131, 11, 90, 19, 153,
      218, 255, 16, 132, 4, 142, 123, 216, 219, 233, 248, 89]"

definition ROUTE_MEMO :: pubkey where
  "ROUTE_MEMO =
     [5, 74, 83, 90, 153, 41, 33, 6, 77, 36, 232, 113, 96, 218, 56, 124, 124, 53, 181, 221,
      188, 146, 187, 129, 228, 31, 168, 64, 65, 5, 68, 141]"

lemmas program_id_defs =
  PUMPFUN_PROGRAM_ID_def
  RAYDIUM_LAUNCHLAB_PROGRAM_ID_def
  PUMPSWAP_PROGRAM_ID_def
  PUMP_FEES_PROGRAM_ID_def
  RAYDIUM_CLMM_PROGRAM_ID_def
  RAYDIUM_CPMM_PROGRAM_ID_def
  RAYDIUM_AMM_V4_PROGRAM_ID_def
  ORCA_WHIRLPOOL_PROGRAM_ID_def
  METEORA_POOLS_PROGRAM_ID_def
  METEORA_DAMM_V2_PROGRAM_ID_def
  METEORA_DLMM_PROGRAM_ID_def
  METEORA_DBC_PROGRAM_ID_def

lemma dex_programs_distinct:
  "distinct [PUMPFUN_PROGRAM_ID,
     RAYDIUM_LAUNCHLAB_PROGRAM_ID,
     PUMPSWAP_PROGRAM_ID,
     PUMP_FEES_PROGRAM_ID,
     RAYDIUM_CLMM_PROGRAM_ID,
     RAYDIUM_CPMM_PROGRAM_ID,
     RAYDIUM_AMM_V4_PROGRAM_ID,
     ORCA_WHIRLPOOL_PROGRAM_ID,
     METEORA_POOLS_PROGRAM_ID,
     METEORA_DAMM_V2_PROGRAM_ID,
     METEORA_DLMM_PROGRAM_ID,
     METEORA_DBC_PROGRAM_ID]"
  by (simp add: program_id_defs)

lemma dex_programs_length:
  "\<forall>p \<in> {PUMPFUN_PROGRAM_ID,
     RAYDIUM_LAUNCHLAB_PROGRAM_ID,
     PUMPSWAP_PROGRAM_ID,
     PUMP_FEES_PROGRAM_ID,
     RAYDIUM_CLMM_PROGRAM_ID,
     RAYDIUM_CPMM_PROGRAM_ID,
     RAYDIUM_AMM_V4_PROGRAM_ID,
     ORCA_WHIRLPOOL_PROGRAM_ID,
     METEORA_POOLS_PROGRAM_ID,
     METEORA_DAMM_V2_PROGRAM_ID,
     METEORA_DLMM_PROGRAM_ID,
     METEORA_DBC_PROGRAM_ID}. length p = 32"
  by (simp add: program_id_defs)

section \<open>StonkFun modes\<close>

datatype stonkfun_mode = Standard | Reward

definition stonkfun_mode_from_platform_config :: "pubkey \<Rightarrow> stonkfun_mode option" where
  "stonkfun_mode_from_platform_config platform_config =
     (if platform_config = STONKFUN_STANDARD_PLATFORM_CONFIG then Some Standard
      else if platform_config = STONKFUN_REWARD_PLATFORM_CONFIG then Some Reward
      else None)"

end
