(* ===== verification/Event_Payloads.thy ===== *)
theory Event_Payloads
  imports Program_Ids
begin

text \<open>
  The payload structs of the Pump.fun and token-account events with all their fields
  (\<open>src/core/events/types.rs\<close>), the metadata every event has, the untouched outer instruction (\<open>src/core/events/raw_instruction.rs\<close>), and
  the derived defaults. Signed 64-bit times are \<open>int\<close>; a text read from the wire is its bytes, an
  instruction name is a \<open>string\<close>.
\<close>

section \<open>Metadata\<close>

record event_metadata =
  em_signature :: signature
  em_slot :: u64
  em_tx_index :: u64
  em_block_time_us :: int
  em_grpc_recv_us :: int
  em_recent_blockhash :: "string option"

definition default_metadata :: event_metadata where
  "default_metadata =
     \<lparr>em_signature = replicate 64 0, em_slot = 0, em_tx_index = 0, em_block_time_us = 0,
      em_grpc_recv_us = 0, em_recent_blockhash = None\<rparr>"

record raw_instruction_payload =
  ri_program_id :: pubkey
  ri_instruction_index :: nat
  ri_accounts :: "pubkey option list"
  ri_account_indices :: bytes
  ri_instruction_data :: bytes

record pump_fees_shareholder =
  sh_address :: pubkey
  sh_share_bps :: u16

text \<open>The wire version of a message (\<open>YellowstoneMessageVersion\<close> of \<open>src/grpc/types.rs\<close>).\<close>

datatype message_version = Legacy_Message | V0_Message | V1_Message

section \<open>Pump.fun payloads\<close>

record pumpfun_trade_event =
  pt_third_program :: "raw_instruction_payload option"
  pt_creator_fee_unclaimed :: u64
  pt_metadata :: event_metadata
  pt_mint :: pubkey
  pt_sol_amount :: u64
  pt_token_amount :: u64
  pt_is_buy :: bool
  pt_is_created_buy :: bool
  pt_user :: pubkey
  pt_timestamp :: int
  pt_virtual_sol_reserves :: u64
  pt_virtual_token_reserves :: u64
  pt_real_sol_reserves :: u64
  pt_real_token_reserves :: u64
  pt_fee_recipient :: pubkey
  pt_fee_basis_points :: u64
  pt_fee :: u64
  pt_creator :: pubkey
  pt_creator_fee_basis_points :: u64
  pt_creator_fee :: u64
  pt_track_volume :: bool
  pt_total_unclaimed_tokens :: u64
  pt_total_claimed_tokens :: u64
  pt_current_sol_volume :: u64
  pt_last_update_timestamp :: int
  pt_ix_name :: string
  pt_mayhem_mode :: bool
  pt_cashback_fee_basis_points :: u64
  pt_cashback :: u64
  pt_buyback_fee_basis_points :: u64
  pt_buyback_fee :: u64
  pt_shareholders :: "pump_fees_shareholder list"
  pt_quote_mint :: pubkey
  pt_quote_amount :: u64
  pt_virtual_quote_reserves :: u64
  pt_real_quote_reserves :: u64
  pt_holder_rewards_bps :: u64
  pt_holder_rewards :: u64
  pt_is_cashback_coin :: bool
  pt_amount :: u64
  pt_max_sol_cost :: u64
  pt_min_sol_output :: u64
  pt_spendable_sol_in :: u64
  pt_spendable_quote_in :: u64
  pt_min_tokens_out :: u64
  pt_global :: pubkey
  pt_bonding_curve :: pubkey
  pt_bonding_curve_v2 :: pubkey
  pt_associated_bonding_curve :: pubkey
  pt_associated_user :: pubkey
  pt_system_program :: pubkey
  pt_token_program :: pubkey
  pt_quote_token_program :: pubkey
  pt_associated_token_program :: pubkey
  pt_creator_vault :: pubkey
  pt_associated_quote_fee_recipient :: pubkey
  pt_buyback_fee_recipient :: pubkey
  pt_associated_quote_buyback_fee_recipient :: pubkey
  pt_associated_quote_bonding_curve :: pubkey
  pt_associated_quote_user :: pubkey
  pt_associated_creator_vault :: pubkey
  pt_sharing_config :: pubkey
  pt_event_authority :: pubkey
  pt_program :: pubkey
  pt_global_volume_accumulator :: pubkey
  pt_user_volume_accumulator :: pubkey
  pt_associated_user_volume_accumulator :: pubkey
  pt_fee_config :: pubkey
  pt_fee_program :: pubkey
  pt_account :: "pubkey option"

record pumpfun_create_event =
  pc_alt_addresses :: "pubkey list option"
  pc_transaction_version :: "message_version option"
  pc_depth :: u8
  pc_metadata :: event_metadata
  pc_name :: bytes
  pc_symbol :: bytes
  pc_uri :: bytes
  pc_mint :: pubkey
  pc_bonding_curve :: pubkey
  pc_user :: pubkey
  pc_creator :: pubkey
  pc_timestamp :: int
  pc_virtual_token_reserves :: u64
  pc_virtual_sol_reserves :: u64
  pc_real_token_reserves :: u64
  pc_token_total_supply :: u64
  pc_token_program :: pubkey
  pc_is_mayhem_mode :: bool
  pc_is_cashback_enabled :: bool
  pc_quote_mint :: pubkey
  pc_quote_vault :: pubkey
  pc_quote_token_program :: pubkey
  pc_virtual_quote_reserves :: u64
  pc_creator_fee_bps :: u64
  pc_is_holder_reward :: bool
  pc_ix_name :: string
  pc_mint_authority :: pubkey
  pc_associated_bonding_curve :: pubkey
  pc_global :: pubkey
  pc_system_program :: pubkey
  pc_associated_token_program :: pubkey
  pc_mayhem_program_id :: pubkey
  pc_global_params :: pubkey
  pc_sol_vault :: pubkey
  pc_mayhem_state :: pubkey
  pc_mayhem_token_vault :: pubkey
  pc_event_authority :: pubkey
  pc_program :: pubkey
  pc_observed_fee_recipient :: pubkey

record pumpfun_create_v2_event =
  pv_alt_addresses :: "pubkey list option"
  pv_transaction_version :: "message_version option"
  pv_metadata :: event_metadata
  pv_name :: bytes
  pv_symbol :: bytes
  pv_uri :: bytes
  pv_mint :: pubkey
  pv_bonding_curve :: pubkey
  pv_user :: pubkey
  pv_creator :: pubkey
  pv_timestamp :: int
  pv_virtual_token_reserves :: u64
  pv_virtual_sol_reserves :: u64
  pv_real_token_reserves :: u64
  pv_token_total_supply :: u64
  pv_token_program :: pubkey
  pv_is_mayhem_mode :: bool
  pv_is_cashback_enabled :: bool
  pv_quote_mint :: pubkey
  pv_quote_vault :: pubkey
  pv_quote_token_program :: pubkey
  pv_virtual_quote_reserves :: u64
  pv_creator_fee_bps :: u64
  pv_is_holder_reward :: bool
  pv_ix_name :: string
  pv_mint_authority :: pubkey
  pv_associated_bonding_curve :: pubkey
  pv_global :: pubkey
  pv_system_program :: pubkey
  pv_associated_token_program :: pubkey
  pv_mayhem_program_id :: pubkey
  pv_global_params :: pubkey
  pv_sol_vault :: pubkey
  pv_mayhem_state :: pubkey
  pv_mayhem_token_vault :: pubkey
  pv_event_authority :: pubkey
  pv_program :: pubkey
  pv_observed_fee_recipient :: pubkey

record pumpfun_migrate_event =
  pm_metadata :: event_metadata
  pm_user :: pubkey
  pm_mint :: pubkey
  pm_mint_amount :: u64
  pm_sol_amount :: u64
  pm_pool_migration_fee :: u64
  pm_bonding_curve :: pubkey
  pm_timestamp :: int
  pm_pool :: pubkey

record pumpfun_migrate_creator_event =
  mc_metadata :: event_metadata
  mc_timestamp :: int
  mc_mint :: pubkey
  mc_bonding_curve :: pubkey
  mc_sharing_config :: pubkey
  mc_old_creator :: pubkey
  mc_new_creator :: pubkey

section \<open>Account payloads\<close>

record token_info_event =
  ti_metadata :: event_metadata
  ti_pubkey :: pubkey
  ti_executable :: bool
  ti_lamports :: u64
  ti_owner :: pubkey
  ti_rent_epoch :: u64
  ti_supply :: u64
  ti_decimals :: u8

record token_account_event =
  ta_metadata :: event_metadata
  ta_pubkey :: pubkey
  ta_executable :: bool
  ta_lamports :: u64
  ta_owner :: pubkey
  ta_rent_epoch :: u64
  ta_amount :: "u64 option"
  ta_token_owner :: pubkey

record nonce_account_event =
  na_metadata :: event_metadata
  na_pubkey :: pubkey
  na_executable :: bool
  na_lamports :: u64
  na_owner :: pubkey
  na_rent_epoch :: u64
  na_nonce :: string
  na_authority :: string

section \<open>Defaults\<close>

definition default_trade :: pumpfun_trade_event where
  "default_trade =
     \<lparr>pt_third_program = None, pt_creator_fee_unclaimed = 0, pt_metadata = default_metadata,
      pt_mint = default_pubkey, pt_sol_amount = 0, pt_token_amount = 0, pt_is_buy = False,
      pt_is_created_buy = False, pt_user = default_pubkey, pt_timestamp = 0,
      pt_virtual_sol_reserves = 0, pt_virtual_token_reserves = 0, pt_real_sol_reserves = 0,
      pt_real_token_reserves = 0, pt_fee_recipient = default_pubkey, pt_fee_basis_points = 0,
      pt_fee = 0, pt_creator = default_pubkey, pt_creator_fee_basis_points = 0, pt_creator_fee = 0,
      pt_track_volume = False, pt_total_unclaimed_tokens = 0, pt_total_claimed_tokens = 0,
      pt_current_sol_volume = 0, pt_last_update_timestamp = 0, pt_ix_name = [],
      pt_mayhem_mode = False, pt_cashback_fee_basis_points = 0, pt_cashback = 0,
      pt_buyback_fee_basis_points = 0, pt_buyback_fee = 0, pt_shareholders = [],
      pt_quote_mint = default_pubkey, pt_quote_amount = 0, pt_virtual_quote_reserves = 0,
      pt_real_quote_reserves = 0, pt_holder_rewards_bps = 0, pt_holder_rewards = 0,
      pt_is_cashback_coin = False, pt_amount = 0, pt_max_sol_cost = 0, pt_min_sol_output = 0,
      pt_spendable_sol_in = 0, pt_spendable_quote_in = 0, pt_min_tokens_out = 0,
      pt_global = default_pubkey, pt_bonding_curve = default_pubkey,
      pt_bonding_curve_v2 = default_pubkey, pt_associated_bonding_curve = default_pubkey,
      pt_associated_user = default_pubkey, pt_system_program = default_pubkey,
      pt_token_program = default_pubkey, pt_quote_token_program = default_pubkey,
      pt_associated_token_program = default_pubkey, pt_creator_vault = default_pubkey,
      pt_associated_quote_fee_recipient = default_pubkey, pt_buyback_fee_recipient = default_pubkey,
      pt_associated_quote_buyback_fee_recipient = default_pubkey,
      pt_associated_quote_bonding_curve = default_pubkey, pt_associated_quote_user = default_pubkey,
      pt_associated_creator_vault = default_pubkey, pt_sharing_config = default_pubkey,
      pt_event_authority = default_pubkey, pt_program = default_pubkey,
      pt_global_volume_accumulator = default_pubkey, pt_user_volume_accumulator = default_pubkey,
      pt_associated_user_volume_accumulator = default_pubkey, pt_fee_config = default_pubkey,
      pt_fee_program = default_pubkey, pt_account = None\<rparr>"

definition default_create :: pumpfun_create_event where
  "default_create =
     \<lparr>pc_alt_addresses = None, pc_transaction_version = None, pc_depth = 0,
      pc_metadata = default_metadata, pc_name = [], pc_symbol = [], pc_uri = [],
      pc_mint = default_pubkey, pc_bonding_curve = default_pubkey, pc_user = default_pubkey,
      pc_creator = default_pubkey, pc_timestamp = 0, pc_virtual_token_reserves = 0,
      pc_virtual_sol_reserves = 0, pc_real_token_reserves = 0, pc_token_total_supply = 0,
      pc_token_program = default_pubkey, pc_is_mayhem_mode = False, pc_is_cashback_enabled = False,
      pc_quote_mint = default_pubkey, pc_quote_vault = default_pubkey,
      pc_quote_token_program = default_pubkey, pc_virtual_quote_reserves = 0, pc_creator_fee_bps = 0,
      pc_is_holder_reward = False, pc_ix_name = [], pc_mint_authority = default_pubkey,
      pc_associated_bonding_curve = default_pubkey, pc_global = default_pubkey,
      pc_system_program = default_pubkey, pc_associated_token_program = default_pubkey,
      pc_mayhem_program_id = default_pubkey, pc_global_params = default_pubkey,
      pc_sol_vault = default_pubkey, pc_mayhem_state = default_pubkey,
      pc_mayhem_token_vault = default_pubkey, pc_event_authority = default_pubkey,
      pc_program = default_pubkey, pc_observed_fee_recipient = default_pubkey\<rparr>"

lemma default_trade_simps [simp]:
  "pt_third_program default_trade = None"
  "pt_creator_fee_unclaimed default_trade = 0"
  "pt_metadata default_trade = default_metadata"
  "pt_mint default_trade = default_pubkey"
  "pt_sol_amount default_trade = 0"
  "pt_token_amount default_trade = 0"
  "pt_is_buy default_trade = False"
  "pt_is_created_buy default_trade = False"
  "pt_user default_trade = default_pubkey"
  "pt_timestamp default_trade = 0"
  "pt_virtual_sol_reserves default_trade = 0"
  "pt_virtual_token_reserves default_trade = 0"
  "pt_real_sol_reserves default_trade = 0"
  "pt_real_token_reserves default_trade = 0"
  "pt_fee_recipient default_trade = default_pubkey"
  "pt_fee_basis_points default_trade = 0"
  "pt_fee default_trade = 0"
  "pt_creator default_trade = default_pubkey"
  "pt_creator_fee_basis_points default_trade = 0"
  "pt_creator_fee default_trade = 0"
  "pt_track_volume default_trade = False"
  "pt_total_unclaimed_tokens default_trade = 0"
  "pt_total_claimed_tokens default_trade = 0"
  "pt_current_sol_volume default_trade = 0"
  "pt_last_update_timestamp default_trade = 0"
  "pt_ix_name default_trade = []"
  "pt_mayhem_mode default_trade = False"
  "pt_cashback_fee_basis_points default_trade = 0"
  "pt_cashback default_trade = 0"
  "pt_buyback_fee_basis_points default_trade = 0"
  "pt_buyback_fee default_trade = 0"
  "pt_shareholders default_trade = []"
  "pt_quote_mint default_trade = default_pubkey"
  "pt_quote_amount default_trade = 0"
  "pt_virtual_quote_reserves default_trade = 0"
  "pt_real_quote_reserves default_trade = 0"
  "pt_holder_rewards_bps default_trade = 0"
  "pt_holder_rewards default_trade = 0"
  "pt_is_cashback_coin default_trade = False"
  "pt_amount default_trade = 0"
  "pt_max_sol_cost default_trade = 0"
  "pt_min_sol_output default_trade = 0"
  "pt_spendable_sol_in default_trade = 0"
  "pt_spendable_quote_in default_trade = 0"
  "pt_min_tokens_out default_trade = 0"
  "pt_global default_trade = default_pubkey"
  "pt_bonding_curve default_trade = default_pubkey"
  "pt_bonding_curve_v2 default_trade = default_pubkey"
  "pt_associated_bonding_curve default_trade = default_pubkey"
  "pt_associated_user default_trade = default_pubkey"
  "pt_system_program default_trade = default_pubkey"
  "pt_token_program default_trade = default_pubkey"
  "pt_quote_token_program default_trade = default_pubkey"
  "pt_associated_token_program default_trade = default_pubkey"
  "pt_creator_vault default_trade = default_pubkey"
  "pt_associated_quote_fee_recipient default_trade = default_pubkey"
  "pt_buyback_fee_recipient default_trade = default_pubkey"
  "pt_associated_quote_buyback_fee_recipient default_trade = default_pubkey"
  "pt_associated_quote_bonding_curve default_trade = default_pubkey"
  "pt_associated_quote_user default_trade = default_pubkey"
  "pt_associated_creator_vault default_trade = default_pubkey"
  "pt_sharing_config default_trade = default_pubkey"
  "pt_event_authority default_trade = default_pubkey"
  "pt_program default_trade = default_pubkey"
  "pt_global_volume_accumulator default_trade = default_pubkey"
  "pt_user_volume_accumulator default_trade = default_pubkey"
  "pt_associated_user_volume_accumulator default_trade = default_pubkey"
  "pt_fee_config default_trade = default_pubkey"
  "pt_fee_program default_trade = default_pubkey"
  "pt_account default_trade = None"
  by (simp_all add: default_trade_def)

lemma default_create_simps [simp]:
  "pc_alt_addresses default_create = None"
  "pc_transaction_version default_create = None"
  "pc_depth default_create = 0"
  "pc_metadata default_create = default_metadata"
  "pc_name default_create = []"
  "pc_symbol default_create = []"
  "pc_uri default_create = []"
  "pc_mint default_create = default_pubkey"
  "pc_bonding_curve default_create = default_pubkey"
  "pc_user default_create = default_pubkey"
  "pc_creator default_create = default_pubkey"
  "pc_timestamp default_create = 0"
  "pc_virtual_token_reserves default_create = 0"
  "pc_virtual_sol_reserves default_create = 0"
  "pc_real_token_reserves default_create = 0"
  "pc_token_total_supply default_create = 0"
  "pc_token_program default_create = default_pubkey"
  "pc_is_mayhem_mode default_create = False"
  "pc_is_cashback_enabled default_create = False"
  "pc_quote_mint default_create = default_pubkey"
  "pc_quote_vault default_create = default_pubkey"
  "pc_quote_token_program default_create = default_pubkey"
  "pc_virtual_quote_reserves default_create = 0"
  "pc_creator_fee_bps default_create = 0"
  "pc_is_holder_reward default_create = False"
  "pc_ix_name default_create = []"
  "pc_mint_authority default_create = default_pubkey"
  "pc_associated_bonding_curve default_create = default_pubkey"
  "pc_global default_create = default_pubkey"
  "pc_system_program default_create = default_pubkey"
  "pc_associated_token_program default_create = default_pubkey"
  "pc_mayhem_program_id default_create = default_pubkey"
  "pc_global_params default_create = default_pubkey"
  "pc_sol_vault default_create = default_pubkey"
  "pc_mayhem_state default_create = default_pubkey"
  "pc_mayhem_token_vault default_create = default_pubkey"
  "pc_event_authority default_create = default_pubkey"
  "pc_program default_create = default_pubkey"
  "pc_observed_fee_recipient default_create = default_pubkey"
  by (simp_all add: default_create_def)

end
