(* ===== verification/Pump_Swap_Payloads.thy ===== *)
theory Pump_Swap_Payloads
  imports Event_Payloads
begin

text \<open>
  The payload structs of the PumpSwap and Raydium LaunchLab events that are merged field by field
  (\<open>src/core/events/types.rs\<close>), with all their fields.
\<close>

section \<open>PumpSwap\<close>

record pumpswap_trade_event =
  swt_third_program :: "raw_instruction_payload option"
  swt_metadata :: event_metadata
  swt_mint :: pubkey
  swt_sol_amount :: u64
  swt_token_amount :: u64
  swt_is_buy :: bool
  swt_user :: pubkey
  swt_timestamp :: int
  swt_virtual_sol_reserves :: u64
  swt_virtual_token_reserves :: u64
  swt_real_sol_reserves :: u64
  swt_real_token_reserves :: u64
  swt_fee_recipient :: pubkey
  swt_fee_basis_points :: u64
  swt_fee :: u64
  swt_creator :: pubkey
  swt_creator_fee_basis_points :: u64
  swt_creator_fee :: u64
  swt_track_volume :: bool
  swt_total_unclaimed_tokens :: u64
  swt_total_claimed_tokens :: u64
  swt_current_sol_volume :: u64
  swt_last_update_timestamp :: int
  swt_ix_name :: string

record pumpswap_buy_event =
  swb_third_program :: "raw_instruction_payload option"
  swb_creator_fee_unclaimed :: u64
  swb_metadata :: event_metadata
  swb_timestamp :: int
  swb_base_amount_out :: u64
  swb_max_quote_amount_in :: u64
  swb_user_base_token_reserves :: u64
  swb_user_quote_token_reserves :: u64
  swb_pool_base_token_reserves :: u64
  swb_pool_quote_token_reserves :: u64
  swb_quote_amount_in :: u64
  swb_lp_fee_basis_points :: u64
  swb_lp_fee :: u64
  swb_protocol_fee_basis_points :: u64
  swb_protocol_fee :: u64
  swb_quote_amount_in_with_lp_fee :: u64
  swb_user_quote_amount_in :: u64
  swb_pool :: pubkey
  swb_user :: pubkey
  swb_user_base_token_account :: pubkey
  swb_user_quote_token_account :: pubkey
  swb_protocol_fee_recipient :: pubkey
  swb_protocol_fee_recipient_token_account :: pubkey
  swb_coin_creator :: pubkey
  swb_coin_creator_fee_basis_points :: u64
  swb_coin_creator_fee :: u64
  swb_track_volume :: bool
  swb_total_unclaimed_tokens :: u64
  swb_total_claimed_tokens :: u64
  swb_current_sol_volume :: u64
  swb_last_update_timestamp :: int
  swb_min_base_amount_out :: u64
  swb_ix_name :: string
  swb_cashback_fee_basis_points :: u64
  swb_cashback :: u64
  swb_buyback_fee_basis_points :: u64
  swb_buyback_fee :: u64
  swb_virtual_quote_reserves :: int
  swb_can_boost :: bool
  swb_base_supply :: u64
  swb_holder_rewards_bps :: u64
  swb_holder_rewards :: u64
  swb_is_pump_pool :: bool
  swb_base_mint :: pubkey
  swb_quote_mint :: pubkey
  swb_pool_base_token_account :: pubkey
  swb_pool_quote_token_account :: pubkey
  swb_coin_creator_vault_ata :: pubkey
  swb_coin_creator_vault_authority :: pubkey
  swb_base_token_program :: pubkey
  swb_quote_token_program :: pubkey
  swb_pool_v2 :: pubkey
  swb_fee_recipient :: pubkey
  swb_fee_recipient_quote_token_account :: pubkey

record pumpswap_sell_event =
  sws_third_program :: "raw_instruction_payload option"
  sws_creator_fee_unclaimed :: u64
  sws_metadata :: event_metadata
  sws_timestamp :: int
  sws_base_amount_in :: u64
  sws_min_quote_amount_out :: u64
  sws_user_base_token_reserves :: u64
  sws_user_quote_token_reserves :: u64
  sws_pool_base_token_reserves :: u64
  sws_pool_quote_token_reserves :: u64
  sws_quote_amount_out :: u64
  sws_lp_fee_basis_points :: u64
  sws_lp_fee :: u64
  sws_protocol_fee_basis_points :: u64
  sws_protocol_fee :: u64
  sws_quote_amount_out_without_lp_fee :: u64
  sws_user_quote_amount_out :: u64
  sws_pool :: pubkey
  sws_user :: pubkey
  sws_user_base_token_account :: pubkey
  sws_user_quote_token_account :: pubkey
  sws_protocol_fee_recipient :: pubkey
  sws_protocol_fee_recipient_token_account :: pubkey
  sws_coin_creator :: pubkey
  sws_coin_creator_fee_basis_points :: u64
  sws_coin_creator_fee :: u64
  sws_cashback_fee_basis_points :: u64
  sws_cashback :: u64
  sws_buyback_fee_basis_points :: u64
  sws_buyback_fee :: u64
  sws_virtual_quote_reserves :: int
  sws_can_boost :: bool
  sws_base_supply :: u64
  sws_holder_rewards_bps :: u64
  sws_holder_rewards :: u64
  sws_is_pump_pool :: bool
  sws_base_mint :: pubkey
  sws_quote_mint :: pubkey
  sws_pool_base_token_account :: pubkey
  sws_pool_quote_token_account :: pubkey
  sws_coin_creator_vault_ata :: pubkey
  sws_coin_creator_vault_authority :: pubkey
  sws_base_token_program :: pubkey
  sws_quote_token_program :: pubkey
  sws_pool_v2 :: pubkey
  sws_fee_recipient :: pubkey
  sws_fee_recipient_quote_token_account :: pubkey

record pumpswap_create_pool_event =
  swp_metadata :: event_metadata
  swp_timestamp :: int
  swp_index :: u16
  swp_creator :: pubkey
  swp_base_mint :: pubkey
  swp_quote_mint :: pubkey
  swp_base_mint_decimals :: u8
  swp_quote_mint_decimals :: u8
  swp_base_amount_in :: u64
  swp_quote_amount_in :: u64
  swp_pool_base_amount :: u64
  swp_pool_quote_amount :: u64
  swp_minimum_liquidity :: u64
  swp_initial_liquidity :: u64
  swp_lp_token_amount_out :: u64
  swp_pool_bump :: u8
  swp_pool :: pubkey
  swp_lp_mint :: pubkey
  swp_user_base_token_account :: pubkey
  swp_user_quote_token_account :: pubkey
  swp_coin_creator :: pubkey
  swp_is_mayhem_mode :: bool
  swp_is_cashback_coin :: bool
  swp_creator_fee_bps :: u64
  swp_can_edit_creator_fee :: bool
  swp_is_holder_reward :: bool

record pumpswap_liquidity_added =
  swa_metadata :: event_metadata
  swa_timestamp :: int
  swa_lp_token_amount_out :: u64
  swa_max_base_amount_in :: u64
  swa_max_quote_amount_in :: u64
  swa_user_base_token_reserves :: u64
  swa_user_quote_token_reserves :: u64
  swa_pool_base_token_reserves :: u64
  swa_pool_quote_token_reserves :: u64
  swa_base_amount_in :: u64
  swa_quote_amount_in :: u64
  swa_lp_mint_supply :: u64
  swa_pool :: pubkey
  swa_user :: pubkey
  swa_user_base_token_account :: pubkey
  swa_user_quote_token_account :: pubkey
  swa_user_pool_token_account :: pubkey

record pumpswap_liquidity_removed =
  swr_metadata :: event_metadata
  swr_timestamp :: int
  swr_lp_token_amount_in :: u64
  swr_min_base_amount_out :: u64
  swr_min_quote_amount_out :: u64
  swr_user_base_token_reserves :: u64
  swr_user_quote_token_reserves :: u64
  swr_pool_base_token_reserves :: u64
  swr_pool_quote_token_reserves :: u64
  swr_base_amount_out :: u64
  swr_quote_amount_out :: u64
  swr_lp_mint_supply :: u64
  swr_pool :: pubkey
  swr_user :: pubkey
  swr_user_base_token_account :: pubkey
  swr_user_quote_token_account :: pubkey
  swr_user_pool_token_account :: pubkey

section \<open>LaunchLab\<close>

datatype trade_direction = Direction_Buy | Direction_Sell

datatype launchlab_pool_status = Status_Fund | Status_Migrate | Status_Trade

record base_mint_param =
  bmp_symbol :: bytes
  bmp_name :: bytes
  bmp_uri :: bytes
  bmp_decimals :: u8

record launchlab_trade_event =
  llt_third_program :: "raw_instruction_payload option"
  llt_metadata :: event_metadata
  llt_pool_state :: pubkey
  llt_user :: pubkey
  llt_amount_in :: u64
  llt_amount_out :: u64
  llt_is_buy :: bool
  llt_total_base_sell :: u64
  llt_virtual_base :: u64
  llt_virtual_quote :: u64
  llt_real_base_before :: u64
  llt_real_quote_before :: u64
  llt_real_base_after :: u64
  llt_real_quote_after :: u64
  llt_protocol_fee :: u64
  llt_platform_fee :: u64
  llt_creator_fee :: u64
  llt_share_fee :: u64
  llt_trade_direction :: trade_direction
  llt_pool_status :: launchlab_pool_status
  llt_exact_in :: bool
  llt_global_config :: pubkey
  llt_platform_config :: pubkey
  llt_user_base_token :: pubkey
  llt_user_quote_token :: pubkey
  llt_base_vault :: pubkey
  llt_quote_vault :: pubkey
  llt_base_mint :: pubkey
  llt_quote_mint :: pubkey
  llt_base_token_program :: pubkey
  llt_quote_token_program :: pubkey
  llt_system_program :: pubkey
  llt_platform_associated_account :: pubkey
  llt_creator_associated_account :: pubkey

record launchlab_pool_create_event =
  llp_metadata :: event_metadata
  llp_base_mint_param :: base_mint_param
  llp_pool_state :: pubkey
  llp_payer :: pubkey
  llp_creator :: pubkey
  llp_global_config :: pubkey
  llp_platform_config :: pubkey
  llp_base_mint :: pubkey
  llp_quote_mint :: pubkey
  llp_base_vault :: pubkey
  llp_quote_vault :: pubkey
  llp_base_token_program :: pubkey
  llp_quote_token_program :: pubkey

end
