(* ===== verification/Swap_Payloads.thy ===== *)
theory Swap_Payloads
  imports Event_Payloads
begin

text \<open>
  The payload structs of the Raydium CPMM, CLMM and AMM V4 swaps and of the Orca Whirlpool swaps
  (\<open>src/core/events/types.rs\<close>), with all their fields.
\<close>

record raydium_cpmm_swap_event =
  cps_third_program :: "raw_instruction_payload option"
  cps_metadata :: event_metadata
  cps_pool_id :: pubkey
  cps_input_amount :: u64
  cps_output_amount :: u64
  cps_input_vault_before :: u64
  cps_output_vault_before :: u64
  cps_input_transfer_fee :: u64
  cps_output_transfer_fee :: u64
  cps_base_input :: bool
  cps_amm_config :: pubkey
  cps_input_vault :: pubkey
  cps_output_vault :: pubkey
  cps_input_token_program :: pubkey
  cps_output_token_program :: pubkey
  cps_input_token_mint :: pubkey
  cps_output_token_mint :: pubkey
  cps_observation_state :: pubkey
  cps_ix_name :: string
  cps_amount_in :: u64
  cps_minimum_amount_out :: u64
  cps_max_amount_in :: u64
  cps_amount_out :: u64
  cps_payer :: pubkey
  cps_authority :: pubkey
  cps_input_token_account :: pubkey
  cps_output_token_account :: pubkey
  cps_input_mint :: pubkey
  cps_output_mint :: pubkey
  cps_trade_fee :: u64
  cps_creator_fee :: u64
  cps_creator_fee_on_input :: bool

record raydium_clmm_swap_event =
  cls_third_program :: "raw_instruction_payload option"
  cls_metadata :: event_metadata
  cls_pool_state :: pubkey
  cls_sender :: pubkey
  cls_token_account_0 :: pubkey
  cls_token_account_1 :: pubkey
  cls_amount_0 :: u64
  cls_transfer_fee_0 :: u64
  cls_amount_1 :: u64
  cls_transfer_fee_1 :: u64
  cls_zero_for_one :: bool
  cls_sqrt_price_x64 :: u128
  cls_liquidity :: u128
  cls_tick :: int
  cls_amm_config :: pubkey
  cls_input_vault :: pubkey
  cls_output_vault :: pubkey
  cls_observation_state :: pubkey
  cls_input_mint :: pubkey
  cls_output_mint :: pubkey
  cls_tick_array_bitmap_extension :: "pubkey option"
  cls_tick_arrays :: "pubkey list"
  cls_ix_name :: string
  cls_amount :: u64
  cls_other_amount_threshold :: u64
  cls_sqrt_price_limit_x64 :: u128
  cls_is_base_input :: bool

record raydium_amm_v4_swap_event =
  avs_third_program :: "raw_instruction_payload option"
  avs_metadata :: event_metadata
  avs_amm :: pubkey
  avs_amount_in :: u64
  avs_amount_out :: u64
  avs_minimum_amount_out :: u64
  avs_max_amount_in :: u64
  avs_token_program :: pubkey
  avs_amm_authority :: pubkey
  avs_amm_open_orders :: pubkey
  avs_amm_target_orders :: "pubkey option"
  avs_pool_coin_token_account :: pubkey
  avs_pool_pc_token_account :: pubkey
  avs_serum_program :: pubkey
  avs_serum_market :: pubkey
  avs_serum_bids :: pubkey
  avs_serum_asks :: pubkey
  avs_serum_event_queue :: pubkey
  avs_serum_coin_vault_account :: pubkey
  avs_serum_pc_vault_account :: pubkey
  avs_serum_vault_signer :: pubkey
  avs_user_source_token_account :: pubkey
  avs_user_destination_token_account :: pubkey
  avs_user_source_owner :: pubkey
  avs_ix_name :: string
  avs_instruction_amount_in :: u64
  avs_instruction_amount_out :: u64

record orca_whirlpool_swap_event =
  ows_third_program :: "raw_instruction_payload option"
  ows_metadata :: event_metadata
  ows_whirlpool :: pubkey
  ows_input_amount :: u64
  ows_output_amount :: u64
  ows_a_to_b :: bool
  ows_pre_sqrt_price :: u128
  ows_post_sqrt_price :: u128
  ows_input_transfer_fee :: u64
  ows_output_transfer_fee :: u64
  ows_lp_fee :: u64
  ows_protocol_fee :: u64
  ows_token_program_a :: pubkey
  ows_token_program_b :: pubkey
  ows_token_mint_a :: pubkey
  ows_token_mint_b :: pubkey
  ows_token_vault_a :: pubkey
  ows_token_vault_b :: pubkey
  ows_tick_array_0 :: pubkey
  ows_tick_array_1 :: pubkey
  ows_tick_array_2 :: pubkey
  ows_oracle :: pubkey
  ows_ix_name :: string
  ows_amount :: u64
  ows_other_amount_threshold :: u64
  ows_sqrt_price_limit :: u128
  ows_amount_specified_is_input :: bool
  ows_token_authority :: pubkey
  ows_token_owner_account_a :: pubkey
  ows_token_owner_account_b :: pubkey

end
