(* ===== verification/Meteora_Payloads.thy ===== *)
theory Meteora_Payloads
  imports Event_Payloads
begin

text \<open>
  The payload structs of the Meteora Pools events and of the Meteora DLMM events that are merged field by
  field (\<open>src/core/events/types.rs\<close>), with all their fields.
\<close>

section \<open>Pools\<close>

record stable_curve_params =
  scp_amp :: u64
  scp_token_a_multiplier :: u64
  scp_token_b_multiplier :: u64
  scp_precision_factor :: u8
  scp_base_virtual_price :: u64
  scp_base_cache_updated :: u64
  scp_depeg_type :: u8
  scp_last_amp_updated_timestamp :: u64

record customizable_params =
  ccp_trade_fee_numerator :: u32
  ccp_activation_point :: "u64 option"
  ccp_has_alpha_vault :: bool
  ccp_activation_type :: u8
  ccp_padding :: bytes

record meteora_pools_swap_event =
  mps_third_program :: "raw_instruction_payload option"
  mps_metadata :: event_metadata
  mps_in_amount :: u64
  mps_out_amount :: u64
  mps_trade_fee :: u64
  mps_admin_fee :: u64
  mps_host_fee :: u64
  mps_ix_name :: string
  mps_amount_in :: u64
  mps_minimum_out_amount :: u64
  mps_pool :: pubkey
  mps_user_source_token :: pubkey
  mps_user_destination_token :: pubkey
  mps_a_vault :: pubkey
  mps_b_vault :: pubkey
  mps_a_token_vault :: pubkey
  mps_b_token_vault :: pubkey
  mps_a_vault_lp_mint :: pubkey
  mps_b_vault_lp_mint :: pubkey
  mps_a_vault_lp :: pubkey
  mps_b_vault_lp :: pubkey
  mps_protocol_token_fee :: pubkey
  mps_user :: pubkey
  mps_vault_program :: pubkey
  mps_token_program :: pubkey

record meteora_pools_add_liquidity_event =
  mpa_metadata :: event_metadata
  mpa_lp_mint_amount :: u64
  mpa_token_a_amount :: u64
  mpa_token_b_amount :: u64
  mpa_ix_name :: string
  mpa_pool_token_amount :: u64
  mpa_maximum_token_a_amount :: u64
  mpa_maximum_token_b_amount :: u64
  mpa_minimum_pool_token_amount :: u64
  mpa_token_a_in_amount :: u64
  mpa_token_b_in_amount :: u64
  mpa_pool :: pubkey
  mpa_lp_mint :: pubkey
  mpa_user_pool_lp :: pubkey
  mpa_a_vault_lp :: pubkey
  mpa_b_vault_lp :: pubkey
  mpa_a_vault :: pubkey
  mpa_b_vault :: pubkey
  mpa_a_vault_lp_mint :: pubkey
  mpa_b_vault_lp_mint :: pubkey
  mpa_a_token_vault :: pubkey
  mpa_b_token_vault :: pubkey
  mpa_user_a_token :: pubkey
  mpa_user_b_token :: pubkey
  mpa_user :: pubkey
  mpa_vault_program :: pubkey
  mpa_token_program :: pubkey

record meteora_pools_remove_liquidity_event =
  mpr_metadata :: event_metadata
  mpr_lp_unmint_amount :: u64
  mpr_token_a_out_amount :: u64
  mpr_token_b_out_amount :: u64
  mpr_ix_name :: string
  mpr_pool_token_amount :: u64
  mpr_minimum_a_token_out :: u64
  mpr_minimum_b_token_out :: u64
  mpr_pool :: pubkey
  mpr_lp_mint :: pubkey
  mpr_user_pool_lp :: pubkey
  mpr_a_vault_lp :: pubkey
  mpr_b_vault_lp :: pubkey
  mpr_a_vault :: pubkey
  mpr_b_vault :: pubkey
  mpr_a_vault_lp_mint :: pubkey
  mpr_b_vault_lp_mint :: pubkey
  mpr_a_token_vault :: pubkey
  mpr_b_token_vault :: pubkey
  mpr_user_a_token :: pubkey
  mpr_user_b_token :: pubkey
  mpr_user :: pubkey
  mpr_vault_program :: pubkey
  mpr_token_program :: pubkey
  mpr_minimum_out_amount :: u64
  mpr_user_destination_token :: pubkey

record meteora_pools_bootstrap_liquidity_event =
  mpb_metadata :: event_metadata
  mpb_lp_mint_amount :: u64
  mpb_token_a_amount :: u64
  mpb_token_b_amount :: u64
  mpb_pool :: pubkey
  mpb_ix_name :: string
  mpb_token_a_in_amount :: u64
  mpb_token_b_in_amount :: u64
  mpb_lp_mint :: pubkey
  mpb_user_pool_lp :: pubkey
  mpb_a_vault_lp :: pubkey
  mpb_b_vault_lp :: pubkey
  mpb_a_vault :: pubkey
  mpb_b_vault :: pubkey
  mpb_a_vault_lp_mint :: pubkey
  mpb_b_vault_lp_mint :: pubkey
  mpb_a_token_vault :: pubkey
  mpb_b_token_vault :: pubkey
  mpb_user_a_token :: pubkey
  mpb_user_b_token :: pubkey
  mpb_user :: pubkey
  mpb_vault_program :: pubkey
  mpb_token_program :: pubkey

record meteora_pools_pool_created_event =
  mpc_metadata :: event_metadata
  mpc_lp_mint :: pubkey
  mpc_token_a_mint :: pubkey
  mpc_token_b_mint :: pubkey
  mpc_pool_type :: u8
  mpc_pool :: pubkey
  mpc_ix_name :: string
  mpc_token_a_in_amount :: u64
  mpc_token_b_in_amount :: u64
  mpc_activation_point :: "u64 option"
  mpc_config :: pubkey
  mpc_a_vault :: pubkey
  mpc_b_vault :: pubkey
  mpc_a_token_vault :: pubkey
  mpc_b_token_vault :: pubkey
  mpc_a_vault_lp_mint :: pubkey
  mpc_b_vault_lp_mint :: pubkey
  mpc_a_vault_lp :: pubkey
  mpc_b_vault_lp :: pubkey
  mpc_payer_token_a :: pubkey
  mpc_payer_token_b :: pubkey
  mpc_payer_pool_lp :: pubkey
  mpc_protocol_token_a_fee :: pubkey
  mpc_protocol_token_b_fee :: pubkey
  mpc_payer :: pubkey
  mpc_rent :: pubkey
  mpc_mint_metadata :: pubkey
  mpc_metadata_program :: pubkey
  mpc_vault_program :: pubkey
  mpc_token_program :: pubkey
  mpc_associated_token_program :: pubkey
  mpc_system_program :: pubkey
  mpc_stable_curve :: "stable_curve_params option"
  mpc_trade_fee_bps :: "u64 option"
  mpc_customizable_params :: "customizable_params option"
  mpc_admin_token_a :: pubkey
  mpc_admin_token_b :: pubkey
  mpc_admin_pool_lp :: pubkey
  mpc_admin :: pubkey
  mpc_fee_owner :: pubkey

record meteora_pools_set_pool_fees_event =
  mpf_metadata :: event_metadata
  mpf_trade_fee_numerator :: u64
  mpf_trade_fee_denominator :: u64
  mpf_owner_trade_fee_numerator :: u64
  mpf_owner_trade_fee_denominator :: u64
  mpf_pool :: pubkey
  mpf_ix_name :: string
  mpf_protocol_trade_fee_numerator :: u64
  mpf_protocol_trade_fee_denominator :: u64
  mpf_new_partner_fee_numerator :: u64
  mpf_fee_operator :: pubkey

section \<open>DLMM\<close>

record meteora_dlmm_swap_event =
  dls_third_program :: "raw_instruction_payload option"
  dls_metadata :: event_metadata
  dls_pool :: pubkey
  dls_from :: pubkey
  dls_start_bin_id :: int
  dls_end_bin_id :: int
  dls_amount_in :: u64
  dls_amount_out :: u64
  dls_swap_for_y :: bool
  dls_fee :: u64
  dls_protocol_fee :: u64
  dls_fee_bps :: u128
  dls_host_fee :: u64
  dls_token_x_mint :: pubkey
  dls_token_y_mint :: pubkey
  dls_user_token_in :: pubkey
  dls_user_token_out :: pubkey
  dls_reserve_x :: pubkey
  dls_reserve_y :: pubkey
  dls_oracle :: pubkey
  dls_token_x_program :: pubkey
  dls_token_y_program :: pubkey
  dls_min_amount_out :: u64
  dls_bitmap_extension :: "pubkey option"
  dls_bin_arrays :: "pubkey list"
  dls_event_version :: u8
  dls_amount_left :: u64
  dls_mm_fee :: u64
  dls_limit_order_fee :: u64
  dls_fees_on_input :: bool
  dls_fees_on_token_x :: bool

record meteora_dlmm_initialize_pool_event =
  dli_metadata :: event_metadata
  dli_pool :: pubkey
  dli_creator :: pubkey
  dli_active_bin_id :: int
  dli_bin_step :: u16

record meteora_dlmm_create_position_event =
  dlp_metadata :: event_metadata
  dlp_pool :: pubkey
  dlp_position :: pubkey
  dlp_owner :: pubkey
  dlp_lower_bin_id :: int
  dlp_width :: u32

record meteora_dlmm_close_position_event =
  dlc_metadata :: event_metadata
  dlc_pool :: pubkey
  dlc_position :: pubkey
  dlc_owner :: pubkey

end
