(* ===== verification/Liquidity_Payloads.thy ===== *)
theory Liquidity_Payloads
  imports Event_Payloads
begin

text \<open>
  The payload structs of the Raydium, Orca and Meteora DAMM events of pools, positions and liquidity whose
  accounts are filled from their instruction (\<open>src/core/events/types.rs\<close>), with all their fields.
\<close>

record raydium_clmm_create_pool_event =
  clc_metadata :: event_metadata
  clc_token_0_mint :: pubkey
  clc_token_1_mint :: pubkey
  clc_tick_spacing :: u16
  clc_pool :: pubkey
  clc_sqrt_price_x64 :: u128
  clc_tick :: int
  clc_token_vault_0 :: pubkey
  clc_token_vault_1 :: pubkey
  clc_fee_rate :: u32
  clc_creator :: pubkey
  clc_open_time :: u64

record raydium_clmm_open_position_event =
  clo_metadata :: event_metadata
  clo_pool :: pubkey
  clo_user :: pubkey
  clo_position_nft_mint :: pubkey
  clo_tick_lower_index :: int
  clo_tick_upper_index :: int
  clo_liquidity :: u128

record raydium_clmm_close_position_event =
  clx_metadata :: event_metadata
  clx_pool :: pubkey
  clx_user :: pubkey
  clx_position_nft_mint :: pubkey

record raydium_clmm_increase_liquidity_event =
  cli_metadata :: event_metadata
  cli_position_nft_mint :: pubkey
  cli_liquidity :: u128
  cli_amount_0 :: u64
  cli_amount_1 :: u64
  cli_amount_0_transfer_fee :: u64
  cli_amount_1_transfer_fee :: u64
  cli_pool :: pubkey
  cli_amount0_max :: u64
  cli_amount1_max :: u64
  cli_user :: pubkey

record raydium_clmm_decrease_liquidity_event =
  cld_metadata :: event_metadata
  cld_position_nft_mint :: pubkey
  cld_liquidity :: u128
  cld_decrease_amount_0 :: u64
  cld_decrease_amount_1 :: u64
  cld_fee_amount_0 :: u64
  cld_fee_amount_1 :: u64
  cld_reward_amounts :: "u64 list"
  cld_transfer_fee_0 :: u64
  cld_transfer_fee_1 :: u64
  cld_pool :: pubkey
  cld_amount0_min :: u64
  cld_amount1_min :: u64
  cld_user :: pubkey

record raydium_cpmm_deposit_event =
  cpd_metadata :: event_metadata
  cpd_pool :: pubkey
  cpd_token0_amount :: u64
  cpd_token1_amount :: u64
  cpd_lp_token_amount :: u64
  cpd_user :: pubkey

record raydium_cpmm_withdraw_event =
  cpw_metadata :: event_metadata
  cpw_pool :: pubkey
  cpw_lp_token_amount :: u64
  cpw_token0_amount :: u64
  cpw_token1_amount :: u64
  cpw_user :: pubkey

record raydium_cpmm_initialize_event =
  cpn_metadata :: event_metadata
  cpn_pool :: pubkey
  cpn_creator :: pubkey
  cpn_init_amount0 :: u64
  cpn_init_amount1 :: u64

record raydium_amm_v4_deposit_event =
  avd_metadata :: event_metadata
  avd_amm :: pubkey
  avd_max_coin_amount :: u64
  avd_max_pc_amount :: u64
  avd_base_side :: u64
  avd_token_program :: pubkey
  avd_amm_authority :: pubkey
  avd_amm_open_orders :: pubkey
  avd_amm_target_orders :: pubkey
  avd_lp_mint_address :: pubkey
  avd_pool_coin_token_account :: pubkey
  avd_pool_pc_token_account :: pubkey
  avd_serum_market :: pubkey
  avd_user_coin_token_account :: pubkey
  avd_user_pc_token_account :: pubkey
  avd_user_lp_token_account :: pubkey
  avd_user_owner :: pubkey
  avd_serum_event_queue :: pubkey

record raydium_amm_v4_withdraw_event =
  avw_metadata :: event_metadata
  avw_amm :: pubkey
  avw_amount :: u64
  avw_token_program :: pubkey
  avw_amm_authority :: pubkey
  avw_amm_open_orders :: pubkey
  avw_amm_target_orders :: pubkey
  avw_lp_mint_address :: pubkey
  avw_pool_coin_token_account :: pubkey
  avw_pool_pc_token_account :: pubkey
  avw_pool_withdraw_queue :: pubkey
  avw_pool_temp_lp_token_account :: pubkey
  avw_serum_program :: pubkey
  avw_serum_market :: pubkey
  avw_serum_coin_vault_account :: pubkey
  avw_serum_pc_vault_account :: pubkey
  avw_serum_vault_signer :: pubkey
  avw_user_lp_token_account :: pubkey
  avw_user_coin_token_account :: pubkey
  avw_user_pc_token_account :: pubkey
  avw_user_owner :: pubkey
  avw_serum_event_queue :: pubkey
  avw_serum_bids :: pubkey
  avw_serum_asks :: pubkey

record orca_liquidity_increased_event =
  owi_metadata :: event_metadata
  owi_whirlpool :: pubkey
  owi_liquidity :: u128
  owi_token_a_amount :: u64
  owi_token_b_amount :: u64
  owi_position :: pubkey
  owi_tick_lower_index :: int
  owi_tick_upper_index :: int
  owi_token_a_transfer_fee :: u64
  owi_token_b_transfer_fee :: u64

record orca_liquidity_decreased_event =
  owd_metadata :: event_metadata
  owd_whirlpool :: pubkey
  owd_liquidity :: u128
  owd_token_a_amount :: u64
  owd_token_b_amount :: u64
  owd_position :: pubkey
  owd_tick_lower_index :: int
  owd_tick_upper_index :: int
  owd_token_a_transfer_fee :: u64
  owd_token_b_transfer_fee :: u64

record meteora_damm_v2_initialize_pool_event =
  dvi_metadata :: event_metadata
  dvi_pool :: pubkey
  dvi_token_a_mint :: pubkey
  dvi_token_b_mint :: pubkey
  dvi_creator :: pubkey
  dvi_payer :: pubkey
  dvi_position :: pubkey
  dvi_position_nft_mint :: pubkey
  dvi_alpha_vault :: pubkey
  dvi_sqrt_min_price :: u128
  dvi_sqrt_max_price :: u128
  dvi_activation_type :: u8
  dvi_collect_fee_mode :: u8
  dvi_liquidity :: u128
  dvi_sqrt_price :: u128
  dvi_activation_point :: "u64 option"
  dvi_token_a_flag :: u8
  dvi_token_b_flag :: u8
  dvi_token_a_amount :: u64
  dvi_token_b_amount :: u64
  dvi_total_amount_a :: u64
  dvi_total_amount_b :: u64
  dvi_pool_type :: u8

end
