(* ===== verification/Venue_Payloads.thy ===== *)
theory Venue_Payloads
  imports Event_Payloads
begin

text \<open>
  The payload structs of the remaining Raydium, Orca and Meteora events and of the Pump fees events
  (\<open>src/core/events/types.rs\<close>), with all their fields. An array of fixed length is a list.
\<close>

datatype fees_config_status = Fees_Paused | Fees_Active

record fees_rates =
  pff_lp_fee_bps :: u64
  pff_protocol_fee_bps :: u64
  pff_creator_fee_bps :: u64

record fees_tier =
  pfx_market_cap_lamports_threshold :: u128
  pfx_fees :: fees_rates

record raydium_cpmm_collect_creator_fee_event =
  cpf_metadata :: event_metadata
  cpf_permissionless :: bool
  cpf_payer :: pubkey
  cpf_creator :: pubkey
  cpf_authority :: pubkey
  cpf_pool_state :: pubkey
  cpf_amm_config :: pubkey
  cpf_token_0_vault :: pubkey
  cpf_token_1_vault :: pubkey
  cpf_vault_0_mint :: pubkey
  cpf_vault_1_mint :: pubkey
  cpf_creator_token_0 :: pubkey
  cpf_creator_token_1 :: pubkey
  cpf_token_0_program :: pubkey
  cpf_token_1_program :: pubkey
  cpf_associated_token_program :: pubkey
  cpf_system_program :: pubkey
  cpf_creator_fee_share :: pubkey

record raydium_clmm_open_position_ext_event =
  clt_metadata :: event_metadata
  clt_pool :: pubkey
  clt_user :: pubkey
  clt_position_nft_mint :: pubkey
  clt_tick_lower_index :: int
  clt_tick_upper_index :: int
  clt_liquidity :: u128

record raydium_clmm_liquidity_change_event =
  clq_metadata :: event_metadata
  clq_pool_state :: pubkey
  clq_tick :: int
  clq_tick_lower :: int
  clq_tick_upper :: int
  clq_liquidity_before :: u128
  clq_liquidity_after :: u128

record raydium_clmm_config_change_event =
  clg_metadata :: event_metadata
  clg_index :: u16
  clg_owner :: pubkey
  clg_protocol_fee_rate :: u32
  clg_trade_fee_rate :: u32
  clg_tick_spacing :: u16
  clg_fund_fee_rate :: u32
  clg_fund_owner :: pubkey

record raydium_clmm_create_personal_position_event =
  clp_metadata :: event_metadata
  clp_pool_state :: pubkey
  clp_minter :: pubkey
  clp_nft_owner :: pubkey
  clp_tick_lower_index :: int
  clp_tick_upper_index :: int
  clp_liquidity :: u128
  clp_deposit_amount_0 :: u64
  clp_deposit_amount_1 :: u64
  clp_deposit_amount_0_transfer_fee :: u64
  clp_deposit_amount_1_transfer_fee :: u64

record raydium_clmm_liquidity_calculate_event =
  clk_metadata :: event_metadata
  clk_pool_liquidity :: u128
  clk_pool_sqrt_price_x64 :: u128
  clk_pool_tick :: int
  clk_calc_amount_0 :: u64
  clk_calc_amount_1 :: u64
  clk_trade_fee_owed_0 :: u64
  clk_trade_fee_owed_1 :: u64
  clk_transfer_fee_0 :: u64
  clk_transfer_fee_1 :: u64

record raydium_clmm_open_limit_order_event =
  clol_metadata :: event_metadata
  clol_pool_id :: pubkey
  clol_limit_order :: pubkey
  clol_zero_for_one :: bool
  clol_tick_index :: int
  clol_total_amount :: u64
  clol_transfer_fee :: u64

record raydium_clmm_increase_limit_order_event =
  clil_metadata :: event_metadata
  clil_pool_id :: pubkey
  clil_limit_order :: pubkey
  clil_zero_for_one :: bool
  clil_tick_index :: int
  clil_total_amount :: u64
  clil_increased_amount :: u64
  clil_transfer_fee :: u64

record raydium_clmm_decrease_limit_order_event =
  cldl_metadata :: event_metadata
  cldl_pool_id :: pubkey
  cldl_limit_order :: pubkey
  cldl_zero_for_one :: bool
  cldl_tick_index :: int
  cldl_total_amount :: u64
  cldl_filled_amount :: u64
  cldl_settled_output_amount :: u64
  cldl_decreased_amount :: u64

record raydium_clmm_settle_limit_order_event =
  clsl_metadata :: event_metadata
  clsl_pool_id :: pubkey
  clsl_limit_order :: pubkey
  clsl_zero_for_one :: bool
  clsl_tick_index :: int
  clsl_total_amount :: u64
  clsl_filled_amount :: u64
  clsl_settled_amount_out :: u64

record raydium_clmm_update_reward_infos_event =
  clr_metadata :: event_metadata
  clr_reward_growth_global_x64 :: "u128 list"

record raydium_clmm_collect_fee_event =
  clf_metadata :: event_metadata
  clf_pool_state :: pubkey
  clf_position_nft_mint :: pubkey
  clf_recipient_token_account_0 :: pubkey
  clf_recipient_token_account_1 :: pubkey
  clf_amount_0 :: u64
  clf_amount_1 :: u64

record raydium_amm_v4_initialize2_event =
  avi_metadata :: event_metadata
  avi_nonce :: u8
  avi_open_time :: u64
  avi_init_pc_amount :: u64
  avi_init_coin_amount :: u64
  avi_token_program :: pubkey
  avi_spl_associated_token_account :: pubkey
  avi_system_program :: pubkey
  avi_rent :: pubkey
  avi_amm :: pubkey
  avi_amm_authority :: pubkey
  avi_amm_open_orders :: pubkey
  avi_lp_mint :: pubkey
  avi_coin_mint :: pubkey
  avi_pc_mint :: pubkey
  avi_pool_coin_token_account :: pubkey
  avi_pool_pc_token_account :: pubkey
  avi_pool_withdraw_queue :: pubkey
  avi_amm_target_orders :: pubkey
  avi_pool_temp_lp :: pubkey
  avi_serum_program :: pubkey
  avi_serum_market :: pubkey
  avi_user_wallet :: pubkey
  avi_user_token_coin :: pubkey
  avi_user_token_pc :: pubkey
  avi_user_lp_token_account :: pubkey

record raydium_amm_v4_withdraw_pnl_event =
  avp_metadata :: event_metadata
  avp_token_program :: pubkey
  avp_amm :: pubkey
  avp_amm_config :: pubkey
  avp_amm_authority :: pubkey
  avp_amm_open_orders :: pubkey
  avp_pool_coin_token_account :: pubkey
  avp_pool_pc_token_account :: pubkey
  avp_coin_pnl_token_account :: pubkey
  avp_pc_pnl_token_account :: pubkey
  avp_pnl_owner :: pubkey
  avp_amm_target_orders :: pubkey
  avp_serum_program :: pubkey
  avp_serum_market :: pubkey
  avp_serum_event_queue :: pubkey
  avp_serum_coin_vault_account :: pubkey
  avp_serum_pc_vault_account :: pubkey
  avp_serum_vault_signer :: pubkey

record orca_pool_initialized_event =
  owp_metadata :: event_metadata
  owp_whirlpool :: pubkey
  owp_whirlpools_config :: pubkey
  owp_token_mint_a :: pubkey
  owp_token_mint_b :: pubkey
  owp_tick_spacing :: u16
  owp_token_program_a :: pubkey
  owp_token_program_b :: pubkey
  owp_decimals_a :: u8
  owp_decimals_b :: u8
  owp_initial_sqrt_price :: u128

record meteora_damm_v2_swap_event =
  dvs_third_program :: "raw_instruction_payload option"
  dvs_metadata :: event_metadata
  dvs_pool :: pubkey
  dvs_amount_in :: u64
  dvs_output_amount :: u64
  dvs_trade_direction :: u8
  dvs_has_referral :: bool
  dvs_minimum_amount_out :: u64
  dvs_next_sqrt_price :: u128
  dvs_lp_fee :: u64
  dvs_protocol_fee :: u64
  dvs_partner_fee :: u64
  dvs_referral_fee :: u64
  dvs_actual_amount_in :: u64
  dvs_current_timestamp :: u64
  dvs_token_a_vault :: pubkey
  dvs_token_b_vault :: pubkey
  dvs_token_a_mint :: pubkey
  dvs_token_b_mint :: pubkey
  dvs_token_a_program :: pubkey
  dvs_token_b_program :: pubkey

record meteora_damm_v2_create_position_event =
  dvc_metadata :: event_metadata
  dvc_pool :: pubkey
  dvc_owner :: pubkey
  dvc_position :: pubkey
  dvc_position_nft_mint :: pubkey

record meteora_damm_v2_close_position_event =
  dvx_metadata :: event_metadata
  dvx_pool :: pubkey
  dvx_owner :: pubkey
  dvx_position :: pubkey
  dvx_position_nft_mint :: pubkey

record meteora_damm_v2_add_liquidity_event =
  dva_metadata :: event_metadata
  dva_pool :: pubkey
  dva_position :: pubkey
  dva_owner :: pubkey
  dva_token_a_amount :: u64
  dva_token_b_amount :: u64
  dva_liquidity_delta :: u128
  dva_token_a_amount_threshold :: u64
  dva_token_b_amount_threshold :: u64
  dva_total_amount_a :: u64
  dva_total_amount_b :: u64

record meteora_damm_v2_remove_liquidity_event =
  dvr_metadata :: event_metadata
  dvr_pool :: pubkey
  dvr_position :: pubkey
  dvr_owner :: pubkey
  dvr_token_a_amount :: u64
  dvr_token_b_amount :: u64
  dvr_liquidity_delta :: u128
  dvr_token_a_amount_threshold :: u64
  dvr_token_b_amount_threshold :: u64

record meteora_damm_v2_claim_position_fee_event =
  dvf_metadata :: event_metadata
  dvf_pool :: pubkey
  dvf_position :: pubkey
  dvf_owner :: pubkey
  dvf_fee_a_claimed :: u64
  dvf_fee_b_claimed :: u64

record meteora_damm_v2_initialize_reward_event =
  dvw_metadata :: event_metadata
  dvw_pool :: pubkey
  dvw_reward_mint :: pubkey
  dvw_funder :: pubkey
  dvw_creator :: pubkey
  dvw_reward_index :: u8
  dvw_reward_duration :: u64

record meteora_damm_v2_fund_reward_event =
  dvd_metadata :: event_metadata
  dvd_pool :: pubkey
  dvd_funder :: pubkey
  dvd_mint_reward :: pubkey
  dvd_reward_index :: u8
  dvd_amount :: u64
  dvd_transfer_fee_excluded_amount_in :: u64
  dvd_reward_duration_end :: u64
  dvd_pre_reward_rate :: u128
  dvd_post_reward_rate :: u128

record meteora_damm_v2_claim_reward_event =
  dvm_metadata :: event_metadata
  dvm_pool :: pubkey
  dvm_position :: pubkey
  dvm_owner :: pubkey
  dvm_mint_reward :: pubkey
  dvm_reward_index :: u8
  dvm_total_reward :: u64

record meteora_dbc_swap_event =
  dbs_third_program :: "raw_instruction_payload option"
  dbs_event_version :: u8
  dbs_swap_mode :: u8
  dbs_amount_0 :: u64
  dbs_amount_1 :: u64
  dbs_maximum_amount_in :: u64
  dbs_included_fee_input_amount :: u64
  dbs_amount_left :: u64
  dbs_quote_reserve_amount :: u64
  dbs_migration_threshold :: u64
  dbs_has_transfer_hook :: bool
  dbs_metadata :: event_metadata
  dbs_pool :: pubkey
  dbs_config :: pubkey
  dbs_trade_direction :: u8
  dbs_has_referral :: bool
  dbs_amount_in :: u64
  dbs_minimum_amount_out :: u64
  dbs_actual_input_amount :: u64
  dbs_output_amount :: u64
  dbs_next_sqrt_price :: u128
  dbs_trading_fee :: u64
  dbs_protocol_fee :: u64
  dbs_referral_fee :: u64
  dbs_current_timestamp :: u64

record meteora_dbc_initialize_pool_event =
  dbi_metadata :: event_metadata
  dbi_pool :: pubkey
  dbi_config :: pubkey
  dbi_creator :: pubkey
  dbi_base_mint :: pubkey
  dbi_pool_type :: u8
  dbi_activation_point :: u64

record meteora_dbc_curve_complete_event =
  dbc_metadata :: event_metadata
  dbc_pool :: pubkey
  dbc_config :: pubkey
  dbc_base_reserve :: u64
  dbc_quote_reserve :: u64

record meteora_dlmm_add_liquidity_event =
  dla_metadata :: event_metadata
  dla_pool :: pubkey
  dla_from :: pubkey
  dla_position :: pubkey
  dla_amounts :: "u64 list"
  dla_active_bin_id :: int

record meteora_dlmm_remove_liquidity_event =
  dlr_metadata :: event_metadata
  dlr_pool :: pubkey
  dlr_from :: pubkey
  dlr_position :: pubkey
  dlr_amounts :: "u64 list"
  dlr_active_bin_id :: int

record meteora_dlmm_initialize_bin_array_event =
  dlb_metadata :: event_metadata
  dlb_pool :: pubkey
  dlb_bin_array :: pubkey
  dlb_index :: int

record meteora_dlmm_claim_fee_event =
  dlf_metadata :: event_metadata
  dlf_pool :: pubkey
  dlf_position :: pubkey
  dlf_owner :: pubkey
  dlf_fee_x :: u64
  dlf_fee_y :: u64

record cpmm_lp_change_event =
  lp_metadata :: event_metadata
  lp_pool_id :: pubkey
  lp_lp_amount_before :: u64
  lp_token_0_vault_before :: u64
  lp_token_1_vault_before :: u64
  lp_token_0_amount :: u64
  lp_token_1_amount :: u64
  lp_token_0_transfer_fee :: u64
  lp_token_1_transfer_fee :: u64
  lp_change_type :: u8

record fees_create_sharing_event =
  pfc_metadata :: event_metadata
  pfc_timestamp :: int
  pfc_mint :: pubkey
  pfc_bonding_curve :: pubkey
  pfc_pool :: "pubkey option"
  pfc_sharing_config :: pubkey
  pfc_admin :: pubkey
  pfc_initial_shareholders :: "pump_fees_shareholder list"
  pfc_status :: fees_config_status

record fees_initialize_config_event =
  pfi_metadata :: event_metadata
  pfi_timestamp :: int
  pfi_admin :: pubkey
  pfi_fee_config :: pubkey

record fees_reset_sharing_event =
  pfr_metadata :: event_metadata
  pfr_timestamp :: int
  pfr_mint :: pubkey
  pfr_sharing_config :: pubkey
  pfr_old_admin :: pubkey
  pfr_old_shareholders :: "pump_fees_shareholder list"
  pfr_new_admin :: pubkey
  pfr_new_shareholders :: "pump_fees_shareholder list"

record fees_revoke_sharing_event =
  pfv_metadata :: event_metadata
  pfv_timestamp :: int
  pfv_mint :: pubkey
  pfv_sharing_config :: pubkey
  pfv_admin :: pubkey

record fees_transfer_sharing_event =
  pft_metadata :: event_metadata
  pft_timestamp :: int
  pft_mint :: pubkey
  pft_sharing_config :: pubkey
  pft_old_admin :: pubkey
  pft_new_admin :: pubkey

record fees_update_admin_event =
  pfa_metadata :: event_metadata
  pfa_timestamp :: int
  pfa_old_admin :: pubkey
  pfa_new_admin :: pubkey

record fees_update_config_event =
  pfg_metadata :: event_metadata
  pfg_timestamp :: int
  pfg_admin :: pubkey
  pfg_fee_config :: pubkey
  pfg_fee_tiers :: "fees_tier list"
  pfg_flat_fees :: fees_rates

record fees_update_shares_event =
  pfs_metadata :: event_metadata
  pfs_timestamp :: int
  pfs_mint :: pubkey
  pfs_sharing_config :: pubkey
  pfs_admin :: pubkey
  pfs_bonding_curve :: pubkey
  pfs_pump_creator_vault :: pubkey
  pfs_new_shareholders :: "pump_fees_shareholder list"

record fees_upsert_tiers_event =
  pfu_metadata :: event_metadata
  pfu_timestamp :: int
  pfu_admin :: pubkey
  pfu_fee_config :: pubkey
  pfu_fee_tiers :: "fees_tier list"
  pfu_offset :: u8

end
