(* ===== verification/Event_Types.thy ===== *)
theory Event_Types
  imports Pump_Swap_Payloads Swap_Payloads Meteora_Payloads Liquidity_Payloads Venue_Payloads
begin

text \<open>
  The event vocabulary (\<open>EventType\<close> and \<open>event_type_from_dex_event\<close> of \<open>src/grpc/types.rs\<close>, \<open>DexEvent\<close>
  with its metadata accessors of \<open>src/core/events/enum_impl.rs\<close>). The two enumerations have more than
  a hundred variants each; they are grouped by protocol here, one datatype per protocol and one for the
  account events, with the source's variant names (those of \<open>DexEvent\<close> end in \<open>_Event\<close>). The
  Pump.fun trade, create and migration payloads, the token-account payloads and the payloads that are
  merged or filled field by field are the full structs (Event_Payloads, Pump_Swap_Payloads, Swap_Payloads,
  Meteora_Payloads, Liquidity_Payloads, Venue_Payloads); the other payloads are kept as their metadata and a
  type parameter for the other fields, except for the fields that this development's functions read.
\<close>

section \<open>Event types\<close>

datatype pump_fun_type =
  PumpFunTrade
| PumpFunBuy
| PumpFunSell
| PumpFunBuyExactSolIn
| PumpFunCreate
| PumpFunCreateV2
| PumpFunComplete
| PumpFunMigrate
| PumpFunMigrateBondingCurveCreator
| PumpFunPostCompleteBuy
| PumpFunSweepBondingCurveFee

datatype pump_fees_type =
  PumpFeesCreateFeeSharingConfig
| PumpFeesInitializeFeeConfig
| PumpFeesResetFeeSharingConfig
| PumpFeesRevokeFeeSharingAuthority
| PumpFeesTransferFeeSharingAuthority
| PumpFeesUpdateAdmin
| PumpFeesUpdateFeeConfig
| PumpFeesUpdateFeeShares
| PumpFeesUpsertFeeTiers

datatype pump_swap_type =
  PumpSwapTrade
| PumpSwapBuy
| PumpSwapSell
| PumpSwapCreatePool
| PumpSwapLiquidityAdded
| PumpSwapLiquidityRemoved
| PumpSwapSweepPoolFee

datatype raydium_launchlab_type =
  RaydiumLaunchlabTrade
| RaydiumLaunchlabPoolCreate
| RaydiumLaunchlabMigrateAmm

datatype raydium_cpmm_type =
  RaydiumCpmmSwap
| RaydiumCpmmDeposit
| RaydiumCpmmWithdraw
| RaydiumCpmmInitialize
| RaydiumCpmmCollectCreatorFee

datatype raydium_clmm_type =
  RaydiumClmmSwap
| RaydiumClmmCreatePool
| RaydiumClmmOpenPosition
| RaydiumClmmClosePosition
| RaydiumClmmIncreaseLiquidity
| RaydiumClmmDecreaseLiquidity
| RaydiumClmmLiquidityChange
| RaydiumClmmConfigChange
| RaydiumClmmCreatePersonalPosition
| RaydiumClmmLiquidityCalculate
| RaydiumClmmOpenLimitOrder
| RaydiumClmmIncreaseLimitOrder
| RaydiumClmmDecreaseLimitOrder
| RaydiumClmmSettleLimitOrder
| RaydiumClmmUpdateRewardInfos
| RaydiumClmmOpenPositionWithTokenExtNft
| RaydiumClmmCollectFee

datatype raydium_amm_v4_type =
  RaydiumAmmV4Swap
| RaydiumAmmV4Deposit
| RaydiumAmmV4Withdraw
| RaydiumAmmV4Initialize2
| RaydiumAmmV4WithdrawPnl

datatype orca_whirlpool_type =
  OrcaWhirlpoolSwap
| OrcaWhirlpoolLiquidityIncreased
| OrcaWhirlpoolLiquidityDecreased
| OrcaWhirlpoolPoolInitialized

datatype meteora_pools_type =
  MeteoraPoolsSwap
| MeteoraPoolsAddLiquidity
| MeteoraPoolsRemoveLiquidity
| MeteoraPoolsBootstrapLiquidity
| MeteoraPoolsPoolCreated
| MeteoraPoolsSetPoolFees

datatype meteora_damm_v2_type =
  MeteoraDammV2Swap
| MeteoraDammV2AddLiquidity
| MeteoraDammV2RemoveLiquidity
| MeteoraDammV2InitializePool
| MeteoraDammV2CreatePosition
| MeteoraDammV2ClosePosition
| MeteoraDammV2ClaimPositionFee
| MeteoraDammV2InitializeReward
| MeteoraDammV2FundReward
| MeteoraDammV2ClaimReward

datatype meteora_dbc_type =
  MeteoraDbcSwap
| MeteoraDbcInitializePool
| MeteoraDbcCurveComplete

datatype meteora_dlmm_type =
  MeteoraDlmmSwap
| MeteoraDlmmAddLiquidity
| MeteoraDlmmRemoveLiquidity
| MeteoraDlmmInitializePool
| MeteoraDlmmInitializeBinArray
| MeteoraDlmmCreatePosition
| MeteoraDlmmClosePosition
| MeteoraDlmmClaimFee

datatype account_type =
  AccountRaydiumCpmmCreatorFeeShare
| TokenAccount
| TokenInfo
| NonceAccount
| AccountPumpFunGlobal
| AccountPumpFunBondingCurve
| AccountPumpFunFeeConfig
| AccountPumpFunSharingConfig
| AccountPumpFunGlobalVolumeAccumulator
| AccountPumpFunUserVolumeAccumulator
| AccountPumpSwapGlobalConfig
| AccountPumpSwapPool
| AccountRaydiumClmmAmmConfig
| AccountRaydiumClmmPoolState
| AccountRaydiumClmmTickArrayState
| AccountRaydiumCpmmAmmConfig
| AccountRaydiumCpmmPoolState
| AccountOrcaWhirlpool
| AccountOrcaPosition
| AccountOrcaTickArray
| AccountOrcaFeeTier
| AccountOrcaWhirlpoolsConfig

datatype event_type =
  BlockMeta
| Pump_Fun pump_fun_type
| Pump_Fees pump_fees_type
| Pump_Swap pump_swap_type
| Raydium_Launchlab raydium_launchlab_type
| Raydium_Cpmm raydium_cpmm_type
| Raydium_Clmm raydium_clmm_type
| Raydium_Amm_V4 raydium_amm_v4_type
| Orca_Whirlpool orca_whirlpool_type
| Meteora_Pools meteora_pools_type
| Meteora_Damm_V2 meteora_damm_v2_type
| Meteora_Dbc meteora_dbc_type
| Meteora_Dlmm meteora_dlmm_type
| Account account_type

section \<open>Events\<close>

text \<open>A payload whose other fields are not read: its metadata and the rest.\<close>

record 'p payload =
  pl_metadata :: event_metadata
  pl_fields :: 'p

text \<open>The LaunchLab migration, read by the registry.\<close>

record launchlab_migrate_amm_event =
  ma_metadata :: event_metadata
  ma_old_pool :: pubkey
  ma_new_pool :: pubkey
  ma_user :: pubkey
  ma_liquidity_amount :: u64
  ma_liquidity_amount_known :: bool
  ma_base_mint :: pubkey
  ma_quote_mint :: pubkey
  ma_platform_config :: pubkey
  ma_destination_program :: pubkey

datatype 'p pump_fun_event =
  PumpFunCreate_Event pumpfun_create_event
| PumpFunCreateV2_Event pumpfun_create_v2_event
| PumpFunTrade_Event pumpfun_trade_event
| PumpFunBuy_Event pumpfun_trade_event
| PumpFunSell_Event pumpfun_trade_event
| PumpFunBuyExactSolIn_Event pumpfun_trade_event
| PumpFunMigrate_Event pumpfun_migrate_event
| PumpFunMigrateBondingCurveCreator_Event pumpfun_migrate_creator_event
| PumpFunPostCompleteBuy_Event "'p payload"
| PumpFunSweepBondingCurveFee_Event "'p payload"
| PumpFunComplete_Event "'p payload"

datatype pump_fees_event =
  PumpFeesCreateFeeSharingConfig_Event fees_create_sharing_event
| PumpFeesInitializeFeeConfig_Event fees_initialize_config_event
| PumpFeesResetFeeSharingConfig_Event fees_reset_sharing_event
| PumpFeesRevokeFeeSharingAuthority_Event fees_revoke_sharing_event
| PumpFeesTransferFeeSharingAuthority_Event fees_transfer_sharing_event
| PumpFeesUpdateAdmin_Event fees_update_admin_event
| PumpFeesUpdateFeeConfig_Event fees_update_config_event
| PumpFeesUpdateFeeShares_Event fees_update_shares_event
| PumpFeesUpsertFeeTiers_Event fees_upsert_tiers_event

datatype 'p pump_swap_event =
  PumpSwapTrade_Event pumpswap_trade_event
| PumpSwapBuy_Event pumpswap_buy_event
| PumpSwapSell_Event pumpswap_sell_event
| PumpSwapCreatePool_Event pumpswap_create_pool_event
| PumpSwapLiquidityAdded_Event pumpswap_liquidity_added
| PumpSwapLiquidityRemoved_Event pumpswap_liquidity_removed
| PumpSwapSweepPoolFee_Event "'p payload"

datatype raydium_launchlab_event =
  RaydiumLaunchlabTrade_Event launchlab_trade_event
| RaydiumLaunchlabPoolCreate_Event launchlab_pool_create_event
| RaydiumLaunchlabMigrateAmm_Event "launchlab_migrate_amm_event"

datatype raydium_cpmm_event =
  RaydiumCpmmSwap_Event raydium_cpmm_swap_event
| RaydiumCpmmDeposit_Event raydium_cpmm_deposit_event
| RaydiumCpmmLpChange_Event cpmm_lp_change_event
| RaydiumCpmmWithdraw_Event raydium_cpmm_withdraw_event
| RaydiumCpmmInitialize_Event raydium_cpmm_initialize_event
| RaydiumCpmmCollectCreatorFee_Event raydium_cpmm_collect_creator_fee_event

datatype raydium_clmm_event =
  RaydiumClmmSwap_Event raydium_clmm_swap_event
| RaydiumClmmCreatePool_Event raydium_clmm_create_pool_event
| RaydiumClmmOpenPosition_Event raydium_clmm_open_position_event
| RaydiumClmmOpenPositionWithTokenExtNft_Event raydium_clmm_open_position_ext_event
| RaydiumClmmClosePosition_Event raydium_clmm_close_position_event
| RaydiumClmmIncreaseLiquidity_Event raydium_clmm_increase_liquidity_event
| RaydiumClmmDecreaseLiquidity_Event raydium_clmm_decrease_liquidity_event
| RaydiumClmmLiquidityChange_Event raydium_clmm_liquidity_change_event
| RaydiumClmmConfigChange_Event raydium_clmm_config_change_event
| RaydiumClmmCreatePersonalPosition_Event raydium_clmm_create_personal_position_event
| RaydiumClmmLiquidityCalculate_Event raydium_clmm_liquidity_calculate_event
| RaydiumClmmOpenLimitOrder_Event raydium_clmm_open_limit_order_event
| RaydiumClmmIncreaseLimitOrder_Event raydium_clmm_increase_limit_order_event
| RaydiumClmmDecreaseLimitOrder_Event raydium_clmm_decrease_limit_order_event
| RaydiumClmmSettleLimitOrder_Event raydium_clmm_settle_limit_order_event
| RaydiumClmmUpdateRewardInfos_Event raydium_clmm_update_reward_infos_event
| RaydiumClmmCollectFee_Event raydium_clmm_collect_fee_event

datatype raydium_amm_v4_event =
  RaydiumAmmV4Swap_Event raydium_amm_v4_swap_event
| RaydiumAmmV4Deposit_Event raydium_amm_v4_deposit_event
| RaydiumAmmV4Initialize2_Event raydium_amm_v4_initialize2_event
| RaydiumAmmV4Withdraw_Event raydium_amm_v4_withdraw_event
| RaydiumAmmV4WithdrawPnl_Event raydium_amm_v4_withdraw_pnl_event

datatype orca_whirlpool_event =
  OrcaWhirlpoolSwap_Event orca_whirlpool_swap_event
| OrcaWhirlpoolLiquidityIncreased_Event orca_liquidity_increased_event
| OrcaWhirlpoolLiquidityDecreased_Event orca_liquidity_decreased_event
| OrcaWhirlpoolPoolInitialized_Event orca_pool_initialized_event

datatype meteora_pools_event =
  MeteoraPoolsSwap_Event meteora_pools_swap_event
| MeteoraPoolsAddLiquidity_Event meteora_pools_add_liquidity_event
| MeteoraPoolsRemoveLiquidity_Event meteora_pools_remove_liquidity_event
| MeteoraPoolsBootstrapLiquidity_Event meteora_pools_bootstrap_liquidity_event
| MeteoraPoolsPoolCreated_Event meteora_pools_pool_created_event
| MeteoraPoolsSetPoolFees_Event meteora_pools_set_pool_fees_event

datatype meteora_damm_v2_event =
  MeteoraDammV2Swap_Event meteora_damm_v2_swap_event
| MeteoraDammV2CreatePosition_Event meteora_damm_v2_create_position_event
| MeteoraDammV2ClosePosition_Event meteora_damm_v2_close_position_event
| MeteoraDammV2AddLiquidity_Event meteora_damm_v2_add_liquidity_event
| MeteoraDammV2RemoveLiquidity_Event meteora_damm_v2_remove_liquidity_event
| MeteoraDammV2InitializePool_Event meteora_damm_v2_initialize_pool_event
| MeteoraDammV2ClaimPositionFee_Event meteora_damm_v2_claim_position_fee_event
| MeteoraDammV2InitializeReward_Event meteora_damm_v2_initialize_reward_event
| MeteoraDammV2FundReward_Event meteora_damm_v2_fund_reward_event
| MeteoraDammV2ClaimReward_Event meteora_damm_v2_claim_reward_event

datatype meteora_dbc_event =
  MeteoraDbcSwap_Event meteora_dbc_swap_event
| MeteoraDbcInitializePool_Event meteora_dbc_initialize_pool_event
| MeteoraDbcCurveComplete_Event meteora_dbc_curve_complete_event

datatype meteora_dlmm_event =
  MeteoraDlmmSwap_Event meteora_dlmm_swap_event
| MeteoraDlmmAddLiquidity_Event meteora_dlmm_add_liquidity_event
| MeteoraDlmmRemoveLiquidity_Event meteora_dlmm_remove_liquidity_event
| MeteoraDlmmInitializePool_Event meteora_dlmm_initialize_pool_event
| MeteoraDlmmInitializeBinArray_Event meteora_dlmm_initialize_bin_array_event
| MeteoraDlmmCreatePosition_Event meteora_dlmm_create_position_event
| MeteoraDlmmClosePosition_Event meteora_dlmm_close_position_event
| MeteoraDlmmClaimFee_Event meteora_dlmm_claim_fee_event

datatype 'p account_event =
  PumpFunGlobalAccount_Event "'p payload"
| PumpFunBondingCurveAccount_Event "'p payload"
| PumpFunFeeConfigAccount_Event "'p payload"
| PumpFunSharingConfigAccount_Event "'p payload"
| PumpFunGlobalVolumeAccumulatorAccount_Event "'p payload"
| PumpFunUserVolumeAccumulatorAccount_Event "'p payload"
| RaydiumClmmAmmConfigAccount_Event "'p payload"
| RaydiumClmmPoolStateAccount_Event "'p payload"
| RaydiumClmmTickArrayStateAccount_Event "'p payload"
| RaydiumCpmmCreatorFeeShareAccount_Event "'p payload"
| RaydiumCpmmAmmConfigAccount_Event "'p payload"
| RaydiumCpmmPoolStateAccount_Event "'p payload"
| OrcaWhirlpoolAccount_Event "'p payload"
| OrcaPositionAccount_Event "'p payload"
| OrcaTickArrayAccount_Event "'p payload"
| OrcaFeeTierAccount_Event "'p payload"
| OrcaWhirlpoolsConfigAccount_Event "'p payload"
| TokenInfo_Event token_info_event
| TokenAccount_Event token_account_event
| NonceAccount_Event nonce_account_event
| PumpSwapGlobalConfigAccount_Event "'p payload"
| PumpSwapPoolAccount_Event "'p payload"

datatype 'p dex_event =
  BlockMeta_Event "'p payload"
| Error_Event string
| Pump_Fun_Event "'p pump_fun_event"
| Pump_Fees_Event pump_fees_event
| Pump_Swap_Event "'p pump_swap_event"
| Raydium_Launchlab_Event raydium_launchlab_event
| Raydium_Cpmm_Event raydium_cpmm_event
| Raydium_Clmm_Event "raydium_clmm_event"
| Raydium_Amm_V4_Event "raydium_amm_v4_event"
| Orca_Whirlpool_Event "orca_whirlpool_event"
| Meteora_Pools_Event meteora_pools_event
| Meteora_Damm_V2_Event "meteora_damm_v2_event"
| Meteora_Dbc_Event "meteora_dbc_event"
| Meteora_Dlmm_Event "meteora_dlmm_event"
| Account_Event "'p account_event"

section \<open>The type of an event\<close>

fun pump_fun_type_of :: "'p pump_fun_event \<Rightarrow> pump_fun_type" where
  "pump_fun_type_of (PumpFunCreate_Event e) = PumpFunCreate"
| "pump_fun_type_of (PumpFunCreateV2_Event e) = PumpFunCreateV2"
| "pump_fun_type_of (PumpFunTrade_Event e) = PumpFunTrade"
| "pump_fun_type_of (PumpFunBuy_Event e) = PumpFunBuy"
| "pump_fun_type_of (PumpFunSell_Event e) = PumpFunSell"
| "pump_fun_type_of (PumpFunBuyExactSolIn_Event e) = PumpFunBuyExactSolIn"
| "pump_fun_type_of (PumpFunMigrate_Event e) = PumpFunMigrate"
| "pump_fun_type_of (PumpFunMigrateBondingCurveCreator_Event e) = PumpFunMigrateBondingCurveCreator"
| "pump_fun_type_of (PumpFunPostCompleteBuy_Event e) = PumpFunPostCompleteBuy"
| "pump_fun_type_of (PumpFunSweepBondingCurveFee_Event e) = PumpFunSweepBondingCurveFee"
| "pump_fun_type_of (PumpFunComplete_Event e) = PumpFunComplete"

fun pump_fees_type_of :: "pump_fees_event \<Rightarrow> pump_fees_type" where
  "pump_fees_type_of (PumpFeesCreateFeeSharingConfig_Event e) = PumpFeesCreateFeeSharingConfig"
| "pump_fees_type_of (PumpFeesInitializeFeeConfig_Event e) = PumpFeesInitializeFeeConfig"
| "pump_fees_type_of (PumpFeesResetFeeSharingConfig_Event e) = PumpFeesResetFeeSharingConfig"
| "pump_fees_type_of (PumpFeesRevokeFeeSharingAuthority_Event e) = PumpFeesRevokeFeeSharingAuthority"
| "pump_fees_type_of (PumpFeesTransferFeeSharingAuthority_Event e) = PumpFeesTransferFeeSharingAuthority"
| "pump_fees_type_of (PumpFeesUpdateAdmin_Event e) = PumpFeesUpdateAdmin"
| "pump_fees_type_of (PumpFeesUpdateFeeConfig_Event e) = PumpFeesUpdateFeeConfig"
| "pump_fees_type_of (PumpFeesUpdateFeeShares_Event e) = PumpFeesUpdateFeeShares"
| "pump_fees_type_of (PumpFeesUpsertFeeTiers_Event e) = PumpFeesUpsertFeeTiers"

fun pump_swap_type_of :: "'p pump_swap_event \<Rightarrow> pump_swap_type" where
  "pump_swap_type_of (PumpSwapTrade_Event e) = PumpSwapTrade"
| "pump_swap_type_of (PumpSwapBuy_Event e) = PumpSwapBuy"
| "pump_swap_type_of (PumpSwapSell_Event e) = PumpSwapSell"
| "pump_swap_type_of (PumpSwapCreatePool_Event e) = PumpSwapCreatePool"
| "pump_swap_type_of (PumpSwapLiquidityAdded_Event e) = PumpSwapLiquidityAdded"
| "pump_swap_type_of (PumpSwapLiquidityRemoved_Event e) = PumpSwapLiquidityRemoved"
| "pump_swap_type_of (PumpSwapSweepPoolFee_Event e) = PumpSwapSweepPoolFee"

fun raydium_launchlab_type_of :: "raydium_launchlab_event \<Rightarrow> raydium_launchlab_type" where
  "raydium_launchlab_type_of (RaydiumLaunchlabTrade_Event e) = RaydiumLaunchlabTrade"
| "raydium_launchlab_type_of (RaydiumLaunchlabPoolCreate_Event e) = RaydiumLaunchlabPoolCreate"
| "raydium_launchlab_type_of (RaydiumLaunchlabMigrateAmm_Event e) = RaydiumLaunchlabMigrateAmm"

fun raydium_cpmm_type_of :: "raydium_cpmm_event \<Rightarrow> raydium_cpmm_type option" where
  "raydium_cpmm_type_of (RaydiumCpmmSwap_Event e) = Some RaydiumCpmmSwap"
| "raydium_cpmm_type_of (RaydiumCpmmDeposit_Event e) = Some RaydiumCpmmDeposit"
| "raydium_cpmm_type_of (RaydiumCpmmLpChange_Event e) =
     (if lp_change_type e = 0 then Some RaydiumCpmmDeposit
      else if lp_change_type e = 1 then Some RaydiumCpmmWithdraw else None)"
| "raydium_cpmm_type_of (RaydiumCpmmWithdraw_Event e) = Some RaydiumCpmmWithdraw"
| "raydium_cpmm_type_of (RaydiumCpmmInitialize_Event e) = Some RaydiumCpmmInitialize"
| "raydium_cpmm_type_of (RaydiumCpmmCollectCreatorFee_Event e) = Some RaydiumCpmmCollectCreatorFee"

fun raydium_clmm_type_of :: "raydium_clmm_event \<Rightarrow> raydium_clmm_type" where
  "raydium_clmm_type_of (RaydiumClmmSwap_Event e) = RaydiumClmmSwap"
| "raydium_clmm_type_of (RaydiumClmmCreatePool_Event e) = RaydiumClmmCreatePool"
| "raydium_clmm_type_of (RaydiumClmmOpenPosition_Event e) = RaydiumClmmOpenPosition"
| "raydium_clmm_type_of (RaydiumClmmOpenPositionWithTokenExtNft_Event e) = RaydiumClmmOpenPositionWithTokenExtNft"
| "raydium_clmm_type_of (RaydiumClmmClosePosition_Event e) = RaydiumClmmClosePosition"
| "raydium_clmm_type_of (RaydiumClmmIncreaseLiquidity_Event e) = RaydiumClmmIncreaseLiquidity"
| "raydium_clmm_type_of (RaydiumClmmDecreaseLiquidity_Event e) = RaydiumClmmDecreaseLiquidity"
| "raydium_clmm_type_of (RaydiumClmmLiquidityChange_Event e) = RaydiumClmmLiquidityChange"
| "raydium_clmm_type_of (RaydiumClmmConfigChange_Event e) = RaydiumClmmConfigChange"
| "raydium_clmm_type_of (RaydiumClmmCreatePersonalPosition_Event e) = RaydiumClmmCreatePersonalPosition"
| "raydium_clmm_type_of (RaydiumClmmLiquidityCalculate_Event e) = RaydiumClmmLiquidityCalculate"
| "raydium_clmm_type_of (RaydiumClmmOpenLimitOrder_Event e) = RaydiumClmmOpenLimitOrder"
| "raydium_clmm_type_of (RaydiumClmmIncreaseLimitOrder_Event e) = RaydiumClmmIncreaseLimitOrder"
| "raydium_clmm_type_of (RaydiumClmmDecreaseLimitOrder_Event e) = RaydiumClmmDecreaseLimitOrder"
| "raydium_clmm_type_of (RaydiumClmmSettleLimitOrder_Event e) = RaydiumClmmSettleLimitOrder"
| "raydium_clmm_type_of (RaydiumClmmUpdateRewardInfos_Event e) = RaydiumClmmUpdateRewardInfos"
| "raydium_clmm_type_of (RaydiumClmmCollectFee_Event e) = RaydiumClmmCollectFee"

fun raydium_amm_v4_type_of :: "raydium_amm_v4_event \<Rightarrow> raydium_amm_v4_type" where
  "raydium_amm_v4_type_of (RaydiumAmmV4Swap_Event e) = RaydiumAmmV4Swap"
| "raydium_amm_v4_type_of (RaydiumAmmV4Deposit_Event e) = RaydiumAmmV4Deposit"
| "raydium_amm_v4_type_of (RaydiumAmmV4Initialize2_Event e) = RaydiumAmmV4Initialize2"
| "raydium_amm_v4_type_of (RaydiumAmmV4Withdraw_Event e) = RaydiumAmmV4Withdraw"
| "raydium_amm_v4_type_of (RaydiumAmmV4WithdrawPnl_Event e) = RaydiumAmmV4WithdrawPnl"

fun orca_whirlpool_type_of :: "orca_whirlpool_event \<Rightarrow> orca_whirlpool_type" where
  "orca_whirlpool_type_of (OrcaWhirlpoolSwap_Event e) = OrcaWhirlpoolSwap"
| "orca_whirlpool_type_of (OrcaWhirlpoolLiquidityIncreased_Event e) = OrcaWhirlpoolLiquidityIncreased"
| "orca_whirlpool_type_of (OrcaWhirlpoolLiquidityDecreased_Event e) = OrcaWhirlpoolLiquidityDecreased"
| "orca_whirlpool_type_of (OrcaWhirlpoolPoolInitialized_Event e) = OrcaWhirlpoolPoolInitialized"

fun meteora_pools_type_of :: "meteora_pools_event \<Rightarrow> meteora_pools_type" where
  "meteora_pools_type_of (MeteoraPoolsSwap_Event e) = MeteoraPoolsSwap"
| "meteora_pools_type_of (MeteoraPoolsAddLiquidity_Event e) = MeteoraPoolsAddLiquidity"
| "meteora_pools_type_of (MeteoraPoolsRemoveLiquidity_Event e) = MeteoraPoolsRemoveLiquidity"
| "meteora_pools_type_of (MeteoraPoolsBootstrapLiquidity_Event e) = MeteoraPoolsBootstrapLiquidity"
| "meteora_pools_type_of (MeteoraPoolsPoolCreated_Event e) = MeteoraPoolsPoolCreated"
| "meteora_pools_type_of (MeteoraPoolsSetPoolFees_Event e) = MeteoraPoolsSetPoolFees"

fun meteora_damm_v2_type_of :: "meteora_damm_v2_event \<Rightarrow> meteora_damm_v2_type" where
  "meteora_damm_v2_type_of (MeteoraDammV2Swap_Event e) = MeteoraDammV2Swap"
| "meteora_damm_v2_type_of (MeteoraDammV2CreatePosition_Event e) = MeteoraDammV2CreatePosition"
| "meteora_damm_v2_type_of (MeteoraDammV2ClosePosition_Event e) = MeteoraDammV2ClosePosition"
| "meteora_damm_v2_type_of (MeteoraDammV2AddLiquidity_Event e) = MeteoraDammV2AddLiquidity"
| "meteora_damm_v2_type_of (MeteoraDammV2RemoveLiquidity_Event e) = MeteoraDammV2RemoveLiquidity"
| "meteora_damm_v2_type_of (MeteoraDammV2InitializePool_Event e) = MeteoraDammV2InitializePool"
| "meteora_damm_v2_type_of (MeteoraDammV2ClaimPositionFee_Event e) = MeteoraDammV2ClaimPositionFee"
| "meteora_damm_v2_type_of (MeteoraDammV2InitializeReward_Event e) = MeteoraDammV2InitializeReward"
| "meteora_damm_v2_type_of (MeteoraDammV2FundReward_Event e) = MeteoraDammV2FundReward"
| "meteora_damm_v2_type_of (MeteoraDammV2ClaimReward_Event e) = MeteoraDammV2ClaimReward"

fun meteora_dbc_type_of :: "meteora_dbc_event \<Rightarrow> meteora_dbc_type" where
  "meteora_dbc_type_of (MeteoraDbcSwap_Event e) = MeteoraDbcSwap"
| "meteora_dbc_type_of (MeteoraDbcInitializePool_Event e) = MeteoraDbcInitializePool"
| "meteora_dbc_type_of (MeteoraDbcCurveComplete_Event e) = MeteoraDbcCurveComplete"

fun meteora_dlmm_type_of :: "meteora_dlmm_event \<Rightarrow> meteora_dlmm_type" where
  "meteora_dlmm_type_of (MeteoraDlmmSwap_Event e) = MeteoraDlmmSwap"
| "meteora_dlmm_type_of (MeteoraDlmmAddLiquidity_Event e) = MeteoraDlmmAddLiquidity"
| "meteora_dlmm_type_of (MeteoraDlmmRemoveLiquidity_Event e) = MeteoraDlmmRemoveLiquidity"
| "meteora_dlmm_type_of (MeteoraDlmmInitializePool_Event e) = MeteoraDlmmInitializePool"
| "meteora_dlmm_type_of (MeteoraDlmmInitializeBinArray_Event e) = MeteoraDlmmInitializeBinArray"
| "meteora_dlmm_type_of (MeteoraDlmmCreatePosition_Event e) = MeteoraDlmmCreatePosition"
| "meteora_dlmm_type_of (MeteoraDlmmClosePosition_Event e) = MeteoraDlmmClosePosition"
| "meteora_dlmm_type_of (MeteoraDlmmClaimFee_Event e) = MeteoraDlmmClaimFee"

fun account_type_of :: "'p account_event \<Rightarrow> account_type" where
  "account_type_of (PumpFunGlobalAccount_Event e) = AccountPumpFunGlobal"
| "account_type_of (PumpFunBondingCurveAccount_Event e) = AccountPumpFunBondingCurve"
| "account_type_of (PumpFunFeeConfigAccount_Event e) = AccountPumpFunFeeConfig"
| "account_type_of (PumpFunSharingConfigAccount_Event e) = AccountPumpFunSharingConfig"
| "account_type_of (PumpFunGlobalVolumeAccumulatorAccount_Event e) = AccountPumpFunGlobalVolumeAccumulator"
| "account_type_of (PumpFunUserVolumeAccumulatorAccount_Event e) = AccountPumpFunUserVolumeAccumulator"
| "account_type_of (RaydiumClmmAmmConfigAccount_Event e) = AccountRaydiumClmmAmmConfig"
| "account_type_of (RaydiumClmmPoolStateAccount_Event e) = AccountRaydiumClmmPoolState"
| "account_type_of (RaydiumClmmTickArrayStateAccount_Event e) = AccountRaydiumClmmTickArrayState"
| "account_type_of (RaydiumCpmmCreatorFeeShareAccount_Event e) = AccountRaydiumCpmmCreatorFeeShare"
| "account_type_of (RaydiumCpmmAmmConfigAccount_Event e) = AccountRaydiumCpmmAmmConfig"
| "account_type_of (RaydiumCpmmPoolStateAccount_Event e) = AccountRaydiumCpmmPoolState"
| "account_type_of (OrcaWhirlpoolAccount_Event e) = AccountOrcaWhirlpool"
| "account_type_of (OrcaPositionAccount_Event e) = AccountOrcaPosition"
| "account_type_of (OrcaTickArrayAccount_Event e) = AccountOrcaTickArray"
| "account_type_of (OrcaFeeTierAccount_Event e) = AccountOrcaFeeTier"
| "account_type_of (OrcaWhirlpoolsConfigAccount_Event e) = AccountOrcaWhirlpoolsConfig"
| "account_type_of (TokenInfo_Event e) = TokenInfo"
| "account_type_of (TokenAccount_Event e) = TokenAccount"
| "account_type_of (NonceAccount_Event e) = NonceAccount"
| "account_type_of (PumpSwapGlobalConfigAccount_Event e) = AccountPumpSwapGlobalConfig"
| "account_type_of (PumpSwapPoolAccount_Event e) = AccountPumpSwapPool"

fun event_type_from_dex_event :: "'p dex_event \<Rightarrow> event_type option" where
  "event_type_from_dex_event (BlockMeta_Event e) = Some BlockMeta"
| "event_type_from_dex_event (Error_Event e) = None"
| "event_type_from_dex_event (Pump_Fun_Event e) = Some (Pump_Fun (pump_fun_type_of e))"
| "event_type_from_dex_event (Pump_Fees_Event e) = Some (Pump_Fees (pump_fees_type_of e))"
| "event_type_from_dex_event (Pump_Swap_Event e) = Some (Pump_Swap (pump_swap_type_of e))"
| "event_type_from_dex_event (Raydium_Launchlab_Event e) = Some (Raydium_Launchlab (raydium_launchlab_type_of e))"
| "event_type_from_dex_event (Raydium_Cpmm_Event e) = map_option Raydium_Cpmm (raydium_cpmm_type_of e)"
| "event_type_from_dex_event (Raydium_Clmm_Event e) = Some (Raydium_Clmm (raydium_clmm_type_of e))"
| "event_type_from_dex_event (Raydium_Amm_V4_Event e) = Some (Raydium_Amm_V4 (raydium_amm_v4_type_of e))"
| "event_type_from_dex_event (Orca_Whirlpool_Event e) = Some (Orca_Whirlpool (orca_whirlpool_type_of e))"
| "event_type_from_dex_event (Meteora_Pools_Event e) = Some (Meteora_Pools (meteora_pools_type_of e))"
| "event_type_from_dex_event (Meteora_Damm_V2_Event e) = Some (Meteora_Damm_V2 (meteora_damm_v2_type_of e))"
| "event_type_from_dex_event (Meteora_Dbc_Event e) = Some (Meteora_Dbc (meteora_dbc_type_of e))"
| "event_type_from_dex_event (Meteora_Dlmm_Event e) = Some (Meteora_Dlmm (meteora_dlmm_type_of e))"
| "event_type_from_dex_event (Account_Event e) = Some (Account (account_type_of e))"

section \<open>Metadata\<close>

fun pump_fun_metadata :: "'p pump_fun_event \<Rightarrow> event_metadata" where
  "pump_fun_metadata (PumpFunCreate_Event e) = pc_metadata e"
| "pump_fun_metadata (PumpFunCreateV2_Event e) = pv_metadata e"
| "pump_fun_metadata (PumpFunTrade_Event e) = pt_metadata e"
| "pump_fun_metadata (PumpFunBuy_Event e) = pt_metadata e"
| "pump_fun_metadata (PumpFunSell_Event e) = pt_metadata e"
| "pump_fun_metadata (PumpFunBuyExactSolIn_Event e) = pt_metadata e"
| "pump_fun_metadata (PumpFunMigrate_Event e) = pm_metadata e"
| "pump_fun_metadata (PumpFunMigrateBondingCurveCreator_Event e) = mc_metadata e"
| "pump_fun_metadata (PumpFunPostCompleteBuy_Event e) = pl_metadata e"
| "pump_fun_metadata (PumpFunSweepBondingCurveFee_Event e) = pl_metadata e"
| "pump_fun_metadata (PumpFunComplete_Event e) = pl_metadata e"

fun pump_fees_metadata :: "pump_fees_event \<Rightarrow> event_metadata" where
  "pump_fees_metadata (PumpFeesCreateFeeSharingConfig_Event e) = pfc_metadata e"
| "pump_fees_metadata (PumpFeesInitializeFeeConfig_Event e) = pfi_metadata e"
| "pump_fees_metadata (PumpFeesResetFeeSharingConfig_Event e) = pfr_metadata e"
| "pump_fees_metadata (PumpFeesRevokeFeeSharingAuthority_Event e) = pfv_metadata e"
| "pump_fees_metadata (PumpFeesTransferFeeSharingAuthority_Event e) = pft_metadata e"
| "pump_fees_metadata (PumpFeesUpdateAdmin_Event e) = pfa_metadata e"
| "pump_fees_metadata (PumpFeesUpdateFeeConfig_Event e) = pfg_metadata e"
| "pump_fees_metadata (PumpFeesUpdateFeeShares_Event e) = pfs_metadata e"
| "pump_fees_metadata (PumpFeesUpsertFeeTiers_Event e) = pfu_metadata e"

fun pump_swap_metadata :: "'p pump_swap_event \<Rightarrow> event_metadata" where
  "pump_swap_metadata (PumpSwapTrade_Event e) = swt_metadata e"
| "pump_swap_metadata (PumpSwapBuy_Event e) = swb_metadata e"
| "pump_swap_metadata (PumpSwapSell_Event e) = sws_metadata e"
| "pump_swap_metadata (PumpSwapCreatePool_Event e) = swp_metadata e"
| "pump_swap_metadata (PumpSwapLiquidityAdded_Event e) = swa_metadata e"
| "pump_swap_metadata (PumpSwapLiquidityRemoved_Event e) = swr_metadata e"
| "pump_swap_metadata (PumpSwapSweepPoolFee_Event e) = pl_metadata e"

fun raydium_launchlab_metadata :: "raydium_launchlab_event \<Rightarrow> event_metadata" where
  "raydium_launchlab_metadata (RaydiumLaunchlabTrade_Event e) = llt_metadata e"
| "raydium_launchlab_metadata (RaydiumLaunchlabPoolCreate_Event e) = llp_metadata e"
| "raydium_launchlab_metadata (RaydiumLaunchlabMigrateAmm_Event e) = ma_metadata e"

fun raydium_cpmm_metadata :: "raydium_cpmm_event \<Rightarrow> event_metadata" where
  "raydium_cpmm_metadata (RaydiumCpmmSwap_Event e) = cps_metadata e"
| "raydium_cpmm_metadata (RaydiumCpmmDeposit_Event e) = cpd_metadata e"
| "raydium_cpmm_metadata (RaydiumCpmmLpChange_Event e) = lp_metadata e"
| "raydium_cpmm_metadata (RaydiumCpmmWithdraw_Event e) = cpw_metadata e"
| "raydium_cpmm_metadata (RaydiumCpmmInitialize_Event e) = cpn_metadata e"
| "raydium_cpmm_metadata (RaydiumCpmmCollectCreatorFee_Event e) = cpf_metadata e"

fun raydium_clmm_metadata :: "raydium_clmm_event \<Rightarrow> event_metadata" where
  "raydium_clmm_metadata (RaydiumClmmSwap_Event e) = cls_metadata e"
| "raydium_clmm_metadata (RaydiumClmmCreatePool_Event e) = clc_metadata e"
| "raydium_clmm_metadata (RaydiumClmmOpenPosition_Event e) = clo_metadata e"
| "raydium_clmm_metadata (RaydiumClmmOpenPositionWithTokenExtNft_Event e) = clt_metadata e"
| "raydium_clmm_metadata (RaydiumClmmClosePosition_Event e) = clx_metadata e"
| "raydium_clmm_metadata (RaydiumClmmIncreaseLiquidity_Event e) = cli_metadata e"
| "raydium_clmm_metadata (RaydiumClmmDecreaseLiquidity_Event e) = cld_metadata e"
| "raydium_clmm_metadata (RaydiumClmmLiquidityChange_Event e) = clq_metadata e"
| "raydium_clmm_metadata (RaydiumClmmConfigChange_Event e) = clg_metadata e"
| "raydium_clmm_metadata (RaydiumClmmCreatePersonalPosition_Event e) = clp_metadata e"
| "raydium_clmm_metadata (RaydiumClmmLiquidityCalculate_Event e) = clk_metadata e"
| "raydium_clmm_metadata (RaydiumClmmOpenLimitOrder_Event e) = clol_metadata e"
| "raydium_clmm_metadata (RaydiumClmmIncreaseLimitOrder_Event e) = clil_metadata e"
| "raydium_clmm_metadata (RaydiumClmmDecreaseLimitOrder_Event e) = cldl_metadata e"
| "raydium_clmm_metadata (RaydiumClmmSettleLimitOrder_Event e) = clsl_metadata e"
| "raydium_clmm_metadata (RaydiumClmmUpdateRewardInfos_Event e) = clr_metadata e"
| "raydium_clmm_metadata (RaydiumClmmCollectFee_Event e) = clf_metadata e"

fun raydium_amm_v4_metadata :: "raydium_amm_v4_event \<Rightarrow> event_metadata" where
  "raydium_amm_v4_metadata (RaydiumAmmV4Swap_Event e) = avs_metadata e"
| "raydium_amm_v4_metadata (RaydiumAmmV4Deposit_Event e) = avd_metadata e"
| "raydium_amm_v4_metadata (RaydiumAmmV4Initialize2_Event e) = avi_metadata e"
| "raydium_amm_v4_metadata (RaydiumAmmV4Withdraw_Event e) = avw_metadata e"
| "raydium_amm_v4_metadata (RaydiumAmmV4WithdrawPnl_Event e) = avp_metadata e"

fun orca_whirlpool_metadata :: "orca_whirlpool_event \<Rightarrow> event_metadata" where
  "orca_whirlpool_metadata (OrcaWhirlpoolSwap_Event e) = ows_metadata e"
| "orca_whirlpool_metadata (OrcaWhirlpoolLiquidityIncreased_Event e) = owi_metadata e"
| "orca_whirlpool_metadata (OrcaWhirlpoolLiquidityDecreased_Event e) = owd_metadata e"
| "orca_whirlpool_metadata (OrcaWhirlpoolPoolInitialized_Event e) = owp_metadata e"

fun meteora_pools_metadata :: "meteora_pools_event \<Rightarrow> event_metadata" where
  "meteora_pools_metadata (MeteoraPoolsSwap_Event e) = mps_metadata e"
| "meteora_pools_metadata (MeteoraPoolsAddLiquidity_Event e) = mpa_metadata e"
| "meteora_pools_metadata (MeteoraPoolsRemoveLiquidity_Event e) = mpr_metadata e"
| "meteora_pools_metadata (MeteoraPoolsBootstrapLiquidity_Event e) = mpb_metadata e"
| "meteora_pools_metadata (MeteoraPoolsPoolCreated_Event e) = mpc_metadata e"
| "meteora_pools_metadata (MeteoraPoolsSetPoolFees_Event e) = mpf_metadata e"

fun meteora_damm_v2_metadata :: "meteora_damm_v2_event \<Rightarrow> event_metadata" where
  "meteora_damm_v2_metadata (MeteoraDammV2Swap_Event e) = dvs_metadata e"
| "meteora_damm_v2_metadata (MeteoraDammV2CreatePosition_Event e) = dvc_metadata e"
| "meteora_damm_v2_metadata (MeteoraDammV2ClosePosition_Event e) = dvx_metadata e"
| "meteora_damm_v2_metadata (MeteoraDammV2AddLiquidity_Event e) = dva_metadata e"
| "meteora_damm_v2_metadata (MeteoraDammV2RemoveLiquidity_Event e) = dvr_metadata e"
| "meteora_damm_v2_metadata (MeteoraDammV2InitializePool_Event e) = dvi_metadata e"
| "meteora_damm_v2_metadata (MeteoraDammV2ClaimPositionFee_Event e) = dvf_metadata e"
| "meteora_damm_v2_metadata (MeteoraDammV2InitializeReward_Event e) = dvw_metadata e"
| "meteora_damm_v2_metadata (MeteoraDammV2FundReward_Event e) = dvd_metadata e"
| "meteora_damm_v2_metadata (MeteoraDammV2ClaimReward_Event e) = dvm_metadata e"

fun meteora_dbc_metadata :: "meteora_dbc_event \<Rightarrow> event_metadata" where
  "meteora_dbc_metadata (MeteoraDbcSwap_Event e) = dbs_metadata e"
| "meteora_dbc_metadata (MeteoraDbcInitializePool_Event e) = dbi_metadata e"
| "meteora_dbc_metadata (MeteoraDbcCurveComplete_Event e) = dbc_metadata e"

fun meteora_dlmm_metadata :: "meteora_dlmm_event \<Rightarrow> event_metadata" where
  "meteora_dlmm_metadata (MeteoraDlmmSwap_Event e) = dls_metadata e"
| "meteora_dlmm_metadata (MeteoraDlmmAddLiquidity_Event e) = dla_metadata e"
| "meteora_dlmm_metadata (MeteoraDlmmRemoveLiquidity_Event e) = dlr_metadata e"
| "meteora_dlmm_metadata (MeteoraDlmmInitializePool_Event e) = dli_metadata e"
| "meteora_dlmm_metadata (MeteoraDlmmInitializeBinArray_Event e) = dlb_metadata e"
| "meteora_dlmm_metadata (MeteoraDlmmCreatePosition_Event e) = dlp_metadata e"
| "meteora_dlmm_metadata (MeteoraDlmmClosePosition_Event e) = dlc_metadata e"
| "meteora_dlmm_metadata (MeteoraDlmmClaimFee_Event e) = dlf_metadata e"

fun account_metadata :: "'p account_event \<Rightarrow> event_metadata" where
  "account_metadata (PumpFunGlobalAccount_Event e) = pl_metadata e"
| "account_metadata (PumpFunBondingCurveAccount_Event e) = pl_metadata e"
| "account_metadata (PumpFunFeeConfigAccount_Event e) = pl_metadata e"
| "account_metadata (PumpFunSharingConfigAccount_Event e) = pl_metadata e"
| "account_metadata (PumpFunGlobalVolumeAccumulatorAccount_Event e) = pl_metadata e"
| "account_metadata (PumpFunUserVolumeAccumulatorAccount_Event e) = pl_metadata e"
| "account_metadata (RaydiumClmmAmmConfigAccount_Event e) = pl_metadata e"
| "account_metadata (RaydiumClmmPoolStateAccount_Event e) = pl_metadata e"
| "account_metadata (RaydiumClmmTickArrayStateAccount_Event e) = pl_metadata e"
| "account_metadata (RaydiumCpmmCreatorFeeShareAccount_Event e) = pl_metadata e"
| "account_metadata (RaydiumCpmmAmmConfigAccount_Event e) = pl_metadata e"
| "account_metadata (RaydiumCpmmPoolStateAccount_Event e) = pl_metadata e"
| "account_metadata (OrcaWhirlpoolAccount_Event e) = pl_metadata e"
| "account_metadata (OrcaPositionAccount_Event e) = pl_metadata e"
| "account_metadata (OrcaTickArrayAccount_Event e) = pl_metadata e"
| "account_metadata (OrcaFeeTierAccount_Event e) = pl_metadata e"
| "account_metadata (OrcaWhirlpoolsConfigAccount_Event e) = pl_metadata e"
| "account_metadata (TokenInfo_Event e) = ti_metadata e"
| "account_metadata (TokenAccount_Event e) = ta_metadata e"
| "account_metadata (NonceAccount_Event e) = na_metadata e"
| "account_metadata (PumpSwapGlobalConfigAccount_Event e) = pl_metadata e"
| "account_metadata (PumpSwapPoolAccount_Event e) = pl_metadata e"

fun metadata :: "'p dex_event \<Rightarrow> event_metadata" where
  "metadata (BlockMeta_Event e) = pl_metadata e"
| "metadata (Error_Event e) = default_metadata"
| "metadata (Pump_Fun_Event e) = pump_fun_metadata e"
| "metadata (Pump_Fees_Event e) = pump_fees_metadata e"
| "metadata (Pump_Swap_Event e) = pump_swap_metadata e"
| "metadata (Raydium_Launchlab_Event e) = raydium_launchlab_metadata e"
| "metadata (Raydium_Cpmm_Event e) = raydium_cpmm_metadata e"
| "metadata (Raydium_Clmm_Event e) = raydium_clmm_metadata e"
| "metadata (Raydium_Amm_V4_Event e) = raydium_amm_v4_metadata e"
| "metadata (Orca_Whirlpool_Event e) = orca_whirlpool_metadata e"
| "metadata (Meteora_Pools_Event e) = meteora_pools_metadata e"
| "metadata (Meteora_Damm_V2_Event e) = meteora_damm_v2_metadata e"
| "metadata (Meteora_Dbc_Event e) = meteora_dbc_metadata e"
| "metadata (Meteora_Dlmm_Event e) = meteora_dlmm_metadata e"
| "metadata (Account_Event e) = account_metadata e"

text \<open>\<open>metadata_mut\<close> gives access to the same field of every variant but \<open>Error\<close>; here it is the update
  through that access, \<open>None\<close> when there is none.\<close>

fun pump_fun_metadata_mut :: "(event_metadata \<Rightarrow> event_metadata) \<Rightarrow> 'p pump_fun_event \<Rightarrow> 'p pump_fun_event" where
  "pump_fun_metadata_mut u (PumpFunCreate_Event e) = PumpFunCreate_Event (pc_metadata_update u e)"
| "pump_fun_metadata_mut u (PumpFunCreateV2_Event e) = PumpFunCreateV2_Event (pv_metadata_update u e)"
| "pump_fun_metadata_mut u (PumpFunTrade_Event e) = PumpFunTrade_Event (pt_metadata_update u e)"
| "pump_fun_metadata_mut u (PumpFunBuy_Event e) = PumpFunBuy_Event (pt_metadata_update u e)"
| "pump_fun_metadata_mut u (PumpFunSell_Event e) = PumpFunSell_Event (pt_metadata_update u e)"
| "pump_fun_metadata_mut u (PumpFunBuyExactSolIn_Event e) = PumpFunBuyExactSolIn_Event (pt_metadata_update u e)"
| "pump_fun_metadata_mut u (PumpFunMigrate_Event e) = PumpFunMigrate_Event (pm_metadata_update u e)"
| "pump_fun_metadata_mut u (PumpFunMigrateBondingCurveCreator_Event e) = PumpFunMigrateBondingCurveCreator_Event (mc_metadata_update u e)"
| "pump_fun_metadata_mut u (PumpFunPostCompleteBuy_Event e) = PumpFunPostCompleteBuy_Event (pl_metadata_update u e)"
| "pump_fun_metadata_mut u (PumpFunSweepBondingCurveFee_Event e) = PumpFunSweepBondingCurveFee_Event (pl_metadata_update u e)"
| "pump_fun_metadata_mut u (PumpFunComplete_Event e) = PumpFunComplete_Event (pl_metadata_update u e)"

fun pump_fees_metadata_mut :: "(event_metadata \<Rightarrow> event_metadata) \<Rightarrow> pump_fees_event \<Rightarrow> pump_fees_event" where
  "pump_fees_metadata_mut u (PumpFeesCreateFeeSharingConfig_Event e) = PumpFeesCreateFeeSharingConfig_Event (pfc_metadata_update u e)"
| "pump_fees_metadata_mut u (PumpFeesInitializeFeeConfig_Event e) = PumpFeesInitializeFeeConfig_Event (pfi_metadata_update u e)"
| "pump_fees_metadata_mut u (PumpFeesResetFeeSharingConfig_Event e) = PumpFeesResetFeeSharingConfig_Event (pfr_metadata_update u e)"
| "pump_fees_metadata_mut u (PumpFeesRevokeFeeSharingAuthority_Event e) = PumpFeesRevokeFeeSharingAuthority_Event (pfv_metadata_update u e)"
| "pump_fees_metadata_mut u (PumpFeesTransferFeeSharingAuthority_Event e) = PumpFeesTransferFeeSharingAuthority_Event (pft_metadata_update u e)"
| "pump_fees_metadata_mut u (PumpFeesUpdateAdmin_Event e) = PumpFeesUpdateAdmin_Event (pfa_metadata_update u e)"
| "pump_fees_metadata_mut u (PumpFeesUpdateFeeConfig_Event e) = PumpFeesUpdateFeeConfig_Event (pfg_metadata_update u e)"
| "pump_fees_metadata_mut u (PumpFeesUpdateFeeShares_Event e) = PumpFeesUpdateFeeShares_Event (pfs_metadata_update u e)"
| "pump_fees_metadata_mut u (PumpFeesUpsertFeeTiers_Event e) = PumpFeesUpsertFeeTiers_Event (pfu_metadata_update u e)"

fun pump_swap_metadata_mut :: "(event_metadata \<Rightarrow> event_metadata) \<Rightarrow> 'p pump_swap_event \<Rightarrow> 'p pump_swap_event" where
  "pump_swap_metadata_mut u (PumpSwapTrade_Event e) = PumpSwapTrade_Event (swt_metadata_update u e)"
| "pump_swap_metadata_mut u (PumpSwapBuy_Event e) = PumpSwapBuy_Event (swb_metadata_update u e)"
| "pump_swap_metadata_mut u (PumpSwapSell_Event e) = PumpSwapSell_Event (sws_metadata_update u e)"
| "pump_swap_metadata_mut u (PumpSwapCreatePool_Event e) = PumpSwapCreatePool_Event (swp_metadata_update u e)"
| "pump_swap_metadata_mut u (PumpSwapLiquidityAdded_Event e) = PumpSwapLiquidityAdded_Event (swa_metadata_update u e)"
| "pump_swap_metadata_mut u (PumpSwapLiquidityRemoved_Event e) = PumpSwapLiquidityRemoved_Event (swr_metadata_update u e)"
| "pump_swap_metadata_mut u (PumpSwapSweepPoolFee_Event e) = PumpSwapSweepPoolFee_Event (pl_metadata_update u e)"

fun raydium_launchlab_metadata_mut :: "(event_metadata \<Rightarrow> event_metadata) \<Rightarrow> raydium_launchlab_event \<Rightarrow> raydium_launchlab_event" where
  "raydium_launchlab_metadata_mut u (RaydiumLaunchlabTrade_Event e) = RaydiumLaunchlabTrade_Event (llt_metadata_update u e)"
| "raydium_launchlab_metadata_mut u (RaydiumLaunchlabPoolCreate_Event e) = RaydiumLaunchlabPoolCreate_Event (llp_metadata_update u e)"
| "raydium_launchlab_metadata_mut u (RaydiumLaunchlabMigrateAmm_Event e) = RaydiumLaunchlabMigrateAmm_Event (ma_metadata_update u e)"

fun raydium_cpmm_metadata_mut :: "(event_metadata \<Rightarrow> event_metadata) \<Rightarrow> raydium_cpmm_event \<Rightarrow> raydium_cpmm_event" where
  "raydium_cpmm_metadata_mut u (RaydiumCpmmSwap_Event e) = RaydiumCpmmSwap_Event (cps_metadata_update u e)"
| "raydium_cpmm_metadata_mut u (RaydiumCpmmDeposit_Event e) = RaydiumCpmmDeposit_Event (cpd_metadata_update u e)"
| "raydium_cpmm_metadata_mut u (RaydiumCpmmLpChange_Event e) = RaydiumCpmmLpChange_Event (lp_metadata_update u e)"
| "raydium_cpmm_metadata_mut u (RaydiumCpmmWithdraw_Event e) = RaydiumCpmmWithdraw_Event (cpw_metadata_update u e)"
| "raydium_cpmm_metadata_mut u (RaydiumCpmmInitialize_Event e) = RaydiumCpmmInitialize_Event (cpn_metadata_update u e)"
| "raydium_cpmm_metadata_mut u (RaydiumCpmmCollectCreatorFee_Event e) = RaydiumCpmmCollectCreatorFee_Event (cpf_metadata_update u e)"

fun raydium_clmm_metadata_mut :: "(event_metadata \<Rightarrow> event_metadata) \<Rightarrow> raydium_clmm_event \<Rightarrow> raydium_clmm_event" where
  "raydium_clmm_metadata_mut u (RaydiumClmmSwap_Event e) = RaydiumClmmSwap_Event (cls_metadata_update u e)"
| "raydium_clmm_metadata_mut u (RaydiumClmmCreatePool_Event e) = RaydiumClmmCreatePool_Event (clc_metadata_update u e)"
| "raydium_clmm_metadata_mut u (RaydiumClmmOpenPosition_Event e) = RaydiumClmmOpenPosition_Event (clo_metadata_update u e)"
| "raydium_clmm_metadata_mut u (RaydiumClmmOpenPositionWithTokenExtNft_Event e) = RaydiumClmmOpenPositionWithTokenExtNft_Event (clt_metadata_update u e)"
| "raydium_clmm_metadata_mut u (RaydiumClmmClosePosition_Event e) = RaydiumClmmClosePosition_Event (clx_metadata_update u e)"
| "raydium_clmm_metadata_mut u (RaydiumClmmIncreaseLiquidity_Event e) = RaydiumClmmIncreaseLiquidity_Event (cli_metadata_update u e)"
| "raydium_clmm_metadata_mut u (RaydiumClmmDecreaseLiquidity_Event e) = RaydiumClmmDecreaseLiquidity_Event (cld_metadata_update u e)"
| "raydium_clmm_metadata_mut u (RaydiumClmmLiquidityChange_Event e) = RaydiumClmmLiquidityChange_Event (clq_metadata_update u e)"
| "raydium_clmm_metadata_mut u (RaydiumClmmConfigChange_Event e) = RaydiumClmmConfigChange_Event (clg_metadata_update u e)"
| "raydium_clmm_metadata_mut u (RaydiumClmmCreatePersonalPosition_Event e) = RaydiumClmmCreatePersonalPosition_Event (clp_metadata_update u e)"
| "raydium_clmm_metadata_mut u (RaydiumClmmLiquidityCalculate_Event e) = RaydiumClmmLiquidityCalculate_Event (clk_metadata_update u e)"
| "raydium_clmm_metadata_mut u (RaydiumClmmOpenLimitOrder_Event e) = RaydiumClmmOpenLimitOrder_Event (clol_metadata_update u e)"
| "raydium_clmm_metadata_mut u (RaydiumClmmIncreaseLimitOrder_Event e) = RaydiumClmmIncreaseLimitOrder_Event (clil_metadata_update u e)"
| "raydium_clmm_metadata_mut u (RaydiumClmmDecreaseLimitOrder_Event e) = RaydiumClmmDecreaseLimitOrder_Event (cldl_metadata_update u e)"
| "raydium_clmm_metadata_mut u (RaydiumClmmSettleLimitOrder_Event e) = RaydiumClmmSettleLimitOrder_Event (clsl_metadata_update u e)"
| "raydium_clmm_metadata_mut u (RaydiumClmmUpdateRewardInfos_Event e) = RaydiumClmmUpdateRewardInfos_Event (clr_metadata_update u e)"
| "raydium_clmm_metadata_mut u (RaydiumClmmCollectFee_Event e) = RaydiumClmmCollectFee_Event (clf_metadata_update u e)"

fun raydium_amm_v4_metadata_mut :: "(event_metadata \<Rightarrow> event_metadata) \<Rightarrow> raydium_amm_v4_event \<Rightarrow> raydium_amm_v4_event" where
  "raydium_amm_v4_metadata_mut u (RaydiumAmmV4Swap_Event e) = RaydiumAmmV4Swap_Event (avs_metadata_update u e)"
| "raydium_amm_v4_metadata_mut u (RaydiumAmmV4Deposit_Event e) = RaydiumAmmV4Deposit_Event (avd_metadata_update u e)"
| "raydium_amm_v4_metadata_mut u (RaydiumAmmV4Initialize2_Event e) = RaydiumAmmV4Initialize2_Event (avi_metadata_update u e)"
| "raydium_amm_v4_metadata_mut u (RaydiumAmmV4Withdraw_Event e) = RaydiumAmmV4Withdraw_Event (avw_metadata_update u e)"
| "raydium_amm_v4_metadata_mut u (RaydiumAmmV4WithdrawPnl_Event e) = RaydiumAmmV4WithdrawPnl_Event (avp_metadata_update u e)"

fun orca_whirlpool_metadata_mut :: "(event_metadata \<Rightarrow> event_metadata) \<Rightarrow> orca_whirlpool_event \<Rightarrow> orca_whirlpool_event" where
  "orca_whirlpool_metadata_mut u (OrcaWhirlpoolSwap_Event e) = OrcaWhirlpoolSwap_Event (ows_metadata_update u e)"
| "orca_whirlpool_metadata_mut u (OrcaWhirlpoolLiquidityIncreased_Event e) = OrcaWhirlpoolLiquidityIncreased_Event (owi_metadata_update u e)"
| "orca_whirlpool_metadata_mut u (OrcaWhirlpoolLiquidityDecreased_Event e) = OrcaWhirlpoolLiquidityDecreased_Event (owd_metadata_update u e)"
| "orca_whirlpool_metadata_mut u (OrcaWhirlpoolPoolInitialized_Event e) = OrcaWhirlpoolPoolInitialized_Event (owp_metadata_update u e)"

fun meteora_pools_metadata_mut :: "(event_metadata \<Rightarrow> event_metadata) \<Rightarrow> meteora_pools_event \<Rightarrow> meteora_pools_event" where
  "meteora_pools_metadata_mut u (MeteoraPoolsSwap_Event e) = MeteoraPoolsSwap_Event (mps_metadata_update u e)"
| "meteora_pools_metadata_mut u (MeteoraPoolsAddLiquidity_Event e) = MeteoraPoolsAddLiquidity_Event (mpa_metadata_update u e)"
| "meteora_pools_metadata_mut u (MeteoraPoolsRemoveLiquidity_Event e) = MeteoraPoolsRemoveLiquidity_Event (mpr_metadata_update u e)"
| "meteora_pools_metadata_mut u (MeteoraPoolsBootstrapLiquidity_Event e) = MeteoraPoolsBootstrapLiquidity_Event (mpb_metadata_update u e)"
| "meteora_pools_metadata_mut u (MeteoraPoolsPoolCreated_Event e) = MeteoraPoolsPoolCreated_Event (mpc_metadata_update u e)"
| "meteora_pools_metadata_mut u (MeteoraPoolsSetPoolFees_Event e) = MeteoraPoolsSetPoolFees_Event (mpf_metadata_update u e)"

fun meteora_damm_v2_metadata_mut :: "(event_metadata \<Rightarrow> event_metadata) \<Rightarrow> meteora_damm_v2_event \<Rightarrow> meteora_damm_v2_event" where
  "meteora_damm_v2_metadata_mut u (MeteoraDammV2Swap_Event e) = MeteoraDammV2Swap_Event (dvs_metadata_update u e)"
| "meteora_damm_v2_metadata_mut u (MeteoraDammV2CreatePosition_Event e) = MeteoraDammV2CreatePosition_Event (dvc_metadata_update u e)"
| "meteora_damm_v2_metadata_mut u (MeteoraDammV2ClosePosition_Event e) = MeteoraDammV2ClosePosition_Event (dvx_metadata_update u e)"
| "meteora_damm_v2_metadata_mut u (MeteoraDammV2AddLiquidity_Event e) = MeteoraDammV2AddLiquidity_Event (dva_metadata_update u e)"
| "meteora_damm_v2_metadata_mut u (MeteoraDammV2RemoveLiquidity_Event e) = MeteoraDammV2RemoveLiquidity_Event (dvr_metadata_update u e)"
| "meteora_damm_v2_metadata_mut u (MeteoraDammV2InitializePool_Event e) = MeteoraDammV2InitializePool_Event (dvi_metadata_update u e)"
| "meteora_damm_v2_metadata_mut u (MeteoraDammV2ClaimPositionFee_Event e) = MeteoraDammV2ClaimPositionFee_Event (dvf_metadata_update u e)"
| "meteora_damm_v2_metadata_mut u (MeteoraDammV2InitializeReward_Event e) = MeteoraDammV2InitializeReward_Event (dvw_metadata_update u e)"
| "meteora_damm_v2_metadata_mut u (MeteoraDammV2FundReward_Event e) = MeteoraDammV2FundReward_Event (dvd_metadata_update u e)"
| "meteora_damm_v2_metadata_mut u (MeteoraDammV2ClaimReward_Event e) = MeteoraDammV2ClaimReward_Event (dvm_metadata_update u e)"

fun meteora_dbc_metadata_mut :: "(event_metadata \<Rightarrow> event_metadata) \<Rightarrow> meteora_dbc_event \<Rightarrow> meteora_dbc_event" where
  "meteora_dbc_metadata_mut u (MeteoraDbcSwap_Event e) = MeteoraDbcSwap_Event (dbs_metadata_update u e)"
| "meteora_dbc_metadata_mut u (MeteoraDbcInitializePool_Event e) = MeteoraDbcInitializePool_Event (dbi_metadata_update u e)"
| "meteora_dbc_metadata_mut u (MeteoraDbcCurveComplete_Event e) = MeteoraDbcCurveComplete_Event (dbc_metadata_update u e)"

fun meteora_dlmm_metadata_mut :: "(event_metadata \<Rightarrow> event_metadata) \<Rightarrow> meteora_dlmm_event \<Rightarrow> meteora_dlmm_event" where
  "meteora_dlmm_metadata_mut u (MeteoraDlmmSwap_Event e) = MeteoraDlmmSwap_Event (dls_metadata_update u e)"
| "meteora_dlmm_metadata_mut u (MeteoraDlmmAddLiquidity_Event e) = MeteoraDlmmAddLiquidity_Event (dla_metadata_update u e)"
| "meteora_dlmm_metadata_mut u (MeteoraDlmmRemoveLiquidity_Event e) = MeteoraDlmmRemoveLiquidity_Event (dlr_metadata_update u e)"
| "meteora_dlmm_metadata_mut u (MeteoraDlmmInitializePool_Event e) = MeteoraDlmmInitializePool_Event (dli_metadata_update u e)"
| "meteora_dlmm_metadata_mut u (MeteoraDlmmInitializeBinArray_Event e) = MeteoraDlmmInitializeBinArray_Event (dlb_metadata_update u e)"
| "meteora_dlmm_metadata_mut u (MeteoraDlmmCreatePosition_Event e) = MeteoraDlmmCreatePosition_Event (dlp_metadata_update u e)"
| "meteora_dlmm_metadata_mut u (MeteoraDlmmClosePosition_Event e) = MeteoraDlmmClosePosition_Event (dlc_metadata_update u e)"
| "meteora_dlmm_metadata_mut u (MeteoraDlmmClaimFee_Event e) = MeteoraDlmmClaimFee_Event (dlf_metadata_update u e)"

fun account_metadata_mut :: "(event_metadata \<Rightarrow> event_metadata) \<Rightarrow> 'p account_event \<Rightarrow> 'p account_event" where
  "account_metadata_mut u (PumpFunGlobalAccount_Event e) = PumpFunGlobalAccount_Event (pl_metadata_update u e)"
| "account_metadata_mut u (PumpFunBondingCurveAccount_Event e) = PumpFunBondingCurveAccount_Event (pl_metadata_update u e)"
| "account_metadata_mut u (PumpFunFeeConfigAccount_Event e) = PumpFunFeeConfigAccount_Event (pl_metadata_update u e)"
| "account_metadata_mut u (PumpFunSharingConfigAccount_Event e) = PumpFunSharingConfigAccount_Event (pl_metadata_update u e)"
| "account_metadata_mut u (PumpFunGlobalVolumeAccumulatorAccount_Event e) = PumpFunGlobalVolumeAccumulatorAccount_Event (pl_metadata_update u e)"
| "account_metadata_mut u (PumpFunUserVolumeAccumulatorAccount_Event e) = PumpFunUserVolumeAccumulatorAccount_Event (pl_metadata_update u e)"
| "account_metadata_mut u (RaydiumClmmAmmConfigAccount_Event e) = RaydiumClmmAmmConfigAccount_Event (pl_metadata_update u e)"
| "account_metadata_mut u (RaydiumClmmPoolStateAccount_Event e) = RaydiumClmmPoolStateAccount_Event (pl_metadata_update u e)"
| "account_metadata_mut u (RaydiumClmmTickArrayStateAccount_Event e) = RaydiumClmmTickArrayStateAccount_Event (pl_metadata_update u e)"
| "account_metadata_mut u (RaydiumCpmmCreatorFeeShareAccount_Event e) = RaydiumCpmmCreatorFeeShareAccount_Event (pl_metadata_update u e)"
| "account_metadata_mut u (RaydiumCpmmAmmConfigAccount_Event e) = RaydiumCpmmAmmConfigAccount_Event (pl_metadata_update u e)"
| "account_metadata_mut u (RaydiumCpmmPoolStateAccount_Event e) = RaydiumCpmmPoolStateAccount_Event (pl_metadata_update u e)"
| "account_metadata_mut u (OrcaWhirlpoolAccount_Event e) = OrcaWhirlpoolAccount_Event (pl_metadata_update u e)"
| "account_metadata_mut u (OrcaPositionAccount_Event e) = OrcaPositionAccount_Event (pl_metadata_update u e)"
| "account_metadata_mut u (OrcaTickArrayAccount_Event e) = OrcaTickArrayAccount_Event (pl_metadata_update u e)"
| "account_metadata_mut u (OrcaFeeTierAccount_Event e) = OrcaFeeTierAccount_Event (pl_metadata_update u e)"
| "account_metadata_mut u (OrcaWhirlpoolsConfigAccount_Event e) = OrcaWhirlpoolsConfigAccount_Event (pl_metadata_update u e)"
| "account_metadata_mut u (TokenInfo_Event e) = TokenInfo_Event (ti_metadata_update u e)"
| "account_metadata_mut u (TokenAccount_Event e) = TokenAccount_Event (ta_metadata_update u e)"
| "account_metadata_mut u (NonceAccount_Event e) = NonceAccount_Event (na_metadata_update u e)"
| "account_metadata_mut u (PumpSwapGlobalConfigAccount_Event e) = PumpSwapGlobalConfigAccount_Event (pl_metadata_update u e)"
| "account_metadata_mut u (PumpSwapPoolAccount_Event e) = PumpSwapPoolAccount_Event (pl_metadata_update u e)"

fun metadata_mut :: "(event_metadata \<Rightarrow> event_metadata) \<Rightarrow> 'p dex_event \<Rightarrow> 'p dex_event option" where
  "metadata_mut u (BlockMeta_Event e) = Some (BlockMeta_Event (pl_metadata_update u e))"
| "metadata_mut u (Error_Event e) = None"
| "metadata_mut u (Pump_Fun_Event e) = Some (Pump_Fun_Event (pump_fun_metadata_mut u e))"
| "metadata_mut u (Pump_Fees_Event e) = Some (Pump_Fees_Event (pump_fees_metadata_mut u e))"
| "metadata_mut u (Pump_Swap_Event e) = Some (Pump_Swap_Event (pump_swap_metadata_mut u e))"
| "metadata_mut u (Raydium_Launchlab_Event e) = Some (Raydium_Launchlab_Event (raydium_launchlab_metadata_mut u e))"
| "metadata_mut u (Raydium_Cpmm_Event e) = Some (Raydium_Cpmm_Event (raydium_cpmm_metadata_mut u e))"
| "metadata_mut u (Raydium_Clmm_Event e) = Some (Raydium_Clmm_Event (raydium_clmm_metadata_mut u e))"
| "metadata_mut u (Raydium_Amm_V4_Event e) = Some (Raydium_Amm_V4_Event (raydium_amm_v4_metadata_mut u e))"
| "metadata_mut u (Orca_Whirlpool_Event e) = Some (Orca_Whirlpool_Event (orca_whirlpool_metadata_mut u e))"
| "metadata_mut u (Meteora_Pools_Event e) = Some (Meteora_Pools_Event (meteora_pools_metadata_mut u e))"
| "metadata_mut u (Meteora_Damm_V2_Event e) = Some (Meteora_Damm_V2_Event (meteora_damm_v2_metadata_mut u e))"
| "metadata_mut u (Meteora_Dbc_Event e) = Some (Meteora_Dbc_Event (meteora_dbc_metadata_mut u e))"
| "metadata_mut u (Meteora_Dlmm_Event e) = Some (Meteora_Dlmm_Event (meteora_dlmm_metadata_mut u e))"
| "metadata_mut u (Account_Event e) = Some (Account_Event (account_metadata_mut u e))"

lemma pump_fun_metadata_mut [simp]: "pump_fun_metadata (pump_fun_metadata_mut u e) = u (pump_fun_metadata e)"
  by (cases e) simp_all

lemma pump_fun_type_of_mut [simp]: "pump_fun_type_of (pump_fun_metadata_mut u e) = pump_fun_type_of e"
  by (cases e) simp_all

lemma pump_fees_metadata_mut [simp]: "pump_fees_metadata (pump_fees_metadata_mut u e) = u (pump_fees_metadata e)"
  by (cases e) simp_all

lemma pump_fees_type_of_mut [simp]: "pump_fees_type_of (pump_fees_metadata_mut u e) = pump_fees_type_of e"
  by (cases e) simp_all

lemma pump_swap_metadata_mut [simp]: "pump_swap_metadata (pump_swap_metadata_mut u e) = u (pump_swap_metadata e)"
  by (cases e) simp_all

lemma pump_swap_type_of_mut [simp]: "pump_swap_type_of (pump_swap_metadata_mut u e) = pump_swap_type_of e"
  by (cases e) simp_all

lemma raydium_launchlab_metadata_mut [simp]: "raydium_launchlab_metadata (raydium_launchlab_metadata_mut u e) = u (raydium_launchlab_metadata e)"
  by (cases e) simp_all

lemma raydium_launchlab_type_of_mut [simp]: "raydium_launchlab_type_of (raydium_launchlab_metadata_mut u e) = raydium_launchlab_type_of e"
  by (cases e) simp_all

lemma raydium_cpmm_metadata_mut [simp]: "raydium_cpmm_metadata (raydium_cpmm_metadata_mut u e) = u (raydium_cpmm_metadata e)"
  by (cases e) simp_all

lemma raydium_cpmm_type_of_mut [simp]: "raydium_cpmm_type_of (raydium_cpmm_metadata_mut u e) = raydium_cpmm_type_of e"
  by (cases e) simp_all

lemma raydium_clmm_metadata_mut [simp]: "raydium_clmm_metadata (raydium_clmm_metadata_mut u e) = u (raydium_clmm_metadata e)"
  by (cases e) simp_all

lemma raydium_clmm_type_of_mut [simp]: "raydium_clmm_type_of (raydium_clmm_metadata_mut u e) = raydium_clmm_type_of e"
  by (cases e) simp_all

lemma raydium_amm_v4_metadata_mut [simp]: "raydium_amm_v4_metadata (raydium_amm_v4_metadata_mut u e) = u (raydium_amm_v4_metadata e)"
  by (cases e) simp_all

lemma raydium_amm_v4_type_of_mut [simp]: "raydium_amm_v4_type_of (raydium_amm_v4_metadata_mut u e) = raydium_amm_v4_type_of e"
  by (cases e) simp_all

lemma orca_whirlpool_metadata_mut [simp]: "orca_whirlpool_metadata (orca_whirlpool_metadata_mut u e) = u (orca_whirlpool_metadata e)"
  by (cases e) simp_all

lemma orca_whirlpool_type_of_mut [simp]: "orca_whirlpool_type_of (orca_whirlpool_metadata_mut u e) = orca_whirlpool_type_of e"
  by (cases e) simp_all

lemma meteora_pools_metadata_mut [simp]: "meteora_pools_metadata (meteora_pools_metadata_mut u e) = u (meteora_pools_metadata e)"
  by (cases e) simp_all

lemma meteora_pools_type_of_mut [simp]: "meteora_pools_type_of (meteora_pools_metadata_mut u e) = meteora_pools_type_of e"
  by (cases e) simp_all

lemma meteora_damm_v2_metadata_mut [simp]: "meteora_damm_v2_metadata (meteora_damm_v2_metadata_mut u e) = u (meteora_damm_v2_metadata e)"
  by (cases e) simp_all

lemma meteora_damm_v2_type_of_mut [simp]: "meteora_damm_v2_type_of (meteora_damm_v2_metadata_mut u e) = meteora_damm_v2_type_of e"
  by (cases e) simp_all

lemma meteora_dbc_metadata_mut [simp]: "meteora_dbc_metadata (meteora_dbc_metadata_mut u e) = u (meteora_dbc_metadata e)"
  by (cases e) simp_all

lemma meteora_dbc_type_of_mut [simp]: "meteora_dbc_type_of (meteora_dbc_metadata_mut u e) = meteora_dbc_type_of e"
  by (cases e) simp_all

lemma meteora_dlmm_metadata_mut [simp]: "meteora_dlmm_metadata (meteora_dlmm_metadata_mut u e) = u (meteora_dlmm_metadata e)"
  by (cases e) simp_all

lemma meteora_dlmm_type_of_mut [simp]: "meteora_dlmm_type_of (meteora_dlmm_metadata_mut u e) = meteora_dlmm_type_of e"
  by (cases e) simp_all

lemma account_metadata_mut [simp]: "account_metadata (account_metadata_mut u e) = u (account_metadata e)"
  by (cases e) simp_all

lemma account_type_of_mut [simp]: "account_type_of (account_metadata_mut u e) = account_type_of e"
  by (cases e) simp_all

end
