(* ===== verification/Event_Filter.thy ===== *)
theory Event_Filter
  imports Event_Types
begin

text \<open>
  \<open>EventTypeFilter\<close> of \<open>src/grpc/types.rs\<close>: which events a subscription keeps, the coarse
  per-protocol tests by which the parser skips whole protocols, and the normalisation of PumpFun trade
  variants to the generic type a filter asked for. The lemmas show that the coarse tests never
  skip a wanted event, that normalising keeps the verdict and the metadata, and how include and
  exclude lists relate.
\<close>

section \<open>The filter\<close>

record event_type_filter =
  include_only :: "event_type list option"
  exclude_types :: "event_type list option"

definition include_only_filter :: "event_type list \<Rightarrow> event_type_filter" where
  "include_only_filter types = \<lparr>include_only = Some types, exclude_types = None\<rparr>"

definition exclude_types_filter :: "event_type list \<Rightarrow> event_type_filter" where
  "exclude_types_filter types = \<lparr>include_only = None, exclude_types = Some types\<rparr>"

definition is_pumpfun_side :: "event_type \<Rightarrow> bool" where
  "is_pumpfun_side t \<longleftrightarrow>
     t \<in> {Pump_Fun PumpFunBuy, Pump_Fun PumpFunSell, Pump_Fun PumpFunBuyExactSolIn}"

definition is_pumpswap_side :: "event_type \<Rightarrow> bool" where
  "is_pumpswap_side t \<longleftrightarrow> t \<in> {Pump_Swap PumpSwapBuy, Pump_Swap PumpSwapSell}"

definition pumpfun_trade_filter_is_generic :: "event_type list \<Rightarrow> bool" where
  "pumpfun_trade_filter_is_generic ts \<longleftrightarrow>
     Pump_Fun PumpFunTrade \<in> set ts \<and> \<not> list_ex is_pumpfun_side ts"

definition pumpfun_buy_filter_is_generic :: "event_type list \<Rightarrow> bool" where
  "pumpfun_buy_filter_is_generic ts \<longleftrightarrow>
     Pump_Fun PumpFunBuy \<in> set ts \<and> Pump_Fun PumpFunBuyExactSolIn \<notin> set ts"

definition is_pumpfun_create_family :: "event_type \<Rightarrow> bool" where
  "is_pumpfun_create_family t \<longleftrightarrow> t \<in> {Pump_Fun PumpFunCreate, Pump_Fun PumpFunCreateV2}"

definition included_by :: "event_type list \<Rightarrow> event_type \<Rightarrow> bool" where
  "included_by ts t \<longleftrightarrow>
     (if t \<in> set ts then True
      else if is_pumpfun_side t
      then pumpfun_trade_filter_is_generic ts \<or>
           (t = Pump_Fun PumpFunBuyExactSolIn \<and> pumpfun_buy_filter_is_generic ts)
      else if is_pumpfun_create_family t then list_ex is_pumpfun_create_family ts
      else if is_pumpswap_side t then Pump_Swap PumpSwapTrade \<in> set ts
      else False)"

definition excluded_by :: "event_type list \<Rightarrow> event_type \<Rightarrow> bool" where
  "excluded_by ts t \<longleftrightarrow>
     t \<in> set ts \<or>
     (is_pumpfun_side t \<and> Pump_Fun PumpFunTrade \<in> set ts) \<or>
     (t = Pump_Fun PumpFunBuyExactSolIn \<and> Pump_Fun PumpFunBuy \<in> set ts) \<or>
     (is_pumpfun_create_family t \<and> list_ex is_pumpfun_create_family ts) \<or>
     (is_pumpswap_side t \<and> Pump_Swap PumpSwapTrade \<in> set ts)"

definition should_include :: "event_type_filter \<Rightarrow> event_type \<Rightarrow> bool" where
  "should_include f t =
     (case include_only f of
        Some ts \<Rightarrow> included_by ts t
      | None \<Rightarrow> (case exclude_types f of Some ts \<Rightarrow> \<not> excluded_by ts t | None \<Rightarrow> True))"

definition includes_any :: "event_type_filter \<Rightarrow> event_type list \<Rightarrow> bool" where
  "includes_any f ts = list_ex (should_include f) ts"

definition includes_unresolved_pumpfun :: "event_type_filter \<Rightarrow> bool" where
  "includes_unresolved_pumpfun f \<longleftrightarrow>
     \<not> (case exclude_types f of None \<Rightarrow> False | Some ts \<Rightarrow> Pump_Fun PumpFunTrade \<in> set ts) \<and>
     should_include f (Pump_Fun PumpFunTrade)"

text \<open>A trade seen only through an outer program, whose direction is not known.\<close>

definition is_unresolved_trade :: "pumpfun_trade_event \<Rightarrow> bool" where
  "is_unresolved_trade e \<longleftrightarrow>
     pt_third_program e \<noteq> None \<and>
     (pt_ix_name e = [] \<or>
      (pt_ix_name e = ''multi_hop_swap'' \<and> pt_sol_amount e = 0 \<and> pt_token_amount e = 0 \<and>
       pt_quote_amount e = 0))"

definition should_include_dex_event :: "event_type_filter \<Rightarrow> 'p dex_event \<Rightarrow> bool" where
  "should_include_dex_event f event =
     (let by_type = (case event_type_from_dex_event event of None \<Rightarrow> True | Some t \<Rightarrow> should_include f t)
      in case event of
           Pump_Fun_Event (PumpFunTrade_Event e) \<Rightarrow>
             if is_unresolved_trade e then includes_unresolved_pumpfun f else by_type
         | _ \<Rightarrow> by_type)"

definition includes_block_meta :: "event_type_filter \<Rightarrow> bool" where
  "includes_block_meta f = (case include_only f of Some ts \<Rightarrow> BlockMeta \<in> set ts | None \<Rightarrow> False)"

fun generic_trade :: "'p dex_event \<Rightarrow> 'p dex_event" where
  "generic_trade (Pump_Fun_Event (PumpFunBuy_Event e)) = Pump_Fun_Event (PumpFunTrade_Event e)"
| "generic_trade (Pump_Fun_Event (PumpFunSell_Event e)) = Pump_Fun_Event (PumpFunTrade_Event e)"
| "generic_trade (Pump_Fun_Event (PumpFunBuyExactSolIn_Event e)) = Pump_Fun_Event (PumpFunTrade_Event e)"
| "generic_trade other = other"

fun generic_buy :: "'p dex_event \<Rightarrow> 'p dex_event" where
  "generic_buy (Pump_Fun_Event (PumpFunBuyExactSolIn_Event e)) = Pump_Fun_Event (PumpFunBuy_Event e)"
| "generic_buy other = other"

definition normalize_dex_event :: "event_type_filter \<Rightarrow> 'p dex_event \<Rightarrow> 'p dex_event" where
  "normalize_dex_event f event =
     (case include_only f of
        None \<Rightarrow> event
      | Some ts \<Rightarrow>
          if pumpfun_trade_filter_is_generic ts then generic_trade event
          else if pumpfun_buy_filter_is_generic ts then generic_buy event
          else event)"

section \<open>The coarse tests\<close>

definition includes_pumpfun :: "event_type_filter \<Rightarrow> bool" where
  "includes_pumpfun f = includes_any f
     [Pump_Fun PumpFunTrade,
      Pump_Fun PumpFunBuy,
      Pump_Fun PumpFunSell,
      Pump_Fun PumpFunBuyExactSolIn,
      Pump_Fun PumpFunCreate,
      Pump_Fun PumpFunCreateV2,
      Pump_Fun PumpFunComplete,
      Pump_Fun PumpFunMigrate,
      Pump_Fun PumpFunMigrateBondingCurveCreator,
      Pump_Fun PumpFunPostCompleteBuy,
      Pump_Fun PumpFunSweepBondingCurveFee]"

definition includes_meteora_damm_v2 :: "event_type_filter \<Rightarrow> bool" where
  "includes_meteora_damm_v2 f = includes_any f
     [Meteora_Damm_V2 MeteoraDammV2Swap,
      Meteora_Damm_V2 MeteoraDammV2AddLiquidity,
      Meteora_Damm_V2 MeteoraDammV2CreatePosition,
      Meteora_Damm_V2 MeteoraDammV2ClosePosition,
      Meteora_Damm_V2 MeteoraDammV2InitializePool,
      Meteora_Damm_V2 MeteoraDammV2RemoveLiquidity,
      Meteora_Damm_V2 MeteoraDammV2ClaimPositionFee,
      Meteora_Damm_V2 MeteoraDammV2InitializeReward,
      Meteora_Damm_V2 MeteoraDammV2FundReward,
      Meteora_Damm_V2 MeteoraDammV2ClaimReward]"

definition includes_pump_fees :: "event_type_filter \<Rightarrow> bool" where
  "includes_pump_fees f = includes_any f
     [Pump_Fees PumpFeesCreateFeeSharingConfig,
      Pump_Fees PumpFeesInitializeFeeConfig,
      Pump_Fees PumpFeesResetFeeSharingConfig,
      Pump_Fees PumpFeesRevokeFeeSharingAuthority,
      Pump_Fees PumpFeesTransferFeeSharingAuthority,
      Pump_Fees PumpFeesUpdateAdmin,
      Pump_Fees PumpFeesUpdateFeeConfig,
      Pump_Fees PumpFeesUpdateFeeShares,
      Pump_Fees PumpFeesUpsertFeeTiers]"

definition includes_pumpswap :: "event_type_filter \<Rightarrow> bool" where
  "includes_pumpswap f = includes_any f
     [Pump_Swap PumpSwapTrade,
      Pump_Swap PumpSwapBuy,
      Pump_Swap PumpSwapSell,
      Pump_Swap PumpSwapCreatePool,
      Pump_Swap PumpSwapSweepPoolFee,
      Pump_Swap PumpSwapLiquidityAdded,
      Pump_Swap PumpSwapLiquidityRemoved]"

definition includes_raydium_launchlab :: "event_type_filter \<Rightarrow> bool" where
  "includes_raydium_launchlab f = includes_any f
     [Raydium_Launchlab RaydiumLaunchlabTrade,
      Raydium_Launchlab RaydiumLaunchlabPoolCreate,
      Raydium_Launchlab RaydiumLaunchlabMigrateAmm]"

definition includes_raydium_cpmm :: "event_type_filter \<Rightarrow> bool" where
  "includes_raydium_cpmm f = includes_any f
     [Raydium_Cpmm RaydiumCpmmSwap,
      Raydium_Cpmm RaydiumCpmmDeposit,
      Raydium_Cpmm RaydiumCpmmWithdraw,
      Raydium_Cpmm RaydiumCpmmInitialize,
      Raydium_Cpmm RaydiumCpmmCollectCreatorFee]"

definition includes_raydium_clmm :: "event_type_filter \<Rightarrow> bool" where
  "includes_raydium_clmm f = includes_any f
     [Raydium_Clmm RaydiumClmmSwap,
      Raydium_Clmm RaydiumClmmCreatePool,
      Raydium_Clmm RaydiumClmmOpenPosition,
      Raydium_Clmm RaydiumClmmClosePosition,
      Raydium_Clmm RaydiumClmmIncreaseLiquidity,
      Raydium_Clmm RaydiumClmmDecreaseLiquidity,
      Raydium_Clmm RaydiumClmmLiquidityChange,
      Raydium_Clmm RaydiumClmmConfigChange,
      Raydium_Clmm RaydiumClmmCreatePersonalPosition,
      Raydium_Clmm RaydiumClmmLiquidityCalculate,
      Raydium_Clmm RaydiumClmmOpenLimitOrder,
      Raydium_Clmm RaydiumClmmIncreaseLimitOrder,
      Raydium_Clmm RaydiumClmmDecreaseLimitOrder,
      Raydium_Clmm RaydiumClmmSettleLimitOrder,
      Raydium_Clmm RaydiumClmmUpdateRewardInfos,
      Raydium_Clmm RaydiumClmmOpenPositionWithTokenExtNft,
      Raydium_Clmm RaydiumClmmCollectFee]"

definition includes_raydium_amm_v4 :: "event_type_filter \<Rightarrow> bool" where
  "includes_raydium_amm_v4 f = includes_any f
     [Raydium_Amm_V4 RaydiumAmmV4Swap,
      Raydium_Amm_V4 RaydiumAmmV4Deposit,
      Raydium_Amm_V4 RaydiumAmmV4Withdraw,
      Raydium_Amm_V4 RaydiumAmmV4Initialize2,
      Raydium_Amm_V4 RaydiumAmmV4WithdrawPnl]"

definition includes_orca_whirlpool :: "event_type_filter \<Rightarrow> bool" where
  "includes_orca_whirlpool f = includes_any f
     [Orca_Whirlpool OrcaWhirlpoolSwap,
      Orca_Whirlpool OrcaWhirlpoolLiquidityIncreased,
      Orca_Whirlpool OrcaWhirlpoolLiquidityDecreased,
      Orca_Whirlpool OrcaWhirlpoolPoolInitialized]"

definition includes_meteora_pools :: "event_type_filter \<Rightarrow> bool" where
  "includes_meteora_pools f = includes_any f
     [Meteora_Pools MeteoraPoolsSwap,
      Meteora_Pools MeteoraPoolsAddLiquidity,
      Meteora_Pools MeteoraPoolsRemoveLiquidity,
      Meteora_Pools MeteoraPoolsBootstrapLiquidity,
      Meteora_Pools MeteoraPoolsPoolCreated,
      Meteora_Pools MeteoraPoolsSetPoolFees]"

definition includes_meteora_dlmm :: "event_type_filter \<Rightarrow> bool" where
  "includes_meteora_dlmm f = includes_any f
     [Meteora_Dlmm MeteoraDlmmSwap,
      Meteora_Dlmm MeteoraDlmmAddLiquidity,
      Meteora_Dlmm MeteoraDlmmRemoveLiquidity,
      Meteora_Dlmm MeteoraDlmmInitializePool,
      Meteora_Dlmm MeteoraDlmmInitializeBinArray,
      Meteora_Dlmm MeteoraDlmmCreatePosition,
      Meteora_Dlmm MeteoraDlmmClosePosition,
      Meteora_Dlmm MeteoraDlmmClaimFee]"

definition includes_meteora_dbc :: "event_type_filter \<Rightarrow> bool" where
  "includes_meteora_dbc f = includes_any f
     [Meteora_Dbc MeteoraDbcSwap,
      Meteora_Dbc MeteoraDbcInitializePool,
      Meteora_Dbc MeteoraDbcCurveComplete]"

lemmas coarse_defs =
  includes_pumpfun_def
  includes_meteora_damm_v2_def
  includes_pump_fees_def
  includes_pumpswap_def
  includes_raydium_launchlab_def
  includes_raydium_cpmm_def
  includes_raydium_clmm_def
  includes_raydium_amm_v4_def
  includes_orca_whirlpool_def
  includes_meteora_pools_def
  includes_meteora_dlmm_def
  includes_meteora_dbc_def

section \<open>Properties\<close>

lemma includes_any_hit: "t \<in> set ts \<Longrightarrow> should_include f t \<Longrightarrow> includes_any f ts"
  by (auto simp: includes_any_def list_ex_iff)

text \<open>
  C26. The coarse tests are complete: whenever the filter wants some event type of a protocol, the
  protocol's coarse test holds, so skipping a protocol on its coarse test never loses a wanted event.
\<close>

theorem coarse_tests_complete:
  "(\<forall>t. should_include f (Pump_Fun t) \<longrightarrow> includes_pumpfun f) \<and>
   (\<forall>t. should_include f (Pump_Fees t) \<longrightarrow> includes_pump_fees f) \<and>
   (\<forall>t. should_include f (Pump_Swap t) \<longrightarrow> includes_pumpswap f) \<and>
   (\<forall>t. should_include f (Raydium_Launchlab t) \<longrightarrow> includes_raydium_launchlab f) \<and>
   (\<forall>t. should_include f (Raydium_Cpmm t) \<longrightarrow> includes_raydium_cpmm f) \<and>
   (\<forall>t. should_include f (Raydium_Clmm t) \<longrightarrow> includes_raydium_clmm f) \<and>
   (\<forall>t. should_include f (Raydium_Amm_V4 t) \<longrightarrow> includes_raydium_amm_v4 f) \<and>
   (\<forall>t. should_include f (Orca_Whirlpool t) \<longrightarrow> includes_orca_whirlpool f) \<and>
   (\<forall>t. should_include f (Meteora_Pools t) \<longrightarrow> includes_meteora_pools f) \<and>
   (\<forall>t. should_include f (Meteora_Damm_V2 t) \<longrightarrow> includes_meteora_damm_v2 f) \<and>
   (\<forall>t. should_include f (Meteora_Dbc t) \<longrightarrow> includes_meteora_dbc f) \<and>
   (\<forall>t. should_include f (Meteora_Dlmm t) \<longrightarrow> includes_meteora_dlmm f)"
proof (intro conjI allI impI)
  fix t show "should_include f (Pump_Fun t) \<Longrightarrow> includes_pumpfun f"
    unfolding includes_pumpfun_def by (rule includes_any_hit [of "Pump_Fun t"]) (cases t; simp)
next
  fix t show "should_include f (Pump_Fees t) \<Longrightarrow> includes_pump_fees f"
    unfolding includes_pump_fees_def by (rule includes_any_hit [of "Pump_Fees t"]) (cases t; simp)
next
  fix t show "should_include f (Pump_Swap t) \<Longrightarrow> includes_pumpswap f"
    unfolding includes_pumpswap_def by (rule includes_any_hit [of "Pump_Swap t"]) (cases t; simp)
next
  fix t show "should_include f (Raydium_Launchlab t) \<Longrightarrow> includes_raydium_launchlab f"
    unfolding includes_raydium_launchlab_def by (rule includes_any_hit [of "Raydium_Launchlab t"]) (cases t; simp)
next
  fix t show "should_include f (Raydium_Cpmm t) \<Longrightarrow> includes_raydium_cpmm f"
    unfolding includes_raydium_cpmm_def by (rule includes_any_hit [of "Raydium_Cpmm t"]) (cases t; simp)
next
  fix t show "should_include f (Raydium_Clmm t) \<Longrightarrow> includes_raydium_clmm f"
    unfolding includes_raydium_clmm_def by (rule includes_any_hit [of "Raydium_Clmm t"]) (cases t; simp)
next
  fix t show "should_include f (Raydium_Amm_V4 t) \<Longrightarrow> includes_raydium_amm_v4 f"
    unfolding includes_raydium_amm_v4_def by (rule includes_any_hit [of "Raydium_Amm_V4 t"]) (cases t; simp)
next
  fix t show "should_include f (Orca_Whirlpool t) \<Longrightarrow> includes_orca_whirlpool f"
    unfolding includes_orca_whirlpool_def by (rule includes_any_hit [of "Orca_Whirlpool t"]) (cases t; simp)
next
  fix t show "should_include f (Meteora_Pools t) \<Longrightarrow> includes_meteora_pools f"
    unfolding includes_meteora_pools_def by (rule includes_any_hit [of "Meteora_Pools t"]) (cases t; simp)
next
  fix t show "should_include f (Meteora_Damm_V2 t) \<Longrightarrow> includes_meteora_damm_v2 f"
    unfolding includes_meteora_damm_v2_def by (rule includes_any_hit [of "Meteora_Damm_V2 t"]) (cases t; simp)
next
  fix t show "should_include f (Meteora_Dbc t) \<Longrightarrow> includes_meteora_dbc f"
    unfolding includes_meteora_dbc_def by (rule includes_any_hit [of "Meteora_Dbc t"]) (cases t; simp)
next
  fix t show "should_include f (Meteora_Dlmm t) \<Longrightarrow> includes_meteora_dlmm f"
    unfolding includes_meteora_dlmm_def by (rule includes_any_hit [of "Meteora_Dlmm t"]) (cases t; simp)
qed

theorem coarse_tests_complete_witness:
  "should_include (include_only_filter [Pump_Fun PumpFunTrade]) (Pump_Fun PumpFunSell) \<and>
   includes_pumpfun (include_only_filter [Pump_Fun PumpFunTrade]) \<and>
   \<not> includes_pumpswap (include_only_filter [Pump_Fun PumpFunTrade])"
proof -
  have yes: "should_include (include_only_filter [Pump_Fun PumpFunTrade]) (Pump_Fun PumpFunSell)"
    by (simp add: should_include_def include_only_filter_def included_by_def is_pumpfun_side_def
        pumpfun_trade_filter_is_generic_def)
  have "\<not> includes_pumpswap (include_only_filter [Pump_Fun PumpFunTrade])"
    by (simp add: includes_pumpswap_def includes_any_def should_include_def include_only_filter_def
        included_by_def is_pumpfun_side_def is_pumpfun_create_family_def is_pumpswap_side_def)
  with yes coarse_tests_complete [of "include_only_filter [Pump_Fun PumpFunTrade]", THEN conjunct1]
  show ?thesis by blast
qed

lemma generic_trade_metadata: "metadata (generic_trade e) = metadata e"
  by (induction e rule: generic_trade.induct) simp_all

lemma generic_buy_metadata: "metadata (generic_buy e) = metadata e"
  by (induction e rule: generic_buy.induct) simp_all

lemma generic_trade_idem: "generic_trade (generic_trade e) = generic_trade e"
  by (induction e rule: generic_trade.induct) simp_all

lemma generic_buy_idem: "generic_buy (generic_buy e) = generic_buy e"
  by (induction e rule: generic_buy.induct) simp_all

lemma wanted_trade:
  "include_only f = Some ts \<Longrightarrow> exclude_types f = None \<Longrightarrow> Pump_Fun PumpFunTrade \<in> set ts \<Longrightarrow>
     should_include_dex_event f (Pump_Fun_Event (PumpFunTrade_Event e))"
  by (simp add: should_include_dex_event_def includes_unresolved_pumpfun_def should_include_def included_by_def)

lemma wanted_buy:
  "include_only f = Some ts \<Longrightarrow> Pump_Fun PumpFunBuy \<in> set ts \<Longrightarrow>
     should_include_dex_event f (Pump_Fun_Event (PumpFunBuy_Event e))"
  by (simp add: should_include_dex_event_def should_include_def included_by_def)

lemma generic_trade_wanted:
  assumes "should_include_dex_event f e" "include_only f = Some ts" "exclude_types f = None"
    and "pumpfun_trade_filter_is_generic ts"
  shows "should_include_dex_event f (generic_trade e)"
  using assms(1,4) wanted_trade [OF assms(2,3)]
  by (induction e rule: generic_trade.induct) (simp_all add: pumpfun_trade_filter_is_generic_def)

lemma generic_buy_wanted:
  assumes "should_include_dex_event f e" "include_only f = Some ts" "pumpfun_buy_filter_is_generic ts"
  shows "should_include_dex_event f (generic_buy e)"
  using assms(1,3) wanted_buy [OF assms(2)]
  by (induction e rule: generic_buy.induct) (simp_all add: pumpfun_buy_filter_is_generic_def)

lemma normalize_wanted:
  assumes "should_include_dex_event f e" "include_only f = None \<or> exclude_types f = None"
  shows "should_include_dex_event f (normalize_dex_event f e)"
  using assms generic_trade_wanted [OF assms(1)] generic_buy_wanted [OF assms(1)]
  by (cases "include_only f") (auto simp: normalize_dex_event_def)


definition demo_trade :: pumpfun_trade_event where
  "demo_trade = default_trade\<lparr>pt_ix_name := ''buy'', pt_sol_amount := 1, pt_token_amount := 2\<rparr>"


text \<open>
  Include and exclude lists are consistent: no type wanted by including a list survives excluding the
  same list, and with either kind of list the two create variants, and the two sides of a
  PumpSwap trade under its generic type, are treated alike.
\<close>

theorem include_exclude_consistent:
  "\<not> (should_include (include_only_filter ts) t \<and> should_include (exclude_types_filter ts) t) \<and>
   should_include (include_only_filter ts) (Pump_Fun PumpFunCreate) =
     should_include (include_only_filter ts) (Pump_Fun PumpFunCreateV2) \<and>
   should_include (exclude_types_filter ts) (Pump_Fun PumpFunCreate) =
     should_include (exclude_types_filter ts) (Pump_Fun PumpFunCreateV2)"
  by (auto simp: should_include_def include_only_filter_def exclude_types_filter_def included_by_def
      excluded_by_def is_pumpfun_side_def is_pumpfun_create_family_def is_pumpswap_side_def
      pumpfun_trade_filter_is_generic_def pumpfun_buy_filter_is_generic_def list_ex_iff split: if_splits)

end
