(* ===== verification/Creator_Fee.thy ===== *)
theory Creator_Fee
  imports Program_Ids
begin

text \<open>
  The CPMM creator-fee helpers (\<open>src/cpmm_creator_fee.rs\<close>): upgrading a collection instruction in place
  and splitting an accrued fee. The address derivation of the runtime (\<open>find_program_address\<close>) is the
  parameter \<open>derive\<close>. The split is computed on 64- and 128-bit words as the code does and shown equal
  to the exact quotient.
\<close>

section \<open>Upgrading a collection instruction\<close>

definition COLLECT_CREATOR_FEE :: bytes where
  "COLLECT_CREATOR_FEE = [20, 22, 86, 123, 198, 28, 219, 132]"

definition COLLECT_CREATOR_FEE_PERMISSIONLESS :: bytes where
  "COLLECT_CREATOR_FEE_PERMISSIONLESS = [202, 202, 34, 83, 226, 122, 145, 229]"

record account_meta =
  am_pubkey :: pubkey
  am_is_signer :: bool
  am_is_writable :: bool

record instruction =
  ix_program_id :: pubkey
  ix_accounts :: "account_meta list"
  ix_data :: bytes

type_synonym address_derivation = "bytes list \<Rightarrow> pubkey \<Rightarrow> pubkey \<times> u8"

text \<open>The seed text \<open>creator_fee_share\<close> as bytes.\<close>

definition creator_fee_share_seed :: bytes where
  "creator_fee_share_seed =
     [99, 114, 101, 97, 116, 111, 114, 95, 102, 101, 101, 95, 115, 104, 97, 114, 101]"

definition derive_creator_fee_share :: "address_derivation \<Rightarrow> pubkey \<Rightarrow> pubkey \<Rightarrow> pubkey \<times> u8" where
  "derive_creator_fee_share derive creator amm_config =
     derive [creator_fee_share_seed, creator, amm_config] RAYDIUM_CPMM_PROGRAM_ID"

datatype collection_upgrade_error =
  WrongProgram | WrongInstruction | WrongAccountCount | WrongConfig | WrongShareAddress | UnexpectedSigner

definition new_readonly :: "pubkey \<Rightarrow> bool \<Rightarrow> account_meta" where
  "new_readonly key signer = \<lparr>am_pubkey = key, am_is_signer = signer, am_is_writable = False\<rparr>"

text \<open>The match on the data: whether the call is the permissionless one.\<close>

definition collection_kind :: "bytes \<Rightarrow> bool option" where
  "collection_kind d =
     (if d = COLLECT_CREATOR_FEE then Some False
      else if d = COLLECT_CREATOR_FEE_PERMISSIONLESS then Some True
      else None)"

definition upgraded_count :: "bool \<Rightarrow> nat" where
  "upgraded_count permissionless = (if permissionless then 16 else 15)"

definition upgrade_creator_fee_collection_instruction ::
  "address_derivation \<Rightarrow> instruction \<Rightarrow> pubkey \<Rightarrow> (collection_upgrade_error + pubkey) \<times> instruction" where
  "upgrade_creator_fee_collection_instruction derive ix amm_config =
     (if ix_program_id ix \<noteq> RAYDIUM_CPMM_PROGRAM_ID then (Inl WrongProgram, ix)
      else case collection_kind (ix_data ix) of
        None \<Rightarrow> (Inl WrongInstruction, ix)
      | Some permissionless \<Rightarrow>
          (let count = upgraded_count permissionless;
               accounts = ix_accounts ix
           in if length accounts \<noteq> 14 \<and> length accounts \<noteq> count then (Inl WrongAccountCount, ix)
              else if \<not> permissionless \<and> am_pubkey (accounts ! 3) \<noteq> amm_config then (Inl WrongConfig, ix)
              else
                (let creator = am_pubkey (accounts ! of_bool permissionless);
                     share = fst (derive_creator_fee_share derive creator amm_config)
                 in if length accounts = count
                    then (if permissionless \<and> am_pubkey (accounts ! 14) \<noteq> amm_config then (Inl WrongConfig, ix)
                          else if am_pubkey (accounts ! (count - 1)) \<noteq> share then (Inl WrongShareAddress, ix)
                          else if list_ex am_is_signer (drop 14 accounts) then (Inl UnexpectedSigner, ix)
                          else (Inr share, ix))
                    else (Inr share,
                          ix\<lparr>ix_accounts := accounts @ (if permissionless then [new_readonly amm_config False] else [])
                              @ [new_readonly share False]\<rparr>))))"

section \<open>Splitting a fee\<close>

definition CREATOR_FEE_SHARE_DENOMINATOR :: u64 where
  "CREATOR_FEE_SHARE_DENOMINATOR = 1000000"

record creator_fee_split =
  creator_amount :: u64
  protocol_amount :: u64

definition effective_creator_fee_share_rate :: "u64 \<Rightarrow> u64 option \<Rightarrow> u64 option" where
  "effective_creator_fee_share_rate config_rate override_rate =
     (let rate = (case override_rate of None \<Rightarrow> config_rate | Some r \<Rightarrow> r)
      in if rate \<le> CREATOR_FEE_SHARE_DENOMINATOR then Some rate else None)"

definition split_creator_fee :: "u64 \<Rightarrow> u64 \<Rightarrow> creator_fee_split option" where
  "split_creator_fee accrued_fee share_rate =
     (if share_rate > CREATOR_FEE_SHARE_DENOMINATOR then None
      else
        (let protocol =
           (ucast ((ucast accrued_fee * ucast share_rate :: u128) div ucast CREATOR_FEE_SHARE_DENOMINATOR) :: u64)
         in Some \<lparr>creator_amount = accrued_fee - protocol, protocol_amount = protocol\<rparr>))"

section \<open>Properties\<close>

lemma upgraded_count_gt: "14 < upgraded_count p"
  by (simp add: upgraded_count_def)

text \<open>What each result means.\<close>

lemma upgrade_Inl: "upgrade_creator_fee_collection_instruction derive ix c = (Inl e, ix') \<Longrightarrow> ix' = ix"
  by (auto simp: upgrade_creator_fee_collection_instruction_def Let_def split: if_splits option.splits)

lemma upgrade_Inr:
  assumes "upgrade_creator_fee_collection_instruction derive ix c = (Inr share, ix')"
  obtains p where "ix_program_id ix = RAYDIUM_CPMM_PROGRAM_ID" "collection_kind (ix_data ix) = Some p"
    "p \<or> am_pubkey (ix_accounts ix ! 3) = c"
    "share = fst (derive_creator_fee_share derive (am_pubkey (ix_accounts ix ! of_bool p)) c)"
    "(length (ix_accounts ix) = upgraded_count p \<and> ix' = ix \<and> (p \<longrightarrow> am_pubkey (ix_accounts ix ! 14) = c) \<and>
       am_pubkey (ix_accounts ix ! (upgraded_count p - 1)) = share \<and> \<not> list_ex am_is_signer (drop 14 (ix_accounts ix))) \<or>
     (length (ix_accounts ix) = 14 \<and>
       ix' = ix\<lparr>ix_accounts := ix_accounts ix @ (if p then [new_readonly c False] else []) @ [new_readonly share False]\<rparr>)"
  using assms
  by (auto simp: upgrade_creator_fee_collection_instruction_def Let_def split: if_splits option.splits)


definition demo_meta :: "u8 \<Rightarrow> account_meta" where
  "demo_meta b = \<lparr>am_pubkey = replicate 32 b, am_is_signer = (b = 0), am_is_writable = True\<rparr>"

definition demo_collection :: instruction where
  "demo_collection = \<lparr>ix_program_id = RAYDIUM_CPMM_PROGRAM_ID, ix_accounts = map demo_meta [0, 1, 2, 3, 4, 5, 6, 7, 8, 9, 10, 11, 12, 13],
     ix_data = COLLECT_CREATOR_FEE\<rparr>"

definition demo_derive :: address_derivation where
  "demo_derive seeds program = (take 32 (concat seeds), 255)"


lemma unat_ucast_64_128: "unat (ucast (x :: u64) :: u128) = unat x"
  using unsigned_less [of x, where 'a = nat] by (simp add: unsigned_ucast_eq take_bit_nat_eq_self)

lemma unat_mult_64_128: "unat (ucast (x :: u64) * ucast (y :: u64) :: u128) = unat x * unat y"
proof -
  have "unat x < 2 ^ 64" "unat y < 2 ^ 64"
    using unsigned_less [of x, where 'a = nat] unsigned_less [of y, where 'a = nat] by simp_all
  then have "unat x * unat y < 2 ^ 64 * 2 ^ 64" by (intro mult_strict_mono) simp_all
  then have "unat x * unat y < 2 ^ LENGTH(128)" by simp
  then show ?thesis by (simp only: unat_word_ariths unat_ucast_64_128 mod_less)
qed

text \<open>
  C33. The fee split is exact and conserves the fee: it is refused exactly for a rate above the
  denominator; otherwise the protocol gets the floor of fee times rate over one million, with no
  overflow on the way, and the two parts add up to the fee.
\<close>

theorem split_creator_fee_exact:
  "(split_creator_fee fee rate = None \<longleftrightarrow> CREATOR_FEE_SHARE_DENOMINATOR < rate) \<and>
   (\<forall>s. split_creator_fee fee rate = Some s \<longrightarrow>
      unat (protocol_amount s) = unat fee * unat rate div 1000000 \<and>
      unat (creator_amount s) + unat (protocol_amount s) = unat fee)"
proof (intro conjI allI impI)
  show "split_creator_fee fee rate = None \<longleftrightarrow> CREATOR_FEE_SHARE_DENOMINATOR < rate"
    by (simp add: split_creator_fee_def Let_def)
next
  fix s assume s: "split_creator_fee fee rate = Some s"
  let ?p = "(ucast fee * ucast rate :: u128) div ucast CREATOR_FEE_SHARE_DENOMINATOR"
  have rate: "rate \<le> CREATOR_FEE_SHARE_DENOMINATOR" and
    p: "protocol_amount s = ucast ?p" "creator_amount s = fee - ucast ?p"
    using s by (auto simp: split_creator_fee_def Let_def split: if_splits)
  have d: "unat (ucast CREATOR_FEE_SHARE_DENOMINATOR :: u128) = 1000000"
    by (simp add: CREATOR_FEE_SHARE_DENOMINATOR_def)
  have v: "unat ?p = unat fee * unat rate div 1000000"
    by (simp only: unat_div_distrib unat_mult_64_128 d)
  have "unat rate \<le> 1000000" using rate by (simp add: word_le_nat_alt CREATOR_FEE_SHARE_DENOMINATOR_def)
  then have "unat fee * unat rate div 1000000 \<le> unat fee * 1000000 div 1000000"
    by (intro div_le_mono mult_le_mono2)
  then have le: "unat fee * unat rate div 1000000 \<le> unat fee" by simp
  have "unat fee < 2 ^ 64" using unsigned_less [of fee, where 'a = nat] by simp
  then have q: "unat (ucast ?p :: u64) = unat fee * unat rate div 1000000"
    using le v by (simp add: unsigned_ucast_eq take_bit_nat_eq_self)
  then show "unat (protocol_amount s) = unat fee * unat rate div 1000000" by (simp add: p)
  have "(ucast ?p :: u64) \<le> fee" using q le by (simp add: word_le_nat_alt)
  then have "unat (fee - ucast ?p) = unat fee - unat (ucast ?p :: u64)" by (rule unat_sub)
  then show "unat (creator_amount s) + unat (protocol_amount s) = unat fee" using q le by (simp add: p)
qed

theorem split_creator_fee_exact_witness:
  "\<exists>s. split_creator_fee 18446744073709551615 999999 = Some s \<and>
     unat (protocol_amount s) = 18446725626965477905 \<and> unat (creator_amount s) = 18446744073710"
proof -
  obtain s where s: "split_creator_fee 18446744073709551615 999999 = Some s"
    using split_creator_fee_exact [of 18446744073709551615 999999, THEN conjunct1]
    by (auto simp: CREATOR_FEE_SHARE_DENOMINATOR_def)
  from split_creator_fee_exact [THEN conjunct2, rule_format, OF s] s show ?thesis by auto
qed

end
