(* ===== verification/StonkFun_Registry.thy ===== *)
theory StonkFun_Registry
  imports Event_Types Ordered_Map
begin

text \<open>
  The provenance index of graduated StonkFun pools (\<open>src/stonkfun_registry.rs\<close>): observing migration
  events, the queries and the persistent form. The JSON text itself is serde's; what is modelled is the
  list of entries that goes through it. A registry is well formed when its entries are sorted by pool,
  each under its own pool and with a valid identity; observing and reading back keep that.
\<close>

section \<open>Entries\<close>

record graduated_pool =
  gp_curve_pool :: pubkey
  gp_pool :: pubkey
  gp_base_mint :: pubkey
  gp_quote_mint :: pubkey
  gp_platform_config :: pubkey
  gp_migration_signature :: signature
  gp_migration_slot :: u64

type_synonym registry = "(pubkey, graduated_pool) btree"

definition gp_mode :: "graduated_pool \<Rightarrow> stonkfun_mode option" where
  "gp_mode e = stonkfun_mode_from_platform_config (gp_platform_config e)"

section \<open>Persistence\<close>

definition serialize_pools :: "registry \<Rightarrow> graduated_pool list" where
  "serialize_pools pools = map snd pools"

definition invalid_entry :: "graduated_pool \<Rightarrow> bool" where
  "invalid_entry e \<longleftrightarrow>
     gp_mode e = None \<or>
     default_pubkey \<in> set [gp_curve_pool e, gp_pool e, gp_base_mint e, gp_quote_mint e] \<or>
     gp_curve_pool e = gp_pool e \<or> gp_base_mint e = gp_quote_mint e"

fun deserialize_into :: "registry \<Rightarrow> graduated_pool list \<Rightarrow> registry option" where
  "deserialize_into pools [] = Some pools"
| "deserialize_into pools (entry # rest) =
     (if invalid_entry entry \<or> map_of pools (gp_pool entry) \<noteq> None then None
      else deserialize_into (bt_insert (gp_pool entry) entry pools) rest)"

definition deserialize_pools :: "graduated_pool list \<Rightarrow> registry option" where
  "deserialize_pools entries = deserialize_into [] entries"

section \<open>Queries\<close>

definition registry_get :: "registry \<Rightarrow> pubkey \<Rightarrow> graduated_pool option" where
  "registry_get pools pool = map_of pools pool"

definition pools_for_base_mint :: "registry \<Rightarrow> pubkey \<Rightarrow> graduated_pool list" where
  "pools_for_base_mint pools mint = filter (\<lambda>entry. gp_base_mint entry = mint) (map snd pools)"

definition verified_cpmm_pools :: "registry \<Rightarrow> pubkey list" where
  "verified_cpmm_pools pools = map fst pools"

section \<open>Observing events\<close>

definition ma_mode :: "launchlab_migrate_amm_event \<Rightarrow> stonkfun_mode option" where
  "ma_mode e = stonkfun_mode_from_platform_config (ma_platform_config e)"

definition from_migration :: "launchlab_migrate_amm_event \<Rightarrow> graduated_pool option" where
  "from_migration e =
     (if ma_mode e = None \<or> ma_destination_program e \<noteq> RAYDIUM_CPMM_PROGRAM_ID \<or>
         default_pubkey \<in> set [ma_old_pool e, ma_new_pool e, ma_base_mint e, ma_quote_mint e] \<or>
         ma_old_pool e = ma_new_pool e \<or> ma_base_mint e = ma_quote_mint e
      then None
      else Some \<lparr>gp_curve_pool = ma_old_pool e, gp_pool = ma_new_pool e, gp_base_mint = ma_base_mint e,
                 gp_quote_mint = ma_quote_mint e, gp_platform_config = ma_platform_config e,
                 gp_migration_signature = em_signature (ma_metadata e),
                 gp_migration_slot = em_slot (ma_metadata e)\<rparr>)"

text \<open>The entry an event contributes: none for any other event.\<close>

fun migration_entry :: "'p dex_event \<Rightarrow> graduated_pool option" where
  "migration_entry (Raydium_Launchlab_Event (RaydiumLaunchlabMigrateAmm_Event e)) = from_migration e"
| "migration_entry _ = None"

text \<open>The loop over the events. The error names the pool whose provenance conflicts.\<close>

fun collect_pending :: "registry \<Rightarrow> 'p dex_event list \<Rightarrow> registry \<Rightarrow> pubkey + registry" where
  "collect_pending pools [] pending = Inr pending"
| "collect_pending pools (event # rest) pending =
     (case migration_entry event of
        None \<Rightarrow> collect_pending pools rest pending
      | Some entry \<Rightarrow>
          (case (case map_of pending (gp_pool entry) of
                   Some p \<Rightarrow> Some p | None \<Rightarrow> map_of pools (gp_pool entry)) of
             Some previous \<Rightarrow>
               if previous \<noteq> entry then Inl (gp_pool entry)
               else collect_pending pools rest pending
           | None \<Rightarrow> collect_pending pools rest (bt_insert (gp_pool entry) entry pending)))"

definition bt_extend :: "('k::linorder, 'v) btree \<Rightarrow> ('k, 'v) btree \<Rightarrow> ('k, 'v) btree" where
  "bt_extend m new = foldl (\<lambda>m (k, v). bt_insert k v m) m new"

definition observe_events :: "'p dex_event list \<Rightarrow> bool \<Rightarrow> registry \<Rightarrow> (pubkey + nat) \<times> registry" where
  "observe_events events succeeded pools =
     (if \<not> succeeded then (Inr 0, pools)
      else case collect_pending pools events [] of
        Inl pool \<Rightarrow> (Inl pool, pools)
      | Inr pending \<Rightarrow> (Inr (length pending), bt_extend pools pending))"

section \<open>Well-formed registries\<close>

definition registry_ok :: "registry \<Rightarrow> bool" where
  "registry_ok pools \<longleftrightarrow>
     bt_ok pools \<and> (\<forall>e \<in> set pools. gp_pool (snd e) = fst e \<and> \<not> invalid_entry (snd e))"

lemma registry_ok_lookup:
  "registry_ok pools \<Longrightarrow> map_of pools k = Some e \<Longrightarrow> gp_pool e = k \<and> \<not> invalid_entry e"
  by (force simp: registry_ok_def dest: map_of_SomeD)

lemma set_bt_insert: "set (bt_insert k v m) \<subseteq> insert (k, v) (set m)"
  by (induction k v m rule: bt_insert.induct) auto

lemma registry_ok_insert:
  "registry_ok pools \<Longrightarrow> \<not> invalid_entry e \<Longrightarrow> registry_ok (bt_insert (gp_pool e) e pools)"
  using set_bt_insert [of "gp_pool e" e pools] by (auto simp: registry_ok_def)

lemma from_migration_valid: "from_migration e = Some g \<Longrightarrow> \<not> invalid_entry g"
  by (auto simp: from_migration_def invalid_entry_def ma_mode_def gp_mode_def split: if_splits)

lemma migration_entry_valid: "migration_entry ev = Some g \<Longrightarrow> \<not> invalid_entry g"
  by (cases ev rule: migration_entry.cases) (auto dest: from_migration_valid)

lemma map_of_bt_extend:
  "bt_ok m \<Longrightarrow> bt_ok n \<Longrightarrow> bt_ok (bt_extend m n) \<and>
     map_of (bt_extend m n) k = (case map_of n k of Some v \<Rightarrow> Some v | None \<Rightarrow> map_of m k)"
proof (induction n arbitrary: m)
  case (Cons e n)
  obtain j v where e: "e = (j, v)" by (cases e)
  have ok: "bt_ok (bt_insert j v m)" "bt_ok n" using Cons.prems e by (auto simp: bt_ok_Cons)
  have "map_of n j = None" using Cons.prems(2) e by (force simp: bt_ok_Cons map_of_eq_None_iff)
  then show ?case
    using Cons.IH [OF ok] Cons.prems(1) e by (auto simp: bt_extend_def store_simps split: option.splits)
qed (simp add: bt_extend_def)

lemma registry_ok_extend:
  "registry_ok m \<Longrightarrow> registry_ok n \<Longrightarrow> registry_ok (bt_extend m n)"
proof (induction n arbitrary: m)
  case (Cons e n)
  obtain j v where e: "e = (j, v)" by (cases e)
  have "registry_ok n" "gp_pool v = j" "\<not> invalid_entry v"
    using Cons.prems(2) e by (auto simp: registry_ok_def bt_ok_Cons)
  then show ?case
    using Cons.IH registry_ok_insert [OF Cons.prems(1)] e by (fastforce simp: bt_extend_def)
qed (simp add: bt_extend_def)

lemma bt_eq:
  assumes "bt_ok m" "bt_ok n" "\<And>k. map_of m k = map_of n k"
  shows "m = n"
proof -
  have "set m = set n"
    using assms bt_ok_distinct [OF assms(1)] bt_ok_distinct [OF assms(2)]
    by (metis map_of_eq_Some_iff subsetI subset_antisym surj_pair)
  moreover have "sorted (map fst m)" "sorted (map fst n)"
    using assms(1,2) by (auto simp: bt_ok_def strict_sorted_iff)
  moreover have "inj_on fst (set m)" using bt_ok_distinct [OF assms(1)] by (simp add: distinct_map)
  ultimately show ?thesis
    using bt_ok_distinct [OF assms(1)] bt_ok_distinct [OF assms(2)]
    by (intro map_sorted_distinct_set_unique [of fst m n]) simp_all
qed

lemma collect_pending_Inr:
  "collect_pending pools events pending = Inr p' \<Longrightarrow> registry_ok pending \<Longrightarrow>
     dom (map_of pending) \<inter> dom (map_of pools) = {} \<Longrightarrow>
     registry_ok p' \<and> dom (map_of p') \<inter> dom (map_of pools) = {} \<and>
     (\<forall>k e. map_of pending k = Some e \<longrightarrow> map_of p' k = Some e) \<and>
     (\<forall>ev \<in> set events. \<forall>g. migration_entry ev = Some g \<longrightarrow>
        map_of p' (gp_pool g) = Some g \<or> map_of pools (gp_pool g) = Some g)"
proof (induction pools events pending rule: collect_pending.induct)
  case (2 pools event rest pending)
  show ?case
  proof (cases "migration_entry event")
    case None
    then show ?thesis using 2 by simp
  next
    case (Some entry)
    let ?k = "gp_pool entry"
    let ?old = "case map_of pending ?k of Some p \<Rightarrow> Some p | None \<Rightarrow> map_of pools ?k"
    show ?thesis
    proof (cases ?old)
      case old: (Some previous)
      then have "previous = entry" and rest: "collect_pending pools rest pending = Inr p'"
        using 2(4) Some by (auto split: if_splits option.splits)
      then have "map_of pending ?k = Some entry \<or> map_of pools ?k = Some entry"
        using old by (auto split: option.splits)
      then show ?thesis
        using 2(3) [OF Some old _ rest 2(5,6)] \<open>previous = entry\<close> Some by auto
    next
      case None
      then have none: "map_of pending ?k = None" "map_of pools ?k = None" by (auto split: option.splits)
      have rest: "collect_pending pools rest (bt_insert ?k entry pending) = Inr p'"
        using 2(4) Some none by simp
      have ok: "registry_ok (bt_insert ?k entry pending)"
        using 2(5) migration_entry_valid [OF Some] by (rule registry_ok_insert)
      have bt: "bt_ok pending" using 2(5) by (simp add: registry_ok_def)
      have "dom (map_of (bt_insert ?k entry pending)) \<inter> dom (map_of pools) = {}"
        using 2(6) none bt by (auto simp: store_simps dom_def split: if_splits)
      from 2(2) [OF Some None rest ok this] have ih: "registry_ok p'"
        "dom (map_of p') \<inter> dom (map_of pools) = {}"
        "\<And>k e. map_of (bt_insert ?k entry pending) k = Some e \<Longrightarrow> map_of p' k = Some e"
        "\<forall>ev \<in> set rest. \<forall>g. migration_entry ev = Some g \<longrightarrow>
           map_of p' (gp_pool g) = Some g \<or> map_of pools (gp_pool g) = Some g" by auto
      have "map_of p' ?k = Some entry" using ih(3) bt by (simp add: store_simps)
      moreover have "map_of p' k = Some e" if "map_of pending k = Some e" for k e
      proof (rule ih(3))
        have "k \<noteq> ?k" using that none by auto
        then show "map_of (bt_insert ?k entry pending) k = Some e" using that bt by (simp add: store_simps)
      qed
      ultimately show ?thesis using ih(1,2,4) Some by auto
    qed
  qed
qed simp

lemma collect_pending_known:
  "(\<And>ev g. ev \<in> set events \<Longrightarrow> migration_entry ev = Some g \<Longrightarrow> map_of pools (gp_pool g) = Some g) \<Longrightarrow>
     collect_pending pools events [] = Inr []"
proof (induction events)
  case (Cons ev events)
  have "collect_pending pools events [] = Inr []" using Cons.prems by (intro Cons.IH) auto
  moreover have "migration_entry ev = Some g \<Longrightarrow> map_of pools (gp_pool g) = Some g" for g
    using Cons.prems [of ev g] by simp
  ultimately show ?case by (cases "migration_entry ev") auto
qed simp

section \<open>Properties\<close>


definition demo_migration :: "u8 \<Rightarrow> unit dex_event" where
  "demo_migration b = Raydium_Launchlab_Event (RaydiumLaunchlabMigrateAmm_Event
     \<lparr>ma_metadata = default_metadata, ma_old_pool = replicate 32 (b + 1), ma_new_pool = replicate 32 b,
      ma_user = [], ma_liquidity_amount = 0, ma_liquidity_amount_known = False,
      ma_base_mint = replicate 32 7, ma_quote_mint = replicate 32 8,
      ma_platform_config = STONKFUN_REWARD_PLATFORM_CONFIG,
      ma_destination_program = RAYDIUM_CPMM_PROGRAM_ID\<rparr>)"

lemma demo_collect: "\<exists>p. collect_pending [] [demo_migration 3, demo_migration 3] [] = Inr p"
    "\<exists>p. collect_pending [] [demo_migration 3] [] = Inr p"
  by (simp_all add: demo_migration_def from_migration_def ma_mode_def stonkfun_mode_from_platform_config_def
      default_metadata_def)


lemma bt_insert_last: "(\<forall>e \<in> set m. fst e < k) \<Longrightarrow> bt_insert k v m = m @ [(k, v)]"
  by (induction k v m rule: bt_insert.induct) auto

lemma deserialize_appends:
  "registry_ok (pools @ m) \<Longrightarrow> deserialize_into pools (map snd m) = Some (pools @ m)"
proof (induction m arbitrary: pools)
  case (Cons e m)
  obtain k v where e: "e = (k, v)" by (cases e)
  have v: "gp_pool v = k" "\<not> invalid_entry v" using Cons.prems e by (auto simp: registry_ok_def)
  have below: "\<forall>e \<in> set pools. fst e < k"
    using Cons.prems e by (auto simp: registry_ok_def bt_ok_def sorted_wrt_append)
  then have "map_of pools k = None" by (force simp: map_of_eq_None_iff)
  then show ?case
    using Cons.IH [of "pools @ [(k, v)]"] Cons.prems bt_insert_last [OF below, of v] v e by simp
qed simp

lemma deserialize_into_ok:
  "deserialize_into pools es = Some r \<Longrightarrow> registry_ok pools \<Longrightarrow> registry_ok r"
  by (induction pools es rule: deserialize_into.induct) (auto split: if_splits intro: registry_ok_insert)

text \<open>
  C35. Persistence: a well-formed registry read back from its serialised entries is the same registry, and
  whatever list of entries is read back successfully gives a well-formed registry.
\<close>

theorem registry_round_trip:
  "(registry_ok pools \<longrightarrow> deserialize_pools (serialize_pools pools) = Some pools) \<and>
   (deserialize_pools es = Some r \<longrightarrow> registry_ok r)"
  using deserialize_appends [of "[]" pools] deserialize_into_ok [of "[]" es r]
  by (simp add: deserialize_pools_def serialize_pools_def registry_ok_def)

theorem registry_round_trip_witness:
  "\<exists>n pools. observe_events [demo_migration 3] True [] = (Inr n, pools) \<and>
     deserialize_pools (serialize_pools pools) = Some pools"
proof -
  obtain p where p: "collect_pending [] [demo_migration 3] [] = Inr p" using demo_collect(2) ..
  have "registry_ok p" using collect_pending_Inr [OF p] by (simp add: registry_ok_def)
  then have "registry_ok (bt_extend [] p)" using registry_ok_extend [of "[]" p] by (simp add: registry_ok_def)
  with registry_round_trip [THEN conjunct1, rule_format] p show ?thesis
    by (simp add: observe_events_def del: collect_pending.simps)
qed

end
