(* ===== verification/Instr_Utils.thy ===== *)
theory Instr_Utils
  imports Event_Types "HOL-Library.Monad_Syntax"
begin

text \<open>
  The instruction-data helpers of \<open>src/instr/utils.rs\<close> (and \<open>read_pubkey\<close> of \<open>src/logs/utils.rs\<close>): the
  bounds-checked little-endian readers, the optional tail of \<open>create_v2\<close>, Borsh strings and vectors, the
  basis-point estimates, and the account getters over the protobuf transaction types, whose records
  hold the fields the code reads. A \<open>&str\<close> is its bytes, checked to be UTF-8. The
  slice binary search of the standard library is a parameter, since its choice among equal keys is
  not specified.
\<close>

section \<open>Readers\<close>

definition read_slice :: "nat \<Rightarrow> bytes \<Rightarrow> nat \<Rightarrow> bytes option" where
  "read_slice w data offset = do { e \<leftarrow> usize_checked_add offset w; get_range offset e data }"

definition from_le :: "bytes \<Rightarrow> 'a::len word" where
  "from_le bs = word_of_nat (le_nat bs)"

definition read_u64_le :: "bytes \<Rightarrow> nat \<Rightarrow> u64 option" where
  "read_u64_le data offset = map_option from_le (read_slice 8 data offset)"

definition read_u32_le :: "bytes \<Rightarrow> nat \<Rightarrow> u32 option" where
  "read_u32_le data offset = map_option from_le (read_slice 4 data offset)"

definition read_u16_le :: "bytes \<Rightarrow> nat \<Rightarrow> u16 option" where
  "read_u16_le data offset = map_option from_le (read_slice 2 data offset)"

definition read_u128_le :: "bytes \<Rightarrow> nat \<Rightarrow> u128 option" where
  "read_u128_le data offset = map_option from_le (read_slice 16 data offset)"

definition read_i64_le :: "bytes \<Rightarrow> nat \<Rightarrow> int option" where
  "read_i64_le data offset = map_option (\<lambda>bs. sint (from_le bs :: u64)) (read_slice 8 data offset)"

definition read_i32_le :: "bytes \<Rightarrow> nat \<Rightarrow> int option" where
  "read_i32_le data offset = map_option (\<lambda>bs. sint (from_le bs :: u32)) (read_slice 4 data offset)"

definition read_u8 :: "bytes \<Rightarrow> nat \<Rightarrow> u8 option" where
  "read_u8 data offset = get_at offset data"

definition read_option_bool_idl :: "bytes \<Rightarrow> nat \<Rightarrow> bool option" where
  "read_option_bool_idl data offset =
     do { b \<leftarrow> get_at offset data;
          if b = 0 then Some False else if b = 1 then Some True else None }"

definition read_bool :: "bytes \<Rightarrow> nat \<Rightarrow> bool option" where
  "read_bool data offset = read_option_bool_idl data offset"

definition read_option_u64_idl :: "bytes \<Rightarrow> nat \<Rightarrow> u64 option" where
  "read_option_u64_idl data offset = read_u64_le data offset"

definition read_pubkey :: "bytes \<Rightarrow> nat \<Rightarrow> pubkey option" where
  "read_pubkey data offset = read_slice 32 data offset"

definition read_pubkey_fast :: "bytes \<Rightarrow> pubkey" where
  "read_pubkey_fast bs = (case read_pubkey bs 0 of None \<Rightarrow> default_pubkey | Some k \<Rightarrow> k)"

definition read_bytes :: "bytes \<Rightarrow> nat \<Rightarrow> nat \<Rightarrow> bytes option" where
  "read_bytes data offset len = read_slice len data offset"

definition get_account :: "pubkey list \<Rightarrow> nat \<Rightarrow> pubkey option" where
  "get_account accounts index = get_at index accounts"

definition create_metadata :: "signature \<Rightarrow> u64 \<Rightarrow> u64 \<Rightarrow> int \<Rightarrow> int \<Rightarrow> event_metadata" where
  "create_metadata sig slot tx_index block_time_us grpc_recv_us =
     \<lparr>em_signature = sig, em_slot = slot, em_tx_index = tx_index, em_block_time_us = block_time_us,
      em_grpc_recv_us = grpc_recv_us, em_recent_blockhash = None\<rparr>"

text \<open>The clock reading is the parameter \<open>now\<close>.\<close>

definition create_metadata_simple :: "int \<Rightarrow> signature \<Rightarrow> u64 \<Rightarrow> u64 \<Rightarrow> int option \<Rightarrow> event_metadata" where
  "create_metadata_simple now sig slot tx_index block_time_us =
     create_metadata sig slot tx_index (case block_time_us of None \<Rightarrow> 0 | Some t \<Rightarrow> t) now"

section \<open>Basis points\<close>

definition saturating_sub :: "'a::len word \<Rightarrow> 'a word \<Rightarrow> 'a word" where
  "saturating_sub a b = (if b \<le> a then a - b else 0)"

definition ratio_bps :: "u64 \<Rightarrow> u64 \<Rightarrow> u16" where
  "ratio_bps part whole =
     (let r = (ucast part * 10000 :: u128) div ucast whole in ucast (min r 10000))"

definition calculate_slippage_bps :: "u64 \<Rightarrow> u64 \<Rightarrow> u16" where
  "calculate_slippage_bps amount_in amount_out_min =
     (if amount_in = 0 then 0 else ratio_bps (saturating_sub amount_in amount_out_min) amount_in)"

definition calculate_price_impact_bps :: "u64 \<Rightarrow> u64 \<Rightarrow> u64 \<Rightarrow> u16" where
  "calculate_price_impact_bps amount_in amount_out expected_out =
     (if expected_out = 0 then 0 else ratio_bps (saturating_sub expected_out amount_out) expected_out)"

section \<open>Strings and vectors\<close>

definition in_range :: "u8 \<Rightarrow> u8 \<Rightarrow> u8 \<Rightarrow> bool" where
  "in_range lo hi b \<longleftrightarrow> lo \<le> b \<and> b \<le> hi"

text \<open>Well-formed UTF-8: shortest forms, no surrogates, nothing above U+10FFFF.\<close>

fun utf8_ok :: "bytes \<Rightarrow> bool" where
  "utf8_ok [] = True"
| "utf8_ok (a # rest) =
     (if a \<le> 0x7f then utf8_ok rest
      else case rest of
        [] \<Rightarrow> False
      | b # rest2 \<Rightarrow>
          if in_range 0xc2 0xdf a then in_range 0x80 0xbf b \<and> utf8_ok rest2
          else case rest2 of
            [] \<Rightarrow> False
          | c # rest3 \<Rightarrow>
              if in_range 0xe0 0xef a
              then in_range (if a = 0xe0 then 0xa0 else 0x80) (if a = 0xed then 0x9f else 0xbf) b \<and>
                   in_range 0x80 0xbf c \<and> utf8_ok rest3
              else case rest3 of
                [] \<Rightarrow> False
              | d # rest4 \<Rightarrow>
                  in_range 0xf0 0xf4 a \<and>
                  in_range (if a = 0xf0 then 0x90 else 0x80) (if a = 0xf4 then 0x8f else 0xbf) b \<and>
                  in_range 0x80 0xbf c \<and> in_range 0x80 0xbf d \<and> utf8_ok rest4)"

text \<open>The bytes of the string and the bytes consumed with the length prefix.\<close>

definition read_str_unchecked :: "bytes \<Rightarrow> nat \<Rightarrow> (bytes \<times> nat) option" where
  "read_str_unchecked data offset =
     do {
       tail \<leftarrow> get_range offset (length data) data;
       len \<leftarrow> map_option unat (read_u32_le tail 0);
       body \<leftarrow> get_range 4 (length tail) tail;
       bs \<leftarrow> get_range 0 len body;
       consumed \<leftarrow> usize_checked_add len 4;
       if utf8_ok bs then Some (bs, consumed) else None
     }"

fun chunks_exact8 :: "bytes \<Rightarrow> u64 list" where
  "chunks_exact8 bs = (if length bs < 8 then [] else from_le (take 8 bs) # chunks_exact8 (drop 8 bs))"

declare chunks_exact8.simps [simp del]

definition read_vec_u64 :: "bytes \<Rightarrow> nat \<Rightarrow> u64 list option" where
  "read_vec_u64 data offset =
     do {
       tail \<leftarrow> get_range offset (length data) data;
       count \<leftarrow> map_option unat (read_u32_le tail 0);
       body \<leftarrow> get_range 4 (length tail) tail;
       n \<leftarrow> usize_checked_mul count 8;
       bs \<leftarrow> get_range 0 n body;
       Some (chunks_exact8 bs)
     }"

section \<open>The tail of \<open>create_v2\<close>\<close>

definition parse_create_v2_optional_tail :: "bytes \<Rightarrow> (bool \<times> u64 \<times> bool) option" where
  "parse_create_v2_optional_tail tail =
     (if tail = [] then Some (False, 0, False)
      else do {
        cashback \<leftarrow> read_option_bool_idl tail 0;
        if length tail = 1 then Some (cashback, 0, False)
        else do {
          fee \<leftarrow> read_u64_le tail 1;
          holder_reward \<leftarrow> (if length tail = 9 then Some False else read_option_bool_idl tail 9);
          Some (cashback, fee, holder_reward)
        }
      })"

definition parse_create_v2_tail_fields :: "bytes \<Rightarrow> (pubkey \<times> bool \<times> bool \<times> u64 \<times> bool) option" where
  "parse_create_v2_tail_fields data =
     do {
       (_, l1) \<leftarrow> read_str_unchecked data 0;
       (_, l2) \<leftarrow> read_str_unchecked data l1;
       (_, l3) \<leftarrow> read_str_unchecked data (l1 + l2);
       let offset = l1 + l2 + l3;
       if length data < offset + 32 + 1 then None
       else do {
         creator \<leftarrow> read_pubkey data offset;
         is_mayhem_mode \<leftarrow> read_option_bool_idl data (offset + 32);
         (is_cashback_enabled, creator_fee_bps, is_holder_reward) \<leftarrow>
           parse_create_v2_optional_tail (drop (offset + 33) data);
         Some (creator, is_mayhem_mode, is_cashback_enabled, creator_fee_bps, is_holder_reward)
       }
     }"

section \<open>Transactions\<close>

record compiled_instruction =
  ci_program_id_index :: u32
  ci_accounts :: bytes
  ci_data :: bytes

record inner_instruction =
  ii_program_id_index :: u32
  ii_accounts :: bytes
  ii_data :: bytes
  ii_stack_height :: "u32 option"

record inner_instructions =
  ig_index :: u32
  ig_instructions :: "inner_instruction list"

record tx_message =
  msg_account_keys :: "bytes list"
  msg_instructions :: "compiled_instruction list"

record transaction =
  tx_signatures :: "bytes list"
  tx_msg :: "tx_message option"

record token_balance =
  tb_account_index :: u32
  tb_mint :: string

record status_meta =
  tm_failed :: bool
  tm_inner_instructions :: "inner_instructions list"
  tm_pre_token_balances :: "token_balance list"
  tm_post_token_balances :: "token_balance list"
  tm_loaded_writable :: "bytes list"
  tm_loaded_readonly :: "bytes list"

section \<open>Account getters\<close>

text \<open>An \<open>i32\<close> is its 32-bit word; \<open>as usize\<close> sign-extends it.\<close>

definition i32_as_usize :: "u32 \<Rightarrow> nat" where
  "i32_as_usize x = unat (scast x :: u64)"

type_synonym group_search = "u32 list \<Rightarrow> u32 \<Rightarrow> nat option"

definition group_of :: "group_search \<Rightarrow> status_meta \<Rightarrow> u32 \<Rightarrow> inner_instructions option" where
  "group_of search meta outer_idx =
     (case Option.bind (search (map ig_index (tm_inner_instructions meta)) outer_idx)
             (\<lambda>pos. get_at pos (tm_inner_instructions meta)) of
        Some g \<Rightarrow> Some g
      | None \<Rightarrow> find (\<lambda>g. ig_index g = outer_idx) (tm_inner_instructions meta))"

definition outer_accounts :: "transaction option \<Rightarrow> u32 \<Rightarrow> bytes option" where
  "outer_accounts tx outer =
     do {
       t \<leftarrow> tx;
       m \<leftarrow> tx_msg t;
       ix \<leftarrow> get_at (i32_as_usize outer) (msg_instructions m);
       Some (ci_accounts ix)
     }"

text \<open>The closure both getters return, over the account indices of the instruction.\<close>

definition account_closure :: "bytes \<Rightarrow> bytes list option \<Rightarrow> bytes list \<Rightarrow> bytes list \<Rightarrow> nat \<Rightarrow> pubkey" where
  "account_closure accounts account_keys writable readonly acc_index =
     (case get_at acc_index accounts of
        None \<Rightarrow> default_pubkey
      | Some idx \<Rightarrow>
          (case account_keys of
             None \<Rightarrow> default_pubkey
           | Some keys \<Rightarrow>
               (case get_at (unat idx) keys of
                  Some key_bytes \<Rightarrow> read_pubkey_fast key_bytes
                | None \<Rightarrow>
                    (let writable_offset = unat idx - length keys
                     in case get_at writable_offset writable of
                          Some key_bytes \<Rightarrow> read_pubkey_fast key_bytes
                        | None \<Rightarrow>
                            (let readonly_offset = writable_offset - length writable
                             in case get_at readonly_offset readonly of
                                  Some key_bytes \<Rightarrow> read_pubkey_fast key_bytes
                                | None \<Rightarrow> default_pubkey)))))"

definition get_instruction_account_getter :: "group_search \<Rightarrow> status_meta \<Rightarrow> transaction option
    \<Rightarrow> bytes list option \<Rightarrow> bytes list \<Rightarrow> bytes list \<Rightarrow> u32 \<times> u32 \<Rightarrow> (nat \<Rightarrow> pubkey) option" where
  "get_instruction_account_getter search meta tx account_keys writable readonly index =
     do {
       accounts \<leftarrow>
         (if sint (snd index) \<ge> 0
          then do {
            g \<leftarrow> group_of search meta (fst index);
            ix \<leftarrow> get_at (i32_as_usize (snd index)) (ig_instructions g);
            Some (ii_accounts ix)
          }
          else outer_accounts tx (fst index));
       Some (account_closure accounts account_keys writable readonly)
     }"

text \<open>The prebuilt index: a hash map filled in group order, so the last group of an index wins.\<close>

definition inner_index_new :: "status_meta \<Rightarrow> u32 \<Rightarrow> inner_instructions option" where
  "inner_index_new meta = foldl (\<lambda>m g. m(ig_index g \<mapsto> g)) Map.empty (tm_inner_instructions meta)"

definition get_instruction_account_getter_indexed :: "(u32 \<Rightarrow> inner_instructions option) \<Rightarrow> transaction option
    \<Rightarrow> bytes list option \<Rightarrow> bytes list \<Rightarrow> bytes list \<Rightarrow> u32 \<times> u32 \<Rightarrow> (nat \<Rightarrow> pubkey) option" where
  "get_instruction_account_getter_indexed inner_index tx account_keys writable readonly index =
     do {
       accounts \<leftarrow>
         (if sint (snd index) \<ge> 0
          then do {
            g \<leftarrow> inner_index (fst index);
            ix \<leftarrow> get_at (i32_as_usize (snd index)) (ig_instructions g);
            Some (ii_accounts ix)
          }
          else outer_accounts tx (fst index));
       Some (account_closure accounts account_keys writable readonly)
     }"

section \<open>Facts about the readers\<close>

lemma read_slice_iff:
  "read_slice w data offset = Some bs \<longleftrightarrow>
     offset + w \<le> usize_max \<and> offset + w \<le> length data \<and> bs = take w (drop offset data)"
  by (auto simp: read_slice_def usize_checked_add_def get_range_def)

lemma read_slice_None_iff:
  "read_slice w data offset = None \<longleftrightarrow> usize_max < offset + w \<or> length data < offset + w"
  by (auto simp: read_slice_def usize_checked_add_def get_range_def)

lemma from_le_le_bytes: "8 * k = LENGTH('a::len) \<Longrightarrow> from_le (le_bytes k (unat (x :: 'a word))) = x"
proof -
  assume k: "8 * k = LENGTH('a)"
  have "(256 :: nat) ^ k = 2 ^ (8 * k)" by (simp add: power_mult)
  then have "unat x mod 256 ^ k = unat x" using unsigned_less [of x, where 'a = nat] by (simp add: k)
  then show ?thesis by (simp add: from_le_def le_nat_le_bytes)
qed

lemma le_bytes_from_le:
  assumes "length bs = k" "8 * k = LENGTH('a::len)"
  shows "le_bytes k (unat (from_le bs :: 'a word)) = bs"
proof -
  have "(256 :: nat) ^ k = 2 ^ LENGTH('a)" unfolding assms(2) [symmetric] by (simp add: power_mult)
  then have "unat (from_le bs :: 'a word) = le_nat bs"
    using le_nat_bound [of bs] assms(1) by (simp add: from_le_def unat_of_nat)
  then show ?thesis using assms(1) le_bytes_le_nat [of bs] by simp
qed

lemma from_le_iff:
  assumes "length bs = k" "8 * k = LENGTH('a::len)"
  shows "from_le bs = (x :: 'a word) \<longleftrightarrow> bs = le_bytes k (unat x)"
  using le_bytes_from_le [OF assms] from_le_le_bytes [OF assms(2), of x] by metis

lemma read_u64_le_iff:
  "read_u64_le data offset = Some x \<longleftrightarrow>
     offset + 8 \<le> usize_max \<and> offset + 8 \<le> length data \<and> take 8 (drop offset data) = le_bytes 8 (unat x)"
proof -
  have "length (take 8 (drop offset data)) = 8 \<Longrightarrow>
      from_le (take 8 (drop offset data)) = x \<longleftrightarrow> take 8 (drop offset data) = le_bytes 8 (unat x)"
    by (rule from_le_iff) simp_all
  then show ?thesis by (auto simp: read_u64_le_def read_slice_iff)
qed

lemma le_bytes_8_nonempty: "le_bytes 8 n \<noteq> []" "[] \<noteq> le_bytes 8 n"
  by (metis length_le_bytes list.size(3) zero_neq_numeral)+

definition bool_byte :: "bool \<Rightarrow> u8" where
  "bool_byte b = (if b then 1 else 0)"

lemma read_option_bool_iff:
  "read_option_bool_idl data offset = Some b \<longleftrightarrow> offset < length data \<and> data ! offset = bool_byte b"
  by (cases b) (auto simp: read_option_bool_idl_def get_at_def bool_byte_def split: if_splits)

section \<open>Basis points\<close>

lemma unat_ratio_bps:
  assumes "part \<le> whole" "whole \<noteq> 0"
  shows "unat (ratio_bps part whole) = unat part * 10000 div unat whole"
proof -
  have p: "unat part < 2 ^ 64" "unat whole < 2 ^ 64"
    using unsigned_less [of part, where 'a = nat] unsigned_less [of whole, where 'a = nat] by simp_all
  have up: "unat (ucast part :: u128) = unat part" "unat (ucast whole :: u128) = unat whole"
    using p by (simp_all add: unsigned_ucast_eq take_bit_nat_eq_self)
  define q where "q = (ucast part * 10000 :: u128) div ucast whole"
  have "unat part * 10000 < (2 :: nat) ^ 128" using p by simp
  then have "unat (ucast part * 10000 :: u128) = unat part * 10000"
    by (simp add: unat_word_ariths up)
  then have q: "unat q = unat part * 10000 div unat whole"
    by (simp add: q_def unat_div_distrib up)
  have "unat part * 10000 div unat whole \<le> 10000"
  proof -
    have "unat part * 10000 \<le> unat whole * 10000" using assms(1) by (simp add: word_le_nat_alt)
    moreover have "0 < unat whole" using assms(2) by (simp add: word_neq_0_conv unat_gt_0)
    ultimately show ?thesis
      by (metis div_le_mono nonzero_mult_div_cancel_left less_numeral_extra(3))
  qed
  then have b: "unat q \<le> 10000" by (simp add: q)
  then have "min q 10000 = q" by (simp add: min_def word_le_nat_alt)
  then have "ratio_bps part whole = ucast q" by (simp add: ratio_bps_def q_def)
  then show ?thesis using b by (simp add: unsigned_ucast_eq take_bit_nat_eq_self q)
qed

lemma saturating_sub_le: "saturating_sub a b \<le> a"
  by (simp add: saturating_sub_def word_sub_le)

lemma unat_saturating_sub: "unat (saturating_sub a b) = unat a - unat b"
  by (simp add: saturating_sub_def unat_sub word_le_nat_alt)

text \<open>
  C40. Both basis-point estimates are exact on every input: the floor of the shortfall in ten-thousandths,
  computed without overflow and never above 10000, and 0 when the reference amount is 0.
\<close>

theorem bps_exact:
  "unat (calculate_slippage_bps amount_in amount_out_min) =
     (if amount_in = 0 then 0 else (unat amount_in - unat amount_out_min) * 10000 div unat amount_in) \<and>
   unat (calculate_price_impact_bps amount_in amount_out expected_out) =
     (if expected_out = 0 then 0 else (unat expected_out - unat amount_out) * 10000 div unat expected_out) \<and>
   calculate_slippage_bps amount_in amount_out_min \<le> 10000 \<and>
   calculate_price_impact_bps amount_in amount_out expected_out \<le> 10000"
proof -
  have bound: "(a - b) * 10000 div a \<le> (10000 :: nat)" if "0 < a" for a b
    using div_le_mono [of "(a - b) * 10000" "a * 10000" a] that by simp
  have "0 < unat x \<longleftrightarrow> x \<noteq> 0" for x :: u64 by (simp add: unat_gt_0)
  then show ?thesis
    using bound
    by (simp add: calculate_slippage_bps_def calculate_price_impact_bps_def unat_ratio_bps
        saturating_sub_le unat_saturating_sub word_le_nat_alt)
qed

section \<open>The optional tail\<close>

text \<open>
  C38. The tail of \<open>create_v2\<close> parses exactly when it ends between fields: it is empty, one boolean byte, or
  a boolean byte and eight fee bytes, or those followed by a second boolean byte and any rest, and
  then the three fields are the encoded ones, absent ones defaulting; every other tail, one cut
  within the fee or with a flag byte above 1, is rejected.
\<close>

theorem optional_tail_exact:
  "parse_create_v2_optional_tail tail = Some (cashback, fee, holder) \<longleftrightarrow>
     tail = [] \<and> \<not> cashback \<and> fee = 0 \<and> \<not> holder \<or>
     tail = [bool_byte cashback] \<and> fee = 0 \<and> \<not> holder \<or>
     tail = bool_byte cashback # le_bytes 8 (unat fee) \<and> \<not> holder \<or>
     (\<exists>rest. tail = bool_byte cashback # le_bytes 8 (unat fee) @ bool_byte holder # rest)"
proof (cases tail)
  case Nil
  then show ?thesis by (auto simp: parse_create_v2_optional_tail_def)
next
  case (Cons b t)
  consider "t = []" | "t \<noteq> []" "length t < 8" | "length t = 8" | "8 < length t" by linarith
  then show ?thesis
  proof cases
    case 1
    then show ?thesis
      using Cons read_option_bool_iff [of tail 0 cashback]
      by (auto simp: le_bytes_8_nonempty parse_create_v2_optional_tail_def bind_eq_Some_conv)
  next
    case 2
    then have "read_u64_le tail 1 = None" using Cons by (simp add: read_u64_le_def read_slice_None_iff)
    moreover have "length t < 8 \<Longrightarrow> t \<noteq> le_bytes 8 n" for n by auto
    moreover have "length t < 8 \<Longrightarrow> t \<noteq> le_bytes 8 n @ u" for n u by auto
    ultimately show ?thesis using 2 Cons by (auto simp: parse_create_v2_optional_tail_def bind_eq_Some_conv)
  next
    case 3
    then show ?thesis
      using Cons read_option_bool_iff [of tail 0 cashback] read_u64_le_iff [of tail 1 fee]
      by (auto simp: parse_create_v2_optional_tail_def bind_eq_Some_conv)
  next
    case 4
    have split: "take 8 t = xs \<and> t ! 8 = y \<longleftrightarrow> (\<exists>rest. t = xs @ y # rest)" if "length xs = 8" for xs y
    proof
      assume "take 8 t = xs \<and> t ! 8 = y"
      then have "t = xs @ y # drop 9 t" using 4 id_take_nth_drop [of 8 t] by simp
      then show "\<exists>rest. t = xs @ y # rest" by blast
    qed (use that in \<open>auto simp: nth_append\<close>)
    have "length tail \<noteq> 1" "length tail \<noteq> 9" "tail \<noteq> []" using 4 Cons by auto
    then have "parse_create_v2_optional_tail tail = Some (cashback, fee, holder) \<longleftrightarrow>
        b = bool_byte cashback \<and> take 8 t = le_bytes 8 (unat fee) \<and> t ! 8 = bool_byte holder"
      using Cons 4 read_option_bool_iff [of tail 0 cashback] read_u64_le_iff [of tail 1 fee]
        read_option_bool_iff [of tail 9 holder]
      by (auto simp: parse_create_v2_optional_tail_def bind_eq_Some_conv)
    also have "\<dots> \<longleftrightarrow> b = bool_byte cashback \<and> (\<exists>rest. t = le_bytes 8 (unat fee) @ bool_byte holder # rest)"
      by (simp add: split)
    finally show ?thesis using 4 Cons by auto
  qed
qed

section \<open>Vectors\<close>

lemma chunks_exact8_concat:
  "chunks_exact8 (concat (map (\<lambda>x. le_bytes 8 (unat x)) xs)) = xs"
proof (induction xs)
  case Nil
  then show ?case by (simp add: chunks_exact8.simps)
next
  case (Cons x xs)
  have "chunks_exact8 (le_bytes 8 (unat x) @ ys) = x # chunks_exact8 ys" for ys
    by (subst chunks_exact8.simps) (simp add: from_le_le_bytes)
  then show ?case using Cons by simp
qed

lemma length_concat_le_bytes: "length (concat (map (\<lambda>x. le_bytes k (f x)) xs)) = length xs * k"
  by (induction xs) simp_all

definition encode_vec_u64 :: "u64 list \<Rightarrow> bytes" where
  "encode_vec_u64 xs = le_bytes 4 (length xs) @ concat (map (\<lambda>x. le_bytes 8 (unat x)) xs)"

lemma read_u32_le_written:
  assumes "n < 2 ^ 32"
  shows "\<exists>z. read_u32_le (le_bytes 4 n @ post) 0 = Some z \<and> unat z = n"
  using assms by (simp add: read_u32_le_def read_slice_def usize_checked_add_def get_range_def from_le_def
      le_nat_le_bytes unat_of_nat)

text \<open>
  C39. Reading a Borsh vector of \<open>u64\<close> gives back what was written, at any offset and with anything after
  it; the count fits its 32-bit prefix.
\<close>

theorem read_vec_u64_round_trip:
  assumes "length xs < 2 ^ 32"
  shows "read_vec_u64 (pre @ encode_vec_u64 xs @ post) (length pre) = Some xs"
proof -
  let ?body = "concat (map (\<lambda>x. le_bytes 8 (unat x)) xs) @ post"
  obtain z where "read_u32_le (le_bytes 4 (length xs) @ ?body) 0 = Some z" "unat z = length xs"
    using read_u32_le_written [OF assms, of ?body] by blast
  moreover have "length xs * 8 \<le> usize_max" using assms by simp
  ultimately show ?thesis
    by (simp add: read_vec_u64_def get_range_def encode_vec_u64_def usize_checked_mul_def
        length_concat_le_bytes chunks_exact8_concat)
qed

theorem read_vec_u64_round_trip_witness: "read_vec_u64 ([9] @ encode_vec_u64 [7, 2 ^ 63] @ [1]) 1 = Some [7, 2 ^ 63]"
  using read_vec_u64_round_trip [of "[7, 2 ^ 63]" "[9]" "[1]"] by simp

section \<open>Account lookups\<close>

text \<open>
  C37. The account closure is one lookup in the concatenation of the static keys, the loaded writable and the
  loaded readonly addresses; an index out of range of either list, or a key shorter than 32
  bytes, gives the default key.
\<close>

theorem account_closure_flat:
  "account_closure accounts account_keys writable readonly acc_index =
     (case Option.bind (get_at acc_index accounts)
             (\<lambda>idx. Option.bind account_keys (\<lambda>keys. get_at (unat idx) (keys @ writable @ readonly))) of
        Some key \<Rightarrow> read_pubkey_fast key
      | None \<Rightarrow> default_pubkey)"
  by (auto simp: account_closure_def get_at_def nth_append Let_def split: option.splits)

text \<open>What the standard library documents of \<open>binary_search_by_key\<close> on a slice.\<close>

definition search_documented :: "group_search \<Rightarrow> bool" where
  "search_documented search \<longleftrightarrow>
     (\<forall>ks x. sorted ks \<longrightarrow>
        (case search ks x of Some i \<Rightarrow> i < length ks \<and> ks ! i = x | None \<Rightarrow> x \<notin> set ks))"

lemma inner_index_new_eq: "inner_index_new meta = map_of (rev (map (\<lambda>g. (ig_index g, g)) (tm_inner_instructions meta)))"
proof -
  have "foldl (\<lambda>m g. m(ig_index g \<mapsto> g)) m gs = m ++ map_of (rev (map (\<lambda>g. (ig_index g, g)) gs))"
    for m :: "u32 \<Rightarrow> inner_instructions option" and gs
    by (induction gs arbitrary: m) (auto simp: map_add_def fun_eq_iff split: option.splits)
  from this [of Map.empty] show ?thesis by (simp add: inner_index_new_def)
qed

lemma inner_index_new_find:
  assumes "distinct (map ig_index (tm_inner_instructions meta))"
  shows "inner_index_new meta x = find (\<lambda>g. ig_index g = x) (tm_inner_instructions meta)"
proof -
  have "map_of (rev (map (\<lambda>g. (ig_index g, g)) gs)) = map_of (map (\<lambda>g. (ig_index g, g)) gs)"
    if "distinct (map ig_index gs)" for gs :: "inner_instructions list"
    using that by (intro map_of_inject_set [THEN iffD2]) (simp_all add: rev_map [symmetric] comp_def)
  moreover have "map_of (map (\<lambda>g. (ig_index g, g)) gs) x = find (\<lambda>g. ig_index g = x) gs"
    for gs :: "inner_instructions list"
    by (induction gs) auto
  ultimately show ?thesis using assms by (simp add: inner_index_new_eq)
qed

lemma group_of_find:
  assumes "search_documented search" "sorted (map ig_index (tm_inner_instructions meta))"
    and "distinct (map ig_index (tm_inner_instructions meta))"
  shows "group_of search meta x = find (\<lambda>g. ig_index g = x) (tm_inner_instructions meta)"
proof (cases "search (map ig_index (tm_inner_instructions meta)) x")
  case (Some i)
  let ?gs = "tm_inner_instructions meta"
  have i: "i < length ?gs" "ig_index (?gs ! i) = x"
    using assms(1) [unfolded search_documented_def, rule_format, OF assms(2), of x] Some by auto
  have "find (\<lambda>g. ig_index g = x) ?gs = Some (?gs ! i)"
    unfolding find_Some_iff
  proof (intro exI [of _ i] conjI allI impI)
    fix j assume j: "j < i"
    then have "map ig_index ?gs ! j \<noteq> map ig_index ?gs ! i"
      using nth_eq_iff_index_eq [OF assms(3), of j i] i(1) by auto
    then show "ig_index (?gs ! j) \<noteq> x" using i j by simp
  qed (use i in simp_all)
  then show ?thesis using Some i by (simp add: group_of_def get_at_def)
qed (simp add: group_of_def)

text \<open>
  C36. On a transaction whose inner groups are in ascending order of distinct outer indices, the getter over
  the prebuilt index and the searching getter return the same closure, for every outer and inner
  index, inside or outside the transaction.
\<close>

theorem indexed_getter_agrees:
  assumes "search_documented search" "sorted (map ig_index (tm_inner_instructions meta))"
    and "distinct (map ig_index (tm_inner_instructions meta))"
  shows "get_instruction_account_getter_indexed (inner_index_new meta) tx keys writable readonly index =
    get_instruction_account_getter search meta tx keys writable readonly index"
  by (simp add: get_instruction_account_getter_indexed_def get_instruction_account_getter_def
      inner_index_new_find [OF assms(3)] group_of_find [OF assms])

definition linear_search :: group_search where
  "linear_search ks x = find (\<lambda>i. ks ! i = x) [0 ..< length ks]"

lemma linear_search_documented: "search_documented linear_search"
  by (auto simp: search_documented_def linear_search_def find_Some_iff find_None_iff in_set_conv_nth
      split: option.splits)

definition demo_status :: status_meta where
  "demo_status = \<lparr>tm_failed = False, tm_inner_instructions =
       [\<lparr>ig_index = 0, ig_instructions = []\<rparr>,
        \<lparr>ig_index = 2, ig_instructions =
           [\<lparr>ii_program_id_index = 1, ii_accounts = [1, 0], ii_data = [], ii_stack_height = None\<rparr>]\<rparr>],
     tm_pre_token_balances = [], tm_post_token_balances = [], tm_loaded_writable = [], tm_loaded_readonly = []\<rparr>"

theorem indexed_getter_agrees_witness:
  "get_instruction_account_getter_indexed (inner_index_new demo_status) None (Some [replicate 32 5]) [replicate 32 6] [] (2, 0) =
     get_instruction_account_getter linear_search demo_status None (Some [replicate 32 5]) [replicate 32 6] [] (2, 0) \<and>
   map_option (\<lambda>f. f 0)
     (get_instruction_account_getter linear_search demo_status None (Some [replicate 32 5]) [replicate 32 6] [] (2, 0)) =
     Some (replicate 32 6)"
proof -
  have s: "sorted (map ig_index (tm_inner_instructions demo_status))"
    "distinct (map ig_index (tm_inner_instructions demo_status))"
    by (simp_all add: demo_status_def)
  have "map_option (\<lambda>f. f 0)
      (get_instruction_account_getter_indexed (inner_index_new demo_status) None (Some [replicate 32 5]) [replicate 32 6] [] (2, 0)) =
      Some (replicate 32 6)"
  proof -
    have "inner_index_new demo_status 2 = Some \<lparr>ig_index = 2, ig_instructions =
        [\<lparr>ii_program_id_index = 1, ii_accounts = [1, 0], ii_data = [], ii_stack_height = None\<rparr>]\<rparr>"
      by (simp add: inner_index_new_def demo_status_def)
    moreover have "read_pubkey_fast (replicate 32 6) = replicate 32 6"
      by (simp add: read_pubkey_fast_def read_pubkey_def read_slice_def usize_checked_add_def get_range_def)
    ultimately show ?thesis
      by (simp add: get_instruction_account_getter_indexed_def account_closure_def get_at_def i32_as_usize_def)
  qed
  then show ?thesis
    using indexed_getter_agrees [OF linear_search_documented s, of None "Some [replicate 32 5]" "[replicate 32 6]" "[]" "(2, 0)"]
    by simp
qed

end
