(* ===== verification/Discriminators.thy ===== *)
theory Discriminators
  imports Prelude
begin

text \<open>
  The instruction discriminators of the supported programs (the \<open>discriminators\<close> modules of
  \<open>src/instr/*.rs\<close> and \<open>src/instr/pump_create_layout.rs\<close>), prefixed by protocol. The eight bytes
  are the first of the instruction data; Raydium AMM V4 has one byte.
\<close>

section \<open>Pump.fun\<close>

definition PUMP_BUY_V3 :: bytes where "PUMP_BUY_V3 = [7, 5, 29, 196, 245, 23, 101, 80]"
definition PUMP_BUY_EXACT_QUOTE_IN_V3 :: bytes where
  "PUMP_BUY_EXACT_QUOTE_IN_V3 = [225, 247, 80, 30, 213, 179, 132, 136]"
definition PUMP_SELL_V3 :: bytes where "PUMP_SELL_V3 = [28, 146, 222, 119, 38, 196, 105, 213]"
definition PUMP_BUY :: bytes where "PUMP_BUY = [102, 6, 61, 18, 1, 218, 235, 234]"
definition PUMP_SELL :: bytes where "PUMP_SELL = [51, 230, 133, 164, 1, 127, 131, 173]"
definition PUMP_CREATE :: bytes where "PUMP_CREATE = [24, 30, 200, 40, 5, 28, 7, 119]"
definition PUMP_CREATE_V2 :: bytes where "PUMP_CREATE_V2 = [214, 144, 76, 236, 95, 139, 49, 180]"
definition PUMP_BUY_EXACT_SOL_IN :: bytes where
  "PUMP_BUY_EXACT_SOL_IN = [56, 252, 116, 8, 158, 223, 205, 95]"
definition PUMP_MIGRATE_EVENT_LOG :: bytes where
  "PUMP_MIGRATE_EVENT_LOG = [189, 233, 93, 185, 92, 148, 234, 148]"
definition PUMP_MIGRATE_BONDING_CURVE_CREATOR :: bytes where
  "PUMP_MIGRATE_BONDING_CURVE_CREATOR = [87, 124, 52, 191, 52, 38, 214, 232]"
definition PUMP_BUY_V2 :: bytes where "PUMP_BUY_V2 = [184, 23, 238, 97, 103, 197, 211, 61]"
definition PUMP_SELL_V2 :: bytes where "PUMP_SELL_V2 = [93, 246, 130, 60, 231, 233, 64, 178]"
definition PUMP_BUY_EXACT_QUOTE_IN_V2 :: bytes where
  "PUMP_BUY_EXACT_QUOTE_IN_V2 = [194, 171, 28, 70, 104, 77, 91, 47]"

section \<open>PumpSwap\<close>

definition AMM_BUY_V2 :: bytes where "AMM_BUY_V2 = [184, 23, 238, 97, 103, 197, 211, 61]"
definition AMM_BUY_EXACT_QUOTE_IN_V2 :: bytes where
  "AMM_BUY_EXACT_QUOTE_IN_V2 = [194, 171, 28, 70, 104, 77, 91, 47]"
definition AMM_SELL_V2 :: bytes where "AMM_SELL_V2 = [93, 246, 130, 60, 231, 233, 64, 178]"
definition AMM_BUY :: bytes where "AMM_BUY = [102, 6, 61, 18, 1, 218, 235, 234]"
definition AMM_SELL :: bytes where "AMM_SELL = [51, 230, 133, 164, 1, 127, 131, 173]"
definition AMM_CREATE_POOL :: bytes where "AMM_CREATE_POOL = [233, 146, 209, 142, 207, 104, 64, 188]"
definition AMM_BUY_EXACT_QUOTE_IN :: bytes where
  "AMM_BUY_EXACT_QUOTE_IN = [198, 46, 21, 82, 180, 217, 232, 112]"
definition AMM_DEPOSIT :: bytes where "AMM_DEPOSIT = [242, 35, 198, 137, 82, 225, 242, 182]"
definition AMM_WITHDRAW :: bytes where "AMM_WITHDRAW = [183, 18, 70, 156, 148, 109, 161, 34]"

section \<open>Pump fees\<close>

definition CREATE_FEE_SHARING_IX :: bytes where
  "CREATE_FEE_SHARING_IX = [195, 78, 86, 76, 111, 52, 251, 213]"
definition INITIALIZE_FEE_CONFIG_IX :: bytes where
  "INITIALIZE_FEE_CONFIG_IX = [62, 162, 20, 133, 121, 65, 145, 27]"
definition RESET_FEE_SHARING_IX :: bytes where "RESET_FEE_SHARING_IX = [10, 2, 182, 95, 16, 127, 129, 186]"
definition RESET_FEE_SHARING_V2_IX :: bytes where
  "RESET_FEE_SHARING_V2_IX = [169, 245, 17, 209, 94, 91, 248, 128]"
definition REVOKE_FEE_SHARING_IX :: bytes where
  "REVOKE_FEE_SHARING_IX = [18, 233, 158, 39, 185, 207, 58, 104]"
definition TRANSFER_FEE_SHARING_IX :: bytes where
  "TRANSFER_FEE_SHARING_IX = [202, 10, 75, 200, 164, 34, 210, 96]"
definition UPDATE_ADMIN_IX :: bytes where "UPDATE_ADMIN_IX = [161, 176, 40, 213, 60, 184, 179, 228]"
definition UPDATE_FEE_CONFIG_IX :: bytes where
  "UPDATE_FEE_CONFIG_IX = [104, 184, 103, 242, 88, 151, 107, 20]"
definition UPDATE_FEE_SHARES_IX :: bytes where
  "UPDATE_FEE_SHARES_IX = [189, 13, 136, 99, 187, 164, 237, 35]"
definition UPDATE_FEE_SHARES_V2_IX :: bytes where
  "UPDATE_FEE_SHARES_V2_IX = [111, 251, 49, 6, 78, 78, 106, 18]"
definition UPSERT_FEE_TIERS_IX :: bytes where "UPSERT_FEE_TIERS_IX = [227, 23, 150, 12, 77, 86, 94, 4]"

section \<open>Raydium LaunchLab\<close>

definition LAUNCHLAB_BUY_EXACT_IN :: bytes where
  "LAUNCHLAB_BUY_EXACT_IN = [250, 234, 13, 123, 213, 156, 19, 236]"
definition LAUNCHLAB_BUY_EXACT_OUT :: bytes where
  "LAUNCHLAB_BUY_EXACT_OUT = [24, 211, 116, 40, 105, 3, 153, 56]"
definition LAUNCHLAB_INITIALIZE :: bytes where
  "LAUNCHLAB_INITIALIZE = [175, 175, 109, 31, 13, 152, 155, 237]"
definition LAUNCHLAB_INITIALIZE_V2 :: bytes where
  "LAUNCHLAB_INITIALIZE_V2 = [67, 153, 175, 39, 218, 16, 38, 32]"
definition LAUNCHLAB_INITIALIZE_WITH_TOKEN_2022 :: bytes where
  "LAUNCHLAB_INITIALIZE_WITH_TOKEN_2022 = [37, 190, 126, 222, 44, 154, 171, 17]"
definition LAUNCHLAB_MIGRATE_TO_AMM :: bytes where
  "LAUNCHLAB_MIGRATE_TO_AMM = [207, 82, 192, 145, 254, 207, 145, 223]"
definition LAUNCHLAB_MIGRATE_TO_CPSWAP :: bytes where
  "LAUNCHLAB_MIGRATE_TO_CPSWAP = [136, 92, 200, 103, 28, 218, 144, 140]"
definition LAUNCHLAB_SELL_EXACT_IN :: bytes where
  "LAUNCHLAB_SELL_EXACT_IN = [149, 39, 222, 155, 211, 124, 152, 26]"
definition LAUNCHLAB_SELL_EXACT_OUT :: bytes where
  "LAUNCHLAB_SELL_EXACT_OUT = [95, 200, 71, 34, 8, 9, 11, 166]"

section \<open>Raydium CPMM\<close>

definition CPMM_SWAP_BASE_IN :: bytes where "CPMM_SWAP_BASE_IN = [143, 190, 90, 218, 196, 30, 51, 222]"
definition CPMM_SWAP_BASE_OUT :: bytes where "CPMM_SWAP_BASE_OUT = [55, 217, 98, 86, 163, 74, 180, 173]"
definition CPMM_INITIALIZE :: bytes where "CPMM_INITIALIZE = [175, 175, 109, 31, 13, 152, 155, 237]"
definition CPMM_DEPOSIT :: bytes where "CPMM_DEPOSIT = [242, 35, 198, 137, 82, 225, 242, 182]"
definition CPMM_WITHDRAW :: bytes where "CPMM_WITHDRAW = [183, 18, 70, 156, 148, 109, 161, 34]"

section \<open>Raydium CLMM\<close>

definition CLMM_SWAP :: bytes where "CLMM_SWAP = [248, 198, 158, 145, 225, 117, 135, 200]"
definition CLMM_SWAP_V2 :: bytes where "CLMM_SWAP_V2 = [43, 4, 237, 11, 26, 201, 30, 98]"
definition CLMM_INCREASE_LIQUIDITY_V2 :: bytes where
  "CLMM_INCREASE_LIQUIDITY_V2 = [133, 29, 89, 223, 69, 238, 176, 10]"
definition CLMM_DECREASE_LIQUIDITY_V2 :: bytes where
  "CLMM_DECREASE_LIQUIDITY_V2 = [58, 127, 188, 62, 79, 82, 196, 96]"
definition CLMM_CREATE_POOL :: bytes where "CLMM_CREATE_POOL = [233, 146, 209, 142, 207, 104, 64, 188]"
definition CLMM_CREATE_CUSTOMIZABLE_POOL :: bytes where
  "CLMM_CREATE_CUSTOMIZABLE_POOL = [43, 68, 212, 167, 89, 47, 164, 1]"
definition CLMM_OPEN_POSITION :: bytes where "CLMM_OPEN_POSITION = [135, 128, 47, 77, 15, 152, 240, 49]"
definition CLMM_OPEN_POSITION_V2 :: bytes where
  "CLMM_OPEN_POSITION_V2 = [77, 184, 74, 214, 112, 86, 241, 199]"
definition CLMM_OPEN_POSITION_WITH_TOKEN_22_NFT :: bytes where
  "CLMM_OPEN_POSITION_WITH_TOKEN_22_NFT = [77, 255, 174, 82, 125, 29, 201, 46]"
definition CLMM_CLOSE_POSITION :: bytes where "CLMM_CLOSE_POSITION = [123, 134, 81, 0, 49, 68, 98, 98]"

section \<open>Raydium AMM V4\<close>

definition V4_SWAP_BASE_IN :: u8 where "V4_SWAP_BASE_IN = 9"
definition V4_SWAP_BASE_OUT :: u8 where "V4_SWAP_BASE_OUT = 11"
definition V4_SWAP_BASE_IN_V2 :: u8 where "V4_SWAP_BASE_IN_V2 = 16"
definition V4_SWAP_BASE_OUT_V2 :: u8 where "V4_SWAP_BASE_OUT_V2 = 17"
definition V4_DEPOSIT :: u8 where "V4_DEPOSIT = 3"
definition V4_WITHDRAW :: u8 where "V4_WITHDRAW = 4"
definition V4_INITIALIZE2 :: u8 where "V4_INITIALIZE2 = 1"
definition V4_WITHDRAW_PNL :: u8 where "V4_WITHDRAW_PNL = 7"

section \<open>Orca Whirlpool\<close>

definition ORCA_SWAP :: bytes where "ORCA_SWAP = [248, 198, 158, 145, 225, 117, 135, 200]"
definition ORCA_SWAP_V2 :: bytes where "ORCA_SWAP_V2 = [43, 4, 237, 11, 26, 201, 30, 98]"
definition ORCA_INCREASE_LIQUIDITY :: bytes where
  "ORCA_INCREASE_LIQUIDITY = [46, 156, 243, 118, 13, 205, 251, 178]"
definition ORCA_DECREASE_LIQUIDITY :: bytes where
  "ORCA_DECREASE_LIQUIDITY = [160, 38, 208, 111, 104, 91, 44, 1]"
definition ORCA_INITIALIZE_POOL :: bytes where "ORCA_INITIALIZE_POOL = [95, 180, 10, 172, 84, 174, 232, 40]"
definition ORCA_INITIALIZE_POOL_V2 :: bytes where
  "ORCA_INITIALIZE_POOL_V2 = [207, 45, 87, 242, 27, 63, 204, 67]"
definition ORCA_INCREASE_LIQUIDITY_V2 :: bytes where
  "ORCA_INCREASE_LIQUIDITY_V2 = [133, 29, 89, 223, 69, 238, 176, 10]"
definition ORCA_DECREASE_LIQUIDITY_V2 :: bytes where
  "ORCA_DECREASE_LIQUIDITY_V2 = [58, 127, 188, 62, 79, 82, 196, 96]"

section \<open>Meteora Pools\<close>

definition POOLS_SWAP :: bytes where "POOLS_SWAP = [248, 198, 158, 145, 225, 117, 135, 200]"
definition POOLS_ADD_LIQUIDITY :: bytes where "POOLS_ADD_LIQUIDITY = [168, 227, 50, 62, 189, 171, 84, 176]"
definition POOLS_ADD_IMBALANCE_LIQUIDITY :: bytes where
  "POOLS_ADD_IMBALANCE_LIQUIDITY = [79, 35, 122, 84, 173, 15, 93, 191]"
definition POOLS_REMOVE_LIQUIDITY :: bytes where
  "POOLS_REMOVE_LIQUIDITY = [133, 109, 44, 179, 56, 238, 114, 33]"
definition POOLS_REMOVE_LIQUIDITY_SINGLE_SIDE :: bytes where
  "POOLS_REMOVE_LIQUIDITY_SINGLE_SIDE = [84, 84, 177, 66, 254, 185, 10, 251]"
definition POOLS_BOOTSTRAP_LIQUIDITY :: bytes where
  "POOLS_BOOTSTRAP_LIQUIDITY = [4, 228, 215, 71, 225, 253, 119, 206]"
definition POOLS_INITIALIZE_PERMISSIONED_POOL :: bytes where
  "POOLS_INITIALIZE_PERMISSIONED_POOL = [77, 85, 178, 157, 50, 48, 212, 126]"
definition POOLS_INITIALIZE_PERMISSIONLESS_POOL :: bytes where
  "POOLS_INITIALIZE_PERMISSIONLESS_POOL = [118, 173, 41, 157, 173, 72, 97, 103]"
definition POOLS_INITIALIZE_PERMISSIONLESS_POOL_WITH_FEE_TIER :: bytes where
  "POOLS_INITIALIZE_PERMISSIONLESS_POOL_WITH_FEE_TIER = [6, 135, 68, 147, 229, 82, 169, 113]"
definition POOLS_INITIALIZE_CUSTOMIZABLE_POOL :: bytes where
  "POOLS_INITIALIZE_CUSTOMIZABLE_POOL = [145, 24, 172, 194, 219, 125, 3, 190]"
definition POOLS_CREATE_POOL :: bytes where "POOLS_CREATE_POOL = [7, 166, 138, 171, 206, 171, 236, 244]"
definition POOLS_CREATE_POOL_WITH_CONFIG2 :: bytes where
  "POOLS_CREATE_POOL_WITH_CONFIG2 = [48, 149, 220, 130, 61, 11, 9, 178]"
definition POOLS_SET_POOL_FEES :: bytes where "POOLS_SET_POOL_FEES = [102, 44, 158, 54, 205, 37, 126, 78]"

section \<open>Meteora DAMM v2\<close>

definition DAMM_SWAP_LOG :: bytes where "DAMM_SWAP_LOG = [27, 60, 21, 213, 138, 170, 187, 147]"
definition DAMM_SWAP2_LOG :: bytes where "DAMM_SWAP2_LOG = [189, 66, 51, 168, 38, 80, 117, 153]"
definition DAMM_CREATE_POSITION_LOG :: bytes where
  "DAMM_CREATE_POSITION_LOG = [156, 15, 119, 198, 29, 181, 221, 55]"
definition DAMM_CLOSE_POSITION_LOG :: bytes where
  "DAMM_CLOSE_POSITION_LOG = [20, 145, 144, 68, 143, 142, 214, 178]"
definition DAMM_ADD_LIQUIDITY_LOG :: bytes where
  "DAMM_ADD_LIQUIDITY_LOG = [175, 242, 8, 157, 30, 247, 185, 169]"
definition DAMM_REMOVE_LIQUIDITY_LOG :: bytes where
  "DAMM_REMOVE_LIQUIDITY_LOG = [87, 46, 88, 98, 175, 96, 34, 91]"
definition DAMM_CLAIM_POSITION_FEE_LOG :: bytes where
  "DAMM_CLAIM_POSITION_FEE_LOG = [198, 182, 183, 52, 97, 12, 49, 56]"
definition DAMM_INITIALIZE_REWARD_LOG :: bytes where
  "DAMM_INITIALIZE_REWARD_LOG = [129, 91, 188, 3, 246, 52, 185, 249]"
definition DAMM_FUND_REWARD_LOG :: bytes where
  "DAMM_FUND_REWARD_LOG = [104, 233, 237, 122, 199, 191, 121, 85]"
definition DAMM_CLAIM_REWARD_LOG :: bytes where
  "DAMM_CLAIM_REWARD_LOG = [218, 86, 147, 200, 235, 188, 215, 231]"
definition DAMM_INITIALIZE_POOL :: bytes where "DAMM_INITIALIZE_POOL = [95, 180, 10, 172, 84, 174, 232, 40]"

section \<open>Meteora DLMM\<close>

definition DLMM_ADD_LIQUIDITY :: bytes where "DLMM_ADD_LIQUIDITY = [181, 157, 89, 67, 143, 182, 52, 72]"
definition DLMM_ADD_LIQUIDITY2 :: bytes where "DLMM_ADD_LIQUIDITY2 = [228, 162, 78, 28, 70, 219, 116, 115]"
definition DLMM_CLAIM_FEE :: bytes where "DLMM_CLAIM_FEE = [169, 32, 79, 137, 136, 232, 70, 137]"
definition DLMM_CLAIM_FEE2 :: bytes where "DLMM_CLAIM_FEE2 = [112, 191, 101, 171, 28, 144, 127, 187]"
definition DLMM_CLOSE_POSITION :: bytes where "DLMM_CLOSE_POSITION = [123, 134, 81, 0, 49, 68, 98, 98]"
definition DLMM_CLOSE_POSITION2 :: bytes where
  "DLMM_CLOSE_POSITION2 = [174, 90, 35, 115, 186, 40, 147, 226]"
definition DLMM_INITIALIZE_BIN_ARRAY :: bytes where
  "DLMM_INITIALIZE_BIN_ARRAY = [35, 86, 19, 185, 78, 212, 75, 211]"
definition DLMM_INITIALIZE_LB_PAIR :: bytes where
  "DLMM_INITIALIZE_LB_PAIR = [45, 154, 237, 210, 221, 15, 166, 92]"
definition DLMM_INITIALIZE_LB_PAIR2 :: bytes where
  "DLMM_INITIALIZE_LB_PAIR2 = [73, 59, 36, 120, 237, 83, 108, 198]"
definition DLMM_INITIALIZE_POSITION :: bytes where
  "DLMM_INITIALIZE_POSITION = [219, 192, 234, 71, 190, 191, 102, 80]"
definition DLMM_INITIALIZE_POSITION2 :: bytes where
  "DLMM_INITIALIZE_POSITION2 = [143, 19, 242, 145, 213, 15, 104, 115]"
definition DLMM_INITIALIZE_POSITION_PDA :: bytes where
  "DLMM_INITIALIZE_POSITION_PDA = [46, 82, 125, 146, 85, 141, 228, 153]"
definition DLMM_REMOVE_LIQUIDITY :: bytes where
  "DLMM_REMOVE_LIQUIDITY = [80, 85, 209, 72, 24, 206, 177, 108]"
definition DLMM_REMOVE_LIQUIDITY2 :: bytes where
  "DLMM_REMOVE_LIQUIDITY2 = [230, 215, 82, 127, 241, 101, 227, 146]"
definition DLMM_SWAP :: bytes where "DLMM_SWAP = [248, 198, 158, 145, 225, 117, 135, 200]"
definition DLMM_SWAP2 :: bytes where "DLMM_SWAP2 = [65, 75, 63, 76, 235, 91, 91, 136]"
definition DLMM_SWAP_EXACT_OUT :: bytes where "DLMM_SWAP_EXACT_OUT = [250, 73, 101, 33, 38, 207, 75, 184]"
definition DLMM_SWAP_EXACT_OUT2 :: bytes where
  "DLMM_SWAP_EXACT_OUT2 = [43, 215, 247, 132, 137, 60, 243, 81]"
definition DLMM_SWAP_WITH_PRICE_IMPACT :: bytes where
  "DLMM_SWAP_WITH_PRICE_IMPACT = [56, 173, 230, 208, 173, 228, 156, 205]"
definition DLMM_SWAP_WITH_PRICE_IMPACT2 :: bytes where
  "DLMM_SWAP_WITH_PRICE_IMPACT2 = [74, 98, 192, 214, 177, 51, 75, 51]"

lemmas pump_disc_defs =
  PUMP_BUY_V3_def
  PUMP_BUY_EXACT_QUOTE_IN_V3_def
  PUMP_SELL_V3_def
  PUMP_BUY_def
  PUMP_SELL_def
  PUMP_CREATE_def
  PUMP_CREATE_V2_def
  PUMP_BUY_EXACT_SOL_IN_def
  PUMP_MIGRATE_EVENT_LOG_def
  PUMP_MIGRATE_BONDING_CURVE_CREATOR_def
  PUMP_BUY_V2_def
  PUMP_SELL_V2_def
  PUMP_BUY_EXACT_QUOTE_IN_V2_def

end
