(* ===== verification/Route_Types.thy ===== *)
theory Route_Types
  imports Instr_Utils Discriminators
begin

text \<open>
  The data of the route analyzer (\<open>src/transaction_route.rs\<close>): positions, swap legs, token transfers,
  native actions, unknown invocations and the route, the flattened invocation, and the accessors and
  layout tests every later part uses. \<open>descendant\<close> is the order of the CPI tree as the
  positions show it; that it is transitive is what makes subtree jumps sound.
\<close>

section \<open>Positions and results\<close>

record instruction_position =
  ip_outer_index :: u32
  ip_inner_index :: "u32 option"
  ip_stack_height :: "u32 option"

datatype swap_protocol =
  PumpFun | PumpSwap | LaunchLab | RaydiumCpmm | RaydiumAmmV4 | RaydiumClmm | OrcaWhirlpool | MeteoraDlmm

record route_swap_leg =
  rl_position :: instruction_position
  rl_program :: pubkey
  rl_protocol :: swap_protocol
  rl_pool :: pubkey
  rl_trader :: pubkey
  rl_input_account :: pubkey
  rl_output_account :: pubkey
  rl_input_mint :: "pubkey option"
  rl_output_mint :: "pubkey option"
  rl_amount_specified_is_input :: bool
  rl_specified_amount :: u64
  rl_other_amount_threshold :: u64
  rl_actual_input_amount :: "u64 option"
  rl_actual_output_amount :: "u64 option"
  rl_stonkfun_mode :: "stonkfun_mode option"
  rl_stonkfun_graduated :: bool

record route_token_transfer =
  rt_position :: instruction_position
  rt_program :: pubkey
  rt_source :: pubkey
  rt_destination :: pubkey
  rt_mint :: "pubkey option"
  rt_amount :: u64
  rt_withheld_fee :: "u64 option"

record route_unknown_invocation =
  ru_position :: instruction_position
  ru_program :: pubkey
  ru_has_token_transfers :: bool
  ru_has_known_swap_descendants :: bool

datatype native_token_action =
  Fund pubkey u64
| SyncNative
| Close pubkey pubkey

record route_native_token_action =
  rn_position :: instruction_position
  rn_account :: pubkey
  rn_action :: native_token_action

record transaction_route =
  tr_signature :: signature
  tr_succeeded :: bool
  tr_legs :: "route_swap_leg list"
  tr_transfers :: "route_token_transfer list"
  tr_native_token_actions :: "route_native_token_action list"
  tr_unknown_invocations :: "route_unknown_invocation list"

section \<open>Invocations\<close>

record invocation =
  iv_position :: instruction_position
  iv_program :: pubkey
  iv_program_resolved :: bool
  iv_accounts :: bytes
  iv_data :: bytes

definition route_key :: "pubkey list \<Rightarrow> u32 \<Rightarrow> pubkey" where
  "route_key keys index = (case get_at (unat index) keys of None \<Rightarrow> default_pubkey | Some k \<Rightarrow> k)"

definition route_account :: "invocation \<Rightarrow> pubkey list \<Rightarrow> nat \<Rightarrow> pubkey" where
  "route_account ix keys index =
     (case get_at index (iv_accounts ix) of None \<Rightarrow> default_pubkey | Some i \<Rightarrow> route_key keys (ucast i))"

definition u64_at :: "bytes \<Rightarrow> nat \<Rightarrow> u64 option" where
  "u64_at data offset = map_option from_le (get_range offset (offset + 8) data)"

definition token_program :: "pubkey \<Rightarrow> bool" where
  "token_program program \<longleftrightarrow> program = ROUTE_SPL_TOKEN \<or> program = ROUTE_TOKEN_2022"

definition checked_transfer :: "invocation \<Rightarrow> bool" where
  "checked_transfer ix \<longleftrightarrow>
     token_program (iv_program ix) \<and> get_at 0 (iv_data ix) = Some 12 \<and>
     length (iv_data ix) \<ge> 10 \<and> length (iv_accounts ix) \<ge> 4"

definition checked_transfer_with_fee :: "invocation \<Rightarrow> bool" where
  "checked_transfer_with_fee ix \<longleftrightarrow>
     iv_program ix = ROUTE_TOKEN_2022 \<and> get_range 0 2 (iv_data ix) = Some [26, 1] \<and>
     length (iv_data ix) \<ge> 19 \<and> length (iv_accounts ix) \<ge> 4"

definition descendant :: "instruction_position \<Rightarrow> instruction_position \<Rightarrow> bool" where
  "descendant parent child \<longleftrightarrow>
     ip_outer_index parent = ip_outer_index child \<and>
     (case (ip_inner_index parent, ip_inner_index child) of
        (None, Some _) \<Rightarrow> True
      | (Some a, Some b) \<Rightarrow>
          b > a \<and>
          (case (ip_stack_height parent, ip_stack_height child) of
             (Some a, Some b) \<Rightarrow> b > a
           | _ \<Rightarrow> False)
      | _ \<Rightarrow> False)"

lemma descendant_trans: "descendant p c \<Longrightarrow> descendant c d \<Longrightarrow> descendant p d"
  by (auto simp: descendant_def split: option.splits)

lemma descendant_irrefl: "\<not> descendant p p"
  by (auto simp: descendant_def split: option.splits)

lemma route_key_in: "route_key keys i \<noteq> default_pubkey \<Longrightarrow> route_key keys i \<in> set keys"
  by (auto simp: route_key_def get_at_def split: if_splits)

lemma route_account_in: "route_account ix keys i \<noteq> default_pubkey \<Longrightarrow> route_account ix keys i \<in> set keys"
  by (auto simp: route_account_def route_key_in split: option.splits)

end
