(* ===== verification/Route_Invocations.thy ===== *)
theory Route_Invocations
  imports Route_Types
begin

text \<open>
  Flattening a transaction (\<open>transaction_keys\<close> and \<open>transaction_invocations\<close> of
  \<open>src/transaction_route.rs\<close>): every outer instruction is followed by the inner instructions of its groups.
  The code walks the groups once with a cursor, after sorting their positions when they are out of order;
  the reference is one scan of all groups for each outer index.
\<close>

section \<open>Keys\<close>

definition transaction_keys :: "transaction \<Rightarrow> status_meta \<Rightarrow> pubkey list" where
  "transaction_keys tx meta =
     map read_pubkey_fast
       ((case tx_msg tx of None \<Rightarrow> [] | Some m \<Rightarrow> msg_account_keys m)
        @ tm_loaded_writable meta @ tm_loaded_readonly meta)"

definition resolve_program :: "tx_message \<Rightarrow> status_meta \<Rightarrow> pubkey list \<Rightarrow> u32 \<Rightarrow> pubkey option" where
  "resolve_program message meta keys index =
     do {
       bs \<leftarrow>
         (case get_at (unat index) (msg_account_keys message) of
            Some b \<Rightarrow> Some b
          | None \<Rightarrow> do {
              w \<leftarrow> usize_checked_sub (unat index) (length (msg_account_keys message));
              (case get_at w (tm_loaded_writable meta) of
                 Some b \<Rightarrow> Some b
               | None \<Rightarrow> do {
                   r \<leftarrow> usize_checked_sub w (length (tm_loaded_writable meta));
                   get_at r (tm_loaded_readonly meta)
                 })
            });
       if length bs \<noteq> 32 then None else get_at (unat index) keys
     }"

section \<open>Groups in index order\<close>

definition ordered_groups :: "inner_instructions list \<Rightarrow> inner_instructions list" where
  "ordered_groups groups =
     (if sorted (map ig_index groups) then groups
      else map ((!) groups) (sort_key (\<lambda>i. (ig_index (groups ! i), i)) [0 ..< length groups]))"

section \<open>The join\<close>

definition invocation_of :: "(u32 \<Rightarrow> pubkey option) \<Rightarrow> instruction_position \<Rightarrow> u32 \<Rightarrow> bytes \<Rightarrow> bytes \<Rightarrow> invocation" where
  "invocation_of resolve pos program_id_index accounts data =
     (let program = resolve program_id_index
      in \<lparr>iv_position = pos, iv_program = (case program of None \<Rightarrow> default_pubkey | Some p \<Rightarrow> p),
          iv_program_resolved = (program \<noteq> None), iv_accounts = accounts, iv_data = data\<rparr>)"

definition outer_invocation :: "(u32 \<Rightarrow> pubkey option) \<Rightarrow> nat \<Rightarrow> compiled_instruction \<Rightarrow> invocation" where
  "outer_invocation resolve i ix =
     invocation_of resolve
       \<lparr>ip_outer_index = word_of_nat i, ip_inner_index = None, ip_stack_height = Some 1\<rparr>
       (ci_program_id_index ix) (ci_accounts ix) (ci_data ix)"

definition inner_invocations :: "(u32 \<Rightarrow> pubkey option) \<Rightarrow> nat \<Rightarrow> inner_instructions \<Rightarrow> invocation list" where
  "inner_invocations resolve i grp =
     map (\<lambda>(j, ix).
         invocation_of resolve
           \<lparr>ip_outer_index = word_of_nat i, ip_inner_index = Some (word_of_nat j), ip_stack_height = ii_stack_height ix\<rparr>
           (ii_program_id_index ix) (ii_accounts ix) (ii_data ix))
       (enumerate 0 (ig_instructions grp))"

text \<open>The cursor loop: the inner invocations it adds for one outer index, and the groups left.\<close>

fun take_groups :: "(u32 \<Rightarrow> pubkey option) \<Rightarrow> nat \<Rightarrow> inner_instructions list \<Rightarrow> invocation list \<times> inner_instructions list" where
  "take_groups resolve i [] = ([], [])"
| "take_groups resolve i (grp # rest) =
     (if ig_index grp > word_of_nat i then ([], grp # rest)
      else
        (let (more, left) = take_groups resolve i rest
         in if ig_index grp \<noteq> word_of_nat i then (more, left)
            else (inner_invocations resolve i grp @ more, left)))"

fun join_groups :: "(u32 \<Rightarrow> pubkey option) \<Rightarrow> nat \<Rightarrow> compiled_instruction list \<Rightarrow> inner_instructions list \<Rightarrow> invocation list" where
  "join_groups resolve i [] groups = []"
| "join_groups resolve i (ix # rest) groups =
     (let (inner, left) = take_groups resolve i groups
      in outer_invocation resolve i ix # inner @ join_groups resolve (Suc i) rest left)"

definition transaction_invocations :: "transaction \<Rightarrow> status_meta \<Rightarrow> pubkey list \<Rightarrow> invocation list" where
  "transaction_invocations tx meta keys =
     (case tx_msg tx of
        None \<Rightarrow> []
      | Some message \<Rightarrow>
          if msg_instructions message = [] then []
          else join_groups (resolve_program message meta keys) 0 (msg_instructions message)
                 (ordered_groups (tm_inner_instructions meta)))"

section \<open>The ordered groups keep each index's groups in order\<close>

lemma sorted_tagged: "sorted (map (\<lambda>i. (k i, i)) xs) \<Longrightarrow> sorted (map k xs)"
  for k :: "nat \<Rightarrow> u32"
  by (induction xs) (auto simp: less_eq_prod_def)

lemma sorted_tagged_const:
  fixes k :: "nat \<Rightarrow> u32"
  assumes "sorted (map (\<lambda>i. (k i, i)) xs)" "\<forall>i \<in> set xs. k i = x"
  shows "sorted xs"
  using assms by (induction xs) (auto simp: less_eq_prod_def)

lemma sorted_ordered_groups: "sorted (map ig_index (ordered_groups groups))"
proof -
  have "sorted (map (\<lambda>i. ig_index (groups ! i))
      (sort_key (\<lambda>i. (ig_index (groups ! i), i)) [0 ..< length groups]))"
    by (rule sorted_tagged) (rule sorted_sort_key)
  then show ?thesis by (simp add: ordered_groups_def comp_def)
qed

lemma filter_ordered_groups:
  "filter (\<lambda>g. ig_index g = x) (ordered_groups groups) = filter (\<lambda>g. ig_index g = x) groups"
proof -
  let ?f = "\<lambda>i. (ig_index (groups ! i), i)" and ?n = "[0 ..< length groups]"
  let ?P = "\<lambda>i. ig_index (groups ! i) = x"
  have "sorted (map ?f (filter ?P (sort_key ?f ?n)))"
    by (intro sorted_filter sorted_sort_key)
  then have "sorted (filter ?P (sort_key ?f ?n))"
    by (rule sorted_tagged_const [where x = x]) simp
  moreover have "sorted (filter ?P ?n)" by (rule sorted_wrt_filter) simp
  ultimately have "filter ?P (sort_key ?f ?n) = filter ?P ?n"
    by (intro sorted_distinct_set_unique) (simp_all add: distinct_filter)
  then have "filter (\<lambda>g. ig_index g = x) (map ((!) groups) (sort_key ?f ?n)) =
      filter (\<lambda>g. ig_index g = x) (map ((!) groups) ?n)"
    by (simp add: filter_map comp_def)
  then show ?thesis by (simp add: ordered_groups_def map_nth)
qed

section \<open>The reference: one scan per outer index\<close>

definition scan_groups :: "(u32 \<Rightarrow> pubkey option) \<Rightarrow> inner_instructions list \<Rightarrow> nat \<Rightarrow> invocation list" where
  "scan_groups resolve groups i =
     concat (map (inner_invocations resolve i) (filter (\<lambda>g. ig_index g = word_of_nat i) groups))"

definition scan_invocations :: "(u32 \<Rightarrow> pubkey option) \<Rightarrow> compiled_instruction list \<Rightarrow> inner_instructions list \<Rightarrow> invocation list" where
  "scan_invocations resolve instructions groups =
     concat (map (\<lambda>(i, ix). outer_invocation resolve i ix # scan_groups resolve groups i) (enumerate 0 instructions))"

lemma take_groups_sorted:
  assumes "sorted (map ig_index groups)"
  shows "take_groups resolve i groups =
    (scan_groups resolve groups i, filter (\<lambda>g. ig_index g > word_of_nat i) groups)"
  using assms
proof (induction groups)
  case (Cons g gs)
  show ?case
  proof (cases "ig_index g > word_of_nat i")
    case True
    then have "\<forall>h \<in> set (g # gs). ig_index h > word_of_nat i" using Cons.prems by (auto intro: less_le_trans)
    then show ?thesis using True by (auto simp: scan_groups_def filter_id_conv filter_False)
  next
    case False
    then show ?thesis using Cons by (auto simp: scan_groups_def)
  qed
qed (simp add: scan_groups_def)

lemma scan_groups_suffix:
  assumes "\<forall>g \<in> set groups. word_of_nat k = ig_index g \<longrightarrow> P g"
  shows "scan_groups resolve (filter P groups) k = scan_groups resolve groups k"
proof -
  have "filter (\<lambda>g. ig_index g = word_of_nat k) (filter P groups) = filter (\<lambda>g. ig_index g = word_of_nat k) groups"
    using assms by (auto simp: filter_filter intro!: filter_cong)
  then show ?thesis by (simp only: scan_groups_def)
qed

lemma join_groups_scan:
  assumes "sorted (map ig_index groups)" "n + length instructions \<le> 2 ^ 32"
  shows "join_groups resolve n instructions groups =
    concat (map (\<lambda>(i, ix). outer_invocation resolve i ix # scan_groups resolve groups i) (enumerate n instructions))"
  using assms
proof (induction instructions arbitrary: n groups)
  case (Cons ix rest)
  let ?left = "filter (\<lambda>g. ig_index g > word_of_nat n) groups"
  have sorted: "sorted (map ig_index ?left)" using Cons.prems(1) by (rule sorted_filter)
  have "(word_of_nat n :: u32) < word_of_nat k" if "n < k" "k < 2 ^ 32" for k
    using that by (simp add: word_less_nat_alt unat_of_nat)
  then have "\<forall>g \<in> set groups. word_of_nat k = ig_index g \<longrightarrow> word_of_nat n < ig_index g"
    if "n < k" "k < 2 ^ 32" for k using that by metis
  then have "scan_groups resolve ?left k = scan_groups resolve groups k" if "n < k" "k < 2 ^ 32" for k
    using that by (intro scan_groups_suffix) blast
  then have maps: "map (\<lambda>(i, ix). outer_invocation resolve i ix # scan_groups resolve ?left i) (enumerate (Suc n) rest) =
      map (\<lambda>(i, ix). outer_invocation resolve i ix # scan_groups resolve groups i) (enumerate (Suc n) rest)"
    using Cons.prems(2) by (auto simp: in_set_enumerate_eq)
  have "Suc n + length rest \<le> 2 ^ 32" using Cons.prems(2) by simp
  from Cons.IH [OF sorted this, unfolded maps]
  show ?case using Cons.prems(1) by (simp add: take_groups_sorted)
qed simp

text \<open>
  C14. Flattening keeps the order the metadata records: whatever order the groups arrive in, and with
  repeated groups, every outer instruction is followed by exactly the inner instructions of the
  groups of its index, in their original order, and groups of an index beyond the last instruction
  are dropped. The cursor walk over the sorted positions gives the same list as scanning
  all groups for each instruction.
\<close>

theorem flattening_is_scan:
  assumes "tx_msg tx = Some message" "length (msg_instructions message) \<le> 2 ^ 32"
  shows "transaction_invocations tx meta keys =
    scan_invocations (resolve_program message meta keys) (msg_instructions message) (tm_inner_instructions meta)"
proof -
  let ?r = "resolve_program message meta keys" and ?g = "tm_inner_instructions meta"
  have "scan_groups ?r (ordered_groups ?g) = scan_groups ?r ?g"
    by (simp add: scan_groups_def fun_eq_iff filter_ordered_groups)
  then show ?thesis
    using assms join_groups_scan [OF sorted_ordered_groups, of 0 "msg_instructions message" ?r ?g]
    by (simp add: transaction_invocations_def scan_invocations_def)
qed

definition demo_inner :: "u32 \<Rightarrow> u8 \<Rightarrow> inner_instructions" where
  "demo_inner i b = \<lparr>ig_index = i, ig_instructions =
     [\<lparr>ii_program_id_index = 0, ii_accounts = [], ii_data = [b], ii_stack_height = Some 2\<rparr>]\<rparr>"

definition demo_message :: tx_message where
  "demo_message = \<lparr>msg_account_keys = [replicate 32 5], msg_instructions =
     [\<lparr>ci_program_id_index = 0, ci_accounts = [], ci_data = [10]\<rparr>,
      \<lparr>ci_program_id_index = 0, ci_accounts = [], ci_data = [20]\<rparr>]\<rparr>"

definition demo_unordered :: status_meta where
  "demo_unordered = \<lparr>tm_failed = False,
     tm_inner_instructions = [demo_inner 1 21, demo_inner 0 11, demo_inner 1 22, demo_inner 7 99],
     tm_pre_token_balances = [], tm_post_token_balances = [], tm_loaded_writable = [], tm_loaded_readonly = []\<rparr>"

theorem flattening_is_scan_witness:
  "map iv_data (transaction_invocations \<lparr>tx_signatures = [], tx_msg = Some demo_message\<rparr> demo_unordered []) =
     [[10], [11], [20], [21], [22]]"
  by (subst flattening_is_scan [where message = demo_message])
    (simp_all add: demo_message_def demo_unordered_def demo_inner_def scan_invocations_def scan_groups_def
      outer_invocation_def inner_invocations_def invocation_of_def Let_def)

section \<open>Programs\<close>

text \<open>
  An invocation's program is resolved exactly when its index names a 32-byte key among the static keys,
  the loaded writable and the loaded readonly addresses, and is that key; a malformed or
  missing key stays unresolved.
\<close>

theorem resolve_program_exact:
  "resolve_program message meta
      (transaction_keys \<lparr>tx_signatures = sigs, tx_msg = Some message\<rparr> meta) index =
    (case get_at (unat index) (msg_account_keys message @ tm_loaded_writable meta @ tm_loaded_readonly meta) of
       Some b \<Rightarrow> if length b = 32 then Some b else None
     | None \<Rightarrow> None)"
proof -
  let ?all = "msg_account_keys message @ tm_loaded_writable meta @ tm_loaded_readonly meta"
  have fast: "length b = 32 \<Longrightarrow> read_pubkey_fast b = b" for b
    by (simp add: read_pubkey_fast_def read_pubkey_def read_slice_def usize_checked_add_def get_range_def)
  have "resolve_program message meta keys index =
      Option.bind (get_at (unat index) ?all)
        (\<lambda>bs. if length bs \<noteq> 32 then None else get_at (unat index) keys)" for keys
    by (auto simp: resolve_program_def get_at_def nth_append usize_checked_sub_def)
  moreover have "transaction_keys \<lparr>tx_signatures = sigs, tx_msg = Some message\<rparr> meta = map read_pubkey_fast ?all"
    by (simp add: transaction_keys_def)
  ultimately show ?thesis
    by (simp add: get_at_def fast del: map_append)
qed

end
