(* ===== verification/Route_Mints.thy ===== *)
theory Route_Mints
  imports Route_Invocations "HOL-Library.AList"
begin

text \<open>
  The mint of each token account (\<open>token_mints_from_invocations\<close> of \<open>src/transaction_route.rs\<close>):
  evidence from balances, checked transfers and account initialisations, a sticky marker for
  accounts with two different mints, and a breadth-first propagation over the plain transfers. A hash map
  is an association list whose order nothing reads; \<open>parse\<close> is the library's base58 parser.
\<close>

type_synonym mint_map = "(pubkey \<times> pubkey) list"

section \<open>Direct evidence\<close>

definition record_mint :: "mint_map \<Rightarrow> pubkey \<times> pubkey \<Rightarrow> mint_map" where
  "record_mint mints e =
     (case e of (account, mint) \<Rightarrow>
        if account \<noteq> default_pubkey \<and> mint \<noteq> default_pubkey
        then (case map_of mints account of
                None \<Rightarrow> AList.update account mint mints
              | Some old \<Rightarrow> if old \<noteq> mint then AList.update account default_pubkey mints else mints)
        else mints)"

definition balance_evidence :: "(string \<Rightarrow> pubkey option) \<Rightarrow> pubkey list \<Rightarrow> token_balance \<Rightarrow> (pubkey \<times> pubkey) list" where
  "balance_evidence parse keys balance =
     (case parse (tb_mint balance) of
        None \<Rightarrow> []
      | Some mint \<Rightarrow> [(route_key keys (tb_account_index balance), mint)])"

definition initializes_account :: "invocation \<Rightarrow> bool" where
  "initializes_account ix \<longleftrightarrow>
     token_program (iv_program ix) \<and> length (iv_accounts ix) \<ge> 2 \<and>
     (get_at 0 (iv_data ix) = Some 1 \<and> length (iv_data ix) = 1 \<or>
      get_at 0 (iv_data ix) \<in> {Some 16, Some 18} \<and> length (iv_data ix) = 33)"

definition invocation_evidence :: "pubkey list \<Rightarrow> invocation \<Rightarrow> (pubkey \<times> pubkey) list" where
  "invocation_evidence keys ix =
     (let both = [(route_account ix keys 0, route_account ix keys 1), (route_account ix keys 2, route_account ix keys 1)]
      in (if checked_transfer ix then both else []) @
         (if checked_transfer_with_fee ix then both else []) @
         (if initializes_account ix then [(route_account ix keys 0, route_account ix keys 1)] else []))"

text \<open>The calls of \<open>record\<close> in their order.\<close>

definition mint_evidence :: "(string \<Rightarrow> pubkey option) \<Rightarrow> status_meta \<Rightarrow> pubkey list \<Rightarrow> invocation list \<Rightarrow> (pubkey \<times> pubkey) list" where
  "mint_evidence parse meta keys invocations =
     concat (map (balance_evidence parse keys) (tm_pre_token_balances meta @ tm_post_token_balances meta)) @
     concat (map (invocation_evidence keys) invocations)"

definition direct_mints :: "(pubkey \<times> pubkey) list \<Rightarrow> mint_map" where
  "direct_mints evidence = foldl record_mint [] evidence"

section \<open>Neighbours by plain transfer\<close>

definition plain_transfer :: "invocation \<Rightarrow> bool" where
  "plain_transfer ix \<longleftrightarrow>
     token_program (iv_program ix) \<and> get_at 0 (iv_data ix) = Some 3 \<and>
     length (iv_data ix) \<ge> 9 \<and> length (iv_accounts ix) \<ge> 3"

definition bridges :: "mint_map \<Rightarrow> pubkey \<Rightarrow> pubkey \<Rightarrow> bool" where
  "bridges mints source destination \<longleftrightarrow>
     source \<noteq> default_pubkey \<and> destination \<noteq> default_pubkey \<and>
     map_of mints source \<noteq> Some default_pubkey \<and> map_of mints destination \<noteq> Some default_pubkey \<and>
     \<not> (map_of mints source \<noteq> None \<and> map_of mints destination \<noteq> None)"

definition push_neighbour :: "pubkey \<Rightarrow> pubkey \<Rightarrow> (pubkey \<times> pubkey list) list \<Rightarrow> (pubkey \<times> pubkey list) list" where
  "push_neighbour a b n = AList.update a ((case map_of n a of None \<Rightarrow> [] | Some bs \<Rightarrow> bs) @ [b]) n"

definition add_neighbours :: "mint_map \<Rightarrow> pubkey list \<Rightarrow> (pubkey \<times> pubkey list) list \<Rightarrow> invocation \<Rightarrow> (pubkey \<times> pubkey list) list" where
  "add_neighbours mints keys n ix =
     (let source = route_account ix keys 0; destination = route_account ix keys 1
      in if plain_transfer ix \<and> bridges mints source destination
         then push_neighbour destination source (push_neighbour source destination n)
         else n)"

definition neighbours_of :: "mint_map \<Rightarrow> pubkey list \<Rightarrow> invocation list \<Rightarrow> (pubkey \<times> pubkey list) list" where
  "neighbours_of mints keys invocations = foldl (add_neighbours mints keys) [] invocations"

section \<open>Propagation\<close>

text \<open>The inner loop: give the mint to every neighbour that has none, and queue it.\<close>

fun give_mint :: "pubkey \<Rightarrow> pubkey list \<Rightarrow> mint_map \<Rightarrow> pubkey list \<Rightarrow> mint_map \<times> pubkey list" where
  "give_mint mint [] mints pending = (mints, pending)"
| "give_mint mint (neighbour # rest) mints pending =
     (if map_of mints neighbour = None
      then give_mint mint rest (AList.update neighbour mint mints) (pending @ [neighbour])
      else give_mint mint rest mints pending)"

text \<open>Indexing a map with a missing key panics: \<open>None\<close>. So does a loop that does not end.\<close>

partial_function (option) propagate :: "(pubkey \<times> pubkey list) list \<Rightarrow> mint_map \<Rightarrow> pubkey list \<Rightarrow> mint_map option" where
  "propagate n mints pending =
     (case pending of
        [] \<Rightarrow> Some mints
      | account # rest \<Rightarrow> do {
          mint \<leftarrow> map_of mints account;
          bs \<leftarrow> map_of n account;
          (case give_mint mint bs mints rest of (mints', pending') \<Rightarrow> propagate n mints' pending')
        })"

definition initial_pending :: "(pubkey \<times> pubkey list) list \<Rightarrow> mint_map \<Rightarrow> pubkey list \<Rightarrow> pubkey list" where
  "initial_pending n mints keys =
     filter (\<lambda>k. case map_of mints k of None \<Rightarrow> False | Some mint \<Rightarrow> mint \<noteq> default_pubkey)
       (filter (\<lambda>k. map_of n k \<noteq> None) keys)"

definition token_mints_from_invocations ::
  "(string \<Rightarrow> pubkey option) \<Rightarrow> status_meta \<Rightarrow> pubkey list \<Rightarrow> invocation list \<Rightarrow> mint_map option" where
  "token_mints_from_invocations parse meta keys invocations =
     (let mints = direct_mints (mint_evidence parse meta keys invocations)
      in if mints = [] then Some []
         else do {
           let n = neighbours_of mints keys invocations;
           mints \<leftarrow> propagate n mints (initial_pending n mints keys);
           Some (filter (\<lambda>e. snd e \<noteq> default_pubkey) mints)
         })"

section \<open>What the direct evidence says\<close>

definition evidence_for :: "(pubkey \<times> pubkey) list \<Rightarrow> pubkey \<Rightarrow> pubkey set" where
  "evidence_for evidence a = {m. (a, m) \<in> set evidence \<and> a \<noteq> default_pubkey \<and> m \<noteq> default_pubkey}"

lemma direct_mints_snoc: "direct_mints (es @ [e]) = record_mint (direct_mints es) e"
  by (simp add: direct_mints_def)

lemma direct_mints_exact:
  "case map_of (direct_mints evidence) a of
     None \<Rightarrow> evidence_for evidence a = {}
   | Some m \<Rightarrow> (if m = default_pubkey then \<exists>x y. x \<noteq> y \<and> {x, y} \<subseteq> evidence_for evidence a
               else evidence_for evidence a = {m})"
proof (induction evidence rule: rev_induct)
  case Nil
  then show ?case by (simp add: direct_mints_def evidence_for_def)
next
  case (snoc e es)
  obtain b m where e: "e = (b, m)" by fastforce
  have ev: "evidence_for (es @ [e]) a =
      evidence_for es a \<union> (if a = b \<and> b \<noteq> default_pubkey \<and> m \<noteq> default_pubkey then {m} else {})"
    by (auto simp: evidence_for_def e)
  show ?case
  proof (cases "a = b \<and> b \<noteq> default_pubkey \<and> m \<noteq> default_pubkey")
    case False
    then have "map_of (direct_mints (es @ [e])) a = map_of (direct_mints es) a"
      by (auto simp: direct_mints_snoc record_mint_def e update_conv' split: option.splits)
    moreover have "evidence_for (es @ [e]) a = evidence_for es a"
      using False by (simp only: ev if_False Un_empty_right)
    ultimately show ?thesis using snoc by (simp only:)
  next
    case True
    then have l: "map_of (direct_mints (es @ [e])) a = (case map_of (direct_mints es) a of
        None \<Rightarrow> Some m | Some old \<Rightarrow> if old \<noteq> m then Some default_pubkey else Some old)"
      by (auto simp: direct_mints_snoc record_mint_def e update_conv' split: option.splits)
    show ?thesis
    proof (cases "map_of (direct_mints es) a")
      case None
      then show ?thesis unfolding l ev using snoc.IH True by simp
    next
      case (Some old)
      then show ?thesis unfolding l ev using snoc.IH True by (auto split: if_splits)
    qed
  qed
qed

lemma direct_mints_none: "map_of (direct_mints evidence) a = None \<longleftrightarrow> evidence_for evidence a = {}"
  using direct_mints_exact [of evidence a] by (cases "map_of (direct_mints evidence) a") (auto split: if_splits)

lemma direct_mints_two:
  assumes "x \<noteq> y \<and> {x, y} \<subseteq> evidence_for evidence a"
  shows "map_of (direct_mints evidence) a = Some default_pubkey"
proof (cases "map_of (direct_mints evidence) a")
  case None
  then show ?thesis using assms by (simp add: direct_mints_none)
next
  case (Some m)
  then show ?thesis using assms direct_mints_exact [of evidence a] by (auto split: if_splits)
qed

lemma direct_mints_one:
  "map_of (direct_mints evidence) a = Some m \<and> m \<noteq> default_pubkey \<longleftrightarrow> evidence_for evidence a = {m}"
proof
  assume "map_of (direct_mints evidence) a = Some m \<and> m \<noteq> default_pubkey"
  then show "evidence_for evidence a = {m}" using direct_mints_exact [of evidence a] by simp
next
  assume e: "evidence_for evidence a = {m}"
  then obtain m' where m': "map_of (direct_mints evidence) a = Some m'"
    using direct_mints_none [of evidence a] by (cases "map_of (direct_mints evidence) a") simp_all
  have "m' \<noteq> default_pubkey"
  proof
    assume "m' = default_pubkey"
    then show False using m' e direct_mints_exact [of evidence a] by auto
  qed
  then show "map_of (direct_mints evidence) a = Some m \<and> m \<noteq> default_pubkey"
    using m' e direct_mints_exact [of evidence a] by simp
qed

section \<open>The edges\<close>

definition edges :: "(pubkey \<times> pubkey list) list \<Rightarrow> (pubkey \<times> pubkey) set" where
  "edges n = {(a, b). \<exists>bs. map_of n a = Some bs \<and> b \<in> set bs}"

definition plain_edges :: "mint_map \<Rightarrow> pubkey list \<Rightarrow> invocation list \<Rightarrow> (pubkey \<times> pubkey) set" where
  "plain_edges mints keys invocations =
     {(a, b). \<exists>ix \<in> set invocations. plain_transfer ix \<and>
        bridges mints (route_account ix keys 0) (route_account ix keys 1) \<and>
        ((a, b) = (route_account ix keys 0, route_account ix keys 1) \<or>
         (b, a) = (route_account ix keys 0, route_account ix keys 1))}"

lemma edges_push: "edges (push_neighbour a b n) = insert (a, b) (edges n)"
  by (auto simp: edges_def push_neighbour_def update_conv' split: if_splits option.splits)

lemma dom_push: "dom (map_of (push_neighbour a b n)) = insert a (dom (map_of n))"
  by (simp add: push_neighbour_def update_conv' dom_fun_upd)

lemma neighbours_snoc:
  "neighbours_of mints keys (ixs @ [ix]) = add_neighbours mints keys (neighbours_of mints keys ixs) ix"
  by (simp add: neighbours_of_def)

lemma edges_neighbours: "edges (neighbours_of mints keys invocations) = plain_edges mints keys invocations"
proof (induction invocations rule: rev_induct)
  case Nil
  then show ?case by (simp add: neighbours_of_def edges_def plain_edges_def)
next
  case (snoc ix ixs)
  have "plain_edges mints keys (ixs @ [ix]) = plain_edges mints keys ixs \<union> plain_edges mints keys [ix]"
    by (auto simp: plain_edges_def)
  with snoc show ?case
    by (auto simp: neighbours_snoc add_neighbours_def Let_def edges_push plain_edges_def)
qed

lemma dom_neighbours: "dom (map_of (neighbours_of mints keys invocations)) = Domain (plain_edges mints keys invocations)"
proof (induction invocations rule: rev_induct)
  case Nil
  then show ?case by (simp add: neighbours_of_def plain_edges_def)
next
  case (snoc ix ixs)
  have "plain_edges mints keys (ixs @ [ix]) = plain_edges mints keys ixs \<union> plain_edges mints keys [ix]"
    by (auto simp: plain_edges_def)
  with snoc show ?case
    by (auto simp: neighbours_snoc add_neighbours_def Let_def dom_push plain_edges_def)
qed

section \<open>The propagation ends and spreads exactly the known mints\<close>

lemma give_mint_eq:
  "give_mint mint bs mints pending = (mints', pending') \<Longrightarrow>
     map_of mints' = (\<lambda>a. if a \<in> set bs \<and> map_of mints a = None then Some mint else map_of mints a) \<and>
     (\<exists>new. pending' = pending @ new \<and> set new = {a \<in> set bs. map_of mints a = None} \<and> distinct new) \<and>
     (distinct (map fst mints) \<longrightarrow> distinct (map fst mints'))"
proof (induction mint bs mints pending rule: give_mint.induct)
  case (1 mint mints pending)
  then show ?case by auto
next
  case (2 mint neighbour rest mints pending)
  show ?case
  proof (cases "map_of mints neighbour = None")
    case False
    have "give_mint mint rest mints pending = (mints', pending')"
      using "2.prems" unfolding give_mint.simps if_not_P [OF False] .
    moreover have "a \<in> set (neighbour # rest) \<and> map_of mints a = None \<longleftrightarrow> a \<in> set rest \<and> map_of mints a = None" for a
      using False by auto
    ultimately show ?thesis using "2.IH"(2) [OF False] by presburger
  next
    case True
    let ?m = "AList.update neighbour mint mints"
    have "give_mint mint rest ?m (pending @ [neighbour]) = (mints', pending')"
      using "2.prems" unfolding give_mint.simps if_P [OF True] .
    from "2.IH"(1) [OF True this] obtain new where
      m: "map_of mints' = (\<lambda>a. if a \<in> set rest \<and> map_of ?m a = None then Some mint else map_of ?m a)"
      and p: "pending' = (pending @ [neighbour]) @ new" "set new = {a \<in> set rest. map_of ?m a = None}" "distinct new"
      and d: "distinct (map fst ?m) \<longrightarrow> distinct (map fst mints')" by blast
    show ?thesis
    proof (intro conjI exI)
      show "map_of mints' = (\<lambda>a. if a \<in> set (neighbour # rest) \<and> map_of mints a = None then Some mint else map_of mints a)"
        using True by (auto simp: m update_conv' fun_eq_iff)
      show "pending' = pending @ (neighbour # new)" "distinct (neighbour # new)"
        "set (neighbour # new) = {a \<in> set (neighbour # rest). map_of mints a = None}"
        using True p by (auto simp: update_conv')
      show "distinct (map fst mints) \<longrightarrow> distinct (map fst mints')" using d by (simp add: distinct_update)
    qed
  qed
qed

definition spread_inv :: "(pubkey \<times> pubkey list) list \<Rightarrow> mint_map \<Rightarrow> mint_map \<Rightarrow> pubkey list \<Rightarrow> bool" where
  "spread_inv n base mints pending \<longleftrightarrow>
     distinct (map fst mints) \<and>
     (\<forall>p \<in> set pending. \<exists>m. map_of mints p = Some m \<and> m \<noteq> default_pubkey \<and> p \<in> dom (map_of n)) \<and>
     (\<forall>a m. map_of base a = Some m \<longrightarrow> map_of mints a = Some m) \<and>
     (\<forall>a m. map_of base a = None \<longrightarrow> map_of mints a = Some m \<longrightarrow>
        m \<noteq> default_pubkey \<and> (\<exists>s. map_of base s = Some m \<and> (s, a) \<in> (edges n)\<^sup>*)) \<and>
     (\<forall>a m b. map_of mints a = Some m \<longrightarrow> m \<noteq> default_pubkey \<longrightarrow> (a, b) \<in> edges n \<longrightarrow>
        a \<notin> set pending \<longrightarrow> map_of mints b \<noteq> None)"

text \<open>What the propagation relies on: every neighbour has an entry of its own.\<close>

locale mint_graph =
  fixes n :: "(pubkey \<times> pubkey list) list" and base :: mint_map
  assumes closed: "(a, b) \<in> edges n \<Longrightarrow> b \<in> dom (map_of n)"
    and unmarked: "a \<in> dom (map_of n) \<Longrightarrow> map_of base a \<noteq> Some default_pubkey"
begin

definition unknown :: "mint_map \<Rightarrow> pubkey set" where
  "unknown mints = {a \<in> dom (map_of n). map_of mints a = None}"

lemma finite_unknown: "finite (unknown mints)"
  by (simp add: unknown_def finite_dom_map_of)

lemma spread_step:
  assumes inv: "spread_inv n base mints (account # rest)"
    and mint: "map_of mints account = Some mint" and bs: "map_of n account = Some bs"
    and step: "give_mint mint bs mints rest = (mints', pending')"
  shows "spread_inv n base mints' pending' \<and>
    card (unknown mints') + length pending' < card (unknown mints) + length (account # rest)"
proof -
  let ?new = "{a \<in> set bs. map_of mints a = None}"
  obtain new where m': "map_of mints' = (\<lambda>a. if a \<in> ?new then Some mint else map_of mints a)"
    and p': "pending' = rest @ new" "set new = ?new" "distinct new"
    and d: "distinct (map fst mints) \<longrightarrow> distinct (map fst mints')"
    using give_mint_eq [OF step] by auto
  have nd: "mint \<noteq> default_pubkey" using inv mint by (auto simp: spread_inv_def)
  have edge: "(account, b) \<in> edges n \<longleftrightarrow> b \<in> set bs" for b using bs by (auto simp: edges_def)
  have known: "b \<in> set bs \<Longrightarrow> map_of mints' b \<noteq> None" for b by (auto simp: m')
  have reach: "\<exists>s. map_of base s = Some mint \<and> (s, account) \<in> (edges n)\<^sup>*"
  proof (cases "map_of base account")
    case None
    then show ?thesis using inv mint by (simp add: spread_inv_def)
  next
    case (Some m)
    then have "map_of mints account = Some m" using inv by (simp add: spread_inv_def)
    then show ?thesis using Some mint by auto
  qed
  then have reach_new: "b \<in> ?new \<Longrightarrow> \<exists>s. map_of base s = Some mint \<and> (s, b) \<in> (edges n)\<^sup>*" for b
    using edge by (auto intro: rtrancl_into_rtrancl)
  have "spread_inv n base mints' pending'"
    unfolding spread_inv_def
  proof (intro conjI allI impI ballI)
    show "distinct (map fst mints')" using inv d by (simp add: spread_inv_def)
  next
    fix p assume "p \<in> set pending'"
    then consider "p \<in> ?new" | "p \<in> set rest" using p' by auto
    then show "\<exists>m. map_of mints' p = Some m \<and> m \<noteq> default_pubkey \<and> p \<in> dom (map_of n)"
    proof cases
      case 1
      then have "p \<in> dom (map_of n)" using closed edge by blast
      then show ?thesis using 1 nd by (simp add: m')
    next
      case 2
      then show ?thesis using inv by (auto simp: spread_inv_def m')
    qed
  next
    fix a m assume "map_of base a = Some m"
    then have "map_of mints a = Some m" using inv by (simp add: spread_inv_def)
    then show "map_of mints' a = Some m" by (simp add: m')
  next
    fix a m assume a: "map_of base a = None" "map_of mints' a = Some m"
    have "m \<noteq> default_pubkey \<and> (\<exists>s. map_of base s = Some m \<and> (s, a) \<in> (edges n)\<^sup>*)"
    proof (cases "a \<in> ?new")
      case True
      then have "m = mint" using a(2) by (simp add: m')
      then show ?thesis using nd reach_new [OF True] by simp
    next
      case False
      then have "map_of mints a = Some m" using a(2) by (simp add: m' split: if_splits)
      then show ?thesis using inv a(1) by (simp add: spread_inv_def)
    qed
    then show "m \<noteq> default_pubkey" "\<exists>s. map_of base s = Some m \<and> (s, a) \<in> (edges n)\<^sup>*" by auto
  next
    fix a m b assume a: "map_of mints' a = Some m" "m \<noteq> default_pubkey" "(a, b) \<in> edges n" "a \<notin> set pending'"
    show "map_of mints' b \<noteq> None"
    proof (cases "a = account")
      case True
      then show ?thesis using a edge known by auto
    next
      case False
      then have "map_of mints a = Some m" "a \<notin> set (account # rest)" using a p' by (auto simp: m' split: if_splits)
      then show ?thesis using inv a unfolding spread_inv_def m' by auto
    qed
  qed
  moreover have "card (unknown mints') + length new = card (unknown mints)"
  proof -
    have "?new \<subseteq> unknown mints" using closed edge by (auto simp: unknown_def)
    moreover have "unknown mints' = unknown mints - ?new" by (auto simp: unknown_def m')
    ultimately have "card (unknown mints') = card (unknown mints) - card ?new" "card ?new \<le> card (unknown mints)"
      using finite_unknown [of mints] by (simp_all add: card_Diff_subset finite_subset card_mono)
    then show ?thesis using distinct_card [OF p'(3)] unfolding p'(2) by simp
  qed
  ultimately show ?thesis using p'(1) by simp
qed

lemma propagate_total:
  "spread_inv n base mints pending \<Longrightarrow> \<exists>result. propagate n mints pending = Some result \<and> spread_inv n base result []"
proof (induction "card (unknown mints) + length pending" arbitrary: mints pending rule: less_induct)
  case less
  show ?case
  proof (cases pending)
    case Nil
    then show ?thesis using less.prems by (simp add: propagate.simps)
  next
    case (Cons account rest)
    obtain mint bs where mb: "map_of mints account = Some mint" "map_of n account = Some bs"
      using less.prems Cons by (auto simp: spread_inv_def)
    obtain mints' pending' where step: "give_mint mint bs mints rest = (mints', pending')" by fastforce
    from spread_step [OF less.prems [unfolded Cons] mb step] less.hyps [of mints' pending'] Cons
    obtain result where "propagate n mints' pending' = Some result" "spread_inv n base result []" by auto
    then show ?thesis using Cons mb step by (auto simp: propagate.simps)
  qed
qed

lemma spread_complete:
  assumes inv: "spread_inv n base result []" and seed: "map_of base s = Some m" "m \<noteq> default_pubkey"
    and path: "(s, a) \<in> (edges n)\<^sup>*"
  shows "\<exists>m'. map_of result a = Some m' \<and> m' \<noteq> default_pubkey"
  using path
proof (induction rule: rtrancl_induct)
  case base
  then show ?case using inv seed by (auto simp: spread_inv_def)
next
  case (step b c)
  then obtain m' where "map_of result b = Some m'" "m' \<noteq> default_pubkey" by blast
  then have "map_of result c \<noteq> None" using inv step.hyps(2) by (auto simp: spread_inv_def)
  moreover have "map_of base c \<noteq> Some default_pubkey" using closed unmarked step.hyps(2) by blast
  ultimately show ?case using inv unfolding spread_inv_def by (metis not_Some_eq)
qed

end

interpretation neighbours: mint_graph "neighbours_of mints keys invocations" mints for mints keys invocations
proof unfold_locales
  fix a b assume "(a, b) \<in> edges (neighbours_of mints keys invocations)"
  then show "b \<in> dom (map_of (neighbours_of mints keys invocations))"
    unfolding edges_neighbours dom_neighbours by (auto simp: plain_edges_def)
next
  fix a assume "a \<in> dom (map_of (neighbours_of mints keys invocations))"
  then show "map_of mints a \<noteq> Some default_pubkey"
    unfolding dom_neighbours by (auto simp: plain_edges_def bridges_def)
qed

section \<open>The mints of a transaction\<close>

lemma invocation_evidence_in:
  "(a, m) \<in> set (invocation_evidence keys ix) \<Longrightarrow> a \<noteq> default_pubkey \<Longrightarrow> a \<in> set keys"
  using route_account_in by (auto simp: invocation_evidence_def Let_def split: if_splits)

lemma balance_evidence_in:
  "(a, m) \<in> set (balance_evidence parse keys b) \<Longrightarrow> a \<noteq> default_pubkey \<Longrightarrow> a \<in> set keys"
  using route_key_in by (auto simp: balance_evidence_def split: option.splits)

lemma evidence_in_keys:
  "evidence_for (mint_evidence parse meta keys invocations) a \<noteq> {} \<Longrightarrow> a \<in> set keys"
  using invocation_evidence_in balance_evidence_in
  by (fastforce simp: evidence_for_def mint_evidence_def)

lemma direct_mints_distinct: "distinct (map fst (direct_mints evidence))"
proof (induction evidence rule: rev_induct)
  case (snoc e es)
  then show ?case
    by (auto simp: direct_mints_snoc record_mint_def distinct_update split: prod.split option.split)
qed (simp add: direct_mints_def)

lemma spread_inv_start:
  fixes parse meta keys invocations
  defines "base \<equiv> direct_mints (mint_evidence parse meta keys invocations)"
  shows "spread_inv (neighbours_of base keys invocations) base base
    (initial_pending (neighbours_of base keys invocations) base keys)"
proof -
  let ?n = "neighbours_of base keys invocations"
  have "a \<in> set (initial_pending ?n base keys)"
    if a: "map_of base a = Some m" "m \<noteq> default_pubkey" "(a, b) \<in> edges ?n" for a m b
  proof -
    have "evidence_for (mint_evidence parse meta keys invocations) a = {m}"
      using direct_mints_exact [of "mint_evidence parse meta keys invocations" a] a(1,2)
      by (simp add: base_def)
    then have "a \<in> set keys" using evidence_in_keys [of parse meta keys invocations a] by simp
    then show ?thesis using a by (auto simp: initial_pending_def edges_def)
  qed
  then show ?thesis
    using direct_mints_distinct
    by (auto simp: spread_inv_def initial_pending_def base_def split: option.splits)
qed

lemma map_of_retain:
  "distinct (map fst xs) \<Longrightarrow>
     map_of (filter (\<lambda>e. snd e \<noteq> d) xs) a = (case map_of xs a of Some m \<Rightarrow> if m = d then None else Some m | None \<Rightarrow> None)"
  by (induction xs) (auto simp: map_of_eq_None_iff rev_image_eqI split: option.splits)

text \<open>The state after the propagation, in terms of the evidence and the plain transfers.\<close>

lemma token_mints_result:
  fixes parse meta keys invocations
  defines "base \<equiv> direct_mints (mint_evidence parse meta keys invocations)"
  obtains result where
    "token_mints_from_invocations parse meta keys invocations = Some (filter (\<lambda>e. snd e \<noteq> default_pubkey) result)"
    "spread_inv (neighbours_of base keys invocations) base result []"
proof (cases "base = []")
  case True
  have "token_mints_from_invocations parse meta keys invocations =
      Some (filter (\<lambda>e. snd e \<noteq> default_pubkey) [])"
    using True by (simp add: token_mints_from_invocations_def base_def)
  moreover have "spread_inv (neighbours_of base keys invocations) base [] []"
    by (simp add: spread_inv_def True)
  ultimately show thesis by (rule that)
next
  case False
  obtain result where
    "propagate (neighbours_of base keys invocations) base
       (initial_pending (neighbours_of base keys invocations) base keys) = Some result"
    "spread_inv (neighbours_of base keys invocations) base result []"
    using neighbours.propagate_total [OF spread_inv_start] unfolding base_def by blast
  note found = this
  have "token_mints_from_invocations parse meta keys invocations =
      Some (filter (\<lambda>e. snd e \<noteq> default_pubkey) result)"
    using False found(1) by (simp add: token_mints_from_invocations_def base_def Let_def)
  then show thesis using found(2) by (rule that)
qed

text \<open>
  C12. The mint resolution of a transaction ends without a panic and is exact on evidence: an account with one
  mint in the balances, checked transfers and initialisations gets that mint, one with two
  different mints gets none, and neither is ever overwritten. An account without evidence gets only
  the mint of an account with evidence it is linked to by plain transfers that touch
  no ambiguous account, and gets one whenever there is such a link.
\<close>

theorem mint_resolution:
  "\<exists>result. token_mints_from_invocations parse meta keys invocations = Some result \<and>
     (let evidence = mint_evidence parse meta keys invocations;
          links = (plain_edges (direct_mints evidence) keys invocations)\<^sup>*
      in (\<forall>a m. evidence_for evidence a = {m} \<longrightarrow> map_of result a = Some m) \<and>
         (\<forall>a x y. x \<noteq> y \<and> {x, y} \<subseteq> evidence_for evidence a \<longrightarrow> map_of result a = None) \<and>
         (\<forall>a. evidence_for evidence a = {} \<longrightarrow>
            (\<forall>m. map_of result a = Some m \<longrightarrow> (\<exists>s. evidence_for evidence s = {m} \<and> (s, a) \<in> links)) \<and>
            (\<forall>s m. evidence_for evidence s = {m} \<and> (s, a) \<in> links \<longrightarrow> map_of result a \<noteq> None)))"
proof -
  define ev where "ev = mint_evidence parse meta keys invocations"
  define base where "base = direct_mints ev"
  define n where "n = neighbours_of base keys invocations"
  obtain r where r: "token_mints_from_invocations parse meta keys invocations =
      Some (filter (\<lambda>e. snd e \<noteq> default_pubkey) r)" and inv: "spread_inv n base r []"
    using token_mints_result [of parse meta keys invocations] unfolding ev_def base_def n_def by blast
  define result where "result = filter (\<lambda>e. snd e \<noteq> default_pubkey) r"
  have look: "map_of result a = (case map_of r a of Some m \<Rightarrow> if m = default_pubkey then None else Some m | None \<Rightarrow> None)" for a
    unfolding result_def using inv by (intro map_of_retain) (simp add: spread_inv_def)
  have one: "map_of base a = Some m \<and> m \<noteq> default_pubkey \<longleftrightarrow> evidence_for ev a = {m}" for a m
    unfolding base_def by (rule direct_mints_one)
  have none: "map_of base a = None \<longleftrightarrow> evidence_for ev a = {}" for a
    unfolding base_def by (rule direct_mints_none)
  have e: "edges n = plain_edges base keys invocations" by (simp add: n_def edges_neighbours)
  have one_mint: "map_of result a = Some m" if "evidence_for ev a = {m}" for a m
    using that inv by (auto simp: look spread_inv_def one [symmetric])
  have two_mints: "map_of result a = None" if "x \<noteq> y \<and> {x, y} \<subseteq> evidence_for ev a" for a x y
  proof -
    have "map_of base a = Some default_pubkey" unfolding base_def using that by (rule direct_mints_two)
    then show ?thesis using inv by (simp add: look spread_inv_def)
  qed
  have sound: "\<exists>s. evidence_for ev s = {m} \<and> (s, a) \<in> (edges n)\<^sup>*"
    if a: "evidence_for ev a = {}" "map_of result a = Some m" for a m
  proof -
    have "map_of r a = Some m" "m \<noteq> default_pubkey" using a(2) by (auto simp: look split: option.splits if_splits)
    then show ?thesis using inv a(1) unfolding spread_inv_def none [symmetric] one [symmetric] by blast
  qed
  have reached: "map_of result a \<noteq> None" if s: "evidence_for ev s = {m}" "(s, a) \<in> (edges n)\<^sup>*" for a s m
    using neighbours.spread_complete [OF inv [unfolded n_def], of s m a] s
    by (auto simp: look one [symmetric] n_def)
  show ?thesis
    unfolding ev_def [symmetric] base_def [symmetric] Let_def e [symmetric]
  proof (intro exI [of _ result] conjI allI impI)
    show "token_mints_from_invocations parse meta keys invocations = Some result" using r by (simp add: result_def)
  next
    fix a m assume "evidence_for ev a = {m}"
    then show "map_of result a = Some m" by (rule one_mint)
  next
    fix a x y assume "x \<noteq> y \<and> {x, y} \<subseteq> evidence_for ev a"
    then show "map_of result a = None" by (rule two_mints)
  next
    fix a m assume "evidence_for ev a = {}" "map_of result a = Some m"
    then show "\<exists>s. evidence_for ev s = {m} \<and> (s, a) \<in> (edges n)\<^sup>*" by (rule sound)
  next
    fix a s m assume "evidence_for ev s = {m} \<and> (s, a) \<in> (edges n)\<^sup>*"
    then show "map_of result a \<noteq> None" using reached by blast
  qed
qed

definition demo_key :: "u8 \<Rightarrow> pubkey" where
  "demo_key b = b # replicate 31 0"

lemma demo_key_simps:
  "demo_key a = demo_key b \<longleftrightarrow> a = b" "demo_key a = default_pubkey \<longleftrightarrow> a = 0" "length (demo_key b) = 32"
proof -
  have "default_pubkey = 0 # replicate 31 (0 :: u8)" by (simp add: numeral_eq_Suc)
  then show "demo_key a = default_pubkey \<longleftrightarrow> a = 0" by (simp add: demo_key_def)
qed (simp_all add: demo_key_def)

definition demo_keys :: "pubkey list" where
  "demo_keys = [demo_key 1, demo_key 2, demo_key 7, ROUTE_SPL_TOKEN]"

definition demo_balances :: status_meta where
  "demo_balances = \<lparr>tm_failed = False, tm_inner_instructions = [],
     tm_pre_token_balances = [\<lparr>tb_account_index = 0, tb_mint = ''mint''\<rparr>], tm_post_token_balances = [],
     tm_loaded_writable = [], tm_loaded_readonly = []\<rparr>"

definition demo_parse_key :: "string \<Rightarrow> pubkey option" where
  "demo_parse_key t = (if t = ''mint'' then Some (demo_key 7) else None)"

definition demo_transfer :: invocation where
  "demo_transfer = \<lparr>iv_position = \<lparr>ip_outer_index = 0, ip_inner_index = None, ip_stack_height = Some 1\<rparr>,
     iv_program = ROUTE_SPL_TOKEN, iv_program_resolved = True, iv_accounts = [0, 1, 0],
     iv_data = [3, 9, 0, 0, 0, 0, 0, 0, 0]\<rparr>"

lemma demo_transfer_accounts:
  "route_account demo_transfer demo_keys 0 = demo_key 1" "route_account demo_transfer demo_keys 1 = demo_key 2"
  by (simp_all add: demo_transfer_def demo_keys_def route_account_def route_key_def get_at_def)

lemma demo_mint_evidence:
  "mint_evidence demo_parse_key demo_balances demo_keys [demo_transfer] = [(demo_key 1, demo_key 7)]"
  by (simp add: mint_evidence_def balance_evidence_def demo_balances_def demo_parse_key_def invocation_evidence_def
      checked_transfer_def checked_transfer_with_fee_def initializes_account_def demo_transfer_def get_at_def
      get_range_def route_key_def demo_keys_def)

theorem mint_resolution_witness:
  "\<exists>result. token_mints_from_invocations demo_parse_key demo_balances demo_keys [demo_transfer] = Some result \<and>
     map_of result (demo_key 1) = Some (demo_key 7) \<and> map_of result (demo_key 2) = Some (demo_key 7)"
proof -
  let ?ev = "mint_evidence demo_parse_key demo_balances demo_keys [demo_transfer]"
  have ev: "evidence_for ?ev a = (if a = demo_key 1 then {demo_key 7} else {})" for a
    by (auto simp: demo_mint_evidence evidence_for_def demo_key_simps)
  have direct: "map_of (direct_mints ?ev) a = (if a = demo_key 1 then Some (demo_key 7) else None)" for a
    by (simp add: demo_mint_evidence direct_mints_def record_mint_def demo_key_simps)
  have "plain_transfer demo_transfer"
    by (simp add: plain_transfer_def demo_transfer_def token_program_def get_at_def)
  then have link: "(demo_key 1, demo_key 2) \<in> (plain_edges (direct_mints ?ev) demo_keys [demo_transfer])\<^sup>*"
    by (intro r_into_rtrancl)
      (simp add: plain_edges_def bridges_def demo_transfer_accounts demo_transfer_accounts(2) [unfolded One_nat_def] direct demo_key_simps)
  let ?links = "(plain_edges (direct_mints ?ev) demo_keys [demo_transfer])\<^sup>*"
  obtain result where r: "token_mints_from_invocations demo_parse_key demo_balances demo_keys [demo_transfer] = Some result"
    and one: "\<forall>a m. evidence_for ?ev a = {m} \<longrightarrow> map_of result a = Some m"
    and linked: "\<forall>a. evidence_for ?ev a = {} \<longrightarrow>
            (\<forall>m. map_of result a = Some m \<longrightarrow> (\<exists>s. evidence_for ?ev s = {m} \<and> (s, a) \<in> ?links)) \<and>
            (\<forall>s m. evidence_for ?ev s = {m} \<and> (s, a) \<in> ?links \<longrightarrow> map_of result a \<noteq> None)"
    using mint_resolution [of demo_parse_key demo_balances demo_keys "[demo_transfer]", unfolded Let_def]
    by (elim exE conjE) (rule that)
  have none: "evidence_for ?ev (demo_key 2) = {}" and seed: "evidence_for ?ev (demo_key 1) = {demo_key 7}"
    by (simp_all add: ev demo_key_simps)
  note at2 = linked [THEN spec, THEN mp, OF none]
  have "map_of result (demo_key 2) \<noteq> None"
    by (rule at2 [THEN conjunct2, THEN spec, THEN spec, THEN mp]) (rule conjI [OF seed link])
  then obtain m where m: "map_of result (demo_key 2) = Some m" by auto
  obtain s where "evidence_for ?ev s = {m}"
    using at2 [THEN conjunct1, THEN spec, THEN mp, OF m] by (elim exE conjE)
  then have "m = demo_key 7" by (auto simp: ev split: if_splits)
  then show ?thesis using r m one seed by blast
qed

end
