(* ===== verification/Route_Swap.thy ===== *)
theory Route_Swap
  imports Route_Mints
begin

text \<open>
  Decoding one invocation of a route (\<open>native_action\<close>, \<open>transfer\<close> and \<open>swap\<close> of
  \<open>src/transaction_route.rs\<close>, \<open>validate_swap_layout\<close> of \<open>src/instr/meteora_dlmm.rs\<close>, and the discriminators
  of the protocols' modules). Each protocol's layout is a definition of its own; \<open>swap_layout\<close> tries
  them in the order of the code. The theorems say that a decoded leg or transfer never names a
  missing key.
\<close>

section \<open>Discriminators\<close>

definition SWAP_DISC :: bytes where "SWAP_DISC = [248, 198, 158, 145, 225, 117, 135, 200]"
definition SWAP_V2_DISC :: bytes where "SWAP_V2_DISC = [43, 4, 237, 11, 26, 201, 30, 98]"

definition has_disc :: "invocation \<Rightarrow> bytes \<Rightarrow> bool" where
  "has_disc ix d \<longleftrightarrow> get_range 0 8 (iv_data ix) = Some d"

section \<open>Native actions and transfers\<close>

definition accounts_in_range :: "invocation \<Rightarrow> pubkey list \<Rightarrow> bool" where
  "accounts_in_range ix keys \<longleftrightarrow> (\<forall>i \<in> set (iv_accounts ix). unat i < length keys)"

definition native_target :: "invocation \<Rightarrow> pubkey list \<Rightarrow> (pubkey \<times> native_token_action) option" where
  "native_target ix keys =
     (if iv_program ix = default_pubkey \<and> get_range 0 4 (iv_data ix) = Some (le_bytes 4 2) \<and>
         length (iv_data ix) = 12 \<and> length (iv_accounts ix) \<ge> 2
      then do {
        lamports \<leftarrow> u64_at (iv_data ix) 4;
        Some (route_account ix keys 1, Fund (route_account ix keys 0) lamports)
      }
      else if token_program (iv_program ix) \<and> iv_data ix = [17] \<and> iv_accounts ix \<noteq> []
      then Some (route_account ix keys 0, SyncNative)
      else if token_program (iv_program ix) \<and> iv_data ix = [9] \<and> length (iv_accounts ix) \<ge> 3
      then Some (route_account ix keys 0, Close (route_account ix keys 1) (route_account ix keys 2))
      else None)"

definition native_action :: "invocation \<Rightarrow> pubkey list \<Rightarrow> mint_map \<Rightarrow> route_native_token_action option" where
  "native_action ix keys mints =
     (if \<not> iv_program_resolved ix then None
      else do {
        (target, action) \<leftarrow> native_target ix keys;
        if \<not> accounts_in_range ix keys \<or> map_of mints target \<noteq> Some ROUTE_WSOL then None
        else Some \<lparr>rn_position = iv_position ix, rn_account = target, rn_action = action\<rparr>
      })"

text \<open>Where the destination and the amount are, and the withheld fee.\<close>

definition transfer_layout :: "invocation \<Rightarrow> (nat \<times> nat \<times> u64 option) option" where
  "transfer_layout ix =
     do {
       tag \<leftarrow> get_at 0 (iv_data ix);
       if tag = 3 \<and> length (iv_accounts ix) \<ge> 3 \<and> length (iv_data ix) \<ge> 9
       then Some (1, 1, if iv_program ix = ROUTE_SPL_TOKEN then Some 0 else None)
       else if tag = 12 \<and> checked_transfer ix
       then Some (2, 1, if iv_program ix = ROUTE_SPL_TOKEN then Some 0 else None)
       else if tag = 26 \<and> checked_transfer_with_fee ix
       then do { fee \<leftarrow> u64_at (iv_data ix) 11; Some (2, 2, Some fee) }
       else None
     }"

definition transfer :: "invocation \<Rightarrow> pubkey list \<Rightarrow> mint_map \<Rightarrow> route_token_transfer option" where
  "transfer ix keys mints =
     (if \<not> token_program (iv_program ix) then None
      else do {
        (destination_index, amount_offset, fee) \<leftarrow> transfer_layout ix;
        let source = route_account ix keys 0;
        let destination = route_account ix keys destination_index;
        if source = default_pubkey \<or> destination = default_pubkey \<or>
           (destination_index = 2 \<and> route_account ix keys 1 = default_pubkey)
        then None
        else do {
          amount \<leftarrow> u64_at (iv_data ix) amount_offset;
          Some \<lparr>rt_position = iv_position ix, rt_program = iv_program ix, rt_source = source,
                rt_destination = destination, rt_mint = map_of mints source, rt_amount = amount,
                rt_withheld_fee = fee\<rparr>
        }
      })"

section \<open>The DLMM argument layout\<close>

definition dlmm_kind :: "bytes \<Rightarrow> (bool \<times> bool) option" where
  "dlmm_kind d =
     (if d = DLMM_SWAP \<or> d = DLMM_SWAP_EXACT_OUT then Some (False, False)
      else if d = DLMM_SWAP2 \<or> d = DLMM_SWAP_EXACT_OUT2 then Some (True, False)
      else if d = DLMM_SWAP_WITH_PRICE_IMPACT then Some (False, True)
      else if d = DLMM_SWAP_WITH_PRICE_IMPACT2 then Some (True, True)
      else None)"

fun sum_slices :: "nat \<Rightarrow> nat \<Rightarrow> bytes \<Rightarrow> nat \<Rightarrow> nat option" where
  "sum_slices 0 remaining slices used = Some used"
| "sum_slices (Suc n) remaining slices used =
     do {
       tag \<leftarrow> get_at 0 slices;
       enum_size \<leftarrow> (if tag \<in> {0, 1, 2, 4} then Some 1 else if tag = 3 then Some 2 else None);
       len \<leftarrow> map_option unat (get_at enum_size slices);
       used \<leftarrow> usize_checked_add used len;
       if used > remaining then None
       else do {
         slices \<leftarrow> get_range (enum_size + 1) (length slices) slices;
         sum_slices n remaining slices used
       }
     }"

definition validate_swap_layout :: "bytes \<Rightarrow> nat \<Rightarrow> nat option" where
  "validate_swap_layout data account_count =
     do {
       d \<leftarrow> get_range 0 8 data;
       (v2, price_impact) \<leftarrow> dlmm_kind d;
       let fixed = (if v2 then 16 else 15);
       remaining \<leftarrow> usize_checked_sub account_count fixed;
       args_end \<leftarrow>
         (if price_impact
          then do {
            tag \<leftarrow> get_at 16 data;
            option_size \<leftarrow> (if tag = 0 then Some 1 else if tag = 1 then Some 5 else None);
            Some (16 + option_size + 2)
          }
          else Some 24);
       _ \<leftarrow> get_range 0 args_end data;
       if \<not> v2 then Some fixed
       else do {
         tail \<leftarrow> get_range args_end (length data) data;
         count \<leftarrow> map_option le_nat (get_range 0 4 tail);
         slices \<leftarrow> get_range 4 (length tail) tail;
         if count > length slices div 2 then None
         else do {
           used \<leftarrow> sum_slices count remaining slices 0;
           Some (fixed + used)
         }
       }
     }"

section \<open>The layouts of the protocols\<close>

record swap_fields =
  sf_protocol :: swap_protocol
  sf_pool :: pubkey
  sf_trader :: pubkey
  sf_input :: pubkey
  sf_output :: pubkey
  sf_exact_in :: bool
  sf_amount :: u64
  sf_threshold :: u64

definition fields :: "swap_protocol \<Rightarrow> pubkey \<Rightarrow> pubkey \<Rightarrow> pubkey \<Rightarrow> pubkey \<Rightarrow> bool \<Rightarrow> u64 \<Rightarrow> u64 \<Rightarrow> swap_fields" where
  "fields protocol pool trader input out exact_in amount threshold =
     \<lparr>sf_protocol = protocol, sf_pool = pool, sf_trader = trader, sf_input = input, sf_output = out,
      sf_exact_in = exact_in, sf_amount = amount, sf_threshold = threshold\<rparr>"

text \<open>The two argument words at an offset: amount then threshold, swapped for an exact output.\<close>

definition two_words :: "bytes \<Rightarrow> nat \<Rightarrow> bool \<Rightarrow> (u64 \<times> u64) option" where
  "two_words data offset exact_in =
     do {
       first \<leftarrow> u64_at data offset;
       second \<leftarrow> u64_at data (offset + 8);
       Some (if exact_in then (first, second) else (second, first))
     }"

definition clmm_layout :: "invocation \<Rightarrow> pubkey list \<Rightarrow> swap_fields option" where
  "clmm_layout ix keys =
     do {
       exact \<leftarrow> read_option_bool_idl (iv_data ix) 40;
       (amount, threshold) \<leftarrow> two_words (iv_data ix) 8 True;
       Some (fields RaydiumClmm (route_account ix keys 2) (route_account ix keys 0)
         (route_account ix keys 3) (route_account ix keys 4) exact amount threshold)
     }"

definition orca_layout :: "invocation \<Rightarrow> pubkey list \<Rightarrow> swap_fields option" where
  "orca_layout ix keys =
     do {
       let v2 = has_disc ix SWAP_V2_DISC;
       direction \<leftarrow> read_option_bool_idl (iv_data ix) 41;
       if length (iv_accounts ix) < (if v2 then 15 else 11) then None
       else do {
         let input = route_account ix keys (if v2 then (if direction then 7 else 9) else (if direction then 3 else 5));
         let out = route_account ix keys (if v2 then (if direction then 9 else 7) else (if direction then 5 else 3));
         exact \<leftarrow> read_option_bool_idl (iv_data ix) 40;
         (amount, threshold) \<leftarrow> two_words (iv_data ix) 8 True;
         Some (fields OrcaWhirlpool (route_account ix keys (if v2 then 4 else 2))
           (route_account ix keys (if v2 then 3 else 1)) input out exact amount threshold)
       }
     }"

definition cpmm_layout :: "invocation \<Rightarrow> pubkey list \<Rightarrow> swap_fields option" where
  "cpmm_layout ix keys =
     do {
       exact_in \<leftarrow> (if has_disc ix CPMM_SWAP_BASE_IN then Some True
                    else if has_disc ix CPMM_SWAP_BASE_OUT then Some False else None);
       (amount, threshold) \<leftarrow> two_words (iv_data ix) 8 exact_in;
       Some (fields RaydiumCpmm (route_account ix keys 3) (route_account ix keys 0)
         (route_account ix keys 4) (route_account ix keys 5) exact_in amount threshold)
     }"

definition dlmm_layout :: "invocation \<Rightarrow> pubkey list \<Rightarrow> swap_fields option" where
  "dlmm_layout ix keys =
     do {
       _ \<leftarrow> validate_swap_layout (iv_data ix) (length (iv_accounts ix));
       exact_in \<leftarrow> (if has_disc ix DLMM_SWAP \<or> has_disc ix DLMM_SWAP2 then Some True
                    else if has_disc ix DLMM_SWAP_EXACT_OUT \<or> has_disc ix DLMM_SWAP_EXACT_OUT2 then Some False
                    else None);
       (amount, threshold) \<leftarrow> two_words (iv_data ix) 8 exact_in;
       Some (fields MeteoraDlmm (route_account ix keys 0) (route_account ix keys 10)
         (route_account ix keys 4) (route_account ix keys 5) exact_in amount threshold)
     }"

definition launchlab_layout :: "invocation \<Rightarrow> pubkey list \<Rightarrow> swap_fields option" where
  "launchlab_layout ix keys =
     do {
       (buy, exact_in) \<leftarrow>
         (if has_disc ix LAUNCHLAB_BUY_EXACT_IN then Some (True, True)
          else if has_disc ix LAUNCHLAB_SELL_EXACT_IN then Some (False, True)
          else if has_disc ix LAUNCHLAB_BUY_EXACT_OUT then Some (True, False)
          else if has_disc ix LAUNCHLAB_SELL_EXACT_OUT then Some (False, False)
          else None);
       (amount, threshold) \<leftarrow> two_words (iv_data ix) 8 True;
       Some (fields LaunchLab (route_account ix keys 4) (route_account ix keys 0)
         (route_account ix keys (if buy then 6 else 5)) (route_account ix keys (if buy then 5 else 6))
         exact_in amount threshold)
     }"

definition pump_layout :: "invocation \<Rightarrow> pubkey list \<Rightarrow> swap_fields option" where
  "pump_layout ix keys =
     do {
       let buy = (\<not> has_disc ix PUMP_SELL_V3);
       let exact = (\<not> has_disc ix PUMP_BUY_V3);
       if \<not> (has_disc ix PUMP_BUY_V3 \<or> has_disc ix PUMP_BUY_EXACT_QUOTE_IN_V3 \<or> has_disc ix PUMP_SELL_V3) then None
       else do {
         let quote_side = (if route_account ix keys 2 = ROUTE_WSOL then 8 else 10);
         (amount, threshold) \<leftarrow> two_words (iv_data ix) 8 True;
         Some (fields PumpFun (route_account ix keys 5) (route_account ix keys 8)
           (route_account ix keys (if buy then quote_side else 9))
           (route_account ix keys (if buy then 9 else quote_side)) exact amount threshold)
       }
     }"

definition pumpswap_layout :: "invocation \<Rightarrow> pubkey list \<Rightarrow> swap_fields option" where
  "pumpswap_layout ix keys =
     do {
       (buy, exact_in) \<leftarrow>
         (if has_disc ix AMM_BUY_EXACT_QUOTE_IN \<or> has_disc ix AMM_BUY_EXACT_QUOTE_IN_V2 then Some (True, True)
          else if has_disc ix AMM_BUY \<or> has_disc ix AMM_BUY_V2 then Some (True, False)
          else if has_disc ix AMM_SELL \<or> has_disc ix AMM_SELL_V2 then Some (False, True)
          else None);
       _ \<leftarrow> (if buy \<and> length (iv_data ix) > 24 then read_option_bool_idl (iv_data ix) 24 else Some False);
       (amount, threshold) \<leftarrow> two_words (iv_data ix) 8 True;
       Some (fields PumpSwap (route_account ix keys 0) (route_account ix keys 1)
         (route_account ix keys (if buy then 6 else 5)) (route_account ix keys (if buy then 5 else 6))
         exact_in amount threshold)
     }"

definition amm_v4_modern_layout :: "invocation \<Rightarrow> pubkey list \<Rightarrow> swap_fields option" where
  "amm_v4_modern_layout ix keys =
     do {
       let exact_in = (get_at 0 (iv_data ix) = Some 16);
       (amount, threshold) \<leftarrow> two_words (iv_data ix) 1 exact_in;
       Some (fields RaydiumAmmV4 (route_account ix keys 1) (route_account ix keys 7)
         (route_account ix keys 5) (route_account ix keys 6) exact_in amount threshold)
     }"

definition amm_v4_layout :: "invocation \<Rightarrow> pubkey list \<Rightarrow> swap_fields option" where
  "amm_v4_layout ix keys =
     do {
       let shift = (if length (iv_accounts ix) = 17 then 1 else 0);
       let exact_in = (get_at 0 (iv_data ix) = Some 9);
       (amount, threshold) \<leftarrow> two_words (iv_data ix) 1 exact_in;
       Some (fields RaydiumAmmV4 (route_account ix keys 1) (route_account ix keys (17 - shift))
         (route_account ix keys (15 - shift)) (route_account ix keys (16 - shift)) exact_in amount threshold)
     }"

definition swap_layout :: "invocation \<Rightarrow> pubkey list \<Rightarrow> swap_fields option" where
  "swap_layout ix keys =
     (let program = iv_program ix; n = length (iv_accounts ix);
          swap_disc = has_disc ix SWAP_DISC; v2 = has_disc ix SWAP_V2_DISC
      in if program = RAYDIUM_CLMM_PROGRAM_ID \<and> (swap_disc \<or> v2) \<and> n \<ge> (if v2 then 13 else 10)
         then clmm_layout ix keys
         else if program = ORCA_WHIRLPOOL_PROGRAM_ID \<and> (swap_disc \<or> v2) then orca_layout ix keys
         else if program = RAYDIUM_CPMM_PROGRAM_ID \<and> n \<ge> 13 then cpmm_layout ix keys
         else if program = METEORA_DLMM_PROGRAM_ID then dlmm_layout ix keys
         else if program = RAYDIUM_LAUNCHLAB_PROGRAM_ID \<and> n \<ge> 18 then launchlab_layout ix keys
         else if program = PUMPFUN_PROGRAM_ID \<and> n = 17 then pump_layout ix keys
         else if program = PUMPSWAP_PROGRAM_ID \<and> (n \<ge> 21 \<or> n = 17) then pumpswap_layout ix keys
         else if program = RAYDIUM_AMM_V4_PROGRAM_ID \<and> get_at 0 (iv_data ix) \<in> {Some 16, Some 17} \<and> n \<ge> 8
         then amm_v4_modern_layout ix keys
         else if program = RAYDIUM_AMM_V4_PROGRAM_ID \<and> get_at 0 (iv_data ix) \<in> {Some 9, Some 11} \<and> n \<ge> 17
         then amm_v4_layout ix keys
         else None)"

section \<open>The leg\<close>

text \<open>The mint accounts the instruction itself names, as input and output.\<close>

definition explicit_pair :: "invocation \<Rightarrow> pubkey list \<Rightarrow> swap_fields \<Rightarrow> (pubkey \<times> pubkey) option" where
  "explicit_pair ix keys f =
     (let a = route_account ix keys; v2 = has_disc ix SWAP_V2_DISC
      in case sf_protocol f of
        PumpFun \<Rightarrow> Some (if sf_exact_in f \<and> has_disc ix PUMP_SELL_V3 then (a 1, a 2) else (a 2, a 1))
      | LaunchLab \<Rightarrow> Some (if sf_input f = a 6 then (a 10, a 9) else (a 9, a 10))
      | RaydiumCpmm \<Rightarrow> Some (a 10, a 11)
      | RaydiumClmm \<Rightarrow> if v2 \<and> length (iv_accounts ix) \<ge> 13 then Some (a 11, a 12) else None
      | OrcaWhirlpool \<Rightarrow> if v2 then Some (if sf_input f = a 7 then (a 5, a 6) else (a 6, a 5)) else None
      | PumpSwap \<Rightarrow> Some (if sf_input f = a 6 then (a 4, a 3) else (a 3, a 4))
      | _ \<Rightarrow> None)"

definition leg_mint :: "mint_map \<Rightarrow> pubkey \<Rightarrow> pubkey option \<Rightarrow> pubkey option" where
  "leg_mint mints account explicit =
     (case map_of mints account of
        Some mint \<Rightarrow> Some mint
      | None \<Rightarrow> (case explicit of None \<Rightarrow> None | Some mint \<Rightarrow> if mint \<noteq> default_pubkey then Some mint else None))"

definition swap :: "invocation \<Rightarrow> pubkey list \<Rightarrow> mint_map \<Rightarrow> pubkey list \<Rightarrow> route_swap_leg option" where
  "swap ix keys mints graduated =
     (if \<not> iv_program_resolved ix \<or> \<not> accounts_in_range ix keys then None
      else do {
        f \<leftarrow> swap_layout ix keys;
        let pair = explicit_pair ix keys f;
        Some \<lparr>rl_position = iv_position ix, rl_program = iv_program ix, rl_protocol = sf_protocol f,
              rl_pool = sf_pool f, rl_trader = sf_trader f, rl_input_account = sf_input f,
              rl_output_account = sf_output f,
              rl_input_mint = leg_mint mints (sf_input f) (map_option fst pair),
              rl_output_mint = leg_mint mints (sf_output f) (map_option snd pair),
              rl_amount_specified_is_input = sf_exact_in f, rl_specified_amount = sf_amount f,
              rl_other_amount_threshold = sf_threshold f, rl_actual_input_amount = None,
              rl_actual_output_amount = None,
              rl_stonkfun_mode = (if sf_protocol f = LaunchLab
                then stonkfun_mode_from_platform_config (route_account ix keys 3) else None),
              rl_stonkfun_graduated = (sf_protocol f = RaydiumCpmm \<and> sf_pool f \<in> set graduated)\<rparr>
      })"

section \<open>Decoded keys are keys of the transaction\<close>

lemma route_account_in_range:
  "accounts_in_range ix keys \<Longrightarrow> j < length (iv_accounts ix) \<Longrightarrow> route_account ix keys j \<in> set keys"
  by (simp add: accounts_in_range_def route_account_def route_key_def get_at_def unsigned_ucast_eq
      take_bit_nat_eq_self less_trans [OF byte_bound])

lemma sum_slices_bound:
  "sum_slices n remaining slices used = Some t \<Longrightarrow> used \<le> remaining \<Longrightarrow> used \<le> t \<and> t \<le> remaining"
proof (induction n remaining slices used rule: sum_slices.induct)
  case (2 n remaining slices used)
  then show ?case
    by (fastforce simp: bind_eq_Some_conv usize_checked_add_def split: if_splits)
qed simp

lemma validate_swap_layout_bound:
  "validate_swap_layout data account_count = Some n \<Longrightarrow> 15 \<le> n \<and> n \<le> account_count"
  by (auto simp: validate_swap_layout_def bind_eq_Some_conv usize_checked_sub_def Let_def split: if_splits
      dest!: sum_slices_bound)

text \<open>The account indices a layout uses are below the number of accounts its guard asks for.\<close>

definition uses_below :: "invocation \<Rightarrow> pubkey list \<Rightarrow> nat \<Rightarrow> swap_fields \<Rightarrow> bool" where
  "uses_below ix keys n f \<longleftrightarrow>
     {sf_pool f, sf_trader f, sf_input f, sf_output f} \<subseteq> route_account ix keys ` {..< n}"

lemmas layout_defs = clmm_layout_def orca_layout_def cpmm_layout_def dlmm_layout_def launchlab_layout_def
  pump_layout_def pumpswap_layout_def amm_v4_modern_layout_def amm_v4_layout_def fields_def uses_below_def

lemma clmm_uses: "clmm_layout ix keys = Some f \<Longrightarrow> uses_below ix keys 10 f \<and> sf_protocol f = RaydiumClmm"
  by (auto simp: layout_defs bind_eq_Some_conv split: prod.splits)

lemma orca_uses:
  "orca_layout ix keys = Some f \<Longrightarrow> uses_below ix keys (length (iv_accounts ix)) f \<and> sf_protocol f = OrcaWhirlpool"
  by (auto simp: layout_defs bind_eq_Some_conv Let_def split: prod.splits if_splits)

lemma cpmm_uses: "cpmm_layout ix keys = Some f \<Longrightarrow> uses_below ix keys 13 f \<and> sf_protocol f = RaydiumCpmm"
  by (auto simp: layout_defs bind_eq_Some_conv split: prod.splits)

lemma dlmm_uses:
  "dlmm_layout ix keys = Some f \<Longrightarrow> uses_below ix keys (length (iv_accounts ix)) f \<and> sf_protocol f = MeteoraDlmm"
  by (auto simp: layout_defs bind_eq_Some_conv split: prod.splits dest!: validate_swap_layout_bound)

lemma launchlab_uses: "launchlab_layout ix keys = Some f \<Longrightarrow> uses_below ix keys 18 f \<and> sf_protocol f = LaunchLab"
  by (auto simp: layout_defs bind_eq_Some_conv split: prod.splits if_splits)

lemma pump_uses: "pump_layout ix keys = Some f \<Longrightarrow> uses_below ix keys 17 f \<and> sf_protocol f = PumpFun"
  by (auto simp: layout_defs bind_eq_Some_conv Let_def split: prod.splits if_splits)

lemma pumpswap_uses: "pumpswap_layout ix keys = Some f \<Longrightarrow> uses_below ix keys 17 f \<and> sf_protocol f = PumpSwap"
  by (auto simp: layout_defs bind_eq_Some_conv split: prod.splits if_splits)

lemma amm_v4_modern_uses:
  "amm_v4_modern_layout ix keys = Some f \<Longrightarrow> uses_below ix keys 8 f \<and> sf_protocol f = RaydiumAmmV4"
  by (auto simp: layout_defs bind_eq_Some_conv Let_def split: prod.splits)

lemma amm_v4_uses:
  "amm_v4_layout ix keys = Some f \<Longrightarrow> 17 \<le> length (iv_accounts ix) \<Longrightarrow>
     uses_below ix keys (length (iv_accounts ix)) f \<and> sf_protocol f = RaydiumAmmV4"
  by (auto simp: layout_defs bind_eq_Some_conv Let_def split: prod.splits if_splits)

lemma uses_below_mono: "uses_below ix keys m f \<Longrightarrow> m \<le> n \<Longrightarrow> uses_below ix keys n f"
  by (auto simp: uses_below_def)

definition protocol_program :: "swap_protocol \<Rightarrow> pubkey" where
  "protocol_program p =
     (case p of PumpFun \<Rightarrow> PUMPFUN_PROGRAM_ID | PumpSwap \<Rightarrow> PUMPSWAP_PROGRAM_ID
      | LaunchLab \<Rightarrow> RAYDIUM_LAUNCHLAB_PROGRAM_ID | RaydiumCpmm \<Rightarrow> RAYDIUM_CPMM_PROGRAM_ID
      | RaydiumAmmV4 \<Rightarrow> RAYDIUM_AMM_V4_PROGRAM_ID | RaydiumClmm \<Rightarrow> RAYDIUM_CLMM_PROGRAM_ID
      | OrcaWhirlpool \<Rightarrow> ORCA_WHIRLPOOL_PROGRAM_ID | MeteoraDlmm \<Rightarrow> METEORA_DLMM_PROGRAM_ID)"

lemma swap_layout_uses:
  assumes "swap_layout ix keys = Some f"
  shows "uses_below ix keys (length (iv_accounts ix)) f \<and> iv_program ix = protocol_program (sf_protocol f)"
proof -
  let ?n = "length (iv_accounts ix)" and ?p = "iv_program ix"
  have fits: "uses_below ix keys ?n f" if "uses_below ix keys m f" "m \<le> ?n" for m
    using that by (rule uses_below_mono)
  consider
      (clmm) "?p = RAYDIUM_CLMM_PROGRAM_ID" "10 \<le> ?n" "clmm_layout ix keys = Some f"
    | (orca) "?p = ORCA_WHIRLPOOL_PROGRAM_ID" "orca_layout ix keys = Some f"
    | (cpmm) "?p = RAYDIUM_CPMM_PROGRAM_ID" "13 \<le> ?n" "cpmm_layout ix keys = Some f"
    | (dlmm) "?p = METEORA_DLMM_PROGRAM_ID" "dlmm_layout ix keys = Some f"
    | (launchlab) "?p = RAYDIUM_LAUNCHLAB_PROGRAM_ID" "18 \<le> ?n" "launchlab_layout ix keys = Some f"
    | (pump) "?p = PUMPFUN_PROGRAM_ID" "17 \<le> ?n" "pump_layout ix keys = Some f"
    | (pumpswap) "?p = PUMPSWAP_PROGRAM_ID" "21 \<le> ?n \<or> ?n = 17" "pumpswap_layout ix keys = Some f"
    | (modern) "?p = RAYDIUM_AMM_V4_PROGRAM_ID" "8 \<le> ?n" "amm_v4_modern_layout ix keys = Some f"
    | (legacy) "?p = RAYDIUM_AMM_V4_PROGRAM_ID" "17 \<le> ?n" "amm_v4_layout ix keys = Some f"
    using assms unfolding swap_layout_def Let_def by (simp split: if_split_asm)
  then show ?thesis
  proof cases
    case clmm then show ?thesis using clmm_uses [OF clmm(3)] fits [OF _ clmm(2)] by (simp add: protocol_program_def)
  next
    case orca then show ?thesis using orca_uses [OF orca(2)] by (simp add: protocol_program_def)
  next
    case cpmm then show ?thesis using cpmm_uses [OF cpmm(3)] fits [OF _ cpmm(2)] by (simp add: protocol_program_def)
  next
    case dlmm then show ?thesis using dlmm_uses [OF dlmm(2)] by (simp add: protocol_program_def)
  next
    case launchlab then show ?thesis using launchlab_uses [OF launchlab(3)] fits [OF _ launchlab(2)] by (simp add: protocol_program_def)
  next
    case pump then show ?thesis using pump_uses [OF pump(3)] fits [OF _ pump(2)] by (simp add: protocol_program_def)
  next
    case pumpswap
    then have "17 \<le> ?n" by linarith
    then show ?thesis using pumpswap(1) pumpswap_uses [OF pumpswap(3)] fits [of 17] by (simp add: protocol_program_def)
  next
    case modern then show ?thesis using amm_v4_modern_uses [OF modern(3)] fits [OF _ modern(2)] by (simp add: protocol_program_def)
  next
    case legacy then show ?thesis using amm_v4_uses [OF legacy(3,2)] by (simp add: protocol_program_def)
  qed
qed


definition demo_swap_keys :: "pubkey list" where
  "demo_swap_keys = map demo_key [1, 2, 3, 4, 5, 6, 7, 8]"

definition demo_amm_swap :: invocation where
  "demo_amm_swap = \<lparr>iv_position = \<lparr>ip_outer_index = 0, ip_inner_index = None, ip_stack_height = Some 1\<rparr>,
     iv_program = RAYDIUM_AMM_V4_PROGRAM_ID, iv_program_resolved = True, iv_accounts = [0, 1, 2, 3, 4, 5, 6, 7],
     iv_data = 16 # le_bytes 8 1000 @ le_bytes 8 900\<rparr>"


section \<open>Remaining-account slices\<close>

text \<open>A slice on the wire: its kind, the extra byte of kind 3, and its number of accounts.\<close>

definition encode_slice :: "u8 \<times> u8 \<times> u8 \<Rightarrow> bytes" where
  "encode_slice s = (case s of (kind, extra, len) \<Rightarrow> if kind = 3 then [3, extra, len] else [kind, len])"

definition slice_total :: "(u8 \<times> u8 \<times> u8) list \<Rightarrow> nat" where
  "slice_total slices = sum_list (map (\<lambda>(kind, extra, len). unat len) slices)"

lemma sum_slices_encoded:
  assumes "\<forall>(kind, extra, len) \<in> set slices. kind \<le> 4" "used \<le> remaining" "remaining \<le> usize_max"
  shows "sum_slices (length slices) remaining (concat (map encode_slice slices) @ rest) used =
    (if used + slice_total slices \<le> remaining then Some (used + slice_total slices) else None)"
  using assms(1,2)
proof (induction slices arbitrary: used)
  case (Cons s slices)
  obtain kind extra len where s: "s = (kind, extra, len)" by (cases s)
  have kind: "kind = 3 \<or> kind \<in> {0, 1, 2, 4}"
  proof -
    have "unat kind \<le> 4" using Cons.prems(1) by (simp add: s word_le_nat_alt)
    then have "unat kind \<in> {0, 1, 2, 3, 4}" by auto
    then show ?thesis by (auto simp: word_unat_eq_iff)
  qed
  have total: "slice_total (s # slices) = unat len + slice_total slices" by (simp add: slice_total_def s)
  have step: "sum_slices (Suc n) remaining (encode_slice s @ ys) used =
      (if used + unat len \<le> remaining then sum_slices n remaining ys (used + unat len) else None)" for n ys
    using kind assms(3) by (auto simp: s encode_slice_def get_at_def get_range_def usize_checked_add_def)
  show ?case
    using Cons.IH [of "used + unat len"] Cons.prems(1)
    by (auto simp: step total simp del: sum_slices.simps)
qed (simp add: slice_total_def)

lemma length_encoded: "2 * length slices \<le> length (concat (map encode_slice slices))"
  by (induction slices) (auto simp: encode_slice_def split: prod.splits)

text \<open>
  The layout check of the second DLMM swap accepts exactly the instructions whose accounts hold the
  16 fixed ones and all the accounts its slices declare, for every list of slices of the five
  known kinds and with anything after them, and then counts exactly those accounts.
\<close>

theorem dlmm_slices_exact:
  assumes "disc \<in> {DLMM_SWAP2, DLMM_SWAP_EXACT_OUT2}" "length args = 16"
    and "\<forall>(kind, extra, len) \<in> set slices. kind \<le> 4" "length slices < 2 ^ 32"
    and "16 \<le> account_count" "account_count \<le> usize_max"
  shows "validate_swap_layout
      (disc @ args @ le_bytes 4 (length slices) @ concat (map encode_slice slices) @ rest) account_count =
    (if 16 + slice_total slices \<le> account_count then Some (16 + slice_total slices) else None)"
proof -
  let ?body = "concat (map encode_slice slices) @ rest"
  have disc: "length disc = 8" "dlmm_kind disc = Some (True, False)"
    using assms(1) by (auto simp: dlmm_kind_def DLMM_SWAP2_def DLMM_SWAP_EXACT_OUT2_def DLMM_SWAP_def DLMM_SWAP_EXACT_OUT_def)
  have "length slices \<le> (length (concat (map encode_slice slices)) + length rest) div 2"
    using length_encoded [of slices] by linarith
  then show ?thesis
    using sum_slices_encoded [OF assms(3), of 0 "account_count - 16" rest] assms(2,4,5,6) disc
    by (auto simp: validate_swap_layout_def get_range_def usize_checked_sub_def le_nat_le_bytes)
qed

theorem dlmm_slices_exact_witness:
  "validate_swap_layout (DLMM_SWAP2 @ replicate 16 0 @ le_bytes 4 2 @ concat (map encode_slice [(0, 0, 2), (3, 9, 1)]) @ [7]) 20 =
     Some 19"
  using dlmm_slices_exact [of DLMM_SWAP2 "replicate 16 0" "[(0, 0, 2), (3, 9, 1)]" 20 "[7]"]
  by (simp add: slice_total_def numeral_2_eq_2 [symmetric])

section \<open>Transfers\<close>

lemma spl_not_2022: "ROUTE_SPL_TOKEN \<noteq> ROUTE_TOKEN_2022"
  by (simp add: ROUTE_SPL_TOKEN_def ROUTE_TOKEN_2022_def)

text \<open>
  A decoded transfer is between two existing accounts of the transaction by a token program; its mint is
  the one resolved for its source, its amount is the little-endian word after the tag, and its
  withheld fee is 0 for SPL Token, the encoded fee for a Token-2022 transfer with fee, and unknown for
  any other Token-2022 transfer.
\<close>

theorem transfer_exact:
  assumes "transfer ix keys mints = Some t"
  shows "{rt_source t, rt_destination t} \<subseteq> set keys - {default_pubkey} \<and> token_program (rt_program t) \<and>
    rt_program t = iv_program ix \<and> rt_position t = iv_position ix \<and> rt_mint t = map_of mints (rt_source t) \<and>
    Some (rt_amount t) = u64_at (iv_data ix) (if checked_transfer_with_fee ix then 2 else 1) \<and>
    rt_withheld_fee t =
      (if iv_program ix = ROUTE_SPL_TOKEN then Some 0
       else if checked_transfer_with_fee ix then u64_at (iv_data ix) 11 else None)"
proof -
  have tag: "checked_transfer_with_fee ix \<Longrightarrow> get_at 0 (iv_data ix) = Some 26"
  proof -
    assume fee: "checked_transfer_with_fee ix"
    then have "take 2 (iv_data ix) = [26, 1]" by (auto simp: checked_transfer_with_fee_def get_range_def split: if_splits)
    then have "iv_data ix \<noteq> [] \<and> hd (iv_data ix) = 26" by (cases "iv_data ix") auto
    then show "get_at 0 (iv_data ix) = Some 26" by (auto simp: get_at_def hd_conv_nth [symmetric])
  qed
  note spl = spl_not_2022
  from assms obtain d a fee where tok: "token_program (iv_program ix)" and l: "transfer_layout ix = Some (d, a, fee)"
    and src: "rt_source t = route_account ix keys 0" "rt_source t \<noteq> default_pubkey"
    and dst: "rt_destination t = route_account ix keys d" "rt_destination t \<noteq> default_pubkey"
    and amount: "u64_at (iv_data ix) a = Some (rt_amount t)"
    and rest: "rt_withheld_fee t = fee" "rt_program t = iv_program ix" "rt_position t = iv_position ix"
      "rt_mint t = map_of mints (rt_source t)"
    by (auto simp: transfer_def bind_eq_Some_conv Let_def split: if_splits prod.splits)
  have "a = (if checked_transfer_with_fee ix then 2 else 1) \<and>
      fee = (if iv_program ix = ROUTE_SPL_TOKEN then Some 0
             else if checked_transfer_with_fee ix then u64_at (iv_data ix) 11 else None)"
  proof (cases "checked_transfer_with_fee ix")
    case True
    then have "iv_program ix \<noteq> ROUTE_SPL_TOKEN" using spl by (simp add: checked_transfer_with_fee_def)
    moreover have "a = 2 \<and> u64_at (iv_data ix) 11 = fee"
      using l True tag [OF True] by (auto simp: transfer_layout_def bind_eq_Some_conv)
    ultimately show ?thesis using True by simp
  next
    case False
    then show ?thesis using l by (auto simp: transfer_layout_def bind_eq_Some_conv split: if_split_asm)
  qed
  then show ?thesis
    using src dst amount rest tok route_account_in [of ix keys 0] route_account_in [of ix keys d] by simp
qed

lemma demo_transfer_decoded:
  "transfer demo_transfer demo_keys [(demo_key 1, demo_key 7)] =
     Some \<lparr>rt_position = iv_position demo_transfer, rt_program = ROUTE_SPL_TOKEN, rt_source = demo_key 1,
           rt_destination = demo_key 2, rt_mint = Some (demo_key 7), rt_amount = 9, rt_withheld_fee = Some 0\<rparr>"
proof -
  have "transfer_layout demo_transfer = Some (1, 1, Some 0)" "token_program (iv_program demo_transfer)"
    "u64_at (iv_data demo_transfer) 1 = Some 9" "iv_program demo_transfer = ROUTE_SPL_TOKEN"
    by (simp_all add: transfer_layout_def demo_transfer_def token_program_def get_at_def u64_at_def get_range_def from_le_def)
  then show ?thesis
    by (simp add: transfer_def demo_transfer_accounts demo_transfer_accounts(2) [unfolded One_nat_def]
        demo_key_simps Let_def)
qed

theorem transfer_exact_witness:
  "{demo_key 1, demo_key 2} \<subseteq> set demo_keys - {default_pubkey} \<and>
     u64_at (iv_data demo_transfer) 1 = Some 9"
  using transfer_exact [OF demo_transfer_decoded] spl_not_2022
  by (simp add: checked_transfer_with_fee_def demo_transfer_def)

end
