(* ===== verification/Route_Analysis.thy ===== *)
theory Route_Analysis
  imports Route_Swap
begin

text \<open>
  The analysis of a transaction (\<open>invocation_analysis\<close> and \<open>analyze_yellowstone_transaction_routes\<close> of
  \<open>src/transaction_route.rs\<close>). The rows are filled in reverse with jumps over whole subtrees; the route is
  then read off them. \<open>None\<close> is a panic (an index out of range) or a loop that does not end;
  the theorems show that neither happens and give the route as comprehensions over the invocations,
  with the executed amounts as sums over the naive descendant span.
\<close>

section \<open>Rows\<close>

record invocation_row =
  ra_transfer :: "route_token_transfer option"
  ra_swap_index :: "nat option"
  ra_descendant_end :: nat
  ra_has_token_transfers :: bool
  ra_has_known_swap_descendants :: bool
  ra_skip_route :: bool

definition skips_route :: "invocation \<Rightarrow> bool" where
  "skips_route ix \<longleftrightarrow>
     iv_program_resolved ix \<and>
     (token_program (iv_program ix) \<or> iv_program ix = default_pubkey \<or> iv_program ix = ROUTE_COMPUTE_BUDGET \<or>
      iv_program ix = ROUTE_ASSOCIATED_TOKEN \<or> iv_program ix = ROUTE_MEMO)"

definition route_leg :: "pubkey list \<Rightarrow> mint_map \<Rightarrow> pubkey list \<Rightarrow> invocation \<Rightarrow> route_swap_leg option" where
  "route_leg keys mints graduated ix = (if skips_route ix then None else swap ix keys mints graduated)"

definition first_row :: "pubkey list \<Rightarrow> mint_map \<Rightarrow> invocation \<Rightarrow> nat \<Rightarrow> nat option \<Rightarrow> invocation_row" where
  "first_row keys mints ix i index =
     \<lparr>ra_transfer = transfer ix keys mints, ra_swap_index = index, ra_descendant_end = i + 1,
      ra_has_token_transfers = False, ra_has_known_swap_descendants = False, ra_skip_route = skips_route ix\<rparr>"

fun first_rows :: "pubkey list \<Rightarrow> mint_map \<Rightarrow> pubkey list \<Rightarrow> nat \<Rightarrow> invocation list \<Rightarrow> route_swap_leg list
    \<Rightarrow> invocation_row list \<times> route_swap_leg list" where
  "first_rows keys mints graduated i [] legs = ([], legs)"
| "first_rows keys mints graduated i (ix # rest) legs =
     (case route_leg keys mints graduated ix of
        None \<Rightarrow>
          (let (rows, legs') = first_rows keys mints graduated (Suc i) rest legs
           in (first_row keys mints ix i None # rows, legs'))
      | Some leg \<Rightarrow>
          (let (rows, legs') = first_rows keys mints graduated (Suc i) rest (legs @ [leg])
           in (first_row keys mints ix i (Some (length legs)) # rows, legs')))"

section \<open>Subtree jumps\<close>

partial_function (option) scan_children ::
  "invocation list \<Rightarrow> invocation_row list \<Rightarrow> instruction_position \<Rightarrow> nat \<Rightarrow> bool \<Rightarrow> bool \<Rightarrow> (nat \<times> bool \<times> bool) option" where
  "scan_children invocations rows pos fin has_transfers has_swaps =
     (if fin < length invocations \<and> descendant pos (iv_position (invocations ! fin))
      then do {
        child \<leftarrow> get_at fin rows;
        scan_children invocations rows pos (ra_descendant_end child)
          (has_transfers \<or> ra_transfer child \<noteq> None \<or> ra_has_token_transfers child)
          (has_swaps \<or> ra_swap_index child \<noteq> None \<or> ra_has_known_swap_descendants child)
      }
      else Some (fin, has_transfers, has_swaps))"

text \<open>The reverse loop: the argument counts down from the number of invocations.\<close>

fun finish_rows :: "invocation list \<Rightarrow> nat \<Rightarrow> invocation_row list \<Rightarrow> invocation_row list option" where
  "finish_rows invocations 0 rows = Some rows"
| "finish_rows invocations (Suc i) rows =
     do {
       (fin, has_transfers, has_swaps) \<leftarrow>
         scan_children invocations rows (iv_position (invocations ! i)) (i + 1) False False;
       finish_rows invocations i
         (rows[i := (rows ! i)\<lparr>ra_descendant_end := fin, ra_has_token_transfers := has_transfers,
                               ra_has_known_swap_descendants := has_swaps\<rparr>])
     }"

definition invocation_analysis :: "invocation list \<Rightarrow> pubkey list \<Rightarrow> mint_map \<Rightarrow> pubkey list \<Rightarrow> route_swap_leg list
    \<Rightarrow> (invocation_row list \<times> route_swap_leg list) option" where
  "invocation_analysis invocations keys mints graduated legs =
     (let (rows, legs') = first_rows keys mints graduated 0 invocations legs
      in map_option (\<lambda>rows. (rows, legs')) (finish_rows invocations (length invocations) rows))"

section \<open>The route\<close>

record amounts =
  am_input_sum :: "u64 option"
  am_output_sum :: "u64 option"
  am_has_input :: bool
  am_has_output :: bool

definition add_transfer :: "route_swap_leg \<Rightarrow> amounts \<Rightarrow> route_token_transfer \<Rightarrow> amounts" where
  "add_transfer leg am t =
     (let am = (if rt_source t = rl_input_account leg
                then am\<lparr>am_has_input := True,
                        am_input_sum := Option.bind (am_input_sum am) (\<lambda>sum. checked_add sum (rt_amount t))\<rparr>
                else am)
      in if rt_destination t = rl_output_account leg
         then am\<lparr>am_has_output := True,
                 am_output_sum := do {
                   sum \<leftarrow> am_output_sum am;
                   fee \<leftarrow> rt_withheld_fee t;
                   credit \<leftarrow> checked_sub (rt_amount t) fee;
                   checked_add sum credit
                 }\<rparr>
         else am)"

definition executed_leg :: "route_token_transfer list \<Rightarrow> route_swap_leg \<Rightarrow> route_swap_leg" where
  "executed_leg transfers leg =
     (let am = foldl (add_transfer leg)
                 \<lparr>am_input_sum = Some 0, am_output_sum = Some 0, am_has_input = False, am_has_output = False\<rparr> transfers
      in leg\<lparr>rl_actual_input_amount := (if am_has_input am then am_input_sum am else None),
             rl_actual_output_amount := (if am_has_output am then am_output_sum am else None)\<rparr>)"

definition row_transfers :: "invocation_row list \<Rightarrow> route_token_transfer list" where
  "row_transfers rows = List.map_filter ra_transfer rows"

definition unknown_of :: "invocation \<Rightarrow> invocation_row \<Rightarrow> route_unknown_invocation" where
  "unknown_of ix row =
     \<lparr>ru_position = iv_position ix, ru_program = iv_program ix,
      ru_has_token_transfers = ra_has_token_transfers row,
      ru_has_known_swap_descendants = ra_has_known_swap_descendants row\<rparr>"

fun route_rows :: "bool \<Rightarrow> invocation_row list \<Rightarrow> nat \<Rightarrow> invocation list \<Rightarrow> route_swap_leg list
    \<Rightarrow> route_unknown_invocation list \<Rightarrow> (route_swap_leg list \<times> route_unknown_invocation list) option" where
  "route_rows succeeded rows i [] legs unknown = Some (legs, unknown)"
| "route_rows succeeded rows i (ix # rest) legs unknown =
     do {
       row \<leftarrow> get_at i rows;
       if ra_skip_route row then route_rows succeeded rows (Suc i) rest legs unknown
       else (case ra_swap_index row of
         None \<Rightarrow> route_rows succeeded rows (Suc i) rest legs (unknown @ [unknown_of ix row])
       | Some index \<Rightarrow> do {
           leg \<leftarrow> get_at index legs;
           legs' \<leftarrow> (if succeeded
                    then do {
                      span \<leftarrow> get_range (i + 1) (ra_descendant_end row) rows;
                      Some (legs[index := executed_leg (row_transfers span) leg])
                    }
                    else Some legs);
           route_rows succeeded rows (Suc i) rest legs' unknown
         })
     }"

definition analyze_yellowstone_transaction_routes ::
  "(string \<Rightarrow> pubkey option) \<Rightarrow> transaction \<Rightarrow> status_meta \<Rightarrow> pubkey list \<Rightarrow> transaction_route option" where
  "analyze_yellowstone_transaction_routes parse tx meta graduated =
     do {
       let keys = transaction_keys tx meta;
       let invocations = transaction_invocations tx meta keys;
       mints \<leftarrow> token_mints_from_invocations parse meta keys invocations;
       (rows, legs) \<leftarrow> invocation_analysis invocations keys mints graduated [];
       let succeeded = (\<not> tm_failed meta);
       (legs, unknown) \<leftarrow> route_rows succeeded rows 0 invocations legs [];
       Some \<lparr>
         tr_signature = (case tx_signatures tx of
             [] \<Rightarrow> default_signature
           | sig # _ \<Rightarrow> if length sig = 64 then sig else default_signature),
         tr_succeeded = succeeded,
         tr_legs = legs,
         tr_transfers = row_transfers rows,
         tr_native_token_actions = List.map_filter (\<lambda>ix. native_action ix keys mints) invocations,
         tr_unknown_invocations = unknown\<rparr>
     }"

section \<open>The naive span\<close>

definition span_end :: "invocation list \<Rightarrow> nat \<Rightarrow> nat" where
  "span_end invocations i =
     Suc i + length (takeWhile (\<lambda>ix. descendant (iv_position (invocations ! i)) (iv_position ix))
       (drop (Suc i) invocations))"

definition span_has :: "(invocation_row \<Rightarrow> bool) \<Rightarrow> invocation_row list \<Rightarrow> nat \<Rightarrow> nat \<Rightarrow> bool" where
  "span_has P rows a b \<longleftrightarrow> (\<exists>j \<in> {a ..< b}. P (rows ! j))"

definition full_row :: "invocation list \<Rightarrow> invocation_row list \<Rightarrow> nat \<Rightarrow> invocation_row" where
  "full_row invocations rows i =
     (rows ! i)\<lparr>ra_descendant_end := span_end invocations i,
       ra_has_token_transfers := span_has (\<lambda>r. ra_transfer r \<noteq> None) rows (Suc i) (span_end invocations i),
       ra_has_known_swap_descendants := span_has (\<lambda>r. ra_swap_index r \<noteq> None) rows (Suc i) (span_end invocations i)\<rparr>"

lemma span_end_bounds: "i < length invs \<Longrightarrow> Suc i \<le> span_end invs i \<and> span_end invs i \<le> length invs"
  using length_takeWhile_le [of "\<lambda>ix. descendant (iv_position (invs ! i)) (iv_position ix)" "drop (Suc i) invs"]
  by (simp add: span_end_def)

lemma span_end_inside:
  assumes "Suc i \<le> j" "j < span_end invs i"
  shows "descendant (iv_position (invs ! i)) (iv_position (invs ! j))"
proof -
  let ?P = "\<lambda>ix. descendant (iv_position (invs ! i)) (iv_position ix)"
  have k: "j - Suc i < length (takeWhile ?P (drop (Suc i) invs))" using assms by (simp add: span_end_def)
  have "?P (takeWhile ?P (drop (Suc i) invs) ! (j - Suc i))" using nth_mem [OF k] by (rule set_takeWhileD [THEN conjunct2])
  moreover have "takeWhile ?P (drop (Suc i) invs) ! (j - Suc i) = drop (Suc i) invs ! (j - Suc i)"
    by (rule takeWhile_nth [OF k])
  moreover have "drop (Suc i) invs ! (j - Suc i) = invs ! j"
    using assms(1) k length_takeWhile_le [of ?P "drop (Suc i) invs"] by (subst nth_drop) simp_all
  ultimately show ?thesis by simp
qed

lemma span_end_outside:
  assumes "span_end invs i < length invs"
  shows "\<not> descendant (iv_position (invs ! i)) (iv_position (invs ! span_end invs i))"
proof -
  let ?P = "\<lambda>ix. descendant (iv_position (invs ! i)) (iv_position ix)"
  let ?k = "length (takeWhile ?P (drop (Suc i) invs))"
  have "?k < length (drop (Suc i) invs)" using assms by (simp add: span_end_def)
  from nth_length_takeWhile [OF this] have "\<not> ?P (drop (Suc i) invs ! ?k)" by simp
  then show ?thesis using assms by (simp add: span_end_def)
qed

lemma span_end_nested:
  assumes "i < length invs" "Suc i \<le> j" "j < span_end invs i"
  shows "span_end invs j \<le> span_end invs i"
proof (rule ccontr)
  assume "\<not> ?thesis"
  then have out: "span_end invs i < span_end invs j" by simp
  have "j < length invs" using assms span_end_bounds [OF assms(1)] by simp
  then have "span_end invs i < length invs" using out span_end_bounds [of j invs] by simp
  moreover have "descendant (iv_position (invs ! i)) (iv_position (invs ! span_end invs i))"
    using span_end_inside [OF assms(2,3)] span_end_inside [OF _ out] assms(3) descendant_trans by simp
  ultimately show False using span_end_outside by blast
qed

lemma span_has_split: "a < b \<Longrightarrow> b \<le> c \<Longrightarrow>
    span_has P rows a c \<longleftrightarrow> P (rows ! a) \<or> span_has P rows (Suc a) b \<or> span_has P rows b c"
proof -
  assume "a < b" "b \<le> c"
  then have "{a ..< c} = insert a ({Suc a ..< b} \<union> {b ..< c})" by auto
  then show ?thesis by (simp only: span_has_def bex_simps bex_Un)
qed

lemma span_has_empty: "\<not> span_has P rows a a"
  by (simp add: span_has_def)

section \<open>The jumps reach the naive spans\<close>

lemma scan_children_spans:
  assumes rows: "\<forall>j. i < j \<longrightarrow> j < length invs \<longrightarrow> rows ! j = full_row invs base j" "length rows = length invs"
    and i: "i < length invs"
  shows "Suc i \<le> e \<Longrightarrow> e \<le> span_end invs i \<Longrightarrow>
    scan_children invs rows (iv_position (invs ! i)) e t s =
      Some (span_end invs i, t \<or> span_has (\<lambda>r. ra_transfer r \<noteq> None) base e (span_end invs i),
            s \<or> span_has (\<lambda>r. ra_swap_index r \<noteq> None) base e (span_end invs i))"
proof (induction "span_end invs i - e" arbitrary: e t s rule: less_induct)
  case less
  show ?case
  proof (cases "e = span_end invs i")
    case True
    then show ?thesis
      using span_end_outside [of invs i] by (subst scan_children.simps) (auto simp: span_has_empty)
  next
    case False
    then have e: "e < span_end invs i" "e < length invs"
      using less.prems span_end_bounds [OF i] by auto
    let ?c = "span_end invs e"
    have c: "e < ?c" "?c \<le> span_end invs i"
      using span_end_bounds [OF e(2)] span_end_nested [OF i less.prems(1) e(1)] by auto
    have row: "rows ! e = full_row invs base e" using rows(1) less.prems(1) e(2) by auto
    have "scan_children invs rows (iv_position (invs ! i)) e t s =
      scan_children invs rows (iv_position (invs ! i)) ?c
        (t \<or> ra_transfer (base ! e) \<noteq> None \<or> span_has (\<lambda>r. ra_transfer r \<noteq> None) base (Suc e) ?c)
        (s \<or> ra_swap_index (base ! e) \<noteq> None \<or> span_has (\<lambda>r. ra_swap_index r \<noteq> None) base (Suc e) ?c)"
      using span_end_inside [OF less.prems(1) e(1)] e rows(2)
      by (subst scan_children.simps) (simp add: get_at_def row full_row_def)
    also have "\<dots> = Some (span_end invs i,
        (t \<or> ra_transfer (base ! e) \<noteq> None \<or> span_has (\<lambda>r. ra_transfer r \<noteq> None) base (Suc e) ?c) \<or>
          span_has (\<lambda>r. ra_transfer r \<noteq> None) base ?c (span_end invs i),
        (s \<or> ra_swap_index (base ! e) \<noteq> None \<or> span_has (\<lambda>r. ra_swap_index r \<noteq> None) base (Suc e) ?c) \<or>
          span_has (\<lambda>r. ra_swap_index r \<noteq> None) base ?c (span_end invs i))"
      using c e less.prems by (intro less.hyps) auto
    finally show ?thesis by (simp only: span_has_split [OF c] simp_thms disj_assoc)
  qed
qed

lemma finish_rows_spans:
  assumes "length rows = length invs" "m \<le> length invs"
    and "\<forall>j < length invs. rows ! j = (if j < m then base ! j else full_row invs base j)"
  shows "finish_rows invs m rows = Some (map (full_row invs base) [0 ..< length invs])"
  using assms
proof (induction m arbitrary: rows)
  case 0
  then show ?case by (auto intro: nth_equalityI)
next
  case (Suc i)
  then have i: "i < length invs" by simp
  have "scan_children invs rows (iv_position (invs ! i)) (i + 1) False False =
      Some (span_end invs i, False \<or> span_has (\<lambda>r. ra_transfer r \<noteq> None) base (i + 1) (span_end invs i),
            False \<or> span_has (\<lambda>r. ra_swap_index r \<noteq> None) base (i + 1) (span_end invs i))"
    using Suc.prems i span_end_bounds [OF i] by (intro scan_children_spans) auto
  moreover have "finish_rows invs i (rows[i := full_row invs base i]) =
      Some (map (full_row invs base) [0 ..< length invs])"
    using Suc.prems by (intro Suc.IH) (auto simp: nth_list_update)
  ultimately show ?case using Suc.prems(3) i by (simp add: full_row_def)
qed

lemma length_first_rows: "length (fst (first_rows keys mints graduated i invs legs)) = length invs"
  by (induction invs arbitrary: i legs) (auto simp: Let_def split_def split: option.splits)

text \<open>
  The subtree jumps give what rescanning every ancestor would: the analysis ends without a panic, and
  each row's end is the first later invocation that is not a descendant, and its flags say whether
  any invocation before that end is a decoded transfer, respectively a decoded swap, for every
  sequence of positions, including missing stack heights and foreign groups.
\<close>

theorem subtree_jumps_exact:
  "invocation_analysis invocations keys mints graduated legs =
     (let (base, legs') = first_rows keys mints graduated 0 invocations legs
      in Some (map (full_row invocations base) [0 ..< length invocations], legs'))"
proof -
  let ?base = "fst (first_rows keys mints graduated 0 invocations legs)"
  have "finish_rows invocations (length invocations) ?base =
      Some (map (full_row invocations ?base) [0 ..< length invocations])"
    by (rule finish_rows_spans) (simp_all add: length_first_rows)
  then show ?thesis by (simp add: invocation_analysis_def split_def)
qed

section \<open>The route as comprehensions\<close>

definition span_transfers :: "pubkey list \<Rightarrow> mint_map \<Rightarrow> invocation list \<Rightarrow> nat \<Rightarrow> route_token_transfer list" where
  "span_transfers keys mints invs i =
     List.map_filter (\<lambda>j. transfer (invs ! j) keys mints) [Suc i ..< span_end invs i]"

definition spec_leg :: "bool \<Rightarrow> pubkey list \<Rightarrow> mint_map \<Rightarrow> pubkey list \<Rightarrow> invocation list \<Rightarrow> nat \<Rightarrow> route_swap_leg option" where
  "spec_leg succeeded keys mints graduated invs i =
     map_option (\<lambda>leg. if succeeded then executed_leg (span_transfers keys mints invs i) leg else leg)
       (route_leg keys mints graduated (invs ! i))"

definition spec_unknown :: "pubkey list \<Rightarrow> mint_map \<Rightarrow> pubkey list \<Rightarrow> invocation list \<Rightarrow> nat \<Rightarrow> route_unknown_invocation option" where
  "spec_unknown keys mints graduated invs i =
     (if skips_route (invs ! i) \<or> route_leg keys mints graduated (invs ! i) \<noteq> None then None
      else Some \<lparr>ru_position = iv_position (invs ! i), ru_program = iv_program (invs ! i),
             ru_has_token_transfers =
               (\<exists>j \<in> {Suc i ..< span_end invs i}. transfer (invs ! j) keys mints \<noteq> None),
             ru_has_known_swap_descendants =
               (\<exists>j \<in> {Suc i ..< span_end invs i}. route_leg keys mints graduated (invs ! j) \<noteq> None)\<rparr>)"

definition leg_index :: "pubkey list \<Rightarrow> mint_map \<Rightarrow> pubkey list \<Rightarrow> invocation list \<Rightarrow> nat \<Rightarrow> nat" where
  "leg_index keys mints graduated invs j = length (List.map_filter (route_leg keys mints graduated) (take j invs))"

lemma first_rows_eq:
  "first_rows keys mints graduated i invs legs =
     (map (\<lambda>j. first_row keys mints (invs ! j) (i + j)
            (case route_leg keys mints graduated (invs ! j) of
               None \<Rightarrow> None | Some _ \<Rightarrow> Some (length legs + leg_index keys mints graduated invs j)))
        [0 ..< length invs],
      legs @ List.map_filter (route_leg keys mints graduated) invs)"
proof (induction invs arbitrary: i legs)
  case Nil
  then show ?case by (simp add: map_filter_simps)
next
  case (Cons ix invs)
  have idx: "leg_index keys mints graduated (ix # invs) (Suc j) =
      (case route_leg keys mints graduated ix of None \<Rightarrow> 0 | Some _ \<Rightarrow> 1) + leg_index keys mints graduated invs j" for j
    by (simp add: leg_index_def map_filter_simps split: option.split)
  have z: "leg_index keys mints graduated (ix # invs) 0 = 0" by (simp add: leg_index_def map_filter_simps)
  show ?case
    by (simp add: Cons.IH idx z map_filter_simps map_upt_Suc del: upt_Suc split: option.split cong: option.case_cong)
qed

definition rows_of :: "pubkey list \<Rightarrow> mint_map \<Rightarrow> pubkey list \<Rightarrow> invocation list \<Rightarrow> invocation_row list" where
  "rows_of keys mints graduated invs =
     map (full_row invs (fst (first_rows keys mints graduated 0 invs []))) [0 ..< length invs]"

lemma rows_of_nth:
  assumes "i < length invs"
  shows "ra_transfer (rows_of keys mints graduated invs ! i) = transfer (invs ! i) keys mints"
    and "ra_skip_route (rows_of keys mints graduated invs ! i) = skips_route (invs ! i)"
    and "ra_descendant_end (rows_of keys mints graduated invs ! i) = span_end invs i"
    and "ra_swap_index (rows_of keys mints graduated invs ! i) =
      (case route_leg keys mints graduated (invs ! i) of
         None \<Rightarrow> None | Some _ \<Rightarrow> Some (leg_index keys mints graduated invs i))"
    and "ra_has_token_transfers (rows_of keys mints graduated invs ! i) =
      (\<exists>j \<in> {Suc i ..< span_end invs i}. transfer (invs ! j) keys mints \<noteq> None)"
    and "ra_has_known_swap_descendants (rows_of keys mints graduated invs ! i) =
      (\<exists>j \<in> {Suc i ..< span_end invs i}. route_leg keys mints graduated (invs ! j) \<noteq> None)"
  using assms span_end_bounds [OF assms]
  by (auto simp: rows_of_def full_row_def first_rows_eq first_row_def span_has_def split: option.splits
      intro!: bex_cong)

lemma map_filter_eq: "(\<And>x. x \<in> set xs \<Longrightarrow> f x = g x) \<Longrightarrow> List.map_filter f xs = List.map_filter g xs"
  by (simp add: map_filter_def cong: map_cong filter_cong)

lemma row_transfers_map: "row_transfers (map f xs) = List.map_filter (\<lambda>j. ra_transfer (f j)) xs"
  by (simp add: row_transfers_def map_filter_def filter_map comp_def)

lemma row_transfers_span:
  assumes "i < length invs"
  shows "get_range (i + 1) (span_end invs i) (rows_of keys mints graduated invs) \<noteq> None \<and>
    row_transfers (the (get_range (i + 1) (span_end invs i) (rows_of keys mints graduated invs))) =
      span_transfers keys mints invs i"
proof -
  have e: "Suc i \<le> span_end invs i" "span_end invs i \<le> length invs" using span_end_bounds [OF assms] by auto
  have "length (rows_of keys mints graduated invs) = length invs" by (simp add: rows_of_def)
  moreover have "take (span_end invs i - Suc i) (drop (Suc i) (rows_of keys mints graduated invs)) =
      map (\<lambda>j. rows_of keys mints graduated invs ! j) [Suc i ..< span_end invs i]"
    using e by (intro nth_equalityI) (auto simp: rows_of_def)
  moreover have "List.map_filter (\<lambda>j. ra_transfer (rows_of keys mints graduated invs ! j)) [Suc i ..< span_end invs i] =
      List.map_filter (\<lambda>j. transfer (invs ! j) keys mints) [Suc i ..< span_end invs i]"
    using e by (intro map_filter_eq) (auto simp: rows_of_nth)
  ultimately show ?thesis using e by (simp add: get_range_def span_transfers_def row_transfers_map)
qed

lemma map_filter_snoc: "List.map_filter f (xs @ [x]) = List.map_filter f xs @ (case f x of None \<Rightarrow> [] | Some y \<Rightarrow> [y])"
  by (simp add: map_filter_def split: option.split)

lemma route_rows_spec:
  fixes succeeded keys mints graduated invs
  defines "E i \<equiv> List.map_filter (spec_leg succeeded keys mints graduated invs) [0 ..< i]"
    and "U i \<equiv> List.map_filter (spec_unknown keys mints graduated invs) [0 ..< i]"
  shows "i \<le> length invs \<Longrightarrow>
    route_rows succeeded (rows_of keys mints graduated invs) i (drop i invs)
      (E i @ List.map_filter (route_leg keys mints graduated) (drop i invs)) (U i) =
    Some (E (length invs), U (length invs))"
proof (induction "length invs - i" arbitrary: i)
  case 0
  then show ?case by (simp add: map_filter_simps)
next
  case (Suc k)
  let ?rows = "rows_of keys mints graduated invs"
  have i: "i < length invs" using Suc by simp
  have d: "drop i invs = invs ! i # drop (Suc i) invs" using i by (simp add: Cons_nth_drop_Suc)
  have row: "get_at i ?rows = Some (?rows ! i)" using i by (simp add: get_at_def rows_of_def)
  have next_E: "E (Suc i) = E i @ (case spec_leg succeeded keys mints graduated invs i of None \<Rightarrow> [] | Some y \<Rightarrow> [y])"
    and next_U: "U (Suc i) = U i @ (case spec_unknown keys mints graduated invs i of None \<Rightarrow> [] | Some y \<Rightarrow> [y])"
    by (simp_all add: E_def U_def map_filter_snoc)
  have IH: "route_rows succeeded ?rows (Suc i) (drop (Suc i) invs)
      (E (Suc i) @ List.map_filter (route_leg keys mints graduated) (drop (Suc i) invs)) (U (Suc i)) =
      Some (E (length invs), U (length invs))"
    using Suc i by (intro Suc.hyps(1)) auto
  have len: "length (E i) = leg_index keys mints graduated invs i"
  proof -
    have "length (List.map_filter (spec_leg succeeded keys mints graduated invs) [0 ..< m]) =
        length (List.map_filter (route_leg keys mints graduated) (take m invs))" if "m \<le> length invs" for m
      using that
      by (induction m) (auto simp: map_filter_simps map_filter_snoc take_Suc_conv_app_nth spec_leg_def split: option.split)
    then show ?thesis using i by (simp add: E_def leg_index_def)
  qed
  consider (skip) "skips_route (invs ! i)"
    | (unknown) "\<not> skips_route (invs ! i)" "route_leg keys mints graduated (invs ! i) = None"
    | (leg) l where "\<not> skips_route (invs ! i)" "route_leg keys mints graduated (invs ! i) = Some l"
    by blast
  then show ?case
  proof cases
    case skip
    then have "route_leg keys mints graduated (invs ! i) = None" by (simp add: route_leg_def)
    then show ?thesis
      using IH skip by (simp add: d row rows_of_nth [OF i] next_E next_U spec_leg_def spec_unknown_def map_filter_simps)
  next
    case unknown
    have "unknown_of (invs ! i) (?rows ! i) =
        \<lparr>ru_position = iv_position (invs ! i), ru_program = iv_program (invs ! i),
         ru_has_token_transfers = (\<exists>j \<in> {Suc i ..< span_end invs i}. transfer (invs ! j) keys mints \<noteq> None),
         ru_has_known_swap_descendants =
           (\<exists>j \<in> {Suc i ..< span_end invs i}. route_leg keys mints graduated (invs ! j) \<noteq> None)\<rparr>"
      by (simp only: unknown_of_def rows_of_nth [OF i])
    then show ?thesis
      using IH unknown by (simp add: d row rows_of_nth [OF i] next_E next_U spec_leg_def spec_unknown_def map_filter_simps)
  next
    case leg
    obtain span where span: "get_range (Suc i) (span_end invs i) ?rows = Some span"
      "row_transfers span = span_transfers keys mints invs i"
      using row_transfers_span [OF i, of keys mints graduated] by auto
    let ?l = "if succeeded then executed_leg (span_transfers keys mints invs i) l else l"
    have "get_at (length (E i)) (E i @ l # xs) = Some l" for xs by (simp add: get_at_def)
    moreover have "(E i @ l # xs)[length (E i) := y] = E i @ y # xs" for y xs by simp
    ultimately show ?thesis
      using IH leg span
      by (cases succeeded) (simp_all add: d row rows_of_nth [OF i] next_E next_U spec_leg_def spec_unknown_def map_filter_simps len [symmetric])
  qed
qed

text \<open>
  C11. The analyzer never panics and always ends, and its route is exactly this: the legs are the decodable
  non-skipped invocations in execution order, with executed amounts only if the transaction
  succeeded and then summed over the naive descendant span of each; every other non-skipped invocation
  is listed as unknown, with flags for transfers and swaps in its span; and every decoded
  transfer is kept in order.
\<close>

theorem route_refines_spec:
  "\<exists>route mints. analyze_yellowstone_transaction_routes parse tx meta graduated = Some route \<and>
    (let keys = transaction_keys tx meta; invs = transaction_invocations tx meta keys; n = length invs
     in token_mints_from_invocations parse meta keys invs = Some mints \<and>
        tr_succeeded route = (\<not> tm_failed meta) \<and>
        tr_legs route = List.map_filter (spec_leg (\<not> tm_failed meta) keys mints graduated invs) [0 ..< n] \<and>
        tr_unknown_invocations route = List.map_filter (spec_unknown keys mints graduated invs) [0 ..< n] \<and>
        tr_transfers route = List.map_filter (\<lambda>ix. transfer ix keys mints) invs \<and>
        tr_native_token_actions route = List.map_filter (\<lambda>ix. native_action ix keys mints) invs)"
proof -
  define keys where "keys = transaction_keys tx meta"
  define invs where "invs = transaction_invocations tx meta keys"
  obtain mints where mints: "token_mints_from_invocations parse meta keys invs = Some mints"
    using token_mints_result [of parse meta keys invs] by blast
  let ?rows = "rows_of keys mints graduated invs"
  have "finish_rows invs (length invs) (fst (first_rows keys mints graduated 0 invs [])) = Some ?rows"
    unfolding rows_of_def by (rule finish_rows_spans) (simp_all add: length_first_rows)
  then have analysis: "invocation_analysis invs keys mints graduated [] =
      Some (?rows, List.map_filter (route_leg keys mints graduated) invs)"
    by (simp add: invocation_analysis_def first_rows_eq)
  have rows: "route_rows (\<not> tm_failed meta) ?rows 0 invs (List.map_filter (route_leg keys mints graduated) invs) [] =
      Some (List.map_filter (spec_leg (\<not> tm_failed meta) keys mints graduated invs) [0 ..< length invs],
            List.map_filter (spec_unknown keys mints graduated invs) [0 ..< length invs])"
    using route_rows_spec [of 0 invs "\<not> tm_failed meta" keys mints graduated] by (simp add: map_filter_simps)
  have "?rows = map (\<lambda>j. ?rows ! j) [0 ..< length invs]" by (simp add: rows_of_def)
  then have "row_transfers ?rows = List.map_filter (\<lambda>j. ra_transfer (?rows ! j)) [0 ..< length invs]"
    by (metis row_transfers_map)
  also have "\<dots> = List.map_filter (\<lambda>j. transfer (invs ! j) keys mints) [0 ..< length invs]"
    by (rule map_filter_eq) (simp add: rows_of_nth)
  also have "\<dots> = List.map_filter (\<lambda>ix. transfer ix keys mints) (map ((!) invs) [0 ..< length invs])"
    by (simp add: map_filter_def filter_map comp_def)
  finally have transfers: "row_transfers ?rows = List.map_filter (\<lambda>ix. transfer ix keys mints) invs"
    by (simp add: map_nth)
  have "\<exists>sig. analyze_yellowstone_transaction_routes parse tx meta graduated = Some \<lparr>
      tr_signature = sig, tr_succeeded = (\<not> tm_failed meta),
      tr_legs = List.map_filter (spec_leg (\<not> tm_failed meta) keys mints graduated invs) [0 ..< length invs],
      tr_transfers = List.map_filter (\<lambda>ix. transfer ix keys mints) invs,
      tr_native_token_actions = List.map_filter (\<lambda>ix. native_action ix keys mints) invs,
      tr_unknown_invocations = List.map_filter (spec_unknown keys mints graduated invs) [0 ..< length invs]\<rparr>"
    by (simp add: analyze_yellowstone_transaction_routes_def keys_def [symmetric] invs_def [symmetric]
        mints analysis rows transfers Let_def)
  then show ?thesis
    unfolding keys_def [symmetric] invs_def [symmetric] Let_def using mints by fastforce
qed

section \<open>Executed amounts\<close>

definition checked_total :: "u64 option list \<Rightarrow> u64 option" where
  "checked_total xs =
     (if xs = [] \<or> None \<in> set xs \<or> 2 ^ 64 \<le> sum_list (map (unat \<circ> the) xs) then None
      else Some (word_of_nat (sum_list (map (unat \<circ> the) xs))))"

definition credit :: "route_token_transfer \<Rightarrow> u64 option" where
  "credit t = Option.bind (rt_withheld_fee t) (checked_sub (rt_amount t))"

definition sum_step :: "u64 option \<Rightarrow> u64 option \<Rightarrow> u64 option" where
  "sum_step acc x = do { sum \<leftarrow> acc; y \<leftarrow> x; checked_add sum y }"

lemma sum_step_simps:
  "sum_step None x = None" "sum_step acc None = None" "sum_step (Some a) (Some y) = checked_add a y"
  by (cases acc) (simp_all add: sum_step_def)

lemma foldl_sum_step_None: "foldl sum_step None xs = None"
  by (induction xs) (simp_all add: sum_step_simps)

lemma foldl_sum_step:
  "foldl sum_step (Some a) xs =
     (if None \<in> set xs \<or> 2 ^ 64 \<le> unat a + sum_list (map (unat \<circ> the) xs) then None
      else Some (word_of_nat (unat a + sum_list (map (unat \<circ> the) xs))))"
proof (induction xs arbitrary: a)
  case Nil
  have "unat a < 2 ^ 64" using unsigned_less [of a, where 'a = nat] by simp
  then show ?case by simp
next
  case (Cons x xs)
  show ?case
  proof (cases x)
    case None
    then show ?thesis by (simp add: sum_step_simps foldl_sum_step_None)
  next
    case (Some y)
    show ?thesis
    proof (cases "unat a + unat y < 2 ^ 64")
      case True
      then have "unat (a + y) = unat a + unat y" by (simp add: unat_word_ariths)
      then show ?thesis using True Some Cons.IH [of "a + y"]
        by (simp add: sum_step_simps checked_add_def add.assoc comp_def)
    next
      case False
      then show ?thesis using Some by (simp add: sum_step_simps checked_add_def foldl_sum_step_None)
    qed
  qed
qed

lemma add_transfer_fold:
  "foldl (add_transfer leg) am ts =
     am\<lparr>am_has_input := (am_has_input am \<or> (\<exists>t \<in> set ts. rt_source t = rl_input_account leg)),
        am_has_output := (am_has_output am \<or> (\<exists>t \<in> set ts. rt_destination t = rl_output_account leg)),
        am_input_sum := foldl sum_step (am_input_sum am)
          (map (Some \<circ> rt_amount) (filter (\<lambda>t. rt_source t = rl_input_account leg) ts)),
        am_output_sum := foldl sum_step (am_output_sum am)
          (map credit (filter (\<lambda>t. rt_destination t = rl_output_account leg) ts))\<rparr>"
proof (induction ts arbitrary: am)
  case (Cons t ts)
  then show ?case
    by (simp add: add_transfer_def Let_def sum_step_def credit_def)
qed simp

text \<open>
  C13. The executed amounts of a leg are exact: the input is the sum of the amounts its span moves out of its
  input account, the output the sum of what is credited to its output account after withheld fees;
  each is absent if there is no such transfer, if the sum would overflow 64 bits, or
  if a credited transfer has an unknown fee or a fee above its amount. Nothing else of the leg changes.
\<close>

theorem executed_amounts_exact:
  "executed_leg ts leg = leg\<lparr>
     rl_actual_input_amount :=
       checked_total (map (Some \<circ> rt_amount) (filter (\<lambda>t. rt_source t = rl_input_account leg) ts)),
     rl_actual_output_amount :=
       checked_total (map credit (filter (\<lambda>t. rt_destination t = rl_output_account leg) ts))\<rparr>"
  by (simp add: executed_leg_def add_transfer_fold foldl_sum_step checked_total_def filter_empty_conv Let_def)

end
