(* ===== verification/Pump_Parsers.thy ===== *)
theory Pump_Parsers
  imports Instr_Utils Discriminators
begin

text \<open>
  The Pump.fun instruction parser (\<open>src/instr/pump.rs\<close>), its account layouts
  (\<open>src/instr/pump_create_layout.rs\<close>) and the account fillers of a create event
  (\<open>src/core/account_fillers/pumpfun.rs\<close>). Where the code indexes with \<open>accounts[i]\<close> the model does the
  same after the code's length check; \<open>get_account(i).unwrap_or_default()\<close> is \<open>acct\<close>. The five
  scalars every parser passes on are the record \<open>tx_origin\<close>.
\<close>

section \<open>Layouts\<close>

abbreviation (input) CREATE_LEN :: nat where "CREATE_LEN \<equiv> 14"
abbreviation (input) CREATE_MINT :: nat where "CREATE_MINT \<equiv> 0"
abbreviation (input) CREATE_MINT_AUTHORITY :: nat where "CREATE_MINT_AUTHORITY \<equiv> 1"
abbreviation (input) CREATE_BONDING_CURVE :: nat where "CREATE_BONDING_CURVE \<equiv> 2"
abbreviation (input) CREATE_ASSOCIATED_BONDING_CURVE :: nat where "CREATE_ASSOCIATED_BONDING_CURVE \<equiv> 3"
abbreviation (input) CREATE_GLOBAL :: nat where "CREATE_GLOBAL \<equiv> 4"
abbreviation (input) CREATE_MPL_TOKEN_METADATA :: nat where "CREATE_MPL_TOKEN_METADATA \<equiv> 5"
abbreviation (input) CREATE_METADATA :: nat where "CREATE_METADATA \<equiv> 6"
abbreviation (input) CREATE_USER :: nat where "CREATE_USER \<equiv> 7"
abbreviation (input) CREATE_SYSTEM_PROGRAM :: nat where "CREATE_SYSTEM_PROGRAM \<equiv> 8"
abbreviation (input) CREATE_TOKEN_PROGRAM :: nat where "CREATE_TOKEN_PROGRAM \<equiv> 9"
abbreviation (input) CREATE_ASSOCIATED_TOKEN_PROGRAM :: nat where "CREATE_ASSOCIATED_TOKEN_PROGRAM \<equiv> 10"
abbreviation (input) CREATE_RENT :: nat where "CREATE_RENT \<equiv> 11"
abbreviation (input) CREATE_EVENT_AUTHORITY :: nat where "CREATE_EVENT_AUTHORITY \<equiv> 12"
abbreviation (input) CREATE_PROGRAM :: nat where "CREATE_PROGRAM \<equiv> 13"

abbreviation (input) CREATE_V2_LEN :: nat where "CREATE_V2_LEN \<equiv> 16"
abbreviation (input) CREATE_V2_MINT :: nat where "CREATE_V2_MINT \<equiv> 0"
abbreviation (input) CREATE_V2_MINT_AUTHORITY :: nat where "CREATE_V2_MINT_AUTHORITY \<equiv> 1"
abbreviation (input) CREATE_V2_BONDING_CURVE :: nat where "CREATE_V2_BONDING_CURVE \<equiv> 2"
abbreviation (input) CREATE_V2_ASSOCIATED_BONDING_CURVE :: nat where "CREATE_V2_ASSOCIATED_BONDING_CURVE \<equiv> 3"
abbreviation (input) CREATE_V2_GLOBAL :: nat where "CREATE_V2_GLOBAL \<equiv> 4"
abbreviation (input) CREATE_V2_USER :: nat where "CREATE_V2_USER \<equiv> 5"
abbreviation (input) CREATE_V2_SYSTEM_PROGRAM :: nat where "CREATE_V2_SYSTEM_PROGRAM \<equiv> 6"
abbreviation (input) CREATE_V2_TOKEN_PROGRAM :: nat where "CREATE_V2_TOKEN_PROGRAM \<equiv> 7"
abbreviation (input) CREATE_V2_ASSOCIATED_TOKEN_PROGRAM :: nat where "CREATE_V2_ASSOCIATED_TOKEN_PROGRAM \<equiv> 8"
abbreviation (input) CREATE_V2_MAYHEM_PROGRAM_ID :: nat where "CREATE_V2_MAYHEM_PROGRAM_ID \<equiv> 9"
abbreviation (input) CREATE_V2_GLOBAL_PARAMS :: nat where "CREATE_V2_GLOBAL_PARAMS \<equiv> 10"
abbreviation (input) CREATE_V2_SOL_VAULT :: nat where "CREATE_V2_SOL_VAULT \<equiv> 11"
abbreviation (input) CREATE_V2_MAYHEM_STATE :: nat where "CREATE_V2_MAYHEM_STATE \<equiv> 12"
abbreviation (input) CREATE_V2_MAYHEM_TOKEN_VAULT :: nat where "CREATE_V2_MAYHEM_TOKEN_VAULT \<equiv> 13"
abbreviation (input) CREATE_V2_EVENT_AUTHORITY :: nat where "CREATE_V2_EVENT_AUTHORITY \<equiv> 14"
abbreviation (input) CREATE_V2_PROGRAM :: nat where "CREATE_V2_PROGRAM \<equiv> 15"

abbreviation (input) QUOTE_MINT :: nat where "QUOTE_MINT \<equiv> 16"
abbreviation (input) QUOTE_VAULT :: nat where "QUOTE_VAULT \<equiv> 17"
abbreviation (input) QUOTE_TOKEN_PROGRAM :: nat where "QUOTE_TOKEN_PROGRAM \<equiv> 18"

section \<open>Shared pieces\<close>

record tx_origin =
  og_signature :: signature
  og_slot :: u64
  og_tx_index :: u64
  og_grpc_recv_us :: int

definition origin_metadata :: "tx_origin \<Rightarrow> int option \<Rightarrow> event_metadata" where
  "origin_metadata og block_time_us =
     create_metadata (og_signature og) (og_slot og) (og_tx_index og)
       (case block_time_us of None \<Rightarrow> 0 | Some t \<Rightarrow> t) (og_grpc_recv_us og)"

definition acct :: "pubkey list \<Rightarrow> nat \<Rightarrow> pubkey" where
  "acct accounts i = (case get_account accounts i of None \<Rightarrow> default_pubkey | Some k \<Rightarrow> k)"

definition or_zero :: "u64 option \<Rightarrow> u64" where
  "or_zero x = (case x of None \<Rightarrow> 0 | Some v \<Rightarrow> v)"

text \<open>The two arguments of a trade, both 0 when the data is short.\<close>

definition trade_args :: "bytes \<Rightarrow> u64 \<times> u64" where
  "trade_args data =
     (if length data \<ge> 16 then (or_zero (read_u64_le data 0), or_zero (read_u64_le data 8)) else (0, 0))"

definition normalize_pumpfun_quote_mint :: "pubkey \<Rightarrow> pubkey" where
  "normalize_pumpfun_quote_mint quote_mint =
     (if quote_mint = default_pubkey then PUMPFUN_SOLSCAN_SOL_QUOTE_MINT else quote_mint)"

definition is_pumpfun_solscan_sol_quote_mint :: "pubkey \<Rightarrow> bool" where
  "is_pumpfun_solscan_sol_quote_mint quote_mint \<longleftrightarrow>
     normalize_pumpfun_quote_mint quote_mint = PUMPFUN_SOLSCAN_SOL_QUOTE_MINT"

definition known_account :: "pubkey option \<Rightarrow> pubkey option" where
  "known_account a = (case a of None \<Rightarrow> None | Some k \<Rightarrow> if k \<noteq> default_pubkey then Some k else None)"

definition create_v2_quote_accounts :: "nat \<Rightarrow> (nat \<Rightarrow> pubkey option) \<Rightarrow> pubkey \<times> pubkey \<times> pubkey" where
  "create_v2_quote_accounts account_len get =
     (let unknown = (default_pubkey, default_pubkey, default_pubkey)
      in if account_len = CREATE_V2_LEN then (PUMPFUN_SOLSCAN_SOL_QUOTE_MINT, default_pubkey, default_pubkey)
         else if account_len \<le> QUOTE_TOKEN_PROGRAM then unknown
         else (case (get QUOTE_MINT, get QUOTE_VAULT, get QUOTE_TOKEN_PROGRAM) of
            (Some mint, Some vault, Some token_program) \<Rightarrow>
              if mint = default_pubkey \<or> mint = PUMPFUN_PROGRAM_ID \<or> mint = SPL_TOKEN_PROGRAM_ID \<or>
                 mint = SPL_TOKEN_2022_PROGRAM_ID \<or> vault = default_pubkey \<or>
                 (token_program \<noteq> SPL_TOKEN_PROGRAM_ID \<and> token_program \<noteq> SPL_TOKEN_2022_PROGRAM_ID)
              then unknown
              else (normalize_pumpfun_quote_mint mint, vault, token_program)
          | _ \<Rightarrow> unknown))"

section \<open>Trades\<close>

text \<open>Token amount, SOL amount, amount, maximal cost, spendable SOL and quote, minimal tokens.\<close>

definition buy_amounts :: "bytes \<Rightarrow> bool \<Rightarrow> u64 \<times> u64 \<times> u64 \<times> u64 \<times> u64 \<times> u64 \<times> u64" where
  "buy_amounts data exact_quote_in =
     (let (first_arg, second_arg) = trade_args data
      in if exact_quote_in then (second_arg, first_arg, second_arg, first_arg, first_arg, 0, second_arg)
         else (first_arg, second_arg, first_arg, second_arg, 0, 0, 0))"

definition pump_buy_instruction ::
  "bytes \<Rightarrow> pubkey list \<Rightarrow> tx_origin \<Rightarrow> int option \<Rightarrow> string \<Rightarrow> bool \<Rightarrow> 'p dex_event option" where
  "pump_buy_instruction data accounts og block_time_us ix_name exact_quote_in =
     (if length accounts < 16 then None
      else do {
        let (token_amount, sol_amount, amount, max_sol_cost, spendable_sol_in, spendable_quote_in, min_tokens_out) =
          buy_amounts data exact_quote_in;
        let track_volume = (case get_at 16 data of None \<Rightarrow> False | Some b \<Rightarrow> b \<noteq> 0);
        let bonding_curve_v2 = acct accounts 16;
        let buyback_fee_recipient = acct accounts 17;
        let account = (if buyback_fee_recipient \<noteq> default_pubkey then Some buyback_fee_recipient else None);
        let fee_program = acct accounts 15;
        mint \<leftarrow> get_account accounts 2;
        let metadata = origin_metadata og block_time_us;
        let trade_event = default_trade\<lparr>
           pt_metadata := metadata, pt_mint := mint, pt_quote_mint := PUMPFUN_SOLSCAN_SOL_QUOTE_MINT,
           pt_is_buy := True, pt_global := acct accounts 0, pt_fee_recipient := acct accounts 1,
           pt_bonding_curve := acct accounts 3, pt_bonding_curve_v2 := bonding_curve_v2,
           pt_associated_bonding_curve := acct accounts 4, pt_associated_user := acct accounts 5,
           pt_user := acct accounts 6, pt_system_program := acct accounts 7,
           pt_token_program := acct accounts 8, pt_creator_vault := acct accounts 9,
           pt_event_authority := acct accounts 10, pt_program := acct accounts 11,
           pt_global_volume_accumulator := acct accounts 12, pt_user_volume_accumulator := acct accounts 13,
           pt_fee_config := acct accounts 14, pt_fee_program := fee_program,
           pt_buyback_fee_recipient := buyback_fee_recipient, pt_account := account,
           pt_sol_amount := sol_amount, pt_token_amount := token_amount, pt_amount := amount,
           pt_max_sol_cost := max_sol_cost, pt_spendable_sol_in := spendable_sol_in,
           pt_spendable_quote_in := spendable_quote_in, pt_min_tokens_out := min_tokens_out,
           pt_track_volume := track_volume, pt_ix_name := ix_name\<rparr>;
        Some (Pump_Fun_Event (if exact_quote_in then PumpFunBuyExactSolIn_Event trade_event
                              else PumpFunBuy_Event trade_event))
      })"

text \<open>User volume accumulator, second bonding curve and buyback recipient of a legacy sell.\<close>

definition legacy_sell_extras :: "bool \<Rightarrow> pubkey list \<Rightarrow> pubkey \<times> pubkey \<times> pubkey" where
  "legacy_sell_extras v2_accounts accounts =
     (if v2_accounts then (default_pubkey, default_pubkey, default_pubkey)
      else if length accounts \<ge> 17 then (acct accounts 14, acct accounts 15, acct accounts 16)
      else if length accounts \<ge> 16 then (default_pubkey, acct accounts 14, acct accounts 15)
      else (default_pubkey, acct accounts 14, default_pubkey))"

definition pump_sell_instruction ::
  "bytes \<Rightarrow> pubkey list \<Rightarrow> tx_origin \<Rightarrow> int option \<Rightarrow> string \<Rightarrow> bool \<Rightarrow> 'p dex_event option" where
  "pump_sell_instruction data accounts og block_time_us ix_name v2_accounts =
     (if length accounts < (if v2_accounts then 26 else 14) then None
      else do {
        let (amount, min_sol_output) = trade_args data;
        let token_amount = amount;
        let sol_amount = min_sol_output;
        let (global_idx, mint_idx, bonding_curve_idx, associated_bonding_curve_idx, associated_user_idx, user_idx,
             system_program_idx, fee_recipient_idx, token_program_idx, creator_vault_idx, event_authority_idx,
             program_idx, user_volume_accumulator_idx, fee_config_idx, fee_program_idx) =
          (if v2_accounts then (0, 1, 10, 11, 14, 13, 23, 6, 3, 16, 24, 25, 19, 21, 22)
           else (0, 2, 3, 4, 5, 6, 7, 1, 9, 8, 10, 11, usize_max, 12, 13));
        mint \<leftarrow> get_account accounts mint_idx;
        let (legacy_user_volume_accumulator, legacy_bonding_curve_v2, legacy_buyback_fee_recipient) =
          legacy_sell_extras v2_accounts accounts;
        let account = (if legacy_buyback_fee_recipient \<noteq> default_pubkey
                       then Some legacy_buyback_fee_recipient else None);
        let metadata = origin_metadata og block_time_us;
        Some (Pump_Fun_Event (PumpFunSell_Event (default_trade\<lparr>
           pt_metadata := metadata, pt_mint := mint,
           pt_quote_mint := normalize_pumpfun_quote_mint (if v2_accounts then acct accounts 2 else default_pubkey),
           pt_global := acct accounts global_idx, pt_bonding_curve := acct accounts bonding_curve_idx,
           pt_bonding_curve_v2 := legacy_bonding_curve_v2,
           pt_associated_bonding_curve := acct accounts associated_bonding_curve_idx,
           pt_associated_user := acct accounts associated_user_idx, pt_user := acct accounts user_idx,
           pt_system_program := acct accounts system_program_idx,
           pt_fee_recipient := acct accounts fee_recipient_idx,
           pt_token_program := acct accounts token_program_idx,
           pt_quote_token_program := (if v2_accounts then acct accounts 4 else default_pubkey),
           pt_associated_token_program := (if v2_accounts then acct accounts 5 else default_pubkey),
           pt_creator_vault := acct accounts creator_vault_idx,
           pt_associated_quote_fee_recipient := (if v2_accounts then acct accounts 7 else default_pubkey),
           pt_associated_quote_buyback_fee_recipient := (if v2_accounts then acct accounts 9 else default_pubkey),
           pt_associated_quote_bonding_curve := (if v2_accounts then acct accounts 12 else default_pubkey),
           pt_associated_quote_user := (if v2_accounts then acct accounts 15 else default_pubkey),
           pt_associated_creator_vault := (if v2_accounts then acct accounts 17 else default_pubkey),
           pt_sharing_config := (if v2_accounts then acct accounts 18 else default_pubkey),
           pt_event_authority := acct accounts event_authority_idx, pt_program := acct accounts program_idx,
           pt_user_volume_accumulator := (if v2_accounts then acct accounts user_volume_accumulator_idx else legacy_user_volume_accumulator),
           pt_associated_user_volume_accumulator := (if v2_accounts then acct accounts 20 else default_pubkey),
           pt_fee_config := acct accounts fee_config_idx, pt_fee_program := acct accounts fee_program_idx,
           pt_buyback_fee_recipient := (if v2_accounts then acct accounts 8 else legacy_buyback_fee_recipient),
           pt_account := account, pt_sol_amount := sol_amount, pt_token_amount := token_amount,
           pt_amount := amount, pt_min_sol_output := min_sol_output, pt_ix_name := ix_name\<rparr>)))
      })"

text \<open>Token amount, SOL amount, amount, maximal cost, quote amount, spendable quote, minimal tokens.\<close>

definition buy_v2_amounts :: "bytes \<Rightarrow> bool \<Rightarrow> u64 \<times> u64 \<times> u64 \<times> u64 \<times> u64 \<times> u64 \<times> u64" where
  "buy_v2_amounts data exact_quote_in =
     (let (first_arg, second_arg) = trade_args data
      in if exact_quote_in then (second_arg, first_arg, second_arg, 0, first_arg, first_arg, second_arg)
         else (first_arg, second_arg, first_arg, second_arg, 0, 0, 0))"

definition pump_buy_v2_instruction ::
  "bytes \<Rightarrow> pubkey list \<Rightarrow> tx_origin \<Rightarrow> int option \<Rightarrow> string \<Rightarrow> bool \<Rightarrow> 'p dex_event option" where
  "pump_buy_v2_instruction data accounts og block_time_us ix_name exact_quote_in =
     (if length accounts < 27 then None
      else do {
        let (token_amount, sol_amount, amount, max_sol_cost, quote_amount, spendable_quote_in, min_tokens_out) =
          buy_v2_amounts data exact_quote_in;
        let metadata = origin_metadata og block_time_us;
        let trade_event = default_trade\<lparr>
           pt_metadata := metadata, pt_mint := accounts ! 1,
           pt_quote_mint := normalize_pumpfun_quote_mint (accounts ! 2), pt_is_buy := True,
           pt_global := accounts ! 0, pt_bonding_curve := accounts ! 10,
           pt_associated_bonding_curve := accounts ! 11, pt_associated_user := accounts ! 14,
           pt_user := accounts ! 13, pt_system_program := accounts ! 24,
           pt_quote_token_program := accounts ! 4, pt_associated_token_program := accounts ! 5,
           pt_sol_amount := sol_amount, pt_token_amount := token_amount, pt_amount := amount,
           pt_max_sol_cost := max_sol_cost, pt_quote_amount := quote_amount,
           pt_spendable_quote_in := spendable_quote_in, pt_min_tokens_out := min_tokens_out,
           pt_fee_recipient := accounts ! 6, pt_token_program := accounts ! 3,
           pt_creator_vault := accounts ! 16, pt_associated_quote_fee_recipient := accounts ! 7,
           pt_buyback_fee_recipient := accounts ! 8, pt_associated_quote_buyback_fee_recipient := accounts ! 9,
           pt_associated_quote_bonding_curve := accounts ! 12, pt_associated_quote_user := accounts ! 15,
           pt_associated_creator_vault := accounts ! 17, pt_sharing_config := accounts ! 18,
           pt_event_authority := accounts ! 25, pt_program := accounts ! 26,
           pt_global_volume_accumulator := accounts ! 19, pt_user_volume_accumulator := accounts ! 20,
           pt_associated_user_volume_accumulator := accounts ! 21, pt_fee_config := accounts ! 22,
           pt_fee_program := accounts ! 23, pt_ix_name := ix_name\<rparr>;
        Some (Pump_Fun_Event (PumpFunBuy_Event trade_event))
      })"

definition pump_sell_v2_instruction ::
  "bytes \<Rightarrow> pubkey list \<Rightarrow> tx_origin \<Rightarrow> int option \<Rightarrow> string \<Rightarrow> 'p dex_event option" where
  "pump_sell_v2_instruction data accounts og block_time_us ix_name =
     pump_sell_instruction data accounts og block_time_us ix_name True"

text \<open>The 17 accounts of the third version, at their places in the second version's layout.\<close>

definition v3_buy_accounts :: "pubkey list \<Rightarrow> pubkey list" where
  "v3_buy_accounts accounts =
     (replicate 27 default_pubkey)
       [0 := accounts ! 0, 1 := accounts ! 1, 2 := accounts ! 2, 3 := accounts ! 3, 4 := accounts ! 4,
        8 := accounts ! 13, 10 := accounts ! 5, 11 := accounts ! 6, 12 := accounts ! 7, 13 := accounts ! 8,
        14 := accounts ! 9, 15 := accounts ! 10, 20 := accounts ! 11, 22 := accounts ! 12, 24 := accounts ! 14,
        25 := accounts ! 15, 26 := accounts ! 16]"

definition v3_sell_accounts :: "pubkey list \<Rightarrow> pubkey list" where
  "v3_sell_accounts accounts =
     (replicate 27 default_pubkey)
       [0 := accounts ! 0, 1 := accounts ! 1, 2 := accounts ! 2, 3 := accounts ! 3, 4 := accounts ! 4,
        8 := accounts ! 13, 10 := accounts ! 5, 11 := accounts ! 6, 12 := accounts ! 7, 13 := accounts ! 8,
        14 := accounts ! 9, 15 := accounts ! 10, 19 := accounts ! 11, 21 := accounts ! 12, 23 := accounts ! 14,
        24 := accounts ! 15, 25 := accounts ! 16]"

definition v3_buy_ok :: "bytes \<Rightarrow> pubkey list \<Rightarrow> bool" where
  "v3_buy_ok data accounts \<longleftrightarrow>
     \<not> (length accounts < 17 \<or> length data < 16 \<or> length data > 17 \<or> (length data = 17 \<and> data ! 16 > 1))"

section \<open>Filling a create event\<close>

definition fill_if_default :: "pubkey \<Rightarrow> pubkey \<Rightarrow> pubkey" where
  "fill_if_default old new = (if old = default_pubkey then new else old)"

definition fill_create_accounts :: "(nat \<Rightarrow> pubkey) \<Rightarrow> pumpfun_create_event \<Rightarrow> pumpfun_create_event" where
  "fill_create_accounts get e = e\<lparr>
     pc_mint := fill_if_default (pc_mint e) (get CREATE_MINT),
     pc_bonding_curve := fill_if_default (pc_bonding_curve e) (get CREATE_BONDING_CURVE),
     pc_user := fill_if_default (pc_user e) (get CREATE_USER),
     pc_mint_authority := fill_if_default (pc_mint_authority e) (get CREATE_MINT_AUTHORITY),
     pc_associated_bonding_curve := fill_if_default (pc_associated_bonding_curve e) (get CREATE_ASSOCIATED_BONDING_CURVE),
     pc_global := fill_if_default (pc_global e) (get CREATE_GLOBAL),
     pc_system_program := fill_if_default (pc_system_program e) (get CREATE_SYSTEM_PROGRAM),
     pc_token_program := fill_if_default (pc_token_program e) (get CREATE_TOKEN_PROGRAM),
     pc_associated_token_program := fill_if_default (pc_associated_token_program e) (get CREATE_ASSOCIATED_TOKEN_PROGRAM),
     pc_event_authority := fill_if_default (pc_event_authority e) (get CREATE_EVENT_AUTHORITY),
     pc_program := fill_if_default (pc_program e) (get CREATE_PROGRAM)\<rparr>"

definition fill_create_quote_accounts ::
  "(nat \<Rightarrow> pubkey) \<Rightarrow> pubkey \<times> pubkey \<times> pubkey \<Rightarrow> pubkey \<times> pubkey \<times> pubkey" where
  "fill_create_quote_accounts get quote =
     (let (mint, vault, token) = quote;
          (quote_mint, quote_vault, quote_token_program) =
            create_v2_quote_accounts (QUOTE_TOKEN_PROGRAM + 1) (\<lambda>i. Some (get i))
      in if quote_mint = default_pubkey then (mint, vault, token)
         else
           (let mint = (if mint = default_pubkey \<or> is_pumpfun_solscan_sol_quote_mint mint then quote_mint else mint)
            in if mint \<noteq> quote_mint then (mint, vault, token)
               else (mint, fill_if_default vault quote_vault, fill_if_default token quote_token_program)))"

definition fill_create_accounts_from_v2 :: "(nat \<Rightarrow> pubkey) \<Rightarrow> pumpfun_create_event \<Rightarrow> pumpfun_create_event" where
  "fill_create_accounts_from_v2 get e =
     (let (quote_mint, quote_vault, quote_token_program) =
        fill_create_quote_accounts get (pc_quote_mint e, pc_quote_vault e, pc_quote_token_program e)
      in e\<lparr>pc_ix_name := ''create_v2'',
        pc_mint := fill_if_default (pc_mint e) (get CREATE_V2_MINT),
        pc_bonding_curve := fill_if_default (pc_bonding_curve e) (get CREATE_V2_BONDING_CURVE),
        pc_user := fill_if_default (pc_user e) (get CREATE_V2_USER),
        pc_mint_authority := fill_if_default (pc_mint_authority e) (get CREATE_V2_MINT_AUTHORITY),
        pc_associated_bonding_curve := fill_if_default (pc_associated_bonding_curve e) (get CREATE_V2_ASSOCIATED_BONDING_CURVE),
        pc_global := fill_if_default (pc_global e) (get CREATE_V2_GLOBAL),
        pc_system_program := fill_if_default (pc_system_program e) (get CREATE_V2_SYSTEM_PROGRAM),
        pc_token_program := fill_if_default (pc_token_program e) (get CREATE_V2_TOKEN_PROGRAM),
        pc_associated_token_program := fill_if_default (pc_associated_token_program e) (get CREATE_V2_ASSOCIATED_TOKEN_PROGRAM),
        pc_mayhem_program_id := fill_if_default (pc_mayhem_program_id e) (get CREATE_V2_MAYHEM_PROGRAM_ID),
        pc_global_params := fill_if_default (pc_global_params e) (get CREATE_V2_GLOBAL_PARAMS),
        pc_sol_vault := fill_if_default (pc_sol_vault e) (get CREATE_V2_SOL_VAULT),
        pc_mayhem_state := fill_if_default (pc_mayhem_state e) (get CREATE_V2_MAYHEM_STATE),
        pc_mayhem_token_vault := fill_if_default (pc_mayhem_token_vault e) (get CREATE_V2_MAYHEM_TOKEN_VAULT),
        pc_event_authority := fill_if_default (pc_event_authority e) (get CREATE_V2_EVENT_AUTHORITY),
        pc_program := fill_if_default (pc_program e) (get CREATE_V2_PROGRAM), pc_quote_mint := quote_mint,
        pc_quote_vault := quote_vault, pc_quote_token_program := quote_token_program\<rparr>)"

section \<open>Creates\<close>

text \<open>The three texts, and the offset after them.\<close>

definition read_create_texts :: "bytes \<Rightarrow> nat \<Rightarrow> (bytes \<times> bytes \<times> bytes \<times> nat) option" where
  "read_create_texts data start =
     do {
       (name, len1) \<leftarrow> read_str_unchecked data start;
       (symbol, len2) \<leftarrow> read_str_unchecked data (start + len1);
       (uri, len3) \<leftarrow> read_str_unchecked data (start + len1 + len2);
       Some (name, symbol, uri, start + len1 + len2 + len3)
     }"

definition pump_create_instruction :: "bytes \<Rightarrow> pubkey list \<Rightarrow> tx_origin \<Rightarrow> int option \<Rightarrow> 'p dex_event option" where
  "pump_create_instruction data accounts og block_time_us =
     (if length accounts < 10 then None
      else do {
        (name, symbol, uri, offset) \<leftarrow> read_create_texts data 0;
        creator \<leftarrow> (if offset = length data then Some default_pubkey else read_pubkey data offset);
        let mint = accounts ! CREATE_MINT;
        let bonding_curve = accounts ! CREATE_BONDING_CURVE;
        let user = accounts ! CREATE_USER;
        let metadata = origin_metadata og block_time_us;
        let event = default_create\<lparr>
           pc_metadata := metadata, pc_name := name, pc_symbol := symbol, pc_uri := uri, pc_mint := mint,
           pc_bonding_curve := bonding_curve, pc_user := user, pc_creator := creator,
           pc_quote_mint := PUMPFUN_SOLSCAN_SOL_QUOTE_MINT, pc_ix_name := ''create''\<rparr>;
        Some (Pump_Fun_Event (PumpFunCreate_Event (fill_create_accounts (acct accounts) event)))
      })"

definition pump_create_v2_instruction :: "bytes \<Rightarrow> pubkey list \<Rightarrow> tx_origin \<Rightarrow> int option \<Rightarrow> 'p dex_event option" where
  "pump_create_v2_instruction data accounts og block_time_us =
     (if length accounts < CREATE_V2_LEN then None
      else do {
        (name, symbol, uri, offset) \<leftarrow> read_create_texts data 0;
        if length data < offset + 32 + 1 then None
        else do {
          creator \<leftarrow> read_pubkey data offset;
          let offset = offset + 32;
          is_mayhem_mode \<leftarrow> read_option_bool_idl data offset;
          let offset = offset + 1;
          (is_cashback_enabled, creator_fee_bps, is_holder_reward) \<leftarrow> parse_create_v2_optional_tail (drop offset data);
          let mint = accounts ! CREATE_V2_MINT;
          let bonding_curve = accounts ! CREATE_V2_BONDING_CURVE;
          let user = accounts ! CREATE_V2_USER;
          let (quote_mint, quote_vault, quote_token_program) =
            create_v2_quote_accounts (length accounts) (get_account accounts);
          let metadata = origin_metadata og block_time_us;
          Some (Pump_Fun_Event (PumpFunCreate_Event (default_create\<lparr>
             pc_metadata := metadata, pc_name := name, pc_symbol := symbol, pc_uri := uri, pc_mint := mint,
             pc_bonding_curve := bonding_curve, pc_user := user, pc_creator := creator,
             pc_mint_authority := accounts ! CREATE_V2_MINT_AUTHORITY,
             pc_associated_bonding_curve := accounts ! CREATE_V2_ASSOCIATED_BONDING_CURVE,
             pc_global := accounts ! CREATE_V2_GLOBAL, pc_system_program := accounts ! CREATE_V2_SYSTEM_PROGRAM,
             pc_token_program := accounts ! CREATE_V2_TOKEN_PROGRAM,
             pc_associated_token_program := accounts ! CREATE_V2_ASSOCIATED_TOKEN_PROGRAM,
             pc_mayhem_program_id := accounts ! CREATE_V2_MAYHEM_PROGRAM_ID,
             pc_global_params := accounts ! CREATE_V2_GLOBAL_PARAMS, pc_sol_vault := accounts ! CREATE_V2_SOL_VAULT,
             pc_mayhem_state := accounts ! CREATE_V2_MAYHEM_STATE,
             pc_mayhem_token_vault := accounts ! CREATE_V2_MAYHEM_TOKEN_VAULT,
             pc_event_authority := accounts ! CREATE_V2_EVENT_AUTHORITY, pc_program := accounts ! CREATE_V2_PROGRAM,
             pc_is_mayhem_mode := is_mayhem_mode, pc_is_cashback_enabled := is_cashback_enabled,
             pc_creator_fee_bps := creator_fee_bps, pc_is_holder_reward := is_holder_reward,
             pc_quote_mint := quote_mint, pc_quote_vault := quote_vault,
             pc_quote_token_program := quote_token_program, pc_ix_name := ''create_v2''\<rparr>)))
        }
      })"

section \<open>Migrations\<close>

definition pump_migrate_creator_instruction :: "pubkey list \<Rightarrow> tx_origin \<Rightarrow> int option \<Rightarrow> 'p dex_event option" where
  "pump_migrate_creator_instruction accounts og block_time_us =
     (if length accounts < 5 then None
      else Some (Pump_Fun_Event (PumpFunMigrateBondingCurveCreator_Event
        \<lparr>mc_metadata = origin_metadata og block_time_us, mc_timestamp = 0, mc_mint = accounts ! 0,
         mc_bonding_curve = accounts ! 1, mc_sharing_config = accounts ! 2,
         mc_old_creator = default_pubkey, mc_new_creator = default_pubkey\<rparr>)))"

definition parse_migrate_log_instruction :: "bytes \<Rightarrow> tx_origin \<Rightarrow> int option \<Rightarrow> 'p dex_event option" where
  "parse_migrate_log_instruction data og block_time_us =
     do {
       user \<leftarrow> read_pubkey data 0;
       mint \<leftarrow> read_pubkey data 32;
       mint_amount \<leftarrow> read_u64_le data 64;
       sol_amount \<leftarrow> read_u64_le data 72;
       pool_migration_fee \<leftarrow> read_u64_le data 80;
       bonding_curve \<leftarrow> read_pubkey data 88;
       timestamp \<leftarrow> map_option sint (read_u64_le data 120);
       pool \<leftarrow> read_pubkey data 128;
       Some (Pump_Fun_Event (PumpFunMigrate_Event
         \<lparr>pm_metadata = origin_metadata og block_time_us, pm_user = user, pm_mint = mint,
          pm_mint_amount = mint_amount, pm_sol_amount = sol_amount, pm_pool_migration_fee = pool_migration_fee,
          pm_bonding_curve = bonding_curve, pm_timestamp = timestamp, pm_pool = pool\<rparr>))
     }"

section \<open>The instruction parser\<close>

definition pump_parse_instruction :: "bytes \<Rightarrow> pubkey list \<Rightarrow> tx_origin \<Rightarrow> int option \<Rightarrow> 'p dex_event option" where
  "pump_parse_instruction instruction_data accounts og block_time_us =
     (if length instruction_data < 8 then None
      else
        (let disc = take 8 instruction_data; data = drop 8 instruction_data
         in if disc = PUMP_CREATE_V2 then pump_create_v2_instruction data accounts og block_time_us
            else if disc = PUMP_CREATE then pump_create_instruction data accounts og block_time_us
            else if disc = PUMP_BUY then pump_buy_instruction data accounts og block_time_us ''buy'' False
            else if disc = PUMP_BUY_EXACT_SOL_IN
            then pump_buy_instruction data accounts og block_time_us ''buy_exact_sol_in'' True
            else if disc = PUMP_SELL then pump_sell_instruction data accounts og block_time_us ''sell'' False
            else if disc = PUMP_BUY_V3
            then if \<not> v3_buy_ok data accounts then None
                 else pump_buy_v2_instruction data (v3_buy_accounts accounts) og block_time_us ''buy_v3'' False
            else if disc = PUMP_BUY_EXACT_QUOTE_IN_V3
            then if \<not> v3_buy_ok data accounts then None
                 else pump_buy_v2_instruction data (v3_buy_accounts accounts) og block_time_us
                        ''buy_exact_quote_in_v3'' True
            else if disc = PUMP_SELL_V3
            then if length accounts < 17 \<or> length data \<noteq> 16 then None
                 else pump_sell_v2_instruction data (v3_sell_accounts accounts) og block_time_us ''sell_v3''
            else if disc = PUMP_BUY_V2 then pump_buy_v2_instruction data accounts og block_time_us ''buy_v2'' False
            else if disc = PUMP_BUY_EXACT_QUOTE_IN_V2
            then pump_buy_v2_instruction data accounts og block_time_us ''buy_exact_quote_in_v2'' True
            else if disc = PUMP_SELL_V2 then pump_sell_v2_instruction data accounts og block_time_us ''sell_v2''
            else if disc = PUMP_MIGRATE_BONDING_CURVE_CREATOR
            then pump_migrate_creator_instruction accounts og block_time_us
            else if get_range 8 16 instruction_data = Some PUMP_MIGRATE_EVENT_LOG
            then parse_migrate_log_instruction (drop 16 instruction_data) og block_time_us
            else None))"

end
