(* ===== verification/Shred_Pump.thy ===== *)
theory Shred_Pump
  imports Pump_Parsers
begin

text \<open>
  The Pump.fun side of the hot path (\<open>src/shredstream/pump_ix.rs\<close>): the coarse test on the data, the mints
  that a message creates, the parser of each outer instruction over possibly unresolved accounts,
  and the repair of the defaults that the decoders put in place of unresolved keys. The
  records at the start hold what the code reads of the Solana transaction types.
\<close>

section \<open>Transactions\<close>

record dex_instruction =
  di_program_id_index :: u8
  di_accounts :: bytes
  di_data :: bytes

record table_lookup =
  tl_account_key :: pubkey
  tl_writable_indexes :: bytes
  tl_readonly_indexes :: bytes

record dex_message =
  dm_version :: message_version
  dm_static_account_keys :: "pubkey list"
  dm_address_table_lookups :: "table_lookup list option"
  dm_instructions :: "dex_instruction list"
  dm_recent_blockhash :: string

section \<open>Keys and tests\<close>

type_synonym created_mints = "pubkey list \<times> pubkey list"

definition account_from_static_or_default :: "pubkey list \<Rightarrow> u8 \<Rightarrow> pubkey" where
  "account_from_static_or_default static_keys idx =
     (case get_at (unat idx) static_keys of None \<Rightarrow> default_pubkey | Some k \<Rightarrow> k)"

definition program_id_references_loaded_key :: "u8 \<Rightarrow> nat \<Rightarrow> bool" where
  "program_id_references_loaded_key program_id_index static_key_len \<longleftrightarrow> unat program_id_index \<ge> static_key_len"

definition supported_unified_outer_programs :: "pubkey list" where
  "supported_unified_outer_programs =
     [PUMPSWAP_PROGRAM_ID, PUMP_FEES_PROGRAM_ID, RAYDIUM_LAUNCHLAB_PROGRAM_ID, RAYDIUM_CPMM_PROGRAM_ID,
      RAYDIUM_CLMM_PROGRAM_ID, RAYDIUM_AMM_V4_PROGRAM_ID, ORCA_WHIRLPOOL_PROGRAM_ID,
      METEORA_POOLS_PROGRAM_ID, METEORA_DAMM_V2_PROGRAM_ID, METEORA_DLMM_PROGRAM_ID]"

definition build_shred_ix_accounts :: "pubkey list \<Rightarrow> bytes \<Rightarrow> pubkey list" where
  "build_shred_ix_accounts static_keys ix_accounts = map (account_from_static_or_default static_keys) ix_accounts"

definition instruction_keys_resolved :: "u8 \<Rightarrow> bytes \<Rightarrow> nat \<Rightarrow> bool" where
  "instruction_keys_resolved program_id_index accounts keys_len \<longleftrightarrow>
     unat program_id_index < keys_len \<and> (\<forall>index \<in> set accounts. unat index < keys_len)"

definition disc8 :: "bytes \<Rightarrow> bytes option" where
  "disc8 data = get_range 0 8 data"

definition pumpfun_outer_data_may_parse :: "bytes \<Rightarrow> bool" where
  "pumpfun_outer_data_may_parse data =
     (case disc8 data of None \<Rightarrow> False
      | Some disc \<Rightarrow> disc \<in> {PUMP_CREATE, PUMP_CREATE_V2, PUMP_BUY, PUMP_SELL, PUMP_BUY_EXACT_SOL_IN, PUMP_BUY_V3,
          PUMP_SELL_V3, PUMP_BUY_EXACT_QUOTE_IN_V3, PUMP_BUY_V2, PUMP_BUY_EXACT_QUOTE_IN_V2, PUMP_SELL_V2,
          PUMP_MIGRATE_BONDING_CURVE_CREATOR})"

definition token_program_or_default :: "pubkey \<Rightarrow> pubkey" where
  "token_program_or_default token_program =
     (if token_program = default_pubkey then SPL_TOKEN_2022_PROGRAM_ID else token_program)"

definition quote_mint_from_shred_v2_account :: "pubkey option \<Rightarrow> pubkey" where
  "quote_mint_from_shred_v2_account quote_mint =
     normalize_pumpfun_quote_mint (case quote_mint of None \<Rightarrow> default_pubkey | Some k \<Rightarrow> k)"

section \<open>Created mints\<close>

definition push_unique_mint :: "pubkey \<Rightarrow> pubkey list \<Rightarrow> pubkey list" where
  "push_unique_mint mint mints = (if mint \<in> set mints then mints else mints @ [mint])"

definition creates_mayhem :: "bytes \<Rightarrow> bool" where
  "creates_mayhem payload =
     (case parse_create_v2_tail_fields payload of None \<Rightarrow> False | Some (_, m, _, _, _) \<Rightarrow> m)"

definition scan_create_mint_from_unknown_program_ix ::
  "bytes \<Rightarrow> bytes \<Rightarrow> pubkey list \<Rightarrow> created_mints \<Rightarrow> created_mints" where
  "scan_create_mint_from_unknown_program_ix ix_accounts data static_keys mints =
     (if length data < 8 then mints
      else
        (let disc = take 8 data
         in if disc \<noteq> PUMP_CREATE \<and> disc \<noteq> PUMP_CREATE_V2 then mints
            else case get_at 0 ix_accounts of None \<Rightarrow> mints
            | Some mint_idx \<Rightarrow>
                (case get_at (unat mint_idx) static_keys of None \<Rightarrow> mints
                 | Some mint \<Rightarrow>
                     (push_unique_mint mint (fst mints),
                      if disc = PUMP_CREATE_V2 \<and> creates_mayhem (drop 8 data)
                      then push_unique_mint mint (snd mints) else snd mints))))"

definition scan_create_mint_from_ix ::
  "u8 \<Rightarrow> bytes \<Rightarrow> bytes \<Rightarrow> pubkey list \<Rightarrow> created_mints \<Rightarrow> created_mints" where
  "scan_create_mint_from_ix program_id_index ix_accounts data static_keys mints =
     (if length data < 8 then mints
      else if program_id_references_loaded_key program_id_index (length static_keys)
      then scan_create_mint_from_unknown_program_ix ix_accounts data static_keys mints
      else case get_at (unat program_id_index) static_keys of None \<Rightarrow> mints
      | Some program_id \<Rightarrow>
          if program_id \<noteq> PUMPFUN_PROGRAM_ID then mints
          else
            (let disc = take 8 data
             in if disc \<noteq> PUMP_CREATE \<and> disc \<noteq> PUMP_CREATE_V2 then mints
                else case get_at 0 ix_accounts of None \<Rightarrow> mints
                | Some mint_idx \<Rightarrow>
                    (case get_at (unat mint_idx) static_keys of None \<Rightarrow> mints
                     | Some mint \<Rightarrow>
                         (push_unique_mint mint (fst mints),
                          if disc = PUMP_CREATE_V2 \<and> creates_mayhem (drop 8 data)
                          then push_unique_mint mint (snd mints) else snd mints))))"

definition scan_ix :: "pubkey list \<Rightarrow> bool \<Rightarrow> created_mints \<Rightarrow> dex_instruction \<Rightarrow> created_mints" where
  "scan_ix static_keys best_effort mints ix =
     (if \<not> best_effort \<and> program_id_references_loaded_key (di_program_id_index ix) (length static_keys) then mints
      else scan_create_mint_from_ix (di_program_id_index ix) (di_accounts ix) (di_data ix) static_keys mints)"

definition detect_pumpfun_create_mints :: "dex_instruction list \<Rightarrow> pubkey list \<Rightarrow> bool \<Rightarrow> created_mints" where
  "detect_pumpfun_create_mints instructions static_keys best_effort =
     foldl (scan_ix static_keys best_effort) ([], []) instructions"

section \<open>Outer instructions\<close>

definition track_volume :: "bytes \<Rightarrow> bool" where
  "track_volume data = (case get_at 16 data of None \<Rightarrow> False | Some b \<Rightarrow> b \<noteq> 0)"

definition parse_migrate_bonding_curve_creator_shred :: "pubkey list \<Rightarrow> tx_origin \<Rightarrow> 'p dex_event option" where
  "parse_migrate_bonding_curve_creator_shred accounts og =
     (if length accounts < 5 then None
      else do {
        mint \<leftarrow> get_account accounts 0;
        Some (Pump_Fun_Event (PumpFunMigrateBondingCurveCreator_Event
          \<lparr>mc_metadata = origin_metadata og None, mc_timestamp = 0, mc_mint = mint,
           mc_bonding_curve = acct accounts 1, mc_sharing_config = acct accounts 2,
           mc_old_creator = default_pubkey, mc_new_creator = default_pubkey\<rparr>))
      })"

definition shred_create_instruction :: "bytes \<Rightarrow> pubkey list \<Rightarrow> tx_origin \<Rightarrow> 'p dex_event option" where
  "shred_create_instruction data accounts og =
     (if length accounts < 10 then None
      else do {
        (name, symbol, uri, offset) \<leftarrow> read_create_texts data 8;
        creator \<leftarrow> (if offset = length data then Some default_pubkey else read_pubkey data offset);
        mint \<leftarrow> get_account accounts CREATE_MINT;
        let bonding_curve = acct accounts CREATE_BONDING_CURVE;
        let user = acct accounts CREATE_USER;
        let metadata = origin_metadata og None;
        Some (Pump_Fun_Event (PumpFunCreate_Event (default_create\<lparr>
           pc_metadata := metadata, pc_name := name, pc_symbol := symbol, pc_uri := uri, pc_mint := mint,
           pc_bonding_curve := bonding_curve, pc_user := user, pc_creator := creator,
           pc_token_program := acct accounts CREATE_TOKEN_PROGRAM, pc_quote_mint := PUMPFUN_SOLSCAN_SOL_QUOTE_MINT,
           pc_ix_name := ''create''\<rparr>)))
      })"

definition shred_create_v2_instruction :: "bytes \<Rightarrow> pubkey list \<Rightarrow> tx_origin \<Rightarrow> 'p dex_event option" where
  "shred_create_v2_instruction data accounts og =
     (if length accounts < CREATE_V2_LEN then None
      else do {
        let payload = drop 8 data;
        (name, symbol, uri, offset) \<leftarrow> read_create_texts payload 0;
        if length payload < offset + 32 + 1 then None
        else do {
          let creator = (case read_pubkey payload offset of None \<Rightarrow> default_pubkey | Some k \<Rightarrow> k);
          let offset = offset + 32;
          is_mayhem_mode \<leftarrow> read_option_bool_idl payload offset;
          let offset = offset + 1;
          (is_cashback_enabled, creator_fee_bps, is_holder_reward) \<leftarrow>
            parse_create_v2_optional_tail (drop offset payload);
          mint \<leftarrow> get_account accounts CREATE_V2_MINT;
          let bonding_curve = acct accounts CREATE_V2_BONDING_CURVE;
          let user = acct accounts CREATE_V2_USER;
          let metadata = origin_metadata og None;
          let (quote_mint, quote_vault, quote_token_program) =
            create_v2_quote_accounts (length accounts) (get_account accounts);
          Some (Pump_Fun_Event (PumpFunCreate_Event (default_create\<lparr>
             pc_metadata := metadata, pc_name := name, pc_symbol := symbol, pc_uri := uri, pc_mint := mint,
             pc_bonding_curve := bonding_curve, pc_user := user, pc_creator := creator,
             pc_mint_authority := acct accounts CREATE_V2_MINT_AUTHORITY,
             pc_associated_bonding_curve := acct accounts CREATE_V2_ASSOCIATED_BONDING_CURVE,
             pc_global := acct accounts CREATE_V2_GLOBAL,
             pc_system_program := acct accounts CREATE_V2_SYSTEM_PROGRAM,
             pc_token_program := acct accounts CREATE_V2_TOKEN_PROGRAM,
             pc_associated_token_program := acct accounts CREATE_V2_ASSOCIATED_TOKEN_PROGRAM,
             pc_mayhem_program_id := acct accounts CREATE_V2_MAYHEM_PROGRAM_ID,
             pc_global_params := acct accounts CREATE_V2_GLOBAL_PARAMS,
             pc_sol_vault := acct accounts CREATE_V2_SOL_VAULT,
             pc_mayhem_state := acct accounts CREATE_V2_MAYHEM_STATE,
             pc_mayhem_token_vault := acct accounts CREATE_V2_MAYHEM_TOKEN_VAULT,
             pc_event_authority := acct accounts CREATE_V2_EVENT_AUTHORITY,
             pc_program := acct accounts CREATE_V2_PROGRAM, pc_is_mayhem_mode := is_mayhem_mode,
             pc_is_cashback_enabled := is_cashback_enabled, pc_creator_fee_bps := creator_fee_bps,
             pc_is_holder_reward := is_holder_reward, pc_quote_mint := quote_mint, pc_quote_vault := quote_vault,
             pc_quote_token_program := quote_token_program, pc_ix_name := ''create_v2''\<rparr>)))
        }
      })"

definition shred_buy_instruction :: "bytes \<Rightarrow> pubkey list \<Rightarrow> tx_origin \<Rightarrow> created_mints \<Rightarrow> 'p dex_event option" where
  "shred_buy_instruction data accounts og mints =
     (if length accounts < 16 then None
      else if (case get_at 16 data of None \<Rightarrow> False | Some v \<Rightarrow> v > 1) then None
      else do {
        token_amount \<leftarrow> read_u64_le data 0;
        sol_amount \<leftarrow> read_u64_le data 8;
        mint \<leftarrow> get_account accounts 2;
        let is_created_buy = mint \<in> set (fst mints);
        let is_mayhem_mode = mint \<in> set (snd mints);
        let metadata = origin_metadata og None;
        Some (Pump_Fun_Event (PumpFunBuy_Event (default_trade\<lparr>
           pt_metadata := metadata, pt_mint := mint, pt_quote_mint := PUMPFUN_SOLSCAN_SOL_QUOTE_MINT,
           pt_global := acct accounts 0, pt_bonding_curve := acct accounts 3,
           pt_bonding_curve_v2 := acct accounts 16, pt_associated_bonding_curve := acct accounts 4,
           pt_associated_user := acct accounts 5, pt_user := acct accounts 6,
           pt_system_program := acct accounts 7, pt_sol_amount := sol_amount, pt_token_amount := token_amount,
           pt_amount := token_amount, pt_max_sol_cost := sol_amount, pt_fee_recipient := acct accounts 1,
           pt_token_program := token_program_or_default (acct accounts 8), pt_creator_vault := acct accounts 9,
           pt_event_authority := acct accounts 10, pt_program := acct accounts 11,
           pt_global_volume_accumulator := acct accounts 12, pt_user_volume_accumulator := acct accounts 13,
           pt_fee_config := acct accounts 14, pt_fee_program := acct accounts 15, pt_is_buy := True,
           pt_is_created_buy := is_created_buy,
           pt_track_volume := track_volume data,
           pt_ix_name := ''buy'', pt_mayhem_mode := is_mayhem_mode,
           pt_buyback_fee_recipient := acct accounts 17,
           pt_account := known_account (get_account accounts 17)\<rparr>)))
      })"

definition shred_sell_instruction :: "bytes \<Rightarrow> pubkey list \<Rightarrow> tx_origin \<Rightarrow> 'p dex_event option" where
  "shred_sell_instruction data accounts og =
     (if length accounts < 14 then None
      else do {
        token_amount \<leftarrow> read_u64_le data 0;
        sol_amount \<leftarrow> read_u64_le data 8;
        mint \<leftarrow> get_account accounts 2;
        let metadata = origin_metadata og None;
        Some (Pump_Fun_Event (PumpFunSell_Event (default_trade\<lparr>
           pt_metadata := metadata, pt_mint := mint, pt_quote_mint := PUMPFUN_SOLSCAN_SOL_QUOTE_MINT,
           pt_global := acct accounts 0, pt_bonding_curve := acct accounts 3,
           pt_bonding_curve_v2 := (if length accounts \<ge> 17 then acct accounts 15 else acct accounts 14),
           pt_associated_bonding_curve := acct accounts 4, pt_associated_user := acct accounts 5,
           pt_user := acct accounts 6, pt_system_program := acct accounts 7, pt_sol_amount := sol_amount,
           pt_token_amount := token_amount, pt_amount := token_amount, pt_min_sol_output := sol_amount,
           pt_fee_recipient := acct accounts 1, pt_token_program := token_program_or_default (acct accounts 9),
           pt_creator_vault := acct accounts 8, pt_event_authority := acct accounts 10,
           pt_program := acct accounts 11,
           pt_user_volume_accumulator := (if length accounts \<ge> 17 then acct accounts 14 else default_pubkey),
           pt_fee_config := acct accounts 12, pt_fee_program := acct accounts 13, pt_ix_name := ''sell'',
           pt_buyback_fee_recipient := (if length accounts \<ge> 17 then acct accounts 16 else acct accounts 15),
           pt_account := (if length accounts \<ge> 17 then known_account (get_account accounts 16)
             else known_account (get_account accounts 15))\<rparr>)))
      })"

definition shred_buy_exact_sol_in_instruction :: "bytes \<Rightarrow> pubkey list \<Rightarrow> tx_origin \<Rightarrow> created_mints \<Rightarrow> 'p dex_event option" where
  "shred_buy_exact_sol_in_instruction data accounts og mints =
     (if length accounts < 16 then None
      else if (case get_at 16 data of None \<Rightarrow> False | Some v \<Rightarrow> v > 1) then None
      else do {
        sol_amount \<leftarrow> read_u64_le data 0;
        token_amount \<leftarrow> read_u64_le data 8;
        mint \<leftarrow> get_account accounts 2;
        let is_created_buy = mint \<in> set (fst mints);
        let is_mayhem_mode = mint \<in> set (snd mints);
        let metadata = origin_metadata og None;
        Some (Pump_Fun_Event (PumpFunBuyExactSolIn_Event (default_trade\<lparr>
           pt_metadata := metadata, pt_mint := mint, pt_quote_mint := PUMPFUN_SOLSCAN_SOL_QUOTE_MINT,
           pt_global := acct accounts 0, pt_bonding_curve := acct accounts 3,
           pt_bonding_curve_v2 := acct accounts 16, pt_associated_bonding_curve := acct accounts 4,
           pt_associated_user := acct accounts 5, pt_user := acct accounts 6,
           pt_system_program := acct accounts 7, pt_sol_amount := sol_amount, pt_token_amount := token_amount,
           pt_amount := token_amount, pt_max_sol_cost := sol_amount, pt_spendable_sol_in := sol_amount,
           pt_min_tokens_out := token_amount, pt_fee_recipient := acct accounts 1,
           pt_token_program := token_program_or_default (acct accounts 8), pt_creator_vault := acct accounts 9,
           pt_event_authority := acct accounts 10, pt_program := acct accounts 11,
           pt_global_volume_accumulator := acct accounts 12, pt_user_volume_accumulator := acct accounts 13,
           pt_fee_config := acct accounts 14, pt_fee_program := acct accounts 15, pt_is_buy := True,
           pt_is_created_buy := is_created_buy,
           pt_track_volume := track_volume data,
           pt_ix_name := ''buy_exact_sol_in'', pt_mayhem_mode := is_mayhem_mode,
           pt_buyback_fee_recipient := acct accounts 17,
           pt_account := known_account (get_account accounts 17)\<rparr>)))
      })"

definition shred_buy_v2_instruction :: "bytes \<Rightarrow> pubkey list \<Rightarrow> tx_origin \<Rightarrow> created_mints \<Rightarrow> 'p dex_event option" where
  "shred_buy_v2_instruction data accounts og mints =
     do {
       token_amount \<leftarrow> read_u64_le data 0;
       sol_amount \<leftarrow> read_u64_le data 8;
       mint \<leftarrow> get_account accounts 1;
       let is_created_buy = mint \<in> set (fst mints);
       let is_mayhem_mode = mint \<in> set (snd mints);
       let metadata = origin_metadata og None;
       Some (Pump_Fun_Event (PumpFunBuy_Event (default_trade\<lparr>
           pt_metadata := metadata, pt_mint := mint,
           pt_quote_mint := quote_mint_from_shred_v2_account (get_account accounts 2),
           pt_global := acct accounts 0, pt_bonding_curve := acct accounts 10,
           pt_associated_bonding_curve := acct accounts 11,
           pt_associated_quote_bonding_curve := acct accounts 12, pt_associated_user := acct accounts 14,
           pt_associated_quote_user := acct accounts 15, pt_user := acct accounts 13,
           pt_system_program := acct accounts 24, pt_sol_amount := sol_amount, pt_token_amount := token_amount,
           pt_amount := token_amount, pt_max_sol_cost := sol_amount, pt_fee_recipient := acct accounts 6,
           pt_token_program := token_program_or_default (acct accounts 3),
           pt_quote_token_program := token_program_or_default (acct accounts 4),
           pt_associated_token_program := acct accounts 5, pt_creator_vault := acct accounts 16,
           pt_associated_quote_fee_recipient := acct accounts 7, pt_buyback_fee_recipient := acct accounts 8,
           pt_associated_quote_buyback_fee_recipient := acct accounts 9,
           pt_associated_creator_vault := acct accounts 17, pt_sharing_config := acct accounts 18,
           pt_event_authority := acct accounts 25, pt_program := acct accounts 26,
           pt_global_volume_accumulator := acct accounts 19, pt_user_volume_accumulator := acct accounts 20,
           pt_associated_user_volume_accumulator := acct accounts 21, pt_fee_config := acct accounts 22,
           pt_fee_program := acct accounts 23, pt_is_buy := True, pt_is_created_buy := is_created_buy,
           pt_ix_name := ''buy_v2'', pt_mayhem_mode := is_mayhem_mode\<rparr>)))
     }"

definition shred_buy_exact_quote_in_v2_instruction :: "bytes \<Rightarrow> pubkey list \<Rightarrow> tx_origin \<Rightarrow> created_mints \<Rightarrow> 'p dex_event option" where
  "shred_buy_exact_quote_in_v2_instruction data accounts og mints =
     do {
       sol_amount \<leftarrow> read_u64_le data 0;
       token_amount \<leftarrow> read_u64_le data 8;
       mint \<leftarrow> get_account accounts 1;
       let is_created_buy = mint \<in> set (fst mints);
       let is_mayhem_mode = mint \<in> set (snd mints);
       let metadata = origin_metadata og None;
       Some (Pump_Fun_Event (PumpFunBuy_Event (default_trade\<lparr>
           pt_metadata := metadata, pt_mint := mint,
           pt_quote_mint := quote_mint_from_shred_v2_account (get_account accounts 2),
           pt_global := acct accounts 0, pt_bonding_curve := acct accounts 10,
           pt_associated_bonding_curve := acct accounts 11,
           pt_associated_quote_bonding_curve := acct accounts 12, pt_associated_user := acct accounts 14,
           pt_associated_quote_user := acct accounts 15, pt_user := acct accounts 13,
           pt_system_program := acct accounts 24, pt_sol_amount := sol_amount, pt_token_amount := token_amount,
           pt_amount := token_amount, pt_quote_amount := sol_amount, pt_spendable_quote_in := sol_amount,
           pt_min_tokens_out := token_amount, pt_fee_recipient := acct accounts 6,
           pt_token_program := token_program_or_default (acct accounts 3),
           pt_quote_token_program := token_program_or_default (acct accounts 4),
           pt_associated_token_program := acct accounts 5, pt_creator_vault := acct accounts 16,
           pt_associated_quote_fee_recipient := acct accounts 7, pt_buyback_fee_recipient := acct accounts 8,
           pt_associated_quote_buyback_fee_recipient := acct accounts 9,
           pt_associated_creator_vault := acct accounts 17, pt_sharing_config := acct accounts 18,
           pt_event_authority := acct accounts 25, pt_program := acct accounts 26,
           pt_global_volume_accumulator := acct accounts 19, pt_user_volume_accumulator := acct accounts 20,
           pt_associated_user_volume_accumulator := acct accounts 21, pt_fee_config := acct accounts 22,
           pt_fee_program := acct accounts 23, pt_is_buy := True, pt_is_created_buy := is_created_buy,
           pt_ix_name := ''buy_exact_quote_in_v2'', pt_mayhem_mode := is_mayhem_mode\<rparr>)))
     }"

definition shred_sell_v2_instruction :: "bytes \<Rightarrow> pubkey list \<Rightarrow> tx_origin \<Rightarrow> 'p dex_event option" where
  "shred_sell_v2_instruction data accounts og =
     do {
       token_amount \<leftarrow> read_u64_le data 0;
       sol_amount \<leftarrow> read_u64_le data 8;
       mint \<leftarrow> get_account accounts 1;
       let metadata = origin_metadata og None;
       Some (Pump_Fun_Event (PumpFunSell_Event (default_trade\<lparr>
           pt_metadata := metadata, pt_mint := mint,
           pt_quote_mint := quote_mint_from_shred_v2_account (get_account accounts 2),
           pt_global := acct accounts 0, pt_bonding_curve := acct accounts 10,
           pt_associated_bonding_curve := acct accounts 11,
           pt_associated_quote_bonding_curve := acct accounts 12, pt_associated_user := acct accounts 14,
           pt_associated_quote_user := acct accounts 15, pt_user := acct accounts 13,
           pt_system_program := acct accounts 23, pt_sol_amount := sol_amount, pt_token_amount := token_amount,
           pt_amount := token_amount, pt_min_sol_output := sol_amount, pt_fee_recipient := acct accounts 6,
           pt_token_program := token_program_or_default (acct accounts 3),
           pt_quote_token_program := token_program_or_default (acct accounts 4),
           pt_associated_token_program := acct accounts 5, pt_creator_vault := acct accounts 16,
           pt_associated_quote_fee_recipient := acct accounts 7, pt_buyback_fee_recipient := acct accounts 8,
           pt_associated_quote_buyback_fee_recipient := acct accounts 9,
           pt_associated_creator_vault := acct accounts 17, pt_sharing_config := acct accounts 18,
           pt_event_authority := acct accounts 24, pt_program := acct accounts 25,
           pt_user_volume_accumulator := acct accounts 19,
           pt_associated_user_volume_accumulator := acct accounts 20, pt_fee_config := acct accounts 21,
           pt_fee_program := acct accounts 22, pt_ix_name := ''sell_v2''\<rparr>)))
     }"

section \<open>The Pump.fun parser of the hot path\<close>

definition parse_by_disc :: "bytes \<Rightarrow> bytes \<Rightarrow> pubkey list \<Rightarrow> tx_origin \<Rightarrow> created_mints \<Rightarrow> 'p dex_event option" where
  "parse_by_disc disc data accounts og mints =
     (let ix_data = drop 8 data
      in if disc = PUMP_CREATE then shred_create_instruction data accounts og
         else if disc = PUMP_CREATE_V2 then shred_create_v2_instruction data accounts og
         else if disc = PUMP_BUY then shred_buy_instruction ix_data accounts og mints
         else if disc = PUMP_SELL then shred_sell_instruction ix_data accounts og
         else if disc = PUMP_BUY_EXACT_SOL_IN then shred_buy_exact_sol_in_instruction ix_data accounts og mints
         else if disc = PUMP_BUY_V2 then shred_buy_v2_instruction ix_data accounts og mints
         else if disc = PUMP_BUY_EXACT_QUOTE_IN_V2
         then shred_buy_exact_quote_in_v2_instruction ix_data accounts og mints
         else if disc = PUMP_SELL_V2 then shred_sell_v2_instruction ix_data accounts og
         else if disc \<in> {PUMP_BUY_V3, PUMP_BUY_EXACT_QUOTE_IN_V3, PUMP_SELL_V3}
         then pump_parse_instruction data accounts og None
         else if disc = PUMP_MIGRATE_BONDING_CURVE_CREATOR then parse_migrate_bonding_curve_creator_shred accounts og
         else None)"

definition flag_v3_buy :: "bytes \<Rightarrow> created_mints \<Rightarrow> 'p dex_event \<Rightarrow> 'p dex_event" where
  "flag_v3_buy disc mints event =
     (if disc \<in> {PUMP_BUY_V3, PUMP_BUY_EXACT_QUOTE_IN_V3}
      then (case event of
          Pump_Fun_Event (PumpFunBuy_Event trade) \<Rightarrow>
            Pump_Fun_Event (PumpFunBuy_Event (trade\<lparr>
              pt_is_created_buy := (pt_is_buy trade \<and> pt_mint trade \<in> set (fst mints)),
              pt_mayhem_mode := (pt_mint trade \<in> set (snd mints))\<rparr>))
        | _ \<Rightarrow> event)
      else event)"

definition fill_create :: "bytes \<Rightarrow> pubkey list \<Rightarrow> 'p dex_event \<Rightarrow> 'p dex_event" where
  "fill_create disc accounts event =
     (case event of
        Pump_Fun_Event (PumpFunCreate_Event create) \<Rightarrow>
          Pump_Fun_Event (PumpFunCreate_Event
            (if disc = PUMP_CREATE then fill_create_accounts (acct accounts) create
             else if disc = PUMP_CREATE_V2 then fill_create_accounts_from_v2 (acct accounts) create
             else create))
      | _ \<Rightarrow> event)"

definition parse_pumpfun_instruction :: "bytes \<Rightarrow> pubkey list \<Rightarrow> tx_origin \<Rightarrow> created_mints \<Rightarrow> 'p dex_event option" where
  "parse_pumpfun_instruction data accounts og mints =
     (if length data < 8 then None
      else do {
        let disc = take 8 data;
        event \<leftarrow> parse_by_disc disc data accounts og mints;
        Some (fill_create disc accounts (flag_v3_buy disc mints event))
      })"

section \<open>Unresolved accounts stay unknown\<close>

fun map_trade :: "(pumpfun_trade_event \<Rightarrow> pumpfun_trade_event) \<Rightarrow> 'p dex_event \<Rightarrow> 'p dex_event" where
  "map_trade u (Pump_Fun_Event (PumpFunTrade_Event t)) = Pump_Fun_Event (PumpFunTrade_Event (u t))"
| "map_trade u (Pump_Fun_Event (PumpFunBuy_Event t)) = Pump_Fun_Event (PumpFunBuy_Event (u t))"
| "map_trade u (Pump_Fun_Event (PumpFunSell_Event t)) = Pump_Fun_Event (PumpFunSell_Event (u t))"
| "map_trade u (Pump_Fun_Event (PumpFunBuyExactSolIn_Event t)) = Pump_Fun_Event (PumpFunBuyExactSolIn_Event (u t))"
| "map_trade u other = other"

definition missing_account :: "bytes \<Rightarrow> nat \<Rightarrow> nat \<Rightarrow> bool" where
  "missing_account indices keys_len position =
     (case get_at position indices of None \<Rightarrow> False | Some index \<Rightarrow> unat index \<ge> keys_len)"

definition clear_unresolved :: "bytes \<Rightarrow> bytes \<Rightarrow> nat \<Rightarrow> pumpfun_trade_event \<Rightarrow> pumpfun_trade_event" where
  "clear_unresolved data indices keys_len t =
     (let missing = missing_account indices keys_len; d = disc8 data
      in if d \<in> Some ` {PUMP_BUY_V2, PUMP_BUY_EXACT_QUOTE_IN_V2, PUMP_SELL_V2, PUMP_BUY_V3,
                          PUMP_BUY_EXACT_QUOTE_IN_V3, PUMP_SELL_V3}
         then t\<lparr>pt_quote_mint := (if missing 2 then default_pubkey else pt_quote_mint t),
                pt_token_program := (if missing 3 then default_pubkey else pt_token_program t),
                pt_quote_token_program := (if missing 4 then default_pubkey else pt_quote_token_program t)\<rparr>
         else if d \<in> Some ` {PUMP_BUY, PUMP_BUY_EXACT_SOL_IN} \<and> missing 8 then t\<lparr>pt_token_program := default_pubkey\<rparr>
         else if d = Some PUMP_SELL \<and> missing 9 then t\<lparr>pt_token_program := default_pubkey\<rparr>
         else t)"

definition preserve_unresolved_pumpfun_accounts :: "bytes \<Rightarrow> bytes \<Rightarrow> nat \<Rightarrow> 'p dex_event \<Rightarrow> 'p dex_event" where
  "preserve_unresolved_pumpfun_accounts data indices keys_len event =
     map_trade (clear_unresolved data indices keys_len) event"

end
