(* ===== verification/Instr_Gate.thy ===== *)
theory Instr_Gate
  imports Pump_Parsers Event_Filter Creator_Fee
begin

text \<open>
  The instruction entry point (\<open>src/instr/mod.rs\<close>): the coarse test of each program on the first
  bytes of the data, and \<open>parse_instruction_unified\<close>, which routes to the program's parser and
  filters its event. The Pump.fun parser is the one of Pump_Parsers; the parsers of the other programs
  are the fields of a record, so that what is shown here holds for whatever they return.
\<close>

section \<open>Coarse tests\<close>

definition supports_pumpfun_instruction :: "bytes \<Rightarrow> bool" where
  "supports_pumpfun_instruction disc \<longleftrightarrow> disc \<in>
     {PUMP_CREATE, PUMP_BUY_V3, PUMP_BUY_EXACT_QUOTE_IN_V3, PUMP_SELL_V3, PUMP_CREATE_V2, PUMP_BUY,
      PUMP_SELL, PUMP_BUY_EXACT_SOL_IN, PUMP_BUY_V2, PUMP_BUY_EXACT_QUOTE_IN_V2, PUMP_SELL_V2}"

definition supports_pumpswap_instruction :: "bytes \<Rightarrow> bool" where
  "supports_pumpswap_instruction disc \<longleftrightarrow> disc \<in>
     {AMM_BUY, AMM_BUY_V2, AMM_BUY_EXACT_QUOTE_IN_V2, AMM_SELL_V2, AMM_SELL, AMM_CREATE_POOL,
      AMM_BUY_EXACT_QUOTE_IN, AMM_DEPOSIT, AMM_WITHDRAW}"

definition supports_pump_fees_instruction :: "bytes \<Rightarrow> bool" where
  "supports_pump_fees_instruction disc \<longleftrightarrow> disc \<in>
     {CREATE_FEE_SHARING_IX, INITIALIZE_FEE_CONFIG_IX, RESET_FEE_SHARING_IX, RESET_FEE_SHARING_V2_IX,
      REVOKE_FEE_SHARING_IX, TRANSFER_FEE_SHARING_IX, UPDATE_ADMIN_IX, UPDATE_FEE_CONFIG_IX,
      UPDATE_FEE_SHARES_IX, UPDATE_FEE_SHARES_V2_IX, UPSERT_FEE_TIERS_IX}"

definition supports_launchlab_instruction :: "bytes \<Rightarrow> bool" where
  "supports_launchlab_instruction disc \<longleftrightarrow> disc \<in>
     {LAUNCHLAB_BUY_EXACT_IN, LAUNCHLAB_BUY_EXACT_OUT, LAUNCHLAB_SELL_EXACT_IN, LAUNCHLAB_SELL_EXACT_OUT,
      LAUNCHLAB_INITIALIZE, LAUNCHLAB_INITIALIZE_V2, LAUNCHLAB_INITIALIZE_WITH_TOKEN_2022,
      LAUNCHLAB_MIGRATE_TO_AMM, LAUNCHLAB_MIGRATE_TO_CPSWAP}"

definition supports_cpmm_instruction :: "bytes \<Rightarrow> bool" where
  "supports_cpmm_instruction disc \<longleftrightarrow> disc \<in>
     {CPMM_SWAP_BASE_IN, CPMM_SWAP_BASE_OUT, CPMM_INITIALIZE, CPMM_DEPOSIT, CPMM_WITHDRAW,
      COLLECT_CREATOR_FEE, COLLECT_CREATOR_FEE_PERMISSIONLESS}"

definition supports_clmm_instruction :: "bytes \<Rightarrow> bool" where
  "supports_clmm_instruction disc \<longleftrightarrow> disc \<in>
     {CLMM_SWAP, CLMM_SWAP_V2, CLMM_INCREASE_LIQUIDITY_V2, CLMM_DECREASE_LIQUIDITY_V2, CLMM_CREATE_POOL,
      CLMM_CREATE_CUSTOMIZABLE_POOL, CLMM_OPEN_POSITION, CLMM_OPEN_POSITION_V2,
      CLMM_OPEN_POSITION_WITH_TOKEN_22_NFT, CLMM_CLOSE_POSITION}"

definition supports_raydium_amm_v4_instruction :: "bytes \<Rightarrow> bool" where
  "supports_raydium_amm_v4_instruction instruction_data \<longleftrightarrow> get_at 0 instruction_data \<in> Some `
     {V4_SWAP_BASE_IN, V4_SWAP_BASE_OUT, V4_DEPOSIT, V4_WITHDRAW, V4_INITIALIZE2, V4_WITHDRAW_PNL,
      V4_SWAP_BASE_IN_V2, V4_SWAP_BASE_OUT_V2}"

definition supports_orca_instruction :: "bytes \<Rightarrow> bool" where
  "supports_orca_instruction disc \<longleftrightarrow> disc \<in>
     {ORCA_SWAP, ORCA_SWAP_V2, ORCA_INCREASE_LIQUIDITY, ORCA_DECREASE_LIQUIDITY, ORCA_INITIALIZE_POOL,
      ORCA_INITIALIZE_POOL_V2, ORCA_INCREASE_LIQUIDITY_V2, ORCA_DECREASE_LIQUIDITY_V2}"

definition supports_meteora_pools_instruction :: "bytes \<Rightarrow> bool" where
  "supports_meteora_pools_instruction disc \<longleftrightarrow> disc \<in>
     {POOLS_SWAP, POOLS_ADD_LIQUIDITY, POOLS_ADD_IMBALANCE_LIQUIDITY, POOLS_REMOVE_LIQUIDITY,
      POOLS_REMOVE_LIQUIDITY_SINGLE_SIDE, POOLS_BOOTSTRAP_LIQUIDITY, POOLS_INITIALIZE_PERMISSIONED_POOL,
      POOLS_INITIALIZE_PERMISSIONLESS_POOL, POOLS_INITIALIZE_PERMISSIONLESS_POOL_WITH_FEE_TIER,
      POOLS_INITIALIZE_CUSTOMIZABLE_POOL, POOLS_CREATE_POOL, POOLS_CREATE_POOL_WITH_CONFIG2,
      POOLS_SET_POOL_FEES}"

definition supports_meteora_damm_v2_instruction :: "bytes \<Rightarrow> bool" where
  "supports_meteora_damm_v2_instruction instruction_data =
     (case get_range 0 8 instruction_data of None \<Rightarrow> False
      | Some disc \<Rightarrow>
          if disc = DAMM_INITIALIZE_POOL then True
          else (case get_range 8 16 instruction_data of None \<Rightarrow> False
            | Some cpi_disc \<Rightarrow> cpi_disc \<in>
                {DAMM_SWAP_LOG, DAMM_SWAP2_LOG, DAMM_CREATE_POSITION_LOG, DAMM_CLOSE_POSITION_LOG,
                 DAMM_ADD_LIQUIDITY_LOG, DAMM_REMOVE_LIQUIDITY_LOG, DAMM_CLAIM_POSITION_FEE_LOG,
                 DAMM_INITIALIZE_REWARD_LOG, DAMM_FUND_REWARD_LOG, DAMM_CLAIM_REWARD_LOG}))"

definition supports_meteora_dlmm_instruction :: "bytes \<Rightarrow> bool" where
  "supports_meteora_dlmm_instruction instruction_data \<longleftrightarrow> get_range 0 8 instruction_data \<in> Some `
     {DLMM_INITIALIZE_LB_PAIR, DLMM_INITIALIZE_LB_PAIR2, DLMM_INITIALIZE_BIN_ARRAY, DLMM_ADD_LIQUIDITY,
      DLMM_ADD_LIQUIDITY2, DLMM_REMOVE_LIQUIDITY, DLMM_REMOVE_LIQUIDITY2, DLMM_INITIALIZE_POSITION,
      DLMM_INITIALIZE_POSITION2, DLMM_INITIALIZE_POSITION_PDA, DLMM_SWAP, DLMM_SWAP2,
      DLMM_SWAP_EXACT_OUT, DLMM_SWAP_EXACT_OUT2, DLMM_SWAP_WITH_PRICE_IMPACT,
      DLMM_SWAP_WITH_PRICE_IMPACT2, DLMM_CLAIM_FEE, DLMM_CLAIM_FEE2, DLMM_CLOSE_POSITION,
      DLMM_CLOSE_POSITION2}"

definition DBC_EVENT_CPI :: bytes where "DBC_EVENT_CPI = [228, 69, 165, 46, 81, 203, 154, 29]"

definition instruction_data_may_parse :: "pubkey \<Rightarrow> bytes \<Rightarrow> bool" where
  "instruction_data_may_parse program_id instruction_data =
     (if instruction_data = [] then False
      else if program_id = RAYDIUM_AMM_V4_PROGRAM_ID then supports_raydium_amm_v4_instruction instruction_data
      else if program_id = METEORA_DLMM_PROGRAM_ID then supports_meteora_dlmm_instruction instruction_data
      else if program_id = METEORA_DBC_PROGRAM_ID
      then get_range 0 8 instruction_data = Some DBC_EVENT_CPI \<and> length instruction_data \<ge> 16
      else if program_id = METEORA_DAMM_V2_PROGRAM_ID then supports_meteora_damm_v2_instruction instruction_data
      else case get_range 0 8 instruction_data of None \<Rightarrow> False
      | Some disc \<Rightarrow>
          if program_id = PUMPFUN_PROGRAM_ID then supports_pumpfun_instruction disc
          else if program_id = PUMPSWAP_PROGRAM_ID then supports_pumpswap_instruction disc
          else if program_id = PUMP_FEES_PROGRAM_ID then supports_pump_fees_instruction disc
          else if program_id = RAYDIUM_LAUNCHLAB_PROGRAM_ID then supports_launchlab_instruction disc
          else if program_id = RAYDIUM_CPMM_PROGRAM_ID then supports_cpmm_instruction disc
          else if program_id = RAYDIUM_CLMM_PROGRAM_ID then supports_clmm_instruction disc
          else if program_id = ORCA_WHIRLPOOL_PROGRAM_ID then supports_orca_instruction disc
          else if program_id = METEORA_POOLS_PROGRAM_ID then supports_meteora_pools_instruction disc
          else False)"

definition normal_instruction_data_may_parse :: "pubkey \<Rightarrow> bytes \<Rightarrow> bool" where
  "normal_instruction_data_may_parse program_id instruction_data =
     (if program_id = METEORA_DBC_PROGRAM_ID then False
      else if program_id = METEORA_DAMM_V2_PROGRAM_ID
      then get_range 0 8 instruction_data = Some DAMM_INITIALIZE_POOL
      else instruction_data_may_parse program_id instruction_data)"

section \<open>The unified entry point\<close>

type_synonym 'p instruction_parser = "bytes \<Rightarrow> pubkey list \<Rightarrow> tx_origin \<Rightarrow> int option \<Rightarrow> 'p dex_event option"

record 'p protocol_parsers =
  pp_dbc_event_cpi :: "'p instruction_parser"
  pp_cpmm_lp_change :: "'p instruction_parser"
  pp_pumpswap :: "'p instruction_parser"
  pp_meteora_damm :: "'p instruction_parser"
  pp_pump_fees :: "'p instruction_parser"
  pp_launchlab :: "'p instruction_parser"
  pp_cpmm :: "'p instruction_parser"
  pp_clmm :: "'p instruction_parser"
  pp_amm_v4 :: "'p instruction_parser"
  pp_orca :: "'p instruction_parser"
  pp_meteora_pools :: "'p instruction_parser"
  pp_meteora_dlmm :: "'p instruction_parser"

definition CPMM_LP_CHANGE_EVENT :: bytes where
  "CPMM_LP_CHANGE_EVENT = [228, 69, 165, 46, 81, 203, 154, 29, 121, 163, 205, 201, 57, 218, 117, 60]"

definition filter_parsed_event :: "'p dex_event option \<Rightarrow> event_type_filter option \<Rightarrow> 'p dex_event option" where
  "filter_parsed_event event event_type_filter =
     do {
       event \<leftarrow> event;
       if (case event_type_filter of None \<Rightarrow> True | Some f \<Rightarrow> should_include_dex_event f event)
       then Some event else None
     }"

text \<open>Route to a parser unless the filter excludes its protocol, and filter its event.\<close>

definition routed :: "'p instruction_parser \<Rightarrow> (event_type_filter \<Rightarrow> bool) \<Rightarrow> bytes \<Rightarrow> pubkey list \<Rightarrow> tx_origin
    \<Rightarrow> int option \<Rightarrow> event_type_filter option \<Rightarrow> 'p dex_event option" where
  "routed parser includes instruction_data accounts og block_time_us event_type_filter =
     (if (case event_type_filter of None \<Rightarrow> False | Some f \<Rightarrow> \<not> includes f) then None
      else filter_parsed_event (parser instruction_data accounts og block_time_us) event_type_filter)"

definition parse_instruction_unified :: "'p protocol_parsers \<Rightarrow> bytes \<Rightarrow> pubkey list \<Rightarrow> tx_origin \<Rightarrow> int option
    \<Rightarrow> event_type_filter option \<Rightarrow> pubkey \<Rightarrow> 'p dex_event option" where
  "parse_instruction_unified pp instruction_data accounts og block_time_us event_type_filter program_id =
     (let route = (\<lambda>parser includes. routed parser includes instruction_data accounts og block_time_us event_type_filter)
      in if instruction_data = [] then None
         else if program_id = METEORA_DBC_PROGRAM_ID then route (pp_dbc_event_cpi pp) includes_meteora_dbc
         else if program_id = RAYDIUM_CPMM_PROGRAM_ID \<and> get_range 0 16 instruction_data = Some CPMM_LP_CHANGE_EVENT
         then filter_parsed_event
                (pp_cpmm_lp_change pp (drop 16 instruction_data) accounts og block_time_us) event_type_filter
         else if program_id = PUMPFUN_PROGRAM_ID then route pump_parse_instruction includes_pumpfun
         else if program_id = PUMPSWAP_PROGRAM_ID then route (pp_pumpswap pp) includes_pumpswap
         else if program_id = METEORA_DAMM_V2_PROGRAM_ID then route (pp_meteora_damm pp) includes_meteora_damm_v2
         else if program_id = PUMP_FEES_PROGRAM_ID then route (pp_pump_fees pp) includes_pump_fees
         else if program_id = RAYDIUM_LAUNCHLAB_PROGRAM_ID then route (pp_launchlab pp) includes_raydium_launchlab
         else if program_id = RAYDIUM_CPMM_PROGRAM_ID then route (pp_cpmm pp) includes_raydium_cpmm
         else if program_id = RAYDIUM_CLMM_PROGRAM_ID then route (pp_clmm pp) includes_raydium_clmm
         else if program_id = RAYDIUM_AMM_V4_PROGRAM_ID then route (pp_amm_v4 pp) includes_raydium_amm_v4
         else if program_id = ORCA_WHIRLPOOL_PROGRAM_ID then route (pp_orca pp) includes_orca_whirlpool
         else if program_id = METEORA_POOLS_PROGRAM_ID then route (pp_meteora_pools pp) includes_meteora_pools
         else if program_id = METEORA_DLMM_PROGRAM_ID then route (pp_meteora_dlmm pp) includes_meteora_dlmm
         else None)"

lemma filter_parsed_event_wanted:
  "filter_parsed_event e (Some f) = Some ev \<Longrightarrow> should_include_dex_event f ev"
  by (auto simp: filter_parsed_event_def bind_eq_Some_conv split: if_splits)

lemma parse_instruction_unified_wanted:
  "parse_instruction_unified pp d a og bt (Some f) p = Some ev \<Longrightarrow> should_include_dex_event f ev"
  by (auto simp: parse_instruction_unified_def routed_def Let_def dest: filter_parsed_event_wanted split: if_splits)

end
