(* ===== verification/Fee_Enrich.thy ===== *)
theory Fee_Enrich
  imports Pump_Parsers
begin

text \<open>
  The same-transaction enrichment of Pump.fun events (\<open>src/core/pumpfun_fee_enrich.rs\<close>): create events
  learn the fee recipient and the quote mint of the buys, second-version creates the payload of the
  create event, trades the flags of the create. A hash map is an association list
  in which the first entry of a key stays (\<open>entry(k).or_insert(v)\<close>).
\<close>

section \<open>Collected maps\<close>

definition or_insert :: "'k \<Rightarrow> 'v \<Rightarrow> ('k \<times> 'v) list \<Rightarrow> ('k \<times> 'v) list" where
  "or_insert k v m = (if map_of m k = None then m @ [(k, v)] else m)"

definition pumpfun_buy_like_mint_fee :: "'p dex_event \<Rightarrow> (pubkey \<times> pubkey) option" where
  "pumpfun_buy_like_mint_fee e =
     (case e of
        Pump_Fun_Event (PumpFunTrade_Event t) \<Rightarrow>
          if pt_is_buy t \<and> pt_mint t \<noteq> default_pubkey then Some (pt_mint t, pt_fee_recipient t) else None
      | Pump_Fun_Event (PumpFunBuy_Event t) \<Rightarrow>
          if pt_mint t \<noteq> default_pubkey then Some (pt_mint t, pt_fee_recipient t) else None
      | Pump_Fun_Event (PumpFunBuyExactSolIn_Event t) \<Rightarrow>
          if pt_mint t \<noteq> default_pubkey then Some (pt_mint t, pt_fee_recipient t) else None
      | _ \<Rightarrow> None)"

fun trade_of :: "'p dex_event \<Rightarrow> pumpfun_trade_event option" where
  "trade_of (Pump_Fun_Event (PumpFunTrade_Event t)) = Some t"
| "trade_of (Pump_Fun_Event (PumpFunBuy_Event t)) = Some t"
| "trade_of (Pump_Fun_Event (PumpFunSell_Event t)) = Some t"
| "trade_of (Pump_Fun_Event (PumpFunBuyExactSolIn_Event t)) = Some t"
| "trade_of other = None"

definition pumpfun_trade_mint_quote :: "'p dex_event \<Rightarrow> (pubkey \<times> pubkey) option" where
  "pumpfun_trade_mint_quote e =
     do {
       t \<leftarrow> trade_of e;
       if pt_mint t = default_pubkey \<or> pt_quote_mint t = default_pubkey \<or>
          is_pumpfun_solscan_sol_quote_mint (pt_quote_mint t)
       then None else Some (pt_mint t, pt_quote_mint t)
     }"

definition collect_first :: "('e \<Rightarrow> ('k \<times> 'v) option) \<Rightarrow> 'e list \<Rightarrow> ('k \<times> 'v) list" where
  "collect_first f es = foldl (\<lambda>m e. case f e of None \<Rightarrow> m | Some (k, v) \<Rightarrow> or_insert k v m) [] es"

definition known_mint_fee :: "'p dex_event \<Rightarrow> (pubkey \<times> pubkey) option" where
  "known_mint_fee e =
     do { (mint, fee) \<leftarrow> pumpfun_buy_like_mint_fee e; if fee \<noteq> default_pubkey then Some (mint, fee) else None }"

definition create_flags :: "'p dex_event \<Rightarrow> (pubkey \<times> (bool \<times> bool)) option" where
  "create_flags e =
     (case e of
        Pump_Fun_Event (PumpFunCreateV2_Event c) \<Rightarrow>
          if pv_mint c \<noteq> default_pubkey then Some (pv_mint c, (pv_is_cashback_enabled c, pv_is_mayhem_mode c)) else None
      | Pump_Fun_Event (PumpFunCreate_Event c) \<Rightarrow>
          if pc_mint c \<noteq> default_pubkey then Some (pc_mint c, (pc_is_cashback_enabled c, pc_is_mayhem_mode c)) else None
      | _ \<Rightarrow> None)"

definition collect_create_cashback_and_mayhem :: "'p dex_event list \<Rightarrow> (pubkey \<times> (bool \<times> bool)) list" where
  "collect_create_cashback_and_mayhem events = collect_first create_flags events"

definition create_by_mint :: "'p dex_event \<Rightarrow> (pubkey \<times> pumpfun_create_event) option" where
  "create_by_mint e =
     (case e of
        Pump_Fun_Event (PumpFunCreate_Event c) \<Rightarrow> if pc_mint c \<noteq> default_pubkey then Some (pc_mint c, c) else None
      | _ \<Rightarrow> None)"

definition collect_create_events_by_mint :: "'p dex_event list \<Rightarrow> (pubkey \<times> pumpfun_create_event) list" where
  "collect_create_events_by_mint events = collect_first create_by_mint events"

section \<open>Rewriting events\<close>

fun map_creates :: "(pumpfun_create_event \<Rightarrow> pumpfun_create_event) \<Rightarrow> (pumpfun_create_v2_event \<Rightarrow> pumpfun_create_v2_event)
    \<Rightarrow> 'p dex_event \<Rightarrow> 'p dex_event" where
  "map_creates u v (Pump_Fun_Event (PumpFunCreate_Event c)) = Pump_Fun_Event (PumpFunCreate_Event (u c))"
| "map_creates u v (Pump_Fun_Event (PumpFunCreateV2_Event c)) = Pump_Fun_Event (PumpFunCreateV2_Event (v c))"
| "map_creates u v other = other"

fun map_trades :: "(pumpfun_trade_event \<Rightarrow> pumpfun_trade_event) \<Rightarrow> 'p dex_event \<Rightarrow> 'p dex_event" where
  "map_trades u (Pump_Fun_Event (PumpFunTrade_Event t)) = Pump_Fun_Event (PumpFunTrade_Event (u t))"
| "map_trades u (Pump_Fun_Event (PumpFunBuy_Event t)) = Pump_Fun_Event (PumpFunBuy_Event (u t))"
| "map_trades u (Pump_Fun_Event (PumpFunSell_Event t)) = Pump_Fun_Event (PumpFunSell_Event (u t))"
| "map_trades u (Pump_Fun_Event (PumpFunBuyExactSolIn_Event t)) = Pump_Fun_Event (PumpFunBuyExactSolIn_Event (u t))"
| "map_trades u other = other"

text \<open>The old recipient stays unless it is the default and the mint has an observed one.\<close>

definition observed_fee :: "(pubkey \<times> pubkey) list \<Rightarrow> pubkey \<Rightarrow> pubkey \<Rightarrow> pubkey" where
  "observed_fee m mint old =
     (if old = default_pubkey then (case map_of m mint of None \<Rightarrow> old | Some f \<Rightarrow> f) else old)"

definition enrich_create_observed_fee_recipient :: "'p dex_event list \<Rightarrow> 'p dex_event list" where
  "enrich_create_observed_fee_recipient events =
     (let m = collect_first known_mint_fee events
      in if m = [] then events
         else map (map_creates
           (\<lambda>c. c\<lparr>pc_observed_fee_recipient := observed_fee m (pc_mint c) (pc_observed_fee_recipient c)\<rparr>)
           (\<lambda>c. c\<lparr>pv_observed_fee_recipient := observed_fee m (pv_mint c) (pv_observed_fee_recipient c)\<rparr>)) events)"

definition traded_quote :: "(pubkey \<times> pubkey) list \<Rightarrow> pubkey \<Rightarrow> pubkey \<Rightarrow> pubkey" where
  "traded_quote m mint old =
     (if old = default_pubkey \<or> is_pumpfun_solscan_sol_quote_mint old
      then (case map_of m mint of None \<Rightarrow> old | Some q \<Rightarrow> q) else old)"

definition enrich_create_quote_mint_from_trades :: "'p dex_event list \<Rightarrow> 'p dex_event list" where
  "enrich_create_quote_mint_from_trades events =
     (let m = collect_first pumpfun_trade_mint_quote events
      in if m = [] then events
         else map (map_creates
           (\<lambda>c. c\<lparr>pc_quote_mint := traded_quote m (pc_mint c) (pc_quote_mint c)\<rparr>)
           (\<lambda>c. c\<lparr>pv_quote_mint := traded_quote m (pv_mint c) (pv_quote_mint c)\<rparr>)) events)"

definition fill_str_if_empty :: "bytes \<Rightarrow> bytes \<Rightarrow> bytes" where
  "fill_str_if_empty to from = (if to = [] \<and> from \<noteq> [] then from else to)"

definition fill_pk_if_default :: "pubkey \<Rightarrow> pubkey \<Rightarrow> pubkey" where
  "fill_pk_if_default to from = (if to = default_pubkey \<and> from \<noteq> default_pubkey then from else to)"

definition fill_pumpfun_quote_mint_if_default :: "pubkey \<Rightarrow> pubkey \<Rightarrow> pubkey" where
  "fill_pumpfun_quote_mint_if_default to from =
     (if from = default_pubkey then to
      else
        (let from = normalize_pumpfun_quote_mint from
         in if (to = default_pubkey \<or> is_pumpfun_solscan_sol_quote_mint to) \<and> from \<noteq> default_pubkey then from else to))"

definition fill_u64_if_zero :: "u64 \<Rightarrow> u64 \<Rightarrow> u64" where
  "fill_u64_if_zero to from = (if to = 0 \<and> from \<noteq> 0 then from else to)"

definition fill_i64_if_zero :: "int \<Rightarrow> int \<Rightarrow> int" where
  "fill_i64_if_zero to from = (if to = 0 \<and> from \<noteq> 0 then from else to)"

definition fill_create_v2_from_create :: "pumpfun_create_event \<Rightarrow> pumpfun_create_v2_event \<Rightarrow> pumpfun_create_v2_event" where
  "fill_create_v2_from_create create v = v\<lparr>
     pv_name := fill_str_if_empty (pv_name v) (pc_name create),
     pv_symbol := fill_str_if_empty (pv_symbol v) (pc_symbol create),
     pv_uri := fill_str_if_empty (pv_uri v) (pc_uri create),
     pv_bonding_curve := fill_pk_if_default (pv_bonding_curve v) (pc_bonding_curve create),
     pv_user := fill_pk_if_default (pv_user v) (pc_user create),
     pv_creator := fill_pk_if_default (pv_creator v) (pc_creator create),
     pv_token_program := fill_pk_if_default (pv_token_program v) (pc_token_program create),
     pv_quote_mint := fill_pumpfun_quote_mint_if_default (pv_quote_mint v) (pc_quote_mint create),
     pv_timestamp := fill_i64_if_zero (pv_timestamp v) (pc_timestamp create),
     pv_virtual_token_reserves := fill_u64_if_zero (pv_virtual_token_reserves v) (pc_virtual_token_reserves create),
     pv_virtual_sol_reserves := fill_u64_if_zero (pv_virtual_sol_reserves v) (pc_virtual_sol_reserves create),
     pv_real_token_reserves := fill_u64_if_zero (pv_real_token_reserves v) (pc_real_token_reserves create),
     pv_token_total_supply := fill_u64_if_zero (pv_token_total_supply v) (pc_token_total_supply create),
     pv_virtual_quote_reserves := fill_u64_if_zero (pv_virtual_quote_reserves v) (pc_virtual_quote_reserves create),
     pv_creator_fee_bps := fill_u64_if_zero (pv_creator_fee_bps v) (pc_creator_fee_bps create),
     pv_is_mayhem_mode := (pv_is_mayhem_mode v \<or> pc_is_mayhem_mode create),
     pv_is_cashback_enabled := (pv_is_cashback_enabled v \<or> pc_is_cashback_enabled create),
     pv_is_holder_reward := (pv_is_holder_reward v \<or> pc_is_holder_reward create)\<rparr>"

definition enrich_create_v2_from_create_events :: "'p dex_event list \<Rightarrow> 'p dex_event list" where
  "enrich_create_v2_from_create_events events =
     (let creates = collect_create_events_by_mint events
      in if creates = [] then events
         else map (map_creates id
           (\<lambda>v. if pv_mint v = default_pubkey then v
                else case map_of creates (pv_mint v) of None \<Rightarrow> v
                     | Some create \<Rightarrow> fill_create_v2_from_create create v)) events)"

definition flag_trade :: "(pubkey \<times> (bool \<times> bool)) list \<Rightarrow> pumpfun_trade_event \<Rightarrow> pumpfun_trade_event" where
  "flag_trade flags t =
     (if pt_mint t = default_pubkey then t
      else case map_of flags (pt_mint t) of None \<Rightarrow> t
      | Some (cb_en, mayhem_create) \<Rightarrow>
          t\<lparr>pt_is_cashback_coin := (pt_is_cashback_coin t \<or> cb_en),
            pt_mayhem_mode := (pt_mayhem_mode t \<or> mayhem_create),
            pt_track_volume := (if cb_en then True else pt_track_volume t)\<rparr>)"

definition enrich_pumpfun_trades_from_create_instructions :: "'p dex_event list \<Rightarrow> 'p dex_event list" where
  "enrich_pumpfun_trades_from_create_instructions events =
     (let flags = collect_create_cashback_and_mayhem events
      in if flags = [] then events else map (map_trades (flag_trade flags)) events)"

definition enrich_pumpfun_same_tx_post_merge :: "'p dex_event list \<Rightarrow> 'p dex_event list" where
  "enrich_pumpfun_same_tx_post_merge events =
     enrich_pumpfun_trades_from_create_instructions
       (enrich_create_quote_mint_from_trades
         (enrich_create_observed_fee_recipient
           (enrich_create_v2_from_create_events events)))"

section \<open>The first entry of a key\<close>

lemma map_of_or_insert: "map_of (or_insert k v m) a = (if map_of m a = None \<and> a = k then Some v else map_of m a)"
  by (auto simp: or_insert_def map_of_append map_add_def split: option.splits)

fun first_of :: "('e \<Rightarrow> ('k \<times> 'v) option) \<Rightarrow> 'e list \<Rightarrow> 'k \<Rightarrow> 'v option" where
  "first_of f [] k = None"
| "first_of f (e # es) k =
     (case f e of
        None \<Rightarrow> first_of f es k
      | Some (a, v) \<Rightarrow> if a = k then Some v else first_of f es k)"

lemma map_of_collect_aux:
  "map_of (foldl (\<lambda>m e. case f e of None \<Rightarrow> m | Some (k, v) \<Rightarrow> or_insert k v m) m es) k =
     (case map_of m k of Some v \<Rightarrow> Some v | None \<Rightarrow> first_of f es k)"
  by (induction es arbitrary: m) (auto simp: map_of_or_insert split: option.splits)

lemma map_of_collect_first: "map_of (collect_first f es) k = first_of f es k"
  by (simp add: collect_first_def map_of_collect_aux)

lemma first_of_in: "first_of f es k = Some v \<Longrightarrow> \<exists>e \<in> set es. f e = Some (k, v)"
  by (induction es) (auto split: option.splits if_splits)

lemma collect_first_Nil: "collect_first f es = [] \<Longrightarrow> first_of f es k = None"
  by (metis map_of_collect_first map_of.simps(1))

text \<open>Every step is one map over the events, whether or not the collected map is empty.\<close>

lemma map_creates_id [simp]: "map_creates id id e = e" "map_creates (\<lambda>c. c) (\<lambda>v. v) e = e"
  by (cases e rule: trade_of.cases; simp)+

end
