(* ===== verification/Multi_Hop.thy ===== *)
theory Multi_Hop
  imports Pump_Parsers Event_Filter
begin

text \<open>
  The PumpSwap multi-hop route (\<open>src/shredstream/pump_multi_hop.rs\<close>): one trade for each hop whose
  account is the canonical bonding curve of its mint, with the direction of the whole route when
  the mints of neighbouring hops fix it. The program-address derivation is the parameter \<open>derive\<close>.
\<close>

definition MULTI_HOP_SWAP :: bytes where "MULTI_HOP_SWAP = [43, 100, 73, 19, 233, 246, 111, 148]"

text \<open>The seed text \<open>bonding-curve\<close> as bytes.\<close>

definition bonding_curve_seed :: bytes where
  "bonding_curve_seed = [98, 111, 110, 100, 105, 110, 103, 45, 99, 117, 114, 118, 101]"

abbreviation (input) FIXED :: nat where "FIXED \<equiv> 16"
abbreviation (input) HOP :: nat where "HOP \<equiv> 5"

definition hop_key :: "bytes \<Rightarrow> pubkey list \<Rightarrow> nat \<Rightarrow> pubkey option" where
  "hop_key account_indices keys i = do { idx \<leftarrow> get_at i account_indices; get_at (unat idx) keys }"

definition multi_hop_layout_ok :: "bytes \<Rightarrow> bytes \<Rightarrow> bool" where
  "multi_hop_layout_ok data account_indices \<longleftrightarrow>
     \<not> (length data \<noteq> 24 \<or> take 8 data \<noteq> MULTI_HOP_SWAP \<or> length account_indices < FIXED + HOP \<or>
        (length account_indices - FIXED) mod HOP \<noteq> 0 \<or>
        take 8 (drop 8 data) = replicate 8 0 \<or> drop 16 data = replicate 8 0)"

text \<open>Every hop's outgoing mint is the next hop's incoming one.\<close>

definition connected :: "(nat \<Rightarrow> pubkey option) \<Rightarrow> nat \<Rightarrow> bool \<Rightarrow> bool" where
  "connected get hops buy \<longleftrightarrow>
     hops > 1 \<and>
     list_all (\<lambda>i.
       (let start = get (FIXED + i * HOP + (if buy then 0 else 1));
            target = get (FIXED + (i + 1) * HOP + (if buy then 1 else 0))
        in case start of None \<Rightarrow> False | Some mint \<Rightarrow> mint \<noteq> default_pubkey \<and> Some mint = target))
       [0 ..< hops - 1]"

definition hop_direction :: "(nat \<Rightarrow> pubkey option) \<Rightarrow> nat \<Rightarrow> bool option" where
  "hop_direction get hops =
     (case (connected get hops True, connected get hops False) of
        (True, False) \<Rightarrow> Some True
      | (False, True) \<Rightarrow> Some False
      | _ \<Rightarrow> None)"

definition or_default :: "pubkey option \<Rightarrow> pubkey" where
  "or_default k = (case k of None \<Rightarrow> default_pubkey | Some k \<Rightarrow> k)"

definition route_payload :: "bytes \<Rightarrow> bytes \<Rightarrow> pubkey list \<Rightarrow> nat \<Rightarrow> raw_instruction_payload" where
  "route_payload data account_indices keys instruction_index =
     \<lparr>ri_program_id = PUMPSWAP_PROGRAM_ID, ri_instruction_index = instruction_index,
      ri_accounts = map (\<lambda>i. get_at (unat i) keys) account_indices,
      ri_account_indices = account_indices, ri_instruction_data = data\<rparr>"

definition curve_hop :: "(bytes list \<Rightarrow> pubkey \<Rightarrow> pubkey \<times> u8) \<Rightarrow> bytes \<Rightarrow> bytes \<Rightarrow> pubkey list \<Rightarrow> nat
    \<Rightarrow> event_metadata \<Rightarrow> pubkey \<Rightarrow> bool option \<Rightarrow> nat \<Rightarrow> pumpfun_trade_event option" where
  "curve_hop derive data account_indices keys instruction_index md user direction hop =
     (let get = hop_key account_indices keys; start = FIXED + hop * HOP
      in case (get start, get (start + 1), get (start + 2)) of
           (Some mint, Some quote_mint, Some bonding_curve) \<Rightarrow>
             if mint = default_pubkey \<or> quote_mint = default_pubkey \<or> mint = quote_mint then None
             else if bonding_curve \<noteq> fst (derive [bonding_curve_seed, mint] PUMPFUN_PROGRAM_ID) then None
             else Some (default_trade\<lparr>
               pt_metadata := md, pt_ix_name := ''multi_hop_swap'', pt_mint := mint,
               pt_quote_mint := quote_mint, pt_user := user, pt_bonding_curve := bonding_curve,
               pt_associated_bonding_curve := or_default (get (start + 3)),
               pt_associated_quote_bonding_curve := or_default (get (start + 4)),
               pt_global := or_default (get 13), pt_fee_config := or_default (get 14),
               pt_event_authority := or_default (get 15), pt_program := PUMPFUN_PROGRAM_ID,
               pt_system_program := or_default (get 9),
               pt_is_buy := (case direction of None \<Rightarrow> False | Some d \<Rightarrow> d),
               pt_third_program := Some (route_payload data account_indices keys instruction_index)\<rparr>)
         | _ \<Rightarrow> None)"

definition parse_curve_hops :: "(bytes list \<Rightarrow> pubkey \<Rightarrow> pubkey \<times> u8) \<Rightarrow> bytes \<Rightarrow> bytes \<Rightarrow> pubkey list \<Rightarrow> nat
    \<Rightarrow> event_metadata \<Rightarrow> pumpfun_trade_event list" where
  "parse_curve_hops derive data account_indices keys instruction_index md =
     (let get = hop_key account_indices keys
      in if \<not> multi_hop_layout_ok data account_indices then []
         else if get 11 \<noteq> Some PUMPSWAP_PROGRAM_ID \<or> get 12 \<noteq> Some PUMPFUN_PROGRAM_ID then []
         else case get 0 of None \<Rightarrow> []
         | Some user \<Rightarrow>
             (let hops = (length account_indices - FIXED) div HOP;
                  direction = hop_direction get hops
              in List.map_filter
                   (curve_hop derive data account_indices keys instruction_index md user direction)
                   [0 ..< hops]))"

lemma curve_hop_unresolved: "curve_hop derive data ixs keys n md user dir hop = Some t \<Longrightarrow> is_unresolved_trade t"
  by (auto simp: curve_hop_def default_trade_def is_unresolved_trade_def Let_def split: option.splits if_splits)

lemma parse_curve_hops_unresolved:
  "t \<in> set (parse_curve_hops derive data ixs keys n md) \<Longrightarrow> is_unresolved_trade t"
  by (auto simp: parse_curve_hops_def Let_def List.map_filter_def split: if_splits option.splits
      dest: curve_hop_unresolved)

end
