(* ===== verification/Dex_Transaction.thy ===== *)
theory Dex_Transaction
  imports Shred_Pump Instr_Gate Fee_Enrich Multi_Hop
begin

text \<open>
  The hot path over a whole transaction (the entry points of \<open>src/shredstream/pump_ix.rs\<close>, exported by
  \<open>src/shredstream/dex.rs\<close>): every outer instruction is dispatched to the Pump.fun parser, a route
  parser, a wrapper record or the unified parser, its event filtered, and the transaction's events
  enriched and stamped. Appending to \<open>events\<close> is the list that is appended.
\<close>

section \<open>Filtering\<close>

definition allows :: "event_type_filter option \<Rightarrow> (event_type_filter \<Rightarrow> bool) \<Rightarrow> bool" where
  "allows flt test = (case flt of None \<Rightarrow> True | Some f \<Rightarrow> test f)"

definition push_filtered_shred_event :: "'p dex_event \<Rightarrow> event_type_filter option \<Rightarrow> 'p dex_event list" where
  "push_filtered_shred_event event flt =
     (case flt of None \<Rightarrow> [event]
      | Some f \<Rightarrow> if should_include_dex_event f event then [normalize_dex_event f event] else [])"

definition unified_outer_data_may_parse :: "pubkey \<Rightarrow> bytes \<Rightarrow> bool" where
  "unified_outer_data_may_parse program_id data = instruction_data_may_parse program_id data"

definition is_supported_unified_outer_program :: "pubkey \<Rightarrow> event_type_filter option \<Rightarrow> bool" where
  "is_supported_unified_outer_program program_id flt =
     (case flt of
        None \<Rightarrow> program_id \<in> set supported_unified_outer_programs
      | Some f \<Rightarrow>
          if program_id = PUMPSWAP_PROGRAM_ID then includes_pumpswap f
          else if program_id = PUMP_FEES_PROGRAM_ID then includes_pump_fees f
          else if program_id = RAYDIUM_LAUNCHLAB_PROGRAM_ID then includes_raydium_launchlab f
          else if program_id = RAYDIUM_CPMM_PROGRAM_ID then includes_raydium_cpmm f
          else if program_id = RAYDIUM_CLMM_PROGRAM_ID then includes_raydium_clmm f
          else if program_id = RAYDIUM_AMM_V4_PROGRAM_ID then includes_raydium_amm_v4 f
          else if program_id = ORCA_WHIRLPOOL_PROGRAM_ID then includes_orca_whirlpool f
          else if program_id = METEORA_POOLS_PROGRAM_ID then includes_meteora_pools f
          else if program_id = METEORA_DAMM_V2_PROGRAM_ID then includes_meteora_damm_v2 f
          else if program_id = METEORA_DLMM_PROGRAM_ID then includes_meteora_dlmm f
          else False)"

definition unknown_outer_data_may_parse :: "bytes \<Rightarrow> event_type_filter option \<Rightarrow> bool" where
  "unknown_outer_data_may_parse data flt \<longleftrightarrow>
     allows flt includes_pumpfun \<and> pumpfun_outer_data_may_parse data \<or>
     list_ex (\<lambda>program_id. is_supported_unified_outer_program program_id flt \<and>
         unified_outer_data_may_parse program_id data) supported_unified_outer_programs"

section \<open>Dispatch of an outer instruction\<close>

definition parse_non_pump_dex_outer :: "'p protocol_parsers \<Rightarrow> pubkey \<Rightarrow> bytes \<Rightarrow> pubkey list \<Rightarrow> tx_origin
    \<Rightarrow> event_type_filter option \<Rightarrow> 'p dex_event option" where
  "parse_non_pump_dex_outer pp program_id data accounts og flt =
     parse_instruction_unified pp data accounts og None flt program_id"

text \<open>The first supported program whose parser accepts the data.\<close>

fun first_candidate :: "'p protocol_parsers \<Rightarrow> bytes \<Rightarrow> pubkey list \<Rightarrow> tx_origin \<Rightarrow> event_type_filter option
    \<Rightarrow> pubkey list \<Rightarrow> 'p dex_event list" where
  "first_candidate pp data accounts og flt [] = []"
| "first_candidate pp data accounts og flt (program_id # rest) =
     (if \<not> is_supported_unified_outer_program program_id flt
      then first_candidate pp data accounts og flt rest
      else case parse_non_pump_dex_outer pp program_id data accounts og flt of
        Some ev \<Rightarrow> push_filtered_shred_event ev flt
      | None \<Rightarrow> first_candidate pp data accounts og flt rest)"

definition unknown_pump_events :: "bytes \<Rightarrow> pubkey list \<Rightarrow> tx_origin \<Rightarrow> event_type_filter option \<Rightarrow> created_mints
    \<Rightarrow> 'p dex_event list" where
  "unknown_pump_events data accounts og flt mints =
     (if allows flt includes_pumpfun \<and> pumpfun_outer_data_may_parse data
      then (case parse_pumpfun_instruction data accounts og mints of
          Some ev \<Rightarrow> push_filtered_shred_event ev flt
        | None \<Rightarrow> [])
      else [])"

definition parse_unknown_program_outer :: "'p protocol_parsers \<Rightarrow> bytes \<Rightarrow> bytes \<Rightarrow> pubkey list \<Rightarrow> tx_origin
    \<Rightarrow> event_type_filter option \<Rightarrow> created_mints \<Rightarrow> 'p dex_event list" where
  "parse_unknown_program_outer pp indices data static_keys og flt mints =
     (if \<not> unknown_outer_data_may_parse data flt then []
      else
        (let accounts = build_shred_ix_accounts static_keys indices;
             pushed = unknown_pump_events data accounts og flt mints
         in if pushed \<noteq> [] then pushed
            else first_candidate pp data accounts og flt supported_unified_outer_programs))"

definition dispatch_shred_outer :: "'p protocol_parsers \<Rightarrow> dex_instruction \<Rightarrow> pubkey list \<Rightarrow> tx_origin
    \<Rightarrow> event_type_filter option \<Rightarrow> created_mints \<Rightarrow> bool \<Rightarrow> 'p dex_event list" where
  "dispatch_shred_outer pp ix static_keys og flt mints best_effort =
     (let program_id_index = di_program_id_index ix; indices = di_accounts ix; data = di_data ix
      in if data = [] then []
         else if program_id_references_loaded_key program_id_index (length static_keys)
         then if \<not> best_effort then []
              else parse_unknown_program_outer pp indices data static_keys og flt mints
         else case get_at (unat program_id_index) static_keys of None \<Rightarrow> []
         | Some program_id \<Rightarrow>
             if program_id = PUMPFUN_PROGRAM_ID
             then if \<not> allows flt includes_pumpfun \<or> \<not> pumpfun_outer_data_may_parse data then []
                  else (case parse_pumpfun_instruction data (build_shred_ix_accounts static_keys indices) og mints of
                      None \<Rightarrow> []
                    | Some ev \<Rightarrow>
                        push_filtered_shred_event
                          (if best_effort then ev
                           else preserve_unresolved_pumpfun_accounts data indices (length static_keys) ev) flt)
             else if \<not> is_supported_unified_outer_program program_id flt then []
             else if \<not> unified_outer_data_may_parse program_id data then []
             else if \<not> best_effort \<and> \<not> instruction_keys_resolved program_id_index indices (length static_keys) then []
             else (case parse_non_pump_dex_outer pp program_id data
                          (build_shred_ix_accounts static_keys indices) og flt of
                 None \<Rightarrow> []
               | Some ev \<Rightarrow> push_filtered_shred_event ev flt))"

section \<open>Wrapper programs\<close>

definition MEMO_V1_PROGRAM :: pubkey where
  "MEMO_V1_PROGRAM =
     [5, 74, 83, 80, 248, 93, 200, 130, 214, 20, 165, 86, 114, 120, 138, 41, 109, 223, 30, 171,
      171, 208, 166, 6, 120, 136, 73, 50, 244, 238, 246, 160]"

definition ADDRESS_LOOKUP_TABLE_PROGRAM :: pubkey where
  "ADDRESS_LOOKUP_TABLE_PROGRAM =
     [2, 119, 166, 175, 151, 51, 155, 122, 200, 141, 24, 146, 201, 4, 70, 245, 0, 2, 48, 146,
      102, 246, 46, 83, 193, 24, 36, 73, 130, 0, 0, 0]"

definition VOTE_PROGRAM :: pubkey where
  "VOTE_PROGRAM =
     [7, 97, 72, 29, 53, 116, 116, 187, 124, 77, 118, 36, 235, 211, 189, 179, 216, 53, 94, 115,
      209, 16, 67, 252, 13, 163, 83, 128, 0, 0, 0, 0]"

definition ED25519_PROGRAM :: pubkey where
  "ED25519_PROGRAM =
     [3, 125, 70, 214, 124, 147, 251, 190, 18, 249, 66, 143, 131, 141, 64, 255, 5, 112, 116,
      73, 39, 244, 138, 100, 252, 202, 112, 68, 128, 0, 0, 0]"

definition SECP256K1_PROGRAM :: pubkey where
  "SECP256K1_PROGRAM =
     [4, 198, 252, 32, 240, 80, 204, 240, 85, 132, 215, 33, 28, 159, 140, 245, 158, 193, 71,
      133, 187, 22, 106, 30, 40, 48, 232, 18, 32, 0, 0, 0]"

definition SECP256R1_PROGRAM :: pubkey where
  "SECP256R1_PROGRAM =
     [6, 146, 13, 236, 47, 234, 113, 181, 183, 35, 129, 77, 116, 45, 169, 3, 28, 131, 231, 95,
      219, 121, 93, 86, 142, 117, 71, 128, 32, 0, 0, 0]"

definition infrastructure_programs :: "pubkey list" where
  "infrastructure_programs =
     [default_pubkey, ROUTE_SPL_TOKEN, ROUTE_TOKEN_2022, ROUTE_ASSOCIATED_TOKEN, ROUTE_COMPUTE_BUDGET, ROUTE_MEMO,
      MEMO_V1_PROGRAM, ADDRESS_LOOKUP_TABLE_PROGRAM, VOTE_PROGRAM, ED25519_PROGRAM, SECP256K1_PROGRAM,
      SECP256R1_PROGRAM]"

definition is_infrastructure_program :: "pubkey \<Rightarrow> bool" where
  "is_infrastructure_program program \<longleftrightarrow> program \<in> set infrastructure_programs"

definition is_third_party_program :: "pubkey \<Rightarrow> bool" where
  "is_third_party_program program \<longleftrightarrow>
     program \<noteq> PUMPFUN_PROGRAM_ID \<and> program \<notin> set supported_unified_outer_programs \<and>
     \<not> is_infrastructure_program program"

definition wrapper_trade :: "pubkey \<Rightarrow> nat \<Rightarrow> dex_instruction \<Rightarrow> pubkey list \<Rightarrow> tx_origin \<Rightarrow> pumpfun_trade_event" where
  "wrapper_trade program instruction_index ix static_keys og =
     default_trade\<lparr>pt_metadata := origin_metadata og None,
       pt_third_program := Some
         \<lparr>ri_program_id = program, ri_instruction_index = instruction_index,
          ri_accounts = map (\<lambda>index. get_at (unat index) static_keys) (di_accounts ix),
          ri_account_indices = di_accounts ix, ri_instruction_data = di_data ix\<rparr>\<rparr>"

definition wrapper_events :: "pubkey \<Rightarrow> nat \<Rightarrow> dex_instruction \<Rightarrow> pubkey list \<Rightarrow> tx_origin \<Rightarrow> event_type_filter option
    \<Rightarrow> 'p dex_event list" where
  "wrapper_events program instruction_index ix static_keys og flt =
     (if allows flt includes_unresolved_pumpfun \<and>
         list_ex (\<lambda>index. get_at (unat index) static_keys = Some PUMPFUN_PROGRAM_ID) (di_accounts ix)
      then [Pump_Fun_Event (PumpFunTrade_Event (wrapper_trade program instruction_index ix static_keys og))]
      else [])"

definition hop_events :: "address_derivation \<Rightarrow> nat \<Rightarrow> dex_instruction \<Rightarrow> pubkey list \<Rightarrow> tx_origin
    \<Rightarrow> event_type_filter option \<Rightarrow> created_mints \<Rightarrow> 'p dex_event list" where
  "hop_events derive instruction_index ix static_keys og flt mints =
     (if allows flt includes_unresolved_pumpfun
      then map (\<lambda>trade. Pump_Fun_Event (PumpFunTrade_Event
             (trade\<lparr>pt_is_created_buy := (pt_is_buy trade \<and> pt_mint trade \<in> set (fst mints))\<rparr>)))
             (parse_curve_hops derive (di_data ix) (di_accounts ix) static_keys instruction_index (origin_metadata og None))
      else [])"

section \<open>All outer instructions\<close>

definition lookups_of :: "dex_message \<Rightarrow> table_lookup list" where
  "lookups_of m = (case dm_address_table_lookups m of None \<Rightarrow> [] | Some ls \<Rightarrow> ls)"

definition message_key_count :: "dex_message \<Rightarrow> nat" where
  "message_key_count m =
     length (dm_static_account_keys m) +
     sum_list (map (\<lambda>l. length (tl_writable_indexes l) + length (tl_readonly_indexes l)) (lookups_of m))"

text \<open>A known Pump.fun instruction with an index outside the declared keys, or too few accounts, is malformed.\<close>

definition malformed_pump :: "dex_instruction \<Rightarrow> pubkey list \<Rightarrow> nat \<Rightarrow> bool" where
  "malformed_pump ix static_keys key_count \<longleftrightarrow>
     get_at (unat (di_program_id_index ix)) static_keys = Some PUMPFUN_PROGRAM_ID \<and> length (di_data ix) \<ge> 8 \<and>
     (\<not> instruction_keys_resolved (di_program_id_index ix) (di_accounts ix) key_count \<or>
      (let disc = take 8 (di_data ix);
           minimum = (if disc = PUMP_BUY_V2 \<or> disc = PUMP_BUY_EXACT_QUOTE_IN_V2 then 27
                      else if disc = PUMP_SELL_V2 then 26 else 0)
       in length (di_accounts ix) < minimum))"

definition outer_events :: "'p protocol_parsers \<Rightarrow> address_derivation \<Rightarrow> pubkey list \<Rightarrow> nat \<Rightarrow> tx_origin
    \<Rightarrow> event_type_filter option \<Rightarrow> created_mints \<Rightarrow> bool \<Rightarrow> nat \<times> dex_instruction \<Rightarrow> 'p dex_event list" where
  "outer_events pp derive static_keys key_count og flt mints best_effort indexed =
     (let (instruction_index, ix) = indexed;
          program = get_at (unat (di_program_id_index ix)) static_keys;
          dispatched = (if \<not> best_effort \<and> malformed_pump ix static_keys key_count then []
                        else dispatch_shred_outer pp ix static_keys og flt mints best_effort)
      in case program of None \<Rightarrow> dispatched
         | Some program \<Rightarrow>
             if program = PUMPSWAP_PROGRAM_ID \<and> take 8 (di_data ix) = MULTI_HOP_SWAP
             then hop_events derive instruction_index ix static_keys og flt mints
             else if is_third_party_program program
             then wrapper_events program instruction_index ix static_keys og flt
             else dispatched)"

definition parse_transaction_pump_events_with_filter :: "'p protocol_parsers \<Rightarrow> address_derivation \<Rightarrow> dex_message
    \<Rightarrow> pubkey list \<Rightarrow> tx_origin \<Rightarrow> event_type_filter option \<Rightarrow> bool \<Rightarrow> 'p dex_event list" where
  "parse_transaction_pump_events_with_filter pp derive m static_keys og flt best_effort =
     (let mints = (if allows flt includes_pumpfun
                   then detect_pumpfun_create_mints (dm_instructions m) static_keys best_effort else ([], []))
      in concat (map (outer_events pp derive static_keys (message_key_count m) og flt mints best_effort)
           (enumerate 0 (dm_instructions m))))"

section \<open>Entry points\<close>

text \<open>The version and the table addresses on create events.\<close>

definition stamp_create :: "dex_message \<Rightarrow> 'p dex_event \<Rightarrow> 'p dex_event" where
  "stamp_create m event =
     (let alt = (if lookups_of m = [] then None else Some (map tl_account_key (lookups_of m)))
      in map_creates
           (\<lambda>c. c\<lparr>pc_transaction_version := Some (dm_version m), pc_alt_addresses := alt\<rparr>)
           (\<lambda>c. c\<lparr>pv_transaction_version := Some (dm_version m), pv_alt_addresses := alt\<rparr>) event)"

definition stamp_metadata :: "dex_message \<Rightarrow> int \<Rightarrow> 'p dex_event \<Rightarrow> 'p dex_event" where
  "stamp_metadata m recv_us event =
     (case metadata_mut
         (\<lambda>md. md\<lparr>em_grpc_recv_us := recv_us, em_recent_blockhash := Some (dm_recent_blockhash m)\<rparr>) event of
        None \<Rightarrow> event
      | Some event' \<Rightarrow> event')"

definition parse_transaction_with_account_keys :: "'p protocol_parsers \<Rightarrow> address_derivation \<Rightarrow> dex_message
    \<Rightarrow> pubkey list \<Rightarrow> tx_origin \<Rightarrow> event_type_filter option \<Rightarrow> bool \<Rightarrow> 'p dex_event list" where
  "parse_transaction_with_account_keys pp derive m account_keys og flt best_effort =
     (let appended = parse_transaction_pump_events_with_filter pp derive m account_keys og flt best_effort;
          appended = enrich_pumpfun_same_tx_post_merge appended
      in map (\<lambda>e. stamp_metadata m (og_grpc_recv_us og) (stamp_create m e)) appended)"

definition parse_transaction_dex_events_with_filter :: "'p protocol_parsers \<Rightarrow> address_derivation \<Rightarrow> dex_message
    \<Rightarrow> tx_origin \<Rightarrow> event_type_filter option \<Rightarrow> 'p dex_event list" where
  "parse_transaction_dex_events_with_filter pp derive m og flt =
     parse_transaction_with_account_keys pp derive m (dm_static_account_keys m) og flt False"

definition parse_transaction_dex_events :: "'p protocol_parsers \<Rightarrow> address_derivation \<Rightarrow> dex_message
    \<Rightarrow> tx_origin \<Rightarrow> 'p dex_event list" where
  "parse_transaction_dex_events pp derive m og = parse_transaction_dex_events_with_filter pp derive m og None"

definition parse_transaction_dex_events_best_effort :: "'p protocol_parsers \<Rightarrow> address_derivation \<Rightarrow> dex_message
    \<Rightarrow> tx_origin \<Rightarrow> event_type_filter option \<Rightarrow> 'p dex_event list" where
  "parse_transaction_dex_events_best_effort pp derive m og flt =
     parse_transaction_with_account_keys pp derive m (dm_static_account_keys m) og flt True"

datatype loaded_error = Address_Counts_Mismatch | Instruction_Index_Out_Of_Range

definition parse_transaction_dex_events_with_loaded_addresses :: "'p protocol_parsers \<Rightarrow> address_derivation \<Rightarrow> dex_message
    \<Rightarrow> pubkey list \<Rightarrow> pubkey list \<Rightarrow> tx_origin \<Rightarrow> event_type_filter option \<Rightarrow> loaded_error + 'p dex_event list" where
  "parse_transaction_dex_events_with_loaded_addresses pp derive m loaded_writable loaded_readonly og flt =
     (let writable_count = sum_list (map (length \<circ> tl_writable_indexes) (lookups_of m));
          readonly_count = sum_list (map (length \<circ> tl_readonly_indexes) (lookups_of m));
          keys = dm_static_account_keys m @ loaded_writable @ loaded_readonly
      in if \<not> (length loaded_writable = writable_count \<and> length loaded_readonly = readonly_count)
         then Inl Address_Counts_Mismatch
         else if \<not> list_all (\<lambda>ix. unat (di_program_id_index ix) < length keys \<and>
                      list_all (\<lambda>idx. unat idx < length keys) (di_accounts ix)) (dm_instructions m)
         then Inl Instruction_Index_Out_Of_Range
         else Inr (parse_transaction_with_account_keys pp derive m keys og flt False))"

end
