(* ===== verification/Dex_Agreement.thy ===== *)
theory Dex_Agreement
  imports Dex_Provenance
begin

text \<open>
  The two parsers of a Pump.fun trade, written apart in the source: the hot path's, over the outer
  instructions of a shred, and the full one of \<open>src/instr/pump.rs\<close>. On data and accounts the hot path
  accepts, its event is the full parser's with the token programs defaulted and the flags of
  the mints created in the same transaction.
\<close>

section \<open>Arguments\<close>

lemma read_u64_le_None: "offset \<le> 8 \<Longrightarrow> read_u64_le data offset = None \<longleftrightarrow> length data < offset + 8"
  by (simp add: read_u64_le_def read_slice_None_iff)

lemma trade_args_read:
  assumes "length data \<ge> 16"
  shows "\<exists>a b. read_u64_le data 0 = Some a \<and> read_u64_le data 8 = Some b \<and> trade_args data = (a, b)"
  using assms read_u64_le_None [of 0 data] read_u64_le_None [of 8 data]
  by (auto simp: trade_args_def or_zero_def)

lemma get_account_in: "i < length accounts \<Longrightarrow> get_account accounts i = Some (accounts ! i)"
  by (simp add: get_account_def get_at_def)

lemma acct_in: "i < length accounts \<Longrightarrow> acct accounts i = accounts ! i"
  by (simp add: acct_def get_account_in)

lemma acct_out: "length accounts \<le> i \<Longrightarrow> acct accounts i = default_pubkey"
  by (simp add: acct_def get_account_def get_at_def)

lemma known_account_acct: "known_account (get_account accounts i) =
    (if acct accounts i \<noteq> default_pubkey then Some (acct accounts i) else None)"
  by (simp add: known_account_def acct_def split: option.splits)

section \<open>The view of the hot path\<close>

definition flag_created :: "created_mints \<Rightarrow> pumpfun_trade_event \<Rightarrow> pumpfun_trade_event" where
  "flag_created mints t =
     (if pt_is_buy t
      then t\<lparr>pt_is_created_buy := (pt_mint t \<in> set (fst mints)), pt_mayhem_mode := (pt_mint t \<in> set (snd mints))\<rparr>
      else t)"

definition default_programs :: "bool \<Rightarrow> pumpfun_trade_event \<Rightarrow> pumpfun_trade_event" where
  "default_programs quoted t =
     t\<lparr>pt_token_program := token_program_or_default (pt_token_program t),
       pt_quote_token_program :=
         (if quoted then token_program_or_default (pt_quote_token_program t) else pt_quote_token_program t)\<rparr>"

definition hot_view :: "bytes \<Rightarrow> created_mints \<Rightarrow> pumpfun_trade_event \<Rightarrow> pumpfun_trade_event" where
  "hot_view disc mints t =
     flag_created mints
       (if disc \<in> {PUMP_BUY, PUMP_BUY_EXACT_SOL_IN, PUMP_SELL} then default_programs False t
        else if disc \<in> {PUMP_BUY_V2, PUMP_BUY_EXACT_QUOTE_IN_V2, PUMP_SELL_V2} then default_programs True t
        else t)"

lemma map_trade_Trade [simp]: "map_trade u e = e" if "\<nexists>t. e = Pump_Fun_Event (PumpFunTrade_Event t) \<or>
  e = Pump_Fun_Event (PumpFunBuy_Event t) \<or> e = Pump_Fun_Event (PumpFunSell_Event t) \<or>
  e = Pump_Fun_Event (PumpFunBuyExactSolIn_Event t)"
  using that by (cases "(u, e)" rule: map_trade.cases) auto

lemmas agree_conv = if_False if_True Let_def bind.simps prod.case option.map map_trade.simps comp_def
  option.inject dex_event.inject pump_fun_event.inject simp_thms

lemmas agree_view = flag_created_def default_programs_def known_account_acct track_volume_def

lemma buy_agrees:
  assumes "length data \<ge> 16" "\<not> (case get_at 16 data of None \<Rightarrow> False | Some v \<Rightarrow> v > 1)"
  shows "shred_buy_instruction data accounts og mints =
    map_option (map_trade (flag_created mints \<circ> default_programs False))
      (pump_buy_instruction data accounts og None ''buy'' False)"
proof (cases "length accounts < 16")
  case False
  obtain a b where ab: "read_u64_le data 0 = Some a" "read_u64_le data 8 = Some b" "trade_args data = (a, b)"
    using trade_args_read [OF assms(1)] by blast
  have mint: "get_account accounts 2 = Some (accounts ! 2)" using False by (simp add: get_account_in)
  show ?thesis
    using False assms(2)
    unfolding shred_buy_instruction_def pump_buy_instruction_def buy_amounts_def
    by (simp only: agree_conv ab mint) (simp add: default_trade_def agree_view)
qed (simp add: shred_buy_instruction_def pump_buy_instruction_def)

lemma buy_exact_agrees:
  assumes "length data \<ge> 16" "\<not> (case get_at 16 data of None \<Rightarrow> False | Some v \<Rightarrow> v > 1)"
  shows "shred_buy_exact_sol_in_instruction data accounts og mints =
    map_option (map_trade (flag_created mints \<circ> default_programs False))
      (pump_buy_instruction data accounts og None ''buy_exact_sol_in'' True)"
proof (cases "length accounts < 16")
  case False
  obtain a b where ab: "read_u64_le data 0 = Some a" "read_u64_le data 8 = Some b" "trade_args data = (a, b)"
    using trade_args_read [OF assms(1)] by blast
  have mint: "get_account accounts 2 = Some (accounts ! 2)" using False by (simp add: get_account_in)
  show ?thesis
    using False assms(2)
    unfolding shred_buy_exact_sol_in_instruction_def pump_buy_instruction_def buy_amounts_def
    by (simp only: agree_conv ab mint) (simp add: default_trade_def agree_view)
qed (simp add: shred_buy_exact_sol_in_instruction_def pump_buy_instruction_def)

lemma legacy_extras:
  "legacy_sell_extras False accounts =
     (if length accounts \<ge> 17 then acct accounts 14 else default_pubkey,
      if length accounts \<ge> 17 then acct accounts 15 else acct accounts 14,
      if length accounts \<ge> 17 then acct accounts 16 else acct accounts 15)"
  by (simp add: legacy_sell_extras_def acct_out)

lemma normalize_default [simp]: "normalize_pumpfun_quote_mint default_pubkey = PUMPFUN_SOLSCAN_SOL_QUOTE_MINT"
  by (simp add: normalize_pumpfun_quote_mint_def)

lemma sell_agrees:
  assumes "length data \<ge> 16"
  shows "shred_sell_instruction data accounts og =
    map_option (map_trade (flag_created mints \<circ> default_programs False))
      (pump_sell_instruction data accounts og None ''sell'' False)"
proof (cases "length accounts < 14")
  case False
  obtain a b where ab: "read_u64_le data 0 = Some a" "read_u64_le data 8 = Some b" "trade_args data = (a, b)"
    using trade_args_read [OF assms] by blast
  have mint: "get_account accounts 2 = Some (accounts ! 2)" using False by (simp add: get_account_in)
  show ?thesis
    using False unfolding shred_sell_instruction_def pump_sell_instruction_def
    by (simp only: agree_conv ab mint legacy_extras) (simp add: default_trade_def agree_view)
qed (simp add: shred_sell_instruction_def pump_sell_instruction_def)

lemma quote_mint_acct: "quote_mint_from_shred_v2_account (get_account accounts i) = normalize_pumpfun_quote_mint (acct accounts i)"
  by (simp add: quote_mint_from_shred_v2_account_def acct_def)

lemma buy_v2_agrees:
  assumes "length data \<ge> 16" "length accounts \<ge> 27"
  shows "shred_buy_v2_instruction data accounts og mints =
    map_option (map_trade (flag_created mints \<circ> default_programs True))
      (pump_buy_v2_instruction data accounts og None ''buy_v2'' False)"
proof -
  obtain a b where ab: "read_u64_le data 0 = Some a" "read_u64_le data 8 = Some b" "trade_args data = (a, b)"
    using trade_args_read [OF assms(1)] by blast
  have mint: "get_account accounts 1 = Some (accounts ! 1)" using assms(2) by (simp add: get_account_in)
  have len: "\<not> length accounts < 27" using assms(2) by simp
  have in_range: "i < 27 \<Longrightarrow> acct accounts i = accounts ! i" for i using assms(2) by (intro acct_in) simp
  show ?thesis
    unfolding shred_buy_v2_instruction_def pump_buy_v2_instruction_def buy_v2_amounts_def
    by (simp only: agree_conv ab mint len quote_mint_acct)
      (simp add: default_trade_def agree_view in_range)
qed

lemma buy_exact_v2_agrees:
  assumes "length data \<ge> 16" "length accounts \<ge> 27"
  shows "shred_buy_exact_quote_in_v2_instruction data accounts og mints =
    map_option (map_trade (flag_created mints \<circ> default_programs True))
      (pump_buy_v2_instruction data accounts og None ''buy_exact_quote_in_v2'' True)"
proof -
  obtain a b where ab: "read_u64_le data 0 = Some a" "read_u64_le data 8 = Some b" "trade_args data = (a, b)"
    using trade_args_read [OF assms(1)] by blast
  have mint: "get_account accounts 1 = Some (accounts ! 1)" using assms(2) by (simp add: get_account_in)
  have len: "\<not> length accounts < 27" using assms(2) by simp
  have in_range: "i < 27 \<Longrightarrow> acct accounts i = accounts ! i" for i using assms(2) by (intro acct_in) simp
  show ?thesis
    unfolding shred_buy_exact_quote_in_v2_instruction_def pump_buy_v2_instruction_def buy_v2_amounts_def
    by (simp only: agree_conv ab mint len quote_mint_acct)
      (simp add: default_trade_def agree_view in_range)
qed

lemma sell_v2_agrees:
  assumes "length data \<ge> 16" "length accounts \<ge> 26"
  shows "shred_sell_v2_instruction data accounts og =
    map_option (map_trade (flag_created mints \<circ> default_programs True))
      (pump_sell_v2_instruction data accounts og None ''sell_v2'')"
proof -
  obtain a b where ab: "read_u64_le data 0 = Some a" "read_u64_le data 8 = Some b" "trade_args data = (a, b)"
    using trade_args_read [OF assms(1)] by blast
  have mint: "get_account accounts 1 = Some (accounts ! 1)" using assms(2) by (simp add: get_account_in)
  have len: "\<not> length accounts < 26" using assms(2) by simp
  have in_range: "i < 26 \<Longrightarrow> acct accounts i = accounts ! i" for i using assms(2) by (intro acct_in) simp
  show ?thesis
    unfolding shred_sell_v2_instruction_def pump_sell_v2_instruction_def pump_sell_instruction_def legacy_sell_extras_def
    by (simp only: agree_conv ab mint len quote_mint_acct)
      (simp add: default_trade_def agree_view in_range)
qed

end
