(* ===== verification/Dex_Creates.thy ===== *)
theory Dex_Creates
  imports Dex_Agreement
begin

text \<open>The two parsers of a Pump.fun create agree exactly.\<close>

section \<open>Readers at an offset\<close>

lemma get_range_shift:
  "k \<le> length data \<Longrightarrow> get_range (k + a) (length data) data = get_range a (length (drop k data)) (drop k data)"
  by (auto simp: get_range_def add.commute)

lemma read_str_shift: "k \<le> length data \<Longrightarrow> read_str_unchecked data (k + a) = read_str_unchecked (drop k data) a"
  by (simp only: read_str_unchecked_def get_range_shift)

lemma read_create_texts_shift:
  assumes "k \<le> length data"
  shows "read_create_texts data k = map_option (\<lambda>(n, s, u, offset). (n, s, u, k + offset)) (read_create_texts (drop k data) 0)"
  unfolding read_create_texts_def
  using read_str_shift [OF assms] read_str_shift [OF assms, of 0]
  by (simp add: add.assoc split: option.splits Option.bind_splits)

lemma read_pubkey_shift:
  assumes "k \<le> length data" "length data \<le> usize_max"
  shows "read_pubkey data (k + a) = read_pubkey (drop k data) a"
  using assms by (auto simp: read_pubkey_def read_slice_def usize_checked_add_def get_range_def add.commute)

lemma fill_same [simp]: "fill_if_default a a = a" "fill_if_default default_pubkey a = a"
  by (simp_all add: fill_if_default_def)

text \<open>What a filled create has in each field that is filled.\<close>

definition map_create :: "(pumpfun_create_event \<Rightarrow> pumpfun_create_event) \<Rightarrow> 'p dex_event \<Rightarrow> 'p dex_event" where
  "map_create u e = (case e of Pump_Fun_Event (PumpFunCreate_Event c) \<Rightarrow> Pump_Fun_Event (PumpFunCreate_Event (u c)) | _ \<Rightarrow> e)"

lemma map_create_simp [simp]:
  "map_create u (Pump_Fun_Event (PumpFunCreate_Event c)) = Pump_Fun_Event (PumpFunCreate_Event (u c))"
  by (simp add: map_create_def)

lemma create_agrees:
  assumes "8 \<le> length data" "length data \<le> usize_max"
  shows "map_option (map_create (fill_create_accounts (acct accounts))) (shred_create_instruction data accounts og) =
    pump_create_instruction (drop 8 data) accounts og None"
proof (cases "length accounts < 10 \<or> read_create_texts (drop 8 data) 0 = None")
  case True
  then show ?thesis
    by (auto simp: shred_create_instruction_def pump_create_instruction_def read_create_texts_shift [OF assms(1)])
next
  case False
  then obtain n s u offset where texts: "read_create_texts (drop 8 data) 0 = Some (n, s, u, offset)" by auto
  have texts': "read_create_texts data 8 = Some (n, s, u, 8 + offset)"
    by (simp add: read_create_texts_shift [OF assms(1)] texts)
  have creator: "(if 8 + offset = length data then Some default_pubkey else read_pubkey data (8 + offset)) =
      (if offset = length (drop 8 data) then Some default_pubkey else read_pubkey (drop 8 data) offset)"
    using assms(1) unfolding read_pubkey_shift [OF assms] by auto
  have len: "\<not> length accounts < 10" using False by simp
  have mint: "get_account accounts 0 = Some (accounts ! 0)" using len by (intro get_account_in) linarith
  have in_range: "i < 10 \<Longrightarrow> acct accounts i = accounts ! i" for i using len by (intro acct_in) simp
  show ?thesis
  proof (cases "if offset = length (drop 8 data) then Some default_pubkey else read_pubkey (drop 8 data) offset")
    case None
    show ?thesis unfolding shred_create_instruction_def pump_create_instruction_def
      by (simp only: agree_conv texts texts' creator None len)
  next
    case (Some k)
    show ?thesis unfolding shred_create_instruction_def pump_create_instruction_def
      by (simp only: agree_conv texts texts' creator Some len mint map_create_simp pump_fun_event.inject)
        (simp add: default_create_def fill_create_accounts_def in_range)
  qed
qed

section \<open>The second version\<close>

lemma default_pubkey_Cons: "x \<noteq> 0 \<Longrightarrow> default_pubkey \<noteq> x # xs"
  by (auto dest: arg_cong [where f = hd])

lemma fill_quote:
  "16 \<le> length accounts \<Longrightarrow>
     fill_create_quote_accounts (acct accounts) (create_v2_quote_accounts (length accounts) (get_account accounts)) =
       create_v2_quote_accounts (length accounts) (get_account accounts)"
proof -
  assume len: "16 \<le> length accounts"
  show ?thesis
  proof (cases "length accounts \<le> 18")
    case True
    then have "acct accounts 18 = default_pubkey" by (simp add: acct_out)
    moreover have "default_pubkey \<noteq> SPL_TOKEN_PROGRAM_ID" "default_pubkey \<noteq> SPL_TOKEN_2022_PROGRAM_ID"
      by (simp_all add: SPL_TOKEN_PROGRAM_ID_def SPL_TOKEN_2022_PROGRAM_ID_def default_pubkey_Cons)
    ultimately have "create_v2_quote_accounts (18 + 1) (\<lambda>i. Some (acct accounts i)) = (default_pubkey, default_pubkey, default_pubkey)"
      by (simp add: create_v2_quote_accounts_def)
    then show ?thesis by (auto simp: fill_create_quote_accounts_def Let_def split_def)
  next
    case False
    have "create_v2_quote_accounts (18 + 1) (\<lambda>i. Some (acct accounts i)) =
        create_v2_quote_accounts (length accounts) (get_account accounts)"
      using False by (simp add: create_v2_quote_accounts_def get_account_in acct_in)
    then show ?thesis
      by (cases "create_v2_quote_accounts (length accounts) (get_account accounts)")
        (auto simp: fill_create_quote_accounts_def)
  qed
qed

lemma create_v2_agrees:
  assumes "8 \<le> length data" "length data \<le> usize_max"
  shows "map_option (map_create (fill_create_accounts_from_v2 (acct accounts))) (shred_create_v2_instruction data accounts og) =
    pump_create_v2_instruction (drop 8 data) accounts og None"
proof (cases "length accounts < 16 \<or> read_create_texts (drop 8 data) 0 = None")
  case True
  then show ?thesis
    by (auto simp: shred_create_v2_instruction_def pump_create_v2_instruction_def)
next
  case False
  then obtain n s u offset where texts: "read_create_texts (drop 8 data) 0 = Some (n, s, u, offset)" by auto
  have len: "\<not> length accounts < 16" using False by simp
  have mint: "get_account accounts 0 = Some (accounts ! 0)" using len by (intro get_account_in) linarith
  have in_range: "i < 16 \<Longrightarrow> acct accounts i = accounts ! i" for i using len by (intro acct_in) simp
  show ?thesis
  proof (cases "length (drop 8 data) < offset + 32 + 1")
    case True
    show ?thesis unfolding shred_create_v2_instruction_def pump_create_v2_instruction_def
      by (simp only: agree_conv texts len True)
  next
    case False
    then obtain k where k: "read_pubkey (drop 8 data) offset = Some k"
      using assms read_slice_None_iff [of 32 "drop 8 data" offset] by (force simp: read_pubkey_def)
    obtain qm qv qt where q: "create_v2_quote_accounts (length accounts) (get_account accounts) = (qm, qv, qt)"
      by (cases "create_v2_quote_accounts (length accounts) (get_account accounts)")
    have fq: "fill_create_quote_accounts (acct accounts) (qm, qv, qt) = (qm, qv, qt)"
      using fill_quote [of accounts] len by (simp add: q)
    show ?thesis
    proof (cases "read_option_bool_idl (drop 8 data) (offset + 32)")
      case None
      show ?thesis unfolding shred_create_v2_instruction_def pump_create_v2_instruction_def
        by (simp only: agree_conv texts len False k None option.case)
    next
      case (Some m)
      show ?thesis
      proof (cases "parse_create_v2_optional_tail (drop (offset + 32 + 1) (drop 8 data))")
        case None
        show ?thesis unfolding shred_create_v2_instruction_def pump_create_v2_instruction_def
          by (simp only: agree_conv texts len False k Some None option.case)
      next
        case tail: (Some t)
        obtain c f r where t: "t = (c, f, r)" by (cases t)
        show ?thesis unfolding shred_create_v2_instruction_def pump_create_v2_instruction_def
          by (simp only: agree_conv texts len False k Some tail t option.case mint q map_create_simp pump_fun_event.inject)
            (simp add: default_create_def fill_create_accounts_from_v2_def fq in_range)
      qed
    qed
  qed
qed

end
