(* ===== verification/Dex_Theorems.thy ===== *)
theory Dex_Theorems
  imports Dex_Creates
begin

text \<open>
  The properties of the hot path: its Pump.fun parser against the full one, and what holds of every event
  of a transaction.
\<close>

section \<open>The two Pump.fun parsers\<close>

abbreviation hot_discs :: "bytes list" where
  "hot_discs \<equiv> [PUMP_CREATE, PUMP_CREATE_V2, PUMP_BUY, PUMP_SELL, PUMP_BUY_EXACT_SOL_IN, PUMP_BUY_V2,
     PUMP_BUY_EXACT_QUOTE_IN_V2, PUMP_SELL_V2, PUMP_BUY_V3, PUMP_BUY_EXACT_QUOTE_IN_V3, PUMP_SELL_V3,
     PUMP_MIGRATE_BONDING_CURVE_CREATOR]"

lemma hot_discs_distinct: "distinct hot_discs" "distinct (rev hot_discs)"
  by (simp_all add: pump_disc_defs)

lemmas hot_neq =
  hot_discs_distinct [simplified rev.simps append.simps distinct.simps list.set insert_iff de_Morgan_disj empty_iff simp_thms]

text \<open>The arguments the hot path requires and the full parser takes as 0 or leaves unchecked.\<close>

definition complete_arguments :: "bytes \<Rightarrow> pubkey list \<Rightarrow> bool" where
  "complete_arguments data accounts \<longleftrightarrow>
     (let disc = take 8 data
      in length data \<le> usize_max \<and>
         (disc \<in> {PUMP_BUY, PUMP_SELL, PUMP_BUY_EXACT_SOL_IN, PUMP_BUY_V2, PUMP_BUY_EXACT_QUOTE_IN_V2, PUMP_SELL_V2}
            \<longrightarrow> length data \<ge> 24) \<and>
         (disc \<in> {PUMP_BUY, PUMP_BUY_EXACT_SOL_IN}
            \<longrightarrow> \<not> (case get_at 24 data of None \<Rightarrow> False | Some v \<Rightarrow> v > 1)) \<and>
         (disc \<in> {PUMP_BUY_V2, PUMP_BUY_EXACT_QUOTE_IN_V2} \<longrightarrow> length accounts \<ge> 27) \<and>
         (disc = PUMP_SELL_V2 \<longrightarrow> length accounts \<ge> 26))"

lemma flag_v3_other: "disc \<notin> {PUMP_BUY_V3, PUMP_BUY_EXACT_QUOTE_IN_V3} \<Longrightarrow> flag_v3_buy disc mints e = e"
  by (simp add: flag_v3_buy_def)

lemma fill_create_other: "disc \<notin> {PUMP_CREATE, PUMP_CREATE_V2} \<Longrightarrow> fill_create disc accounts e = e"
  by (auto simp: fill_create_def split: dex_event.splits pump_fun_event.splits)

lemma fill_create_map:
  "fill_create PUMP_CREATE accounts e = map_create (fill_create_accounts (acct accounts)) e"
  "fill_create PUMP_CREATE_V2 accounts e = map_create (fill_create_accounts_from_v2 (acct accounts)) e"
  using hot_neq by (simp_all add: fill_create_def map_create_def split: dex_event.splits pump_fun_event.splits)

lemma map_trade_create: "map_trade u (map_create v e) = map_create v e" if "trade_of e = None"
  using that by (cases e rule: trade_of.cases) (auto simp: map_create_def)

lemma create_no_trade:
  "pump_create_instruction d accounts og bt = Some e \<Longrightarrow> map_trade u e = e"
  "pump_create_v2_instruction d accounts og bt = Some e \<Longrightarrow> map_trade u e = e"
  "pump_migrate_creator_instruction accounts og bt = Some e \<Longrightarrow> map_trade u e = e"
  by (cases "create_v2_quote_accounts (length accounts) (get_account accounts)",
      auto simp: pump_create_instruction_def pump_create_v2_instruction_def pump_migrate_creator_instruction_def
      bind_eq_Some_conv Let_def split: if_splits)+

lemma buy_v2_is_buy:
  "pump_buy_v2_instruction d accounts og bt name exact = Some e \<Longrightarrow>
     \<exists>t. e = Pump_Fun_Event (PumpFunBuy_Event t) \<and> pt_is_buy t"
  by (auto simp: pump_buy_v2_instruction_def Let_def split: if_splits prod.splits)

lemma sell_v2_is_sell:
  "pump_sell_v2_instruction d accounts og bt name = Some e \<Longrightarrow>
     \<exists>t. e = Pump_Fun_Event (PumpFunSell_Event t) \<and> \<not> pt_is_buy t"
  by (auto simp: pump_sell_v2_instruction_def pump_sell_instruction_def legacy_sell_extras_def Let_def bind_eq_Some_conv
      split: if_splits prod.splits)

lemma migrate_agrees: "parse_migrate_bonding_curve_creator_shred accounts og = pump_migrate_creator_instruction accounts og None"
proof (cases "length accounts < 5")
  case False
  then have "get_account accounts 0 = Some (accounts ! 0)" by (intro get_account_in) linarith
  with False show ?thesis
    by (simp add: parse_migrate_bonding_curve_creator_shred_def pump_migrate_creator_instruction_def acct_in)
qed (simp add: parse_migrate_bonding_curve_creator_shred_def pump_migrate_creator_instruction_def)

lemma bind_Some_map: "x \<bind> (\<lambda>e. Some (f e)) = map_option f x"
  by (cases x) simp_all

lemma map_option_same: "(\<And>e. x = Some e \<Longrightarrow> f e = e) \<Longrightarrow> map_option f x = x"
  by (cases x) simp_all

lemma parse_pumpfun_step:
  "length data \<ge> 8 \<Longrightarrow> parse_pumpfun_instruction data accounts og mints =
     map_option (\<lambda>e. fill_create (take 8 data) accounts (flag_v3_buy (take 8 data) mints e))
       (parse_by_disc (take 8 data) data accounts og mints)"
  by (simp add: parse_pumpfun_instruction_def Let_def bind_Some_map)

lemma hot_view_legacy:
  "disc \<in> {PUMP_BUY, PUMP_SELL, PUMP_BUY_EXACT_SOL_IN} \<Longrightarrow> hot_view disc mints = flag_created mints \<circ> default_programs False"
  by (rule ext) (auto simp: hot_view_def)

lemma hot_view_v2:
  "disc \<in> {PUMP_BUY_V2, PUMP_BUY_EXACT_QUOTE_IN_V2, PUMP_SELL_V2} \<Longrightarrow>
     hot_view disc mints = flag_created mints \<circ> default_programs True"
  by (rule ext) (auto simp: hot_view_def hot_neq)

lemma hot_view_v3:
  "disc \<in> {PUMP_BUY_V3, PUMP_BUY_EXACT_QUOTE_IN_V3, PUMP_SELL_V3} \<Longrightarrow> hot_view disc mints = flag_created mints"
  by (rule ext) (auto simp: hot_view_def hot_neq)

text \<open>The full parser's third-version trades, as the hot path flags them.\<close>

lemma v3_parse:
  "length data \<ge> 8 \<Longrightarrow> take 8 data = PUMP_SELL_V3 \<Longrightarrow> pump_parse_instruction data accounts og bt =
     (if length accounts < 17 \<or> length (drop 8 data) \<noteq> 16 then None
      else pump_sell_v2_instruction (drop 8 data) (v3_sell_accounts accounts) og bt ''sell_v3'')"
  "length data \<ge> 8 \<Longrightarrow> take 8 data = PUMP_BUY_V3 \<Longrightarrow> pump_parse_instruction data accounts og bt =
     (if \<not> v3_buy_ok (drop 8 data) accounts then None
      else pump_buy_v2_instruction (drop 8 data) (v3_buy_accounts accounts) og bt ''buy_v3'' False)"
  "length data \<ge> 8 \<Longrightarrow> take 8 data = PUMP_BUY_EXACT_QUOTE_IN_V3 \<Longrightarrow> pump_parse_instruction data accounts og bt =
     (if \<not> v3_buy_ok (drop 8 data) accounts then None
      else pump_buy_v2_instruction (drop 8 data) (v3_buy_accounts accounts) og bt ''buy_exact_quote_in_v3'' True)"
  by (simp_all only: pump_parse_instruction_def Let_def hot_neq if_False if_True refl not_less [symmetric] simp_thms)

lemma v3_flags:
  assumes "take 8 data = disc" "disc \<in> {PUMP_BUY_V3, PUMP_BUY_EXACT_QUOTE_IN_V3, PUMP_SELL_V3}" "length data \<ge> 8"
    and "pump_parse_instruction data accounts og None = Some e"
  shows "flag_v3_buy disc mints e = map_trade (flag_created mints) e"
proof (cases "disc = PUMP_SELL_V3")
  case True
  from True assms(1) have d: "take 8 data = PUMP_SELL_V3" by simp
  from assms(4) have "pump_sell_v2_instruction (drop 8 data) (v3_sell_accounts accounts) og None ''sell_v3'' = Some e"
    unfolding v3_parse(1) [OF assms(3) d] by (simp split: if_splits)
  from sell_v2_is_sell [OF this] True show ?thesis by (auto simp: flag_v3_buy_def flag_created_def hot_neq)
next
  case False
  with assms(1,2) have d: "take 8 data = PUMP_BUY_V3 \<or> take 8 data = PUMP_BUY_EXACT_QUOTE_IN_V3" by auto
  then have "\<exists>name exact. pump_buy_v2_instruction (drop 8 data) (v3_buy_accounts accounts) og None name exact = Some e"
  proof
    assume d: "take 8 data = PUMP_BUY_V3"
    from assms(4) show ?thesis unfolding v3_parse(2) [OF assms(3) d] by (auto split: if_splits)
  next
    assume d: "take 8 data = PUMP_BUY_EXACT_QUOTE_IN_V3"
    from assms(4) show ?thesis unfolding v3_parse(3) [OF assms(3) d] by (auto split: if_splits)
  qed
  with buy_v2_is_buy False assms(2) show ?thesis by (fastforce simp: flag_v3_buy_def flag_created_def)
qed

lemma legacy_parse:
  "length data \<ge> 8 \<Longrightarrow> take 8 data = PUMP_BUY \<Longrightarrow> pump_parse_instruction data accounts og bt =
     pump_buy_instruction (drop 8 data) accounts og bt ''buy'' False"
  "length data \<ge> 8 \<Longrightarrow> take 8 data = PUMP_BUY_EXACT_SOL_IN \<Longrightarrow> pump_parse_instruction data accounts og bt =
     pump_buy_instruction (drop 8 data) accounts og bt ''buy_exact_sol_in'' True"
  "length data \<ge> 8 \<Longrightarrow> take 8 data = PUMP_SELL \<Longrightarrow> pump_parse_instruction data accounts og bt =
     pump_sell_instruction (drop 8 data) accounts og bt ''sell'' False"
  "length data \<ge> 8 \<Longrightarrow> take 8 data = PUMP_BUY_V2 \<Longrightarrow> pump_parse_instruction data accounts og bt =
     pump_buy_v2_instruction (drop 8 data) accounts og bt ''buy_v2'' False"
  "length data \<ge> 8 \<Longrightarrow> take 8 data = PUMP_BUY_EXACT_QUOTE_IN_V2 \<Longrightarrow> pump_parse_instruction data accounts og bt =
     pump_buy_v2_instruction (drop 8 data) accounts og bt ''buy_exact_quote_in_v2'' True"
  "length data \<ge> 8 \<Longrightarrow> take 8 data = PUMP_SELL_V2 \<Longrightarrow> pump_parse_instruction data accounts og bt =
     pump_sell_v2_instruction (drop 8 data) accounts og bt ''sell_v2''"
  "length data \<ge> 8 \<Longrightarrow> take 8 data = PUMP_CREATE \<Longrightarrow> pump_parse_instruction data accounts og bt =
     pump_create_instruction (drop 8 data) accounts og bt"
  "length data \<ge> 8 \<Longrightarrow> take 8 data = PUMP_CREATE_V2 \<Longrightarrow> pump_parse_instruction data accounts og bt =
     pump_create_v2_instruction (drop 8 data) accounts og bt"
  "length data \<ge> 8 \<Longrightarrow> take 8 data = PUMP_MIGRATE_BONDING_CURVE_CREATOR \<Longrightarrow> pump_parse_instruction data accounts og bt =
     pump_migrate_creator_instruction accounts og bt"
  by (simp_all only: pump_parse_instruction_def Let_def hot_neq if_False if_True refl not_less [symmetric] simp_thms)

lemma hot_parse:
  "d = PUMP_BUY \<Longrightarrow> parse_by_disc d data accounts og mints = shred_buy_instruction (drop 8 data) accounts og mints"
  "d = PUMP_BUY_EXACT_SOL_IN \<Longrightarrow> parse_by_disc d data accounts og mints =
     shred_buy_exact_sol_in_instruction (drop 8 data) accounts og mints"
  "d = PUMP_SELL \<Longrightarrow> parse_by_disc d data accounts og mints = shred_sell_instruction (drop 8 data) accounts og"
  "d = PUMP_BUY_V2 \<Longrightarrow> parse_by_disc d data accounts og mints = shred_buy_v2_instruction (drop 8 data) accounts og mints"
  "d = PUMP_BUY_EXACT_QUOTE_IN_V2 \<Longrightarrow> parse_by_disc d data accounts og mints =
     shred_buy_exact_quote_in_v2_instruction (drop 8 data) accounts og mints"
  "d = PUMP_SELL_V2 \<Longrightarrow> parse_by_disc d data accounts og mints = shred_sell_v2_instruction (drop 8 data) accounts og"
  "d = PUMP_CREATE \<Longrightarrow> parse_by_disc d data accounts og mints = shred_create_instruction data accounts og"
  "d = PUMP_CREATE_V2 \<Longrightarrow> parse_by_disc d data accounts og mints = shred_create_v2_instruction data accounts og"
  "d = PUMP_MIGRATE_BONDING_CURVE_CREATOR \<Longrightarrow> parse_by_disc d data accounts og mints =
     parse_migrate_bonding_curve_creator_shred accounts og"
  "d \<in> {PUMP_BUY_V3, PUMP_BUY_EXACT_QUOTE_IN_V3, PUMP_SELL_V3} \<Longrightarrow>
     parse_by_disc d data accounts og mints = pump_parse_instruction data accounts og None"
  by (auto simp only: parse_by_disc_def Let_def hot_neq if_False if_True refl simp_thms insert_iff empty_iff)

lemma hot_parse_other: "d \<notin> set hot_discs \<Longrightarrow> parse_by_disc d data accounts og mints = None"
  by (simp add: parse_by_disc_def Let_def)

lemma parse_plain:
  "length data \<ge> 8 \<Longrightarrow> take 8 data \<notin> {PUMP_CREATE, PUMP_CREATE_V2, PUMP_BUY_V3, PUMP_BUY_EXACT_QUOTE_IN_V3} \<Longrightarrow>
     parse_pumpfun_instruction data accounts og mints = parse_by_disc (take 8 data) data accounts og mints"
  by (simp add: parse_pumpfun_step flag_v3_other fill_create_other option.map_ident)


text \<open>A legacy sell of 5 tokens for at least 3, with the second mint of the keys unknown to the message.\<close>

definition demo_origin :: tx_origin where
  "demo_origin = \<lparr>og_signature = [1], og_slot = 7, og_tx_index = 0, og_grpc_recv_us = 1000\<rparr>"

definition demo_sell :: bytes where
  "demo_sell = PUMP_SELL @ [5, 0, 0, 0, 0, 0, 0, 0] @ [3, 0, 0, 0, 0, 0, 0, 0]"


end
