(* ===== verification/Dex_Origin.thy ===== *)
theory Dex_Origin
  imports Dex_Theorems
begin

text \<open>
  What the enrichment and the stamping of a transaction's events leave alone, so that a fact about every
  outer instruction's events becomes one about every event of the transaction.
\<close>

section \<open>Enrichment as one map\<close>

lemma map_creates_comp: "map_creates u v (map_creates u' v' e) = map_creates (u \<circ> u') (v \<circ> v') e"
  by (cases e rule: trade_of.cases; simp add: map_creates.simps)

lemma map_trades_id: "map_trades id e = e"
  by (cases e rule: trade_of.cases; simp)

lemma maps_of_id: "map_creates id id = id" "map_creates (\<lambda>c. c) (\<lambda>v. v) = id" "map_trades id = id"
  by (rule ext, simp add: map_trades_id)+

lemma flag_trade_Nil: "flag_trade [] = id"
  by (auto simp: flag_trade_def)

lemma observed_fee_Nil: "observed_fee [] mint old = old"
  by (simp add: observed_fee_def)

lemma traded_quote_Nil: "traded_quote [] mint old = old"
  by (simp add: traded_quote_def)

definition learn_creates :: "(pubkey \<times> pumpfun_create_event) list \<Rightarrow> pumpfun_create_v2_event \<Rightarrow> pumpfun_create_v2_event" where
  "learn_creates creates v =
     (if pv_mint v = default_pubkey then v
      else case map_of creates (pv_mint v) of None \<Rightarrow> v | Some create \<Rightarrow> fill_create_v2_from_create create v)"

lemma learn_creates_Nil: "learn_creates [] = id"
  by (auto simp: learn_creates_def)

lemma enrich_creates_map:
  "enrich_create_v2_from_create_events events =
     map (map_creates id (learn_creates (collect_create_events_by_mint events))) events"
  by (cases "collect_create_events_by_mint events = []")
    (simp_all add: enrich_create_v2_from_create_events_def learn_creates_Nil maps_of_id Let_def,
     simp add: learn_creates_def [abs_def])

lemma enrich_fees_map:
  "enrich_create_observed_fee_recipient events =
     map (map_creates
       (\<lambda>c. c\<lparr>pc_observed_fee_recipient := observed_fee (collect_first known_mint_fee events) (pc_mint c) (pc_observed_fee_recipient c)\<rparr>)
       (\<lambda>c. c\<lparr>pv_observed_fee_recipient := observed_fee (collect_first known_mint_fee events) (pv_mint c) (pv_observed_fee_recipient c)\<rparr>))
       events"
  by (cases "collect_first known_mint_fee events = []")
    (simp_all add: enrich_create_observed_fee_recipient_def observed_fee_Nil maps_of_id Let_def)

lemma enrich_quotes_map:
  "enrich_create_quote_mint_from_trades events =
     map (map_creates
       (\<lambda>c. c\<lparr>pc_quote_mint := traded_quote (collect_first pumpfun_trade_mint_quote events) (pc_mint c) (pc_quote_mint c)\<rparr>)
       (\<lambda>c. c\<lparr>pv_quote_mint := traded_quote (collect_first pumpfun_trade_mint_quote events) (pv_mint c) (pv_quote_mint c)\<rparr>))
       events"
  by (cases "collect_first pumpfun_trade_mint_quote events = []")
    (simp_all add: enrich_create_quote_mint_from_trades_def traded_quote_Nil maps_of_id Let_def)

lemma enrich_trades_map:
  "enrich_pumpfun_trades_from_create_instructions events =
     map (map_trades (flag_trade (collect_create_cashback_and_mayhem events))) events"
  by (cases "collect_create_cashback_and_mayhem events = []")
    (simp_all add: enrich_pumpfun_trades_from_create_instructions_def flag_trade_Nil maps_of_id Let_def)

lemma enrich_form:
  "\<exists>flags u v. enrich_pumpfun_same_tx_post_merge events =
     map (\<lambda>e. map_trades (flag_trade flags) (map_creates u v e)) events"
  unfolding enrich_pumpfun_same_tx_post_merge_def enrich_trades_map enrich_quotes_map enrich_fees_map enrich_creates_map
  by (simp add: comp_def map_creates_comp) blast

section \<open>What the maps leave alone\<close>

lemma trade_of_maps [simp]:
  "trade_of (map_creates u v e) = trade_of e" "trade_of (map_trades w e) = map_option w (trade_of e)"
  by (cases e rule: trade_of.cases; simp)+

lemma trade_of_stamp_create [simp]: "trade_of (stamp_create m e) = trade_of e"
  by (simp add: stamp_create_def Let_def)

lemma trade_of_stamp_metadata:
  "\<exists>g. trade_of (stamp_metadata m r e) = map_option (pt_metadata_update g) (trade_of e)"
proof -
  let ?g = "\<lambda>md. md\<lparr>em_grpc_recv_us := r, em_recent_blockhash := Some (dm_recent_blockhash m)\<rparr>"
  have "trade_of (stamp_metadata m r e) = map_option (pt_metadata_update ?g) (trade_of e)"
    by (cases e rule: trade_of.cases; simp add: stamp_metadata_def)
  then show ?thesis by blast
qed

lemma type_of_maps [simp]:
  "event_type_from_dex_event (map_creates u v e) = event_type_from_dex_event e"
  "event_type_from_dex_event (map_trades w e) = event_type_from_dex_event e"
  by (cases e rule: trade_of.cases; simp)+

lemma flag_trade_simps [simp]:
  "is_unresolved_trade (flag_trade flags t) = is_unresolved_trade t"
  "pt_is_created_buy (flag_trade flags t) = pt_is_created_buy t"
  "pt_is_buy (flag_trade flags t) = pt_is_buy t" "pt_mint (flag_trade flags t) = pt_mint t"
  by (simp_all add: flag_trade_def is_unresolved_trade_def split: option.split prod.split)

lemma wanted_map_creates: "should_include_dex_event f (map_creates u v e) = should_include_dex_event f e"
  by (cases e rule: trade_of.cases; simp add: should_include_dex_event_def)

lemma wanted_map_trades: "should_include_dex_event f (map_trades (flag_trade flags) e) = should_include_dex_event f e"
  by (cases e rule: trade_of.cases; simp add: should_include_dex_event_def)

lemma wanted_stamp: "should_include_dex_event f (stamp_metadata m r (stamp_create m e)) = should_include_dex_event f e"
proof -
  have "should_include_dex_event f (stamp_metadata m r e) = should_include_dex_event f e" for e :: "'a dex_event"
    by (cases e) (simp_all add: stamp_metadata_def should_include_dex_event_def is_unresolved_trade_def Let_def split: pump_fun_event.splits)
  then show ?thesis by (simp add: stamp_create_def wanted_map_creates Let_def)
qed

end
