(* ===== verification/Dex_Demo.thy ===== *)
theory Dex_Demo
  imports Dex_Theorems
begin

text \<open>
  A concrete transaction for the witnesses: an outer program that is handed the Pump.fun program, a buy of
  the mint \<open>[5]\<close> for 3 and, after it, an instruction that creates the mint; and parsers of the other
  protocols that recognise nothing.
\<close>

definition demo_wrapper :: dex_instruction where
  "demo_wrapper = \<lparr>di_program_id_index = 1, di_accounts = [0], di_data = [1, 2]\<rparr>"

definition demo_buy :: dex_instruction where
  "demo_buy = \<lparr>di_program_id_index = 0, di_accounts = [1, 1, 2] @ replicate 13 1,
     di_data = PUMP_BUY @ [5, 0, 0, 0, 0, 0, 0, 0] @ [3, 0, 0, 0, 0, 0, 0, 0]\<rparr>"

definition demo_create :: dex_instruction where
  "demo_create = \<lparr>di_program_id_index = 0, di_accounts = [2], di_data = PUMP_CREATE\<rparr>"

definition demo_keys :: "pubkey list" where
  "demo_keys = [PUMPFUN_PROGRAM_ID, [9], [5]]"

definition demo_message :: dex_message where
  "demo_message =
     \<lparr>dm_version = Legacy_Message, dm_static_account_keys = demo_keys, dm_address_table_lookups = None,
      dm_instructions = [demo_wrapper, demo_buy, demo_create], dm_recent_blockhash = ''h''\<rparr>"

definition demo_parsers :: "unit protocol_parsers" where
  "demo_parsers =
     (let none = (\<lambda>_ _ _ _. None)
      in \<lparr>pp_dbc_event_cpi = none, pp_cpmm_lp_change = none, pp_pumpswap = none, pp_meteora_damm = none,
          pp_pump_fees = none, pp_launchlab = none, pp_cpmm = none, pp_clmm = none, pp_amm_v4 = none,
          pp_orca = none, pp_meteora_pools = none, pp_meteora_dlmm = none\<rparr>)"

definition demo_derive :: address_derivation where
  "demo_derive = (\<lambda>_ _. ([], 0))"

lemma demo_enumerate: "enumerate 0 (dm_instructions demo_message) = [(0, demo_wrapper), (1, demo_buy), (2, demo_create)]"
  by (simp add: demo_message_def)

lemma demo_key_count: "message_key_count demo_message = 3"
  by (simp add: message_key_count_def demo_message_def demo_keys_def lookups_of_def)

section \<open>The outer program\<close>

lemma short_not_default: "[k] \<noteq> default_pubkey"
  by (auto dest: arg_cong [where f = length])

lemma demo_third_party: "is_third_party_program [9]"
  by (simp add: is_third_party_program_def program_id_defs supported_unified_outer_programs_def is_infrastructure_program_def
      infrastructure_programs_def short_not_default ROUTE_SPL_TOKEN_def ROUTE_TOKEN_2022_def ROUTE_ASSOCIATED_TOKEN_def
      ROUTE_COMPUTE_BUDGET_def ROUTE_MEMO_def MEMO_V1_PROGRAM_def ADDRESS_LOOKUP_TABLE_PROGRAM_def VOTE_PROGRAM_def
      ED25519_PROGRAM_def SECP256K1_PROGRAM_def SECP256R1_PROGRAM_def)

lemma demo_wrapper_event:
  assumes "allows flt includes_unresolved_pumpfun"
  shows "(Pump_Fun_Event (PumpFunTrade_Event (wrapper_trade [9] 0 demo_wrapper demo_keys demo_origin)) :: unit dex_event) \<in>
    set (outer_events demo_parsers demo_derive demo_keys 3 demo_origin flt mints best_effort (0, demo_wrapper))"
proof -
  have "get_at 1 demo_keys = Some [9]" "get_at 0 demo_keys = Some PUMPFUN_PROGRAM_ID" "[9] \<noteq> PUMPSWAP_PROGRAM_ID"
    by (simp_all add: demo_keys_def get_at_def PUMPSWAP_PROGRAM_ID_def)
  then show ?thesis
    using assms demo_third_party by (simp add: outer_events_def demo_wrapper_def wrapper_events_def)
qed

section \<open>The buy\<close>

lemma demo_buy_event:
  "\<exists>t. (Pump_Fun_Event (PumpFunBuy_Event t) :: unit dex_event) \<in>
     set (outer_events demo_parsers demo_derive demo_keys 3 demo_origin None mints False (1, demo_buy)) \<and>
     pt_is_buy t \<and> pt_mint t = [5]"
proof -
  let ?accounts = "build_shred_ix_accounts demo_keys (di_accounts demo_buy)"
  have program: "get_at (unat (di_program_id_index demo_buy)) demo_keys = Some PUMPFUN_PROGRAM_ID"
    by (simp add: demo_buy_def demo_keys_def get_at_def)
  have disc: "take 8 (di_data demo_buy) = PUMP_BUY" "length (di_data demo_buy) = 24"
    by (simp_all add: demo_buy_def PUMP_BUY_def)
  have known: "\<not> malformed_pump demo_buy demo_keys 3"
    by (simp add: malformed_pump_def instruction_keys_resolved_def disc Let_def)
      (simp add: demo_buy_def pump_disc_defs)
  have accounts: "get_account ?accounts 2 = Some [5]" "length ?accounts = 16"
    by (simp_all add: build_shred_ix_accounts_def demo_buy_def account_from_static_or_default_def get_account_def get_at_def demo_keys_def)
  have args: "read_u64_le (drop 8 (di_data demo_buy)) 0 = Some 5" "read_u64_le (drop 8 (di_data demo_buy)) 8 = Some 3"
    "get_at 16 (drop 8 (di_data demo_buy)) = None"
    by (simp_all add: demo_buy_def PUMP_BUY_def read_u64_le_def read_slice_def usize_checked_add_def get_range_def
        from_le_def le_nat_def get_at_def)
  have "\<exists>t. shred_buy_instruction (drop 8 (di_data demo_buy)) ?accounts demo_origin mints =
      Some (Pump_Fun_Event (PumpFunBuy_Event t) :: unit dex_event) \<and> pt_is_buy t \<and> pt_mint t = [5]"
    by (simp add: shred_buy_instruction_def accounts args Let_def)
  then obtain t where t: "shred_buy_instruction (drop 8 (di_data demo_buy)) ?accounts demo_origin mints =
      Some (Pump_Fun_Event (PumpFunBuy_Event t) :: unit dex_event)" "pt_is_buy t" "pt_mint t = [5]" by blast
  have parse: "parse_pumpfun_instruction (di_data demo_buy) ?accounts demo_origin mints =
      Some (Pump_Fun_Event (PumpFunBuy_Event t) :: unit dex_event)"
    using parse_plain [of "di_data demo_buy" ?accounts demo_origin mints, where 'a = unit] t(1) disc
    by (simp add: hot_neq hot_parse(1))
  let ?t = "clear_unresolved (di_data demo_buy) (di_accounts demo_buy) (length demo_keys) t"
  have facts: "di_data demo_buy \<noteq> []" "\<not> program_id_references_loaded_key (di_program_id_index demo_buy) (length demo_keys)"
    "pumpfun_outer_data_may_parse (di_data demo_buy)"
    using disc by (auto simp: pumpfun_outer_data_may_parse_def disc8_def get_range_def program_id_references_loaded_key_def
        demo_keys_def demo_buy_def)
  have "dispatch_shred_outer demo_parsers demo_buy demo_keys demo_origin None mints False =
      [Pump_Fun_Event (PumpFunBuy_Event ?t)]"
    unfolding dispatch_shred_outer_def Let_def program
    by (simp add: facts parse allows_def preserve_unresolved_pumpfun_accounts_def push_filtered_shred_event_def)
  moreover have "\<not> is_third_party_program PUMPFUN_PROGRAM_ID" "PUMPFUN_PROGRAM_ID \<noteq> PUMPSWAP_PROGRAM_ID"
    by (simp_all add: is_third_party_program_def PUMPFUN_PROGRAM_ID_def PUMPSWAP_PROGRAM_ID_def)
  ultimately show ?thesis
    using known t(2,3) program by (intro exI [of _ ?t]) (simp add: outer_events_def clear_unresolved_def Let_def)
qed

end
