(* ===== verification/Dex_Properties.thy ===== *)
theory Dex_Properties
  imports Dex_Origin Dex_Demo
begin

text \<open>
  What holds of every event of a transaction: it is one the subscription wants, its created-buy flag
  is exact, and what loaded addresses change.
\<close>

section \<open>Where an event comes from\<close>

lemma supported_is_unified: "is_supported_unified_outer_program p flt \<Longrightarrow> p \<in> set supported_unified_outer_programs"
  by (simp add: is_supported_unified_outer_program_def supported_unified_outer_programs_def split: option.splits if_splits)

lemma first_candidate_cases:
  "e \<in> set (first_candidate pp data accounts og flt ps) \<Longrightarrow>
     \<exists>p ev. p \<in> set supported_unified_outer_programs \<and>
       parse_instruction_unified pp data accounts og None flt p = Some ev \<and> e \<in> set (push_filtered_shred_event ev flt)"
  by (induction ps)
    (auto simp: parse_non_pump_dex_outer_def dest: supported_is_unified split: if_splits option.splits)

lemma unknown_pump_cases:
  assumes "e \<in> set (unknown_pump_events d a og flt mints)"
  shows "allows flt includes_pumpfun \<and>
    (\<exists>ev. parse_pumpfun_instruction d a og mints = Some ev \<and> e \<in> set (push_filtered_shred_event ev flt))"
proof (cases "allows flt includes_pumpfun \<and> pumpfun_outer_data_may_parse d")
  case True
  with assms have "e \<in> set (case parse_pumpfun_instruction d a og mints of Some ev \<Rightarrow> push_filtered_shred_event ev flt | None \<Rightarrow> [])"
    by (simp only: unknown_pump_events_def if_True simp_thms)
  then show ?thesis
    by (cases "parse_pumpfun_instruction d a og mints :: 'a dex_event option") (simp_all add: True)
next
  case False
  then have "unknown_pump_events d a og flt mints = ([] :: 'a dex_event list)"
    by (simp only: unknown_pump_events_def if_False)
  with assms show ?thesis by simp
qed

text \<open>A dispatched event is the Pump.fun parser's, allowed by the filter, or another protocol's.\<close>

lemma dispatch_cases:
  assumes "e \<in> set (dispatch_shred_outer pp ix keys og flt mints best_effort)"
  obtains (pump) ev n where
      "allows flt includes_pumpfun"
      "parse_pumpfun_instruction (di_data ix) (build_shred_ix_accounts keys (di_accounts ix)) og mints = Some ev"
      "e \<in> set (push_filtered_shred_event ev flt) \<or>
       e \<in> set (push_filtered_shred_event (preserve_unresolved_pumpfun_accounts (di_data ix) (di_accounts ix) n ev) flt)"
  | (other) p ev where "p \<in> set supported_unified_outer_programs"
      "parse_instruction_unified pp (di_data ix) (build_shred_ix_accounts keys (di_accounts ix)) og None flt p = Some ev"
      "e \<in> set (push_filtered_shred_event ev flt)"
proof -
  consider (unknown) "e \<in> set (parse_unknown_program_outer pp (di_accounts ix) (di_data ix) keys og flt mints)"
    | (known) program where "e \<in> set (dispatch_shred_outer pp ix keys og flt mints best_effort)"
        "\<not> program_id_references_loaded_key (di_program_id_index ix) (length keys)"
        "get_at (unat (di_program_id_index ix)) keys = Some program"
    using assms by (fastforce simp: dispatch_shred_outer_def Let_def split: if_splits option.splits)
  then show thesis
  proof cases
    case unknown
    then have "e \<in> set (unknown_pump_events (di_data ix) (build_shred_ix_accounts keys (di_accounts ix)) og flt mints) \<or>
        e \<in> set (first_candidate pp (di_data ix) (build_shred_ix_accounts keys (di_accounts ix)) og flt supported_unified_outer_programs)"
      by (auto simp: parse_unknown_program_outer_def Let_def split: if_splits)
    then show thesis
    proof
      assume "e \<in> set (unknown_pump_events (di_data ix) (build_shred_ix_accounts keys (di_accounts ix)) og flt mints)"
      then have "allows flt includes_pumpfun \<and>
          (\<exists>ev. parse_pumpfun_instruction (di_data ix) (build_shred_ix_accounts keys (di_accounts ix)) og mints = Some ev \<and>
             e \<in> set (push_filtered_shred_event ev flt))"
        by (rule unknown_pump_cases)
      then show thesis by (elim conjE exE) (rule pump [where n = 0], assumption+, rule disjI1)
    next
      assume "e \<in> set (first_candidate pp (di_data ix) (build_shred_ix_accounts keys (di_accounts ix)) og flt supported_unified_outer_programs)"
      from first_candidate_cases [OF this] show thesis by (blast intro: other)
    qed
  next
    case known
    show thesis
    proof (cases "program = PUMPFUN_PROGRAM_ID")
      case True
      with known have "allows flt includes_pumpfun \<and>
          (\<exists>ev. parse_pumpfun_instruction (di_data ix) (build_shred_ix_accounts keys (di_accounts ix)) og mints = Some ev \<and>
             (e \<in> set (push_filtered_shred_event ev flt) \<or>
              e \<in> set (push_filtered_shred_event
                (preserve_unresolved_pumpfun_accounts (di_data ix) (di_accounts ix) (length keys) ev) flt)))"
        by (cases "parse_pumpfun_instruction (di_data ix) (build_shred_ix_accounts keys (di_accounts ix)) og mints :: 'a dex_event option")
          (auto simp: dispatch_shred_outer_def Let_def split: if_split_asm)
      then show thesis by (elim conjE exE) (rule pump, assumption+)
    next
      case False
      with known have "is_supported_unified_outer_program program flt" and
        o: "\<exists>ev. parse_non_pump_dex_outer pp program (di_data ix) (build_shred_ix_accounts keys (di_accounts ix)) og flt = Some ev \<and>
          e \<in> set (push_filtered_shred_event ev flt)"
        by (cases "parse_non_pump_dex_outer pp program (di_data ix) (build_shred_ix_accounts keys (di_accounts ix)) og flt";
            auto simp: dispatch_shred_outer_def Let_def split: if_split_asm)+
      then show thesis by (auto simp: parse_non_pump_dex_outer_def intro: other dest: supported_is_unified)
    qed
  qed
qed

lemma outer_cases:
  assumes "e \<in> set (outer_events pp derive keys key_count og flt mints best_effort (i, ix))"
  obtains (dispatched) "e \<in> set (dispatch_shred_outer pp ix keys og flt mints best_effort)"
    | (hop) "e \<in> set (hop_events derive i ix keys og flt mints)"
    | (wrapper) program where "e \<in> set (wrapper_events program i ix keys og flt)"
  using assms by (auto simp: outer_events_def Let_def split: if_splits option.splits)

text \<open>An event of the transaction is one of an outer instruction, enriched and stamped.\<close>

lemma transaction_cases:
  assumes "e \<in> set (parse_transaction_with_account_keys pp derive m keys og flt best_effort)"
  obtains i ix e0 flags u v mints where
    "ix \<in> set (dm_instructions m)"
    "mints = (if allows flt includes_pumpfun
       then detect_pumpfun_create_mints (dm_instructions m) keys best_effort else ([], []))"
    "e0 \<in> set (outer_events pp derive keys (message_key_count m) og flt mints best_effort (i, ix))"
    "e = stamp_metadata m (og_grpc_recv_us og) (stamp_create m (map_trades (flag_trade flags) (map_creates u v e0)))"
proof -
  let ?mints = "if allows flt includes_pumpfun
       then detect_pumpfun_create_mints (dm_instructions m) keys best_effort else ([], [])"
  let ?outer = "parse_transaction_pump_events_with_filter pp derive m keys og flt best_effort"
  obtain flags u v where form: "enrich_pumpfun_same_tx_post_merge ?outer =
      map (\<lambda>e. map_trades (flag_trade flags) (map_creates u v e)) ?outer"
    using enrich_form [of ?outer] by blast
  from assms obtain e0 where e0: "e0 \<in> set ?outer"
    "e = stamp_metadata m (og_grpc_recv_us og) (stamp_create m (map_trades (flag_trade flags) (map_creates u v e0)))"
    by (auto simp: parse_transaction_with_account_keys_def form)
  from e0(1) obtain i ix where "(i, ix) \<in> set (enumerate 0 (dm_instructions m))"
    "e0 \<in> set (outer_events pp derive keys (message_key_count m) og flt ?mints best_effort (i, ix))"
    by (auto simp: parse_transaction_pump_events_with_filter_def Let_def)
  moreover from this(1) have "ix \<in> set (dm_instructions m)" by (auto simp: in_set_enumerate_eq)
  ultimately show thesis using that e0(2) by blast
qed

lemma outer_event_delivered:
  assumes "(i, ix) \<in> set (enumerate 0 (dm_instructions m))"
    and "mints = (if allows flt includes_pumpfun
       then detect_pumpfun_create_mints (dm_instructions m) keys best_effort else ([], []))"
    and "e0 \<in> set (outer_events pp derive keys (message_key_count m) og flt mints best_effort (i, ix))"
  shows "\<exists>flags u v. stamp_metadata m (og_grpc_recv_us og) (stamp_create m (map_trades (flag_trade flags) (map_creates u v e0)))
    \<in> set (parse_transaction_with_account_keys pp derive m keys og flt best_effort)"
proof -
  let ?outer = "parse_transaction_pump_events_with_filter pp derive m keys og flt best_effort"
  obtain flags u v where form: "enrich_pumpfun_same_tx_post_merge ?outer =
      map (\<lambda>e. map_trades (flag_trade flags) (map_creates u v e)) ?outer"
    using enrich_form [of ?outer] by blast
  have "e0 \<in> set ?outer"
    using assms by (auto simp: parse_transaction_pump_events_with_filter_def Let_def)
  then show ?thesis
    by (intro exI [of _ flags] exI [of _ u] exI [of _ v]) (simp add: parse_transaction_with_account_keys_def form)
qed

section \<open>Every delivered event is wanted\<close>

lemma push_wanted:
  "e \<in> set (push_filtered_shred_event ev (Some f)) \<Longrightarrow> include_only f = None \<or> exclude_types f = None \<Longrightarrow>
     should_include_dex_event f e"
  by (auto simp: push_filtered_shred_event_def normalize_wanted split: if_splits)

lemma unresolved_wanted:
  "is_unresolved_trade t \<Longrightarrow> includes_unresolved_pumpfun f \<Longrightarrow>
     should_include_dex_event f (Pump_Fun_Event (PumpFunTrade_Event t))"
  by (simp add: should_include_dex_event_def)

lemma wrapper_trade_unresolved: "is_unresolved_trade (wrapper_trade program i ix keys og)"
  by (simp add: wrapper_trade_def is_unresolved_trade_def)

lemma hop_trade_unresolved: "is_unresolved_trade (t\<lparr>pt_is_created_buy := b\<rparr>) = is_unresolved_trade t"
  by (simp add: is_unresolved_trade_def)

text \<open>
  With an include list or an exclude list, whatever a transaction holds and however its accounts are
  resolved, every event that is delivered is one the filter wants, also after the side-specific
  trades have been made generic, the events enriched from each other and stamped.
\<close>

theorem delivered_events_are_wanted:
  assumes "e \<in> set (parse_transaction_with_account_keys pp derive m keys og (Some f) best_effort)"
    and "include_only f = None \<or> exclude_types f = None"
  shows "should_include_dex_event f e"
  using assms(1)
proof (cases rule: transaction_cases)
  case (1 i ix e0 flags u v mints)
  from 1(3) have "should_include_dex_event f e0"
  proof (cases rule: outer_cases)
    case dispatched
    then show ?thesis by (cases rule: dispatch_cases) (auto dest: push_wanted [OF _ assms(2)])
  next
    case hop
    then show ?thesis
      by (auto simp: hop_events_def allows_def hop_trade_unresolved intro!: unresolved_wanted
          dest: parse_curve_hops_unresolved split: if_splits)
  next
    case (wrapper program)
    then show ?thesis
      by (auto simp: wrapper_events_def allows_def wrapper_trade_unresolved intro!: unresolved_wanted split: if_splits)
  qed
  then show ?thesis by (simp add: 1(4) wanted_stamp wanted_map_trades wanted_map_creates)
qed

theorem delivered_events_are_wanted_witness:
  "\<exists>e \<in> set (parse_transaction_with_account_keys demo_parsers demo_derive demo_message demo_keys demo_origin
      (Some (include_only_filter [Pump_Fun PumpFunTrade])) False).
    should_include_dex_event (include_only_filter [Pump_Fun PumpFunTrade]) e"
proof -
  let ?f = "include_only_filter [Pump_Fun PumpFunTrade]"
  have "allows (Some ?f) includes_unresolved_pumpfun"
    by (simp add: allows_def includes_unresolved_pumpfun_def should_include_def include_only_filter_def included_by_def)
  from outer_event_delivered [OF _ refl demo_wrapper_event [OF this, folded demo_key_count]]
  obtain e where e: "e \<in> set (parse_transaction_with_account_keys demo_parsers demo_derive demo_message demo_keys demo_origin (Some ?f) False)"
    by (auto simp: demo_enumerate)
  moreover from delivered_events_are_wanted [OF e] have "should_include_dex_event ?f e"
    by (simp add: include_only_filter_def)
  ultimately show ?thesis by blast
qed

section \<open>Loaded addresses\<close>

lemma sum_list_lengths: "sum_list (map (\<lambda>l. length (tl_writable_indexes l) + length (tl_readonly_indexes l)) ls) =
    sum_list (map (length \<circ> tl_writable_indexes) ls) + sum_list (map (length \<circ> tl_readonly_indexes) ls)"
  by (induction ls) simp_all

text \<open>The message with the loaded keys appended to its own and no table lookups.\<close>

definition with_loaded :: "dex_message \<Rightarrow> pubkey list \<Rightarrow> pubkey list \<Rightarrow> dex_message" where
  "with_loaded m writable readonly =
     m\<lparr>dm_static_account_keys := dm_static_account_keys m @ writable @ readonly, dm_address_table_lookups := None\<rparr>"

definition restamp :: "dex_message \<Rightarrow> 'p dex_event \<Rightarrow> 'p dex_event" where
  "restamp m e = stamp_create m e"

lemma restamp_stamped:
  "restamp m (stamp_metadata (with_loaded m w r) t (stamp_create (with_loaded m w r) e)) =
     stamp_metadata m t (stamp_create m e)"
  by (cases e rule: trade_of.cases; simp add: restamp_def stamp_create_def stamp_metadata_def with_loaded_def lookups_of_def Let_def)


end
