(* ===== verification/Dex_Created.thy ===== *)
theory Dex_Created
  imports Dex_Properties
begin

text \<open>
  The created-buy flag of a Pump.fun trade: set exactly when the same transaction creates the mint.
\<close>

section \<open>The flag out of the parser\<close>

definition flagged :: "pubkey set \<Rightarrow> 'p dex_event \<Rightarrow> bool" where
  "flagged created e \<longleftrightarrow>
     (case trade_of e of None \<Rightarrow> True
      | Some t \<Rightarrow> pt_is_created_buy t \<longleftrightarrow> pt_is_buy t \<and> pt_mint t \<in> created)"

lemma flagged_simps [simp]:
  "flagged created (Pump_Fun_Event (PumpFunTrade_Event t)) \<longleftrightarrow> (pt_is_created_buy t \<longleftrightarrow> pt_is_buy t \<and> pt_mint t \<in> created)"
  "flagged created (Pump_Fun_Event (PumpFunBuy_Event t)) \<longleftrightarrow> (pt_is_created_buy t \<longleftrightarrow> pt_is_buy t \<and> pt_mint t \<in> created)"
  "flagged created (Pump_Fun_Event (PumpFunSell_Event t)) \<longleftrightarrow> (pt_is_created_buy t \<longleftrightarrow> pt_is_buy t \<and> pt_mint t \<in> created)"
  "flagged created (Pump_Fun_Event (PumpFunBuyExactSolIn_Event t)) \<longleftrightarrow> (pt_is_created_buy t \<longleftrightarrow> pt_is_buy t \<and> pt_mint t \<in> created)"
  "flagged created (Pump_Fun_Event (PumpFunCreate_Event c))"
  "flagged created (Pump_Fun_Event (PumpFunMigrateBondingCurveCreator_Event g))"
  by (simp_all add: flagged_def)

lemma shred_buys_flagged:
  "shred_buy_instruction d a og mints = Some e \<Longrightarrow> flagged (set (fst mints)) e"
  "shred_buy_exact_sol_in_instruction d a og mints = Some e \<Longrightarrow> flagged (set (fst mints)) e"
  "shred_buy_v2_instruction d a og mints = Some e \<Longrightarrow> flagged (set (fst mints)) e"
  "shred_buy_exact_quote_in_v2_instruction d a og mints = Some e \<Longrightarrow> flagged (set (fst mints)) e"
  unfolding shred_buy_instruction_def shred_buy_exact_sol_in_instruction_def shred_buy_v2_instruction_def
    shred_buy_exact_quote_in_v2_instruction_def parser_conv
  by (elim exE conjE; hypsubst; simp)+

lemma shred_others_flagged:
  "shred_sell_instruction d a og = Some e \<Longrightarrow> flagged created e"
  "shred_sell_v2_instruction d a og = Some e \<Longrightarrow> flagged created e"
  "parse_migrate_bonding_curve_creator_shred a og = Some e \<Longrightarrow> flagged created e"
  unfolding shred_sell_instruction_def shred_sell_v2_instruction_def parse_migrate_bonding_curve_creator_shred_def parser_conv
  by (elim exE conjE; hypsubst; simp)+

lemma shred_create_is_create:
  "shred_create_instruction d a og = Some e \<Longrightarrow> \<exists>c. e = Pump_Fun_Event (PumpFunCreate_Event c)"
  by (auto simp: shred_create_instruction_def bind_eq_Some_conv Let_def split: if_splits)

lemma shred_create_v2_is_create:
  "shred_create_v2_instruction d a og = Some e \<Longrightarrow> \<exists>c. e = Pump_Fun_Event (PumpFunCreate_Event c)"
  by (cases "create_v2_quote_accounts (length a) (get_account a)")
    (auto simp: shred_create_v2_instruction_def bind_eq_Some_conv Let_def split: if_splits)

lemma sell_v3_flagged: "pump_sell_v2_instruction d a og bt name = Some e \<Longrightarrow> flagged created e"
  by (auto simp: pump_sell_v2_instruction_def pump_sell_instruction_def legacy_sell_extras_def Let_def bind_eq_Some_conv
      split: if_splits prod.splits)

lemma fill_create_flagged: "flagged created (fill_create d a e) = flagged created e"
  by (cases e rule: trade_of.cases; simp add: fill_create_def)

lemma parse_flagged:
  assumes "parse_pumpfun_instruction data accounts og mints = Some e"
  shows "flagged (set (fst mints)) e"
proof -
  let ?d = "take 8 data"
  from assms have len: "length data \<ge> 8" by (simp add: parse_pumpfun_instruction_def split: if_splits)
  from assms obtain e0 where e0: "parse_by_disc ?d data accounts og mints = Some e0"
    "e = fill_create ?d accounts (flag_v3_buy ?d mints e0)"
    by (auto simp: parse_pumpfun_step [OF len])
  have plain: "flagged (set (fst mints)) e" if "flagged (set (fst mints)) e0" "?d \<notin> {PUMP_BUY_V3, PUMP_BUY_EXACT_QUOTE_IN_V3}"
    using that by (simp add: e0(2) fill_create_flagged flag_v3_other)
  consider "?d = PUMP_BUY" | "?d = PUMP_BUY_EXACT_SOL_IN" | "?d = PUMP_SELL" | "?d = PUMP_BUY_V2"
    | "?d = PUMP_BUY_EXACT_QUOTE_IN_V2" | "?d = PUMP_SELL_V2" | "?d = PUMP_CREATE" | "?d = PUMP_CREATE_V2"
    | "?d = PUMP_MIGRATE_BONDING_CURVE_CREATOR" | "?d = PUMP_SELL_V3"
    | "?d \<in> {PUMP_BUY_V3, PUMP_BUY_EXACT_QUOTE_IN_V3}" | "?d \<notin> set hot_discs"
    by auto
  then show ?thesis
  proof cases
    case 10
    then have v3: "?d \<in> {PUMP_BUY_V3, PUMP_BUY_EXACT_QUOTE_IN_V3, PUMP_SELL_V3}" by blast
    from e0(1) have "pump_parse_instruction data accounts og None = Some e0" unfolding hot_parse(10) [OF v3] .
    then show ?thesis
      unfolding v3_parse(1) [OF len 10] by (intro plain) (auto simp: 10 hot_neq split: if_splits intro: sell_v3_flagged)
  next
    case 11
    then have v3: "?d \<in> {PUMP_BUY_V3, PUMP_BUY_EXACT_QUOTE_IN_V3, PUMP_SELL_V3}" by blast
    with e0(1) have "pump_parse_instruction data accounts og None = Some e0" by (simp only: hot_parse(10))
    moreover from this 11 obtain t where "e0 = Pump_Fun_Event (PumpFunBuy_Event t)" "pt_is_buy t"
    proof -
      have "\<exists>name exact. pump_buy_v2_instruction (drop 8 data) (v3_buy_accounts accounts) og None name exact = Some e0"
        using 11 \<open>pump_parse_instruction data accounts og None = Some e0\<close>
        by (auto simp: v3_parse(2,3) [OF len] split: if_splits) blast+
      with buy_v2_is_buy that show thesis by blast
    qed
    ultimately show ?thesis using 11 by (auto simp: e0(2) fill_create_flagged flag_v3_buy_def)
  next
    case 12
    from e0(1) show ?thesis unfolding hot_parse_other [OF 12] by simp
  qed (use e0(1) in \<open>auto simp: hot_parse hot_neq intro!: plain
        intro: shred_buys_flagged shred_others_flagged dest!: shred_create_is_create shred_create_v2_is_create\<close>)
qed

section \<open>The created mints of a message\<close>

text \<open>An instruction of the Pump.fun program with a create discriminator, whose first account is a known key.\<close>

definition creates_mint :: "pubkey list \<Rightarrow> dex_instruction \<Rightarrow> pubkey \<Rightarrow> bool" where
  "creates_mint keys ix mint \<longleftrightarrow>
     get_at (unat (di_program_id_index ix)) keys = Some PUMPFUN_PROGRAM_ID \<and>
     take 8 (di_data ix) \<in> {PUMP_CREATE, PUMP_CREATE_V2} \<and>
     (\<exists>index. get_at 0 (di_accounts ix) = Some index \<and> get_at (unat index) keys = Some mint)"

lemma create_disc_length: "take 8 data \<in> {PUMP_CREATE, PUMP_CREATE_V2} \<Longrightarrow> length data \<ge> 8"
proof -
  assume "take 8 data \<in> {PUMP_CREATE, PUMP_CREATE_V2}"
  moreover have "length PUMP_CREATE = 8" "length PUMP_CREATE_V2 = 8" by (simp_all add: PUMP_CREATE_def PUMP_CREATE_V2_def)
  ultimately have "length (take 8 data) = 8" by (elim insertE emptyE) (simp_all only:)
  then show ?thesis by simp
qed

lemma scan_ix_created:
  "set (fst (scan_ix keys False mints ix)) = set (fst mints) \<union> {mint. creates_mint keys ix mint}"
proof (cases "take 8 (di_data ix) \<in> {PUMP_CREATE, PUMP_CREATE_V2}")
  case True
  from create_disc_length [OF True] True show ?thesis
    by (auto simp: scan_ix_def scan_create_mint_from_ix_def creates_mint_def push_unique_mint_def
        program_id_references_loaded_key_def get_at_def Let_def split: option.splits if_splits)
next
  case False
  then show ?thesis
    by (auto simp: scan_ix_def scan_create_mint_from_ix_def creates_mint_def
        program_id_references_loaded_key_def Let_def split: option.splits)
qed

lemma created_mints:
  "set (fst (detect_pumpfun_create_mints ixs keys False)) = {mint. \<exists>ix \<in> set ixs. creates_mint keys ix mint}"
proof -
  have "set (fst (foldl (scan_ix keys False) mints ixs)) = set (fst mints) \<union> {mint. \<exists>ix \<in> set ixs. creates_mint keys ix mint}" for mints
    by (induction ixs arbitrary: mints) (auto simp: scan_ix_created)
  from this [of "([], [])"] show ?thesis by (simp add: detect_pumpfun_create_mints_def)
qed

section \<open>The flag of every event\<close>

text \<open>What is assumed of the parsers of the other protocols: they make no Pump.fun event.\<close>

definition is_pump_fun :: "'p dex_event \<Rightarrow> bool" where
  "is_pump_fun e \<longleftrightarrow> (\<exists>p. e = Pump_Fun_Event p)"

definition no_pump_fun :: "'p instruction_parser \<Rightarrow> bool" where
  "no_pump_fun parser \<longleftrightarrow> (\<forall>d a og bt e. parser d a og bt = Some e \<longrightarrow> \<not> is_pump_fun e)"

definition others_apart :: "'p protocol_parsers \<Rightarrow> bool" where
  "others_apart pp \<longleftrightarrow>
     list_all no_pump_fun
       [pp_dbc_event_cpi pp, pp_cpmm_lp_change pp, pp_pumpswap pp, pp_meteora_damm pp, pp_pump_fees pp, pp_launchlab pp,
        pp_cpmm pp, pp_clmm pp, pp_amm_v4 pp, pp_orca pp, pp_meteora_pools pp, pp_meteora_dlmm pp]"

lemma routed_apart: "no_pump_fun parser \<Longrightarrow> routed parser includes d a og bt flt = Some e \<Longrightarrow> \<not> is_pump_fun e"
  by (auto simp: routed_def filter_parsed_event_def no_pump_fun_def bind_eq_Some_conv split: if_splits)

lemma pumpfun_not_supported: "PUMPFUN_PROGRAM_ID \<notin> set supported_unified_outer_programs"
  by (simp add: supported_unified_outer_programs_def program_id_defs)

lemma filtered_apart: "no_pump_fun parser \<Longrightarrow> filter_parsed_event (parser d a og bt) flt = Some e \<Longrightarrow> \<not> is_pump_fun e"
  by (auto simp: filter_parsed_event_def no_pump_fun_def bind_eq_Some_conv split: if_splits)

lemma unified_apart:
  assumes "others_apart pp" "p \<noteq> PUMPFUN_PROGRAM_ID" "parse_instruction_unified pp d a og bt flt p = Some e"
  shows "\<not> is_pump_fun e"
proof -
  note np = assms(1) [unfolded others_apart_def list.pred_inject simp_thms]
  show ?thesis
    using assms(2,3) unfolding parse_instruction_unified_def Let_def
    by (simp only: simp_thms option.distinct split: if_split_asm) (erule routed_apart [rotated] filtered_apart [rotated], simp only: np)+
qed

lemma trade_of_normalize: "trade_of (normalize_dex_event f e) = trade_of e"
  by (cases e rule: trade_of.cases; simp add: normalize_dex_event_def split: option.splits)

lemma trade_of_push: "e \<in> set (push_filtered_shred_event ev flt) \<Longrightarrow> trade_of e = trade_of ev"
  by (auto simp: push_filtered_shred_event_def trade_of_normalize split: option.splits if_splits)

lemma flagged_push: "e \<in> set (push_filtered_shred_event ev flt) \<Longrightarrow> flagged S e = flagged S ev"
  by (simp add: flagged_def trade_of_push)

lemma clear_unresolved_simps [simp]:
  "pt_is_created_buy (clear_unresolved d ixs n t) = pt_is_created_buy t"
  "pt_is_buy (clear_unresolved d ixs n t) = pt_is_buy t" "pt_mint (clear_unresolved d ixs n t) = pt_mint t"
  by (simp_all add: clear_unresolved_def Let_def)

lemma flagged_preserve: "flagged S (preserve_unresolved_pumpfun_accounts d ixs n e) = flagged S e"
  by (cases e rule: trade_of.cases; simp add: preserve_unresolved_pumpfun_accounts_def flagged_def)

lemma not_pump_no_trade: "\<not> is_pump_fun e \<Longrightarrow> trade_of e = None"
  by (cases e rule: trade_of.cases) (simp_all add: is_pump_fun_def)

lemma dispatch_flagged:
  assumes "others_apart pp" "e \<in> set (dispatch_shred_outer pp ix keys og flt mints best_effort)"
  shows "flagged (set (fst mints)) e" "\<not> allows flt includes_pumpfun \<Longrightarrow> trade_of e = None"
proof -
  from assms(2) have "flagged (set (fst mints)) e \<and> (\<not> allows flt includes_pumpfun \<longrightarrow> trade_of e = None)"
  proof (cases rule: dispatch_cases)
    case (pump ev n)
    from parse_flagged [OF pump(2)] pump(1,3) show ?thesis by (auto simp: flagged_push flagged_preserve)
  next
    case (other p ev)
    have "p \<noteq> PUMPFUN_PROGRAM_ID" using other(1) pumpfun_not_supported by blast
    from not_pump_no_trade [OF unified_apart [OF assms(1) this other(2)]] trade_of_push [OF other(3)]
    show ?thesis by (simp add: flagged_def)
  qed
  then show "flagged (set (fst mints)) e" "\<not> allows flt includes_pumpfun \<Longrightarrow> trade_of e = None" by auto
qed

lemma unresolved_is_pumpfun: "allows flt includes_unresolved_pumpfun \<Longrightarrow> allows flt includes_pumpfun"
  by (auto simp: allows_def includes_unresolved_pumpfun_def includes_pumpfun_def split: option.splits
      intro: includes_any_hit [of "Pump_Fun PumpFunTrade"])

lemma outer_flagged:
  assumes "others_apart pp" "e \<in> set (outer_events pp derive keys n og flt mints best_effort (i, ix))"
  shows "flagged (set (fst mints)) e" "\<not> allows flt includes_pumpfun \<Longrightarrow> flagged S e"
proof -
  from assms(2) have "flagged (set (fst mints)) e \<and> (\<not> allows flt includes_pumpfun \<longrightarrow> flagged S e)"
  proof (cases rule: outer_cases)
    case dispatched
    from dispatch_flagged [OF assms(1) this] show ?thesis by (auto simp: flagged_def)
  next
    case hop
    then show ?thesis by (auto simp: hop_events_def dest: unresolved_is_pumpfun split: if_splits)
  next
    case (wrapper program)
    then show ?thesis by (auto simp: wrapper_events_def wrapper_trade_def split: if_splits)
  qed
  then show "flagged (set (fst mints)) e" "\<not> allows flt includes_pumpfun \<Longrightarrow> flagged S e" by auto
qed

lemma flagged_stamp:
  "flagged S (stamp_metadata m r (stamp_create m (map_trades (flag_trade flags) (map_creates u v e)))) = flagged S e"
proof -
  obtain g where "trade_of (stamp_metadata m r (stamp_create m (map_trades (flag_trade flags) (map_creates u v e)))) =
      map_option (pt_metadata_update g) (map_option (flag_trade flags) (trade_of e))"
    using trade_of_stamp_metadata [of m r "stamp_create m (map_trades (flag_trade flags) (map_creates u v e))"] by auto
  then show ?thesis by (cases "trade_of e") (simp_all add: flagged_def)
qed



end
