(* ===== verification/Dex_Accounts.thy ===== *)
theory Dex_Accounts
  imports Dex_Created
begin

text \<open>
  Every account of a Pump.fun event of the hot path is a key of the transaction, the default key or one of
  the two sentinels, also after the accounts of one event have been copied to another.
\<close>

section \<open>The parsers\<close>

text \<open>One proof for every trade parser: the fields of its event are accounts looked up or defaults.\<close>

lemma trade_accounts_known:
  "set (trade_accounts (t\<lparr>pt_account := None\<rparr>)) \<subseteq> K \<Longrightarrow> {x. Some x = pt_account t} \<subseteq> K \<Longrightarrow> set (trade_accounts t) \<subseteq> K"
  using trade_accounts_subset by blast

lemma shred_buy_exact_known:
  assumes "shred_buy_exact_sol_in_instruction data accounts og mints = Some e"
  shows "set (event_accounts e) \<subseteq> known_keys accounts"
  using assms unfolding shred_buy_exact_sol_in_instruction_def parser_conv
  by (elim exE conjE) (hypsubst, subst event_accounts.simps trade_accounts_subset,
      simp add: trade_accounts_def get_account_known)

lemma shred_sell_known:
  assumes "shred_sell_instruction data accounts og = Some e"
  shows "set (event_accounts e) \<subseteq> known_keys accounts"
  using assms unfolding shred_sell_instruction_def parser_conv
  by (elim exE conjE) (hypsubst, subst event_accounts.simps trade_accounts_subset,
      simp add: trade_accounts_def get_account_known)

lemma shred_buy_v2_known:
  assumes "shred_buy_v2_instruction data accounts og mints = Some e"
  shows "set (event_accounts e) \<subseteq> known_keys accounts"
  using assms unfolding shred_buy_v2_instruction_def parser_conv
  by (elim exE conjE) (hypsubst, subst event_accounts.simps trade_accounts_subset,
      simp add: trade_accounts_def get_account_known)

lemma shred_buy_exact_quote_known:
  assumes "shred_buy_exact_quote_in_v2_instruction data accounts og mints = Some e"
  shows "set (event_accounts e) \<subseteq> known_keys accounts"
  using assms unfolding shred_buy_exact_quote_in_v2_instruction_def parser_conv
  by (elim exE conjE) (hypsubst, subst event_accounts.simps trade_accounts_subset,
      simp add: trade_accounts_def get_account_known)

lemma shred_sell_v2_known:
  assumes "shred_sell_v2_instruction data accounts og = Some e"
  shows "set (event_accounts e) \<subseteq> known_keys accounts"
  using assms unfolding shred_sell_v2_instruction_def parser_conv
  by (elim exE conjE) (hypsubst, subst event_accounts.simps trade_accounts_subset,
      simp add: trade_accounts_def get_account_known)

lemma migrate_known:
  assumes "parse_migrate_bonding_curve_creator_shred accounts og = Some e"
  shows "set (event_accounts e) \<subseteq> known_keys accounts"
  using assms unfolding parse_migrate_bonding_curve_creator_shred_def parser_conv
  by (elim exE conjE) (hypsubst, simp add: get_account_known)

lemma shred_create_known:
  assumes "shred_create_instruction data accounts og = Some e"
  shows "set (event_accounts e) \<subseteq> known_keys accounts"
  using assms by (auto simp: shred_create_instruction_def Let_def bind_eq_Some_conv create_accounts_def get_account_known
      split: if_splits)

lemma v2_quote_known:
  "create_v2_quote_accounts (length accounts) (get_account accounts) = (m, v, t) \<Longrightarrow>
     m \<in> known_keys accounts \<and> v \<in> known_keys accounts \<and> t \<in> known_keys accounts"
  by (auto simp: create_v2_quote_accounts_def Let_def get_account_known split: if_splits option.splits)

lemma shred_create_v2_known:
  assumes "shred_create_v2_instruction data accounts og = Some e"
  shows "set (event_accounts e) \<subseteq> known_keys accounts"
proof -
  obtain m v t where q: "create_v2_quote_accounts (length accounts) (get_account accounts) = (m, v, t)"
    by (cases "create_v2_quote_accounts (length accounts) (get_account accounts)")
  show ?thesis
    using assms v2_quote_known [OF q]
    by (auto simp: shred_create_v2_instruction_def q Let_def bind_eq_Some_conv create_accounts_def get_account_known
      split: if_splits)
qed

lemma fill_create_known:
  assumes "set (create_accounts c) \<subseteq> known_keys accounts"
  shows "set (create_accounts (fill_create_accounts (acct accounts) c)) \<subseteq> known_keys accounts"
  using assms by (simp add: create_accounts_def fill_create_accounts_def)

lemma filled_quote_known:
  assumes "create_v2_quote_accounts n (\<lambda>i. Some (acct accounts i)) = (m, v, t)"
  shows "m \<in> known_keys accounts \<and> v \<in> known_keys accounts \<and> t \<in> known_keys accounts"
proof -
  have "acct accounts QUOTE_TOKEN_PROGRAM = SPL_TOKEN_PROGRAM_ID \<Longrightarrow> SPL_TOKEN_PROGRAM_ID \<in> known_keys accounts"
    using acct_known by metis
  with assms show ?thesis by (auto simp: create_v2_quote_accounts_def Let_def split: if_split_asm)
qed

lemma fill_quote_known:
  assumes "{m, v, t} \<subseteq> known_keys accounts" "fill_create_quote_accounts (acct accounts) (m, v, t) = (m', v', t')"
  shows "{m', v', t'} \<subseteq> known_keys accounts"
proof -
  obtain qm qv qt where q: "create_v2_quote_accounts (QUOTE_TOKEN_PROGRAM + 1) (\<lambda>i. Some (acct accounts i)) = (qm, qv, qt)"
    by (cases "create_v2_quote_accounts (QUOTE_TOKEN_PROGRAM + 1) (\<lambda>i. Some (acct accounts i))")
  with assms filled_quote_known [OF q] show ?thesis
    unfolding fill_create_quote_accounts_def Let_def prod.case q by (auto split: if_split_asm)
qed

lemma fill_create_v2_known:
  assumes "set (create_accounts c) \<subseteq> known_keys accounts"
  shows "set (create_accounts (fill_create_accounts_from_v2 (acct accounts) c)) \<subseteq> known_keys accounts"
proof -
  obtain m v t where q: "fill_create_quote_accounts (acct accounts) (pc_quote_mint c, pc_quote_vault c, pc_quote_token_program c) = (m, v, t)"
    by (cases "fill_create_quote_accounts (acct accounts) (pc_quote_mint c, pc_quote_vault c, pc_quote_token_program c)")
  have "{m, v, t} \<subseteq> known_keys accounts"
    by (rule fill_quote_known [OF _ q]) (use assms in \<open>simp add: create_accounts_def\<close>)
  with assms show ?thesis by (simp add: create_accounts_def fill_create_accounts_from_v2_def q)
qed

text \<open>The third version's accounts, moved to the second version's places.\<close>

lemma set_list_update_subset: "set xs \<subseteq> A \<Longrightarrow> x \<in> A \<Longrightarrow> set (xs[i := x]) \<subseteq> A"
  using set_update_subset_insert [of xs i x] by blast

lemma v3_accounts_known:
  assumes "17 \<le> length accounts"
  shows "known_keys (v3_buy_accounts accounts) \<subseteq> known_keys accounts" "known_keys (v3_sell_accounts accounts) \<subseteq> known_keys accounts"
proof -
  let ?A = "set accounts \<union> {default_pubkey}"
  have "set (v3_buy_accounts accounts) \<subseteq> ?A" "set (v3_sell_accounts accounts) \<subseteq> ?A"
    using assms unfolding v3_buy_accounts_def v3_sell_accounts_def
    by (intro set_list_update_subset UnI1 nth_mem; auto)+
  then show "known_keys (v3_buy_accounts accounts) \<subseteq> known_keys accounts" "known_keys (v3_sell_accounts accounts) \<subseteq> known_keys accounts"
    by (auto simp: known_keys_def)
qed

lemma buy_v2_known:
  assumes "pump_buy_v2_instruction data accounts og bt name exact = Some e"
  shows "set (event_accounts e) \<subseteq> known_keys accounts"
proof -
  from assms have len: "27 \<le> length accounts" by (simp add: pump_buy_v2_instruction_def split: if_splits)
  then have at: "i < 27 \<Longrightarrow> accounts ! i \<in> known_keys accounts" for i by (intro nth_known) simp
  obtain a b c d e' f g where amounts: "buy_v2_amounts data exact = (a, b, c, d, e', f, g)" by (cases "buy_v2_amounts data exact")
  show ?thesis
    using assms unfolding pump_buy_v2_instruction_def amounts parser_conv
    by (elim exE conjE) (hypsubst, subst event_accounts.simps, simp add: trade_accounts_def at)
qed

lemma sell_v2_known:
  assumes "pump_sell_v2_instruction data accounts og bt name = Some e"
  shows "set (event_accounts e) \<subseteq> known_keys accounts"
proof -
  obtain a b where amounts: "trade_args data = (a, b)" by (cases "trade_args data")
  show ?thesis
    using assms unfolding pump_sell_v2_instruction_def pump_sell_instruction_def legacy_sell_extras_def amounts parser_conv if_True simp_thms if_False
    by (elim exE conjE) (hypsubst, subst event_accounts.simps, simp add: trade_accounts_def get_account_known)
qed

section \<open>The dispatch of a Pump.fun instruction\<close>

lemma event_accounts_maps:
  "(\<And>t. set (trade_accounts (u t)) = set (trade_accounts t)) \<Longrightarrow> set (event_accounts (map_trades u e)) = set (event_accounts e)"
  by (cases e rule: trade_of.cases; simp)

lemma flag_v3_accounts: "set (event_accounts (flag_v3_buy d mints e)) = set (event_accounts e)"
  by (cases e rule: trade_of.cases; simp add: flag_v3_buy_def trade_accounts_def)

lemma fill_create_event_known:
  "set (event_accounts e) \<subseteq> known_keys accounts \<Longrightarrow> set (event_accounts (fill_create d accounts e)) \<subseteq> known_keys accounts"
  by (cases e rule: trade_of.cases; simp add: fill_create_def fill_create_known fill_create_v2_known Let_def)

lemma v3_known:
  assumes "length data \<ge> 8" "take 8 data \<in> {PUMP_BUY_V3, PUMP_BUY_EXACT_QUOTE_IN_V3, PUMP_SELL_V3}"
    and "pump_parse_instruction data accounts og None = Some e"
  shows "set (event_accounts e) \<subseteq> known_keys accounts"
proof -
  note parse = v3_parse [OF assms(1)]
  from assms(2) consider "take 8 data = PUMP_BUY_V3" | "take 8 data = PUMP_BUY_EXACT_QUOTE_IN_V3" | "take 8 data = PUMP_SELL_V3"
    by blast
  then show ?thesis
  proof cases
    case 1
    with assms(3) have "17 \<le> length accounts"
      "pump_buy_v2_instruction (drop 8 data) (v3_buy_accounts accounts) og None ''buy_v3'' False = Some e"
      by (simp_all add: parse v3_buy_ok_def split: if_splits)
    from buy_v2_known [OF this(2)] v3_accounts_known(1) [OF this(1)] show ?thesis by (rule order_trans)
  next
    case 2
    with assms(3) have "17 \<le> length accounts"
      "pump_buy_v2_instruction (drop 8 data) (v3_buy_accounts accounts) og None ''buy_exact_quote_in_v3'' True = Some e"
      by (simp_all add: parse v3_buy_ok_def split: if_splits)
    from buy_v2_known [OF this(2)] v3_accounts_known(1) [OF this(1)] show ?thesis by (rule order_trans)
  next
    case 3
    with assms(3) have "17 \<le> length accounts"
      "pump_sell_v2_instruction (drop 8 data) (v3_sell_accounts accounts) og None ''sell_v3'' = Some e"
      by (simp_all add: parse split: if_splits)
    from sell_v2_known [OF this(2)] v3_accounts_known(2) [OF this(1)] show ?thesis by (rule order_trans)
  qed
qed

lemma parse_by_disc_known:
  assumes "length data \<ge> 8" "parse_by_disc (take 8 data) data accounts og mints = Some e"
  shows "set (event_accounts e) \<subseteq> known_keys accounts"
proof (cases "take 8 data \<in> {PUMP_BUY_V3, PUMP_BUY_EXACT_QUOTE_IN_V3, PUMP_SELL_V3}")
  case True
  from assms(2) have "pump_parse_instruction data accounts og None = Some e" unfolding hot_parse(10) [OF True] .
  from v3_known [OF assms(1) True this] show ?thesis .
next
  case False
  have plain: "shred_create_instruction data accounts og = Some e \<or> shred_create_v2_instruction data accounts og = Some e \<or>
      shred_buy_instruction (drop 8 data) accounts og mints = Some e \<or> shred_sell_instruction (drop 8 data) accounts og = Some e \<or>
      shred_buy_exact_sol_in_instruction (drop 8 data) accounts og mints = Some e \<or>
      shred_buy_v2_instruction (drop 8 data) accounts og mints = Some e \<or>
      shred_buy_exact_quote_in_v2_instruction (drop 8 data) accounts og mints = Some e \<or>
      shred_sell_v2_instruction (drop 8 data) accounts og = Some e \<or>
      parse_migrate_bonding_curve_creator_shred accounts og = Some e"
    using assms(2) False unfolding parse_by_disc_def Let_def by (simp only: if_False split: if_split_asm) blast+
  then show ?thesis
    by (elim disjE) (erule shred_create_known shred_create_v2_known shred_buy_known shred_sell_known shred_buy_exact_known
      shred_buy_v2_known shred_buy_exact_quote_known shred_sell_v2_known migrate_known)+
qed

lemma parse_known:
  assumes "parse_pumpfun_instruction data accounts og mints = Some e"
  shows "set (event_accounts e) \<subseteq> known_keys accounts"
proof -
  from assms have len: "length data \<ge> 8" by (simp add: parse_pumpfun_instruction_def split: if_splits)
  from assms obtain e0 where e0: "parse_by_disc (take 8 data) data accounts og mints = Some e0"
    "e = fill_create (take 8 data) accounts (flag_v3_buy (take 8 data) mints e0)"
    by (auto simp: parse_pumpfun_step [OF len])
  from parse_by_disc_known [OF len e0(1)] show ?thesis
    unfolding e0(2) by (intro fill_create_event_known) (simp only: flag_v3_accounts)
qed

section \<open>The events of an outer instruction\<close>

lemma accounts_of_three:
  assumes "q \<in> {default_pubkey, pt_quote_mint t}" "p \<in> {default_pubkey, pt_token_program t}" "r \<in> {default_pubkey, pt_quote_token_program t}"
  shows "set (trade_accounts (t\<lparr>pt_quote_mint := q, pt_token_program := p, pt_quote_token_program := r\<rparr>)) \<subseteq>
    insert default_pubkey (set (trade_accounts t))"
  using assms unfolding trade_accounts_def by (cases "pt_account t"; simp; blast)

lemma accounts_of_program:
  "set (trade_accounts (t\<lparr>pt_token_program := default_pubkey\<rparr>)) \<subseteq> insert default_pubkey (set (trade_accounts t))"
  unfolding trade_accounts_def by (cases "pt_account t"; simp)

lemma clear_accounts: "set (trade_accounts (clear_unresolved d ixs n t)) \<subseteq> insert default_pubkey (set (trade_accounts t))"
proof -
  define ok where "ok u \<longleftrightarrow> set (trade_accounts u) \<subseteq> insert default_pubkey (set (trade_accounts t))" for u
  have chosen: "(c \<Longrightarrow> ok u) \<Longrightarrow> (\<not> c \<Longrightarrow> ok v) \<Longrightarrow> ok (if c then u else v)" for c u v by simp
  have "ok (clear_unresolved d ixs n t)"
    unfolding clear_unresolved_def Let_def
    by (intro chosen; unfold ok_def) (rule accounts_of_three accounts_of_program subset_insertI; simp)+
  then show ?thesis unfolding ok_def .
qed

lemma preserve_known:
  assumes "set (event_accounts e) \<subseteq> known_keys keys"
  shows "set (event_accounts (preserve_unresolved_pumpfun_accounts d ixs n e)) \<subseteq> known_keys keys"
proof -
  have "set (trade_accounts t) \<subseteq> known_keys keys \<Longrightarrow> set (trade_accounts (clear_unresolved d ixs n t)) \<subseteq> known_keys keys" for t
    by (rule order_trans [OF clear_accounts]) simp
  with assms show ?thesis
    by (cases e rule: trade_of.cases; simp add: preserve_unresolved_pumpfun_accounts_def)
qed

lemma normalize_accounts: "event_accounts (normalize_dex_event f e) = event_accounts e"
  by (cases e rule: trade_of.cases; simp add: normalize_dex_event_def split: option.splits)

lemma push_accounts: "e \<in> set (push_filtered_shred_event ev flt) \<Longrightarrow> event_accounts e = event_accounts ev"
  by (auto simp: push_filtered_shred_event_def normalize_accounts split: option.splits if_splits)

lemma built_accounts_known: "known_keys (build_shred_ix_accounts keys indices) \<subseteq> known_keys keys"
  by (auto simp: known_keys_def build_shred_ix_accounts_def account_from_static_or_default_def get_at_def)

lemma other_no_accounts: "\<not> is_pump_fun e \<Longrightarrow> event_accounts e = []"
  by (cases e rule: trade_of.cases) (simp_all add: is_pump_fun_def)

lemma dispatch_known:
  assumes "others_apart pp" "e \<in> set (dispatch_shred_outer pp ix keys og flt mints best_effort)"
  shows "set (event_accounts e) \<subseteq> known_keys keys"
  using assms(2)
proof (cases rule: dispatch_cases)
  case (pump ev n)
  from parse_known [OF pump(2)] have "set (event_accounts ev) \<subseteq> known_keys keys"
    using built_accounts_known by (rule order_trans)
  with pump(3) show ?thesis by (auto dest!: push_accounts dest: preserve_known [THEN subsetD])
next
  case (other p ev)
  have "p \<noteq> PUMPFUN_PROGRAM_ID" using other(1) pumpfun_not_supported by blast
  from other_no_accounts [OF unified_apart [OF assms(1) this other(2)]] push_accounts [OF other(3)] show ?thesis by simp
qed

lemma hop_key_known: "hop_key ixs keys i = Some k \<Longrightarrow> k \<in> set keys"
  by (auto simp: hop_key_def bind_eq_Some_conv get_at_def split: if_splits)

lemma or_default_known: "or_default (hop_key ixs keys i) \<in> known_keys keys"
  by (auto simp: or_default_def known_keys_def dest: hop_key_known split: option.splits)

lemma curve_hop_known:
  assumes "curve_hop derive data ixs keys i md user direction hop = Some t" "user \<in> set keys" "PUMPFUN_PROGRAM_ID \<in> set keys"
  shows "set (trade_accounts t) \<subseteq> known_keys keys"
proof -
  obtain mint quote curve where k: "hop_key ixs keys (FIXED + hop * HOP) = Some mint" "hop_key ixs keys (FIXED + hop * HOP + 1) = Some quote"
    "hop_key ixs keys (FIXED + hop * HOP + 2) = Some curve"
    using assms(1) by (auto simp: curve_hop_def Let_def split: option.splits)
  from hop_key_known [OF k(1)] hop_key_known [OF k(2)] hop_key_known [OF k(3)] assms(2,3)
  have "{mint, quote, curve, user, PUMPFUN_PROGRAM_ID} \<subseteq> known_keys keys" by (simp add: known_keys_def)
  moreover have "trade_accounts t = trade_accounts (default_trade\<lparr>pt_mint := mint, pt_quote_mint := quote, pt_user := user,
      pt_bonding_curve := curve,
      pt_associated_bonding_curve := or_default (hop_key ixs keys (FIXED + hop * HOP + 3)),
      pt_associated_quote_bonding_curve := or_default (hop_key ixs keys (FIXED + hop * HOP + 4)),
      pt_global := or_default (hop_key ixs keys 13), pt_fee_config := or_default (hop_key ixs keys 14),
      pt_event_authority := or_default (hop_key ixs keys 15), pt_program := PUMPFUN_PROGRAM_ID,
      pt_system_program := or_default (hop_key ixs keys 9)\<rparr>)"
    using assms(1) k by (auto simp: curve_hop_def Let_def trade_accounts_def split: if_splits)
  ultimately show ?thesis by (simp add: trade_accounts_def or_default_known)
qed

lemma hops_known:
  assumes "t \<in> set (parse_curve_hops derive data ixs keys i md)"
  shows "set (trade_accounts t) \<subseteq> known_keys keys"
proof -
  from assms have program: "hop_key ixs keys 12 = Some PUMPFUN_PROGRAM_ID"
    by (auto simp: parse_curve_hops_def Let_def split: if_split_asm)
  obtain user where user: "hop_key ixs keys 0 = Some user"
    using assms by (cases "hop_key ixs keys 0") (simp_all add: parse_curve_hops_def Let_def split: if_split_asm)
  with assms obtain direction hop where "curve_hop derive data ixs keys i md user direction hop = Some t"
    by (auto simp: parse_curve_hops_def Let_def List.map_filter_def split: if_split_asm)
  with curve_hop_known hop_key_known [OF program] hop_key_known [OF user] show ?thesis by blast
qed

lemma outer_known:
  assumes "others_apart pp" "e \<in> set (outer_events pp derive keys n og flt mints best_effort (i, ix))"
  shows "set (event_accounts e) \<subseteq> known_keys keys"
  using assms(2)
proof (cases rule: outer_cases)
  case dispatched
  then show ?thesis by (rule dispatch_known [OF assms(1)])
next
  case hop
  then obtain t where "t \<in> set (parse_curve_hops derive (di_data ix) (di_accounts ix) keys i (origin_metadata og None))"
    "event_accounts e = trade_accounts t"
    by (auto simp: hop_events_def trade_accounts_def split: if_splits)
  with hops_known show ?thesis by simp
next
  case (wrapper program)
  then show ?thesis by (auto simp: wrapper_events_def wrapper_trade_def trade_accounts_def split: if_splits)
qed

section \<open>Enrichment copies known accounts\<close>

lemma observed_fee_account: "known_mint_fee e = Some (mint, fee) \<Longrightarrow> fee \<in> set (event_accounts e)"
  by (cases e rule: trade_of.cases)
    (auto simp: known_mint_fee_def pumpfun_buy_like_mint_fee_def trade_accounts_def bind_eq_Some_conv split: if_splits)

lemma traded_quote_account: "pumpfun_trade_mint_quote e = Some (mint, quote) \<Longrightarrow> quote \<in> set (event_accounts e)"
  by (cases e rule: trade_of.cases)
    (auto simp: pumpfun_trade_mint_quote_def trade_accounts_def bind_eq_Some_conv split: if_splits)

lemma collected_known:
  assumes "\<forall>e \<in> set es. set (event_accounts e) \<subseteq> K" "map_of (collect_first f es) k = Some x"
    and "\<And>e. f e = Some (k, x) \<Longrightarrow> x \<in> set (event_accounts e)"
  shows "x \<in> K"
  using assms by (auto simp: map_of_collect_first dest!: first_of_in)

lemma creates_known:
  assumes "\<And>c. set (create_accounts c) \<subseteq> K \<Longrightarrow> set (create_accounts (u c)) \<subseteq> K" "set (event_accounts e) \<subseteq> K"
  shows "set (event_accounts (map_creates u v e)) \<subseteq> K"
  using assms by (cases e rule: trade_of.cases) (simp_all add: map_creates.simps)

lemma creates_map_known:
  assumes "\<And>c. set (create_accounts c) \<subseteq> K \<Longrightarrow> set (create_accounts (u c)) \<subseteq> K" "\<forall>e \<in> set es. set (event_accounts e) \<subseteq> K"
  shows "\<forall>e \<in> set (map (map_creates u v) es). set (event_accounts e) \<subseteq> K"
proof
  fix e assume "e \<in> set (map (map_creates u v) es)"
  then obtain e0 where "e0 \<in> set es" "e = map_creates u v e0" by auto
  with assms creates_known [where u = u and v = v and e = e0 and K = K] show "set (event_accounts e) \<subseteq> K" by simp
qed

lemma enrich_known:
  assumes "\<forall>e \<in> set es. set (event_accounts e) \<subseteq> K"
  shows "\<forall>e \<in> set (enrich_pumpfun_same_tx_post_merge es). set (event_accounts e) \<subseteq> K"
proof -
  have creates: "\<forall>e \<in> set (enrich_create_v2_from_create_events es). set (event_accounts e) \<subseteq> K" if
      "\<forall>e \<in> set es. set (event_accounts e) \<subseteq> K" for es :: "'a dex_event list"
    unfolding enrich_creates_map by (rule creates_map_known [OF _ that]) simp
  have fees: "\<forall>e \<in> set (enrich_create_observed_fee_recipient es). set (event_accounts e) \<subseteq> K" if
      es: "\<forall>e \<in> set es. set (event_accounts e) \<subseteq> K" for es :: "'a dex_event list"
  proof -
    have "observed_fee (collect_first known_mint_fee es) mint old \<in> K" if "old \<in> K" for mint old
      using that collected_known [OF es _ observed_fee_account] by (auto simp: observed_fee_def split: option.splits)
    then show ?thesis
      unfolding enrich_fees_map by (intro creates_map_known [OF _ es]) (simp add: create_accounts_def)
  qed
  have quotes: "\<forall>e \<in> set (enrich_create_quote_mint_from_trades es). set (event_accounts e) \<subseteq> K" if
      es: "\<forall>e \<in> set es. set (event_accounts e) \<subseteq> K" for es :: "'a dex_event list"
  proof -
    have "traded_quote (collect_first pumpfun_trade_mint_quote es) mint old \<in> K" if "old \<in> K" for mint old
      using that collected_known [OF es _ traded_quote_account] by (auto simp: traded_quote_def split: option.splits)
    then show ?thesis
      unfolding enrich_quotes_map by (intro creates_map_known [OF _ es]) (simp add: create_accounts_def)
  qed
  have flagged: "set (trade_accounts (flag_trade flags t)) = set (trade_accounts t)" for flags t
    by (simp add: flag_trade_def trade_accounts_def split: option.split prod.split)
  show ?thesis
    unfolding enrich_pumpfun_same_tx_post_merge_def enrich_trades_map
    using quotes [OF fees [OF creates [OF assms]]] by (simp add: event_accounts_maps flagged)
qed

lemma stamp_accounts: "event_accounts (stamp_metadata m r (stamp_create m e)) = event_accounts e"
  by (cases e rule: trade_of.cases; simp add: stamp_create_def stamp_metadata_def Let_def trade_accounts_def create_accounts_def)



end
