(* ===== verification/Unicode_Text.thy ===== *)
theory Unicode_Text
  imports Prelude
begin

text \<open>
  What the program uses of Rust's \<open>str\<close>, over the code points of a text: \<open>str::trim\<close> and the length in
  bytes.
\<close>

definition is_whitespace :: "nat \<Rightarrow> bool" where
  "is_whitespace ch \<longleftrightarrow>
     9 \<le> ch \<and> ch \<le> 13 \<or> ch \<in> {32, 133, 160, 5760, 8232, 8233, 8239, 8287, 12288} \<or> 8192 \<le> ch \<and> ch \<le> 8202"

definition trim :: "nat list \<Rightarrow> nat list" where
  "trim s = rev (dropWhile is_whitespace (rev (dropWhile is_whitespace s)))"

definition utf8_width :: "nat \<Rightarrow> nat" where
  "utf8_width ch = (if ch < 0x80 then 1 else if ch < 0x800 then 2 else if ch < 0x10000 then 3 else 4)"

definition byte_len :: "nat list \<Rightarrow> nat" where
  "byte_len s = sum_list (map utf8_width s)"

lemma byte_len_ge: "length s \<le> byte_len s"
  by (induction s) (auto simp: byte_len_def utf8_width_def)

end
