(* ===== verification/Stream_Client.thy ===== *)
theory Stream_Client
  imports Shred_Client Dex_Transaction Unicode_Text
begin

text \<open>
  The subscription client (\<open>src/shredstream/client.rs\<close> and \<open>src/shredstream/config.rs\<close>): where events are
  delivered, how a batch of entries becomes events, one run of a source and the loop that restarts it.
  What the sources yield is the argument of a run, the clock is the function \<open>clock\<close> of the number of
  readings so far, and the entry codec, the resolver and a custom parser are parameters. A task that is
  still waiting for its source is the result \<open>Receiving\<close>; \<open>None\<close> is a panic.
\<close>

section \<open>Configuration\<close>

datatype shred_decode_mode = Raw_Udp raw_shred_config | Jito_Grpc string

record shred_stream_config =
  decode_mode :: shred_decode_mode
  auth_token :: "nat list option"
  event_queue_capacity :: nat
  reconnect_delay_ms :: nat
  max_reconnect_attempts :: nat

definition mode_name :: "shred_decode_mode \<Rightarrow> string" where
  "mode_name m = (case m of Raw_Udp _ \<Rightarrow> ''raw-udp'' | Jito_Grpc _ \<Rightarrow> ''jito-grpc'')"

definition stream_config_default :: shred_stream_config where
  "stream_config_default =
     \<lparr>decode_mode = Raw_Udp raw_shred_config_default, auth_token = None, event_queue_capacity = 100000,
      reconnect_delay_ms = 250, max_reconnect_attempts = 0\<rparr>"

definition low_latency :: shred_stream_config where
  "low_latency =
     \<lparr>decode_mode = Raw_Udp (raw_shred_config_default
        \<lparr>reassembly_gap_timeout := from_millis 250, max_tracked_slots := 48\<rparr>),
      auth_token = None, event_queue_capacity = 100000, reconnect_delay_ms = 50, max_reconnect_attempts = 0\<rparr>"

definition high_throughput :: shred_stream_config where
  "high_throughput =
     \<lparr>decode_mode = Raw_Udp (raw_shred_config_default
        \<lparr>udp_recv_buffer_bytes := 128 * 1024 * 1024, max_tracked_slots := 128,
         reassembly_gap_timeout := from_millis 600\<rparr>),
      auth_token = None, event_queue_capacity = 500000, reconnect_delay_ms = 250, max_reconnect_attempts = 0\<rparr>"

definition stream_jito_grpc :: "string \<Rightarrow> shred_stream_config" where
  "stream_jito_grpc endpoint =
     \<lparr>decode_mode = Jito_Grpc endpoint, auth_token = None, event_queue_capacity = 100000,
      reconnect_delay_ms = 250, max_reconnect_attempts = 0\<rparr>"

definition stream_with_decode_mode :: "shred_decode_mode \<Rightarrow> shred_stream_config \<Rightarrow> shred_stream_config" where
  "stream_with_decode_mode m c = c\<lparr>decode_mode := m\<rparr>"

definition stream_with_udp_bind :: "string \<Rightarrow> shred_stream_config \<Rightarrow> shred_stream_config" where
  "stream_with_udp_bind addr c =
     (case decode_mode c of Raw_Udp raw \<Rightarrow> c\<lparr>decode_mode := Raw_Udp (raw\<lparr>udp_bind := addr\<rparr>)\<rparr> | Jito_Grpc _ \<Rightarrow> c)"

section \<open>Sinks\<close>

text \<open>The bounded queue with the events not yet popped, or the events the callback was called on. The
  dropped-event counter is a wrapping 64-bit atomic, shared by all the queues.\<close>

datatype 'e event_sink = Queue nat "'e list" | Callback "'e list"

definition deliver :: "'e \<Rightarrow> 'e event_sink \<times> u64 \<Rightarrow> 'e event_sink \<times> u64" where
  "deliver event s =
     (case s of
        (Queue capacity queue, dropped) \<Rightarrow>
          if length queue = capacity then (Queue capacity queue, dropped + 1)
          else (Queue capacity (queue @ [event]), dropped)
      | (Callback called, dropped) \<Rightarrow> (Callback (called @ [event]), dropped))"

text \<open>When a drop is logged: the first ten, then at each power of two.\<close>

definition drop_is_logged :: "u64 \<Rightarrow> bool" where
  "drop_is_logged dropped \<longleftrightarrow> dropped \<le> 10 \<or> (dropped \<noteq> 0 \<and> and dropped (dropped - 1) = 0)"

definition subscription_queue :: "shred_stream_config \<Rightarrow> 'e event_sink" where
  "subscription_queue c = Queue (max (event_queue_capacity c) 1) []"

section \<open>Transactions\<close>

record versioned_transaction =
  vt_signatures :: "signature list"
  vt_message :: dex_message

record address_lookup_stats =
  resolved_transactions :: u64
  resolution_failures :: u64
  transactions_without_resolver :: u64

record loaded_addresses =
  la_writable :: "pubkey list"
  la_readonly :: "pubkey list"

type_synonym address_lookup_resolver =
  "versioned_transaction \<Rightarrow> u64 \<Rightarrow> int \<Rightarrow> u64 \<Rightarrow> event_type_filter option \<Rightarrow> string + loaded_addresses"

text \<open>What a subscription was spawned with.\<close>

record 'p dex_task =
  tk_parsers :: "'p protocol_parsers"
  tk_derive :: address_derivation
  tk_filter :: "event_type_filter option"
  tk_resolver :: "address_lookup_resolver option"

definition parse_dex_transaction_events_with_resolver :: "'p dex_task \<Rightarrow> versioned_transaction \<Rightarrow> u64 \<Rightarrow> u64 \<Rightarrow> int
    \<Rightarrow> address_lookup_stats \<Rightarrow> 'p dex_event list \<times> address_lookup_stats" where
  "parse_dex_transaction_events_with_resolver task tx slot tx_index recv_us counters =
     (if vt_signatures tx = [] then ([], counters)
      else
        (let og = \<lparr>og_signature = hd (vt_signatures tx), og_slot = slot, og_tx_index = tx_index, og_grpc_recv_us = recv_us\<rparr>;
             m = vt_message tx;
             static = parse_transaction_dex_events_with_filter (tk_parsers task) (tk_derive task) m og (tk_filter task)
         in if dm_version m = V0_Message \<and> lookups_of m \<noteq> [] then
              (case tk_resolver task of
                 Some resolver \<Rightarrow>
                   (case resolver tx slot recv_us tx_index (tk_filter task) of
                      Inl error \<Rightarrow> ([], counters\<lparr>resolution_failures := resolution_failures counters + 1\<rparr>)
                    | Inr addresses \<Rightarrow>
                        (case parse_transaction_dex_events_with_loaded_addresses (tk_parsers task) (tk_derive task) m
                            (la_writable addresses) (la_readonly addresses) og (tk_filter task) of
                           Inl error \<Rightarrow> ([], counters\<lparr>resolution_failures := resolution_failures counters + 1\<rparr>)
                         | Inr events \<Rightarrow> (events, counters\<lparr>resolved_transactions := resolved_transactions counters + 1\<rparr>)))
               | None \<Rightarrow> (static, counters\<lparr>transactions_without_resolver := transactions_without_resolver counters + 1\<rparr>))
            else (static, counters)))"

section \<open>Batches\<close>

record 'e stream_state =
  ss_sink :: "'e event_sink"
  ss_dropped :: u64
  ss_counters :: address_lookup_stats
  ss_readings :: nat

definition deliver_all :: "'e list \<Rightarrow> 'e stream_state \<Rightarrow> 'e stream_state" where
  "deliver_all events st =
     (let (sink, dropped) = fold deliver events (ss_sink st, ss_dropped st)
      in st\<lparr>ss_sink := sink, ss_dropped := dropped\<rparr>)"

definition process_dex_transaction :: "'p dex_task \<Rightarrow> versioned_transaction \<Rightarrow> u64 \<Rightarrow> u64 \<Rightarrow> int
    \<Rightarrow> 'p dex_event stream_state \<Rightarrow> 'p dex_event stream_state" where
  "process_dex_transaction task tx slot tx_index recv_us st =
     (let (events, counters) = parse_dex_transaction_events_with_resolver task tx slot tx_index recv_us (ss_counters st)
      in deliver_all events (st\<lparr>ss_counters := counters\<rparr>))"

fun process_dex_transactions :: "'p dex_task \<Rightarrow> versioned_transaction list \<Rightarrow> u64 \<Rightarrow> u64 \<Rightarrow> int
    \<Rightarrow> 'p dex_event stream_state \<Rightarrow> 'p dex_event stream_state" where
  "process_dex_transactions task [] slot tx_index recv_us st = st"
| "process_dex_transactions task (tx # txs) slot tx_index recv_us st =
     process_dex_transactions task txs slot (tx_index + 1) recv_us
       (process_dex_transaction task tx slot tx_index recv_us st)"

definition process_dex_entry_batch :: "'p dex_task \<Rightarrow> (nat \<Rightarrow> int) \<Rightarrow> versioned_transaction shred_entry_batch
    \<Rightarrow> 'p dex_event stream_state \<Rightarrow> 'p dex_event stream_state" where
  "process_dex_entry_batch task clock batch st =
     process_dex_transactions task (concat (map transactions (batch_entries batch))) (batch_slot batch) 0
       (clock (ss_readings st)) (st\<lparr>ss_readings := ss_readings st + 1\<rparr>)"

section \<open>One run of a source\<close>

datatype stream_item = Message u64 bytes | Stream_Failure string | Stream_End

text \<open>What a source does in one run: it cannot be opened, or it yields items.\<close>

datatype source_run =
  Cannot_Open string
| Udp_Events "client_event list"
| Grpc_Items "stream_item list"

datatype run_error = Source_Error string | Shred_Error shred_decode_error | Stream_Ended

datatype run_result = Receiving | Returned "run_error + unit"

definition run_raw_dex_once :: "(versioned_transaction, 'rs, 'c) ledger \<Rightarrow> 'p dex_task \<Rightarrow> (nat \<Rightarrow> int) \<Rightarrow> raw_shred_config
    \<Rightarrow> client_event list \<Rightarrow> 'p dex_event stream_state \<Rightarrow> ('p dex_event stream_state \<times> run_result) option" where
  "run_raw_dex_once L task clock raw events st =
     do {
       (batches, client, err) \<leftarrow> run_entries L events (client_bind L raw);
       Some (fold (process_dex_entry_batch task clock) batches st,
             case err of None \<Rightarrow> Receiving | Some e \<Rightarrow> Returned (Inl (Shred_Error e)))
     }"

fun run_jito_items :: "(bytes \<Rightarrow> versioned_transaction entry list option) \<Rightarrow> 'p dex_task \<Rightarrow> (nat \<Rightarrow> int) \<Rightarrow> stream_item list
    \<Rightarrow> 'p dex_event stream_state \<Rightarrow> 'p dex_event stream_state \<times> run_result" where
  "run_jito_items decode_entries task clock [] st = (st, Receiving)"
| "run_jito_items decode_entries task clock (Stream_End # items) st = (st, Returned (Inl Stream_Ended))"
| "run_jito_items decode_entries task clock (Stream_Failure e # items) st = (st, Returned (Inl (Source_Error e)))"
| "run_jito_items decode_entries task clock (Message slot payload # items) st =
     (case decode_entries payload of
        None \<Rightarrow> run_jito_items decode_entries task clock items st
      | Some entries \<Rightarrow>
          run_jito_items decode_entries task clock items
            (process_dex_entry_batch task clock \<lparr>batch_slot = slot, batch_entries = entries\<rparr> st))"

text \<open>\<open>None\<close> stands for a panic of the decoder and for a source that is not the one of the mode.\<close>

definition run_dex_once :: "(versioned_transaction, 'rs, 'c) ledger \<Rightarrow> (bytes \<Rightarrow> versioned_transaction entry list option)
    \<Rightarrow> 'p dex_task \<Rightarrow> (nat \<Rightarrow> int) \<Rightarrow> shred_stream_config \<Rightarrow> source_run \<Rightarrow> 'p dex_event stream_state
    \<Rightarrow> ('p dex_event stream_state \<times> run_result) option" where
  "run_dex_once L decode_entries task clock c run st =
     (case run of
        Cannot_Open e \<Rightarrow> Some (st, Returned (Inl (Source_Error e)))
      | Udp_Events events \<Rightarrow>
          (case decode_mode c of Raw_Udp raw \<Rightarrow> run_raw_dex_once L task clock raw events st | Jito_Grpc _ \<Rightarrow> None)
      | Grpc_Items items \<Rightarrow>
          (case decode_mode c of Raw_Udp _ \<Rightarrow> None
           | Jito_Grpc _ \<Rightarrow> Some (run_jito_items decode_entries task clock items st)))"

section \<open>Restarting\<close>

text \<open>\<open>restart_attempts.saturating_add(1)\<close> at 32 bits.\<close>

definition next_attempt :: "nat \<Rightarrow> nat" where
  "next_attempt attempts = min (attempts + 1) (2 ^ 32 - 1)"

datatype task_state = Waiting | Running | Stopped nat run_error

text \<open>The loop over the runs of the source: with no run left it waits for the next one.\<close>

fun restart_loop :: "('r \<Rightarrow> 's \<Rightarrow> ('s \<times> run_result) option) \<Rightarrow> nat \<Rightarrow> 'r list \<Rightarrow> nat \<Rightarrow> 's \<Rightarrow> ('s \<times> task_state) option" where
  "restart_loop once limit [] attempts st = Some (st, Waiting)"
| "restart_loop once limit (run # runs) attempts st =
     do {
       (st', result) \<leftarrow> once run st;
       (case result of
          Receiving \<Rightarrow> Some (st', Running)
        | Returned (Inr _) \<Rightarrow> restart_loop once limit runs 0 st'
        | Returned (Inl error) \<Rightarrow>
            if limit > 0 \<and> attempts \<ge> limit then Some (st', Stopped attempts error)
            else restart_loop once limit runs (next_attempt attempts) st')
     }"

definition run_dex_with_restarts :: "(versioned_transaction, 'rs, 'c) ledger \<Rightarrow> (bytes \<Rightarrow> versioned_transaction entry list option)
    \<Rightarrow> 'p dex_task \<Rightarrow> (nat \<Rightarrow> int) \<Rightarrow> shred_stream_config \<Rightarrow> source_run list \<Rightarrow> 'p dex_event stream_state
    \<Rightarrow> ('p dex_event stream_state \<times> task_state) option" where
  "run_dex_with_restarts L decode_entries task clock c runs st =
     restart_loop (run_dex_once L decode_entries task clock c) (max_reconnect_attempts c) runs 0 st"

section \<open>Custom parsers\<close>

text \<open>A custom parser is a step of its own state that calls back on some events and may fail.\<close>

type_synonym ('q, 'e) custom_parser =
  "'q \<Rightarrow> versioned_transaction \<Rightarrow> u64 \<Rightarrow> u64 \<Rightarrow> int \<Rightarrow> 'e list \<times> 'q \<times> string option"

fun process_transactions :: "('q, 'e) custom_parser \<Rightarrow> versioned_transaction list \<Rightarrow> u64 \<Rightarrow> u64 \<Rightarrow> int
    \<Rightarrow> 'q \<times> 'e stream_state \<Rightarrow> 'q \<times> 'e stream_state" where
  "process_transactions parse [] slot tx_index recv_us s = s"
| "process_transactions parse (tx # txs) slot tx_index recv_us (parser, st) =
     (if vt_signatures tx = [] then process_transactions parse txs slot (tx_index + 1) recv_us (parser, st)
      else
        (let (events, parser', error) = parse parser tx slot tx_index recv_us
         in process_transactions parse txs slot (tx_index + 1) recv_us (parser', deliver_all events st)))"

definition process_entry_batch :: "('q, 'e) custom_parser \<Rightarrow> (nat \<Rightarrow> int) \<Rightarrow> versioned_transaction shred_entry_batch
    \<Rightarrow> 'q \<times> 'e stream_state \<Rightarrow> 'q \<times> 'e stream_state" where
  "process_entry_batch parse clock batch s =
     (let (parser, st) = s
      in process_transactions parse (concat (map transactions (batch_entries batch))) (batch_slot batch) 0
           (clock (ss_readings st)) (parser, st\<lparr>ss_readings := ss_readings st + 1\<rparr>))"

definition run_raw_once :: "(versioned_transaction, 'rs, 'c) ledger \<Rightarrow> ('q, 'e) custom_parser \<Rightarrow> (nat \<Rightarrow> int) \<Rightarrow> raw_shred_config
    \<Rightarrow> client_event list \<Rightarrow> 'q \<times> 'e stream_state \<Rightarrow> (('q \<times> 'e stream_state) \<times> run_result) option" where
  "run_raw_once L parse clock raw events s =
     do {
       (batches, client, err) \<leftarrow> run_entries L events (client_bind L raw);
       Some (fold (process_entry_batch parse clock) batches s,
             case err of None \<Rightarrow> Receiving | Some e \<Rightarrow> Returned (Inl (Shred_Error e)))
     }"

fun run_jito_custom :: "(bytes \<Rightarrow> versioned_transaction entry list option) \<Rightarrow> ('q, 'e) custom_parser \<Rightarrow> (nat \<Rightarrow> int)
    \<Rightarrow> stream_item list \<Rightarrow> 'q \<times> 'e stream_state \<Rightarrow> ('q \<times> 'e stream_state) \<times> run_result" where
  "run_jito_custom decode_entries parse clock [] s = (s, Receiving)"
| "run_jito_custom decode_entries parse clock (Stream_End # items) s = (s, Returned (Inl Stream_Ended))"
| "run_jito_custom decode_entries parse clock (Stream_Failure e # items) s = (s, Returned (Inl (Source_Error e)))"
| "run_jito_custom decode_entries parse clock (Message slot payload # items) s =
     (case decode_entries payload of
        None \<Rightarrow> run_jito_custom decode_entries parse clock items s
      | Some entries \<Rightarrow>
          run_jito_custom decode_entries parse clock items
            (process_entry_batch parse clock \<lparr>batch_slot = slot, batch_entries = entries\<rparr> s))"

definition run_once :: "(versioned_transaction, 'rs, 'c) ledger \<Rightarrow> (bytes \<Rightarrow> versioned_transaction entry list option)
    \<Rightarrow> ('q, 'e) custom_parser \<Rightarrow> (nat \<Rightarrow> int) \<Rightarrow> shred_stream_config \<Rightarrow> source_run \<Rightarrow> 'q \<times> 'e stream_state
    \<Rightarrow> (('q \<times> 'e stream_state) \<times> run_result) option" where
  "run_once L decode_entries parse clock c run s =
     (case run of
        Cannot_Open e \<Rightarrow> Some (s, Returned (Inl (Source_Error e)))
      | Udp_Events events \<Rightarrow>
          (case decode_mode c of Raw_Udp raw \<Rightarrow> run_raw_once L parse clock raw events s | Jito_Grpc _ \<Rightarrow> None)
      | Grpc_Items items \<Rightarrow>
          (case decode_mode c of Raw_Udp _ \<Rightarrow> None
           | Jito_Grpc _ \<Rightarrow> Some (run_jito_custom decode_entries parse clock items s)))"

definition run_with_restarts :: "(versioned_transaction, 'rs, 'c) ledger \<Rightarrow> (bytes \<Rightarrow> versioned_transaction entry list option)
    \<Rightarrow> ('q, 'e) custom_parser \<Rightarrow> (nat \<Rightarrow> int) \<Rightarrow> shred_stream_config \<Rightarrow> source_run list \<Rightarrow> 'q \<times> 'e stream_state
    \<Rightarrow> (('q \<times> 'e stream_state) \<times> task_state) option" where
  "run_with_restarts L decode_entries parse clock c runs s =
     restart_loop (run_once L decode_entries parse clock c) (max_reconnect_attempts c) runs 0 s"

section \<open>The subscription request\<close>

text \<open>The token is a list of code points; the metadata encoder is a parameter.\<close>

definition build_subscribe_request :: "(nat list \<Rightarrow> string + 'v) \<Rightarrow> nat list option \<Rightarrow> string + 'v option" where
  "build_subscribe_request metadata_value token =
     (case map_option trim token of
        None \<Rightarrow> Inr None
      | Some t \<Rightarrow>
          if t = [] then Inr None
          else case metadata_value t of Inl error \<Rightarrow> Inl error | Inr v \<Rightarrow> Inr (Some v))"

end
