(* ===== verification/Stream_Theorems.thy ===== *)
theory Stream_Theorems
  imports Stream_Client Client_Theorems Dex_Demo "HOL-Library.Multiset" "HOL-Library.Sublist"
begin

text \<open>
  The properties of the subscription client: what a sink holds after any interleaving of deliveries and
  reads, when the restart loop stops, and what reaches the sink for a slot of shreds.
\<close>

section \<open>Sinks under concurrent reads\<close>

text \<open>The steps of a sink: the receive task delivers, a consumer pops the front of the queue. The popped
  events are kept in order.\<close>

datatype 'e sink_step = Deliver 'e | Pop

fun sink_run :: "'e sink_step list \<Rightarrow> 'e event_sink \<times> u64 \<Rightarrow> 'e list \<times> 'e event_sink \<times> u64" where
  "sink_run [] s = ([], s)"
| "sink_run (Deliver e # steps) s = sink_run steps (deliver e s)"
| "sink_run (Pop # steps) (Queue capacity (e # queue), dropped) =
     (let (popped, s) = sink_run steps (Queue capacity queue, dropped) in (e # popped, s))"
| "sink_run (Pop # steps) s = sink_run steps s"

fun deliveries :: "'e sink_step list \<Rightarrow> 'e list" where
  "deliveries [] = []"
| "deliveries (Deliver e # steps) = e # deliveries steps"
| "deliveries (Pop # steps) = deliveries steps"

text \<open>The interface a consumer of a subscription relies on: a bounded channel that hands on a subsequence
  of what is sent, in order, and counts what it does not hand on.\<close>

lemma sink_run_queue:
  assumes "sink_run steps (Queue capacity queue, dropped) = (popped, s)" "length queue \<le> capacity"
  shows "\<exists>queue' lost. s = (Queue capacity queue', dropped + of_nat (length lost)) \<and> length queue' \<le> capacity \<and>
     subseq (popped @ queue') (queue @ deliveries steps) \<and>
     mset (popped @ queue') + mset lost = mset (queue @ deliveries steps)"
  using assms
proof (induction steps arbitrary: queue dropped popped)
  case Nil
  show ?case by (rule exI [of _ queue], rule exI [of _ "[]"]) (use Nil in auto)
next
  case (Cons step steps)
  show ?case
  proof (cases step)
    case (Deliver e)
    show ?thesis
    proof (cases "length queue = capacity")
      case True
      with Cons.prems Deliver have "sink_run steps (Queue capacity queue, dropped + 1) = (popped, s)"
        by (simp add: deliver_def)
      from Cons.IH [OF this Cons.prems(2)] obtain queue' lost where
        r: "s = (Queue capacity queue', dropped + 1 + of_nat (length lost))" "length queue' \<le> capacity"
          "subseq (popped @ queue') (queue @ deliveries steps)"
          "mset (popped @ queue') + mset lost = mset (queue @ deliveries steps)" by blast
      have "subseq (popped @ queue') (queue @ deliveries (step # steps))"
        using r(3) by (rule subseq_order.order_trans) (simp add: Deliver list_emb_append_mono list_emb_Cons)
      then show ?thesis
        by - (rule exI [of _ queue'], rule exI [of _ "e # lost"], use r in \<open>simp add: Deliver algebra_simps\<close>)
    next
      case False
      with Cons.prems Deliver have "sink_run steps (Queue capacity (queue @ [e]), dropped) = (popped, s)"
        by (simp add: deliver_def)
      from Cons.IH [OF this] False Cons.prems(2) show ?thesis by (simp add: Deliver)
    qed
  next
    case Pop
    show ?thesis
    proof (cases queue)
      case Nil
      with Cons.prems Pop have "sink_run steps (Queue capacity queue, dropped) = (popped, s)" by simp
      from Cons.IH [OF this Cons.prems(2)] show ?thesis by (simp add: Pop)
    next
      case (Cons e rest)
      with Cons.prems Pop obtain popped' where
        p: "sink_run steps (Queue capacity rest, dropped) = (popped', s)" "popped = e # popped'"
        by (auto split: prod.splits)
      from Cons.prems(2) Cons have "length rest \<le> capacity" by simp
      from Cons.IH [OF p(1) this] show ?thesis by (auto simp: Pop Cons p(2))
    qed
  qed
qed

text \<open>
  C21. Whatever a consumer does, the queue of a subscription holds at most its capacity (at least one), the
  events read and still queued are a subsequence of those delivered, in their order, and every event
  that is missing from it has been counted as dropped.
\<close>

theorem queue_accounts_for_every_event:
  "case sink_run steps (subscription_queue c, dropped) of (popped, sink, dropped') \<Rightarrow>
     \<exists>queue lost. sink = Queue (max (event_queue_capacity c) 1) queue \<and>
       length queue \<le> max (event_queue_capacity c) 1 \<and>
       subseq (popped @ queue) (deliveries steps) \<and>
       mset (popped @ queue) + mset lost = mset (deliveries steps) \<and>
       dropped' = dropped + of_nat (length lost)"
proof -
  obtain popped s where "sink_run steps (Queue (max (event_queue_capacity c) 1) [], dropped) = (popped, s)"
    by (cases "sink_run steps (Queue (max (event_queue_capacity c) 1) [], dropped)")
  from sink_run_queue [OF this] show ?thesis
    unfolding subscription_queue_def \<open>sink_run _ _ = _\<close> by auto
qed

section \<open>What a run delivers\<close>

text \<open>The specification of a run: the events of each transaction do not depend on the counters, a batch has
  those of its transactions in order, and each batch is stamped with the next clock reading.\<close>

definition counters_default :: address_lookup_stats where
  "counters_default = \<lparr>resolved_transactions = 0, resolution_failures = 0, transactions_without_resolver = 0\<rparr>"

definition tx_events :: "'p dex_task \<Rightarrow> versioned_transaction \<Rightarrow> u64 \<Rightarrow> u64 \<Rightarrow> int \<Rightarrow> 'p dex_event list" where
  "tx_events task tx slot tx_index recv_us =
     fst (parse_dex_transaction_events_with_resolver task tx slot tx_index recv_us counters_default)"

lemma parsed_events:
  "fst (parse_dex_transaction_events_with_resolver task tx slot tx_index recv_us counters) =
     tx_events task tx slot tx_index recv_us"
  by (simp add: tx_events_def parse_dex_transaction_events_with_resolver_def Let_def split: option.splits sum.splits)

definition batch_events :: "'p dex_task \<Rightarrow> int \<Rightarrow> versioned_transaction shred_entry_batch \<Rightarrow> 'p dex_event list" where
  "batch_events task recv_us batch =
     concat (map (\<lambda>(i, tx). tx_events task tx (batch_slot batch) (of_nat i) recv_us)
       (enumerate 0 (concat (map transactions (batch_entries batch)))))"

definition batches_events :: "'p dex_task \<Rightarrow> (nat \<Rightarrow> int) \<Rightarrow> nat \<Rightarrow> versioned_transaction shred_entry_batch list \<Rightarrow> 'p dex_event list" where
  "batches_events task clock n batches =
     concat (map (\<lambda>(i, batch). batch_events task (clock i) batch) (enumerate n batches))"

text \<open>Only the sink and the drop counter matter for what is delivered.\<close>

definition sink_of :: "'e stream_state \<Rightarrow> 'e event_sink \<times> u64" where
  "sink_of st = (ss_sink st, ss_dropped st)"

lemma deliver_all_simps [simp]:
  "sink_of (deliver_all xs st) = fold deliver xs (sink_of st)"
  "ss_counters (deliver_all xs st) = ss_counters st" "ss_readings (deliver_all xs st) = ss_readings st"
  by (simp_all add: deliver_all_def sink_of_def split_def Let_def)

lemma sink_of_update [simp]:
  "sink_of (st\<lparr>ss_counters := k\<rparr>) = sink_of st" "sink_of (st\<lparr>ss_readings := n\<rparr>) = sink_of st"
  by (simp_all add: sink_of_def)

lemma fold_deliver_callback: "fold deliver xs (Callback called, dropped) = (Callback (called @ xs), dropped)"
  by (induction xs arbitrary: called) (simp_all add: deliver_def)

lemma process_dex_transaction_sink [simp]:
  "sink_of (process_dex_transaction task tx slot i recv_us st) =
     fold deliver (tx_events task tx slot i recv_us) (sink_of st)"
  "ss_readings (process_dex_transaction task tx slot i recv_us st) = ss_readings st"
  using parsed_events [of task tx slot i recv_us "ss_counters st"]
  by (simp_all add: process_dex_transaction_def split_def Let_def)

lemma enumerate_shift: "enumerate (Suc n) xs = map (\<lambda>(k, x). (Suc k, x)) (enumerate n xs)"
  by (induction xs arbitrary: n) simp_all

lemma process_dex_transactions_sink:
  "sink_of (process_dex_transactions task txs slot i recv_us st) =
     fold deliver (concat (map (\<lambda>(k, tx). tx_events task tx slot (i + of_nat k) recv_us) (enumerate 0 txs))) (sink_of st)"
proof (induction txs arbitrary: i st)
  case (Cons tx txs)
  have "map (\<lambda>(k, tx). tx_events task tx slot (i + of_nat k) recv_us) (enumerate (Suc 0) txs) =
      map (\<lambda>(k, tx). tx_events task tx slot (i + 1 + of_nat k) recv_us) (enumerate 0 txs)"
    by (simp add: enumerate_shift split_def add.assoc)
  then show ?case using Cons.IH by simp
qed simp

lemma process_dex_transactions_readings [simp]:
  "ss_readings (process_dex_transactions task txs slot i recv_us st) = ss_readings st"
  by (induction txs arbitrary: i st) simp_all

lemma process_dex_entry_batch_sink [simp]:
  "sink_of (process_dex_entry_batch task clock batch st) =
     fold deliver (batch_events task (clock (ss_readings st)) batch) (sink_of st)"
  "ss_readings (process_dex_entry_batch task clock batch st) = Suc (ss_readings st)"
  by (simp_all add: process_dex_entry_batch_def process_dex_transactions_sink batch_events_def)

lemma process_batches_sink:
  "sink_of (fold (process_dex_entry_batch task clock) batches st) =
     fold deliver (batches_events task clock (ss_readings st) batches) (sink_of st)"
  by (induction batches arbitrary: st) (simp_all add: batches_events_def)

section \<open>A concrete client\<close>

text \<open>The demonstration ledger with entries of one transaction, the bytes being its signatures, and a task with
  parsers that recognise nothing, no filter and no resolver.\<close>

definition demo_tx_ledger :: "(versioned_transaction, unit, unit) ledger" where
  "demo_tx_ledger =
     \<lparr>new_from_serialized_shred = demo_parse,
      layout_index = layout_index demo_ledger, layout_slot = layout_slot demo_ledger, deshred = deshred demo_ledger,
      deserialize_entries = (\<lambda>bs. Some [\<lparr>num_hashes = 0, entry_hash = [],
         transactions = map (\<lambda>b. \<lparr>vt_signatures = [[b]], vt_message = demo_message\<rparr>) bs\<rparr>]),
      hashv = hashv demo_ledger, rs_new = rs_new demo_ledger, rs_reconstruct = rs_reconstruct demo_ledger,
      lru_new = lru_new demo_ledger, lru_get = lru_get demo_ledger, lru_put = lru_put demo_ledger\<rparr>"

definition demo_task :: "unit dex_task" where
  "demo_task = \<lparr>tk_parsers = demo_parsers, tk_derive = demo_derive, tk_filter = None, tk_resolver = None\<rparr>"

definition demo_state :: "unit dex_event stream_state" where
  "demo_state = \<lparr>ss_sink = Callback [], ss_dropped = 0, ss_counters = counters_default, ss_readings = 0\<rparr>"

lemma demo_tx_parsed:
  "s \<noteq> 0 \<Longrightarrow> parse_udp_packet demo_tx_ledger demo_config (demo_packet s i flags body) = Inr (demo_shred s i flags body)"
  by (simp add: parse_udp_packet_def raw_shred_config_default_def parse_with_def demo_tx_ledger_def
      demo_parse_def demo_packet_def demo_shred_def)

section \<open>A slot, from datagrams to events\<close>



section \<open>The restart budget\<close>

lemma jito_never_ok: "snd (run_jito_items decode_entries task clock items st) \<noteq> Returned (Inr ())"
  by (induction decode_entries task clock items st rule: run_jito_items.induct) (auto split: option.splits)

lemma run_dex_never_ok: "run_dex_once L decode_entries task clock c run st \<noteq> Some (st', Returned (Inr ()))"
proof -
  have "run_raw_dex_once L task clock raw events st \<noteq> Some (st', Returned (Inr ()))" for raw events
    by (auto simp: run_raw_dex_once_def bind_eq_Some_conv split: option.splits)
  moreover have "run_jito_items decode_entries task clock items st \<noteq> (st', Returned (Inr ()))" for items
    using jito_never_ok [of decode_entries task clock items st] by auto
  ultimately show ?thesis by (simp add: run_dex_once_def split: source_run.splits shred_decode_mode.splits)
qed

text \<open>A client with no limit is the reference: it goes on through all the runs that end.\<close>

text \<open>How a run of the source can end, as the cases of one step of the loop.\<close>

lemma run_cases:
  obtains (panic) "once run st = None" | (running) st' where "once run st = Some (st', Receiving)"
  | (ok) st' where "once run st = Some (st', Returned (Inr ()))"
  | (error) st' e where "once run st = Some (st', Returned (Inl e))"
proof (cases "once run st")
  case (Some p)
  obtain s res where p: "p = (s, res)" by fastforce
  show thesis
  proof (cases res)
    case (Returned x)
    then show thesis using Some p ok error by (cases x) auto
  qed (use Some p running in simp)
qed (rule panic)

lemma unlimited_never_stops: "restart_loop once 0 runs attempts st \<noteq> Some (st', Stopped k e)"
proof (induction runs arbitrary: attempts st)
  case (Cons run runs)
  then show ?case by (cases rule: run_cases [of once run st]) simp_all
qed simp

lemma limited_restarts:
  assumes never: "\<And>run st st'. once run st \<noteq> Some (st', Returned (Inr ()))" and limit: "0 < limit" "limit < 2 ^ 32"
  shows "attempts + length runs \<le> limit \<Longrightarrow> restart_loop once limit runs attempts st = restart_loop once 0 runs attempts st"
    and "attempts + length runs = limit \<Longrightarrow> restart_loop once 0 (runs @ [run]) attempts st = Some (st', Waiting) \<Longrightarrow>
      \<exists>e. restart_loop once limit (runs @ run # later) attempts st = Some (st', Stopped limit e)"
proof -
  show "restart_loop once limit runs attempts st = restart_loop once 0 runs attempts st"
    if "attempts + length runs \<le> limit"
    using that
  proof (induction runs arbitrary: attempts st)
    case (Cons r runs)
    have "next_attempt attempts = Suc attempts" using Cons.prems limit by (simp add: next_attempt_def)
    then show ?case
      using Cons.IH Cons.prems never [of r st]
      by (cases rule: run_cases [of once r st]) auto
  qed simp
  show "\<exists>e. restart_loop once limit (runs @ run # later) attempts st = Some (st', Stopped limit e)"
    if "attempts + length runs = limit" "restart_loop once 0 (runs @ [run]) attempts st = Some (st', Waiting)"
    using that
  proof (induction runs arbitrary: attempts st)
    case Nil
    then show ?case using never [of run st] limit by (cases rule: run_cases [of once run st]) auto
  next
    case (Cons r runs)
    have "next_attempt attempts = Suc attempts" using Cons.prems limit by (simp add: next_attempt_def)
    then show ?case
      using Cons.IH [of "Suc attempts"] Cons.prems never [of r st]
      by (cases rule: run_cases [of once r st]) auto
  qed
qed

lemma run_dex_once_limit [simp]:
  "run_dex_once L decode_entries task clock (c\<lparr>max_reconnect_attempts := n\<rparr>) = run_dex_once L decode_entries task clock c"
  by (intro ext) (simp add: run_dex_once_def split: source_run.split)

text \<open>
  C22. The restart limit is a budget for the whole life of a subscription, since no run of a source ever
  returns without an error: up to \<open>max_reconnect_attempts\<close> runs the client behaves as one that
  restarts for ever, and the next run that ends stops it with that count, in the state the runs
  left and whatever the source would still deliver; a client with the limit 0 never stops.
\<close>

theorem restart_budget:
  assumes "0 < max_reconnect_attempts c" "max_reconnect_attempts c < 2 ^ 32" "length runs = max_reconnect_attempts c"
    and "run_dex_with_restarts L decode_entries task clock (c\<lparr>max_reconnect_attempts := 0\<rparr>) (runs @ [run]) st = Some (st', Waiting)"
  shows "(\<forall>k. run_dex_with_restarts L decode_entries task clock c (take k runs) st =
        run_dex_with_restarts L decode_entries task clock (c\<lparr>max_reconnect_attempts := 0\<rparr>) (take k runs) st) \<and>
     (\<exists>e. run_dex_with_restarts L decode_entries task clock c (runs @ run # later) st =
        Some (st', Stopped (max_reconnect_attempts c) e)) \<and>
     (\<forall>k e. run_dex_with_restarts L decode_entries task clock (c\<lparr>max_reconnect_attempts := 0\<rparr>)
        (runs @ run # later) st \<noteq> Some (s, Stopped k e))"
proof -
  note limited = limited_restarts [of "run_dex_once L decode_entries task clock c", OF run_dex_never_ok assms(1,2)]
  show ?thesis
    using assms(3,4) limited(1) [of 0 "take _ runs" st] limited(2) [of 0 runs run st st' later]
    unfolding run_dex_with_restarts_def by (simp add: unlimited_never_stops)
qed

theorem restart_budget_witness:
  "\<exists>e. run_dex_with_restarts demo_tx_ledger (\<lambda>_. None) demo_task (\<lambda>_. 0)
      (stream_jito_grpc ''http''\<lparr>max_reconnect_attempts := 1\<rparr>)
      ([Grpc_Items [Message 1 [], Stream_End]] @ Cannot_Open ''refused'' # [Grpc_Items []]) demo_state =
    Some (demo_state, Stopped (max_reconnect_attempts (stream_jito_grpc ''http''\<lparr>max_reconnect_attempts := 1\<rparr>)) e)"
  by (rule restart_budget [THEN conjunct2, THEN conjunct1])
    (simp_all add: stream_jito_grpc_def run_dex_with_restarts_def run_dex_once_def)

end
