(* ===== verification/Subscription.thy ===== *)
theory Subscription
  imports Main
begin

text \<open>
  The subscription handle shared by the clones of a client (\<open>SubscriptionState\<close>, \<open>stop\<close>,
  \<open>subscribe_with_filter\<close>, \<open>spawn_dex_parser\<close> and \<open>Drop\<close> of \<open>src/shredstream/client.rs\<close>). Tasks are numbers; a
  call in progress is in one of four phases, which are the places where other calls can be
  interleaved: before the handle is locked and taken, before the taken task is aborted, before the new
  task is spawned and put in the handle, before the replaced task is aborted. A task runs until it
  ends by itself or has been aborted.
\<close>

section \<open>State\<close>

datatype call_phase =
  Taking bool
| Aborting nat bool
| Spawning
| Aborting_Previous nat

record subscription_state =
  sub_handle :: "nat option"
  sub_running :: "nat set"
  sub_next_task :: nat
  sub_calls :: "nat \<rightharpoonup> call_phase"
  sub_clients :: nat

definition client_new :: subscription_state where
  "client_new = \<lparr>sub_handle = None, sub_running = {}, sub_next_task = 0, sub_calls = Map.empty, sub_clients = 1\<rparr>"

section \<open>Steps\<close>

text \<open>After \<open>stop\<close>, a subscribing call goes on to spawn and a plain \<open>stop\<close> returns.\<close>

definition after_stop :: "bool \<Rightarrow> call_phase option" where
  "after_stop subscribing = (if subscribing then Some Spawning else None)"

definition begin_call :: "nat \<Rightarrow> bool \<Rightarrow> subscription_state \<Rightarrow> subscription_state" where
  "begin_call i subscribing s = s\<lparr>sub_calls := (sub_calls s)(i \<mapsto> Taking subscribing)\<rparr>"

definition stop_take :: "nat \<Rightarrow> bool \<Rightarrow> subscription_state \<Rightarrow> subscription_state" where
  "stop_take i subscribing s =
     (case sub_handle s of
        None \<Rightarrow> s\<lparr>sub_calls := (sub_calls s)(i := after_stop subscribing)\<rparr>
      | Some task \<Rightarrow> s\<lparr>sub_handle := None, sub_calls := (sub_calls s)(i \<mapsto> Aborting task subscribing)\<rparr>)"

definition stop_abort :: "nat \<Rightarrow> nat \<Rightarrow> bool \<Rightarrow> subscription_state \<Rightarrow> subscription_state" where
  "stop_abort i task subscribing s =
     s\<lparr>sub_running := sub_running s - {task}, sub_calls := (sub_calls s)(i := after_stop subscribing)\<rparr>"

definition spawn_replace :: "nat \<Rightarrow> subscription_state \<Rightarrow> subscription_state" where
  "spawn_replace i s =
     (let task = sub_next_task s
      in s\<lparr>sub_handle := Some task, sub_running := insert task (sub_running s), sub_next_task := Suc task,
           sub_calls := (sub_calls s)(i := map_option Aborting_Previous (sub_handle s))\<rparr>)"

definition abort_previous :: "nat \<Rightarrow> nat \<Rightarrow> subscription_state \<Rightarrow> subscription_state" where
  "abort_previous i task s =
     s\<lparr>sub_running := sub_running s - {task}, sub_calls := (sub_calls s)(i := None)\<rparr>"

text \<open>The last clone to be dropped drops the state and with it aborts its task.\<close>

definition drop_client :: "subscription_state \<Rightarrow> subscription_state" where
  "drop_client s =
     (if sub_clients s = 1
      then s\<lparr>sub_clients := 0, sub_handle := None,
             sub_running := (case sub_handle s of None \<Rightarrow> sub_running s | Some task \<Rightarrow> sub_running s - {task})\<rparr>
      else s\<lparr>sub_clients := sub_clients s - 1\<rparr>)"

inductive sub_step :: "subscription_state \<Rightarrow> subscription_state \<Rightarrow> bool" where
  Call: "sub_clients s > 0 \<Longrightarrow> sub_calls s i = None \<Longrightarrow> sub_step s (begin_call i subscribing s)"
| Take: "sub_calls s i = Some (Taking subscribing) \<Longrightarrow> sub_step s (stop_take i subscribing s)"
| Abort: "sub_calls s i = Some (Aborting task subscribing) \<Longrightarrow> sub_step s (stop_abort i task subscribing s)"
| Spawn: "sub_calls s i = Some Spawning \<Longrightarrow> sub_step s (spawn_replace i s)"
| Replace: "sub_calls s i = Some (Aborting_Previous task) \<Longrightarrow> sub_step s (abort_previous i task s)"
| Task_Ends: "sub_step s (s\<lparr>sub_running := sub_running s - {task}\<rparr>)"
| Clone: "sub_clients s > 0 \<Longrightarrow> sub_step s (s\<lparr>sub_clients := Suc (sub_clients s)\<rparr>)"
| Drop: "sub_clients s > 1 \<or> sub_clients s = 1 \<and> sub_calls s = Map.empty \<Longrightarrow> sub_step s (drop_client s)"

inductive sub_reachable :: "subscription_state \<Rightarrow> bool" where
  New: "sub_reachable client_new"
| Step: "sub_reachable s \<Longrightarrow> sub_step s s' \<Longrightarrow> sub_reachable s'"

inductive_cases sub_stepE: "sub_step s s'"

section \<open>Who answers for a running task\<close>

definition in_hand :: "call_phase \<Rightarrow> nat set" where
  "in_hand phase = (case phase of Aborting task _ \<Rightarrow> {task} | Aborting_Previous task \<Rightarrow> {task} | _ \<Rightarrow> {})"

lemma in_hand_simps [simp]:
  "in_hand (Taking b) = {}" "in_hand (Aborting t b) = {t}" "in_hand Spawning = {}" "in_hand (Aborting_Previous t) = {t}"
  by (simp_all add: in_hand_def)

definition held :: "(nat \<rightharpoonup> call_phase) \<Rightarrow> nat \<Rightarrow> bool" where
  "held calls task \<longleftrightarrow> (\<exists>i phase. calls i = Some phase \<and> task \<in> in_hand phase)"

definition answered :: "subscription_state \<Rightarrow> bool" where
  "answered s \<longleftrightarrow>
     (\<forall>task \<in> sub_running s. sub_handle s = Some task \<or> held (sub_calls s) task) \<and>
     (sub_clients s = 0 \<longrightarrow> sub_handle s = None \<and> sub_calls s = Map.empty)"

text \<open>The tasks in hand when one call moves on.\<close>

lemma held_update:
  assumes "calls i = Some phase" "held calls task" "task \<notin> in_hand phase"
  shows "held (calls(i := next)) task"
proof -
  from assms(2) obtain j p where j: "calls j = Some p" "task \<in> in_hand p" by (auto simp: held_def)
  show ?thesis
  proof (cases "j = i")
    case False
    then have "(calls(i := next)) j = Some p" using j by simp
    then show ?thesis using j unfolding held_def by blast
  qed (use j assms in simp)
qed

lemma held_next: "task \<in> in_hand p \<Longrightarrow> held (calls(i \<mapsto> p)) task"
  unfolding held_def by (rule exI [of _ i]) simp

lemma held_begin: "calls i = None \<Longrightarrow> held calls task \<Longrightarrow> held (calls(i \<mapsto> p)) task"
  unfolding held_def by (metis fun_upd_other option.distinct(1))

lemma answered_step: "sub_step s s' \<Longrightarrow> answered s \<Longrightarrow> answered s'"
proof (induction rule: sub_step.induct)
  case (Call s i subscribing)
  then show ?case by (auto simp: answered_def begin_call_def dest: held_begin)
next
  case (Take s i subscribing)
  then have "sub_clients s \<noteq> 0" by (auto simp: answered_def)
  note h = held_update [of "sub_calls s" i "Taking subscribing", OF Take(1)]
  show ?case
  proof (cases "sub_handle s")
    case None
    with Take \<open>sub_clients s \<noteq> 0\<close> show ?thesis by (auto simp: answered_def stop_take_def intro: h)
  next
    case (Some t)
    have "held ((sub_calls s)(i \<mapsto> Aborting t subscribing)) x" if "x \<in> sub_running s" for x
      using Take that Some h [of x] by (cases "x = t") (auto simp: answered_def intro: held_next)
    with Some \<open>sub_clients s \<noteq> 0\<close> show ?thesis by (simp add: answered_def stop_take_def)
  qed
next
  case (Abort s i task subscribing)
  then have "sub_clients s \<noteq> 0" by (auto simp: answered_def)
  note h = held_update [of "sub_calls s" i "Aborting task subscribing", OF Abort(1)]
  from Abort \<open>sub_clients s \<noteq> 0\<close> show ?case
    by (auto simp: answered_def stop_abort_def intro: h)
next
  case (Spawn s i)
  then have "sub_clients s \<noteq> 0" by (auto simp: answered_def)
  note h = held_update [of "sub_calls s" i "Spawning", OF Spawn(1)]
  have "held ((sub_calls s)(i := map_option Aborting_Previous (sub_handle s))) x" if "x \<in> sub_running s" for x
    using Spawn that h [of x] by (cases "sub_handle s = Some x") (auto simp: answered_def intro: held_next)
  with \<open>sub_clients s \<noteq> 0\<close> show ?case by (auto simp: answered_def spawn_replace_def Let_def)
next
  case (Replace s i task)
  then have "sub_clients s \<noteq> 0" by (auto simp: answered_def)
  note h = held_update [of "sub_calls s" i "Aborting_Previous task", OF Replace(1)]
  from Replace \<open>sub_clients s \<noteq> 0\<close> show ?case
    by (auto simp: answered_def abort_previous_def intro: h)
next
  case (Task_Ends s task)
  then show ?case by (auto simp: answered_def)
next
  case (Clone s)
  then show ?case by (auto simp: answered_def)
next
  case (Drop s)
  then show ?case by (auto simp: answered_def drop_client_def held_def split: option.splits)
qed

lemma answered_reachable: "sub_reachable s \<Longrightarrow> answered s"
proof (induction rule: sub_reachable.induct)
  case New
  then show ?case by (simp add: answered_def client_new_def)
qed (rule answered_step)

text \<open>
  C23. However the calls of the clones of a client interleave, every running receive task is in the handle
  or about to be aborted by a call in progress: with no call in progress at most one task runs, the one
  in the handle; after the last clone is dropped none does.
\<close>

theorem one_running_task:
  assumes "sub_reachable s"
  shows "(\<forall>task \<in> sub_running s. sub_handle s = Some task \<or> held (sub_calls s) task) \<and>
     (sub_calls s = Map.empty \<longrightarrow> sub_running s \<subseteq> set_option (sub_handle s)) \<and>
     (sub_clients s = 0 \<longrightarrow> sub_running s = {})"
  using answered_reachable [OF assms] by (auto simp: answered_def held_def)

text \<open>Two clones subscribe at once: the second finds the handle still empty and replaces the first's task.\<close>

definition racing_subscribes :: subscription_state where
  "racing_subscribes =
     (abort_previous 1 0 \<circ> spawn_replace 1 \<circ> spawn_replace 0 \<circ> stop_take 1 True \<circ> stop_take 0 True \<circ>
      begin_call 1 True \<circ> begin_call 0 True) client_new"

lemmas racing_defs = abort_previous_def spawn_replace_def stop_take_def begin_call_def client_new_def after_stop_def

lemma racing_reachable: "sub_reachable racing_subscribes"
  unfolding racing_subscribes_def comp_def
  by (rule sub_reachable.Step [OF _ sub_step.Replace], rule sub_reachable.Step [OF _ sub_step.Spawn],
      rule sub_reachable.Step [OF _ sub_step.Spawn], rule sub_reachable.Step [OF _ sub_step.Take],
      rule sub_reachable.Step [OF _ sub_step.Take], rule sub_reachable.Step [OF _ sub_step.Call],
      rule sub_reachable.Step [OF _ sub_step.Call], rule sub_reachable.New) (simp_all add: racing_defs)

theorem one_running_task_witness:
  "sub_running racing_subscribes = {1} \<and> sub_running racing_subscribes \<subseteq> set_option (sub_handle racing_subscribes)"
proof -
  have "sub_calls racing_subscribes = Map.empty" "sub_running racing_subscribes = {1}"
    by (auto simp: racing_subscribes_def racing_defs)
  then show ?thesis using one_running_task [OF racing_reachable] by simp
qed

end
