(* ===== verification/Stock_Catalog.thy ===== *)
theory Stock_Catalog
  imports Route_Analysis
begin

text \<open>
  The catalog of stock pools (\<open>src/stock_catalog.rs\<close>): compiling the pools to an index of identities, and
  selecting the legs of a route that go through a listed pool. The base58 parser is the parameter
  \<open>parse\<close>, the fields that nothing here reads are a type parameter, and the index is an association list.
\<close>

section \<open>The catalog\<close>

record stock_token =
  st_mint :: string
  st_symbol :: string
  st_decimals :: u8
  st_catalog_source :: string

record 'x stock_pool =
  sp_pool :: string
  sp_mint :: string
  sp_quote_mint :: string
  sp_dex_type :: string
  sp_preferred :: bool
  sp_snapshot :: 'x

type_synonym stock_index = "(pubkey \<times> (pubkey \<times> pubkey \<times> pubkey)) list"

record 'x stock_token_catalog =
  sc_tokens :: "stock_token list"
  sc_pools :: "'x stock_pool list"
  sc_index :: stock_index

datatype catalog_error =
  Unsupported_Protocol
| Bad_Key string
| Invalid_Identity
| Duplicate_Identity

definition dex_program :: "string \<Rightarrow> pubkey option" where
  "dex_program dex_type =
     (if dex_type = ''raydium_clmm'' then Some RAYDIUM_CLMM_PROGRAM_ID
      else if dex_type = ''raydium_cpmm'' then Some RAYDIUM_CPMM_PROGRAM_ID
      else if dex_type = ''orca_whirlpool'' then Some ORCA_WHIRLPOOL_PROGRAM_ID
      else if dex_type = ''meteora_dlmm'' then Some METEORA_DLMM_PROGRAM_ID
      else None)"

definition parse_key :: "(string \<Rightarrow> string + pubkey) \<Rightarrow> string \<Rightarrow> catalog_error + pubkey" where
  "parse_key parse s = (case parse s of Inl e \<Rightarrow> Inl (Bad_Key e) | Inr k \<Rightarrow> Inr k)"

definition and_then :: "'e + 'a \<Rightarrow> ('a \<Rightarrow> 'e + 'b) \<Rightarrow> 'e + 'b" where
  "and_then r f = (case r of Inl e \<Rightarrow> Inl e | Inr x \<Rightarrow> f x)"

text \<open>The identity of a pool: its key with the program and the two mints.\<close>

definition pool_identity :: "(string \<Rightarrow> string + pubkey) \<Rightarrow> 'x stock_pool
    \<Rightarrow> catalog_error + pubkey \<times> (pubkey \<times> pubkey \<times> pubkey)" where
  "pool_identity parse p =
     (case dex_program (sp_dex_type p) of
        None \<Rightarrow> Inl Unsupported_Protocol
      | Some program \<Rightarrow>
          and_then (parse_key parse (sp_pool p)) (\<lambda>pool.
          and_then (parse_key parse (sp_mint p)) (\<lambda>a.
          and_then (parse_key parse (sp_quote_mint p)) (\<lambda>b.
            if pool = default_pubkey \<or> a = default_pubkey \<or> b = default_pubkey \<or> a = b
            then Inl Invalid_Identity
            else Inr (pool, (program, a, b))))))"

fun build_index :: "(string \<Rightarrow> string + pubkey) \<Rightarrow> 'x stock_pool list \<Rightarrow> stock_index \<Rightarrow> catalog_error + stock_index" where
  "build_index parse [] index = Inr index"
| "build_index parse (p # pools) index =
     and_then (pool_identity parse p) (\<lambda>(pool, identity).
       if map_of index pool \<noteq> None then Inl Duplicate_Identity
       else build_index parse pools (AList.update pool identity index))"

definition catalog_new :: "(string \<Rightarrow> string + pubkey) \<Rightarrow> stock_token list \<Rightarrow> 'x stock_pool list
    \<Rightarrow> catalog_error + 'x stock_token_catalog" where
  "catalog_new parse tokens pools =
     and_then (build_index parse pools []) (\<lambda>index.
       Inr \<lparr>sc_tokens = tokens, sc_pools = pools, sc_index = index\<rparr>)"

definition preferred_pool :: "'x stock_token_catalog \<Rightarrow> string \<Rightarrow> 'x stock_pool option" where
  "preferred_pool c mint = find (\<lambda>p. sp_mint p = mint) (sc_pools c)"

definition leg_program :: "swap_protocol \<Rightarrow> pubkey option" where
  "leg_program protocol =
     (case protocol of
        RaydiumClmm \<Rightarrow> Some RAYDIUM_CLMM_PROGRAM_ID
      | RaydiumCpmm \<Rightarrow> Some RAYDIUM_CPMM_PROGRAM_ID
      | OrcaWhirlpool \<Rightarrow> Some ORCA_WHIRLPOOL_PROGRAM_ID
      | MeteoraDlmm \<Rightarrow> Some METEORA_DLMM_PROGRAM_ID
      | _ \<Rightarrow> None)"

definition is_conversion :: "'x stock_token_catalog \<Rightarrow> bool \<Rightarrow> route_swap_leg \<Rightarrow> bool" where
  "is_conversion c succeeded leg =
     (if \<not> succeeded then False
      else case leg_program (rl_protocol leg) of None \<Rightarrow> False
      | Some program \<Rightarrow>
          (case (rl_input_mint leg, rl_output_mint leg) of
             (Some a, Some b) \<Rightarrow>
               (case map_of (sc_index c) (rl_pool leg) of None \<Rightarrow> False
                | Some (expected, mint, quote) \<Rightarrow>
                    program = expected \<and> rl_program leg = expected \<and>
                    ((mint = a \<and> quote = b) \<or> (mint = b \<and> quote = a)))
           | _ \<Rightarrow> False))"

definition conversion_legs :: "'x stock_token_catalog \<Rightarrow> transaction_route \<Rightarrow> route_swap_leg list" where
  "conversion_legs c route = filter (is_conversion c (tr_succeeded route)) (tr_legs route)"

section \<open>What an accepted catalog holds\<close>

lemma and_then_Inr: "and_then r f = Inr y \<longleftrightarrow> (\<exists>x. r = Inr x \<and> f x = Inr y)"
  by (auto simp: and_then_def split: sum.splits)

lemma if_Inr_iff: "(if c then Inl e else Inr x) = Inr y \<longleftrightarrow> \<not> c \<and> x = y"
  by simp

lemma parse_key_Inr: "parse_key parse s = Inr k \<longleftrightarrow> parse s = Inr k"
  by (auto simp: parse_key_def split: sum.splits)

definition listed :: "(string \<Rightarrow> string + pubkey) \<Rightarrow> 'x stock_pool \<Rightarrow> pubkey \<Rightarrow> pubkey \<Rightarrow> pubkey \<Rightarrow> pubkey \<Rightarrow> bool" where
  "listed parse p pool program a b \<longleftrightarrow>
     parse (sp_pool p) = Inr pool \<and> parse (sp_mint p) = Inr a \<and> parse (sp_quote_mint p) = Inr b \<and>
     dex_program (sp_dex_type p) = Some program \<and> default_pubkey \<notin> {pool, a, b} \<and> a \<noteq> b"

lemma pool_identity_listed: "pool_identity parse p = Inr (pool, (program, a, b)) \<longleftrightarrow> listed parse p pool program a b"
  by (cases "dex_program (sp_dex_type p)") (auto simp: pool_identity_def listed_def and_then_Inr parse_key_Inr if_Inr_iff)

lemma listed_fun: "listed parse p k pr a b \<Longrightarrow> listed parse p k' pr' a' b' \<Longrightarrow> k' = k \<and> pr' = pr \<and> a' = a \<and> b' = b"
  by (auto simp: listed_def)

text \<open>An accepted list of pools has one identity each, under keys that are new and distinct.\<close>

lemma build_index_Inr:
  "build_index parse pools index = Inr index' \<longleftrightarrow>
     (\<exists>ids. map (pool_identity parse) pools = map Inr ids \<and> distinct (map fst ids) \<and>
            fst ` set ids \<inter> dom (map_of index) = {} \<and>
            index' = fold (\<lambda>(k, v). AList.update k v) ids index)"
proof (induction parse pools index rule: build_index.induct)
  case (1 parse index)
  then show ?case by auto
next
  case (2 parse p pools index)
  show ?case
  proof (cases "pool_identity parse p")
    case (Inl e)
    then show ?thesis by (auto simp: and_then_def Cons_eq_map_conv)
  next
    case (Inr entry)
    obtain k v where entry: "entry = (k, v)" by (cases entry)
    have ids: "(map (pool_identity parse) (p # pools) = map Inr ids) \<longleftrightarrow>
        (\<exists>ids'. ids = (k, v) # ids' \<and> map (pool_identity parse) pools = map Inr ids')" for ids :: stock_index
      by (cases ids) (auto simp: Inr entry)
    have fresh: "fst ` set ids \<inter> dom (map_of (AList.update k v index)) = {} \<longleftrightarrow>
        k \<notin> fst ` set ids \<and> fst ` set ids \<inter> dom (map_of index) = {}" for ids :: stock_index
      by (auto simp: update_conv')
    have step: "build_index parse (p # pools) index = Inr index' \<longleftrightarrow>
        map_of index k = None \<and> build_index parse pools (AList.update k v index) = Inr index'"
      by (cases "map_of index k") (auto simp: Inr entry and_then_def)
    show ?thesis
    proof (cases "map_of index k = None")
      case True
      then have IH: "build_index parse pools (AList.update k v index) = Inr index' \<longleftrightarrow>
          (\<exists>ids. map (pool_identity parse) pools = map Inr ids \<and> distinct (map fst ids) \<and>
            fst ` set ids \<inter> dom (map_of (AList.update k v index)) = {} \<and>
            index' = fold (\<lambda>(k, v). AList.update k v) ids (AList.update k v index))"
        by (intro "2.IH") simp
      have new: "k \<notin> dom (map_of index)" using True by (simp add: domIff)
      show ?thesis
        unfolding step ids IH fresh using True new by (auto simp del: map_eq_conv simp: image_iff)
    next
      case False
      then show ?thesis unfolding step ids by (auto simp del: map_eq_conv simp: domIff)
    qed
  qed
qed

lemma map_of_fold_update:
  "distinct (map fst ids) \<Longrightarrow>
     map_of (fold (\<lambda>(k, v). AList.update k v) ids index) = map_of index ++ map_of ids"
proof (induction ids arbitrary: index)
  case (Cons e ids)
  obtain k v where e: "e = (k, v)" by (cases e)
  from Cons.prems have "k \<notin> dom (map_of ids)" by (simp add: e dom_map_of_conv_image_fst)
  then show ?case
    using Cons by (auto simp: e update_conv' map_add_def fun_eq_iff domIff split: option.splits)
qed simp

lemma catalog_index:
  assumes "catalog_new parse tokens pools = Inr c"
  shows "map_of (sc_index c) k = Some (program, a, b) \<longleftrightarrow> (\<exists>p \<in> set pools. listed parse p k program a b)"
proof -
  from assms obtain ids where ids: "map (pool_identity parse) pools = map Inr ids" "distinct (map fst ids)"
    and c: "sc_index c = fold (\<lambda>(k, v). AList.update k v) ids []"
    by (auto simp: catalog_new_def and_then_Inr build_index_Inr)
  have "map_of (sc_index c) k = Some (program, a, b) \<longleftrightarrow> (k, (program, a, b)) \<in> set ids"
    using ids(2) by (simp add: c map_of_fold_update)
  also have "\<dots> \<longleftrightarrow> Inr (k, (program, a, b)) \<in> set (map (pool_identity parse) pools)"
    unfolding ids(1) by auto
  also have "\<dots> \<longleftrightarrow> (\<exists>p \<in> set pools. listed parse p k program a b)"
    by (auto simp: image_iff eq_commute [of "Inr _"] pool_identity_listed)
  finally show ?thesis .
qed

lemma catalog_accepted:
  "(\<exists>c. catalog_new parse tokens pools = Inr c) \<longleftrightarrow>
     (\<exists>ids. map (pool_identity parse) pools = map Inr ids \<and> distinct (map fst ids))"
  by (auto simp: catalog_new_def and_then_Inr build_index_Inr)

lemma identities_key:
  "map (pool_identity parse) pools = map Inr ids \<Longrightarrow> map (parse \<circ> sp_pool) pools = map (Inr \<circ> fst) ids"
proof (induction pools arbitrary: ids)
  case (Cons p pools)
  then obtain k pr a b ids' where "ids = (k, pr, a, b) # ids'" "pool_identity parse p = Inr (k, pr, a, b)"
    "map (pool_identity parse) pools = map Inr ids'"
    by (cases ids) auto
  then show ?case using Cons.IH [of ids'] by (simp add: pool_identity_listed) (simp add: listed_def)
qed simp

lemma identities_exist:
  "(\<exists>ids. map (pool_identity parse) pools = map Inr ids) \<longleftrightarrow>
     (\<forall>p \<in> set pools. \<exists>k pr a b. listed parse p k pr a b)"
proof (induction pools)
  case (Cons p pools)
  have "(\<exists>ids. map (pool_identity parse) (p # pools) = map Inr ids) \<longleftrightarrow>
      (\<exists>e. pool_identity parse p = Inr e) \<and> (\<exists>ids. map (pool_identity parse) pools = map Inr ids)"
    by (auto simp: Cons_eq_map_conv simp del: map_eq_conv)
  then show ?case unfolding Cons.IH by (simp add: pool_identity_listed)
qed simp

section \<open>Properties\<close>

text \<open>
  A catalog is accepted exactly when every pool has a known protocol, three well-formed keys none of
  which is the default and two different mints, and no two pools share a key; the index of an
  accepted catalog then maps a pool key to a program and two mints exactly when a pool of the catalog
  lists them.
\<close>

theorem catalog_exact:
  "((\<exists>c. catalog_new parse tokens pools = Inr c) \<longleftrightarrow>
      (\<forall>p \<in> set pools. \<exists>k program a b. listed parse p k program a b) \<and> distinct (map (parse \<circ> sp_pool) pools)) \<and>
   (catalog_new parse tokens pools = Inr c \<longrightarrow>
      (map_of (sc_index c) k = Some (program, a, b) \<longleftrightarrow> (\<exists>p \<in> set pools. listed parse p k program a b)))"
proof -
  have "distinct (map (parse \<circ> sp_pool) pools) \<longleftrightarrow> distinct (map fst ids)"
    if "map (pool_identity parse) pools = map Inr ids" for ids
    unfolding identities_key [OF that] by (simp add: distinct_map inj_on_def)
  then have "(\<exists>c. catalog_new parse tokens pools = Inr c) \<longleftrightarrow>
      (\<exists>ids. map (pool_identity parse) pools = map Inr ids) \<and> distinct (map (parse \<circ> sp_pool) pools)"
    unfolding catalog_accepted by blast
  then show ?thesis unfolding identities_exist using catalog_index by blast
qed

definition demo_key_parse :: "string \<Rightarrow> string + pubkey" where
  "demo_key_parse s = (if s = [] then Inl ''empty'' else Inr [of_nat (length s)])"

definition demo_pools :: "unit stock_pool list" where
  "demo_pools =
     [\<lparr>sp_pool = ''p'', sp_mint = ''mm'', sp_quote_mint = ''qqq'', sp_dex_type = ''raydium_cpmm'', sp_preferred = True,
       sp_snapshot = ()\<rparr>]"

lemma demo_listed: "listed demo_key_parse (hd demo_pools) [1] RAYDIUM_CPMM_PROGRAM_ID [2] [3]"
proof -
  have "[k] \<noteq> default_pubkey" "default_pubkey \<noteq> [k]" for k :: u8 by (auto dest: arg_cong [where f = length])
  then show ?thesis by (simp add: listed_def demo_pools_def demo_key_parse_def dex_program_def)
qed

theorem catalog_exact_witness:
  "\<exists>c. catalog_new demo_key_parse [] demo_pools = Inr c \<and>
     map_of (sc_index c) [1] = Some (RAYDIUM_CPMM_PROGRAM_ID, [2], [3])"
proof -
  have all: "\<forall>p \<in> set demo_pools. \<exists>k program a b. listed demo_key_parse p k program a b"
    "distinct (map (demo_key_parse \<circ> sp_pool) demo_pools)" "hd demo_pools \<in> set demo_pools"
    using demo_listed by (auto simp: demo_pools_def)
  then obtain c where "catalog_new demo_key_parse [] demo_pools = Inr c"
    using catalog_exact [THEN conjunct1, of demo_key_parse "[]" demo_pools] by blast
  then show ?thesis
    using catalog_exact [THEN conjunct2, of demo_key_parse "[]" demo_pools c] demo_listed all(3) by blast
qed

text \<open>
  With an accepted catalog, a leg is a conversion exactly when the transaction succeeded, the leg's
  protocol has a catalog program which the leg really called, and a pool of the catalog lists the
  leg's pool under that program with the leg's two mints, in either order; the conversions keep the
  order of the route.
\<close>

theorem conversion_legs_exact:
  assumes "catalog_new parse tokens pools = Inr c"
  shows "conversion_legs c route = filter (\<lambda>leg. tr_succeeded route \<and>
      (\<exists>p \<in> set pools. \<exists>a b. listed parse p (rl_pool leg) (rl_program leg) a b \<and>
         leg_program (rl_protocol leg) = Some (rl_program leg) \<and>
         ((rl_input_mint leg, rl_output_mint leg) = (Some a, Some b) \<or>
          (rl_input_mint leg, rl_output_mint leg) = (Some b, Some a)))) (tr_legs route)"
proof -
  have "is_conversion c s leg \<longleftrightarrow> s \<and> (\<exists>a b. map_of (sc_index c) (rl_pool leg) = Some (rl_program leg, a, b) \<and>
         leg_program (rl_protocol leg) = Some (rl_program leg) \<and>
         ((rl_input_mint leg, rl_output_mint leg) = (Some a, Some b) \<or>
          (rl_input_mint leg, rl_output_mint leg) = (Some b, Some a)))" for s leg
    by (auto simp: is_conversion_def split: option.splits)
  then show ?thesis
    unfolding conversion_legs_def catalog_index [OF assms]
    by (intro filter_cong) auto
qed

text \<open>The same pool in the reverse direction is a conversion, a leg with an unknown mint is not.\<close>

definition demo_leg :: "pubkey option \<Rightarrow> pubkey option \<Rightarrow> route_swap_leg" where
  "demo_leg a b =
     \<lparr>rl_position = \<lparr>ip_outer_index = 0, ip_inner_index = None, ip_stack_height = None\<rparr>,
      rl_program = RAYDIUM_CPMM_PROGRAM_ID, rl_protocol = RaydiumCpmm, rl_pool = [1], rl_trader = [7],
      rl_input_account = [8], rl_output_account = [9], rl_input_mint = a, rl_output_mint = b,
      rl_amount_specified_is_input = True, rl_specified_amount = 5, rl_other_amount_threshold = 0,
      rl_actual_input_amount = None, rl_actual_output_amount = None, rl_stonkfun_mode = None,
      rl_stonkfun_graduated = False\<rparr>"

definition demo_route :: transaction_route where
  "demo_route =
     \<lparr>tr_signature = [], tr_succeeded = True, tr_legs = [demo_leg (Some [3]) (Some [2]), demo_leg (Some [3]) None],
      tr_transfers = [], tr_native_token_actions = [], tr_unknown_invocations = []\<rparr>"

lemma demo_catalog: "\<exists>c. catalog_new demo_key_parse [] demo_pools = Inr c"
  using demo_listed unfolding catalog_accepted
  by (intro exI [of _ "[([1], RAYDIUM_CPMM_PROGRAM_ID, [2], [3])]"])
    (simp add: demo_pools_def flip: pool_identity_listed)

theorem conversion_legs_exact_witness:
  "\<exists>c. catalog_new demo_key_parse [] demo_pools = Inr c \<and>
     conversion_legs c demo_route = [demo_leg (Some [3]) (Some [2])]"
proof -
  obtain c where c: "catalog_new demo_key_parse [] demo_pools = Inr c" using demo_catalog by blast
  have only: "listed demo_key_parse p k pr a b \<longleftrightarrow> k = [1] \<and> pr = RAYDIUM_CPMM_PROGRAM_ID \<and> a = [2] \<and> b = [3]"
    if "p \<in> set demo_pools" for p k pr a b
    using that demo_listed listed_fun [of demo_key_parse p] by (auto simp: demo_pools_def)
  have "conversion_legs c demo_route = [demo_leg (Some [3]) (Some [2])]"
    unfolding conversion_legs_exact [OF c]
    by (auto simp: only demo_route_def demo_leg_def leg_program_def demo_pools_def)
  with c show ?thesis by blast
qed

end
