(* ===== verification/Pump_Logs.thy ===== *)
theory Pump_Logs
  imports Pump_Parsers Unicode_Text
begin

text \<open>
  The Pump.fun log parser (\<open>src/logs/pump.rs\<close>). Its readers are not checked: a read outside the data is
  undefined behaviour in the code and \<open>None\<close> here, so a parser has two layers of option: the outer one for
  undefined behaviour and panics, the inner one for the code's own \<open>None\<close>. The base64 decoder and the
  parser of the fee-sharing event are parameters. A text is its list of bytes; the instruction name, a
  \<open>string\<close> in the records, has one character for each byte.
\<close>

section \<open>Unchecked readers\<close>

type_synonym 'a or_ub = "'a option"

definition peek :: "nat \<Rightarrow> bytes \<Rightarrow> nat \<Rightarrow> bytes or_ub" where
  "peek w data offset = (if offset + w \<le> length data then Some (take w (drop offset data)) else None)"

definition read_u64_unchecked :: "bytes \<Rightarrow> nat \<Rightarrow> u64 or_ub" where
  "read_u64_unchecked data offset = map_option from_le (peek 8 data offset)"

definition read_i64_unchecked :: "bytes \<Rightarrow> nat \<Rightarrow> int or_ub" where
  "read_i64_unchecked data offset = map_option (\<lambda>bs. sint (from_le bs :: u64)) (peek 8 data offset)"

definition read_bool_unchecked :: "bytes \<Rightarrow> nat \<Rightarrow> bool or_ub" where
  "read_bool_unchecked data offset = map_option (\<lambda>bs. bs = [1]) (peek 1 data offset)"

definition read_pubkey_unchecked :: "bytes \<Rightarrow> nat \<Rightarrow> pubkey or_ub" where
  "read_pubkey_unchecked data offset = peek 32 data offset"

definition read_u32_unchecked :: "bytes \<Rightarrow> nat \<Rightarrow> u32 or_ub" where
  "read_u32_unchecked data offset = map_option from_le (peek 4 data offset)"

definition read_u16_unchecked :: "bytes \<Rightarrow> nat \<Rightarrow> u16 or_ub" where
  "read_u16_unchecked data offset = map_option from_le (peek 2 data offset)"

text \<open>The text with its length prefix; \<open>Some None\<close> when it is cut short or not UTF-8.\<close>

definition log_read_str :: "bytes \<Rightarrow> nat \<Rightarrow> (bytes \<times> nat) option or_ub" where
  "log_read_str data offset =
     (case usize_checked_add offset 4 of
        None \<Rightarrow> Some None
      | Some content_offset \<Rightarrow>
          if get_range offset content_offset data = None then Some None
          else do {
            len \<leftarrow> map_option unat (read_u32_unchecked data offset);
            Some (do {
              end_offset \<leftarrow> usize_checked_add content_offset len;
              bs \<leftarrow> get_range content_offset end_offset data;
              if utf8_ok bs then Some (bs, 4 + len) else None })
          })"

section \<open>Optional fields\<close>

text \<open>A field that is read when it is there; the code steps over its place in either case.\<close>

definition opt_u64 :: "bytes \<Rightarrow> nat \<Rightarrow> u64 or_ub" where
  "opt_u64 data offset = (if offset + 8 \<le> length data then read_u64_unchecked data offset else Some 0)"

definition opt_i64 :: "bytes \<Rightarrow> nat \<Rightarrow> int or_ub" where
  "opt_i64 data offset = (if offset + 8 \<le> length data then read_i64_unchecked data offset else Some 0)"

definition opt_bool :: "bytes \<Rightarrow> nat \<Rightarrow> bool or_ub" where
  "opt_bool data offset = (if offset < length data then read_bool_unchecked data offset else Some False)"

definition opt_pubkey :: "bytes \<Rightarrow> nat \<Rightarrow> pubkey or_ub" where
  "opt_pubkey data offset = (if offset + 32 \<le> length data then read_pubkey_unchecked data offset else Some default_pubkey)"

text \<open>These advance the offset only when the field is there.\<close>

definition read_optional_u64 :: "bytes \<Rightarrow> nat \<Rightarrow> (u64 \<times> nat) or_ub" where
  "read_optional_u64 data offset =
     (if offset + 8 \<le> length data then map_option (\<lambda>v. (v, offset + 8)) (read_u64_unchecked data offset)
      else Some (0, offset))"

definition read_optional_pubkey :: "bytes \<Rightarrow> nat \<Rightarrow> (pubkey \<times> nat) or_ub" where
  "read_optional_pubkey data offset =
     (if offset + 32 \<le> length data then map_option (\<lambda>v. (v, offset + 32)) (read_pubkey_unchecked data offset)
      else Some (default_pubkey, offset))"

definition MAX_TRADE_SHAREHOLDERS :: nat where "MAX_TRADE_SHAREHOLDERS = 64"

fun read_shareholders :: "bytes \<Rightarrow> nat \<Rightarrow> nat \<Rightarrow> pump_fees_shareholder list or_ub" where
  "read_shareholders data offset 0 = Some []"
| "read_shareholders data offset (Suc n) =
     do {
       address \<leftarrow> read_pubkey_unchecked data offset;
       share_bps \<leftarrow> read_u16_unchecked data (offset + 32);
       rest \<leftarrow> read_shareholders data (offset + 32 + 2) n;
       Some (\<lparr>sh_address = address, sh_share_bps = share_bps\<rparr> # rest)
     }"

definition read_trade_shareholders :: "bytes \<Rightarrow> nat \<Rightarrow> (pump_fees_shareholder list \<times> nat) option or_ub" where
  "read_trade_shareholders data offset =
     (if offset + 4 > length data then Some (Some ([], offset))
      else do {
        n \<leftarrow> map_option unat (read_u32_unchecked data offset);
        if n > MAX_TRADE_SHAREHOLDERS \<or> offset + (4 + n * 34) > length data then Some None
        else do { out \<leftarrow> read_shareholders data (offset + 4) n; Some (Some (out, offset + 4 + n * 34)) }
      })"

section \<open>Trades\<close>

definition normalize_pumpfun_ix_name :: "string \<Rightarrow> string" where
  "normalize_pumpfun_ix_name ix_name =
     (if ix_name = ''buy_v2'' \<or> ix_name = ''buy_v3'' then ''buy''
      else if ix_name = ''sell_v2'' \<or> ix_name = ''sell_v3'' then ''sell''
      else if ix_name = ''buy_exact_quote_in_v2'' \<or> ix_name = ''buy_exact_quote_in_v3'' then ''buy_exact_quote_in''
      else ix_name)"

definition text_of :: "bytes \<Rightarrow> string" where
  "text_of bs = map (\<lambda>b. char_of (unat b)) bs"

definition trade_variant :: "pumpfun_trade_event \<Rightarrow> 'p dex_event" where
  "trade_variant t =
     (let ix_kind = normalize_pumpfun_ix_name (pt_ix_name t)
      in Pump_Fun_Event
        (if ix_kind = ''buy'' then PumpFunBuy_Event t
         else if ix_kind = ''sell'' then PumpFunSell_Event t
         else if ix_kind = ''buy_exact_sol_in'' then PumpFunBuyExactSolIn_Event t
         else if ix_kind = ''buy_exact_quote_in'' then PumpFunBuy_Event t
         else PumpFunTrade_Event t))"

definition MIN_TRADE_LEN :: nat where
  "MIN_TRADE_LEN = 32 + 8 + 8 + 1 + 32 + 8 + 8 + 8 + 8 + 8 + 32 + 8 + 8 + 32 + 8 + 8"

text \<open>The fields every version of the event has, read without any check after the one on the length.\<close>

definition trade_core :: "bytes \<Rightarrow> pumpfun_trade_event or_ub" where
  "trade_core data =
     do {
       mint \<leftarrow> read_pubkey_unchecked data 0;
       sol_amount \<leftarrow> read_u64_unchecked data 32;
       token_amount \<leftarrow> read_u64_unchecked data 40;
       is_buy \<leftarrow> read_bool_unchecked data 48;
       user \<leftarrow> read_pubkey_unchecked data 49;
       timestamp \<leftarrow> read_i64_unchecked data 81;
       virtual_sol_reserves \<leftarrow> read_u64_unchecked data 89;
       virtual_token_reserves \<leftarrow> read_u64_unchecked data 97;
       real_sol_reserves \<leftarrow> read_u64_unchecked data 105;
       real_token_reserves \<leftarrow> read_u64_unchecked data 113;
       fee_recipient \<leftarrow> read_pubkey_unchecked data 121;
       fee_basis_points \<leftarrow> read_u64_unchecked data 153;
       fee \<leftarrow> read_u64_unchecked data 161;
       creator \<leftarrow> read_pubkey_unchecked data 169;
       creator_fee_basis_points \<leftarrow> read_u64_unchecked data 201;
       creator_fee \<leftarrow> read_u64_unchecked data 209;
       Some (default_trade\<lparr>pt_mint := mint, pt_sol_amount := sol_amount, pt_token_amount := token_amount,
         pt_is_buy := is_buy, pt_user := user, pt_timestamp := timestamp,
         pt_virtual_sol_reserves := virtual_sol_reserves, pt_virtual_token_reserves := virtual_token_reserves,
         pt_real_sol_reserves := real_sol_reserves, pt_real_token_reserves := real_token_reserves,
         pt_fee_recipient := fee_recipient, pt_fee_basis_points := fee_basis_points, pt_fee := fee,
         pt_creator := creator, pt_creator_fee_basis_points := creator_fee_basis_points,
         pt_creator_fee := creator_fee\<rparr>)
     }"

definition trade_volume :: "bytes \<Rightarrow> nat \<Rightarrow> pumpfun_trade_event \<Rightarrow> (pumpfun_trade_event \<times> nat) or_ub" where
  "trade_volume data offset t =
     do {
       track \<leftarrow> opt_bool data offset;
       total_unclaimed_tokens \<leftarrow> opt_u64 data (offset + 1);
       total_claimed_tokens \<leftarrow> opt_u64 data (offset + 9);
       current_sol_volume \<leftarrow> opt_u64 data (offset + 17);
       last_update_timestamp \<leftarrow> opt_i64 data (offset + 25);
       Some (t\<lparr>pt_track_volume := track, pt_total_unclaimed_tokens := total_unclaimed_tokens,
         pt_total_claimed_tokens := total_claimed_tokens, pt_current_sol_volume := current_sol_volume,
         pt_last_update_timestamp := last_update_timestamp\<rparr>, offset + 33)
     }"

text \<open>A name that cannot be read is empty and takes no place.\<close>

definition trade_name :: "bytes \<Rightarrow> nat \<Rightarrow> (string \<times> nat) or_ub" where
  "trade_name data offset =
     (if offset + 4 \<le> length data then do {
        s \<leftarrow> log_read_str data offset;
        Some (case s of Some (bs, len) \<Rightarrow> (text_of bs, offset + len) | None \<Rightarrow> ([], offset)) }
      else Some ([], offset))"

definition trade_cashback :: "bytes \<Rightarrow> nat \<Rightarrow> pumpfun_trade_event \<Rightarrow> (pumpfun_trade_event \<times> nat) or_ub" where
  "trade_cashback data offset t =
     do {
       mayhem_mode \<leftarrow> opt_bool data offset;
       cashback_fee_basis_points \<leftarrow> opt_u64 data (offset + 1);
       cashback \<leftarrow> opt_u64 data (offset + 9);
       Some (t\<lparr>pt_mayhem_mode := mayhem_mode, pt_cashback_fee_basis_points := cashback_fee_basis_points,
         pt_cashback := cashback, pt_is_cashback_coin := (cashback_fee_basis_points > 0)\<rparr>, offset + 17)
     }"

definition read_trade_event_extensions :: "bytes \<Rightarrow> nat \<Rightarrow> pumpfun_trade_event
    \<Rightarrow> (pumpfun_trade_event \<times> nat) option or_ub" where
  "read_trade_event_extensions data offset t =
     do {
       (buyback_fee_basis_points, offset) \<leftarrow> read_optional_u64 data offset;
       (buyback_fee, offset) \<leftarrow> read_optional_u64 data offset;
       holders \<leftarrow> read_trade_shareholders data offset;
       (case holders of
          None \<Rightarrow> Some None
        | Some (shareholders, offset) \<Rightarrow> do {
            (quote_mint, offset) \<leftarrow> read_optional_pubkey data offset;
            (quote_amount, offset) \<leftarrow> read_optional_u64 data offset;
            (virtual_quote_reserves, offset) \<leftarrow> read_optional_u64 data offset;
            (real_quote_reserves, offset) \<leftarrow> read_optional_u64 data offset;
            (holder_rewards_bps, offset) \<leftarrow> read_optional_u64 data offset;
            (holder_rewards, offset) \<leftarrow> read_optional_u64 data offset;
            Some (Some (t\<lparr>pt_buyback_fee_basis_points := buyback_fee_basis_points, pt_buyback_fee := buyback_fee,
              pt_shareholders := shareholders, pt_quote_mint := normalize_pumpfun_quote_mint quote_mint,
              pt_quote_amount := quote_amount, pt_virtual_quote_reserves := virtual_quote_reserves,
              pt_real_quote_reserves := real_quote_reserves, pt_holder_rewards_bps := holder_rewards_bps,
              pt_holder_rewards := holder_rewards\<rparr>, offset)) })
     }"

definition parse_trade_from_data :: "bytes \<Rightarrow> event_metadata \<Rightarrow> bool \<Rightarrow> 'p dex_event option or_ub" where
  "parse_trade_from_data data md is_created_buy =
     (if length data < MIN_TRADE_LEN then Some None
      else do {
        t \<leftarrow> trade_core data;
        (t, offset) \<leftarrow> trade_volume data MIN_TRADE_LEN t;
        (ix_name, offset) \<leftarrow> trade_name data offset;
        (t, offset) \<leftarrow> trade_cashback data offset t;
        extended \<leftarrow> read_trade_event_extensions data offset t;
        (case extended of
           None \<Rightarrow> Some None
         | Some (t, offset) \<Rightarrow> do {
             (creator_fee_unclaimed, offset) \<leftarrow> read_optional_u64 data offset;
             Some (Some (trade_variant (t\<lparr>pt_creator_fee_unclaimed := creator_fee_unclaimed, pt_metadata := md,
               pt_is_created_buy := is_created_buy, pt_ix_name := ix_name\<rparr>))) })
      })"

definition parse_buy_from_data :: "bytes \<Rightarrow> event_metadata \<Rightarrow> bool \<Rightarrow> 'p dex_event option or_ub" where
  "parse_buy_from_data data md is_created_buy =
     map_option (\<lambda>e. case e of Some (Pump_Fun_Event (PumpFunBuy_Event t)) \<Rightarrow> e | _ \<Rightarrow> None)
       (parse_trade_from_data data md is_created_buy)"

definition parse_sell_from_data :: "bytes \<Rightarrow> event_metadata \<Rightarrow> bool \<Rightarrow> 'p dex_event option or_ub" where
  "parse_sell_from_data data md is_created_buy =
     map_option (\<lambda>e. case e of Some (Pump_Fun_Event (PumpFunSell_Event t)) \<Rightarrow> e | _ \<Rightarrow> None)
       (parse_trade_from_data data md is_created_buy)"

definition parse_buy_exact_sol_in_from_data :: "bytes \<Rightarrow> event_metadata \<Rightarrow> bool \<Rightarrow> 'p dex_event option or_ub" where
  "parse_buy_exact_sol_in_from_data data md is_created_buy =
     map_option (\<lambda>e. case e of Some (Pump_Fun_Event (PumpFunBuyExactSolIn_Event t)) \<Rightarrow> e | _ \<Rightarrow> None)
       (parse_trade_from_data data md is_created_buy)"

section \<open>Creates and migrations\<close>

text \<open>The complete historical layouts after the three texts.\<close>

definition valid_create_event_body :: "bytes \<Rightarrow> bool" where
  "valid_create_event_body body \<longleftrightarrow>
     length body \<in> {96, 201, 202, 234, 242, 250, 251, 252} \<and>
     list_all (\<lambda>offset. case get_at offset body of None \<Rightarrow> True | Some v \<Rightarrow> v \<le> 1) [200, 201, 250]"

definition create_body_oldest :: "bytes \<Rightarrow> nat \<Rightarrow> event_metadata \<Rightarrow> bytes \<Rightarrow> bytes \<Rightarrow> bytes \<Rightarrow> pumpfun_create_event or_ub" where
  "create_body_oldest data offset md name symbol uri =
     do {
       mint \<leftarrow> read_pubkey_unchecked data offset;
       bonding_curve \<leftarrow> read_pubkey_unchecked data (offset + 32);
       user \<leftarrow> read_pubkey_unchecked data (offset + 64);
       Some (default_create\<lparr>pc_metadata := md, pc_name := name, pc_symbol := symbol, pc_uri := uri, pc_mint := mint,
         pc_bonding_curve := bonding_curve, pc_user := user, pc_ix_name := ''create'',
         pc_quote_mint := PUMPFUN_SOLSCAN_SOL_QUOTE_MINT\<rparr>)
     }"

definition create_body :: "bytes \<Rightarrow> nat \<Rightarrow> event_metadata \<Rightarrow> bytes \<Rightarrow> bytes \<Rightarrow> bytes \<Rightarrow> pumpfun_create_event or_ub" where
  "create_body data offset md name symbol uri =
     do {
       mint \<leftarrow> read_pubkey_unchecked data offset;
       bonding_curve \<leftarrow> read_pubkey_unchecked data (offset + 32);
       user \<leftarrow> read_pubkey_unchecked data (offset + 64);
       creator \<leftarrow> read_pubkey_unchecked data (offset + 96);
       timestamp \<leftarrow> read_i64_unchecked data (offset + 128);
       virtual_token_reserves \<leftarrow> read_u64_unchecked data (offset + 136);
       virtual_sol_reserves \<leftarrow> read_u64_unchecked data (offset + 144);
       real_token_reserves \<leftarrow> read_u64_unchecked data (offset + 152);
       token_total_supply \<leftarrow> read_u64_unchecked data (offset + 160);
       token_program \<leftarrow> opt_pubkey data (offset + 168);
       is_mayhem_mode \<leftarrow> opt_bool data (offset + 200);
       is_cashback_enabled \<leftarrow> opt_bool data (offset + 201);
       quote_mint \<leftarrow> opt_pubkey data (offset + 202);
       virtual_quote_reserves \<leftarrow> opt_u64 data (offset + 234);
       creator_fee_bps \<leftarrow> opt_u64 data (offset + 242);
       is_holder_reward \<leftarrow> opt_bool data (offset + 250);
       Some (default_create\<lparr>pc_metadata := md, pc_name := name, pc_symbol := symbol, pc_uri := uri, pc_mint := mint,
         pc_bonding_curve := bonding_curve, pc_user := user, pc_creator := creator, pc_timestamp := timestamp,
         pc_virtual_token_reserves := virtual_token_reserves, pc_virtual_sol_reserves := virtual_sol_reserves,
         pc_real_token_reserves := real_token_reserves, pc_token_total_supply := token_total_supply,
         pc_token_program := token_program, pc_is_mayhem_mode := is_mayhem_mode,
         pc_is_cashback_enabled := is_cashback_enabled, pc_quote_mint := normalize_pumpfun_quote_mint quote_mint,
         pc_virtual_quote_reserves := virtual_quote_reserves, pc_creator_fee_bps := creator_fee_bps,
         pc_is_holder_reward := is_holder_reward,
         pc_depth := (case get_at (offset + 251) data of None \<Rightarrow> 0 | Some d \<Rightarrow> d), pc_ix_name := ''create''\<rparr>)
     }"

definition parse_create_from_data :: "bytes \<Rightarrow> event_metadata \<Rightarrow> 'p dex_event option or_ub" where
  "parse_create_from_data data md =
     do {
       name \<leftarrow> log_read_str data 0;
       (case name of None \<Rightarrow> Some None
        | Some (name, name_len) \<Rightarrow> do {
            let offset = name_len;
            symbol \<leftarrow> log_read_str data offset;
            (case symbol of None \<Rightarrow> Some None
             | Some (symbol, symbol_len) \<Rightarrow> do {
                 let offset = offset + symbol_len;
                 uri \<leftarrow> log_read_str data offset;
                 (case uri of None \<Rightarrow> Some None
                  | Some (uri, uri_len) \<Rightarrow> do {
                      let offset = offset + uri_len;
                      body \<leftarrow> get_range offset (length data) data;
                      if \<not> valid_create_event_body body then Some None
                      else if length data - offset = 96
                      then map_option (\<lambda>c. Some (Pump_Fun_Event (PumpFunCreate_Event c)))
                             (create_body_oldest data offset md name symbol uri)
                      else if length data < offset + 32 + 32 + 32 + 32 + 8 + 8 + 8 + 8 + 8 + 32 + 1 then Some None
                      else map_option (\<lambda>c. Some (Pump_Fun_Event (PumpFunCreate_Event c)))
                             (create_body data offset md name symbol uri) }) }) })
     }"

definition parse_migrate_from_data :: "bytes \<Rightarrow> event_metadata \<Rightarrow> 'p dex_event option or_ub" where
  "parse_migrate_from_data data md =
     (if length data < 32 + 32 + 8 + 8 + 8 + 32 + 8 + 32 then Some None
      else do {
        user \<leftarrow> read_pubkey_unchecked data 0;
        mint \<leftarrow> read_pubkey_unchecked data 32;
        mint_amount \<leftarrow> read_u64_unchecked data 64;
        sol_amount \<leftarrow> read_u64_unchecked data 72;
        pool_migration_fee \<leftarrow> read_u64_unchecked data 80;
        bonding_curve \<leftarrow> read_pubkey_unchecked data 88;
        timestamp \<leftarrow> read_i64_unchecked data 120;
        pool \<leftarrow> read_pubkey_unchecked data 128;
        Some (Some (Pump_Fun_Event (PumpFunMigrate_Event
          \<lparr>pm_metadata = md, pm_user = user, pm_mint = mint, pm_mint_amount = mint_amount, pm_sol_amount = sol_amount,
           pm_pool_migration_fee = pool_migration_fee, pm_bonding_curve = bonding_curve, pm_timestamp = timestamp,
           pm_pool = pool\<rparr>)))
      })"

definition parse_migrate_bonding_curve_creator_from_data :: "bytes \<Rightarrow> event_metadata \<Rightarrow> 'p dex_event option or_ub" where
  "parse_migrate_bonding_curve_creator_from_data data md =
     (if length data < 8 + 32 * 5 then Some None
      else do {
        timestamp \<leftarrow> read_i64_unchecked data 0;
        mint \<leftarrow> read_pubkey_unchecked data 8;
        bonding_curve \<leftarrow> read_pubkey_unchecked data 40;
        sharing_config \<leftarrow> read_pubkey_unchecked data 72;
        old_creator \<leftarrow> read_pubkey_unchecked data 104;
        new_creator \<leftarrow> read_pubkey_unchecked data 136;
        Some (Some (Pump_Fun_Event (PumpFunMigrateBondingCurveCreator_Event
          \<lparr>mc_metadata = md, mc_timestamp = timestamp, mc_mint = mint, mc_bonding_curve = bonding_curve,
           mc_sharing_config = sharing_config, mc_old_creator = old_creator, mc_new_creator = new_creator\<rparr>)))
      })"

section \<open>Log lines\<close>

definition LOG_CREATE_EVENT :: u64 where "LOG_CREATE_EVENT = from_le [27, 114, 169, 77, 222, 235, 99, 118]"
definition LOG_TRADE_EVENT :: u64 where "LOG_TRADE_EVENT = from_le [189, 219, 127, 211, 78, 230, 97, 238]"
definition LOG_MIGRATE_EVENT :: u64 where "LOG_MIGRATE_EVENT = from_le [189, 233, 93, 185, 92, 148, 234, 148]"
definition LOG_CREATE_FEE_SHARING_CONFIG_EVENT :: u64 where
  "LOG_CREATE_FEE_SHARING_CONFIG_EVENT = from_le [133, 105, 170, 200, 184, 116, 251, 88]"
definition LOG_MIGRATE_CREATOR_EVENT :: u64 where "LOG_MIGRATE_CREATOR_EVENT = from_le [155, 167, 104, 220, 213, 108, 243, 3]"

text \<open>The code points of the tag before the payload.\<close>

definition program_data_tag :: "nat list" where
  "program_data_tag = map of_char ''Program data: ''"

text \<open>What follows the first occurrence of the tag.\<close>

fun after_tag :: "nat list \<Rightarrow> nat list option" where
  "after_tag [] = None"
| "after_tag (ch # log) =
     (if take (length program_data_tag) (ch # log) = program_data_tag
      then Some (drop (length program_data_tag) (ch # log)) else after_tag log)"

text \<open>Decoding into a buffer: an error of the decoder, or a panic when the buffer is too small.\<close>

definition decode_into :: "(nat list \<Rightarrow> bytes option) \<Rightarrow> nat \<Rightarrow> nat list \<Rightarrow> bytes option or_ub" where
  "decode_into decode room s =
     (case decode s of None \<Rightarrow> Some None
      | Some bs \<Rightarrow> if length bs \<le> room then Some (Some bs) else None)"

definition extract_program_data_zero_copy :: "(nat list \<Rightarrow> bytes option) \<Rightarrow> nat list \<Rightarrow> bytes option or_ub" where
  "extract_program_data_zero_copy decode log =
     (case after_tag log of None \<Rightarrow> Some None
      | Some data_part \<Rightarrow>
          (let trimmed = trim data_part
           in if byte_len trimmed > 2700 then Some None else decode_into decode 2048 trimmed))"

text \<open>The discriminator alone: 16 characters into 12 bytes, of which the code reads 8. A prefix that splits
  a character has other than ASCII characters, which the decoder refuses.\<close>

definition extract_discriminator_simd :: "(nat list \<Rightarrow> bytes option) \<Rightarrow> nat list \<Rightarrow> u64 option or_ub" where
  "extract_discriminator_simd decode log =
     (case after_tag log of None \<Rightarrow> Some None
      | Some data_part \<Rightarrow>
          (let trimmed = trim data_part
           in if byte_len trimmed < 16 then Some None
              else if list_ex (\<lambda>ch. ch \<ge> 0x80) (take 16 trimmed) then Some None
              else do {
                prefix \<leftarrow> decode_into decode 12 (take 16 trimmed);
                Some (map_option (\<lambda>bs. from_le (take 8 (bs @ replicate 12 0))) prefix) }))"

definition parse_log :: "(nat list \<Rightarrow> bytes option) \<Rightarrow> (bytes \<Rightarrow> event_metadata \<Rightarrow> 'p dex_event option)
    \<Rightarrow> nat list \<Rightarrow> tx_origin \<Rightarrow> int option \<Rightarrow> bool \<Rightarrow> 'p dex_event option or_ub" where
  "parse_log decode fee_sharing log og block_time_us is_created_buy =
     do {
       extracted \<leftarrow> extract_program_data_zero_copy decode log;
       (case extracted of None \<Rightarrow> Some None
        | Some program_data \<Rightarrow>
            if length program_data < 8 then Some None
            else do {
              discriminator \<leftarrow> read_u64_unchecked program_data 0;
              let data = drop 8 program_data;
              let md = origin_metadata og block_time_us;
              if discriminator = LOG_CREATE_EVENT then parse_create_from_data data md
              else if discriminator = LOG_TRADE_EVENT then parse_trade_from_data data md is_created_buy
              else if discriminator = LOG_MIGRATE_EVENT then parse_migrate_from_data data md
              else if discriminator = LOG_CREATE_FEE_SHARING_CONFIG_EVENT then Some (fee_sharing data md)
              else if discriminator = LOG_MIGRATE_CREATOR_EVENT
              then parse_migrate_bonding_curve_creator_from_data data md
              else Some None
            })
     }"

definition is_event_type :: "(nat list \<Rightarrow> bytes option) \<Rightarrow> nat list \<Rightarrow> u64 \<Rightarrow> bool or_ub" where
  "is_event_type decode log discriminator =
     map_option (\<lambda>d. d = Some discriminator) (extract_discriminator_simd decode log)"

end
