(* ===== verification/Pump_Log_Theorems.thy ===== *)
theory Pump_Log_Theorems
  imports Pump_Logs
begin

text \<open>
  The Pump.fun log parser never reads outside its data, and reads back every event that is written in
  the layouts of the program.
\<close>

section \<open>No read outside the data\<close>

named_theorems safe_reads "introduction rules for parsers that never read outside their data"

definition no_ub :: "'a or_ub \<Rightarrow> bool" where
  "no_ub m \<longleftrightarrow> m \<noteq> None"

lemma no_ub_control [safe_reads]:
  "no_ub (Some v)"
  "no_ub w \<Longrightarrow> no_ub (map_option f w)"
  "no_ub a \<Longrightarrow> (\<And>x. a = Some x \<Longrightarrow> no_ub (k x)) \<Longrightarrow> no_ub (Option.bind a k)"
  "(c \<Longrightarrow> no_ub m) \<Longrightarrow> (\<not> c \<Longrightarrow> no_ub n) \<Longrightarrow> no_ub (if c then m else n)"
  "(x = None \<Longrightarrow> no_ub r) \<Longrightarrow> (\<And>y. x = Some y \<Longrightarrow> no_ub (s y)) \<Longrightarrow> no_ub (case x of None \<Rightarrow> r | Some y \<Rightarrow> s y)"
  "(\<And>a b. p = (a, b) \<Longrightarrow> no_ub (g a b)) \<Longrightarrow> no_ub (case p of (a, b) \<Rightarrow> g a b)"
  by (auto simp: no_ub_def split: option.splits prod.splits)

lemma no_ub_reads [safe_reads]:
  "offset + 8 \<le> length data \<Longrightarrow> no_ub (read_u64_unchecked data offset)"
  "offset + 8 \<le> length data \<Longrightarrow> no_ub (read_i64_unchecked data offset)"
  "offset + 1 \<le> length data \<Longrightarrow> no_ub (read_bool_unchecked data offset)"
  "offset + 32 \<le> length data \<Longrightarrow> no_ub (read_pubkey_unchecked data offset)"
  "offset + 4 \<le> length data \<Longrightarrow> no_ub (read_u32_unchecked data offset)"
  "offset + 2 \<le> length data \<Longrightarrow> no_ub (read_u16_unchecked data offset)"
  by (simp_all add: no_ub_def read_u64_unchecked_def read_i64_unchecked_def read_bool_unchecked_def
      read_pubkey_unchecked_def read_u32_unchecked_def read_u16_unchecked_def peek_def)

lemma no_ub_opts [safe_reads]:
  "no_ub (opt_u64 data offset)" "no_ub (opt_i64 data offset)" "no_ub (opt_bool data offset)"
  "no_ub (opt_pubkey data offset)" "no_ub (read_optional_u64 data offset)" "no_ub (read_optional_pubkey data offset)"
  unfolding opt_u64_def opt_i64_def opt_bool_def opt_pubkey_def read_optional_u64_def read_optional_pubkey_def
  by (intro safe_reads, simp)+

lemma no_ub_str [safe_reads]: "no_ub (log_read_str data offset)"
  unfolding log_read_str_def
  by (intro safe_reads) (auto simp: usize_checked_add_def get_range_def split: if_splits)

lemma no_ub_shareholders [safe_reads]: "offset + n * 34 \<le> length data \<Longrightarrow> no_ub (read_shareholders data offset n)"
proof (induction n arbitrary: offset)
  case (Suc n)
  show ?case
    unfolding read_shareholders.simps by (intro safe_reads Suc.IH) (use Suc.prems in simp_all)
qed (simp add: no_ub_def)

lemma no_ub_trade_shareholders [safe_reads]: "no_ub (read_trade_shareholders data offset)"
  unfolding read_trade_shareholders_def by (intro safe_reads; simp)

lemma no_ub_trade_parts [safe_reads]:
  "MIN_TRADE_LEN \<le> length data \<Longrightarrow> no_ub (trade_core data)"
  "no_ub (trade_volume data offset t)" "no_ub (trade_name data offset)" "no_ub (trade_cashback data offset t)"
  "no_ub (read_trade_event_extensions data offset t)"
  unfolding trade_core_def trade_volume_def trade_name_def trade_cashback_def read_trade_event_extensions_def
  by (intro safe_reads; simp add: MIN_TRADE_LEN_def)+

lemma no_ub_trade [safe_reads]: "no_ub (parse_trade_from_data data md created)"
  unfolding parse_trade_from_data_def by (intro safe_reads) simp

lemma no_ub_migrations [safe_reads]:
  "no_ub (parse_migrate_from_data data md)" "no_ub (parse_migrate_bonding_curve_creator_from_data data md)"
  unfolding parse_migrate_from_data_def parse_migrate_bonding_curve_creator_from_data_def
  by (intro safe_reads; simp)+

text \<open>A text that was read ends inside the data.\<close>

lemma log_read_str_ends: "log_read_str data offset = Some (Some (bs, n)) \<Longrightarrow> offset + n \<le> length data"
  by (auto simp: log_read_str_def usize_checked_add_def get_range_def bind_eq_Some_conv split: option.splits if_splits)

lemma valid_body_length: "valid_create_event_body body \<Longrightarrow> length body = 96 \<or> length body \<ge> 201"
  by (auto simp: valid_create_event_body_def)

lemma no_ub_create [safe_reads]: "no_ub (parse_create_from_data data md)"
proof -
  have oldest: "length data - offset = 96 \<Longrightarrow> no_ub (create_body_oldest data offset md name symbol uri)" for offset name symbol uri
    unfolding create_body_oldest_def by (intro safe_reads; simp)
  have body: "offset + 201 \<le> length data \<Longrightarrow> no_ub (create_body data offset md name symbol uri)" for offset name symbol uri
    unfolding create_body_def by (intro safe_reads; simp)
  show ?thesis
    unfolding parse_create_from_data_def Let_def
    by (intro safe_reads oldest body)
      (auto simp: get_range_def no_ub_def dest!: log_read_str_ends)
qed

text \<open>
  C28. When the base64 decoder yields at most three bytes for four characters, no log line makes the log
  parser or the event-type test read outside the decoded data, overrun one of their fixed buffers or
  panic: not a short, an overlong or a malformed event, text, shareholder list or create body.
\<close>

theorem log_parser_safe:
  assumes "\<And>s bs. decode s = Some bs \<Longrightarrow> 4 * length bs \<le> 3 * byte_len s"
  shows "parse_log decode fee_sharing log og block_time_us is_created_buy \<noteq> None \<and>
    is_event_type decode log discriminator \<noteq> None"
proof
  have extracted: "no_ub (extract_program_data_zero_copy decode log)"
    unfolding extract_program_data_zero_copy_def decode_into_def Let_def
    by (intro safe_reads) (use assms in fastforce)
  have "no_ub (parse_log decode fee_sharing log og block_time_us is_created_buy)"
    unfolding parse_log_def Let_def by (intro safe_reads extracted) simp
  then show "parse_log decode fee_sharing log og block_time_us is_created_buy \<noteq> None" by (simp add: no_ub_def)
  have ascii: "\<not> list_ex (\<lambda>ch. 0x80 \<le> ch) s \<Longrightarrow> byte_len s = length s" for s
    by (induction s) (auto simp: byte_len_def utf8_width_def)
  have room: "length bs \<le> 12" if "decode (take 16 s) = Some bs" "\<not> list_ex (\<lambda>ch. 0x80 \<le> ch) (take 16 s)" for s bs
    using assms [OF that(1)] ascii [OF that(2)] by simp
  have "no_ub (is_event_type decode log discriminator)"
    unfolding is_event_type_def extract_discriminator_simd_def decode_into_def Let_def
    by (intro safe_reads) (use room in auto)
  then show "is_event_type decode log discriminator \<noteq> None" by (simp add: no_ub_def)
qed

definition demo_base64 :: "nat list \<Rightarrow> bytes option" where
  "demo_base64 s = (if s = map of_char ''m6do3NVs8wM='' then Some [155, 167, 104, 220, 213, 108, 243, 3] else None)"

definition demo_line :: "nat list" where
  "demo_line = map of_char ''Program data: m6do3NVs8wM=''"

text \<open>A creator migration without its body is no event.\<close>

theorem log_parser_safe_witness:
  "parse_log demo_base64 (\<lambda>_ _. None) demo_line
     \<lparr>og_signature = [], og_slot = 0, og_tx_index = 0, og_grpc_recv_us = 0\<rparr> None False \<noteq> (None :: unit dex_event option or_ub) \<and>
   is_event_type demo_base64 demo_line LOG_TRADE_EVENT \<noteq> None \<and>
   extract_program_data_zero_copy demo_base64 demo_line = Some (Some [155, 167, 104, 220, 213, 108, 243, 3])"
proof -
  have "4 * length bs \<le> 3 * byte_len s" if "demo_base64 s = Some bs" for s bs
    using that by (auto simp: demo_base64_def byte_len_def utf8_width_def split: if_splits)
  from log_parser_safe [of demo_base64, OF this] show ?thesis
    by (simp add: extract_program_data_zero_copy_def demo_line_def demo_base64_def program_data_tag_def trim_def is_whitespace_def
        byte_len_def utf8_width_def decode_into_def)
qed

section \<open>Written events\<close>

definition u64_bytes :: "u64 \<Rightarrow> bytes" where "u64_bytes v = le_bytes 8 (unat v)"

definition i64_bytes :: "int \<Rightarrow> bytes" where "i64_bytes t = u64_bytes (word_of_int t)"

definition i64_ok :: "int \<Rightarrow> bool" where "i64_ok t \<longleftrightarrow> - (2 ^ 63) \<le> t \<and> t < 2 ^ 63"

lemma length_written [simp]: "length (u64_bytes v) = 8" "length (i64_bytes t) = 8"
  by (simp_all add: u64_bytes_def i64_bytes_def)

lemma from_le_written [simp]:
  "from_le (u64_bytes v) = v" "i64_ok t \<Longrightarrow> sint (from_le (i64_bytes t) :: u64) = t"
proof -
  show written: "from_le (u64_bytes v) = v" for v
    unfolding u64_bytes_def by (rule from_le_le_bytes) simp
  show "sint (from_le (i64_bytes t) :: u64) = t" if "i64_ok t"
    using that by (simp add: i64_bytes_def written i64_ok_def sint_sbintrunc' signed_take_bit_int_eq_self)
qed

text \<open>Reading at an offset of a concatenation.\<close>

lemma peek_skip [simp]: "length xs \<le> offset \<Longrightarrow> peek w (xs @ ys) offset = peek w ys (offset - length xs)"
  by (auto simp: peek_def)

lemma peek_here [simp]: "length bs = w \<Longrightarrow> peek w (bs @ post) 0 = Some bs"
  "length bs = w \<Longrightarrow> peek w bs 0 = Some bs"
  by (simp_all add: peek_def)

lemmas read_written = read_u64_unchecked_def read_i64_unchecked_def read_bool_unchecked_def read_pubkey_unchecked_def
  read_u32_unchecked_def read_u16_unchecked_def opt_u64_def opt_i64_def opt_bool_def opt_pubkey_def
  read_optional_u64_def read_optional_pubkey_def

section \<open>Trades\<close>

definition core_bytes :: "pumpfun_trade_event \<Rightarrow> bytes" where
  "core_bytes t =
     pt_mint t @ u64_bytes (pt_sol_amount t) @ u64_bytes (pt_token_amount t) @ [bool_byte (pt_is_buy t)] @ pt_user t @
     i64_bytes (pt_timestamp t) @ u64_bytes (pt_virtual_sol_reserves t) @ u64_bytes (pt_virtual_token_reserves t) @
     u64_bytes (pt_real_sol_reserves t) @ u64_bytes (pt_real_token_reserves t) @ pt_fee_recipient t @
     u64_bytes (pt_fee_basis_points t) @ u64_bytes (pt_fee t) @ pt_creator t @
     u64_bytes (pt_creator_fee_basis_points t) @ u64_bytes (pt_creator_fee t)"

definition volume_bytes :: "pumpfun_trade_event \<Rightarrow> bytes" where
  "volume_bytes t =
     [bool_byte (pt_track_volume t)] @ u64_bytes (pt_total_unclaimed_tokens t) @ u64_bytes (pt_total_claimed_tokens t) @
     u64_bytes (pt_current_sol_volume t) @ i64_bytes (pt_last_update_timestamp t)"

definition name_bytes :: "string \<Rightarrow> bytes" where
  "name_bytes s = map of_char s"

definition text_bytes :: "bytes \<Rightarrow> bytes" where
  "text_bytes bs = le_bytes 4 (length bs) @ bs"

definition cashback_bytes :: "pumpfun_trade_event \<Rightarrow> bytes" where
  "cashback_bytes t =
     [bool_byte (pt_mayhem_mode t)] @ u64_bytes (pt_cashback_fee_basis_points t) @ u64_bytes (pt_cashback t)"

definition shareholder_bytes :: "pump_fees_shareholder \<Rightarrow> bytes" where
  "shareholder_bytes h = sh_address h @ le_bytes 2 (unat (sh_share_bps h))"

definition extension_bytes :: "pumpfun_trade_event \<Rightarrow> bytes" where
  "extension_bytes t =
     u64_bytes (pt_buyback_fee_basis_points t) @ u64_bytes (pt_buyback_fee t) @ le_bytes 4 (length (pt_shareholders t)) @
     concat (map shareholder_bytes (pt_shareholders t)) @ pt_quote_mint t @ u64_bytes (pt_quote_amount t) @
     u64_bytes (pt_virtual_quote_reserves t) @ u64_bytes (pt_real_quote_reserves t) @
     u64_bytes (pt_holder_rewards_bps t) @ u64_bytes (pt_holder_rewards t)"

text \<open>The current layout of a trade event, after the discriminator.\<close>

definition trade_bytes :: "pumpfun_trade_event \<Rightarrow> bytes" where
  "trade_bytes t =
     core_bytes t @ volume_bytes t @ text_bytes (name_bytes (pt_ix_name t)) @ cashback_bytes t @ extension_bytes t @
     u64_bytes (pt_creator_fee_unclaimed t)"

definition trade_ok :: "pumpfun_trade_event \<Rightarrow> bool" where
  "trade_ok t \<longleftrightarrow>
     length (pt_mint t) = 32 \<and> length (pt_user t) = 32 \<and> length (pt_fee_recipient t) = 32 \<and>
     length (pt_creator t) = 32 \<and> length (pt_quote_mint t) = 32 \<and> i64_ok (pt_timestamp t) \<and>
     i64_ok (pt_last_update_timestamp t) \<and> utf8_ok (name_bytes (pt_ix_name t)) \<and> length (pt_ix_name t) < 2 ^ 32 \<and>
     length (pt_shareholders t) \<le> 64 \<and> list_all (\<lambda>h. length (sh_address h) = 32) (pt_shareholders t)"

definition core_view :: "pumpfun_trade_event \<Rightarrow> pumpfun_trade_event" where
  "core_view t = default_trade
     \<lparr>pt_mint := pt_mint t, pt_sol_amount := pt_sol_amount t, pt_token_amount := pt_token_amount t,
      pt_is_buy := pt_is_buy t, pt_user := pt_user t, pt_timestamp := pt_timestamp t,
      pt_virtual_sol_reserves := pt_virtual_sol_reserves t, pt_virtual_token_reserves := pt_virtual_token_reserves t,
      pt_real_sol_reserves := pt_real_sol_reserves t, pt_real_token_reserves := pt_real_token_reserves t,
      pt_fee_recipient := pt_fee_recipient t, pt_fee_basis_points := pt_fee_basis_points t, pt_fee := pt_fee t,
      pt_creator := pt_creator t, pt_creator_fee_basis_points := pt_creator_fee_basis_points t,
      pt_creator_fee := pt_creator_fee t\<rparr>"

lemma bool_written [simp]: "bool_byte b = 1 \<longleftrightarrow> b"
  by (simp add: bool_byte_def)

lemma length_core: "trade_ok t \<Longrightarrow> length (core_bytes t) = MIN_TRADE_LEN"
  by (simp add: trade_ok_def core_bytes_def MIN_TRADE_LEN_def)

lemma core_read:
  assumes "trade_ok t"
  shows "trade_core (core_bytes t @ post) = Some (core_view t)"
proof -
  note lengths = assms [unfolded trade_ok_def]
  show ?thesis
    unfolding trade_core_def core_bytes_def core_view_def append_assoc read_written
    by (simp add: lengths del: append.simps)
qed

lemma volume_read:
  assumes "trade_ok t" "length pre = offset"
  shows "trade_volume (pre @ volume_bytes t @ post) offset v =
    Some (v\<lparr>pt_track_volume := pt_track_volume t, pt_total_unclaimed_tokens := pt_total_unclaimed_tokens t,
         pt_total_claimed_tokens := pt_total_claimed_tokens t, pt_current_sol_volume := pt_current_sol_volume t,
         pt_last_update_timestamp := pt_last_update_timestamp t\<rparr>, offset + 33)"
  using assms unfolding trade_volume_def volume_bytes_def append_assoc read_written
  by (simp add: trade_ok_def del: append.simps)

lemma cashback_read:
  assumes "length pre = offset"
  shows "trade_cashback (pre @ cashback_bytes t @ post) offset v =
    Some (v\<lparr>pt_mayhem_mode := pt_mayhem_mode t, pt_cashback_fee_basis_points := pt_cashback_fee_basis_points t,
         pt_cashback := pt_cashback t, pt_is_cashback_coin := (pt_cashback_fee_basis_points t > 0)\<rparr>, offset + 17)"
  using assms unfolding trade_cashback_def cashback_bytes_def append_assoc read_written
  by (simp del: append.simps)

lemma written_count: "n < 2 ^ 32 \<Longrightarrow> unat (from_le (le_bytes 4 n) :: u32) = n"
  by (simp add: from_le_def le_nat_le_bytes unat_of_nat)

lemma log_str_read:
  assumes "length pre = offset" "length bs < 2 ^ 32" "utf8_ok bs" "offset < 2 ^ 63"
  shows "log_read_str (pre @ text_bytes bs @ post) offset = Some (Some (bs, 4 + length bs))"
  using assms written_count [OF assms(2)]
  by (simp add: log_read_str_def text_bytes_def usize_checked_add_def get_range_def read_u32_unchecked_def)

lemma of_char_byte: "text_of (name_bytes s) = s"
proof -
  have "unat (of_char c :: u8) = of_char c" for c :: char
    using unat_of_nat [of "of_char c", where 'a = 8] by (simp only: of_nat_of_char) simp
  then have "char_of (unat (of_char c :: u8)) = c" for c :: char by simp
  then show ?thesis by (simp add: text_of_def name_bytes_def comp_def)
qed

lemma length_name [simp]: "length (name_bytes s) = length s"
  by (simp add: name_bytes_def)

lemma name_read:
  assumes "trade_ok t" "length pre = offset" "offset < 2 ^ 63"
  shows "trade_name (pre @ text_bytes (name_bytes (pt_ix_name t)) @ post) offset =
    Some (pt_ix_name t, offset + (4 + length (pt_ix_name t)))"
proof -
  have "log_read_str (pre @ text_bytes (name_bytes (pt_ix_name t)) @ post) offset =
      Some (Some (name_bytes (pt_ix_name t), 4 + length (pt_ix_name t)))"
    using log_str_read [OF assms(2) _ _ assms(3), of "name_bytes (pt_ix_name t)" post] assms(1) by (simp add: trade_ok_def)
  moreover have "offset + 4 \<le> length (pre @ text_bytes (name_bytes (pt_ix_name t)) @ post)"
    using assms(2) by (simp add: text_bytes_def)
  ultimately show ?thesis by (simp only: trade_name_def if_True bind.simps option.case prod.case of_char_byte)
qed

lemma shareholders_read:
  assumes "list_all (\<lambda>h. length (sh_address h) = 32) hs" "length pre = offset"
  shows "read_shareholders (pre @ concat (map shareholder_bytes hs) @ post) offset (length hs) = Some hs"
  using assms
proof (induction hs arbitrary: pre offset)
  case (Cons h hs)
  have "read_shareholders (pre @ shareholder_bytes h @ concat (map shareholder_bytes hs) @ post) (offset + 34) (length hs) = Some hs"
    using Cons.IH [of "pre @ shareholder_bytes h" "offset + 34"] Cons.prems by (simp add: shareholder_bytes_def [of h] add.commute)
  moreover have "(from_le (le_bytes 2 (unat (sh_share_bps h))) :: u16) = sh_share_bps h"
    by (rule from_le_le_bytes) simp
  ultimately show ?case
    using Cons.prems by (simp add: read_pubkey_unchecked_def read_u16_unchecked_def shareholder_bytes_def [of h] add.commute)
qed simp

lemma length_shareholders: "list_all (\<lambda>h. length (sh_address h) = 32) hs \<Longrightarrow> length (concat (map shareholder_bytes hs)) = length hs * 34"
  by (induction hs) (simp_all add: shareholder_bytes_def)

lemma trade_shareholders_read:
  assumes "list_all (\<lambda>h. length (sh_address h) = 32) hs" "length hs \<le> 64" "length pre = offset"
  shows "read_trade_shareholders (pre @ le_bytes 4 (length hs) @ concat (map shareholder_bytes hs) @ post) offset =
    Some (Some (hs, offset + 4 + length hs * 34))"
proof -
  have "unat (from_le (le_bytes 4 (length hs)) :: u32) = length hs" by (rule written_count) (use assms(2) in simp)
  then show ?thesis
    using shareholders_read [OF assms(1), of "pre @ le_bytes 4 (length hs)" "offset + 4" post] assms(2,3) length_shareholders [OF assms(1)]
    by (simp add: read_trade_shareholders_def read_u32_unchecked_def MAX_TRADE_SHAREHOLDERS_def)
qed

lemma optional_u64_read: "length pre = offset \<Longrightarrow> read_optional_u64 (pre @ u64_bytes v @ post) offset = Some (v, offset + 8)"
  by (simp add: read_optional_u64_def read_u64_unchecked_def)

lemma optional_pubkey_read:
  "length pre = offset \<Longrightarrow> length k = 32 \<Longrightarrow> read_optional_pubkey (pre @ k @ post) offset = Some (k, offset + 32)"
  by (simp add: read_optional_pubkey_def read_pubkey_unchecked_def)

definition extension_view :: "pumpfun_trade_event \<Rightarrow> pumpfun_trade_event \<Rightarrow> pumpfun_trade_event" where
  "extension_view t v = v\<lparr>pt_buyback_fee_basis_points := pt_buyback_fee_basis_points t, pt_buyback_fee := pt_buyback_fee t,
     pt_shareholders := pt_shareholders t, pt_quote_mint := normalize_pumpfun_quote_mint (pt_quote_mint t),
     pt_quote_amount := pt_quote_amount t, pt_virtual_quote_reserves := pt_virtual_quote_reserves t,
     pt_real_quote_reserves := pt_real_quote_reserves t, pt_holder_rewards_bps := pt_holder_rewards_bps t,
     pt_holder_rewards := pt_holder_rewards t\<rparr>"

lemma extensions_read:
  assumes "trade_ok t" "length pre = offset"
  shows "read_trade_event_extensions (pre @ extension_bytes t @ post) offset v =
    Some (Some (extension_view t v, offset + length (extension_bytes t)))"
proof -
  let ?n = "length (pt_shareholders t)"
  let ?b1 = "u64_bytes (pt_buyback_fee_basis_points t)" and ?b2 = "u64_bytes (pt_buyback_fee t)"
  let ?hs = "le_bytes 4 ?n @ concat (map shareholder_bytes (pt_shareholders t))"
  let ?r = "u64_bytes (pt_quote_amount t) @ u64_bytes (pt_virtual_quote_reserves t) @ u64_bytes (pt_real_quote_reserves t) @
     u64_bytes (pt_holder_rewards_bps t) @ u64_bytes (pt_holder_rewards t) @ post"
  let ?data = "pre @ ?b1 @ ?b2 @ ?hs @ pt_quote_mint t @ ?r"
  note lengths = assms [unfolded trade_ok_def]
  have hs: "length ?hs = 4 + ?n * 34" using lengths by (simp add: length_shareholders)
  have "read_optional_u64 ?data offset = Some (pt_buyback_fee_basis_points t, offset + 8)"
    "read_optional_u64 ?data (offset + 8) = Some (pt_buyback_fee t, offset + 16)"
    "read_trade_shareholders ?data (offset + 16) = Some (Some (pt_shareholders t, offset + 16 + 4 + ?n * 34))"
    using optional_u64_read [of pre offset] optional_u64_read [of "pre @ ?b1" "offset + 8"] lengths
      trade_shareholders_read [of "pt_shareholders t" "pre @ ?b1 @ ?b2" "offset + 16"] by simp_all
  moreover have "read_optional_pubkey ?data (offset + 16 + 4 + ?n * 34) = Some (pt_quote_mint t, offset + 52 + ?n * 34)"
    using optional_pubkey_read [of "pre @ ?b1 @ ?b2 @ ?hs" "offset + 16 + 4 + ?n * 34" "pt_quote_mint t" ?r] lengths hs by simp
  moreover have "read_optional_u64 ?data (offset + 52 + ?n * 34) = Some (pt_quote_amount t, offset + 60 + ?n * 34)"
    "read_optional_u64 ?data (offset + 60 + ?n * 34) = Some (pt_virtual_quote_reserves t, offset + 68 + ?n * 34)"
    "read_optional_u64 ?data (offset + 68 + ?n * 34) = Some (pt_real_quote_reserves t, offset + 76 + ?n * 34)"
    "read_optional_u64 ?data (offset + 76 + ?n * 34) = Some (pt_holder_rewards_bps t, offset + 84 + ?n * 34)"
    "read_optional_u64 ?data (offset + 84 + ?n * 34) = Some (pt_holder_rewards t, offset + 92 + ?n * 34)"
    using lengths hs by (simp_all add: read_optional_u64_def read_u64_unchecked_def)
  moreover have "length (extension_bytes t) = 92 + ?n * 34" using lengths hs by (simp add: extension_bytes_def)
  ultimately show ?thesis
    by (simp add: read_trade_event_extensions_def extension_bytes_def extension_view_def)
qed

text \<open>The event with the fields that are in the log; the others are the default ones.\<close>

definition logged_view :: "pumpfun_trade_event \<Rightarrow> pumpfun_trade_event" where
  "logged_view t =
     (extension_view t ((core_view t)
       \<lparr>pt_track_volume := pt_track_volume t, pt_total_unclaimed_tokens := pt_total_unclaimed_tokens t,
        pt_total_claimed_tokens := pt_total_claimed_tokens t, pt_current_sol_volume := pt_current_sol_volume t,
        pt_last_update_timestamp := pt_last_update_timestamp t, pt_mayhem_mode := pt_mayhem_mode t,
        pt_cashback_fee_basis_points := pt_cashback_fee_basis_points t, pt_cashback := pt_cashback t,
        pt_is_cashback_coin := (pt_cashback_fee_basis_points t > 0)\<rparr>))
       \<lparr>pt_creator_fee_unclaimed := pt_creator_fee_unclaimed t, pt_metadata := pt_metadata t,
        pt_is_created_buy := pt_is_created_buy t, pt_ix_name := pt_ix_name t\<rparr>"

text \<open>
  C29. Every trade event that is written in the program's current layout is read back: all its logged fields,
  the quote mint normalised, the cashback flag from the cashback fee, as the buy, sell or exact-in buy
  that its instruction name says, and whatever a later version appends is ignored.
\<close>

theorem trade_log_round_trip:
  assumes "trade_ok t"
  shows "parse_trade_from_data (trade_bytes t @ extra) (pt_metadata t) (pt_is_created_buy t) =
    Some (Some (trade_variant (logged_view t)))"
proof -
  let ?name = "text_bytes (name_bytes (pt_ix_name t))"
  let ?fee = "u64_bytes (pt_creator_fee_unclaimed t)"
  let ?n = "MIN_TRADE_LEN + 33 + (4 + length (pt_ix_name t))"
  let ?data = "trade_bytes t @ extra"
  have lens: "length (core_bytes t) = MIN_TRADE_LEN" "length (volume_bytes t) = 33"
    "length ?name = 4 + length (pt_ix_name t)" "length (cashback_bytes t) = 17"
    using length_core [OF assms] by (simp_all add: volume_bytes_def text_bytes_def cashback_bytes_def)
  have name: "trade_name ?data (MIN_TRADE_LEN + 33) = Some (pt_ix_name t, ?n)"
    using name_read [OF assms, of "core_bytes t @ volume_bytes t" "MIN_TRADE_LEN + 33"] lens
    by (simp add: trade_bytes_def MIN_TRADE_LEN_def)
  have "\<not> length ?data < MIN_TRADE_LEN" using lens(1) by (simp add: trade_bytes_def)
  moreover have "trade_core ?data = Some (core_view t)"
    using core_read [OF assms] by (simp add: trade_bytes_def)
  moreover note volume_read [OF assms lens(1)] name
  moreover note cashback_read [of "core_bytes t @ volume_bytes t @ ?name" ?n t]
  moreover note extensions_read [OF assms, of "core_bytes t @ volume_bytes t @ ?name @ cashback_bytes t" "?n + 17" "?fee @ extra"]
  moreover note optional_u64_read [of "core_bytes t @ volume_bytes t @ ?name @ cashback_bytes t @ extension_bytes t"
      "?n + 17 + length (extension_bytes t)" "pt_creator_fee_unclaimed t" extra]
  ultimately show ?thesis
    using lens by (simp add: parse_trade_from_data_def trade_bytes_def logged_view_def)
qed

definition demo_logged :: pumpfun_trade_event where
  "demo_logged = default_trade\<lparr>pt_mint := replicate 32 7, pt_sol_amount := 5, pt_is_buy := True, pt_timestamp := -1,
     pt_ix_name := ''buy_v2'', pt_cashback_fee_basis_points := 3,
     pt_shareholders := [\<lparr>sh_address = replicate 32 9, sh_share_bps = 10000\<rparr>]\<rparr>"

theorem trade_log_round_trip_witness:
  "parse_trade_from_data (trade_bytes demo_logged @ [1, 2]) default_metadata False =
    (Some (Some (Pump_Fun_Event (PumpFunBuy_Event (logged_view demo_logged)))) :: unit dex_event option or_ub) \<and>
   pt_is_cashback_coin (logged_view demo_logged) \<and> pt_quote_mint (logged_view demo_logged) = PUMPFUN_SOLSCAN_SOL_QUOTE_MINT"
proof -
  have "trade_ok demo_logged" by (simp add: trade_ok_def demo_logged_def i64_ok_def name_bytes_def)
  moreover have "trade_variant (logged_view demo_logged) = (Pump_Fun_Event (PumpFunBuy_Event (logged_view demo_logged)) :: unit dex_event)"
    by (simp add: trade_variant_def logged_view_def demo_logged_def normalize_pumpfun_ix_name_def)
  moreover have "pt_metadata demo_logged = default_metadata" "pt_is_created_buy demo_logged = False" by (simp_all add: demo_logged_def)
  ultimately show ?thesis
    using trade_log_round_trip [of demo_logged "[1, 2]", where 'a = unit]
    by (simp add: logged_view_def extension_view_def core_view_def normalize_pumpfun_quote_mint_def)
      (simp add: demo_logged_def)
qed

end
