(* ===== verification/Pump_Log_Creates.thy ===== *)
theory Pump_Log_Creates
  imports Pump_Log_Theorems
begin

text \<open>
  The create event of the Pump.fun log parser over all its historical layouts, which are the prefixes of
  the current one at eight lengths.
\<close>

section \<open>The layouts\<close>

definition create_body_bytes :: "pumpfun_create_event \<Rightarrow> bytes" where
  "create_body_bytes c =
     pc_mint c @ pc_bonding_curve c @ pc_user c @ pc_creator c @ i64_bytes (pc_timestamp c) @
     u64_bytes (pc_virtual_token_reserves c) @ u64_bytes (pc_virtual_sol_reserves c) @
     u64_bytes (pc_real_token_reserves c) @ u64_bytes (pc_token_total_supply c) @ pc_token_program c @
     [bool_byte (pc_is_mayhem_mode c)] @ [bool_byte (pc_is_cashback_enabled c)] @ pc_quote_mint c @
     u64_bytes (pc_virtual_quote_reserves c) @ u64_bytes (pc_creator_fee_bps c) @
     [bool_byte (pc_is_holder_reward c)] @ [pc_depth c]"

definition create_layouts :: "nat set" where
  "create_layouts = {96, 201, 202, 234, 242, 250, 251, 252}"

text \<open>The event after the discriminator, in the layout of \<open>n\<close> bytes.\<close>

definition create_bytes :: "nat \<Rightarrow> pumpfun_create_event \<Rightarrow> bytes" where
  "create_bytes n c =
     text_bytes (pc_name c) @ text_bytes (pc_symbol c) @ text_bytes (pc_uri c) @ take n (create_body_bytes c)"

definition create_ok :: "pumpfun_create_event \<Rightarrow> bool" where
  "create_ok c \<longleftrightarrow>
     length (pc_mint c) = 32 \<and> length (pc_bonding_curve c) = 32 \<and> length (pc_user c) = 32 \<and>
     length (pc_creator c) = 32 \<and> length (pc_token_program c) = 32 \<and> length (pc_quote_mint c) = 32 \<and>
     i64_ok (pc_timestamp c) \<and>
     list_all (\<lambda>s. utf8_ok s \<and> length s < 2 ^ 32) [pc_name c, pc_symbol c, pc_uri c]"

text \<open>What a layout tells: a field beyond its end is the default one.\<close>

definition create_view :: "nat \<Rightarrow> pumpfun_create_event \<Rightarrow> pumpfun_create_event" where
  "create_view n c =
     (if n = 96
      then default_create\<lparr>pc_metadata := pc_metadata c, pc_name := pc_name c, pc_symbol := pc_symbol c, pc_uri := pc_uri c,
        pc_mint := pc_mint c, pc_bonding_curve := pc_bonding_curve c, pc_user := pc_user c, pc_ix_name := ''create'',
        pc_quote_mint := PUMPFUN_SOLSCAN_SOL_QUOTE_MINT\<rparr>
      else default_create\<lparr>pc_metadata := pc_metadata c, pc_name := pc_name c, pc_symbol := pc_symbol c, pc_uri := pc_uri c,
        pc_mint := pc_mint c, pc_bonding_curve := pc_bonding_curve c, pc_user := pc_user c, pc_creator := pc_creator c,
        pc_timestamp := pc_timestamp c, pc_virtual_token_reserves := pc_virtual_token_reserves c,
        pc_virtual_sol_reserves := pc_virtual_sol_reserves c, pc_real_token_reserves := pc_real_token_reserves c,
        pc_token_total_supply := pc_token_total_supply c, pc_token_program := pc_token_program c,
        pc_is_mayhem_mode := pc_is_mayhem_mode c,
        pc_is_cashback_enabled := (202 \<le> n \<and> pc_is_cashback_enabled c),
        pc_quote_mint := (if 234 \<le> n then normalize_pumpfun_quote_mint (pc_quote_mint c) else PUMPFUN_SOLSCAN_SOL_QUOTE_MINT),
        pc_virtual_quote_reserves := (if 242 \<le> n then pc_virtual_quote_reserves c else 0),
        pc_creator_fee_bps := (if 250 \<le> n then pc_creator_fee_bps c else 0),
        pc_is_holder_reward := (251 \<le> n \<and> pc_is_holder_reward c),
        pc_depth := (if 252 \<le> n then pc_depth c else 0), pc_ix_name := ''create''\<rparr>)"

section \<open>Reading a prefix\<close>

lemma peek_take: "n \<le> length xs \<Longrightarrow> peek w (take n xs) offset = (if offset + w \<le> n then peek w xs offset else None)"
  by (auto simp: peek_def drop_take min_def)

lemma peek_body: "length pre = offset \<Longrightarrow> n \<le> length body \<Longrightarrow>
    peek w (pre @ take n body) (offset + k) = (if k + w \<le> n then peek w body k else None)"
  by (simp add: peek_take)

lemma length_body: "create_ok c \<Longrightarrow> length (create_body_bytes c) = 252"
  by (simp add: create_ok_def create_body_bytes_def)

lemma body_flags:
  assumes "create_ok c"
  shows "create_body_bytes c ! 200 = bool_byte (pc_is_mayhem_mode c)" "create_body_bytes c ! 201 = bool_byte (pc_is_cashback_enabled c)"
    "create_body_bytes c ! 250 = bool_byte (pc_is_holder_reward c)" "create_body_bytes c ! 251 = pc_depth c"
  using assms by (simp_all add: create_ok_def create_body_bytes_def nth_append)

lemma valid_layout:
  assumes "create_ok c" "n \<in> create_layouts"
  shows "valid_create_event_body (take n (create_body_bytes c))"
proof -
  have "bool_byte b \<le> 1" for b by (simp add: bool_byte_def)
  moreover have "n \<le> 252" using assms(2) by (auto simp: create_layouts_def)
  ultimately show ?thesis
    using assms by (auto simp: valid_create_event_body_def length_body get_at_def body_flags create_layouts_def min_def)
qed

lemma oldest_read:
  assumes "create_ok c" "length pre = offset"
  shows "create_body_oldest (pre @ take 96 (create_body_bytes c)) offset (pc_metadata c) (pc_name c) (pc_symbol c) (pc_uri c) =
    Some (create_view 96 c)"
proof -
  note body = peek_body [OF assms(2), of 96 "create_body_bytes c"]
  have "peek 32 (create_body_bytes c) 0 = Some (pc_mint c)" "peek 32 (create_body_bytes c) 32 = Some (pc_bonding_curve c)"
    "peek 32 (create_body_bytes c) 64 = Some (pc_user c)"
    using assms(1) by (simp_all add: create_ok_def create_body_bytes_def)
  then show ?thesis
    using body [of 32 0] body [of 32 32] body [of 32 64]
    by (simp add: create_body_oldest_def create_view_def read_pubkey_unchecked_def length_body [OF assms(1)])
qed

lemma body_peeks:
  assumes "create_ok c"
  shows "peek 32 (create_body_bytes c) 0 = Some (pc_mint c)" "peek 32 (create_body_bytes c) 32 = Some (pc_bonding_curve c)"
    "peek 32 (create_body_bytes c) 64 = Some (pc_user c)" "peek 32 (create_body_bytes c) 96 = Some (pc_creator c)"
    "peek 8 (create_body_bytes c) 128 = Some (i64_bytes (pc_timestamp c))"
    "peek 8 (create_body_bytes c) 136 = Some (u64_bytes (pc_virtual_token_reserves c))"
    "peek 8 (create_body_bytes c) 144 = Some (u64_bytes (pc_virtual_sol_reserves c))"
    "peek 8 (create_body_bytes c) 152 = Some (u64_bytes (pc_real_token_reserves c))"
    "peek 8 (create_body_bytes c) 160 = Some (u64_bytes (pc_token_total_supply c))"
    "peek 32 (create_body_bytes c) 168 = Some (pc_token_program c)"
    "peek 1 (create_body_bytes c) 200 = Some [bool_byte (pc_is_mayhem_mode c)]"
    "peek 1 (create_body_bytes c) 201 = Some [bool_byte (pc_is_cashback_enabled c)]"
    "peek 32 (create_body_bytes c) 202 = Some (pc_quote_mint c)"
    "peek 8 (create_body_bytes c) 234 = Some (u64_bytes (pc_virtual_quote_reserves c))"
    "peek 8 (create_body_bytes c) 242 = Some (u64_bytes (pc_creator_fee_bps c))"
    "peek 1 (create_body_bytes c) 250 = Some [bool_byte (pc_is_holder_reward c)]"
  using assms unfolding create_ok_def create_body_bytes_def by (simp_all del: append.simps)

text \<open>Reading a field of the body through a prefix of it.\<close>

lemma body_reads:
  assumes "length pre = offset" "n \<le> length body"
  shows "k + 32 \<le> n \<Longrightarrow> read_pubkey_unchecked (pre @ take n body) (offset + k) = peek 32 body k"
    "k + 8 \<le> n \<Longrightarrow> read_u64_unchecked (pre @ take n body) (offset + k) = map_option from_le (peek 8 body k)"
    "k + 8 \<le> n \<Longrightarrow> read_i64_unchecked (pre @ take n body) (offset + k) = map_option (\<lambda>bs. sint (from_le bs :: u64)) (peek 8 body k)"
    "opt_pubkey (pre @ take n body) (offset + k) = (if k + 32 \<le> n then peek 32 body k else Some default_pubkey)"
    "opt_u64 (pre @ take n body) (offset + k) = (if k + 8 \<le> n then map_option from_le (peek 8 body k) else Some 0)"
    "opt_bool (pre @ take n body) (offset + k) = (if k < n then map_option (\<lambda>bs. bs = [1]) (peek 1 body k) else Some False)"
  using assms peek_body [OF assms, of _ k]
  by (auto simp: read_written)

lemma body_read:
  assumes "create_ok c" "length pre = offset" "201 \<le> n" "n \<le> 252"
  shows "create_body (pre @ take n (create_body_bytes c)) offset (pc_metadata c) (pc_name c) (pc_symbol c) (pc_uri c) =
    Some (create_view n c)"
proof -
  have n: "n \<le> length (create_body_bytes c)" "i64_ok (pc_timestamp c)"
    using assms by (simp_all add: length_body) (simp add: create_ok_def)
  have depth: "get_at (offset + 251) (pre @ take n (create_body_bytes c)) = (if 252 \<le> n then Some (pc_depth c) else None)"
    using assms(2-4) body_flags(4) [OF assms(1)] by (auto simp: get_at_def nth_append length_body [OF assms(1)])
  note reads = body_reads [OF assms(2) n(1)] body_reads(1) [OF assms(2) n(1), of 0, simplified]
  show ?thesis
    using assms(3) n(2)
    by (simp add: create_body_def create_view_def reads body_peeks [OF assms(1)] depth normalize_pumpfun_quote_mint_def del: One_nat_def)
qed

text \<open>
  In each of the eight historical layouts a written create event is read back: the three texts, the
  accounts and numbers the layout holds, and for what a later version added the values of a
  pre-version coin (SOL quote, no cashback, no holder rewards).
\<close>

theorem create_log_round_trip:
  assumes "create_ok c" "n \<in> create_layouts"
  shows "parse_create_from_data (create_bytes n c) (pc_metadata c) =
    Some (Some (Pump_Fun_Event (PumpFunCreate_Event (create_view n c))))"
proof -
  let ?data = "create_bytes n c" and ?body = "take n (create_body_bytes c)"
  let ?l1 = "4 + length (pc_name c)" and ?l2 = "4 + length (pc_symbol c)" and ?l3 = "4 + length (pc_uri c)"
  have ok: "utf8_ok (pc_name c)" "utf8_ok (pc_symbol c)" "utf8_ok (pc_uri c)" "length (pc_name c) < 2 ^ 32"
    "length (pc_symbol c) < 2 ^ 32" "length (pc_uri c) < 2 ^ 32"
    using assms(1) by (simp_all add: create_ok_def)
  have len: "length (text_bytes s) = 4 + length s" for s by (simp add: text_bytes_def)
  have "log_read_str ?data 0 = Some (Some (pc_name c, ?l1))"
    using log_str_read [of "[]" 0 "pc_name c"] ok by (simp add: create_bytes_def)
  moreover have "log_read_str ?data ?l1 = Some (Some (pc_symbol c, ?l2))"
    using log_str_read [of "text_bytes (pc_name c)" ?l1 "pc_symbol c"] ok len by (simp add: create_bytes_def)
  moreover have "log_read_str ?data (?l1 + ?l2) = Some (Some (pc_uri c, ?l3))"
    using log_str_read [of "text_bytes (pc_name c) @ text_bytes (pc_symbol c)" "?l1 + ?l2" "pc_uri c"] ok len
    by (simp add: create_bytes_def)
  moreover have "get_range (?l1 + ?l2 + ?l3) (length ?data) ?data = Some ?body" "length ?data = ?l1 + ?l2 + ?l3 + n"
    using assms(2) by (auto simp: create_bytes_def get_range_def len length_body [OF assms(1)] create_layouts_def)
  moreover note valid_layout [OF assms(1,2)]
  moreover have "n = 96 \<Longrightarrow> create_body_oldest ?data (?l1 + ?l2 + ?l3) (pc_metadata c) (pc_name c) (pc_symbol c) (pc_uri c) =
      Some (create_view n c)"
    using oldest_read [OF assms(1), of "text_bytes (pc_name c) @ text_bytes (pc_symbol c) @ text_bytes (pc_uri c)" "?l1 + ?l2 + ?l3"]
    by (simp add: create_bytes_def len)
  moreover have "n \<noteq> 96 \<Longrightarrow> create_body ?data (?l1 + ?l2 + ?l3) (pc_metadata c) (pc_name c) (pc_symbol c) (pc_uri c) =
      Some (create_view n c)" "n = 96 \<or> 201 \<le> n"
    using body_read [OF assms(1), of "text_bytes (pc_name c) @ text_bytes (pc_symbol c) @ text_bytes (pc_uri c)" "?l1 + ?l2 + ?l3" n] assms(2)
    by (auto simp: create_bytes_def len create_layouts_def)
  ultimately show ?thesis
    by (cases "n = 96") (simp_all add: parse_create_from_data_def Let_def)
qed

definition demo_create_event :: pumpfun_create_event where
  "demo_create_event = default_create\<lparr>pc_name := [67], pc_symbol := [0xc3, 0xa9], pc_mint := replicate 32 7,
     pc_timestamp := -1, pc_is_cashback_enabled := True, pc_quote_mint := replicate 32 8\<rparr>"

theorem create_log_round_trip_witness:
  "parse_create_from_data (create_bytes 202 demo_create_event) default_metadata =
    (Some (Some (Pump_Fun_Event (PumpFunCreate_Event (create_view 202 demo_create_event)))) :: unit dex_event option or_ub) \<and>
   pc_is_cashback_enabled (create_view 202 demo_create_event) \<and>
   pc_quote_mint (create_view 202 demo_create_event) = PUMPFUN_SOLSCAN_SOL_QUOTE_MINT"
proof -
  have "create_ok demo_create_event" by (simp add: create_ok_def demo_create_event_def i64_ok_def in_range_def)
  from create_log_round_trip [OF this, of 202, where 'a = unit] show ?thesis
    by (simp add: create_layouts_def create_view_def demo_create_event_def)
qed

end
