(* ===== verification/Pump_Merge.thy ===== *)
theory Pump_Merge
  imports Pump_Parsers
begin

text \<open>
  The merging of Pump.fun events (\<open>src/core/merger.rs\<close>). Two sources describe one instruction: the inner event that
  the program logs and the instruction itself. The first group of functions puts an inner event into the event of the
  instruction; the functions ending in \<open>_log_preferred\<close> complete a logged event from its instruction. An update
  through a reference is the new record. The statements of a function write distinct fields from distinct fields,
  so each function is one record update; the trade merge is split where its code branches.
\<close>

section \<open>Fields\<close>

definition put_pk_if_set :: "pubkey \<Rightarrow> pubkey \<Rightarrow> pubkey" where
  "put_pk_if_set to from = (if from \<noteq> default_pubkey then from else to)"

definition put_pumpfun_quote_mint_if_set :: "pubkey \<Rightarrow> pubkey \<Rightarrow> pubkey" where
  "put_pumpfun_quote_mint_if_set to from =
     (if from = default_pubkey then to
      else
        (let from = normalize_pumpfun_quote_mint from
         in if from \<noteq> default_pubkey \<and>
               (to = default_pubkey \<or> is_pumpfun_solscan_sol_quote_mint to \<or> \<not> is_pumpfun_solscan_sol_quote_mint from)
            then from else to))"

definition put_u64_if_nonzero :: "u64 \<Rightarrow> u64 \<Rightarrow> u64" where
  "put_u64_if_nonzero to from = (if from \<noteq> 0 then from else to)"

definition put_i64_if_nonzero :: "int \<Rightarrow> int \<Rightarrow> int" where
  "put_i64_if_nonzero to from = (if from \<noteq> 0 then from else to)"

definition fill_pk :: "pubkey \<Rightarrow> pubkey \<Rightarrow> pubkey" where
  "fill_pk to from = (if to = default_pubkey \<and> from \<noteq> default_pubkey then from else to)"

definition fill_pumpfun_quote_mint :: "pubkey \<Rightarrow> pubkey \<Rightarrow> pubkey" where
  "fill_pumpfun_quote_mint to from =
     (if from = default_pubkey then to
      else
        (let from = normalize_pumpfun_quote_mint from
         in if (to = default_pubkey \<or> is_pumpfun_solscan_sol_quote_mint to) \<and> from \<noteq> default_pubkey then from else to))"

definition fill_str :: "bytes \<Rightarrow> bytes \<Rightarrow> bytes" where
  "fill_str to from = (if to = [] \<and> from \<noteq> [] then to @ from else to)"

section \<open>Merges\<close>

definition put_identity :: "pumpfun_trade_event \<Rightarrow> pumpfun_trade_event \<Rightarrow> pumpfun_trade_event" where
  "put_identity base inner =
     base\<lparr>pt_mint := put_pk_if_set (pt_mint base) (pt_mint inner),
       pt_user := put_pk_if_set (pt_user base) (pt_user inner),
       pt_fee_recipient := put_pk_if_set (pt_fee_recipient base) (pt_fee_recipient inner),
       pt_creator := put_pk_if_set (pt_creator base) (pt_creator inner)\<rparr>"

definition put_leg :: "pumpfun_trade_event \<Rightarrow> pumpfun_trade_event \<Rightarrow> pumpfun_trade_event" where
  "put_leg base inner =
     base\<lparr>pt_sol_amount := pt_sol_amount inner,
       pt_token_amount := pt_token_amount inner,
       pt_is_buy := pt_is_buy inner,
       pt_timestamp := pt_timestamp inner,
       pt_virtual_sol_reserves := pt_virtual_sol_reserves inner,
       pt_virtual_token_reserves := pt_virtual_token_reserves inner,
       pt_real_sol_reserves := pt_real_sol_reserves inner,
       pt_real_token_reserves := pt_real_token_reserves inner,
       pt_fee_basis_points := pt_fee_basis_points inner,
       pt_fee := pt_fee inner,
       pt_creator_fee_basis_points := pt_creator_fee_basis_points inner,
       pt_creator_fee := pt_creator_fee inner,
       pt_track_volume := pt_track_volume base \<or> pt_track_volume inner,
       pt_total_unclaimed_tokens := pt_total_unclaimed_tokens inner,
       pt_total_claimed_tokens := pt_total_claimed_tokens inner,
       pt_current_sol_volume := pt_current_sol_volume inner,
       pt_last_update_timestamp := pt_last_update_timestamp inner,
       pt_ix_name := if pt_ix_name inner \<noteq> [] then pt_ix_name inner else pt_ix_name base,
       pt_mayhem_mode := pt_mayhem_mode base \<or> pt_mayhem_mode inner,
       pt_cashback_fee_basis_points := put_u64_if_nonzero (pt_cashback_fee_basis_points base) (pt_cashback_fee_basis_points inner),
       pt_cashback := put_u64_if_nonzero (pt_cashback base) (pt_cashback inner),
       pt_buyback_fee_basis_points := put_u64_if_nonzero (pt_buyback_fee_basis_points base) (pt_buyback_fee_basis_points inner),
       pt_buyback_fee := put_u64_if_nonzero (pt_buyback_fee base) (pt_buyback_fee inner),
       pt_shareholders := if pt_shareholders base = [] \<and> pt_shareholders inner \<noteq> [] then pt_shareholders inner else pt_shareholders base,
       pt_quote_mint := put_pumpfun_quote_mint_if_set (pt_quote_mint base) (pt_quote_mint inner),
       pt_quote_amount := put_u64_if_nonzero (pt_quote_amount base) (pt_quote_amount inner),
       pt_virtual_quote_reserves := put_u64_if_nonzero (pt_virtual_quote_reserves base) (pt_virtual_quote_reserves inner),
       pt_real_quote_reserves := put_u64_if_nonzero (pt_real_quote_reserves base) (pt_real_quote_reserves inner),
       pt_is_cashback_coin := pt_is_cashback_coin base \<or> pt_is_cashback_coin inner,
       pt_holder_rewards_bps := pt_holder_rewards_bps inner,
       pt_holder_rewards := pt_holder_rewards inner,
       pt_creator_fee_unclaimed := pt_creator_fee_unclaimed inner\<rparr>"

definition put_no_leg :: "pumpfun_trade_event \<Rightarrow> pumpfun_trade_event \<Rightarrow> pumpfun_trade_event" where
  "put_no_leg base inner =
     base\<lparr>pt_fee := put_u64_if_nonzero (pt_fee base) (pt_fee inner),
       pt_creator_fee := put_u64_if_nonzero (pt_creator_fee base) (pt_creator_fee inner),
       pt_fee_basis_points := put_u64_if_nonzero (pt_fee_basis_points base) (pt_fee_basis_points inner),
       pt_creator_fee_basis_points := put_u64_if_nonzero (pt_creator_fee_basis_points base) (pt_creator_fee_basis_points inner),
       pt_virtual_sol_reserves := put_u64_if_nonzero (pt_virtual_sol_reserves base) (pt_virtual_sol_reserves inner),
       pt_virtual_token_reserves := put_u64_if_nonzero (pt_virtual_token_reserves base) (pt_virtual_token_reserves inner),
       pt_real_sol_reserves := put_u64_if_nonzero (pt_real_sol_reserves base) (pt_real_sol_reserves inner),
       pt_real_token_reserves := put_u64_if_nonzero (pt_real_token_reserves base) (pt_real_token_reserves inner),
       pt_total_unclaimed_tokens := put_u64_if_nonzero (pt_total_unclaimed_tokens base) (pt_total_unclaimed_tokens inner),
       pt_total_claimed_tokens := put_u64_if_nonzero (pt_total_claimed_tokens base) (pt_total_claimed_tokens inner),
       pt_current_sol_volume := put_u64_if_nonzero (pt_current_sol_volume base) (pt_current_sol_volume inner),
       pt_cashback_fee_basis_points := put_u64_if_nonzero (pt_cashback_fee_basis_points base) (pt_cashback_fee_basis_points inner),
       pt_cashback := put_u64_if_nonzero (pt_cashback base) (pt_cashback inner),
       pt_buyback_fee_basis_points := put_u64_if_nonzero (pt_buyback_fee_basis_points base) (pt_buyback_fee_basis_points inner),
       pt_buyback_fee := put_u64_if_nonzero (pt_buyback_fee base) (pt_buyback_fee inner),
       pt_shareholders := if pt_shareholders base = [] \<and> pt_shareholders inner \<noteq> [] then pt_shareholders inner else pt_shareholders base,
       pt_quote_mint := put_pumpfun_quote_mint_if_set (pt_quote_mint base) (pt_quote_mint inner),
       pt_quote_amount := put_u64_if_nonzero (pt_quote_amount base) (pt_quote_amount inner),
       pt_virtual_quote_reserves := put_u64_if_nonzero (pt_virtual_quote_reserves base) (pt_virtual_quote_reserves inner),
       pt_real_quote_reserves := put_u64_if_nonzero (pt_real_quote_reserves base) (pt_real_quote_reserves inner),
       pt_holder_rewards_bps := put_u64_if_nonzero (pt_holder_rewards_bps base) (pt_holder_rewards_bps inner),
       pt_holder_rewards := put_u64_if_nonzero (pt_holder_rewards base) (pt_holder_rewards inner),
       pt_timestamp := put_i64_if_nonzero (pt_timestamp base) (pt_timestamp inner),
       pt_last_update_timestamp := put_i64_if_nonzero (pt_last_update_timestamp base) (pt_last_update_timestamp inner),
       pt_ix_name := if pt_ix_name inner \<noteq> [] then pt_ix_name inner else pt_ix_name base,
       pt_track_volume := pt_track_volume base \<or> pt_track_volume inner,
       pt_mayhem_mode := pt_mayhem_mode base \<or> pt_mayhem_mode inner,
       pt_is_cashback_coin := pt_is_cashback_coin base \<or> pt_is_cashback_coin inner\<rparr>"

definition put_context :: "pumpfun_trade_event \<Rightarrow> pumpfun_trade_event \<Rightarrow> pumpfun_trade_event" where
  "put_context base inner =
     base\<lparr>pt_amount := put_u64_if_nonzero (pt_amount base) (pt_amount inner),
       pt_max_sol_cost := put_u64_if_nonzero (pt_max_sol_cost base) (pt_max_sol_cost inner),
       pt_min_sol_output := put_u64_if_nonzero (pt_min_sol_output base) (pt_min_sol_output inner),
       pt_spendable_sol_in := put_u64_if_nonzero (pt_spendable_sol_in base) (pt_spendable_sol_in inner),
       pt_spendable_quote_in := put_u64_if_nonzero (pt_spendable_quote_in base) (pt_spendable_quote_in inner),
       pt_min_tokens_out := put_u64_if_nonzero (pt_min_tokens_out base) (pt_min_tokens_out inner),
       pt_global := put_pk_if_set (pt_global base) (pt_global inner),
       pt_bonding_curve := put_pk_if_set (pt_bonding_curve base) (pt_bonding_curve inner),
       pt_bonding_curve_v2 := put_pk_if_set (pt_bonding_curve_v2 base) (pt_bonding_curve_v2 inner),
       pt_associated_bonding_curve := put_pk_if_set (pt_associated_bonding_curve base) (pt_associated_bonding_curve inner),
       pt_associated_user := put_pk_if_set (pt_associated_user base) (pt_associated_user inner),
       pt_system_program := put_pk_if_set (pt_system_program base) (pt_system_program inner),
       pt_token_program := put_pk_if_set (pt_token_program base) (pt_token_program inner),
       pt_quote_token_program := put_pk_if_set (pt_quote_token_program base) (pt_quote_token_program inner),
       pt_associated_token_program := put_pk_if_set (pt_associated_token_program base) (pt_associated_token_program inner),
       pt_creator_vault := put_pk_if_set (pt_creator_vault base) (pt_creator_vault inner),
       pt_associated_quote_fee_recipient := put_pk_if_set (pt_associated_quote_fee_recipient base) (pt_associated_quote_fee_recipient inner),
       pt_buyback_fee_recipient := put_pk_if_set (pt_buyback_fee_recipient base) (pt_buyback_fee_recipient inner),
       pt_associated_quote_buyback_fee_recipient := put_pk_if_set (pt_associated_quote_buyback_fee_recipient base) (pt_associated_quote_buyback_fee_recipient inner),
       pt_associated_quote_bonding_curve := put_pk_if_set (pt_associated_quote_bonding_curve base) (pt_associated_quote_bonding_curve inner),
       pt_associated_quote_user := put_pk_if_set (pt_associated_quote_user base) (pt_associated_quote_user inner),
       pt_associated_creator_vault := put_pk_if_set (pt_associated_creator_vault base) (pt_associated_creator_vault inner),
       pt_sharing_config := put_pk_if_set (pt_sharing_config base) (pt_sharing_config inner),
       pt_event_authority := put_pk_if_set (pt_event_authority base) (pt_event_authority inner),
       pt_program := put_pk_if_set (pt_program base) (pt_program inner),
       pt_global_volume_accumulator := put_pk_if_set (pt_global_volume_accumulator base) (pt_global_volume_accumulator inner),
       pt_user_volume_accumulator := put_pk_if_set (pt_user_volume_accumulator base) (pt_user_volume_accumulator inner),
       pt_associated_user_volume_accumulator := put_pk_if_set (pt_associated_user_volume_accumulator base) (pt_associated_user_volume_accumulator inner),
       pt_fee_config := put_pk_if_set (pt_fee_config base) (pt_fee_config inner),
       pt_fee_program := put_pk_if_set (pt_fee_program base) (pt_fee_program inner),
       pt_account := if pt_account base = None then pt_account inner else pt_account base,
       pt_is_created_buy := pt_is_created_buy base \<or> pt_is_created_buy inner\<rparr>"

definition has_leg :: "pumpfun_trade_event \<Rightarrow> bool" where
  "has_leg inner \<longleftrightarrow> pt_sol_amount inner \<noteq> 0 \<or> pt_token_amount inner \<noteq> 0"

definition merge_pumpfun_trade :: "pumpfun_trade_event \<Rightarrow> pumpfun_trade_event \<Rightarrow> pumpfun_trade_event" where
  "merge_pumpfun_trade base inner =
     (let base = put_identity base inner;
          base = (if has_leg inner then put_leg base inner else put_no_leg base inner)
      in put_context base inner)"

definition merge_pumpfun_create :: "pumpfun_create_event \<Rightarrow> pumpfun_create_event \<Rightarrow> pumpfun_create_event" where
  "merge_pumpfun_create base inner =
     base\<lparr>pc_name := pc_name inner,
       pc_symbol := pc_symbol inner,
       pc_uri := pc_uri inner,
       pc_mint := pc_mint inner,
       pc_bonding_curve := pc_bonding_curve inner,
       pc_user := pc_user inner,
       pc_creator := pc_creator inner,
       pc_timestamp := pc_timestamp inner,
       pc_virtual_token_reserves := pc_virtual_token_reserves inner,
       pc_virtual_sol_reserves := pc_virtual_sol_reserves inner,
       pc_real_token_reserves := pc_real_token_reserves inner,
       pc_token_total_supply := pc_token_total_supply inner,
       pc_token_program := pc_token_program inner,
       pc_is_mayhem_mode := pc_is_mayhem_mode inner,
       pc_is_cashback_enabled := pc_is_cashback_enabled inner,
       pc_quote_mint := put_pumpfun_quote_mint_if_set (pc_quote_mint base) (pc_quote_mint inner),
       pc_quote_vault := put_pk_if_set (pc_quote_vault base) (pc_quote_vault inner),
       pc_quote_token_program := put_pk_if_set (pc_quote_token_program base) (pc_quote_token_program inner),
       pc_virtual_quote_reserves := put_u64_if_nonzero (pc_virtual_quote_reserves base) (pc_virtual_quote_reserves inner),
       pc_creator_fee_bps := put_u64_if_nonzero (pc_creator_fee_bps base) (pc_creator_fee_bps inner),
       pc_is_holder_reward := pc_is_holder_reward base \<or> pc_is_holder_reward inner,
       pc_depth := pc_depth inner\<rparr>"

definition merge_pumpfun_create_v2 :: "pumpfun_create_v2_event \<Rightarrow> pumpfun_create_v2_event \<Rightarrow> pumpfun_create_v2_event" where
  "merge_pumpfun_create_v2 base inner =
     base\<lparr>pv_name := fill_str (pv_name base) (pv_name inner),
       pv_symbol := fill_str (pv_symbol base) (pv_symbol inner),
       pv_uri := fill_str (pv_uri base) (pv_uri inner),
       pv_mint := put_pk_if_set (pv_mint base) (pv_mint inner),
       pv_bonding_curve := put_pk_if_set (pv_bonding_curve base) (pv_bonding_curve inner),
       pv_user := put_pk_if_set (pv_user base) (pv_user inner),
       pv_creator := put_pk_if_set (pv_creator base) (pv_creator inner),
       pv_timestamp := put_i64_if_nonzero (pv_timestamp base) (pv_timestamp inner),
       pv_virtual_token_reserves := put_u64_if_nonzero (pv_virtual_token_reserves base) (pv_virtual_token_reserves inner),
       pv_virtual_sol_reserves := put_u64_if_nonzero (pv_virtual_sol_reserves base) (pv_virtual_sol_reserves inner),
       pv_real_token_reserves := put_u64_if_nonzero (pv_real_token_reserves base) (pv_real_token_reserves inner),
       pv_token_total_supply := put_u64_if_nonzero (pv_token_total_supply base) (pv_token_total_supply inner),
       pv_token_program := put_pk_if_set (pv_token_program base) (pv_token_program inner),
       pv_is_mayhem_mode := pv_is_mayhem_mode base \<or> pv_is_mayhem_mode inner,
       pv_is_cashback_enabled := pv_is_cashback_enabled base \<or> pv_is_cashback_enabled inner,
       pv_quote_mint := put_pumpfun_quote_mint_if_set (pv_quote_mint base) (pv_quote_mint inner),
       pv_quote_vault := put_pk_if_set (pv_quote_vault base) (pv_quote_vault inner),
       pv_quote_token_program := put_pk_if_set (pv_quote_token_program base) (pv_quote_token_program inner),
       pv_virtual_quote_reserves := put_u64_if_nonzero (pv_virtual_quote_reserves base) (pv_virtual_quote_reserves inner),
       pv_creator_fee_bps := put_u64_if_nonzero (pv_creator_fee_bps base) (pv_creator_fee_bps inner),
       pv_is_holder_reward := pv_is_holder_reward base \<or> pv_is_holder_reward inner,
       pv_mint_authority := put_pk_if_set (pv_mint_authority base) (pv_mint_authority inner),
       pv_associated_bonding_curve := put_pk_if_set (pv_associated_bonding_curve base) (pv_associated_bonding_curve inner),
       pv_global := put_pk_if_set (pv_global base) (pv_global inner),
       pv_system_program := put_pk_if_set (pv_system_program base) (pv_system_program inner),
       pv_associated_token_program := put_pk_if_set (pv_associated_token_program base) (pv_associated_token_program inner),
       pv_mayhem_program_id := put_pk_if_set (pv_mayhem_program_id base) (pv_mayhem_program_id inner),
       pv_global_params := put_pk_if_set (pv_global_params base) (pv_global_params inner),
       pv_sol_vault := put_pk_if_set (pv_sol_vault base) (pv_sol_vault inner),
       pv_mayhem_state := put_pk_if_set (pv_mayhem_state base) (pv_mayhem_state inner),
       pv_mayhem_token_vault := put_pk_if_set (pv_mayhem_token_vault base) (pv_mayhem_token_vault inner),
       pv_event_authority := put_pk_if_set (pv_event_authority base) (pv_event_authority inner),
       pv_program := put_pk_if_set (pv_program base) (pv_program inner),
       pv_observed_fee_recipient := put_pk_if_set (pv_observed_fee_recipient base) (pv_observed_fee_recipient inner)\<rparr>"

definition merge_pumpfun_migrate :: "pumpfun_migrate_event \<Rightarrow> pumpfun_migrate_event \<Rightarrow> pumpfun_migrate_event" where
  "merge_pumpfun_migrate base inner =
     base\<lparr>pm_user := pm_user inner,
       pm_mint := pm_mint inner,
       pm_mint_amount := pm_mint_amount inner,
       pm_sol_amount := pm_sol_amount inner,
       pm_pool_migration_fee := pm_pool_migration_fee inner,
       pm_bonding_curve := pm_bonding_curve inner,
       pm_timestamp := pm_timestamp inner,
       pm_pool := pm_pool inner\<rparr>"

definition merge_pumpfun_trade_log_preferred :: "pumpfun_trade_event \<Rightarrow> pumpfun_trade_event \<Rightarrow> pumpfun_trade_event" where
  "merge_pumpfun_trade_log_preferred log ix =
     log\<lparr>pt_global := fill_pk (pt_global log) (pt_global ix),
       pt_bonding_curve := fill_pk (pt_bonding_curve log) (pt_bonding_curve ix),
       pt_bonding_curve_v2 := fill_pk (pt_bonding_curve_v2 log) (pt_bonding_curve_v2 ix),
       pt_associated_bonding_curve := fill_pk (pt_associated_bonding_curve log) (pt_associated_bonding_curve ix),
       pt_associated_user := fill_pk (pt_associated_user log) (pt_associated_user ix),
       pt_system_program := fill_pk (pt_system_program log) (pt_system_program ix),
       pt_token_program := fill_pk (pt_token_program log) (pt_token_program ix),
       pt_quote_token_program := fill_pk (pt_quote_token_program log) (pt_quote_token_program ix),
       pt_associated_token_program := fill_pk (pt_associated_token_program log) (pt_associated_token_program ix),
       pt_creator_vault := fill_pk (pt_creator_vault log) (pt_creator_vault ix),
       pt_fee_recipient := fill_pk (pt_fee_recipient log) (pt_fee_recipient ix),
       pt_creator := fill_pk (pt_creator log) (pt_creator ix),
       pt_quote_mint := fill_pumpfun_quote_mint (pt_quote_mint log) (pt_quote_mint ix),
       pt_associated_quote_fee_recipient := fill_pk (pt_associated_quote_fee_recipient log) (pt_associated_quote_fee_recipient ix),
       pt_buyback_fee_recipient := fill_pk (pt_buyback_fee_recipient log) (pt_buyback_fee_recipient ix),
       pt_associated_quote_buyback_fee_recipient := fill_pk (pt_associated_quote_buyback_fee_recipient log) (pt_associated_quote_buyback_fee_recipient ix),
       pt_associated_quote_bonding_curve := fill_pk (pt_associated_quote_bonding_curve log) (pt_associated_quote_bonding_curve ix),
       pt_associated_quote_user := fill_pk (pt_associated_quote_user log) (pt_associated_quote_user ix),
       pt_associated_creator_vault := fill_pk (pt_associated_creator_vault log) (pt_associated_creator_vault ix),
       pt_sharing_config := fill_pk (pt_sharing_config log) (pt_sharing_config ix),
       pt_event_authority := fill_pk (pt_event_authority log) (pt_event_authority ix),
       pt_program := fill_pk (pt_program log) (pt_program ix),
       pt_global_volume_accumulator := fill_pk (pt_global_volume_accumulator log) (pt_global_volume_accumulator ix),
       pt_user_volume_accumulator := fill_pk (pt_user_volume_accumulator log) (pt_user_volume_accumulator ix),
       pt_associated_user_volume_accumulator := fill_pk (pt_associated_user_volume_accumulator log) (pt_associated_user_volume_accumulator ix),
       pt_fee_config := fill_pk (pt_fee_config log) (pt_fee_config ix),
       pt_fee_program := fill_pk (pt_fee_program log) (pt_fee_program ix),
       pt_account := if pt_account log = None then pt_account ix else pt_account log,
       pt_ix_name := if pt_ix_name log = [] \<and> pt_ix_name ix \<noteq> [] then pt_ix_name ix else pt_ix_name log,
       pt_amount := put_u64_if_nonzero (pt_amount log) (pt_amount ix),
       pt_max_sol_cost := put_u64_if_nonzero (pt_max_sol_cost log) (pt_max_sol_cost ix),
       pt_min_sol_output := put_u64_if_nonzero (pt_min_sol_output log) (pt_min_sol_output ix),
       pt_spendable_sol_in := put_u64_if_nonzero (pt_spendable_sol_in log) (pt_spendable_sol_in ix),
       pt_spendable_quote_in := put_u64_if_nonzero (pt_spendable_quote_in log) (pt_spendable_quote_in ix),
       pt_min_tokens_out := put_u64_if_nonzero (pt_min_tokens_out log) (pt_min_tokens_out ix),
       pt_quote_amount := if pt_quote_amount log = 0 then put_u64_if_nonzero (pt_quote_amount log) (pt_quote_amount ix) else pt_quote_amount log,
       pt_virtual_quote_reserves := if pt_virtual_quote_reserves log = 0 then put_u64_if_nonzero (pt_virtual_quote_reserves log) (pt_virtual_quote_reserves ix) else pt_virtual_quote_reserves log,
       pt_real_quote_reserves := if pt_real_quote_reserves log = 0 then put_u64_if_nonzero (pt_real_quote_reserves log) (pt_real_quote_reserves ix) else pt_real_quote_reserves log,
       pt_holder_rewards_bps := put_u64_if_nonzero (pt_holder_rewards_bps log) (pt_holder_rewards_bps ix),
       pt_holder_rewards := put_u64_if_nonzero (pt_holder_rewards log) (pt_holder_rewards ix),
       pt_is_created_buy := if \<not> pt_is_created_buy log \<and> pt_is_created_buy ix then True else pt_is_created_buy log\<rparr>"

definition merge_pumpfun_create_log_preferred :: "pumpfun_create_event \<Rightarrow> pumpfun_create_event \<Rightarrow> pumpfun_create_event" where
  "merge_pumpfun_create_log_preferred log ix =
     log\<lparr>pc_name := fill_str (pc_name log) (pc_name ix),
       pc_symbol := fill_str (pc_symbol log) (pc_symbol ix),
       pc_uri := fill_str (pc_uri log) (pc_uri ix),
       pc_bonding_curve := fill_pk (pc_bonding_curve log) (pc_bonding_curve ix),
       pc_user := fill_pk (pc_user log) (pc_user ix),
       pc_creator := fill_pk (pc_creator log) (pc_creator ix),
       pc_token_program := fill_pk (pc_token_program log) (pc_token_program ix),
       pc_quote_mint := fill_pumpfun_quote_mint (pc_quote_mint log) (pc_quote_mint ix),
       pc_quote_vault := fill_pk (pc_quote_vault log) (pc_quote_vault ix),
       pc_quote_token_program := fill_pk (pc_quote_token_program log) (pc_quote_token_program ix),
       pc_virtual_quote_reserves := put_u64_if_nonzero (pc_virtual_quote_reserves log) (pc_virtual_quote_reserves ix),
       pc_creator_fee_bps := if pc_creator_fee_bps log = 0 then pc_creator_fee_bps ix else pc_creator_fee_bps log,
       pc_ix_name := if pc_ix_name log = [] \<and> pc_ix_name ix \<noteq> [] then pc_ix_name ix else pc_ix_name log,
       pc_is_mayhem_mode := pc_is_mayhem_mode log \<or> pc_is_mayhem_mode ix,
       pc_is_cashback_enabled := pc_is_cashback_enabled log \<or> pc_is_cashback_enabled ix,
       pc_is_holder_reward := pc_is_holder_reward log \<or> pc_is_holder_reward ix\<rparr>"

definition merge_pumpfun_create_v2_into_create_log_preferred :: "pumpfun_create_event \<Rightarrow> pumpfun_create_v2_event \<Rightarrow> pumpfun_create_event" where
  "merge_pumpfun_create_v2_into_create_log_preferred log ix =
     log\<lparr>pc_name := fill_str (pc_name log) (pv_name ix),
       pc_symbol := fill_str (pc_symbol log) (pv_symbol ix),
       pc_uri := fill_str (pc_uri log) (pv_uri ix),
       pc_mint := fill_pk (pc_mint log) (pv_mint ix),
       pc_bonding_curve := fill_pk (pc_bonding_curve log) (pv_bonding_curve ix),
       pc_user := fill_pk (pc_user log) (pv_user ix),
       pc_creator := fill_pk (pc_creator log) (pv_creator ix),
       pc_timestamp := if pc_timestamp log = 0 \<and> pv_timestamp ix \<noteq> 0 then pv_timestamp ix else pc_timestamp log,
       pc_virtual_token_reserves := put_u64_if_nonzero (pc_virtual_token_reserves log) (pv_virtual_token_reserves ix),
       pc_virtual_sol_reserves := put_u64_if_nonzero (pc_virtual_sol_reserves log) (pv_virtual_sol_reserves ix),
       pc_real_token_reserves := put_u64_if_nonzero (pc_real_token_reserves log) (pv_real_token_reserves ix),
       pc_token_total_supply := put_u64_if_nonzero (pc_token_total_supply log) (pv_token_total_supply ix),
       pc_token_program := fill_pk (pc_token_program log) (pv_token_program ix),
       pc_quote_mint := fill_pumpfun_quote_mint (pc_quote_mint log) (pv_quote_mint ix),
       pc_quote_vault := fill_pk (pc_quote_vault log) (pv_quote_vault ix),
       pc_quote_token_program := fill_pk (pc_quote_token_program log) (pv_quote_token_program ix),
       pc_virtual_quote_reserves := put_u64_if_nonzero (pc_virtual_quote_reserves log) (pv_virtual_quote_reserves ix),
       pc_creator_fee_bps := if pc_creator_fee_bps log = 0 then pv_creator_fee_bps ix else pc_creator_fee_bps log,
       pc_ix_name := if pc_ix_name log = [] \<and> pv_ix_name ix \<noteq> [] then pv_ix_name ix else pc_ix_name log,
       pc_is_mayhem_mode := pc_is_mayhem_mode log \<or> pv_is_mayhem_mode ix,
       pc_is_cashback_enabled := pc_is_cashback_enabled log \<or> pv_is_cashback_enabled ix,
       pc_is_holder_reward := pc_is_holder_reward log \<or> pv_is_holder_reward ix\<rparr>"

definition merge_pumpfun_create_into_create_v2_log_preferred :: "pumpfun_create_v2_event \<Rightarrow> pumpfun_create_event \<Rightarrow> pumpfun_create_v2_event" where
  "merge_pumpfun_create_into_create_v2_log_preferred log ix =
     log\<lparr>pv_name := fill_str (pv_name log) (pc_name ix),
       pv_symbol := fill_str (pv_symbol log) (pc_symbol ix),
       pv_uri := fill_str (pv_uri log) (pc_uri ix),
       pv_mint := fill_pk (pv_mint log) (pc_mint ix),
       pv_bonding_curve := fill_pk (pv_bonding_curve log) (pc_bonding_curve ix),
       pv_user := fill_pk (pv_user log) (pc_user ix),
       pv_creator := fill_pk (pv_creator log) (pc_creator ix),
       pv_timestamp := if pv_timestamp log = 0 \<and> pc_timestamp ix \<noteq> 0 then pc_timestamp ix else pv_timestamp log,
       pv_virtual_token_reserves := put_u64_if_nonzero (pv_virtual_token_reserves log) (pc_virtual_token_reserves ix),
       pv_virtual_sol_reserves := put_u64_if_nonzero (pv_virtual_sol_reserves log) (pc_virtual_sol_reserves ix),
       pv_real_token_reserves := put_u64_if_nonzero (pv_real_token_reserves log) (pc_real_token_reserves ix),
       pv_token_total_supply := put_u64_if_nonzero (pv_token_total_supply log) (pc_token_total_supply ix),
       pv_token_program := fill_pk (pv_token_program log) (pc_token_program ix),
       pv_quote_mint := fill_pumpfun_quote_mint (pv_quote_mint log) (pc_quote_mint ix),
       pv_quote_vault := fill_pk (pv_quote_vault log) (pc_quote_vault ix),
       pv_quote_token_program := fill_pk (pv_quote_token_program log) (pc_quote_token_program ix),
       pv_virtual_quote_reserves := put_u64_if_nonzero (pv_virtual_quote_reserves log) (pc_virtual_quote_reserves ix),
       pv_creator_fee_bps := if pv_creator_fee_bps log = 0 then pc_creator_fee_bps ix else pv_creator_fee_bps log,
       pv_ix_name := if pv_ix_name log = [] \<and> pc_ix_name ix \<noteq> [] then pc_ix_name ix else pv_ix_name log,
       pv_is_mayhem_mode := pv_is_mayhem_mode log \<or> pc_is_mayhem_mode ix,
       pv_is_cashback_enabled := pv_is_cashback_enabled log \<or> pc_is_cashback_enabled ix,
       pv_is_holder_reward := pv_is_holder_reward log \<or> pc_is_holder_reward ix\<rparr>"

definition merge_pumpfun_create_v2_log_preferred :: "pumpfun_create_v2_event \<Rightarrow> pumpfun_create_v2_event \<Rightarrow> pumpfun_create_v2_event" where
  "merge_pumpfun_create_v2_log_preferred log ix =
     log\<lparr>pv_name := fill_str (pv_name log) (pv_name ix),
       pv_symbol := fill_str (pv_symbol log) (pv_symbol ix),
       pv_uri := fill_str (pv_uri log) (pv_uri ix),
       pv_bonding_curve := fill_pk (pv_bonding_curve log) (pv_bonding_curve ix),
       pv_user := fill_pk (pv_user log) (pv_user ix),
       pv_creator := fill_pk (pv_creator log) (pv_creator ix),
       pv_token_program := fill_pk (pv_token_program log) (pv_token_program ix),
       pv_quote_mint := fill_pumpfun_quote_mint (pv_quote_mint log) (pv_quote_mint ix),
       pv_quote_vault := fill_pk (pv_quote_vault log) (pv_quote_vault ix),
       pv_quote_token_program := fill_pk (pv_quote_token_program log) (pv_quote_token_program ix),
       pv_virtual_quote_reserves := put_u64_if_nonzero (pv_virtual_quote_reserves log) (pv_virtual_quote_reserves ix),
       pv_creator_fee_bps := if pv_creator_fee_bps log = 0 then pv_creator_fee_bps ix else pv_creator_fee_bps log,
       pv_ix_name := if pv_ix_name log = [] \<and> pv_ix_name ix \<noteq> [] then pv_ix_name ix else pv_ix_name log,
       pv_is_mayhem_mode := pv_is_mayhem_mode log \<or> pv_is_mayhem_mode ix,
       pv_is_cashback_enabled := pv_is_cashback_enabled log \<or> pv_is_cashback_enabled ix,
       pv_is_holder_reward := pv_is_holder_reward log \<or> pv_is_holder_reward ix,
       pv_mint_authority := fill_pk (pv_mint_authority log) (pv_mint_authority ix),
       pv_associated_bonding_curve := fill_pk (pv_associated_bonding_curve log) (pv_associated_bonding_curve ix),
       pv_global := fill_pk (pv_global log) (pv_global ix),
       pv_system_program := fill_pk (pv_system_program log) (pv_system_program ix),
       pv_associated_token_program := fill_pk (pv_associated_token_program log) (pv_associated_token_program ix),
       pv_mayhem_program_id := fill_pk (pv_mayhem_program_id log) (pv_mayhem_program_id ix),
       pv_global_params := fill_pk (pv_global_params log) (pv_global_params ix),
       pv_sol_vault := fill_pk (pv_sol_vault log) (pv_sol_vault ix),
       pv_mayhem_state := fill_pk (pv_mayhem_state log) (pv_mayhem_state ix),
       pv_mayhem_token_vault := fill_pk (pv_mayhem_token_vault log) (pv_mayhem_token_vault ix),
       pv_event_authority := fill_pk (pv_event_authority log) (pv_event_authority ix),
       pv_program := fill_pk (pv_program log) (pv_program ix),
       pv_observed_fee_recipient := fill_pk (pv_observed_fee_recipient log) (pv_observed_fee_recipient ix)\<rparr>"

definition merge_pumpfun_migrate_log_preferred :: "pumpfun_migrate_event \<Rightarrow> pumpfun_migrate_event \<Rightarrow> pumpfun_migrate_event" where
  "merge_pumpfun_migrate_log_preferred log ix =
     log\<lparr>pm_bonding_curve := fill_pk (pm_bonding_curve log) (pm_bonding_curve ix),
       pm_pool := fill_pk (pm_pool log) (pm_pool ix),
       pm_user := fill_pk (pm_user log) (pm_user ix)\<rparr>"

end
