(* ===== verification/Venue_Merge.thy ===== *)
theory Venue_Merge
  imports Pump_Merge Pump_Swap_Payloads Swap_Payloads Meteora_Payloads Event_Types
begin

text \<open>
  The functions that complete a logged event of the other protocols from its instruction (\<open>src/core/merger.rs\<close>):
  accounts the log lacks are filled in, and where the instruction is known by name its arguments are taken over.
  The DLMM merges keep the instruction's fields that its inner event lacks.
\<close>

section \<open>PumpSwap\<close>

definition merge_pumpswap_trade_log_preferred :: "pumpswap_trade_event \<Rightarrow> pumpswap_trade_event \<Rightarrow> pumpswap_trade_event" where
  "merge_pumpswap_trade_log_preferred log ix =
     log\<lparr>swt_ix_name := if swt_ix_name log = [] \<and> swt_ix_name ix \<noteq> [] then swt_ix_name ix else swt_ix_name log\<rparr>"

definition merge_pumpswap_buy_log_preferred :: "pumpswap_buy_event \<Rightarrow> pumpswap_buy_event \<Rightarrow> pumpswap_buy_event" where
  "merge_pumpswap_buy_log_preferred log ix =
     log\<lparr>swb_user_base_token_account := fill_pk (swb_user_base_token_account log) (swb_user_base_token_account ix),
       swb_user_quote_token_account := fill_pk (swb_user_quote_token_account log) (swb_user_quote_token_account ix),
       swb_protocol_fee_recipient := fill_pk (swb_protocol_fee_recipient log) (swb_protocol_fee_recipient ix),
       swb_protocol_fee_recipient_token_account := fill_pk (swb_protocol_fee_recipient_token_account log) (swb_protocol_fee_recipient_token_account ix),
       swb_coin_creator := fill_pk (swb_coin_creator log) (swb_coin_creator ix),
       swb_base_mint := fill_pk (swb_base_mint log) (swb_base_mint ix),
       swb_quote_mint := fill_pk (swb_quote_mint log) (swb_quote_mint ix),
       swb_pool_base_token_account := fill_pk (swb_pool_base_token_account log) (swb_pool_base_token_account ix),
       swb_pool_quote_token_account := fill_pk (swb_pool_quote_token_account log) (swb_pool_quote_token_account ix),
       swb_coin_creator_vault_ata := fill_pk (swb_coin_creator_vault_ata log) (swb_coin_creator_vault_ata ix),
       swb_coin_creator_vault_authority := fill_pk (swb_coin_creator_vault_authority log) (swb_coin_creator_vault_authority ix),
       swb_base_token_program := fill_pk (swb_base_token_program log) (swb_base_token_program ix),
       swb_quote_token_program := fill_pk (swb_quote_token_program log) (swb_quote_token_program ix),
       swb_pool_v2 := fill_pk (swb_pool_v2 log) (swb_pool_v2 ix),
       swb_fee_recipient := fill_pk (swb_fee_recipient log) (swb_fee_recipient ix),
       swb_fee_recipient_quote_token_account := fill_pk (swb_fee_recipient_quote_token_account log) (swb_fee_recipient_quote_token_account ix),
       swb_ix_name := if swb_ix_name log = [] \<and> swb_ix_name ix \<noteq> [] then swb_ix_name ix else swb_ix_name log\<rparr>"

definition merge_pumpswap_sell_log_preferred :: "pumpswap_sell_event \<Rightarrow> pumpswap_sell_event \<Rightarrow> pumpswap_sell_event" where
  "merge_pumpswap_sell_log_preferred log ix =
     log\<lparr>sws_user_base_token_account := fill_pk (sws_user_base_token_account log) (sws_user_base_token_account ix),
       sws_user_quote_token_account := fill_pk (sws_user_quote_token_account log) (sws_user_quote_token_account ix),
       sws_protocol_fee_recipient := fill_pk (sws_protocol_fee_recipient log) (sws_protocol_fee_recipient ix),
       sws_protocol_fee_recipient_token_account := fill_pk (sws_protocol_fee_recipient_token_account log) (sws_protocol_fee_recipient_token_account ix),
       sws_coin_creator := fill_pk (sws_coin_creator log) (sws_coin_creator ix),
       sws_base_mint := fill_pk (sws_base_mint log) (sws_base_mint ix),
       sws_quote_mint := fill_pk (sws_quote_mint log) (sws_quote_mint ix),
       sws_pool_base_token_account := fill_pk (sws_pool_base_token_account log) (sws_pool_base_token_account ix),
       sws_pool_quote_token_account := fill_pk (sws_pool_quote_token_account log) (sws_pool_quote_token_account ix),
       sws_coin_creator_vault_ata := fill_pk (sws_coin_creator_vault_ata log) (sws_coin_creator_vault_ata ix),
       sws_coin_creator_vault_authority := fill_pk (sws_coin_creator_vault_authority log) (sws_coin_creator_vault_authority ix),
       sws_base_token_program := fill_pk (sws_base_token_program log) (sws_base_token_program ix),
       sws_quote_token_program := fill_pk (sws_quote_token_program log) (sws_quote_token_program ix),
       sws_pool_v2 := fill_pk (sws_pool_v2 log) (sws_pool_v2 ix),
       sws_fee_recipient := fill_pk (sws_fee_recipient log) (sws_fee_recipient ix),
       sws_fee_recipient_quote_token_account := fill_pk (sws_fee_recipient_quote_token_account log) (sws_fee_recipient_quote_token_account ix)\<rparr>"

definition merge_pumpswap_create_pool_log_preferred :: "pumpswap_create_pool_event \<Rightarrow> pumpswap_create_pool_event \<Rightarrow> pumpswap_create_pool_event" where
  "merge_pumpswap_create_pool_log_preferred log ix =
     log\<lparr>swp_creator := fill_pk (swp_creator log) (swp_creator ix),
       swp_pool := fill_pk (swp_pool log) (swp_pool ix),
       swp_lp_mint := fill_pk (swp_lp_mint log) (swp_lp_mint ix),
       swp_user_base_token_account := fill_pk (swp_user_base_token_account log) (swp_user_base_token_account ix),
       swp_user_quote_token_account := fill_pk (swp_user_quote_token_account log) (swp_user_quote_token_account ix),
       swp_coin_creator := fill_pk (swp_coin_creator log) (swp_coin_creator ix),
       swp_is_mayhem_mode := swp_is_mayhem_mode log \<or> swp_is_mayhem_mode ix,
       swp_is_cashback_coin := swp_is_cashback_coin log \<or> swp_is_cashback_coin ix,
       swp_creator_fee_bps := if swp_creator_fee_bps log = 0 then swp_creator_fee_bps ix else swp_creator_fee_bps log,
       swp_can_edit_creator_fee := swp_can_edit_creator_fee log \<or> swp_can_edit_creator_fee ix,
       swp_is_holder_reward := swp_is_holder_reward log \<or> swp_is_holder_reward ix\<rparr>"

definition merge_pumpswap_liquidity_added_log_preferred :: "pumpswap_liquidity_added \<Rightarrow> pumpswap_liquidity_added \<Rightarrow> pumpswap_liquidity_added" where
  "merge_pumpswap_liquidity_added_log_preferred log ix =
     log\<lparr>swa_user_base_token_account := fill_pk (swa_user_base_token_account log) (swa_user_base_token_account ix),
       swa_user_quote_token_account := fill_pk (swa_user_quote_token_account log) (swa_user_quote_token_account ix),
       swa_user_pool_token_account := fill_pk (swa_user_pool_token_account log) (swa_user_pool_token_account ix)\<rparr>"

definition merge_pumpswap_liquidity_removed_log_preferred :: "pumpswap_liquidity_removed \<Rightarrow> pumpswap_liquidity_removed \<Rightarrow> pumpswap_liquidity_removed" where
  "merge_pumpswap_liquidity_removed_log_preferred log ix =
     log\<lparr>swr_user_base_token_account := fill_pk (swr_user_base_token_account log) (swr_user_base_token_account ix),
       swr_user_quote_token_account := fill_pk (swr_user_quote_token_account log) (swr_user_quote_token_account ix),
       swr_user_pool_token_account := fill_pk (swr_user_pool_token_account log) (swr_user_pool_token_account ix)\<rparr>"

section \<open>LaunchLab\<close>

definition fill_mint_param :: "base_mint_param \<Rightarrow> base_mint_param \<Rightarrow> base_mint_param" where
  "fill_mint_param log ix =
     log\<lparr>bmp_name := fill_str (bmp_name log) (bmp_name ix),
       bmp_symbol := fill_str (bmp_symbol log) (bmp_symbol ix),
       bmp_uri := fill_str (bmp_uri log) (bmp_uri ix)\<rparr>"

definition merge_raydium_launchlab_pool_create_log_preferred :: "launchlab_pool_create_event \<Rightarrow> launchlab_pool_create_event \<Rightarrow> launchlab_pool_create_event" where
  "merge_raydium_launchlab_pool_create_log_preferred log ix =
     log\<lparr>llp_payer := fill_pk (llp_payer log) (llp_payer ix),
       llp_creator := fill_pk (llp_creator log) (llp_creator ix),
       llp_global_config := fill_pk (llp_global_config log) (llp_global_config ix),
       llp_platform_config := fill_pk (llp_platform_config log) (llp_platform_config ix),
       llp_base_mint := fill_pk (llp_base_mint log) (llp_base_mint ix),
       llp_quote_mint := fill_pk (llp_quote_mint log) (llp_quote_mint ix),
       llp_base_vault := fill_pk (llp_base_vault log) (llp_base_vault ix),
       llp_quote_vault := fill_pk (llp_quote_vault log) (llp_quote_vault ix),
       llp_base_token_program := fill_pk (llp_base_token_program log) (llp_base_token_program ix),
       llp_quote_token_program := fill_pk (llp_quote_token_program log) (llp_quote_token_program ix),
       llp_base_mint_param := fill_mint_param (llp_base_mint_param log) (llp_base_mint_param ix)\<rparr>"

definition merge_raydium_launchlab_migrate_amm_log_preferred :: "launchlab_migrate_amm_event \<Rightarrow> launchlab_migrate_amm_event \<Rightarrow> launchlab_migrate_amm_event" where
  "merge_raydium_launchlab_migrate_amm_log_preferred log ix =
     log\<lparr>ma_old_pool := fill_pk (ma_old_pool log) (ma_old_pool ix),
       ma_new_pool := fill_pk (ma_new_pool log) (ma_new_pool ix),
       ma_user := fill_pk (ma_user log) (ma_user ix),
       ma_base_mint := fill_pk (ma_base_mint log) (ma_base_mint ix),
       ma_quote_mint := fill_pk (ma_quote_mint log) (ma_quote_mint ix),
       ma_platform_config := fill_pk (ma_platform_config log) (ma_platform_config ix),
       ma_destination_program := fill_pk (ma_destination_program log) (ma_destination_program ix)\<rparr>"

definition merge_raydium_launchlab_trade_log_preferred :: "launchlab_trade_event \<Rightarrow> launchlab_trade_event \<Rightarrow> launchlab_trade_event" where
  "merge_raydium_launchlab_trade_log_preferred log ix =
     log\<lparr>llt_user := fill_pk (llt_user log) (llt_user ix),
       llt_global_config := fill_pk (llt_global_config log) (llt_global_config ix),
       llt_platform_config := fill_pk (llt_platform_config log) (llt_platform_config ix),
       llt_user_base_token := fill_pk (llt_user_base_token log) (llt_user_base_token ix),
       llt_user_quote_token := fill_pk (llt_user_quote_token log) (llt_user_quote_token ix),
       llt_base_vault := fill_pk (llt_base_vault log) (llt_base_vault ix),
       llt_quote_vault := fill_pk (llt_quote_vault log) (llt_quote_vault ix),
       llt_base_mint := fill_pk (llt_base_mint log) (llt_base_mint ix),
       llt_quote_mint := fill_pk (llt_quote_mint log) (llt_quote_mint ix),
       llt_base_token_program := fill_pk (llt_base_token_program log) (llt_base_token_program ix),
       llt_quote_token_program := fill_pk (llt_quote_token_program log) (llt_quote_token_program ix),
       llt_system_program := fill_pk (llt_system_program log) (llt_system_program ix),
       llt_platform_associated_account := fill_pk (llt_platform_associated_account log) (llt_platform_associated_account ix),
       llt_creator_associated_account := fill_pk (llt_creator_associated_account log) (llt_creator_associated_account ix)\<rparr>"

section \<open>Raydium\<close>

definition merge_raydium_cpmm_swap_log_preferred :: "raydium_cpmm_swap_event \<Rightarrow> raydium_cpmm_swap_event \<Rightarrow> raydium_cpmm_swap_event" where
  "merge_raydium_cpmm_swap_log_preferred log ix =
     (let log = (if cps_ix_name ix = [] then log
        else log\<lparr>cps_ix_name := cps_ix_name ix,
          cps_amount_in := cps_amount_in ix,
          cps_minimum_amount_out := cps_minimum_amount_out ix,
          cps_max_amount_in := cps_max_amount_in ix,
          cps_amount_out := cps_amount_out ix\<rparr>)
      in log\<lparr>cps_payer := fill_pk (cps_payer log) (cps_payer ix),
        cps_authority := fill_pk (cps_authority log) (cps_authority ix),
        cps_input_token_account := fill_pk (cps_input_token_account log) (cps_input_token_account ix),
        cps_output_token_account := fill_pk (cps_output_token_account log) (cps_output_token_account ix),
        cps_amm_config := fill_pk (cps_amm_config log) (cps_amm_config ix),
        cps_input_vault := fill_pk (cps_input_vault log) (cps_input_vault ix),
        cps_output_vault := fill_pk (cps_output_vault log) (cps_output_vault ix),
        cps_input_token_program := fill_pk (cps_input_token_program log) (cps_input_token_program ix),
        cps_output_token_program := fill_pk (cps_output_token_program log) (cps_output_token_program ix),
        cps_input_token_mint := fill_pk (cps_input_token_mint log) (cps_input_token_mint ix),
        cps_output_token_mint := fill_pk (cps_output_token_mint log) (cps_output_token_mint ix),
        cps_observation_state := fill_pk (cps_observation_state log) (cps_observation_state ix)\<rparr>)"

definition merge_raydium_clmm_swap_log_preferred :: "raydium_clmm_swap_event \<Rightarrow> raydium_clmm_swap_event \<Rightarrow> raydium_clmm_swap_event" where
  "merge_raydium_clmm_swap_log_preferred log ix =
     (let log = (if cls_ix_name ix = [] then log
        else log\<lparr>cls_ix_name := cls_ix_name ix,
          cls_amount := cls_amount ix,
          cls_other_amount_threshold := cls_other_amount_threshold ix,
          cls_sqrt_price_limit_x64 := cls_sqrt_price_limit_x64 ix,
          cls_is_base_input := cls_is_base_input ix\<rparr>)
      in log\<lparr>cls_token_account_0 := fill_pk (cls_token_account_0 log) (cls_token_account_0 ix),
        cls_token_account_1 := fill_pk (cls_token_account_1 log) (cls_token_account_1 ix),
        cls_sender := fill_pk (cls_sender log) (cls_sender ix),
        cls_amm_config := fill_pk (cls_amm_config log) (cls_amm_config ix),
        cls_input_vault := fill_pk (cls_input_vault log) (cls_input_vault ix),
        cls_output_vault := fill_pk (cls_output_vault log) (cls_output_vault ix),
        cls_observation_state := fill_pk (cls_observation_state log) (cls_observation_state ix),
        cls_input_mint := fill_pk (cls_input_mint log) (cls_input_mint ix),
        cls_output_mint := fill_pk (cls_output_mint log) (cls_output_mint ix),
        cls_tick_array_bitmap_extension := if cls_tick_array_bitmap_extension log = None then cls_tick_array_bitmap_extension ix else cls_tick_array_bitmap_extension log,
        cls_tick_arrays := if cls_tick_arrays log = [] \<and> cls_tick_arrays ix \<noteq> [] then cls_tick_arrays ix else cls_tick_arrays log\<rparr>)"

definition merge_raydium_amm_v4_swap_log_preferred :: "raydium_amm_v4_swap_event \<Rightarrow> raydium_amm_v4_swap_event \<Rightarrow> raydium_amm_v4_swap_event" where
  "merge_raydium_amm_v4_swap_log_preferred log ix =
     (let log = (if avs_ix_name ix = [] then log
        else log\<lparr>avs_ix_name := avs_ix_name ix,
          avs_instruction_amount_in := avs_instruction_amount_in ix,
          avs_instruction_amount_out := avs_instruction_amount_out ix,
          avs_minimum_amount_out := avs_minimum_amount_out ix,
          avs_max_amount_in := avs_max_amount_in ix\<rparr>)
      in log\<lparr>avs_token_program := fill_pk (avs_token_program log) (avs_token_program ix),
        avs_amm_authority := fill_pk (avs_amm_authority log) (avs_amm_authority ix),
        avs_amm_open_orders := fill_pk (avs_amm_open_orders log) (avs_amm_open_orders ix),
        avs_amm_target_orders := case avs_amm_target_orders ix of Some t \<Rightarrow> if avs_amm_target_orders log = None then Some t else avs_amm_target_orders log | None \<Rightarrow> avs_amm_target_orders log,
        avs_pool_coin_token_account := fill_pk (avs_pool_coin_token_account log) (avs_pool_coin_token_account ix),
        avs_pool_pc_token_account := fill_pk (avs_pool_pc_token_account log) (avs_pool_pc_token_account ix),
        avs_serum_program := fill_pk (avs_serum_program log) (avs_serum_program ix),
        avs_serum_market := fill_pk (avs_serum_market log) (avs_serum_market ix),
        avs_serum_bids := fill_pk (avs_serum_bids log) (avs_serum_bids ix),
        avs_serum_asks := fill_pk (avs_serum_asks log) (avs_serum_asks ix),
        avs_serum_event_queue := fill_pk (avs_serum_event_queue log) (avs_serum_event_queue ix),
        avs_serum_coin_vault_account := fill_pk (avs_serum_coin_vault_account log) (avs_serum_coin_vault_account ix),
        avs_serum_pc_vault_account := fill_pk (avs_serum_pc_vault_account log) (avs_serum_pc_vault_account ix),
        avs_serum_vault_signer := fill_pk (avs_serum_vault_signer log) (avs_serum_vault_signer ix),
        avs_user_source_token_account := fill_pk (avs_user_source_token_account log) (avs_user_source_token_account ix),
        avs_user_destination_token_account := fill_pk (avs_user_destination_token_account log) (avs_user_destination_token_account ix),
        avs_user_source_owner := fill_pk (avs_user_source_owner log) (avs_user_source_owner ix),
        avs_amm := fill_pk (avs_amm log) (avs_amm ix)\<rparr>)"

section \<open>Orca\<close>

definition merge_orca_swap_context :: "orca_whirlpool_swap_event \<Rightarrow> orca_whirlpool_swap_event \<Rightarrow> orca_whirlpool_swap_event" where
  "merge_orca_swap_context log ix =
     (let log = (if ows_ix_name ix = [] then log
        else log\<lparr>ows_ix_name := ows_ix_name ix,
          ows_amount := ows_amount ix,
          ows_other_amount_threshold := ows_other_amount_threshold ix,
          ows_sqrt_price_limit := ows_sqrt_price_limit ix,
          ows_amount_specified_is_input := ows_amount_specified_is_input ix\<rparr>)
      in log\<lparr>ows_token_authority := fill_pk (ows_token_authority log) (ows_token_authority ix),
        ows_token_owner_account_a := fill_pk (ows_token_owner_account_a log) (ows_token_owner_account_a ix),
        ows_token_owner_account_b := fill_pk (ows_token_owner_account_b log) (ows_token_owner_account_b ix),
        ows_token_program_a := fill_pk (ows_token_program_a log) (ows_token_program_a ix),
        ows_token_program_b := fill_pk (ows_token_program_b log) (ows_token_program_b ix),
        ows_token_mint_a := fill_pk (ows_token_mint_a log) (ows_token_mint_a ix),
        ows_token_mint_b := fill_pk (ows_token_mint_b log) (ows_token_mint_b ix),
        ows_token_vault_a := fill_pk (ows_token_vault_a log) (ows_token_vault_a ix),
        ows_token_vault_b := fill_pk (ows_token_vault_b log) (ows_token_vault_b ix),
        ows_tick_array_0 := fill_pk (ows_tick_array_0 log) (ows_tick_array_0 ix),
        ows_tick_array_1 := fill_pk (ows_tick_array_1 log) (ows_tick_array_1 ix),
        ows_tick_array_2 := fill_pk (ows_tick_array_2 log) (ows_tick_array_2 ix),
        ows_oracle := fill_pk (ows_oracle log) (ows_oracle ix)\<rparr>)"

section \<open>Meteora\<close>

definition merge_meteora_dlmm_swap_log_preferred :: "meteora_dlmm_swap_event \<Rightarrow> meteora_dlmm_swap_event \<Rightarrow> meteora_dlmm_swap_event" where
  "merge_meteora_dlmm_swap_log_preferred log ix =
     log\<lparr>dls_user_token_in := fill_pk (dls_user_token_in log) (dls_user_token_in ix),
       dls_user_token_out := fill_pk (dls_user_token_out log) (dls_user_token_out ix),
       dls_token_x_mint := fill_pk (dls_token_x_mint log) (dls_token_x_mint ix),
       dls_token_y_mint := fill_pk (dls_token_y_mint log) (dls_token_y_mint ix),
       dls_reserve_x := fill_pk (dls_reserve_x log) (dls_reserve_x ix),
       dls_reserve_y := fill_pk (dls_reserve_y log) (dls_reserve_y ix),
       dls_oracle := fill_pk (dls_oracle log) (dls_oracle ix),
       dls_token_x_program := fill_pk (dls_token_x_program log) (dls_token_x_program ix),
       dls_token_y_program := fill_pk (dls_token_y_program log) (dls_token_y_program ix),
       dls_min_amount_out := if dls_min_amount_out log = 0 then dls_min_amount_out ix else dls_min_amount_out log,
       dls_bitmap_extension := if dls_bitmap_extension log = None then dls_bitmap_extension ix else dls_bitmap_extension log,
       dls_bin_arrays := if dls_bin_arrays log = [] then dls_bin_arrays ix else dls_bin_arrays log\<rparr>"

definition merge_meteora_pools_add_context :: "meteora_pools_add_liquidity_event \<Rightarrow> meteora_pools_add_liquidity_event \<Rightarrow> meteora_pools_add_liquidity_event" where
  "merge_meteora_pools_add_context log ix =
     (let log = (if mpa_ix_name ix = [] then log
        else log\<lparr>mpa_ix_name := mpa_ix_name ix,
          mpa_pool_token_amount := mpa_pool_token_amount ix,
          mpa_maximum_token_a_amount := mpa_maximum_token_a_amount ix,
          mpa_maximum_token_b_amount := mpa_maximum_token_b_amount ix,
          mpa_minimum_pool_token_amount := mpa_minimum_pool_token_amount ix,
          mpa_token_a_in_amount := mpa_token_a_in_amount ix,
          mpa_token_b_in_amount := mpa_token_b_in_amount ix\<rparr>)
      in log\<lparr>mpa_pool := fill_pk (mpa_pool log) (mpa_pool ix),
        mpa_lp_mint := fill_pk (mpa_lp_mint log) (mpa_lp_mint ix),
        mpa_user_pool_lp := fill_pk (mpa_user_pool_lp log) (mpa_user_pool_lp ix),
        mpa_a_vault_lp := fill_pk (mpa_a_vault_lp log) (mpa_a_vault_lp ix),
        mpa_b_vault_lp := fill_pk (mpa_b_vault_lp log) (mpa_b_vault_lp ix),
        mpa_a_vault := fill_pk (mpa_a_vault log) (mpa_a_vault ix),
        mpa_b_vault := fill_pk (mpa_b_vault log) (mpa_b_vault ix),
        mpa_a_vault_lp_mint := fill_pk (mpa_a_vault_lp_mint log) (mpa_a_vault_lp_mint ix),
        mpa_b_vault_lp_mint := fill_pk (mpa_b_vault_lp_mint log) (mpa_b_vault_lp_mint ix),
        mpa_a_token_vault := fill_pk (mpa_a_token_vault log) (mpa_a_token_vault ix),
        mpa_b_token_vault := fill_pk (mpa_b_token_vault log) (mpa_b_token_vault ix),
        mpa_user_a_token := fill_pk (mpa_user_a_token log) (mpa_user_a_token ix),
        mpa_user_b_token := fill_pk (mpa_user_b_token log) (mpa_user_b_token ix),
        mpa_user := fill_pk (mpa_user log) (mpa_user ix),
        mpa_vault_program := fill_pk (mpa_vault_program log) (mpa_vault_program ix),
        mpa_token_program := fill_pk (mpa_token_program log) (mpa_token_program ix)\<rparr>)"

definition merge_meteora_pools_bootstrap_context :: "meteora_pools_bootstrap_liquidity_event \<Rightarrow> meteora_pools_bootstrap_liquidity_event \<Rightarrow> meteora_pools_bootstrap_liquidity_event" where
  "merge_meteora_pools_bootstrap_context log ix =
     (let log = (if mpb_ix_name ix = [] then log
        else log\<lparr>mpb_ix_name := mpb_ix_name ix,
          mpb_token_a_in_amount := mpb_token_a_in_amount ix,
          mpb_token_b_in_amount := mpb_token_b_in_amount ix\<rparr>)
      in log\<lparr>mpb_pool := fill_pk (mpb_pool log) (mpb_pool ix),
        mpb_lp_mint := fill_pk (mpb_lp_mint log) (mpb_lp_mint ix),
        mpb_user_pool_lp := fill_pk (mpb_user_pool_lp log) (mpb_user_pool_lp ix),
        mpb_a_vault_lp := fill_pk (mpb_a_vault_lp log) (mpb_a_vault_lp ix),
        mpb_b_vault_lp := fill_pk (mpb_b_vault_lp log) (mpb_b_vault_lp ix),
        mpb_a_vault := fill_pk (mpb_a_vault log) (mpb_a_vault ix),
        mpb_b_vault := fill_pk (mpb_b_vault log) (mpb_b_vault ix),
        mpb_a_vault_lp_mint := fill_pk (mpb_a_vault_lp_mint log) (mpb_a_vault_lp_mint ix),
        mpb_b_vault_lp_mint := fill_pk (mpb_b_vault_lp_mint log) (mpb_b_vault_lp_mint ix),
        mpb_a_token_vault := fill_pk (mpb_a_token_vault log) (mpb_a_token_vault ix),
        mpb_b_token_vault := fill_pk (mpb_b_token_vault log) (mpb_b_token_vault ix),
        mpb_user_a_token := fill_pk (mpb_user_a_token log) (mpb_user_a_token ix),
        mpb_user_b_token := fill_pk (mpb_user_b_token log) (mpb_user_b_token ix),
        mpb_user := fill_pk (mpb_user log) (mpb_user ix),
        mpb_vault_program := fill_pk (mpb_vault_program log) (mpb_vault_program ix),
        mpb_token_program := fill_pk (mpb_token_program log) (mpb_token_program ix)\<rparr>)"

definition merge_meteora_pools_poolcreated_context :: "meteora_pools_pool_created_event \<Rightarrow> meteora_pools_pool_created_event \<Rightarrow> meteora_pools_pool_created_event" where
  "merge_meteora_pools_poolcreated_context log ix =
     (let log = (if mpc_ix_name ix = [] then log
        else log\<lparr>mpc_ix_name := mpc_ix_name ix,
          mpc_token_a_in_amount := mpc_token_a_in_amount ix,
          mpc_token_b_in_amount := mpc_token_b_in_amount ix,
          mpc_activation_point := mpc_activation_point ix,
          mpc_stable_curve := mpc_stable_curve ix,
          mpc_trade_fee_bps := mpc_trade_fee_bps ix,
          mpc_customizable_params := mpc_customizable_params ix\<rparr>)
      in log\<lparr>mpc_pool := fill_pk (mpc_pool log) (mpc_pool ix),
        mpc_config := fill_pk (mpc_config log) (mpc_config ix),
        mpc_lp_mint := fill_pk (mpc_lp_mint log) (mpc_lp_mint ix),
        mpc_token_a_mint := fill_pk (mpc_token_a_mint log) (mpc_token_a_mint ix),
        mpc_token_b_mint := fill_pk (mpc_token_b_mint log) (mpc_token_b_mint ix),
        mpc_a_vault := fill_pk (mpc_a_vault log) (mpc_a_vault ix),
        mpc_b_vault := fill_pk (mpc_b_vault log) (mpc_b_vault ix),
        mpc_a_token_vault := fill_pk (mpc_a_token_vault log) (mpc_a_token_vault ix),
        mpc_b_token_vault := fill_pk (mpc_b_token_vault log) (mpc_b_token_vault ix),
        mpc_a_vault_lp_mint := fill_pk (mpc_a_vault_lp_mint log) (mpc_a_vault_lp_mint ix),
        mpc_b_vault_lp_mint := fill_pk (mpc_b_vault_lp_mint log) (mpc_b_vault_lp_mint ix),
        mpc_a_vault_lp := fill_pk (mpc_a_vault_lp log) (mpc_a_vault_lp ix),
        mpc_b_vault_lp := fill_pk (mpc_b_vault_lp log) (mpc_b_vault_lp ix),
        mpc_payer_token_a := fill_pk (mpc_payer_token_a log) (mpc_payer_token_a ix),
        mpc_payer_token_b := fill_pk (mpc_payer_token_b log) (mpc_payer_token_b ix),
        mpc_payer_pool_lp := fill_pk (mpc_payer_pool_lp log) (mpc_payer_pool_lp ix),
        mpc_protocol_token_a_fee := fill_pk (mpc_protocol_token_a_fee log) (mpc_protocol_token_a_fee ix),
        mpc_protocol_token_b_fee := fill_pk (mpc_protocol_token_b_fee log) (mpc_protocol_token_b_fee ix),
        mpc_payer := fill_pk (mpc_payer log) (mpc_payer ix),
        mpc_rent := fill_pk (mpc_rent log) (mpc_rent ix),
        mpc_mint_metadata := fill_pk (mpc_mint_metadata log) (mpc_mint_metadata ix),
        mpc_metadata_program := fill_pk (mpc_metadata_program log) (mpc_metadata_program ix),
        mpc_vault_program := fill_pk (mpc_vault_program log) (mpc_vault_program ix),
        mpc_token_program := fill_pk (mpc_token_program log) (mpc_token_program ix),
        mpc_associated_token_program := fill_pk (mpc_associated_token_program log) (mpc_associated_token_program ix),
        mpc_system_program := fill_pk (mpc_system_program log) (mpc_system_program ix),
        mpc_admin_token_a := fill_pk (mpc_admin_token_a log) (mpc_admin_token_a ix),
        mpc_admin_token_b := fill_pk (mpc_admin_token_b log) (mpc_admin_token_b ix),
        mpc_admin_pool_lp := fill_pk (mpc_admin_pool_lp log) (mpc_admin_pool_lp ix),
        mpc_admin := fill_pk (mpc_admin log) (mpc_admin ix),
        mpc_fee_owner := fill_pk (mpc_fee_owner log) (mpc_fee_owner ix)\<rparr>)"

definition merge_meteora_pools_setpoolfees_context :: "meteora_pools_set_pool_fees_event \<Rightarrow> meteora_pools_set_pool_fees_event \<Rightarrow> meteora_pools_set_pool_fees_event" where
  "merge_meteora_pools_setpoolfees_context log ix =
     (let log = (if mpf_ix_name ix = [] then log
        else log\<lparr>mpf_ix_name := mpf_ix_name ix,
          mpf_new_partner_fee_numerator := mpf_new_partner_fee_numerator ix\<rparr>)
      in log\<lparr>mpf_pool := fill_pk (mpf_pool log) (mpf_pool ix),
        mpf_fee_operator := fill_pk (mpf_fee_operator log) (mpf_fee_operator ix)\<rparr>)"

definition merge_meteora_pools_remove_context :: "meteora_pools_remove_liquidity_event \<Rightarrow> meteora_pools_remove_liquidity_event \<Rightarrow> meteora_pools_remove_liquidity_event" where
  "merge_meteora_pools_remove_context log ix =
     (let log = (if mpr_ix_name ix = [] then log
        else log\<lparr>mpr_ix_name := mpr_ix_name ix,
          mpr_pool_token_amount := mpr_pool_token_amount ix,
          mpr_minimum_out_amount := mpr_minimum_out_amount ix,
          mpr_minimum_a_token_out := mpr_minimum_a_token_out ix,
          mpr_minimum_b_token_out := mpr_minimum_b_token_out ix\<rparr>)
      in log\<lparr>mpr_pool := fill_pk (mpr_pool log) (mpr_pool ix),
        mpr_lp_mint := fill_pk (mpr_lp_mint log) (mpr_lp_mint ix),
        mpr_user_pool_lp := fill_pk (mpr_user_pool_lp log) (mpr_user_pool_lp ix),
        mpr_a_vault_lp := fill_pk (mpr_a_vault_lp log) (mpr_a_vault_lp ix),
        mpr_b_vault_lp := fill_pk (mpr_b_vault_lp log) (mpr_b_vault_lp ix),
        mpr_a_vault := fill_pk (mpr_a_vault log) (mpr_a_vault ix),
        mpr_b_vault := fill_pk (mpr_b_vault log) (mpr_b_vault ix),
        mpr_a_vault_lp_mint := fill_pk (mpr_a_vault_lp_mint log) (mpr_a_vault_lp_mint ix),
        mpr_b_vault_lp_mint := fill_pk (mpr_b_vault_lp_mint log) (mpr_b_vault_lp_mint ix),
        mpr_a_token_vault := fill_pk (mpr_a_token_vault log) (mpr_a_token_vault ix),
        mpr_b_token_vault := fill_pk (mpr_b_token_vault log) (mpr_b_token_vault ix),
        mpr_user_a_token := fill_pk (mpr_user_a_token log) (mpr_user_a_token ix),
        mpr_user_b_token := fill_pk (mpr_user_b_token log) (mpr_user_b_token ix),
        mpr_user := fill_pk (mpr_user log) (mpr_user ix),
        mpr_vault_program := fill_pk (mpr_vault_program log) (mpr_vault_program ix),
        mpr_token_program := fill_pk (mpr_token_program log) (mpr_token_program ix),
        mpr_user_destination_token := fill_pk (mpr_user_destination_token log) (mpr_user_destination_token ix)\<rparr>)"

definition merge_meteora_pools_swap_context :: "meteora_pools_swap_event \<Rightarrow> meteora_pools_swap_event \<Rightarrow> meteora_pools_swap_event" where
  "merge_meteora_pools_swap_context log ix =
     (let log = (if mps_ix_name ix = [] then log
        else log\<lparr>mps_ix_name := mps_ix_name ix,
          mps_amount_in := mps_amount_in ix,
          mps_minimum_out_amount := mps_minimum_out_amount ix\<rparr>)
      in log\<lparr>mps_pool := fill_pk (mps_pool log) (mps_pool ix),
        mps_user_source_token := fill_pk (mps_user_source_token log) (mps_user_source_token ix),
        mps_user_destination_token := fill_pk (mps_user_destination_token log) (mps_user_destination_token ix),
        mps_a_vault := fill_pk (mps_a_vault log) (mps_a_vault ix),
        mps_b_vault := fill_pk (mps_b_vault log) (mps_b_vault ix),
        mps_a_token_vault := fill_pk (mps_a_token_vault log) (mps_a_token_vault ix),
        mps_b_token_vault := fill_pk (mps_b_token_vault log) (mps_b_token_vault ix),
        mps_a_vault_lp_mint := fill_pk (mps_a_vault_lp_mint log) (mps_a_vault_lp_mint ix),
        mps_b_vault_lp_mint := fill_pk (mps_b_vault_lp_mint log) (mps_b_vault_lp_mint ix),
        mps_a_vault_lp := fill_pk (mps_a_vault_lp log) (mps_a_vault_lp ix),
        mps_b_vault_lp := fill_pk (mps_b_vault_lp log) (mps_b_vault_lp ix),
        mps_protocol_token_fee := fill_pk (mps_protocol_token_fee log) (mps_protocol_token_fee ix),
        mps_user := fill_pk (mps_user log) (mps_user ix),
        mps_vault_program := fill_pk (mps_vault_program log) (mps_vault_program ix),
        mps_token_program := fill_pk (mps_token_program log) (mps_token_program ix)\<rparr>)"

definition merge_dlmm_initialize_pool :: "meteora_dlmm_initialize_pool_event \<Rightarrow> meteora_dlmm_initialize_pool_event \<Rightarrow> meteora_dlmm_initialize_pool_event" where
  "merge_dlmm_initialize_pool base inner =
     inner\<lparr>dli_creator := dli_creator base, dli_active_bin_id := dli_active_bin_id base\<rparr>"

definition merge_dlmm_create_position :: "meteora_dlmm_create_position_event \<Rightarrow> meteora_dlmm_create_position_event \<Rightarrow> meteora_dlmm_create_position_event" where
  "merge_dlmm_create_position base inner =
     inner\<lparr>dlp_lower_bin_id := dlp_lower_bin_id base, dlp_width := dlp_width base\<rparr>"

definition merge_dlmm_close_position :: "meteora_dlmm_close_position_event \<Rightarrow> meteora_dlmm_close_position_event \<Rightarrow> meteora_dlmm_close_position_event" where
  "merge_dlmm_close_position base inner = inner\<lparr>dlc_pool := dlc_pool base\<rparr>"

end
