(* ===== verification/Event_Merge.thy ===== *)
theory Event_Merge
  imports Venue_Merge
begin

text \<open>
  The merger (\<open>src/core/merger.rs\<close>): \<open>try_merge_events\<close> puts an inner event into the event of its
  instruction, \<open>can_merge\<close> tests for it, \<open>merge_grpc_instruction_into_log\<close> completes a logged event from its
  instruction. The matches over all variants are split by protocol. Two trades that name different mints, users
  or sides are never merged.
\<close>

section \<open>Which trade an event is about\<close>

definition pumpfun_trade_from_ix_variant :: "'p dex_event \<Rightarrow> pumpfun_trade_event option" where
  "pumpfun_trade_from_ix_variant ix =
     (case ix of
        Pump_Fun_Event (PumpFunTrade_Event t) \<Rightarrow> Some t
      | Pump_Fun_Event (PumpFunBuy_Event t) \<Rightarrow> Some t
      | Pump_Fun_Event (PumpFunSell_Event t) \<Rightarrow> Some t
      | Pump_Fun_Event (PumpFunBuyExactSolIn_Event t) \<Rightarrow> Some t
      | _ \<Rightarrow> None)"

definition trade_side :: "pumpfun_trade_event \<Rightarrow> bool option" where
  "trade_side t =
     (if pt_mint t \<noteq> default_pubkey \<or> pt_ix_name t \<noteq> [] \<or> pt_sol_amount t \<noteq> 0 \<or> pt_token_amount t \<noteq> 0
      then Some (pt_is_buy t) else None)"

definition pump_trade_identity :: "'p dex_event \<Rightarrow> (u8 \<times> pubkey \<times> pubkey \<times> bool option) option" where
  "pump_trade_identity event =
     (case event of
        Pump_Fun_Event _ \<Rightarrow>
          map_option (\<lambda>t. (0, pt_mint t, pt_user t, trade_side t)) (pumpfun_trade_from_ix_variant event)
      | Pump_Swap_Event (PumpSwapBuy_Event e) \<Rightarrow> Some (1, swb_pool e, swb_user e, Some True)
      | Pump_Swap_Event (PumpSwapSell_Event e) \<Rightarrow> Some (1, sws_pool e, sws_user e, Some False)
      | _ \<Rightarrow> None)"

definition keys_conflict :: "pubkey \<Rightarrow> pubkey \<Rightarrow> bool" where
  "keys_conflict k k' \<longleftrightarrow> k \<noteq> default_pubkey \<and> k' \<noteq> default_pubkey \<and> k \<noteq> k'"

definition pump_trade_identity_conflicts :: "'p dex_event \<Rightarrow> 'p dex_event \<Rightarrow> bool" where
  "pump_trade_identity_conflicts base inner =
     (case (pump_trade_identity base, pump_trade_identity inner) of
        (Some (kind, venue, user, buy), Some (other, other_venue, other_user, other_buy)) \<Rightarrow>
          kind = other \<and>
          (buy \<noteq> None \<and> other_buy \<noteq> None \<and> buy \<noteq> other_buy \<or>
           keys_conflict venue other_venue \<or> keys_conflict user other_user)
      | _ \<Rightarrow> False)"

section \<open>An inner event into the event of its instruction\<close>

definition merge_generic :: "'e \<Rightarrow> 'e \<Rightarrow> 'e" where
  "merge_generic base inner = inner"

definition merge_pump_fun :: "'p pump_fun_event \<Rightarrow> 'p pump_fun_event \<Rightarrow> 'p pump_fun_event option" where
  "merge_pump_fun base inner =
     (case (base, inner) of
        (PumpFunTrade_Event b, PumpFunTrade_Event i) \<Rightarrow> Some (PumpFunTrade_Event (merge_pumpfun_trade b i))
      | (PumpFunTrade_Event b, PumpFunBuy_Event i) \<Rightarrow> Some (PumpFunTrade_Event (merge_pumpfun_trade b i))
      | (PumpFunTrade_Event b, PumpFunSell_Event i) \<Rightarrow> Some (PumpFunTrade_Event (merge_pumpfun_trade b i))
      | (PumpFunTrade_Event b, PumpFunBuyExactSolIn_Event i) \<Rightarrow> Some (PumpFunTrade_Event (merge_pumpfun_trade b i))
      | (PumpFunBuy_Event b, PumpFunTrade_Event i) \<Rightarrow> Some (PumpFunBuy_Event (merge_pumpfun_trade b i))
      | (PumpFunBuy_Event b, PumpFunBuy_Event i) \<Rightarrow> Some (PumpFunBuy_Event (merge_pumpfun_trade b i))
      | (PumpFunSell_Event b, PumpFunTrade_Event i) \<Rightarrow> Some (PumpFunSell_Event (merge_pumpfun_trade b i))
      | (PumpFunSell_Event b, PumpFunSell_Event i) \<Rightarrow> Some (PumpFunSell_Event (merge_pumpfun_trade b i))
      | (PumpFunBuyExactSolIn_Event b, PumpFunTrade_Event i) \<Rightarrow>
          Some (PumpFunBuyExactSolIn_Event (merge_pumpfun_trade b i))
      | (PumpFunBuyExactSolIn_Event b, PumpFunBuyExactSolIn_Event i) \<Rightarrow>
          Some (PumpFunBuyExactSolIn_Event (merge_pumpfun_trade b i))
      | (PumpFunCreate_Event b, PumpFunCreate_Event i) \<Rightarrow> Some (PumpFunCreate_Event (merge_pumpfun_create b i))
      | (PumpFunCreateV2_Event b, PumpFunCreateV2_Event i) \<Rightarrow> Some (PumpFunCreateV2_Event (merge_pumpfun_create_v2 b i))
      | (PumpFunMigrate_Event b, PumpFunMigrate_Event i) \<Rightarrow> Some (PumpFunMigrate_Event (merge_pumpfun_migrate b i))
      | (PumpFunMigrateBondingCurveCreator_Event b, PumpFunMigrateBondingCurveCreator_Event i) \<Rightarrow>
          Some (PumpFunMigrateBondingCurveCreator_Event (merge_generic b i))
      | _ \<Rightarrow> None)"

definition merge_pumpswap_buy :: "pumpswap_buy_event \<Rightarrow> pumpswap_buy_event \<Rightarrow> pumpswap_buy_event" where
  "merge_pumpswap_buy base inner = (let ix = base; base = inner in merge_pumpswap_buy_log_preferred base ix)"

definition merge_pumpswap_sell :: "pumpswap_sell_event \<Rightarrow> pumpswap_sell_event \<Rightarrow> pumpswap_sell_event" where
  "merge_pumpswap_sell base inner = (let ix = base; base = inner in merge_pumpswap_sell_log_preferred base ix)"

definition merge_cpmm_swap :: "raydium_cpmm_swap_event \<Rightarrow> raydium_cpmm_swap_event \<Rightarrow> raydium_cpmm_swap_event" where
  "merge_cpmm_swap base inner =
     (let instruction = base; base = inner in merge_raydium_cpmm_swap_log_preferred base instruction)"

definition merge_clmm_swap :: "raydium_clmm_swap_event \<Rightarrow> raydium_clmm_swap_event \<Rightarrow> raydium_clmm_swap_event" where
  "merge_clmm_swap base inner =
     (let instruction = base; base = inner in merge_raydium_clmm_swap_log_preferred base instruction)"

definition merge_pump_fees :: "pump_fees_event \<Rightarrow> pump_fees_event \<Rightarrow> pump_fees_event option" where
  "merge_pump_fees base inner =
     (case (base, inner) of
        (PumpFeesCreateFeeSharingConfig_Event b, PumpFeesCreateFeeSharingConfig_Event i) \<Rightarrow> Some (PumpFeesCreateFeeSharingConfig_Event (merge_generic b i))
      | (PumpFeesInitializeFeeConfig_Event b, PumpFeesInitializeFeeConfig_Event i) \<Rightarrow> Some (PumpFeesInitializeFeeConfig_Event (merge_generic b i))
      | (PumpFeesResetFeeSharingConfig_Event b, PumpFeesResetFeeSharingConfig_Event i) \<Rightarrow> Some (PumpFeesResetFeeSharingConfig_Event (merge_generic b i))
      | (PumpFeesRevokeFeeSharingAuthority_Event b, PumpFeesRevokeFeeSharingAuthority_Event i) \<Rightarrow> Some (PumpFeesRevokeFeeSharingAuthority_Event (merge_generic b i))
      | (PumpFeesTransferFeeSharingAuthority_Event b, PumpFeesTransferFeeSharingAuthority_Event i) \<Rightarrow> Some (PumpFeesTransferFeeSharingAuthority_Event (merge_generic b i))
      | (PumpFeesUpdateAdmin_Event b, PumpFeesUpdateAdmin_Event i) \<Rightarrow> Some (PumpFeesUpdateAdmin_Event (merge_generic b i))
      | (PumpFeesUpdateFeeConfig_Event b, PumpFeesUpdateFeeConfig_Event i) \<Rightarrow> Some (PumpFeesUpdateFeeConfig_Event (merge_generic b i))
      | (PumpFeesUpdateFeeShares_Event b, PumpFeesUpdateFeeShares_Event i) \<Rightarrow> Some (PumpFeesUpdateFeeShares_Event (merge_generic b i))
      | (PumpFeesUpsertFeeTiers_Event b, PumpFeesUpsertFeeTiers_Event i) \<Rightarrow> Some (PumpFeesUpsertFeeTiers_Event (merge_generic b i))
      | _ \<Rightarrow> None)"

definition merge_pump_swap :: "'p pump_swap_event \<Rightarrow> 'p pump_swap_event \<Rightarrow> 'p pump_swap_event option" where
  "merge_pump_swap base inner =
     (case (base, inner) of
        (PumpSwapBuy_Event b, PumpSwapBuy_Event i) \<Rightarrow> Some (PumpSwapBuy_Event (merge_pumpswap_buy b i))
      | (PumpSwapSell_Event b, PumpSwapSell_Event i) \<Rightarrow> Some (PumpSwapSell_Event (merge_pumpswap_sell b i))
      | (PumpSwapTrade_Event b, PumpSwapTrade_Event i) \<Rightarrow> Some (PumpSwapTrade_Event (merge_generic b i))
      | (PumpSwapCreatePool_Event b, PumpSwapCreatePool_Event i) \<Rightarrow> Some (PumpSwapCreatePool_Event (merge_generic b i))
      | (PumpSwapLiquidityAdded_Event b, PumpSwapLiquidityAdded_Event i) \<Rightarrow> Some (PumpSwapLiquidityAdded_Event (merge_generic b i))
      | (PumpSwapLiquidityRemoved_Event b, PumpSwapLiquidityRemoved_Event i) \<Rightarrow> Some (PumpSwapLiquidityRemoved_Event (merge_generic b i))
      | _ \<Rightarrow> None)"

definition merge_raydium_launchlab :: "raydium_launchlab_event \<Rightarrow> raydium_launchlab_event \<Rightarrow> raydium_launchlab_event option" where
  "merge_raydium_launchlab base inner =
     (case (base, inner) of
        (RaydiumLaunchlabTrade_Event b, RaydiumLaunchlabTrade_Event i) \<Rightarrow> Some (RaydiumLaunchlabTrade_Event (merge_generic b i))
      | (RaydiumLaunchlabPoolCreate_Event b, RaydiumLaunchlabPoolCreate_Event i) \<Rightarrow> Some (RaydiumLaunchlabPoolCreate_Event (merge_generic b i))
      | (RaydiumLaunchlabMigrateAmm_Event b, RaydiumLaunchlabMigrateAmm_Event i) \<Rightarrow> Some (RaydiumLaunchlabMigrateAmm_Event (merge_generic b i))
      | _ \<Rightarrow> None)"

definition merge_raydium_cpmm :: "raydium_cpmm_event \<Rightarrow> raydium_cpmm_event \<Rightarrow> raydium_cpmm_event option" where
  "merge_raydium_cpmm base inner =
     (case (base, inner) of
        (RaydiumCpmmSwap_Event b, RaydiumCpmmSwap_Event i) \<Rightarrow> Some (RaydiumCpmmSwap_Event (merge_cpmm_swap b i))
      | (RaydiumCpmmDeposit_Event b, RaydiumCpmmDeposit_Event i) \<Rightarrow> Some (RaydiumCpmmDeposit_Event (merge_generic b i))
      | (RaydiumCpmmWithdraw_Event b, RaydiumCpmmWithdraw_Event i) \<Rightarrow> Some (RaydiumCpmmWithdraw_Event (merge_generic b i))
      | (RaydiumCpmmInitialize_Event b, RaydiumCpmmInitialize_Event i) \<Rightarrow> Some (RaydiumCpmmInitialize_Event (merge_generic b i))
      | _ \<Rightarrow> None)"

definition merge_raydium_clmm :: "raydium_clmm_event \<Rightarrow> raydium_clmm_event \<Rightarrow> raydium_clmm_event option" where
  "merge_raydium_clmm base inner =
     (case (base, inner) of
        (RaydiumClmmSwap_Event b, RaydiumClmmSwap_Event i) \<Rightarrow> Some (RaydiumClmmSwap_Event (merge_clmm_swap b i))
      | (RaydiumClmmIncreaseLiquidity_Event b, RaydiumClmmIncreaseLiquidity_Event i) \<Rightarrow> Some (RaydiumClmmIncreaseLiquidity_Event (merge_generic b i))
      | (RaydiumClmmDecreaseLiquidity_Event b, RaydiumClmmDecreaseLiquidity_Event i) \<Rightarrow> Some (RaydiumClmmDecreaseLiquidity_Event (merge_generic b i))
      | (RaydiumClmmLiquidityChange_Event b, RaydiumClmmLiquidityChange_Event i) \<Rightarrow> Some (RaydiumClmmLiquidityChange_Event (merge_generic b i))
      | (RaydiumClmmConfigChange_Event b, RaydiumClmmConfigChange_Event i) \<Rightarrow> Some (RaydiumClmmConfigChange_Event (merge_generic b i))
      | (RaydiumClmmCreatePersonalPosition_Event b, RaydiumClmmCreatePersonalPosition_Event i) \<Rightarrow> Some (RaydiumClmmCreatePersonalPosition_Event (merge_generic b i))
      | (RaydiumClmmLiquidityCalculate_Event b, RaydiumClmmLiquidityCalculate_Event i) \<Rightarrow> Some (RaydiumClmmLiquidityCalculate_Event (merge_generic b i))
      | (RaydiumClmmOpenLimitOrder_Event b, RaydiumClmmOpenLimitOrder_Event i) \<Rightarrow> Some (RaydiumClmmOpenLimitOrder_Event (merge_generic b i))
      | (RaydiumClmmIncreaseLimitOrder_Event b, RaydiumClmmIncreaseLimitOrder_Event i) \<Rightarrow> Some (RaydiumClmmIncreaseLimitOrder_Event (merge_generic b i))
      | (RaydiumClmmDecreaseLimitOrder_Event b, RaydiumClmmDecreaseLimitOrder_Event i) \<Rightarrow> Some (RaydiumClmmDecreaseLimitOrder_Event (merge_generic b i))
      | (RaydiumClmmSettleLimitOrder_Event b, RaydiumClmmSettleLimitOrder_Event i) \<Rightarrow> Some (RaydiumClmmSettleLimitOrder_Event (merge_generic b i))
      | (RaydiumClmmUpdateRewardInfos_Event b, RaydiumClmmUpdateRewardInfos_Event i) \<Rightarrow> Some (RaydiumClmmUpdateRewardInfos_Event (merge_generic b i))
      | (RaydiumClmmCreatePool_Event b, RaydiumClmmCreatePool_Event i) \<Rightarrow> Some (RaydiumClmmCreatePool_Event (merge_generic b i))
      | (RaydiumClmmOpenPosition_Event b, RaydiumClmmOpenPosition_Event i) \<Rightarrow> Some (RaydiumClmmOpenPosition_Event (merge_generic b i))
      | (RaydiumClmmClosePosition_Event b, RaydiumClmmClosePosition_Event i) \<Rightarrow> Some (RaydiumClmmClosePosition_Event (merge_generic b i))
      | (RaydiumClmmOpenPositionWithTokenExtNft_Event b, RaydiumClmmOpenPositionWithTokenExtNft_Event i) \<Rightarrow> Some (RaydiumClmmOpenPositionWithTokenExtNft_Event (merge_generic b i))
      | (RaydiumClmmCollectFee_Event b, RaydiumClmmCollectFee_Event i) \<Rightarrow> Some (RaydiumClmmCollectFee_Event (merge_generic b i))
      | _ \<Rightarrow> None)"

definition merge_raydium_amm_v4 :: "raydium_amm_v4_event \<Rightarrow> raydium_amm_v4_event \<Rightarrow> raydium_amm_v4_event option" where
  "merge_raydium_amm_v4 base inner =
     (case (base, inner) of
        (RaydiumAmmV4Swap_Event b, RaydiumAmmV4Swap_Event i) \<Rightarrow> Some (RaydiumAmmV4Swap_Event (merge_raydium_amm_v4_swap_log_preferred i b))
      | (RaydiumAmmV4Deposit_Event b, RaydiumAmmV4Deposit_Event i) \<Rightarrow> Some (RaydiumAmmV4Deposit_Event (merge_generic b i))
      | (RaydiumAmmV4Withdraw_Event b, RaydiumAmmV4Withdraw_Event i) \<Rightarrow> Some (RaydiumAmmV4Withdraw_Event (merge_generic b i))
      | (RaydiumAmmV4Initialize2_Event b, RaydiumAmmV4Initialize2_Event i) \<Rightarrow> Some (RaydiumAmmV4Initialize2_Event (merge_generic b i))
      | (RaydiumAmmV4WithdrawPnl_Event b, RaydiumAmmV4WithdrawPnl_Event i) \<Rightarrow> Some (RaydiumAmmV4WithdrawPnl_Event (merge_generic b i))
      | _ \<Rightarrow> None)"

definition merge_orca_whirlpool :: "orca_whirlpool_event \<Rightarrow> orca_whirlpool_event \<Rightarrow> orca_whirlpool_event option" where
  "merge_orca_whirlpool base inner =
     (case (base, inner) of
        (OrcaWhirlpoolSwap_Event b, OrcaWhirlpoolSwap_Event i) \<Rightarrow> Some (OrcaWhirlpoolSwap_Event (merge_orca_swap_context i b))
      | (OrcaWhirlpoolLiquidityIncreased_Event b, OrcaWhirlpoolLiquidityIncreased_Event i) \<Rightarrow> Some (OrcaWhirlpoolLiquidityIncreased_Event (merge_generic b i))
      | (OrcaWhirlpoolLiquidityDecreased_Event b, OrcaWhirlpoolLiquidityDecreased_Event i) \<Rightarrow> Some (OrcaWhirlpoolLiquidityDecreased_Event (merge_generic b i))
      | (OrcaWhirlpoolPoolInitialized_Event b, OrcaWhirlpoolPoolInitialized_Event i) \<Rightarrow> Some (OrcaWhirlpoolPoolInitialized_Event (merge_generic b i))
      | _ \<Rightarrow> None)"

definition merge_meteora_pools :: "meteora_pools_event \<Rightarrow> meteora_pools_event \<Rightarrow> meteora_pools_event option" where
  "merge_meteora_pools base inner =
     (case (base, inner) of
        (MeteoraPoolsSwap_Event b, MeteoraPoolsSwap_Event i) \<Rightarrow> Some (MeteoraPoolsSwap_Event (merge_meteora_pools_swap_context i b))
      | (MeteoraPoolsAddLiquidity_Event b, MeteoraPoolsAddLiquidity_Event i) \<Rightarrow> Some (MeteoraPoolsAddLiquidity_Event (merge_meteora_pools_add_context i b))
      | (MeteoraPoolsRemoveLiquidity_Event b, MeteoraPoolsRemoveLiquidity_Event i) \<Rightarrow> Some (MeteoraPoolsRemoveLiquidity_Event (merge_meteora_pools_remove_context i b))
      | (MeteoraPoolsBootstrapLiquidity_Event b, MeteoraPoolsBootstrapLiquidity_Event i) \<Rightarrow> Some (MeteoraPoolsBootstrapLiquidity_Event (merge_meteora_pools_bootstrap_context i b))
      | (MeteoraPoolsPoolCreated_Event b, MeteoraPoolsPoolCreated_Event i) \<Rightarrow> Some (MeteoraPoolsPoolCreated_Event (merge_meteora_pools_poolcreated_context i b))
      | (MeteoraPoolsSetPoolFees_Event b, MeteoraPoolsSetPoolFees_Event i) \<Rightarrow> Some (MeteoraPoolsSetPoolFees_Event (merge_meteora_pools_setpoolfees_context i b))
      | _ \<Rightarrow> None)"

definition merge_meteora_damm_v2 :: "meteora_damm_v2_event \<Rightarrow> meteora_damm_v2_event \<Rightarrow> meteora_damm_v2_event option" where
  "merge_meteora_damm_v2 base inner =
     (case (base, inner) of
        (MeteoraDammV2Swap_Event b, MeteoraDammV2Swap_Event i) \<Rightarrow> Some (MeteoraDammV2Swap_Event (merge_generic b i))
      | (MeteoraDammV2AddLiquidity_Event b, MeteoraDammV2AddLiquidity_Event i) \<Rightarrow> Some (MeteoraDammV2AddLiquidity_Event (merge_generic b i))
      | (MeteoraDammV2RemoveLiquidity_Event b, MeteoraDammV2RemoveLiquidity_Event i) \<Rightarrow> Some (MeteoraDammV2RemoveLiquidity_Event (merge_generic b i))
      | (MeteoraDammV2InitializePool_Event b, MeteoraDammV2InitializePool_Event i) \<Rightarrow> Some (MeteoraDammV2InitializePool_Event (merge_generic b i))
      | (MeteoraDammV2CreatePosition_Event b, MeteoraDammV2CreatePosition_Event i) \<Rightarrow> Some (MeteoraDammV2CreatePosition_Event (merge_generic b i))
      | (MeteoraDammV2ClosePosition_Event b, MeteoraDammV2ClosePosition_Event i) \<Rightarrow> Some (MeteoraDammV2ClosePosition_Event (merge_generic b i))
      | _ \<Rightarrow> None)"

definition merge_meteora_dlmm :: "meteora_dlmm_event \<Rightarrow> meteora_dlmm_event \<Rightarrow> meteora_dlmm_event option" where
  "merge_meteora_dlmm base inner =
     (case (base, inner) of
        (MeteoraDlmmSwap_Event b, MeteoraDlmmSwap_Event i) \<Rightarrow> Some (MeteoraDlmmSwap_Event (merge_meteora_dlmm_swap_log_preferred i b))
      | (MeteoraDlmmInitializePool_Event b, MeteoraDlmmInitializePool_Event i) \<Rightarrow> Some (MeteoraDlmmInitializePool_Event (merge_dlmm_initialize_pool b i))
      | (MeteoraDlmmCreatePosition_Event b, MeteoraDlmmCreatePosition_Event i) \<Rightarrow> Some (MeteoraDlmmCreatePosition_Event (merge_dlmm_create_position b i))
      | (MeteoraDlmmClosePosition_Event b, MeteoraDlmmClosePosition_Event i) \<Rightarrow> Some (MeteoraDlmmClosePosition_Event (merge_dlmm_close_position b i))
      | (MeteoraDlmmAddLiquidity_Event b, MeteoraDlmmAddLiquidity_Event i) \<Rightarrow> Some (MeteoraDlmmAddLiquidity_Event (merge_generic b i))
      | (MeteoraDlmmRemoveLiquidity_Event b, MeteoraDlmmRemoveLiquidity_Event i) \<Rightarrow> Some (MeteoraDlmmRemoveLiquidity_Event (merge_generic b i))
      | (MeteoraDlmmInitializeBinArray_Event b, MeteoraDlmmInitializeBinArray_Event i) \<Rightarrow> Some (MeteoraDlmmInitializeBinArray_Event (merge_generic b i))
      | (MeteoraDlmmClaimFee_Event b, MeteoraDlmmClaimFee_Event i) \<Rightarrow> Some (MeteoraDlmmClaimFee_Event (merge_generic b i))
      | _ \<Rightarrow> None)"

definition merge_variants :: "'p dex_event \<Rightarrow> 'p dex_event \<Rightarrow> 'p dex_event option" where
  "merge_variants base inner =
     (case (base, inner) of
        (Pump_Fun_Event b, Pump_Fun_Event i) \<Rightarrow> map_option Pump_Fun_Event (merge_pump_fun b i)
      | (Pump_Fees_Event b, Pump_Fees_Event i) \<Rightarrow> map_option Pump_Fees_Event (merge_pump_fees b i)
      | (Pump_Swap_Event b, Pump_Swap_Event i) \<Rightarrow> map_option Pump_Swap_Event (merge_pump_swap b i)
      | (Raydium_Launchlab_Event b, Raydium_Launchlab_Event i) \<Rightarrow> map_option Raydium_Launchlab_Event (merge_raydium_launchlab b i)
      | (Raydium_Cpmm_Event b, Raydium_Cpmm_Event i) \<Rightarrow> map_option Raydium_Cpmm_Event (merge_raydium_cpmm b i)
      | (Raydium_Clmm_Event b, Raydium_Clmm_Event i) \<Rightarrow> map_option Raydium_Clmm_Event (merge_raydium_clmm b i)
      | (Raydium_Amm_V4_Event b, Raydium_Amm_V4_Event i) \<Rightarrow> map_option Raydium_Amm_V4_Event (merge_raydium_amm_v4 b i)
      | (Orca_Whirlpool_Event b, Orca_Whirlpool_Event i) \<Rightarrow> map_option Orca_Whirlpool_Event (merge_orca_whirlpool b i)
      | (Meteora_Pools_Event b, Meteora_Pools_Event i) \<Rightarrow> map_option Meteora_Pools_Event (merge_meteora_pools b i)
      | (Meteora_Damm_V2_Event b, Meteora_Damm_V2_Event i) \<Rightarrow> map_option Meteora_Damm_V2_Event (merge_meteora_damm_v2 b i)
      | (Meteora_Dlmm_Event b, Meteora_Dlmm_Event i) \<Rightarrow> map_option Meteora_Dlmm_Event (merge_meteora_dlmm b i)
      | _ \<Rightarrow> None)"

text \<open>The error returns the inner event, \<open>Inl\<close>; the base is then as it was.\<close>

definition try_merge_events :: "'p dex_event \<Rightarrow> 'p dex_event \<Rightarrow> 'p dex_event + 'p dex_event" where
  "try_merge_events base inner =
     (if pump_trade_identity_conflicts base inner then Inl inner
      else case merge_variants base inner of None \<Rightarrow> Inl inner | Some event \<Rightarrow> Inr event)"

definition merge_events :: "'p dex_event \<Rightarrow> 'p dex_event \<Rightarrow> 'p dex_event" where
  "merge_events base inner = (case try_merge_events base inner of Inl _ \<Rightarrow> base | Inr event \<Rightarrow> event)"

definition mergeable_variants :: "'p dex_event \<Rightarrow> 'p dex_event \<Rightarrow> bool" where
  "mergeable_variants base inner =
     (case (base, inner) of
        (Pump_Fun_Event base, Pump_Fun_Event inner) \<Rightarrow>
          (pump_fun_type_of base, pump_fun_type_of inner) \<in>
            {(PumpFunTrade, PumpFunTrade),
             (PumpFunTrade, PumpFunBuy),
             (PumpFunTrade, PumpFunSell),
             (PumpFunTrade, PumpFunBuyExactSolIn),
             (PumpFunBuy, PumpFunTrade),
             (PumpFunBuy, PumpFunBuy),
             (PumpFunSell, PumpFunTrade),
             (PumpFunSell, PumpFunSell),
             (PumpFunBuyExactSolIn, PumpFunTrade),
             (PumpFunBuyExactSolIn, PumpFunBuyExactSolIn),
             (PumpFunCreate, PumpFunCreate),
             (PumpFunCreateV2, PumpFunCreateV2),
             (PumpFunMigrate, PumpFunMigrate)}
      | (Pump_Swap_Event base, Pump_Swap_Event inner) \<Rightarrow>
          (pump_swap_type_of base, pump_swap_type_of inner) \<in>
            {(PumpSwapTrade, PumpSwapTrade),
             (PumpSwapBuy, PumpSwapBuy),
             (PumpSwapSell, PumpSwapSell),
             (PumpSwapCreatePool, PumpSwapCreatePool),
             (PumpSwapLiquidityAdded, PumpSwapLiquidityAdded),
             (PumpSwapLiquidityRemoved, PumpSwapLiquidityRemoved)}
      | _ \<Rightarrow> False)"

definition can_merge :: "'p dex_event \<Rightarrow> 'p dex_event \<Rightarrow> bool" where
  "can_merge base inner =
     (if pump_trade_identity_conflicts base inner then False
      else if em_signature (metadata base) \<noteq> em_signature (metadata inner) then False
      else mergeable_variants base inner)"

section \<open>A logged event completed from its instruction\<close>

definition fill_pump_swap :: "'p pump_swap_event \<Rightarrow> 'p pump_swap_event \<Rightarrow> 'p pump_swap_event" where
  "fill_pump_swap log ix =
     (case (log, ix) of
        (PumpSwapTrade_Event l, PumpSwapTrade_Event i) \<Rightarrow> PumpSwapTrade_Event (merge_pumpswap_trade_log_preferred l i)
      |  (PumpSwapBuy_Event l, PumpSwapBuy_Event i) \<Rightarrow> PumpSwapBuy_Event (merge_pumpswap_buy_log_preferred l i)
      |  (PumpSwapSell_Event l, PumpSwapSell_Event i) \<Rightarrow> PumpSwapSell_Event (merge_pumpswap_sell_log_preferred l i)
      |  (PumpSwapCreatePool_Event l, PumpSwapCreatePool_Event i) \<Rightarrow> PumpSwapCreatePool_Event (merge_pumpswap_create_pool_log_preferred l i)
      |  (PumpSwapLiquidityAdded_Event l, PumpSwapLiquidityAdded_Event i) \<Rightarrow> PumpSwapLiquidityAdded_Event (merge_pumpswap_liquidity_added_log_preferred l i)
      |  (PumpSwapLiquidityRemoved_Event l, PumpSwapLiquidityRemoved_Event i) \<Rightarrow> PumpSwapLiquidityRemoved_Event (merge_pumpswap_liquidity_removed_log_preferred l i)
      | _ \<Rightarrow> log)"

definition fill_raydium_launchlab :: "raydium_launchlab_event \<Rightarrow> raydium_launchlab_event \<Rightarrow> raydium_launchlab_event" where
  "fill_raydium_launchlab log ix =
     (case (log, ix) of
        (RaydiumLaunchlabTrade_Event l, RaydiumLaunchlabTrade_Event i) \<Rightarrow> RaydiumLaunchlabTrade_Event (merge_raydium_launchlab_trade_log_preferred l i)
      |  (RaydiumLaunchlabPoolCreate_Event l, RaydiumLaunchlabPoolCreate_Event i) \<Rightarrow> RaydiumLaunchlabPoolCreate_Event (merge_raydium_launchlab_pool_create_log_preferred l i)
      |  (RaydiumLaunchlabMigrateAmm_Event l, RaydiumLaunchlabMigrateAmm_Event i) \<Rightarrow> RaydiumLaunchlabMigrateAmm_Event (merge_raydium_launchlab_migrate_amm_log_preferred l i)
      | _ \<Rightarrow> log)"

definition fill_raydium_cpmm :: "raydium_cpmm_event \<Rightarrow> raydium_cpmm_event \<Rightarrow> raydium_cpmm_event" where
  "fill_raydium_cpmm log ix =
     (case (log, ix) of
        (RaydiumCpmmSwap_Event l, RaydiumCpmmSwap_Event i) \<Rightarrow> RaydiumCpmmSwap_Event (merge_raydium_cpmm_swap_log_preferred l i)
      | _ \<Rightarrow> log)"

definition fill_raydium_clmm :: "raydium_clmm_event \<Rightarrow> raydium_clmm_event \<Rightarrow> raydium_clmm_event" where
  "fill_raydium_clmm log ix =
     (case (log, ix) of
        (RaydiumClmmSwap_Event l, RaydiumClmmSwap_Event i) \<Rightarrow> RaydiumClmmSwap_Event (merge_raydium_clmm_swap_log_preferred l i)
      | _ \<Rightarrow> log)"

definition fill_raydium_amm_v4 :: "raydium_amm_v4_event \<Rightarrow> raydium_amm_v4_event \<Rightarrow> raydium_amm_v4_event" where
  "fill_raydium_amm_v4 log ix =
     (case (log, ix) of
        (RaydiumAmmV4Swap_Event l, RaydiumAmmV4Swap_Event i) \<Rightarrow> RaydiumAmmV4Swap_Event (merge_raydium_amm_v4_swap_log_preferred l i)
      | _ \<Rightarrow> log)"

definition fill_orca_whirlpool :: "orca_whirlpool_event \<Rightarrow> orca_whirlpool_event \<Rightarrow> orca_whirlpool_event" where
  "fill_orca_whirlpool log ix =
     (case (log, ix) of
        (OrcaWhirlpoolSwap_Event l, OrcaWhirlpoolSwap_Event i) \<Rightarrow> OrcaWhirlpoolSwap_Event (merge_orca_swap_context l i)
      | _ \<Rightarrow> log)"

definition fill_meteora_pools :: "meteora_pools_event \<Rightarrow> meteora_pools_event \<Rightarrow> meteora_pools_event" where
  "fill_meteora_pools log ix =
     (case (log, ix) of
        (MeteoraPoolsAddLiquidity_Event l, MeteoraPoolsAddLiquidity_Event i) \<Rightarrow> MeteoraPoolsAddLiquidity_Event (merge_meteora_pools_add_context l i)
      |  (MeteoraPoolsRemoveLiquidity_Event l, MeteoraPoolsRemoveLiquidity_Event i) \<Rightarrow> MeteoraPoolsRemoveLiquidity_Event (merge_meteora_pools_remove_context l i)
      |  (MeteoraPoolsBootstrapLiquidity_Event l, MeteoraPoolsBootstrapLiquidity_Event i) \<Rightarrow> MeteoraPoolsBootstrapLiquidity_Event (merge_meteora_pools_bootstrap_context l i)
      |  (MeteoraPoolsPoolCreated_Event l, MeteoraPoolsPoolCreated_Event i) \<Rightarrow> MeteoraPoolsPoolCreated_Event (merge_meteora_pools_poolcreated_context l i)
      |  (MeteoraPoolsSetPoolFees_Event l, MeteoraPoolsSetPoolFees_Event i) \<Rightarrow> MeteoraPoolsSetPoolFees_Event (merge_meteora_pools_setpoolfees_context l i)
      |  (MeteoraPoolsSwap_Event l, MeteoraPoolsSwap_Event i) \<Rightarrow> MeteoraPoolsSwap_Event (merge_meteora_pools_swap_context l i)
      | _ \<Rightarrow> log)"

definition fill_meteora_dlmm :: "meteora_dlmm_event \<Rightarrow> meteora_dlmm_event \<Rightarrow> meteora_dlmm_event" where
  "fill_meteora_dlmm log ix =
     (case (log, ix) of
        (MeteoraDlmmSwap_Event l, MeteoraDlmmSwap_Event i) \<Rightarrow> MeteoraDlmmSwap_Event (merge_meteora_dlmm_swap_log_preferred l i)
      | _ \<Rightarrow> log)"

definition fill_trade :: "pumpfun_trade_event \<Rightarrow> 'p dex_event \<Rightarrow> pumpfun_trade_event" where
  "fill_trade l ix =
     (case pumpfun_trade_from_ix_variant ix of None \<Rightarrow> l | Some i \<Rightarrow> merge_pumpfun_trade_log_preferred l i)"

definition fill_pump_fun :: "'p pump_fun_event \<Rightarrow> 'p pump_fun_event \<Rightarrow> 'p pump_fun_event" where
  "fill_pump_fun log ix =
     (case log of
        PumpFunTrade_Event l \<Rightarrow> PumpFunTrade_Event (fill_trade l (Pump_Fun_Event ix))
      | PumpFunBuy_Event l \<Rightarrow> PumpFunBuy_Event (fill_trade l (Pump_Fun_Event ix))
      | PumpFunSell_Event l \<Rightarrow> PumpFunSell_Event (fill_trade l (Pump_Fun_Event ix))
      | PumpFunBuyExactSolIn_Event l \<Rightarrow> PumpFunBuyExactSolIn_Event (fill_trade l (Pump_Fun_Event ix))
      | PumpFunCreate_Event l \<Rightarrow>
          (case ix of
             PumpFunCreate_Event i \<Rightarrow> PumpFunCreate_Event (merge_pumpfun_create_log_preferred l i)
           | PumpFunCreateV2_Event i \<Rightarrow> PumpFunCreate_Event (merge_pumpfun_create_v2_into_create_log_preferred l i)
           | _ \<Rightarrow> log)
      | PumpFunCreateV2_Event l \<Rightarrow>
          (case ix of
             PumpFunCreate_Event i \<Rightarrow> PumpFunCreateV2_Event (merge_pumpfun_create_into_create_v2_log_preferred l i)
           | PumpFunCreateV2_Event i \<Rightarrow> PumpFunCreateV2_Event (merge_pumpfun_create_v2_log_preferred l i)
           | _ \<Rightarrow> log)
      | PumpFunMigrate_Event l \<Rightarrow>
          (case ix of PumpFunMigrate_Event i \<Rightarrow> PumpFunMigrate_Event (merge_pumpfun_migrate_log_preferred l i) | _ \<Rightarrow> log)
      | _ \<Rightarrow> log)"

definition merge_grpc_instruction_into_log :: "'p dex_event \<Rightarrow> 'p dex_event \<Rightarrow> 'p dex_event" where
  "merge_grpc_instruction_into_log log ix =
     (case (log, ix) of
        (Pump_Fun_Event l, Pump_Fun_Event i) \<Rightarrow> Pump_Fun_Event (fill_pump_fun l i)
      | (Pump_Swap_Event l, Pump_Swap_Event i) \<Rightarrow> Pump_Swap_Event (fill_pump_swap l i)
      | (Raydium_Launchlab_Event l, Raydium_Launchlab_Event i) \<Rightarrow> Raydium_Launchlab_Event (fill_raydium_launchlab l i)
      | (Raydium_Cpmm_Event l, Raydium_Cpmm_Event i) \<Rightarrow> Raydium_Cpmm_Event (fill_raydium_cpmm l i)
      | (Raydium_Clmm_Event l, Raydium_Clmm_Event i) \<Rightarrow> Raydium_Clmm_Event (fill_raydium_clmm l i)
      | (Raydium_Amm_V4_Event l, Raydium_Amm_V4_Event i) \<Rightarrow> Raydium_Amm_V4_Event (fill_raydium_amm_v4 l i)
      | (Orca_Whirlpool_Event l, Orca_Whirlpool_Event i) \<Rightarrow> Orca_Whirlpool_Event (fill_orca_whirlpool l i)
      | (Meteora_Pools_Event l, Meteora_Pools_Event i) \<Rightarrow> Meteora_Pools_Event (fill_meteora_pools l i)
      | (Meteora_Dlmm_Event l, Meteora_Dlmm_Event i) \<Rightarrow> Meteora_Dlmm_Event (fill_meteora_dlmm l i)
      | _ \<Rightarrow> log)"

end
