(* ===== verification/Merge_Laws.thy ===== *)
theory Merge_Laws
  imports Event_Merge
begin

text \<open>
  What completing a logged event from its instruction keeps. The laws every such function obeys are a locale: it keeps
  the metadata and what the program logged about the execution, and completing twice from the same instruction is
  completing once. Each function of the merger is an instance; what counts as logged is listed for each event.
\<close>

section \<open>The contract\<close>

locale log_completion =
  fixes complete :: "'e \<Rightarrow> 'e \<Rightarrow> 'e" and md :: "'e \<Rightarrow> event_metadata" and executed :: "'e \<Rightarrow> 'v"
  assumes md_complete [simp]: "md (complete log ix) = md log"
    and executed_complete [simp]: "executed (complete log ix) = executed log"
    and complete_twice [simp]: "complete (complete log ix) ix = complete log ix"
begin

lemma executed_completions: "executed (foldl complete log ixs) = executed log"
  by (induction ixs arbitrary: log) simp_all

lemma md_completions: "md (foldl complete log ixs) = md log"
  by (induction ixs arbitrary: log) simp_all

lemma complete_last_again: "ixs \<noteq> [] \<Longrightarrow> complete (foldl complete log ixs) (last ixs) = foldl complete log ixs"
  by (induction ixs rule: rev_induct) simp_all

end

section \<open>What an event says was executed\<close>

record executed =
  ex_keys :: "pubkey list"
  ex_amounts :: "u64 list"
  ex_prices :: "u128 list"
  ex_numbers :: "int list"
  ex_flags :: "bool list"

definition swt_executed :: "pumpswap_trade_event \<Rightarrow> executed" where
  "swt_executed e =
     \<lparr>ex_keys = [swt_mint e, swt_user e, swt_fee_recipient e, swt_creator e],
      ex_amounts = [swt_sol_amount e, swt_token_amount e, swt_virtual_sol_reserves e, swt_virtual_token_reserves e,
                swt_real_sol_reserves e, swt_real_token_reserves e, swt_fee_basis_points e, swt_fee e,
                swt_creator_fee_basis_points e, swt_creator_fee e, swt_total_unclaimed_tokens e,
                swt_total_claimed_tokens e, swt_current_sol_volume e],
      ex_prices = [],
      ex_numbers = [swt_timestamp e, swt_last_update_timestamp e],
      ex_flags = [swt_is_buy e, swt_track_volume e]\<rparr>"

definition swb_executed :: "pumpswap_buy_event \<Rightarrow> executed" where
  "swb_executed e =
     \<lparr>ex_keys = [swb_pool e, swb_user e],
      ex_amounts = [swb_creator_fee_unclaimed e, swb_base_amount_out e, swb_max_quote_amount_in e,
                swb_user_base_token_reserves e, swb_user_quote_token_reserves e, swb_pool_base_token_reserves e,
                swb_pool_quote_token_reserves e, swb_quote_amount_in e, swb_lp_fee_basis_points e, swb_lp_fee e,
                swb_protocol_fee_basis_points e, swb_protocol_fee e, swb_quote_amount_in_with_lp_fee e,
                swb_user_quote_amount_in e, swb_coin_creator_fee_basis_points e, swb_coin_creator_fee e,
                swb_total_unclaimed_tokens e, swb_total_claimed_tokens e, swb_current_sol_volume e,
                swb_min_base_amount_out e, swb_cashback_fee_basis_points e, swb_cashback e,
                swb_buyback_fee_basis_points e, swb_buyback_fee e, swb_base_supply e, swb_holder_rewards_bps e,
                swb_holder_rewards e],
      ex_prices = [],
      ex_numbers = [swb_timestamp e, swb_last_update_timestamp e, swb_virtual_quote_reserves e],
      ex_flags = [swb_track_volume e, swb_can_boost e, swb_is_pump_pool e]\<rparr>"

definition sws_executed :: "pumpswap_sell_event \<Rightarrow> executed" where
  "sws_executed e =
     \<lparr>ex_keys = [sws_pool e, sws_user e],
      ex_amounts = [sws_creator_fee_unclaimed e, sws_base_amount_in e, sws_min_quote_amount_out e,
                sws_user_base_token_reserves e, sws_user_quote_token_reserves e, sws_pool_base_token_reserves e,
                sws_pool_quote_token_reserves e, sws_quote_amount_out e, sws_lp_fee_basis_points e, sws_lp_fee e,
                sws_protocol_fee_basis_points e, sws_protocol_fee e, sws_quote_amount_out_without_lp_fee e,
                sws_user_quote_amount_out e, sws_coin_creator_fee_basis_points e, sws_coin_creator_fee e,
                sws_cashback_fee_basis_points e, sws_cashback e, sws_buyback_fee_basis_points e, sws_buyback_fee e,
                sws_base_supply e, sws_holder_rewards_bps e, sws_holder_rewards e],
      ex_prices = [],
      ex_numbers = [sws_timestamp e, sws_virtual_quote_reserves e],
      ex_flags = [sws_can_boost e, sws_is_pump_pool e]\<rparr>"

definition swp_executed :: "pumpswap_create_pool_event \<Rightarrow> executed" where
  "swp_executed e =
     \<lparr>ex_keys = [swp_base_mint e, swp_quote_mint e],
      ex_amounts = [swp_base_amount_in e, swp_quote_amount_in e, swp_pool_base_amount e, swp_pool_quote_amount e,
                swp_minimum_liquidity e, swp_initial_liquidity e, swp_lp_token_amount_out e],
      ex_prices = [],
      ex_numbers = [swp_timestamp e, uint (swp_index e), uint (swp_base_mint_decimals e),
                uint (swp_quote_mint_decimals e), uint (swp_pool_bump e)],
      ex_flags = []\<rparr>"

definition swa_executed :: "pumpswap_liquidity_added \<Rightarrow> executed" where
  "swa_executed e =
     \<lparr>ex_keys = [swa_pool e, swa_user e],
      ex_amounts = [swa_lp_token_amount_out e, swa_max_base_amount_in e, swa_max_quote_amount_in e,
                swa_user_base_token_reserves e, swa_user_quote_token_reserves e, swa_pool_base_token_reserves e,
                swa_pool_quote_token_reserves e, swa_base_amount_in e, swa_quote_amount_in e, swa_lp_mint_supply e],
      ex_prices = [],
      ex_numbers = [swa_timestamp e],
      ex_flags = []\<rparr>"

definition swr_executed :: "pumpswap_liquidity_removed \<Rightarrow> executed" where
  "swr_executed e =
     \<lparr>ex_keys = [swr_pool e, swr_user e],
      ex_amounts = [swr_lp_token_amount_in e, swr_min_base_amount_out e, swr_min_quote_amount_out e,
                swr_user_base_token_reserves e, swr_user_quote_token_reserves e, swr_pool_base_token_reserves e,
                swr_pool_quote_token_reserves e, swr_base_amount_out e, swr_quote_amount_out e, swr_lp_mint_supply e],
      ex_prices = [],
      ex_numbers = [swr_timestamp e],
      ex_flags = []\<rparr>"

definition llp_executed :: "launchlab_pool_create_event \<Rightarrow> executed" where
  "llp_executed e =
     \<lparr>ex_keys = [llp_pool_state e],
      ex_amounts = [],
      ex_prices = [],
      ex_numbers = [],
      ex_flags = []\<rparr>"

definition ma_executed :: "launchlab_migrate_amm_event \<Rightarrow> executed" where
  "ma_executed e =
     \<lparr>ex_keys = [],
      ex_amounts = [ma_liquidity_amount e],
      ex_prices = [],
      ex_numbers = [],
      ex_flags = [ma_liquidity_amount_known e]\<rparr>"

definition llt_executed :: "launchlab_trade_event \<Rightarrow> executed" where
  "llt_executed e =
     \<lparr>ex_keys = [llt_pool_state e],
      ex_amounts = [llt_amount_in e, llt_amount_out e, llt_total_base_sell e, llt_virtual_base e, llt_virtual_quote e,
                llt_real_base_before e, llt_real_quote_before e, llt_real_base_after e, llt_real_quote_after e,
                llt_protocol_fee e, llt_platform_fee e, llt_creator_fee e, llt_share_fee e],
      ex_prices = [],
      ex_numbers = [],
      ex_flags = [llt_is_buy e, llt_exact_in e]\<rparr>"

definition cps_executed :: "raydium_cpmm_swap_event \<Rightarrow> executed" where
  "cps_executed e =
     \<lparr>ex_keys = [cps_pool_id e, cps_input_mint e, cps_output_mint e],
      ex_amounts = [cps_input_amount e, cps_output_amount e, cps_input_vault_before e, cps_output_vault_before e,
                cps_input_transfer_fee e, cps_output_transfer_fee e, cps_trade_fee e, cps_creator_fee e],
      ex_prices = [],
      ex_numbers = [],
      ex_flags = [cps_base_input e, cps_creator_fee_on_input e]\<rparr>"

definition cls_executed :: "raydium_clmm_swap_event \<Rightarrow> executed" where
  "cls_executed e =
     \<lparr>ex_keys = [cls_pool_state e],
      ex_amounts = [cls_amount_0 e, cls_transfer_fee_0 e, cls_amount_1 e, cls_transfer_fee_1 e],
      ex_prices = [cls_sqrt_price_x64 e, cls_liquidity e],
      ex_numbers = [cls_tick e],
      ex_flags = [cls_zero_for_one e]\<rparr>"

definition avs_executed :: "raydium_amm_v4_swap_event \<Rightarrow> executed" where
  "avs_executed e =
     \<lparr>ex_keys = [],
      ex_amounts = [avs_amount_in e, avs_amount_out e],
      ex_prices = [],
      ex_numbers = [],
      ex_flags = []\<rparr>"

definition ows_executed :: "orca_whirlpool_swap_event \<Rightarrow> executed" where
  "ows_executed e =
     \<lparr>ex_keys = [ows_whirlpool e],
      ex_amounts = [ows_input_amount e, ows_output_amount e, ows_input_transfer_fee e, ows_output_transfer_fee e,
                ows_lp_fee e, ows_protocol_fee e],
      ex_prices = [ows_pre_sqrt_price e, ows_post_sqrt_price e],
      ex_numbers = [],
      ex_flags = [ows_a_to_b e]\<rparr>"

definition dls_executed :: "meteora_dlmm_swap_event \<Rightarrow> executed" where
  "dls_executed e =
     \<lparr>ex_keys = [dls_pool e, dls_from e],
      ex_amounts = [dls_amount_in e, dls_amount_out e, dls_fee e, dls_protocol_fee e, dls_host_fee e,
                dls_amount_left e, dls_mm_fee e, dls_limit_order_fee e],
      ex_prices = [dls_fee_bps e],
      ex_numbers = [dls_start_bin_id e, dls_end_bin_id e, uint (dls_event_version e)],
      ex_flags = [dls_swap_for_y e, dls_fees_on_input e, dls_fees_on_token_x e]\<rparr>"

definition mpa_executed :: "meteora_pools_add_liquidity_event \<Rightarrow> executed" where
  "mpa_executed e =
     \<lparr>ex_keys = [],
      ex_amounts = [mpa_lp_mint_amount e, mpa_token_a_amount e, mpa_token_b_amount e],
      ex_prices = [],
      ex_numbers = [],
      ex_flags = []\<rparr>"

definition mpb_executed :: "meteora_pools_bootstrap_liquidity_event \<Rightarrow> executed" where
  "mpb_executed e =
     \<lparr>ex_keys = [],
      ex_amounts = [mpb_lp_mint_amount e, mpb_token_a_amount e, mpb_token_b_amount e],
      ex_prices = [],
      ex_numbers = [],
      ex_flags = []\<rparr>"

definition mpc_executed :: "meteora_pools_pool_created_event \<Rightarrow> executed" where
  "mpc_executed e =
     \<lparr>ex_keys = [],
      ex_amounts = [],
      ex_prices = [],
      ex_numbers = [uint (mpc_pool_type e)],
      ex_flags = []\<rparr>"

definition mpf_executed :: "meteora_pools_set_pool_fees_event \<Rightarrow> executed" where
  "mpf_executed e =
     \<lparr>ex_keys = [],
      ex_amounts = [mpf_trade_fee_numerator e, mpf_trade_fee_denominator e, mpf_owner_trade_fee_numerator e,
                mpf_owner_trade_fee_denominator e, mpf_protocol_trade_fee_numerator e,
                mpf_protocol_trade_fee_denominator e],
      ex_prices = [],
      ex_numbers = [],
      ex_flags = []\<rparr>"

definition mpr_executed :: "meteora_pools_remove_liquidity_event \<Rightarrow> executed" where
  "mpr_executed e =
     \<lparr>ex_keys = [],
      ex_amounts = [mpr_lp_unmint_amount e, mpr_token_a_out_amount e, mpr_token_b_out_amount e],
      ex_prices = [],
      ex_numbers = [],
      ex_flags = []\<rparr>"

definition mps_executed :: "meteora_pools_swap_event \<Rightarrow> executed" where
  "mps_executed e =
     \<lparr>ex_keys = [],
      ex_amounts = [mps_in_amount e, mps_out_amount e, mps_trade_fee e, mps_admin_fee e, mps_host_fee e],
      ex_prices = [],
      ex_numbers = [],
      ex_flags = []\<rparr>"

definition pt_executed :: "pumpfun_trade_event \<Rightarrow> executed" where
  "pt_executed e =
     \<lparr>ex_keys = [pt_mint e, pt_user e],
      ex_amounts = [pt_creator_fee_unclaimed e, pt_sol_amount e, pt_token_amount e, pt_virtual_sol_reserves e,
                pt_virtual_token_reserves e, pt_real_sol_reserves e, pt_real_token_reserves e,
                pt_fee_basis_points e, pt_fee e, pt_creator_fee_basis_points e, pt_creator_fee e,
                pt_total_unclaimed_tokens e, pt_total_claimed_tokens e, pt_current_sol_volume e,
                pt_cashback_fee_basis_points e, pt_cashback e, pt_buyback_fee_basis_points e, pt_buyback_fee e],
      ex_prices = [],
      ex_numbers = [pt_timestamp e, pt_last_update_timestamp e],
      ex_flags = [pt_is_buy e, pt_track_volume e, pt_mayhem_mode e, pt_is_cashback_coin e]\<rparr>"

definition pm_executed :: "pumpfun_migrate_event \<Rightarrow> executed" where
  "pm_executed e =
     \<lparr>ex_keys = [pm_mint e],
      ex_amounts = [pm_mint_amount e, pm_sol_amount e, pm_pool_migration_fee e],
      ex_prices = [],
      ex_numbers = [pm_timestamp e],
      ex_flags = []\<rparr>"

section \<open>The functions of the merger\<close>

lemma fill_pk_twice [simp]: "fill_pk (fill_pk to from) from = fill_pk to from"
  by (simp add: fill_pk_def)

lemma fill_str_twice [simp]: "fill_str (fill_str to from) from = fill_str to from"
  by (simp add: fill_str_def)

lemma put_u64_twice [simp]: "put_u64_if_nonzero (put_u64_if_nonzero to from) from = put_u64_if_nonzero to from"
  by (simp add: put_u64_if_nonzero_def)

lemma put_u64_zero [simp]: "put_u64_if_nonzero 0 from = from"
  by (simp add: put_u64_if_nonzero_def)

lemma fill_quote_mint_twice [simp]:
  "fill_pumpfun_quote_mint (fill_pumpfun_quote_mint to from) from = fill_pumpfun_quote_mint to from"
  by (simp add: fill_pumpfun_quote_mint_def Let_def)

lemma fill_option: "(case from of None \<Rightarrow> to | Some t \<Rightarrow> if to = None then Some t else to) = (if to = None then from else to)"
  by (simp split: option.split)

lemma fill_mint_param_twice [simp]: "fill_mint_param (fill_mint_param log ix) ix = fill_mint_param log ix"
  by (simp add: fill_mint_param_def)

interpretation swt: log_completion merge_pumpswap_trade_log_preferred swt_metadata swt_executed
  by unfold_locales (simp_all add: merge_pumpswap_trade_log_preferred_def swt_executed_def Let_def)

interpretation swb: log_completion merge_pumpswap_buy_log_preferred swb_metadata swb_executed
  by unfold_locales (simp_all add: merge_pumpswap_buy_log_preferred_def swb_executed_def Let_def)

interpretation sws: log_completion merge_pumpswap_sell_log_preferred sws_metadata sws_executed
  by unfold_locales (simp_all add: merge_pumpswap_sell_log_preferred_def sws_executed_def Let_def)

interpretation swp: log_completion merge_pumpswap_create_pool_log_preferred swp_metadata swp_executed
  by unfold_locales (simp_all add: merge_pumpswap_create_pool_log_preferred_def swp_executed_def Let_def)

interpretation swa: log_completion merge_pumpswap_liquidity_added_log_preferred swa_metadata swa_executed
  by unfold_locales (simp_all add: merge_pumpswap_liquidity_added_log_preferred_def swa_executed_def Let_def)

interpretation swr: log_completion merge_pumpswap_liquidity_removed_log_preferred swr_metadata swr_executed
  by unfold_locales (simp_all add: merge_pumpswap_liquidity_removed_log_preferred_def swr_executed_def Let_def)

interpretation llp: log_completion merge_raydium_launchlab_pool_create_log_preferred llp_metadata llp_executed
  by unfold_locales (simp_all add: merge_raydium_launchlab_pool_create_log_preferred_def llp_executed_def Let_def)

interpretation ma: log_completion merge_raydium_launchlab_migrate_amm_log_preferred ma_metadata ma_executed
  by unfold_locales (simp_all add: merge_raydium_launchlab_migrate_amm_log_preferred_def ma_executed_def Let_def)

interpretation llt: log_completion merge_raydium_launchlab_trade_log_preferred llt_metadata llt_executed
  by unfold_locales (simp_all add: merge_raydium_launchlab_trade_log_preferred_def llt_executed_def Let_def)

interpretation cps: log_completion merge_raydium_cpmm_swap_log_preferred cps_metadata cps_executed
proof
  fix log ix
  show "merge_raydium_cpmm_swap_log_preferred (merge_raydium_cpmm_swap_log_preferred log ix) ix = merge_raydium_cpmm_swap_log_preferred log ix"
    "cps_metadata (merge_raydium_cpmm_swap_log_preferred log ix) = cps_metadata log" "cps_executed (merge_raydium_cpmm_swap_log_preferred log ix) = cps_executed log"
    by (cases "cps_ix_name ix = []"; cases log; simp add: merge_raydium_cpmm_swap_log_preferred_def cps_executed_def Let_def fill_option)+
qed

interpretation cls: log_completion merge_raydium_clmm_swap_log_preferred cls_metadata cls_executed
proof
  fix log ix
  show "merge_raydium_clmm_swap_log_preferred (merge_raydium_clmm_swap_log_preferred log ix) ix = merge_raydium_clmm_swap_log_preferred log ix"
    "cls_metadata (merge_raydium_clmm_swap_log_preferred log ix) = cls_metadata log" "cls_executed (merge_raydium_clmm_swap_log_preferred log ix) = cls_executed log"
    by (cases "cls_ix_name ix = []"; cases log; simp add: merge_raydium_clmm_swap_log_preferred_def cls_executed_def Let_def fill_option)+
qed

interpretation avs: log_completion merge_raydium_amm_v4_swap_log_preferred avs_metadata avs_executed
proof
  fix log ix
  show "merge_raydium_amm_v4_swap_log_preferred (merge_raydium_amm_v4_swap_log_preferred log ix) ix = merge_raydium_amm_v4_swap_log_preferred log ix"
    "avs_metadata (merge_raydium_amm_v4_swap_log_preferred log ix) = avs_metadata log" "avs_executed (merge_raydium_amm_v4_swap_log_preferred log ix) = avs_executed log"
    by (cases "avs_ix_name ix = []"; cases log; simp add: merge_raydium_amm_v4_swap_log_preferred_def avs_executed_def Let_def fill_option)+
qed

interpretation ows: log_completion merge_orca_swap_context ows_metadata ows_executed
proof
  fix log ix
  show "merge_orca_swap_context (merge_orca_swap_context log ix) ix = merge_orca_swap_context log ix"
    "ows_metadata (merge_orca_swap_context log ix) = ows_metadata log" "ows_executed (merge_orca_swap_context log ix) = ows_executed log"
    by (cases "ows_ix_name ix = []"; cases log; simp add: merge_orca_swap_context_def ows_executed_def Let_def fill_option)+
qed

interpretation dls: log_completion merge_meteora_dlmm_swap_log_preferred dls_metadata dls_executed
  by unfold_locales (simp_all add: merge_meteora_dlmm_swap_log_preferred_def dls_executed_def Let_def)

interpretation mpa: log_completion merge_meteora_pools_add_context mpa_metadata mpa_executed
proof
  fix log ix
  show "merge_meteora_pools_add_context (merge_meteora_pools_add_context log ix) ix = merge_meteora_pools_add_context log ix"
    "mpa_metadata (merge_meteora_pools_add_context log ix) = mpa_metadata log" "mpa_executed (merge_meteora_pools_add_context log ix) = mpa_executed log"
    by (cases "mpa_ix_name ix = []"; cases log; simp add: merge_meteora_pools_add_context_def mpa_executed_def Let_def fill_option)+
qed

interpretation mpb: log_completion merge_meteora_pools_bootstrap_context mpb_metadata mpb_executed
proof
  fix log ix
  show "merge_meteora_pools_bootstrap_context (merge_meteora_pools_bootstrap_context log ix) ix = merge_meteora_pools_bootstrap_context log ix"
    "mpb_metadata (merge_meteora_pools_bootstrap_context log ix) = mpb_metadata log" "mpb_executed (merge_meteora_pools_bootstrap_context log ix) = mpb_executed log"
    by (cases "mpb_ix_name ix = []"; cases log; simp add: merge_meteora_pools_bootstrap_context_def mpb_executed_def Let_def fill_option)+
qed

interpretation mpc: log_completion merge_meteora_pools_poolcreated_context mpc_metadata mpc_executed
proof
  fix log ix
  show "merge_meteora_pools_poolcreated_context (merge_meteora_pools_poolcreated_context log ix) ix = merge_meteora_pools_poolcreated_context log ix"
    "mpc_metadata (merge_meteora_pools_poolcreated_context log ix) = mpc_metadata log" "mpc_executed (merge_meteora_pools_poolcreated_context log ix) = mpc_executed log"
    by (cases "mpc_ix_name ix = []"; cases log; simp add: merge_meteora_pools_poolcreated_context_def mpc_executed_def Let_def fill_option)+
qed

interpretation mpf: log_completion merge_meteora_pools_setpoolfees_context mpf_metadata mpf_executed
proof
  fix log ix
  show "merge_meteora_pools_setpoolfees_context (merge_meteora_pools_setpoolfees_context log ix) ix = merge_meteora_pools_setpoolfees_context log ix"
    "mpf_metadata (merge_meteora_pools_setpoolfees_context log ix) = mpf_metadata log" "mpf_executed (merge_meteora_pools_setpoolfees_context log ix) = mpf_executed log"
    by (cases "mpf_ix_name ix = []"; cases log; simp add: merge_meteora_pools_setpoolfees_context_def mpf_executed_def Let_def fill_option)+
qed

interpretation mpr: log_completion merge_meteora_pools_remove_context mpr_metadata mpr_executed
proof
  fix log ix
  show "merge_meteora_pools_remove_context (merge_meteora_pools_remove_context log ix) ix = merge_meteora_pools_remove_context log ix"
    "mpr_metadata (merge_meteora_pools_remove_context log ix) = mpr_metadata log" "mpr_executed (merge_meteora_pools_remove_context log ix) = mpr_executed log"
    by (cases "mpr_ix_name ix = []"; cases log; simp add: merge_meteora_pools_remove_context_def mpr_executed_def Let_def fill_option)+
qed

interpretation mps: log_completion merge_meteora_pools_swap_context mps_metadata mps_executed
proof
  fix log ix
  show "merge_meteora_pools_swap_context (merge_meteora_pools_swap_context log ix) ix = merge_meteora_pools_swap_context log ix"
    "mps_metadata (merge_meteora_pools_swap_context log ix) = mps_metadata log" "mps_executed (merge_meteora_pools_swap_context log ix) = mps_executed log"
    by (cases "mps_ix_name ix = []"; cases log; simp add: merge_meteora_pools_swap_context_def mps_executed_def Let_def fill_option)+
qed

interpretation pt: log_completion merge_pumpfun_trade_log_preferred pt_metadata pt_executed
  by unfold_locales (simp_all add: merge_pumpfun_trade_log_preferred_def pt_executed_def Let_def)

interpretation pm: log_completion merge_pumpfun_migrate_log_preferred pm_metadata pm_executed
  by unfold_locales (simp_all add: merge_pumpfun_migrate_log_preferred_def pm_executed_def Let_def)

end
