(* ===== verification/Merge_Theorems.thy ===== *)
theory Merge_Theorems
  imports Merge_Laws
begin

text \<open>
  The properties of the merger: completing a logged event keeps what the log says, the test for merging is sound, the
  two merge paths agree on the events both complete, and a chain of inner events leaves the last fill.
\<close>

section \<open>Completing a logged event\<close>

text \<open>What an event says was executed, for the events that are completed from an instruction; the creates have no such part.\<close>

definition pump_fun_logged :: "'p pump_fun_event \<Rightarrow> executed option" where
  "pump_fun_logged event =
     (case event of
        PumpFunTrade_Event e \<Rightarrow> Some (pt_executed e)
      | PumpFunBuy_Event e \<Rightarrow> Some (pt_executed e)
      | PumpFunSell_Event e \<Rightarrow> Some (pt_executed e)
      | PumpFunBuyExactSolIn_Event e \<Rightarrow> Some (pt_executed e)
      | PumpFunMigrate_Event e \<Rightarrow> Some (pm_executed e)
      | _ \<Rightarrow> None)"

definition pump_swap_logged :: "'p pump_swap_event \<Rightarrow> executed option" where
  "pump_swap_logged event =
     (case event of
        PumpSwapTrade_Event e \<Rightarrow> Some (swt_executed e)
      | PumpSwapBuy_Event e \<Rightarrow> Some (swb_executed e)
      | PumpSwapSell_Event e \<Rightarrow> Some (sws_executed e)
      | PumpSwapCreatePool_Event e \<Rightarrow> Some (swp_executed e)
      | PumpSwapLiquidityAdded_Event e \<Rightarrow> Some (swa_executed e)
      | PumpSwapLiquidityRemoved_Event e \<Rightarrow> Some (swr_executed e)
      | _ \<Rightarrow> None)"

definition raydium_launchlab_logged :: "raydium_launchlab_event \<Rightarrow> executed option" where
  "raydium_launchlab_logged event =
     (case event of
        RaydiumLaunchlabTrade_Event e \<Rightarrow> Some (llt_executed e)
      | RaydiumLaunchlabPoolCreate_Event e \<Rightarrow> Some (llp_executed e)
      | RaydiumLaunchlabMigrateAmm_Event e \<Rightarrow> Some (ma_executed e))"

definition raydium_cpmm_logged :: "raydium_cpmm_event \<Rightarrow> executed option" where
  "raydium_cpmm_logged event =
     (case event of
        RaydiumCpmmSwap_Event e \<Rightarrow> Some (cps_executed e)
      | _ \<Rightarrow> None)"

definition raydium_clmm_logged :: "raydium_clmm_event \<Rightarrow> executed option" where
  "raydium_clmm_logged event =
     (case event of
        RaydiumClmmSwap_Event e \<Rightarrow> Some (cls_executed e)
      | _ \<Rightarrow> None)"

definition raydium_amm_v4_logged :: "raydium_amm_v4_event \<Rightarrow> executed option" where
  "raydium_amm_v4_logged event =
     (case event of
        RaydiumAmmV4Swap_Event e \<Rightarrow> Some (avs_executed e)
      | _ \<Rightarrow> None)"

definition orca_whirlpool_logged :: "orca_whirlpool_event \<Rightarrow> executed option" where
  "orca_whirlpool_logged event =
     (case event of
        OrcaWhirlpoolSwap_Event e \<Rightarrow> Some (ows_executed e)
      | _ \<Rightarrow> None)"

definition meteora_pools_logged :: "meteora_pools_event \<Rightarrow> executed option" where
  "meteora_pools_logged event =
     (case event of
        MeteoraPoolsAddLiquidity_Event e \<Rightarrow> Some (mpa_executed e)
      | MeteoraPoolsRemoveLiquidity_Event e \<Rightarrow> Some (mpr_executed e)
      | MeteoraPoolsBootstrapLiquidity_Event e \<Rightarrow> Some (mpb_executed e)
      | MeteoraPoolsPoolCreated_Event e \<Rightarrow> Some (mpc_executed e)
      | MeteoraPoolsSetPoolFees_Event e \<Rightarrow> Some (mpf_executed e)
      | MeteoraPoolsSwap_Event e \<Rightarrow> Some (mps_executed e))"

definition meteora_dlmm_logged :: "meteora_dlmm_event \<Rightarrow> executed option" where
  "meteora_dlmm_logged event =
     (case event of
        MeteoraDlmmSwap_Event e \<Rightarrow> Some (dls_executed e)
      | _ \<Rightarrow> None)"

definition logged :: "'p dex_event \<Rightarrow> executed option" where
  "logged event =
     (case event of
        Pump_Fun_Event e \<Rightarrow> pump_fun_logged e
      | Pump_Swap_Event e \<Rightarrow> pump_swap_logged e
      | Raydium_Launchlab_Event e \<Rightarrow> raydium_launchlab_logged e
      | Raydium_Cpmm_Event e \<Rightarrow> raydium_cpmm_logged e
      | Raydium_Clmm_Event e \<Rightarrow> raydium_clmm_logged e
      | Raydium_Amm_V4_Event e \<Rightarrow> raydium_amm_v4_logged e
      | Orca_Whirlpool_Event e \<Rightarrow> orca_whirlpool_logged e
      | Meteora_Pools_Event e \<Rightarrow> meteora_pools_logged e
      | Meteora_Dlmm_Event e \<Rightarrow> meteora_dlmm_logged e
      | _ \<Rightarrow> None)"

lemma fill_trade_keeps [simp]:
  "pt_metadata (fill_trade l ix) = pt_metadata l"
  "pt_executed (fill_trade l ix) = pt_executed l"
  "fill_trade (fill_trade l ix) ix = fill_trade l ix"
  by (simp_all add: fill_trade_def split: option.split)

lemma fill_creates_keep [simp]:
  "pc_metadata (merge_pumpfun_create_log_preferred c i) = pc_metadata c"
  "pc_metadata (merge_pumpfun_create_v2_into_create_log_preferred c v) = pc_metadata c"
  "pv_metadata (merge_pumpfun_create_into_create_v2_log_preferred v c) = pv_metadata v"
  "pv_metadata (merge_pumpfun_create_v2_log_preferred v w) = pv_metadata v"
  by (simp_all add: merge_pumpfun_create_log_preferred_def merge_pumpfun_create_v2_into_create_log_preferred_def
      merge_pumpfun_create_into_create_v2_log_preferred_def merge_pumpfun_create_v2_log_preferred_def)

lemma fill_create_twice [simp]:
  "merge_pumpfun_create_log_preferred (merge_pumpfun_create_log_preferred c i) i = merge_pumpfun_create_log_preferred c i"
  by (simp add: merge_pumpfun_create_log_preferred_def)

lemma fill_create_v2_into_create_twice [simp]:
  "merge_pumpfun_create_v2_into_create_log_preferred (merge_pumpfun_create_v2_into_create_log_preferred c v) v =
     merge_pumpfun_create_v2_into_create_log_preferred c v"
  by (simp add: merge_pumpfun_create_v2_into_create_log_preferred_def)

lemma fill_create_into_create_v2_twice [simp]:
  "merge_pumpfun_create_into_create_v2_log_preferred (merge_pumpfun_create_into_create_v2_log_preferred v c) c =
     merge_pumpfun_create_into_create_v2_log_preferred v c"
  by (simp add: merge_pumpfun_create_into_create_v2_log_preferred_def)

lemma fill_create_v2_twice [simp]:
  "merge_pumpfun_create_v2_log_preferred (merge_pumpfun_create_v2_log_preferred v w) w = merge_pumpfun_create_v2_log_preferred v w"
  by (simp add: merge_pumpfun_create_v2_log_preferred_def)

lemma fill_pump_fun_keeps [simp]:
  "pump_fun_type_of (fill_pump_fun l i) = pump_fun_type_of l"
  "pump_fun_metadata (fill_pump_fun l i) = pump_fun_metadata l"
  "pump_fun_logged (fill_pump_fun l i) = pump_fun_logged l"
  "fill_pump_fun (fill_pump_fun l i) i = fill_pump_fun l i"
  by (cases l; cases i; simp add: fill_pump_fun_def pump_fun_logged_def)+

lemma fill_pump_swap_keeps [simp]:
  "pump_swap_type_of (fill_pump_swap l i) = pump_swap_type_of l"
  "pump_swap_metadata (fill_pump_swap l i) = pump_swap_metadata l"
  "pump_swap_logged (fill_pump_swap l i) = pump_swap_logged l"
  "fill_pump_swap (fill_pump_swap l i) i = fill_pump_swap l i"
  by (cases l; cases i; simp add: fill_pump_swap_def pump_swap_logged_def)+

lemma fill_raydium_launchlab_keeps [simp]:
  "raydium_launchlab_type_of (fill_raydium_launchlab l i) = raydium_launchlab_type_of l"
  "raydium_launchlab_metadata (fill_raydium_launchlab l i) = raydium_launchlab_metadata l"
  "raydium_launchlab_logged (fill_raydium_launchlab l i) = raydium_launchlab_logged l"
  "fill_raydium_launchlab (fill_raydium_launchlab l i) i = fill_raydium_launchlab l i"
  by (cases l; cases i; simp add: fill_raydium_launchlab_def raydium_launchlab_logged_def)+

lemma fill_raydium_cpmm_keeps [simp]:
  "raydium_cpmm_type_of (fill_raydium_cpmm l i) = raydium_cpmm_type_of l"
  "raydium_cpmm_metadata (fill_raydium_cpmm l i) = raydium_cpmm_metadata l"
  "raydium_cpmm_logged (fill_raydium_cpmm l i) = raydium_cpmm_logged l"
  "fill_raydium_cpmm (fill_raydium_cpmm l i) i = fill_raydium_cpmm l i"
  by (cases l; cases i; simp add: fill_raydium_cpmm_def raydium_cpmm_logged_def)+

lemma fill_raydium_clmm_keeps [simp]:
  "raydium_clmm_type_of (fill_raydium_clmm l i) = raydium_clmm_type_of l"
  "raydium_clmm_metadata (fill_raydium_clmm l i) = raydium_clmm_metadata l"
  "raydium_clmm_logged (fill_raydium_clmm l i) = raydium_clmm_logged l"
  "fill_raydium_clmm (fill_raydium_clmm l i) i = fill_raydium_clmm l i"
  by (cases l; cases i; simp add: fill_raydium_clmm_def raydium_clmm_logged_def)+

lemma fill_raydium_amm_v4_keeps [simp]:
  "raydium_amm_v4_type_of (fill_raydium_amm_v4 l i) = raydium_amm_v4_type_of l"
  "raydium_amm_v4_metadata (fill_raydium_amm_v4 l i) = raydium_amm_v4_metadata l"
  "raydium_amm_v4_logged (fill_raydium_amm_v4 l i) = raydium_amm_v4_logged l"
  "fill_raydium_amm_v4 (fill_raydium_amm_v4 l i) i = fill_raydium_amm_v4 l i"
  by (cases l; cases i; simp add: fill_raydium_amm_v4_def raydium_amm_v4_logged_def)+

lemma fill_orca_whirlpool_keeps [simp]:
  "orca_whirlpool_type_of (fill_orca_whirlpool l i) = orca_whirlpool_type_of l"
  "orca_whirlpool_metadata (fill_orca_whirlpool l i) = orca_whirlpool_metadata l"
  "orca_whirlpool_logged (fill_orca_whirlpool l i) = orca_whirlpool_logged l"
  "fill_orca_whirlpool (fill_orca_whirlpool l i) i = fill_orca_whirlpool l i"
  by (cases l; cases i; simp add: fill_orca_whirlpool_def orca_whirlpool_logged_def)+

lemma fill_meteora_pools_keeps [simp]:
  "meteora_pools_type_of (fill_meteora_pools l i) = meteora_pools_type_of l"
  "meteora_pools_metadata (fill_meteora_pools l i) = meteora_pools_metadata l"
  "meteora_pools_logged (fill_meteora_pools l i) = meteora_pools_logged l"
  "fill_meteora_pools (fill_meteora_pools l i) i = fill_meteora_pools l i"
  by (cases l; cases i; simp add: fill_meteora_pools_def meteora_pools_logged_def)+

lemma fill_meteora_dlmm_keeps [simp]:
  "meteora_dlmm_type_of (fill_meteora_dlmm l i) = meteora_dlmm_type_of l"
  "meteora_dlmm_metadata (fill_meteora_dlmm l i) = meteora_dlmm_metadata l"
  "meteora_dlmm_logged (fill_meteora_dlmm l i) = meteora_dlmm_logged l"
  "fill_meteora_dlmm (fill_meteora_dlmm l i) i = fill_meteora_dlmm l i"
  by (cases l; cases i; simp add: fill_meteora_dlmm_def meteora_dlmm_logged_def)+

text \<open>
  Completing a logged event from an instruction, whatever the two are, keeps the type and metadata of
  the logged event and everything it says was executed (the amounts, fees, reserves, prices, parties and flags that
  only the log carries), and completing it again from the same instruction changes nothing.
\<close>

theorem instruction_completes_log:
  "event_type_from_dex_event (merge_grpc_instruction_into_log event ix) = event_type_from_dex_event event \<and>
   metadata (merge_grpc_instruction_into_log event ix) = metadata event \<and>
   logged (merge_grpc_instruction_into_log event ix) = logged event \<and>
   merge_grpc_instruction_into_log (merge_grpc_instruction_into_log event ix) ix = merge_grpc_instruction_into_log event ix"
  by (cases event; cases ix) (simp_all add: merge_grpc_instruction_into_log_def logged_def)

section \<open>Merging an inner event\<close>

lemma merge_trade_keeps [simp]: "pt_metadata (merge_pumpfun_trade b i) = pt_metadata b"
  by (simp add: merge_pumpfun_trade_def put_identity_def put_leg_def put_no_leg_def put_context_def Let_def)

lemma merge_creates_keep [simp]:
  "pc_metadata (merge_pumpfun_create c i) = pc_metadata c"
  "pv_metadata (merge_pumpfun_create_v2 v w) = pv_metadata v"
  "pm_metadata (merge_pumpfun_migrate m n) = pm_metadata m"
  by (simp_all add: merge_pumpfun_create_def merge_pumpfun_create_v2_def merge_pumpfun_migrate_def)

lemma merge_pump_fun_sound:
  assumes "mergeable_variants (Pump_Fun_Event base) (Pump_Fun_Event inner)"
  shows "\<exists>e. merge_pump_fun base inner = Some e \<and> pump_fun_type_of e = pump_fun_type_of base \<and>
    pump_fun_metadata e = pump_fun_metadata base"
  using assms by (cases base; cases inner; simp add: mergeable_variants_def merge_pump_fun_def)

lemma merge_pump_swap_sound:
  assumes "mergeable_variants (Pump_Swap_Event base) (Pump_Swap_Event inner)"
  shows "\<exists>e. merge_pump_swap base inner = Some e \<and> pump_swap_type_of e = pump_swap_type_of base \<and>
    pump_swap_metadata e = pump_swap_metadata inner"
  using assms
  by (cases base; cases inner;
      simp add: mergeable_variants_def merge_pump_swap_def merge_generic_def merge_pumpswap_buy_def merge_pumpswap_sell_def)

lemma merge_variants_sound:
  assumes "mergeable_variants base inner"
  shows "\<exists>e. merge_variants base inner = Some e \<and> event_type_from_dex_event e = event_type_from_dex_event base \<and>
    metadata e \<in> {metadata base, metadata inner}"
proof (cases base)
  case (Pump_Fun_Event b)
  moreover obtain i where "inner = Pump_Fun_Event i"
    using assms Pump_Fun_Event by (cases inner) (simp_all add: mergeable_variants_def)
  ultimately show ?thesis using assms merge_pump_fun_sound [of b i] by (auto simp: merge_variants_def)
next
  case (Pump_Swap_Event b)
  moreover obtain i where "inner = Pump_Swap_Event i"
    using assms Pump_Swap_Event by (cases inner) (simp_all add: mergeable_variants_def)
  ultimately show ?thesis using assms merge_pump_swap_sound [of b i] by (auto simp: merge_variants_def)
qed (use assms in \<open>simp_all add: mergeable_variants_def\<close>)

text \<open>
  \<open>can_merge\<close> is sound for \<open>try_merge_events\<close>: when it holds the merge succeeds, and the result has the type
  of the instruction's event and the signature both events have. When the merge refuses, it hands the inner
  event back unchanged, and when it merges, the two events were not known to be different trades.
\<close>

theorem mergeable_events_merge:
  "(can_merge base inner \<longrightarrow>
      (\<exists>event. try_merge_events base inner = Inr event \<and>
         event_type_from_dex_event event = event_type_from_dex_event base \<and>
         em_signature (metadata event) = em_signature (metadata base))) \<and>
   (case try_merge_events base inner of
      Inl refused \<Rightarrow> refused = inner \<and> merge_events base inner = base
    | Inr event \<Rightarrow> \<not> pump_trade_identity_conflicts base inner \<and> merge_events base inner = event)"
  using merge_variants_sound [of base inner]
  by (auto simp: can_merge_def try_merge_events_def merge_events_def split: if_splits option.splits sum.splits)

definition demo_inner_trade :: pumpfun_trade_event where
  "demo_inner_trade = default_trade\<lparr>pt_mint := replicate 32 7, pt_sol_amount := 5, pt_is_buy := True\<rparr>"

theorem mergeable_events_merge_witness:
  "\<exists>event. try_merge_events (Pump_Fun_Event (PumpFunBuy_Event default_trade) :: unit dex_event)
     (Pump_Fun_Event (PumpFunTrade_Event demo_inner_trade)) = Inr event \<and>
     event_type_from_dex_event event = Some (Pump_Fun PumpFunBuy)"
  using mergeable_events_merge [of "Pump_Fun_Event (PumpFunBuy_Event default_trade) :: unit dex_event"
      "Pump_Fun_Event (PumpFunTrade_Event demo_inner_trade)"]
  by (auto simp: can_merge_def mergeable_variants_def demo_inner_trade_def pump_trade_identity_conflicts_def
      pump_trade_identity_def pumpfun_trade_from_ix_variant_def keys_conflict_def trade_side_def)

definition completed_types :: "event_type list" where
  "completed_types =
     [Pump_Swap PumpSwapBuy, Pump_Swap PumpSwapSell, Raydium_Cpmm RaydiumCpmmSwap, Raydium_Clmm RaydiumClmmSwap,
      Raydium_Amm_V4 RaydiumAmmV4Swap, Orca_Whirlpool OrcaWhirlpoolSwap, Meteora_Dlmm MeteoraDlmmSwap,
      Meteora_Pools MeteoraPoolsSwap, Meteora_Pools MeteoraPoolsAddLiquidity, Meteora_Pools MeteoraPoolsRemoveLiquidity,
      Meteora_Pools MeteoraPoolsBootstrapLiquidity, Meteora_Pools MeteoraPoolsPoolCreated, Meteora_Pools MeteoraPoolsSetPoolFees]"


lemma pump_swap_paths:
  assumes "pump_swap_type_of l = pump_swap_type_of i" "Pump_Swap (pump_swap_type_of l) \<in> set completed_types"
  shows "merge_pump_swap i l = Some (fill_pump_swap l i)"
  using assms by (cases l; cases i; simp add: merge_pump_swap_def fill_pump_swap_def completed_types_def merge_pumpswap_buy_def merge_pumpswap_sell_def)

lemma raydium_cpmm_paths:
  assumes "raydium_cpmm_type_of l = Some t" "raydium_cpmm_type_of i = Some t" "Raydium_Cpmm t \<in> set completed_types"
  shows "merge_raydium_cpmm i l = Some (fill_raydium_cpmm l i)"
  using assms by (cases l; cases i; simp add: merge_raydium_cpmm_def fill_raydium_cpmm_def completed_types_def merge_cpmm_swap_def split: if_splits)

lemma raydium_clmm_paths:
  assumes "raydium_clmm_type_of l = raydium_clmm_type_of i" "Raydium_Clmm (raydium_clmm_type_of l) \<in> set completed_types"
  shows "merge_raydium_clmm i l = Some (fill_raydium_clmm l i)"
  using assms by (cases l; cases i; simp add: merge_raydium_clmm_def fill_raydium_clmm_def completed_types_def merge_clmm_swap_def)

lemma raydium_amm_v4_paths:
  assumes "raydium_amm_v4_type_of l = raydium_amm_v4_type_of i" "Raydium_Amm_V4 (raydium_amm_v4_type_of l) \<in> set completed_types"
  shows "merge_raydium_amm_v4 i l = Some (fill_raydium_amm_v4 l i)"
  using assms by (cases l; cases i; simp add: merge_raydium_amm_v4_def fill_raydium_amm_v4_def completed_types_def)

lemma orca_whirlpool_paths:
  assumes "orca_whirlpool_type_of l = orca_whirlpool_type_of i" "Orca_Whirlpool (orca_whirlpool_type_of l) \<in> set completed_types"
  shows "merge_orca_whirlpool i l = Some (fill_orca_whirlpool l i)"
  using assms by (cases l; cases i; simp add: merge_orca_whirlpool_def fill_orca_whirlpool_def completed_types_def)

lemma meteora_pools_paths:
  assumes "meteora_pools_type_of l = meteora_pools_type_of i" "Meteora_Pools (meteora_pools_type_of l) \<in> set completed_types"
  shows "merge_meteora_pools i l = Some (fill_meteora_pools l i)"
  using assms by (cases l; cases i; simp add: merge_meteora_pools_def fill_meteora_pools_def completed_types_def)

lemma meteora_dlmm_paths:
  assumes "meteora_dlmm_type_of l = meteora_dlmm_type_of i" "Meteora_Dlmm (meteora_dlmm_type_of l) \<in> set completed_types"
  shows "merge_meteora_dlmm i l = Some (fill_meteora_dlmm l i)"
  using assms by (cases l; cases i; simp add: merge_meteora_dlmm_def fill_meteora_dlmm_def completed_types_def)


definition demo_fees :: meteora_pools_set_pool_fees_event where
  "demo_fees = \<lparr>mpf_metadata = default_metadata, mpf_trade_fee_numerator = 25, mpf_trade_fee_denominator = 10000,
     mpf_owner_trade_fee_numerator = 0, mpf_owner_trade_fee_denominator = 0, mpf_pool = default_pubkey, mpf_ix_name = [],
     mpf_protocol_trade_fee_numerator = 0, mpf_protocol_trade_fee_denominator = 0, mpf_new_partner_fee_numerator = 0,
     mpf_fee_operator = default_pubkey\<rparr>"

definition demo_fees_ix :: meteora_pools_set_pool_fees_event where
  "demo_fees_ix = demo_fees\<lparr>mpf_trade_fee_numerator := 0, mpf_ix_name := ''set_pool_fees'',
     mpf_new_partner_fee_numerator := 7, mpf_fee_operator := replicate 32 9\<rparr>"


section \<open>Chains of inner events\<close>

text \<open>The last key of a chain that is set.\<close>

fun last_set :: "pubkey \<Rightarrow> pubkey list \<Rightarrow> pubkey" where
  "last_set k [] = k"
| "last_set k (k' # ks) = last_set (put_pk_if_set k k') ks"

definition traded :: "pumpfun_trade_event \<Rightarrow> u64 \<times> u64 \<times> bool" where
  "traded t = (pt_sol_amount t, pt_token_amount t, pt_is_buy t)"

lemma merge_trade_step:
  "traded (merge_pumpfun_trade b i) = (if has_leg i then traded i else traded b)"
  "pt_mint (merge_pumpfun_trade b i) = put_pk_if_set (pt_mint b) (pt_mint i)"
  "pt_user (merge_pumpfun_trade b i) = put_pk_if_set (pt_user b) (pt_user i)"
  "pt_bonding_curve (merge_pumpfun_trade b i) = put_pk_if_set (pt_bonding_curve b) (pt_bonding_curve i)"
  "pt_is_created_buy (merge_pumpfun_trade b i) \<longleftrightarrow> pt_is_created_buy b \<or> pt_is_created_buy i"
  by (simp_all add: merge_pumpfun_trade_def put_identity_def put_leg_def put_no_leg_def put_context_def Let_def traded_def)

text \<open>
  Several inner events of one instruction are merged in order. Of the merged trade, the amounts and the side
  are those of the last inner event with a fill, and the instruction's own when none has one: an inner event
  without a fill never clears what an earlier one brought. The mint, the user and the bonding curve are the last
  ones that are set, and the buy is that of a new mint when any of the events says so. The metadata stays the
  instruction's.
\<close>

theorem last_fill_wins:
  "traded (foldl merge_pumpfun_trade base inners) = traded (last (base # filter has_leg inners)) \<and>
   pt_mint (foldl merge_pumpfun_trade base inners) = last_set (pt_mint base) (map pt_mint inners) \<and>
   pt_user (foldl merge_pumpfun_trade base inners) = last_set (pt_user base) (map pt_user inners) \<and>
   pt_bonding_curve (foldl merge_pumpfun_trade base inners) = last_set (pt_bonding_curve base) (map pt_bonding_curve inners) \<and>
   (pt_is_created_buy (foldl merge_pumpfun_trade base inners) \<longleftrightarrow> list_ex pt_is_created_buy (base # inners)) \<and>
   pt_metadata (foldl merge_pumpfun_trade base inners) = pt_metadata base"
proof (induction inners arbitrary: base)
  case (Cons i inners)
  have "traded (last (merge_pumpfun_trade base i # filter has_leg inners)) =
      traded (last (base # filter has_leg (i # inners)))"
    by (cases "filter has_leg inners") (simp_all add: merge_trade_step)
  then show ?case using Cons.IH [of "merge_pumpfun_trade base i"] by (simp add: merge_trade_step)
qed simp

text \<open>Where the instruction wins over the log although the comments say that the log does.\<close>

lemma instruction_values_replace_logged:
  "pt_holder_rewards (merge_pumpfun_trade_log_preferred l i) = put_u64_if_nonzero (pt_holder_rewards l) (pt_holder_rewards i)"
  "pt_holder_rewards_bps (merge_pumpfun_trade_log_preferred l i) =
     put_u64_if_nonzero (pt_holder_rewards_bps l) (pt_holder_rewards_bps i)"
  "pc_virtual_quote_reserves (merge_pumpfun_create_log_preferred c d) =
     put_u64_if_nonzero (pc_virtual_quote_reserves c) (pc_virtual_quote_reserves d)"
  "pc_virtual_sol_reserves (merge_pumpfun_create_v2_into_create_log_preferred c v) =
     put_u64_if_nonzero (pc_virtual_sol_reserves c) (pv_virtual_sol_reserves v)"
  "pc_token_total_supply (merge_pumpfun_create_v2_into_create_log_preferred c v) =
     put_u64_if_nonzero (pc_token_total_supply c) (pv_token_total_supply v)"
  by (simp_all add: merge_pumpfun_trade_log_preferred_def merge_pumpfun_create_log_preferred_def
      merge_pumpfun_create_v2_into_create_log_preferred_def)

end
