(* ===== verification/Context_Search.thy ===== *)
theory Context_Search
  imports Event_Merge Route_Swap
begin

text \<open>
  The search for the instruction an event was logged by (\<open>src/core/account_dispatcher.rs\<close>,
  \<open>get_instruction_data\<close> of \<open>src/core/common_filler.rs\<close>). A log event carries few accounts; the
  others are those of its instruction, which the dispatcher looks for among the invocations of the program
  by opcode, layout and every identity the event has. Two matches are no match. An invocation is the pair of its outer
  and inner index (negative for the outer instruction itself), both \<open>i32\<close> words as in Instr_Utils; the
  binary search of the group lookup is the parameter \<open>search\<close>.
\<close>

section \<open>One invocation\<close>

type_synonym invoke = "u32 \<times> u32"

definition only_match :: "'a list \<Rightarrow> 'a option" where
  "only_match xs =
     (case xs of [] \<Rightarrow> None | first # rest \<Rightarrow> if rest = [] then Some first else None)"

definition find_group :: "status_meta \<Rightarrow> u32 \<Rightarrow> inner_instructions option" where
  "find_group meta i = find (\<lambda>g. ig_index g = i) (tm_inner_instructions meta)"

definition outer_instruction :: "transaction option \<Rightarrow> u32 \<Rightarrow> compiled_instruction option" where
  "outer_instruction tx i =
     do { t \<leftarrow> tx; m \<leftarrow> tx_msg t; get_at (i32_as_usize i) (msg_instructions m) }"

definition get_instruction_data :: "status_meta \<Rightarrow> transaction option \<Rightarrow> invoke \<Rightarrow> bytes option" where
  "get_instruction_data meta tx index =
     (if sint (snd index) \<ge> 0
      then do {
        g \<leftarrow> find_group meta (fst index);
        ix \<leftarrow> get_at (i32_as_usize (snd index)) (ig_instructions g);
        Some (ii_data ix)
      }
      else map_option ci_data (outer_instruction tx (fst index)))"

definition instruction_account_count :: "status_meta \<Rightarrow> transaction option \<Rightarrow> invoke \<Rightarrow> nat" where
  "instruction_account_count meta tx index =
     (if sint (snd index) \<ge> 0
      then (case Option.bind (find_group meta (fst index))
                   (\<lambda>g. get_at (i32_as_usize (snd index)) (ig_instructions g)) of
              None \<Rightarrow> 0 | Some ix \<Rightarrow> length (ii_accounts ix))
      else (case outer_instruction tx (fst index) of None \<Rightarrow> 0 | Some ix \<Rightarrow> length (ci_accounts ix)))"

definition message_keys :: "transaction option \<Rightarrow> bytes list option" where
  "message_keys tx = do { t \<leftarrow> tx; m \<leftarrow> tx_msg t; Some (msg_account_keys m) }"

definition context_getter :: "group_search \<Rightarrow> status_meta \<Rightarrow> transaction option \<Rightarrow> invoke \<Rightarrow> (nat \<Rightarrow> pubkey) option" where
  "context_getter search meta tx index =
     get_instruction_account_getter search meta tx (message_keys tx) (tm_loaded_writable meta) (tm_loaded_readonly meta) index"

section \<open>The search\<close>

type_synonym context_test = "bytes \<Rightarrow> (nat \<Rightarrow> pubkey) \<Rightarrow> nat \<Rightarrow> bool"

definition context_matches :: "group_search \<Rightarrow> status_meta \<Rightarrow> transaction option \<Rightarrow> context_test \<Rightarrow> invoke \<Rightarrow> bool" where
  "context_matches search meta tx test index =
     (case get_instruction_data meta tx index of None \<Rightarrow> False
      | Some data \<Rightarrow>
          (case context_getter search meta tx index of None \<Rightarrow> False
           | Some get \<Rightarrow> test data get (instruction_account_count meta tx index)))"

definition find_context_invoke :: "group_search \<Rightarrow> invoke list \<Rightarrow> status_meta \<Rightarrow> transaction option \<Rightarrow> context_test \<Rightarrow> invoke option" where
  "find_context_invoke search invokes meta tx test =
     (if tx = None then None else only_match (filter (context_matches search meta tx test) invokes))"

definition known_accounts_match :: "(nat \<Rightarrow> pubkey) \<Rightarrow> (pubkey \<times> nat) list \<Rightarrow> bool" where
  "known_accounts_match get known \<longleftrightarrow> list_all (\<lambda>(key, index). key = default_pubkey \<or> get index = key) known"

definition identity_matches :: "bytes \<Rightarrow> nat \<Rightarrow> nat \<Rightarrow> (pubkey \<times> nat) list \<Rightarrow> context_test" where
  "identity_matches opcode minimum_data minimum_accounts known data get count \<longleftrightarrow>
     take (length opcode) data = opcode \<and> length data \<ge> minimum_data \<and> count \<ge> minimum_accounts \<and>
     known_accounts_match get known"

definition find_identity_invoke :: "group_search \<Rightarrow> invoke list \<Rightarrow> status_meta \<Rightarrow> transaction option \<Rightarrow> bytes
    \<Rightarrow> nat \<Rightarrow> nat \<Rightarrow> (pubkey \<times> nat) list \<Rightarrow> invoke option" where
  "find_identity_invoke search invokes meta tx opcode minimum_data minimum_accounts known =
     find_context_invoke search invokes meta tx (identity_matches opcode minimum_data minimum_accounts known)"

section \<open>Pump.fun\<close>

text \<open>The places of the mint and the user, the side, and the least number of accounts.\<close>

definition pump_trade_shape :: "bytes option \<Rightarrow> (nat \<times> nat \<times> bool \<times> nat) option" where
  "pump_trade_shape disc =
     (case disc of None \<Rightarrow> None
      | Some d \<Rightarrow>
          if d = PUMP_BUY \<or> d = PUMP_BUY_EXACT_SOL_IN then Some (2, 6, True, 16)
          else if d = PUMP_SELL then Some (2, 6, False, 14)
          else if d = PUMP_BUY_V2 \<or> d = PUMP_BUY_EXACT_QUOTE_IN_V2 then Some (1, 13, True, 27)
          else if d = PUMP_SELL_V2 then Some (1, 13, False, 26)
          else if d = PUMP_BUY_V3 \<or> d = PUMP_BUY_EXACT_QUOTE_IN_V3 then Some (1, 8, True, 17)
          else if d = PUMP_SELL_V3 then Some (1, 8, False, 17)
          else None)"

definition pump_trade_matches :: "pumpfun_trade_event \<Rightarrow> context_test" where
  "pump_trade_matches event data get count =
     (case pump_trade_shape (get_range 0 8 data) of None \<Rightarrow> False
      | Some (mint_idx, user_idx, is_buy, minimum) \<Rightarrow>
          count \<ge> minimum \<and> is_buy = pt_is_buy event \<and> pt_mint event \<noteq> default_pubkey \<and>
          get mint_idx = pt_mint event \<and> (pt_user event = default_pubkey \<or> get user_idx = pt_user event))"

definition find_pumpfun_trade_invoke :: "group_search \<Rightarrow> invoke list \<Rightarrow> status_meta \<Rightarrow> transaction option
    \<Rightarrow> pumpfun_trade_event \<Rightarrow> invoke option" where
  "find_pumpfun_trade_invoke search invokes meta tx event =
     find_context_invoke search invokes meta tx (pump_trade_matches event)"

definition pump_create_matches :: "bool \<Rightarrow> pubkey \<Rightarrow> context_test" where
  "pump_create_matches v2_only mint data get count =
     (case get_range 0 8 data of None \<Rightarrow> False
      | Some disc \<Rightarrow>
          (let v2 = disc = PUMP_CREATE_V2
           in \<not> (\<not> v2 \<and> (v2_only \<or> disc \<noteq> PUMP_CREATE) \<or> count < (if v2 then 16 else 14)) \<and>
              \<not> (mint \<noteq> default_pubkey \<and> get 0 \<noteq> mint)))"

definition is_create_v2_data :: "bytes option \<Rightarrow> bool" where
  "is_create_v2_data data \<longleftrightarrow> Option.bind data (get_range 0 8) = Some PUMP_CREATE_V2"

definition find_pumpfun_create_invoke :: "group_search \<Rightarrow> invoke list \<Rightarrow> transaction option \<Rightarrow> bool \<Rightarrow> status_meta
    \<Rightarrow> pubkey \<Rightarrow> (invoke \<times> bool) option" where
  "find_pumpfun_create_invoke search invokes tx v2_only meta mint =
     map_option (\<lambda>index. (index, is_create_v2_data (get_instruction_data meta tx index)))
       (find_context_invoke search invokes meta tx (pump_create_matches v2_only mint))"

section \<open>PumpSwap\<close>

definition pumpswap_trade_matches :: "pubkey \<Rightarrow> pubkey \<Rightarrow> bool \<Rightarrow> context_test" where
  "pumpswap_trade_matches pool user buy data get count =
     (let disc = get_range 0 8 data;
          direction_matches =
            (case disc of None \<Rightarrow> False
             | Some d \<Rightarrow>
                 if buy then d = AMM_BUY \<or> d = AMM_BUY_EXACT_QUOTE_IN \<or> d = AMM_BUY_V2 \<or> d = AMM_BUY_EXACT_QUOTE_IN_V2
                 else d = AMM_SELL \<or> d = AMM_SELL_V2);
          compact =
            (case disc of None \<Rightarrow> False
             | Some d \<Rightarrow> d = AMM_BUY_V2 \<or> d = AMM_BUY_EXACT_QUOTE_IN_V2 \<or> d = AMM_SELL_V2)
      in if \<not> direction_matches \<or> count < (if compact then 17 else if buy then 23 else 21) then False
         else get 0 = pool \<and> (user = default_pubkey \<or> get 1 = user))"

definition find_pumpswap_trade_invoke :: "group_search \<Rightarrow> invoke list \<Rightarrow> status_meta \<Rightarrow> transaction option
    \<Rightarrow> pubkey \<Rightarrow> pubkey \<Rightarrow> bool \<Rightarrow> invoke option" where
  "find_pumpswap_trade_invoke search invokes meta tx pool user buy =
     (if pool = default_pubkey then None
      else find_context_invoke search invokes meta tx (pumpswap_trade_matches pool user buy))"

definition find_pumpswap_create_invoke :: "group_search \<Rightarrow> invoke list \<Rightarrow> status_meta \<Rightarrow> transaction option
    \<Rightarrow> pumpswap_create_pool_event \<Rightarrow> invoke option" where
  "find_pumpswap_create_invoke search invokes meta tx e =
     find_identity_invoke search invokes meta tx AMM_CREATE_POOL 58 18
       [(swp_pool e, 0), (swp_creator e, 2), (swp_base_mint e, 3), (swp_quote_mint e, 4), (swp_lp_mint e, 5),
        (swp_user_base_token_account e, 6), (swp_user_quote_token_account e, 7)]"

section \<open>LaunchLab\<close>

definition launchlab_trade_matches :: "launchlab_trade_event \<Rightarrow> context_test" where
  "launchlab_trade_matches e data get count =
     (case (case get_range 0 8 data of None \<Rightarrow> None
            | Some d \<Rightarrow>
                if d = LAUNCHLAB_BUY_EXACT_IN \<or> d = LAUNCHLAB_BUY_EXACT_OUT then Some True
                else if d = LAUNCHLAB_SELL_EXACT_IN \<or> d = LAUNCHLAB_SELL_EXACT_OUT then Some False else None) of
        None \<Rightarrow> False
      | Some is_buy \<Rightarrow>
          length data \<ge> 24 \<and> count \<ge> 15 \<and> is_buy = llt_is_buy e \<and>
          known_accounts_match get
            [(llt_pool_state e, 4), (llt_user e, 0), (llt_base_mint e, 9), (llt_quote_mint e, 10),
             (llt_user_base_token e, 5), (llt_user_quote_token e, 6), (llt_base_vault e, 7), (llt_quote_vault e, 8),
             (llt_global_config e, 2), (llt_platform_config e, 3), (llt_base_token_program e, 11),
             (llt_quote_token_program e, 12), (llt_system_program e, 15), (llt_platform_associated_account e, 16),
             (llt_creator_associated_account e, 17)])"

text \<open>The three texts of the mint parameters, from the offset on.\<close>

fun complete_texts :: "nat \<Rightarrow> nat \<Rightarrow> bytes \<Rightarrow> bool" where
  "complete_texts 0 offset data \<longleftrightarrow> True"
| "complete_texts (Suc n) offset data \<longleftrightarrow>
     (case do {
        prefix_end \<leftarrow> usize_checked_add offset 4;
        prefix_bytes \<leftarrow> get_range offset prefix_end data;
        text_end \<leftarrow> usize_checked_add prefix_end (le_nat prefix_bytes);
        text \<leftarrow> get_range prefix_end text_end data;
        if utf8_ok text then Some text_end else None
      } of None \<Rightarrow> False | Some text_end \<Rightarrow> complete_texts n text_end data)"

definition launchlab_mint_params_complete :: "bytes \<Rightarrow> bool" where
  "launchlab_mint_params_complete data = complete_texts 3 9 data"

definition launchlab_create_matches :: "launchlab_pool_create_event \<Rightarrow> context_test" where
  "launchlab_create_matches e data get count =
     (case (case get_range 0 8 data of None \<Rightarrow> None
            | Some d \<Rightarrow>
                if d = LAUNCHLAB_INITIALIZE \<or> d = LAUNCHLAB_INITIALIZE_V2 then Some (18 :: nat)
                else if d = LAUNCHLAB_INITIALIZE_WITH_TOKEN_2022 then Some 15 else None) of
        None \<Rightarrow> False
      | Some minimum \<Rightarrow>
          count \<ge> minimum \<and> launchlab_mint_params_complete data \<and>
          known_accounts_match get
            [(llp_pool_state e, 5), (llp_payer e, 0), (llp_creator e, 1), (llp_base_mint e, 6), (llp_quote_mint e, 7),
             (llp_base_vault e, 8), (llp_quote_vault e, 9), (llp_global_config e, 2), (llp_platform_config e, 3),
             (llp_base_token_program e, if minimum = 15 then 10 else 11),
             (llp_quote_token_program e, if minimum = 15 then 11 else 12)])"

section \<open>Raydium and Orca swaps\<close>

definition cpmm_swap_matches :: "raydium_cpmm_swap_event \<Rightarrow> context_test" where
  "cpmm_swap_matches e data get count =
     (case (case get_range 0 8 data of None \<Rightarrow> None
            | Some d \<Rightarrow>
                if d = CPMM_SWAP_BASE_IN \<and> cps_base_input e then Some ''swap_base_input''
                else if d = CPMM_SWAP_BASE_OUT \<and> \<not> cps_base_input e then Some ''swap_base_output'' else None) of
        None \<Rightarrow> False
      | Some name \<Rightarrow>
          if length data < 24 \<or> count < 13 \<or> (cps_ix_name e \<noteq> [] \<and> cps_ix_name e \<noteq> name) then False
          else get 3 = cps_pool_id e \<and>
            known_accounts_match get
              [(cps_payer e, 0), (cps_input_token_account e, 4), (cps_output_token_account e, 5),
               (cps_input_vault e, 6), (cps_output_vault e, 7), (cps_input_token_mint e, 10),
               (cps_output_token_mint e, 11), (cps_input_mint e, 10), (cps_output_mint e, 11)])"

text \<open>This search does not ask for the transaction first; without one it is the same.\<close>

definition find_cpmm_swap_invoke :: "group_search \<Rightarrow> invoke list \<Rightarrow> status_meta \<Rightarrow> transaction option
    \<Rightarrow> raydium_cpmm_swap_event \<Rightarrow> invoke option" where
  "find_cpmm_swap_invoke search invokes meta tx e =
     (if cps_pool_id e = default_pubkey then None
      else only_match (filter (context_matches search meta tx (cpmm_swap_matches e)) invokes))"

definition known_at :: "(nat \<Rightarrow> pubkey) \<Rightarrow> pubkey \<Rightarrow> nat \<Rightarrow> bool" where
  "known_at get key index \<longleftrightarrow> key = default_pubkey \<or> get index = key"

definition clmm_swap_matches :: "raydium_clmm_swap_event \<Rightarrow> context_test" where
  "clmm_swap_matches e data get count =
     (case (case get_range 0 8 data of None \<Rightarrow> None
            | Some d \<Rightarrow>
                if d = CLMM_SWAP then Some ''swap'' else if d = CLMM_SWAP_V2 then Some ''swap_v2'' else None) of
        None \<Rightarrow> False
      | Some name \<Rightarrow>
          if cls_ix_name e \<noteq> [] \<and> cls_ix_name e \<noteq> name then False
          else cls_pool_state e \<noteq> default_pubkey \<and> get 2 = cls_pool_state e \<and> known_at get (cls_sender e) 0 \<and>
            ((known_at get (cls_token_account_0 e) 3 \<and> known_at get (cls_token_account_1 e) 4) \<or>
             (known_at get (cls_token_account_0 e) 4 \<and> known_at get (cls_token_account_1 e) 3)) \<and>
            known_at get (cls_input_mint e) 11 \<and> known_at get (cls_output_mint e) 12)"

definition amm_swap_shape :: "bytes \<Rightarrow> nat \<Rightarrow> (string \<times> nat \<times> nat \<times> nat \<times> nat) option" where
  "amm_swap_shape data count =
     (let less = of_bool (count = 17)
      in case data of [] \<Rightarrow> None
         | op # _ \<Rightarrow>
             if op = V4_SWAP_BASE_IN \<and> count \<ge> 17 then Some (''swap_base_in'', 15 - less, 16 - less, 17 - less, 5 - less)
             else if op = V4_SWAP_BASE_OUT \<and> count \<ge> 17
             then Some (''swap_base_out'', 15 - less, 16 - less, 17 - less, 5 - less)
             else if op = V4_SWAP_BASE_IN_V2 \<and> count \<ge> 8 then Some (''swap_base_in_v2'', 5, 6, 7, 3)
             else if op = V4_SWAP_BASE_OUT_V2 \<and> count \<ge> 8 then Some (''swap_base_out_v2'', 5, 6, 7, 3)
             else None)"

definition amm_swap_matches :: "raydium_amm_v4_swap_event \<Rightarrow> context_test" where
  "amm_swap_matches e data get count =
     (case amm_swap_shape data count of None \<Rightarrow> False
      | Some (name, source, destination, owner, vault) \<Rightarrow>
          length data \<ge> 17 \<and> (avs_ix_name e = [] \<or> avs_ix_name e = name) \<and>
          known_accounts_match get
            [(avs_amm e, 1), (avs_token_program e, 0), (avs_amm_authority e, 2), (avs_user_source_owner e, owner),
             (avs_user_source_token_account e, source), (avs_user_destination_token_account e, destination),
             (avs_pool_coin_token_account e, vault), (avs_pool_pc_token_account e, vault + 1)])"

definition MEMO_PROGRAM :: pubkey where
  "MEMO_PROGRAM =
     [5, 74, 83, 90, 153, 41, 33, 6, 77, 36, 232, 113, 96, 218, 56, 124, 124, 53, 181, 221, 188, 146, 187, 129,
      228, 31, 168, 64, 65, 5, 68, 141]"

text \<open>The name, then the places of pool, authority, owner accounts and vaults, and the least number of accounts.\<close>

definition orca_swap_shape :: "bytes option \<Rightarrow> (string \<times> nat \<times> nat \<times> nat \<times> nat \<times> nat \<times> nat \<times> nat) option" where
  "orca_swap_shape disc =
     (if disc = Some ORCA_SWAP then Some (''swap'', 2, 1, 3, 5, 4, 6, 11)
      else if disc = Some ORCA_SWAP_V2 then Some (''swap_v2'', 4, 3, 7, 9, 8, 10, 15) else None)"

definition orca_swap_matches :: "orca_whirlpool_swap_event \<Rightarrow> context_test" where
  "orca_swap_matches e data get count =
     (case orca_swap_shape (get_range 0 8 data) of None \<Rightarrow> False
      | Some (name, pool, authority, owner_a, owner_b, vault_a, vault_b, minimum) \<Rightarrow>
          if count < minimum \<or> length data < 42 \<or> data ! 40 > 1 \<or> data ! 41 > 1 \<or> (data ! 41 \<noteq> 0) \<noteq> ows_a_to_b e \<or>
             (ows_ix_name e \<noteq> [] \<and> ows_ix_name e \<noteq> name)
          then False
          else (name \<noteq> ''swap_v2'' \<or> get 2 = MEMO_PROGRAM) \<and>
            known_accounts_match get
              [(ows_whirlpool e, pool), (ows_token_authority e, authority), (ows_token_owner_account_a e, owner_a),
               (ows_token_owner_account_b e, owner_b), (ows_token_vault_a e, vault_a), (ows_token_vault_b e, vault_b),
               (ows_token_program_a e, 0), (ows_token_program_b e, if minimum = 15 then 1 else 0),
               (ows_tick_array_0 e, if minimum = 15 then 11 else 7), (ows_tick_array_1 e, if minimum = 15 then 12 else 8),
               (ows_tick_array_2 e, if minimum = 15 then 13 else 9), (ows_oracle e, minimum - 1)] \<and>
            (name \<noteq> ''swap_v2'' \<or> known_accounts_match get [(ows_token_mint_a e, 5), (ows_token_mint_b e, 6)]))"

section \<open>Meteora Pools\<close>

definition pools_swap_matches :: "meteora_pools_swap_event \<Rightarrow> context_test" where
  "pools_swap_matches e data get count \<longleftrightarrow>
     get_range 0 8 data = Some POOLS_SWAP \<and> length data \<ge> 24 \<and> count \<ge> 15 \<and>
     (mps_ix_name e = [] \<or> mps_ix_name e = ''swap'') \<and>
     known_accounts_match get
       [(mps_pool e, 0), (mps_user e, 12), (mps_user_source_token e, 1), (mps_user_destination_token e, 2),
        (mps_a_vault e, 3), (mps_b_vault e, 4), (mps_a_token_vault e, 5), (mps_b_token_vault e, 6),
        (mps_a_vault_lp_mint e, 7), (mps_b_vault_lp_mint e, 8), (mps_a_vault_lp e, 9), (mps_b_vault_lp e, 10),
        (mps_protocol_token_fee e, 11), (mps_vault_program e, 13), (mps_token_program e, 14)]"

definition pools_add_name :: "bytes option \<Rightarrow> string option" where
  "pools_add_name disc =
     (if disc = Some POOLS_ADD_LIQUIDITY then Some ''add_balance_liquidity''
      else if disc = Some POOLS_ADD_IMBALANCE_LIQUIDITY then Some ''add_imbalance_liquidity'' else None)"

definition pools_add_matches :: "meteora_pools_add_liquidity_event \<Rightarrow> context_test" where
  "pools_add_matches e data get count =
     (case pools_add_name (get_range 0 8 data) of None \<Rightarrow> False
      | Some name \<Rightarrow>
          length data \<ge> 32 \<and> count \<ge> 16 \<and> (mpa_ix_name e = [] \<or> mpa_ix_name e = name) \<and>
          known_accounts_match get
            [(mpa_pool e, 0), (mpa_lp_mint e, 1), (mpa_user_pool_lp e, 2), (mpa_user e, 13), (mpa_user_a_token e, 11),
             (mpa_user_b_token e, 12), (mpa_a_vault e, 5), (mpa_b_vault e, 6), (mpa_a_vault_lp e, 3),
             (mpa_b_vault_lp e, 4), (mpa_a_vault_lp_mint e, 7), (mpa_b_vault_lp_mint e, 8), (mpa_a_token_vault e, 9),
             (mpa_b_token_vault e, 10), (mpa_vault_program e, 14), (mpa_token_program e, 15)])"

definition find_pools_add_invoke :: "group_search \<Rightarrow> invoke list \<Rightarrow> status_meta \<Rightarrow> transaction option
    \<Rightarrow> meteora_pools_add_liquidity_event \<Rightarrow> (invoke \<times> string) option" where
  "find_pools_add_invoke search invokes meta tx e =
     do {
       index \<leftarrow> find_context_invoke search invokes meta tx (pools_add_matches e);
       data \<leftarrow> get_instruction_data meta tx index;
       Some (index, if take 8 data = POOLS_ADD_LIQUIDITY then ''add_balance_liquidity'' else ''add_imbalance_liquidity'')
     }"

text \<open>These searches know the instruction by its name alone; the accounts have to agree on the pool.\<close>

definition named_matches :: "(bytes \<Rightarrow> string option) \<Rightarrow> pubkey \<Rightarrow> string \<Rightarrow> context_test" where
  "named_matches name_of pool ix_name data get count =
     (case Option.bind (get_range 0 8 data) name_of of None \<Rightarrow> False
      | Some name \<Rightarrow> \<not> (ix_name \<noteq> [] \<and> ix_name \<noteq> name) \<and> \<not> (pool \<noteq> default_pubkey \<and> get 0 \<noteq> pool))"

definition find_named_invoke :: "(bytes \<Rightarrow> string option) \<Rightarrow> group_search \<Rightarrow> invoke list \<Rightarrow> status_meta
    \<Rightarrow> transaction option \<Rightarrow> pubkey \<Rightarrow> string \<Rightarrow> (invoke \<times> string) option" where
  "find_named_invoke name_of search invokes meta tx pool ix_name =
     do {
       index \<leftarrow> find_context_invoke search invokes meta tx (named_matches name_of pool ix_name);
       data \<leftarrow> get_instruction_data meta tx index;
       disc \<leftarrow> get_range 0 8 data;
       name \<leftarrow> name_of disc;
       Some (index, name)
     }"

definition pools_liquidity_name :: "bool \<Rightarrow> bytes \<Rightarrow> string option" where
  "pools_liquidity_name bootstrap d =
     (if bootstrap \<and> d = POOLS_BOOTSTRAP_LIQUIDITY then Some ''bootstrap_liquidity''
      else if \<not> bootstrap \<and> d = POOLS_REMOVE_LIQUIDITY then Some ''remove_balance_liquidity''
      else if \<not> bootstrap \<and> d = POOLS_REMOVE_LIQUIDITY_SINGLE_SIDE then Some ''remove_liquidity_single_side''
      else None)"

definition pools_management_name :: "bool \<Rightarrow> bytes \<Rightarrow> string option" where
  "pools_management_name creation d =
     (if creation \<and> d = POOLS_CREATE_POOL then Some ''initialize_permissionless_constant_product_pool_with_config''
      else if creation \<and> d = POOLS_CREATE_POOL_WITH_CONFIG2
      then Some ''initialize_permissionless_constant_product_pool_with_config2''
      else if creation \<and> d = POOLS_INITIALIZE_PERMISSIONED_POOL then Some ''initialize_permissioned_pool''
      else if creation \<and> d = POOLS_INITIALIZE_PERMISSIONLESS_POOL then Some ''initialize_permissionless_pool''
      else if creation \<and> d = POOLS_INITIALIZE_PERMISSIONLESS_POOL_WITH_FEE_TIER
      then Some ''initialize_permissionless_pool_with_fee_tier''
      else if creation \<and> d = POOLS_INITIALIZE_CUSTOMIZABLE_POOL
      then Some ''initialize_customizable_permissionless_constant_product_pool''
      else if \<not> creation \<and> d = POOLS_SET_POOL_FEES then Some ''set_pool_fees'' else None)"

section \<open>Meteora DLMM\<close>

definition dlmm_swap_context :: "group_search \<Rightarrow> status_meta \<Rightarrow> transaction option \<Rightarrow> meteora_dlmm_swap_event
    \<Rightarrow> invoke \<Rightarrow> (invoke \<times> nat \<times> nat \<times> bool) option" where
  "dlmm_swap_context search meta tx e index =
     do {
       data \<leftarrow> get_instruction_data meta tx index;
       let count = instruction_account_count meta tx index;
       start \<leftarrow> validate_swap_layout data count;
       get \<leftarrow> context_getter search meta tx index;
       if get 0 \<noteq> dls_pool e \<or> \<not> known_at get (dls_from e) 10 \<or> \<not> known_at get (dls_user_token_in e) 4 \<or>
          \<not> known_at get (dls_user_token_out e) 5
       then None
       else Some (index, start, count,
         get_range 0 8 data \<in> {Some DLMM_SWAP2, Some DLMM_SWAP_EXACT_OUT2, Some DLMM_SWAP_WITH_PRICE_IMPACT2})
     }"

definition find_dlmm_swap :: "group_search \<Rightarrow> invoke list \<Rightarrow> status_meta \<Rightarrow> transaction option \<Rightarrow> meteora_dlmm_swap_event
    \<Rightarrow> (invoke \<times> nat \<times> nat \<times> bool) option" where
  "find_dlmm_swap search invokes meta tx e =
     only_match (List.map_filter (dlmm_swap_context search meta tx e) invokes)"

end
