(* ===== verification/Account_Fillers.thy ===== *)
theory Account_Fillers
  imports Context_Search Creator_Fee
begin

text \<open>
  The fillers of \<open>src/core/account_fillers\<close>: from the accounts of the instruction (\<open>get\<close>, the default key when there is
  none) each writes the account fields the event lacks. The loops over the remaining accounts are list
  functions; the address derivation is the parameter \<open>derive\<close>. The statements of a
  filler write distinct fields, each from itself and the getter, so a block of them is one record update.
\<close>

section \<open>Pump.fun\<close>

definition account_at_matches_mint :: "pumpfun_trade_event \<Rightarrow> (nat \<Rightarrow> pubkey) \<Rightarrow> nat \<Rightarrow> bool" where
  "account_at_matches_mint e get idx \<longleftrightarrow> pt_mint e \<noteq> default_pubkey \<and> get idx = pt_mint e"

definition pump_trade_uses_v2_layout :: "pumpfun_trade_event \<Rightarrow> (nat \<Rightarrow> pubkey) \<Rightarrow> bool" where
  "pump_trade_uses_v2_layout e get \<longleftrightarrow>
     pt_ix_name e \<in> {''buy_v2'', ''sell_v2'', ''buy_exact_quote_in_v2''} \<or> account_at_matches_mint e get 1"

definition fill_quote_account :: "pubkey \<Rightarrow> pubkey \<Rightarrow> pubkey" where
  "fill_quote_account to account =
     (if to = default_pubkey \<or> is_pumpfun_solscan_sol_quote_mint to
      then (let from = normalize_pumpfun_quote_mint account in if from \<noteq> default_pubkey then from else to)
      else to)"

definition fill_trade_v3 :: "(nat \<Rightarrow> pubkey) \<Rightarrow> pumpfun_trade_event \<Rightarrow> pumpfun_trade_event" where
  "fill_trade_v3 get e =
     e\<lparr>pt_global := fill_pk (pt_global e) (get 0),
       pt_mint := fill_pk (pt_mint e) (get 1),
       pt_quote_mint := fill_pk (pt_quote_mint e) (get 2),
       pt_token_program := fill_pk (pt_token_program e) (get 3),
       pt_quote_token_program := fill_pk (pt_quote_token_program e) (get 4),
       pt_bonding_curve := fill_pk (pt_bonding_curve e) (get 5),
       pt_associated_bonding_curve := fill_pk (pt_associated_bonding_curve e) (get 6),
       pt_associated_quote_bonding_curve := fill_pk (pt_associated_quote_bonding_curve e) (get 7),
       pt_user := fill_pk (pt_user e) (get 8),
       pt_associated_user := fill_pk (pt_associated_user e) (get 9),
       pt_associated_quote_user := fill_pk (pt_associated_quote_user e) (get 10),
       pt_user_volume_accumulator := fill_pk (pt_user_volume_accumulator e) (get 11),
       pt_fee_config := fill_pk (pt_fee_config e) (get 12),
       pt_buyback_fee_recipient := fill_pk (pt_buyback_fee_recipient e) (get 13),
       pt_system_program := fill_pk (pt_system_program e) (get 14),
       pt_event_authority := fill_pk (pt_event_authority e) (get 15),
       pt_program := fill_pk (pt_program e) (get 16)\<rparr>"

definition fill_trade_v2 :: "(nat \<Rightarrow> pubkey) \<Rightarrow> bool \<Rightarrow> pumpfun_trade_event \<Rightarrow> pumpfun_trade_event" where
  "fill_trade_v2 get is_sell e =
     (let e = e\<lparr>pt_global := fill_pk (pt_global e) (get 0),
                pt_quote_mint := fill_quote_account (pt_quote_mint e) (get 2),
                pt_fee_recipient := fill_pk (pt_fee_recipient e) (get 6),
                pt_bonding_curve := fill_pk (pt_bonding_curve e) (get 10),
                pt_associated_bonding_curve := fill_pk (pt_associated_bonding_curve e) (get 11),
                pt_associated_quote_bonding_curve := fill_pk (pt_associated_quote_bonding_curve e) (get 12),
                pt_associated_user := fill_pk (pt_associated_user e) (get 14),
                pt_associated_quote_user := fill_pk (pt_associated_quote_user e) (get 15),
                pt_user := fill_pk (pt_user e) (get 13),
                pt_system_program := fill_pk (pt_system_program e) (get (if is_sell then 23 else 24)),
                pt_token_program := fill_pk (pt_token_program e) (get 3),
                pt_quote_token_program := fill_pk (pt_quote_token_program e) (get 4),
                pt_associated_token_program := fill_pk (pt_associated_token_program e) (get 5),
                pt_creator_vault := fill_pk (pt_creator_vault e) (get 16),
                pt_associated_quote_fee_recipient := fill_pk (pt_associated_quote_fee_recipient e) (get 7),
                pt_buyback_fee_recipient := fill_pk (pt_buyback_fee_recipient e) (get 8),
                pt_associated_quote_buyback_fee_recipient := fill_pk (pt_associated_quote_buyback_fee_recipient e) (get 9),
                pt_associated_creator_vault := fill_pk (pt_associated_creator_vault e) (get 17),
                pt_sharing_config := fill_pk (pt_sharing_config e) (get 18),
                pt_event_authority := fill_pk (pt_event_authority e) (get (if is_sell then 24 else 25)),
                pt_program := fill_pk (pt_program e) (get (if is_sell then 25 else 26))\<rparr>
      in if \<not> is_sell
         then e\<lparr>pt_global_volume_accumulator := fill_pk (pt_global_volume_accumulator e) (get 19),
                pt_user_volume_accumulator := fill_pk (pt_user_volume_accumulator e) (get 20),
                pt_associated_user_volume_accumulator := fill_pk (pt_associated_user_volume_accumulator e) (get 21),
                pt_fee_config := fill_pk (pt_fee_config e) (get 22),
                pt_fee_program := fill_pk (pt_fee_program e) (get 23)\<rparr>
         else e\<lparr>pt_user_volume_accumulator := fill_pk (pt_user_volume_accumulator e) (get 19),
                pt_associated_user_volume_accumulator := fill_pk (pt_associated_user_volume_accumulator e) (get 20),
                pt_fee_config := fill_pk (pt_fee_config e) (get 21),
                pt_fee_program := fill_pk (pt_fee_program e) (get 22)\<rparr>)"

definition fill_trade_legacy_buy :: "(nat \<Rightarrow> pubkey) \<Rightarrow> pumpfun_trade_event \<Rightarrow> pumpfun_trade_event" where
  "fill_trade_legacy_buy get e =
     (let e = e\<lparr>pt_global_volume_accumulator := fill_pk (pt_global_volume_accumulator e) (get 12),
                pt_user_volume_accumulator := fill_pk (pt_user_volume_accumulator e) (get 13),
                pt_fee_config := fill_pk (pt_fee_config e) (get 14),
                pt_fee_program := fill_pk (pt_fee_program e) (get 15),
                pt_bonding_curve_v2 := fill_pk (pt_bonding_curve_v2 e) (get 16),
                pt_buyback_fee_recipient := fill_pk (pt_buyback_fee_recipient e) (get 17)\<rparr>;
          a18 = get 17
      in if pt_account e = None \<and> a18 \<noteq> default_pubkey then e\<lparr>pt_account := Some a18\<rparr> else e)"

definition fill_trade_legacy_sell :: "(nat \<Rightarrow> pubkey) \<Rightarrow> pumpfun_trade_event \<Rightarrow> pumpfun_trade_event" where
  "fill_trade_legacy_sell get e =
     (let e = e\<lparr>pt_fee_config := fill_pk (pt_fee_config e) (get 12),
                pt_fee_program := fill_pk (pt_fee_program e) (get 13)\<rparr>;
          a14 = get 14; a15 = get 15; a16 = get 16
      in if a16 \<noteq> default_pubkey
         then (let e = e\<lparr>pt_user_volume_accumulator := fill_pk (pt_user_volume_accumulator e) (get 14),
                         pt_bonding_curve_v2 := fill_pk (pt_bonding_curve_v2 e) (get 15),
                         pt_buyback_fee_recipient := fill_pk (pt_buyback_fee_recipient e) (get 16)\<rparr>
               in if pt_account e = None then e\<lparr>pt_account := Some a16\<rparr> else e)
         else if pt_is_cashback_coin e
         then (let e = (if a14 \<noteq> default_pubkey
                        then e\<lparr>pt_user_volume_accumulator := fill_pk (pt_user_volume_accumulator e) (get 14)\<rparr> else e)
               in if a15 \<noteq> default_pubkey then e\<lparr>pt_bonding_curve_v2 := fill_pk (pt_bonding_curve_v2 e) (get 15)\<rparr> else e)
         else (let e = (if a14 \<noteq> default_pubkey
                        then e\<lparr>pt_bonding_curve_v2 := fill_pk (pt_bonding_curve_v2 e) (get 14)\<rparr> else e)
               in if a15 \<noteq> default_pubkey
                  then (let e = e\<lparr>pt_buyback_fee_recipient := fill_pk (pt_buyback_fee_recipient e) (get 15)\<rparr>
                        in if pt_account e = None then e\<lparr>pt_account := Some a15\<rparr> else e)
                  else e))"

definition fill_trade_legacy_common :: "(nat \<Rightarrow> pubkey) \<Rightarrow> pumpfun_trade_event \<Rightarrow> pumpfun_trade_event" where
  "fill_trade_legacy_common get e =
     e\<lparr>pt_global := fill_pk (pt_global e) (get 0),
       pt_quote_mint := normalize_pumpfun_quote_mint (pt_quote_mint e),
       pt_fee_recipient := fill_pk (pt_fee_recipient e) (get 1),
       pt_bonding_curve := fill_pk (pt_bonding_curve e) (get 3),
       pt_associated_bonding_curve := fill_pk (pt_associated_bonding_curve e) (get 4),
       pt_associated_user := fill_pk (pt_associated_user e) (get 5),
       pt_user := fill_pk (pt_user e) (get 6),
       pt_system_program := fill_pk (pt_system_program e) (get 7),
       pt_creator_vault := fill_pk (pt_creator_vault e) (get (if pt_is_buy e then 9 else 8)),
       pt_token_program := fill_pk (pt_token_program e) (get (if pt_is_buy e then 8 else 9)),
       pt_event_authority := fill_pk (pt_event_authority e) (get 10),
       pt_program := fill_pk (pt_program e) (get 11)\<rparr>"

definition fill_trade_legacy :: "(nat \<Rightarrow> pubkey) \<Rightarrow> pumpfun_trade_event \<Rightarrow> pumpfun_trade_event" where
  "fill_trade_legacy get e =
     (let e = fill_trade_legacy_common get e
      in if pt_is_buy e then fill_trade_legacy_buy get e else fill_trade_legacy_sell get e)"

definition pumpfun_fill_trade_accounts :: "(nat \<Rightarrow> pubkey) \<Rightarrow> pumpfun_trade_event \<Rightarrow> pumpfun_trade_event" where
  "pumpfun_fill_trade_accounts get e =
     (let is_v2 = pump_trade_uses_v2_layout e get;
          is_sell = (pt_ix_name e \<in> {''sell'', ''sell_v2''} \<or> \<not> pt_is_buy e)
      in if get 16 = PUMPFUN_PROGRAM_ID \<and> account_at_matches_mint e get 1 then fill_trade_v3 get e
         else if is_v2 then fill_trade_v2 get is_sell e
         else fill_trade_legacy get e)"

definition fill_create_v2_accounts :: "(nat \<Rightarrow> pubkey) \<Rightarrow> pumpfun_create_v2_event \<Rightarrow> pumpfun_create_v2_event" where
  "fill_create_v2_accounts get e =
     (let (quote_mint, quote_vault, quote_token_program) =
        fill_create_quote_accounts get (pv_quote_mint e, pv_quote_vault e, pv_quote_token_program e)
      in e\<lparr>pv_mint := fill_if_default (pv_mint e) (get CREATE_V2_MINT),
           pv_bonding_curve := fill_if_default (pv_bonding_curve e) (get CREATE_V2_BONDING_CURVE),
           pv_user := fill_if_default (pv_user e) (get CREATE_V2_USER),
           pv_mint_authority := fill_if_default (pv_mint_authority e) (get CREATE_V2_MINT_AUTHORITY),
           pv_associated_bonding_curve := fill_if_default (pv_associated_bonding_curve e) (get CREATE_V2_ASSOCIATED_BONDING_CURVE),
           pv_global := fill_if_default (pv_global e) (get CREATE_V2_GLOBAL),
           pv_system_program := fill_if_default (pv_system_program e) (get CREATE_V2_SYSTEM_PROGRAM),
           pv_token_program := fill_if_default (pv_token_program e) (get CREATE_V2_TOKEN_PROGRAM),
           pv_associated_token_program := fill_if_default (pv_associated_token_program e) (get CREATE_V2_ASSOCIATED_TOKEN_PROGRAM),
           pv_mayhem_program_id := fill_if_default (pv_mayhem_program_id e) (get CREATE_V2_MAYHEM_PROGRAM_ID),
           pv_global_params := fill_if_default (pv_global_params e) (get CREATE_V2_GLOBAL_PARAMS),
           pv_sol_vault := fill_if_default (pv_sol_vault e) (get CREATE_V2_SOL_VAULT),
           pv_mayhem_state := fill_if_default (pv_mayhem_state e) (get CREATE_V2_MAYHEM_STATE),
           pv_mayhem_token_vault := fill_if_default (pv_mayhem_token_vault e) (get CREATE_V2_MAYHEM_TOKEN_VAULT),
           pv_event_authority := fill_if_default (pv_event_authority e) (get CREATE_V2_EVENT_AUTHORITY),
           pv_program := fill_if_default (pv_program e) (get CREATE_V2_PROGRAM),
           pv_quote_mint := quote_mint, pv_quote_vault := quote_vault, pv_quote_token_program := quote_token_program\<rparr>)"

section \<open>PumpSwap\<close>

text \<open>The accounts after the fixed ones: the derived \<open>pool-v2\<close> when it is among the first three, and the
  two fee accounts at the end of a tail of a known length.\<close>

definition pda_seed :: "string \<Rightarrow> bytes" where
  "pda_seed s = map of_char s"

fun position_of :: "'a \<Rightarrow> 'a list \<Rightarrow> nat option" where
  "position_of x [] = None"
| "position_of x (y # ys) = (if x = y then Some 0 else map_option Suc (position_of x ys))"

definition upgrade_tail :: "address_derivation \<Rightarrow> pubkey list \<Rightarrow> nat \<Rightarrow> pubkey \<Rightarrow> pubkey \<times> pubkey \<times> pubkey" where
  "upgrade_tail derive accounts fixed base_mint =
     (let extra = length accounts - fixed
      in if extra = 0 then (default_pubkey, default_pubkey, default_pubkey)
         else
           (let expected = fst (derive [pda_seed ''pool-v2'', base_mint] PUMPSWAP_PROGRAM_ID);
                pool_index = (if base_mint \<noteq> default_pubkey
                              then map_option (\<lambda>index. index + fixed) (position_of expected (take 3 (drop fixed accounts)))
                              else None);
                pool_v2 = (if pool_index = None then default_pubkey else expected);
                max_extra = (if fixed = 21 then 5 else 4)
            in if extra \<ge> 2 \<and> extra \<le> max_extra \<and>
                  (case pool_index of None \<Rightarrow> True | Some index \<Rightarrow> index < length accounts - 2)
               then (pool_v2, accounts ! (length accounts - 2), accounts ! (length accounts - 1))
               else (pool_v2, default_pubkey, default_pubkey)))"

definition buy_upgrade_tail :: "address_derivation \<Rightarrow> pubkey list \<Rightarrow> pubkey \<Rightarrow> pubkey \<times> pubkey \<times> pubkey" where
  "buy_upgrade_tail derive accounts base_mint = upgrade_tail derive accounts 23 base_mint"

definition sell_upgrade_tail :: "address_derivation \<Rightarrow> pubkey list \<Rightarrow> pubkey \<Rightarrow> pubkey \<times> pubkey \<times> pubkey" where
  "sell_upgrade_tail derive accounts base_mint =
     (let unknown = (default_pubkey, default_pubkey, default_pubkey); fixed = 21
      in if 22 \<le> length accounts \<and> length accounts \<le> 24 \<and> get_at 21 accounts = Some default_pubkey then unknown
         else if length accounts > fixed
         then (case get_at 1 accounts of
                 Some user \<Rightarrow>
                   if user \<noteq> default_pubkey
                   then (let user_volume = fst (derive [pda_seed ''user_volume_accumulator'', user] PUMPSWAP_PROGRAM_ID)
                         in upgrade_tail derive accounts (if get_at 21 accounts = Some user_volume then fixed + 2 else fixed) base_mint)
                   else if length accounts \<le> 24 then unknown else upgrade_tail derive accounts fixed base_mint
               | None \<Rightarrow> if length accounts \<le> 24 then unknown else upgrade_tail derive accounts fixed base_mint)
         else upgrade_tail derive accounts fixed base_mint)"

definition fill_buy_compact :: "(nat \<Rightarrow> pubkey) \<Rightarrow> pumpswap_buy_event \<Rightarrow> pumpswap_buy_event" where
  "fill_buy_compact get e =
     e\<lparr>swb_pool := fill_if_default (swb_pool e) (get 0),
       swb_user := fill_if_default (swb_user e) (get 1),
       swb_base_mint := fill_if_default (swb_base_mint e) (get 3),
       swb_quote_mint := fill_if_default (swb_quote_mint e) (get 4),
       swb_user_base_token_account := fill_if_default (swb_user_base_token_account e) (get 5),
       swb_user_quote_token_account := fill_if_default (swb_user_quote_token_account e) (get 6),
       swb_pool_base_token_account := fill_if_default (swb_pool_base_token_account e) (get 7),
       swb_pool_quote_token_account := fill_if_default (swb_pool_quote_token_account e) (get 8),
       swb_base_token_program := fill_if_default (swb_base_token_program e) (get 9),
       swb_quote_token_program := fill_if_default (swb_quote_token_program e) (get 10),
       swb_fee_recipient_quote_token_account := fill_if_default (swb_fee_recipient_quote_token_account e) (get 14)\<rparr>"

definition fill_buy_common :: "(nat \<Rightarrow> pubkey) \<Rightarrow> pumpswap_buy_event \<Rightarrow> pumpswap_buy_event" where
  "fill_buy_common get e =
     e\<lparr>swb_pool := fill_if_default (swb_pool e) (get 0),
       swb_user := fill_if_default (swb_user e) (get 1),
       swb_base_mint := fill_if_default (swb_base_mint e) (get 3),
       swb_quote_mint := fill_if_default (swb_quote_mint e) (get 4),
       swb_user_base_token_account := fill_if_default (swb_user_base_token_account e) (get 5),
       swb_user_quote_token_account := fill_if_default (swb_user_quote_token_account e) (get 6),
       swb_pool_base_token_account := fill_if_default (swb_pool_base_token_account e) (get 7),
       swb_pool_quote_token_account := fill_if_default (swb_pool_quote_token_account e) (get 8),
       swb_protocol_fee_recipient := fill_if_default (swb_protocol_fee_recipient e) (get 9),
       swb_protocol_fee_recipient_token_account := fill_if_default (swb_protocol_fee_recipient_token_account e) (get 10),
       swb_base_token_program := fill_if_default (swb_base_token_program e) (get 11),
       swb_quote_token_program := fill_if_default (swb_quote_token_program e) (get 12),
       swb_coin_creator_vault_ata := fill_if_default (swb_coin_creator_vault_ata e) (get 17),
       swb_coin_creator_vault_authority := fill_if_default (swb_coin_creator_vault_authority e) (get 18)\<rparr>"

definition fill_buy_tail :: "address_derivation \<Rightarrow> (nat \<Rightarrow> pubkey) \<Rightarrow> nat \<Rightarrow> pumpswap_buy_event \<Rightarrow> pumpswap_buy_event" where
  "fill_buy_tail derive get count e =
     (let accounts = (replicate 27 default_pubkey)[3 := swb_base_mint e];
          accounts = map (\<lambda>index. if index \<in> {23..<count} then get index else accounts ! index) [0..<27];
          (pool_v2, recipient, ata) = buy_upgrade_tail derive (take count accounts) (swb_base_mint e)
      in e\<lparr>swb_pool_v2 := fill_if_default (swb_pool_v2 e) pool_v2,
           swb_fee_recipient := fill_if_default (swb_fee_recipient e) recipient,
           swb_fee_recipient_quote_token_account := fill_if_default (swb_fee_recipient_quote_token_account e) ata\<rparr>)"

definition fill_buy_accounts_with_count :: "address_derivation \<Rightarrow> (nat \<Rightarrow> pubkey) \<Rightarrow> nat \<Rightarrow> pumpswap_buy_event \<Rightarrow> pumpswap_buy_event" where
  "fill_buy_accounts_with_count derive get count e =
     (if count = 17 \<and> get 16 = PUMPSWAP_PROGRAM_ID then fill_buy_compact get e
      else
        (let e = fill_buy_common get e
         in if \<not> (24 \<le> count \<and> count \<le> 27) then e
            else if swb_pool_v2 e \<noteq> default_pubkey \<and> swb_fee_recipient e \<noteq> default_pubkey \<and>
                    swb_fee_recipient_quote_token_account e \<noteq> default_pubkey
            then e
            else fill_buy_tail derive get count e))"

definition fill_sell_compact :: "(nat \<Rightarrow> pubkey) \<Rightarrow> pumpswap_sell_event \<Rightarrow> pumpswap_sell_event" where
  "fill_sell_compact get e =
     e\<lparr>sws_pool := fill_if_default (sws_pool e) (get 0),
       sws_user := fill_if_default (sws_user e) (get 1),
       sws_base_mint := fill_if_default (sws_base_mint e) (get 3),
       sws_quote_mint := fill_if_default (sws_quote_mint e) (get 4),
       sws_user_base_token_account := fill_if_default (sws_user_base_token_account e) (get 5),
       sws_user_quote_token_account := fill_if_default (sws_user_quote_token_account e) (get 6),
       sws_pool_base_token_account := fill_if_default (sws_pool_base_token_account e) (get 7),
       sws_pool_quote_token_account := fill_if_default (sws_pool_quote_token_account e) (get 8),
       sws_base_token_program := fill_if_default (sws_base_token_program e) (get 9),
       sws_quote_token_program := fill_if_default (sws_quote_token_program e) (get 10),
       sws_fee_recipient_quote_token_account := fill_if_default (sws_fee_recipient_quote_token_account e) (get 14)\<rparr>"

definition fill_sell_common :: "(nat \<Rightarrow> pubkey) \<Rightarrow> pumpswap_sell_event \<Rightarrow> pumpswap_sell_event" where
  "fill_sell_common get e =
     e\<lparr>sws_pool := fill_if_default (sws_pool e) (get 0),
       sws_user := fill_if_default (sws_user e) (get 1),
       sws_base_mint := fill_if_default (sws_base_mint e) (get 3),
       sws_quote_mint := fill_if_default (sws_quote_mint e) (get 4),
       sws_user_base_token_account := fill_if_default (sws_user_base_token_account e) (get 5),
       sws_user_quote_token_account := fill_if_default (sws_user_quote_token_account e) (get 6),
       sws_pool_base_token_account := fill_if_default (sws_pool_base_token_account e) (get 7),
       sws_pool_quote_token_account := fill_if_default (sws_pool_quote_token_account e) (get 8),
       sws_protocol_fee_recipient := fill_if_default (sws_protocol_fee_recipient e) (get 9),
       sws_protocol_fee_recipient_token_account := fill_if_default (sws_protocol_fee_recipient_token_account e) (get 10),
       sws_base_token_program := fill_if_default (sws_base_token_program e) (get 11),
       sws_quote_token_program := fill_if_default (sws_quote_token_program e) (get 12),
       sws_coin_creator_vault_ata := fill_if_default (sws_coin_creator_vault_ata e) (get 17),
       sws_coin_creator_vault_authority := fill_if_default (sws_coin_creator_vault_authority e) (get 18)\<rparr>"

definition fill_sell_tail :: "address_derivation \<Rightarrow> (nat \<Rightarrow> pubkey) \<Rightarrow> nat \<Rightarrow> pumpswap_sell_event \<Rightarrow> pumpswap_sell_event" where
  "fill_sell_tail derive get count e =
     (let accounts = (replicate 26 default_pubkey)[1 := sws_user e, 3 := sws_base_mint e];
          accounts = map (\<lambda>index. if index \<in> {21..<count} then get index else accounts ! index) [0..<26];
          (pool_v2, recipient, ata) = sell_upgrade_tail derive (take count accounts) (sws_base_mint e)
      in e\<lparr>sws_pool_v2 := fill_if_default (sws_pool_v2 e) pool_v2,
           sws_fee_recipient := fill_if_default (sws_fee_recipient e) recipient,
           sws_fee_recipient_quote_token_account := fill_if_default (sws_fee_recipient_quote_token_account e) ata\<rparr>)"

definition fill_sell_accounts_with_count :: "address_derivation \<Rightarrow> (nat \<Rightarrow> pubkey) \<Rightarrow> nat \<Rightarrow> pumpswap_sell_event \<Rightarrow> pumpswap_sell_event" where
  "fill_sell_accounts_with_count derive get count e =
     (if count = 17 \<and> get 16 = PUMPSWAP_PROGRAM_ID then fill_sell_compact get e
      else
        (let e = fill_sell_common get e
         in if \<not> (22 \<le> count \<and> count \<le> 26) then e
            else if sws_pool_v2 e \<noteq> default_pubkey \<and> sws_fee_recipient e \<noteq> default_pubkey \<and>
                    sws_fee_recipient_quote_token_account e \<noteq> default_pubkey
            then e
            else fill_sell_tail derive get count e))"

definition fill_create_pool_accounts :: "(nat \<Rightarrow> pubkey) \<Rightarrow> pumpswap_create_pool_event \<Rightarrow> pumpswap_create_pool_event" where
  "fill_create_pool_accounts get e =
     e\<lparr>swp_pool := fill_if_default (swp_pool e) (get 0),
       swp_creator := fill_if_default (swp_creator e) (get 2),
       swp_base_mint := fill_if_default (swp_base_mint e) (get 3),
       swp_quote_mint := fill_if_default (swp_quote_mint e) (get 4),
       swp_lp_mint := fill_if_default (swp_lp_mint e) (get 5),
       swp_user_base_token_account := fill_if_default (swp_user_base_token_account e) (get 6),
       swp_user_quote_token_account := fill_if_default (swp_user_quote_token_account e) (get 7)\<rparr>"

section \<open>LaunchLab\<close>

definition launchlab_fill_trade_accounts :: "(nat \<Rightarrow> pubkey) \<Rightarrow> launchlab_trade_event \<Rightarrow> launchlab_trade_event" where
  "launchlab_fill_trade_accounts get e =
     e\<lparr>llt_user := fill_if_default (llt_user e) (get 0),
       llt_pool_state := fill_if_default (llt_pool_state e) (get 4),
       llt_global_config := fill_if_default (llt_global_config e) (get 2),
       llt_platform_config := fill_if_default (llt_platform_config e) (get 3),
       llt_user_base_token := fill_if_default (llt_user_base_token e) (get 5),
       llt_user_quote_token := fill_if_default (llt_user_quote_token e) (get 6),
       llt_base_vault := fill_if_default (llt_base_vault e) (get 7),
       llt_quote_vault := fill_if_default (llt_quote_vault e) (get 8),
       llt_base_mint := fill_if_default (llt_base_mint e) (get 9),
       llt_quote_mint := fill_if_default (llt_quote_mint e) (get 10),
       llt_base_token_program := fill_if_default (llt_base_token_program e) (get 11),
       llt_quote_token_program := fill_if_default (llt_quote_token_program e) (get 12),
       llt_system_program := fill_if_default (llt_system_program e) (get 15),
       llt_platform_associated_account := fill_if_default (llt_platform_associated_account e) (get 16),
       llt_creator_associated_account := fill_if_default (llt_creator_associated_account e) (get 17)\<rparr>"

definition launchlab_fill_pool_create_accounts :: "(nat \<Rightarrow> pubkey) \<Rightarrow> launchlab_pool_create_event \<Rightarrow> launchlab_pool_create_event" where
  "launchlab_fill_pool_create_accounts get e =
     (let e = e\<lparr>llp_pool_state := fill_if_default (llp_pool_state e) (get 5),
                llp_creator := fill_if_default (llp_creator e) (get 1),
                llp_payer := fill_if_default (llp_payer e) (get 0),
                llp_global_config := fill_if_default (llp_global_config e) (get 2),
                llp_platform_config := fill_if_default (llp_platform_config e) (get 3),
                llp_base_mint := fill_if_default (llp_base_mint e) (get 6),
                llp_quote_mint := fill_if_default (llp_quote_mint e) (get 7),
                llp_base_vault := fill_if_default (llp_base_vault e) (get 8),
                llp_quote_vault := fill_if_default (llp_quote_vault e) (get 9)\<rparr>
      in case (if get 17 = RAYDIUM_LAUNCHLAB_PROGRAM_ID then Some (11, 12)
               else if get 14 = RAYDIUM_LAUNCHLAB_PROGRAM_ID then Some (10, 11) else None) of
           None \<Rightarrow> e
         | Some (base, quote) \<Rightarrow>
             e\<lparr>llp_base_token_program := fill_if_default (llp_base_token_program e) (get base),
               llp_quote_token_program := fill_if_default (llp_quote_token_program e) (get quote)\<rparr>)"

section \<open>Raydium\<close>

definition fill_cpmm_swap_accounts :: "(nat \<Rightarrow> pubkey) \<Rightarrow> raydium_cpmm_swap_event \<Rightarrow> raydium_cpmm_swap_event" where
  "fill_cpmm_swap_accounts get e =
     e\<lparr>cps_payer := fill_if_default (cps_payer e) (get 0),
       cps_authority := fill_if_default (cps_authority e) (get 1),
       cps_input_token_account := fill_if_default (cps_input_token_account e) (get 4),
       cps_output_token_account := fill_if_default (cps_output_token_account e) (get 5),
       cps_pool_id := fill_if_default (cps_pool_id e) (get 3),
       cps_amm_config := fill_if_default (cps_amm_config e) (get 2),
       cps_input_vault := fill_if_default (cps_input_vault e) (get 6),
       cps_output_vault := fill_if_default (cps_output_vault e) (get 7),
       cps_input_token_program := fill_if_default (cps_input_token_program e) (get 8),
       cps_output_token_program := fill_if_default (cps_output_token_program e) (get 9),
       cps_input_token_mint := fill_if_default (cps_input_token_mint e) (get 10),
       cps_output_token_mint := fill_if_default (cps_output_token_mint e) (get 11),
       cps_observation_state := fill_if_default (cps_observation_state e) (get 12)\<rparr>"

definition tick_array_bitmap_extension_pda :: "address_derivation \<Rightarrow> pubkey \<Rightarrow> pubkey" where
  "tick_array_bitmap_extension_pda derive pool_state =
     fst (derive [pda_seed ''pool_tick_array_bitmap_extension'', pool_state] RAYDIUM_CLMM_PROGRAM_ID)"

text \<open>The remaining accounts: all of them when their number is known, else up to the first unknown key.\<close>

definition clmm_remaining :: "(nat \<Rightarrow> pubkey) \<Rightarrow> nat \<Rightarrow> nat option \<Rightarrow> pubkey list" where
  "clmm_remaining get start account_count =
     (case account_count of
        Some n \<Rightarrow> map get [start..<n]
      | None \<Rightarrow> takeWhile (\<lambda>key. key \<noteq> default_pubkey) (map get [start..<256]))"

definition fill_clmm_ticks :: "address_derivation \<Rightarrow> pubkey list \<Rightarrow> raydium_clmm_swap_event \<Rightarrow> raydium_clmm_swap_event" where
  "fill_clmm_ticks derive remaining e =
     (if cls_pool_state e \<noteq> default_pubkey \<and> remaining \<noteq> []
      then (let bitmap_pda = tick_array_bitmap_extension_pda derive (cls_pool_state e);
                bitmap = (if bitmap_pda \<in> set remaining then Some bitmap_pda else None);
                ticks = filter (\<lambda>key. key \<noteq> bitmap_pda) remaining
            in e\<lparr>cls_tick_array_bitmap_extension :=
                   (if cls_tick_array_bitmap_extension e = None then bitmap else cls_tick_array_bitmap_extension e),
                 cls_tick_arrays := ticks\<rparr>)
      else e\<lparr>cls_tick_arrays := remaining\<rparr>)"

definition fill_clmm_swap_accounts_impl :: "address_derivation \<Rightarrow> (nat \<Rightarrow> pubkey) \<Rightarrow> nat option
    \<Rightarrow> raydium_clmm_swap_event \<Rightarrow> raydium_clmm_swap_event" where
  "fill_clmm_swap_accounts_impl derive get account_count e =
     (let e = e\<lparr>cls_pool_state := fill_if_default (cls_pool_state e) (get 2),
                cls_sender := fill_if_default (cls_sender e) (get 0),
                cls_token_account_0 := fill_if_default (cls_token_account_0 e) (get 3),
                cls_token_account_1 := fill_if_default (cls_token_account_1 e) (get 4),
                cls_amm_config := fill_if_default (cls_amm_config e) (get 1),
                cls_input_vault := fill_if_default (cls_input_vault e) (get 5),
                cls_output_vault := fill_if_default (cls_output_vault e) (get 6),
                cls_observation_state := fill_if_default (cls_observation_state e) (get 7)\<rparr>;
          is_swap_v2 = (if cls_ix_name e = ''swap'' then False
                        else if cls_ix_name e = ''swap_v2'' then True else get 10 = MEMO_PROGRAM);
          e = (if is_swap_v2
               then e\<lparr>cls_input_mint := fill_if_default (cls_input_mint e) (get 11),
                 cls_output_mint := fill_if_default (cls_output_mint e) (get 12)\<rparr>
               else e);
          remaining_start = (if is_swap_v2 then 13 else 9)
      in if cls_tick_arrays e = [] then fill_clmm_ticks derive (clmm_remaining get remaining_start account_count) e else e)"

definition fill_amm_v4_swap_accounts :: "(nat \<Rightarrow> pubkey) \<Rightarrow> raydium_amm_v4_swap_event \<Rightarrow> raydium_amm_v4_swap_event" where
  "fill_amm_v4_swap_accounts get e =
     e\<lparr>avs_amm := fill_if_default (avs_amm e) (get 1)\<rparr>"

section \<open>Orca\<close>

definition orca_v2_layout :: "(nat \<Rightarrow> pubkey) \<Rightarrow> orca_whirlpool_swap_event \<Rightarrow> bool" where
  "orca_v2_layout get e =
     (if ows_ix_name e = ''swap'' then False else if ows_ix_name e = ''swap_v2'' then True
      else get 2 = MEMO_PROGRAM \<or> (ows_whirlpool e \<noteq> default_pubkey \<and> get 4 = ows_whirlpool e))"

definition fill_orca_v2 :: "(nat \<Rightarrow> pubkey) \<Rightarrow> orca_whirlpool_swap_event \<Rightarrow> orca_whirlpool_swap_event" where
  "fill_orca_v2 get e =
     e\<lparr>ows_whirlpool := fill_if_default (ows_whirlpool e) (get 4),
       ows_token_program_a := fill_pk (ows_token_program_a e) (get 0),
       ows_token_program_b := fill_pk (ows_token_program_b e) (get 1),
       ows_token_authority := fill_pk (ows_token_authority e) (get 3),
       ows_token_owner_account_a := fill_pk (ows_token_owner_account_a e) (get 7),
       ows_token_owner_account_b := fill_pk (ows_token_owner_account_b e) (get 9),
       ows_token_mint_a := fill_pk (ows_token_mint_a e) (get 5),
       ows_token_mint_b := fill_pk (ows_token_mint_b e) (get 6),
       ows_token_vault_a := fill_pk (ows_token_vault_a e) (get 8),
       ows_token_vault_b := fill_pk (ows_token_vault_b e) (get 10),
       ows_tick_array_0 := fill_pk (ows_tick_array_0 e) (get 11),
       ows_tick_array_1 := fill_pk (ows_tick_array_1 e) (get 12),
       ows_tick_array_2 := fill_pk (ows_tick_array_2 e) (get 13),
       ows_oracle := fill_pk (ows_oracle e) (get 14)\<rparr>"

definition fill_orca_v1 :: "(nat \<Rightarrow> pubkey) \<Rightarrow> orca_whirlpool_swap_event \<Rightarrow> orca_whirlpool_swap_event" where
  "fill_orca_v1 get e =
     e\<lparr>ows_whirlpool := fill_if_default (ows_whirlpool e) (get 2),
       ows_token_authority := fill_pk (ows_token_authority e) (get 1),
       ows_token_owner_account_a := fill_pk (ows_token_owner_account_a e) (get 3),
       ows_token_owner_account_b := fill_pk (ows_token_owner_account_b e) (get 5),
       ows_token_program_a := fill_pk (ows_token_program_a e) (get 0),
       ows_token_program_b := fill_pk (ows_token_program_b e) (get 0),
       ows_token_vault_a := fill_pk (ows_token_vault_a e) (get 4),
       ows_token_vault_b := fill_pk (ows_token_vault_b e) (get 6),
       ows_tick_array_0 := fill_pk (ows_tick_array_0 e) (get 7),
       ows_tick_array_1 := fill_pk (ows_tick_array_1 e) (get 8),
       ows_tick_array_2 := fill_pk (ows_tick_array_2 e) (get 9),
       ows_oracle := fill_pk (ows_oracle e) (get 10)\<rparr>"

definition fill_whirlpool_swap_accounts :: "(nat \<Rightarrow> pubkey) \<Rightarrow> orca_whirlpool_swap_event \<Rightarrow> orca_whirlpool_swap_event" where
  "fill_whirlpool_swap_accounts get e = (if orca_v2_layout get e then fill_orca_v2 get e else fill_orca_v1 get e)"

section \<open>Meteora\<close>

definition fill_pools_swap_accounts :: "(nat \<Rightarrow> pubkey) \<Rightarrow> meteora_pools_swap_event \<Rightarrow> meteora_pools_swap_event" where
  "fill_pools_swap_accounts get e =
     e\<lparr>mps_pool := fill_if_default (mps_pool e) (get 0),
       mps_user_source_token := fill_if_default (mps_user_source_token e) (get 1),
       mps_user_destination_token := fill_if_default (mps_user_destination_token e) (get 2),
       mps_a_vault := fill_if_default (mps_a_vault e) (get 3),
       mps_b_vault := fill_if_default (mps_b_vault e) (get 4),
       mps_a_token_vault := fill_if_default (mps_a_token_vault e) (get 5),
       mps_b_token_vault := fill_if_default (mps_b_token_vault e) (get 6),
       mps_a_vault_lp_mint := fill_if_default (mps_a_vault_lp_mint e) (get 7),
       mps_b_vault_lp_mint := fill_if_default (mps_b_vault_lp_mint e) (get 8),
       mps_a_vault_lp := fill_if_default (mps_a_vault_lp e) (get 9),
       mps_b_vault_lp := fill_if_default (mps_b_vault_lp e) (get 10),
       mps_protocol_token_fee := fill_if_default (mps_protocol_token_fee e) (get 11),
       mps_user := fill_if_default (mps_user e) (get 12),
       mps_vault_program := fill_if_default (mps_vault_program e) (get 13),
       mps_token_program := fill_if_default (mps_token_program e) (get 14)\<rparr>"

definition fill_pools_add_liquidity_accounts :: "(nat \<Rightarrow> pubkey) \<Rightarrow> meteora_pools_add_liquidity_event \<Rightarrow> meteora_pools_add_liquidity_event" where
  "fill_pools_add_liquidity_accounts get e =
     e\<lparr>mpa_pool := fill_if_default (mpa_pool e) (get 0),
       mpa_lp_mint := fill_if_default (mpa_lp_mint e) (get 1),
       mpa_user_pool_lp := fill_if_default (mpa_user_pool_lp e) (get 2),
       mpa_a_vault_lp := fill_if_default (mpa_a_vault_lp e) (get 3),
       mpa_b_vault_lp := fill_if_default (mpa_b_vault_lp e) (get 4),
       mpa_a_vault := fill_if_default (mpa_a_vault e) (get 5),
       mpa_b_vault := fill_if_default (mpa_b_vault e) (get 6),
       mpa_a_vault_lp_mint := fill_if_default (mpa_a_vault_lp_mint e) (get 7),
       mpa_b_vault_lp_mint := fill_if_default (mpa_b_vault_lp_mint e) (get 8),
       mpa_a_token_vault := fill_if_default (mpa_a_token_vault e) (get 9),
       mpa_b_token_vault := fill_if_default (mpa_b_token_vault e) (get 10),
       mpa_user_a_token := fill_if_default (mpa_user_a_token e) (get 11),
       mpa_user_b_token := fill_if_default (mpa_user_b_token e) (get 12),
       mpa_user := fill_if_default (mpa_user e) (get 13),
       mpa_vault_program := fill_if_default (mpa_vault_program e) (get 14),
       mpa_token_program := fill_if_default (mpa_token_program e) (get 15)\<rparr>"

definition fill_pools_remove_liquidity_accounts :: "(nat \<Rightarrow> pubkey) \<Rightarrow> meteora_pools_remove_liquidity_event \<Rightarrow> meteora_pools_remove_liquidity_event" where
  "fill_pools_remove_liquidity_accounts get e =
     (let e = e\<lparr>mpr_pool := fill_if_default (mpr_pool e) (get 0),
                mpr_lp_mint := fill_if_default (mpr_lp_mint e) (get 1),
                mpr_user_pool_lp := fill_if_default (mpr_user_pool_lp e) (get 2),
                mpr_a_vault_lp := fill_if_default (mpr_a_vault_lp e) (get 3),
                mpr_b_vault_lp := fill_if_default (mpr_b_vault_lp e) (get 4),
                mpr_a_vault := fill_if_default (mpr_a_vault e) (get 5),
                mpr_b_vault := fill_if_default (mpr_b_vault e) (get 6),
                mpr_a_vault_lp_mint := fill_if_default (mpr_a_vault_lp_mint e) (get 7),
                mpr_b_vault_lp_mint := fill_if_default (mpr_b_vault_lp_mint e) (get 8),
                mpr_a_token_vault := fill_if_default (mpr_a_token_vault e) (get 9),
                mpr_b_token_vault := fill_if_default (mpr_b_token_vault e) (get 10)\<rparr>;
          single_side = mpr_ix_name e = ''remove_liquidity_single_side'';
          e = (if single_side
               then e\<lparr>mpr_user_destination_token := fill_if_default (mpr_user_destination_token e) (get 11)\<rparr>
               else e\<lparr>mpr_user_a_token := fill_if_default (mpr_user_a_token e) (get 11),
                 mpr_user_b_token := fill_if_default (mpr_user_b_token e) (get 12)\<rparr>)
      in e\<lparr>mpr_user := fill_if_default (mpr_user e) (get (if single_side then 12 else 13)),
           mpr_vault_program := fill_if_default (mpr_vault_program e) (get (if single_side then 13 else 14)),
           mpr_token_program := fill_if_default (mpr_token_program e) (get (if single_side then 14 else 15))\<rparr>)"

definition fill_pools_bootstrap_liquidity_accounts :: "(nat \<Rightarrow> pubkey) \<Rightarrow> meteora_pools_bootstrap_liquidity_event \<Rightarrow> meteora_pools_bootstrap_liquidity_event" where
  "fill_pools_bootstrap_liquidity_accounts get e =
     e\<lparr>mpb_pool := fill_if_default (mpb_pool e) (get 0),
       mpb_lp_mint := fill_if_default (mpb_lp_mint e) (get 1),
       mpb_user_pool_lp := fill_if_default (mpb_user_pool_lp e) (get 2),
       mpb_a_vault_lp := fill_if_default (mpb_a_vault_lp e) (get 3),
       mpb_b_vault_lp := fill_if_default (mpb_b_vault_lp e) (get 4),
       mpb_a_vault := fill_if_default (mpb_a_vault e) (get 5),
       mpb_b_vault := fill_if_default (mpb_b_vault e) (get 6),
       mpb_a_vault_lp_mint := fill_if_default (mpb_a_vault_lp_mint e) (get 7),
       mpb_b_vault_lp_mint := fill_if_default (mpb_b_vault_lp_mint e) (get 8),
       mpb_a_token_vault := fill_if_default (mpb_a_token_vault e) (get 9),
       mpb_b_token_vault := fill_if_default (mpb_b_token_vault e) (get 10),
       mpb_user_a_token := fill_if_default (mpb_user_a_token e) (get 11),
       mpb_user_b_token := fill_if_default (mpb_user_b_token e) (get 12),
       mpb_user := fill_if_default (mpb_user e) (get 13),
       mpb_vault_program := fill_if_default (mpb_vault_program e) (get 14),
       mpb_token_program := fill_if_default (mpb_token_program e) (get 15)\<rparr>"

definition fill_pool_created_permissioned :: "(nat \<Rightarrow> pubkey) \<Rightarrow> meteora_pools_pool_created_event \<Rightarrow> meteora_pools_pool_created_event" where
  "fill_pool_created_permissioned get e =
     e\<lparr>mpc_pool := fill_if_default (mpc_pool e) (get 0),
       mpc_lp_mint := fill_if_default (mpc_lp_mint e) (get 1),
       mpc_token_a_mint := fill_if_default (mpc_token_a_mint e) (get 2),
       mpc_token_b_mint := fill_if_default (mpc_token_b_mint e) (get 3),
       mpc_a_vault := fill_if_default (mpc_a_vault e) (get 4),
       mpc_b_vault := fill_if_default (mpc_b_vault e) (get 5),
       mpc_a_vault_lp_mint := fill_if_default (mpc_a_vault_lp_mint e) (get 6),
       mpc_b_vault_lp_mint := fill_if_default (mpc_b_vault_lp_mint e) (get 7),
       mpc_a_vault_lp := fill_if_default (mpc_a_vault_lp e) (get 8),
       mpc_b_vault_lp := fill_if_default (mpc_b_vault_lp e) (get 9),
       mpc_admin_token_a := fill_if_default (mpc_admin_token_a e) (get 10),
       mpc_admin_token_b := fill_if_default (mpc_admin_token_b e) (get 11),
       mpc_admin_pool_lp := fill_if_default (mpc_admin_pool_lp e) (get 12),
       mpc_protocol_token_a_fee := fill_if_default (mpc_protocol_token_a_fee e) (get 13),
       mpc_protocol_token_b_fee := fill_if_default (mpc_protocol_token_b_fee e) (get 14),
       mpc_admin := fill_if_default (mpc_admin e) (get 15),
       mpc_fee_owner := fill_if_default (mpc_fee_owner e) (get 16),
       mpc_rent := fill_if_default (mpc_rent e) (get 17),
       mpc_mint_metadata := fill_if_default (mpc_mint_metadata e) (get 18),
       mpc_metadata_program := fill_if_default (mpc_metadata_program e) (get 19),
       mpc_vault_program := fill_if_default (mpc_vault_program e) (get 20),
       mpc_token_program := fill_if_default (mpc_token_program e) (get 21),
       mpc_associated_token_program := fill_if_default (mpc_associated_token_program e) (get 22),
       mpc_system_program := fill_if_default (mpc_system_program e) (get 23)\<rparr>"

definition fill_pool_created_permissionless :: "(nat \<Rightarrow> pubkey) \<Rightarrow> meteora_pools_pool_created_event \<Rightarrow> meteora_pools_pool_created_event" where
  "fill_pool_created_permissionless get e =
     e\<lparr>mpc_pool := fill_if_default (mpc_pool e) (get 0),
       mpc_lp_mint := fill_if_default (mpc_lp_mint e) (get 1),
       mpc_token_a_mint := fill_if_default (mpc_token_a_mint e) (get 2),
       mpc_token_b_mint := fill_if_default (mpc_token_b_mint e) (get 3),
       mpc_a_vault := fill_if_default (mpc_a_vault e) (get 4),
       mpc_b_vault := fill_if_default (mpc_b_vault e) (get 5),
       mpc_a_token_vault := fill_if_default (mpc_a_token_vault e) (get 6),
       mpc_b_token_vault := fill_if_default (mpc_b_token_vault e) (get 7),
       mpc_a_vault_lp_mint := fill_if_default (mpc_a_vault_lp_mint e) (get 8),
       mpc_b_vault_lp_mint := fill_if_default (mpc_b_vault_lp_mint e) (get 9),
       mpc_a_vault_lp := fill_if_default (mpc_a_vault_lp e) (get 10),
       mpc_b_vault_lp := fill_if_default (mpc_b_vault_lp e) (get 11),
       mpc_payer_token_a := fill_if_default (mpc_payer_token_a e) (get 12),
       mpc_payer_token_b := fill_if_default (mpc_payer_token_b e) (get 13),
       mpc_payer_pool_lp := fill_if_default (mpc_payer_pool_lp e) (get 14),
       mpc_protocol_token_a_fee := fill_if_default (mpc_protocol_token_a_fee e) (get 15),
       mpc_protocol_token_b_fee := fill_if_default (mpc_protocol_token_b_fee e) (get 16),
       mpc_payer := fill_if_default (mpc_payer e) (get 17),
       mpc_fee_owner := fill_if_default (mpc_fee_owner e) (get 18),
       mpc_rent := fill_if_default (mpc_rent e) (get 19),
       mpc_mint_metadata := fill_if_default (mpc_mint_metadata e) (get 20),
       mpc_metadata_program := fill_if_default (mpc_metadata_program e) (get 21),
       mpc_vault_program := fill_if_default (mpc_vault_program e) (get 22),
       mpc_token_program := fill_if_default (mpc_token_program e) (get 23),
       mpc_associated_token_program := fill_if_default (mpc_associated_token_program e) (get 24),
       mpc_system_program := fill_if_default (mpc_system_program e) (get 25)\<rparr>"

definition fill_pool_created_customizable :: "(nat \<Rightarrow> pubkey) \<Rightarrow> meteora_pools_pool_created_event \<Rightarrow> meteora_pools_pool_created_event" where
  "fill_pool_created_customizable get e =
     e\<lparr>mpc_pool := fill_if_default (mpc_pool e) (get 0),
       mpc_lp_mint := fill_if_default (mpc_lp_mint e) (get 1),
       mpc_token_a_mint := fill_if_default (mpc_token_a_mint e) (get 2),
       mpc_token_b_mint := fill_if_default (mpc_token_b_mint e) (get 3),
       mpc_a_vault := fill_if_default (mpc_a_vault e) (get 4),
       mpc_b_vault := fill_if_default (mpc_b_vault e) (get 5),
       mpc_a_token_vault := fill_if_default (mpc_a_token_vault e) (get 6),
       mpc_b_token_vault := fill_if_default (mpc_b_token_vault e) (get 7),
       mpc_a_vault_lp_mint := fill_if_default (mpc_a_vault_lp_mint e) (get 8),
       mpc_b_vault_lp_mint := fill_if_default (mpc_b_vault_lp_mint e) (get 9),
       mpc_a_vault_lp := fill_if_default (mpc_a_vault_lp e) (get 10),
       mpc_b_vault_lp := fill_if_default (mpc_b_vault_lp e) (get 11),
       mpc_payer_token_a := fill_if_default (mpc_payer_token_a e) (get 12),
       mpc_payer_token_b := fill_if_default (mpc_payer_token_b e) (get 13),
       mpc_payer_pool_lp := fill_if_default (mpc_payer_pool_lp e) (get 14),
       mpc_protocol_token_a_fee := fill_if_default (mpc_protocol_token_a_fee e) (get 15),
       mpc_protocol_token_b_fee := fill_if_default (mpc_protocol_token_b_fee e) (get 16),
       mpc_payer := fill_if_default (mpc_payer e) (get 17),
       mpc_rent := fill_if_default (mpc_rent e) (get 18),
       mpc_mint_metadata := fill_if_default (mpc_mint_metadata e) (get 19),
       mpc_metadata_program := fill_if_default (mpc_metadata_program e) (get 20),
       mpc_vault_program := fill_if_default (mpc_vault_program e) (get 21),
       mpc_token_program := fill_if_default (mpc_token_program e) (get 22),
       mpc_associated_token_program := fill_if_default (mpc_associated_token_program e) (get 23),
       mpc_system_program := fill_if_default (mpc_system_program e) (get 24)\<rparr>"

definition fill_pool_created_configured :: "(nat \<Rightarrow> pubkey) \<Rightarrow> meteora_pools_pool_created_event \<Rightarrow> meteora_pools_pool_created_event" where
  "fill_pool_created_configured get e =
     e\<lparr>mpc_pool := fill_if_default (mpc_pool e) (get 0),
       mpc_config := fill_if_default (mpc_config e) (get 1),
       mpc_lp_mint := fill_if_default (mpc_lp_mint e) (get 2),
       mpc_token_a_mint := fill_if_default (mpc_token_a_mint e) (get 3),
       mpc_token_b_mint := fill_if_default (mpc_token_b_mint e) (get 4),
       mpc_a_vault := fill_if_default (mpc_a_vault e) (get 5),
       mpc_b_vault := fill_if_default (mpc_b_vault e) (get 6),
       mpc_a_token_vault := fill_if_default (mpc_a_token_vault e) (get 7),
       mpc_b_token_vault := fill_if_default (mpc_b_token_vault e) (get 8),
       mpc_a_vault_lp_mint := fill_if_default (mpc_a_vault_lp_mint e) (get 9),
       mpc_b_vault_lp_mint := fill_if_default (mpc_b_vault_lp_mint e) (get 10),
       mpc_a_vault_lp := fill_if_default (mpc_a_vault_lp e) (get 11),
       mpc_b_vault_lp := fill_if_default (mpc_b_vault_lp e) (get 12),
       mpc_payer_token_a := fill_if_default (mpc_payer_token_a e) (get 13),
       mpc_payer_token_b := fill_if_default (mpc_payer_token_b e) (get 14),
       mpc_payer_pool_lp := fill_if_default (mpc_payer_pool_lp e) (get 15),
       mpc_protocol_token_a_fee := fill_if_default (mpc_protocol_token_a_fee e) (get 16),
       mpc_protocol_token_b_fee := fill_if_default (mpc_protocol_token_b_fee e) (get 17),
       mpc_payer := fill_if_default (mpc_payer e) (get 18),
       mpc_rent := fill_if_default (mpc_rent e) (get 19),
       mpc_mint_metadata := fill_if_default (mpc_mint_metadata e) (get 20),
       mpc_metadata_program := fill_if_default (mpc_metadata_program e) (get 21),
       mpc_vault_program := fill_if_default (mpc_vault_program e) (get 22),
       mpc_token_program := fill_if_default (mpc_token_program e) (get 23),
       mpc_associated_token_program := fill_if_default (mpc_associated_token_program e) (get 24),
       mpc_system_program := fill_if_default (mpc_system_program e) (get 25)\<rparr>"

definition fill_pools_pool_created_accounts :: "(nat \<Rightarrow> pubkey) \<Rightarrow> meteora_pools_pool_created_event \<Rightarrow> meteora_pools_pool_created_event" where
  "fill_pools_pool_created_accounts get e =
     (if mpc_ix_name e = ''initialize_permissioned_pool'' then fill_pool_created_permissioned get e
      else if mpc_ix_name e \<in> {''initialize_permissionless_pool'', ''initialize_permissionless_pool_with_fee_tier''}
      then fill_pool_created_permissionless get e
      else if mpc_ix_name e = ''initialize_customizable_permissionless_constant_product_pool''
      then fill_pool_created_customizable get e
      else fill_pool_created_configured get e)"

definition fill_pools_set_pool_fees_accounts :: "(nat \<Rightarrow> pubkey) \<Rightarrow> meteora_pools_set_pool_fees_event \<Rightarrow> meteora_pools_set_pool_fees_event" where
  "fill_pools_set_pool_fees_accounts get e =
     e\<lparr>mpf_pool := fill_if_default (mpf_pool e) (get 0),
       mpf_fee_operator := fill_if_default (mpf_fee_operator e) (get 1)\<rparr>"

text \<open>The bin arrays up to the first unknown key.\<close>

definition dlmm_bins :: "(nat \<Rightarrow> pubkey) \<Rightarrow> nat \<Rightarrow> nat \<Rightarrow> pubkey list" where
  "dlmm_bins get bins_start bins_end = takeWhile (\<lambda>key. key \<noteq> default_pubkey) (map get [bins_start..<bins_end])"

definition fill_dlmm_fixed :: "(nat \<Rightarrow> pubkey) \<Rightarrow> meteora_dlmm_swap_event \<Rightarrow> meteora_dlmm_swap_event" where
  "fill_dlmm_fixed get e =
     e\<lparr>dls_pool := fill_if_default (dls_pool e) (get 0),
       dls_user_token_in := fill_if_default (dls_user_token_in e) (get 4),
       dls_user_token_out := fill_if_default (dls_user_token_out e) (get 5),
       dls_token_x_mint := fill_if_default (dls_token_x_mint e) (get 6),
       dls_token_y_mint := fill_if_default (dls_token_y_mint e) (get 7),
       dls_reserve_x := fill_if_default (dls_reserve_x e) (get 2),
       dls_reserve_y := fill_if_default (dls_reserve_y e) (get 3),
       dls_oracle := fill_if_default (dls_oracle e) (get 8),
       dls_token_x_program := fill_if_default (dls_token_x_program e) (get 11),
       dls_token_y_program := fill_if_default (dls_token_y_program e) (get 12)\<rparr>"

definition fill_dlmm_bitmap :: "(nat \<Rightarrow> pubkey) \<Rightarrow> bool \<Rightarrow> meteora_dlmm_swap_event \<Rightarrow> meteora_dlmm_swap_event" where
  "fill_dlmm_bitmap get is_swap2 e =
     (if dls_bitmap_extension e = None
      then (let ext = get 1; program = get (if is_swap2 then 15 else 14)
            in if ext \<noteq> default_pubkey \<and> ext \<noteq> dls_pool e \<and> ext \<noteq> program
               then e\<lparr>dls_bitmap_extension := Some ext\<rparr> else e)
      else e)"

definition fill_dlmm_bins :: "(nat \<Rightarrow> pubkey) \<Rightarrow> nat \<Rightarrow> nat \<Rightarrow> meteora_dlmm_swap_event \<Rightarrow> meteora_dlmm_swap_event" where
  "fill_dlmm_bins get bins_start bins_end e =
     (if dls_bin_arrays e = []
      then (if bins_start \<ge> bins_end \<or> get bins_start = default_pubkey then e
            else e\<lparr>dls_bin_arrays := dlmm_bins get bins_start bins_end\<rparr>)
      else e)"

definition fill_dlmm_swap_accounts_with_layout :: "(nat \<Rightarrow> pubkey) \<Rightarrow> nat \<Rightarrow> nat \<Rightarrow> bool
    \<Rightarrow> meteora_dlmm_swap_event \<Rightarrow> meteora_dlmm_swap_event" where
  "fill_dlmm_swap_accounts_with_layout get bins_start bins_end is_swap2 e =
     fill_dlmm_bins get bins_start bins_end (fill_dlmm_bitmap get is_swap2 (fill_dlmm_fixed get e))"

section \<open>Pools, positions and liquidity\<close>

definition fill_clmm_create_pool_accounts :: "(nat \<Rightarrow> pubkey) \<Rightarrow> raydium_clmm_create_pool_event \<Rightarrow> raydium_clmm_create_pool_event" where
  "fill_clmm_create_pool_accounts get e =
     e\<lparr>clc_creator := fill_if_default (clc_creator e) (get 0),
       clc_pool := fill_if_default (clc_pool e) (get 2),
       clc_token_0_mint := fill_if_default (clc_token_0_mint e) (get 3),
       clc_token_1_mint := fill_if_default (clc_token_1_mint e) (get 4),
       clc_token_vault_0 := fill_if_default (clc_token_vault_0 e) (get 5),
       clc_token_vault_1 := fill_if_default (clc_token_vault_1 e) (get 6)\<rparr>"

definition fill_clmm_open_position_accounts_with_layout :: "bool \<Rightarrow> (nat \<Rightarrow> pubkey) \<Rightarrow> raydium_clmm_open_position_event
    \<Rightarrow> raydium_clmm_open_position_event" where
  "fill_clmm_open_position_accounts_with_layout token_22_nft get e =
     e\<lparr>clo_user := fill_if_default (clo_user e) (get 1),
       clo_position_nft_mint := fill_if_default (clo_position_nft_mint e) (get 2),
       clo_pool := fill_if_default (clo_pool e) (get (if token_22_nft then 4 else 5))\<rparr>"

definition fill_clmm_close_position_accounts :: "(nat \<Rightarrow> pubkey) \<Rightarrow> raydium_clmm_close_position_event \<Rightarrow> raydium_clmm_close_position_event" where
  "fill_clmm_close_position_accounts get e =
     e\<lparr>clx_user := fill_if_default (clx_user e) (get 0),
       clx_position_nft_mint := fill_if_default (clx_position_nft_mint e) (get 1)\<rparr>"

definition fill_clmm_increase_liquidity_accounts :: "(nat \<Rightarrow> pubkey) \<Rightarrow> raydium_clmm_increase_liquidity_event \<Rightarrow> raydium_clmm_increase_liquidity_event" where
  "fill_clmm_increase_liquidity_accounts get e =
     e\<lparr>cli_user := fill_if_default (cli_user e) (get 0),
       cli_pool := fill_if_default (cli_pool e) (get 2)\<rparr>"

definition fill_clmm_decrease_liquidity_accounts :: "(nat \<Rightarrow> pubkey) \<Rightarrow> raydium_clmm_decrease_liquidity_event \<Rightarrow> raydium_clmm_decrease_liquidity_event" where
  "fill_clmm_decrease_liquidity_accounts get e =
     e\<lparr>cld_user := fill_if_default (cld_user e) (get 0),
       cld_pool := fill_if_default (cld_pool e) (get 3)\<rparr>"

definition fill_cpmm_deposit_accounts :: "(nat \<Rightarrow> pubkey) \<Rightarrow> raydium_cpmm_deposit_event \<Rightarrow> raydium_cpmm_deposit_event" where
  "fill_cpmm_deposit_accounts get e =
     e\<lparr>cpd_user := fill_if_default (cpd_user e) (get 0)\<rparr>"

definition fill_cpmm_withdraw_accounts :: "(nat \<Rightarrow> pubkey) \<Rightarrow> raydium_cpmm_withdraw_event \<Rightarrow> raydium_cpmm_withdraw_event" where
  "fill_cpmm_withdraw_accounts get e =
     e\<lparr>cpw_user := fill_if_default (cpw_user e) (get 0)\<rparr>"

definition fill_cpmm_initialize_accounts :: "(nat \<Rightarrow> pubkey) \<Rightarrow> raydium_cpmm_initialize_event \<Rightarrow> raydium_cpmm_initialize_event" where
  "fill_cpmm_initialize_accounts get e =
     e\<lparr>cpn_creator := fill_if_default (cpn_creator e) (get 0),
       cpn_pool := fill_if_default (cpn_pool e) (get 3)\<rparr>"

definition fill_amm_v4_deposit_accounts :: "(nat \<Rightarrow> pubkey) \<Rightarrow> raydium_amm_v4_deposit_event \<Rightarrow> raydium_amm_v4_deposit_event" where
  "fill_amm_v4_deposit_accounts get e =
     e\<lparr>avd_token_program := fill_if_default (avd_token_program e) (get 0),
       avd_amm_authority := fill_if_default (avd_amm_authority e) (get 2)\<rparr>"

definition fill_amm_v4_withdraw_accounts :: "(nat \<Rightarrow> pubkey) \<Rightarrow> raydium_amm_v4_withdraw_event \<Rightarrow> raydium_amm_v4_withdraw_event" where
  "fill_amm_v4_withdraw_accounts get e =
     e\<lparr>avw_token_program := fill_if_default (avw_token_program e) (get 0),
       avw_amm_authority := fill_if_default (avw_amm_authority e) (get 2),
       avw_amm_open_orders := fill_if_default (avw_amm_open_orders e) (get 3)\<rparr>"

definition fill_whirlpool_liquidity_increased_accounts :: "(nat \<Rightarrow> pubkey) \<Rightarrow> orca_liquidity_increased_event
    \<Rightarrow> orca_liquidity_increased_event" where
  "fill_whirlpool_liquidity_increased_accounts get e =
     (if owi_position e = default_pubkey
      then e\<lparr>owi_position := get (if get 3 = MEMO_PROGRAM then 5 else 3)\<rparr> else e)"

definition fill_whirlpool_liquidity_decreased_accounts :: "(nat \<Rightarrow> pubkey) \<Rightarrow> orca_liquidity_decreased_event
    \<Rightarrow> orca_liquidity_decreased_event" where
  "fill_whirlpool_liquidity_decreased_accounts get e =
     (if owd_position e = default_pubkey
      then e\<lparr>owd_position := get (if get 3 = MEMO_PROGRAM then 5 else 3)\<rparr> else e)"

definition fill_damm_v2_initialize_pool_accounts_with_layout :: "bool \<Rightarrow> (nat \<Rightarrow> pubkey)
    \<Rightarrow> meteora_damm_v2_initialize_pool_event \<Rightarrow> meteora_damm_v2_initialize_pool_event" where
  "fill_damm_v2_initialize_pool_accounts_with_layout dynamic get e =
     (let shift = of_bool dynamic
      in e\<lparr>dvi_creator := fill_if_default (dvi_creator e) (get 0),
           dvi_position_nft_mint := fill_if_default (dvi_position_nft_mint e) (get 1),
           dvi_pool := fill_if_default (dvi_pool e) (get (6 + shift)),
           dvi_position := fill_if_default (dvi_position e) (get (7 + shift)),
           dvi_token_a_mint := fill_if_default (dvi_token_a_mint e) (get (8 + shift)),
           dvi_token_b_mint := fill_if_default (dvi_token_b_mint e) (get (9 + shift))\<rparr>)"

end
