(* ===== verification/Liquidity_Search.thy ===== *)
theory Liquidity_Search
  imports Context_Search Creator_Fee
begin

text \<open>
  The context tests of the events of pools, positions and liquidity (\<open>src/core/account_dispatcher.rs\<close>): Orca liquidity,
  Raydium CLMM management, CPMM and AMM V4 liquidity, and Meteora DAMM pools.
\<close>

section \<open>Orca\<close>

text \<open>The place of the position, and the least number of accounts.\<close>

definition orca_liquidity_shape :: "bool \<Rightarrow> bytes option \<Rightarrow> (nat \<times> nat) option" where
  "orca_liquidity_shape increase disc =
     (case disc of None \<Rightarrow> None
      | Some d \<Rightarrow>
          if (increase \<and> d = ORCA_INCREASE_LIQUIDITY) \<or> (\<not> increase \<and> d = ORCA_DECREASE_LIQUIDITY) then Some (3, 11)
          else if (increase \<and> d = ORCA_INCREASE_LIQUIDITY_V2) \<or> (\<not> increase \<and> d = ORCA_DECREASE_LIQUIDITY_V2)
          then Some (5, 15)
          else None)"

definition orca_liquidity_matches :: "bool \<Rightarrow> pubkey \<Rightarrow> pubkey \<Rightarrow> context_test" where
  "orca_liquidity_matches increase pool position data get count =
     (case orca_liquidity_shape increase (get_range 0 8 data) of None \<Rightarrow> False
      | Some (position_index, minimum) \<Rightarrow>
          count \<ge> minimum \<and> length data \<ge> 40 \<and> (position_index \<noteq> 5 \<or> get 3 = MEMO_PROGRAM) \<and>
          known_accounts_match get [(pool, 0), (position, position_index)])"

definition find_orca_liquidity_invoke :: "group_search \<Rightarrow> invoke list \<Rightarrow> status_meta \<Rightarrow> transaction option
    \<Rightarrow> pubkey \<Rightarrow> pubkey \<Rightarrow> bool \<Rightarrow> invoke option" where
  "find_orca_liquidity_invoke search invokes meta tx pool position increase =
     find_context_invoke search invokes meta tx (orca_liquidity_matches increase pool position)"

section \<open>Raydium CLMM\<close>

definition CLMM_INCREASE_LIQUIDITY :: bytes where
  "CLMM_INCREASE_LIQUIDITY = [46, 156, 243, 118, 13, 205, 251, 178]"

definition CLMM_DECREASE_LIQUIDITY :: bytes where
  "CLMM_DECREASE_LIQUIDITY = [160, 38, 208, 111, 104, 91, 44, 1]"

definition valid_option_bool :: "bytes \<Rightarrow> nat \<Rightarrow> bool" where
  "valid_option_bool data offset =
     (case get_at offset data of None \<Rightarrow> False
      | Some v \<Rightarrow>
          if v = 0 then length data = offset + 1
          else if v = 1 then length data = offset + 2 \<and> data ! (offset + 1) \<le> 1 else False)"

definition bool_byte_at :: "bytes \<Rightarrow> nat \<Rightarrow> bool" where
  "bool_byte_at data offset = (case get_at offset data of None \<Rightarrow> False | Some v \<Rightarrow> v \<le> 1)"

definition clmm_management_shape :: "bytes \<Rightarrow> nat \<Rightarrow> (nat \<times> nat) option" where
  "clmm_management_shape data count =
     (case get_range 0 8 data of None \<Rightarrow> None
      | Some disc \<Rightarrow>
          if disc = CLMM_CREATE_POOL \<and> count \<ge> 13 \<and> length data = 32 then Some (0, 2)
          else if disc = CLMM_CREATE_CUSTOMIZABLE_POOL \<and> count \<ge> 13 \<and> length data = 26 \<and> data ! 24 \<le> 2 \<and> data ! 25 \<le> 1
          then Some (0, 2)
          else if disc = CLMM_OPEN_POSITION \<and> count \<ge> 19 \<and> length data = 56 then Some (1, 5)
          else if disc = CLMM_OPEN_POSITION_V2 \<and> count \<ge> 22 \<and> bool_byte_at data 56 \<and> valid_option_bool data 57
          then Some (1, 5)
          else if disc = CLMM_OPEN_POSITION_WITH_TOKEN_22_NFT \<and> count \<ge> 20 \<and> bool_byte_at data 56 \<and> valid_option_bool data 57
          then Some (1, 4)
          else if disc = CLMM_CLOSE_POSITION \<and> count \<ge> 6 \<and> length data = 8 then Some (2, 0)
          else if (disc = CLMM_INCREASE_LIQUIDITY \<and> count \<ge> 12 \<and> length data = 40) \<or>
                  (disc = CLMM_INCREASE_LIQUIDITY_V2 \<and> count \<ge> 15 \<and> valid_option_bool data 40)
          then Some (3, 2)
          else if (disc = CLMM_DECREASE_LIQUIDITY \<and> count \<ge> 12 \<and> length data = 40) \<or>
                  (disc = CLMM_DECREASE_LIQUIDITY_V2 \<and> count \<ge> 16 \<and> length data = 40)
          then Some (4, 3)
          else None)"

datatype clmm_management_context =
  Context_Create raydium_clmm_create_pool_event
| Context_Open raydium_clmm_open_position_event
| Context_Close raydium_clmm_close_position_event
| Context_Increase raydium_clmm_increase_liquidity_event
| Context_Decrease raydium_clmm_decrease_liquidity_event

fun context_nft :: "clmm_management_context \<Rightarrow> pubkey" where
  "context_nft (Context_Increase e) = cli_position_nft_mint e"
| "context_nft (Context_Decrease e) = cld_position_nft_mint e"
| "context_nft (Context_Close e) = clx_position_nft_mint e"
| "context_nft context = default_pubkey"

text \<open>The personal position of the known NFT mint, at the given place.\<close>

definition personal_at :: "address_derivation \<Rightarrow> clmm_management_context \<Rightarrow> pubkey \<Rightarrow> bool" where
  "personal_at derive context key =
     (let nft = context_nft context
      in nft = default_pubkey \<or> key = fst (derive [map of_char ''position'', nft] RAYDIUM_CLMM_PROGRAM_ID))"

fun clmm_accounts_match :: "address_derivation \<Rightarrow> clmm_management_context \<Rightarrow> nat \<Rightarrow> nat \<Rightarrow> (nat \<Rightarrow> pubkey) \<Rightarrow> bool" where
  "clmm_accounts_match derive (Context_Create e) kind pool_index get \<longleftrightarrow>
     kind = 0 \<and>
     known_accounts_match get
       [(clc_creator e, 0), (clc_pool e, pool_index), (clc_token_0_mint e, 3), (clc_token_1_mint e, 4),
        (clc_token_vault_0 e, 5), (clc_token_vault_1 e, 6)]"
| "clmm_accounts_match derive (Context_Open e) kind pool_index get \<longleftrightarrow>
     kind = 1 \<and> known_accounts_match get [(clo_user e, 1), (clo_pool e, pool_index), (clo_position_nft_mint e, 2)]"
| "clmm_accounts_match derive (Context_Close e) kind pool_index get \<longleftrightarrow>
     kind = 2 \<and> known_accounts_match get [(clx_user e, 0), (clx_position_nft_mint e, 1)] \<and>
     personal_at derive (Context_Close e) (get 3)"
| "clmm_accounts_match derive (Context_Increase e) kind pool_index get \<longleftrightarrow>
     kind = 3 \<and> known_accounts_match get [(cli_user e, 0), (cli_pool e, pool_index)] \<and>
     personal_at derive (Context_Increase e) (get 4)"
| "clmm_accounts_match derive (Context_Decrease e) kind pool_index get \<longleftrightarrow>
     kind = 4 \<and> known_accounts_match get [(cld_user e, 0), (cld_pool e, pool_index)] \<and>
     personal_at derive (Context_Decrease e) (get 2)"

definition clmm_management_matches :: "address_derivation \<Rightarrow> clmm_management_context \<Rightarrow> context_test" where
  "clmm_management_matches derive context data get count =
     (case clmm_management_shape data count of None \<Rightarrow> False
      | Some (kind, pool_index) \<Rightarrow> clmm_accounts_match derive context kind pool_index get)"

definition find_clmm_management_invoke :: "address_derivation \<Rightarrow> group_search \<Rightarrow> invoke list \<Rightarrow> status_meta
    \<Rightarrow> transaction option \<Rightarrow> clmm_management_context \<Rightarrow> invoke option" where
  "find_clmm_management_invoke derive search invokes meta tx context =
     find_context_invoke search invokes meta tx (clmm_management_matches derive context)"

section \<open>Meteora DAMM\<close>

definition INITIALIZE_POOL_WITH_DYNAMIC_CONFIG :: bytes where
  "INITIALIZE_POOL_WITH_DYNAMIC_CONFIG = [149, 82, 72, 197, 253, 252, 68, 15]"

text \<open>An optional \<open>u64\<close> at the end of the data.\<close>

definition ends_with_option :: "bytes \<Rightarrow> nat \<Rightarrow> bool" where
  "ends_with_option data offset =
     (case get_at offset data of None \<Rightarrow> False
      | Some v \<Rightarrow>
          if v = 0 then length data = offset + 1 else if v = 1 then length data = offset + 9 else False)"

definition damm_initialize_shape :: "bytes \<Rightarrow> nat \<Rightarrow> bool option" where
  "damm_initialize_shape data count =
     (case get_range 0 8 data of None \<Rightarrow> None
      | Some disc \<Rightarrow>
          if disc = DAMM_INITIALIZE_POOL \<and> count \<ge> 20
          then (if ends_with_option data 40 then Some False else None)
          else if disc \<noteq> INITIALIZE_POOL_WITH_DYNAMIC_CONFIG \<or> count < 21 then None
          else do {
            b \<leftarrow> get_at 38 data;
            shift \<leftarrow> (if b = 0 then Some 0 else if b = 1 then Some 32 else None);
            has_alpha_vault \<leftarrow> get_at (71 + shift) data;
            if has_alpha_vault > 1 then None
            else if ends_with_option data (106 + shift) then Some True else None
          })"

definition damm_initialize_matches :: "meteora_damm_v2_initialize_pool_event \<Rightarrow> context_test" where
  "damm_initialize_matches e data get count =
     (case damm_initialize_shape data count of None \<Rightarrow> False
      | Some dynamic \<Rightarrow>
          (let shift = of_bool dynamic
           in known_accounts_match get
             [(dvi_creator e, 0), (dvi_payer e, 3), (dvi_position_nft_mint e, 1), (dvi_pool e, 6 + shift),
              (dvi_position e, 7 + shift), (dvi_token_a_mint e, 8 + shift), (dvi_token_b_mint e, 9 + shift)]))"

end
