(* ===== verification/Account_Dispatch.thy ===== *)
theory Account_Dispatch
  imports Account_Fillers Liquidity_Search
begin

text \<open>
  The dispatcher of the account fillers (\<open>fill_accounts_with_owned_keys\<close> of \<open>src/core/account_dispatcher.rs\<close>) and the
  fee flag of a PumpSwap trade (\<open>src/core/common_filler.rs\<close>). An event is handed to the search of its protocol over the
  invocations of its program; when exactly one invocation matches, the filler of the variant reads that
  instruction's accounts.
\<close>

section \<open>The dispatcher\<close>

text \<open>What the dispatcher works on besides the event, and the two external functions.\<close>

record fill_context =
  fc_derive :: address_derivation
  fc_search :: group_search
  fc_meta :: status_meta
  fc_tx :: "transaction option"
  fc_invokes :: "(pubkey \<times> invoke list) list"

definition on_found :: "fill_context \<Rightarrow> pubkey \<Rightarrow> (invoke list \<Rightarrow> 'a option) \<Rightarrow> ('a \<Rightarrow> 'e \<Rightarrow> 'e) \<Rightarrow> 'e \<Rightarrow> 'e" where
  "on_found c program find_invoke continue e =
     (case map_of (fc_invokes c) program of None \<Rightarrow> e
      | Some invokes \<Rightarrow> (case find_invoke invokes of None \<Rightarrow> e | Some found \<Rightarrow> continue found e))"

definition fill_event_accounts_with_invoke :: "fill_context \<Rightarrow> invoke \<Rightarrow> ((nat \<Rightarrow> pubkey) \<Rightarrow> 'e \<Rightarrow> 'e) \<Rightarrow> 'e \<Rightarrow> 'e" where
  "fill_event_accounts_with_invoke c index filler e =
     (case context_getter (fc_search c) (fc_meta c) (fc_tx c) index of None \<Rightarrow> e | Some get \<Rightarrow> filler get e)"

text \<open>The shape of most branches: find, then fill.\<close>

definition fill_by :: "fill_context \<Rightarrow> pubkey
    \<Rightarrow> (group_search \<Rightarrow> invoke list \<Rightarrow> status_meta \<Rightarrow> transaction option \<Rightarrow> invoke option)
    \<Rightarrow> ((nat \<Rightarrow> pubkey) \<Rightarrow> 'e \<Rightarrow> 'e) \<Rightarrow> 'e \<Rightarrow> 'e" where
  "fill_by c program find_invoke filler =
     on_found c program (\<lambda>invokes. find_invoke (fc_search c) invokes (fc_meta c) (fc_tx c))
       (\<lambda>index. fill_event_accounts_with_invoke c index filler)"

definition invoke_account_count :: "fill_context \<Rightarrow> invoke \<Rightarrow> nat" where
  "invoke_account_count c index = instruction_account_count (fc_meta c) (fc_tx c) index"

section \<open>Pump.fun\<close>

definition dispatch_pump_trade :: "fill_context \<Rightarrow> pumpfun_trade_event \<Rightarrow> pumpfun_trade_event" where
  "dispatch_pump_trade c e =
     fill_by c PUMPFUN_PROGRAM_ID (\<lambda>search invokes meta tx. find_pumpfun_trade_invoke search invokes meta tx e)
       pumpfun_fill_trade_accounts e"

definition dispatch_pump_create :: "fill_context \<Rightarrow> pumpfun_create_event \<Rightarrow> pumpfun_create_event" where
  "dispatch_pump_create c e =
     on_found c PUMPFUN_PROGRAM_ID
       (\<lambda>invokes. find_pumpfun_create_invoke (fc_search c) invokes (fc_tx c) False (fc_meta c) (pc_mint e))
       (\<lambda>(index, v2). fill_event_accounts_with_invoke c index
          (\<lambda>get. if v2 then fill_create_accounts_from_v2 get else fill_create_accounts get)) e"

definition dispatch_pump_create_v2 :: "fill_context \<Rightarrow> pumpfun_create_v2_event \<Rightarrow> pumpfun_create_v2_event" where
  "dispatch_pump_create_v2 c e =
     on_found c PUMPFUN_PROGRAM_ID
       (\<lambda>invokes. find_pumpfun_create_invoke (fc_search c) invokes (fc_tx c) True (fc_meta c) (pv_mint e))
       (\<lambda>(index, v2). fill_event_accounts_with_invoke c index fill_create_v2_accounts) e"

fun dispatch_pump_fun :: "fill_context \<Rightarrow> 'p pump_fun_event \<Rightarrow> 'p pump_fun_event" where
  "dispatch_pump_fun c (PumpFunTrade_Event e) = PumpFunTrade_Event (dispatch_pump_trade c e)"
| "dispatch_pump_fun c (PumpFunBuy_Event e) = PumpFunBuy_Event (dispatch_pump_trade c e)"
| "dispatch_pump_fun c (PumpFunSell_Event e) = PumpFunSell_Event (dispatch_pump_trade c e)"
| "dispatch_pump_fun c (PumpFunBuyExactSolIn_Event e) = PumpFunBuyExactSolIn_Event (dispatch_pump_trade c e)"
| "dispatch_pump_fun c (PumpFunCreate_Event e) = PumpFunCreate_Event (dispatch_pump_create c e)"
| "dispatch_pump_fun c (PumpFunCreateV2_Event e) = PumpFunCreateV2_Event (dispatch_pump_create_v2 c e)"
| "dispatch_pump_fun c event = event"

section \<open>PumpSwap and LaunchLab\<close>

definition dispatch_swap_buy :: "fill_context \<Rightarrow> pumpswap_buy_event \<Rightarrow> pumpswap_buy_event" where
  "dispatch_swap_buy c e =
     on_found c PUMPSWAP_PROGRAM_ID
       (\<lambda>invokes. find_pumpswap_trade_invoke (fc_search c) invokes (fc_meta c) (fc_tx c) (swb_pool e) (swb_user e) True)
       (\<lambda>index. fill_event_accounts_with_invoke c index
          (\<lambda>get. fill_buy_accounts_with_count (fc_derive c) get (invoke_account_count c index))) e"

definition dispatch_swap_sell :: "fill_context \<Rightarrow> pumpswap_sell_event \<Rightarrow> pumpswap_sell_event" where
  "dispatch_swap_sell c e =
     on_found c PUMPSWAP_PROGRAM_ID
       (\<lambda>invokes. find_pumpswap_trade_invoke (fc_search c) invokes (fc_meta c) (fc_tx c) (sws_pool e) (sws_user e) False)
       (\<lambda>index. fill_event_accounts_with_invoke c index
          (\<lambda>get. fill_sell_accounts_with_count (fc_derive c) get (invoke_account_count c index))) e"

definition dispatch_swap_create :: "fill_context \<Rightarrow> pumpswap_create_pool_event \<Rightarrow> pumpswap_create_pool_event" where
  "dispatch_swap_create c e =
     fill_by c PUMPSWAP_PROGRAM_ID (\<lambda>search invokes meta tx. find_pumpswap_create_invoke search invokes meta tx e)
       fill_create_pool_accounts e"

fun dispatch_pump_swap :: "fill_context \<Rightarrow> 'p pump_swap_event \<Rightarrow> 'p pump_swap_event" where
  "dispatch_pump_swap c (PumpSwapBuy_Event e) = PumpSwapBuy_Event (dispatch_swap_buy c e)"
| "dispatch_pump_swap c (PumpSwapSell_Event e) = PumpSwapSell_Event (dispatch_swap_sell c e)"
| "dispatch_pump_swap c (PumpSwapCreatePool_Event e) = PumpSwapCreatePool_Event (dispatch_swap_create c e)"
| "dispatch_pump_swap c event = event"

definition dispatch_launchlab_trade :: "fill_context \<Rightarrow> launchlab_trade_event \<Rightarrow> launchlab_trade_event" where
  "dispatch_launchlab_trade c e =
     fill_by c RAYDIUM_LAUNCHLAB_PROGRAM_ID
       (\<lambda>search invokes meta tx. find_context_invoke search invokes meta tx (launchlab_trade_matches e))
       launchlab_fill_trade_accounts e"

definition dispatch_launchlab_create :: "fill_context \<Rightarrow> launchlab_pool_create_event \<Rightarrow> launchlab_pool_create_event" where
  "dispatch_launchlab_create c e =
     fill_by c RAYDIUM_LAUNCHLAB_PROGRAM_ID
       (\<lambda>search invokes meta tx. find_context_invoke search invokes meta tx (launchlab_create_matches e))
       launchlab_fill_pool_create_accounts e"

fun dispatch_raydium_launchlab :: "fill_context \<Rightarrow> raydium_launchlab_event \<Rightarrow> raydium_launchlab_event" where
  "dispatch_raydium_launchlab c (RaydiumLaunchlabTrade_Event e) = RaydiumLaunchlabTrade_Event (dispatch_launchlab_trade c e)"
| "dispatch_raydium_launchlab c (RaydiumLaunchlabPoolCreate_Event e) =
     RaydiumLaunchlabPoolCreate_Event (dispatch_launchlab_create c e)"
| "dispatch_raydium_launchlab c event = event"

section \<open>Raydium\<close>

definition dispatch_cpmm_swap :: "fill_context \<Rightarrow> raydium_cpmm_swap_event \<Rightarrow> raydium_cpmm_swap_event" where
  "dispatch_cpmm_swap c e =
     fill_by c RAYDIUM_CPMM_PROGRAM_ID (\<lambda>search invokes meta tx. find_cpmm_swap_invoke search invokes meta tx e)
       fill_cpmm_swap_accounts e"

definition dispatch_cpmm_deposit :: "fill_context \<Rightarrow> raydium_cpmm_deposit_event \<Rightarrow> raydium_cpmm_deposit_event" where
  "dispatch_cpmm_deposit c e =
     fill_by c RAYDIUM_CPMM_PROGRAM_ID
       (\<lambda>search invokes meta tx.
          find_identity_invoke search invokes meta tx CPMM_DEPOSIT 32 13 [(cpd_pool e, 2), (cpd_user e, 0)])
       fill_cpmm_deposit_accounts e"

definition dispatch_cpmm_withdraw :: "fill_context \<Rightarrow> raydium_cpmm_withdraw_event \<Rightarrow> raydium_cpmm_withdraw_event" where
  "dispatch_cpmm_withdraw c e =
     fill_by c RAYDIUM_CPMM_PROGRAM_ID
       (\<lambda>search invokes meta tx.
          find_identity_invoke search invokes meta tx CPMM_WITHDRAW 32 14 [(cpw_pool e, 2), (cpw_user e, 0)])
       fill_cpmm_withdraw_accounts e"

definition dispatch_cpmm_initialize :: "fill_context \<Rightarrow> raydium_cpmm_initialize_event \<Rightarrow> raydium_cpmm_initialize_event" where
  "dispatch_cpmm_initialize c e =
     fill_by c RAYDIUM_CPMM_PROGRAM_ID
       (\<lambda>search invokes meta tx.
          find_identity_invoke search invokes meta tx CPMM_INITIALIZE 32 20 [(cpn_pool e, 3), (cpn_creator e, 0)])
       fill_cpmm_initialize_accounts e"

fun dispatch_raydium_cpmm :: "fill_context \<Rightarrow> raydium_cpmm_event \<Rightarrow> raydium_cpmm_event" where
  "dispatch_raydium_cpmm c (RaydiumCpmmSwap_Event e) = RaydiumCpmmSwap_Event (dispatch_cpmm_swap c e)"
| "dispatch_raydium_cpmm c (RaydiumCpmmDeposit_Event e) = RaydiumCpmmDeposit_Event (dispatch_cpmm_deposit c e)"
| "dispatch_raydium_cpmm c (RaydiumCpmmWithdraw_Event e) = RaydiumCpmmWithdraw_Event (dispatch_cpmm_withdraw c e)"
| "dispatch_raydium_cpmm c (RaydiumCpmmInitialize_Event e) = RaydiumCpmmInitialize_Event (dispatch_cpmm_initialize c e)"
| "dispatch_raydium_cpmm c event = event"

definition dispatch_clmm_swap :: "fill_context \<Rightarrow> raydium_clmm_swap_event \<Rightarrow> raydium_clmm_swap_event" where
  "dispatch_clmm_swap c e =
     on_found c RAYDIUM_CLMM_PROGRAM_ID
       (\<lambda>invokes. find_context_invoke (fc_search c) invokes (fc_meta c) (fc_tx c) (clmm_swap_matches e))
       (\<lambda>index. fill_event_accounts_with_invoke c index
          (\<lambda>get. fill_clmm_swap_accounts_impl (fc_derive c) get (Some (invoke_account_count c index)))) e"

definition dispatch_clmm :: "fill_context \<Rightarrow> clmm_management_context \<Rightarrow> ((nat \<Rightarrow> pubkey) \<Rightarrow> 'e \<Rightarrow> 'e) \<Rightarrow> 'e \<Rightarrow> 'e" where
  "dispatch_clmm c context =
     fill_by c RAYDIUM_CLMM_PROGRAM_ID
       (\<lambda>search invokes meta tx. find_clmm_management_invoke (fc_derive c) search invokes meta tx context)"

definition dispatch_clmm_open :: "fill_context \<Rightarrow> raydium_clmm_open_position_event \<Rightarrow> raydium_clmm_open_position_event" where
  "dispatch_clmm_open c e =
     on_found c RAYDIUM_CLMM_PROGRAM_ID
       (\<lambda>invokes. find_clmm_management_invoke (fc_derive c) (fc_search c) invokes (fc_meta c) (fc_tx c) (Context_Open e))
       (\<lambda>index. case get_instruction_data (fc_meta c) (fc_tx c) index of None \<Rightarrow> id
          | Some data \<Rightarrow>
              (let token_22_nft = get_range 0 8 data = Some CLMM_OPEN_POSITION_WITH_TOKEN_22_NFT
               in fill_event_accounts_with_invoke c index (fill_clmm_open_position_accounts_with_layout token_22_nft))) e"

fun dispatch_raydium_clmm :: "fill_context \<Rightarrow> raydium_clmm_event \<Rightarrow> raydium_clmm_event" where
  "dispatch_raydium_clmm c (RaydiumClmmSwap_Event e) = RaydiumClmmSwap_Event (dispatch_clmm_swap c e)"
| "dispatch_raydium_clmm c (RaydiumClmmCreatePool_Event e) =
     RaydiumClmmCreatePool_Event (dispatch_clmm c (Context_Create e) fill_clmm_create_pool_accounts e)"
| "dispatch_raydium_clmm c (RaydiumClmmOpenPosition_Event e) = RaydiumClmmOpenPosition_Event (dispatch_clmm_open c e)"
| "dispatch_raydium_clmm c (RaydiumClmmClosePosition_Event e) =
     RaydiumClmmClosePosition_Event (dispatch_clmm c (Context_Close e) fill_clmm_close_position_accounts e)"
| "dispatch_raydium_clmm c (RaydiumClmmIncreaseLiquidity_Event e) =
     RaydiumClmmIncreaseLiquidity_Event (dispatch_clmm c (Context_Increase e) fill_clmm_increase_liquidity_accounts e)"
| "dispatch_raydium_clmm c (RaydiumClmmDecreaseLiquidity_Event e) =
     RaydiumClmmDecreaseLiquidity_Event (dispatch_clmm c (Context_Decrease e) fill_clmm_decrease_liquidity_accounts e)"
| "dispatch_raydium_clmm c event = event"

definition dispatch_amm_swap :: "fill_context \<Rightarrow> raydium_amm_v4_swap_event \<Rightarrow> raydium_amm_v4_swap_event" where
  "dispatch_amm_swap c e =
     fill_by c RAYDIUM_AMM_V4_PROGRAM_ID
       (\<lambda>search invokes meta tx. find_context_invoke search invokes meta tx (amm_swap_matches e))
       fill_amm_v4_swap_accounts e"

definition dispatch_amm_deposit :: "fill_context \<Rightarrow> raydium_amm_v4_deposit_event \<Rightarrow> raydium_amm_v4_deposit_event" where
  "dispatch_amm_deposit c e =
     fill_by c RAYDIUM_AMM_V4_PROGRAM_ID
       (\<lambda>search invokes meta tx.
          find_identity_invoke search invokes meta tx [V4_DEPOSIT] 25 14
            [(avd_amm e, 1), (avd_user_owner e, 12), (avd_amm_authority e, 2)])
       fill_amm_v4_deposit_accounts e"

definition dispatch_amm_withdraw :: "fill_context \<Rightarrow> raydium_amm_v4_withdraw_event \<Rightarrow> raydium_amm_v4_withdraw_event" where
  "dispatch_amm_withdraw c e =
     fill_by c RAYDIUM_AMM_V4_PROGRAM_ID
       (\<lambda>search invokes meta tx.
          find_identity_invoke search invokes meta tx [V4_WITHDRAW] 9 22
            [(avw_amm e, 1), (avw_user_owner e, 18), (avw_amm_authority e, 2), (avw_amm_open_orders e, 3)])
       fill_amm_v4_withdraw_accounts e"

fun dispatch_raydium_amm_v4 :: "fill_context \<Rightarrow> raydium_amm_v4_event \<Rightarrow> raydium_amm_v4_event" where
  "dispatch_raydium_amm_v4 c (RaydiumAmmV4Swap_Event e) = RaydiumAmmV4Swap_Event (dispatch_amm_swap c e)"
| "dispatch_raydium_amm_v4 c (RaydiumAmmV4Deposit_Event e) = RaydiumAmmV4Deposit_Event (dispatch_amm_deposit c e)"
| "dispatch_raydium_amm_v4 c (RaydiumAmmV4Withdraw_Event e) = RaydiumAmmV4Withdraw_Event (dispatch_amm_withdraw c e)"
| "dispatch_raydium_amm_v4 c event = event"

section \<open>Orca\<close>

definition dispatch_orca_swap :: "fill_context \<Rightarrow> orca_whirlpool_swap_event \<Rightarrow> orca_whirlpool_swap_event" where
  "dispatch_orca_swap c e =
     fill_by c ORCA_WHIRLPOOL_PROGRAM_ID
       (\<lambda>search invokes meta tx. find_context_invoke search invokes meta tx (orca_swap_matches e))
       fill_whirlpool_swap_accounts e"

definition dispatch_orca_increase :: "fill_context \<Rightarrow> orca_liquidity_increased_event \<Rightarrow> orca_liquidity_increased_event" where
  "dispatch_orca_increase c e =
     fill_by c ORCA_WHIRLPOOL_PROGRAM_ID
       (\<lambda>search invokes meta tx. find_orca_liquidity_invoke search invokes meta tx (owi_whirlpool e) (owi_position e) True)
       fill_whirlpool_liquidity_increased_accounts e"

definition dispatch_orca_decrease :: "fill_context \<Rightarrow> orca_liquidity_decreased_event \<Rightarrow> orca_liquidity_decreased_event" where
  "dispatch_orca_decrease c e =
     fill_by c ORCA_WHIRLPOOL_PROGRAM_ID
       (\<lambda>search invokes meta tx. find_orca_liquidity_invoke search invokes meta tx (owd_whirlpool e) (owd_position e) False)
       fill_whirlpool_liquidity_decreased_accounts e"

fun dispatch_orca_whirlpool :: "fill_context \<Rightarrow> orca_whirlpool_event \<Rightarrow> orca_whirlpool_event" where
  "dispatch_orca_whirlpool c (OrcaWhirlpoolSwap_Event e) = OrcaWhirlpoolSwap_Event (dispatch_orca_swap c e)"
| "dispatch_orca_whirlpool c (OrcaWhirlpoolLiquidityIncreased_Event e) =
     OrcaWhirlpoolLiquidityIncreased_Event (dispatch_orca_increase c e)"
| "dispatch_orca_whirlpool c (OrcaWhirlpoolLiquidityDecreased_Event e) =
     OrcaWhirlpoolLiquidityDecreased_Event (dispatch_orca_decrease c e)"
| "dispatch_orca_whirlpool c event = event"

section \<open>Meteora\<close>

definition dispatch_damm_initialize :: "fill_context \<Rightarrow> meteora_damm_v2_initialize_pool_event
    \<Rightarrow> meteora_damm_v2_initialize_pool_event" where
  "dispatch_damm_initialize c e =
     on_found c METEORA_DAMM_V2_PROGRAM_ID
       (\<lambda>invokes. find_context_invoke (fc_search c) invokes (fc_meta c) (fc_tx c) (damm_initialize_matches e))
       (\<lambda>index. case Option.bind (get_instruction_data (fc_meta c) (fc_tx c) index)
                  (\<lambda>data. damm_initialize_shape data (invoke_account_count c index)) of None \<Rightarrow> id
          | Some dynamic \<Rightarrow>
              fill_event_accounts_with_invoke c index (fill_damm_v2_initialize_pool_accounts_with_layout dynamic)) e"

fun dispatch_meteora_damm_v2 :: "fill_context \<Rightarrow> meteora_damm_v2_event \<Rightarrow> meteora_damm_v2_event" where
  "dispatch_meteora_damm_v2 c (MeteoraDammV2InitializePool_Event e) =
     MeteoraDammV2InitializePool_Event (dispatch_damm_initialize c e)"
| "dispatch_meteora_damm_v2 c event = event"

definition dispatch_pools_swap :: "fill_context \<Rightarrow> meteora_pools_swap_event \<Rightarrow> meteora_pools_swap_event" where
  "dispatch_pools_swap c e =
     fill_by c METEORA_POOLS_PROGRAM_ID
       (\<lambda>search invokes meta tx. find_context_invoke search invokes meta tx (pools_swap_matches e))
       fill_pools_swap_accounts e"

definition name_if_empty :: "string \<Rightarrow> string \<Rightarrow> string" where
  "name_if_empty name ix_name = (if ix_name = [] then name else ix_name)"

definition dispatch_pools_add :: "fill_context \<Rightarrow> meteora_pools_add_liquidity_event \<Rightarrow> meteora_pools_add_liquidity_event" where
  "dispatch_pools_add c e =
     on_found c METEORA_POOLS_PROGRAM_ID
       (\<lambda>invokes. find_pools_add_invoke (fc_search c) invokes (fc_meta c) (fc_tx c) e)
       (\<lambda>(index, name) e. fill_event_accounts_with_invoke c index fill_pools_add_liquidity_accounts
          (mpa_ix_name_update (name_if_empty name) e)) e"

definition dispatch_pools_remove :: "fill_context \<Rightarrow> meteora_pools_remove_liquidity_event \<Rightarrow> meteora_pools_remove_liquidity_event" where
  "dispatch_pools_remove c e =
     on_found c METEORA_POOLS_PROGRAM_ID
       (\<lambda>invokes. find_named_invoke (pools_liquidity_name False) (fc_search c) invokes (fc_meta c) (fc_tx c) (mpr_pool e) (mpr_ix_name e))
       (\<lambda>(index, name) e. fill_event_accounts_with_invoke c index fill_pools_remove_liquidity_accounts
          (mpr_ix_name_update (name_if_empty name) e)) e"

definition dispatch_pools_bootstrap :: "fill_context \<Rightarrow> meteora_pools_bootstrap_liquidity_event
    \<Rightarrow> meteora_pools_bootstrap_liquidity_event" where
  "dispatch_pools_bootstrap c e =
     on_found c METEORA_POOLS_PROGRAM_ID
       (\<lambda>invokes. find_named_invoke (pools_liquidity_name True) (fc_search c) invokes (fc_meta c) (fc_tx c) (mpb_pool e) (mpb_ix_name e))
       (\<lambda>(index, name) e. fill_event_accounts_with_invoke c index fill_pools_bootstrap_liquidity_accounts
          (mpb_ix_name_update (name_if_empty name) e)) e"

definition dispatch_pools_created :: "fill_context \<Rightarrow> meteora_pools_pool_created_event \<Rightarrow> meteora_pools_pool_created_event" where
  "dispatch_pools_created c e =
     on_found c METEORA_POOLS_PROGRAM_ID
       (\<lambda>invokes. find_named_invoke (pools_management_name True) (fc_search c) invokes (fc_meta c) (fc_tx c) (mpc_pool e) (mpc_ix_name e))
       (\<lambda>(index, name) e. fill_event_accounts_with_invoke c index fill_pools_pool_created_accounts
          (mpc_ix_name_update (name_if_empty name) e)) e"

definition dispatch_pools_fees :: "fill_context \<Rightarrow> meteora_pools_set_pool_fees_event \<Rightarrow> meteora_pools_set_pool_fees_event" where
  "dispatch_pools_fees c e =
     on_found c METEORA_POOLS_PROGRAM_ID
       (\<lambda>invokes. find_named_invoke (pools_management_name False) (fc_search c) invokes (fc_meta c) (fc_tx c) (mpf_pool e) (mpf_ix_name e))
       (\<lambda>(index, name) e. fill_event_accounts_with_invoke c index fill_pools_set_pool_fees_accounts
          (mpf_ix_name_update (name_if_empty name) e)) e"

fun dispatch_meteora_pools :: "fill_context \<Rightarrow> meteora_pools_event \<Rightarrow> meteora_pools_event" where
  "dispatch_meteora_pools c (MeteoraPoolsSwap_Event e) = MeteoraPoolsSwap_Event (dispatch_pools_swap c e)"
| "dispatch_meteora_pools c (MeteoraPoolsAddLiquidity_Event e) = MeteoraPoolsAddLiquidity_Event (dispatch_pools_add c e)"
| "dispatch_meteora_pools c (MeteoraPoolsRemoveLiquidity_Event e) = MeteoraPoolsRemoveLiquidity_Event (dispatch_pools_remove c e)"
| "dispatch_meteora_pools c (MeteoraPoolsBootstrapLiquidity_Event e) =
     MeteoraPoolsBootstrapLiquidity_Event (dispatch_pools_bootstrap c e)"
| "dispatch_meteora_pools c (MeteoraPoolsPoolCreated_Event e) = MeteoraPoolsPoolCreated_Event (dispatch_pools_created c e)"
| "dispatch_meteora_pools c (MeteoraPoolsSetPoolFees_Event e) = MeteoraPoolsSetPoolFees_Event (dispatch_pools_fees c e)"

definition fill_dlmm_swap_event :: "fill_context \<Rightarrow> meteora_dlmm_swap_event \<Rightarrow> invoke list \<Rightarrow> meteora_dlmm_swap_event" where
  "fill_dlmm_swap_event c e invokes =
     (if dls_pool e = default_pubkey then e
      else case find_dlmm_swap (fc_search c) invokes (fc_meta c) (fc_tx c) e of None \<Rightarrow> e
           | Some (index, start, count, v2) \<Rightarrow>
               fill_event_accounts_with_invoke c index (\<lambda>get. fill_dlmm_swap_accounts_with_layout get start count v2) e)"

fun dispatch_meteora_dlmm :: "fill_context \<Rightarrow> meteora_dlmm_event \<Rightarrow> meteora_dlmm_event" where
  "dispatch_meteora_dlmm c (MeteoraDlmmSwap_Event e) =
     MeteoraDlmmSwap_Event
       (case map_of (fc_invokes c) METEORA_DLMM_PROGRAM_ID of None \<Rightarrow> e | Some invokes \<Rightarrow> fill_dlmm_swap_event c e invokes)"
| "dispatch_meteora_dlmm c event = event"

section \<open>All events\<close>

fun fill_accounts_with_owned_keys :: "fill_context \<Rightarrow> 'p dex_event \<Rightarrow> 'p dex_event" where
  "fill_accounts_with_owned_keys c (Pump_Fun_Event e) = Pump_Fun_Event (dispatch_pump_fun c e)"
| "fill_accounts_with_owned_keys c (Pump_Swap_Event e) = Pump_Swap_Event (dispatch_pump_swap c e)"
| "fill_accounts_with_owned_keys c (Raydium_Launchlab_Event e) = Raydium_Launchlab_Event (dispatch_raydium_launchlab c e)"
| "fill_accounts_with_owned_keys c (Raydium_Cpmm_Event e) = Raydium_Cpmm_Event (dispatch_raydium_cpmm c e)"
| "fill_accounts_with_owned_keys c (Raydium_Clmm_Event e) = Raydium_Clmm_Event (dispatch_raydium_clmm c e)"
| "fill_accounts_with_owned_keys c (Raydium_Amm_V4_Event e) = Raydium_Amm_V4_Event (dispatch_raydium_amm_v4 c e)"
| "fill_accounts_with_owned_keys c (Orca_Whirlpool_Event e) = Orca_Whirlpool_Event (dispatch_orca_whirlpool c e)"
| "fill_accounts_with_owned_keys c (Meteora_Damm_V2_Event e) = Meteora_Damm_V2_Event (dispatch_meteora_damm_v2 c e)"
| "fill_accounts_with_owned_keys c (Meteora_Pools_Event e) = Meteora_Pools_Event (dispatch_meteora_pools c e)"
| "fill_accounts_with_owned_keys c (Meteora_Dlmm_Event e) = Meteora_Dlmm_Event (dispatch_meteora_dlmm c e)"
| "fill_accounts_with_owned_keys c event = event"

end
