(* ===== verification/Context_Laws.thy ===== *)
theory Context_Laws
  imports Account_Dispatch
begin

text \<open>
  The contract between the searches and the fillers of the account context, as a locale: an event that was filled knows
  more than before, so its search accepts at most what it accepted before, and filling again from the same
  instruction changes nothing. From these two laws filling an event is idempotent, for every list of invocations. The
  interpretations discharge the laws for each protocol.
\<close>

section \<open>The contract\<close>

definition fill_by_context :: "group_search \<Rightarrow> status_meta \<Rightarrow> transaction option \<Rightarrow> invoke list \<Rightarrow> ('e \<Rightarrow> context_test)
    \<Rightarrow> (bytes \<Rightarrow> (nat \<Rightarrow> pubkey) \<Rightarrow> nat \<Rightarrow> 'e \<Rightarrow> 'e) \<Rightarrow> 'e \<Rightarrow> 'e" where
  "fill_by_context search meta tx invokes test filler e =
     (case find_context_invoke search invokes meta tx (test e) of None \<Rightarrow> e
      | Some index \<Rightarrow>
          (case (get_instruction_data meta tx index, context_getter search meta tx index) of
             (Some data, Some get) \<Rightarrow> filler data get (instruction_account_count meta tx index) e
           | _ \<Rightarrow> e))"

definition in_context :: "fill_context \<Rightarrow> pubkey \<Rightarrow> ('e \<Rightarrow> context_test) \<Rightarrow> (bytes \<Rightarrow> (nat \<Rightarrow> pubkey) \<Rightarrow> nat \<Rightarrow> 'e \<Rightarrow> 'e)
    \<Rightarrow> 'e \<Rightarrow> 'e" where
  "in_context c program test filler e =
     (case map_of (fc_invokes c) program of None \<Rightarrow> e
      | Some invokes \<Rightarrow> fill_by_context (fc_search c) (fc_meta c) (fc_tx c) invokes test filler e)"

lemma only_match_Some_iff: "only_match xs = Some x \<longleftrightarrow> xs = [x]"
  by (auto simp: only_match_def split: list.splits)

lemma find_context_Some:
  assumes "find_context_invoke search invokes meta tx t = Some index"
  shows "filter (context_matches search meta tx t) invokes = [index]" "tx \<noteq> None" "context_matches search meta tx t index"
proof -
  show *: "filter (context_matches search meta tx t) invokes = [index]" and "tx \<noteq> None"
    using assms by (auto simp: find_context_invoke_def only_match_Some_iff split: if_splits)
  show "context_matches search meta tx t index" using arg_cong [OF *, of set] by auto
qed

lemma context_matchesE:
  assumes "context_matches search meta tx t index"
  obtains data get where "get_instruction_data meta tx index = Some data" "context_getter search meta tx index = Some get"
    "t data get (instruction_account_count meta tx index)"
  using assms by (auto simp: context_matches_def split: option.splits)

lemma on_found_in_context:
  assumes "\<And>invokes index data get.
      find_context_invoke (fc_search c) invokes (fc_meta c) (fc_tx c) (test e) = Some index \<Longrightarrow>
      get_instruction_data (fc_meta c) (fc_tx c) index = Some data \<Longrightarrow>
      context_getter (fc_search c) (fc_meta c) (fc_tx c) index = Some get \<Longrightarrow>
      test e data get (instruction_account_count (fc_meta c) (fc_tx c) index) \<Longrightarrow>
      \<exists>found. find_invoke invokes = Some found \<and>
        continue found e = filler data get (instruction_account_count (fc_meta c) (fc_tx c) index) e"
    and "\<And>invokes. find_context_invoke (fc_search c) invokes (fc_meta c) (fc_tx c) (test e) = None \<Longrightarrow> find_invoke invokes = None"
  shows "on_found c program find_invoke continue e = in_context c program test filler e"
proof (cases "map_of (fc_invokes c) program")
  case (Some invokes)
  show ?thesis
  proof (cases "find_context_invoke (fc_search c) invokes (fc_meta c) (fc_tx c) (test e)")
    case None
    then show ?thesis using assms(2) by (simp add: on_found_def in_context_def fill_by_context_def Some)
  next
    case found: (Some index)
    obtain data get where at: "get_instruction_data (fc_meta c) (fc_tx c) index = Some data"
      "context_getter (fc_search c) (fc_meta c) (fc_tx c) index = Some get"
      "test e data get (instruction_account_count (fc_meta c) (fc_tx c) index)"
      by (rule context_matchesE [OF find_context_Some(3) [OF found]])
    obtain x where "find_invoke invokes = Some x"
      "continue x e = filler data get (instruction_account_count (fc_meta c) (fc_tx c) index) e"
      using assms(1) [OF found at] by blast
    then show ?thesis
      by (simp add: on_found_def in_context_def fill_by_context_def Some found at(1,2))
  qed
qed (simp add: on_found_def in_context_def)

lemma fill_by_in_context:
  "fill_by c program (\<lambda>search invokes meta tx. find_context_invoke search invokes meta tx (test e)) filler e =
   in_context c program test (\<lambda>data get count. filler get) e"
  unfolding fill_by_def by (rule on_found_in_context) (simp_all add: fill_event_accounts_with_invoke_def)

lemma no_keys_no_accounts:
  "context_getter search meta None index = Some get \<Longrightarrow> get i = default_pubkey"
  by (auto simp: context_getter_def get_instruction_account_getter_def message_keys_def account_closure_def
      split: Option.bind_splits if_splits option.splits)

locale account_context =
  fixes test :: "'e \<Rightarrow> context_test" and filler :: "bytes \<Rightarrow> (nat \<Rightarrow> pubkey) \<Rightarrow> nat \<Rightarrow> 'e \<Rightarrow> 'e"
  assumes stricter: "test e d g n \<Longrightarrow> test (filler d g n e) d' g' n' \<Longrightarrow> test e d' g' n'"
    and fill_again: "test e d g n \<Longrightarrow> filler d g n (filler d g n e) = filler d g n e"
begin

lemma matches_stricter:
  assumes "test e d g n" "context_matches search meta tx (test (filler d g n e)) index"
  shows "context_matches search meta tx (test e) index"
  using assms by (auto simp: context_matches_def intro: stricter split: option.splits)

lemma search_again:
  assumes "find_context_invoke search invokes meta tx (test e) = Some index"
    and "get_instruction_data meta tx index = Some d" "context_getter search meta tx index = Some g"
    and "test e d g (instruction_account_count meta tx index)"
  shows "find_context_invoke search invokes meta tx (test (filler d g (instruction_account_count meta tx index) e))
    \<in> {None, Some index}"
proof -
  let ?e = "filler d g (instruction_account_count meta tx index) e"
  have "filter (context_matches search meta tx (test ?e)) invokes =
      filter (context_matches search meta tx (test ?e)) (filter (context_matches search meta tx (test e)) invokes)"
    using matches_stricter [OF assms(4)] by (auto simp: filter_filter intro!: filter_cong)
  then show ?thesis
    by (simp add: find_context_Some(1) [OF assms(1)] find_context_invoke_def only_match_def)
qed

lemma fill_idempotent:
  "fill_by_context search meta tx invokes test filler (fill_by_context search meta tx invokes test filler e) =
   fill_by_context search meta tx invokes test filler e"
proof (cases "find_context_invoke search invokes meta tx (test e)")
  case (Some index)
  note found = Some
  obtain d g where data: "get_instruction_data meta tx index = Some d" "context_getter search meta tx index = Some g"
    and t: "test e d g (instruction_account_count meta tx index)"
    by (rule context_matchesE [OF find_context_Some(3) [OF found]])
  have "fill_by_context search meta tx invokes test filler e = filler d g (instruction_account_count meta tx index) e"
    by (simp add: fill_by_context_def found data)
  moreover have "find_context_invoke search invokes meta tx (test (filler d g (instruction_account_count meta tx index) e))
      \<in> {None, Some index}"
    by (rule search_again [OF found data t])
  ultimately show ?thesis
    by (auto simp: fill_by_context_def data fill_again [OF t])
qed (simp add: fill_by_context_def)

lemma in_context_idempotent:
  "in_context c program test filler (in_context c program test filler e) = in_context c program test filler e"
  by (simp add: in_context_def fill_idempotent split: option.splits)

lemma ambiguous_unchanged:
  "length (filter (context_matches search meta tx (test e)) invokes) \<noteq> 1 \<Longrightarrow>
   fill_by_context search meta tx invokes test filler e = e"
  by (auto simp: fill_by_context_def find_context_invoke_def only_match_def split: list.splits)

end

section \<open>Known accounts\<close>

lemma known_accounts_simps [simp]:
  "known_accounts_match get []"
  "known_accounts_match get ((key, index) # known) \<longleftrightarrow> known_at get key index \<and> known_accounts_match get known"
  by (simp_all add: known_accounts_match_def known_at_def)

lemma known_default [simp]: "known_at get default_pubkey index"
  by (simp add: known_at_def)

lemma known_fill [dest]: "known_at get (fill_if_default k k') index \<Longrightarrow> known_at get k index"
  by (auto simp: known_at_def fill_if_default_def split: if_splits)

lemma known_fill_pk [dest]: "known_at get (fill_pk k k') index \<Longrightarrow> known_at get k index"
  by (auto simp: known_at_def fill_pk_def split: if_splits)

lemma fill_if_default_set: "k \<noteq> default_pubkey \<Longrightarrow> fill_if_default k k' = k"
  by (simp add: fill_if_default_def)

lemma fill_twice [simp]:
  "fill_if_default (fill_if_default k k') k' = fill_if_default k k'"
  "fill_pk (fill_pk k k') k' = fill_pk k k'"
  by (simp_all add: fill_if_default_def fill_pk_def)

end
