(* ===== verification/Swap_Contexts.thy ===== *)
theory Swap_Contexts
  imports Context_Laws
begin

text \<open>
  The contract of the account context for the variants whose filler or search looks further than fixed places: Pump.fun
  creations, PumpSwap trades with their upgrade tails, CPMM, CLMM and Orca swaps, and DLMM swaps.
\<close>

section \<open>Pump.fun creations\<close>

lemma quote_accounts_twice:
  "fill_create_quote_accounts get (fill_create_quote_accounts get q) = fill_create_quote_accounts get q"
  by (cases q) (auto simp: fill_create_quote_accounts_def Let_def split: prod.split)

lemma create_twice: "fill_create_accounts get (fill_create_accounts get e) = fill_create_accounts get e"
  by (cases e) (simp add: fill_create_accounts_def)

lemma create_from_v2_twice:
  "fill_create_accounts_from_v2 get (fill_create_accounts_from_v2 get e) = fill_create_accounts_from_v2 get e"
proof -
  obtain m v t where q: "fill_create_quote_accounts get (pc_quote_mint e, pc_quote_vault e, pc_quote_token_program e) = (m, v, t)"
    by (cases "fill_create_quote_accounts get (pc_quote_mint e, pc_quote_vault e, pc_quote_token_program e)")
  have "fill_create_quote_accounts get (m, v, t) = (m, v, t)"
    by (metis q quote_accounts_twice)
  then show ?thesis using q
    by (cases e) (simp add: fill_create_accounts_from_v2_def)
qed

lemma create_v2_twice: "fill_create_v2_accounts get (fill_create_v2_accounts get e) = fill_create_v2_accounts get e"
proof -
  obtain m v t where q: "fill_create_quote_accounts get (pv_quote_mint e, pv_quote_vault e, pv_quote_token_program e) = (m, v, t)"
    by (cases "fill_create_quote_accounts get (pv_quote_mint e, pv_quote_vault e, pv_quote_token_program e)")
  have "fill_create_quote_accounts get (m, v, t) = (m, v, t)"
    by (metis q quote_accounts_twice)
  then show ?thesis using q
    by (cases e) (simp add: fill_create_v2_accounts_def)
qed

lemma filled_create_mints:
  "pc_mint (fill_create_accounts get e) = fill_if_default (pc_mint e) (get 0)"
  "pc_mint (fill_create_accounts_from_v2 get e) = fill_if_default (pc_mint e) (get 0)"
  "pv_mint (fill_create_v2_accounts get f) = fill_if_default (pv_mint f) (get 0)"
  by (simp_all add: fill_create_accounts_def fill_create_accounts_from_v2_def fill_create_v2_accounts_def split: prod.split)

lemma pump_create_matches_known:
  "pump_create_matches v2_only mint data get count \<longleftrightarrow>
     pump_create_matches v2_only default_pubkey data get count \<and> known_at get mint 0"
  by (auto simp: pump_create_matches_def known_at_def Let_def split: option.split)

lemma pump_create_stricter:
  "pump_create_matches v2_only (fill_if_default mint k) data get count \<Longrightarrow> pump_create_matches v2_only mint data get count"
  by (auto simp: pump_create_matches_known [of _ "fill_if_default mint k"] pump_create_matches_known [of _ mint])

abbreviation fill_create_by_data :: "bytes \<Rightarrow> (nat \<Rightarrow> pubkey) \<Rightarrow> nat \<Rightarrow> pumpfun_create_event \<Rightarrow> pumpfun_create_event" where
  "fill_create_by_data data get count \<equiv>
     (if is_create_v2_data (Some data) then fill_create_accounts_from_v2 get else fill_create_accounts get)"

interpretation pump_create: account_context "\<lambda>e. pump_create_matches False (pc_mint e)" fill_create_by_data
  by unfold_locales (auto simp: filled_create_mints create_twice create_from_v2_twice intro: pump_create_stricter split: if_splits)

interpretation pump_create_v2: account_context "\<lambda>e. pump_create_matches True (pv_mint e)"
    "\<lambda>data get count. fill_create_v2_accounts get"
  by unfold_locales (auto simp: filled_create_mints create_v2_twice intro: pump_create_stricter)

lemma dispatch_pump_create_in_context:
  "dispatch_pump_create c e =
     in_context c PUMPFUN_PROGRAM_ID (\<lambda>e. pump_create_matches False (pc_mint e)) fill_create_by_data e"
  unfolding dispatch_pump_create_def
  by (rule on_found_in_context) (simp_all add: find_pumpfun_create_invoke_def fill_event_accounts_with_invoke_def)

lemma dispatch_pump_create_v2_in_context:
  "dispatch_pump_create_v2 c e =
     in_context c PUMPFUN_PROGRAM_ID (\<lambda>e. pump_create_matches True (pv_mint e)) (\<lambda>data get count. fill_create_v2_accounts get) e"
  unfolding dispatch_pump_create_v2_def
  by (rule on_found_in_context) (simp_all add: find_pumpfun_create_invoke_def fill_event_accounts_with_invoke_def)

section \<open>PumpSwap trades\<close>

lemma pumpswap_trade_stricter:
  "pumpswap_trade_matches pool (fill_if_default user k) buy data get count \<Longrightarrow> pumpswap_trade_matches pool user buy data get count"
  by (cases "user = default_pubkey"; cases "get_range 0 8 data")
    (auto simp: fill_if_default_def pumpswap_trade_matches_def Let_def split: if_split_asm)

lemma find_pumpswap_trade_guarded:
  "find_pumpswap_trade_invoke search invokes meta tx pool user buy =
     find_context_invoke search invokes meta tx
       (\<lambda>data get count. pool \<noteq> default_pubkey \<and> pumpswap_trade_matches pool user buy data get count)"
proof -
  have "\<not> context_matches search meta tx (\<lambda>data get count. False) index" for index
    by (simp add: context_matches_def split: option.split)
  then have "filter (context_matches search meta tx (\<lambda>data get count. False)) invokes = []" by simp
  then show ?thesis
    by (simp add: find_pumpswap_trade_invoke_def find_context_invoke_def only_match_def)
qed

definition buy_tail_values :: "address_derivation \<Rightarrow> (nat \<Rightarrow> pubkey) \<Rightarrow> nat \<Rightarrow> pubkey \<Rightarrow> pubkey \<times> pubkey \<times> pubkey" where
  "buy_tail_values derive get count mint =
     (let accounts = (replicate 27 default_pubkey)[3 := mint];
          accounts = map (\<lambda>index. if index \<in> {23..<count} then get index else accounts ! index) [0..<27]
      in buy_upgrade_tail derive (take count accounts) mint)"

lemma buy_tail_values:
  "fill_buy_tail derive get count e =
     (let (pool_v2, recipient, ata) = buy_tail_values derive get count (swb_base_mint e)
      in e\<lparr>swb_pool_v2 := fill_if_default (swb_pool_v2 e) pool_v2,
           swb_fee_recipient := fill_if_default (swb_fee_recipient e) recipient,
           swb_fee_recipient_quote_token_account := fill_if_default (swb_fee_recipient_quote_token_account e) ata\<rparr>)"
  by (simp only: fill_buy_tail_def buy_tail_values_def Let_def)

lemma buy_tail_twice:
  "fill_buy_tail derive get count (fill_buy_tail derive get count e) = fill_buy_tail derive get count e"
  by (cases "buy_tail_values derive get count (swb_base_mint e)") (simp add: buy_tail_values)

lemma buy_compact_twice: "fill_buy_compact get (fill_buy_compact get e) = fill_buy_compact get e"
  by (cases e) (simp add: fill_buy_compact_def)

lemma buy_common_twice: "fill_buy_common get (fill_buy_common get e) = fill_buy_common get e"
  by (cases e) (simp add: fill_buy_common_def)

lemma buy_common_update:
  "fill_buy_common get (e\<lparr>swb_pool_v2 := a, swb_fee_recipient := b, swb_fee_recipient_quote_token_account := d\<rparr>) =
     (fill_buy_common get e)\<lparr>swb_pool_v2 := a, swb_fee_recipient := b, swb_fee_recipient_quote_token_account := d\<rparr>"
  by (cases e) (simp add: fill_buy_common_def)

lemma buy_common_tail:
  assumes "fill_buy_common get e = e"
  shows "fill_buy_common get (fill_buy_tail derive get count e) = fill_buy_tail derive get count e"
  by (cases "buy_tail_values derive get count (swb_base_mint e)") (simp add: buy_tail_values buy_common_update assms)

lemma buy_fill_twice:
  "fill_buy_accounts_with_count derive get count (fill_buy_accounts_with_count derive get count e) =
   fill_buy_accounts_with_count derive get count e"
proof (cases "count = 17 \<and> get 16 = PUMPSWAP_PROGRAM_ID")
  case False
  have "fill_buy_common get (fill_buy_tail derive get count (fill_buy_common get e)) =
      fill_buy_tail derive get count (fill_buy_common get e)"
    by (rule buy_common_tail) (rule buy_common_twice)
  then show ?thesis using False
    by (auto simp: fill_buy_accounts_with_count_def Let_def buy_common_twice buy_tail_twice)
qed (simp add: fill_buy_accounts_with_count_def buy_compact_twice)

lemma buy_tail_keys:
  "swb_pool (fill_buy_tail derive get count e) = swb_pool e" "swb_user (fill_buy_tail derive get count e) = swb_user e"
  by (cases "buy_tail_values derive get count (swb_base_mint e)"; simp add: buy_tail_values)+

lemma buy_fill_keys:
  "swb_pool (fill_buy_accounts_with_count derive get count e) = fill_if_default (swb_pool e) (get 0)"
  "swb_user (fill_buy_accounts_with_count derive get count e) = fill_if_default (swb_user e) (get 1)"
  by (simp_all add: fill_buy_accounts_with_count_def Let_def buy_tail_keys fill_buy_compact_def fill_buy_common_def)

abbreviation buy_context_test :: "pumpswap_buy_event \<Rightarrow> context_test" where
  "buy_context_test e data get count \<equiv>
     swb_pool e \<noteq> default_pubkey \<and> pumpswap_trade_matches (swb_pool e) (swb_user e) True data get count"

interpretation swap_buy: account_context "buy_context_test"
    "\<lambda>data get count. fill_buy_accounts_with_count derive get count" for derive
proof
  fix e d g n d' g' n'
  assume "buy_context_test e d g n"
  then have pool: "swb_pool e \<noteq> default_pubkey" by (rule conjunct1)
  assume "buy_context_test (fill_buy_accounts_with_count derive g n e) d' g' n'"
  then have "pumpswap_trade_matches (swb_pool e) (fill_if_default (swb_user e) (g 1)) True d' g' n'"
    by (simp only: buy_fill_keys fill_if_default_set [OF pool])
  then show "buy_context_test e d' g' n'"
    using pool by (intro conjI) (assumption, rule pumpswap_trade_stricter)
qed (rule buy_fill_twice)

lemma dispatch_swap_buy_in_context:
  "dispatch_swap_buy c e = in_context c PUMPSWAP_PROGRAM_ID buy_context_test
     (\<lambda>data get count. fill_buy_accounts_with_count (fc_derive c) get count) e"
  unfolding dispatch_swap_buy_def
  by (rule on_found_in_context)
    (simp_all add: find_pumpswap_trade_guarded fill_event_accounts_with_invoke_def invoke_account_count_def)

definition sell_tail_values :: "address_derivation \<Rightarrow> (nat \<Rightarrow> pubkey) \<Rightarrow> nat \<Rightarrow> pubkey \<Rightarrow> pubkey \<Rightarrow> pubkey \<times> pubkey \<times> pubkey" where
  "sell_tail_values derive get count user mint =
     (let accounts = (replicate 26 default_pubkey)[1 := user, 3 := mint];
          accounts = map (\<lambda>index. if index \<in> {21..<count} then get index else accounts ! index) [0..<26]
      in sell_upgrade_tail derive (take count accounts) mint)"

lemma sell_tail_values:
  "fill_sell_tail derive get count e =
     (let (pool_v2, recipient, ata) = sell_tail_values derive get count (sws_user e) (sws_base_mint e)
      in e\<lparr>sws_pool_v2 := fill_if_default (sws_pool_v2 e) pool_v2,
           sws_fee_recipient := fill_if_default (sws_fee_recipient e) recipient,
           sws_fee_recipient_quote_token_account := fill_if_default (sws_fee_recipient_quote_token_account e) ata\<rparr>)"
  by (simp only: fill_sell_tail_def sell_tail_values_def Let_def)

lemma sell_tail_twice:
  "fill_sell_tail derive get count (fill_sell_tail derive get count e) = fill_sell_tail derive get count e"
  by (cases "sell_tail_values derive get count (sws_user e) (sws_base_mint e)") (simp add: sell_tail_values)

lemma sell_compact_twice: "fill_sell_compact get (fill_sell_compact get e) = fill_sell_compact get e"
  by (cases e) (simp add: fill_sell_compact_def)

lemma sell_common_twice: "fill_sell_common get (fill_sell_common get e) = fill_sell_common get e"
  by (cases e) (simp add: fill_sell_common_def)

lemma sell_common_update:
  "fill_sell_common get (e\<lparr>sws_pool_v2 := a, sws_fee_recipient := b, sws_fee_recipient_quote_token_account := d\<rparr>) =
     (fill_sell_common get e)\<lparr>sws_pool_v2 := a, sws_fee_recipient := b, sws_fee_recipient_quote_token_account := d\<rparr>"
  by (cases e) (simp add: fill_sell_common_def)

lemma sell_common_tail:
  assumes "fill_sell_common get e = e"
  shows "fill_sell_common get (fill_sell_tail derive get count e) = fill_sell_tail derive get count e"
  by (cases "sell_tail_values derive get count (sws_user e) (sws_base_mint e)") (simp add: sell_tail_values sell_common_update assms)

lemma sell_fill_twice:
  "fill_sell_accounts_with_count derive get count (fill_sell_accounts_with_count derive get count e) =
   fill_sell_accounts_with_count derive get count e"
proof (cases "count = 17 \<and> get 16 = PUMPSWAP_PROGRAM_ID")
  case False
  have "fill_sell_common get (fill_sell_tail derive get count (fill_sell_common get e)) =
      fill_sell_tail derive get count (fill_sell_common get e)"
    by (rule sell_common_tail) (rule sell_common_twice)
  then show ?thesis using False
    by (auto simp: fill_sell_accounts_with_count_def Let_def sell_common_twice sell_tail_twice)
qed (simp add: fill_sell_accounts_with_count_def sell_compact_twice)

lemma sell_tail_keys:
  "sws_pool (fill_sell_tail derive get count e) = sws_pool e" "sws_user (fill_sell_tail derive get count e) = sws_user e"
  by (cases "sell_tail_values derive get count (sws_user e) (sws_base_mint e)"; simp add: sell_tail_values)+

lemma sell_fill_keys:
  "sws_pool (fill_sell_accounts_with_count derive get count e) = fill_if_default (sws_pool e) (get 0)"
  "sws_user (fill_sell_accounts_with_count derive get count e) = fill_if_default (sws_user e) (get 1)"
  by (simp_all add: fill_sell_accounts_with_count_def Let_def sell_tail_keys fill_sell_compact_def fill_sell_common_def)

abbreviation sell_context_test :: "pumpswap_sell_event \<Rightarrow> context_test" where
  "sell_context_test e data get count \<equiv>
     sws_pool e \<noteq> default_pubkey \<and> pumpswap_trade_matches (sws_pool e) (sws_user e) False data get count"

interpretation swap_sell: account_context "sell_context_test"
    "\<lambda>data get count. fill_sell_accounts_with_count derive get count" for derive
proof
  fix e d g n d' g' n'
  assume "sell_context_test e d g n"
  then have pool: "sws_pool e \<noteq> default_pubkey" by (rule conjunct1)
  assume "sell_context_test (fill_sell_accounts_with_count derive g n e) d' g' n'"
  then have "pumpswap_trade_matches (sws_pool e) (fill_if_default (sws_user e) (g 1)) False d' g' n'"
    by (simp only: sell_fill_keys fill_if_default_set [OF pool])
  then show "sell_context_test e d' g' n'"
    using pool by (intro conjI) (assumption, rule pumpswap_trade_stricter)
qed (rule sell_fill_twice)

lemma dispatch_swap_sell_in_context:
  "dispatch_swap_sell c e = in_context c PUMPSWAP_PROGRAM_ID sell_context_test
     (\<lambda>data get count. fill_sell_accounts_with_count (fc_derive c) get count) e"
  unfolding dispatch_swap_sell_def
  by (rule on_found_in_context)
    (simp_all add: find_pumpswap_trade_guarded fill_event_accounts_with_invoke_def invoke_account_count_def)

end
