(* ===== verification/Context_Providers.thy ===== *)
theory Context_Providers
  imports Context_Laws
begin

text \<open>
  The searches and fillers of every protocol keep the contract of Context_Laws. Each interpretation discharges the two
  laws for one variant, and each dispatcher branch is shown to be the search and filling of that contract.
\<close>

section \<open>Pump.fun\<close>

lemma fill_quote_account_twice [simp]:
  "fill_quote_account (fill_quote_account q a) a = fill_quote_account q a"
  by (auto simp: fill_quote_account_def Let_def is_pumpfun_solscan_sol_quote_mint_def normalize_pumpfun_quote_mint_def)

lemma normalize_quote_twice [simp]:
  "normalize_pumpfun_quote_mint (normalize_pumpfun_quote_mint q) = normalize_pumpfun_quote_mint q"
  by (simp add: normalize_pumpfun_quote_mint_def)

lemma trade_v3_twice: "fill_trade_v3 get (fill_trade_v3 get e) = fill_trade_v3 get e"
  by (cases e) (simp add: fill_trade_v3_def)

lemma trade_v2_twice: "fill_trade_v2 get sell (fill_trade_v2 get sell e) = fill_trade_v2 get sell e"
proof -
  obtain e' where e': "e' = fill_trade_v2 get sell e" by simp
  show ?thesis unfolding e' [symmetric]
    by (cases sell) (simp_all add: fill_trade_v2_def [of get True e'] fill_trade_v2_def [of get False e'] Let_def,
      simp_all add: e' fill_trade_v2_def)
qed

lemma legacy_common_twice:
  "fill_trade_legacy_common get (fill_trade_legacy_common get e) = fill_trade_legacy_common get e"
  by (cases e) (simp add: fill_trade_legacy_common_def)

lemma legacy_buy_twice:
  "fill_trade_legacy_buy get (fill_trade_legacy_buy get e) = fill_trade_legacy_buy get e"
  "fill_trade_legacy_common get (fill_trade_legacy_buy get e) = fill_trade_legacy_buy get (fill_trade_legacy_common get e)"
  by (cases "pt_account e"; cases "get 17 = default_pubkey"; cases e;
      simp add: fill_trade_legacy_buy_def fill_trade_legacy_common_def Let_def)+

lemma fill_pk_default: "fill_pk k default_pubkey = k"
  by (simp add: fill_pk_def)

lemma guarded_fills:
  "(if k \<noteq> default_pubkey then e\<lparr>pt_user_volume_accumulator := fill_pk (pt_user_volume_accumulator e) k\<rparr> else e) =
     e\<lparr>pt_user_volume_accumulator := fill_pk (pt_user_volume_accumulator e) k\<rparr>"
  "(if k \<noteq> default_pubkey then e\<lparr>pt_bonding_curve_v2 := fill_pk (pt_bonding_curve_v2 e) k\<rparr> else e) =
     e\<lparr>pt_bonding_curve_v2 := fill_pk (pt_bonding_curve_v2 e) k\<rparr>"
  "(if pt_account e = None then e\<lparr>pt_account := Some k\<rparr> else e) =
     e\<lparr>pt_account := (if pt_account e = None then Some k else pt_account e)\<rparr>"
  by (simp_all add: fill_pk_def)

text \<open>A legacy sell as one update: where the three layouts keep their volume account, curve and recipient.\<close>

definition sell_layout :: "(nat \<Rightarrow> pubkey) \<Rightarrow> bool \<Rightarrow> pubkey \<times> pubkey \<times> pubkey" where
  "sell_layout get cashback =
     (if get 16 \<noteq> default_pubkey then (get 14, get 15, get 16)
      else if cashback then (get 14, get 15, default_pubkey) else (default_pubkey, get 14, get 15))"

lemma legacy_sell_update:
  "fill_trade_legacy_sell get e =
     (let (volume, curve, recipient) = sell_layout get (pt_is_cashback_coin e)
      in e\<lparr>pt_fee_config := fill_pk (pt_fee_config e) (get 12), pt_fee_program := fill_pk (pt_fee_program e) (get 13),
           pt_user_volume_accumulator := fill_pk (pt_user_volume_accumulator e) volume,
           pt_bonding_curve_v2 := fill_pk (pt_bonding_curve_v2 e) curve,
           pt_buyback_fee_recipient := fill_pk (pt_buyback_fee_recipient e) recipient,
           pt_account := (if pt_account e = None \<and> recipient \<noteq> default_pubkey then Some recipient else pt_account e)\<rparr>)"
proof (cases "get 16 = default_pubkey")
  case False
  then show ?thesis
    by (cases e) (simp add: fill_trade_legacy_sell_def sell_layout_def Let_def)
next
  case no_recent: True
  show ?thesis
  proof (cases "pt_is_cashback_coin e")
    case True
    then show ?thesis using no_recent
      by (cases e) (simp add: fill_trade_legacy_sell_def sell_layout_def Let_def guarded_fills fill_pk_default)
  next
    case False
    then show ?thesis using no_recent
      by (cases e; cases "get 15 = default_pubkey")
        (simp_all add: fill_trade_legacy_sell_def sell_layout_def Let_def guarded_fills fill_pk_default)
  qed
qed

lemma legacy_sell_twice:
  "fill_trade_legacy_sell get (fill_trade_legacy_sell get e) = fill_trade_legacy_sell get e"
  by (cases "sell_layout get (pt_is_cashback_coin e)"; cases e) (simp add: legacy_sell_update)

lemma legacy_sell_common:
  "fill_trade_legacy_common get (fill_trade_legacy_sell get e) = fill_trade_legacy_sell get (fill_trade_legacy_common get e)"
  by (cases "sell_layout get (pt_is_cashback_coin e)"; cases e) (simp add: legacy_sell_update fill_trade_legacy_common_def)

lemma legacy_side [simp]:
  "pt_is_buy (fill_trade_legacy_common get e) = pt_is_buy e" "pt_is_buy (fill_trade_legacy_buy get e) = pt_is_buy e"
  "pt_is_buy (fill_trade_legacy_sell get e) = pt_is_buy e"
  by (simp_all add: fill_trade_legacy_common_def fill_trade_legacy_buy_def fill_trade_legacy_sell_def Let_def)

lemma legacy_twice: "fill_trade_legacy get (fill_trade_legacy get e) = fill_trade_legacy get e"
  by (simp add: fill_trade_legacy_def Let_def legacy_buy_twice legacy_sell_twice legacy_sell_common legacy_common_twice)

lemma legacy_kept:
  "pt_mint (fill_trade_legacy get e) = pt_mint e" "pt_ix_name (fill_trade_legacy get e) = pt_ix_name e"
  "pt_is_buy (fill_trade_legacy get e) = pt_is_buy e" "pt_user (fill_trade_legacy get e) = fill_pk (pt_user e) (get 6)"
  by (simp_all add: fill_trade_legacy_def fill_trade_legacy_buy_def legacy_sell_update fill_trade_legacy_common_def
      Let_def split: prod.split)

lemma v2_kept:
  "pt_mint (fill_trade_v2 get sell e) = pt_mint e" "pt_ix_name (fill_trade_v2 get sell e) = pt_ix_name e"
  "pt_is_buy (fill_trade_v2 get sell e) = pt_is_buy e" "pt_user (fill_trade_v2 get sell e) = fill_pk (pt_user e) (get 13)"
  by (simp_all add: fill_trade_v2_def Let_def)

lemma v3_kept:
  "pt_mint (fill_trade_v3 get e) = fill_pk (pt_mint e) (get 1)" "pt_ix_name (fill_trade_v3 get e) = pt_ix_name e"
  "pt_is_buy (fill_trade_v3 get e) = pt_is_buy e" "pt_user (fill_trade_v3 get e) = fill_pk (pt_user e) (get 8)"
  by (simp_all add: fill_trade_v3_def)

lemma trade_fill_kept:
  "pt_mint (pumpfun_fill_trade_accounts get e) = pt_mint e" "pt_ix_name (pumpfun_fill_trade_accounts get e) = pt_ix_name e"
  "pt_is_buy (pumpfun_fill_trade_accounts get e) = pt_is_buy e"
  "known_at g (pt_user (pumpfun_fill_trade_accounts get e)) i \<Longrightarrow> known_at g (pt_user e) i"
  by (auto simp: pumpfun_fill_trade_accounts_def legacy_kept v2_kept v3_kept Let_def account_at_matches_mint_def fill_pk_def
      split: if_splits)

definition chosen_fill :: "bool \<Rightarrow> bool \<Rightarrow> bool \<Rightarrow> (nat \<Rightarrow> pubkey) \<Rightarrow> pumpfun_trade_event \<Rightarrow> pumpfun_trade_event" where
  "chosen_fill v3 v2 sell get =
     (if v3 then fill_trade_v3 get else if v2 then fill_trade_v2 get sell else fill_trade_legacy get)"

lemma trade_fill_chosen:
  "pumpfun_fill_trade_accounts get e =
     chosen_fill (get 16 = PUMPFUN_PROGRAM_ID \<and> account_at_matches_mint e get 1) (pump_trade_uses_v2_layout e get)
       (pt_ix_name e \<in> {''sell'', ''sell_v2''} \<or> \<not> pt_is_buy e) get e"
  by (simp only: pumpfun_fill_trade_accounts_def chosen_fill_def Let_def if_distribR)

lemma chosen_fill_twice: "chosen_fill v3 v2 sell get (chosen_fill v3 v2 sell get e) = chosen_fill v3 v2 sell get e"
  by (simp only: chosen_fill_def trade_v3_twice trade_v2_twice legacy_twice split: if_split) simp

lemma trade_fill_layout:
  "account_at_matches_mint (pumpfun_fill_trade_accounts get e) get i = account_at_matches_mint e get i"
  "pump_trade_uses_v2_layout (pumpfun_fill_trade_accounts get e) get = pump_trade_uses_v2_layout e get"
  by (simp_all only: account_at_matches_mint_def pump_trade_uses_v2_layout_def trade_fill_kept)

lemma trade_fill_twice:
  "pumpfun_fill_trade_accounts get (pumpfun_fill_trade_accounts get e) = pumpfun_fill_trade_accounts get e"
  by (simp only: trade_fill_chosen [of get "pumpfun_fill_trade_accounts get e"] trade_fill_layout trade_fill_kept)
    (simp only: trade_fill_chosen [of get e] chosen_fill_twice)

lemma pump_trade_matches_known:
  "pump_trade_matches e data get count \<longleftrightarrow>
     (case pump_trade_shape (get_range 0 8 data) of None \<Rightarrow> False
      | Some (mint_idx, user_idx, is_buy, minimum) \<Rightarrow>
          count \<ge> minimum \<and> is_buy = pt_is_buy e \<and> pt_mint e \<noteq> default_pubkey \<and>
          get mint_idx = pt_mint e \<and> known_at get (pt_user e) user_idx)"
  by (simp add: pump_trade_matches_def known_at_def split: option.split prod.split)

interpretation pump_trade: account_context pump_trade_matches "\<lambda>data get count. pumpfun_fill_trade_accounts get"
  by unfold_locales
    (auto simp: pump_trade_matches_known trade_fill_kept(1,3) trade_fill_twice dest: trade_fill_kept(4) split: option.splits)

lemma dispatch_pump_trade_in_context:
  "dispatch_pump_trade c e = in_context c PUMPFUN_PROGRAM_ID pump_trade_matches (\<lambda>data get count. pumpfun_fill_trade_accounts get) e"
  unfolding dispatch_pump_trade_def find_pumpfun_trade_invoke_def by (rule fill_by_in_context)

end
