(* ===== verification/Venue_Contexts.thy ===== *)
theory Venue_Contexts
  imports Context_Providers
begin

text \<open>
  The contract of the account context for the variants whose filler reads fixed places only: PumpSwap pools, LaunchLab,
  Raydium CPMM liquidity and AMM V4, and Meteora Pools swaps.
\<close>

lemma swap_create_twice: "fill_create_pool_accounts get (fill_create_pool_accounts get e) = fill_create_pool_accounts get e"
  by (cases e) (simp add: fill_create_pool_accounts_def)

interpretation swap_create: account_context "\<lambda>e. identity_matches AMM_CREATE_POOL 58 18
       [(swp_pool e, 0), (swp_creator e, 2), (swp_base_mint e, 3), (swp_quote_mint e, 4), (swp_lp_mint e, 5),
        (swp_user_base_token_account e, 6), (swp_user_quote_token_account e, 7)]"
    "\<lambda>data get count. fill_create_pool_accounts get"
  by unfold_locales (auto simp: identity_matches_def swap_create_twice fill_create_pool_accounts_def split: option.splits prod.splits)

lemma dispatch_swap_create_in_context:
  "dispatch_swap_create c e = in_context c PUMPSWAP_PROGRAM_ID (\<lambda>e. identity_matches AMM_CREATE_POOL 58 18
       [(swp_pool e, 0), (swp_creator e, 2), (swp_base_mint e, 3), (swp_quote_mint e, 4), (swp_lp_mint e, 5),
        (swp_user_base_token_account e, 6), (swp_user_quote_token_account e, 7)]) (\<lambda>data get count. fill_create_pool_accounts get) e"
  unfolding dispatch_swap_create_def find_pumpswap_create_invoke_def find_identity_invoke_def by (rule fill_by_in_context)

section \<open>LaunchLab\<close>

lemma launchlab_trade_twice: "launchlab_fill_trade_accounts get (launchlab_fill_trade_accounts get e) = launchlab_fill_trade_accounts get e"
  by (cases e) (simp add: launchlab_fill_trade_accounts_def)

interpretation launchlab_trade: account_context "launchlab_trade_matches"
    "\<lambda>data get count. launchlab_fill_trade_accounts get"
  by unfold_locales (auto simp: launchlab_trade_matches_def launchlab_trade_twice launchlab_fill_trade_accounts_def split: option.splits prod.splits)

lemma dispatch_launchlab_trade_in_context:
  "dispatch_launchlab_trade c e = in_context c RAYDIUM_LAUNCHLAB_PROGRAM_ID (launchlab_trade_matches) (\<lambda>data get count. launchlab_fill_trade_accounts get) e"
  unfolding dispatch_launchlab_trade_def by (rule fill_by_in_context)

lemma launchlab_create_twice:
  "launchlab_fill_pool_create_accounts get (launchlab_fill_pool_create_accounts get e) = launchlab_fill_pool_create_accounts get e"
  by (cases e) (simp add: launchlab_fill_pool_create_accounts_def Let_def)

lemma launchlab_create_programs:
  "known_at g (llp_base_token_program (launchlab_fill_pool_create_accounts get e)) i \<Longrightarrow> known_at g (llp_base_token_program e) i"
  "known_at g (llp_quote_token_program (launchlab_fill_pool_create_accounts get e)) i \<Longrightarrow> known_at g (llp_quote_token_program e) i"
  by (auto simp: launchlab_fill_pool_create_accounts_def Let_def split: if_splits)

lemma launchlab_create_accounts:
  "llp_pool_state (launchlab_fill_pool_create_accounts get e) = fill_if_default (llp_pool_state e) (get 5)"
  "llp_payer (launchlab_fill_pool_create_accounts get e) = fill_if_default (llp_payer e) (get 0)"
  "llp_creator (launchlab_fill_pool_create_accounts get e) = fill_if_default (llp_creator e) (get 1)"
  "llp_base_mint (launchlab_fill_pool_create_accounts get e) = fill_if_default (llp_base_mint e) (get 6)"
  "llp_quote_mint (launchlab_fill_pool_create_accounts get e) = fill_if_default (llp_quote_mint e) (get 7)"
  "llp_base_vault (launchlab_fill_pool_create_accounts get e) = fill_if_default (llp_base_vault e) (get 8)"
  "llp_quote_vault (launchlab_fill_pool_create_accounts get e) = fill_if_default (llp_quote_vault e) (get 9)"
  "llp_global_config (launchlab_fill_pool_create_accounts get e) = fill_if_default (llp_global_config e) (get 2)"
  "llp_platform_config (launchlab_fill_pool_create_accounts get e) = fill_if_default (llp_platform_config e) (get 3)"
  by (simp_all add: launchlab_fill_pool_create_accounts_def Let_def)

interpretation launchlab_create: account_context launchlab_create_matches
    "\<lambda>data get count. launchlab_fill_pool_create_accounts get"
proof
  show "launchlab_create_matches e d' g' n'"
    if "launchlab_create_matches (launchlab_fill_pool_create_accounts g e) d' g' n'" for e g d' g' n'
    using that unfolding launchlab_create_matches_def known_accounts_simps launchlab_create_accounts
    by (auto dest: launchlab_create_programs split: option.splits)
qed (rule launchlab_create_twice)

lemma dispatch_launchlab_create_in_context:
  "dispatch_launchlab_create c e = in_context c RAYDIUM_LAUNCHLAB_PROGRAM_ID launchlab_create_matches
     (\<lambda>data get count. launchlab_fill_pool_create_accounts get) e"
  unfolding dispatch_launchlab_create_def by (rule fill_by_in_context)

section \<open>Raydium\<close>

lemma cpmm_deposit_twice: "fill_cpmm_deposit_accounts get (fill_cpmm_deposit_accounts get e) = fill_cpmm_deposit_accounts get e"
  by (cases e) (simp add: fill_cpmm_deposit_accounts_def)

interpretation cpmm_deposit: account_context "\<lambda>e. identity_matches CPMM_DEPOSIT 32 13 [(cpd_pool e, 2), (cpd_user e, 0)]"
    "\<lambda>data get count. fill_cpmm_deposit_accounts get"
  by unfold_locales (auto simp: identity_matches_def cpmm_deposit_twice fill_cpmm_deposit_accounts_def split: option.splits prod.splits)

lemma dispatch_cpmm_deposit_in_context:
  "dispatch_cpmm_deposit c e = in_context c RAYDIUM_CPMM_PROGRAM_ID (\<lambda>e. identity_matches CPMM_DEPOSIT 32 13 [(cpd_pool e, 2), (cpd_user e, 0)]) (\<lambda>data get count. fill_cpmm_deposit_accounts get) e"
  unfolding dispatch_cpmm_deposit_def find_identity_invoke_def by (rule fill_by_in_context)

lemma cpmm_withdraw_twice: "fill_cpmm_withdraw_accounts get (fill_cpmm_withdraw_accounts get e) = fill_cpmm_withdraw_accounts get e"
  by (cases e) (simp add: fill_cpmm_withdraw_accounts_def)

interpretation cpmm_withdraw: account_context "\<lambda>e. identity_matches CPMM_WITHDRAW 32 14 [(cpw_pool e, 2), (cpw_user e, 0)]"
    "\<lambda>data get count. fill_cpmm_withdraw_accounts get"
  by unfold_locales (auto simp: identity_matches_def cpmm_withdraw_twice fill_cpmm_withdraw_accounts_def split: option.splits prod.splits)

lemma dispatch_cpmm_withdraw_in_context:
  "dispatch_cpmm_withdraw c e = in_context c RAYDIUM_CPMM_PROGRAM_ID (\<lambda>e. identity_matches CPMM_WITHDRAW 32 14 [(cpw_pool e, 2), (cpw_user e, 0)]) (\<lambda>data get count. fill_cpmm_withdraw_accounts get) e"
  unfolding dispatch_cpmm_withdraw_def find_identity_invoke_def by (rule fill_by_in_context)

lemma cpmm_initialize_twice: "fill_cpmm_initialize_accounts get (fill_cpmm_initialize_accounts get e) = fill_cpmm_initialize_accounts get e"
  by (cases e) (simp add: fill_cpmm_initialize_accounts_def)

interpretation cpmm_initialize: account_context "\<lambda>e. identity_matches CPMM_INITIALIZE 32 20 [(cpn_pool e, 3), (cpn_creator e, 0)]"
    "\<lambda>data get count. fill_cpmm_initialize_accounts get"
  by unfold_locales (auto simp: identity_matches_def cpmm_initialize_twice fill_cpmm_initialize_accounts_def split: option.splits prod.splits)

lemma dispatch_cpmm_initialize_in_context:
  "dispatch_cpmm_initialize c e = in_context c RAYDIUM_CPMM_PROGRAM_ID (\<lambda>e. identity_matches CPMM_INITIALIZE 32 20 [(cpn_pool e, 3), (cpn_creator e, 0)]) (\<lambda>data get count. fill_cpmm_initialize_accounts get) e"
  unfolding dispatch_cpmm_initialize_def find_identity_invoke_def by (rule fill_by_in_context)

lemma amm_swap_twice: "fill_amm_v4_swap_accounts get (fill_amm_v4_swap_accounts get e) = fill_amm_v4_swap_accounts get e"
  by (cases e) (simp add: fill_amm_v4_swap_accounts_def)

interpretation amm_swap: account_context "amm_swap_matches"
    "\<lambda>data get count. fill_amm_v4_swap_accounts get"
  by unfold_locales (auto simp: amm_swap_matches_def amm_swap_twice fill_amm_v4_swap_accounts_def split: option.splits prod.splits)

lemma dispatch_amm_swap_in_context:
  "dispatch_amm_swap c e = in_context c RAYDIUM_AMM_V4_PROGRAM_ID (amm_swap_matches) (\<lambda>data get count. fill_amm_v4_swap_accounts get) e"
  unfolding dispatch_amm_swap_def by (rule fill_by_in_context)

lemma amm_deposit_twice: "fill_amm_v4_deposit_accounts get (fill_amm_v4_deposit_accounts get e) = fill_amm_v4_deposit_accounts get e"
  by (cases e) (simp add: fill_amm_v4_deposit_accounts_def)

interpretation amm_deposit: account_context "\<lambda>e. identity_matches [V4_DEPOSIT] 25 14 [(avd_amm e, 1), (avd_user_owner e, 12), (avd_amm_authority e, 2)]"
    "\<lambda>data get count. fill_amm_v4_deposit_accounts get"
  by unfold_locales (auto simp: identity_matches_def amm_deposit_twice fill_amm_v4_deposit_accounts_def split: option.splits prod.splits)

lemma dispatch_amm_deposit_in_context:
  "dispatch_amm_deposit c e = in_context c RAYDIUM_AMM_V4_PROGRAM_ID (\<lambda>e. identity_matches [V4_DEPOSIT] 25 14 [(avd_amm e, 1), (avd_user_owner e, 12), (avd_amm_authority e, 2)]) (\<lambda>data get count. fill_amm_v4_deposit_accounts get) e"
  unfolding dispatch_amm_deposit_def find_identity_invoke_def by (rule fill_by_in_context)

lemma amm_withdraw_twice: "fill_amm_v4_withdraw_accounts get (fill_amm_v4_withdraw_accounts get e) = fill_amm_v4_withdraw_accounts get e"
  by (cases e) (simp add: fill_amm_v4_withdraw_accounts_def)

interpretation amm_withdraw: account_context "\<lambda>e. identity_matches [V4_WITHDRAW] 9 22
       [(avw_amm e, 1), (avw_user_owner e, 18), (avw_amm_authority e, 2), (avw_amm_open_orders e, 3)]"
    "\<lambda>data get count. fill_amm_v4_withdraw_accounts get"
  by unfold_locales (auto simp: identity_matches_def amm_withdraw_twice fill_amm_v4_withdraw_accounts_def split: option.splits prod.splits)

lemma dispatch_amm_withdraw_in_context:
  "dispatch_amm_withdraw c e = in_context c RAYDIUM_AMM_V4_PROGRAM_ID (\<lambda>e. identity_matches [V4_WITHDRAW] 9 22
       [(avw_amm e, 1), (avw_user_owner e, 18), (avw_amm_authority e, 2), (avw_amm_open_orders e, 3)]) (\<lambda>data get count. fill_amm_v4_withdraw_accounts get) e"
  unfolding dispatch_amm_withdraw_def find_identity_invoke_def by (rule fill_by_in_context)

section \<open>Meteora Pools\<close>

lemma pools_swap_twice: "fill_pools_swap_accounts get (fill_pools_swap_accounts get e) = fill_pools_swap_accounts get e"
  by (cases e) (simp add: fill_pools_swap_accounts_def)

interpretation pools_swap: account_context "pools_swap_matches"
    "\<lambda>data get count. fill_pools_swap_accounts get"
  by unfold_locales (auto simp: pools_swap_matches_def pools_swap_twice fill_pools_swap_accounts_def split: option.splits prod.splits)

lemma dispatch_pools_swap_in_context:
  "dispatch_pools_swap c e = in_context c METEORA_POOLS_PROGRAM_ID (pools_swap_matches) (\<lambda>data get count. fill_pools_swap_accounts get) e"
  unfolding dispatch_pools_swap_def by (rule fill_by_in_context)

end
