(* ===== verification/Pool_Contexts.thy ===== *)
theory Pool_Contexts
  imports Context_Laws
begin

text \<open>
  The contract of the account context for CPMM, CLMM and Orca swaps, CLMM management, Orca liquidity, DAMM pools, the
  Meteora Pools events that are known by their instruction's name, and DLMM swaps.
\<close>

section \<open>Raydium swaps\<close>

lemma cpmm_swap_twice: "fill_cpmm_swap_accounts get (fill_cpmm_swap_accounts get e) = fill_cpmm_swap_accounts get e"
  by (cases e) (simp add: fill_cpmm_swap_accounts_def)

lemma cpmm_swap_filled:
  "cps_payer (fill_cpmm_swap_accounts get e) = fill_if_default (cps_payer e) (get 0)"
  "cps_pool_id (fill_cpmm_swap_accounts get e) = fill_if_default (cps_pool_id e) (get 3)"
  "cps_input_token_account (fill_cpmm_swap_accounts get e) = fill_if_default (cps_input_token_account e) (get 4)"
  "cps_output_token_account (fill_cpmm_swap_accounts get e) = fill_if_default (cps_output_token_account e) (get 5)"
  "cps_input_vault (fill_cpmm_swap_accounts get e) = fill_if_default (cps_input_vault e) (get 6)"
  "cps_output_vault (fill_cpmm_swap_accounts get e) = fill_if_default (cps_output_vault e) (get 7)"
  "cps_input_token_mint (fill_cpmm_swap_accounts get e) = fill_if_default (cps_input_token_mint e) (get 10)"
  "cps_output_token_mint (fill_cpmm_swap_accounts get e) = fill_if_default (cps_output_token_mint e) (get 11)"
  "cps_input_mint (fill_cpmm_swap_accounts get e) = cps_input_mint e"
  "cps_output_mint (fill_cpmm_swap_accounts get e) = cps_output_mint e"
  "cps_base_input (fill_cpmm_swap_accounts get e) = cps_base_input e"
  "cps_ix_name (fill_cpmm_swap_accounts get e) = cps_ix_name e"
  by (simp_all add: fill_cpmm_swap_accounts_def)

abbreviation cpmm_context_test :: "raydium_cpmm_swap_event \<Rightarrow> context_test" where
  "cpmm_context_test e data get count \<equiv> cps_pool_id e \<noteq> default_pubkey \<and> cpmm_swap_matches e data get count"

lemma cpmm_swap_stricter:
  assumes "cps_pool_id e \<noteq> default_pubkey" "cpmm_swap_matches (fill_cpmm_swap_accounts g e) d' g' n'"
  shows "cpmm_swap_matches e d' g' n'"
  using assms(2) unfolding cpmm_swap_matches_def known_accounts_simps cpmm_swap_filled fill_if_default_set [OF assms(1)]
  by (auto split: option.split_asm split del: if_split) (auto split: if_split_asm)

interpretation cpmm_swap: account_context cpmm_context_test "\<lambda>data get count. fill_cpmm_swap_accounts get"
  by unfold_locales (auto simp: cpmm_swap_twice intro: cpmm_swap_stricter)

lemma find_cpmm_swap_guarded:
  "find_cpmm_swap_invoke search invokes meta tx e = find_context_invoke search invokes meta tx (cpmm_context_test e)"
proof (cases "cps_pool_id e = default_pubkey \<or> tx = None")
  case True
  have "\<not> context_matches search meta tx (cpmm_context_test e) index"
    if "cps_pool_id e = default_pubkey" for index using that
    by (simp add: context_matches_def split: option.split)
  moreover have "\<not> context_matches search meta None (cpmm_swap_matches e) index"
    if "cps_pool_id e \<noteq> default_pubkey" for index using that
    by (auto simp: context_matches_def cpmm_swap_matches_def no_keys_no_accounts split: option.split if_splits)
  ultimately show ?thesis using True
    by (auto simp: find_cpmm_swap_invoke_def find_context_invoke_def only_match_def filter_empty_conv split: list.split)
next
  case False
  then show ?thesis by (auto simp: find_cpmm_swap_invoke_def find_context_invoke_def)
qed

lemma dispatch_cpmm_swap_in_context:
  "dispatch_cpmm_swap c e =
     in_context c RAYDIUM_CPMM_PROGRAM_ID cpmm_context_test (\<lambda>data get count. fill_cpmm_swap_accounts get) e"
  unfolding dispatch_cpmm_swap_def find_cpmm_swap_guarded by (rule fill_by_in_context)

lemma clmm_ticks_twice:
  "fill_clmm_ticks derive remaining (fill_clmm_ticks derive remaining e) = fill_clmm_ticks derive remaining e"
  by (cases e) (simp add: fill_clmm_ticks_def Let_def)

definition clmm_fixed :: "(nat \<Rightarrow> pubkey) \<Rightarrow> raydium_clmm_swap_event \<Rightarrow> raydium_clmm_swap_event" where
  "clmm_fixed get e =
     e\<lparr>cls_pool_state := fill_if_default (cls_pool_state e) (get 2),
       cls_sender := fill_if_default (cls_sender e) (get 0),
       cls_token_account_0 := fill_if_default (cls_token_account_0 e) (get 3),
       cls_token_account_1 := fill_if_default (cls_token_account_1 e) (get 4),
       cls_amm_config := fill_if_default (cls_amm_config e) (get 1),
       cls_input_vault := fill_if_default (cls_input_vault e) (get 5),
       cls_output_vault := fill_if_default (cls_output_vault e) (get 6),
       cls_observation_state := fill_if_default (cls_observation_state e) (get 7)\<rparr>"

definition clmm_mints :: "(nat \<Rightarrow> pubkey) \<Rightarrow> raydium_clmm_swap_event \<Rightarrow> raydium_clmm_swap_event" where
  "clmm_mints get e =
     e\<lparr>cls_input_mint := fill_if_default (cls_input_mint e) (get 11),
       cls_output_mint := fill_if_default (cls_output_mint e) (get 12)\<rparr>"

definition clmm_v2 :: "(nat \<Rightarrow> pubkey) \<Rightarrow> raydium_clmm_swap_event \<Rightarrow> bool" where
  "clmm_v2 get e =
     (if cls_ix_name e = ''swap'' then False else if cls_ix_name e = ''swap_v2'' then True else get 10 = MEMO_PROGRAM)"

definition clmm_known :: "(nat \<Rightarrow> pubkey) \<Rightarrow> raydium_clmm_swap_event \<Rightarrow> raydium_clmm_swap_event" where
  "clmm_known get e = (if clmm_v2 get e then clmm_mints get (clmm_fixed get e) else clmm_fixed get e)"

lemma clmm_name [simp]:
  "cls_ix_name (clmm_fixed get e) = cls_ix_name e" "cls_ix_name (clmm_mints get e) = cls_ix_name e"
  "cls_ix_name (clmm_known get e) = cls_ix_name e" "cls_ix_name (fill_clmm_ticks derive remaining e) = cls_ix_name e"
  by (simp_all add: clmm_fixed_def clmm_mints_def clmm_known_def fill_clmm_ticks_def Let_def)

lemma clmm_v2_name [simp]:
  "clmm_v2 get (clmm_fixed get e) = clmm_v2 get e" "clmm_v2 get (clmm_known get e) = clmm_v2 get e"
  "clmm_v2 get (fill_clmm_ticks derive remaining e) = clmm_v2 get e"
  by (simp_all add: clmm_v2_def)

lemma clmm_fill_stages:
  "fill_clmm_swap_accounts_impl derive get account_count e =
     (let known = clmm_known get e
      in if cls_tick_arrays known = []
         then fill_clmm_ticks derive (clmm_remaining get (if clmm_v2 get e then 13 else 9) account_count) known else known)"
  by (simp only: fill_clmm_swap_accounts_impl_def clmm_fixed_def [symmetric] clmm_mints_def [symmetric] Let_def clmm_known_def
      clmm_v2_def clmm_name)

lemma clmm_stages_twice:
  "clmm_fixed get (clmm_fixed get e) = clmm_fixed get e" "clmm_mints get (clmm_mints get e) = clmm_mints get e"
  "clmm_fixed get (clmm_mints get e) = clmm_mints get (clmm_fixed get e)"
  by (cases e; simp add: clmm_fixed_def clmm_mints_def)+

lemma clmm_known_twice: "clmm_known get (clmm_known get e) = clmm_known get e"
  by (simp add: clmm_known_def [of get "clmm_known get e"]) (simp add: clmm_known_def clmm_stages_twice)

lemma clmm_stages_ticks:
  "clmm_fixed get (e\<lparr>cls_tick_array_bitmap_extension := b\<rparr>) = (clmm_fixed get e)\<lparr>cls_tick_array_bitmap_extension := b\<rparr>"
  "clmm_fixed get (e\<lparr>cls_tick_arrays := t\<rparr>) = (clmm_fixed get e)\<lparr>cls_tick_arrays := t\<rparr>"
  "clmm_mints get (e\<lparr>cls_tick_array_bitmap_extension := b\<rparr>) = (clmm_mints get e)\<lparr>cls_tick_array_bitmap_extension := b\<rparr>"
  "clmm_mints get (e\<lparr>cls_tick_arrays := t\<rparr>) = (clmm_mints get e)\<lparr>cls_tick_arrays := t\<rparr>"
  "clmm_v2 get (e\<lparr>cls_tick_array_bitmap_extension := b\<rparr>) = clmm_v2 get e" "clmm_v2 get (e\<lparr>cls_tick_arrays := t\<rparr>) = clmm_v2 get e"
  by (cases e; simp add: clmm_v2_def clmm_fixed_def clmm_mints_def)+

lemma clmm_known_ticks:
  "clmm_known get (e\<lparr>cls_tick_array_bitmap_extension := b\<rparr>) = (clmm_known get e)\<lparr>cls_tick_array_bitmap_extension := b\<rparr>"
  "clmm_known get (e\<lparr>cls_tick_arrays := t\<rparr>) = (clmm_known get e)\<lparr>cls_tick_arrays := t\<rparr>"
  by (simp_all add: clmm_known_def clmm_stages_ticks)

lemma clmm_ticks_known:
  "clmm_known get e = e \<Longrightarrow> clmm_known get (fill_clmm_ticks derive remaining e) = fill_clmm_ticks derive remaining e"
  by (simp add: fill_clmm_ticks_def Let_def clmm_known_ticks)

lemma clmm_swap_twice:
  "fill_clmm_swap_accounts_impl derive get n (fill_clmm_swap_accounts_impl derive get n e) =
   fill_clmm_swap_accounts_impl derive get n e"
proof (cases "cls_tick_arrays (clmm_known get e) = []")
  case True
  let ?remaining = "clmm_remaining get (if clmm_v2 get e then 13 else 9) n"
  define t where "t = fill_clmm_ticks derive ?remaining (clmm_known get e)"
  have "clmm_known get t = t"
    unfolding t_def by (rule clmm_ticks_known) (rule clmm_known_twice)
  moreover have "clmm_v2 get t = clmm_v2 get e" "fill_clmm_ticks derive ?remaining t = t"
    by (simp_all only: t_def clmm_v2_name clmm_ticks_twice)
  ultimately have "fill_clmm_swap_accounts_impl derive get n t = t"
    by (simp add: clmm_fill_stages [of derive get n t] Let_def)
  moreover have "fill_clmm_swap_accounts_impl derive get n e = t"
    using True by (simp add: clmm_fill_stages Let_def t_def)
  ultimately show ?thesis by simp
next
  case False
  then show ?thesis by (simp add: clmm_fill_stages Let_def clmm_known_twice)
qed

lemma clmm_swap_filled:
  "cls_pool_state (fill_clmm_swap_accounts_impl derive get n e) = fill_if_default (cls_pool_state e) (get 2)"
  "cls_sender (fill_clmm_swap_accounts_impl derive get n e) = fill_if_default (cls_sender e) (get 0)"
  "cls_token_account_0 (fill_clmm_swap_accounts_impl derive get n e) = fill_if_default (cls_token_account_0 e) (get 3)"
  "cls_token_account_1 (fill_clmm_swap_accounts_impl derive get n e) = fill_if_default (cls_token_account_1 e) (get 4)"
  "cls_ix_name (fill_clmm_swap_accounts_impl derive get n e) = cls_ix_name e"
  "cls_input_mint (fill_clmm_swap_accounts_impl derive get n e) =
     (if clmm_v2 get e then fill_if_default (cls_input_mint e) (get 11) else cls_input_mint e)"
  "cls_output_mint (fill_clmm_swap_accounts_impl derive get n e) =
     (if clmm_v2 get e then fill_if_default (cls_output_mint e) (get 12) else cls_output_mint e)"
  by (simp_all add: clmm_fill_stages Let_def fill_clmm_ticks_def clmm_known_def clmm_fixed_def clmm_mints_def)

interpretation clmm_swap: account_context clmm_swap_matches
    "\<lambda>data get count. fill_clmm_swap_accounts_impl derive get (Some count)" for derive
proof
  fix e d g n d' g' n'
  assume "clmm_swap_matches e d g n" and
    f: "clmm_swap_matches (fill_clmm_swap_accounts_impl derive g (Some n) e) d' g' n'"
  then have pool: "cls_pool_state e \<noteq> default_pubkey" by (auto simp: clmm_swap_matches_def split: option.splits if_splits)
  from f show "clmm_swap_matches e d' g' n'"
    unfolding clmm_swap_matches_def clmm_swap_filled fill_if_default_set [OF pool]
    by (auto split: option.split_asm split del: if_split) (auto split: if_split_asm)
qed (rule clmm_swap_twice)

lemma dispatch_clmm_swap_in_context:
  "dispatch_clmm_swap c e = in_context c RAYDIUM_CLMM_PROGRAM_ID clmm_swap_matches
     (\<lambda>data get count. fill_clmm_swap_accounts_impl (fc_derive c) get (Some count)) e"
  unfolding dispatch_clmm_swap_def
  by (rule on_found_in_context) (simp_all add: fill_event_accounts_with_invoke_def invoke_account_count_def)

end
