(* ===== verification/Liquidity_Contexts.thy ===== *)
theory Liquidity_Contexts
  imports Context_Laws
begin

text \<open>
  The contract of the account context for Orca, CLMM management and DAMM pools.
\<close>

section \<open>Orca\<close>

text \<open>An Orca swap of an unknown pool could be filled by either layout; its log always names the pool.\<close>

abbreviation orca_context_test :: "orca_whirlpool_swap_event \<Rightarrow> context_test" where
  "orca_context_test e data get count \<equiv> ows_whirlpool e \<noteq> default_pubkey \<and> orca_swap_matches e data get count"

lemma orca_layouts_twice:
  "fill_orca_v2 get (fill_orca_v2 get e) = fill_orca_v2 get e" "fill_orca_v1 get (fill_orca_v1 get e) = fill_orca_v1 get e"
  by (cases e; simp add: fill_orca_v2_def fill_orca_v1_def)+

lemma orca_swap_fixed:
  "ows_ix_name (fill_whirlpool_swap_accounts get e) = ows_ix_name e" "ows_a_to_b (fill_whirlpool_swap_accounts get e) = ows_a_to_b e"
  "ows_whirlpool e \<noteq> default_pubkey \<Longrightarrow> ows_whirlpool (fill_whirlpool_swap_accounts get e) = ows_whirlpool e"
  by (simp_all add: fill_whirlpool_swap_accounts_def fill_orca_v2_def fill_orca_v1_def fill_if_default_set)

lemma orca_swap_twice:
  assumes "ows_whirlpool e \<noteq> default_pubkey"
  shows "fill_whirlpool_swap_accounts get (fill_whirlpool_swap_accounts get e) = fill_whirlpool_swap_accounts get e"
proof -
  have layout: "orca_v2_layout get (fill_whirlpool_swap_accounts get e) = orca_v2_layout get e"
    by (simp only: orca_v2_layout_def orca_swap_fixed(1) orca_swap_fixed(3) [OF assms])
  show ?thesis
    by (simp only: fill_whirlpool_swap_accounts_def [of get "fill_whirlpool_swap_accounts get e"] layout)
      (simp add: fill_whirlpool_swap_accounts_def orca_layouts_twice)
qed

lemma orca_known_stricter:
  "known_at g (ows_token_authority (fill_whirlpool_swap_accounts get e)) i \<Longrightarrow> known_at g (ows_token_authority e) i"
  "known_at g (ows_token_owner_account_a (fill_whirlpool_swap_accounts get e)) i \<Longrightarrow> known_at g (ows_token_owner_account_a e) i"
  "known_at g (ows_token_owner_account_b (fill_whirlpool_swap_accounts get e)) i \<Longrightarrow> known_at g (ows_token_owner_account_b e) i"
  "known_at g (ows_token_vault_a (fill_whirlpool_swap_accounts get e)) i \<Longrightarrow> known_at g (ows_token_vault_a e) i"
  "known_at g (ows_token_vault_b (fill_whirlpool_swap_accounts get e)) i \<Longrightarrow> known_at g (ows_token_vault_b e) i"
  "known_at g (ows_token_program_a (fill_whirlpool_swap_accounts get e)) i \<Longrightarrow> known_at g (ows_token_program_a e) i"
  "known_at g (ows_token_program_b (fill_whirlpool_swap_accounts get e)) i \<Longrightarrow> known_at g (ows_token_program_b e) i"
  "known_at g (ows_tick_array_0 (fill_whirlpool_swap_accounts get e)) i \<Longrightarrow> known_at g (ows_tick_array_0 e) i"
  "known_at g (ows_tick_array_1 (fill_whirlpool_swap_accounts get e)) i \<Longrightarrow> known_at g (ows_tick_array_1 e) i"
  "known_at g (ows_tick_array_2 (fill_whirlpool_swap_accounts get e)) i \<Longrightarrow> known_at g (ows_tick_array_2 e) i"
  "known_at g (ows_oracle (fill_whirlpool_swap_accounts get e)) i \<Longrightarrow> known_at g (ows_oracle e) i"
  "known_at g (ows_token_mint_a (fill_whirlpool_swap_accounts get e)) i \<Longrightarrow> known_at g (ows_token_mint_a e) i"
  "known_at g (ows_token_mint_b (fill_whirlpool_swap_accounts get e)) i \<Longrightarrow> known_at g (ows_token_mint_b e) i"
  by (auto simp: fill_whirlpool_swap_accounts_def fill_orca_v2_def fill_orca_v1_def split: if_splits)

interpretation orca_swap: account_context orca_context_test "\<lambda>data get count. fill_whirlpool_swap_accounts get"
proof
  fix e d g n d' g' n'
  assume e: "orca_context_test e d g n" and f: "orca_context_test (fill_whirlpool_swap_accounts g e) d' g' n'"
  have pool: "ows_whirlpool e \<noteq> default_pubkey" using e by (rule conjunct1)
  from f have "orca_swap_matches (fill_whirlpool_swap_accounts g e) d' g' n'" by (rule conjunct2)
  moreover have guard: "(if p then False else q) \<longleftrightarrow> \<not> p \<and> q" for p q by simp
  ultimately show "orca_context_test e d' g' n'"
    unfolding orca_swap_matches_def known_accounts_simps guard orca_swap_fixed(1,2) orca_swap_fixed(3) [OF pool] using pool
    by (simp split: option.split_asm prod.split_asm split del: if_split)
      (elim conjE; intro conjI; assumption?; blast intro: orca_known_stricter)
next
  fix e d g n
  assume "orca_context_test e d g n"
  then show "fill_whirlpool_swap_accounts g (fill_whirlpool_swap_accounts g e) = fill_whirlpool_swap_accounts g e"
    by (rule orca_swap_twice [OF conjunct1])
qed

lemma find_context_cong:
  "(\<And>data get count. t data get count = t' data get count) \<Longrightarrow>
   find_context_invoke search invokes meta tx t = find_context_invoke search invokes meta tx t'"
  by (subgoal_tac "t = t'") (simp, blast intro: ext)

lemma dispatch_orca_swap_in_context:
  assumes "ows_whirlpool e \<noteq> default_pubkey"
  shows "dispatch_orca_swap c e =
    in_context c ORCA_WHIRLPOOL_PROGRAM_ID orca_context_test (\<lambda>data get count. fill_whirlpool_swap_accounts get) e"
proof -
  have "find_context_invoke search invokes meta tx (orca_swap_matches e) =
      find_context_invoke search invokes meta tx (orca_context_test e)" for search invokes meta tx
    by (rule find_context_cong) (simp add: assms)
  then show ?thesis
    unfolding dispatch_orca_swap_def by (simp only: fill_by_in_context [of c _ orca_context_test])
qed

interpretation orca_increase: account_context "\<lambda>e. orca_liquidity_matches True (owi_whirlpool e) (owi_position e)"
    "\<lambda>data get count. fill_whirlpool_liquidity_increased_accounts get"
  by unfold_locales
    (auto simp: fill_whirlpool_liquidity_increased_accounts_def orca_liquidity_matches_def split: if_splits option.splits)

interpretation orca_decrease: account_context "\<lambda>e. orca_liquidity_matches False (owd_whirlpool e) (owd_position e)"
    "\<lambda>data get count. fill_whirlpool_liquidity_decreased_accounts get"
  by unfold_locales
    (auto simp: fill_whirlpool_liquidity_decreased_accounts_def orca_liquidity_matches_def split: if_splits option.splits)

lemma dispatch_orca_increase_in_context:
  "dispatch_orca_increase c e = in_context c ORCA_WHIRLPOOL_PROGRAM_ID
     (\<lambda>e. orca_liquidity_matches True (owi_whirlpool e) (owi_position e))
     (\<lambda>data get count. fill_whirlpool_liquidity_increased_accounts get) e"
  unfolding dispatch_orca_increase_def find_orca_liquidity_invoke_def by (rule fill_by_in_context)

lemma dispatch_orca_decrease_in_context:
  "dispatch_orca_decrease c e = in_context c ORCA_WHIRLPOOL_PROGRAM_ID
     (\<lambda>e. orca_liquidity_matches False (owd_whirlpool e) (owd_position e))
     (\<lambda>data get count. fill_whirlpool_liquidity_decreased_accounts get) e"
  unfolding dispatch_orca_decrease_def find_orca_liquidity_invoke_def by (rule fill_by_in_context)

section \<open>CLMM management\<close>

text \<open>
  Filling the NFT mint of a position adds the personal position to what its search demands, which is what the
  event knows more.
\<close>

interpretation clmm_create: account_context "\<lambda>e. clmm_management_matches derive (Context_Create e)"
    "\<lambda>data get count. fill_clmm_create_pool_accounts get" for derive
proof
  show "fill_clmm_create_pool_accounts g (fill_clmm_create_pool_accounts g e) = fill_clmm_create_pool_accounts g e" for g e
    by (cases e) (simp add: fill_clmm_create_pool_accounts_def)
qed (auto simp: clmm_management_matches_def personal_at_def fill_clmm_create_pool_accounts_def Let_def split: option.splits if_splits)

interpretation clmm_close: account_context "\<lambda>e. clmm_management_matches derive (Context_Close e)"
    "\<lambda>data get count. fill_clmm_close_position_accounts get" for derive
proof
  show "fill_clmm_close_position_accounts g (fill_clmm_close_position_accounts g e) = fill_clmm_close_position_accounts g e" for g e
    by (cases e) (simp add: fill_clmm_close_position_accounts_def)
qed (auto simp: clmm_management_matches_def personal_at_def fill_clmm_close_position_accounts_def fill_if_default_def [of "clx_position_nft_mint _"] Let_def split: option.splits if_splits)

interpretation clmm_increase: account_context "\<lambda>e. clmm_management_matches derive (Context_Increase e)"
    "\<lambda>data get count. fill_clmm_increase_liquidity_accounts get" for derive
proof
  show "fill_clmm_increase_liquidity_accounts g (fill_clmm_increase_liquidity_accounts g e) = fill_clmm_increase_liquidity_accounts g e" for g e
    by (cases e) (simp add: fill_clmm_increase_liquidity_accounts_def)
qed (auto simp: clmm_management_matches_def personal_at_def fill_clmm_increase_liquidity_accounts_def Let_def split: option.splits if_splits)

interpretation clmm_decrease: account_context "\<lambda>e. clmm_management_matches derive (Context_Decrease e)"
    "\<lambda>data get count. fill_clmm_decrease_liquidity_accounts get" for derive
proof
  show "fill_clmm_decrease_liquidity_accounts g (fill_clmm_decrease_liquidity_accounts g e) = fill_clmm_decrease_liquidity_accounts g e" for g e
    by (cases e) (simp add: fill_clmm_decrease_liquidity_accounts_def)
qed (auto simp: clmm_management_matches_def personal_at_def fill_clmm_decrease_liquidity_accounts_def Let_def split: option.splits if_splits)

abbreviation clmm_open_filler :: "bytes \<Rightarrow> (nat \<Rightarrow> pubkey) \<Rightarrow> nat \<Rightarrow> raydium_clmm_open_position_event
    \<Rightarrow> raydium_clmm_open_position_event" where
  "clmm_open_filler data get count \<equiv>
     fill_clmm_open_position_accounts_with_layout (get_range 0 8 data = Some CLMM_OPEN_POSITION_WITH_TOKEN_22_NFT) get"

interpretation clmm_open: account_context "\<lambda>e. clmm_management_matches derive (Context_Open e)" clmm_open_filler for derive
proof
  show "clmm_open_filler d g n (clmm_open_filler d g n e) = clmm_open_filler d g n e" for d g n e
    by (cases e) (simp add: fill_clmm_open_position_accounts_with_layout_def)
qed (auto simp: clmm_management_matches_def fill_clmm_open_position_accounts_with_layout_def split: option.splits)

lemma dispatch_clmm_in_context:
  "dispatch_clmm c (kind e) filler e = in_context c RAYDIUM_CLMM_PROGRAM_ID
     (\<lambda>e. clmm_management_matches (fc_derive c) (kind e)) (\<lambda>data get count. filler get) e"
  unfolding dispatch_clmm_def find_clmm_management_invoke_def by (rule fill_by_in_context)

lemma dispatch_clmm_open_in_context:
  "dispatch_clmm_open c e = in_context c RAYDIUM_CLMM_PROGRAM_ID
     (\<lambda>e. clmm_management_matches (fc_derive c) (Context_Open e)) clmm_open_filler e"
  unfolding dispatch_clmm_open_def find_clmm_management_invoke_def
  by (rule on_found_in_context) (simp_all add: fill_event_accounts_with_invoke_def)

section \<open>DAMM pools\<close>

abbreviation damm_filler :: "bytes \<Rightarrow> (nat \<Rightarrow> pubkey) \<Rightarrow> nat \<Rightarrow> meteora_damm_v2_initialize_pool_event
    \<Rightarrow> meteora_damm_v2_initialize_pool_event" where
  "damm_filler data get count e \<equiv>
     (case damm_initialize_shape data count of None \<Rightarrow> e
      | Some dynamic \<Rightarrow> fill_damm_v2_initialize_pool_accounts_with_layout dynamic get e)"

lemma damm_fill_twice:
  "fill_damm_v2_initialize_pool_accounts_with_layout dynamic get (fill_damm_v2_initialize_pool_accounts_with_layout dynamic get e) =
   fill_damm_v2_initialize_pool_accounts_with_layout dynamic get e"
  by (cases e) (simp add: fill_damm_v2_initialize_pool_accounts_with_layout_def Let_def)

lemma damm_fill_known:
  "damm_initialize_matches (fill_damm_v2_initialize_pool_accounts_with_layout dynamic g e) data get count \<Longrightarrow>
   damm_initialize_matches e data get count"
  by (auto simp: damm_initialize_matches_def fill_damm_v2_initialize_pool_accounts_with_layout_def Let_def split: option.splits)

interpretation damm_initialize: account_context damm_initialize_matches damm_filler
  by unfold_locales (auto simp: damm_fill_twice dest: damm_fill_known split: option.splits)

lemma dispatch_damm_initialize_in_context:
  "dispatch_damm_initialize c e = in_context c METEORA_DAMM_V2_PROGRAM_ID damm_initialize_matches damm_filler e"
  unfolding dispatch_damm_initialize_def
  by (rule on_found_in_context)
    (auto simp: fill_event_accounts_with_invoke_def invoke_account_count_def split: option.split)

end
