(* ===== verification/Meteora_Contexts.thy ===== *)
theory Meteora_Contexts
  imports Context_Laws
begin

text \<open>
  The contract of the account context for the Meteora Pools events that take their name from the instruction, and for DLMM
  swaps.
\<close>

section \<open>Names\<close>

lemma name_if_empty_twice [simp]: "name_if_empty name (name_if_empty name ix_name) = name_if_empty name ix_name"
  by (simp add: name_if_empty_def)

lemma named_known:
  "named_matches name_of (fill_if_default pool k) (name_if_empty name ix_name) data get count \<Longrightarrow>
   named_matches name_of pool ix_name data get count"
  by (auto simp: named_matches_def name_if_empty_def fill_if_default_def split: option.splits if_splits)

section \<open>Added liquidity\<close>

abbreviation pools_add_filler :: "bytes \<Rightarrow> (nat \<Rightarrow> pubkey) \<Rightarrow> nat \<Rightarrow> meteora_pools_add_liquidity_event
    \<Rightarrow> meteora_pools_add_liquidity_event" where
  "pools_add_filler data get count e \<equiv>
     fill_pools_add_liquidity_accounts get (mpa_ix_name_update
       (name_if_empty (if take 8 data = POOLS_ADD_LIQUIDITY then ''add_balance_liquidity'' else ''add_imbalance_liquidity'')) e)"

lemma pools_add_twice: "pools_add_filler d g n (pools_add_filler d g n e) = pools_add_filler d g n e"
  by (cases e) (simp add: fill_pools_add_liquidity_accounts_def)

interpretation pools_add: account_context pools_add_matches pools_add_filler
proof
  show "pools_add_matches e d' g' n'" if "pools_add_matches (pools_add_filler d g n e) d' g' n'" for e d g n d' g' n'
    using that unfolding pools_add_matches_def known_accounts_simps
    by (auto simp: fill_pools_add_liquidity_accounts_def name_if_empty_def split: option.splits if_splits)
qed (rule pools_add_twice)

lemma dispatch_pools_add_in_context:
  "dispatch_pools_add c e = in_context c METEORA_POOLS_PROGRAM_ID pools_add_matches pools_add_filler e"
  unfolding dispatch_pools_add_def
  by (rule on_found_in_context) (simp_all add: find_pools_add_invoke_def fill_event_accounts_with_invoke_def)

section \<open>Events found by their name\<close>

abbreviation named_filler :: "(bytes \<Rightarrow> string option) \<Rightarrow> ((string \<Rightarrow> string) \<Rightarrow> 'e \<Rightarrow> 'e) \<Rightarrow> ((nat \<Rightarrow> pubkey) \<Rightarrow> 'e \<Rightarrow> 'e)
    \<Rightarrow> bytes \<Rightarrow> (nat \<Rightarrow> pubkey) \<Rightarrow> nat \<Rightarrow> 'e \<Rightarrow> 'e" where
  "named_filler name_of set_name filler data get count e \<equiv>
     (case Option.bind (get_range 0 8 data) name_of of None \<Rightarrow> e
      | Some name \<Rightarrow> filler get (set_name (name_if_empty name) e))"

lemma named_in_context:
  "on_found c program
     (\<lambda>invokes. find_named_invoke name_of (fc_search c) invokes (fc_meta c) (fc_tx c) (pool e) (name e))
     (\<lambda>(index, ix_name) e. fill_event_accounts_with_invoke c index filler (set_name (name_if_empty ix_name) e)) e =
   in_context c program (\<lambda>e. named_matches name_of (pool e) (name e)) (named_filler name_of set_name filler) e"
proof (rule on_found_in_context)
  fix invokes index data get
  assume "find_context_invoke (fc_search c) invokes (fc_meta c) (fc_tx c) (named_matches name_of (pool e) (name e)) = Some index"
    and "get_instruction_data (fc_meta c) (fc_tx c) index = Some data"
    and "context_getter (fc_search c) (fc_meta c) (fc_tx c) index = Some get"
    and "named_matches name_of (pool e) (name e) data get (instruction_account_count (fc_meta c) (fc_tx c) index)"
  then show "\<exists>found.
      find_named_invoke name_of (fc_search c) invokes (fc_meta c) (fc_tx c) (pool e) (name e) = Some found \<and>
      (case found of (index, ix_name) \<Rightarrow>
        \<lambda>e. fill_event_accounts_with_invoke c index filler (set_name (name_if_empty ix_name) e)) e =
      named_filler name_of set_name filler data get (instruction_account_count (fc_meta c) (fc_tx c) index) e"
    by (cases "get_range 0 8 data"; cases "Option.bind (get_range 0 8 data) name_of")
      (auto simp: find_named_invoke_def fill_event_accounts_with_invoke_def named_matches_def)
qed (simp add: find_named_invoke_def)

lemma pools_remove_fixed:
  "mpr_ix_name (fill_pools_remove_liquidity_accounts get e) = mpr_ix_name e"
  "mpr_pool (fill_pools_remove_liquidity_accounts get e) = fill_if_default (mpr_pool e) (get 0)"
  by (simp_all add: fill_pools_remove_liquidity_accounts_def Let_def)

lemma pools_remove_twice:
  "fill_pools_remove_liquidity_accounts get (fill_pools_remove_liquidity_accounts get e) = fill_pools_remove_liquidity_accounts get e"
  by (cases "mpr_ix_name e = ''remove_liquidity_single_side''"; cases e)
    (simp_all add: fill_pools_remove_liquidity_accounts_def Let_def)

lemma pools_remove_set_name: "mpr_ix_name_update u (fill_pools_remove_liquidity_accounts get e) = fill_pools_remove_liquidity_accounts get e" if "u (mpr_ix_name e) = mpr_ix_name e"
  using that pools_remove_fixed(1) [of get e]
  by (cases "fill_pools_remove_liquidity_accounts get e") simp

interpretation pools_remove: account_context "\<lambda>e. named_matches (pools_liquidity_name False) (mpr_pool e) (mpr_ix_name e)"
    "named_filler (pools_liquidity_name False) mpr_ix_name_update fill_pools_remove_liquidity_accounts"
  by unfold_locales
    (auto simp: pools_remove_fixed pools_remove_twice pools_remove_set_name dest: named_known split: option.splits)

lemma dispatch_pools_remove_in_context:
  "dispatch_pools_remove c e = in_context c METEORA_POOLS_PROGRAM_ID
     (\<lambda>e. named_matches (pools_liquidity_name False) (mpr_pool e) (mpr_ix_name e))
     (named_filler (pools_liquidity_name False) mpr_ix_name_update fill_pools_remove_liquidity_accounts) e"
  unfolding dispatch_pools_remove_def by (rule named_in_context)

lemma pools_bootstrap_fixed:
  "mpb_ix_name (fill_pools_bootstrap_liquidity_accounts get e) = mpb_ix_name e"
  "mpb_pool (fill_pools_bootstrap_liquidity_accounts get e) = fill_if_default (mpb_pool e) (get 0)"
  by (simp_all add: fill_pools_bootstrap_liquidity_accounts_def)

lemma pools_bootstrap_twice: "fill_pools_bootstrap_liquidity_accounts get (fill_pools_bootstrap_liquidity_accounts get e) = fill_pools_bootstrap_liquidity_accounts get e"
  by (cases e) (simp add: fill_pools_bootstrap_liquidity_accounts_def)

lemma pools_bootstrap_set_name: "mpb_ix_name_update u (fill_pools_bootstrap_liquidity_accounts get e) = fill_pools_bootstrap_liquidity_accounts get e" if "u (mpb_ix_name e) = mpb_ix_name e"
  using that pools_bootstrap_fixed(1) [of get e]
  by (cases "fill_pools_bootstrap_liquidity_accounts get e") simp

interpretation pools_bootstrap: account_context "\<lambda>e. named_matches (pools_liquidity_name True) (mpb_pool e) (mpb_ix_name e)"
    "named_filler (pools_liquidity_name True) mpb_ix_name_update fill_pools_bootstrap_liquidity_accounts"
  by unfold_locales
    (auto simp: pools_bootstrap_fixed pools_bootstrap_twice pools_bootstrap_set_name dest: named_known split: option.splits)

lemma dispatch_pools_bootstrap_in_context:
  "dispatch_pools_bootstrap c e = in_context c METEORA_POOLS_PROGRAM_ID
     (\<lambda>e. named_matches (pools_liquidity_name True) (mpb_pool e) (mpb_ix_name e))
     (named_filler (pools_liquidity_name True) mpb_ix_name_update fill_pools_bootstrap_liquidity_accounts) e"
  unfolding dispatch_pools_bootstrap_def by (rule named_in_context)

lemma pools_created_layouts_twice:
  "fill_pool_created_permissioned get (fill_pool_created_permissioned get e) = fill_pool_created_permissioned get e"
  "fill_pool_created_permissionless get (fill_pool_created_permissionless get e) = fill_pool_created_permissionless get e"
  "fill_pool_created_customizable get (fill_pool_created_customizable get e) = fill_pool_created_customizable get e"
  "fill_pool_created_configured get (fill_pool_created_configured get e) = fill_pool_created_configured get e"
  by (cases e; simp add: fill_pool_created_permissioned_def fill_pool_created_permissionless_def
      fill_pool_created_customizable_def fill_pool_created_configured_def)+

lemma pools_created_fixed:
  "mpc_ix_name (fill_pools_pool_created_accounts get e) = mpc_ix_name e"
  "mpc_pool (fill_pools_pool_created_accounts get e) = fill_if_default (mpc_pool e) (get 0)"
  by (simp_all add: fill_pools_pool_created_accounts_def fill_pool_created_permissioned_def fill_pool_created_permissionless_def
      fill_pool_created_customizable_def fill_pool_created_configured_def)

lemma chosen_twice:
  assumes "\<And>e. f1 (f1 e) = f1 e" "\<And>e. f2 (f2 e) = f2 e" "\<And>e. f3 (f3 e) = f3 e" "\<And>e. f4 (f4 e) = f4 e"
  shows "(if a then f1 (if a then f1 e else if b then f2 e else if c then f3 e else f4 e)
     else if b then f2 (if a then f1 e else if b then f2 e else if c then f3 e else f4 e)
     else if c then f3 (if a then f1 e else if b then f2 e else if c then f3 e else f4 e)
     else f4 (if a then f1 e else if b then f2 e else if c then f3 e else f4 e)) =
    (if a then f1 e else if b then f2 e else if c then f3 e else f4 e)"
  by (simp add: assms)

lemma pools_created_twice:
  "fill_pools_pool_created_accounts get (fill_pools_pool_created_accounts get e) = fill_pools_pool_created_accounts get e"
  unfolding fill_pools_pool_created_accounts_def [of get "fill_pools_pool_created_accounts get e"] pools_created_fixed
  unfolding fill_pools_pool_created_accounts_def
  by (rule chosen_twice) (rule pools_created_layouts_twice)+

lemma pools_created_set_name: "mpc_ix_name_update u (fill_pools_pool_created_accounts get e) = fill_pools_pool_created_accounts get e" if "u (mpc_ix_name e) = mpc_ix_name e"
  using that pools_created_fixed(1) [of get e]
  by (cases "fill_pools_pool_created_accounts get e") simp

interpretation pools_created: account_context "\<lambda>e. named_matches (pools_management_name True) (mpc_pool e) (mpc_ix_name e)"
    "named_filler (pools_management_name True) mpc_ix_name_update fill_pools_pool_created_accounts"
  by unfold_locales
    (auto simp: pools_created_fixed pools_created_twice pools_created_set_name dest: named_known split: option.splits)

lemma dispatch_pools_created_in_context:
  "dispatch_pools_created c e = in_context c METEORA_POOLS_PROGRAM_ID
     (\<lambda>e. named_matches (pools_management_name True) (mpc_pool e) (mpc_ix_name e))
     (named_filler (pools_management_name True) mpc_ix_name_update fill_pools_pool_created_accounts) e"
  unfolding dispatch_pools_created_def by (rule named_in_context)

lemma pools_fees_fixed:
  "mpf_ix_name (fill_pools_set_pool_fees_accounts get e) = mpf_ix_name e"
  "mpf_pool (fill_pools_set_pool_fees_accounts get e) = fill_if_default (mpf_pool e) (get 0)"
  by (simp_all add: fill_pools_set_pool_fees_accounts_def)

lemma pools_fees_twice: "fill_pools_set_pool_fees_accounts get (fill_pools_set_pool_fees_accounts get e) = fill_pools_set_pool_fees_accounts get e"
  by (cases e) (simp add: fill_pools_set_pool_fees_accounts_def)

lemma pools_fees_set_name: "mpf_ix_name_update u (fill_pools_set_pool_fees_accounts get e) = fill_pools_set_pool_fees_accounts get e" if "u (mpf_ix_name e) = mpf_ix_name e"
  using that pools_fees_fixed(1) [of get e]
  by (cases "fill_pools_set_pool_fees_accounts get e") simp

interpretation pools_fees: account_context "\<lambda>e. named_matches (pools_management_name False) (mpf_pool e) (mpf_ix_name e)"
    "named_filler (pools_management_name False) mpf_ix_name_update fill_pools_set_pool_fees_accounts"
  by unfold_locales
    (auto simp: pools_fees_fixed pools_fees_twice pools_fees_set_name dest: named_known split: option.splits)

lemma dispatch_pools_fees_in_context:
  "dispatch_pools_fees c e = in_context c METEORA_POOLS_PROGRAM_ID
     (\<lambda>e. named_matches (pools_management_name False) (mpf_pool e) (mpf_ix_name e))
     (named_filler (pools_management_name False) mpf_ix_name_update fill_pools_set_pool_fees_accounts) e"
  unfolding dispatch_pools_fees_def by (rule named_in_context)

section \<open>DLMM swaps\<close>

definition dlmm_matches :: "meteora_dlmm_swap_event \<Rightarrow> context_test" where
  "dlmm_matches e data get count \<longleftrightarrow>
     dls_pool e \<noteq> default_pubkey \<and> validate_swap_layout data count \<noteq> None \<and> get 0 = dls_pool e \<and>
     known_at get (dls_from e) 10 \<and> known_at get (dls_user_token_in e) 4 \<and> known_at get (dls_user_token_out e) 5"

abbreviation dlmm_filler :: "bytes \<Rightarrow> (nat \<Rightarrow> pubkey) \<Rightarrow> nat \<Rightarrow> meteora_dlmm_swap_event \<Rightarrow> meteora_dlmm_swap_event" where
  "dlmm_filler data get count e \<equiv>
     (case validate_swap_layout data count of None \<Rightarrow> e
      | Some start \<Rightarrow>
          fill_dlmm_swap_accounts_with_layout get start count
            (get_range 0 8 data \<in> {Some DLMM_SWAP2, Some DLMM_SWAP_EXACT_OUT2, Some DLMM_SWAP_WITH_PRICE_IMPACT2}) e)"

lemma dlmm_stages_twice:
  "fill_dlmm_fixed get (fill_dlmm_fixed get e) = fill_dlmm_fixed get e"
  "fill_dlmm_bitmap get v2 (fill_dlmm_bitmap get v2 e) = fill_dlmm_bitmap get v2 e"
  "fill_dlmm_bins get bins_start bins_end (fill_dlmm_bins get bins_start bins_end e) = fill_dlmm_bins get bins_start bins_end e"
  by (cases e; simp add: fill_dlmm_fixed_def fill_dlmm_bitmap_def fill_dlmm_bins_def Let_def)+

lemma dlmm_stages_apart:
  "fill_dlmm_fixed get (e\<lparr>dls_bitmap_extension := b\<rparr>) = (fill_dlmm_fixed get e)\<lparr>dls_bitmap_extension := b\<rparr>"
  "fill_dlmm_fixed get (e\<lparr>dls_bin_arrays := bs\<rparr>) = (fill_dlmm_fixed get e)\<lparr>dls_bin_arrays := bs\<rparr>"
  "fill_dlmm_bitmap get v2 (e\<lparr>dls_bin_arrays := bs\<rparr>) = (fill_dlmm_bitmap get v2 e)\<lparr>dls_bin_arrays := bs\<rparr>"
  by (cases e; simp add: fill_dlmm_fixed_def fill_dlmm_bitmap_def Let_def)+

lemma dlmm_fixed_later:
  "fill_dlmm_fixed get e = e \<Longrightarrow> fill_dlmm_fixed get (fill_dlmm_bitmap get v2 e) = fill_dlmm_bitmap get v2 e"
  "fill_dlmm_fixed get e = e \<Longrightarrow> fill_dlmm_fixed get (fill_dlmm_bins get bins_start bins_end e) = fill_dlmm_bins get bins_start bins_end e"
  "fill_dlmm_bitmap get v2 e = e \<Longrightarrow>
   fill_dlmm_bitmap get v2 (fill_dlmm_bins get bins_start bins_end e) = fill_dlmm_bins get bins_start bins_end e"
  by (simp_all add: fill_dlmm_bitmap_def [of get v2 e] fill_dlmm_bins_def Let_def dlmm_stages_apart)

lemma dlmm_swap_twice:
  "fill_dlmm_swap_accounts_with_layout get bins_start bins_end v2 (fill_dlmm_swap_accounts_with_layout get bins_start bins_end v2 e) =
   fill_dlmm_swap_accounts_with_layout get bins_start bins_end v2 e"
  by (simp add: fill_dlmm_swap_accounts_with_layout_def dlmm_fixed_later dlmm_stages_twice)

lemma dlmm_swap_filled:
  "dls_pool (fill_dlmm_swap_accounts_with_layout get bs be v2 e) = fill_if_default (dls_pool e) (get 0)"
  "dls_from (fill_dlmm_swap_accounts_with_layout get bs be v2 e) = dls_from e"
  "dls_user_token_in (fill_dlmm_swap_accounts_with_layout get bs be v2 e) = fill_if_default (dls_user_token_in e) (get 4)"
  "dls_user_token_out (fill_dlmm_swap_accounts_with_layout get bs be v2 e) = fill_if_default (dls_user_token_out e) (get 5)"
  by (simp_all add: fill_dlmm_swap_accounts_with_layout_def fill_dlmm_fixed_def fill_dlmm_bitmap_def fill_dlmm_bins_def Let_def)

interpretation dlmm_swap: account_context dlmm_matches dlmm_filler
proof
  fix e d g n d' g' n'
  assume e: "dlmm_matches e d g n" and f: "dlmm_matches (dlmm_filler d g n e) d' g' n'"
  have pool: "dls_pool e \<noteq> default_pubkey" using e by (simp add: dlmm_matches_def)
  obtain start where "validate_swap_layout d n = Some start" using e by (auto simp: dlmm_matches_def)
  with f show "dlmm_matches e d' g' n'"
    by (auto simp: dlmm_matches_def dlmm_swap_filled fill_if_default_set [OF pool])
qed (simp add: dlmm_swap_twice split: option.split)

lemma map_filter_filter:
  "List.map_filter f xs = map (\<lambda>x. the (f x)) (filter (\<lambda>x. f x \<noteq> None) xs)"
  by (simp add: List.map_filter_def comp_def)

lemma only_match_map: "only_match (map f xs) = map_option f (only_match xs)"
  by (simp add: only_match_def split: list.split)

lemma dlmm_context_matches:
  "dlmm_swap_context search meta tx e index \<noteq> None \<longleftrightarrow>
     context_matches search meta tx (\<lambda>data get count. dlmm_matches e data get count) index"
  if "dls_pool e \<noteq> default_pubkey"
  using that
  by (auto simp: dlmm_swap_context_def context_matches_def dlmm_matches_def Let_def split: option.splits Option.bind_splits if_splits)

lemma dlmm_context_value:
  assumes "get_instruction_data meta tx index = Some data" "context_getter search meta tx index = Some get"
    and "dlmm_matches e data get (instruction_account_count meta tx index)"
  shows "dlmm_swap_context search meta tx e index =
     Some (index, the (validate_swap_layout data (instruction_account_count meta tx index)), instruction_account_count meta tx index,
       get_range 0 8 data \<in> {Some DLMM_SWAP2, Some DLMM_SWAP_EXACT_OUT2, Some DLMM_SWAP_WITH_PRICE_IMPACT2})"
  using assms by (auto simp: dlmm_swap_context_def dlmm_matches_def Let_def)

lemma find_dlmm_found:
  assumes "dls_pool e \<noteq> default_pubkey"
  shows "find_dlmm_swap search invokes meta tx e =
    Option.bind (find_context_invoke search invokes meta tx (dlmm_matches e)) (dlmm_swap_context search meta tx e)"
proof (cases tx)
  case None
  have "\<not> context_matches search meta None (dlmm_matches e) index" for index
    using assms by (auto simp: context_matches_def dlmm_matches_def no_keys_no_accounts split: option.split)
  then show ?thesis
    by (simp only: find_dlmm_swap_def map_filter_filter dlmm_context_matches [OF assms] None)
      (simp add: find_context_invoke_def only_match_def)
next
  case (Some t)
  let ?matching = "filter (context_matches search meta tx (dlmm_matches e)) invokes"
  have found: "find_context_invoke search invokes meta tx (dlmm_matches e) = only_match ?matching"
    by (simp add: find_context_invoke_def Some)
  have "find_dlmm_swap search invokes meta tx e = map_option (\<lambda>index. the (dlmm_swap_context search meta tx e index)) (only_match ?matching)"
    by (simp only: find_dlmm_swap_def map_filter_filter dlmm_context_matches [OF assms] only_match_map)
  also have "\<dots> = Option.bind (only_match ?matching) (dlmm_swap_context search meta tx e)"
  proof (cases "only_match ?matching")
    case (Some index)
    then have "index \<in> set ?matching" by (simp add: only_match_Some_iff)
    then have "dlmm_swap_context search meta tx e index \<noteq> None" unfolding dlmm_context_matches [OF assms] by simp
    then show ?thesis by (auto simp: Some)
  qed simp
  finally show ?thesis by (simp only: found)
qed

lemma dispatch_dlmm_in_context:
  "(case map_of (fc_invokes c) METEORA_DLMM_PROGRAM_ID of None \<Rightarrow> e | Some invokes \<Rightarrow> fill_dlmm_swap_event c e invokes) =
   in_context c METEORA_DLMM_PROGRAM_ID dlmm_matches dlmm_filler e"
proof -
  have "fill_dlmm_swap_event c e invokes = fill_by_context (fc_search c) (fc_meta c) (fc_tx c) invokes dlmm_matches dlmm_filler e" for invokes
  proof (cases "find_context_invoke (fc_search c) invokes (fc_meta c) (fc_tx c) (dlmm_matches e)")
    case None
    then show ?thesis by (simp add: fill_dlmm_swap_event_def fill_by_context_def find_dlmm_found)
  next
    case (Some index)
    note found = Some
    obtain data get where at: "get_instruction_data (fc_meta c) (fc_tx c) index = Some data"
      "context_getter (fc_search c) (fc_meta c) (fc_tx c) index = Some get"
      "dlmm_matches e data get (instruction_account_count (fc_meta c) (fc_tx c) index)"
      by (rule context_matchesE [OF find_context_Some(3) [OF found]])
    have "dls_pool e \<noteq> default_pubkey" using at(3) by (simp add: dlmm_matches_def)
    moreover obtain start where "validate_swap_layout data (instruction_account_count (fc_meta c) (fc_tx c) index) = Some start"
      using at(3) by (auto simp: dlmm_matches_def)
    ultimately show ?thesis
      by (simp add: fill_dlmm_swap_event_def fill_by_context_def find_dlmm_found found dlmm_context_value [OF at]
          fill_event_accounts_with_invoke_def at(1,2))
  qed
  then show ?thesis by (cases "map_of (fc_invokes c) METEORA_DLMM_PROGRAM_ID") (simp_all only: in_context_def option.case)
qed

end
