(* ===== verification/Account_Theorems.thy ===== *)
theory Account_Theorems
  imports Swap_Contexts Venue_Contexts Pool_Contexts Liquidity_Contexts Meteora_Contexts Merge_Theorems
begin

text \<open>
  What filling the accounts of an event does, over all protocols: it is idempotent, it keeps the event's type, its
  metadata and every number the log carries, and an event whose instruction is not unique stays as it is. The proofs
  collect the interpretations of the contract of Context_Laws.
\<close>

section \<open>Filling twice\<close>

lemma in_context_keeps:
  "(\<And>data get count e. k (filler data get count e) = k e) \<Longrightarrow> k (in_context c program test filler e) = k e"
  by (simp add: in_context_def fill_by_context_def split: option.split prod.split)

lemma in_context_invariant:
  "(\<And>data get count e. P e \<Longrightarrow> P (filler data get count e)) \<Longrightarrow> P e \<Longrightarrow> P (in_context c program test filler e)"
  by (simp add: in_context_def fill_by_context_def split: option.split prod.split)

lemma pump_fun_twice: "dispatch_pump_fun c (dispatch_pump_fun c e) = dispatch_pump_fun c e"
  by (cases e) (simp_all add: dispatch_pump_trade_in_context dispatch_pump_create_in_context dispatch_pump_create_v2_in_context
      pump_trade.in_context_idempotent pump_create.in_context_idempotent pump_create_v2.in_context_idempotent)

lemma pump_swap_twice: "dispatch_pump_swap c (dispatch_pump_swap c e) = dispatch_pump_swap c e"
  by (cases e) (simp_all add: dispatch_swap_buy_in_context dispatch_swap_sell_in_context dispatch_swap_create_in_context
      swap_buy.in_context_idempotent swap_sell.in_context_idempotent swap_create.in_context_idempotent)

lemma launchlab_twice: "dispatch_raydium_launchlab c (dispatch_raydium_launchlab c e) = dispatch_raydium_launchlab c e"
  by (cases e) (simp_all add: dispatch_launchlab_trade_in_context dispatch_launchlab_create_in_context
      launchlab_trade.in_context_idempotent launchlab_create.in_context_idempotent)

lemma cpmm_twice: "dispatch_raydium_cpmm c (dispatch_raydium_cpmm c e) = dispatch_raydium_cpmm c e"
  by (cases e) (simp_all add: dispatch_cpmm_swap_in_context dispatch_cpmm_deposit_in_context dispatch_cpmm_withdraw_in_context
      dispatch_cpmm_initialize_in_context cpmm_swap.in_context_idempotent cpmm_deposit.in_context_idempotent
      cpmm_withdraw.in_context_idempotent cpmm_initialize.in_context_idempotent)

lemma clmm_twice: "dispatch_raydium_clmm c (dispatch_raydium_clmm c e) = dispatch_raydium_clmm c e"
  by (cases e) (simp_all add: dispatch_clmm_swap_in_context dispatch_clmm_open_in_context
      dispatch_clmm_in_context [where kind = Context_Create] dispatch_clmm_in_context [where kind = Context_Close]
      dispatch_clmm_in_context [where kind = Context_Increase] dispatch_clmm_in_context [where kind = Context_Decrease]
      clmm_swap.in_context_idempotent clmm_open.in_context_idempotent clmm_create.in_context_idempotent
      clmm_close.in_context_idempotent clmm_increase.in_context_idempotent clmm_decrease.in_context_idempotent)

lemma amm_twice: "dispatch_raydium_amm_v4 c (dispatch_raydium_amm_v4 c e) = dispatch_raydium_amm_v4 c e"
  by (cases e) (simp_all only: dispatch_raydium_amm_v4.simps dispatch_amm_swap_in_context dispatch_amm_deposit_in_context dispatch_amm_withdraw_in_context
      amm_swap.in_context_idempotent amm_deposit.in_context_idempotent amm_withdraw.in_context_idempotent)

fun orca_pool_known :: "orca_whirlpool_event \<Rightarrow> bool" where
  "orca_pool_known (OrcaWhirlpoolSwap_Event e) \<longleftrightarrow> ows_whirlpool e \<noteq> default_pubkey"
| "orca_pool_known event \<longleftrightarrow> True"

lemma orca_swap_dispatch_twice:
  assumes "ows_whirlpool e \<noteq> default_pubkey"
  shows "dispatch_orca_swap c (dispatch_orca_swap c e) = dispatch_orca_swap c e"
proof -
  have "ows_whirlpool (dispatch_orca_swap c e) \<noteq> default_pubkey"
    unfolding dispatch_orca_swap_in_context [OF assms]
    by (rule in_context_invariant) (simp_all add: orca_swap_fixed(3) assms)
  then show ?thesis
    by (simp only: dispatch_orca_swap_in_context assms orca_swap.in_context_idempotent not_False_eq_True)
qed

lemma orca_twice:
  "orca_pool_known e \<Longrightarrow> dispatch_orca_whirlpool c (dispatch_orca_whirlpool c e) = dispatch_orca_whirlpool c e"
  by (cases e) (simp_all add: orca_swap_dispatch_twice dispatch_orca_increase_in_context dispatch_orca_decrease_in_context
      orca_increase.in_context_idempotent orca_decrease.in_context_idempotent)

lemma damm_twice: "dispatch_meteora_damm_v2 c (dispatch_meteora_damm_v2 c e) = dispatch_meteora_damm_v2 c e"
  by (cases e) (simp_all add: dispatch_damm_initialize_in_context damm_initialize.in_context_idempotent)

lemma pools_twice: "dispatch_meteora_pools c (dispatch_meteora_pools c e) = dispatch_meteora_pools c e"
  by (cases e) (simp_all add: dispatch_pools_swap_in_context dispatch_pools_add_in_context dispatch_pools_remove_in_context
      dispatch_pools_bootstrap_in_context dispatch_pools_created_in_context dispatch_pools_fees_in_context
      pools_swap.in_context_idempotent pools_add.in_context_idempotent pools_remove.in_context_idempotent
      pools_bootstrap.in_context_idempotent pools_created.in_context_idempotent pools_fees.in_context_idempotent)

lemma dlmm_twice: "dispatch_meteora_dlmm c (dispatch_meteora_dlmm c e) = dispatch_meteora_dlmm c e"
  by (cases e) (simp_all only: dispatch_meteora_dlmm.simps dispatch_dlmm_in_context dlmm_swap.in_context_idempotent)

fun orca_swap_has_pool :: "'p dex_event \<Rightarrow> bool" where
  "orca_swap_has_pool (Orca_Whirlpool_Event e) \<longleftrightarrow> orca_pool_known e"
| "orca_swap_has_pool event \<longleftrightarrow> True"


definition demo_deposit :: raydium_cpmm_deposit_event where
  "demo_deposit = \<lparr>cpd_metadata = default_metadata, cpd_pool = replicate 32 2, cpd_token0_amount = 5, cpd_token1_amount = 6,
     cpd_lp_token_amount = 7, cpd_user = default_pubkey\<rparr>"

text \<open>One deposit instruction whose owner is the first account and whose pool the third.\<close>

definition demo_deposit_context :: fill_context where
  "demo_deposit_context =
     \<lparr>fc_derive = (\<lambda>_ _. (default_pubkey, 0)), fc_search = linear_search,
      fc_meta = \<lparr>tm_failed = False, tm_inner_instructions = [], tm_pre_token_balances = [], tm_post_token_balances = [],
        tm_loaded_writable = [], tm_loaded_readonly = []\<rparr>,
      fc_tx = Some \<lparr>tx_signatures = [], tx_msg = Some
        \<lparr>msg_account_keys = [replicate 32 9, replicate 32 1, replicate 32 2],
         msg_instructions = [\<lparr>ci_program_id_index = 0, ci_accounts = [1, 0, 2] @ replicate 10 0,
           ci_data = CPMM_DEPOSIT @ replicate 24 0\<rparr>]\<rparr>\<rparr>,
      fc_invokes = [(RAYDIUM_CPMM_PROGRAM_ID, [(0, - 1)])]\<rparr>"

lemma demo_deposit_filled:
  "dispatch_cpmm_deposit demo_deposit_context demo_deposit = demo_deposit\<lparr>cpd_user := replicate 32 1\<rparr>"
  by (simp add: dispatch_cpmm_deposit_in_context in_context_def fill_by_context_def find_context_invoke_def context_matches_def
      only_match_def get_instruction_data_def context_getter_def get_instruction_account_getter_def message_keys_def
      account_closure_def outer_instruction_def outer_accounts_def instruction_account_count_def identity_matches_def
      fill_cpmm_deposit_accounts_def fill_if_default_def known_at_def demo_deposit_context_def demo_deposit_def get_at_def
      i32_as_usize_def CPMM_DEPOSIT_def read_pubkey_fast_def read_pubkey_def read_slice_def usize_checked_add_def get_range_def)


section \<open>What filling keeps\<close>

text \<open>What is kept of what the log says: the numbers and flags, and every party that is known.\<close>

definition keeps_logged :: "executed \<Rightarrow> executed \<Rightarrow> bool" where
  "keeps_logged x y \<longleftrightarrow>
     ex_amounts y = ex_amounts x \<and> ex_prices y = ex_prices x \<and> ex_numbers y = ex_numbers x \<and> ex_flags y = ex_flags x \<and>
     list_all2 (\<lambda>k k'. k = default_pubkey \<or> k' = k) (ex_keys x) (ex_keys y)"

lemma keeps_logged_refl [simp]: "keeps_logged x x"
  by (simp add: keeps_logged_def list_all2_same)

lemma filled_key [simp]: "k = default_pubkey \<or> fill_if_default k k' = k" "k = default_pubkey \<or> fill_pk k k' = k"
  by (simp_all add: fill_if_default_def fill_pk_def)

lemma in_context_rel:
  "(\<And>e. R e e) \<Longrightarrow> (\<And>data get count e. R e (filler data get count e)) \<Longrightarrow> R e (in_context c program test filler e)"
  by (simp add: in_context_def fill_by_context_def split: option.split prod.split)

lemma dispatch_orca_swap_any:
  "dispatch_orca_swap c e =
    in_context c ORCA_WHIRLPOOL_PROGRAM_ID orca_swap_matches (\<lambda>data get count. fill_whirlpool_swap_accounts get) e"
  unfolding dispatch_orca_swap_def by (rule fill_by_in_context)

lemma clmm_swap_numbers:
  "cls_metadata (fill_clmm_swap_accounts_impl derive get n e) = cls_metadata e"
  "cls_amount_0 (fill_clmm_swap_accounts_impl derive get n e) = cls_amount_0 e"
  "cls_transfer_fee_0 (fill_clmm_swap_accounts_impl derive get n e) = cls_transfer_fee_0 e"
  "cls_amount_1 (fill_clmm_swap_accounts_impl derive get n e) = cls_amount_1 e"
  "cls_transfer_fee_1 (fill_clmm_swap_accounts_impl derive get n e) = cls_transfer_fee_1 e"
  "cls_sqrt_price_x64 (fill_clmm_swap_accounts_impl derive get n e) = cls_sqrt_price_x64 e"
  "cls_liquidity (fill_clmm_swap_accounts_impl derive get n e) = cls_liquidity e"
  "cls_tick (fill_clmm_swap_accounts_impl derive get n e) = cls_tick e"
  "cls_zero_for_one (fill_clmm_swap_accounts_impl derive get n e) = cls_zero_for_one e"
  by (simp_all add: clmm_fill_stages Let_def fill_clmm_ticks_def clmm_known_def clmm_fixed_def clmm_mints_def)

lemma pump_v3_kept: "pt_metadata (fill_trade_v3 get e) = pt_metadata e" "keeps_logged (pt_executed e) (pt_executed (fill_trade_v3 get e))"
  by (simp_all add: fill_trade_v3_def pt_executed_def keeps_logged_def)

lemma pump_v2_kept:
  "pt_metadata (fill_trade_v2 get sell e) = pt_metadata e" "keeps_logged (pt_executed e) (pt_executed (fill_trade_v2 get sell e))"
  by (cases sell; simp add: fill_trade_v2_def Let_def pt_executed_def keeps_logged_def)+

lemma pump_common_kept:
  "pt_metadata (fill_trade_legacy_common get e) = pt_metadata e"
  "keeps_logged (pt_executed e) (pt_executed (fill_trade_legacy_common get e))"
  by (simp_all add: fill_trade_legacy_common_def pt_executed_def keeps_logged_def)

lemma pump_side_kept:
  "pt_metadata (fill_trade_legacy_buy get e) = pt_metadata e" "pt_executed (fill_trade_legacy_buy get e) = pt_executed e"
  "pt_metadata (fill_trade_legacy_sell get e) = pt_metadata e" "pt_executed (fill_trade_legacy_sell get e) = pt_executed e"
  by (simp_all add: fill_trade_legacy_buy_def legacy_sell_update Let_def pt_executed_def split: prod.split)

lemma pump_legacy_kept:
  "pt_metadata (fill_trade_legacy get e) = pt_metadata e" "keeps_logged (pt_executed e) (pt_executed (fill_trade_legacy get e))"
  by (simp_all add: fill_trade_legacy_def Let_def pump_side_kept pump_common_kept)

lemma pump_fill_kept:
  "pt_metadata (pumpfun_fill_trade_accounts get e) = pt_metadata e"
  "keeps_logged (pt_executed e) (pt_executed (pumpfun_fill_trade_accounts get e))"
  by (simp_all add: pumpfun_fill_trade_accounts_def Let_def pump_v3_kept pump_v2_kept pump_legacy_kept)

lemma pump_trade_kept:
  "pt_metadata (dispatch_pump_trade c e) = pt_metadata e"
  "keeps_logged (pt_executed e) (pt_executed (dispatch_pump_trade c e))"
  unfolding dispatch_pump_trade_in_context
  by (rule in_context_keeps [where k = pt_metadata], rule pump_fill_kept,
    rule in_context_rel [where R = "\<lambda>e e'. keeps_logged (pt_executed e) (pt_executed e')"], simp, rule pump_fill_kept)

lemma pump_create_kept:
  "pc_metadata (dispatch_pump_create c e) = pc_metadata e"
  unfolding dispatch_pump_create_in_context
  by (rule in_context_keeps [where k = pc_metadata], simp add: fill_create_accounts_from_v2_def fill_create_accounts_def Let_def split: prod.split option.split)

lemma pump_create_v2_kept:
  "pv_metadata (dispatch_pump_create_v2 c e) = pv_metadata e"
  unfolding dispatch_pump_create_v2_in_context
  by (rule in_context_keeps [where k = pv_metadata], simp add: fill_create_v2_accounts_def Let_def split: prod.split option.split)

lemma swap_buy_kept:
  "swb_metadata (dispatch_swap_buy c e) = swb_metadata e"
  "keeps_logged (swb_executed e) (swb_executed (dispatch_swap_buy c e))"
  unfolding dispatch_swap_buy_in_context
  by (rule in_context_keeps [where k = swb_metadata], simp add: fill_buy_accounts_with_count_def fill_buy_compact_def fill_buy_common_def buy_tail_values Let_def split: prod.split option.split,
    rule in_context_rel [where R = "\<lambda>e e'. keeps_logged (swb_executed e) (swb_executed e')"], simp,
    simp add: fill_buy_accounts_with_count_def fill_buy_compact_def fill_buy_common_def buy_tail_values Let_def
      swb_executed_def keeps_logged_def split: prod.split option.split)

lemma swap_sell_kept:
  "sws_metadata (dispatch_swap_sell c e) = sws_metadata e"
  "keeps_logged (sws_executed e) (sws_executed (dispatch_swap_sell c e))"
  unfolding dispatch_swap_sell_in_context
  by (rule in_context_keeps [where k = sws_metadata], simp add: fill_sell_accounts_with_count_def fill_sell_compact_def fill_sell_common_def sell_tail_values Let_def split: prod.split option.split,
    rule in_context_rel [where R = "\<lambda>e e'. keeps_logged (sws_executed e) (sws_executed e')"], simp,
    simp add: fill_sell_accounts_with_count_def fill_sell_compact_def fill_sell_common_def sell_tail_values Let_def
      sws_executed_def keeps_logged_def split: prod.split option.split)

lemma swap_create_kept:
  "swp_metadata (dispatch_swap_create c e) = swp_metadata e"
  "keeps_logged (swp_executed e) (swp_executed (dispatch_swap_create c e))"
  unfolding dispatch_swap_create_in_context
  by (rule in_context_keeps [where k = swp_metadata], simp add: fill_create_pool_accounts_def Let_def split: prod.split option.split,
    rule in_context_rel [where R = "\<lambda>e e'. keeps_logged (swp_executed e) (swp_executed e')"], simp,
    simp add: fill_create_pool_accounts_def Let_def
      swp_executed_def keeps_logged_def split: prod.split option.split)

lemma launchlab_trade_kept:
  "llt_metadata (dispatch_launchlab_trade c e) = llt_metadata e"
  "keeps_logged (llt_executed e) (llt_executed (dispatch_launchlab_trade c e))"
  unfolding dispatch_launchlab_trade_in_context
  by (rule in_context_keeps [where k = llt_metadata], simp add: launchlab_fill_trade_accounts_def Let_def split: prod.split option.split,
    rule in_context_rel [where R = "\<lambda>e e'. keeps_logged (llt_executed e) (llt_executed e')"], simp,
    simp add: launchlab_fill_trade_accounts_def Let_def
      llt_executed_def keeps_logged_def split: prod.split option.split)

lemma launchlab_create_kept:
  "llp_metadata (dispatch_launchlab_create c e) = llp_metadata e"
  "keeps_logged (llp_executed e) (llp_executed (dispatch_launchlab_create c e))"
  unfolding dispatch_launchlab_create_in_context
  by (rule in_context_keeps [where k = llp_metadata], simp add: launchlab_fill_pool_create_accounts_def Let_def split: prod.split option.split,
    rule in_context_rel [where R = "\<lambda>e e'. keeps_logged (llp_executed e) (llp_executed e')"], simp,
    simp add: launchlab_fill_pool_create_accounts_def Let_def
      llp_executed_def keeps_logged_def split: prod.split option.split)

lemma cpmm_swap_kept:
  "cps_metadata (dispatch_cpmm_swap c e) = cps_metadata e"
  "keeps_logged (cps_executed e) (cps_executed (dispatch_cpmm_swap c e))"
  unfolding dispatch_cpmm_swap_in_context
  by (rule in_context_keeps [where k = cps_metadata], simp add: fill_cpmm_swap_accounts_def Let_def split: prod.split option.split,
    rule in_context_rel [where R = "\<lambda>e e'. keeps_logged (cps_executed e) (cps_executed e')"], simp,
    simp add: fill_cpmm_swap_accounts_def Let_def
      cps_executed_def keeps_logged_def split: prod.split option.split)

lemma cpmm_deposit_kept:
  "cpd_metadata (dispatch_cpmm_deposit c e) = cpd_metadata e"
  unfolding dispatch_cpmm_deposit_in_context
  by (rule in_context_keeps [where k = cpd_metadata], simp add: fill_cpmm_deposit_accounts_def Let_def split: prod.split option.split)

lemma cpmm_withdraw_kept:
  "cpw_metadata (dispatch_cpmm_withdraw c e) = cpw_metadata e"
  unfolding dispatch_cpmm_withdraw_in_context
  by (rule in_context_keeps [where k = cpw_metadata], simp add: fill_cpmm_withdraw_accounts_def Let_def split: prod.split option.split)

lemma cpmm_initialize_kept:
  "cpn_metadata (dispatch_cpmm_initialize c e) = cpn_metadata e"
  unfolding dispatch_cpmm_initialize_in_context
  by (rule in_context_keeps [where k = cpn_metadata], simp add: fill_cpmm_initialize_accounts_def Let_def split: prod.split option.split)

lemma clmm_swap_kept:
  "cls_metadata (dispatch_clmm_swap c e) = cls_metadata e"
  "keeps_logged (cls_executed e) (cls_executed (dispatch_clmm_swap c e))"
  unfolding dispatch_clmm_swap_in_context
  by (rule in_context_keeps [where k = cls_metadata], simp add: clmm_swap_filled clmm_swap_numbers Let_def split: prod.split option.split,
    rule in_context_rel [where R = "\<lambda>e e'. keeps_logged (cls_executed e) (cls_executed e')"], simp,
    simp add: clmm_swap_filled clmm_swap_numbers Let_def
      cls_executed_def keeps_logged_def split: prod.split option.split)

lemma clmm_open_kept:
  "clo_metadata (dispatch_clmm_open c e) = clo_metadata e"
  unfolding dispatch_clmm_open_in_context
  by (rule in_context_keeps [where k = clo_metadata], simp add: fill_clmm_open_position_accounts_with_layout_def Let_def split: prod.split option.split)

lemma amm_swap_kept:
  "avs_metadata (dispatch_amm_swap c e) = avs_metadata e"
  "keeps_logged (avs_executed e) (avs_executed (dispatch_amm_swap c e))"
  unfolding dispatch_amm_swap_in_context
  by (rule in_context_keeps [where k = avs_metadata], simp add: fill_amm_v4_swap_accounts_def Let_def split: prod.split option.split,
    rule in_context_rel [where R = "\<lambda>e e'. keeps_logged (avs_executed e) (avs_executed e')"], simp,
    simp add: fill_amm_v4_swap_accounts_def Let_def
      avs_executed_def keeps_logged_def split: prod.split option.split)

lemma amm_deposit_kept:
  "avd_metadata (dispatch_amm_deposit c e) = avd_metadata e"
  unfolding dispatch_amm_deposit_in_context
  by (rule in_context_keeps [where k = avd_metadata], simp add: fill_amm_v4_deposit_accounts_def Let_def split: prod.split option.split)

lemma amm_withdraw_kept:
  "avw_metadata (dispatch_amm_withdraw c e) = avw_metadata e"
  unfolding dispatch_amm_withdraw_in_context
  by (rule in_context_keeps [where k = avw_metadata], simp add: fill_amm_v4_withdraw_accounts_def Let_def split: prod.split option.split)

lemma orca_swap_kept:
  "ows_metadata (dispatch_orca_swap c e) = ows_metadata e"
  "keeps_logged (ows_executed e) (ows_executed (dispatch_orca_swap c e))"
  unfolding dispatch_orca_swap_any
  by (rule in_context_keeps [where k = ows_metadata], simp add: fill_whirlpool_swap_accounts_def fill_orca_v2_def fill_orca_v1_def Let_def split: prod.split option.split,
    rule in_context_rel [where R = "\<lambda>e e'. keeps_logged (ows_executed e) (ows_executed e')"], simp,
    simp add: fill_whirlpool_swap_accounts_def fill_orca_v2_def fill_orca_v1_def Let_def
      ows_executed_def keeps_logged_def split: prod.split option.split)

lemma orca_increase_kept:
  "owi_metadata (dispatch_orca_increase c e) = owi_metadata e"
  unfolding dispatch_orca_increase_in_context
  by (rule in_context_keeps [where k = owi_metadata], simp add: fill_whirlpool_liquidity_increased_accounts_def Let_def split: prod.split option.split)

lemma orca_decrease_kept:
  "owd_metadata (dispatch_orca_decrease c e) = owd_metadata e"
  unfolding dispatch_orca_decrease_in_context
  by (rule in_context_keeps [where k = owd_metadata], simp add: fill_whirlpool_liquidity_decreased_accounts_def Let_def split: prod.split option.split)

lemma damm_initialize_kept:
  "dvi_metadata (dispatch_damm_initialize c e) = dvi_metadata e"
  unfolding dispatch_damm_initialize_in_context
  by (rule in_context_keeps [where k = dvi_metadata], simp add: fill_damm_v2_initialize_pool_accounts_with_layout_def Let_def split: prod.split option.split)

lemma pools_swap_kept:
  "mps_metadata (dispatch_pools_swap c e) = mps_metadata e"
  "keeps_logged (mps_executed e) (mps_executed (dispatch_pools_swap c e))"
  unfolding dispatch_pools_swap_in_context
  by (rule in_context_keeps [where k = mps_metadata], simp add: fill_pools_swap_accounts_def Let_def split: prod.split option.split,
    rule in_context_rel [where R = "\<lambda>e e'. keeps_logged (mps_executed e) (mps_executed e')"], simp,
    simp add: fill_pools_swap_accounts_def Let_def
      mps_executed_def keeps_logged_def split: prod.split option.split)

lemma pools_add_kept:
  "mpa_metadata (dispatch_pools_add c e) = mpa_metadata e"
  "keeps_logged (mpa_executed e) (mpa_executed (dispatch_pools_add c e))"
  unfolding dispatch_pools_add_in_context
  by (rule in_context_keeps [where k = mpa_metadata], simp add: fill_pools_add_liquidity_accounts_def Let_def split: prod.split option.split,
    rule in_context_rel [where R = "\<lambda>e e'. keeps_logged (mpa_executed e) (mpa_executed e')"], simp,
    simp add: fill_pools_add_liquidity_accounts_def Let_def
      mpa_executed_def keeps_logged_def split: prod.split option.split)

lemma pools_remove_kept:
  "mpr_metadata (dispatch_pools_remove c e) = mpr_metadata e"
  "keeps_logged (mpr_executed e) (mpr_executed (dispatch_pools_remove c e))"
  unfolding dispatch_pools_remove_in_context
  by (rule in_context_keeps [where k = mpr_metadata], simp add: fill_pools_remove_liquidity_accounts_def Let_def split: prod.split option.split,
    rule in_context_rel [where R = "\<lambda>e e'. keeps_logged (mpr_executed e) (mpr_executed e')"], simp,
    simp add: fill_pools_remove_liquidity_accounts_def Let_def
      mpr_executed_def keeps_logged_def split: prod.split option.split)

lemma pools_bootstrap_kept:
  "mpb_metadata (dispatch_pools_bootstrap c e) = mpb_metadata e"
  "keeps_logged (mpb_executed e) (mpb_executed (dispatch_pools_bootstrap c e))"
  unfolding dispatch_pools_bootstrap_in_context
  by (rule in_context_keeps [where k = mpb_metadata], simp add: fill_pools_bootstrap_liquidity_accounts_def Let_def split: prod.split option.split,
    rule in_context_rel [where R = "\<lambda>e e'. keeps_logged (mpb_executed e) (mpb_executed e')"], simp,
    simp add: fill_pools_bootstrap_liquidity_accounts_def Let_def
      mpb_executed_def keeps_logged_def split: prod.split option.split)

lemma pools_created_kept:
  "mpc_metadata (dispatch_pools_created c e) = mpc_metadata e"
  "keeps_logged (mpc_executed e) (mpc_executed (dispatch_pools_created c e))"
  unfolding dispatch_pools_created_in_context
  by (rule in_context_keeps [where k = mpc_metadata], simp add: fill_pools_pool_created_accounts_def fill_pool_created_permissioned_def fill_pool_created_permissionless_def
      fill_pool_created_customizable_def fill_pool_created_configured_def Let_def split: prod.split option.split,
    rule in_context_rel [where R = "\<lambda>e e'. keeps_logged (mpc_executed e) (mpc_executed e')"], simp,
    simp add: fill_pools_pool_created_accounts_def fill_pool_created_permissioned_def fill_pool_created_permissionless_def
      fill_pool_created_customizable_def fill_pool_created_configured_def Let_def
      mpc_executed_def keeps_logged_def split: prod.split option.split)

lemma pools_fees_kept:
  "mpf_metadata (dispatch_pools_fees c e) = mpf_metadata e"
  "keeps_logged (mpf_executed e) (mpf_executed (dispatch_pools_fees c e))"
  unfolding dispatch_pools_fees_in_context
  by (rule in_context_keeps [where k = mpf_metadata], simp add: fill_pools_set_pool_fees_accounts_def Let_def split: prod.split option.split,
    rule in_context_rel [where R = "\<lambda>e e'. keeps_logged (mpf_executed e) (mpf_executed e')"], simp,
    simp add: fill_pools_set_pool_fees_accounts_def Let_def
      mpf_executed_def keeps_logged_def split: prod.split option.split)

lemma clmm_create_pool_accounts_kept: "clc_metadata (dispatch_clmm c (Context_Create e) fill_clmm_create_pool_accounts e) = clc_metadata e"
  unfolding dispatch_clmm_in_context [where kind = Context_Create]
  by (rule in_context_keeps [where k = clc_metadata]) (simp add: fill_clmm_create_pool_accounts_def)

lemma clmm_close_position_accounts_kept: "clx_metadata (dispatch_clmm c (Context_Close e) fill_clmm_close_position_accounts e) = clx_metadata e"
  unfolding dispatch_clmm_in_context [where kind = Context_Close]
  by (rule in_context_keeps [where k = clx_metadata]) (simp add: fill_clmm_close_position_accounts_def)

lemma clmm_increase_liquidity_accounts_kept: "cli_metadata (dispatch_clmm c (Context_Increase e) fill_clmm_increase_liquidity_accounts e) = cli_metadata e"
  unfolding dispatch_clmm_in_context [where kind = Context_Increase]
  by (rule in_context_keeps [where k = cli_metadata]) (simp add: fill_clmm_increase_liquidity_accounts_def)

lemma clmm_decrease_liquidity_accounts_kept: "cld_metadata (dispatch_clmm c (Context_Decrease e) fill_clmm_decrease_liquidity_accounts e) = cld_metadata e"
  unfolding dispatch_clmm_in_context [where kind = Context_Decrease]
  by (rule in_context_keeps [where k = cld_metadata]) (simp add: fill_clmm_decrease_liquidity_accounts_def)

lemma dlmm_swap_numbers:
  "dls_metadata (fill_dlmm_swap_accounts_with_layout get bs be v2 e) = dls_metadata e"
  "dls_from (fill_dlmm_swap_accounts_with_layout get bs be v2 e) = dls_from e"
  "dls_amount_in (fill_dlmm_swap_accounts_with_layout get bs be v2 e) = dls_amount_in e"
  "dls_amount_out (fill_dlmm_swap_accounts_with_layout get bs be v2 e) = dls_amount_out e"
  "dls_fee (fill_dlmm_swap_accounts_with_layout get bs be v2 e) = dls_fee e"
  "dls_protocol_fee (fill_dlmm_swap_accounts_with_layout get bs be v2 e) = dls_protocol_fee e"
  "dls_host_fee (fill_dlmm_swap_accounts_with_layout get bs be v2 e) = dls_host_fee e"
  "dls_amount_left (fill_dlmm_swap_accounts_with_layout get bs be v2 e) = dls_amount_left e"
  "dls_mm_fee (fill_dlmm_swap_accounts_with_layout get bs be v2 e) = dls_mm_fee e"
  "dls_limit_order_fee (fill_dlmm_swap_accounts_with_layout get bs be v2 e) = dls_limit_order_fee e"
  "dls_fee_bps (fill_dlmm_swap_accounts_with_layout get bs be v2 e) = dls_fee_bps e"
  "dls_start_bin_id (fill_dlmm_swap_accounts_with_layout get bs be v2 e) = dls_start_bin_id e"
  "dls_end_bin_id (fill_dlmm_swap_accounts_with_layout get bs be v2 e) = dls_end_bin_id e"
  "dls_event_version (fill_dlmm_swap_accounts_with_layout get bs be v2 e) = dls_event_version e"
  "dls_swap_for_y (fill_dlmm_swap_accounts_with_layout get bs be v2 e) = dls_swap_for_y e"
  "dls_fees_on_input (fill_dlmm_swap_accounts_with_layout get bs be v2 e) = dls_fees_on_input e"
  "dls_fees_on_token_x (fill_dlmm_swap_accounts_with_layout get bs be v2 e) = dls_fees_on_token_x e"
  by (simp_all add: fill_dlmm_swap_accounts_with_layout_def fill_dlmm_fixed_def fill_dlmm_bitmap_def fill_dlmm_bins_def Let_def)

lemma dlmm_filler_logged: "keeps_logged (dls_executed e) (dls_executed (dlmm_filler data get count e))"
  by (cases "validate_swap_layout data count")
    (simp_all add: dls_executed_def keeps_logged_def dlmm_swap_numbers dlmm_swap_filled(1))

lemma dlmm_swap_kept:
  "dls_metadata (in_context c METEORA_DLMM_PROGRAM_ID dlmm_matches dlmm_filler e) = dls_metadata e"
  "keeps_logged (dls_executed e) (dls_executed (in_context c METEORA_DLMM_PROGRAM_ID dlmm_matches dlmm_filler e))"
  by (rule in_context_keeps [where k = dls_metadata], simp add: dlmm_swap_numbers split: option.split,
    rule in_context_rel [where R = "\<lambda>e e'. keeps_logged (dls_executed e) (dls_executed e')"], rule keeps_logged_refl,
    rule dlmm_filler_logged)

lemma pump_fun_events_kept:
  "pump_fun_type_of (dispatch_pump_fun c e) = pump_fun_type_of e" "pump_fun_metadata (dispatch_pump_fun c e) = pump_fun_metadata e"
  "rel_option keeps_logged (pump_fun_logged e) (pump_fun_logged (dispatch_pump_fun c e))"
  by (cases e; simp add: pump_fun_logged_def pump_trade_kept pump_create_kept pump_create_v2_kept)+

lemma pump_swap_events_kept:
  "pump_swap_type_of (dispatch_pump_swap c e) = pump_swap_type_of e" "pump_swap_metadata (dispatch_pump_swap c e) = pump_swap_metadata e"
  "rel_option keeps_logged (pump_swap_logged e) (pump_swap_logged (dispatch_pump_swap c e))"
  by (cases e; simp add: pump_swap_logged_def swap_buy_kept swap_sell_kept swap_create_kept)+

lemma raydium_launchlab_events_kept:
  "raydium_launchlab_type_of (dispatch_raydium_launchlab c e) = raydium_launchlab_type_of e" "raydium_launchlab_metadata (dispatch_raydium_launchlab c e) = raydium_launchlab_metadata e"
  "rel_option keeps_logged (raydium_launchlab_logged e) (raydium_launchlab_logged (dispatch_raydium_launchlab c e))"
  by (cases e; simp add: raydium_launchlab_logged_def launchlab_trade_kept launchlab_create_kept)+

lemma raydium_cpmm_events_kept:
  "raydium_cpmm_type_of (dispatch_raydium_cpmm c e) = raydium_cpmm_type_of e" "raydium_cpmm_metadata (dispatch_raydium_cpmm c e) = raydium_cpmm_metadata e"
  "rel_option keeps_logged (raydium_cpmm_logged e) (raydium_cpmm_logged (dispatch_raydium_cpmm c e))"
  by (cases e; simp add: raydium_cpmm_logged_def cpmm_swap_kept cpmm_deposit_kept cpmm_withdraw_kept cpmm_initialize_kept)+

lemma raydium_clmm_events_kept:
  "raydium_clmm_type_of (dispatch_raydium_clmm c e) = raydium_clmm_type_of e" "raydium_clmm_metadata (dispatch_raydium_clmm c e) = raydium_clmm_metadata e"
  "rel_option keeps_logged (raydium_clmm_logged e) (raydium_clmm_logged (dispatch_raydium_clmm c e))"
  by (cases e; simp add: raydium_clmm_logged_def clmm_swap_kept clmm_open_kept clmm_create_pool_accounts_kept clmm_close_position_accounts_kept clmm_increase_liquidity_accounts_kept clmm_decrease_liquidity_accounts_kept)+

lemma raydium_amm_v4_events_kept:
  "raydium_amm_v4_type_of (dispatch_raydium_amm_v4 c e) = raydium_amm_v4_type_of e" "raydium_amm_v4_metadata (dispatch_raydium_amm_v4 c e) = raydium_amm_v4_metadata e"
  "rel_option keeps_logged (raydium_amm_v4_logged e) (raydium_amm_v4_logged (dispatch_raydium_amm_v4 c e))"
  by (cases e; simp add: raydium_amm_v4_logged_def amm_swap_kept amm_deposit_kept amm_withdraw_kept)+

lemma orca_whirlpool_events_kept:
  "orca_whirlpool_type_of (dispatch_orca_whirlpool c e) = orca_whirlpool_type_of e" "orca_whirlpool_metadata (dispatch_orca_whirlpool c e) = orca_whirlpool_metadata e"
  "rel_option keeps_logged (orca_whirlpool_logged e) (orca_whirlpool_logged (dispatch_orca_whirlpool c e))"
  by (cases e; simp add: orca_whirlpool_logged_def orca_swap_kept orca_increase_kept orca_decrease_kept)+

lemma meteora_damm_v2_events_kept:
  "meteora_damm_v2_type_of (dispatch_meteora_damm_v2 c e) = meteora_damm_v2_type_of e" "meteora_damm_v2_metadata (dispatch_meteora_damm_v2 c e) = meteora_damm_v2_metadata e"
  by (cases e; simp add: damm_initialize_kept)+

lemma meteora_pools_events_kept:
  "meteora_pools_type_of (dispatch_meteora_pools c e) = meteora_pools_type_of e" "meteora_pools_metadata (dispatch_meteora_pools c e) = meteora_pools_metadata e"
  "rel_option keeps_logged (meteora_pools_logged e) (meteora_pools_logged (dispatch_meteora_pools c e))"
  by (cases e; simp add: meteora_pools_logged_def pools_swap_kept pools_add_kept pools_remove_kept pools_bootstrap_kept pools_created_kept pools_fees_kept)+

lemma meteora_dlmm_events_kept:
  "meteora_dlmm_type_of (dispatch_meteora_dlmm c e) = meteora_dlmm_type_of e" "meteora_dlmm_metadata (dispatch_meteora_dlmm c e) = meteora_dlmm_metadata e"
  "rel_option keeps_logged (meteora_dlmm_logged e) (meteora_dlmm_logged (dispatch_meteora_dlmm c e))"
  by (cases e; simp only: dispatch_meteora_dlmm.simps dispatch_dlmm_in_context; simp add: meteora_dlmm_logged_def dlmm_swap_kept)+

text \<open>
  Filling accounts never touches what the event reports: an event keeps its type, its metadata, every amount, price,
  reserve, timestamp and flag of its log, and every party the log names; only parties the log leaves open are written.
\<close>

theorem filling_keeps_log:
  "event_type_from_dex_event (fill_accounts_with_owned_keys c event) = event_type_from_dex_event event \<and>
   metadata (fill_accounts_with_owned_keys c event) = metadata event \<and>
   rel_option keeps_logged (logged event) (logged (fill_accounts_with_owned_keys c event))"
  by (cases event) (simp_all add: logged_def pump_fun_events_kept pump_swap_events_kept raydium_launchlab_events_kept
      raydium_cpmm_events_kept raydium_clmm_events_kept raydium_amm_v4_events_kept orca_whirlpool_events_kept
      meteora_damm_v2_events_kept meteora_pools_events_kept meteora_dlmm_events_kept option.rel_refl)

section \<open>One instruction or none\<close>

text \<open>
  An event never takes its accounts from a guess: a Pump.fun trade whose program was invoked but whose instruction is
  missing or not unique (no invocation, or several, with the trade's layout, side, mint and user) stays exactly as
  it was logged.
\<close>

theorem no_guessed_accounts:
  assumes "map_of (fc_invokes c) PUMPFUN_PROGRAM_ID = Some invokes"
    and "length (filter (context_matches (fc_search c) (fc_meta c) (fc_tx c) (pump_trade_matches trade)) invokes) \<noteq> 1"
  shows "fill_accounts_with_owned_keys c (Pump_Fun_Event (PumpFunTrade_Event trade)) = Pump_Fun_Event (PumpFunTrade_Event trade)"
  using assms by (simp add: dispatch_pump_trade_in_context in_context_def pump_trade.ambiguous_unchanged)

text \<open>Two invocations of the same instruction.\<close>

theorem no_guessed_accounts_witness:
  "fill_accounts_with_owned_keys (demo_deposit_context\<lparr>fc_invokes := [(PUMPFUN_PROGRAM_ID, [(0, - 1), (0, - 1)])]\<rparr>)
     (Pump_Fun_Event (PumpFunTrade_Event default_trade)) =
   (Pump_Fun_Event (PumpFunTrade_Event default_trade) :: unit dex_event)"
  by (rule no_guessed_accounts [where invokes = "[(0, - 1), (0, - 1)]"]) simp_all

end
