(* ===== verification/Fee_Flag.thy ===== *)
theory Fee_Flag
  imports Account_Dispatch
begin

text \<open>
  The fee flag of a PumpSwap trade (\<open>src/core/common_filler.rs\<close>). The fee program is told whether the pool is a Pump.fun pool; the
  flag of a trade is read from the fee calls that the trade's own instruction made, which the stack heights of
  the inner instructions show. Without heights, or when two calls disagree, the event keeps its flag.
\<close>

section \<open>The fee instruction\<close>

definition GET_FEES :: bytes where "GET_FEES = [231, 37, 126, 85, 207, 91, 63, 52]"
definition GET_FEES_WITH_QUOTE :: bytes where "GET_FEES_WITH_QUOTE = [154, 237, 138, 92, 162, 2, 162, 187]"

definition pumpswap_is_pump_pool_from_fee_instruction :: "bytes \<Rightarrow> bool option" where
  "pumpswap_is_pump_pool_from_fee_instruction data =
     do {
       discriminator \<leftarrow> get_range 0 8 data;
       if discriminator \<noteq> GET_FEES \<and> discriminator \<noteq> GET_FEES_WITH_QUOTE then None
       else do {
         b \<leftarrow> get_at 8 data;
         if b = 0 then Some False else if b = 1 then Some True else None
       }
     }"

section \<open>The scan\<close>

text \<open>\<open>None\<close> is the early return that leaves the event as it is.\<close>

fun scan_fees :: "invoke list \<Rightarrow> u32 \<Rightarrow> u32 \<Rightarrow> u32 \<Rightarrow> (nat \<times> inner_instruction) list \<Rightarrow> bool option \<Rightarrow> bool option option" where
  "scan_fees fees outer depth child_depth [] flag = Some flag"
| "scan_fees fees outer depth child_depth ((inner_index, ix) # rest) flag =
     (case ii_stack_height ix of None \<Rightarrow> None
      | Some height \<Rightarrow>
          if height \<le> depth then Some flag
          else if height = child_depth
          then (case pumpswap_is_pump_pool_from_fee_instruction (ii_data ix) of
                  None \<Rightarrow> scan_fees fees outer depth child_depth rest flag
                | Some v \<Rightarrow>
                    if (outer, of_nat inner_index) \<notin> set fees then scan_fees fees outer depth child_depth rest flag
                    else if flag \<noteq> None \<and> flag \<noteq> Some v then None
                    else scan_fees fees outer depth child_depth rest (Some v))
          else scan_fees fees outer depth child_depth rest flag)"

text \<open>The depth of the trade and the place after it in its group.\<close>

definition trade_depth :: "inner_instructions \<Rightarrow> invoke \<Rightarrow> (nat \<times> u32) option" where
  "trade_depth g index =
     (if sint (snd index) < 0 then Some (0, 1)
      else do {
        ix \<leftarrow> get_at (i32_as_usize (snd index)) (ig_instructions g);
        depth \<leftarrow> ii_stack_height ix;
        Some (i32_as_usize (snd index) + 1, depth)
      })"

text \<open>The trade's instruction, the fee program's invocations, the trade's depth and the instructions after the trade.\<close>

definition fee_scope :: "fill_context \<Rightarrow> pubkey \<Rightarrow> pubkey \<Rightarrow> bool
    \<Rightarrow> (invoke \<times> invoke list \<times> u32 \<times> (nat \<times> inner_instruction) list) option" where
  "fee_scope c pool user buy =
     do {
       swaps \<leftarrow> map_of (fc_invokes c) PUMPSWAP_PROGRAM_ID;
       index \<leftarrow> find_pumpswap_trade_invoke (fc_search c) swaps (fc_meta c) (fc_tx c) pool user buy;
       g \<leftarrow> find_group (fc_meta c) (fst index);
       (start, depth) \<leftarrow> trade_depth g index;
       fees \<leftarrow> map_of (fc_invokes c) PUMP_FEES_PROGRAM_ID;
       if depth = - 1 then None
       else Some (index, fees, depth, drop start (enumerate 0 (ig_instructions g)))
     }"

definition pumpswap_fee_flag :: "fill_context \<Rightarrow> pubkey \<Rightarrow> pubkey \<Rightarrow> bool \<Rightarrow> bool option" where
  "pumpswap_fee_flag c pool user buy =
     do {
       (index, fees, depth, calls) \<leftarrow> fee_scope c pool user buy;
       flag \<leftarrow> scan_fees fees (fst index) depth (depth + 1) calls None;
       flag
     }"

definition set_pumpswap_is_pump_pool_from_fees_ix :: "fill_context \<Rightarrow> pubkey \<Rightarrow> pubkey \<Rightarrow> bool \<Rightarrow> bool \<Rightarrow> bool" where
  "set_pumpswap_is_pump_pool_from_fees_ix c pool user buy is_pump_pool =
     (case pumpswap_fee_flag c pool user buy of None \<Rightarrow> is_pump_pool | Some flag \<Rightarrow> flag)"

fun fill_data :: "fill_context \<Rightarrow> 'p dex_event \<Rightarrow> 'p dex_event" where
  "fill_data c (Pump_Swap_Event (PumpSwapBuy_Event e)) = Pump_Swap_Event (PumpSwapBuy_Event
     (swb_is_pump_pool_update (set_pumpswap_is_pump_pool_from_fees_ix c (swb_pool e) (swb_user e) True) e))"
| "fill_data c (Pump_Swap_Event (PumpSwapSell_Event e)) = Pump_Swap_Event (PumpSwapSell_Event
     (sws_is_pump_pool_update (set_pumpswap_is_pump_pool_from_fees_ix c (sws_pool e) (sws_user e) False) e))"
| "fill_data c event = event"

section \<open>What the scan finds\<close>

text \<open>The instructions below the trade, and the flags of the fee program's calls directly below it.\<close>

definition below :: "u32 \<Rightarrow> (nat \<times> inner_instruction) list \<Rightarrow> (nat \<times> inner_instruction) list" where
  "below depth = takeWhile (\<lambda>(i, ix). case ii_stack_height ix of None \<Rightarrow> True | Some h \<Rightarrow> depth < h)"

definition direct_fee_flags :: "invoke list \<Rightarrow> u32 \<Rightarrow> u32 \<Rightarrow> (nat \<times> inner_instruction) list \<Rightarrow> bool list" where
  "direct_fee_flags fees outer child_depth =
     List.map_filter (\<lambda>(i, ix).
       if ii_stack_height ix = Some child_depth \<and> (outer, of_nat i) \<in> set fees
       then pumpswap_is_pump_pool_from_fee_instruction (ii_data ix) else None)"

definition heights_known :: "(nat \<times> inner_instruction) list \<Rightarrow> bool" where
  "heights_known = list_all (\<lambda>(i, ix). ii_stack_height ix \<noteq> None)"

definition agreed :: "bool list \<Rightarrow> bool option option" where
  "agreed flags = (if True \<in> set flags \<and> False \<in> set flags then None else Some (if flags = [] then None else Some (hd flags)))"

lemma below_Cons [simp]:
  "below depth ((i, ix) # rest) =
     (if (case ii_stack_height ix of None \<Rightarrow> True | Some h \<Rightarrow> depth < h) then (i, ix) # below depth rest else [])"
  "below depth [] = []"
  by (simp_all add: below_def)

lemma heights_known_Cons [simp]:
  "heights_known ((i, ix) # rest) \<longleftrightarrow> ii_stack_height ix \<noteq> None \<and> heights_known rest"
  "heights_known []"
  by (simp_all add: heights_known_def)

lemma direct_fee_flags_Cons [simp]:
  "direct_fee_flags fees outer child_depth ((i, ix) # rest) =
     (case if ii_stack_height ix = Some child_depth \<and> (outer, of_nat i) \<in> set fees
           then pumpswap_is_pump_pool_from_fee_instruction (ii_data ix) else None of
        None \<Rightarrow> direct_fee_flags fees outer child_depth rest
      | Some v \<Rightarrow> v # direct_fee_flags fees outer child_depth rest)"
  "direct_fee_flags fees outer child_depth [] = []"
  by (simp_all add: direct_fee_flags_def map_filter_simps split: option.split)

definition flag_list :: "bool option \<Rightarrow> bool list" where
  "flag_list flag = (case flag of None \<Rightarrow> [] | Some b \<Rightarrow> [b])"

lemma flag_list_simps [simp]: "flag_list None = []" "flag_list (Some v) = [v]"
  by (simp_all add: flag_list_def)

lemma agreed_simps [simp]:
  "agreed [] = Some None" "agreed [v] = Some (Some v)" "agreed (v # v # flags) = agreed (v # flags)"
  by (auto simp: agreed_def)

lemma agreed_conflict [simp]: "v \<noteq> w \<Longrightarrow> agreed (v # w # flags) = None"
  by (cases v; cases w) (simp_all add: agreed_def)

lemma agreed_flag [simp]: "agreed (flag_list flag) = Some flag"
  by (cases flag) simp_all

lemma agreed_or:
  "(case Option.bind (agreed flags) (\<lambda>flag. flag) of None \<Rightarrow> old | Some flag \<Rightarrow> flag) =
   (if flags \<noteq> [] \<and> \<not> (True \<in> set flags \<and> False \<in> set flags) then hd flags else old)"
  by (simp add: agreed_def)

lemma scan_fees_spec:
  "scan_fees fees outer depth child_depth ixs flag =
     (if heights_known (below depth ixs)
      then agreed (flag_list flag @ direct_fee_flags fees outer child_depth (below depth ixs)) else None)"
proof (induction fees outer depth child_depth ixs flag rule: scan_fees.induct)
  case (2 fees outer depth child_depth inner_index ix rest flag)
  show ?case
  proof (cases "ii_stack_height ix")
    case (Some h)
    show ?thesis
    proof (cases "h = child_depth \<and> depth < h \<and> (outer, of_nat inner_index) \<in> set fees")
      case True
      then show ?thesis using 2 Some
        by (cases "pumpswap_is_pump_pool_from_fee_instruction (ii_data ix)"; cases flag)
          (auto simp: linorder_not_le [symmetric])
    next
      case False
      then show ?thesis using 2 Some
        by (cases "pumpswap_is_pump_pool_from_fee_instruction (ii_data ix)") (auto simp: linorder_not_le [symmetric])
    qed
  qed simp
qed simp

text \<open>
  The flag of a PumpSwap trade is read from the fee calls directly below the trade's own instruction: from all of
  them, when every instruction below the trade has a stack height and their flags agree. In every other case -- no
  unique trade instruction, an unknown height, no fee call, two calls that disagree -- the event keeps the
  flag it had, and fee calls of other instructions have no influence.
\<close>

theorem fee_flag_of_own_calls:
  "set_pumpswap_is_pump_pool_from_fees_ix c pool user buy old =
     (case fee_scope c pool user buy of None \<Rightarrow> old
      | Some (index, fees, depth, calls) \<Rightarrow>
          (let own = below depth calls; flags = direct_fee_flags fees (fst index) (depth + 1) own
           in if heights_known own \<and> flags \<noteq> [] \<and> \<not> (True \<in> set flags \<and> False \<in> set flags) then hd flags else old))"
proof (cases "fee_scope c pool user buy")
  case (Some scope)
  obtain index fees depth calls where "scope = (index, fees, depth, calls)" by (cases scope)
  then show ?thesis using Some
    by (simp add: set_pumpswap_is_pump_pool_from_fees_ix_def pumpswap_fee_flag_def scan_fees_spec agreed_or Let_def)
qed (simp add: set_pumpswap_is_pump_pool_from_fees_ix_def pumpswap_fee_flag_def)

end
