(* ===== verification/Intent_Defaults.thy ===== *)
theory Intent_Defaults
  imports Account_Fillers Instr_Gate
begin

text \<open>
  What the instruction parsers of the venues share: the metadata they start from, and the default
  value of every event they fill with \<open>..Default::default()\<close> (\<open>src/core/events/types.rs\<close>).
\<close>

definition now_metadata :: "int \<Rightarrow> tx_origin \<Rightarrow> int option \<Rightarrow> event_metadata" where
  "now_metadata now og block_time_us =
     create_metadata_simple now (og_signature og) (og_slot og) (og_tx_index og) block_time_us"

definition intent_metadata :: "tx_origin \<Rightarrow> int option \<Rightarrow> event_metadata" where
  "intent_metadata og block_time_us =
     create_metadata (og_signature og) (og_slot og) (og_tx_index og)
       (case block_time_us of None \<Rightarrow> 0 | Some t \<Rightarrow> t) 0"

definition optional_bool :: "bytes \<Rightarrow> nat \<Rightarrow> bool option" where
  "optional_bool data offset = (if length data > offset then read_option_bool_idl data offset else Some False)"

definition default_pumpswap_buy :: pumpswap_buy_event where
  "default_pumpswap_buy =
    \<lparr>swb_third_program = None, swb_creator_fee_unclaimed = 0, swb_metadata = default_metadata,
     swb_timestamp = 0, swb_base_amount_out = 0, swb_max_quote_amount_in = 0, swb_user_base_token_reserves = 0,
     swb_user_quote_token_reserves = 0, swb_pool_base_token_reserves = 0, swb_pool_quote_token_reserves = 0,
     swb_quote_amount_in = 0, swb_lp_fee_basis_points = 0, swb_lp_fee = 0, swb_protocol_fee_basis_points = 0,
     swb_protocol_fee = 0, swb_quote_amount_in_with_lp_fee = 0, swb_user_quote_amount_in = 0,
     swb_pool = default_pubkey, swb_user = default_pubkey, swb_user_base_token_account = default_pubkey,
     swb_user_quote_token_account = default_pubkey, swb_protocol_fee_recipient = default_pubkey,
     swb_protocol_fee_recipient_token_account = default_pubkey, swb_coin_creator = default_pubkey,
     swb_coin_creator_fee_basis_points = 0, swb_coin_creator_fee = 0, swb_track_volume = False,
     swb_total_unclaimed_tokens = 0, swb_total_claimed_tokens = 0, swb_current_sol_volume = 0,
     swb_last_update_timestamp = 0, swb_min_base_amount_out = 0, swb_ix_name = [],
     swb_cashback_fee_basis_points = 0, swb_cashback = 0, swb_buyback_fee_basis_points = 0,
     swb_buyback_fee = 0, swb_virtual_quote_reserves = 0, swb_can_boost = False, swb_base_supply = 0,
     swb_holder_rewards_bps = 0, swb_holder_rewards = 0, swb_is_pump_pool = False,
     swb_base_mint = default_pubkey, swb_quote_mint = default_pubkey,
     swb_pool_base_token_account = default_pubkey, swb_pool_quote_token_account = default_pubkey,
     swb_coin_creator_vault_ata = default_pubkey, swb_coin_creator_vault_authority = default_pubkey,
     swb_base_token_program = default_pubkey, swb_quote_token_program = default_pubkey,
     swb_pool_v2 = default_pubkey, swb_fee_recipient = default_pubkey,
     swb_fee_recipient_quote_token_account = default_pubkey\<rparr>"

definition default_pumpswap_sell :: pumpswap_sell_event where
  "default_pumpswap_sell =
    \<lparr>sws_third_program = None, sws_creator_fee_unclaimed = 0, sws_metadata = default_metadata,
     sws_timestamp = 0, sws_base_amount_in = 0, sws_min_quote_amount_out = 0, sws_user_base_token_reserves = 0,
     sws_user_quote_token_reserves = 0, sws_pool_base_token_reserves = 0, sws_pool_quote_token_reserves = 0,
     sws_quote_amount_out = 0, sws_lp_fee_basis_points = 0, sws_lp_fee = 0, sws_protocol_fee_basis_points = 0,
     sws_protocol_fee = 0, sws_quote_amount_out_without_lp_fee = 0, sws_user_quote_amount_out = 0,
     sws_pool = default_pubkey, sws_user = default_pubkey, sws_user_base_token_account = default_pubkey,
     sws_user_quote_token_account = default_pubkey, sws_protocol_fee_recipient = default_pubkey,
     sws_protocol_fee_recipient_token_account = default_pubkey, sws_coin_creator = default_pubkey,
     sws_coin_creator_fee_basis_points = 0, sws_coin_creator_fee = 0, sws_cashback_fee_basis_points = 0,
     sws_cashback = 0, sws_buyback_fee_basis_points = 0, sws_buyback_fee = 0, sws_virtual_quote_reserves = 0,
     sws_can_boost = False, sws_base_supply = 0, sws_holder_rewards_bps = 0, sws_holder_rewards = 0,
     sws_is_pump_pool = False, sws_base_mint = default_pubkey, sws_quote_mint = default_pubkey,
     sws_pool_base_token_account = default_pubkey, sws_pool_quote_token_account = default_pubkey,
     sws_coin_creator_vault_ata = default_pubkey, sws_coin_creator_vault_authority = default_pubkey,
     sws_base_token_program = default_pubkey, sws_quote_token_program = default_pubkey,
     sws_pool_v2 = default_pubkey, sws_fee_recipient = default_pubkey,
     sws_fee_recipient_quote_token_account = default_pubkey\<rparr>"

definition default_pumpswap_create_pool :: pumpswap_create_pool_event where
  "default_pumpswap_create_pool =
    \<lparr>swp_metadata = default_metadata, swp_timestamp = 0, swp_index = 0, swp_creator = default_pubkey,
     swp_base_mint = default_pubkey, swp_quote_mint = default_pubkey, swp_base_mint_decimals = 0,
     swp_quote_mint_decimals = 0, swp_base_amount_in = 0, swp_quote_amount_in = 0, swp_pool_base_amount = 0,
     swp_pool_quote_amount = 0, swp_minimum_liquidity = 0, swp_initial_liquidity = 0,
     swp_lp_token_amount_out = 0, swp_pool_bump = 0, swp_pool = default_pubkey, swp_lp_mint = default_pubkey,
     swp_user_base_token_account = default_pubkey, swp_user_quote_token_account = default_pubkey,
     swp_coin_creator = default_pubkey, swp_is_mayhem_mode = False, swp_is_cashback_coin = False,
     swp_creator_fee_bps = 0, swp_can_edit_creator_fee = False, swp_is_holder_reward = False\<rparr>"

definition default_pumpswap_liquidity_added :: pumpswap_liquidity_added where
  "default_pumpswap_liquidity_added =
    \<lparr>swa_metadata = default_metadata, swa_timestamp = 0, swa_lp_token_amount_out = 0,
     swa_max_base_amount_in = 0, swa_max_quote_amount_in = 0, swa_user_base_token_reserves = 0,
     swa_user_quote_token_reserves = 0, swa_pool_base_token_reserves = 0, swa_pool_quote_token_reserves = 0,
     swa_base_amount_in = 0, swa_quote_amount_in = 0, swa_lp_mint_supply = 0, swa_pool = default_pubkey,
     swa_user = default_pubkey, swa_user_base_token_account = default_pubkey,
     swa_user_quote_token_account = default_pubkey, swa_user_pool_token_account = default_pubkey\<rparr>"

definition default_pumpswap_liquidity_removed :: pumpswap_liquidity_removed where
  "default_pumpswap_liquidity_removed =
    \<lparr>swr_metadata = default_metadata, swr_timestamp = 0, swr_lp_token_amount_in = 0,
     swr_min_base_amount_out = 0, swr_min_quote_amount_out = 0, swr_user_base_token_reserves = 0,
     swr_user_quote_token_reserves = 0, swr_pool_base_token_reserves = 0, swr_pool_quote_token_reserves = 0,
     swr_base_amount_out = 0, swr_quote_amount_out = 0, swr_lp_mint_supply = 0, swr_pool = default_pubkey,
     swr_user = default_pubkey, swr_user_base_token_account = default_pubkey,
     swr_user_quote_token_account = default_pubkey, swr_user_pool_token_account = default_pubkey\<rparr>"

definition default_orca_whirlpool_swap :: orca_whirlpool_swap_event where
  "default_orca_whirlpool_swap =
    \<lparr>ows_third_program = None, ows_metadata = default_metadata, ows_whirlpool = default_pubkey,
     ows_input_amount = 0, ows_output_amount = 0, ows_a_to_b = False, ows_pre_sqrt_price = 0,
     ows_post_sqrt_price = 0, ows_input_transfer_fee = 0, ows_output_transfer_fee = 0, ows_lp_fee = 0,
     ows_protocol_fee = 0, ows_token_program_a = default_pubkey, ows_token_program_b = default_pubkey,
     ows_token_mint_a = default_pubkey, ows_token_mint_b = default_pubkey, ows_token_vault_a = default_pubkey,
     ows_token_vault_b = default_pubkey, ows_tick_array_0 = default_pubkey, ows_tick_array_1 = default_pubkey,
     ows_tick_array_2 = default_pubkey, ows_oracle = default_pubkey, ows_ix_name = [], ows_amount = 0,
     ows_other_amount_threshold = 0, ows_sqrt_price_limit = 0, ows_amount_specified_is_input = False,
     ows_token_authority = default_pubkey, ows_token_owner_account_a = default_pubkey,
     ows_token_owner_account_b = default_pubkey\<rparr>"

definition default_raydium_clmm_swap :: raydium_clmm_swap_event where
  "default_raydium_clmm_swap =
    \<lparr>cls_third_program = None, cls_metadata = default_metadata, cls_pool_state = default_pubkey,
     cls_sender = default_pubkey, cls_token_account_0 = default_pubkey, cls_token_account_1 = default_pubkey,
     cls_amount_0 = 0, cls_transfer_fee_0 = 0, cls_amount_1 = 0, cls_transfer_fee_1 = 0,
     cls_zero_for_one = False, cls_sqrt_price_x64 = 0, cls_liquidity = 0, cls_tick = 0,
     cls_amm_config = default_pubkey, cls_input_vault = default_pubkey, cls_output_vault = default_pubkey,
     cls_observation_state = default_pubkey, cls_input_mint = default_pubkey, cls_output_mint = default_pubkey,
     cls_tick_array_bitmap_extension = None, cls_tick_arrays = [], cls_ix_name = [], cls_amount = 0,
     cls_other_amount_threshold = 0, cls_sqrt_price_limit_x64 = 0, cls_is_base_input = False\<rparr>"

definition default_raydium_cpmm_swap :: raydium_cpmm_swap_event where
  "default_raydium_cpmm_swap =
    \<lparr>cps_third_program = None, cps_metadata = default_metadata, cps_pool_id = default_pubkey,
     cps_input_amount = 0, cps_output_amount = 0, cps_input_vault_before = 0, cps_output_vault_before = 0,
     cps_input_transfer_fee = 0, cps_output_transfer_fee = 0, cps_base_input = False,
     cps_amm_config = default_pubkey, cps_input_vault = default_pubkey, cps_output_vault = default_pubkey,
     cps_input_token_program = default_pubkey, cps_output_token_program = default_pubkey,
     cps_input_token_mint = default_pubkey, cps_output_token_mint = default_pubkey,
     cps_observation_state = default_pubkey, cps_ix_name = [], cps_amount_in = 0, cps_minimum_amount_out = 0,
     cps_max_amount_in = 0, cps_amount_out = 0, cps_payer = default_pubkey, cps_authority = default_pubkey,
     cps_input_token_account = default_pubkey, cps_output_token_account = default_pubkey,
     cps_input_mint = default_pubkey, cps_output_mint = default_pubkey, cps_trade_fee = 0, cps_creator_fee = 0,
     cps_creator_fee_on_input = False\<rparr>"

definition default_meteora_pools_swap :: meteora_pools_swap_event where
  "default_meteora_pools_swap =
    \<lparr>mps_third_program = None, mps_metadata = default_metadata, mps_in_amount = 0, mps_out_amount = 0,
     mps_trade_fee = 0, mps_admin_fee = 0, mps_host_fee = 0, mps_ix_name = [], mps_amount_in = 0,
     mps_minimum_out_amount = 0, mps_pool = default_pubkey, mps_user_source_token = default_pubkey,
     mps_user_destination_token = default_pubkey, mps_a_vault = default_pubkey, mps_b_vault = default_pubkey,
     mps_a_token_vault = default_pubkey, mps_b_token_vault = default_pubkey,
     mps_a_vault_lp_mint = default_pubkey, mps_b_vault_lp_mint = default_pubkey,
     mps_a_vault_lp = default_pubkey, mps_b_vault_lp = default_pubkey, mps_protocol_token_fee = default_pubkey,
     mps_user = default_pubkey, mps_vault_program = default_pubkey, mps_token_program = default_pubkey\<rparr>"

definition default_meteora_pools_add_liquidity :: meteora_pools_add_liquidity_event where
  "default_meteora_pools_add_liquidity =
    \<lparr>mpa_metadata = default_metadata, mpa_lp_mint_amount = 0, mpa_token_a_amount = 0,
     mpa_token_b_amount = 0, mpa_ix_name = [], mpa_pool_token_amount = 0, mpa_maximum_token_a_amount = 0,
     mpa_maximum_token_b_amount = 0, mpa_minimum_pool_token_amount = 0, mpa_token_a_in_amount = 0,
     mpa_token_b_in_amount = 0, mpa_pool = default_pubkey, mpa_lp_mint = default_pubkey,
     mpa_user_pool_lp = default_pubkey, mpa_a_vault_lp = default_pubkey, mpa_b_vault_lp = default_pubkey,
     mpa_a_vault = default_pubkey, mpa_b_vault = default_pubkey, mpa_a_vault_lp_mint = default_pubkey,
     mpa_b_vault_lp_mint = default_pubkey, mpa_a_token_vault = default_pubkey,
     mpa_b_token_vault = default_pubkey, mpa_user_a_token = default_pubkey, mpa_user_b_token = default_pubkey,
     mpa_user = default_pubkey, mpa_vault_program = default_pubkey, mpa_token_program = default_pubkey\<rparr>"

definition default_meteora_pools_remove_liquidity :: meteora_pools_remove_liquidity_event where
  "default_meteora_pools_remove_liquidity =
    \<lparr>mpr_metadata = default_metadata, mpr_lp_unmint_amount = 0, mpr_token_a_out_amount = 0,
     mpr_token_b_out_amount = 0, mpr_ix_name = [], mpr_pool_token_amount = 0, mpr_minimum_a_token_out = 0,
     mpr_minimum_b_token_out = 0, mpr_pool = default_pubkey, mpr_lp_mint = default_pubkey,
     mpr_user_pool_lp = default_pubkey, mpr_a_vault_lp = default_pubkey, mpr_b_vault_lp = default_pubkey,
     mpr_a_vault = default_pubkey, mpr_b_vault = default_pubkey, mpr_a_vault_lp_mint = default_pubkey,
     mpr_b_vault_lp_mint = default_pubkey, mpr_a_token_vault = default_pubkey,
     mpr_b_token_vault = default_pubkey, mpr_user_a_token = default_pubkey, mpr_user_b_token = default_pubkey,
     mpr_user = default_pubkey, mpr_vault_program = default_pubkey, mpr_token_program = default_pubkey,
     mpr_minimum_out_amount = 0, mpr_user_destination_token = default_pubkey\<rparr>"

definition default_meteora_pools_bootstrap_liquidity :: meteora_pools_bootstrap_liquidity_event where
  "default_meteora_pools_bootstrap_liquidity =
    \<lparr>mpb_metadata = default_metadata, mpb_lp_mint_amount = 0, mpb_token_a_amount = 0,
     mpb_token_b_amount = 0, mpb_pool = default_pubkey, mpb_ix_name = [], mpb_token_a_in_amount = 0,
     mpb_token_b_in_amount = 0, mpb_lp_mint = default_pubkey, mpb_user_pool_lp = default_pubkey,
     mpb_a_vault_lp = default_pubkey, mpb_b_vault_lp = default_pubkey, mpb_a_vault = default_pubkey,
     mpb_b_vault = default_pubkey, mpb_a_vault_lp_mint = default_pubkey, mpb_b_vault_lp_mint = default_pubkey,
     mpb_a_token_vault = default_pubkey, mpb_b_token_vault = default_pubkey, mpb_user_a_token = default_pubkey,
     mpb_user_b_token = default_pubkey, mpb_user = default_pubkey, mpb_vault_program = default_pubkey,
     mpb_token_program = default_pubkey\<rparr>"

definition default_meteora_pools_pool_created :: meteora_pools_pool_created_event where
  "default_meteora_pools_pool_created =
    \<lparr>mpc_metadata = default_metadata, mpc_lp_mint = default_pubkey, mpc_token_a_mint = default_pubkey,
     mpc_token_b_mint = default_pubkey, mpc_pool_type = 0, mpc_pool = default_pubkey, mpc_ix_name = [],
     mpc_token_a_in_amount = 0, mpc_token_b_in_amount = 0, mpc_activation_point = None,
     mpc_config = default_pubkey, mpc_a_vault = default_pubkey, mpc_b_vault = default_pubkey,
     mpc_a_token_vault = default_pubkey, mpc_b_token_vault = default_pubkey,
     mpc_a_vault_lp_mint = default_pubkey, mpc_b_vault_lp_mint = default_pubkey,
     mpc_a_vault_lp = default_pubkey, mpc_b_vault_lp = default_pubkey, mpc_payer_token_a = default_pubkey,
     mpc_payer_token_b = default_pubkey, mpc_payer_pool_lp = default_pubkey,
     mpc_protocol_token_a_fee = default_pubkey, mpc_protocol_token_b_fee = default_pubkey,
     mpc_payer = default_pubkey, mpc_rent = default_pubkey, mpc_mint_metadata = default_pubkey,
     mpc_metadata_program = default_pubkey, mpc_vault_program = default_pubkey,
     mpc_token_program = default_pubkey, mpc_associated_token_program = default_pubkey,
     mpc_system_program = default_pubkey, mpc_stable_curve = None, mpc_trade_fee_bps = None,
     mpc_customizable_params = None, mpc_admin_token_a = default_pubkey, mpc_admin_token_b = default_pubkey,
     mpc_admin_pool_lp = default_pubkey, mpc_admin = default_pubkey, mpc_fee_owner = default_pubkey\<rparr>"

definition default_meteora_pools_set_pool_fees :: meteora_pools_set_pool_fees_event where
  "default_meteora_pools_set_pool_fees =
    \<lparr>mpf_metadata = default_metadata, mpf_trade_fee_numerator = 0, mpf_trade_fee_denominator = 0,
     mpf_owner_trade_fee_numerator = 0, mpf_owner_trade_fee_denominator = 0, mpf_pool = default_pubkey,
     mpf_ix_name = [], mpf_protocol_trade_fee_numerator = 0, mpf_protocol_trade_fee_denominator = 0,
     mpf_new_partner_fee_numerator = 0, mpf_fee_operator = default_pubkey\<rparr>"

definition default_meteora_dlmm_swap :: meteora_dlmm_swap_event where
  "default_meteora_dlmm_swap =
    \<lparr>dls_third_program = None, dls_metadata = default_metadata, dls_pool = default_pubkey,
     dls_from = default_pubkey, dls_start_bin_id = 0, dls_end_bin_id = 0, dls_amount_in = 0,
     dls_amount_out = 0, dls_swap_for_y = False, dls_fee = 0, dls_protocol_fee = 0, dls_fee_bps = 0,
     dls_host_fee = 0, dls_token_x_mint = default_pubkey, dls_token_y_mint = default_pubkey,
     dls_user_token_in = default_pubkey, dls_user_token_out = default_pubkey, dls_reserve_x = default_pubkey,
     dls_reserve_y = default_pubkey, dls_oracle = default_pubkey, dls_token_x_program = default_pubkey,
     dls_token_y_program = default_pubkey, dls_min_amount_out = 0, dls_bitmap_extension = None,
     dls_bin_arrays = [], dls_event_version = 0, dls_amount_left = 0, dls_mm_fee = 0, dls_limit_order_fee = 0,
     dls_fees_on_input = False, dls_fees_on_token_x = False\<rparr>"

definition default_meteora_damm_v2_initialize_pool :: meteora_damm_v2_initialize_pool_event where
  "default_meteora_damm_v2_initialize_pool =
    \<lparr>dvi_metadata = default_metadata, dvi_pool = default_pubkey, dvi_token_a_mint = default_pubkey,
     dvi_token_b_mint = default_pubkey, dvi_creator = default_pubkey, dvi_payer = default_pubkey,
     dvi_position = default_pubkey, dvi_position_nft_mint = default_pubkey, dvi_alpha_vault = default_pubkey,
     dvi_sqrt_min_price = 0, dvi_sqrt_max_price = 0, dvi_activation_type = 0, dvi_collect_fee_mode = 0,
     dvi_liquidity = 0, dvi_sqrt_price = 0, dvi_activation_point = None, dvi_token_a_flag = 0,
     dvi_token_b_flag = 0, dvi_token_a_amount = 0, dvi_token_b_amount = 0, dvi_total_amount_a = 0,
     dvi_total_amount_b = 0, dvi_pool_type = 0\<rparr>"

definition default_meteora_damm_v2_swap :: meteora_damm_v2_swap_event where
  "default_meteora_damm_v2_swap =
    \<lparr>dvs_third_program = None, dvs_metadata = default_metadata, dvs_pool = default_pubkey,
     dvs_amount_in = 0, dvs_output_amount = 0, dvs_trade_direction = 0, dvs_has_referral = False,
     dvs_minimum_amount_out = 0, dvs_next_sqrt_price = 0, dvs_lp_fee = 0, dvs_protocol_fee = 0,
     dvs_partner_fee = 0, dvs_referral_fee = 0, dvs_actual_amount_in = 0, dvs_current_timestamp = 0,
     dvs_token_a_vault = default_pubkey, dvs_token_b_vault = default_pubkey, dvs_token_a_mint = default_pubkey,
     dvs_token_b_mint = default_pubkey, dvs_token_a_program = default_pubkey,
     dvs_token_b_program = default_pubkey\<rparr>"

end
