(* ===== verification/Swap_Intents.thy ===== *)
theory Swap_Intents
  imports Intent_Defaults
begin

text \<open>
  The instruction parsers of PumpSwap (\<open>src/instr/pump_amm.rs\<close>) and of Raydium: LaunchLab
  (\<open>src/instr/raydium_launchlab.rs\<close>), CPMM (\<open>src/instr/raydium_cpmm.rs\<close>), CLMM
  (\<open>src/instr/raydium_clmm.rs\<close>) and AMM V4 (\<open>src/instr/raydium_amm.rs\<close>): what the outer
  instruction tells of the event before its log arrives. The clock reading of
  \<open>create_metadata_simple\<close> is the parameter \<open>now\<close>.
\<close>

section \<open>PumpSwap\<close>

definition pumpswap_buy_with_layout :: "address_derivation \<Rightarrow> bytes \<Rightarrow> pubkey list \<Rightarrow> bool \<Rightarrow> bool \<Rightarrow> tx_origin
    \<Rightarrow> int option \<Rightarrow> 'p dex_event option" where
  "pumpswap_buy_with_layout derive data accounts compact exact_quote og block_time_us =
     (if length accounts < 13 then None else
     do {
       first \<leftarrow> read_u64_le data 0;
       second \<leftarrow> read_u64_le data 8;
       let (base_amount, quote_amount) = (if exact_quote then (second, first) else (first, second));
       track_volume \<leftarrow> (if length data > 16 then read_option_bool_idl data 16 else Some False);
       let ev = default_pumpswap_buy\<lparr>swb_metadata := intent_metadata og block_time_us,
           swb_pool := acct accounts 0, swb_user := acct accounts 1, swb_base_mint := acct accounts 3,
           swb_quote_mint := acct accounts 4, swb_user_base_token_account := acct accounts 5,
           swb_user_quote_token_account := acct accounts 6, swb_pool_base_token_account := acct accounts 7,
           swb_pool_quote_token_account := acct accounts 8,
           swb_base_token_program := acct accounts (if compact then 9 else 11),
           swb_quote_token_program := acct accounts (if compact then 10 else 12),
           swb_base_amount_out := base_amount, swb_max_quote_amount_in := quote_amount,
           swb_min_base_amount_out := (if exact_quote then base_amount else 0),
           swb_track_volume := track_volume,
           swb_ix_name := (if exact_quote then ''buy_exact_quote_in'' else ''buy'')\<rparr>;
       Some (Pump_Swap_Event (PumpSwapBuy_Event
         (if compact then ev\<lparr>swb_fee_recipient_quote_token_account := accounts ! 14\<rparr>
          else (let (pool_v2, recipient, ata) = buy_upgrade_tail derive accounts (swb_base_mint ev)
                in ev\<lparr>swb_protocol_fee_recipient := acct accounts 9,
                     swb_protocol_fee_recipient_token_account := acct accounts 10,
                     swb_coin_creator_vault_ata := acct accounts 17,
                     swb_coin_creator_vault_authority := acct accounts 18,
                     swb_pool_v2 := pool_v2, swb_fee_recipient := recipient,
                     swb_fee_recipient_quote_token_account := ata\<rparr>))))
     })"

definition pumpswap_sell_with_layout :: "address_derivation \<Rightarrow> bytes \<Rightarrow> pubkey list \<Rightarrow> bool \<Rightarrow> tx_origin
    \<Rightarrow> int option \<Rightarrow> 'p dex_event option" where
  "pumpswap_sell_with_layout derive data accounts compact og block_time_us =
     (if length accounts < 13 then None else
     do {
       base_amount \<leftarrow> read_u64_le data 0;
       quote_amount \<leftarrow> read_u64_le data 8;
       let ev = default_pumpswap_sell\<lparr>sws_metadata := intent_metadata og block_time_us,
           sws_pool := acct accounts 0, sws_user := acct accounts 1, sws_base_mint := acct accounts 3,
           sws_quote_mint := acct accounts 4, sws_user_base_token_account := acct accounts 5,
           sws_user_quote_token_account := acct accounts 6, sws_pool_base_token_account := acct accounts 7,
           sws_pool_quote_token_account := acct accounts 8,
           sws_protocol_fee_recipient := (if compact then default_pubkey else acct accounts 9),
           sws_protocol_fee_recipient_token_account := (if compact then default_pubkey else acct accounts 10),
           sws_base_token_program := acct accounts (if compact then 9 else 11),
           sws_quote_token_program := acct accounts (if compact then 10 else 12),
           sws_base_amount_in := base_amount, sws_min_quote_amount_out := quote_amount\<rparr>;
       Some (Pump_Swap_Event (PumpSwapSell_Event
         (if compact then ev\<lparr>sws_fee_recipient_quote_token_account := accounts ! 14\<rparr>
          else (let (pool_v2, recipient, ata) = sell_upgrade_tail derive accounts (sws_base_mint ev)
                in ev\<lparr>sws_coin_creator_vault_ata := acct accounts 17,
                     sws_coin_creator_vault_authority := acct accounts 18,
                     sws_pool_v2 := pool_v2, sws_fee_recipient := recipient,
                     sws_fee_recipient_quote_token_account := ata\<rparr>))))
     })"


definition pumpswap_create_pool_instruction :: "bytes \<Rightarrow> pubkey list \<Rightarrow> tx_origin \<Rightarrow> int option \<Rightarrow> 'p dex_event option" where
  "pumpswap_create_pool_instruction data accounts og block_time_us =
     (if length accounts < 18 then None else
     do {
       index \<leftarrow> read_u16_le data 0;
       base_amount_in \<leftarrow> read_u64_le data 2;
       quote_amount_in \<leftarrow> read_u64_le data 10;
       coin_creator \<leftarrow> read_pubkey data 18;
       is_mayhem_mode \<leftarrow> optional_bool data 50;
       is_cashback_coin \<leftarrow> optional_bool data 51;
       creator_fee_bps \<leftarrow> (if length data > 52 then read_option_u64_idl data 52 else Some 0);
       can_edit_creator_fee \<leftarrow> optional_bool data 60;
       is_holder_reward \<leftarrow> optional_bool data 61;
       Some (Pump_Swap_Event (PumpSwapCreatePool_Event (default_pumpswap_create_pool\<lparr>
            swp_metadata := intent_metadata og block_time_us,
            swp_index := index, swp_creator := acct accounts 2, swp_base_mint := acct accounts 3,
            swp_quote_mint := acct accounts 4, swp_base_amount_in := base_amount_in,
            swp_quote_amount_in := quote_amount_in, swp_pool := acct accounts 0, swp_lp_mint := acct accounts 5,
            swp_user_base_token_account := acct accounts 6, swp_user_quote_token_account := acct accounts 7,
            swp_coin_creator := coin_creator, swp_is_mayhem_mode := is_mayhem_mode,
            swp_is_cashback_coin := is_cashback_coin, swp_creator_fee_bps := creator_fee_bps,
            swp_can_edit_creator_fee := can_edit_creator_fee, swp_is_holder_reward := is_holder_reward\<rparr>)))
     })"

definition pumpswap_deposit_instruction :: "bytes \<Rightarrow> pubkey list \<Rightarrow> tx_origin \<Rightarrow> int option \<Rightarrow> 'p dex_event option" where
  "pumpswap_deposit_instruction data accounts og block_time_us =
     (if length accounts < 9 then None else
     do {
       lp_token_amount_out \<leftarrow> read_u64_le data 0;
       max_base_amount_in \<leftarrow> read_u64_le data 8;
       max_quote_amount_in \<leftarrow> read_u64_le data 16;
       Some (Pump_Swap_Event (PumpSwapLiquidityAdded_Event (default_pumpswap_liquidity_added\<lparr>
            swa_metadata := intent_metadata og block_time_us,
            swa_lp_token_amount_out := lp_token_amount_out, swa_max_base_amount_in := max_base_amount_in,
            swa_max_quote_amount_in := max_quote_amount_in, swa_pool := acct accounts 0, swa_user := acct accounts 2,
            swa_user_base_token_account := acct accounts 6, swa_user_quote_token_account := acct accounts 7,
            swa_user_pool_token_account := acct accounts 8\<rparr>)))
     })"

definition pumpswap_withdraw_instruction :: "bytes \<Rightarrow> pubkey list \<Rightarrow> tx_origin \<Rightarrow> int option \<Rightarrow> 'p dex_event option" where
  "pumpswap_withdraw_instruction data accounts og block_time_us =
     (if length accounts < 9 then None else
     do {
       lp_token_amount_in \<leftarrow> read_u64_le data 0;
       min_base_amount_out \<leftarrow> read_u64_le data 8;
       min_quote_amount_out \<leftarrow> read_u64_le data 16;
       Some (Pump_Swap_Event (PumpSwapLiquidityRemoved_Event (default_pumpswap_liquidity_removed\<lparr>
            swr_metadata := intent_metadata og block_time_us,
            swr_lp_token_amount_in := lp_token_amount_in, swr_min_base_amount_out := min_base_amount_out,
            swr_min_quote_amount_out := min_quote_amount_out, swr_pool := acct accounts 0,
            swr_user := acct accounts 2, swr_user_base_token_account := acct accounts 6,
            swr_user_quote_token_account := acct accounts 7, swr_user_pool_token_account := acct accounts 8\<rparr>)))
     })"


definition pumpswap_parse_instruction :: "address_derivation \<Rightarrow> 'p instruction_parser" where
  "pumpswap_parse_instruction derive instruction_data accounts og block_time_us =
     (if length instruction_data < 8 then None else
      let discriminator = take 8 instruction_data; data = drop 8 instruction_data in
      if discriminator \<in> {AMM_BUY_V2, AMM_BUY_EXACT_QUOTE_IN_V2, AMM_SELL_V2}
      then (if length accounts \<noteq> 17 \<or> length data \<noteq> 16 then None
            else if discriminator = AMM_SELL_V2
            then pumpswap_sell_with_layout derive data accounts True og block_time_us
            else pumpswap_buy_with_layout derive data accounts True
                   (discriminator = AMM_BUY_EXACT_QUOTE_IN_V2) og block_time_us)
      else if discriminator = AMM_BUY then pumpswap_buy_with_layout derive data accounts False False og block_time_us
      else if discriminator = AMM_BUY_EXACT_QUOTE_IN
      then pumpswap_buy_with_layout derive data accounts False True og block_time_us
      else if discriminator = AMM_SELL then pumpswap_sell_with_layout derive data accounts False og block_time_us
      else if discriminator = AMM_CREATE_POOL then pumpswap_create_pool_instruction data accounts og block_time_us
      else if discriminator = AMM_DEPOSIT then pumpswap_deposit_instruction data accounts og block_time_us
      else if discriminator = AMM_WITHDRAW then pumpswap_withdraw_instruction data accounts og block_time_us
      else None)"


section \<open>Raydium LaunchLab\<close>

definition read_borsh_string :: "bytes \<Rightarrow> nat \<Rightarrow> (bytes \<times> nat) option" where
  "read_borsh_string data offset =
     do {
       len \<leftarrow> map_option unat (read_u32_le data offset);
       e \<leftarrow> usize_checked_add (offset + 4) len;
       text \<leftarrow> get_range (offset + 4) e data;
       if utf8_ok text then Some (text, e) else None
     }"

definition parse_mint_params :: "bytes \<Rightarrow> base_mint_param option" where
  "parse_mint_params data =
     do {
       decimals \<leftarrow> get_at 0 data;
       (name, offset) \<leftarrow> read_borsh_string data 1;
       (symbol, offset) \<leftarrow> read_borsh_string data offset;
       (uri, _) \<leftarrow> read_borsh_string data offset;
       Some \<lparr>bmp_symbol = symbol, bmp_name = name, bmp_uri = uri, bmp_decimals = decimals\<rparr>
     }"

definition launchlab_migrate_instruction :: "bytes \<Rightarrow> pubkey list \<Rightarrow> bool \<Rightarrow> int \<Rightarrow> tx_origin \<Rightarrow> int option
    \<Rightarrow> 'p dex_event option" where
  "launchlab_migrate_instruction data accounts cp now og block_time_us =
     (if length accounts < (if cp then 28 else 32) \<or> (\<not> cp \<and> length data < 17) then None else
     do {
       old_pool \<leftarrow> get_account accounts (if cp then 17 else 23);
       new_pool \<leftarrow> get_account accounts (if cp then 5 else 13);
       user \<leftarrow> get_account accounts 0;
       base_mint \<leftarrow> get_account accounts 1;
       quote_mint \<leftarrow> get_account accounts 2;
       platform_config \<leftarrow> (if cp then get_account accounts 3 else Some default_pubkey);
       destination_program \<leftarrow> get_account accounts (if cp then 4 else 12);
       Some (Raydium_Launchlab_Event (RaydiumLaunchlabMigrateAmm_Event
         \<lparr>ma_metadata = now_metadata now og block_time_us, ma_old_pool = old_pool, ma_new_pool = new_pool,
          ma_user = user, ma_liquidity_amount = 0, ma_liquidity_amount_known = False, ma_base_mint = base_mint,
          ma_quote_mint = quote_mint, ma_platform_config = platform_config,
          ma_destination_program = destination_program\<rparr>))
     })"

definition launchlab_trade_instruction :: "bytes \<Rightarrow> pubkey list \<Rightarrow> bool \<Rightarrow> bool \<Rightarrow> int \<Rightarrow> tx_origin \<Rightarrow> int option \<Rightarrow> 'p dex_event option" where
  "launchlab_trade_instruction data accounts is_buy exact_in now og block_time_us =
     do {
       first_amount \<leftarrow> read_u64_le data 0;
       second_amount \<leftarrow> read_u64_le data 8;
       let (amount_in, amount_out) = (if exact_in then (first_amount, second_amount) else (second_amount, first_amount));
       pool_state \<leftarrow> get_account accounts 4;
       Some (Raydium_Launchlab_Event (RaydiumLaunchlabTrade_Event (\<lparr>llt_third_program = None, llt_metadata = now_metadata now og block_time_us,
            llt_pool_state = pool_state, llt_user = acct accounts 0, llt_amount_in = amount_in,
            llt_amount_out = amount_out, llt_is_buy = is_buy, llt_total_base_sell = 0, llt_virtual_base = 0,
            llt_virtual_quote = 0, llt_real_base_before = 0, llt_real_quote_before = 0, llt_real_base_after = 0,
            llt_real_quote_after = 0, llt_protocol_fee = 0, llt_platform_fee = 0, llt_creator_fee = 0,
            llt_share_fee = 0, llt_trade_direction = (if is_buy then Direction_Buy else Direction_Sell),
            llt_pool_status = Status_Fund, llt_exact_in = exact_in, llt_global_config = acct accounts 2,
            llt_platform_config = acct accounts 3, llt_user_base_token = acct accounts 5,
            llt_user_quote_token = acct accounts 6, llt_base_vault = acct accounts 7,
            llt_quote_vault = acct accounts 8, llt_base_mint = acct accounts 9, llt_quote_mint = acct accounts 10,
            llt_base_token_program = acct accounts 11, llt_quote_token_program = acct accounts 12,
            llt_system_program = acct accounts 15, llt_platform_associated_account = acct accounts 16,
            llt_creator_associated_account = acct accounts 17\<rparr>)))
     }"

definition launchlab_pool_create_instruction :: "bytes \<Rightarrow> pubkey list \<Rightarrow> nat \<Rightarrow> nat \<Rightarrow> int \<Rightarrow> tx_origin \<Rightarrow> int option \<Rightarrow> 'p dex_event option" where
  "launchlab_pool_create_instruction data accounts base_program quote_program now og block_time_us =
     do {
       base_mint_param \<leftarrow> parse_mint_params data;
       pool_state \<leftarrow> get_account accounts 5;
       Some (Raydium_Launchlab_Event (RaydiumLaunchlabPoolCreate_Event (\<lparr>llp_metadata = now_metadata now og block_time_us, llp_base_mint_param = base_mint_param,
            llp_pool_state = pool_state, llp_payer = acct accounts 0, llp_creator = acct accounts 1,
            llp_global_config = acct accounts 2, llp_platform_config = acct accounts 3,
            llp_base_mint = acct accounts 6, llp_quote_mint = acct accounts 7, llp_base_vault = acct accounts 8,
            llp_quote_vault = acct accounts 9, llp_base_token_program = acct accounts base_program,
            llp_quote_token_program = acct accounts quote_program\<rparr>)))
     }"


definition launchlab_parse_instruction :: "int \<Rightarrow> 'p instruction_parser" where
  "launchlab_parse_instruction now instruction_data accounts og block_time_us =
     (if length instruction_data < 8 then None else
      let discriminator = take 8 instruction_data; data = drop 8 instruction_data;
          trade = (\<lambda>is_buy exact_in. launchlab_trade_instruction data accounts is_buy exact_in now og block_time_us);
          create = (\<lambda>base quote. launchlab_pool_create_instruction data accounts base quote now og block_time_us) in
      if discriminator = LAUNCHLAB_BUY_EXACT_IN then trade True True
      else if discriminator = LAUNCHLAB_BUY_EXACT_OUT then trade True False
      else if discriminator = LAUNCHLAB_SELL_EXACT_IN then trade False True
      else if discriminator = LAUNCHLAB_SELL_EXACT_OUT then trade False False
      else if discriminator = LAUNCHLAB_INITIALIZE \<or> discriminator = LAUNCHLAB_INITIALIZE_V2 then create 11 12
      else if discriminator = LAUNCHLAB_INITIALIZE_WITH_TOKEN_2022 then create 10 11
      else if discriminator = LAUNCHLAB_MIGRATE_TO_AMM \<or> discriminator = LAUNCHLAB_MIGRATE_TO_CPSWAP
      then launchlab_migrate_instruction data accounts (discriminator = LAUNCHLAB_MIGRATE_TO_CPSWAP) now og block_time_us
      else None)"

section \<open>CPMM\<close>

definition cpmm_swap_base_in_instruction :: "bytes \<Rightarrow> pubkey list \<Rightarrow> int \<Rightarrow> tx_origin \<Rightarrow> int option \<Rightarrow> 'p dex_event option" where
  "cpmm_swap_base_in_instruction data accounts now og block_time_us =
     (if length accounts < 13 then None else
     do {
       amount_in \<leftarrow> read_u64_le data 0;
       minimum_amount_out \<leftarrow> read_u64_le data 8;
       pool \<leftarrow> get_account accounts 3;
       Some (Raydium_Cpmm_Event (RaydiumCpmmSwap_Event (fill_cpmm_swap_accounts (acct accounts)
            (default_raydium_cpmm_swap\<lparr>cps_metadata := now_metadata now og block_time_us, cps_pool_id := pool,
            cps_input_amount := 0, cps_output_amount := 0, cps_input_vault_before := 0, cps_output_vault_before := 0,
            cps_input_transfer_fee := 0, cps_output_transfer_fee := 0, cps_base_input := True,
            cps_ix_name := ''swap_base_input'', cps_amount_in := amount_in,
            cps_minimum_amount_out := minimum_amount_out\<rparr>))))
     })"

definition cpmm_swap_base_out_instruction :: "bytes \<Rightarrow> pubkey list \<Rightarrow> int \<Rightarrow> tx_origin \<Rightarrow> int option \<Rightarrow> 'p dex_event option" where
  "cpmm_swap_base_out_instruction data accounts now og block_time_us =
     (if length accounts < 13 then None else
     do {
       max_amount_in \<leftarrow> read_u64_le data 0;
       amount_out \<leftarrow> read_u64_le data 8;
       pool \<leftarrow> get_account accounts 3;
       Some (Raydium_Cpmm_Event (RaydiumCpmmSwap_Event (fill_cpmm_swap_accounts (acct accounts)
            (default_raydium_cpmm_swap\<lparr>cps_metadata := now_metadata now og block_time_us, cps_pool_id := pool,
            cps_input_amount := 0, cps_output_amount := 0, cps_input_vault_before := 0, cps_output_vault_before := 0,
            cps_input_transfer_fee := 0, cps_output_transfer_fee := 0, cps_base_input := False,
            cps_ix_name := ''swap_base_output'', cps_max_amount_in := max_amount_in,
            cps_amount_out := amount_out\<rparr>))))
     })"

definition cpmm_initialize_instruction :: "bytes \<Rightarrow> pubkey list \<Rightarrow> int \<Rightarrow> tx_origin \<Rightarrow> int option \<Rightarrow> 'p dex_event option" where
  "cpmm_initialize_instruction data accounts now og block_time_us =
     (if length accounts < 20 then None else
     do {
       init_amount0 \<leftarrow> read_u64_le data 0;
       init_amount1 \<leftarrow> read_u64_le data 8;
       _ \<leftarrow> read_u64_le data 16;
       pool \<leftarrow> get_account accounts 3;
       Some (Raydium_Cpmm_Event (RaydiumCpmmInitialize_Event (\<lparr>cpn_metadata = now_metadata now og block_time_us, cpn_pool = pool, cpn_creator = acct accounts 0,
            cpn_init_amount0 = init_amount0, cpn_init_amount1 = init_amount1\<rparr>)))
     })"

definition cpmm_deposit_instruction :: "bytes \<Rightarrow> pubkey list \<Rightarrow> int \<Rightarrow> tx_origin \<Rightarrow> int option \<Rightarrow> 'p dex_event option" where
  "cpmm_deposit_instruction data accounts now og block_time_us =
     (if length accounts < 13 then None else
     do {
       lp_token_amount \<leftarrow> read_u64_le data 0;
       maximum_token_0_amount \<leftarrow> read_u64_le data 8;
       maximum_token_1_amount \<leftarrow> read_u64_le data 16;
       pool \<leftarrow> get_account accounts 2;
       Some (Raydium_Cpmm_Event (RaydiumCpmmDeposit_Event (\<lparr>cpd_metadata = now_metadata now og block_time_us, cpd_pool = pool,
            cpd_token0_amount = maximum_token_0_amount, cpd_token1_amount = maximum_token_1_amount,
            cpd_lp_token_amount = lp_token_amount, cpd_user = acct accounts 0\<rparr>)))
     })"

definition cpmm_withdraw_instruction :: "bytes \<Rightarrow> pubkey list \<Rightarrow> int \<Rightarrow> tx_origin \<Rightarrow> int option \<Rightarrow> 'p dex_event option" where
  "cpmm_withdraw_instruction data accounts now og block_time_us =
     (if length accounts < 14 then None else
     do {
       lp_token_amount \<leftarrow> read_u64_le data 0;
       minimum_token_0_amount \<leftarrow> read_u64_le data 8;
       minimum_token_1_amount \<leftarrow> read_u64_le data 16;
       pool \<leftarrow> get_account accounts 2;
       Some (Raydium_Cpmm_Event (RaydiumCpmmWithdraw_Event (\<lparr>cpw_metadata = now_metadata now og block_time_us, cpw_pool = pool,
            cpw_lp_token_amount = lp_token_amount, cpw_token0_amount = minimum_token_0_amount,
            cpw_token1_amount = minimum_token_1_amount, cpw_user = acct accounts 0\<rparr>)))
     })"

definition cpmm_collect_creator_fee_instruction :: "pubkey list \<Rightarrow> bool \<Rightarrow> int \<Rightarrow> tx_origin \<Rightarrow> int option \<Rightarrow> 'p dex_event option" where
  "cpmm_collect_creator_fee_instruction accounts permissionless now og block_time_us =
     (if length accounts < (if permissionless then 16 else 15) then None
      else Some (Raydium_Cpmm_Event (RaydiumCpmmCollectCreatorFee_Event (\<lparr>cpf_metadata = now_metadata now og block_time_us, cpf_permissionless = permissionless,
            cpf_payer = accounts ! 0, cpf_creator = accounts ! (if permissionless then 1 else 0),
            cpf_authority = accounts ! (if permissionless then 2 else 1),
            cpf_pool_state = accounts ! (if permissionless then 3 else 2),
            cpf_amm_config = accounts ! (if permissionless then 14 else 3), cpf_token_0_vault = accounts ! 4,
            cpf_token_1_vault = accounts ! 5, cpf_vault_0_mint = accounts ! 6, cpf_vault_1_mint = accounts ! 7,
            cpf_creator_token_0 = accounts ! 8, cpf_creator_token_1 = accounts ! 9,
            cpf_token_0_program = accounts ! 10, cpf_token_1_program = accounts ! 11,
            cpf_associated_token_program = accounts ! 12, cpf_system_program = accounts ! 13,
            cpf_creator_fee_share = accounts ! (if permissionless then 15 else 14)\<rparr>))))"


definition cpmm_parse_instruction :: "int \<Rightarrow> 'p instruction_parser" where
  "cpmm_parse_instruction now instruction_data accounts og block_time_us =
     (if length instruction_data < 8 then None else
      let discriminator = take 8 instruction_data; data = drop 8 instruction_data in
      if discriminator = COLLECT_CREATOR_FEE \<or> discriminator = COLLECT_CREATOR_FEE_PERMISSIONLESS
      then cpmm_collect_creator_fee_instruction accounts (discriminator = COLLECT_CREATOR_FEE_PERMISSIONLESS)
             now og block_time_us
      else if discriminator = CPMM_SWAP_BASE_IN then cpmm_swap_base_in_instruction data accounts now og block_time_us
      else if discriminator = CPMM_SWAP_BASE_OUT then cpmm_swap_base_out_instruction data accounts now og block_time_us
      else if discriminator = CPMM_INITIALIZE then cpmm_initialize_instruction data accounts now og block_time_us
      else if discriminator = CPMM_DEPOSIT then cpmm_deposit_instruction data accounts now og block_time_us
      else if discriminator = CPMM_WITHDRAW then cpmm_withdraw_instruction data accounts now og block_time_us
      else None)"

section \<open>CLMM\<close>

definition clmm_swap_instruction :: "bytes \<Rightarrow> pubkey list \<Rightarrow> string \<Rightarrow> address_derivation \<Rightarrow> int \<Rightarrow> tx_origin \<Rightarrow> int option \<Rightarrow> 'p dex_event option" where
  "clmm_swap_instruction data accounts ix_name derive now og block_time_us =
     do {
       amount \<leftarrow> read_u64_le data 0;
       other_amount_threshold \<leftarrow> read_u64_le data 8;
       sqrt_price_limit_x64 \<leftarrow> read_u128_le data 16;
       is_base_input \<leftarrow> map_option (\<lambda>b. b = 1) (get_at 32 data);
       pool \<leftarrow> get_account accounts 2;
       Some (Raydium_Clmm_Event (RaydiumClmmSwap_Event (fill_clmm_swap_accounts_impl derive (acct accounts) (Some (length accounts))
            (default_raydium_clmm_swap\<lparr>cls_metadata := now_metadata now og block_time_us, cls_pool_state := pool,
            cls_sender := acct accounts 0, cls_token_account_0 := acct accounts 3,
            cls_token_account_1 := acct accounts 4, cls_amount_0 := 0, cls_transfer_fee_0 := 0, cls_amount_1 := 0,
            cls_transfer_fee_1 := 0, cls_zero_for_one := False, cls_sqrt_price_x64 := 0, cls_liquidity := 0,
            cls_tick := 0, cls_ix_name := ix_name, cls_amount := amount,
            cls_other_amount_threshold := other_amount_threshold, cls_sqrt_price_limit_x64 := sqrt_price_limit_x64,
            cls_is_base_input := is_base_input\<rparr>))))
     }"

definition clmm_increase_v2_instruction :: "bytes \<Rightarrow> pubkey list \<Rightarrow> int \<Rightarrow> tx_origin \<Rightarrow> int option \<Rightarrow> 'p dex_event option" where
  "clmm_increase_v2_instruction data accounts now og block_time_us =
     do {
       liquidity \<leftarrow> read_u128_le data 0;
       amount_0_max \<leftarrow> read_u64_le data 16;
       amount_1_max \<leftarrow> read_u64_le data 24;
       pool \<leftarrow> get_account accounts 2;
       Some (Raydium_Clmm_Event (RaydiumClmmIncreaseLiquidity_Event (\<lparr>cli_metadata = now_metadata now og block_time_us, cli_position_nft_mint = default_pubkey,
            cli_liquidity = liquidity, cli_amount_0 = 0, cli_amount_1 = 0, cli_amount_0_transfer_fee = 0,
            cli_amount_1_transfer_fee = 0, cli_pool = pool, cli_amount0_max = amount_0_max,
            cli_amount1_max = amount_1_max, cli_user = acct accounts 0\<rparr>)))
     }"

definition clmm_decrease_v2_instruction :: "bytes \<Rightarrow> pubkey list \<Rightarrow> int \<Rightarrow> tx_origin \<Rightarrow> int option \<Rightarrow> 'p dex_event option" where
  "clmm_decrease_v2_instruction data accounts now og block_time_us =
     do {
       liquidity \<leftarrow> read_u128_le data 0;
       amount_0_min \<leftarrow> read_u64_le data 16;
       amount_1_min \<leftarrow> read_u64_le data 24;
       pool \<leftarrow> get_account accounts 3;
       Some (Raydium_Clmm_Event (RaydiumClmmDecreaseLiquidity_Event (\<lparr>cld_metadata = now_metadata now og block_time_us, cld_position_nft_mint = default_pubkey,
            cld_liquidity = liquidity, cld_decrease_amount_0 = 0, cld_decrease_amount_1 = 0, cld_fee_amount_0 = 0,
            cld_fee_amount_1 = 0, cld_reward_amounts = [0, 0, 0], cld_transfer_fee_0 = 0, cld_transfer_fee_1 = 0,
            cld_pool = pool, cld_amount0_min = amount_0_min, cld_amount1_min = amount_1_min,
            cld_user = acct accounts 0\<rparr>)))
     }"

definition clmm_create_pool_instruction :: "bytes \<Rightarrow> pubkey list \<Rightarrow> int \<Rightarrow> tx_origin \<Rightarrow> int option \<Rightarrow> 'p dex_event option" where
  "clmm_create_pool_instruction data accounts now og block_time_us =
     do {
       sqrt_price_x64 \<leftarrow> read_u128_le data 0;
       open_time \<leftarrow> read_u64_le data 16;
       pool \<leftarrow> get_account accounts 2;
       Some (Raydium_Clmm_Event (RaydiumClmmCreatePool_Event (\<lparr>clc_metadata = now_metadata now og block_time_us, clc_token_0_mint = acct accounts 3,
            clc_token_1_mint = acct accounts 4, clc_tick_spacing = 0, clc_pool = pool,
            clc_sqrt_price_x64 = sqrt_price_x64, clc_tick = 0, clc_token_vault_0 = acct accounts 5,
            clc_token_vault_1 = acct accounts 6, clc_fee_rate = 0, clc_creator = acct accounts 0,
            clc_open_time = open_time\<rparr>)))
     }"

definition clmm_create_customizable_instruction :: "bytes \<Rightarrow> pubkey list \<Rightarrow> int \<Rightarrow> tx_origin \<Rightarrow> int option \<Rightarrow> 'p dex_event option" where
  "clmm_create_customizable_instruction data accounts now og block_time_us =
     (if length data \<noteq> 18 \<or> length accounts < 13 \<or> data ! 16 > 2 \<or> data ! 17 > 1 then None else
     do {
       sqrt_price_x64 \<leftarrow> read_u128_le data 0;
       pool \<leftarrow> get_account accounts 2;
       Some (Raydium_Clmm_Event (RaydiumClmmCreatePool_Event (\<lparr>clc_metadata = now_metadata now og block_time_us, clc_token_0_mint = acct accounts 3,
            clc_token_1_mint = acct accounts 4, clc_tick_spacing = 0, clc_pool = pool,
            clc_sqrt_price_x64 = sqrt_price_x64, clc_tick = 0, clc_token_vault_0 = acct accounts 5,
            clc_token_vault_1 = acct accounts 6, clc_fee_rate = 0, clc_creator = acct accounts 0,
            clc_open_time = 0\<rparr>)))
     })"

definition clmm_open_position_instruction :: "bytes \<Rightarrow> pubkey list \<Rightarrow> nat \<Rightarrow> int \<Rightarrow> tx_origin \<Rightarrow> int option \<Rightarrow> 'p dex_event option" where
  "clmm_open_position_instruction data accounts pool_account_index now og block_time_us =
     do {
       tick_lower_index \<leftarrow> read_i32_le data 0;
       tick_upper_index \<leftarrow> read_i32_le data 4;
       _ \<leftarrow> read_i32_le data 8;
       _ \<leftarrow> read_i32_le data 12;
       liquidity \<leftarrow> read_u128_le data 16;
       _ \<leftarrow> read_u64_le data 32;
       _ \<leftarrow> read_u64_le data 40;
       pool \<leftarrow> get_account accounts pool_account_index;
       Some (Raydium_Clmm_Event (RaydiumClmmOpenPosition_Event (\<lparr>clo_metadata = now_metadata now og block_time_us, clo_pool = pool, clo_user = acct accounts 1,
            clo_position_nft_mint = acct accounts 2, clo_tick_lower_index = tick_lower_index,
            clo_tick_upper_index = tick_upper_index, clo_liquidity = liquidity\<rparr>)))
     }"

definition clmm_close_position_instruction :: "pubkey list \<Rightarrow> int \<Rightarrow> tx_origin \<Rightarrow> int option \<Rightarrow> 'p dex_event option" where
  "clmm_close_position_instruction accounts now og block_time_us =
       Some (Raydium_Clmm_Event (RaydiumClmmClosePosition_Event (\<lparr>clx_metadata = now_metadata now og block_time_us, clx_pool = default_pubkey,
            clx_user = acct accounts 0, clx_position_nft_mint = acct accounts 1\<rparr>)))"


definition clmm_parse_instruction :: "address_derivation \<Rightarrow> int \<Rightarrow> 'p instruction_parser" where
  "clmm_parse_instruction derive now instruction_data accounts og block_time_us =
     (if length instruction_data < 8 then None else
      let discriminator = take 8 instruction_data; data = drop 8 instruction_data in
      if discriminator = CLMM_SWAP then clmm_swap_instruction data accounts ''swap'' derive now og block_time_us
      else if discriminator = CLMM_SWAP_V2 then clmm_swap_instruction data accounts ''swap_v2'' derive now og block_time_us
      else if discriminator = CLMM_INCREASE_LIQUIDITY_V2 then clmm_increase_v2_instruction data accounts now og block_time_us
      else if discriminator = CLMM_DECREASE_LIQUIDITY_V2 then clmm_decrease_v2_instruction data accounts now og block_time_us
      else if discriminator = CLMM_CREATE_POOL then clmm_create_pool_instruction data accounts now og block_time_us
      else if discriminator = CLMM_CREATE_CUSTOMIZABLE_POOL
      then clmm_create_customizable_instruction data accounts now og block_time_us
      else if discriminator = CLMM_OPEN_POSITION then clmm_open_position_instruction data accounts 5 now og block_time_us
      else if discriminator = CLMM_OPEN_POSITION_V2 then clmm_open_position_instruction data accounts 5 now og block_time_us
      else if discriminator = CLMM_OPEN_POSITION_WITH_TOKEN_22_NFT
      then clmm_open_position_instruction data accounts 4 now og block_time_us
      else if discriminator = CLMM_CLOSE_POSITION then clmm_close_position_instruction accounts now og block_time_us
      else None)"

section \<open>AMM V4\<close>

datatype raydium_amm_v4_instruction =
    Initialize2 | V4_Deposit | V4_Withdraw | WithdrawPnl | SwapBaseIn | SwapBaseOut | SwapBaseInV2 | SwapBaseOutV2

definition v4_from_u8 :: "u8 \<Rightarrow> raydium_amm_v4_instruction option" where
  "v4_from_u8 v =
     map_of [(1, Initialize2), (3, V4_Deposit), (4, V4_Withdraw), (7, WithdrawPnl), (9, SwapBaseIn),
             (11, SwapBaseOut), (16, SwapBaseInV2), (17, SwapBaseOutV2)] v"

definition v4_swap_base_in_v2_instruction :: "bytes \<Rightarrow> pubkey list \<Rightarrow> int \<Rightarrow> tx_origin \<Rightarrow> int option \<Rightarrow> 'p dex_event option" where
  "v4_swap_base_in_v2_instruction data accounts now og block_time_us =
     do {
       amount_in \<leftarrow> read_u64_le data 0;
       minimum_amount_out \<leftarrow> read_u64_le data 8;
       amm \<leftarrow> get_account accounts 1;
       Some (Raydium_Amm_V4_Event (RaydiumAmmV4Swap_Event (\<lparr>avs_third_program = None, avs_metadata = now_metadata now og block_time_us, avs_amm = amm,
            avs_amount_in = 0, avs_amount_out = 0, avs_minimum_amount_out = minimum_amount_out,
            avs_max_amount_in = 0, avs_token_program = acct accounts 0, avs_amm_authority = acct accounts 2,
            avs_amm_open_orders = default_pubkey, avs_amm_target_orders = None,
            avs_pool_coin_token_account = acct accounts 3, avs_pool_pc_token_account = acct accounts 4,
            avs_serum_program = default_pubkey, avs_serum_market = default_pubkey, avs_serum_bids = default_pubkey,
            avs_serum_asks = default_pubkey, avs_serum_event_queue = default_pubkey,
            avs_serum_coin_vault_account = default_pubkey, avs_serum_pc_vault_account = default_pubkey,
            avs_serum_vault_signer = default_pubkey, avs_user_source_token_account = acct accounts 5,
            avs_user_destination_token_account = acct accounts 6, avs_user_source_owner = acct accounts 7,
            avs_ix_name = ''swap_base_in_v2'', avs_instruction_amount_in = amount_in,
            avs_instruction_amount_out = 0\<rparr>)))
     }"

definition v4_swap_base_out_v2_instruction :: "bytes \<Rightarrow> pubkey list \<Rightarrow> int \<Rightarrow> tx_origin \<Rightarrow> int option \<Rightarrow> 'p dex_event option" where
  "v4_swap_base_out_v2_instruction data accounts now og block_time_us =
     do {
       max_amount_in \<leftarrow> read_u64_le data 0;
       amount_out \<leftarrow> read_u64_le data 8;
       amm \<leftarrow> get_account accounts 1;
       Some (Raydium_Amm_V4_Event (RaydiumAmmV4Swap_Event (\<lparr>avs_third_program = None, avs_metadata = now_metadata now og block_time_us, avs_amm = amm,
            avs_amount_in = 0, avs_amount_out = 0, avs_minimum_amount_out = 0, avs_max_amount_in = max_amount_in,
            avs_token_program = acct accounts 0, avs_amm_authority = acct accounts 2,
            avs_amm_open_orders = default_pubkey, avs_amm_target_orders = None,
            avs_pool_coin_token_account = acct accounts 3, avs_pool_pc_token_account = acct accounts 4,
            avs_serum_program = default_pubkey, avs_serum_market = default_pubkey, avs_serum_bids = default_pubkey,
            avs_serum_asks = default_pubkey, avs_serum_event_queue = default_pubkey,
            avs_serum_coin_vault_account = default_pubkey, avs_serum_pc_vault_account = default_pubkey,
            avs_serum_vault_signer = default_pubkey, avs_user_source_token_account = acct accounts 5,
            avs_user_destination_token_account = acct accounts 6, avs_user_source_owner = acct accounts 7,
            avs_ix_name = ''swap_base_out_v2'', avs_instruction_amount_in = 0,
            avs_instruction_amount_out = amount_out\<rparr>)))
     }"

definition v4_swap_base_in_instruction :: "bytes \<Rightarrow> pubkey list \<Rightarrow> int \<Rightarrow> tx_origin \<Rightarrow> int option \<Rightarrow> 'p dex_event option" where
  "v4_swap_base_in_instruction data accounts now og block_time_us =
     do {
       amount_in \<leftarrow> read_u64_le data 0;
       minimum_amount_out \<leftarrow> read_u64_le data 8;
       amm \<leftarrow> get_account accounts 1;
       let shift = (if length accounts = 17 then 1 else 0);
       Some (Raydium_Amm_V4_Event (RaydiumAmmV4Swap_Event (\<lparr>avs_third_program = None, avs_metadata = now_metadata now og block_time_us, avs_amm = amm,
            avs_amount_in = 0, avs_amount_out = 0, avs_minimum_amount_out = minimum_amount_out,
            avs_max_amount_in = 0, avs_token_program = acct accounts 0, avs_amm_authority = acct accounts 2,
            avs_amm_open_orders = acct accounts 3,
            avs_amm_target_orders = (if shift = 0 then get_account accounts 4 else None),
            avs_pool_coin_token_account = acct accounts (5 - shift),
            avs_pool_pc_token_account = acct accounts (6 - shift), avs_serum_program = acct accounts (7 - shift),
            avs_serum_market = acct accounts (8 - shift), avs_serum_bids = acct accounts (9 - shift),
            avs_serum_asks = acct accounts (10 - shift), avs_serum_event_queue = acct accounts (11 - shift),
            avs_serum_coin_vault_account = acct accounts (12 - shift),
            avs_serum_pc_vault_account = acct accounts (13 - shift),
            avs_serum_vault_signer = acct accounts (14 - shift),
            avs_user_source_token_account = acct accounts (15 - shift),
            avs_user_destination_token_account = acct accounts (16 - shift),
            avs_user_source_owner = acct accounts (17 - shift), avs_ix_name = ''swap_base_in'',
            avs_instruction_amount_in = amount_in, avs_instruction_amount_out = 0\<rparr>)))
     }"

definition v4_swap_base_out_instruction :: "bytes \<Rightarrow> pubkey list \<Rightarrow> int \<Rightarrow> tx_origin \<Rightarrow> int option \<Rightarrow> 'p dex_event option" where
  "v4_swap_base_out_instruction data accounts now og block_time_us =
     do {
       max_amount_in \<leftarrow> read_u64_le data 0;
       amount_out \<leftarrow> read_u64_le data 8;
       amm \<leftarrow> get_account accounts 1;
       let shift = (if length accounts = 17 then 1 else 0);
       Some (Raydium_Amm_V4_Event (RaydiumAmmV4Swap_Event (\<lparr>avs_third_program = None, avs_metadata = now_metadata now og block_time_us, avs_amm = amm,
            avs_amount_in = 0, avs_amount_out = 0, avs_minimum_amount_out = 0, avs_max_amount_in = max_amount_in,
            avs_token_program = acct accounts 0, avs_amm_authority = acct accounts 2,
            avs_amm_open_orders = acct accounts 3,
            avs_amm_target_orders = (if shift = 0 then get_account accounts 4 else None),
            avs_pool_coin_token_account = acct accounts (5 - shift),
            avs_pool_pc_token_account = acct accounts (6 - shift), avs_serum_program = acct accounts (7 - shift),
            avs_serum_market = acct accounts (8 - shift), avs_serum_bids = acct accounts (9 - shift),
            avs_serum_asks = acct accounts (10 - shift), avs_serum_event_queue = acct accounts (11 - shift),
            avs_serum_coin_vault_account = acct accounts (12 - shift),
            avs_serum_pc_vault_account = acct accounts (13 - shift),
            avs_serum_vault_signer = acct accounts (14 - shift),
            avs_user_source_token_account = acct accounts (15 - shift),
            avs_user_destination_token_account = acct accounts (16 - shift),
            avs_user_source_owner = acct accounts (17 - shift), avs_ix_name = ''swap_base_out'',
            avs_instruction_amount_in = 0, avs_instruction_amount_out = amount_out\<rparr>)))
     }"

definition v4_deposit_instruction :: "bytes \<Rightarrow> pubkey list \<Rightarrow> int \<Rightarrow> tx_origin \<Rightarrow> int option \<Rightarrow> 'p dex_event option" where
  "v4_deposit_instruction data accounts now og block_time_us =
     do {
       max_coin_amount \<leftarrow> read_u64_le data 0;
       max_pc_amount \<leftarrow> read_u64_le data 8;
       base_side \<leftarrow> read_u64_le data 16;
       amm \<leftarrow> get_account accounts 1;
       Some (Raydium_Amm_V4_Event (RaydiumAmmV4Deposit_Event (\<lparr>avd_metadata = now_metadata now og block_time_us, avd_amm = amm,
            avd_max_coin_amount = max_coin_amount, avd_max_pc_amount = max_pc_amount, avd_base_side = base_side,
            avd_token_program = acct accounts 0, avd_amm_authority = acct accounts 2,
            avd_amm_open_orders = acct accounts 3, avd_amm_target_orders = acct accounts 4,
            avd_lp_mint_address = acct accounts 5, avd_pool_coin_token_account = acct accounts 6,
            avd_pool_pc_token_account = acct accounts 7, avd_serum_market = acct accounts 8,
            avd_user_coin_token_account = acct accounts 9, avd_user_pc_token_account = acct accounts 10,
            avd_user_lp_token_account = acct accounts 11, avd_user_owner = acct accounts 12,
            avd_serum_event_queue = acct accounts 13\<rparr>)))
     }"

definition v4_withdraw_instruction :: "bytes \<Rightarrow> pubkey list \<Rightarrow> int \<Rightarrow> tx_origin \<Rightarrow> int option \<Rightarrow> 'p dex_event option" where
  "v4_withdraw_instruction data accounts now og block_time_us =
     do {
       amount \<leftarrow> read_u64_le data 0;
       amm \<leftarrow> get_account accounts 1;
       Some (Raydium_Amm_V4_Event (RaydiumAmmV4Withdraw_Event (\<lparr>avw_metadata = now_metadata now og block_time_us, avw_amm = amm, avw_amount = amount,
            avw_token_program = acct accounts 0, avw_amm_authority = acct accounts 2,
            avw_amm_open_orders = acct accounts 3, avw_amm_target_orders = acct accounts 4,
            avw_lp_mint_address = acct accounts 5, avw_pool_coin_token_account = acct accounts 6,
            avw_pool_pc_token_account = acct accounts 7, avw_pool_withdraw_queue = acct accounts 8,
            avw_pool_temp_lp_token_account = acct accounts 9, avw_serum_program = acct accounts 10,
            avw_serum_market = acct accounts 11, avw_serum_coin_vault_account = acct accounts 12,
            avw_serum_pc_vault_account = acct accounts 13, avw_serum_vault_signer = acct accounts 14,
            avw_user_lp_token_account = acct accounts 15, avw_user_coin_token_account = acct accounts 16,
            avw_user_pc_token_account = acct accounts 17, avw_user_owner = acct accounts 18,
            avw_serum_event_queue = acct accounts 19, avw_serum_bids = acct accounts 20,
            avw_serum_asks = acct accounts 21\<rparr>)))
     }"

definition v4_initialize2_instruction :: "bytes \<Rightarrow> pubkey list \<Rightarrow> int \<Rightarrow> tx_origin \<Rightarrow> int option \<Rightarrow> 'p dex_event option" where
  "v4_initialize2_instruction data accounts now og block_time_us =
     do {
       nonce \<leftarrow> get_at 0 data;
       open_time \<leftarrow> read_u64_le data 1;
       init_pc_amount \<leftarrow> read_u64_le data 9;
       init_coin_amount \<leftarrow> read_u64_le data 17;
       amm \<leftarrow> get_account accounts 4;
       Some (Raydium_Amm_V4_Event (RaydiumAmmV4Initialize2_Event (\<lparr>avi_metadata = now_metadata now og block_time_us, avi_nonce = nonce, avi_open_time = open_time,
            avi_init_pc_amount = init_pc_amount, avi_init_coin_amount = init_coin_amount,
            avi_token_program = acct accounts 0, avi_spl_associated_token_account = acct accounts 1,
            avi_system_program = acct accounts 2, avi_rent = acct accounts 3, avi_amm = amm,
            avi_amm_authority = acct accounts 5, avi_amm_open_orders = acct accounts 6,
            avi_lp_mint = acct accounts 7, avi_coin_mint = acct accounts 8, avi_pc_mint = acct accounts 9,
            avi_pool_coin_token_account = acct accounts 10, avi_pool_pc_token_account = acct accounts 11,
            avi_pool_withdraw_queue = acct accounts 12, avi_amm_target_orders = acct accounts 13,
            avi_pool_temp_lp = acct accounts 14, avi_serum_program = acct accounts 15,
            avi_serum_market = acct accounts 16, avi_user_wallet = acct accounts 17,
            avi_user_token_coin = acct accounts 18, avi_user_token_pc = acct accounts 19,
            avi_user_lp_token_account = acct accounts 20\<rparr>)))
     }"

definition v4_withdraw_pnl_instruction :: "pubkey list \<Rightarrow> int \<Rightarrow> tx_origin \<Rightarrow> int option \<Rightarrow> 'p dex_event option" where
  "v4_withdraw_pnl_instruction accounts now og block_time_us =
     do {
       amm \<leftarrow> get_account accounts 1;
       Some (Raydium_Amm_V4_Event (RaydiumAmmV4WithdrawPnl_Event (\<lparr>avp_metadata = now_metadata now og block_time_us, avp_token_program = acct accounts 0,
            avp_amm = amm, avp_amm_config = acct accounts 2, avp_amm_authority = acct accounts 3,
            avp_amm_open_orders = acct accounts 4, avp_pool_coin_token_account = acct accounts 5,
            avp_pool_pc_token_account = acct accounts 6, avp_coin_pnl_token_account = acct accounts 7,
            avp_pc_pnl_token_account = acct accounts 8, avp_pnl_owner = acct accounts 9,
            avp_amm_target_orders = acct accounts 10, avp_serum_program = acct accounts 11,
            avp_serum_market = acct accounts 12, avp_serum_event_queue = acct accounts 13,
            avp_serum_coin_vault_account = acct accounts 14, avp_serum_pc_vault_account = acct accounts 15,
            avp_serum_vault_signer = acct accounts 16\<rparr>)))
     }"


definition v4_parse_instruction :: "int \<Rightarrow> 'p instruction_parser" where
  "v4_parse_instruction now instruction_data accounts og block_time_us =
     (case instruction_data of [] \<Rightarrow> None
      | b # data \<Rightarrow>
          (case v4_from_u8 b of None \<Rightarrow> None
           | Some SwapBaseIn \<Rightarrow> v4_swap_base_in_instruction data accounts now og block_time_us
           | Some SwapBaseOut \<Rightarrow> v4_swap_base_out_instruction data accounts now og block_time_us
           | Some SwapBaseInV2 \<Rightarrow> v4_swap_base_in_v2_instruction data accounts now og block_time_us
           | Some SwapBaseOutV2 \<Rightarrow> v4_swap_base_out_v2_instruction data accounts now og block_time_us
           | Some V4_Deposit \<Rightarrow> v4_deposit_instruction data accounts now og block_time_us
           | Some V4_Withdraw \<Rightarrow> v4_withdraw_instruction data accounts now og block_time_us
           | Some Initialize2 \<Rightarrow> v4_initialize2_instruction data accounts now og block_time_us
           | Some WithdrawPnl \<Rightarrow> v4_withdraw_pnl_instruction accounts now og block_time_us))"

end
