(* ===== verification/Meteora_Intents.thy ===== *)
theory Meteora_Intents
  imports Intent_Defaults Route_Swap
begin

text \<open>
  The instruction parsers of Orca Whirlpool (\<open>src/instr/orca_whirlpool.rs\<close>) and Meteora: Pools
  (\<open>src/instr/meteora_amm.rs\<close>), DAMM v2 (\<open>src/instr/meteora_damm.rs\<close>) and DLMM
  (\<open>src/instr/meteora_dlmm.rs\<close>), with the discriminator tables of their instruction enums.
\<close>

section \<open>Orca Whirlpool\<close>

datatype orca_whirlpool_instruction =
    Orca_InitializeConfig | Orca_InitializePool | Orca_InitializeTickArray | Orca_InitializeFeeTier
    | Orca_InitializeReward | Orca_SetRewardEmissions | Orca_OpenPosition | Orca_OpenPositionWithMetadata
    | Orca_IncreaseLiquidity | Orca_DecreaseLiquidity | Orca_UpdateFeesAndRewards | Orca_CollectFees
    | Orca_CollectReward | Orca_CollectProtocolFees | Orca_Swap | Orca_ClosePosition
    | Orca_SetDefaultFeeRate | Orca_SetDefaultProtocolFeeRate | Orca_SetFeeRate | Orca_SetProtocolFeeRate
    | Orca_SetFeeAuthority | Orca_SetCollectProtocolFeesAuthority | Orca_SetRewardAuthority
    | Orca_SetRewardAuthorityBySuperAuthority | Orca_SetRewardEmissionsSuperAuthority | Orca_TwoHopSwap
    | Orca_InitializePositionBundle | Orca_InitializePositionBundleWithMetadata | Orca_DeletePositionBundle
    | Orca_OpenBundledPosition | Orca_CloseBundledPosition | Orca_CollectFeesV2 | Orca_CollectProtocolFeesV2
    | Orca_CollectRewardV2 | Orca_DecreaseLiquidityV2 | Orca_IncreaseLiquidityV2 | Orca_InitializePoolV2
    | Orca_InitializeRewardV2 | Orca_SetRewardEmissionsV2 | Orca_SwapV2 | Orca_TwoHopSwapV2

definition orca_from_discriminator :: "bytes \<Rightarrow> orca_whirlpool_instruction option" where
  "orca_from_discriminator discriminator =
     map_of
     [([208, 127, 21, 1, 194, 190, 196, 70], Orca_InitializeConfig),
      ([95, 180, 10, 172, 84, 174, 232, 40], Orca_InitializePool),
      ([207, 45, 87, 242, 27, 63, 204, 67], Orca_InitializePoolV2),
      ([214, 27, 15, 109, 164, 252, 221, 253], Orca_InitializeTickArray),
      ([183, 74, 156, 160, 112, 2, 42, 30], Orca_InitializeFeeTier),
      ([95, 135, 192, 196, 242, 129, 230, 68], Orca_InitializeReward),
      ([13, 197, 86, 168, 109, 176, 27, 244], Orca_SetRewardEmissions),
      ([87, 190, 72, 189, 204, 203, 226, 66], Orca_OpenPosition),
      ([78, 217, 28, 185, 88, 104, 255, 231], Orca_OpenPositionWithMetadata),
      ([46, 156, 243, 118, 13, 205, 251, 178], Orca_IncreaseLiquidity),
      ([133, 29, 89, 223, 69, 238, 176, 10], Orca_IncreaseLiquidityV2),
      ([160, 38, 208, 111, 104, 91, 44, 1], Orca_DecreaseLiquidity),
      ([58, 127, 188, 62, 79, 82, 196, 96], Orca_DecreaseLiquidityV2),
      ([173, 178, 66, 24, 33, 156, 204, 31], Orca_UpdateFeesAndRewards),
      ([164, 152, 207, 99, 30, 186, 19, 182], Orca_CollectFees),
      ([206, 68, 114, 253, 168, 177, 245, 180], Orca_CollectReward),
      ([22, 67, 23, 98, 150, 178, 70, 220], Orca_CollectProtocolFees),
      ([248, 198, 158, 145, 225, 117, 135, 200], Orca_Swap),
      ([123, 134, 81, 0, 49, 68, 98, 98], Orca_ClosePosition),
      ([43, 4, 237, 11, 26, 201, 30, 98], Orca_SwapV2),
      ([195, 96, 237, 108, 68, 162, 219, 230], Orca_TwoHopSwap),
      ([186, 143, 209, 29, 254, 2, 194, 117], Orca_TwoHopSwapV2)]
     discriminator"

definition orca_swap_instruction :: "bytes \<Rightarrow> pubkey list \<Rightarrow> nat \<Rightarrow> int \<Rightarrow> tx_origin \<Rightarrow> int option \<Rightarrow> 'p dex_event option" where
  "orca_swap_instruction data accounts whirlpool_index now og block_time_us =
     do {
       amount \<leftarrow> read_u64_le data 0;
       other_amount_threshold \<leftarrow> read_u64_le data 8;
       sqrt_price_limit \<leftarrow> read_u128_le data 16;
       amount_specified_is_input \<leftarrow> read_bool data 32;
       a_to_b \<leftarrow> read_bool data 33;
       whirlpool \<leftarrow> get_account accounts whirlpool_index;
       Some (Orca_Whirlpool_Event (OrcaWhirlpoolSwap_Event (fill_whirlpool_swap_accounts (acct accounts)
            (default_orca_whirlpool_swap\<lparr>ows_metadata := now_metadata now og block_time_us,
            ows_whirlpool := whirlpool, ows_input_amount := 0, ows_output_amount := 0, ows_a_to_b := a_to_b,
            ows_pre_sqrt_price := 0, ows_post_sqrt_price := 0, ows_input_transfer_fee := 0,
            ows_output_transfer_fee := 0, ows_lp_fee := 0, ows_protocol_fee := 0,
            ows_ix_name := (if whirlpool_index = 4 then ''swap_v2'' else ''swap''), ows_amount := amount,
            ows_other_amount_threshold := other_amount_threshold, ows_sqrt_price_limit := sqrt_price_limit,
            ows_amount_specified_is_input := amount_specified_is_input\<rparr>))))
     }"

definition orca_increase_instruction :: "bytes \<Rightarrow> pubkey list \<Rightarrow> bool \<Rightarrow> int \<Rightarrow> tx_origin \<Rightarrow> int option \<Rightarrow> 'p dex_event option" where
  "orca_increase_instruction data accounts v2 now og block_time_us =
     do {
       liquidity_amount \<leftarrow> read_u128_le data 0;
       token_max_a \<leftarrow> read_u64_le data 16;
       token_max_b \<leftarrow> read_u64_le data 24;
       whirlpool \<leftarrow> get_account accounts 0;
       position \<leftarrow> get_account accounts (if v2 then 5 else 3);
       Some (Orca_Whirlpool_Event (OrcaWhirlpoolLiquidityIncreased_Event (\<lparr>owi_metadata = now_metadata now og block_time_us, owi_whirlpool = whirlpool,
            owi_liquidity = liquidity_amount, owi_token_a_amount = token_max_a, owi_token_b_amount = token_max_b,
            owi_position = position, owi_tick_lower_index = 0, owi_tick_upper_index = 0,
            owi_token_a_transfer_fee = 0, owi_token_b_transfer_fee = 0\<rparr>)))
     }"

definition orca_decrease_instruction :: "bytes \<Rightarrow> pubkey list \<Rightarrow> bool \<Rightarrow> int \<Rightarrow> tx_origin \<Rightarrow> int option \<Rightarrow> 'p dex_event option" where
  "orca_decrease_instruction data accounts v2 now og block_time_us =
     do {
       liquidity_amount \<leftarrow> read_u128_le data 0;
       token_min_a \<leftarrow> read_u64_le data 16;
       token_min_b \<leftarrow> read_u64_le data 24;
       whirlpool \<leftarrow> get_account accounts 0;
       position \<leftarrow> get_account accounts (if v2 then 5 else 3);
       Some (Orca_Whirlpool_Event (OrcaWhirlpoolLiquidityDecreased_Event (\<lparr>owd_metadata = now_metadata now og block_time_us, owd_whirlpool = whirlpool,
            owd_liquidity = liquidity_amount, owd_token_a_amount = token_min_a, owd_token_b_amount = token_min_b,
            owd_position = position, owd_tick_lower_index = 0, owd_tick_upper_index = 0,
            owd_token_a_transfer_fee = 0, owd_token_b_transfer_fee = 0\<rparr>)))
     }"

definition orca_initialize_pool_instruction :: "bytes \<Rightarrow> pubkey list \<Rightarrow> bool \<Rightarrow> int \<Rightarrow> tx_origin \<Rightarrow> int option \<Rightarrow> 'p dex_event option" where
  "orca_initialize_pool_instruction data accounts v2 now og block_time_us =
     do {
       let offset = (if v2 then 0 else 1);
       tick_spacing \<leftarrow> read_u16_le data offset;
       initial_sqrt_price \<leftarrow> read_u128_le data (offset + 2);
       whirlpool \<leftarrow> get_account accounts (if v2 then 6 else 4);
       whirlpools_config \<leftarrow> get_account accounts 0;
       token_mint_a \<leftarrow> get_account accounts 1;
       token_mint_b \<leftarrow> get_account accounts 2;
       Some (Orca_Whirlpool_Event (OrcaWhirlpoolPoolInitialized_Event (\<lparr>owp_metadata = now_metadata now og block_time_us, owp_whirlpool = whirlpool,
            owp_whirlpools_config = whirlpools_config, owp_token_mint_a = token_mint_a,
            owp_token_mint_b = token_mint_b, owp_tick_spacing = tick_spacing,
            owp_token_program_a = acct accounts (if v2 then 10 else 8),
            owp_token_program_b = acct accounts (if v2 then 11 else 8), owp_decimals_a = 0, owp_decimals_b = 0,
            owp_initial_sqrt_price = initial_sqrt_price\<rparr>)))
     }"


definition orca_parse_instruction :: "int \<Rightarrow> 'p instruction_parser" where
  "orca_parse_instruction now instruction_data accounts og block_time_us =
     (if length instruction_data < 8 then None else
      let data = drop 8 instruction_data in
      case orca_from_discriminator (take 8 instruction_data) of None \<Rightarrow> None
      | Some instruction_type \<Rightarrow>
          if instruction_type = Orca_Swap then orca_swap_instruction data accounts 2 now og block_time_us
          else if instruction_type = Orca_SwapV2 then orca_swap_instruction data accounts 4 now og block_time_us
          else if instruction_type \<in> {Orca_IncreaseLiquidity, Orca_IncreaseLiquidityV2}
          then orca_increase_instruction data accounts (instruction_type = Orca_IncreaseLiquidityV2) now og block_time_us
          else if instruction_type \<in> {Orca_DecreaseLiquidity, Orca_DecreaseLiquidityV2}
          then orca_decrease_instruction data accounts (instruction_type = Orca_DecreaseLiquidityV2) now og block_time_us
          else if instruction_type \<in> {Orca_InitializePool, Orca_InitializePoolV2}
          then orca_initialize_pool_instruction data accounts (instruction_type = Orca_InitializePoolV2) now og block_time_us
          else None)"

section \<open>Meteora Pools\<close>

datatype meteora_pools_instruction =
    Pools_Initialize | Pools_Swap | Pools_AddLiquidity | Pools_AddImbalanceLiquidity | Pools_RemoveLiquidity
    | Pools_RemoveLiquiditySingleSide | Pools_CreateConfig | Pools_CloseConfig | Pools_UpdateCurveInfo
    | Pools_TransferAdmin | Pools_SetPoolFees | Pools_OverrideCurveParam | Pools_SetNewFeeOwner
    | Pools_PartnerClaimFees | Pools_WithdrawProtocolFees | Pools_CreateLockEscrow | Pools_Lock
    | Pools_ClaimFee | Pools_CreatePool | Pools_CreatePoolWithConfig2 | Pools_InitializePermissionedPool
    | Pools_InitializePermissionlessPool | Pools_InitializePermissionlessPoolWithFeeTier
    | Pools_InitializeCustomizablePermissionlessConstantProductPool | Pools_EnableOrDisablePool
    | Pools_BootstrapLiquidity | Pools_MigrateFeeAccount

definition pools_from_discriminator :: "bytes \<Rightarrow> meteora_pools_instruction option" where
  "pools_from_discriminator discriminator =
     map_of
     [([175, 175, 109, 31, 13, 152, 155, 237], Pools_Initialize),
      ([248, 198, 158, 145, 225, 117, 135, 200], Pools_Swap),
      ([168, 227, 50, 62, 189, 171, 84, 176], Pools_AddLiquidity),
      ([79, 35, 122, 84, 173, 15, 93, 191], Pools_AddImbalanceLiquidity),
      ([133, 109, 44, 179, 56, 238, 114, 33], Pools_RemoveLiquidity),
      ([84, 84, 177, 66, 254, 185, 10, 251], Pools_RemoveLiquiditySingleSide),
      ([4, 228, 215, 71, 225, 253, 119, 206], Pools_BootstrapLiquidity),
      ([208, 127, 21, 1, 194, 190, 196, 70], Pools_CreateConfig),
      ([123, 134, 81, 0, 49, 68, 98, 98], Pools_CloseConfig),
      ([7, 166, 138, 171, 206, 171, 236, 244], Pools_CreatePool),
      ([48, 149, 220, 130, 61, 11, 9, 178], Pools_CreatePoolWithConfig2),
      ([102, 44, 158, 54, 205, 37, 126, 78], Pools_SetPoolFees),
      ([77, 85, 178, 157, 50, 48, 212, 126], Pools_InitializePermissionedPool),
      ([118, 173, 41, 157, 173, 72, 97, 103], Pools_InitializePermissionlessPool),
      ([6, 135, 68, 147, 229, 82, 169, 113], Pools_InitializePermissionlessPoolWithFeeTier),
      ([145, 24, 172, 194, 219, 125, 3, 190], Pools_InitializeCustomizablePermissionlessConstantProductPool)]
     discriminator"


definition parse_curve_type :: "bytes \<Rightarrow> (u8 \<times> stable_curve_params option \<times> nat) option" where
  "parse_curve_type data =
     do {
       tag \<leftarrow> read_u8 data 0;
       if tag = 0 then Some (0, None, 1)
       else if tag = 1
       then do {
         depeg_type \<leftarrow> read_u8 data 42;
         _ \<leftarrow> (if depeg_type > 3 then None else Some ());
         amp \<leftarrow> read_u64_le data 1;
         token_a_multiplier \<leftarrow> read_u64_le data 9;
         token_b_multiplier \<leftarrow> read_u64_le data 17;
         precision_factor \<leftarrow> read_u8 data 25;
         base_virtual_price \<leftarrow> read_u64_le data 26;
         base_cache_updated \<leftarrow> read_u64_le data 34;
         last_amp_updated_timestamp \<leftarrow> read_u64_le data 43;
         Some (1, Some \<lparr>scp_amp = amp, scp_token_a_multiplier = token_a_multiplier,
                 scp_token_b_multiplier = token_b_multiplier, scp_precision_factor = precision_factor,
                 scp_base_virtual_price = base_virtual_price, scp_base_cache_updated = base_cache_updated,
                 scp_depeg_type = depeg_type, scp_last_amp_updated_timestamp = last_amp_updated_timestamp\<rparr>, 51)
       }
       else None
     }"

definition pools_swap_instruction :: "bytes \<Rightarrow> pubkey list \<Rightarrow> int \<Rightarrow> tx_origin \<Rightarrow> int option \<Rightarrow> 'p dex_event option" where
  "pools_swap_instruction data accounts now og block_time_us =
     do {
       in_amount \<leftarrow> read_u64_le data 0;
       minimum_out_amount \<leftarrow> read_u64_le data 8;
       pool \<leftarrow> get_account accounts 0;
       Some (Meteora_Pools_Event (MeteoraPoolsSwap_Event (fill_pools_swap_accounts (acct accounts)
            (default_meteora_pools_swap\<lparr>mps_metadata := now_metadata now og block_time_us,
            mps_ix_name := ''swap'', mps_amount_in := in_amount, mps_minimum_out_amount := minimum_out_amount\<rparr>))))
     }"

definition pools_add_instruction :: "bytes \<Rightarrow> pubkey list \<Rightarrow> bool \<Rightarrow> int \<Rightarrow> tx_origin \<Rightarrow> int option \<Rightarrow> 'p dex_event option" where
  "pools_add_instruction data accounts imbalance now og block_time_us =
     do {
       lp_amount \<leftarrow> read_u64_le data 0;
       a_amount \<leftarrow> read_u64_le data 8;
       b_amount \<leftarrow> read_u64_le data 16;
       pool \<leftarrow> get_account accounts 0;
       Some (Meteora_Pools_Event (MeteoraPoolsAddLiquidity_Event (fill_pools_add_liquidity_accounts (acct accounts)
            (default_meteora_pools_add_liquidity\<lparr>mpa_metadata := now_metadata now og block_time_us,
            mpa_ix_name := (if imbalance then ''add_imbalance_liquidity'' else ''add_balance_liquidity''),
            mpa_pool_token_amount := (if imbalance then 0 else lp_amount),
            mpa_maximum_token_a_amount := (if imbalance then 0 else a_amount),
            mpa_maximum_token_b_amount := (if imbalance then 0 else b_amount),
            mpa_minimum_pool_token_amount := (if imbalance then lp_amount else 0),
            mpa_token_a_in_amount := (if imbalance then a_amount else 0),
            mpa_token_b_in_amount := (if imbalance then b_amount else 0)\<rparr>))))
     }"

definition pools_remove_instruction :: "bytes \<Rightarrow> pubkey list \<Rightarrow> int \<Rightarrow> tx_origin \<Rightarrow> int option \<Rightarrow> 'p dex_event option" where
  "pools_remove_instruction data accounts now og block_time_us =
     do {
       pool_token_amount \<leftarrow> read_u64_le data 0;
       minimum_token_a_amount \<leftarrow> read_u64_le data 8;
       minimum_token_b_amount \<leftarrow> read_u64_le data 16;
       pool \<leftarrow> get_account accounts 0;
       Some (Meteora_Pools_Event (MeteoraPoolsRemoveLiquidity_Event (fill_pools_remove_liquidity_accounts (acct accounts)
            (default_meteora_pools_remove_liquidity\<lparr>mpr_metadata := now_metadata now og block_time_us,
            mpr_ix_name := ''remove_balance_liquidity'', mpr_pool_token_amount := pool_token_amount,
            mpr_minimum_a_token_out := minimum_token_a_amount,
            mpr_minimum_b_token_out := minimum_token_b_amount\<rparr>))))
     }"

definition pools_single_side_instruction :: "bytes \<Rightarrow> pubkey list \<Rightarrow> int \<Rightarrow> tx_origin \<Rightarrow> int option \<Rightarrow> 'p dex_event option" where
  "pools_single_side_instruction data accounts now og block_time_us =
     do {
       pool_token_amount \<leftarrow> read_u64_le data 0;
       minimum_out_amount \<leftarrow> read_u64_le data 8;
       pool \<leftarrow> get_account accounts 0;
       Some (Meteora_Pools_Event (MeteoraPoolsRemoveLiquidity_Event (fill_pools_remove_liquidity_accounts (acct accounts)
            (default_meteora_pools_remove_liquidity\<lparr>mpr_metadata := now_metadata now og block_time_us,
            mpr_ix_name := ''remove_liquidity_single_side'', mpr_pool_token_amount := pool_token_amount,
            mpr_minimum_out_amount := minimum_out_amount\<rparr>))))
     }"

definition pools_bootstrap_instruction :: "bytes \<Rightarrow> pubkey list \<Rightarrow> int \<Rightarrow> tx_origin \<Rightarrow> int option \<Rightarrow> 'p dex_event option" where
  "pools_bootstrap_instruction data accounts now og block_time_us =
     do {
       token_a_in_amount \<leftarrow> read_u64_le data 0;
       token_b_in_amount \<leftarrow> read_u64_le data 8;
       pool \<leftarrow> get_account accounts 0;
       Some (Meteora_Pools_Event (MeteoraPoolsBootstrapLiquidity_Event (fill_pools_bootstrap_liquidity_accounts (acct accounts)
            (default_meteora_pools_bootstrap_liquidity\<lparr>mpb_metadata := now_metadata now og block_time_us,
            mpb_pool := pool, mpb_ix_name := ''bootstrap_liquidity'', mpb_token_a_in_amount := token_a_in_amount,
            mpb_token_b_in_amount := token_b_in_amount\<rparr>))))
     }"

definition pools_curve_pool_instruction :: "bytes \<Rightarrow> pubkey list \<Rightarrow> bool \<Rightarrow> bool \<Rightarrow> int \<Rightarrow> tx_origin \<Rightarrow> int option \<Rightarrow> 'p dex_event option" where
  "pools_curve_pool_instruction data accounts permissioned fee_tier now og block_time_us =
     do {
       (pool_type, stable_curve, offset) \<leftarrow> parse_curve_type data;
       (trade_fee_bps, offset) \<leftarrow>
         (if fee_tier then map_option (\<lambda>v. (Some v, offset + 8)) (read_u64_le data offset) else Some (None, offset));
       (token_a_in_amount, token_b_in_amount) \<leftarrow>
         (if permissioned then Some (0, 0)
          else do { a \<leftarrow> read_u64_le data offset; b \<leftarrow> read_u64_le data (offset + 8); Some (a, b) });
       pool \<leftarrow> get_account accounts 0;
       Some (Meteora_Pools_Event (MeteoraPoolsPoolCreated_Event (fill_pools_pool_created_accounts (acct accounts)
            (default_meteora_pools_pool_created\<lparr>mpc_metadata := now_metadata now og block_time_us,
            mpc_pool_type := pool_type,
            mpc_ix_name := (if permissioned then ''initialize_permissioned_pool'' else if fee_tier then ''initialize_permissionless_pool_with_fee_tier'' else ''initialize_permissionless_pool''),
            mpc_token_a_in_amount := token_a_in_amount, mpc_token_b_in_amount := token_b_in_amount,
            mpc_stable_curve := stable_curve, mpc_trade_fee_bps := trade_fee_bps\<rparr>))))
     }"

definition pools_customizable_instruction :: "bytes \<Rightarrow> pubkey list \<Rightarrow> int \<Rightarrow> tx_origin \<Rightarrow> int option \<Rightarrow> 'p dex_event option" where
  "pools_customizable_instruction data accounts now og block_time_us =
     do {
       token_a_in_amount \<leftarrow> read_u64_le data 0;
       token_b_in_amount \<leftarrow> read_u64_le data 8;
       trade_fee_numerator \<leftarrow> read_u32_le data 16;
       (activation_point, offset) \<leftarrow>
         do { tag \<leftarrow> read_u8 data 20;
              if tag = 0 then Some (None, 21)
              else if tag = 1 then map_option (\<lambda>point. (Some point, 29)) (read_u64_le data 21) else None };
       has_alpha_vault \<leftarrow> do { tag \<leftarrow> read_u8 data offset; if tag = 0 then Some False else if tag = 1 then Some True else None };
       activation_type \<leftarrow> read_u8 data (offset + 1);
       padding \<leftarrow> get_range (offset + 2) (offset + 92) data;
       pool \<leftarrow> get_account accounts 0;
       Some (Meteora_Pools_Event (MeteoraPoolsPoolCreated_Event (fill_pools_pool_created_accounts (acct accounts)
            (default_meteora_pools_pool_created\<lparr>mpc_metadata := now_metadata now og block_time_us,
            mpc_pool_type := 0, mpc_ix_name := ''initialize_customizable_permissionless_constant_product_pool'',
            mpc_token_a_in_amount := token_a_in_amount, mpc_token_b_in_amount := token_b_in_amount,
            mpc_activation_point := activation_point,
            mpc_customizable_params := Some \<lparr>ccp_trade_fee_numerator = trade_fee_numerator, ccp_activation_point = activation_point,
            ccp_has_alpha_vault = has_alpha_vault, ccp_activation_type = activation_type, ccp_padding = padding\<rparr>\<rparr>))))
     }"

definition pools_create_instruction :: "bytes \<Rightarrow> pubkey list \<Rightarrow> bool \<Rightarrow> int \<Rightarrow> tx_origin \<Rightarrow> int option \<Rightarrow> 'p dex_event option" where
  "pools_create_instruction data accounts config2 now og block_time_us =
     do {
       token_a_in_amount \<leftarrow> read_u64_le data 0;
       token_b_in_amount \<leftarrow> read_u64_le data 8;
       activation_point \<leftarrow>
         (if config2
          then do { tag \<leftarrow> read_u8 data 16;
                    if tag = 0 then Some None else if tag = 1 then map_option Some (read_u64_le data 17) else None }
          else Some None);
       pool \<leftarrow> get_account accounts 0;
       Some (Meteora_Pools_Event (MeteoraPoolsPoolCreated_Event (fill_pools_pool_created_accounts (acct accounts)
            (default_meteora_pools_pool_created\<lparr>mpc_metadata := now_metadata now og block_time_us,
            mpc_pool_type := 0,
            mpc_ix_name := (if config2 then ''initialize_permissionless_constant_product_pool_with_config2'' else ''initialize_permissionless_constant_product_pool_with_config''),
            mpc_token_a_in_amount := token_a_in_amount, mpc_token_b_in_amount := token_b_in_amount,
            mpc_activation_point := activation_point\<rparr>))))
     }"

definition pools_set_fees_instruction :: "bytes \<Rightarrow> pubkey list \<Rightarrow> int \<Rightarrow> tx_origin \<Rightarrow> int option \<Rightarrow> 'p dex_event option" where
  "pools_set_fees_instruction data accounts now og block_time_us =
     do {
       pool \<leftarrow> get_account accounts 0;
       trade_fee_numerator \<leftarrow> read_u64_le data 0;
       trade_fee_denominator \<leftarrow> read_u64_le data 8;
       protocol_trade_fee_numerator \<leftarrow> read_u64_le data 16;
       protocol_trade_fee_denominator \<leftarrow> read_u64_le data 24;
       new_partner_fee_numerator \<leftarrow> read_u64_le data 32;
       Some (Meteora_Pools_Event (MeteoraPoolsSetPoolFees_Event (fill_pools_set_pool_fees_accounts (acct accounts)
            (let event =
             default_meteora_pools_set_pool_fees\<lparr>mpf_metadata := now_metadata now og block_time_us,
            mpf_trade_fee_numerator := trade_fee_numerator, mpf_trade_fee_denominator := trade_fee_denominator,
            mpf_ix_name := ''set_pool_fees'', mpf_protocol_trade_fee_numerator := protocol_trade_fee_numerator,
            mpf_protocol_trade_fee_denominator := protocol_trade_fee_denominator,
            mpf_new_partner_fee_numerator := new_partner_fee_numerator\<rparr>
             in event\<lparr>mpf_owner_trade_fee_numerator := mpf_protocol_trade_fee_numerator event,
                  mpf_owner_trade_fee_denominator := mpf_protocol_trade_fee_denominator event\<rparr>))))
     }"


definition pools_parse_instruction :: "int \<Rightarrow> 'p instruction_parser" where
  "pools_parse_instruction now instruction_data accounts og block_time_us =
     (if length instruction_data < 8 then None else
      let data = drop 8 instruction_data in
      case pools_from_discriminator (take 8 instruction_data) of None \<Rightarrow> None
      | Some instruction_type \<Rightarrow>
          if instruction_type = Pools_Swap then pools_swap_instruction data accounts now og block_time_us
          else if instruction_type \<in> {Pools_AddLiquidity, Pools_AddImbalanceLiquidity}
          then pools_add_instruction data accounts (instruction_type = Pools_AddImbalanceLiquidity) now og block_time_us
          else if instruction_type = Pools_RemoveLiquidity then pools_remove_instruction data accounts now og block_time_us
          else if instruction_type = Pools_RemoveLiquiditySingleSide
          then pools_single_side_instruction data accounts now og block_time_us
          else if instruction_type = Pools_BootstrapLiquidity then pools_bootstrap_instruction data accounts now og block_time_us
          else if instruction_type \<in> {Pools_CreatePool, Pools_CreatePoolWithConfig2}
          then pools_create_instruction data accounts (instruction_type = Pools_CreatePoolWithConfig2) now og block_time_us
          else if instruction_type = Pools_SetPoolFees then pools_set_fees_instruction data accounts now og block_time_us
          else if instruction_type \<in> {Pools_InitializePermissionedPool, Pools_InitializePermissionlessPool,
                                     Pools_InitializePermissionlessPoolWithFeeTier}
          then pools_curve_pool_instruction data accounts (instruction_type = Pools_InitializePermissionedPool)
                 (instruction_type = Pools_InitializePermissionlessPoolWithFeeTier) now og block_time_us
          else if instruction_type = Pools_InitializeCustomizablePermissionlessConstantProductPool
          then pools_customizable_instruction data accounts now og block_time_us
          else None)"

section \<open>DAMM v2\<close>

text \<open>
  The fee and reward events are decoded by \<open>src/instr/all_inner/meteora_damm.rs\<close>: the parameter
  \<open>inner\<close> of the dispatcher, from the 16 bytes of discriminators, the body and the metadata.
\<close>

definition damm_initialize_pool_instruction :: "bytes \<Rightarrow> pubkey list \<Rightarrow> tx_origin \<Rightarrow> int option \<Rightarrow> 'p dex_event option" where
  "damm_initialize_pool_instruction data accounts og block_time_us =
     (if length data < 33 \<or> length accounts < 10 then None else
     do {
       liquidity \<leftarrow> read_u128_le data 0;
       sqrt_price \<leftarrow> read_u128_le data 16;
       activation_point \<leftarrow>
         do { tag \<leftarrow> read_u8 data 32;
              if tag = 0 then Some None else if tag = 1 then map_option Some (read_u64_le data 33) else None };
       Some (Meteora_Damm_V2_Event (MeteoraDammV2InitializePool_Event (default_meteora_damm_v2_initialize_pool\<lparr>dvi_metadata := origin_metadata og block_time_us,
            dvi_pool := acct accounts 6, dvi_token_a_mint := acct accounts 8, dvi_token_b_mint := acct accounts 9,
            dvi_creator := acct accounts 0, dvi_position := acct accounts 7,
            dvi_position_nft_mint := acct accounts 1, dvi_liquidity := liquidity, dvi_sqrt_price := sqrt_price,
            dvi_activation_point := activation_point\<rparr>)))
     })"

definition damm_swap_log :: "bytes \<Rightarrow> tx_origin \<Rightarrow> int option \<Rightarrow> 'p dex_event option" where
  "damm_swap_log data og block_time_us =
     do {
       pool \<leftarrow> read_pubkey data 0;
       trade_direction \<leftarrow> read_u8 data 32;
       has_referral \<leftarrow> read_bool data 33;
       amount_in \<leftarrow> read_u64_le data 34;
       min_amount_out \<leftarrow> read_u64_le data 42;
       output_amount \<leftarrow> read_u64_le data 50;
       next_sqrt_price \<leftarrow> read_u128_le data 58;
       lp_fee \<leftarrow> read_u64_le data 74;
       protocol_fee \<leftarrow> read_u64_le data 82;
       partner_fee \<leftarrow> read_u64_le data 90;
       referral_fee \<leftarrow> read_u64_le data 98;
       actual_amount_in \<leftarrow> read_u64_le data 106;
       current_timestamp \<leftarrow> read_u64_le data 114;
       Some (Meteora_Damm_V2_Event (MeteoraDammV2Swap_Event (default_meteora_damm_v2_swap\<lparr>dvs_metadata := origin_metadata og block_time_us, dvs_pool := pool,
            dvs_amount_in := amount_in, dvs_output_amount := output_amount, dvs_trade_direction := trade_direction,
            dvs_has_referral := has_referral, dvs_minimum_amount_out := min_amount_out,
            dvs_next_sqrt_price := next_sqrt_price, dvs_lp_fee := lp_fee, dvs_protocol_fee := protocol_fee,
            dvs_partner_fee := partner_fee, dvs_referral_fee := referral_fee,
            dvs_actual_amount_in := actual_amount_in, dvs_current_timestamp := current_timestamp\<rparr>)))
     }"

definition damm_swap2_log :: "bytes \<Rightarrow> tx_origin \<Rightarrow> int option \<Rightarrow> 'p dex_event option" where
  "damm_swap2_log data og block_time_us =
     do {
       pool \<leftarrow> read_pubkey data 0;
       trade_direction \<leftarrow> read_u8 data 32;
       _ \<leftarrow> read_u8 data 33;
       has_referral \<leftarrow> read_bool data 34;
       amount_0 \<leftarrow> read_u64_le data 35;
       amount_1 \<leftarrow> read_u64_le data 43;
       swap_mode \<leftarrow> read_u8 data 51;
       included_fee_input_amount \<leftarrow> read_u64_le data 52;
       _ \<leftarrow> read_u64_le data 60;
       _ \<leftarrow> read_u64_le data 68;
       output_amount \<leftarrow> read_u64_le data 76;
       next_sqrt_price \<leftarrow> read_u128_le data 84;
       lp_fee \<leftarrow> read_u64_le data 100;
       protocol_fee \<leftarrow> read_u64_le data 108;
       referral_fee \<leftarrow> read_u64_le data 116;
       _ \<leftarrow> read_u64_le data 124;
       _ \<leftarrow> read_u64_le data 132;
       current_timestamp \<leftarrow> read_u64_le data 140;
       let (amount_in, minimum_amount_out) = (if swap_mode = 0 then (amount_0, amount_1) else (amount_1, amount_0));
       Some (Meteora_Damm_V2_Event (MeteoraDammV2Swap_Event (default_meteora_damm_v2_swap\<lparr>dvs_metadata := origin_metadata og block_time_us, dvs_pool := pool,
            dvs_amount_in := amount_in, dvs_output_amount := output_amount, dvs_trade_direction := trade_direction,
            dvs_has_referral := has_referral, dvs_minimum_amount_out := minimum_amount_out,
            dvs_next_sqrt_price := next_sqrt_price, dvs_lp_fee := lp_fee, dvs_protocol_fee := protocol_fee,
            dvs_partner_fee := 0, dvs_referral_fee := referral_fee,
            dvs_actual_amount_in := included_fee_input_amount, dvs_current_timestamp := current_timestamp\<rparr>)))
     }"

definition damm_create_position_log :: "bytes \<Rightarrow> tx_origin \<Rightarrow> int option \<Rightarrow> 'p dex_event option" where
  "damm_create_position_log data og block_time_us =
     do {
       pool \<leftarrow> read_pubkey data 0;
       owner \<leftarrow> read_pubkey data 32;
       position \<leftarrow> read_pubkey data 64;
       position_nft_mint \<leftarrow> read_pubkey data 96;
       Some (Meteora_Damm_V2_Event (MeteoraDammV2CreatePosition_Event (\<lparr>dvc_metadata = origin_metadata og block_time_us, dvc_pool = pool, dvc_owner = owner,
            dvc_position = position, dvc_position_nft_mint = position_nft_mint\<rparr>)))
     }"

definition damm_close_position_log :: "bytes \<Rightarrow> tx_origin \<Rightarrow> int option \<Rightarrow> 'p dex_event option" where
  "damm_close_position_log data og block_time_us =
     do {
       pool \<leftarrow> read_pubkey data 0;
       owner \<leftarrow> read_pubkey data 32;
       position \<leftarrow> read_pubkey data 64;
       position_nft_mint \<leftarrow> read_pubkey data 96;
       Some (Meteora_Damm_V2_Event (MeteoraDammV2ClosePosition_Event (\<lparr>dvx_metadata = origin_metadata og block_time_us, dvx_pool = pool, dvx_owner = owner,
            dvx_position = position, dvx_position_nft_mint = position_nft_mint\<rparr>)))
     }"

definition damm_add_liquidity_log :: "bytes \<Rightarrow> tx_origin \<Rightarrow> int option \<Rightarrow> 'p dex_event option" where
  "damm_add_liquidity_log data og block_time_us =
     do {
       pool \<leftarrow> read_pubkey data 0;
       position \<leftarrow> read_pubkey data 32;
       owner \<leftarrow> read_pubkey data 64;
       liquidity_delta \<leftarrow> read_u128_le data 96;
       token_a_amount_threshold \<leftarrow> read_u64_le data 112;
       token_b_amount_threshold \<leftarrow> read_u64_le data 120;
       token_a_amount \<leftarrow> read_u64_le data 128;
       token_b_amount \<leftarrow> read_u64_le data 136;
       total_amount_a \<leftarrow> read_u64_le data 144;
       total_amount_b \<leftarrow> read_u64_le data 152;
       Some (Meteora_Damm_V2_Event (MeteoraDammV2AddLiquidity_Event (\<lparr>dva_metadata = origin_metadata og block_time_us, dva_pool = pool, dva_position = position,
            dva_owner = owner, dva_token_a_amount = token_a_amount, dva_token_b_amount = token_b_amount,
            dva_liquidity_delta = liquidity_delta, dva_token_a_amount_threshold = token_a_amount_threshold,
            dva_token_b_amount_threshold = token_b_amount_threshold, dva_total_amount_a = total_amount_a,
            dva_total_amount_b = total_amount_b\<rparr>)))
     }"

definition damm_remove_liquidity_log :: "bytes \<Rightarrow> tx_origin \<Rightarrow> int option \<Rightarrow> 'p dex_event option" where
  "damm_remove_liquidity_log data og block_time_us =
     do {
       pool \<leftarrow> read_pubkey data 0;
       position \<leftarrow> read_pubkey data 32;
       owner \<leftarrow> read_pubkey data 64;
       liquidity_delta \<leftarrow> read_u128_le data 96;
       token_a_amount_threshold \<leftarrow> read_u64_le data 112;
       token_b_amount_threshold \<leftarrow> read_u64_le data 120;
       token_a_amount \<leftarrow> read_u64_le data 128;
       token_b_amount \<leftarrow> read_u64_le data 136;
       Some (Meteora_Damm_V2_Event (MeteoraDammV2RemoveLiquidity_Event (\<lparr>dvr_metadata = origin_metadata og block_time_us, dvr_pool = pool, dvr_position = position,
            dvr_owner = owner, dvr_token_a_amount = token_a_amount, dvr_token_b_amount = token_b_amount,
            dvr_liquidity_delta = liquidity_delta, dvr_token_a_amount_threshold = token_a_amount_threshold,
            dvr_token_b_amount_threshold = token_b_amount_threshold\<rparr>)))
     }"


definition damm_parse_instruction :: "(bytes \<Rightarrow> bytes \<Rightarrow> event_metadata \<Rightarrow> 'p dex_event option) \<Rightarrow> 'p instruction_parser" where
  "damm_parse_instruction inner instruction_data accounts og block_time_us =
     (if length instruction_data < 8 then None else
      let data = drop 8 instruction_data in
      if take 8 instruction_data = DAMM_INITIALIZE_POOL
      then damm_initialize_pool_instruction data accounts og block_time_us
      else if length instruction_data < 16 then None else
      let cpi_discriminator = take 8 data; cpi_data = drop 16 instruction_data in
      if cpi_discriminator \<in> {DAMM_CLAIM_POSITION_FEE_LOG, DAMM_INITIALIZE_REWARD_LOG, DAMM_FUND_REWARD_LOG,
                              DAMM_CLAIM_REWARD_LOG}
      then inner (take 16 instruction_data) cpi_data (origin_metadata og block_time_us)
      else if cpi_discriminator = DAMM_SWAP_LOG then damm_swap_log cpi_data og block_time_us
      else if cpi_discriminator = DAMM_SWAP2_LOG then damm_swap2_log cpi_data og block_time_us
      else if cpi_discriminator = DAMM_CREATE_POSITION_LOG then damm_create_position_log cpi_data og block_time_us
      else if cpi_discriminator = DAMM_CLOSE_POSITION_LOG then damm_close_position_log data og block_time_us
      else if cpi_discriminator = DAMM_ADD_LIQUIDITY_LOG then damm_add_liquidity_log cpi_data og block_time_us
      else if cpi_discriminator = DAMM_REMOVE_LIQUIDITY_LOG then damm_remove_liquidity_log cpi_data og block_time_us
      else None)"

section \<open>DLMM\<close>

definition dlmm_initialize_pair2_instruction :: "bytes \<Rightarrow> pubkey list \<Rightarrow> int \<Rightarrow> tx_origin \<Rightarrow> int option \<Rightarrow> 'p dex_event option" where
  "dlmm_initialize_pair2_instruction data accounts now og block_time_us =
     do {
       active_id \<leftarrow> read_i32_le data 0;
       pool \<leftarrow> get_account accounts 0;
       Some (Meteora_Dlmm_Event (MeteoraDlmmInitializePool_Event (\<lparr>dli_metadata = now_metadata now og block_time_us, dli_pool = pool, dli_creator = acct accounts 8,
            dli_active_bin_id = active_id, dli_bin_step = 0\<rparr>)))
     }"

definition dlmm_initialize_pair_instruction :: "bytes \<Rightarrow> pubkey list \<Rightarrow> int \<Rightarrow> tx_origin \<Rightarrow> int option \<Rightarrow> 'p dex_event option" where
  "dlmm_initialize_pair_instruction data accounts now og block_time_us =
     do {
       active_id \<leftarrow> read_i32_le data 0;
       bin_step \<leftarrow> read_u16_le data 4;
       pool \<leftarrow> get_account accounts 0;
       Some (Meteora_Dlmm_Event (MeteoraDlmmInitializePool_Event (\<lparr>dli_metadata = now_metadata now og block_time_us, dli_pool = pool, dli_creator = acct accounts 8,
            dli_active_bin_id = active_id, dli_bin_step = bin_step\<rparr>)))
     }"

definition dlmm_initialize_bin_array_instruction :: "bytes \<Rightarrow> pubkey list \<Rightarrow> int \<Rightarrow> tx_origin \<Rightarrow> int option \<Rightarrow> 'p dex_event option" where
  "dlmm_initialize_bin_array_instruction data accounts now og block_time_us =
     do {
       index \<leftarrow> read_i64_le data 0;
       pool \<leftarrow> get_account accounts 0;
       Some (Meteora_Dlmm_Event (MeteoraDlmmInitializeBinArray_Event (\<lparr>dlb_metadata = now_metadata now og block_time_us, dlb_pool = pool, dlb_bin_array = acct accounts 1,
            dlb_index = index\<rparr>)))
     }"

definition dlmm_add_liquidity_instruction :: "pubkey list \<Rightarrow> nat \<Rightarrow> int \<Rightarrow> tx_origin \<Rightarrow> int option \<Rightarrow> 'p dex_event option" where
  "dlmm_add_liquidity_instruction accounts sender_index now og block_time_us =
     do {
       pool \<leftarrow> get_account accounts 1;
       sender \<leftarrow> get_account accounts sender_index;
       Some (Meteora_Dlmm_Event (MeteoraDlmmAddLiquidity_Event (\<lparr>dla_metadata = now_metadata now og block_time_us, dla_pool = pool, dla_from = sender,
            dla_position = acct accounts 0, dla_amounts = [0, 0], dla_active_bin_id = 0\<rparr>)))
     }"

definition dlmm_remove_liquidity_instruction :: "pubkey list \<Rightarrow> nat \<Rightarrow> int \<Rightarrow> tx_origin \<Rightarrow> int option \<Rightarrow> 'p dex_event option" where
  "dlmm_remove_liquidity_instruction accounts sender_index now og block_time_us =
     do {
       pool \<leftarrow> get_account accounts 1;
       sender \<leftarrow> get_account accounts sender_index;
       Some (Meteora_Dlmm_Event (MeteoraDlmmRemoveLiquidity_Event (\<lparr>dlr_metadata = now_metadata now og block_time_us, dlr_pool = pool, dlr_from = sender,
            dlr_position = acct accounts 0, dlr_amounts = [0, 0], dlr_active_bin_id = 0\<rparr>)))
     }"

definition dlmm_initialize_position_instruction :: "bytes \<Rightarrow> pubkey list \<Rightarrow> nat \<Rightarrow> nat \<Rightarrow> nat \<Rightarrow> int \<Rightarrow> tx_origin \<Rightarrow> int option \<Rightarrow> 'p dex_event option" where
  "dlmm_initialize_position_instruction data accounts position_index pool_index owner_index now og block_time_us =
     do {
       lower_bin_id \<leftarrow> read_i32_le data 0;
       width \<leftarrow> read_i32_le data 4;
       _ \<leftarrow> (if width < 0 then None else Some ());
       pool \<leftarrow> get_account accounts pool_index;
       position \<leftarrow> get_account accounts position_index;
       owner \<leftarrow> get_account accounts owner_index;
       Some (Meteora_Dlmm_Event (MeteoraDlmmCreatePosition_Event (\<lparr>dlp_metadata = now_metadata now og block_time_us, dlp_pool = pool, dlp_position = position,
            dlp_owner = owner, dlp_lower_bin_id = lower_bin_id, dlp_width = word_of_int width\<rparr>)))
     }"

definition dlmm_claim_fee_instruction :: "pubkey list \<Rightarrow> nat \<Rightarrow> int \<Rightarrow> tx_origin \<Rightarrow> int option \<Rightarrow> 'p dex_event option" where
  "dlmm_claim_fee_instruction accounts owner_index now og block_time_us =
     do {
       pool \<leftarrow> get_account accounts 0;
       owner \<leftarrow> get_account accounts owner_index;
       Some (Meteora_Dlmm_Event (MeteoraDlmmClaimFee_Event (\<lparr>dlf_metadata = now_metadata now og block_time_us, dlf_pool = pool, dlf_position = acct accounts 1,
            dlf_owner = owner, dlf_fee_x = 0, dlf_fee_y = 0\<rparr>)))
     }"

definition dlmm_close_position_instruction :: "pubkey list \<Rightarrow> nat option \<Rightarrow> nat \<Rightarrow> int \<Rightarrow> tx_origin \<Rightarrow> int option \<Rightarrow> 'p dex_event option" where
  "dlmm_close_position_instruction accounts pool_index owner_index now og block_time_us =
     do {
       position \<leftarrow> get_account accounts 0;
       owner \<leftarrow> get_account accounts owner_index;
       Some (Meteora_Dlmm_Event (MeteoraDlmmClosePosition_Event (\<lparr>dlc_metadata = now_metadata now og block_time_us,
            dlc_pool = (case Option.bind pool_index (get_account accounts) of None \<Rightarrow> default_pubkey | Some k \<Rightarrow> k),
            dlc_position = position, dlc_owner = owner\<rparr>)))
     }"

definition dlmm_swap_instruction :: "bytes \<Rightarrow> pubkey list \<Rightarrow> int \<Rightarrow> tx_origin \<Rightarrow> int option \<Rightarrow> 'p dex_event option" where
  "dlmm_swap_instruction data accounts now og block_time_us =
     (if length data < 16 then None else
     do {
       amount_in \<leftarrow> read_u64_le data 0;
       pool \<leftarrow> get_account accounts 0;
       min_amount_out \<leftarrow> read_u64_le data 8;
       Some (Meteora_Dlmm_Event (MeteoraDlmmSwap_Event (default_meteora_dlmm_swap\<lparr>dls_metadata := now_metadata now og block_time_us, dls_pool := pool,
            dls_from := acct accounts 10, dls_start_bin_id := 0, dls_end_bin_id := 0, dls_amount_in := amount_in,
            dls_amount_out := 0, dls_swap_for_y := False, dls_fee := 0, dls_protocol_fee := 0, dls_fee_bps := 0,
            dls_host_fee := 0, dls_user_token_in := acct accounts 4, dls_user_token_out := acct accounts 5,
            dls_min_amount_out := min_amount_out\<rparr>)))
     })"

definition dlmm_swap_exact_out_instruction :: "bytes \<Rightarrow> pubkey list \<Rightarrow> int \<Rightarrow> tx_origin \<Rightarrow> int option \<Rightarrow> 'p dex_event option" where
  "dlmm_swap_exact_out_instruction data accounts now og block_time_us =
     do {
       max_in_amount \<leftarrow> read_u64_le data 0;
       out_amount \<leftarrow> read_u64_le data 8;
       pool \<leftarrow> get_account accounts 0;
       Some (Meteora_Dlmm_Event (MeteoraDlmmSwap_Event (default_meteora_dlmm_swap\<lparr>dls_metadata := now_metadata now og block_time_us, dls_pool := pool,
            dls_from := acct accounts 10, dls_start_bin_id := 0, dls_end_bin_id := 0, dls_amount_in := max_in_amount,
            dls_amount_out := out_amount, dls_swap_for_y := False, dls_fee := 0, dls_protocol_fee := 0,
            dls_fee_bps := 0, dls_host_fee := 0, dls_user_token_in := acct accounts 4,
            dls_user_token_out := acct accounts 5\<rparr>)))
     }"

definition dlmm_swap_with_price_impact_instruction :: "bytes \<Rightarrow> pubkey list \<Rightarrow> int \<Rightarrow> tx_origin \<Rightarrow> int option \<Rightarrow> 'p dex_event option" where
  "dlmm_swap_with_price_impact_instruction data accounts now og block_time_us =
     do {
       tag \<leftarrow> get_at 8 data;
       option_size \<leftarrow> (if tag = 0 then Some 1 else if tag = 1 then Some 5 else None);
       _ \<leftarrow> (if length data < 8 + option_size + 2 then None else Some ());
       amount_in \<leftarrow> read_u64_le data 0;
       pool \<leftarrow> get_account accounts 0;
       Some (Meteora_Dlmm_Event (MeteoraDlmmSwap_Event (default_meteora_dlmm_swap\<lparr>dls_metadata := now_metadata now og block_time_us, dls_pool := pool,
            dls_from := acct accounts 10, dls_start_bin_id := 0, dls_end_bin_id := 0, dls_amount_in := amount_in,
            dls_amount_out := 0, dls_swap_for_y := False, dls_fee := 0, dls_protocol_fee := 0, dls_fee_bps := 0,
            dls_host_fee := 0, dls_user_token_in := acct accounts 4, dls_user_token_out := acct accounts 5\<rparr>)))
     }"


definition dlmm_parse_event :: "bytes \<Rightarrow> bytes \<Rightarrow> pubkey list \<Rightarrow> int \<Rightarrow> tx_origin \<Rightarrow> int option \<Rightarrow> 'p dex_event option" where
  "dlmm_parse_event discriminator data accounts now og block_time_us =
     (if discriminator = DLMM_INITIALIZE_LB_PAIR then dlmm_initialize_pair_instruction data accounts now og block_time_us
      else if discriminator = DLMM_INITIALIZE_LB_PAIR2 then dlmm_initialize_pair2_instruction data accounts now og block_time_us
      else if discriminator = DLMM_INITIALIZE_BIN_ARRAY
      then dlmm_initialize_bin_array_instruction data accounts now og block_time_us
      else if discriminator = DLMM_ADD_LIQUIDITY then dlmm_add_liquidity_instruction accounts 11 now og block_time_us
      else if discriminator = DLMM_ADD_LIQUIDITY2 then dlmm_add_liquidity_instruction accounts 9 now og block_time_us
      else if discriminator = DLMM_REMOVE_LIQUIDITY then dlmm_remove_liquidity_instruction accounts 11 now og block_time_us
      else if discriminator = DLMM_REMOVE_LIQUIDITY2 then dlmm_remove_liquidity_instruction accounts 9 now og block_time_us
      else if discriminator = DLMM_INITIALIZE_POSITION \<or> discriminator = DLMM_INITIALIZE_POSITION2
      then dlmm_initialize_position_instruction data accounts 1 2 3 now og block_time_us
      else if discriminator = DLMM_INITIALIZE_POSITION_PDA
      then dlmm_initialize_position_instruction data accounts 2 3 4 now og block_time_us
      else if discriminator = DLMM_SWAP \<or> discriminator = DLMM_SWAP2
      then dlmm_swap_instruction data accounts now og block_time_us
      else if discriminator = DLMM_SWAP_EXACT_OUT \<or> discriminator = DLMM_SWAP_EXACT_OUT2
      then dlmm_swap_exact_out_instruction data accounts now og block_time_us
      else if discriminator = DLMM_SWAP_WITH_PRICE_IMPACT \<or> discriminator = DLMM_SWAP_WITH_PRICE_IMPACT2
      then dlmm_swap_with_price_impact_instruction data accounts now og block_time_us
      else if discriminator = DLMM_CLAIM_FEE then dlmm_claim_fee_instruction accounts 4 now og block_time_us
      else if discriminator = DLMM_CLAIM_FEE2 then dlmm_claim_fee_instruction accounts 2 now og block_time_us
      else if discriminator = DLMM_CLOSE_POSITION
      then dlmm_close_position_instruction accounts (Some 1) 4 now og block_time_us
      else if discriminator = DLMM_CLOSE_POSITION2
      then dlmm_close_position_instruction accounts None 1 now og block_time_us
      else None)"

definition dlmm_parse_instruction :: "int \<Rightarrow> 'p instruction_parser" where
  "dlmm_parse_instruction now instruction_data accounts og block_time_us =
     (if length instruction_data < 8 then None else
      let discriminator = take 8 instruction_data; data = drop 8 instruction_data in
      do {
        bins_start \<leftarrow>
          (if discriminator \<in> {DLMM_SWAP, DLMM_SWAP2, DLMM_SWAP_EXACT_OUT, DLMM_SWAP_EXACT_OUT2,
                              DLMM_SWAP_WITH_PRICE_IMPACT, DLMM_SWAP_WITH_PRICE_IMPACT2}
           then map_option Some (validate_swap_layout instruction_data (length accounts)) else Some None);
        event \<leftarrow> dlmm_parse_event discriminator data accounts now og block_time_us;
        case event of
          Meteora_Dlmm_Event (MeteoraDlmmSwap_Event ev) \<Rightarrow>
            do {
              start \<leftarrow> bins_start;
              Some (Meteora_Dlmm_Event (MeteoraDlmmSwap_Event
                (fill_dlmm_swap_accounts_with_layout (acct accounts) start (length accounts)
                  (discriminator \<in> {DLMM_SWAP2, DLMM_SWAP_EXACT_OUT2, DLMM_SWAP_WITH_PRICE_IMPACT2}) ev)))
            }
        | _ \<Rightarrow> Some event
      })"

end
