(* ===== verification/Event_Intents.thy ===== *)
theory Event_Intents
  imports Intent_Defaults
begin

text \<open>
  Events that programs log through a call to themselves: the CPMM liquidity change
  (\<open>src/logs/raydium_cpmm.rs\<close>), the DBC events (\<open>src/logs/meteora_dbc.rs\<close>) and the fee and reward
  events of DAMM v2 (\<open>src/logs/meteora_damm.rs\<close>); and Pump fees: the event bodies
  (\<open>src/logs/pump_fees.rs\<close>, dispatched in \<open>src/logs/optimized_matcher.rs\<close>) and the outer
  instructions (\<open>src/instr/pump_fees.rs\<close>).
\<close>

section \<open>CPMM\<close>

definition parse_lp_change_from_data :: "bytes \<Rightarrow> event_metadata \<Rightarrow> 'p dex_event option" where
  "parse_lp_change_from_data data md =
     (if length data \<noteq> 89 \<or> data ! 88 > 1 then None else
     do {
       pool_id \<leftarrow> read_pubkey data 0;
       lp_amount_before \<leftarrow> read_u64_le data 32;
       token_0_vault_before \<leftarrow> read_u64_le data 40;
       token_1_vault_before \<leftarrow> read_u64_le data 48;
       token_0_amount \<leftarrow> read_u64_le data 56;
       token_1_amount \<leftarrow> read_u64_le data 64;
       token_0_transfer_fee \<leftarrow> read_u64_le data 72;
       token_1_transfer_fee \<leftarrow> read_u64_le data 80;
       Some (Raydium_Cpmm_Event (RaydiumCpmmLpChange_Event (\<lparr>lp_metadata = md, lp_pool_id = pool_id, lp_lp_amount_before = lp_amount_before,
            lp_token_0_vault_before = token_0_vault_before, lp_token_1_vault_before = token_1_vault_before,
            lp_token_0_amount = token_0_amount, lp_token_1_amount = token_1_amount,
            lp_token_0_transfer_fee = token_0_transfer_fee, lp_token_1_transfer_fee = token_1_transfer_fee,
            lp_change_type = data ! 88\<rparr>)))
     })"


text \<open>The route of the unified entry point: the body after the sixteen bytes, with the metadata of the transaction.\<close>

definition cpmm_lp_change_instruction :: "'p instruction_parser" where
  "cpmm_lp_change_instruction body accounts og block_time_us =
     parse_lp_change_from_data body (origin_metadata og block_time_us)"

section \<open>DBC\<close>

text \<open>The flag reader of \<open>src/logs/utils.rs\<close>: unlike that of the instructions it takes any byte.\<close>

definition read_log_bool :: "bytes \<Rightarrow> nat \<Rightarrow> bool option" where
  "read_log_bool data offset = map_option (\<lambda>b. b = 1) (get_at offset data)"

definition default_meteora_dbc_swap :: meteora_dbc_swap_event where
  "default_meteora_dbc_swap =
    \<lparr>dbs_third_program = None, dbs_event_version = 0, dbs_swap_mode = 0, dbs_amount_0 = 0,
     dbs_amount_1 = 0, dbs_maximum_amount_in = 0, dbs_included_fee_input_amount = 0, dbs_amount_left = 0,
     dbs_quote_reserve_amount = 0, dbs_migration_threshold = 0, dbs_has_transfer_hook = False,
     dbs_metadata = default_metadata, dbs_pool = default_pubkey, dbs_config = default_pubkey,
     dbs_trade_direction = 0, dbs_has_referral = False, dbs_amount_in = 0, dbs_minimum_amount_out = 0,
     dbs_actual_input_amount = 0, dbs_output_amount = 0, dbs_next_sqrt_price = 0, dbs_trading_fee = 0,
     dbs_protocol_fee = 0, dbs_referral_fee = 0, dbs_current_timestamp = 0\<rparr>"

definition DBC_SWAP2_EVENT :: bytes where "DBC_SWAP2_EVENT = [189, 66, 51, 168, 38, 80, 117, 153]"

definition DBC_SWAP2_TRANSFER_HOOK_EVENT :: bytes where "DBC_SWAP2_TRANSFER_HOOK_EVENT = [134, 59, 168, 120, 94, 51, 114, 231]"

definition DBC_SWAP_EVENT :: bytes where "DBC_SWAP_EVENT = [27, 60, 21, 213, 138, 170, 187, 147]"

definition DBC_INITIALIZE_POOL_EVENT :: bytes where "DBC_INITIALIZE_POOL_EVENT = [228, 50, 246, 85, 203, 66, 134, 37]"

definition DBC_CURVE_COMPLETE_EVENT :: bytes where "DBC_CURVE_COMPLETE_EVENT = [229, 231, 86, 84, 156, 134, 75, 24]"

definition parse_dbc_swap_from_data :: "bytes \<Rightarrow> event_metadata \<Rightarrow> 'p dex_event option" where
  "parse_dbc_swap_from_data data md =
     do {
       pool \<leftarrow> read_pubkey data 0;
       config \<leftarrow> read_pubkey data 32;
       trade_direction \<leftarrow> read_u8 data 64;
       has_referral \<leftarrow> read_log_bool data 65;
       params_amount_in \<leftarrow> read_u64_le data 66;
       minimum_amount_out \<leftarrow> read_u64_le data 74;
       actual_input_amount \<leftarrow> read_u64_le data 82;
       output_amount \<leftarrow> read_u64_le data 90;
       next_sqrt_price \<leftarrow> read_u128_le data 98;
       trading_fee \<leftarrow> read_u64_le data 114;
       protocol_fee \<leftarrow> read_u64_le data 122;
       referral_fee \<leftarrow> read_u64_le data 130;
       let amount_in = (case read_u64_le data 138 of None \<Rightarrow> params_amount_in | Some v \<Rightarrow> v);
       current_timestamp \<leftarrow> read_u64_le data 146;
       Some (Meteora_Dbc_Event (MeteoraDbcSwap_Event (default_meteora_dbc_swap\<lparr>dbs_third_program := None, dbs_metadata := md, dbs_pool := pool,
            dbs_config := config, dbs_trade_direction := trade_direction, dbs_has_referral := has_referral,
            dbs_amount_in := amount_in, dbs_minimum_amount_out := minimum_amount_out,
            dbs_actual_input_amount := actual_input_amount, dbs_output_amount := output_amount,
            dbs_next_sqrt_price := next_sqrt_price, dbs_trading_fee := trading_fee, dbs_protocol_fee := protocol_fee,
            dbs_referral_fee := referral_fee, dbs_current_timestamp := current_timestamp\<rparr>)))
     }"

definition parse_dbc_initialize_pool_from_data :: "bytes \<Rightarrow> event_metadata \<Rightarrow> 'p dex_event option" where
  "parse_dbc_initialize_pool_from_data data md =
     do {
       pool \<leftarrow> read_pubkey data 0;
       config \<leftarrow> read_pubkey data 32;
       creator \<leftarrow> read_pubkey data 64;
       base_mint \<leftarrow> read_pubkey data 96;
       pool_type \<leftarrow> read_u8 data 128;
       activation_point \<leftarrow> read_u64_le data 129;
       Some (Meteora_Dbc_Event (MeteoraDbcInitializePool_Event (\<lparr>dbi_metadata = md, dbi_pool = pool, dbi_config = config, dbi_creator = creator,
            dbi_base_mint = base_mint, dbi_pool_type = pool_type, dbi_activation_point = activation_point\<rparr>)))
     }"

definition parse_dbc_curve_complete_from_data :: "bytes \<Rightarrow> event_metadata \<Rightarrow> 'p dex_event option" where
  "parse_dbc_curve_complete_from_data data md =
     do {
       pool \<leftarrow> read_pubkey data 0;
       config \<leftarrow> read_pubkey data 32;
       base_reserve \<leftarrow> read_u64_le data 64;
       quote_reserve \<leftarrow> read_u64_le data 72;
       Some (Meteora_Dbc_Event (MeteoraDbcCurveComplete_Event (\<lparr>dbc_metadata = md, dbc_pool = pool, dbc_config = config, dbc_base_reserve = base_reserve,
            dbc_quote_reserve = quote_reserve\<rparr>)))
     }"

definition parse_dbc_swap2_from_data :: "bytes \<Rightarrow> event_metadata \<Rightarrow> bool \<Rightarrow> 'p dex_event option" where
  "parse_dbc_swap2_from_data data md has_transfer_hook =
     (if length data < 179 then None else
     do {
       swap_mode \<leftarrow> read_u8 data 82;
       trade_direction \<leftarrow> read_u8 data 64;
       _ \<leftarrow> (if swap_mode > 2 \<or> trade_direction > 1 \<or> data ! 65 > 1 then None else Some ());
       amount_0 \<leftarrow> read_u64_le data 66;
       amount_1 \<leftarrow> read_u64_le data 74;
       included_fee_input_amount \<leftarrow> read_u64_le data 83;
       pool \<leftarrow> read_pubkey data 0;
       config \<leftarrow> read_pubkey data 32;
       has_referral \<leftarrow> read_log_bool data 65;
       actual_input_amount \<leftarrow> read_u64_le data 91;
       amount_left \<leftarrow> read_u64_le data 99;
       output_amount \<leftarrow> read_u64_le data 107;
       next_sqrt_price \<leftarrow> read_u128_le data 115;
       trading_fee \<leftarrow> read_u64_le data 131;
       protocol_fee \<leftarrow> read_u64_le data 139;
       referral_fee \<leftarrow> read_u64_le data 147;
       quote_reserve_amount \<leftarrow> read_u64_le data 155;
       migration_threshold \<leftarrow> read_u64_le data 163;
       current_timestamp \<leftarrow> read_u64_le data 171;
       Some (Meteora_Dbc_Event (MeteoraDbcSwap_Event (\<lparr>dbs_third_program = None, dbs_event_version = 2, dbs_swap_mode = swap_mode,
            dbs_amount_0 = amount_0, dbs_amount_1 = amount_1,
            dbs_maximum_amount_in = (if swap_mode = 2 then amount_1 else 0),
            dbs_included_fee_input_amount = included_fee_input_amount, dbs_amount_left = amount_left,
            dbs_quote_reserve_amount = quote_reserve_amount, dbs_migration_threshold = migration_threshold,
            dbs_has_transfer_hook = has_transfer_hook, dbs_metadata = md, dbs_pool = pool, dbs_config = config,
            dbs_trade_direction = trade_direction, dbs_has_referral = has_referral,
            dbs_amount_in = included_fee_input_amount,
            dbs_minimum_amount_out = (if swap_mode = 2 then 0 else amount_1),
            dbs_actual_input_amount = actual_input_amount, dbs_output_amount = output_amount,
            dbs_next_sqrt_price = next_sqrt_price, dbs_trading_fee = trading_fee, dbs_protocol_fee = protocol_fee,
            dbs_referral_fee = referral_fee, dbs_current_timestamp = current_timestamp\<rparr>)))
     })"


definition dbc_parse_event_cpi :: "bytes \<Rightarrow> event_metadata \<Rightarrow> 'p dex_event option" where
  "dbc_parse_event_cpi data md =
     do {
       prefix \<leftarrow> get_range 0 8 data;
       _ \<leftarrow> (if prefix \<noteq> DBC_EVENT_CPI then None else Some ());
       disc \<leftarrow> get_range 8 16 data;
       let body = drop 16 data;
       if disc = DBC_SWAP_EVENT then parse_dbc_swap_from_data body md
       else if disc = DBC_SWAP2_EVENT \<or> disc = DBC_SWAP2_TRANSFER_HOOK_EVENT
       then parse_dbc_swap2_from_data body md (disc = DBC_SWAP2_TRANSFER_HOOK_EVENT)
       else if disc = DBC_INITIALIZE_POOL_EVENT then parse_dbc_initialize_pool_from_data body md
       else if disc = DBC_CURVE_COMPLETE_EVENT then parse_dbc_curve_complete_from_data body md
       else None
     }"

definition dbc_event_instruction :: "'p instruction_parser" where
  "dbc_event_instruction instruction_data accounts og block_time_us =
     dbc_parse_event_cpi instruction_data (origin_metadata og block_time_us)"

section \<open>DAMM v2\<close>

definition parse_claim_position_fee_from_data :: "bytes \<Rightarrow> event_metadata \<Rightarrow> 'p dex_event option" where
  "parse_claim_position_fee_from_data data md =
     (if length data \<noteq> 112 then None else
     do {
       pool \<leftarrow> read_pubkey data 0;
       position \<leftarrow> read_pubkey data 32;
       owner \<leftarrow> read_pubkey data 64;
       fee_a_claimed \<leftarrow> read_u64_le data 96;
       fee_b_claimed \<leftarrow> read_u64_le data 104;
       Some (Meteora_Damm_V2_Event (MeteoraDammV2ClaimPositionFee_Event (\<lparr>dvf_metadata = md, dvf_pool = pool, dvf_position = position, dvf_owner = owner,
            dvf_fee_a_claimed = fee_a_claimed, dvf_fee_b_claimed = fee_b_claimed\<rparr>)))
     })"

definition parse_initialize_reward_from_data :: "bytes \<Rightarrow> event_metadata \<Rightarrow> 'p dex_event option" where
  "parse_initialize_reward_from_data data md =
     (if length data \<noteq> 137 then None else
     do {
       pool \<leftarrow> read_pubkey data 0;
       reward_mint \<leftarrow> read_pubkey data 32;
       funder \<leftarrow> read_pubkey data 64;
       creator \<leftarrow> read_pubkey data 96;
       reward_index \<leftarrow> get_at 128 data;
       reward_duration \<leftarrow> read_u64_le data 129;
       Some (Meteora_Damm_V2_Event (MeteoraDammV2InitializeReward_Event (\<lparr>dvw_metadata = md, dvw_pool = pool, dvw_reward_mint = reward_mint, dvw_funder = funder,
            dvw_creator = creator, dvw_reward_index = reward_index, dvw_reward_duration = reward_duration\<rparr>)))
     })"

definition parse_fund_reward_from_data :: "bytes \<Rightarrow> event_metadata \<Rightarrow> 'p dex_event option" where
  "parse_fund_reward_from_data data md =
     (if length data \<noteq> 153 then None else
     do {
       pool \<leftarrow> read_pubkey data 0;
       funder \<leftarrow> read_pubkey data 32;
       mint_reward \<leftarrow> read_pubkey data 64;
       reward_index \<leftarrow> get_at 96 data;
       amount \<leftarrow> read_u64_le data 97;
       transfer_fee_excluded_amount_in \<leftarrow> read_u64_le data 105;
       reward_duration_end \<leftarrow> read_u64_le data 113;
       pre_reward_rate \<leftarrow> read_u128_le data 121;
       post_reward_rate \<leftarrow> read_u128_le data 137;
       Some (Meteora_Damm_V2_Event (MeteoraDammV2FundReward_Event (\<lparr>dvd_metadata = md, dvd_pool = pool, dvd_funder = funder, dvd_mint_reward = mint_reward,
            dvd_reward_index = reward_index, dvd_amount = amount,
            dvd_transfer_fee_excluded_amount_in = transfer_fee_excluded_amount_in,
            dvd_reward_duration_end = reward_duration_end, dvd_pre_reward_rate = pre_reward_rate,
            dvd_post_reward_rate = post_reward_rate\<rparr>)))
     })"

definition parse_claim_reward_from_data :: "bytes \<Rightarrow> event_metadata \<Rightarrow> 'p dex_event option" where
  "parse_claim_reward_from_data data md =
     (if length data \<noteq> 137 then None else
     do {
       pool \<leftarrow> read_pubkey data 0;
       position \<leftarrow> read_pubkey data 32;
       owner \<leftarrow> read_pubkey data 64;
       mint_reward \<leftarrow> read_pubkey data 96;
       reward_index \<leftarrow> get_at 128 data;
       total_reward \<leftarrow> read_u64_le data 129;
       Some (Meteora_Damm_V2_Event (MeteoraDammV2ClaimReward_Event (\<lparr>dvm_metadata = md, dvm_pool = pool, dvm_position = position, dvm_owner = owner,
            dvm_mint_reward = mint_reward, dvm_reward_index = reward_index, dvm_total_reward = total_reward\<rparr>)))
     })"


text \<open>
  The branches of \<open>src/instr/all_inner/meteora_damm.rs\<close> that the DAMM v2 instruction parser can reach:
  it enters with the first sixteen bytes of the data, the last eight being one of the four
  discriminators, and the table matches all sixteen.
\<close>

definition damm_fee_reward_inner :: "bytes \<Rightarrow> bytes \<Rightarrow> event_metadata \<Rightarrow> 'p dex_event option" where
  "damm_fee_reward_inner disc data md =
     (if disc = DBC_EVENT_CPI @ DAMM_CLAIM_POSITION_FEE_LOG then parse_claim_position_fee_from_data data md
      else if disc = DBC_EVENT_CPI @ DAMM_INITIALIZE_REWARD_LOG then parse_initialize_reward_from_data data md
      else if disc = DBC_EVENT_CPI @ DAMM_FUND_REWARD_LOG then parse_fund_reward_from_data data md
      else if disc = DBC_EVENT_CPI @ DAMM_CLAIM_REWARD_LOG then parse_claim_reward_from_data data md
      else None)"

section \<open>Cursor readers\<close>

text \<open>
  The readers of \<open>src/logs/pump_fees.rs\<close> move an offset through the data; here they return the new
  offset beside the value. A vector is at most 64 elements long.
\<close>

definition read_at :: "nat \<Rightarrow> bytes \<Rightarrow> nat \<Rightarrow> (bytes \<times> nat) option" where
  "read_at w data off = (if length data < off + w then None else Some (take w (drop off data), off + w))"

definition read_i64_at :: "bytes \<Rightarrow> nat \<Rightarrow> (int \<times> nat) option" where
  "read_i64_at data off = map_option (apfst (\<lambda>bs. sint (from_le bs :: u64))) (read_at 8 data off)"

definition read_u8_at :: "bytes \<Rightarrow> nat \<Rightarrow> (u8 \<times> nat) option" where
  "read_u8_at data off = map_option (\<lambda>b. (b, off + 1)) (get_at off data)"

definition read_u16_at :: "bytes \<Rightarrow> nat \<Rightarrow> (u16 \<times> nat) option" where
  "read_u16_at data off = map_option (apfst from_le) (read_at 2 data off)"

definition read_u32_at :: "bytes \<Rightarrow> nat \<Rightarrow> (u32 \<times> nat) option" where
  "read_u32_at data off = map_option (apfst from_le) (read_at 4 data off)"

definition read_u64_at :: "bytes \<Rightarrow> nat \<Rightarrow> (u64 \<times> nat) option" where
  "read_u64_at data off = map_option (apfst from_le) (read_at 8 data off)"

definition read_u128_at :: "bytes \<Rightarrow> nat \<Rightarrow> (u128 \<times> nat) option" where
  "read_u128_at data off = map_option (apfst from_le) (read_at 16 data off)"

definition read_pubkey_at :: "bytes \<Rightarrow> nat \<Rightarrow> (pubkey \<times> nat) option" where
  "read_pubkey_at data off = read_at 32 data off"

definition read_option_pubkey_at :: "bytes \<Rightarrow> nat \<Rightarrow> (pubkey option \<times> nat) option" where
  "read_option_pubkey_at data off =
     do {
       tag \<leftarrow> get_at off data;
       if tag = 0 then Some (None, off + 1)
       else if tag = 1 then map_option (apfst Some) (read_pubkey_at data (off + 1))
       else None
     }"

definition read_config_status_at :: "bytes \<Rightarrow> nat \<Rightarrow> (fees_config_status \<times> nat) option" where
  "read_config_status_at data off =
     do {
       b \<leftarrow> get_at off data;
       if b = 0 then Some (Fees_Paused, off + 1) else if b = 1 then Some (Fees_Active, off + 1) else None
     }"

definition read_fees_at :: "bytes \<Rightarrow> nat \<Rightarrow> (fees_rates \<times> nat) option" where
  "read_fees_at data off =
     do {
       (lp, off) \<leftarrow> read_u64_at data off;
       (protocol, off) \<leftarrow> read_u64_at data off;
       (creator, off) \<leftarrow> read_u64_at data off;
       Some (\<lparr>pff_lp_fee_bps = lp, pff_protocol_fee_bps = protocol, pff_creator_fee_bps = creator\<rparr>, off)
     }"

primrec read_times :: "nat \<Rightarrow> (nat \<Rightarrow> ('a \<times> nat) option) \<Rightarrow> nat \<Rightarrow> ('a list \<times> nat) option" where
  "read_times 0 r off = Some ([], off)"
| "read_times (Suc n) r off =
     do { (x, off) \<leftarrow> r off; (xs, off) \<leftarrow> read_times n r off; Some (x # xs, off) }"

definition read_shareholder :: "bytes \<Rightarrow> nat \<Rightarrow> (pump_fees_shareholder \<times> nat) option" where
  "read_shareholder data off =
     do {
       (address, off) \<leftarrow> read_pubkey_at data off;
       (share_bps, off) \<leftarrow> read_u16_at data off;
       Some (\<lparr>sh_address = address, sh_share_bps = share_bps\<rparr>, off)
     }"

definition read_fee_tier :: "bytes \<Rightarrow> nat \<Rightarrow> (fees_tier \<times> nat) option" where
  "read_fee_tier data off =
     do {
       (threshold, off) \<leftarrow> read_u128_at data off;
       (fees, off) \<leftarrow> read_fees_at data off;
       Some (\<lparr>pfx_market_cap_lamports_threshold = threshold, pfx_fees = fees\<rparr>, off)
     }"

definition MAX_SHAREHOLDERS :: nat where "MAX_SHAREHOLDERS = 64"
definition MAX_FEE_TIERS :: nat where "MAX_FEE_TIERS = 64"

definition read_shareholders_vec :: "bytes \<Rightarrow> nat \<Rightarrow> (pump_fees_shareholder list \<times> nat) option" where
  "read_shareholders_vec data off =
     do {
       (n, off) \<leftarrow> read_u32_at data off;
       if unat n > MAX_SHAREHOLDERS then None else read_times (unat n) (read_shareholder data) off
     }"

definition read_fee_tiers_vec :: "bytes \<Rightarrow> nat \<Rightarrow> (fees_tier list \<times> nat) option" where
  "read_fee_tiers_vec data off =
     do {
       (n, off) \<leftarrow> read_u32_at data off;
       if unat n > MAX_FEE_TIERS then None else read_times (unat n) (read_fee_tier data) off
     }"

section \<open>Event bodies\<close>

definition parse_create_fee_sharing_config_from_data :: "bytes \<Rightarrow> event_metadata \<Rightarrow> 'p dex_event option" where
  "parse_create_fee_sharing_config_from_data data md =
     do {
       (timestamp, off) \<leftarrow> read_i64_at data 0;
       (mint, off) \<leftarrow> read_pubkey_at data off;
       (bonding_curve, off) \<leftarrow> read_pubkey_at data off;
       (pool, off) \<leftarrow> read_option_pubkey_at data off;
       (sharing_config, off) \<leftarrow> read_pubkey_at data off;
       (admin, off) \<leftarrow> read_pubkey_at data off;
       (initial_shareholders, off) \<leftarrow> read_shareholders_vec data off;
       (status, off) \<leftarrow> read_config_status_at data off;
       if off \<noteq> length data then None
       else Some (Pump_Fees_Event (PumpFeesCreateFeeSharingConfig_Event
            \<lparr>pfc_metadata = md, pfc_timestamp = timestamp, pfc_mint = mint,
             pfc_bonding_curve = bonding_curve, pfc_pool = pool, pfc_sharing_config = sharing_config,
             pfc_admin = admin, pfc_initial_shareholders = initial_shareholders, pfc_status = status\<rparr>))
     }"

definition parse_initialize_fee_config_from_data :: "bytes \<Rightarrow> event_metadata \<Rightarrow> 'p dex_event option" where
  "parse_initialize_fee_config_from_data data md =
     do {
       (timestamp, off) \<leftarrow> read_i64_at data 0;
       (admin, off) \<leftarrow> read_pubkey_at data off;
       (fee_config, off) \<leftarrow> read_pubkey_at data off;
       if off \<noteq> length data then None
       else Some (Pump_Fees_Event (PumpFeesInitializeFeeConfig_Event
            \<lparr>pfi_metadata = md, pfi_timestamp = timestamp, pfi_admin = admin,
             pfi_fee_config = fee_config\<rparr>))
     }"

definition parse_reset_fee_sharing_config_from_data :: "bytes \<Rightarrow> event_metadata \<Rightarrow> 'p dex_event option" where
  "parse_reset_fee_sharing_config_from_data data md =
     do {
       (timestamp, off) \<leftarrow> read_i64_at data 0;
       (mint, off) \<leftarrow> read_pubkey_at data off;
       (sharing_config, off) \<leftarrow> read_pubkey_at data off;
       (old_admin, off) \<leftarrow> read_pubkey_at data off;
       (old_shareholders, off) \<leftarrow> read_shareholders_vec data off;
       (new_admin, off) \<leftarrow> read_pubkey_at data off;
       (new_shareholders, off) \<leftarrow> read_shareholders_vec data off;
       if off \<noteq> length data then None
       else Some (Pump_Fees_Event (PumpFeesResetFeeSharingConfig_Event
            \<lparr>pfr_metadata = md, pfr_timestamp = timestamp, pfr_mint = mint,
             pfr_sharing_config = sharing_config, pfr_old_admin = old_admin,
             pfr_old_shareholders = old_shareholders, pfr_new_admin = new_admin,
             pfr_new_shareholders = new_shareholders\<rparr>))
     }"

definition parse_revoke_fee_sharing_authority_from_data :: "bytes \<Rightarrow> event_metadata \<Rightarrow> 'p dex_event option" where
  "parse_revoke_fee_sharing_authority_from_data data md =
     do {
       (timestamp, off) \<leftarrow> read_i64_at data 0;
       (mint, off) \<leftarrow> read_pubkey_at data off;
       (sharing_config, off) \<leftarrow> read_pubkey_at data off;
       (admin, off) \<leftarrow> read_pubkey_at data off;
       if off \<noteq> length data then None
       else Some (Pump_Fees_Event (PumpFeesRevokeFeeSharingAuthority_Event
            \<lparr>pfv_metadata = md, pfv_timestamp = timestamp, pfv_mint = mint,
             pfv_sharing_config = sharing_config, pfv_admin = admin\<rparr>))
     }"

definition parse_transfer_fee_sharing_authority_from_data :: "bytes \<Rightarrow> event_metadata \<Rightarrow> 'p dex_event option" where
  "parse_transfer_fee_sharing_authority_from_data data md =
     do {
       (timestamp, off) \<leftarrow> read_i64_at data 0;
       (mint, off) \<leftarrow> read_pubkey_at data off;
       (sharing_config, off) \<leftarrow> read_pubkey_at data off;
       (old_admin, off) \<leftarrow> read_pubkey_at data off;
       (new_admin, off) \<leftarrow> read_pubkey_at data off;
       if off \<noteq> length data then None
       else Some (Pump_Fees_Event (PumpFeesTransferFeeSharingAuthority_Event
            \<lparr>pft_metadata = md, pft_timestamp = timestamp, pft_mint = mint,
             pft_sharing_config = sharing_config, pft_old_admin = old_admin,
             pft_new_admin = new_admin\<rparr>))
     }"

definition parse_update_admin_from_data :: "bytes \<Rightarrow> event_metadata \<Rightarrow> 'p dex_event option" where
  "parse_update_admin_from_data data md =
     do {
       (timestamp, off) \<leftarrow> read_i64_at data 0;
       (old_admin, off) \<leftarrow> read_pubkey_at data off;
       (new_admin, off) \<leftarrow> read_pubkey_at data off;
       if off \<noteq> length data then None
       else Some (Pump_Fees_Event (PumpFeesUpdateAdmin_Event
            \<lparr>pfa_metadata = md, pfa_timestamp = timestamp, pfa_old_admin = old_admin,
             pfa_new_admin = new_admin\<rparr>))
     }"

definition parse_update_fee_config_from_data :: "bytes \<Rightarrow> event_metadata \<Rightarrow> 'p dex_event option" where
  "parse_update_fee_config_from_data data md =
     do {
       (timestamp, off) \<leftarrow> read_i64_at data 0;
       (admin, off) \<leftarrow> read_pubkey_at data off;
       (fee_config, off) \<leftarrow> read_pubkey_at data off;
       (fee_tiers, off) \<leftarrow> read_fee_tiers_vec data off;
       (flat_fees, off) \<leftarrow> read_fees_at data off;
       if off \<noteq> length data then None
       else Some (Pump_Fees_Event (PumpFeesUpdateFeeConfig_Event
            \<lparr>pfg_metadata = md, pfg_timestamp = timestamp, pfg_admin = admin,
             pfg_fee_config = fee_config, pfg_fee_tiers = fee_tiers, pfg_flat_fees = flat_fees\<rparr>))
     }"

definition parse_update_fee_shares_from_data :: "bytes \<Rightarrow> event_metadata \<Rightarrow> 'p dex_event option" where
  "parse_update_fee_shares_from_data data md =
     do {
       (timestamp, off) \<leftarrow> read_i64_at data 0;
       (mint, off) \<leftarrow> read_pubkey_at data off;
       (sharing_config, off) \<leftarrow> read_pubkey_at data off;
       (admin, off) \<leftarrow> read_pubkey_at data off;
       (new_shareholders, off) \<leftarrow> read_shareholders_vec data off;
       if off \<noteq> length data then None
       else Some (Pump_Fees_Event (PumpFeesUpdateFeeShares_Event
            \<lparr>pfs_metadata = md, pfs_timestamp = timestamp, pfs_mint = mint,
             pfs_sharing_config = sharing_config, pfs_admin = admin, pfs_bonding_curve = default_pubkey,
             pfs_pump_creator_vault = default_pubkey, pfs_new_shareholders = new_shareholders\<rparr>))
     }"

definition parse_upsert_fee_tiers_from_data :: "bytes \<Rightarrow> event_metadata \<Rightarrow> 'p dex_event option" where
  "parse_upsert_fee_tiers_from_data data md =
     do {
       (timestamp, off) \<leftarrow> read_i64_at data 0;
       (admin, off) \<leftarrow> read_pubkey_at data off;
       (fee_config, off) \<leftarrow> read_pubkey_at data off;
       (fee_tiers, off) \<leftarrow> read_fee_tiers_vec data off;
       (offset, off) \<leftarrow> read_u8_at data off;
       if off \<noteq> length data then None
       else Some (Pump_Fees_Event (PumpFeesUpsertFeeTiers_Event
            \<lparr>pfu_metadata = md, pfu_timestamp = timestamp, pfu_admin = admin,
             pfu_fee_config = fee_config, pfu_fee_tiers = fee_tiers, pfu_offset = offset\<rparr>))
     }"

section \<open>Event discriminators\<close>

definition CREATE_FEE_SHARING_CONFIG_EVENT_DISC :: bytes where "CREATE_FEE_SHARING_CONFIG_EVENT_DISC = [133, 105, 170, 200, 184, 116, 251, 88]"

definition INITIALIZE_FEE_CONFIG_EVENT_DISC :: bytes where "INITIALIZE_FEE_CONFIG_EVENT_DISC = [89, 138, 244, 230, 10, 56, 226, 126]"

definition RESET_FEE_SHARING_CONFIG_EVENT_DISC :: bytes where "RESET_FEE_SHARING_CONFIG_EVENT_DISC = [203, 204, 151, 226, 120, 55, 214, 243]"

definition REVOKE_FEE_SHARING_AUTHORITY_EVENT_DISC :: bytes where "REVOKE_FEE_SHARING_AUTHORITY_EVENT_DISC = [114, 23, 101, 60, 14, 190, 153, 62]"

definition TRANSFER_FEE_SHARING_AUTHORITY_EVENT_DISC :: bytes where "TRANSFER_FEE_SHARING_AUTHORITY_EVENT_DISC = [124, 143, 198, 245, 77, 184, 8, 236]"

definition UPDATE_ADMIN_EVENT_DISC :: bytes where "UPDATE_ADMIN_EVENT_DISC = [225, 152, 171, 87, 246, 63, 66, 234]"

definition UPDATE_FEE_CONFIG_EVENT_DISC :: bytes where "UPDATE_FEE_CONFIG_EVENT_DISC = [90, 23, 65, 35, 62, 244, 188, 208]"

definition UPDATE_FEE_SHARES_EVENT_DISC :: bytes where "UPDATE_FEE_SHARES_EVENT_DISC = [21, 186, 196, 184, 91, 228, 225, 203]"

definition UPSERT_FEE_TIERS_EVENT_DISC :: bytes where "UPSERT_FEE_TIERS_EVENT_DISC = [171, 89, 169, 187, 122, 186, 33, 204]"

definition parse_pump_fees_event :: "bytes \<Rightarrow> bytes \<Rightarrow> event_metadata \<Rightarrow> 'p dex_event option" where
  "parse_pump_fees_event disc data md =
     (if disc = CREATE_FEE_SHARING_CONFIG_EVENT_DISC then parse_create_fee_sharing_config_from_data data md
      else if disc = INITIALIZE_FEE_CONFIG_EVENT_DISC then parse_initialize_fee_config_from_data data md
      else if disc = RESET_FEE_SHARING_CONFIG_EVENT_DISC then parse_reset_fee_sharing_config_from_data data md
      else if disc = REVOKE_FEE_SHARING_AUTHORITY_EVENT_DISC then parse_revoke_fee_sharing_authority_from_data data md
      else if disc = TRANSFER_FEE_SHARING_AUTHORITY_EVENT_DISC then parse_transfer_fee_sharing_authority_from_data data md
      else if disc = UPDATE_ADMIN_EVENT_DISC then parse_update_admin_from_data data md
      else if disc = UPDATE_FEE_CONFIG_EVENT_DISC then parse_update_fee_config_from_data data md
      else if disc = UPDATE_FEE_SHARES_EVENT_DISC then parse_update_fee_shares_from_data data md
      else if disc = UPSERT_FEE_TIERS_EVENT_DISC then parse_upsert_fee_tiers_from_data data md
      else None)"

section \<open>Instructions\<close>

definition fees_create_sharing_instruction :: "pubkey list \<Rightarrow> event_metadata \<Rightarrow> 'p dex_event option" where
  "fees_create_sharing_instruction accounts md =
     do {
       payer \<leftarrow> get_at 2 accounts;
       mint \<leftarrow> get_at 4 accounts;
       Some (Pump_Fees_Event (PumpFeesCreateFeeSharingConfig_Event
         \<lparr>pfc_metadata = md, pfc_timestamp = 0, pfc_mint = mint, pfc_bonding_curve = acct accounts 7,
          pfc_pool = get_at 10 accounts, pfc_sharing_config = acct accounts 5, pfc_admin = payer,
          pfc_initial_shareholders = [], pfc_status = Fees_Active\<rparr>))
     }"

definition fees_update_shares_instruction :: "bytes \<Rightarrow> pubkey list \<Rightarrow> event_metadata \<Rightarrow> 'p dex_event option" where
  "fees_update_shares_instruction instruction_data accounts md =
     (if length accounts < 8 \<or> length instruction_data < 8 then None else
     do {
       authority \<leftarrow> get_at 2 accounts;
       mint \<leftarrow> get_at 4 accounts;
       sharing_config \<leftarrow> get_at 5 accounts;
       (new_shareholders, off) \<leftarrow> read_shareholders_vec instruction_data 8;
       if off \<noteq> length instruction_data then None
       else Some (Pump_Fees_Event (PumpFeesUpdateFeeShares_Event
         \<lparr>pfs_metadata = md, pfs_timestamp = 0, pfs_mint = mint, pfs_sharing_config = sharing_config,
          pfs_admin = authority, pfs_bonding_curve = acct accounts 6, pfs_pump_creator_vault = acct accounts 7,
          pfs_new_shareholders = new_shareholders\<rparr>))
     })"

definition fees_initialize_config_instruction :: "pubkey list \<Rightarrow> event_metadata \<Rightarrow> 'p dex_event option" where
  "fees_initialize_config_instruction accounts md =
     do {
       admin \<leftarrow> get_at 0 accounts;
       fee_config \<leftarrow> get_at 1 accounts;
       Some (Pump_Fees_Event (PumpFeesInitializeFeeConfig_Event
         \<lparr>pfi_metadata = md, pfi_timestamp = 0, pfi_admin = admin, pfi_fee_config = fee_config\<rparr>))
     }"

definition fees_reset_sharing_instruction :: "pubkey list \<Rightarrow> event_metadata \<Rightarrow> 'p dex_event option" where
  "fees_reset_sharing_instruction accounts md =
     do {
       new_admin \<leftarrow> get_at 0 accounts;
       old_admin \<leftarrow> get_at 3 accounts;
       mint \<leftarrow> get_at 5 accounts;
       sharing_config \<leftarrow> get_at 6 accounts;
       Some (Pump_Fees_Event (PumpFeesResetFeeSharingConfig_Event
         \<lparr>pfr_metadata = md, pfr_timestamp = 0, pfr_mint = mint, pfr_sharing_config = sharing_config,
          pfr_old_admin = old_admin, pfr_old_shareholders = [], pfr_new_admin = new_admin,
          pfr_new_shareholders = []\<rparr>))
     }"

definition fees_revoke_sharing_instruction :: "pubkey list \<Rightarrow> event_metadata \<Rightarrow> 'p dex_event option" where
  "fees_revoke_sharing_instruction accounts md =
     do {
       admin \<leftarrow> get_at 0 accounts;
       mint \<leftarrow> get_at 2 accounts;
       sharing_config \<leftarrow> get_at 3 accounts;
       Some (Pump_Fees_Event (PumpFeesRevokeFeeSharingAuthority_Event
         \<lparr>pfv_metadata = md, pfv_timestamp = 0, pfv_mint = mint, pfv_sharing_config = sharing_config,
          pfv_admin = admin\<rparr>))
     }"

definition fees_transfer_sharing_instruction :: "pubkey list \<Rightarrow> event_metadata \<Rightarrow> 'p dex_event option" where
  "fees_transfer_sharing_instruction accounts md =
     do {
       old_admin \<leftarrow> get_at 0 accounts;
       mint \<leftarrow> get_at 2 accounts;
       sharing_config \<leftarrow> get_at 3 accounts;
       new_admin \<leftarrow> get_at 4 accounts;
       Some (Pump_Fees_Event (PumpFeesTransferFeeSharingAuthority_Event
         \<lparr>pft_metadata = md, pft_timestamp = 0, pft_mint = mint, pft_sharing_config = sharing_config,
          pft_old_admin = old_admin, pft_new_admin = new_admin\<rparr>))
     }"

definition fees_update_admin_instruction :: "pubkey list \<Rightarrow> event_metadata \<Rightarrow> 'p dex_event option" where
  "fees_update_admin_instruction accounts md =
     do {
       old_admin \<leftarrow> get_at 0 accounts;
       new_admin \<leftarrow> get_at 2 accounts;
       Some (Pump_Fees_Event (PumpFeesUpdateAdmin_Event
         \<lparr>pfa_metadata = md, pfa_timestamp = 0, pfa_old_admin = old_admin, pfa_new_admin = new_admin\<rparr>))
     }"

definition fees_update_config_instruction :: "bytes \<Rightarrow> pubkey list \<Rightarrow> event_metadata \<Rightarrow> 'p dex_event option" where
  "fees_update_config_instruction instruction_data accounts md =
     do {
       fee_config \<leftarrow> get_at 0 accounts;
       admin \<leftarrow> get_at 1 accounts;
       (fee_tiers, off) \<leftarrow> read_fee_tiers_vec instruction_data 8;
       (flat_fees, off) \<leftarrow> read_fees_at instruction_data off;
       if off \<noteq> length instruction_data then None
       else Some (Pump_Fees_Event (PumpFeesUpdateFeeConfig_Event
         \<lparr>pfg_metadata = md, pfg_timestamp = 0, pfg_admin = admin, pfg_fee_config = fee_config,
          pfg_fee_tiers = fee_tiers, pfg_flat_fees = flat_fees\<rparr>))
     }"

definition fees_upsert_tiers_instruction :: "bytes \<Rightarrow> pubkey list \<Rightarrow> event_metadata \<Rightarrow> 'p dex_event option" where
  "fees_upsert_tiers_instruction instruction_data accounts md =
     do {
       fee_config \<leftarrow> get_at 0 accounts;
       admin \<leftarrow> get_at 1 accounts;
       (fee_tiers, off) \<leftarrow> read_fee_tiers_vec instruction_data 8;
       (offset, off) \<leftarrow> read_u8_at instruction_data off;
       if off \<noteq> length instruction_data then None
       else Some (Pump_Fees_Event (PumpFeesUpsertFeeTiers_Event
         \<lparr>pfu_metadata = md, pfu_timestamp = 0, pfu_admin = admin, pfu_fee_config = fee_config,
          pfu_fee_tiers = fee_tiers, pfu_offset = offset\<rparr>))
     }"

definition fees_parse_instruction :: "'p instruction_parser" where
  "fees_parse_instruction instruction_data accounts og block_time_us =
     (let md = origin_metadata og block_time_us
      in case get_range 0 8 instruction_data of None \<Rightarrow> None
      | Some disc \<Rightarrow>
          if disc = CREATE_FEE_SHARING_IX then fees_create_sharing_instruction accounts md
          else if disc = UPDATE_FEE_SHARES_IX \<or> disc = UPDATE_FEE_SHARES_V2_IX
          then fees_update_shares_instruction instruction_data accounts md
          else if disc = INITIALIZE_FEE_CONFIG_IX then fees_initialize_config_instruction accounts md
          else if disc = RESET_FEE_SHARING_IX \<or> disc = RESET_FEE_SHARING_V2_IX
          then fees_reset_sharing_instruction accounts md
          else if disc = REVOKE_FEE_SHARING_IX then fees_revoke_sharing_instruction accounts md
          else if disc = TRANSFER_FEE_SHARING_IX then fees_transfer_sharing_instruction accounts md
          else if disc = UPDATE_ADMIN_IX then fees_update_admin_instruction accounts md
          else if disc = UPDATE_FEE_CONFIG_IX then fees_update_config_instruction instruction_data accounts md
          else if disc = UPSERT_FEE_TIERS_IX then fees_upsert_tiers_instruction instruction_data accounts md
          else None)"

end
