(* ===== verification/Intent_Theorems.thy ===== *)
theory Intent_Theorems
  imports Swap_Intents Meteora_Intents Event_Intents
begin

text \<open>
  The instruction parsers together: the record of parsers that the unified entry point of
  \<open>src/instr/mod.rs\<close> routes to, and what holds of an event whichever of them made it.
\<close>

section \<open>The parsers of the entry point\<close>

definition venue_parsers :: "address_derivation \<Rightarrow> int \<Rightarrow> 'p protocol_parsers" where
  "venue_parsers derive now =
     \<lparr>pp_dbc_event_cpi = dbc_event_instruction, pp_cpmm_lp_change = cpmm_lp_change_instruction,
      pp_pumpswap = pumpswap_parse_instruction derive,
      pp_meteora_damm = damm_parse_instruction damm_fee_reward_inner, pp_pump_fees = fees_parse_instruction,
      pp_launchlab = launchlab_parse_instruction now, pp_cpmm = cpmm_parse_instruction now,
      pp_clmm = clmm_parse_instruction derive now, pp_amm_v4 = v4_parse_instruction now,
      pp_orca = orca_parse_instruction now, pp_meteora_pools = pools_parse_instruction now,
      pp_meteora_dlmm = dlmm_parse_instruction now\<rparr>"

lemma venue_parsers_sel [simp]:
  "pp_dbc_event_cpi (venue_parsers derive now) = dbc_event_instruction"
  "pp_cpmm_lp_change (venue_parsers derive now) = cpmm_lp_change_instruction"
  "pp_pumpswap (venue_parsers derive now) = pumpswap_parse_instruction derive"
  "pp_meteora_damm (venue_parsers derive now) = damm_parse_instruction damm_fee_reward_inner"
  "pp_pump_fees (venue_parsers derive now) = fees_parse_instruction"
  "pp_launchlab (venue_parsers derive now) = launchlab_parse_instruction now"
  "pp_cpmm (venue_parsers derive now) = cpmm_parse_instruction now"
  "pp_clmm (venue_parsers derive now) = clmm_parse_instruction derive now"
  "pp_amm_v4 (venue_parsers derive now) = v4_parse_instruction now"
  "pp_orca (venue_parsers derive now) = orca_parse_instruction now"
  "pp_meteora_pools (venue_parsers derive now) = pools_parse_instruction now"
  "pp_meteora_dlmm (venue_parsers derive now) = dlmm_parse_instruction now"
  by (simp_all add: venue_parsers_def)

section \<open>What every made event satisfies\<close>

definition makes :: "('p dex_event \<Rightarrow> bool) \<Rightarrow> 'p dex_event option \<Rightarrow> bool" where
  "makes P r \<longleftrightarrow> (\<forall>e. r = Some e \<longrightarrow> P e)"

named_theorems makes_intros

lemma makes_None [makes_intros]: "makes P None" by (simp add: makes_def)
lemma makes_Some: "P e \<Longrightarrow> makes P (Some e)" by (simp add: makes_def)
lemma makes_bind [makes_intros]: "(\<And>x. makes P (f x)) \<Longrightarrow> makes P (Option.bind r f)"
  by (cases r) (simp_all add: makes_def)
lemma makes_if [makes_intros]: "makes P a \<Longrightarrow> makes P b \<Longrightarrow> makes P (if c then a else b)" by simp
lemma makes_let [makes_intros]: "makes P (f r) \<Longrightarrow> makes P (Let r f)" by simp
lemma makes_prod [makes_intros]: "(\<And>x y. makes P (f x y)) \<Longrightarrow> makes P (case r of (x, y) \<Rightarrow> f x y)"
  by (cases r) simp
lemma makes_option [makes_intros]: "makes P a \<Longrightarrow> (\<And>x. makes P (f x)) \<Longrightarrow> makes P (case r of None \<Rightarrow> a | Some x \<Rightarrow> f x)"
  by (cases r) simp_all

lemma makesD: "makes P r \<Longrightarrow> r = Some e \<Longrightarrow> P e" by (simp add: makes_def)

fun event_program :: "'p dex_event \<Rightarrow> pubkey option" where
  "event_program (Pump_Fun_Event e) = Some PUMPFUN_PROGRAM_ID"
| "event_program (Pump_Fees_Event e) = Some PUMP_FEES_PROGRAM_ID"
| "event_program (Pump_Swap_Event e) = Some PUMPSWAP_PROGRAM_ID"
| "event_program (Raydium_Launchlab_Event e) = Some RAYDIUM_LAUNCHLAB_PROGRAM_ID"
| "event_program (Raydium_Cpmm_Event e) = Some RAYDIUM_CPMM_PROGRAM_ID"
| "event_program (Raydium_Clmm_Event e) = Some RAYDIUM_CLMM_PROGRAM_ID"
| "event_program (Raydium_Amm_V4_Event e) = Some RAYDIUM_AMM_V4_PROGRAM_ID"
| "event_program (Orca_Whirlpool_Event e) = Some ORCA_WHIRLPOOL_PROGRAM_ID"
| "event_program (Meteora_Pools_Event e) = Some METEORA_POOLS_PROGRAM_ID"
| "event_program (Meteora_Damm_V2_Event e) = Some METEORA_DAMM_V2_PROGRAM_ID"
| "event_program (Meteora_Dbc_Event e) = Some METEORA_DBC_PROGRAM_ID"
| "event_program (Meteora_Dlmm_Event e) = Some METEORA_DLMM_PROGRAM_ID"
| "event_program _ = None"

text \<open>The event is of the program, has a type the filters know, and names the transaction.\<close>

definition of_transaction :: "pubkey \<Rightarrow> tx_origin \<Rightarrow> int option \<Rightarrow> 'p dex_event \<Rightarrow> bool" where
  "of_transaction p og block_time_us e \<longleftrightarrow>
     event_program e = Some p \<and> event_type_from_dex_event e \<noteq> None \<and> em_signature (metadata e) = og_signature og \<and>
     em_slot (metadata e) = og_slot og \<and> em_tx_index (metadata e) = og_tx_index og \<and>
     em_block_time_us (metadata e) = (case block_time_us of None \<Rightarrow> 0 | Some t \<Rightarrow> t)"

lemmas metadata_defs = now_metadata_def intent_metadata_def origin_metadata_def create_metadata_simple_def create_metadata_def

lemma stamped [simp]:
  "em_signature (now_metadata now og bt) = og_signature og" "em_slot (now_metadata now og bt) = og_slot og"
  "em_tx_index (now_metadata now og bt) = og_tx_index og"
  "em_block_time_us (now_metadata now og bt) = (case bt of None \<Rightarrow> 0 | Some t \<Rightarrow> t)"
  "em_signature (intent_metadata og bt) = og_signature og" "em_slot (intent_metadata og bt) = og_slot og"
  "em_tx_index (intent_metadata og bt) = og_tx_index og"
  "em_block_time_us (intent_metadata og bt) = (case bt of None \<Rightarrow> 0 | Some t \<Rightarrow> t)"
  "em_signature (origin_metadata og bt) = og_signature og" "em_slot (origin_metadata og bt) = og_slot og"
  "em_tx_index (origin_metadata og bt) = og_tx_index og"
  "em_block_time_us (origin_metadata og bt) = (case bt of None \<Rightarrow> 0 | Some t \<Rightarrow> t)"
  by (simp_all add: metadata_defs)

section \<open>Fillers keep the metadata\<close>

lemma keeps_ows: "ows_metadata (fill_whirlpool_swap_accounts g e) = ows_metadata e"
  by (simp add: fill_whirlpool_swap_accounts_def fill_orca_v1_def fill_orca_v2_def split: prod.split option.split)

lemma keeps_cps: "cps_metadata (fill_cpmm_swap_accounts g e) = cps_metadata e"
  by (simp add: fill_cpmm_swap_accounts_def split: prod.split option.split)

lemma keeps_mps: "mps_metadata (fill_pools_swap_accounts g e) = mps_metadata e"
  by (simp add: fill_pools_swap_accounts_def split: prod.split option.split)

lemma keeps_mpa: "mpa_metadata (fill_pools_add_liquidity_accounts g e) = mpa_metadata e"
  by (simp add: fill_pools_add_liquidity_accounts_def split: prod.split option.split)

lemma keeps_mpr: "mpr_metadata (fill_pools_remove_liquidity_accounts g e) = mpr_metadata e"
  by (simp add: fill_pools_remove_liquidity_accounts_def Let_def split: prod.split option.split)

lemma keeps_mpb: "mpb_metadata (fill_pools_bootstrap_liquidity_accounts g e) = mpb_metadata e"
  by (simp add: fill_pools_bootstrap_liquidity_accounts_def split: prod.split option.split)

lemma keeps_mpc: "mpc_metadata (fill_pools_pool_created_accounts g e) = mpc_metadata e"
  by (simp add: fill_pools_pool_created_accounts_def fill_pool_created_permissioned_def fill_pool_created_permissionless_def fill_pool_created_customizable_def fill_pool_created_configured_def split: prod.split option.split)

lemma keeps_mpf: "mpf_metadata (fill_pools_set_pool_fees_accounts g e) = mpf_metadata e"
  by (simp add: fill_pools_set_pool_fees_accounts_def split: prod.split option.split)

lemma keeps_cls: "cls_metadata (fill_clmm_swap_accounts_impl derive g n e) = cls_metadata e"
  by (simp add: fill_clmm_swap_accounts_impl_def fill_clmm_ticks_def Let_def split: prod.split option.split)

lemma keeps_dls: "dls_metadata (fill_dlmm_swap_accounts_with_layout g bs be v2 e) = dls_metadata e"
  by (simp add: fill_dlmm_swap_accounts_with_layout_def fill_dlmm_bins_def fill_dlmm_bitmap_def fill_dlmm_fixed_def Let_def split: prod.split option.split)

lemmas filler_keeps = keeps_ows keeps_cps keeps_mps keeps_mpa keeps_mpr keeps_mpb keeps_mpc keeps_mpf keeps_cls keeps_dls

section \<open>Each parser\<close>

lemma pumpswap_made: "makes (of_transaction PUMPSWAP_PROGRAM_ID og bt) (pumpswap_parse_instruction derive d a og bt)"
  unfolding pumpswap_buy_with_layout_def
    pumpswap_sell_with_layout_def
    pumpswap_create_pool_instruction_def
    pumpswap_deposit_instruction_def
    pumpswap_withdraw_instruction_def
    pumpswap_parse_instruction_def
  by (intro makes_intros makes_Some; simp add: of_transaction_def filler_keeps Let_def split: prod.split)

lemma launchlab_made: "makes (of_transaction RAYDIUM_LAUNCHLAB_PROGRAM_ID og bt) (launchlab_parse_instruction now d a og bt)"
  unfolding launchlab_migrate_instruction_def
    launchlab_trade_instruction_def
    launchlab_pool_create_instruction_def
    launchlab_parse_instruction_def
  by (intro makes_intros makes_Some; simp add: of_transaction_def filler_keeps Let_def split: prod.split)

lemma cpmm_made: "makes (of_transaction RAYDIUM_CPMM_PROGRAM_ID og bt) (cpmm_parse_instruction now d a og bt)"
  unfolding cpmm_swap_base_in_instruction_def
    cpmm_swap_base_out_instruction_def
    cpmm_initialize_instruction_def
    cpmm_deposit_instruction_def
    cpmm_withdraw_instruction_def
    cpmm_collect_creator_fee_instruction_def
    cpmm_parse_instruction_def
  by (intro makes_intros makes_Some; simp add: of_transaction_def filler_keeps Let_def split: prod.split)

lemma clmm_made: "makes (of_transaction RAYDIUM_CLMM_PROGRAM_ID og bt) (clmm_parse_instruction derive now d a og bt)"
  unfolding clmm_swap_instruction_def
    clmm_increase_v2_instruction_def
    clmm_decrease_v2_instruction_def
    clmm_create_pool_instruction_def
    clmm_create_customizable_instruction_def
    clmm_open_position_instruction_def
    clmm_close_position_instruction_def
    clmm_parse_instruction_def
  by (intro makes_intros makes_Some; simp add: of_transaction_def filler_keeps Let_def split: prod.split)

lemma orca_made: "makes (of_transaction ORCA_WHIRLPOOL_PROGRAM_ID og bt) (orca_parse_instruction now d a og bt)"
  unfolding orca_swap_instruction_def
    orca_increase_instruction_def
    orca_decrease_instruction_def
    orca_initialize_pool_instruction_def
    orca_parse_instruction_def
  by (intro makes_intros makes_Some; simp add: of_transaction_def filler_keeps Let_def split: prod.split)

lemma pools_made: "makes (of_transaction METEORA_POOLS_PROGRAM_ID og bt) (pools_parse_instruction now d a og bt)"
  unfolding pools_swap_instruction_def
    pools_add_instruction_def
    pools_remove_instruction_def
    pools_single_side_instruction_def
    pools_bootstrap_instruction_def
    pools_curve_pool_instruction_def
    pools_customizable_instruction_def
    pools_create_instruction_def
    pools_set_fees_instruction_def
    pools_parse_instruction_def
  by (intro makes_intros makes_Some; simp add: of_transaction_def filler_keeps Let_def split: prod.split)

lemma dbc_made: "makes (of_transaction METEORA_DBC_PROGRAM_ID og bt) (dbc_event_instruction d a og bt)"
  unfolding parse_dbc_swap_from_data_def
    parse_dbc_initialize_pool_from_data_def
    parse_dbc_curve_complete_from_data_def
    parse_dbc_swap2_from_data_def
    dbc_parse_event_cpi_def
    dbc_event_instruction_def
  by (intro makes_intros makes_Some; simp add: of_transaction_def filler_keeps Let_def split: prod.split)

lemma fees_made: "makes (of_transaction PUMP_FEES_PROGRAM_ID og bt) (fees_parse_instruction d a og bt)"
  unfolding fees_create_sharing_instruction_def
    fees_update_shares_instruction_def
    fees_initialize_config_instruction_def
    fees_reset_sharing_instruction_def
    fees_revoke_sharing_instruction_def
    fees_transfer_sharing_instruction_def
    fees_update_admin_instruction_def
    fees_update_config_instruction_def
    fees_upsert_tiers_instruction_def
    fees_parse_instruction_def
  by (intro makes_intros makes_Some; simp add: of_transaction_def filler_keeps Let_def split: prod.split)


lemma makes_bind_of: "makes Q r \<Longrightarrow> (\<And>x. Q x \<Longrightarrow> makes P (f x)) \<Longrightarrow> makes P (Option.bind r f)"
  by (cases r) (simp_all add: makes_def)

lemma read_flag_cases: "(b :: u8) \<le> 1 \<Longrightarrow> b = 0 \<or> b = 1"
  by (simp add: word_le_nat_alt word_unat_eq_iff) linarith

lemma lp_made: "makes (of_transaction RAYDIUM_CPMM_PROGRAM_ID og bt) (cpmm_lp_change_instruction d a og bt)"
proof (cases "length d \<noteq> 89 \<or> d ! 88 > 1")
  case True
  then show ?thesis by (auto simp: cpmm_lp_change_instruction_def parse_lp_change_from_data_def makes_None)
next
  case False
  then have "d ! 88 = 0 \<or> d ! 88 = 1" by (intro read_flag_cases) (simp add: not_less)
  with False show ?thesis
    unfolding cpmm_lp_change_instruction_def parse_lp_change_from_data_def
    by (simp only: if_False) (intro makes_intros makes_Some; auto simp: of_transaction_def)
qed

lemma pump_made: "makes (of_transaction PUMPFUN_PROGRAM_ID og bt) (pump_parse_instruction d a og bt)"
  unfolding pump_parse_instruction_def pump_create_instruction_def pump_create_v2_instruction_def
    pump_migrate_creator_instruction_def parse_migrate_log_instruction_def pump_buy_instruction_def
    pump_sell_instruction_def pump_buy_v2_instruction_def pump_sell_v2_instruction_def
  by (intro makes_intros makes_Some; simp add: of_transaction_def fill_create_accounts_def Let_def split: prod.split)

lemma makes_list: "makes P a \<Longrightarrow> (\<And>x xs. makes P (f x xs)) \<Longrightarrow> makes P (case l of [] \<Rightarrow> a | x # xs \<Rightarrow> f x xs)"
  by (cases l) simp_all

lemma makes_v4:
  "makes P a \<Longrightarrow> makes P b \<Longrightarrow> makes P c \<Longrightarrow> makes P d \<Longrightarrow> makes P e \<Longrightarrow> makes P f \<Longrightarrow> makes P g \<Longrightarrow> makes P h \<Longrightarrow>
   makes P (case t of Initialize2 \<Rightarrow> a | V4_Deposit \<Rightarrow> b | V4_Withdraw \<Rightarrow> c | WithdrawPnl \<Rightarrow> d | SwapBaseIn \<Rightarrow> e
     | SwapBaseOut \<Rightarrow> f | SwapBaseInV2 \<Rightarrow> g | SwapBaseOutV2 \<Rightarrow> h)"
  by (cases t) simp_all

lemma v4_made: "makes (of_transaction RAYDIUM_AMM_V4_PROGRAM_ID og bt) (v4_parse_instruction now d a og bt)"
  unfolding v4_swap_base_in_v2_instruction_def v4_swap_base_out_v2_instruction_def v4_swap_base_in_instruction_def v4_swap_base_out_instruction_def v4_deposit_instruction_def v4_withdraw_instruction_def v4_initialize2_instruction_def v4_withdraw_pnl_instruction_def v4_parse_instruction_def
  by (intro makes_intros makes_list makes_v4 makes_Some; simp add: of_transaction_def)

lemma damm_made:
  "makes (of_transaction METEORA_DAMM_V2_PROGRAM_ID og bt) (damm_parse_instruction damm_fee_reward_inner d a og bt)"
  unfolding damm_initialize_pool_instruction_def damm_swap_log_def damm_swap2_log_def damm_create_position_log_def damm_close_position_log_def damm_add_liquidity_log_def damm_remove_liquidity_log_def damm_parse_instruction_def damm_fee_reward_inner_def
    parse_claim_position_fee_from_data_def parse_initialize_reward_from_data_def
    parse_fund_reward_from_data_def parse_claim_reward_from_data_def
  by (intro makes_intros makes_Some; simp add: of_transaction_def)

lemma dlmm_event_made:
  "makes (of_transaction METEORA_DLMM_PROGRAM_ID og bt) (dlmm_parse_event c d a now og bt)"
  unfolding dlmm_initialize_pair2_instruction_def dlmm_initialize_pair_instruction_def dlmm_initialize_bin_array_instruction_def dlmm_add_liquidity_instruction_def dlmm_remove_liquidity_instruction_def dlmm_initialize_position_instruction_def dlmm_claim_fee_instruction_def dlmm_close_position_instruction_def dlmm_swap_instruction_def dlmm_swap_exact_out_instruction_def dlmm_swap_with_price_impact_instruction_def dlmm_parse_event_def
  by (intro makes_intros makes_Some; simp add: of_transaction_def)

lemma dlmm_filled:
  "of_transaction METEORA_DLMM_PROGRAM_ID og bt (Meteora_Dlmm_Event (MeteoraDlmmSwap_Event ev)) \<Longrightarrow>
   of_transaction METEORA_DLMM_PROGRAM_ID og bt
     (Meteora_Dlmm_Event (MeteoraDlmmSwap_Event (fill_dlmm_swap_accounts_with_layout g s n v ev)))"
  by (simp add: of_transaction_def filler_keeps)

lemma dlmm_swapped:
  assumes ok: "of_transaction METEORA_DLMM_PROGRAM_ID og bt event"
  shows "makes (of_transaction METEORA_DLMM_PROGRAM_ID og bt)
      (case event of
         Meteora_Dlmm_Event (MeteoraDlmmSwap_Event ev) \<Rightarrow>
           do { start \<leftarrow> b;
                Some (Meteora_Dlmm_Event (MeteoraDlmmSwap_Event
                  (fill_dlmm_swap_accounts_with_layout (acct a) start (length a) v2 ev))) }
       | _ \<Rightarrow> Some event)"
proof (cases "\<exists>ev. event = Meteora_Dlmm_Event (MeteoraDlmmSwap_Event ev)")
  case True
  with ok show ?thesis by (auto simp: makes_def bind_eq_Some_conv dlmm_filled)
next
  case False
  then show ?thesis using ok by (auto simp: makes_def split: dex_event.split meteora_dlmm_event.split)
qed

lemma dlmm_made: "makes (of_transaction METEORA_DLMM_PROGRAM_ID og bt) (dlmm_parse_instruction now d a og bt)"
  unfolding dlmm_parse_instruction_def Let_def
  by (intro makes_if makes_None makes_bind makes_bind_of [OF dlmm_event_made] dlmm_swapped)


section \<open>Filters and routes\<close>

lemma pumpfun_hit: "should_include f (Pump_Fun t) \<Longrightarrow> includes_pumpfun f"
  unfolding includes_pumpfun_def by (rule includes_any_hit [of "Pump_Fun t"]) (cases t; simp)

lemma pump_fees_hit: "should_include f (Pump_Fees t) \<Longrightarrow> includes_pump_fees f"
  unfolding includes_pump_fees_def by (rule includes_any_hit [of "Pump_Fees t"]) (cases t; simp)

lemma pumpswap_hit: "should_include f (Pump_Swap t) \<Longrightarrow> includes_pumpswap f"
  unfolding includes_pumpswap_def by (rule includes_any_hit [of "Pump_Swap t"]) (cases t; simp)

lemma raydium_launchlab_hit: "should_include f (Raydium_Launchlab t) \<Longrightarrow> includes_raydium_launchlab f"
  unfolding includes_raydium_launchlab_def by (rule includes_any_hit [of "Raydium_Launchlab t"]) (cases t; simp)

lemma raydium_cpmm_hit: "should_include f (Raydium_Cpmm t) \<Longrightarrow> includes_raydium_cpmm f"
  unfolding includes_raydium_cpmm_def by (rule includes_any_hit [of "Raydium_Cpmm t"]) (cases t; simp)

lemma raydium_clmm_hit: "should_include f (Raydium_Clmm t) \<Longrightarrow> includes_raydium_clmm f"
  unfolding includes_raydium_clmm_def by (rule includes_any_hit [of "Raydium_Clmm t"]) (cases t; simp)

lemma raydium_amm_v4_hit: "should_include f (Raydium_Amm_V4 t) \<Longrightarrow> includes_raydium_amm_v4 f"
  unfolding includes_raydium_amm_v4_def by (rule includes_any_hit [of "Raydium_Amm_V4 t"]) (cases t; simp)

lemma orca_whirlpool_hit: "should_include f (Orca_Whirlpool t) \<Longrightarrow> includes_orca_whirlpool f"
  unfolding includes_orca_whirlpool_def by (rule includes_any_hit [of "Orca_Whirlpool t"]) (cases t; simp)

lemma meteora_pools_hit: "should_include f (Meteora_Pools t) \<Longrightarrow> includes_meteora_pools f"
  unfolding includes_meteora_pools_def by (rule includes_any_hit [of "Meteora_Pools t"]) (cases t; simp)

lemma meteora_damm_v2_hit: "should_include f (Meteora_Damm_V2 t) \<Longrightarrow> includes_meteora_damm_v2 f"
  unfolding includes_meteora_damm_v2_def by (rule includes_any_hit [of "Meteora_Damm_V2 t"]) (cases t; simp)

lemma meteora_dbc_hit: "should_include f (Meteora_Dbc t) \<Longrightarrow> includes_meteora_dbc f"
  unfolding includes_meteora_dbc_def by (rule includes_any_hit [of "Meteora_Dbc t"]) (cases t; simp)

lemma meteora_dlmm_hit: "should_include f (Meteora_Dlmm t) \<Longrightarrow> includes_meteora_dlmm f"
  unfolding includes_meteora_dlmm_def by (rule includes_any_hit [of "Meteora_Dlmm t"]) (cases t; simp)

lemmas coarse_hits = pumpfun_hit pump_fees_hit pumpswap_hit raydium_launchlab_hit raydium_cpmm_hit raydium_clmm_hit raydium_amm_v4_hit orca_whirlpool_hit meteora_pools_hit meteora_damm_v2_hit meteora_dbc_hit meteora_dlmm_hit

lemma program_ids_rev: "distinct (rev [PUMPFUN_PROGRAM_ID, PUMP_FEES_PROGRAM_ID, PUMPSWAP_PROGRAM_ID, RAYDIUM_LAUNCHLAB_PROGRAM_ID,
    RAYDIUM_CPMM_PROGRAM_ID, RAYDIUM_CLMM_PROGRAM_ID, RAYDIUM_AMM_V4_PROGRAM_ID, ORCA_WHIRLPOOL_PROGRAM_ID,
    METEORA_POOLS_PROGRAM_ID, METEORA_DAMM_V2_PROGRAM_ID, METEORA_DBC_PROGRAM_ID, METEORA_DLMM_PROGRAM_ID])"
  by (simp add: program_id_defs)

lemmas program_ids_apart =
  program_ids_rev [unfolded distinct_rev, simplified distinct.simps list.set insert_iff de_Morgan_disj empty_iff simp_thms]
  program_ids_rev [simplified rev.simps append.simps distinct.simps list.set insert_iff de_Morgan_disj empty_iff simp_thms]

lemma family_wanted:
  assumes "of_transaction p og bt e" "should_include_dex_event f e"
  shows "(p = PUMPFUN_PROGRAM_ID \<longrightarrow> includes_pumpfun f) \<and> (p = PUMP_FEES_PROGRAM_ID \<longrightarrow> includes_pump_fees f) \<and>
    (p = PUMPSWAP_PROGRAM_ID \<longrightarrow> includes_pumpswap f) \<and> (p = RAYDIUM_LAUNCHLAB_PROGRAM_ID \<longrightarrow> includes_raydium_launchlab f) \<and>
    (p = RAYDIUM_CPMM_PROGRAM_ID \<longrightarrow> includes_raydium_cpmm f) \<and> (p = RAYDIUM_CLMM_PROGRAM_ID \<longrightarrow> includes_raydium_clmm f) \<and>
    (p = RAYDIUM_AMM_V4_PROGRAM_ID \<longrightarrow> includes_raydium_amm_v4 f) \<and> (p = ORCA_WHIRLPOOL_PROGRAM_ID \<longrightarrow> includes_orca_whirlpool f) \<and>
    (p = METEORA_POOLS_PROGRAM_ID \<longrightarrow> includes_meteora_pools f) \<and> (p = METEORA_DAMM_V2_PROGRAM_ID \<longrightarrow> includes_meteora_damm_v2 f) \<and>
    (p = METEORA_DBC_PROGRAM_ID \<longrightarrow> includes_meteora_dbc f) \<and> (p = METEORA_DLMM_PROGRAM_ID \<longrightarrow> includes_meteora_dlmm f)"
  using assms
  by (cases e)
     (auto simp: of_transaction_def should_include_dex_event_def Let_def program_ids_apart includes_unresolved_pumpfun_def
       dest: coarse_hits split: pump_fun_event.splits if_splits)

text \<open>A transaction for the witnesses: the Pump fees program changes its administrator.\<close>

definition admin_origin :: tx_origin where
  "admin_origin = \<lparr>og_signature = [7], og_slot = 5, og_tx_index = 2, og_grpc_recv_us = 9\<rparr>"

definition admin_keys :: "pubkey list" where
  "admin_keys = [replicate 32 1, replicate 32 2, replicate 32 3]"

lemma admin_parsed:
  "\<exists>e. parse_instruction_unified (venue_parsers (\<lambda>_ _. (default_pubkey, 0)) 0) UPDATE_ADMIN_IX admin_keys admin_origin
     (Some 4) None PUMP_FEES_PROGRAM_ID = Some e"
  by (simp add: parse_instruction_unified_def routed_def filter_parsed_event_def program_ids_apart fees_parse_instruction_def
      get_range_def UPDATE_ADMIN_IX_def CREATE_FEE_SHARING_IX_def UPDATE_FEE_SHARES_IX_def UPDATE_FEE_SHARES_V2_IX_def
      INITIALIZE_FEE_CONFIG_IX_def RESET_FEE_SHARING_IX_def RESET_FEE_SHARING_V2_IX_def REVOKE_FEE_SHARING_IX_def
      TRANSFER_FEE_SHARING_IX_def fees_update_admin_instruction_def admin_keys_def get_at_def Let_def)

text \<open>
  C24. Every event the instruction parsers make is of the program of the instruction, has a type the
  filters know, and carries the signature, the slot, the index and the block time of its transaction.
\<close>

theorem parsed_events_of_their_transaction:
  assumes "parse_instruction_unified (venue_parsers derive now) d a og bt flt p = Some e"
  shows "of_transaction p og bt e"
  using assms
  by (auto simp: parse_instruction_unified_def routed_def filter_parsed_event_def bind_eq_Some_conv Let_def
      split: if_split_asm
      dest: makesD [OF pump_made] makesD [OF pumpswap_made] makesD [OF launchlab_made] makesD [OF cpmm_made]
        makesD [OF clmm_made] makesD [OF v4_made] makesD [OF orca_made] makesD [OF pools_made] makesD [OF damm_made]
        makesD [OF dbc_made] makesD [OF dlmm_made] makesD [OF fees_made] makesD [OF lp_made])

theorem parsed_events_of_their_transaction_witness:
  "\<exists>e :: unit dex_event. of_transaction PUMP_FEES_PROGRAM_ID admin_origin (Some 4) e"
proof -
  obtain e :: "unit dex_event" where "parse_instruction_unified (venue_parsers (\<lambda>_ _. (default_pubkey, 0)) 0)
      UPDATE_ADMIN_IX admin_keys admin_origin (Some 4) None PUMP_FEES_PROGRAM_ID = Some e"
    using admin_parsed by blast
  from parsed_events_of_their_transaction [OF this] show ?thesis by blast
qed

lemma routed_lossless:
  assumes "\<And>e. parser d a og bt = Some e \<Longrightarrow> should_include_dex_event f e \<Longrightarrow> includes f"
  shows "routed parser includes d a og bt (Some f) = filter_parsed_event (routed parser includes d a og bt None) (Some f)"
  using assms by (cases "parser d a og bt") (auto simp: routed_def filter_parsed_event_def)

lemma pumpfun_lossless: "routed (pump_parse_instruction) includes_pumpfun d a og bt (Some f) =
    filter_parsed_event (routed (pump_parse_instruction) includes_pumpfun d a og bt None) (Some f)"
  by (rule routed_lossless) (simp add: family_wanted [OF makesD [OF pump_made]])

lemma pumpswap_lossless: "routed (pumpswap_parse_instruction derive) includes_pumpswap d a og bt (Some f) =
    filter_parsed_event (routed (pumpswap_parse_instruction derive) includes_pumpswap d a og bt None) (Some f)"
  by (rule routed_lossless) (simp add: family_wanted [OF makesD [OF pumpswap_made]])

lemma meteora_damm_v2_lossless: "routed (damm_parse_instruction damm_fee_reward_inner) includes_meteora_damm_v2 d a og bt (Some f) =
    filter_parsed_event (routed (damm_parse_instruction damm_fee_reward_inner) includes_meteora_damm_v2 d a og bt None) (Some f)"
  by (rule routed_lossless) (simp add: family_wanted [OF makesD [OF damm_made]])

lemma pump_fees_lossless: "routed (fees_parse_instruction) includes_pump_fees d a og bt (Some f) =
    filter_parsed_event (routed (fees_parse_instruction) includes_pump_fees d a og bt None) (Some f)"
  by (rule routed_lossless) (simp add: family_wanted [OF makesD [OF fees_made]])

lemma raydium_launchlab_lossless: "routed (launchlab_parse_instruction now) includes_raydium_launchlab d a og bt (Some f) =
    filter_parsed_event (routed (launchlab_parse_instruction now) includes_raydium_launchlab d a og bt None) (Some f)"
  by (rule routed_lossless) (simp add: family_wanted [OF makesD [OF launchlab_made]])

lemma raydium_cpmm_lossless: "routed (cpmm_parse_instruction now) includes_raydium_cpmm d a og bt (Some f) =
    filter_parsed_event (routed (cpmm_parse_instruction now) includes_raydium_cpmm d a og bt None) (Some f)"
  by (rule routed_lossless) (simp add: family_wanted [OF makesD [OF cpmm_made]])

lemma raydium_clmm_lossless: "routed (clmm_parse_instruction derive now) includes_raydium_clmm d a og bt (Some f) =
    filter_parsed_event (routed (clmm_parse_instruction derive now) includes_raydium_clmm d a og bt None) (Some f)"
  by (rule routed_lossless) (simp add: family_wanted [OF makesD [OF clmm_made]])

lemma raydium_amm_v4_lossless: "routed (v4_parse_instruction now) includes_raydium_amm_v4 d a og bt (Some f) =
    filter_parsed_event (routed (v4_parse_instruction now) includes_raydium_amm_v4 d a og bt None) (Some f)"
  by (rule routed_lossless) (simp add: family_wanted [OF makesD [OF v4_made]])

lemma orca_whirlpool_lossless: "routed (orca_parse_instruction now) includes_orca_whirlpool d a og bt (Some f) =
    filter_parsed_event (routed (orca_parse_instruction now) includes_orca_whirlpool d a og bt None) (Some f)"
  by (rule routed_lossless) (simp add: family_wanted [OF makesD [OF orca_made]])

lemma meteora_pools_lossless: "routed (pools_parse_instruction now) includes_meteora_pools d a og bt (Some f) =
    filter_parsed_event (routed (pools_parse_instruction now) includes_meteora_pools d a og bt None) (Some f)"
  by (rule routed_lossless) (simp add: family_wanted [OF makesD [OF pools_made]])

lemma meteora_dlmm_lossless: "routed (dlmm_parse_instruction now) includes_meteora_dlmm d a og bt (Some f) =
    filter_parsed_event (routed (dlmm_parse_instruction now) includes_meteora_dlmm d a og bt None) (Some f)"
  by (rule routed_lossless) (simp add: family_wanted [OF makesD [OF dlmm_made]])

lemma meteora_dbc_lossless: "routed (dbc_event_instruction) includes_meteora_dbc d a og bt (Some f) =
    filter_parsed_event (routed (dbc_event_instruction) includes_meteora_dbc d a og bt None) (Some f)"
  by (rule routed_lossless) (simp add: family_wanted [OF makesD [OF dbc_made]])

lemmas lossless = pumpfun_lossless pumpswap_lossless meteora_damm_v2_lossless pump_fees_lossless raydium_launchlab_lossless raydium_cpmm_lossless raydium_clmm_lossless raydium_amm_v4_lossless orca_whirlpool_lossless meteora_pools_lossless meteora_dlmm_lossless meteora_dbc_lossless

lemma filter_parsed_None [simp]: "filter_parsed_event None flt = None" by (simp add: filter_parsed_event_def)

lemma filter_parsed_twice: "filter_parsed_event (filter_parsed_event r None) flt = filter_parsed_event r flt"
  by (cases r) (simp_all add: filter_parsed_event_def)

lemma filter_parsed_if: "filter_parsed_event (if c then r else s) flt =
    (if c then filter_parsed_event r flt else filter_parsed_event s flt)"
  by simp

text \<open>
  C25. Skipping a program's parser when no event of its protocol is wanted loses nothing: with a
  filter the entry point returns what it returns without one, kept if the filter includes the event.
\<close>

theorem pruning_loses_nothing:
  "parse_instruction_unified (venue_parsers derive now) d a og bt (Some f) p =
   filter_parsed_event (parse_instruction_unified (venue_parsers derive now) d a og bt None p) (Some f)"
  by (simp only: parse_instruction_unified_def Let_def venue_parsers_sel filter_parsed_if filter_parsed_None
      filter_parsed_twice lossless)

section \<open>The coarse test on the data\<close>

lemma take_8: "\<not> length d < 8 \<Longrightarrow> get_range 0 8 d = Some (take 8 d)"
  by (simp add: get_range_def)

lemma supports_pumpswap: "pumpswap_parse_instruction derive d a og bt = Some e \<Longrightarrow>
    get_range 0 8 d = Some (take 8 d) \<and> supports_pumpswap_instruction (take 8 d)"
  by (auto simp: pumpswap_parse_instruction_def Let_def take_8 supports_pumpswap_instruction_def split: if_split_asm)

lemma supports_launchlab: "launchlab_parse_instruction now d a og bt = Some e \<Longrightarrow>
    get_range 0 8 d = Some (take 8 d) \<and> supports_launchlab_instruction (take 8 d)"
  by (auto simp: launchlab_parse_instruction_def Let_def take_8 supports_launchlab_instruction_def split: if_split_asm)

lemma supports_cpmm: "cpmm_parse_instruction now d a og bt = Some e \<Longrightarrow>
    get_range 0 8 d = Some (take 8 d) \<and> supports_cpmm_instruction (take 8 d)"
  by (auto simp: cpmm_parse_instruction_def Let_def take_8 supports_cpmm_instruction_def split: if_split_asm)

lemma supports_clmm: "clmm_parse_instruction derive now d a og bt = Some e \<Longrightarrow>
    get_range 0 8 d = Some (take 8 d) \<and> supports_clmm_instruction (take 8 d)"
  by (auto simp: clmm_parse_instruction_def Let_def take_8 supports_clmm_instruction_def split: if_split_asm)

lemma supports_v4: "v4_parse_instruction now d a og bt = Some e \<Longrightarrow> supports_raydium_amm_v4_instruction d"
  by (cases d) (auto simp: v4_parse_instruction_def v4_from_u8_def supports_raydium_amm_v4_instruction_def get_at_def
      V4_SWAP_BASE_IN_def V4_SWAP_BASE_OUT_def V4_DEPOSIT_def V4_WITHDRAW_def V4_INITIALIZE2_def V4_WITHDRAW_PNL_def
      V4_SWAP_BASE_IN_V2_def V4_SWAP_BASE_OUT_V2_def split: if_split_asm)

lemma orca_handled:
  "orca_from_discriminator x = Some t \<Longrightarrow> t \<in> {Orca_Swap, Orca_SwapV2, Orca_IncreaseLiquidity, Orca_IncreaseLiquidityV2,
     Orca_DecreaseLiquidity, Orca_DecreaseLiquidityV2, Orca_InitializePool, Orca_InitializePoolV2} \<Longrightarrow>
   supports_orca_instruction x"
  unfolding orca_from_discriminator_def
  by (drule map_of_SomeD) (auto simp: supports_orca_instruction_def
      ORCA_SWAP_def ORCA_SWAP_V2_def ORCA_INCREASE_LIQUIDITY_def ORCA_DECREASE_LIQUIDITY_def ORCA_INITIALIZE_POOL_def
      ORCA_INITIALIZE_POOL_V2_def ORCA_INCREASE_LIQUIDITY_V2_def ORCA_DECREASE_LIQUIDITY_V2_def)

lemma supports_orca: "orca_parse_instruction now d a og bt = Some e \<Longrightarrow>
    get_range 0 8 d = Some (take 8 d) \<and> supports_orca_instruction (take 8 d)"
  by (auto simp: orca_parse_instruction_def Let_def take_8 intro: orca_handled split: if_split_asm option.split_asm)

lemma supports_pools: "pools_parse_instruction now d a og bt = Some e \<Longrightarrow>
    get_range 0 8 d = Some (take 8 d) \<and> supports_meteora_pools_instruction (take 8 d)"
  by (auto simp: pools_parse_instruction_def Let_def take_8 pools_from_discriminator_def supports_meteora_pools_instruction_def
      POOLS_SWAP_def POOLS_ADD_LIQUIDITY_def POOLS_ADD_IMBALANCE_LIQUIDITY_def POOLS_REMOVE_LIQUIDITY_def
      POOLS_REMOVE_LIQUIDITY_SINGLE_SIDE_def POOLS_BOOTSTRAP_LIQUIDITY_def POOLS_INITIALIZE_PERMISSIONED_POOL_def
      POOLS_INITIALIZE_PERMISSIONLESS_POOL_def POOLS_INITIALIZE_PERMISSIONLESS_POOL_WITH_FEE_TIER_def
      POOLS_INITIALIZE_CUSTOMIZABLE_POOL_def POOLS_CREATE_POOL_def POOLS_CREATE_POOL_WITH_CONFIG2_def
      POOLS_SET_POOL_FEES_def
      split: if_split_asm option.split_asm)

lemma supports_fees: "fees_parse_instruction d a og bt = Some e \<Longrightarrow>
    \<exists>disc. get_range 0 8 d = Some disc \<and> supports_pump_fees_instruction disc"
  by (auto simp: fees_parse_instruction_def Let_def supports_pump_fees_instruction_def split: if_split_asm option.split_asm)

lemma supports_dbc: "dbc_event_instruction d a og bt = Some e \<Longrightarrow>
    get_range 0 8 d = Some DBC_EVENT_CPI \<and> length d \<ge> 16"
  by (auto simp: dbc_event_instruction_def dbc_parse_event_cpi_def bind_eq_Some_conv get_range_def split: if_split_asm)

lemma supports_damm: "damm_parse_instruction inner d a og bt = Some e \<Longrightarrow> supports_meteora_damm_v2_instruction d"
  by (auto simp: damm_parse_instruction_def Let_def supports_meteora_damm_v2_instruction_def get_range_def
      split: if_split_asm)

lemma supports_dlmm: "dlmm_parse_instruction now d a og bt = Some e \<Longrightarrow> supports_meteora_dlmm_instruction d"
  by (auto simp: dlmm_parse_instruction_def dlmm_parse_event_def Let_def supports_meteora_dlmm_instruction_def take_8
      bind_eq_Some_conv split: if_split_asm)


text \<open>
  The coarse test on the first bytes of the data is complete: whenever the entry point makes an
  event of an instruction of a program other than Pump.fun (whose instructions the hot path tests
  itself), the test had accepted the data. The liquidity change that CPMM logs by calling itself is no
  outer instruction and has no coarse test.
\<close>

theorem instruction_gate_complete:
  assumes "parse_instruction_unified (venue_parsers derive now) d a og bt flt p = Some e"
    and "p \<noteq> PUMPFUN_PROGRAM_ID" "\<not> (p = RAYDIUM_CPMM_PROGRAM_ID \<and> get_range 0 16 d = Some CPMM_LP_CHANGE_EVENT)"
  shows "instruction_data_may_parse p d"
proof -
  have r: "\<And>ps inc. routed ps inc d a og bt flt = Some e \<Longrightarrow> ps d a og bt = Some e"
    by (auto simp: routed_def filter_parsed_event_def bind_eq_Some_conv split: if_split_asm)
  show ?thesis
    using assms
    by (auto simp: parse_instruction_unified_def Let_def instruction_data_may_parse_def program_ids_apart
        split: if_split_asm
        dest!: r dest: supports_pumpswap supports_launchlab supports_cpmm supports_clmm supports_v4 supports_orca
          supports_pools supports_fees supports_dbc supports_damm supports_dlmm)
qed

theorem instruction_gate_complete_witness: "instruction_data_may_parse PUMP_FEES_PROGRAM_ID UPDATE_ADMIN_IX"
proof -
  obtain e :: "unit dex_event" where e: "parse_instruction_unified (venue_parsers (\<lambda>_ _. (default_pubkey, 0)) 0)
      UPDATE_ADMIN_IX admin_keys admin_origin (Some 4) None PUMP_FEES_PROGRAM_ID = Some e"
    using admin_parsed by blast
  show ?thesis by (rule instruction_gate_complete [OF e]) (simp_all add: program_ids_apart)
qed

end
