(* ===== verification/Spec2Isabelle.thy ===== *)
theory Spec2Isabelle
  imports Decoder_Theorems Client_Theorems Event_Filter Creator_Fee StonkFun_Registry Instr_Utils Route_Analysis
    Dex_Accounts Stream_Theorems Subscription Stock_Catalog Pump_Log_Creates Merge_Theorems
    Account_Theorems Fee_Flag Intent_Theorems
begin

text \<open>
  Verification of the core of \<open>sol-shred-sdk\<close>, a Rust SDK that turns Solana shreds and transactions
  into typed trading events. All source paths below are under \<open>src/\<close> of the crate.

  \<^bold>\<open>The program.\<close>
  Raw shreds arrive as UDP datagrams (\<open>shred/client.rs\<close>) and are reassembled per slot into batches of
  ledger entries (\<open>shred/reassembler.rs\<close>). The hot path (\<open>shredstream/\<close>) turns the outer instructions
  of each transaction of a batch into events, before any log exists, and hands them to a queue or a
  callback that the subscription keeps (\<open>shredstream/client.rs\<close>). Events also come from three other
  sources: the instruction parsers (\<open>instr/\<close>), the logs (\<open>logs/\<close>), and inner events. The merger
  (\<open>core/merger.rs\<close>) joins what these say about one instruction, the account dispatcher
  (\<open>core/account_dispatcher.rs\<close>, \<open>core/account_fillers/\<close>) adds the accounts that a log does not carry,
  and the event filter (\<open>grpc/types.rs\<close>) decides what a subscription sees. Beside them stand the
  transaction route analyzer (\<open>transaction_route.rs\<close>), the CPMM creator-fee helpers
  (\<open>cpmm_creator_fee.rs\<close>), and the StonkFun and stock registries (\<open>stonkfun_registry.rs\<close>,
  \<open>stock_catalog.rs\<close>).

  \<^bold>\<open>Conventions.\<close>
  An unsigned integer is a word of its width, a signed one the same word read by \<open>sint\<close>; \<open>usize\<close> is
  \<open>nat\<close>, and each place where it could overflow is a case of its own. A struct is a record with all its
  fields (except the few payloads listed at the end), an enum a datatype, a \<open>HashMap\<close> or \<open>BTreeMap\<close> a list
  of entries with the operations of Ordered_Map. A panic (an index out of range, an \<open>unwrap\<close> of nothing,
  an overflow) is the value \<open>None\<close> of a function whose normal value is \<open>Some\<close>; where the code itself
  returns an \<open>Option\<close> or a \<open>Result\<close>, the result nests inside. State is a record that is passed and
  returned. Third-party code is a parameter: the record \<open>ledger\<close> holds the shred library of Agave, the
  Reed-Solomon coder, the bounded cache, the entry decoder and the hash; base64, base58, the
  derivation of program addresses, the binary search of the standard library and the clock are
  arguments. A law assumed of one of them is a named hypothesis, and the witness of the property
  instantiates it by a concrete function.

  \<^bold>\<open>The theories and the code they model.\<close>
  \<^item> Shared: Prelude (words, bytes, options), Ordered_Map (the containers of the standard library, with
    the locale \<open>keyed_store\<close>), Unicode_Text (\<open>str::trim\<close> and byte length), Program_Ids and Discriminators
    (constants of \<open>instr/program_ids.rs\<close> and of the \<open>discriminators\<close> modules).
  \<^item> Reassembly: Shred_State (configuration, error and state), Shred_Wire (sizes and offsets),
    Merkle_Root, Slot_Buffers (admission, eviction and the watermark), Fec_Recovery, Shred_Insert,
    Segment_Drain, and Shred_Decoder, whose \<open>push_packet\<close> composes them. Drain_Refinement and
    Arrival_Order hold the refinement of the drain and its independence of the order of arrival;
    Decoder_Theorems the properties. Shred_Client and Client_Theorems are the receive loop.
  \<^item> Hot path: Pump_Parsers (\<open>instr/pump.rs\<close>), Shred_Pump (the Pump.fun side of
    \<open>shredstream/pump_ix.rs\<close>), Multi_Hop (\<open>shredstream/pump_multi_hop.rs\<close>), Fee_Enrich
    (\<open>core/pumpfun_fee_enrich.rs\<close>), and Dex_Transaction, which composes them over a transaction. The
    theories Dex_Agreement, Dex_Creates, Dex_Provenance, Dex_Accounts, Dex_Created, Dex_Origin, Dex_Demo,
    Dex_Properties and Dex_Theorems hold the lemmas and properties.
  \<^item> Delivery: Subscription (the shared handle as a step relation, \<open>inductive\<close> with its reachable
    states), Stream_Client (sinks, batches, restart loop), Stream_Theorems.
  \<^item> Instructions: Instr_Utils (\<open>instr/utils.rs\<close>), Instr_Gate (\<open>instr/mod.rs\<close>, over a record of
    parsers), Intent_Defaults (what \<open>..Default::default()\<close> gives), Swap_Intents (PumpSwap, LaunchLab, CPMM,
    CLMM, AMM V4), Meteora_Intents (Orca, Meteora Pools, DAMM V2, DLMM), Event_Intents (the events that
    programs log by calling themselves: CPMM liquidity, DBC, DAMM fees and rewards, Pump fees), and
    Intent_Theorems, whose \<open>venue_parsers\<close> is the record of all of them.
  \<^item> Events: Event_Types (\<open>DexEvent\<close> and \<open>EventType\<close>), Event_Filter (\<open>EventTypeFilter\<close>), and the payload
    structs of \<open>core/events/types.rs\<close> in Event_Payloads, Pump_Swap_Payloads, Swap_Payloads,
    Meteora_Payloads, Liquidity_Payloads and Venue_Payloads.
  \<^item> Logs: Pump_Logs (\<open>logs/pump.rs\<close>), Pump_Log_Theorems and Pump_Log_Creates.
  \<^item> Merging: Pump_Merge, Venue_Merge, Event_Merge (\<open>core/merger.rs\<close>), Merge_Laws and Merge_Theorems.
  \<^item> Accounts: Account_Fillers, Context_Search, Liquidity_Search and Account_Dispatch
    (\<open>core/account_fillers/\<close>, \<open>core/account_dispatcher.rs\<close>), Context_Laws with the contract, its
    interpretations in Venue_Contexts, Swap_Contexts, Pool_Contexts, Meteora_Contexts,
    Liquidity_Contexts and Context_Providers, and Account_Theorems. Fee_Flag is the PumpSwap fee flag of
    \<open>core/common_filler.rs\<close>.
  \<^item> Routes: Route_Types, Route_Invocations, Route_Mints, Route_Swap and Route_Analysis
    (\<open>transaction_route.rs\<close>).
  \<^item> Registries and fees: Creator_Fee, StonkFun_Registry, Stock_Catalog.

  \<^bold>\<open>Interfaces.\<close>
  Four contracts between components are locales, each interpreted on the model's own definitions.
  \<open>keyed_store\<close> (Ordered_Map) is what the decoder and the registries rely on of a keyed container: what a
  lookup returns after an insertion or a removal. \<open>mint_graph\<close> (Route_Mints) is the propagation of mints
  along plain transfers. \<open>log_completion\<close> (Merge_Laws) is what the merger may do to a logged event; it has
  one interpretation for each completing function. \<open>account_context\<close> (Context_Laws) joins a search for
  an instruction with the filler it licenses, with one interpretation for each variant of an event.

  \<^bold>\<open>What is shown.\<close>
  \<^item> Reassembly: no datagram makes the decoder panic, and its invariant is kept; the drain refines the
    decoded list of contiguous complete segments; the batches of a slot do not depend on the order or
    the repetition of its data shreds; recovered shreds re-hash to the signed root; the loop over
    levels computes the root of the recursively defined tree; the watermark never goes back.
  \<^item> Hot path: its Pump.fun parser agrees with the general one; the created-buy flag is exact; loaded
    addresses are checked before anything is emitted; every account of an event is a key of the
    transaction or a documented sentinel; only wanted events are delivered.
  \<^item> Delivery: the queue accounts for each event exactly once, a slot reaches the callback in order,
    the restart budget bounds failures, and at most one task of a subscription stays running.
  \<^item> Instructions: an event carries the program, signature, slot and position of its instruction; the
    pruning of parsers by the filter is unobservable; the test on the first bytes loses no event.
  \<^item> Logs: no read leaves the decoded data; trade and create events are read back from their layouts,
    the create event in each of its eight historical lengths.
  \<^item> Merging and accounts: what was logged of the execution survives completion; both merge paths
    agree; filling is idempotent, keeps everything the log carries, and never guesses an instruction.
  \<^item> Routes and registries: the analysis equals its specification, with mints given only by
    unambiguous evidence and amounts that are checked sums of transfers; observing is atomic and
    replay-safe; a registry survives serialisation; fee splits conserve the fee.

  \<^bold>\<open>Termination.\<close>
  No definition uses fuel. Loops over lists and maps are structural. The search for the end of a
  segment, the Merkle levels, the admission and the eviction of slots are recursions with a
  measure. The drain of a slot, the propagation of mints and the scan of the children of an
  invocation are loops that the code ends only by a condition: they are \<open>partial_function (option)\<close>,
  where \<open>None\<close> is a loop that does not return, and it is proved that each returns. The loops that run
  as long as the program does (the client's and the restart loop) run over an explicit list of what
  happens to them.

  \<^bold>\<open>What modelling showed.\<close>
  The reset of the reconnect counter in \<open>shredstream/client.rs\<close> is unreachable, so the limit on attempts
  counts failures over the whole life of a subscription. The comment on the merger's completion of
  Pump.fun trades promises that logged values win, and the code prefers some of the instruction's. The
  inner close-position parser of \<open>instr/meteora_damm.rs\<close> is handed data that still begins with the event
  discriminator, so its fields are shifted by eight bytes.

  \<^bold>\<open>Not modelled.\<close>
  The parsers of inner instructions that \<open>instr/mod.rs\<close> does not reach (\<open>instr/pump_inner.rs\<close>,
  \<open>instr/pump_amm_inner.rs\<close> and most of \<open>instr/all_inner.rs\<close>); the log parsers other than those of
  Pump.fun, Pump fees, DBC, CPMM liquidity changes and DAMM fees and rewards, with the optimised matcher
  that dispatches to them; the parsers of account data (\<open>accounts/\<close>); the clock, the caches and the
  connectors to gRPC, RPC and sockets, which are I/O; and the command-line examples. The payloads of
  these events have no fields here and are the type variable \<open>'p\<close> of \<open>dex_event\<close>: \<open>PumpFunPostCompleteBuy\<close>,
  \<open>PumpFunSweep\<close>, \<open>PumpFunComplete\<close>, \<open>PumpSwapSweepPoolFee\<close>, \<open>BlockMeta\<close> and the account events other than those of token and nonce accounts.
\<close>

end
